(* ===== verification/Prelude.thy ===== *)
theory Prelude
  imports Main "HOL-Library.Word"
begin

text \<open>
  What every theory of the development shares: the error values a JavaScript \<open>throw\<close>
  becomes, the result type of an operation that may throw, the array operations of the
  language (\<open>slice\<close>, \<open>splice\<close>, reading and writing an index) and the generic lemmas on
  lists that the component proofs use.
\<close>

named_theorems result_simps \<open>unfolding of the result combinators\<close>
named_theorems array_simps \<open>rewriting of the array operations of the language\<close>

type_synonym byte = "8 word"

section \<open>Exceptions as values\<close>

text \<open>
  \<open>Error m\<close> is \<open>throw new Error(m)\<close>; where the source interpolates run-time values
  into the message the model keeps the fixed part of the text. The other constructors are the
  error classes of the SDK that the callers tell apart.
\<close>

datatype js_error =
    Error string
  | TypeError string
  | RangeError string
  | BadEntityIdError string string
  | GrpcServiceError int string
  | HttpError int
  | MaxAttemptsOrTimeoutError string string
  | StatusError string
  | BadKeyError string
  | MaxQueryPaymentExceeded int int
  | ReceiptStatusError string
  | RecordStatusError string

type_synonym 'a result = "js_error + 'a"

definition res_bind :: "'a result \<Rightarrow> ('a \<Rightarrow> 'b result) \<Rightarrow> 'b result" where
  "res_bind r f = (case r of Inl e \<Rightarrow> Inl e | Inr x \<Rightarrow> f x)"

definition is_ok :: "'a result \<Rightarrow> bool" where
  "is_ok r = (case r of Inl _ \<Rightarrow> False | Inr _ \<Rightarrow> True)"

lemma res_bind_simps [simp, result_simps]:
  "res_bind (Inl e) f = Inl e"
  "res_bind (Inr x) f = f x"
  by (simp_all add: res_bind_def)

lemma is_ok_simps [simp, result_simps]:
  "\<not> is_ok (Inl e)"
  "is_ok (Inr x)"
  by (simp_all add: is_ok_def)

lemma is_ok_iff: "is_ok r \<longleftrightarrow> (\<exists>x. r = Inr x)"
  by (cases r) simp_all

lemma res_bind_InrE:
  assumes "res_bind r f = Inr y"
  obtains x where "r = Inr x" and "f x = Inr y"
  using assms by (cases r) auto

text \<open>An operation that may throw, applied to a value that may be missing and to the elements of an array.\<close>

definition res_opt :: "('a \<Rightarrow> 'b result) \<Rightarrow> 'a option \<Rightarrow> 'b option result" where
  "res_opt f x = (case x of None \<Rightarrow> Inr None | Some a \<Rightarrow> res_bind (f a) (\<lambda>b. Inr (Some b)))"

fun res_map :: "('a \<Rightarrow> 'b result) \<Rightarrow> 'a list \<Rightarrow> 'b list result" where
  "res_map f [] = Inr []"
| "res_map f (x # xs) = res_bind (f x) (\<lambda>y. res_bind (res_map f xs) (\<lambda>ys. Inr (y # ys)))"

lemma res_opt_simps [simp, result_simps]:
  "res_opt f None = Inr None"
  "res_opt f (Some a) = res_bind (f a) (\<lambda>b. Inr (Some b))"
  by (simp_all add: res_opt_def)

lemma res_opt_back: "(\<And>a. x = Some a \<Longrightarrow> g (f a) = Inr a) \<Longrightarrow> res_opt g (map_option f x) = Inr x"
  by (cases x) simp_all

lemma res_map_back: "(\<And>a. a \<in> set xs \<Longrightarrow> g (f a) = Inr a) \<Longrightarrow> res_map g (map f xs) = Inr xs"
  by (induction xs) simp_all

section \<open>Arrays of the language\<close>

text \<open>
  A JavaScript array whose elements may be absent (\<open>null\<close>, \<open>undefined\<close> or a hole) is an
  \<open>'a option list\<close>. Reading out of range gives \<open>undefined\<close>; writing past the end extends
  the array with holes.
\<close>

definition array_get :: "'a option list \<Rightarrow> nat \<Rightarrow> 'a option" where
  "array_get xs i = (if i < length xs then xs ! i else None)"

definition array_set :: "'a option list \<Rightarrow> nat \<Rightarrow> 'a option \<Rightarrow> 'a option list" where
  "array_set xs i x =
     (if i < length xs then xs[i := x]
      else xs @ replicate (i - length xs) None @ [x])"

definition slice :: "nat \<Rightarrow> nat \<Rightarrow> 'a list \<Rightarrow> 'a list" where
  "slice a b xs = take (b - a) (drop a xs)"

definition splice_one :: "nat \<Rightarrow> 'a list \<Rightarrow> 'a list" where
  "splice_one i xs = take i xs @ drop (Suc i) xs"

lemma length_array_set [simp]:
  "length (array_set xs i x) = max (length xs) (Suc i)"
  by (auto simp: array_set_def)

lemma array_get_set_same [simp]: "array_get (array_set xs i x) i = x"
  by (simp add: array_get_def array_set_def nth_append)

lemma array_get_set_other:
  "j \<noteq> i \<Longrightarrow> array_get (array_set xs i x) j = array_get xs j"
  by (auto simp: array_get_def array_set_def nth_append)

lemma array_get_map_Some [simp]:
  "array_get (map Some xs) i = (if i < length xs then Some (xs ! i) else None)"
  by (simp add: array_get_def)

lemma length_slice [simp]: "length (slice a b xs) = min (b - a) (length xs - a)"
  by (simp add: slice_def min.commute)

lemma slice_all [simp]: "length xs \<le> b \<Longrightarrow> slice 0 b xs = xs"
  by (simp add: slice_def)

lemma splice_one_length:
  "i < length xs \<Longrightarrow> length (splice_one i xs) = length xs - 1"
  by (simp add: splice_one_def)

lemma set_splice_one: "set (splice_one i xs) \<subseteq> set xs"
  by (auto simp: splice_one_def dest: in_set_takeD in_set_dropD)

lemma distinct_splice_one:
  assumes "distinct xs" and "i < length xs"
  shows "distinct (splice_one i xs)" and "set (splice_one i xs) = set xs - {xs ! i}"
proof -
  have split: "xs = take i xs @ xs ! i # drop (Suc i) xs"
    using assms(2) by (rule id_take_nth_drop)
  then have d: "distinct (take i xs @ xs ! i # drop (Suc i) xs)"
    using assms(1) by simp
  from d show "distinct (splice_one i xs)"
    by (simp add: splice_one_def)
  have "set xs = insert (xs ! i) (set (splice_one i xs))"
    by (subst split) (auto simp: splice_one_def)
  moreover have "xs ! i \<notin> set (splice_one i xs)"
    using d by (auto simp: splice_one_def)
  ultimately show "set (splice_one i xs) = set xs - {xs ! i}" by auto
qed

lemma splice_one_filter:
  assumes "distinct xs" and "i < length xs"
  shows "splice_one i xs = filter (\<lambda>x. x \<noteq> xs ! i) xs"
proof -
  have split: "xs = take i xs @ xs ! i # drop (Suc i) xs"
    using assms(2) by (rule id_take_nth_drop)
  then have d: "distinct (take i xs @ xs ! i # drop (Suc i) xs)"
    using assms(1) by simp
  have "filter (\<lambda>x. x \<noteq> xs ! i) (take i xs) = take i xs"
    and "filter (\<lambda>x. x \<noteq> xs ! i) (drop (Suc i) xs) = drop (Suc i) xs"
    using d by (auto intro!: filter_True)
  then have "filter (\<lambda>x. x \<noteq> xs ! i) (take i xs @ xs ! i # drop (Suc i) xs) = splice_one i xs"
    by (simp add: splice_one_def)
  then show ?thesis using split by simp
qed

section \<open>Chunks of a list\<close>

text \<open>
  Cutting a list into consecutive slices of \<open>n\<close> elements, the last one shorter, and joining
  them again.
\<close>

definition ceil_div :: "nat \<Rightarrow> nat \<Rightarrow> nat" where
  "ceil_div a n = (a + (n - 1)) div n"

lemma ceil_div_bound: "0 < n \<Longrightarrow> a \<le> ceil_div a n * n"
proof -
  assume "0 < n"
  have "a + (n - 1) < (a + (n - 1)) div n * n + n"
    using \<open>0 < n\<close> by (metis add.commute dividend_less_div_times mult.commute)
  with \<open>0 < n\<close> show ?thesis by (simp add: ceil_div_def)
qed

lemma ceil_div_pos: "0 < n \<Longrightarrow> 0 < a \<Longrightarrow> 0 < ceil_div a n"
  by (simp add: ceil_div_def div_greater_zero_iff)

lemma ceil_div_zero [simp]: "0 < n \<Longrightarrow> ceil_div 0 n = 0"
  by (simp add: ceil_div_def)

lemma ceil_div_last: "0 < n \<Longrightarrow> k < ceil_div a n \<Longrightarrow> k * n < a"
proof -
  assume n: "0 < n" and k: "k < ceil_div a n"
  from k have "Suc k \<le> (a + (n - 1)) div n" by (simp add: ceil_div_def)
  then have "Suc k * n \<le> a + (n - 1)"
    using n by (metis less_eq_div_iff_mult_less_eq)
  with n show ?thesis by simp
qed

lemma concat_slices:
  "concat (map (\<lambda>k. slice (k * n) (k * n + n) xs) [0..<m]) = take (m * n) xs"
proof (induction m)
  case 0
  then show ?case by simp
next
  case (Suc m)
  have "take (Suc m * n) xs = take (m * n) xs @ take n (drop (m * n) xs)"
    by (metis add.commute mult_Suc take_add)
  with Suc show ?case by (simp add: slice_def)
qed

lemma concat_chunks:
  assumes "0 < n"
  shows "concat (map (\<lambda>k. slice (k * n) (k * n + n) xs) [0..<ceil_div (length xs) n]) = xs"
  using ceil_div_bound[OF assms] by (simp add: concat_slices)

section \<open>Big-endian bytes\<close>

text \<open>
  \<open>be_bytes k n\<close> is the last \<open>k\<close> bytes of \<open>n\<close>, most significant first, as a
  \<open>DataView\<close> writes an unsigned integer; \<open>be_val\<close> reads bytes back.
\<close>

fun be_bytes :: "nat \<Rightarrow> nat \<Rightarrow> byte list" where
  "be_bytes 0 n = []"
| "be_bytes (Suc k) n = be_bytes k (n div 256) @ [of_nat (n mod 256)]"

definition be_val :: "byte list \<Rightarrow> nat" where
  "be_val bs = foldl (\<lambda>a b. 256 * a + unat b) 0 bs"

lemma length_be_bytes [simp]: "length (be_bytes k n) = k"
  by (induction k arbitrary: n) simp_all

lemma unat_byte_bound: "unat (b :: byte) < 256"
  using unsigned_less[of b, where ?'a = nat] by simp

lemma be_val_Nil [simp]: "be_val [] = 0"
  by (simp add: be_val_def)

lemma be_val_snoc [simp]: "be_val (bs @ [b]) = 256 * be_val bs + unat b"
  by (simp add: be_val_def)

lemma be_val_append: "be_val (xs @ ys) = be_val xs * 256 ^ length ys + be_val ys"
proof (induction ys rule: rev_induct)
  case Nil
  then show ?case by simp
next
  case (snoc y ys)
  have "be_val (xs @ ys @ [y]) = 256 * be_val (xs @ ys) + unat y"
    by (simp flip: append_assoc)
  with snoc show ?case by (simp add: algebra_simps)
qed

lemma be_val_Cons: "be_val (x # xs) = unat x * 256 ^ length xs + be_val xs"
  using be_val_append[of "[x]" xs] by (simp add: be_val_def)

lemma be_val_replicate_0 [simp]: "be_val (replicate n 0) = 0"
  by (induction n) (simp_all add: be_val_Cons)

lemma be_val_bound: "be_val bs < 256 ^ length bs"
proof (induction bs rule: rev_induct)
  case Nil
  then show ?case by simp
next
  case (snoc b bs)
  then have "be_val bs + 1 \<le> 256 ^ length bs" by simp
  then have "256 * (be_val bs + 1) \<le> 256 * 256 ^ length bs" by (rule mult_le_mono2)
  then show ?case using unat_byte_bound[of b] by simp
qed

lemma be_val_be_bytes [simp]: "be_val (be_bytes k n) = n mod 256 ^ k"
proof (induction k arbitrary: n)
  case 0
  then show ?case by simp
next
  case (Suc k)
  have "unat (of_nat (n mod 256) :: byte) = n mod 256"
    by (subst unat_of_nat) simp
  then show ?case
    using mod_mult2_eq[of n 256 "256 ^ k"] by (simp add: Suc)
qed

lemma be_bytes_be_val: "be_bytes (length bs) (be_val bs) = bs"
proof (induction bs rule: rev_induct)
  case Nil
  then show ?case by simp
next
  case (snoc b bs)
  have "(256 * be_val bs + unat b) mod 256 = unat b"
    and "(256 * be_val bs + unat b) div 256 = be_val bs"
    using unat_byte_bound[of b] by simp_all
  with snoc show ?case by simp
qed

lemma be_bytes_inj: "n < 256 ^ k \<Longrightarrow> m < 256 ^ k \<Longrightarrow> be_bytes k n = be_bytes k m \<Longrightarrow> n = m"
  by (metis be_val_be_bytes mod_less)

end
