(* ===== verification/JsList.thy ===== *)
theory JsList
  imports Prelude
begin

text \<open>
  The list of \<open>src/transaction/List.js\<close>: an array with a lock and a cursor that runs round
  it. Requests keep their node account IDs, transaction IDs and built transactions in such
  lists. The cursor is a JavaScript number: advancing an empty list computes \<open>1 % 0\<close>, which is
  \<open>NaN\<close>, written \<open>None\<close>; \<open>NaN\<close> then reads \<open>undefined\<close> and stays \<open>NaN\<close>.
\<close>

section \<open>State and operations\<close>

record 'a jslist =
  items :: "'a option list"
  locked :: bool
  cursor :: "nat option"

definition new_list :: "'a jslist" where
  "new_list = \<lparr>items = [], locked = False, cursor = Some 0\<rparr>"

definition setList :: "'a option list \<Rightarrow> 'a jslist \<Rightarrow> 'a jslist result" where
  "setList xs l =
     (if locked l then Inl (Error ''list is locked'')
      else Inr (l\<lparr>items := xs, cursor := Some 0\<rparr>))"

definition push :: "'a option list \<Rightarrow> 'a jslist \<Rightarrow> 'a jslist result" where
  "push xs l =
     (if locked l then Inl (Error ''list is locked'')
      else Inr (l\<lparr>items := items l @ xs\<rparr>))"

definition setLocked :: "'a jslist \<Rightarrow> 'a jslist" where
  "setLocked l = l\<lparr>locked := True\<rparr>"

definition clear :: "'a jslist \<Rightarrow> 'a jslist" where
  "clear l = l\<lparr>items := [], cursor := Some 0\<rparr>"

definition list_length :: "'a jslist \<Rightarrow> nat" where
  "list_length l = length (items l)"

definition list_isEmpty :: "'a jslist \<Rightarrow> bool" where
  "list_isEmpty l \<longleftrightarrow> list_length l = 0"

definition list_get :: "'a jslist \<Rightarrow> nat option \<Rightarrow> 'a option" where
  "list_get l i = (case i of None \<Rightarrow> None | Some k \<Rightarrow> array_get (items l) k)"

definition list_set :: "nat option \<Rightarrow> 'a option \<Rightarrow> 'a jslist \<Rightarrow> 'a jslist" where
  "list_set i x l =
     (case i of
        None \<Rightarrow> l
      | Some k \<Rightarrow>
          if k = list_length l then l\<lparr>items := items l @ [x]\<rparr>
          else l\<lparr>items := array_set (items l) k x\<rparr>)"

definition setIfAbsent :: "nat option \<Rightarrow> (unit \<Rightarrow> 'a option) \<Rightarrow> 'a jslist \<Rightarrow> 'a jslist" where
  "setIfAbsent i f l =
     (if i = Some (list_length l) \<or> list_get l i = None then list_set i (f ()) l else l)"

definition list_current :: "'a jslist \<Rightarrow> 'a option" where
  "list_current l = list_get l (cursor l)"

definition list_advance :: "'a jslist \<Rightarrow> 'a jslist" where
  "list_advance l =
     l\<lparr>cursor := (case cursor l of
                    None \<Rightarrow> None
                  | Some i \<Rightarrow> if length (items l) = 0 then None
                              else Some (Suc i mod length (items l)))\<rparr>"

definition list_next :: "'a jslist \<Rightarrow> 'a option \<times> 'a jslist" where
  "list_next l = (list_get l (cursor l), list_advance l)"

definition list_clone :: "'a jslist \<Rightarrow> 'a jslist" where
  "list_clone l = new_list\<lparr>items := items l, locked := locked l\<rparr>"

text \<open>Calling \<open>next\<close> a number of times, collecting what it returns.\<close>

fun list_nexts :: "nat \<Rightarrow> 'a jslist \<Rightarrow> 'a option list \<times> 'a jslist" where
  "list_nexts 0 l = ([], l)"
| "list_nexts (Suc n) l =
     (let (x, l') = list_next l; (xs, l'') = list_nexts n l' in (x # xs, l''))"

section \<open>Laws of the operations\<close>

lemmas jslist_defs =
  new_list_def setList_def push_def setLocked_def clear_def list_length_def list_isEmpty_def
  list_get_def list_set_def setIfAbsent_def list_current_def list_advance_def list_next_def
  list_clone_def

text \<open>The cursor points into the list (or at 0 of an empty list).\<close>

definition cursor_ok :: "'a jslist \<Rightarrow> bool" where
  "cursor_ok l = (case cursor l of None \<Rightarrow> False
                  | Some i \<Rightarrow> i < length (items l) \<or> i = 0)"

lemma advance_items [simp]:
  "items (list_advance l) = items l"
  "locked (list_advance l) = locked l"
  by (simp_all add: list_advance_def)

lemma advance_cursor:
  "cursor l = Some i \<Longrightarrow> items l \<noteq> [] \<Longrightarrow>
   cursor (list_advance l) = Some (Suc i mod length (items l))"
  by (simp add: list_advance_def)

lemma cursor_ok_ops:
  "cursor_ok new_list"
  "setList xs l = Inr l' \<Longrightarrow> cursor_ok l'"
  "cursor_ok l \<Longrightarrow> push xs l = Inr l' \<Longrightarrow> cursor_ok l'"
  "cursor_ok (clear l)"
  "cursor_ok l \<Longrightarrow> cursor_ok (setLocked l)"
  "cursor_ok l \<Longrightarrow> items l \<noteq> [] \<Longrightarrow> cursor_ok (list_advance l)"
  "cursor_ok l \<Longrightarrow> cursor_ok (list_set i x l)"
  "cursor_ok (list_clone l)"
  by (auto simp: cursor_ok_def jslist_defs array_set_def split: option.splits if_splits)

text \<open>
  A list that hands out its elements in a round: the interface that requests rely on. A
  step moves the cursor, reading never changes the elements, and the element read is the one
  under the cursor.
\<close>

locale round_list =
  fixes elems :: "'l \<Rightarrow> 'b list"
    and pos :: "'l \<Rightarrow> nat"
    and step :: "'l \<Rightarrow> 'l"
    and good :: "'l \<Rightarrow> bool"
  assumes good_ne: "good l \<Longrightarrow> elems l \<noteq> []"
    and good_pos: "good l \<Longrightarrow> pos l < length (elems l)"
    and step_good: "good l \<Longrightarrow> good (step l)"
    and step_elems: "good l \<Longrightarrow> elems (step l) = elems l"
    and step_pos: "good l \<Longrightarrow> pos (step l) = Suc (pos l) mod length (elems l)"
begin

lemma steps_good: "good l \<Longrightarrow> good ((step ^^ k) l) \<and> elems ((step ^^ k) l) = elems l"
  by (induction k) (auto simp: step_good step_elems)

lemma steps_pos: "good l \<Longrightarrow> pos ((step ^^ k) l) = (pos l + k) mod length (elems l)"
proof (induction k)
  case 0
  then show ?case using good_pos by simp
next
  case (Suc k)
  then show ?case using steps_good[of l k] by (simp add: step_pos mod_Suc_eq)
qed

lemma full_round: "good l \<Longrightarrow> pos ((step ^^ length (elems l)) l) = pos l"
  using good_pos by (simp add: steps_pos)

lemma round_elems:
  assumes "good l"
  shows "map (\<lambda>k. elems l ! pos ((step ^^ k) l)) [0..<length (elems l)]
         = rotate (pos l) (elems l)"
  by (rule nth_equalityI) (simp_all add: assms steps_pos nth_rotate)

end

definition ready :: "'a jslist \<Rightarrow> bool" where
  "ready l \<longleftrightarrow> items l \<noteq> [] \<and> cursor_ok l"

interpretation rr: round_list items "\<lambda>l. the (cursor l)" list_advance ready
  by unfold_locales
    (auto simp: ready_def cursor_ok_def list_advance_def split: option.splits)

lemma list_next_eq:
  assumes "ready l"
  shows "list_next l = (items l ! the (cursor l), list_advance l)"
  using assms rr.good_pos[OF assms]
  by (auto simp: ready_def cursor_ok_def list_next_def list_get_def array_get_def
      split: option.splits)

lemma list_nexts_eq:
  "ready l \<Longrightarrow> list_nexts n l =
     (map (\<lambda>k. items l ! the (cursor ((list_advance ^^ k) l))) [0..<n], (list_advance ^^ n) l)"
proof (induction n arbitrary: l)
  case 0
  then show ?case by simp
next
  case (Suc n)
  have "ready (list_advance l)" using Suc.prems by (rule rr.step_good)
  from Suc.IH[OF this] show ?case
    by (simp add: list_next_eq[OF Suc.prems] upt_conv_Cons funpow_swap1
        flip: map_Suc_upt del: upt_Suc)
qed

lemma funpow_advance_frame:
  "items ((list_advance ^^ k) l) = items l \<and> locked ((list_advance ^^ k) l) = locked l"
  by (induction k) simp_all

section \<open>Correctness\<close>

text \<open>C31: a request that takes as many turns as its list has entries is given every entry exactly
once, in order from the cursor, and the list is back where it started: retries are spread
evenly over the nodes.\<close>

theorem round_robin_fair:
  fixes l :: "'a jslist"
  assumes "cursor l = Some i" and "i < length (items l)"
  shows "list_nexts (length (items l)) l = (rotate i (items l), l)"
proof -
  have r: "ready l" using assms by (auto simp: ready_def cursor_ok_def)
  let ?l = "(list_advance ^^ length (items l)) l"
  have "cursor ?l \<noteq> None"
    using rr.steps_good[OF r, of "length (items l)"]
    by (auto simp: ready_def cursor_ok_def split: option.splits)
  then have "cursor ?l = cursor l"
    using rr.full_round[OF r] assms(1) by (cases "cursor ?l") simp_all
  then have "?l = l"
    by (intro jslist.equality) (simp_all add: funpow_advance_frame)
  then show ?thesis
    using rr.round_elems[OF r] assms(1) by (simp add: list_nexts_eq[OF r])
qed

theorem round_robin_fair_witness:
  "list_nexts 3 \<lparr>items = [Some ''a'', Some ''b'', Some ''c''], locked = False, cursor = Some 1\<rparr>
   = ([Some ''b'', Some ''c'', Some ''a''],
      \<lparr>items = [Some ''a'', Some ''b'', Some ''c''], locked = False, cursor = Some 1\<rparr>)"
  using round_robin_fair[of "\<lparr>items = [Some ''a'', Some ''b'', Some ''c''], locked = False,
    cursor = Some 1\<rparr>" 1]
  by (simp add: eval_nat_numeral del: list_nexts.simps)

text \<open>
  The lock guards \<open>setList\<close> and \<open>push\<close> only: \<open>setIfAbsent\<close>, whose comment promises a
  throw on a locked list, \<open>set\<close> and \<open>clear\<close> still change it.
\<close>

lemma locked_guard:
  "locked l \<Longrightarrow> setList xs l = Inl (Error ''list is locked'')"
  "locked l \<Longrightarrow> push xs l = Inl (Error ''list is locked'')"
  by (simp_all add: setList_def push_def)

lemma setIfAbsent_ignores_lock:
  "items (setIfAbsent (Some 0) (\<lambda>_. Some x) (setLocked new_list)) = [Some x]"
  by (simp add: jslist_defs array_get_def)

end
