(* ===== verification/Hex.thy ===== *)
theory Hex
  imports Prelude
begin

text \<open>
  Hexadecimal text: \<open>encode\<close>, \<open>decode\<close> and \<open>hexZeroPadded\<close> of \<open>src/encoding/hex.browser.js\<close>
  (the native build has the same code; the Node build delegates to \<open>Buffer\<close>). The decoder
  splits the text into runs of at most two characters as \<open>match(/.{1,2}/gu)\<close> does, skipping
  line ends, and reads each run with \<open>parseInt(run, 16)\<close>, white space, sign and \<open>0x\<close>
  included; a run that is no number is stored as the byte 0.

  The round trips are stated over the locale \<open>byte_codec\<close>, the interface every text form of
  bytes in the program offers to its clients.
\<close>

section \<open>Characters\<close>

definition code_of :: "char \<Rightarrow> nat" where
  "code_of c = of_char c"

definition hex_val :: "char \<Rightarrow> nat option" where
  "hex_val c =
     (let n = code_of c in
      if 48 \<le> n \<and> n \<le> 57 then Some (n - 48)
      else if 97 \<le> n \<and> n \<le> 102 then Some (n - 87)
      else if 65 \<le> n \<and> n \<le> 70 then Some (n - 55)
      else None)"

definition hex_digit :: "nat \<Rightarrow> char" where
  "hex_digit n = ''0123456789abcdef'' ! n"

definition is_newline :: "char \<Rightarrow> bool" where
  "is_newline c \<longleftrightarrow> code_of c = 10 \<or> code_of c = 13"

definition is_space :: "char \<Rightarrow> bool" where
  "is_space c \<longleftrightarrow> (9 \<le> code_of c \<and> code_of c \<le> 13) \<or> code_of c = 32 \<or> code_of c = 160"

lemma hex_digit_val: "n < 16 \<Longrightarrow> hex_val (hex_digit n) = Some n"
proof -
  have "\<forall>n \<in> set [0..<16]. hex_val (hex_digit n) = Some n" by code_simp
  then show "n < 16 \<Longrightarrow> hex_val (hex_digit n) = Some n" by simp
qed

lemma hex_digit_plain:
  "n < 16 \<Longrightarrow> \<not> is_newline (hex_digit n) \<and> \<not> is_space (hex_digit n)
     \<and> hex_digit n \<noteq> CHR ''x'' \<and> hex_digit n \<noteq> CHR ''X''
     \<and> hex_digit n \<noteq> CHR ''-'' \<and> hex_digit n \<noteq> CHR ''+''"
proof -
  have "\<forall>n \<in> set [0..<16]. \<not> is_newline (hex_digit n) \<and> \<not> is_space (hex_digit n)
     \<and> hex_digit n \<noteq> CHR ''x'' \<and> hex_digit n \<noteq> CHR ''X''
     \<and> hex_digit n \<noteq> CHR ''-'' \<and> hex_digit n \<noteq> CHR ''+''" by code_simp
  then show "n < 16 \<Longrightarrow> ?thesis" by simp
qed

section \<open>Encoding and decoding\<close>

definition byteToHex :: "byte \<Rightarrow> string" where
  "byteToHex b = [hex_digit (unat b div 16), hex_digit (unat b mod 16)]"

definition hex_encode :: "byte list \<Rightarrow> string" where
  "hex_encode bs = concat (map byteToHex bs)"

text \<open>\<open>parseInt\<close> of a run of one or two characters, as the byte the typed array stores.\<close>

fun hex_digits_value :: "nat \<Rightarrow> string \<Rightarrow> nat" where
  "hex_digits_value acc [] = acc"
| "hex_digits_value acc (c # cs) =
     (case hex_val c of None \<Rightarrow> acc | Some v \<Rightarrow> hex_digits_value (16 * acc + v) cs)"

definition strip_0x :: "string \<Rightarrow> string" where
  "strip_0x s =
     (case s of c # d # r \<Rightarrow> if c = CHR ''0'' \<and> (d = CHR ''x'' \<or> d = CHR ''X'') then r else s
      | _ \<Rightarrow> s)"

definition parse_hex_byte :: "string \<Rightarrow> byte" where
  "parse_hex_byte s =
     (let t = dropWhile is_space s;
          neg = (t \<noteq> [] \<and> hd t = CHR ''-'');
          u = (if t \<noteq> [] \<and> (hd t = CHR ''-'' \<or> hd t = CHR ''+'') then tl t else t);
          v = of_nat (hex_digits_value 0 (strip_0x u))
      in if neg then - v else v)"

fun hex_runs :: "string \<Rightarrow> string list" where
  "hex_runs [] = []"
| "hex_runs [c] = (if is_newline c then [] else [[c]])"
| "hex_runs (c # d # s) =
     (if is_newline c then hex_runs (d # s)
      else if is_newline d then [c] # hex_runs s
      else [c, d] # hex_runs s)"

definition startsWith_0x :: "string \<Rightarrow> bool" where
  "startsWith_0x s \<longleftrightarrow> take 2 s = ''0x''"

definition hex_decode :: "string \<Rightarrow> byte list" where
  "hex_decode text =
     (let str = (if startsWith_0x text then drop 2 text else text)
      in map parse_hex_byte (hex_runs str))"

definition hexZeroPadded :: "byte list \<Rightarrow> nat \<Rightarrow> string" where
  "hexZeroPadded value len =
     (let digits = hex_encode value
      in replicate (2 * len - length digits) CHR ''0'' @ digits)"

section \<open>Byte codecs\<close>

locale byte_codec =
  fixes enc :: "byte list \<Rightarrow> 'b"
    and dec :: "'b \<Rightarrow> byte list"
  assumes dec_enc: "dec (enc bs) = bs"
begin

lemma enc_inj: "enc bs = enc cs \<Longrightarrow> bs = cs"
  using dec_enc by metis

lemma enc_eq_iff [simp]: "enc bs = enc cs \<longleftrightarrow> bs = cs"
  using enc_inj by blast

lemma enc_in_image: "enc x \<in> enc ` A \<longleftrightarrow> x \<in> A"
  by auto

lemma filter_enc: "filter (\<lambda>x. enc x = enc k) xs = filter (\<lambda>x. x = k) xs"
  by simp

end

lemma length_hex_encode [simp]: "length (hex_encode bs) = 2 * length bs"
  by (induction bs) (simp_all add: hex_encode_def byteToHex_def)

lemma unat_byte_split: "unat (b :: byte) div 16 < 16" "unat b mod 16 < 16"
  using unat_byte_bound[of b] by simp_all

lemma byteToHex_plain:
  fixes b :: byte
  shows "\<not> is_newline (byteToHex b ! 0)" "\<not> is_newline (byteToHex b ! 1)"
    "take 2 (byteToHex b) \<noteq> ''0x''"
  using unat_byte_split[of b] hex_digit_plain
  by (simp_all add: byteToHex_def numeral_2_eq_2)

lemma parse_byteToHex [simp]: "parse_hex_byte (byteToHex b) = b"
proof -
  let ?h = "hex_digit (unat b div 16)" and ?l = "hex_digit (unat b mod 16)"
  note p = hex_digit_plain[OF unat_byte_split(1)[of b]] hex_digit_plain[OF unat_byte_split(2)[of b]]
  have "hex_digits_value 0 [?h, ?l] = unat b"
    using unat_byte_split[of b] by (simp add: hex_digit_val)
  with p show ?thesis
    by (simp add: parse_hex_byte_def byteToHex_def strip_0x_def Let_def)
qed

lemma hex_runs_encode: "hex_runs (hex_encode bs) = map byteToHex bs"
proof (induction bs)
  case Nil
  then show ?case by (simp add: hex_encode_def)
next
  case (Cons b bs)
  then show ?case
    using byteToHex_plain[of b] by (simp add: hex_encode_def byteToHex_def)
qed

lemma encode_no_0x: "\<not> startsWith_0x (hex_encode bs)"
proof (cases bs)
  case Nil
  then show ?thesis by (simp add: startsWith_0x_def hex_encode_def)
next
  case (Cons b cs)
  then show ?thesis
    using byteToHex_plain(3)[of b]
    by (simp add: startsWith_0x_def hex_encode_def byteToHex_def)
qed

lemma decode_encode: "hex_decode (hex_encode bs) = bs"
  by (simp add: hex_decode_def encode_no_0x hex_runs_encode comp_def)

lemma decode_0x_encode: "hex_decode (''0x'' @ hex_encode bs) = bs"
  by (simp add: hex_decode_def startsWith_0x_def hex_runs_encode comp_def)

interpretation hex: byte_codec hex_encode hex_decode
  by unfold_locales (rule decode_encode)

text \<open>Two runs of plain digits read back as text: the other direction, up to the case of letters.\<close>

definition lower_hex_char :: "char \<Rightarrow> bool" where
  "lower_hex_char c = (case hex_val c of None \<Rightarrow> False | Some v \<Rightarrow> c = hex_digit v)"

definition lower_hex :: "string \<Rightarrow> bool" where
  "lower_hex s \<longleftrightarrow> list_all lower_hex_char s"

lemma hex_val_bound: "hex_val c = Some v \<Longrightarrow> v < 16"
  by (auto simp: hex_val_def Let_def split: if_splits)

lemma lower_hex_digit: "lower_hex_char c \<Longrightarrow> \<exists>n<16. c = hex_digit n"
  using hex_val_bound by (auto simp: lower_hex_char_def split: option.splits)

lemma byteToHex_parse:
  assumes "m < 16" and "n < 16"
  shows "byteToHex (parse_hex_byte [hex_digit m, hex_digit n]) = [hex_digit m, hex_digit n]"
proof -
  have u: "unat (of_nat (16 * m + n) :: byte) = 16 * m + n"
    using assms by (subst unat_of_nat) simp
  have "parse_hex_byte [hex_digit m, hex_digit n] = of_nat (16 * m + n)"
    using assms hex_digit_plain[of m] hex_digit_plain[of n]
    by (simp add: parse_hex_byte_def strip_0x_def hex_digit_val)
  with u assms show ?thesis by (simp add: byteToHex_def)
qed

lemma encode_decode:
  "lower_hex s \<Longrightarrow> even (length s) \<Longrightarrow> hex_encode (hex_decode s) = s"
proof (induction s rule: hex_runs.induct)
  case 1
  then show ?case by (simp add: hex_decode_def hex_encode_def startsWith_0x_def)
next
  case (2 c)
  then show ?case by simp
next
  case (3 c d s)
  obtain m n where mn: "m < 16" "c = hex_digit m" "n < 16" "d = hex_digit n"
    using "3.prems" by (auto simp: lower_hex_def dest!: lower_hex_digit)
  have no: "\<not> startsWith_0x (c # d # s)"
    using hex_digit_plain[OF mn(3)] by (simp add: startsWith_0x_def mn)
  have nl: "\<not> is_newline c" "\<not> is_newline d"
    using hex_digit_plain mn by auto
  have no': "\<not> startsWith_0x s"
  proof (cases s rule: hex_runs.cases)
    case (3 e f r)
    then obtain k where "k < 16" "f = hex_digit k"
      using "3.prems" by (auto simp: lower_hex_def dest!: lower_hex_digit)
    then show ?thesis
      using 3 hex_digit_plain[of k] by (simp add: startsWith_0x_def)
  qed (simp_all add: startsWith_0x_def)
  have "hex_encode (hex_decode s) = s"
    using "3.IH"(3) "3.prems" nl by (simp add: lower_hex_def)
  then show ?case
    using no no' nl byteToHex_parse[OF mn(1,3)]
    by (simp add: hex_decode_def hex_encode_def mn)
qed

text \<open>Decoding the hexadecimal text of some bytes, with or without the \<open>0x\<close> prefix, gives
those bytes back, and re-encoding decoded lower-case text of even length gives the text back.\<close>

theorem hex_round_trip:
  "hex_decode (hex_encode bs) = bs \<and> hex_decode (''0x'' @ hex_encode bs) = bs \<and>
   (lower_hex s \<and> even (length s) \<longrightarrow> hex_encode (hex_decode s) = s)"
  by (simp add: decode_encode decode_0x_encode encode_decode del: append.simps)

theorem hex_round_trip_witness:
  "hex_decode (hex_encode [0, 255, 26]) = [0, 255, 26] \<and> hex_encode (hex_decode ''00ff1a'') = ''00ff1a''"
  using hex_round_trip[of "[0, 255, 26]" "''00ff1a''"] by (simp add: lower_hex_def lower_hex_char_def hex_val_def code_of_def hex_digit_def)

lemma hexZeroPadded_length:
  "length bs \<le> n \<Longrightarrow> length (hexZeroPadded bs n) = 2 * n"
  by (simp add: hexZeroPadded_def Let_def)

lemma runs_zeros: "hex_runs (replicate (2 * k) CHR ''0'' @ s) = replicate k ''00'' @ hex_runs s"
  by (induction k) (simp_all add: is_newline_def code_of_def)

lemma hexZeroPadded_decode:
  assumes "length bs \<le> n"
  shows "hex_decode (hexZeroPadded bs n) = replicate (n - length bs) 0 @ bs"
proof -
  have eq: "hexZeroPadded bs n = replicate (2 * (n - length bs)) CHR ''0'' @ hex_encode bs"
    using assms by (simp add: hexZeroPadded_def Let_def right_diff_distrib')
  have zero: "parse_hex_byte ''00'' = 0"
    by code_simp
  have "\<not> startsWith_0x (replicate (2 * k) CHR ''0'' @ hex_encode bs)" for k
    using encode_no_0x[of bs] by (cases k) (simp_all add: startsWith_0x_def)
  then show ?thesis
    by (simp add: eq hex_decode_def runs_zeros hex_runs_encode comp_def zero)
qed

end
