(* ===== verification/Longs.thy ===== *)
theory Longs
  imports Hex
begin

text \<open>
  Numbers. A \<open>Long\<close> is a 64-bit two's complement word. The \<open>long\<close> package is not part of the
  repository: parsing and printing a \<open>Long\<close> are parameters (a \<open>long_lib\<close>), and
  \<open>long_lib_ok\<close> states what its documentation promises of them. A JavaScript number that holds
  an integer is an \<open>int\<close>; \<open>to_double\<close> is the rounding to 53 significant bits that a number
  undergoes when it is read from text.
\<close>

type_synonym long = "64 word"

section \<open>Decimal text\<close>

definition is_digit :: "char \<Rightarrow> bool" where
  "is_digit c \<longleftrightarrow> 48 \<le> code_of c \<and> code_of c \<le> 57"

definition digit_val :: "char \<Rightarrow> nat" where
  "digit_val c = code_of c - 48"

definition digit_char :: "nat \<Rightarrow> char" where
  "digit_char n = char_of (48 + n)"

fun show_nat :: "nat \<Rightarrow> string" where
  "show_nat n = (if n < 10 then [digit_char n] else show_nat (n div 10) @ [digit_char (n mod 10)])"

declare show_nat.simps [simp del]

definition show_int :: "int \<Rightarrow> string" where
  "show_int i = (if i < 0 then CHR ''-'' # show_nat (nat (- i)) else show_nat (nat i))"

definition dec_val :: "string \<Rightarrow> nat" where
  "dec_val s = foldl (\<lambda>a c. 10 * a + digit_val c) 0 s"

definition padStart :: "nat \<Rightarrow> char \<Rightarrow> string \<Rightarrow> string" where
  "padStart n c s = replicate (n - length s) c @ s"

lemma code_of_digit_char [simp]: "n < 10 \<Longrightarrow> code_of (digit_char n) = 48 + n"
  by (simp add: code_of_def digit_char_def)

lemma digit_char_eval [simp]:
  "digit_char 0 = CHR ''0''" "digit_char (Suc 0) = CHR ''1''" "digit_char 2 = CHR ''2''"
  "digit_char 3 = CHR ''3''" "digit_char 4 = CHR ''4''" "digit_char 5 = CHR ''5''"
  "digit_char 6 = CHR ''6''" "digit_char 7 = CHR ''7''" "digit_char 8 = CHR ''8''"
  "digit_char 9 = CHR ''9''"
  by code_simp+

lemma digit_char_props [simp]:
  "n < 10 \<Longrightarrow> is_digit (digit_char n)"
  "n < 10 \<Longrightarrow> digit_val (digit_char n) = n"
  by (simp_all add: is_digit_def digit_val_def)

lemma show_nat_digits: "list_all is_digit (show_nat n)"
proof (induction n rule: show_nat.induct)
  case (1 n)
  then show ?case by (subst show_nat.simps) simp
qed

lemma show_nat_digit: "c \<in> set (show_nat n) \<Longrightarrow> is_digit c"
  using show_nat_digits[of n] by (simp add: list_all_iff)

lemma show_nat_ne [simp]: "show_nat n \<noteq> []"
  by (subst show_nat.simps) simp

lemma dec_val_simps [simp]:
  "dec_val [] = 0"
  "dec_val (s @ [c]) = 10 * dec_val s + digit_val c"
  by (simp_all add: dec_val_def)

lemma dec_val_single [simp]: "dec_val [c] = digit_val c"
  by (simp add: dec_val_def)

lemma dec_val_show_nat [simp]: "dec_val (show_nat n) = n"
proof (induction n rule: show_nat.induct)
  case (1 n)
  then show ?case by (subst show_nat.simps) simp
qed

lemma show_nat_inj [simp]: "show_nat a = show_nat b \<longleftrightarrow> a = b"
  by (metis dec_val_show_nat)

lemma dec_val_pad [simp]: "dec_val (replicate k CHR ''0'' @ s) = dec_val s"
proof -
  have z: "foldl (\<lambda>a c. 10 * a + digit_val c) 0 (replicate k CHR ''0'') = 0"
    by (induction k) (simp_all add: digit_val_def code_of_def)
  show ?thesis by (simp add: dec_val_def z)
qed

lemma dec_val_padStart [simp]: "dec_val (padStart n CHR ''0'' s) = dec_val s"
  by (simp add: padStart_def)

lemma padStart_digits: "list_all is_digit s \<Longrightarrow> list_all is_digit (padStart n CHR ''0'' s)"
  by (auto simp: padStart_def list_all_iff is_digit_def code_of_def)

section \<open>The long package\<close>

text \<open>
  \<open>fromText\<close> is \<open>Long.fromString\<close> where the code has already checked that the text is a number,
  \<open>parseText\<close> is the same function where a malformed text can reach it and make it throw.
\<close>

record long_lib =
  fromText :: "string \<Rightarrow> long"
  parseText :: "string \<Rightarrow> long result"
  toText :: "long \<Rightarrow> string"
  fromNumber :: "int \<Rightarrow> long"

definition long_lib_ok :: "long_lib \<Rightarrow> bool" where
  "long_lib_ok L \<longleftrightarrow>
     (\<forall>n. toText L n = show_int (sint n)) \<and>
     (\<forall>s. s \<noteq> [] \<and> list_all is_digit s \<and> dec_val s < 2 ^ 63 \<longrightarrow>
          fromText L s = of_nat (dec_val s) \<and> parseText L s = Inr (of_nat (dec_val s))) \<and>
     (\<forall>i. \<bar>i\<bar> \<le> 2 ^ 53 \<longrightarrow> fromNumber L i = word_of_int i)"

text \<open>A concrete library that keeps the promise, for the witnesses.\<close>

definition decimal_lib :: long_lib where
  "decimal_lib =
     \<lparr>fromText = (\<lambda>s. of_nat (dec_val s)),
      parseText = (\<lambda>s. if s = [] then Inl (Error ''empty string'') else Inr (of_nat (dec_val s))),
      toText = (\<lambda>n. show_int (sint n)), fromNumber = word_of_int\<rparr>"

lemma decimal_lib_ok: "long_lib_ok decimal_lib"
  by (simp add: long_lib_ok_def decimal_lib_def)

definition nonneg :: "long \<Rightarrow> bool" where
  "nonneg n \<longleftrightarrow> 0 \<le> sint n"

lemma sint_range: "- (2 ^ 63) \<le> sint (n :: long)" "sint (n :: long) < 2 ^ 63"
  using sint_ge[of n] sint_less[of n] by simp_all

lemma nonneg_unat:
  assumes "nonneg n"
  shows "sint n = int (unat n)" and "unat n < 2 ^ 63"
proof -
  have "uint n = sint n mod 2 ^ 64"
    by (simp add: uint_sint take_bit_eq_mod)
  also have "\<dots> = sint n"
    using assms sint_range(2)[of n] by (simp add: nonneg_def)
  finally show eq: "sint n = int (unat n)" by simp
  show "unat n < 2 ^ 63"
    using sint_range(2)[of n] unfolding eq by (metis of_nat_less_iff of_nat_numeral of_nat_power)
qed

lemma sint_of_nat [simp]: "k < 2 ^ 63 \<Longrightarrow> sint (of_nat k :: long) = int k"
proof -
  assume "k < 2 ^ 63"
  then have "int k < 2 ^ 63" by (metis of_nat_less_iff of_nat_numeral of_nat_power)
  then have "signed_take_bit 63 (int k) = int k"
    by (intro signed_take_bit_int_eq_self) simp_all
  then show ?thesis by (simp add: signed_of_nat)
qed

lemma sint_of_int [simp]: "- (2 ^ 63) \<le> i \<Longrightarrow> i < 2 ^ 63 \<Longrightarrow> sint (word_of_int i :: long) = i"
  by (simp add: signed_of_int signed_take_bit_int_eq_self)

lemma nonneg_of_nat [simp]: "k < 2 ^ 63 \<Longrightarrow> nonneg (of_nat k)"
  by (simp add: nonneg_def)

lemma toText_nonneg:
  "long_lib_ok L \<Longrightarrow> nonneg n \<Longrightarrow> toText L n = show_nat (unat n)"
  using nonneg_unat[of n] by (simp add: long_lib_ok_def show_int_def nonneg_def)

lemma fromText_digits:
  "long_lib_ok L \<Longrightarrow> s \<noteq> [] \<Longrightarrow> list_all is_digit s \<Longrightarrow> dec_val s < 2 ^ 63
   \<Longrightarrow> fromText L s = of_nat (dec_val s)"
  by (simp add: long_lib_ok_def)

lemma fromText_toText:
  "long_lib_ok L \<Longrightarrow> nonneg n \<Longrightarrow> fromText L (toText L n) = n"
  using nonneg_unat[of n] by (simp add: toText_nonneg fromText_digits show_nat_digits)

section \<open>Doubles\<close>

fun bit_length :: "nat \<Rightarrow> nat" where
  "bit_length n = (if n = 0 then 0 else Suc (bit_length (n div 2)))"

declare bit_length.simps [simp del]

definition round53 :: "nat \<Rightarrow> nat" where
  "round53 n =
     (if n < 2 ^ 53 then n
      else let e = bit_length n - 53; q = n div 2 ^ e; r = n mod 2 ^ e; h = 2 ^ (e - 1);
               q' = (if h < r \<or> (r = h \<and> odd q) then q + 1 else q)
           in q' * 2 ^ e)"

definition to_double :: "int \<Rightarrow> int" where
  "to_double i = (if i < 0 then - int (round53 (nat (- i))) else int (round53 (nat i)))"

lemma to_double_exact [simp]: "\<bar>i\<bar> < 2 ^ 53 \<Longrightarrow> to_double i = i"
  by (auto simp: to_double_def round53_def nat_less_iff)

end
