(* ===== verification/EntityId.thy ===== *)
theory EntityId
  imports Longs Complex_Main
begin

text \<open>
  Entity IDs, \<open>src/EntityIdHelper.js\<close>: construction, comparison, the text form
  \<open>shard.realm.num-checksum\<close> with its regular expression, the checksum that ties an ID to a
  ledger, and solidity addresses.
\<close>

section \<open>Data\<close>

record entity_id =
  shard :: long
  realm :: long
  num :: long

datatype id_props =
    PNum long
  | PObj "long option" "long option" long

definition from_some :: "long option \<Rightarrow> long" where
  "from_some x = (case x of None \<Rightarrow> 0 | Some v \<Rightarrow> v)"

definition is_negative :: "long \<Rightarrow> bool" where
  "is_negative n \<longleftrightarrow> sint n < 0"

definition entity_constructor :: "id_props \<Rightarrow> long option \<Rightarrow> long option \<Rightarrow> entity_id result" where
  "entity_constructor props realmOrNull numOrNull =
     (if (realmOrNull = None \<and> numOrNull \<noteq> None) \<or> (realmOrNull \<noteq> None \<and> numOrNull = None)
      then Inl (Error ''invalid entity ID'')
      else
        let (s, r, n) =
          (case props of
             PNum p \<Rightarrow>
               (if numOrNull \<noteq> None then p else 0,
                from_some realmOrNull,
                case numOrNull of Some v \<Rightarrow> v | None \<Rightarrow> p)
           | PObj ps pr pn \<Rightarrow> (from_some ps, from_some pr, pn))
        in if is_negative s \<or> is_negative r \<or> is_negative n
           then Inl (Error ''negative numbers are not allowed in IDs'')
           else Inr \<lparr>shard = s, realm = r, num = n\<rparr>)"

definition long_compare :: "long \<Rightarrow> long \<Rightarrow> int" where
  "long_compare a b = (if sint a = sint b then 0 else if sint a < sint b then -1 else 1)"

definition entity_compare :: "entity_id \<Rightarrow> entity_id \<Rightarrow> int" where
  "entity_compare a b =
     (if long_compare (shard a) (shard b) \<noteq> 0 then long_compare (shard a) (shard b)
      else if long_compare (realm a) (realm b) \<noteq> 0 then long_compare (realm a) (realm b)
      else long_compare (num a) (num b))"

definition valid_id :: "entity_id \<Rightarrow> bool" where
  "valid_id i \<longleftrightarrow> nonneg (shard i) \<and> nonneg (realm i) \<and> nonneg (num i)"

section \<open>Text\<close>

text \<open>
  \<open>ENTITY_ID_REGEX\<close> is deterministic: a run of digits can only be followed by a dot, a dash or
  the end, so the longest run is the only one that can match, and the optional group is taken
  exactly when what follows the first run starts with a dot.
\<close>

definition is_lower :: "char \<Rightarrow> bool" where
  "is_lower c \<longleftrightarrow> 97 \<le> code_of c \<and> code_of c \<le> 122"

definition is_hex :: "char \<Rightarrow> bool" where
  "is_hex c \<longleftrightarrow> hex_val c \<noteq> None"

definition regex_checksum :: "string \<Rightarrow> string option option" where
  "regex_checksum s =
     (case s of
        [] \<Rightarrow> Some None
      | c # cs \<Rightarrow> if c = CHR ''-'' \<and> length cs = 5 \<and> list_all is_lower cs then Some (Some cs)
                 else None)"

definition regex_dotted :: "string \<Rightarrow> (string \<times> string \<times> string) option" where
  "regex_dotted s =
     (case s of
        [] \<Rightarrow> None
      | c # r1 \<Rightarrow>
          let g2 = takeWhile is_digit r1; r2 = dropWhile is_digit r1
          in if c \<noteq> CHR ''.'' \<or> g2 = [] then None
             else (case r2 of
                     [] \<Rightarrow> None
                   | d # r3 \<Rightarrow>
                       let g3 = takeWhile is_hex r3
                       in if d \<noteq> CHR ''.'' \<or> g3 = [] then None
                          else Some (g2, g3, dropWhile is_hex r3)))"

record id_parts =
  part_shard :: string
  part_realm :: string
  numOrHex :: string
  part_checksum :: "string option"

definition fromStringSplitter :: "string \<Rightarrow> id_parts result" where
  "fromStringSplitter text =
     (let g1 = takeWhile is_digit text; r = dropWhile is_digit text;
          fail = Inl (Error ''failed to parse entity id'')
      in if g1 = [] then fail
         else (case regex_dotted r of
                 Some (g2, g3, r') \<Rightarrow>
                   (case regex_checksum r' of
                      None \<Rightarrow> fail
                    | Some ck \<Rightarrow> Inr \<lparr>part_shard = g1, part_realm = g2, numOrHex = g3,
                                     part_checksum = ck\<rparr>)
               | None \<Rightarrow>
                   (case regex_checksum r of
                      None \<Rightarrow> fail
                    | Some ck \<Rightarrow> Inr \<lparr>part_shard = ''0'', part_realm = ''0'', numOrHex = g1,
                                     part_checksum = ck\<rparr>)))"

record parsed_id =
  parsed :: entity_id
  parsed_checksum :: "string option"

definition id_fromString :: "long_lib \<Rightarrow> string \<Rightarrow> parsed_id result" where
  "id_fromString L text =
     res_bind (fromStringSplitter text) (\<lambda>r.
       Inr \<lparr>parsed = \<lparr>shard = fromText L (part_shard r), realm = fromText L (part_realm r),
                     num = fromText L (numOrHex r)\<rparr>,
            parsed_checksum = part_checksum r\<rparr>)"

definition id_toString :: "long_lib \<Rightarrow> entity_id \<Rightarrow> string" where
  "id_toString L i =
     toText L (shard i) @ ''.'' @ toText L (realm i) @ ''.'' @ toText L (num i)"

section \<open>Checksums\<close>

definition p3 :: nat where "p3 = 26 * 26 * 26"
definition p5 :: nat where "p5 = 26 * 26 * 26 * 26 * 26"

text \<open>A character is a digit, a dot (10) or \<open>NaN\<close>.\<close>

definition addr_digit :: "char \<Rightarrow> nat option" where
  "addr_digit c =
     (if c = CHR ''.'' then Some 10 else if is_digit c then Some (digit_val c) else None)"

fun digit_sums :: "nat \<Rightarrow> nat list \<Rightarrow> nat \<times> nat \<times> nat \<Rightarrow> nat \<times> nat \<times> nat" where
  "digit_sums i [] acc = acc"
| "digit_sums i (x # xs) (s, s0, s1) =
     digit_sums (Suc i) xs
       ((31 * s + x) mod p3,
        if even i then (s0 + x) mod 11 else s0,
        if even i then s1 else (s1 + x) mod 11)"

definition ledger_hash :: "byte list \<Rightarrow> nat" where
  "ledger_hash ledgerId =
     foldl (\<lambda>sh b. (31 * sh + unat b) mod p5) 0 (ledgerId @ replicate 6 0)"

text \<open>
  The last loop divides the number by 26 five times without rounding and lets
  \<open>String.fromCharCode\<close> drop the fraction.
\<close>

fun checksum_chars :: "nat \<Rightarrow> rat \<Rightarrow> string \<Rightarrow> string" where
  "checksum_chars 0 c answer = answer"
| "checksum_chars (Suc k) c answer =
     checksum_chars k (c / 26)
       (char_of (nat \<lfloor>97 + (c - 26 * of_int \<lfloor>c / 26\<rfloor>)\<rfloor>) # answer)"

definition checksum_number :: "byte list \<Rightarrow> nat list \<Rightarrow> nat" where
  "checksum_number ledgerId d =
     (let (s, s0, s1) = digit_sums 0 d (0, 0, 0); sh = ledger_hash ledgerId
      in ((((((length d mod 5) * 11 + s0) * 11 + s1) * p3 + s + sh) mod p5) * 1000003) mod p5)"

definition checksum :: "byte list \<Rightarrow> string \<Rightarrow> string" where
  "checksum ledgerId addr =
     (case those (map addr_digit addr) of
        None \<Rightarrow> replicate 5 (char_of (0 :: nat))
      | Some d \<Rightarrow> checksum_chars 5 (of_nat (checksum_number ledgerId d)) [])"

definition validateChecksum ::
    "long_lib \<Rightarrow> entity_id \<Rightarrow> string option \<Rightarrow> byte list option \<Rightarrow> unit result" where
  "validateChecksum L i ck ledger =
     (case (ledger, ck) of
        (Some l, Some c) \<Rightarrow>
          (let expected = checksum l (id_toString L i)
           in if c \<noteq> expected then Inl (BadEntityIdError c expected) else Inr ())
      | _ \<Rightarrow> Inr ())"

definition toStringWithChecksum :: "string \<Rightarrow> byte list option \<Rightarrow> string result" where
  "toStringWithChecksum s ledger =
     (case ledger of
        None \<Rightarrow> Inl (Error ''cannot calculate checksum with a client that does not contain a recognzied ledger ID'')
      | Some l \<Rightarrow> Inr (s @ ''-'' @ checksum l s))"

section \<open>Solidity addresses\<close>

definition fromSolidityAddress :: "string \<Rightarrow> entity_id result" where
  "fromSolidityAddress address =
     (let addr = (if startsWith_0x address then hex_decode (drop 2 address) else hex_decode address)
      in if length addr \<noteq> 20 then Inl (Error ''Invalid hex encoded solidity address length'')
         else Inr \<lparr>shard = of_nat (be_val (replicate 4 0 @ slice 0 4 addr)),
                   realm = of_nat (be_val (slice 4 12 addr)),
                   num = of_nat (be_val (slice 12 20 addr))\<rparr>)"

definition uint32_bytes :: "int \<Rightarrow> byte list" where
  "uint32_bytes v = be_bytes 4 (nat (v mod 2 ^ 32))"

definition toSolidityAddress :: "entity_id \<Rightarrow> string" where
  "toSolidityAddress i =
     hex_encode (uint32_bytes (to_double (sint (shard i))) @ replicate 4 0 @
                 uint32_bytes (to_double (sint (realm i))) @ replicate 4 0 @
                 uint32_bytes (to_double (sint (num i))))"

section \<open>The checksum\<close>

definition letter26 :: "nat \<Rightarrow> nat \<Rightarrow> char" where
  "letter26 n t = char_of (97 + n div 26 ^ t mod 26)"

lemma floor_shift: "\<lfloor>97 + (x - 26 * of_int z)\<rfloor> = 97 + \<lfloor>x :: rat\<rfloor> - 26 * z"
proof -
  have "97 + (x - 26 * of_int z) = x + of_int (97 - 26 * z)" by simp
  then have "\<lfloor>97 + (x - 26 * of_int z)\<rfloor> = \<lfloor>x\<rfloor> + (97 - 26 * z)"
    by (simp only: floor_add_int [symmetric])
  then show ?thesis by simp
qed

lemma checksum_char:
  "nat \<lfloor>97 + (of_nat n / 26 ^ j - 26 * of_int \<lfloor>of_nat n / 26 ^ j / (26 :: rat)\<rfloor> :: rat)\<rfloor>
   = 97 + n div 26 ^ j mod 26"
proof -
  have a: "\<lfloor>of_nat n / (26 :: rat) ^ j\<rfloor> = int (n div 26 ^ j)"
    using floor_divide_of_nat_eq[where ?'a = rat, of n "26 ^ j"] by simp
  have b: "\<lfloor>of_nat n / (26 :: rat) ^ j / 26\<rfloor> = int (n div 26 ^ j div 26)"
    using floor_divide_of_nat_eq[where ?'a = rat, of n "26 ^ j * 26"]
    by (simp add: div_mult2_eq)
  have "97 + int (n div 26 ^ j) - 26 * int (n div 26 ^ j div 26) = int (97 + n div 26 ^ j mod 26)"
    by (simp add: minus_mult_div_eq_mod zmod_int zdiv_int)
  then show ?thesis
    unfolding floor_shift b a by (simp only: nat_int)
qed

lemma checksum_chars_eq:
  "checksum_chars k (of_nat n / 26 ^ j) a = rev (map (letter26 n) [j..<j + k]) @ a"
proof (induction k arbitrary: j a)
  case 0
  then show ?case by simp
next
  case (Suc k)
  have "checksum_chars (Suc k) (of_nat n / 26 ^ j) a
        = checksum_chars k (of_nat n / 26 ^ Suc j) (letter26 n j # a)"
    using checksum_char[of n j] unfolding letter26_def
    by (simp only: checksum_chars.simps power_Suc2 divide_divide_eq_left)
  also have "\<dots> = rev (map (letter26 n) [Suc j..<Suc j + k]) @ letter26 n j # a"
    by (rule Suc)
  finally show ?case by (simp add: upt_conv_Cons del: upt_Suc)
qed

lemma checksum_eq:
  "those (map addr_digit addr) = Some d \<Longrightarrow>
   checksum l addr = rev (map (letter26 (checksum_number l d)) [0..<5])"
  using checksum_chars_eq[of 5 "checksum_number l d" 0 "[]"] by (simp add: checksum_def)

lemma letter26_inj: "letter26 n t = letter26 m t \<Longrightarrow> n div 26 ^ t mod 26 = m div 26 ^ t mod 26"
proof -
  have code: "code_of (letter26 k t) = 97 + k div 26 ^ t mod 26" for k
  proof -
    have "k div 26 ^ t mod 26 < 26" by simp
    then show ?thesis unfolding letter26_def code_of_def by simp
  qed
  show "letter26 n t = letter26 m t \<Longrightarrow> ?thesis"
    using code[of n] code[of m] by simp
qed

lemma letter26_lower: "is_lower (letter26 n t)"
proof -
  have "n div 26 ^ t mod 26 < 26" by simp
  then show ?thesis unfolding is_lower_def letter26_def code_of_def by simp
qed

lemma base26_inj:
  "(\<And>t. t < k \<Longrightarrow> n div 26 ^ t mod 26 = m div 26 ^ t mod (26 :: nat)) \<Longrightarrow> n mod 26 ^ k = m mod 26 ^ k"
proof (induction k)
  case 0
  then show ?case by simp
next
  case (Suc k)
  have "n mod 26 ^ k = m mod 26 ^ k" using Suc by simp
  moreover have "n div 26 ^ k mod 26 = m div 26 ^ k mod 26" using Suc.prems by simp
  ultimately show ?case
    using mod_mult2_eq[of n "26 ^ k" 26] mod_mult2_eq[of m "26 ^ k" 26]
    by (simp add: mult.commute)
qed

lemma checksum_number_bound: "checksum_number l d < 26 ^ 5"
  by (simp add: checksum_number_def p5_def Let_def split: prod.splits)

lemma checksum_inj:
  assumes "those (map addr_digit a) = Some d" and "those (map addr_digit b) = Some e"
    and "checksum l a = checksum l b"
  shows "checksum_number l d = checksum_number l e"
proof -
  let ?n = "checksum_number l d" and ?m = "checksum_number l e"
  have "map (letter26 ?n) [0..<5] = map (letter26 ?m) [0..<5]"
    using assms by (simp only: checksum_eq rev_is_rev_conv)
  then have "\<And>t. t < 5 \<Longrightarrow> letter26 ?n t = letter26 ?m t"
    by (simp only: map_eq_conv set_upt atLeastLessThan_iff) simp
  then have "?n mod 26 ^ 5 = ?m mod 26 ^ 5"
    by (intro base26_inj letter26_inj)
  then show ?thesis using checksum_number_bound by simp
qed

subsection \<open>The sums\<close>

fun esum :: "nat \<Rightarrow> nat list \<Rightarrow> nat" where
  "esum i [] = 0"
| "esum i (x # xs) = (if even i then x else 0) + esum (Suc i) xs"

lemma digit_sums_eq:
  "s0 < 11 \<Longrightarrow> s1 < 11 \<Longrightarrow> s < p3 \<Longrightarrow>
   \<exists>s'. s' < p3 \<and> digit_sums i xs (s, s0, s1)
      = (s', (s0 + esum i xs) mod 11, (s1 + esum (Suc i) xs) mod 11)"
proof (induction xs arbitrary: i s s0 s1)
  case Nil
  then show ?case by simp
next
  case (Cons x xs)
  have p: "(31 * s + x) mod p3 < p3" by (simp add: p3_def)
  show ?case
  proof (cases "even i")
    case True
    with Cons.IH[of "(s0 + x) mod 11" s1 _ "Suc i"] Cons.prems p show ?thesis
      by (fastforce simp: mod_simps add.assoc)
  next
    case False
    with Cons.IH[of s0 "(s1 + x) mod 11" _ "Suc i"] Cons.prems p show ?thesis
      by (fastforce simp: mod_simps add.assoc)
  qed
qed

lemma esum_update:
  "k < length xs \<Longrightarrow>
   esum i (xs[k := y]) + (if even (i + k) then xs ! k else 0)
   = esum i xs + (if even (i + k) then y else 0)"
proof (induction xs arbitrary: i k)
  case Nil
  then show ?case by simp
next
  case (Cons x xs)
  show ?case
  proof (cases k)
    case 0
    then show ?thesis by simp
  next
    case (Suc j)
    with Cons.IH[of j "Suc i"] Cons.prems show ?thesis by (auto split: if_splits)
  qed
qed

text \<open>Before the last permutation the number determines the two alternating sums.\<close>

lemma scale_inj:
  assumes "(u mod p5 * 1000003) mod p5 = (v mod p5 * 1000003) mod p5"
  shows "u mod p5 = v mod p5"
proof -
  have inv: "(w mod p5 * 1000003) mod p5 * 8610443 mod p5 = w mod p5" for w
  proof -
    have "(w mod p5 * 1000003) mod p5 * 8610443 mod p5 = w * (1000003 * 8610443) mod p5"
      by (metis mod_mult_left_eq mult.assoc)
    also have "\<dots> = (w * ((1000003 * 8610443) mod p5)) mod p5"
      by (simp only: mod_mult_right_eq)
    also have "(1000003 * 8610443) mod p5 = 1" by (simp add: p5_def)
    finally show ?thesis by simp
  qed
  show ?thesis using inv[of u] inv[of v] assms by metis
qed

lemma mod_add_cancel:
  fixes u v h n :: nat
  assumes "(u + h) mod n = (v + h) mod n"
  shows "u mod n = v mod n"
proof -
  obtain q r where "u + h + n * q = v + h + n * r"
    using assms unfolding nat_mod_eq_iff by blast
  then have "u + n * q = v + n * r" by simp
  then show ?thesis unfolding nat_mod_eq_iff by blast
qed

lemma combine_inj:
  assumes "A < 676" "B < 676" "s < p3" "t < p3"
    and "(A * p3 + s + h) mod p5 = (B * p3 + t + h) mod p5"
  shows "A = B"
proof -
  have lt: "A * p3 + s < p5" "B * p3 + t < p5"
    using assms by (simp_all add: p3_def p5_def)
  have "(A * p3 + s) mod p5 = (B * p3 + t) mod p5"
    using assms(5) by (rule mod_add_cancel)
  with lt have "A * p3 + s = B * p3 + t" by simp
  then have "(A * p3 + s) div p3 = (B * p3 + t) div p3" by simp
  with assms show ?thesis by (simp add: p3_def)
qed

lemma mixed_radix_bound: "(a :: nat) < 5 \<Longrightarrow> b < 11 \<Longrightarrow> c < 11 \<Longrightarrow> (a * 11 + b) * 11 + c < 676"
  by simp

lemma mixed_radix_inj:
  fixes a b c b' c' :: nat
  assumes "b < 11" "c < 11" "b' < 11" "c' < 11"
    and eq: "(a * 11 + b) * 11 + c = (a * 11 + b') * 11 + c'"
  shows "b = b' \<and> c = c'"
proof -
  have "((a * 11 + b) * 11 + c) mod 11 = c" and "((a * 11 + b') * 11 + c') mod 11 = c'"
    using assms(1-4) by (simp_all only: mod_mult_self3 mod_less)
  then have "c = c'" using eq by metis
  then show ?thesis using eq by simp
qed

lemma checksum_number_eq:
  "digit_sums 0 d (0, 0, 0) = (s, a, b) \<Longrightarrow>
   checksum_number l d =
     ((((length d mod 5 * 11 + a) * 11 + b) * p3 + s + ledger_hash l) mod p5 * 1000003) mod p5"
  by (simp only: checksum_number_def Let_def prod.case)

lemma checksum_number_sums:
  assumes "length d = length e" and "checksum_number l d = checksum_number l e"
  shows "esum 0 d mod 11 = esum 0 e mod 11" and "esum 1 d mod 11 = esum 1 e mod 11"
proof -
  obtain s where s: "s < p3" "digit_sums 0 d (0, 0, 0) = (s, esum 0 d mod 11, esum 1 d mod 11)"
    using digit_sums_eq[of 0 0 0 0 d] by (auto simp: p3_def)
  obtain t where t: "t < p3" "digit_sums 0 e (0, 0, 0) = (t, esum 0 e mod 11, esum 1 e mod 11)"
    using digit_sums_eq[of 0 0 0 0 e] by (auto simp: p3_def)
  define L where "L = length e mod 5"
  define a b a' b' where "a = esum 0 d mod 11" and "b = esum 1 d mod 11"
    and "a' = esum 0 e mod 11" and "b' = esum 1 e mod 11"
  have bounds: "L < 5" "a < 11" "b < 11" "a' < 11" "b' < 11"
    by (simp_all add: L_def a_def b_def a'_def b'_def)
  have "(((L * 11 + a) * 11 + b) * p3 + s + ledger_hash l) mod p5
        = (((L * 11 + a') * 11 + b') * p3 + t + ledger_hash l) mod p5"
    using assms(2) unfolding checksum_number_eq[OF s(2)] checksum_number_eq[OF t(2)] assms(1)
      L_def a_def b_def a'_def b'_def
    by (rule scale_inj)
  then have "(L * 11 + a) * 11 + b = (L * 11 + a') * 11 + b'"
    by (rule combine_inj[OF mixed_radix_bound[OF bounds(1,2,3)] mixed_radix_bound[OF bounds(1,4,5)]
          s(1) t(1)])
  then have "a = a' \<and> b = b'"
    using bounds by (intro mixed_radix_inj)
  then show "esum 0 d mod 11 = esum 0 e mod 11" and "esum 1 d mod 11 = esum 1 e mod 11"
    by (simp_all add: a_def b_def a'_def b'_def)
qed

subsection \<open>What the checksum detects\<close>

text \<open>An address text: digits and dots only, as \<open>id_toString\<close> prints it.\<close>

definition addr_text :: "string \<Rightarrow> bool" where
  "addr_text s \<longleftrightarrow> list_all (\<lambda>c. addr_digit c \<noteq> None) s"

lemma addr_text_those: "addr_text s \<Longrightarrow> those (map addr_digit s) = Some (map (the \<circ> addr_digit) s)"
  by (induction s) (auto simp: addr_text_def)

lemma addr_digit_bound: "addr_digit c = Some x \<Longrightarrow> x < 11"
  by (auto simp: addr_digit_def is_digit_def digit_val_def split: if_splits)

lemma code_of_inj: "code_of c = code_of d \<Longrightarrow> c = d"
  by (simp add: code_of_def)

lemma addr_digit_inj: "addr_digit c = Some x \<Longrightarrow> addr_digit d = Some x \<Longrightarrow> c = d"
  by (rule code_of_inj)
     (auto simp: addr_digit_def is_digit_def digit_val_def split: if_splits)

lemma addr_text_digit: "addr_text s \<Longrightarrow> k < length s \<Longrightarrow> \<exists>x<11. addr_digit (s ! k) = Some x"
  using addr_digit_bound by (fastforce simp: addr_text_def list_all_length)

lemma checksum_esums:
  assumes "addr_text a" "addr_text b" "length a = length b" "checksum l a = checksum l b"
  shows "esum 0 (map (the \<circ> addr_digit) a) mod 11 = esum 0 (map (the \<circ> addr_digit) b) mod 11"
    and "esum 1 (map (the \<circ> addr_digit) a) mod 11 = esum 1 (map (the \<circ> addr_digit) b) mod 11"
proof -
  have "checksum_number l (map (the \<circ> addr_digit) a) = checksum_number l (map (the \<circ> addr_digit) b)"
    using assms by (intro checksum_inj[OF addr_text_those addr_text_those])
  then show "esum 0 (map (the \<circ> addr_digit) a) mod 11 = esum 0 (map (the \<circ> addr_digit) b) mod 11"
    and "esum 1 (map (the \<circ> addr_digit) a) mod 11 = esum 1 (map (the \<circ> addr_digit) b) mod 11"
    using assms(3) by (intro checksum_number_sums; simp)+
qed

lemma mod11_exchange:
  fixes e f x y :: nat
  assumes "e + x = f + y" "e mod 11 = f mod 11" "x < 11" "y < 11"
  shows "x = y"
proof -
  have "(x + e) mod 11 = (y + f) mod 11"
    using assms(1) by (simp add: add.commute)
  also have "\<dots> = (y + e) mod 11"
    by (rule mod_add_cong[OF refl assms(2)[symmetric]])
  finally have "x mod 11 = y mod 11" by (rule mod_add_cancel)
  with assms show ?thesis by simp
qed

lemma esum_one_update:
  assumes "k < length xs" "even (i + k)"
    and "esum i (xs[k := y]) mod 11 = esum i xs mod 11" "xs ! k < 11" "y < 11"
  shows "xs ! k = y"
proof -
  have "esum i (xs[k := y]) + xs ! k = esum i xs + y"
    using esum_update[OF assms(1), of i y] assms(2) by simp
  then show ?thesis using assms(3,4,5) by (rule mod11_exchange)
qed

lemma checksum_substitution:
  assumes "addr_text a" "k < length a" "addr_digit c \<noteq> None" "c \<noteq> a ! k"
  shows "checksum l (a[k := c]) \<noteq> checksum l a"
proof
  assume eq: "checksum l (a[k := c]) = checksum l a"
  let ?f = "the \<circ> addr_digit"
  have t: "addr_text (a[k := c])"
    using assms by (auto simp: addr_text_def list_all_length nth_list_update)
  obtain x where x: "x < 11" "addr_digit (a ! k) = Some x"
    using addr_text_digit[OF assms(1,2)] by blast
  obtain y where y: "y < 11" "addr_digit c = Some y"
    using assms(3) addr_digit_bound by auto
  have u: "map ?f (a[k := c]) = (map ?f a)[k := y]" using y by (simp add: map_update)
  have "x = y"
  proof (cases "even k")
    case True
    show ?thesis
      using esum_one_update[of k "map ?f a" 0 y] checksum_esums(1)[OF t assms(1) _ eq] True assms(2) x y
      by (simp add: u)
  next
    case False
    show ?thesis
      using esum_one_update[of k "map ?f a" 1 y] checksum_esums(2)[OF t assms(1) _ eq] False assms(2) x y
      by (simp add: u)
  qed
  then show False using addr_digit_inj x(2) y(2) assms(4) by auto
qed

lemma checksum_transposition:
  assumes "addr_text a" "Suc k < length a" "a ! k \<noteq> a ! Suc k"
  shows "checksum l (a[k := a ! Suc k, Suc k := a ! k]) \<noteq> checksum l a"
proof
  assume eq: "checksum l (a[k := a ! Suc k, Suc k := a ! k]) = checksum l a"
  let ?f = "the \<circ> addr_digit" and ?b = "a[k := a ! Suc k, Suc k := a ! k]"
  have t: "addr_text ?b"
    using assms by (auto simp: addr_text_def list_all_length nth_list_update)
  obtain x where x: "x < 11" "addr_digit (a ! k) = Some x"
    using addr_text_digit[of a k] assms by auto
  obtain y where y: "y < 11" "addr_digit (a ! Suc k) = Some y"
    using addr_text_digit[of a "Suc k"] assms by auto
  let ?xs = "map ?f a"
  have u: "map ?f ?b = ?xs[k := y, Suc k := x]"
    using x y assms(2) by (simp add: map_update)
  have e: "esum i (?xs[k := y, Suc k := x]) + (if even (i + Suc k) then y else 0)
         = esum i (?xs[k := y]) + (if even (i + Suc k) then x else 0)" for i
    using esum_update[of "Suc k" "?xs[k := y]" i x] assms(2) y by (auto split: if_splits)
  have "x = y"
  proof (cases "even k")
    case True
    show ?thesis
      using esum_one_update[of k ?xs 0 y] checksum_esums(1)[OF t assms(1) _ eq] True assms(2) x y e[of 0]
      by (simp add: u)
  next
    case False
    show ?thesis
      using esum_one_update[of k ?xs 1 y] checksum_esums(2)[OF t assms(1) _ eq] False assms(2) x y e[of 1]
      by (simp add: u)
  qed
  then show False using addr_digit_inj x(2) y(2) assms(3) by auto
qed

section \<open>Text round trip\<close>

lemma span_run:
  assumes "list_all P xs" and "rest = [] \<or> \<not> P (hd rest)"
  shows "takeWhile P (xs @ rest) = xs" and "dropWhile P (xs @ rest) = rest"
  using assms by (cases rest; auto simp: list_all_iff takeWhile_append dropWhile_append)+

lemma digit_hex: "is_digit c \<Longrightarrow> is_hex c"
  by (auto simp: is_digit_def is_hex_def hex_val_def Let_def)

lemma special_chars [simp]:
  "\<not> is_digit CHR ''.''" "\<not> is_digit CHR ''-''" "\<not> is_hex CHR ''.''" "\<not> is_hex CHR ''-''"
  by (simp_all add: is_digit_def is_hex_def hex_val_def code_of_def)

definition checksum_suffix :: "string option \<Rightarrow> string" where
  "checksum_suffix ck = (case ck of None \<Rightarrow> [] | Some c \<Rightarrow> ''-'' @ c)"

definition good_checksum :: "string option \<Rightarrow> bool" where
  "good_checksum ck = (case ck of None \<Rightarrow> True | Some c \<Rightarrow> length c = 5 \<and> list_all is_lower c)"

lemma regex_checksum_suffix: "good_checksum ck \<Longrightarrow> regex_checksum (checksum_suffix ck) = Some ck"
  by (cases ck) (simp_all add: regex_checksum_def checksum_suffix_def good_checksum_def)

lemma suffix_hd: "checksum_suffix ck = [] \<or> hd (checksum_suffix ck) = CHR ''-''"
  by (simp add: checksum_suffix_def split: option.splits)

lemma splitter_print:
  assumes "good_checksum ck"
  shows "fromStringSplitter (show_nat a @ ''.'' @ show_nat b @ ''.'' @ show_nat c @ checksum_suffix ck)
    = Inr \<lparr>part_shard = show_nat a, part_realm = show_nat b, numOrHex = show_nat c,
           part_checksum = ck\<rparr>"
proof -
  let ?s = "checksum_suffix ck"
  have hexes: "list_all is_hex (show_nat c)"
    using show_nat_digits[of c] by (simp add: list_all_iff digit_hex)
  have tail: "?s = [] \<or> \<not> is_hex (hd ?s)" using suffix_hd[of ck] by auto
  note n = span_run[OF show_nat_digits[of a], of "''.'' @ show_nat b @ ''.'' @ show_nat c @ ?s"]
    span_run[OF show_nat_digits[of b], of "''.'' @ show_nat c @ ?s"]
    span_run[OF hexes tail]
  have "regex_dotted (''.'' @ show_nat b @ ''.'' @ show_nat c @ ?s) = Some (show_nat b, show_nat c, ?s)"
    using n by (simp add: regex_dotted_def Let_def)
  then show ?thesis
    using n regex_checksum_suffix[OF assms] by (simp add: fromStringSplitter_def Let_def)
qed

lemma fromString_print:
  assumes "long_lib_ok L" "valid_id i" "good_checksum ck"
  shows "id_fromString L (id_toString L i @ checksum_suffix ck)
    = Inr \<lparr>parsed = i, parsed_checksum = ck\<rparr>"
  using splitter_print[OF assms(3), of "unat (shard i)" "unat (realm i)" "unat (num i)"]
    assms fromText_toText[OF assms(1)]
  by (simp add: id_fromString_def id_toString_def valid_id_def toText_nonneg)

lemma show_nat_addr_text: "addr_text (show_nat n)"
  using show_nat_digits[of n] by (auto simp: addr_text_def addr_digit_def list_all_iff)

lemma id_toString_addr_text: "long_lib_ok L \<Longrightarrow> valid_id i \<Longrightarrow> addr_text (id_toString L i)"
  using show_nat_addr_text
  by (simp add: id_toString_def valid_id_def toText_nonneg addr_text_def addr_digit_def)

lemma checksum_good: "addr_text a \<Longrightarrow> good_checksum (Some (checksum l a))"
  by (simp add: checksum_eq[OF addr_text_those] good_checksum_def letter26_lower list_all_iff
      del: upt_Suc)

section \<open>Correctness\<close>

text \<open>Printing a valid entity ID and parsing the text gives the ID back; printed with the
checksum of a ledger, parsing also gives that checksum, and validating it against the same ledger
succeeds.\<close>

theorem entity_text_round_trip:
  assumes "long_lib_ok L" and "valid_id i"
  shows "id_fromString L (id_toString L i) = Inr \<lparr>parsed = i, parsed_checksum = None\<rparr> \<and>
    (\<exists>t c. toStringWithChecksum (id_toString L i) (Some l) = Inr t \<and>
       id_fromString L t = Inr \<lparr>parsed = i, parsed_checksum = Some c\<rparr> \<and>
       validateChecksum L i (Some c) (Some l) = Inr ())"
proof -
  let ?c = "checksum l (id_toString L i)"
  have "good_checksum (Some ?c)"
    using assms by (intro checksum_good id_toString_addr_text)
  from fromString_print[OF assms this] fromString_print[OF assms, of None]
  show ?thesis
    by (simp add: checksum_suffix_def good_checksum_def toStringWithChecksum_def validateChecksum_def)
qed

theorem entity_text_round_trip_witness:
  "id_fromString decimal_lib (id_toString decimal_lib \<lparr>shard = 0, realm = 0, num = 123\<rparr>)
   = Inr \<lparr>parsed = \<lparr>shard = 0, realm = 0, num = 123\<rparr>, parsed_checksum = None\<rparr>"
proof -
  have "valid_id \<lparr>shard = 0, realm = 0, num = 123\<rparr>" by (simp add: valid_id_def nonneg_def)
  from entity_text_round_trip[OF decimal_lib_ok this] show ?thesis by blast
qed

text \<open>C28: the checksum catches the usual typing errors: replacing any one character of an address,
or swapping two neighbouring different characters, always changes the checksum, on every
ledger.\<close>

theorem checksum_detects_typos:
  assumes "addr_text a" and "k < length a" and "addr_digit c \<noteq> None" and "c \<noteq> a ! k"
  shows "checksum l (a[k := c]) \<noteq> checksum l a \<and>
    (Suc k < length a \<and> a ! k \<noteq> a ! Suc k \<longrightarrow>
       checksum l (a[k := a ! Suc k, Suc k := a ! k]) \<noteq> checksum l a)"
  using checksum_substitution[OF assms] checksum_transposition[OF assms(1), of k l] by simp

theorem checksum_detects_typos_witness:
  "checksum [0] ''0.0.213'' \<noteq> checksum [0] ''0.0.123'' \<and>
   checksum [0] ''0.0.923'' \<noteq> checksum [0] ''0.0.123''"
proof -
  have "addr_text ''0.0.123''" and "addr_digit CHR ''9'' \<noteq> None" by code_simp+
  from checksum_detects_typos[OF this(1) _ this(2), of 4 "[0]"] show ?thesis by simp
qed

section \<open>Construction and order\<close>

text \<open>The constructor accepts exactly the argument shapes the API documents (one number, three
numbers or an object) with no negative part, and what it returns is valid and holds the numbers
given.\<close>

theorem entity_constructor_correct:
  "entity_constructor (PNum n) None None =
     (if nonneg n then Inr \<lparr>shard = 0, realm = 0, num = n\<rparr>
      else Inl (Error ''negative numbers are not allowed in IDs'')) \<and>
   entity_constructor (PNum s) (Some r) (Some n) =
     (if nonneg s \<and> nonneg r \<and> nonneg n then Inr \<lparr>shard = s, realm = r, num = n\<rparr>
      else Inl (Error ''negative numbers are not allowed in IDs'')) \<and>
   \<not> is_ok (entity_constructor p (Some r) None) \<and> \<not> is_ok (entity_constructor p None (Some n)) \<and>
   (entity_constructor p x y = Inr i \<longrightarrow> valid_id i)"
  by (auto simp: entity_constructor_def is_negative_def nonneg_def from_some_def valid_id_def Let_def
      split: id_props.splits option.splits if_splits prod.splits)

theorem entity_constructor_witness:
  "entity_constructor (PObj None None 7) None None = Inr \<lparr>shard = 0, realm = 0, num = 7\<rparr> \<and>
   valid_id \<lparr>shard = 0, realm = 0, num = 7\<rparr>"
  using entity_constructor_correct[of 0 0 0 "PObj None None 7" None None "\<lparr>shard = 0, realm = 0, num = 7\<rparr>"]
  by (simp add: entity_constructor_def is_negative_def from_some_def)

text \<open>
  A three-way comparison, the interface by which requests sort transfers and keys. Every class
  of the program with a \<open>compare\<close> method offers it.
\<close>

locale comparator =
  fixes cmp :: "'a \<Rightarrow> 'a \<Rightarrow> int"
  assumes cmp_eq: "cmp a b = 0 \<longleftrightarrow> a = b"
    and cmp_anti: "cmp a b < 0 \<longleftrightarrow> cmp b a > 0"
    and cmp_trans: "cmp a b < 0 \<Longrightarrow> cmp b c < 0 \<Longrightarrow> cmp a c < 0"
begin

lemma cmp_refl [simp]: "cmp a a = 0"
  by (simp add: cmp_eq)

lemma cmp_total: "cmp a b < 0 \<or> a = b \<or> cmp b a < 0"
  using cmp_eq[of a b] cmp_anti[of b a] by linarith

lemma cmp_le_trans: "cmp a b \<le> 0 \<Longrightarrow> cmp b c \<le> 0 \<Longrightarrow> cmp a c \<le> 0"
  using cmp_trans[of a b c] cmp_eq[of a b] cmp_eq[of b c] by (metis linorder_not_less order_le_less)

lemma sorted_unique:
  assumes "sorted_wrt (\<lambda>a b. cmp a b < 0) xs" "sorted_wrt (\<lambda>a b. cmp a b < 0) ys"
    and "set xs = set ys"
  shows "xs = ys"
  using assms
proof (induction xs arbitrary: ys)
  case Nil
  then show ?case by simp
next
  case (Cons x xs)
  then obtain y ys' where ys: "ys = y # ys'" by (cases ys) auto
  have irr: "\<not> cmp a a < 0" for a by simp
  have "x = y"
  proof (rule ccontr)
    assume "x \<noteq> y"
    then have "x \<in> set ys'" "y \<in> set xs" using Cons.prems(3) ys by auto
    then have "cmp y x < 0" "cmp x y < 0" using Cons.prems(1,2) ys by auto
    then show False using cmp_anti[of x y] by simp
  qed
  moreover have "x \<notin> set xs" "y \<notin> set ys'" using Cons.prems(1,2) ys irr by auto
  ultimately have "set xs = set ys'" using Cons.prems(3) ys by auto
  with Cons ys \<open>x = y\<close> show ?case by simp
qed

end

lemma long_compare_simps [simp]:
  "long_compare a b = 0 \<longleftrightarrow> a = b"
  "long_compare a b < 0 \<longleftrightarrow> sint a < sint b"
  "0 < long_compare a b \<longleftrightarrow> sint b < sint a"
  using signed_word_eqI[of a b] by (auto simp: long_compare_def)

interpretation long_cmp: comparator long_compare
  by unfold_locales auto

lemma entity_compare_less:
  "entity_compare a b < 0 \<longleftrightarrow>
     (sint (shard a), sint (realm a), sint (num a)) \<noteq> (sint (shard b), sint (realm b), sint (num b)) \<and>
     (sint (shard a) < sint (shard b) \<or>
      sint (shard a) = sint (shard b) \<and> (sint (realm a) < sint (realm b) \<or>
      sint (realm a) = sint (realm b) \<and> sint (num a) < sint (num b)))"
  by (auto simp: entity_compare_def long_compare_def)

interpretation entity_cmp: comparator entity_compare
proof
  show "entity_compare a b = 0 \<longleftrightarrow> a = b" for a b
    by (cases a; cases b) (simp add: entity_compare_def)
  show "entity_compare a b < 0 \<longleftrightarrow> 0 < entity_compare b a" for a b
    by (auto simp: entity_compare_def long_compare_def)
  show "entity_compare a b < 0 \<Longrightarrow> entity_compare b c < 0 \<Longrightarrow> entity_compare a c < 0" for a b c
    unfolding entity_compare_less by auto
qed

section \<open>Solidity addresses\<close>

lemma uint32_bytes_val: "be_val (uint32_bytes v) = nat (v mod 2 ^ 32)"
proof -
  have "nat (v mod 2 ^ 32) < 2 ^ 32" by (simp add: nat_less_iff)
  then show ?thesis by (simp add: uint32_bytes_def)
qed

lemma uint32_bytes_int: "be_val (uint32_bytes (int n)) = n mod 2 ^ 32"
  unfolding uint32_bytes_val by (simp only: nat_mod_as_int of_nat_numeral of_nat_power nat_int)

lemma length_uint32_bytes [simp]: "length (uint32_bytes v) = 4"
  by (simp add: uint32_bytes_def)

lemma decode_solidity:
  "startsWith_0x (hex_encode bs) = False \<and> hex_decode (hex_encode bs) = bs"
  by (simp add: encode_no_0x decode_encode)

lemma solidity_parts:
  "fromSolidityAddress (hex_encode (uint32_bytes (int x) @ replicate 4 0 @
      uint32_bytes (int y) @ replicate 4 0 @ uint32_bytes (int w)))
   = Inr \<lparr>shard = of_nat (x mod 2 ^ 32), realm = of_nat (y mod 2 ^ 32), num = of_nat (w mod 2 ^ 32)\<rparr>"
proof -
  let ?z = "replicate 4 (0 :: byte)"
  let ?b = "\<lambda>n. uint32_bytes (int n)"
  have "slice 0 4 (?b x @ ?z @ ?b y @ ?z @ ?b w) = ?b x"
    "slice 4 12 (?b x @ ?z @ ?b y @ ?z @ ?b w) = ?z @ ?b y"
    "slice 12 20 (?b x @ ?z @ ?b y @ ?z @ ?b w) = ?z @ ?b w"
    by (simp_all add: slice_def)
  then show ?thesis
    by (simp add: fromSolidityAddress_def decode_solidity Let_def be_val_append uint32_bytes_int
        del: replicate.simps)
qed

text \<open>\<open>fromSolidityAddress\<close> of a printed address gives the parts of the ID modulo \<open>2 ^ 32\<close>;
so the round trip is exact for parts below \<open>2 ^ 32\<close>, and an ID whose realm or number is larger
is silently mapped to another one, although the address reserves eight bytes for each.\<close>

theorem solidity_round_trip:
  assumes "valid_id i" and "sint (shard i) < 2 ^ 53" "sint (realm i) < 2 ^ 53" "sint (num i) < 2 ^ 53"
  shows "fromSolidityAddress (toSolidityAddress i) =
    Inr \<lparr>shard = of_nat (unat (shard i) mod 2 ^ 32), realm = of_nat (unat (realm i) mod 2 ^ 32),
         num = of_nat (unat (num i) mod 2 ^ 32)\<rparr>"
proof -
  have small: "to_double (sint (shard i)) = int (unat (shard i))"
      "to_double (sint (realm i)) = int (unat (realm i))"
      "to_double (sint (num i)) = int (unat (num i))"
    using assms nonneg_unat by (simp_all add: valid_id_def nonneg_def)
  show ?thesis
    unfolding toSolidityAddress_def small by (rule solidity_parts)
qed

theorem solidity_round_trip_witness:
  "fromSolidityAddress (toSolidityAddress \<lparr>shard = 0, realm = 0, num = 4294967297\<rparr>)
     = Inr \<lparr>shard = 0, realm = 0, num = 1\<rparr>"
proof -
  have "valid_id \<lparr>shard = 0, realm = 0, num = 4294967297\<rparr>" by (simp add: valid_id_def nonneg_def)
  from solidity_round_trip[OF this] show ?thesis by simp
qed

end
