(* ===== verification/Nodes.thy ===== *)
theory Nodes
  imports EntityId
begin

text \<open>
  The nodes of a network: \<open>src/ManagedNodeAddress.js\<close> (host and port), \<open>src/ManagedNode.js\<close>
  (health and backoff of one node) and \<open>src/Node.js\<close> (a consensus node with its account).
  Times and durations are numbers of milliseconds; halving makes them fractions, so they are
  rationals. \<open>Date.now()\<close> and \<open>Math.random()\<close> are arguments.
\<close>

section \<open>Addresses\<close>

record node_address =
  host :: string
  port :: "int option"

definition is_ws :: "char \<Rightarrow> bool" where
  "is_ws c \<longleftrightarrow> is_space c"

text \<open>
  \<open>HOST_AND_PORT\<close>, \<open>/^(\S+):(\d+)$/\<close>: the port has no colon, so the host is everything up to
  the last one.
\<close>

definition address_fromString :: "string \<Rightarrow> node_address result" where
  "address_fromString s =
     (let r = rev s;
          p = rev (takeWhile is_digit r);
          rest = dropWhile is_digit r;
          fail = Inl (Error ''failed to parse address'')
      in case rest of
           [] \<Rightarrow> fail
         | c # h \<Rightarrow>
             if c = CHR '':'' \<and> p \<noteq> [] \<and> h \<noteq> [] \<and> list_all (\<lambda>x. \<not> is_ws x) h
             then Inr \<lparr>host = rev h, port = Some (to_double (int (dec_val p)))\<rparr>
             else fail)"

definition address_toString :: "node_address \<Rightarrow> string" where
  "address_toString a =
     (case port a of None \<Rightarrow> host a | Some p \<Rightarrow> host a @ '':'' @ show_int p)"

definition address_toInsecure :: "node_address \<Rightarrow> node_address" where
  "address_toInsecure a =
     \<lparr>host = host a, port = (if port a = Some 50212 then Some 50211 else port a)\<rparr>"

definition address_toSecure :: "node_address \<Rightarrow> node_address" where
  "address_toSecure a =
     \<lparr>host = host a, port = (if port a = Some 50211 then Some 50212 else port a)\<rparr>"

definition address_isTransportSecurity :: "node_address \<Rightarrow> bool" where
  "address_isTransportSecurity a \<longleftrightarrow> port a = Some 50212 \<or> port a = Some 443"

lemma address_print_parse:
  assumes "host a \<noteq> []" "list_all (\<lambda>x. \<not> is_ws x) (host a)" "port a = Some (int p)" "p < 2 ^ 53"
  shows "address_fromString (address_toString a) = Inr a \<and>
    (p \<noteq> 50212 \<longrightarrow> address_toInsecure (address_toSecure a) = a)"
proof -
  have s: "address_toString a = host a @ '':'' @ show_nat p"
    using assms by (simp add: address_toString_def show_int_def)
  have d: "list_all is_digit (rev (show_nat p))"
    using show_nat_digits[of p] by (simp add: list_all_iff)
  have n: "\<not> is_digit CHR '':''" by (simp add: is_digit_def code_of_def)
  have r: "rev (address_toString a) = rev (show_nat p) @ CHR '':'' # rev (host a)"
    by (simp add: s)
  have t: "takeWhile is_digit (rev (address_toString a)) = rev (show_nat p)"
    "dropWhile is_digit (rev (address_toString a)) = CHR '':'' # rev (host a)"
    unfolding r using n by (intro span_run[OF d]; simp)+
  have "int p < 2 ^ 53" using assms(4) by (metis of_nat_less_iff of_nat_numeral of_nat_power)
  then have "to_double (int p) = int p" by (intro to_double_exact) simp
  moreover have "list_all (\<lambda>x. \<not> is_ws x) (rev (host a))"
    using assms(2) by (simp add: list_all_iff)
  ultimately have "address_fromString (address_toString a) = Inr \<lparr>host = host a, port = port a\<rparr>"
    using assms(1,3) by (simp add: address_fromString_def t Let_def)
  moreover have "p \<noteq> 50212 \<Longrightarrow> address_toInsecure (address_toSecure a) = a"
    using assms(3) by (cases a) (auto simp: address_toInsecure_def address_toSecure_def)
  ultimately show ?thesis by simp
qed

text \<open>The address of a node survives printing and parsing, and the secure form of an insecure
address leads back to it.\<close>

theorem address_round_trip:
  assumes "host a \<noteq> []" "list_all (\<lambda>x. \<not> is_ws x) (host a)" "port a = Some (int p)" "p < 2 ^ 53"
  shows "address_fromString (address_toString a) = Inr a \<and>
    (p \<noteq> 50212 \<longrightarrow> address_toInsecure (address_toSecure a) = a)"
  using assms by (rule address_print_parse)

theorem address_round_trip_witness:
  "address_fromString ''10.0.0.1:50211'' = Inr \<lparr>host = ''10.0.0.1'', port = Some 50211\<rparr>"
proof -
  let ?a = "\<lparr>host = ''10.0.0.1'', port = Some 50211\<rparr>"
  have h: "list_all (\<lambda>x. \<not> is_ws x) (host ?a)" by code_simp
  have s: "address_toString ?a = ''10.0.0.1:50211''"
    by (simp add: address_toString_def show_int_def show_nat.simps)
  have "host ?a \<noteq> []" and "port ?a = Some (int 50211)" and "50211 < (2 :: nat) ^ 53" by simp_all
  from address_round_trip[OF this(1) h this(2,3)] show ?thesis unfolding s by simp
qed

section \<open>Managed nodes\<close>

text \<open>
  \<open>shadowLastUsed\<close> is the property \<open>__lastUsed\<close>, with two underscores, that
  \<open>getChannel\<close> writes; every reader uses \<open>_lastUsed\<close>.
\<close>

record ('acc, 'ch) node =
  address :: node_address
  cert :: "string option"
  channel :: "'ch option"
  lastUsed :: rat
  shadowLastUsed :: "rat option"
  readmitTime :: rat
  useCount :: nat
  badGrpcStatusCount :: int
  nd_minBackoff :: rat
  nd_maxBackoff :: rat
  currentBackoff :: rat
  accountId :: 'acc

definition new_node :: "node_address \<Rightarrow> 'acc \<Rightarrow> rat \<Rightarrow> rat \<Rightarrow> ('acc, 'ch) node" where
  "new_node a acc now now' =
     \<lparr>address = a, cert = None, channel = None, lastUsed = now, shadowLastUsed = None,
      readmitTime = now', useCount = 0, badGrpcStatusCount = 0, nd_minBackoff = 8000,
      nd_maxBackoff = 1000 * 60 * 60, currentBackoff = 8000, accountId = acc\<rparr>"

definition clone_node :: "node_address \<Rightarrow> ('acc, 'ch) node \<Rightarrow> ('acc, 'ch) node" where
  "clone_node a n =
     \<lparr>address = a, cert = cert n, channel = channel n, lastUsed = lastUsed n,
      shadowLastUsed = None, readmitTime = readmitTime n, useCount = useCount n,
      badGrpcStatusCount = badGrpcStatusCount n, nd_minBackoff = nd_minBackoff n,
      nd_maxBackoff = nd_minBackoff n, currentBackoff = currentBackoff n,
      accountId = accountId n\<rparr>"

definition node_toInsecure :: "('acc, 'ch) node \<Rightarrow> ('acc, 'ch) node" where
  "node_toInsecure n = clone_node (address_toInsecure (address n)) n"

definition node_toSecure :: "('acc, 'ch) node \<Rightarrow> ('acc, 'ch) node" where
  "node_toSecure n = clone_node (address_toSecure (address n)) n"

definition node_setMinBackoff :: "rat \<Rightarrow> ('acc, 'ch) node \<Rightarrow> ('acc, 'ch) node" where
  "node_setMinBackoff b n =
     (let n' = (if currentBackoff n \<le> b then n\<lparr>currentBackoff := b\<rparr> else n)
      in n'\<lparr>nd_minBackoff := b\<rparr>)"

definition node_setMaxBackoff :: "rat \<Rightarrow> ('acc, 'ch) node \<Rightarrow> ('acc, 'ch) node" where
  "node_setMaxBackoff b n =
     (let n' = (if currentBackoff n \<le> b then n\<lparr>currentBackoff := b\<rparr> else n)
      in n'\<lparr>nd_maxBackoff := b\<rparr>)"

text \<open>The channel is opened by \<open>init\<close> (\<open>_channelInitFunction\<close>) on first use and then kept.\<close>

definition getChannel ::
    "(string \<Rightarrow> string option \<Rightarrow> 'ch) \<Rightarrow> rat \<Rightarrow> ('acc, 'ch) node \<Rightarrow> 'ch \<times> ('acc, 'ch) node" where
  "getChannel init now n =
     (let n' = n\<lparr>useCount := Suc (useCount n), shadowLastUsed := Some now\<rparr>
      in case channel n' of
           Some c \<Rightarrow> (c, n')
         | None \<Rightarrow> (let c = init (address_toString (address n')) (cert n')
                   in (c, n'\<lparr>channel := Some c\<rparr>)))"

definition isHealthy :: "rat \<Rightarrow> ('acc, 'ch) node \<Rightarrow> bool" where
  "isHealthy now n \<longleftrightarrow> readmitTime n \<le> now"

definition node_increaseBackoff :: "rat \<Rightarrow> ('acc, 'ch) node \<Rightarrow> ('acc, 'ch) node" where
  "node_increaseBackoff now n =
     (let b = min (currentBackoff n * 2) (nd_maxBackoff n)
      in n\<lparr>currentBackoff := b, readmitTime := now + b\<rparr>)"

definition node_decreaseBackoff :: "('acc, 'ch) node \<Rightarrow> ('acc, 'ch) node" where
  "node_decreaseBackoff n =
     n\<lparr>currentBackoff := max (currentBackoff n / 2) (nd_minBackoff n)\<rparr>"

definition getRemainingTime :: "('acc, 'ch) node \<Rightarrow> rat" where
  "getRemainingTime n = readmitTime n - lastUsed n"

definition node_compare :: "('acc, 'ch) node \<Rightarrow> ('acc, 'ch) node \<Rightarrow> rat" where
  "node_compare m n =
     (let c1 = getRemainingTime m - getRemainingTime n;
          c2 = currentBackoff m - currentBackoff n;
          c3 = of_int (badGrpcStatusCount m - badGrpcStatusCount n);
          c4 = of_int (int (useCount m) - int (useCount n))
      in if c1 \<noteq> 0 then c1 else if c2 \<noteq> 0 then c2 else if c3 \<noteq> 0 then c3
         else if c4 \<noteq> 0 then c4 else lastUsed m - lastUsed n)"

definition node_close :: "('acc, 'ch) node \<Rightarrow> ('acc, 'ch) node" where
  "node_close n = n\<lparr>channel := None\<rparr>"

lemmas node_defs =
  new_node_def clone_node_def node_toInsecure_def node_toSecure_def node_setMinBackoff_def
  node_setMaxBackoff_def getChannel_def isHealthy_def node_increaseBackoff_def
  node_decreaseBackoff_def getRemainingTime_def node_close_def

section \<open>Backoff\<close>

text \<open>
  An exponential backoff between two bounds, as the network asks it of a node: it doubles on
  failure, halves on success and never leaves the bounds.
\<close>

locale backoff =
  fixes cur lo hi :: "'n \<Rightarrow> rat"
    and up down :: "'n \<Rightarrow> 'n"
  assumes up_cur: "cur (up n) = min (cur n * 2) (hi n)"
    and down_cur: "cur (down n) = max (cur n / 2) (lo n)"
    and up_bounds: "lo (up n) = lo n" "hi (up n) = hi n"
    and down_bounds: "lo (down n) = lo n" "hi (down n) = hi n"
begin

lemma up_keeps: "0 \<le> lo n \<Longrightarrow> lo n \<le> cur n \<Longrightarrow> cur n \<le> hi n \<Longrightarrow> cur n \<le> cur (up n) \<and> cur (up n) \<le> hi n"
  by (auto simp: up_cur)

lemma down_keeps: "0 \<le> lo n \<Longrightarrow> lo n \<le> cur n \<Longrightarrow> cur n \<le> hi n \<Longrightarrow> lo n \<le> cur (down n) \<and> cur (down n) \<le> cur n"
  by (auto simp: down_cur)

lemma ups_bounds: "lo ((up ^^ k) n) = lo n \<and> hi ((up ^^ k) n) = hi n"
  by (induction k) (simp_all add: up_bounds)

lemma ups_cur:
  "0 \<le> cur n \<Longrightarrow> cur n \<le> hi n \<Longrightarrow> cur ((up ^^ k) n) = min (cur n * 2 ^ k) (hi n)"
proof (induction k)
  case 0
  then show ?case by simp
next
  case (Suc k)
  then show ?case using ups_bounds[of k n] by (auto simp: up_cur min_def)
qed

lemma up_then_down:
  "0 \<le> lo n \<Longrightarrow> lo n \<le> cur n \<Longrightarrow> cur n * 2 \<le> hi n \<Longrightarrow> cur (down (up n)) = cur n"
  by (simp add: up_cur down_cur up_bounds)

end

interpretation nb: backoff currentBackoff nd_minBackoff nd_maxBackoff
    "node_increaseBackoff now" node_decreaseBackoff for now
  by unfold_locales (simp_all add: node_increaseBackoff_def node_decreaseBackoff_def Let_def)

definition backoff_ok :: "('acc, 'ch) node \<Rightarrow> bool" where
  "backoff_ok n \<longleftrightarrow>
     0 \<le> nd_minBackoff n \<and> nd_minBackoff n \<le> currentBackoff n \<and> currentBackoff n \<le> nd_maxBackoff n"


definition sample_node :: "(string, string) node" where
  "sample_node = new_node \<lparr>host = ''10.0.0.1'', port = Some 50211\<rparr> ''0.0.3'' 0 0"

lemma sample_node_ok: "backoff_ok sample_node"
  by (simp add: sample_node_def new_node_def backoff_ok_def)


text \<open>A node cloned for the secure or insecure port gets its minimum backoff as its maximum:
its first failure sets the backoff to the minimum, however long it was, and it never grows again.\<close>

theorem clone_backoff_collapses:
  assumes "backoff_ok n"
  shows "currentBackoff (node_increaseBackoff now (clone_node a n)) = nd_minBackoff n \<and>
    (\<forall>k. currentBackoff ((node_increaseBackoff now ^^ Suc k) (clone_node a n)) = nd_minBackoff n)"
proof -
  have ok: "0 \<le> nd_minBackoff n" "nd_minBackoff n \<le> currentBackoff n"
    using assms by (simp_all add: backoff_ok_def)
  let ?c = "node_increaseBackoff now (clone_node a n)"
  have c: "currentBackoff ?c = nd_minBackoff n" "nd_maxBackoff ?c = nd_minBackoff n"
    using ok by (simp_all add: node_increaseBackoff_def clone_node_def Let_def min_def)
  have "currentBackoff ((node_increaseBackoff now ^^ k) ?c) = nd_minBackoff n" for k
    using nb.ups_cur[of ?c k now] c ok
    by (simp add: min_def mult_le_cancel_left1 antisym)
  then show ?thesis using c by (simp add: funpow_swap1)
qed

theorem clone_backoff_collapses_witness:
  "currentBackoff ((node_increaseBackoff 0 ^^ 4) (clone_node \<lparr>host = ''a'', port = None\<rparr> sample_node))
   = 8000"
  using clone_backoff_collapses[OF sample_node_ok, of 0 "\<lparr>host = ''a'', port = None\<rparr>"]
  by (simp add: sample_node_def new_node_def eval_nat_numeral del: funpow.simps)

text \<open>\<open>setMaxBackoff\<close> raises the current backoff to the new maximum, where a cap was meant.\<close>

lemma setMaxBackoff_raises:
  "currentBackoff n \<le> b \<Longrightarrow> currentBackoff (node_setMaxBackoff b n) = b"
  by (simp add: node_setMaxBackoff_def)

lemma setMaxBackoff_no_cap:
  "b < currentBackoff n \<Longrightarrow> currentBackoff (node_setMaxBackoff b n) = currentBackoff n \<and>
   nd_maxBackoff (node_setMaxBackoff b n) = b"
  by (simp add: node_setMaxBackoff_def)

text \<open>\<open>getChannel\<close> never moves the time of last use that \<open>getRemainingTime\<close> reads.\<close>

lemma getChannel_lastUsed: "lastUsed (snd (getChannel init now n)) = lastUsed n"
  by (simp add: getChannel_def Let_def split: option.splits)

lemma getChannel_once:
  "fst (getChannel init' now' (snd (getChannel init now n))) = fst (getChannel init now n)"
  by (simp add: getChannel_def Let_def split: option.splits)

end
