(* ===== verification/Network.thy ===== *)
theory Network
  imports Nodes "HOL-Library.AList" "HOL-Library.Multiset"
begin

text \<open>
  The network of a client: \<open>src/client/ManagedNetwork.js\<close> and its two subclasses
  \<open>Network.js\<close> (consensus nodes keyed by account) and \<open>MirrorNetwork.js\<close>. The same node object
  sits in the list of nodes, in the list of healthy nodes and in the map from accounts to
  nodes, and is mutated through any of them, so nodes live in a store and the three containers
  hold their identities. The map is an association list in insertion order, as a JavaScript
  \<open>Map\<close> is. \<open>key\<close> is the text of an account (\<open>getKey()\<close>). The clock \<open>now\<close> stands still during a
  synchronous operation, and \<open>rnd\<close> gives the results of the calls of \<open>Math.random()\<close> in order.
\<close>

section \<open>Random choice\<close>

definition rnd_index :: "rat \<Rightarrow> nat \<Rightarrow> nat" where
  "rnd_index r n = nat \<lfloor>r * of_nat n\<rfloor>"

definition rnd_ok :: "(nat \<Rightarrow> rat) \<Rightarrow> bool" where
  "rnd_ok rnd \<longleftrightarrow> (\<forall>i. 0 \<le> rnd i \<and> rnd i < 1)"

lemma rnd_index_less: "0 \<le> r \<Longrightarrow> r < 1 \<Longrightarrow> 0 < n \<Longrightarrow> rnd_index r n < n"
proof -
  assume "0 \<le> r" "r < 1" "0 < n"
  then have "r * of_nat n < of_nat n" by simp
  then have "\<lfloor>r * of_nat n\<rfloor> < int n" by (simp add: floor_less_iff)
  with \<open>0 < n\<close> show ?thesis by (simp add: rnd_index_def)
qed

lemma rnd_ok_shift: "rnd_ok rnd \<Longrightarrow> rnd_ok (\<lambda>i. rnd (Suc i))"
  by (simp add: rnd_ok_def)

lemma rnd_ok_pick: "rnd_ok rnd \<Longrightarrow> 0 < n \<Longrightarrow> rnd_index (rnd i) n < n"
  by (simp add: rnd_ok_def rnd_index_less)

text \<open>\<open>shuffle\<close> of \<open>src/util.js\<close>: the swap of the last remaining element with a random one.\<close>

fun shuffle :: "nat \<Rightarrow> (nat \<Rightarrow> rat) \<Rightarrow> 'a list \<Rightarrow> 'a list" where
  "shuffle 0 rnd xs = xs"
| "shuffle (Suc k) rnd xs =
     (let r = rnd_index (rnd 0) (Suc k)
      in shuffle k (\<lambda>i. rnd (Suc i)) (xs[k := xs ! r, r := xs ! k]))"

lemma mset_shuffle:
  "rnd_ok rnd \<Longrightarrow> k \<le> length xs \<Longrightarrow> mset (shuffle k rnd xs) = mset xs"
proof (induction k arbitrary: rnd xs)
  case 0
  then show ?case by simp
next
  case (Suc k)
  have r: "rnd_index (rnd 0) (Suc k) < Suc k" using Suc.prems(1) by (intro rnd_ok_pick) simp_all
  let ?r = "rnd_index (rnd 0) (Suc k)"
  have "mset (xs[k := xs ! ?r, ?r := xs ! k]) = mset xs"
    using r Suc.prems(2) by (subst mset_swap) simp_all
  then show ?case
    using Suc.IH[OF rnd_ok_shift[OF Suc.prems(1)], of "xs[k := xs ! ?r, ?r := xs ! k]"] Suc.prems(2)
    by (simp add: Let_def)
qed

section \<open>State\<close>

record ('acc, 'ch) net =
  store :: "nat \<Rightarrow> ('acc, 'ch) node"
  next_id :: nat
  nodes :: "nat list"
  healthyNodes :: "nat list"
  network :: "(string \<times> nat list) list"
  ledgerId :: "byte list option"
  net_minBackoff :: rat
  net_maxBackoff :: rat
  maxNodeAttempts :: int
  nodeMinReadmitPeriod :: rat
  nodeMaxReadmitPeriod :: rat
  earliestReadmitTime :: rat
  maxNodesPerTransaction :: int
  transportSecurity :: bool

definition new_network :: "(nat \<Rightarrow> ('acc, 'ch) node) \<Rightarrow> rat \<Rightarrow> ('acc, 'ch) net" where
  "new_network s now =
     \<lparr>store = s, next_id = 0, nodes = [], healthyNodes = [], network = [], ledgerId = None,
      net_minBackoff = 8000, net_maxBackoff = 1000 * 60 * 60, maxNodeAttempts = -1,
      nodeMinReadmitPeriod = 8000, nodeMaxReadmitPeriod = 1000 * 60 * 60,
      earliestReadmitTime = now + 8000, maxNodesPerTransaction = -1, transportSecurity = False\<rparr>"

definition set_node :: "nat \<Rightarrow> ('acc, 'ch) node \<Rightarrow> ('acc, 'ch) net \<Rightarrow> ('acc, 'ch) net" where
  "set_node i n N = N\<lparr>store := (store N)(i := n)\<rparr>"

definition getKey :: "('acc \<Rightarrow> string) \<Rightarrow> ('acc, 'ch) net \<Rightarrow> nat \<Rightarrow> string" where
  "getKey key N i = key (accountId (store N i))"

definition node_addr :: "('acc, 'ch) net \<Rightarrow> nat \<Rightarrow> string" where
  "node_addr N i = address_toString (address (store N i))"

section \<open>Closing nodes\<close>

definition removeNodeFromNetwork ::
    "('acc \<Rightarrow> string) \<Rightarrow> nat \<Rightarrow> ('acc, 'ch) net \<Rightarrow> ('acc, 'ch) net result" where
  "removeNodeFromNetwork key n N =
     (case map_of (network N) (getKey key N n) of
        None \<Rightarrow> Inl (TypeError ''Cannot read properties of undefined'')
      | Some l \<Rightarrow>
          let l' = remove1 n l
          in Inr (N\<lparr>network := (if l' = [] then AList.delete (getKey key N n) (network N)
                               else AList.update (getKey key N n) l' (network N))\<rparr>))"

definition closeNode :: "('acc \<Rightarrow> string) \<Rightarrow> nat \<Rightarrow> ('acc, 'ch) net \<Rightarrow> ('acc, 'ch) net result" where
  "closeNode key i N =
     (let n = nodes N ! i
      in res_bind (removeNodeFromNetwork key n (set_node n (node_close (store N n)) N))
           (\<lambda>N'. Inr (N'\<lparr>nodes := splice_one i (nodes N')\<rparr>)))"

fun closeNodes :: "('acc \<Rightarrow> string) \<Rightarrow> nat list \<Rightarrow> ('acc, 'ch) net \<Rightarrow> ('acc, 'ch) net result" where
  "closeNodes key [] N = Inr N"
| "closeNodes key (i # is) N = res_bind (closeNode key i N) (closeNodes key is)"

fun removeDead_from :: "('acc \<Rightarrow> string) \<Rightarrow> nat \<Rightarrow> ('acc, 'ch) net \<Rightarrow> ('acc, 'ch) net result" where
  "removeDead_from key 0 N = Inr N"
| "removeDead_from key (Suc i) N =
     (if badGrpcStatusCount (store N (nodes N ! i)) < maxNodeAttempts N
      then removeDead_from key i N
      else res_bind (closeNode key i N) (removeDead_from key i))"

definition removeDeadNodes :: "('acc \<Rightarrow> string) \<Rightarrow> ('acc, 'ch) net \<Rightarrow> ('acc, 'ch) net result" where
  "removeDeadNodes key N =
     (if 0 < maxNodeAttempts N then removeDead_from key (length (nodes N)) N else Inr N)"

section \<open>Readmission\<close>

definition max_safe_integer :: rat where
  "max_safe_integer = 9007199254740991"

text \<open>The inner loop over the healthy nodes: the next readmission time seen so far, and whether
  the node was found.\<close>

fun scan_healthy :: "bool \<Rightarrow> rat \<Rightarrow> rat \<Rightarrow> nat \<Rightarrow> nat list \<Rightarrow> rat \<Rightarrow> rat \<times> bool" where
  "scan_healthy search now rt n [] next = (next, False)"
| "scan_healthy search now rt n (h # hs) next =
     (let next' = (if search \<and> rt > now then min rt next else next)
      in if n = h then (next', True) else scan_healthy search now rt n hs next')"

fun readmit_loop :: "('acc, 'ch) net \<Rightarrow> rat \<Rightarrow> nat list \<Rightarrow> bool \<Rightarrow> nat list \<Rightarrow> rat \<Rightarrow> nat list \<times> rat" where
  "readmit_loop N now [] search hs next = (hs, next)"
| "readmit_loop N now (n # ns) search hs next =
     (case scan_healthy search now (readmitTime (store N n)) n hs next of
        (next', True) \<Rightarrow> readmit_loop N now ns search hs next'
      | (next', False) \<Rightarrow>
          readmit_loop N now ns False
            (if readmitTime (store N n) \<le> now then hs @ [n] else hs) next')"

definition readmitNodes :: "rat \<Rightarrow> ('acc, 'ch) net \<Rightarrow> ('acc, 'ch) net" where
  "readmitNodes now N =
     (if earliestReadmitTime N \<le> now
      then let (hs, next) = readmit_loop N now (nodes N) True (healthyNodes N) max_safe_integer
           in N\<lparr>healthyNodes := hs,
                earliestReadmitTime :=
                  min (max next (nodeMinReadmitPeriod N)) (nodeMaxReadmitPeriod N)\<rparr>
      else N)"

section \<open>Choosing nodes\<close>

fun pick_nodes :: "(nat \<Rightarrow> string) \<Rightarrow> nat \<Rightarrow> (nat \<Rightarrow> rat) \<Rightarrow> nat list \<Rightarrow> nat list" where
  "pick_nodes k 0 rnd hs = []"
| "pick_nodes k (Suc c) rnd hs =
     (let i = rnd_index (rnd 0) (length hs)
      in if i < length hs
         then hs ! i # pick_nodes k c (\<lambda>j. rnd (Suc j)) (filter (\<lambda>n. k n \<noteq> k (hs ! i)) hs)
         else [])"

definition getNumberOfMostHealthyNodes ::
    "('acc \<Rightarrow> string) \<Rightarrow> nat \<Rightarrow> (nat \<Rightarrow> rat) \<Rightarrow> rat \<Rightarrow> ('acc, 'ch) net \<Rightarrow> (nat list \<times> ('acc, 'ch) net) result" where
  "getNumberOfMostHealthyNodes key cnt rnd now N =
     res_bind (removeDeadNodes key N) (\<lambda>N1.
       let N2 = readmitNodes now N1; hs = healthyNodes N2
       in Inr (pick_nodes (getKey key N2) (min cnt (length hs)) rnd hs, N2))"

definition getNode ::
    "string option \<Rightarrow> (nat \<Rightarrow> rat) \<Rightarrow> rat \<Rightarrow> ('acc, 'ch) net \<Rightarrow> (nat option \<times> ('acc, 'ch) net) result" where
  "getNode k rnd now N =
     (let N' = readmitNodes now N
      in case k of
           Some k \<Rightarrow>
             (case map_of (network N') k of
                Some l \<Rightarrow> Inr (array_get (map Some l) (rnd_index (rnd 0) (length l)), N')
              | None \<Rightarrow>
                  (case array_get (map Some (network N')) (rnd_index (rnd 0) (length (network N'))) of
                     None \<Rightarrow> Inl (TypeError ''Cannot read properties of undefined'')
                   | Some (_, l) \<Rightarrow>
                       Inr (array_get (map Some l) (rnd_index (rnd 1) (length l)), N')))
         | None \<Rightarrow>
             (if healthyNodes N' = []
              then Inl (Error ''failed to find a healthy working node'')
              else Inr (array_get (map Some (healthyNodes N'))
                          (rnd_index (rnd 0) (length (healthyNodes N'))), N')))"

section \<open>Health\<close>

text \<open>The loop of \<open>increaseBackoff\<close> deletes at index \<open>i\<close> and still advances \<open>i\<close>.\<close>

fun splice_matches :: "'a \<Rightarrow> 'a list \<Rightarrow> 'a list" where
  "splice_matches x [] = []"
| "splice_matches x (h # t) =
     (if h = x then (case t of [] \<Rightarrow> [] | u # r \<Rightarrow> u # splice_matches x r)
      else h # splice_matches x t)"

definition net_increaseBackoff :: "nat \<Rightarrow> rat \<Rightarrow> ('acc, 'ch) net \<Rightarrow> ('acc, 'ch) net" where
  "net_increaseBackoff n now N =
     (set_node n (node_increaseBackoff now (store N n)) N)
       \<lparr>healthyNodes := splice_matches n (healthyNodes N)\<rparr>"

definition net_decreaseBackoff :: "nat \<Rightarrow> ('acc, 'ch) net \<Rightarrow> ('acc, 'ch) net" where
  "net_decreaseBackoff n N = set_node n (node_decreaseBackoff (store N n)) N"

definition net_close :: "('acc, 'ch) net \<Rightarrow> ('acc, 'ch) net" where
  "net_close N =
     (fold (\<lambda>n M. set_node n (node_close (store M n)) M) (nodes N) N)\<lparr>network := [], nodes := []\<rparr>"

definition net_setMinBackoff :: "rat \<Rightarrow> ('acc, 'ch) net \<Rightarrow> ('acc, 'ch) net" where
  "net_setMinBackoff b N =
     fold (\<lambda>n M. set_node n (node_setMinBackoff b (store M n)) M) (nodes N) (N\<lparr>net_minBackoff := b\<rparr>)"

definition net_setMaxBackoff :: "rat \<Rightarrow> ('acc, 'ch) net \<Rightarrow> ('acc, 'ch) net" where
  "net_setMaxBackoff b N =
     fold (\<lambda>n M. set_node n (node_setMaxBackoff b (store M n)) M) (nodes N) (N\<lparr>net_maxBackoff := b\<rparr>)"

definition setNodeMinReadmitPeriod :: "rat \<Rightarrow> rat \<Rightarrow> ('acc, 'ch) net \<Rightarrow> ('acc, 'ch) net" where
  "setNodeMinReadmitPeriod p now N =
     N\<lparr>nodeMinReadmitPeriod := p, earliestReadmitTime := now + p\<rparr>"

definition setNodeMaxReadmitPeriod :: "rat \<Rightarrow> ('acc, 'ch) net \<Rightarrow> ('acc, 'ch) net" where
  "setNodeMaxReadmitPeriod p N = N\<lparr>nodeMaxReadmitPeriod := p\<rparr>"

definition setMaxNodeAttempts :: "int \<Rightarrow> ('acc, 'ch) net \<Rightarrow> ('acc, 'ch) net" where
  "setMaxNodeAttempts m N = N\<lparr>maxNodeAttempts := m\<rparr>"

section \<open>Replacing the network\<close>

type_synonym 'acc entries = "(string \<times> 'acc) list"

definition getNodesToRemove :: "('acc \<Rightarrow> string) \<Rightarrow> 'acc entries \<Rightarrow> ('acc, 'ch) net \<Rightarrow> nat list" where
  "getNodesToRemove key es N =
     filter (\<lambda>i. case map_of es (node_addr N (nodes N ! i)) of
                   None \<Rightarrow> True
                 | Some a \<Rightarrow> key a \<noteq> getKey key N (nodes N ! i))
       (rev [0..<length (nodes N)])"

definition createNode :: "string \<times> 'acc \<Rightarrow> rat \<Rightarrow> ('acc, 'ch) net \<Rightarrow> ('acc, 'ch) node result" where
  "createNode e now N =
     res_bind (address_fromString (fst e)) (\<lambda>a.
       Inr (node_setMinBackoff (net_minBackoff N) (new_node a (snd e) now now)))"

fun addNewNodes ::
    "('acc \<Rightarrow> string) \<Rightarrow> string list \<Rightarrow> string list \<Rightarrow> rat \<Rightarrow> 'acc entries \<Rightarrow> nat list \<Rightarrow> ('acc, 'ch) net
     \<Rightarrow> (nat list \<times> ('acc, 'ch) net) result" where
  "addNewNodes key keys addrs now [] new N = Inr (new, N)"
| "addNewNodes key keys addrs now (e # es) new N =
     (if key (snd e) \<in> set keys \<and> fst e \<in> set addrs
      then addNewNodes key keys addrs now es new N
      else res_bind (createNode e now N) (\<lambda>n.
             addNewNodes key keys addrs now es (new @ [next_id N])
               ((set_node (next_id N) n N)\<lparr>next_id := Suc (next_id N)\<rparr>)))"

definition register :: "('acc \<Rightarrow> string) \<Rightarrow> ('acc, 'ch) net \<Rightarrow> nat \<Rightarrow> (string \<times> nat list) list \<Rightarrow> (string \<times> nat list) list" where
  "register key N n m =
     (let l = (case map_of m (getKey key N n) of None \<Rightarrow> [] | Some l \<Rightarrow> l)
      in AList.update (getKey key N n) (l @ [n]) m)"

definition setNetwork ::
    "('acc \<Rightarrow> string) \<Rightarrow> (nat \<Rightarrow> rat) \<Rightarrow> rat \<Rightarrow> 'acc entries \<Rightarrow> ('acc, 'ch) net \<Rightarrow> ('acc, 'ch) net result" where
  "setNetwork key rnd now es N =
     res_bind (closeNodes key (getNodesToRemove key es N) N) (\<lambda>N1.
     res_bind (addNewNodes key (map (getKey key N1) (nodes N1)) (map (node_addr N1) (nodes N1)) now es
                 (nodes N1) N1) (\<lambda>(new, N2).
       let new' = shuffle (length new) rnd new;
           hs = filter (\<lambda>n. isHealthy now (store N2 n)) new'
       in Inr (N2\<lparr>nodes := new', healthyNodes := hs, network := fold (register key N2) hs [],
                  ledgerId := None\<rparr>)))"

text \<open>The public network: an object from addresses to accounts.\<close>

definition network_of :: "('acc, 'ch) net \<Rightarrow> (string \<times> 'acc) list" where
  "network_of N = fold (\<lambda>n m. AList.update (node_addr N n) (accountId (store N n)) m) (nodes N) []"

definition setTransportSecurity ::
    "('acc \<Rightarrow> string) \<Rightarrow> bool \<Rightarrow> ('acc, 'ch) net \<Rightarrow> ('acc, 'ch) net" where
  "setTransportSecurity key ts N =
     (if transportSecurity N = ts then N
      else
        let conv = (\<lambda>n. if ts then node_toSecure n else node_toInsecure n);
            (new, N1) =
              fold (\<lambda>n (acc, M).
                      let c = node_close (store M n);
                          M' = set_node n c M
                      in (acc @ [next_id M'],
                          (set_node (next_id M') (conv c) M')\<lparr>next_id := Suc (next_id M')\<rparr>))
                (nodes N) ([], N)
        in N1\<lparr>nodes := new, network := fold (register key N1) new [], healthyNodes := new,
              transportSecurity := ts\<rparr>)"

definition getNumberOfNodesForTransaction :: "('acc, 'ch) net \<Rightarrow> nat" where
  "getNumberOfNodesForTransaction N =
     (if 0 < maxNodesPerTransaction N then nat (maxNodesPerTransaction N)
      else if length (nodes N) \<le> 9 then length (nodes N)
      else (length (nodes N) + 3 - 1) div 3)"

definition getNodeAccountIdsForExecute ::
    "('acc \<Rightarrow> string) \<Rightarrow> (nat \<Rightarrow> rat) \<Rightarrow> rat \<Rightarrow> ('acc, 'ch) net \<Rightarrow> ('acc list \<times> ('acc, 'ch) net) result" where
  "getNodeAccountIdsForExecute key rnd now N =
     res_bind (getNumberOfMostHealthyNodes key (getNumberOfNodesForTransaction N) rnd now N)
       (\<lambda>(ns, N'). Inr (map (\<lambda>n. accountId (store N' n)) ns, N'))"

section \<open>Address books and mirror networks\<close>

record 'acc book_entry =
  book_account :: "'acc option"
  book_endpoints :: "(string \<times> int) list"

definition network_from_book :: "bool \<Rightarrow> 'acc book_entry list \<Rightarrow> 'acc entries" where
  "network_from_book secure book =
     (let p = (if secure then 50212 else 50211)
      in fold (\<lambda>b m. fold (\<lambda>ep m. case book_account b of
                                Some a \<Rightarrow> if snd ep = p then AList.update (fst ep) a m else m
                              | None \<Rightarrow> m)
                     (book_endpoints b) m) book [])"

definition setNetworkFromAddressBook ::
    "('acc \<Rightarrow> string) \<Rightarrow> (nat \<Rightarrow> rat) \<Rightarrow> rat \<Rightarrow> 'acc book_entry list \<Rightarrow> ('acc, 'ch) net \<Rightarrow> ('acc, 'ch) net result" where
  "setNetworkFromAddressBook key rnd now book N =
     setNetwork key rnd now (network_from_book (transportSecurity N) book) N"

text \<open>
  \<open>MirrorNetwork._getNodesToRemove\<close> asks \<open>Object.values\<close> of a \<open>Map\<close>, which has no enumerable
  properties: \<open>values\<close> is always empty.
\<close>

definition mirror_getNodesToRemove :: "string entries \<Rightarrow> (string, 'ch) net \<Rightarrow> nat list" where
  "mirror_getNodesToRemove es N =
     (let values = []
      in filter (\<lambda>i. node_addr N (nodes N ! i) \<notin> set values) (rev [0..<length (nodes N)]))"

definition getNextMirrorNode ::
    "(nat \<Rightarrow> rat) \<Rightarrow> rat \<Rightarrow> (string, 'ch) net \<Rightarrow> (nat option \<times> (string, 'ch) net) result" where
  "getNextMirrorNode rnd now N =
     res_bind (getNumberOfMostHealthyNodes (\<lambda>a. a) 1 rnd now N)
       (\<lambda>(ns, N'). Inr (array_get (map Some ns) 0, N'))"

end
