(* ===== verification/NetworkLaws.thy ===== *)
theory NetworkLaws
  imports Network
begin

text \<open>
  The laws of the network: closing, replacing, readmitting and choosing nodes. The invariant is
  that the lists hold no node twice, that identities are allocated, that no two nodes share an
  address, and that every node can be found in the map under its account.
\<close>

section \<open>Invariant\<close>

definition registered :: "('acc \<Rightarrow> string) \<Rightarrow> ('acc, 'ch) net \<Rightarrow> nat \<Rightarrow> bool" where
  "registered key N n \<longleftrightarrow> (\<exists>l. map_of (network N) (getKey key N n) = Some l \<and> n \<in> set l)"

definition net_ok :: "('acc, 'ch) net \<Rightarrow> bool" where
  "net_ok N \<longleftrightarrow>
     distinct (nodes N) \<and> (\<forall>n \<in> set (nodes N). n < next_id N) \<and> distinct (map (node_addr N) (nodes N))"

definition net_inv :: "('acc \<Rightarrow> string) \<Rightarrow> ('acc, 'ch) net \<Rightarrow> bool" where
  "net_inv key N \<longleftrightarrow> net_ok N \<and> (\<forall>n \<in> set (nodes N). registered key N n)"

text \<open>Two states agree on what closing never touches.\<close>

definition same_ids :: "('acc, 'ch) net \<Rightarrow> ('acc, 'ch) net \<Rightarrow> bool" where
  "same_ids N M \<longleftrightarrow>
     next_id M = next_id N \<and> net_minBackoff M = net_minBackoff N \<and>
     (\<forall>n. address (store M n) = address (store N n) \<and> accountId (store M n) = accountId (store N n) \<and>
          readmitTime (store M n) = readmitTime (store N n))"

lemma same_ids_refl [simp]: "same_ids N N"
  by (simp add: same_ids_def)

lemma same_ids_trans: "same_ids A B \<Longrightarrow> same_ids B C \<Longrightarrow> same_ids A C"
  by (simp add: same_ids_def)

lemma same_ids_key: "same_ids N M \<Longrightarrow> getKey key M = getKey key N \<and> node_addr M = node_addr N"
  by (auto simp: same_ids_def getKey_def node_addr_def)

section \<open>Closing\<close>

lemma closeNode_ok:
  assumes "net_inv key N" and "i < length (nodes N)"
  obtains M where "closeNode key i N = Inr M" "nodes M = splice_one i (nodes N)"
    "same_ids N M" "net_inv key M"
proof -
  let ?n = "nodes N ! i"
  let ?N1 = "set_node ?n (node_close (store N ?n)) N"
  have s1: "same_ids N ?N1" "nodes ?N1 = nodes N" "network ?N1 = network N"
    by (auto simp: same_ids_def set_node_def node_close_def)
  have dist: "distinct (nodes N)" and lt: "\<forall>n \<in> set (nodes N). n < next_id N"
    and da: "distinct (map (node_addr N) (nodes N))"
    and reg: "\<forall>n \<in> set (nodes N). registered key N n"
    using assms(1) by (auto simp: net_inv_def net_ok_def)
  obtain l where l: "map_of (network N) (getKey key N ?n) = Some l" "?n \<in> set l"
    using reg assms(2) nth_mem unfolding registered_def by blast
  define M where "M = ?N1\<lparr>network := (if remove1 ?n l = [] then AList.delete (getKey key N ?n) (network N)
      else AList.update (getKey key N ?n) (remove1 ?n l) (network N)),
    nodes := splice_one i (nodes N)\<rparr>"
  have close: "closeNode key i N = Inr M"
    using l s1 same_ids_key[OF s1(1)]
    by (simp add: closeNode_def removeNodeFromNetwork_def M_def Let_def)
  have idsM: "same_ids N M"
    using s1(1) by (simp add: M_def same_ids_def)
  have nodesM: "nodes M = splice_one i (nodes N)" by (simp add: M_def)
  have set: "set (nodes M) = set (nodes N) - {?n}"
    using distinct_splice_one(2)[OF dist assms(2)] nodesM by simp
  have "registered key M m" if m: "m \<in> set (nodes M)" for m
  proof -
    from m set have "m \<noteq> ?n" "registered key N m" using reg by auto
    then obtain k where k: "map_of (network N) (getKey key N m) = Some k" "m \<in> set k"
      by (auto simp: registered_def)
    have key: "getKey key M = getKey key N" using same_ids_key[OF idsM] by simp
    show ?thesis
    proof (cases "getKey key N m = getKey key N ?n")
      case True
      then have "m \<in> set (remove1 ?n l)" using k l \<open>m \<noteq> ?n\<close> by (simp add: in_set_remove1)
      then have "remove1 ?n l \<noteq> []" by auto
      with True \<open>m \<in> set (remove1 ?n l)\<close> show ?thesis
        unfolding registered_def key by (simp add: M_def AList.update_conv)
    next
      case False
      with k show ?thesis
        unfolding registered_def key by (simp add: M_def AList.update_conv AList.delete_conv)
    qed
  qed
  moreover have "distinct (map (node_addr M) (nodes M))"
    using da distinct_splice_one(1)[OF dist assms(2)] set same_ids_key[OF idsM]
    by (auto simp: distinct_map nodesM intro: inj_on_subset)
  ultimately have "net_inv key M"
    using distinct_splice_one(1)[OF dist assms(2)] set lt idsM
    by (simp add: net_inv_def net_ok_def nodesM same_ids_def)
  with close nodesM idsM show thesis by (rule that)
qed

text \<open>Deleting at descending indices is filtering.\<close>

lemma closeNodes_filter:
  assumes "net_inv key N" "m \<le> length (nodes N)"
  shows "\<exists>M. closeNodes key (filter (\<lambda>i. P (nodes N ! i)) (rev [0..<m])) N = Inr M \<and>
    nodes M = filter (\<lambda>n. \<not> P n) (take m (nodes N)) @ drop m (nodes N) \<and>
    same_ids N M \<and> net_inv key M"
  using assms
proof (induction m arbitrary: N)
  case 0
  then show ?case by simp
next
  case (Suc m)
  then have m: "m < length (nodes N)" by simp
  have tk: "take (Suc m) (nodes N) = take m (nodes N) @ [nodes N ! m]"
    using m by (rule take_Suc_conv_app_nth)
  have dr: "drop m (nodes N) = nodes N ! m # drop (Suc m) (nodes N)"
    using m by (simp add: Cons_nth_drop_Suc)
  show ?case
  proof (cases "P (nodes N ! m)")
    case False
    with Suc.IH[OF Suc.prems(1)] m tk dr show ?thesis by simp
  next
    case True
    obtain M where M: "closeNode key m N = Inr M" "nodes M = splice_one m (nodes N)"
      "same_ids N M" "net_inv key M"
      using closeNode_ok[OF Suc.prems(1) m] by blast
    have nth: "nodes M ! i = nodes N ! i" if "i < m" for i
      using that m by (simp add: M(2) splice_one_def nth_append)
    have len: "m \<le> length (nodes M)" using m by (simp add: M(2) splice_one_length)
    have pre: "take m (nodes M) = take m (nodes N)" "drop m (nodes M) = drop (Suc m) (nodes N)"
      using m by (simp_all add: M(2) splice_one_def)
    have idx: "filter (\<lambda>i. P (nodes M ! i)) (rev [0..<m]) = filter (\<lambda>i. P (nodes N ! i)) (rev [0..<m])"
      by (rule filter_cong) (auto simp: nth)
    obtain K where K: "closeNodes key (filter (\<lambda>i. P (nodes N ! i)) (rev [0..<m])) M = Inr K"
      "nodes K = filter (\<lambda>n. \<not> P n) (take m (nodes M)) @ drop m (nodes M)"
      "same_ids M K" "net_inv key K"
      using Suc.IH[OF M(4) len] unfolding idx by blast
    have "same_ids N K" using M(3) K(3) by (rule same_ids_trans)
    with True M(1) K pre tk show ?thesis by simp
  qed
qed

section \<open>Adding and registering\<close>

text \<open>Addresses are kept parsed; an entry is canonical when printing gives its text back.\<close>

definition canonical :: "string \<Rightarrow> bool" where
  "canonical s \<longleftrightarrow> (case address_fromString s of Inl _ \<Rightarrow> False | Inr a \<Rightarrow> address_toString a = s)"

lemma createNode_ok:
  assumes "canonical (fst e)"
  obtains n where "createNode e now N = Inr n" "address_toString (address n) = fst e"
    "accountId n = snd e" "readmitTime n = now"
  using assms
  by (auto simp: createNode_def canonical_def new_node_def node_setMinBackoff_def Let_def
      split: sum.splits)

definition entry_of :: "('acc \<Rightarrow> string) \<Rightarrow> ('acc, 'ch) net \<Rightarrow> nat \<Rightarrow> string \<times> string" where
  "entry_of key N n = (node_addr N n, getKey key N n)"

lemma addNewNodes_ok:
  assumes "\<forall>e \<in> set es. canonical (fst e)" "distinct new" "\<forall>n \<in> set new. n < next_id N"
  shows "\<exists>new' M. addNewNodes key ks as now es new N = Inr (new', M) \<and> distinct new' \<and>
    (\<forall>n \<in> set new'. n < next_id M) \<and> (\<forall>n. n < next_id N \<longrightarrow> store M n = store N n) \<and>
    (\<forall>n \<in> set new' - set new. readmitTime (store M n) = now) \<and> set new \<subseteq> set new' \<and>
    map (entry_of key M) new' = map (entry_of key N) new @
      map (apsnd key) (filter (\<lambda>e. \<not> (key (snd e) \<in> set ks \<and> fst e \<in> set as)) es)"
  using assms
proof (induction es arbitrary: new N)
  case Nil
  then show ?case by auto
next
  case (Cons e es)
  show ?case
  proof (cases "key (snd e) \<in> set ks \<and> fst e \<in> set as")
    case True
    with Cons.IH[of new N] Cons.prems show ?thesis by simp
  next
    case False
    obtain n where n: "createNode e now N = Inr n" "address_toString (address n) = fst e"
      "accountId n = snd e" "readmitTime n = now"
      using Cons.prems(1) createNode_ok[of e now N] by (metis list.set_intros(1))
    define K where "K = (set_node (next_id N) n N)\<lparr>next_id := Suc (next_id N)\<rparr>"
    have sK: "store K (next_id N) = n" "\<And>m. m < next_id N \<Longrightarrow> store K m = store N m"
      "next_id K = Suc (next_id N)"
      by (simp_all add: K_def set_node_def)
    have new: "distinct (new @ [next_id N])" "\<forall>m \<in> set (new @ [next_id N]). m < next_id K"
      using Cons.prems(2,3) by (auto simp: sK)
    have eK: "map (entry_of key K) (new @ [next_id N]) = map (entry_of key N) new @ [apsnd key e]"
      using Cons.prems(3) n sK
      by (auto simp: entry_of_def node_addr_def getKey_def apsnd_def map_prod_def split: prod.splits)
    obtain new' M where M: "addNewNodes key ks as now es (new @ [next_id N]) K = Inr (new', M)"
      "distinct new'" "\<forall>m \<in> set new'. m < next_id M" "\<forall>m. m < next_id K \<longrightarrow> store M m = store K m"
      "\<forall>m \<in> set new' - set (new @ [next_id N]). readmitTime (store M m) = now"
      "set (new @ [next_id N]) \<subseteq> set new'"
      "map (entry_of key M) new' = map (entry_of key K) (new @ [next_id N]) @
         map (apsnd key) (filter (\<lambda>e. \<not> (key (snd e) \<in> set ks \<and> fst e \<in> set as)) es)"
      using Cons.IH[of "new @ [next_id N]" K] Cons.prems(1) new by auto
    have "addNewNodes key ks as now (e # es) new N = Inr (new', M)"
      using False n M(1) by (auto simp: K_def)
    moreover have "store M m = store N m" if "m < next_id N" for m
      using M(4) sK that by simp
    moreover have "\<forall>m \<in> set new' - set new. readmitTime (store M m) = now"
      using M(4,5) sK n by auto
    moreover have "map (entry_of key M) new' = map (entry_of key N) new @
      map (apsnd key) (filter (\<lambda>e. \<not> (key (snd e) \<in> set ks \<and> fst e \<in> set as)) (e # es))"
      using M(7) eK False by simp
    ultimately show ?thesis using M(2,3,6) by auto
  qed
qed

text \<open>The map groups the healthy nodes by account, in their order.\<close>

lemma map_of_register:
  "map_of (fold (register key N) ns m) k =
     (let l = filter (\<lambda>n. getKey key N n = k) ns
      in if l = [] then map_of m k
         else Some ((case map_of m k of None \<Rightarrow> [] | Some l \<Rightarrow> l) @ l))"
proof (induction ns arbitrary: m)
  case Nil
  then show ?case by simp
next
  case (Cons n ns)
  have "map_of (register key N n m) k =
    (if getKey key N n = k then Some ((case map_of m k of None \<Rightarrow> [] | Some l \<Rightarrow> l) @ [n]) else map_of m k)"
    by (simp add: register_def Let_def AList.update_conv)
  then show ?case by (simp add: Cons Let_def)
qed

section \<open>Replacing the network\<close>

lemma getNodesToRemove_filter:
  "getNodesToRemove key es N =
     filter (\<lambda>i. (\<lambda>n. map_option key (map_of es (node_addr N n)) \<noteq> Some (getKey key N n)) (nodes N ! i))
       (rev [0..<length (nodes N)])"
  unfolding getNodesToRemove_def by (rule filter_cong) (auto split: option.splits)

lemma kept_entries:
  assumes d: "distinct (map fst es)"
    and ns: "\<forall>n \<in> set ns. map_option key (map_of es (node_addr N n)) = Some (getKey key N n)"
    and dn: "distinct (map (node_addr N) ns)"
  defines "skip \<equiv> \<lambda>e. key (snd e) \<in> set (map (getKey key N) ns) \<and> fst e \<in> set (map (node_addr N) ns)"
  defines "all \<equiv> map (entry_of key N) ns @ map (apsnd key) (filter (\<lambda>e. \<not> skip e) es)"
  shows "set all = set (map (apsnd key) es)" and "distinct (map fst all)"
proof -
  have same: "entry_of key N n = apsnd key e" if "n \<in> set ns" "e \<in> set es" "fst e = node_addr N n" for n e
  proof -
    have "map_of es (node_addr N n) = Some (snd e)"
      using that d by (metis map_of_is_SomeI prod.collapse)
    with ns that show ?thesis by (cases e) (auto simp: entry_of_def)
  qed
  have skip: "skip e \<longleftrightarrow> fst e \<in> node_addr N ` set ns" if "e \<in> set es" for e
    using same[OF _ that] by (cases e) (force simp: skip_def entry_of_def)
  have sub: "entry_of key N n \<in> set (map (apsnd key) es)" if n: "n \<in> set ns" for n
  proof -
    obtain a where "map_of es (node_addr N n) = Some a" "key a = getKey key N n"
      using bspec[OF ns n] by auto
    then have "(node_addr N n, a) \<in> set es" "entry_of key N n = apsnd key (node_addr N n, a)"
      by (auto simp: entry_of_def dest: map_of_SomeD)
    then show ?thesis by (simp only: set_map image_eqI)
  qed
  show "set all = set (map (apsnd key) es)"
  proof
    show "set all \<subseteq> set (map (apsnd key) es)" using sub by (auto simp: all_def)
    show "set (map (apsnd key) es) \<subseteq> set all"
    proof
      fix x assume "x \<in> set (map (apsnd key) es)"
      then obtain e where e: "e \<in> set es" "x = apsnd key e" by auto
      show "x \<in> set all"
      proof (cases "skip e")
        case True
        then obtain n where n: "n \<in> set ns" "fst e = node_addr N n" using skip[OF e(1)] by auto
        have "x = entry_of key N n" using same[OF n(1) e(1) n(2)] e(2) by simp
        then have "x \<in> entry_of key N ` set ns" using n(1) by (rule image_eqI)
        then show ?thesis by (simp add: all_def)
      next
        case False
        with e show ?thesis by (auto simp: all_def)
      qed
    qed
  qed
  have "map fst all = map (node_addr N) ns @ map fst (filter (\<lambda>e. \<not> skip e) es)"
    by (simp add: all_def entry_of_def comp_def)
  moreover have "distinct (map fst (filter (\<lambda>e. \<not> skip e) es))"
    using d by (rule distinct_map_filter)
  moreover have "set (map (node_addr N) ns) \<inter> set (map fst (filter (\<lambda>e. \<not> skip e) es)) = {}"
    using skip by auto
  ultimately show "distinct (map fst all)" using dn by simp
qed

text \<open>Closing the nodes that are not asked for and adding those that are missing leaves one node per entry.\<close>

lemma kept_and_added:
  assumes "net_inv key N" and "distinct (map fst es)" and "\<forall>e \<in> set es. canonical (fst e)"
  obtains N1 new N2 where "closeNodes key (getNodesToRemove key es N) N = Inr N1"
    and "addNewNodes key (map (getKey key N1) (nodes N1)) (map (node_addr N1) (nodes N1)) now es (nodes N1) N1 = Inr (new, N2)"
    and "distinct new" and "\<forall>n \<in> set new. n < next_id N2"
    and "set (map (entry_of key N2) new) = set (map (apsnd key) es)" and "inj_on (node_addr N2) (set new)"
proof -
  let ?P = "\<lambda>n. map_option key (map_of es (node_addr N n)) \<noteq> Some (getKey key N n)"
  obtain N1 where N1: "closeNodes key (getNodesToRemove key es N) N = Inr N1"
    "nodes N1 = filter (\<lambda>n. \<not> ?P n) (nodes N)" "same_ids N N1" "net_inv key N1"
    using closeNodes_filter[OF assms(1) order_refl, of ?P]
    unfolding getNodesToRemove_filter by auto
  have k1: "getKey key N1 = getKey key N" "node_addr N1 = node_addr N"
    using same_ids_key[OF N1(3)] by auto
  have ns: "\<forall>n \<in> set (nodes N1). map_option key (map_of es (node_addr N1 n)) = Some (getKey key N1 n)"
    by (simp add: N1(2) k1)
  have inv1: "distinct (nodes N1)" "\<forall>n \<in> set (nodes N1). n < next_id N1"
    "distinct (map (node_addr N1) (nodes N1))"
    using N1(4) by (auto simp: net_inv_def net_ok_def)
  obtain new N2 where N2: "addNewNodes key (map (getKey key N1) (nodes N1))
      (map (node_addr N1) (nodes N1)) now es (nodes N1) N1 = Inr (new, N2)"
    "distinct new" "\<forall>n \<in> set new. n < next_id N2"
    "map (entry_of key N2) new = map (entry_of key N1) (nodes N1) @
      map (apsnd key) (filter (\<lambda>e. \<not> (key (snd e) \<in> set (map (getKey key N1) (nodes N1)) \<and>
        fst e \<in> set (map (node_addr N1) (nodes N1)))) es)"
    using addNewNodes_ok[OF assms(3) inv1(1,2)] by blast
  note all = kept_entries[OF assms(2) ns inv1(3), folded N2(4)]
  have "inj_on (node_addr N2) (set new)"
    using all(2) by (simp add: comp_def entry_of_def distinct_map)
  then show ?thesis using that N1(1) N2(1-3) all(1) by blast
qed


lemma canonical_print:
  assumes "host a \<noteq> []" "list_all (\<lambda>x. \<not> is_ws x) (host a)" "port a = Some (int p)" "p < 2 ^ 53"
  shows "canonical (address_toString a)"
  using address_print_parse[OF assms] by (simp add: canonical_def)

definition sample_entries :: "string entries" where
  "sample_entries = [(''10.0.0.1:50211'', ''0.0.3''), (''10.0.0.2:50211'', ''0.0.4'')]"

lemma sample_entries_ok: "distinct (map fst sample_entries)" "\<forall>e \<in> set sample_entries. canonical (fst e)"
proof -
  have "canonical ''10.0.0.1:50211'' \<and> canonical ''10.0.0.2:50211''"
    using canonical_print[of "\<lparr>host = ''10.0.0.1'', port = Some 50211\<rparr>" 50211]
      canonical_print[of "\<lparr>host = ''10.0.0.2'', port = Some 50211\<rparr>" 50211]
    by (simp add: address_toString_def show_int_def show_nat.simps is_ws_def is_space_def code_of_def)
  then show "distinct (map fst sample_entries)" "\<forall>e \<in> set sample_entries. canonical (fst e)"
    by (simp_all add: sample_entries_def)
qed

definition empty_net :: "(string, string) net" where
  "empty_net = new_network (\<lambda>_. sample_node) 0"

lemma empty_net_inv: "net_inv (\<lambda>a. a) empty_net"
  by (simp add: empty_net_def new_network_def net_inv_def net_ok_def)


section \<open>Readmission\<close>

lemma scan_healthy_found: "snd (scan_healthy search now rt n hs next) \<longleftrightarrow> n \<in> set hs"
  by (induction hs arbitrary: "next") (auto simp: Let_def)

lemma readmit_loop_nodes:
  "distinct ns \<Longrightarrow> fst (readmit_loop N now ns search hs next)
     = hs @ filter (\<lambda>n. n \<notin> set hs \<and> readmitTime (store N n) \<le> now) ns"
proof (induction ns arbitrary: search hs "next")
  case Nil
  then show ?case by simp
next
  case (Cons n ns)
  let ?scan = "scan_healthy search now (readmitTime (store N n)) n hs next"
  obtain next' found where scan: "?scan = (next', found)" by fastforce
  have found: "found \<longleftrightarrow> n \<in> set hs" using scan_healthy_found scan by (metis snd_conv)
  show ?case
  proof (cases "n \<in> set hs")
    case True
    with Cons scan found show ?thesis by simp
  next
    case False
    have "filter (\<lambda>m. m \<notin> set (hs @ [n]) \<and> readmitTime (store N m) \<le> now) ns
        = filter (\<lambda>m. m \<notin> set hs \<and> readmitTime (store N m) \<le> now) ns"
      using Cons.prems by (intro filter_cong) auto
    with False Cons scan found show ?thesis by simp
  qed
qed

definition due :: "rat \<Rightarrow> ('acc, 'ch) net \<Rightarrow> bool" where
  "due now N \<longleftrightarrow> earliestReadmitTime N \<le> now"

lemma readmitNodes_healthy:
  "distinct (nodes N) \<Longrightarrow> due now N \<Longrightarrow>
   healthyNodes (readmitNodes now N) = healthyNodes N @
     filter (\<lambda>n. n \<notin> set (healthyNodes N) \<and> isHealthy now (store N n)) (nodes N)"
  using readmit_loop_nodes[of "nodes N" N now True "healthyNodes N" max_safe_integer]
  by (auto simp: readmitNodes_def due_def isHealthy_def Let_def split: prod.splits)

lemma readmitNodes_frame [simp]:
  "store (readmitNodes now N) = store N" "nodes (readmitNodes now N) = nodes N"
  "network (readmitNodes now N) = network N" "next_id (readmitNodes now N) = next_id N"
  by (simp_all add: readmitNodes_def split: prod.splits)

lemma readmitNodes_distinct:
  assumes "distinct (nodes N)" "distinct (healthyNodes N)"
  shows "distinct (healthyNodes (readmitNodes now N))"
proof (cases "due now N")
  case True
  with assms show ?thesis by (auto simp: readmitNodes_healthy)
next
  case False
  with assms show ?thesis by (simp add: readmitNodes_def due_def)
qed

text \<open>When readmission is due, it puts exactly the nodes whose backoff has passed back among
the healthy ones, keeps those already there and adds nobody twice; the next readmission time it
computes never exceeds the maximum period, a duration that is compared with the clock: for every
real time of day the next call is due again at once.\<close>

theorem readmission_correct:
  fixes now later :: rat
  assumes "distinct (nodes N)" "distinct (healthyNodes N)" "earliestReadmitTime N \<le> now"
  defines "M \<equiv> readmitNodes now N"
  shows "distinct (healthyNodes M) \<and>
    set (healthyNodes M) = set (healthyNodes N) \<union> {n \<in> set (nodes N). readmitTime (store N n) \<le> now} \<and>
    earliestReadmitTime M \<le> nodeMaxReadmitPeriod M \<and>
    (nodeMaxReadmitPeriod N \<le> later \<longrightarrow> earliestReadmitTime M \<le> later)"
proof -
  have "due now N" using assms by (simp add: due_def)
  moreover have "earliestReadmitTime M \<le> nodeMaxReadmitPeriod M" "nodeMaxReadmitPeriod M = nodeMaxReadmitPeriod N"
    using assms(3) by (simp_all add: M_def readmitNodes_def split: prod.splits)
  ultimately show ?thesis
    using assms(1,2) readmitNodes_distinct[OF assms(1,2), of now]
    by (auto simp: M_def readmitNodes_healthy isHealthy_def)
qed

definition two_nodes :: "(string, string) net" where
  "two_nodes = empty_net\<lparr>nodes := [0, 1], healthyNodes := [1], next_id := 2,
     store := (\<lambda>i. sample_node\<lparr>readmitTime := (if i = 0 then 9000 else 0)\<rparr>)\<rparr>"

theorem readmission_correct_witness:
  "set (healthyNodes (readmitNodes 9000 two_nodes)) = {0, 1}"
proof -
  have "distinct (nodes two_nodes)" "distinct (healthyNodes two_nodes)"
    "earliestReadmitTime two_nodes \<le> 9000"
    by (simp_all add: two_nodes_def empty_net_def new_network_def)
  from readmission_correct[OF this] show ?thesis
    by (auto simp: two_nodes_def)
qed

section \<open>Failing and recovering\<close>

lemma splice_matches_distinct: "distinct xs \<Longrightarrow> splice_matches x xs = filter (\<lambda>y. y \<noteq> x) xs"
proof (induction x xs rule: splice_matches.induct)
  case (1 x)
  then show ?case by simp
next
  case (2 x h t)
  show ?case
  proof (cases "h = x")
    case True
    with 2 show ?thesis
    proof (cases t)
      case (Cons u r)
      have "filter (\<lambda>y. y \<noteq> x) r = r" "u \<noteq> x" using True "2.prems" Cons by (auto intro!: filter_True)
      moreover have "splice_matches x r = filter (\<lambda>y. y \<noteq> x) r"
        using "2.IH"(1)[OF True Cons] "2.prems" Cons by simp
      ultimately show ?thesis using True Cons by simp
    qed simp
  next
    case False
    with 2 show ?thesis by simp
  qed
qed

text \<open>C29: a node that fails leaves the healthy list, no other node does, and it comes back at a
later readmission exactly when its increased backoff has passed.\<close>

theorem failure_and_recovery:
  fixes now later :: rat
  assumes "distinct (nodes N)" "distinct (healthyNodes N)" "n \<in> set (nodes N)"
    and "earliestReadmitTime N \<le> later"
  defines "M \<equiv> net_increaseBackoff n now N"
  shows "set (healthyNodes M) = set (healthyNodes N) - {n} \<and> distinct (healthyNodes M) \<and>
    (\<forall>m. m \<noteq> n \<longrightarrow> store M m = store N m) \<and>
    (n \<in> set (healthyNodes (readmitNodes later M)) \<longleftrightarrow>
       now + min (currentBackoff (store N n) * 2) (nd_maxBackoff (store N n)) \<le> later)"
proof -
  have h: "healthyNodes M = filter (\<lambda>m. m \<noteq> n) (healthyNodes N)"
    using assms(2) by (simp add: M_def net_increaseBackoff_def splice_matches_distinct set_node_def)
  have "due later M" "distinct (nodes M)" "nodes M = nodes N"
    using assms by (simp_all add: M_def due_def net_increaseBackoff_def set_node_def)
  moreover have "store M n = node_increaseBackoff now (store N n)"
    and "\<forall>m. m \<noteq> n \<longrightarrow> store M m = store N m"
    by (simp_all add: M_def net_increaseBackoff_def set_node_def)
  ultimately show ?thesis
    using assms(2,3) h
    by (auto simp: readmitNodes_healthy isHealthy_def node_increaseBackoff_def Let_def)
qed

theorem failure_and_recovery_witness:
  "1 \<notin> set (healthyNodes (net_increaseBackoff 1 0 two_nodes)) \<and>
   1 \<in> set (healthyNodes (readmitNodes 16000 (net_increaseBackoff 1 0 two_nodes)))"
proof -
  have "distinct (nodes two_nodes)" "distinct (healthyNodes two_nodes)" "1 \<in> set (nodes two_nodes)"
    "earliestReadmitTime two_nodes \<le> 16000"
    by (simp_all add: two_nodes_def empty_net_def new_network_def)
  from failure_and_recovery[OF this, of 0] show ?thesis
    by (simp add: two_nodes_def sample_node_def new_node_def)
qed

section \<open>Choosing nodes\<close>

lemma pick_nodes_props:
  assumes "rnd_ok rnd"
  shows "set (pick_nodes k c rnd hs) \<subseteq> set hs \<and> distinct (map k (pick_nodes k c rnd hs)) \<and>
    length (pick_nodes k c rnd hs) = min c (card (k ` set hs))"
  using assms
proof (induction c arbitrary: rnd hs)
  case 0
  then show ?case by simp
next
  case (Suc c)
  show ?case
  proof (cases "hs = []")
    case True
    then show ?thesis by (simp add: rnd_index_def)
  next
    case False
    let ?i = "rnd_index (rnd 0) (length hs)"
    let ?x = "hs ! ?i" and ?fs = "filter (\<lambda>n. k n \<noteq> k (hs ! rnd_index (rnd 0) (length hs))) hs"
    have i: "?i < length hs" using False Suc.prems by (intro rnd_ok_pick) simp_all
    have IH: "set (pick_nodes k c (\<lambda>j. rnd (Suc j)) ?fs) \<subseteq> set ?fs"
      "distinct (map k (pick_nodes k c (\<lambda>j. rnd (Suc j)) ?fs))"
      "length (pick_nodes k c (\<lambda>j. rnd (Suc j)) ?fs) = min c (card (k ` set ?fs))"
      using Suc.IH[OF rnd_ok_shift[OF Suc.prems]] by blast+
    have "k ` set ?fs = k ` set hs - {k ?x}" by auto
    moreover have "k ?x \<in> k ` set hs" using i by simp
    ultimately have "card (k ` set hs) = Suc (card (k ` set ?fs))"
      by (metis List.finite_set card_Suc_Diff1 finite_imageI)
    moreover have "?x \<in> set hs" using i by simp
    ultimately show ?thesis
      using i IH by (auto simp: Let_def)
  qed
qed

lemma removeDead_from_none:
  "\<forall>n \<in> set (nodes N). badGrpcStatusCount (store N n) < maxNodeAttempts N \<Longrightarrow> i \<le> length (nodes N) \<Longrightarrow>
   removeDead_from key i N = Inr N"
  by (induction i) auto

text \<open>
  Nothing in the program increments \<open>_badGrpcStatusCount\<close>, so with a positive limit no node is
  ever dead.
\<close>

lemma removeDeadNodes_none:
  "\<forall>n \<in> set (nodes N). badGrpcStatusCount (store N n) = 0 \<Longrightarrow> removeDeadNodes key N = Inr N"
  by (auto simp: removeDeadNodes_def intro: removeDead_from_none)

text \<open>The nodes a transaction is prepared for are healthy, belong to different accounts, and
their number is the requested one or, if there are fewer, the number of accounts with a healthy
node; an unconfigured client asks for all nodes up to nine and for a third, rounded up, beyond.\<close>

theorem execute_nodes_distinct:
  assumes "\<forall>n \<in> set (nodes N). badGrpcStatusCount (store N n) = 0" and "rnd_ok rnd"
  shows "\<exists>ns M. getNumberOfMostHealthyNodes key cnt rnd now N = Inr (ns, M) \<and>
    set ns \<subseteq> set (healthyNodes M) \<and> distinct (map (getKey key M) ns) \<and>
    length ns = min cnt (card (getKey key M ` set (healthyNodes M))) \<and>
    getNodeAccountIdsForExecute key rnd now N = 
      res_bind (getNumberOfMostHealthyNodes key (getNumberOfNodesForTransaction N) rnd now N)
        (\<lambda>(ns, M). Inr (map (\<lambda>n. accountId (store M n)) ns, M)) \<and>
    (maxNodesPerTransaction N \<le> 0 \<longrightarrow> 9 < length (nodes N) \<longrightarrow>
       getNumberOfNodesForTransaction N = ceil_div (length (nodes N)) 3)"
proof -
  let ?M = "readmitNodes now N"
  have "card (getKey key ?M ` set (healthyNodes ?M)) \<le> length (healthyNodes ?M)"
    by (metis List.finite_set card_image_le card_length le_trans)
  then show ?thesis
    using pick_nodes_props[OF assms(2), of "getKey key ?M" "min cnt (length (healthyNodes ?M))" "healthyNodes ?M"]
    by (auto simp: getNumberOfMostHealthyNodes_def removeDeadNodes_none[OF assms(1)] Let_def
        getNodeAccountIdsForExecute_def getNumberOfNodesForTransaction_def ceil_div_def)
qed

theorem execute_nodes_distinct_witness:
  "\<exists>ns M. getNumberOfMostHealthyNodes (\<lambda>a. a) 5 (\<lambda>_. 1/2) 0 two_nodes = Inr (ns, M) \<and> length ns \<le> 5"
proof -
  have "\<forall>n \<in> set (nodes two_nodes). badGrpcStatusCount (store two_nodes n) = 0"
    by (simp add: two_nodes_def empty_net_def new_network_def sample_node_def new_node_def)
  moreover have "rnd_ok (\<lambda>_. 1/2)" by (simp add: rnd_ok_def)
  ultimately show ?thesis
    using execute_nodes_distinct[of two_nodes "\<lambda>_. 1/2" "\<lambda>a. a" 5 0] by fastforce
qed

section \<open>Where the code does not do what it means to\<close>

text \<open>A mirror network replaces every node on every update, also those that stay.\<close>

lemma mirror_removes_all: "mirror_getNodesToRemove es N = rev [0..<length (nodes N)]"
  by (simp add: mirror_getNodesToRemove_def)

text \<open>
  A node that is in backoff while the network is replaced stays in the list of nodes but is not
  put into the map; removing it in a later replacement throws a \<open>TypeError\<close>.
\<close>

lemma unregistered_close_throws:
  "map_of (network N) (getKey key N (nodes N ! i)) = None \<Longrightarrow>
   closeNode key i N = Inl (TypeError ''Cannot read properties of undefined'')"
  by (simp add: closeNode_def removeNodeFromNetwork_def set_node_def node_close_def getKey_def)

text \<open>Asked for an account that is not in the map, \<open>getNode\<close> answers with some other account's node.\<close>

lemma getNode_unknown_key:
  assumes "map_of (network N) k = None" and "getNode (Some k) rnd now N = Inr (Some n, M)"
  shows "\<exists>k' l. (k', l) \<in> set (network N) \<and> k' \<noteq> k \<and> n \<in> set l"
proof -
  obtain k' l where kl: "array_get (map Some (network N)) (rnd_index (rnd 0) (length (network N))) = Some (k', l)"
    and n: "array_get (map Some l) (rnd_index (rnd 1) (length l)) = Some n"
    using assms by (auto simp: getNode_def split: option.splits)
  have "(k', l) \<in> set (network N)" using kl by (auto split: if_splits) (metis nth_mem)
  moreover have "n \<in> set l" using n by (auto split: if_splits)
  moreover have "k' \<noteq> k" using assms(1) \<open>(k', l) \<in> set (network N)\<close> by (force simp: map_of_eq_None_iff)
  ultimately show ?thesis by blast
qed

end
