(* ===== verification/Grpc.thy ===== *)
theory Grpc
  imports Longs
begin

text \<open>
  The errors of a call to a node: the status codes of \<open>src/grpc/GrpcStatus.js\<close>, the
  conversion of what the transport throws in \<open>src/grpc/GrpcServiceError.js\<close>, and
  \<open>_shouldRetryExceptionally\<close> of \<open>src/Executable.js\<close>, which decides whether a failed call is
  repeated on another node.
\<close>

section \<open>Status codes\<close>

datatype grpc_status =
    GOk | Cancelled | GUnknown | InvalidArgument | DeadlineExceeded | NotFound | AlreadyExists
  | PermissionDenied | ResourceExhausted | FailedPrecondition | Aborted | OutOfRange
  | Unimplemented | Internal | Unavailable | DataLoss | Unauthenticated | Timeout | GrpcWeb

primrec grpc_code :: "grpc_status \<Rightarrow> nat" where
  "grpc_code GOk = 0"
| "grpc_code Cancelled = 1"
| "grpc_code GUnknown = 2"
| "grpc_code InvalidArgument = 3"
| "grpc_code DeadlineExceeded = 4"
| "grpc_code NotFound = 5"
| "grpc_code AlreadyExists = 6"
| "grpc_code PermissionDenied = 7"
| "grpc_code ResourceExhausted = 8"
| "grpc_code FailedPrecondition = 9"
| "grpc_code Aborted = 10"
| "grpc_code OutOfRange = 11"
| "grpc_code Unimplemented = 12"
| "grpc_code Internal = 13"
| "grpc_code Unavailable = 14"
| "grpc_code DataLoss = 15"
| "grpc_code Unauthenticated = 16"
| "grpc_code Timeout = 17"
| "grpc_code GrpcWeb = 18"

definition grpc_fromValue :: "int \<Rightarrow> grpc_status result" where
  "grpc_fromValue c =
     (if c = 0 then Inr GOk
      else if c = 1 then Inr Cancelled
      else if c = 2 then Inr GUnknown
      else if c = 3 then Inr InvalidArgument
      else if c = 4 then Inr DeadlineExceeded
      else if c = 5 then Inr NotFound
      else if c = 6 then Inr AlreadyExists
      else if c = 7 then Inr PermissionDenied
      else if c = 8 then Inr ResourceExhausted
      else if c = 9 then Inr FailedPrecondition
      else if c = 10 then Inr Aborted
      else if c = 11 then Inr OutOfRange
      else if c = 12 then Inr Unimplemented
      else if c = 13 then Inr Internal
      else if c = 14 then Inr Unavailable
      else if c = 15 then Inr DataLoss
      else if c = 16 then Inr Unauthenticated
      else if c = 17 then Inr Timeout
      else if c = 18 then Inr GrpcWeb
      else Inl (Error ''(BUG) non-exhaustive GrpcStatus switch statement''))"

primrec grpc_toString :: "grpc_status \<Rightarrow> string" where
  "grpc_toString GOk = ''OK''"
| "grpc_toString Cancelled = ''CANCELLED''"
| "grpc_toString GUnknown = ''UNKNOWN''"
| "grpc_toString InvalidArgument = ''INVALID_ARGUMENT''"
| "grpc_toString DeadlineExceeded = ''DEADLINE_EXCEEDED''"
| "grpc_toString NotFound = ''NOT_FOUND''"
| "grpc_toString AlreadyExists = ''ALREADY_EXISTS''"
| "grpc_toString PermissionDenied = ''PERMISSION_DENIED''"
| "grpc_toString ResourceExhausted = ''RESOURCE_EXHAUSTED''"
| "grpc_toString FailedPrecondition = ''FAILED_PRECONDITION''"
| "grpc_toString Aborted = ''ABORTED''"
| "grpc_toString OutOfRange = ''OUT_OF_RANGE''"
| "grpc_toString Unimplemented = ''UNIMPLEMENTED''"
| "grpc_toString Internal = ''INTERNAL''"
| "grpc_toString Unavailable = ''UNAVAILABLE''"
| "grpc_toString DataLoss = ''DATA_LOSS''"
| "grpc_toString Unauthenticated = ''UNAUTHENTICATED''"
| "grpc_toString Timeout = ''TIMEOUT''"
| "grpc_toString GrpcWeb = ''GRPC_WEB''"

text \<open>Statuses are ordered by their code.\<close>

lemma grpc_code_inj: "grpc_code s = grpc_code t \<Longrightarrow> s = t"
  by (cases s; cases t) simp_all

instantiation grpc_status :: linorder
begin

definition less_eq_grpc_status :: "grpc_status \<Rightarrow> grpc_status \<Rightarrow> bool" where
  "less_eq_grpc_status s t \<longleftrightarrow> grpc_code s \<le> grpc_code t"

definition less_grpc_status :: "grpc_status \<Rightarrow> grpc_status \<Rightarrow> bool" where
  "less_grpc_status s t \<longleftrightarrow> grpc_code s < grpc_code t"

instance
  by standard (auto simp: less_eq_grpc_status_def less_grpc_status_def dest: grpc_code_inj)

end

lemma grpc_fromValue_code: "grpc_fromValue (int (grpc_code s)) = Inr s"
  by (cases s) (simp_all add: grpc_fromValue_def)

lemma code_cases:
  "0 \<le> c \<Longrightarrow> c \<le> 18 \<Longrightarrow> \<exists>s. c = int (grpc_code s)"
proof -
  assume "0 \<le> c" "c \<le> 18"
  then have "c \<in> set (map int [0..<19])" by (auto simp: image_iff intro!: bexI[of _ "nat c"])
  also have "set (map int [0..<19]) = int ` grpc_code ` {GOk, Cancelled, GUnknown, InvalidArgument,
      DeadlineExceeded, NotFound, AlreadyExists, PermissionDenied, ResourceExhausted,
      FailedPrecondition, Aborted, OutOfRange, Unimplemented, Internal, Unavailable, DataLoss,
      Unauthenticated, Timeout, GrpcWeb}"
    by (simp add: eval_nat_numeral insert_commute)
  finally show ?thesis by blast
qed

lemma grpc_fromValue_range: "is_ok (grpc_fromValue c) \<longleftrightarrow> 0 \<le> c \<and> c \<le> 18"
proof
  assume "is_ok (grpc_fromValue c)"
  then show "0 \<le> c \<and> c \<le> 18" by (auto simp: grpc_fromValue_def split: if_splits)
next
  assume "0 \<le> c \<and> c \<le> 18"
  then obtain s where "c = int (grpc_code s)" using code_cases by blast
  then show "is_ok (grpc_fromValue c)" by (simp add: grpc_fromValue_code)
qed

section \<open>What a call throws\<close>

text \<open>
  \<open>CodedError\<close> is any error object with \<open>code\<close> and \<open>details\<close>, as gRPC libraries throw;
  \<open>SdkGrpcError\<close> and \<open>SdkHttpError\<close> are the error classes of the SDK, with their message.
\<close>

datatype raw_error =
    CodedError int string
  | SdkGrpcError grpc_status string
  | SdkHttpError int
  | PlainError js_error

definition grpc_message :: "grpc_status \<Rightarrow> string" where
  "grpc_message s =
     ''gRPC service failed with: Status: '' @ grpc_toString s @ '', Code: '' @ show_nat (grpc_code s)"

fun fromResponse :: "raw_error \<Rightarrow> raw_error result" where
  "fromResponse (CodedError c details) =
     res_bind (grpc_fromValue c) (\<lambda>s. Inr (SdkGrpcError s (grpc_message s @ '': '' @ details)))"
| "fromResponse e = Inr e"

fun js_of_raw :: "raw_error \<Rightarrow> js_error" where
  "js_of_raw (CodedError c details) = Error details"
| "js_of_raw (SdkGrpcError s msg) = GrpcServiceError (int (grpc_code s)) msg"
| "js_of_raw (SdkHttpError c) = HttpError c"
| "js_of_raw (PlainError e) = e"

section \<open>Which failures are retried\<close>

text \<open>\<open>RST_STREAM\<close>: \<open>/\brst[^0-9a-zA-Z]stream\b/i\<close>.\<close>

definition is_alnum :: "char \<Rightarrow> bool" where
  "is_alnum c \<longleftrightarrow> (48 \<le> code_of c \<and> code_of c \<le> 57) \<or> (65 \<le> code_of c \<and> code_of c \<le> 90) \<or>
     (97 \<le> code_of c \<and> code_of c \<le> 122)"

definition is_word_char :: "char \<Rightarrow> bool" where
  "is_word_char c \<longleftrightarrow> is_alnum c \<or> c = CHR ''_''"

definition ascii_lower :: "char \<Rightarrow> char" where
  "ascii_lower c = (if 65 \<le> code_of c \<and> code_of c \<le> 90 then char_of (code_of c + 32) else c)"

definition rst_here :: "string \<Rightarrow> bool" where
  "rst_here s \<longleftrightarrow>
     10 \<le> length s \<and> map ascii_lower (take 3 s) = ''rst'' \<and> \<not> is_alnum (s ! 3) \<and>
     map ascii_lower (take 6 (drop 4 s)) = ''stream'' \<and>
     (case drop 10 s of [] \<Rightarrow> True | c # _ \<Rightarrow> \<not> is_word_char c)"

fun rst_search :: "bool \<Rightarrow> string \<Rightarrow> bool" where
  "rst_search after_word [] = False"
| "rst_search after_word (c # cs) =
     ((\<not> after_word \<and> rst_here (c # cs)) \<or> rst_search (is_word_char c) cs)"

definition rst_stream :: "string \<Rightarrow> bool" where
  "rst_stream s = rst_search False s"

fun shouldRetryExceptionally :: "raw_error \<Rightarrow> bool" where
  "shouldRetryExceptionally (SdkGrpcError s msg) =
     (grpc_code s = grpc_code Timeout \<or> grpc_code s = grpc_code Unavailable \<or>
      grpc_code s = grpc_code ResourceExhausted \<or> grpc_code s = grpc_code GrpcWeb \<or>
      (grpc_code s = grpc_code Internal \<and> rst_stream msg))"
| "shouldRetryExceptionally e = True"

definition retried_error :: "raw_error \<Rightarrow> bool" where
  "retried_error e \<longleftrightarrow>
     (case e of SdkGrpcError _ _ \<Rightarrow> shouldRetryExceptionally e
      | SdkHttpError _ \<Rightarrow> shouldRetryExceptionally e
      | _ \<Rightarrow> False)"

text \<open>The search finds an occurrence at a word boundary, wherever it is.\<close>

lemma rst_search_iff:
  "rst_search w s \<longleftrightarrow>
     (\<exists>pre suf. s = pre @ suf \<and> rst_here suf \<and>
        (case rev pre of [] \<Rightarrow> \<not> w | c # _ \<Rightarrow> \<not> is_word_char c))"
proof (induction s arbitrary: w)
  case Nil
  then show ?case by (auto simp: rst_here_def)
next
  case (Cons c cs)
  have "(\<exists>pre suf. c # cs = pre @ suf \<and> rst_here suf \<and>
          (case rev pre of [] \<Rightarrow> \<not> w | x # _ \<Rightarrow> \<not> is_word_char x)) \<longleftrightarrow>
        (\<not> w \<and> rst_here (c # cs)) \<or>
        (\<exists>pre suf. cs = pre @ suf \<and> rst_here suf \<and>
          (case rev pre @ [c] of [] \<Rightarrow> \<not> w | x # _ \<Rightarrow> \<not> is_word_char x))" (is "?L = (?A \<or> ?B)")
  proof
    assume ?L
    then obtain pre suf where ps: "c # cs = pre @ suf" "rst_here suf"
      "case rev pre of [] \<Rightarrow> \<not> w | x # _ \<Rightarrow> \<not> is_word_char x" by blast
    then show "?A \<or> ?B" by (cases pre) auto
  next
    assume "?A \<or> ?B"
    then show ?L
    proof
      assume ?A
      then show ?L by (intro exI[of _ "[]"] exI[of _ "c # cs"]) simp
    next
      assume ?B
      then obtain pre suf where "cs = pre @ suf" "rst_here suf"
        "case rev pre @ [c] of [] \<Rightarrow> \<not> w | x # _ \<Rightarrow> \<not> is_word_char x" by blast
      then show ?L by (intro exI[of _ "c # pre"] exI[of _ suf]) simp
    qed
  qed
  moreover have "(case rev pre @ [c] of [] \<Rightarrow> \<not> w | x # _ \<Rightarrow> \<not> is_word_char x)
    = (case rev pre of [] \<Rightarrow> \<not> is_word_char c | x # _ \<Rightarrow> \<not> is_word_char x)" for pre
    by (cases "rev pre") simp_all
  ultimately show ?case by (simp add: Cons.IH)
qed

text \<open>What is retried. A coded failure of the transport is repeated exactly for the statuses
unavailable, resource exhausted and the two of the SDK's own (17 timeout, 18 grpc-web), and for an
internal error whose details speak of a reset stream; an unknown code is a bug report, and a plain
error, the request's own deadline among them, is never repeated.\<close>

theorem retry_policy:
  shows "(c \<in> {8, 14, 17, 18} \<longrightarrow> (\<exists>e. fromResponse (CodedError c d) = Inr e \<and> retried_error e)) \<and>
    (c \<in> {0..18} - {8, 13, 14, 17, 18} \<longrightarrow>
       (\<exists>e. fromResponse (CodedError c d) = Inr e \<and> \<not> retried_error e)) \<and>
    (\<exists>e. fromResponse (CodedError 13 d) = Inr e \<and>
       (retried_error e \<longleftrightarrow> rst_stream (grpc_message Internal @ '': '' @ d))) \<and>
    (c < 0 \<or> 18 < c \<longrightarrow> fromResponse (CodedError c d)
       = Inl (Error ''(BUG) non-exhaustive GrpcStatus switch statement'')) \<and>
    \<not> retried_error (PlainError err) \<and> retried_error (SdkHttpError code)"
proof (intro conjI impI)
  show "\<exists>e. fromResponse (CodedError c d) = Inr e \<and> retried_error e" if "c \<in> {8, 14, 17, 18}"
    using that by (auto simp: retried_error_def grpc_fromValue_def)
  show "\<exists>e. fromResponse (CodedError c d) = Inr e \<and> \<not> retried_error e"
    if "c \<in> {0..18} - {8, 13, 14, 17, 18}"
  proof -
    have "0 \<le> c \<and> c \<le> 18 \<and> c \<noteq> 8 \<and> c \<noteq> 13 \<and> c \<noteq> 14 \<and> c \<noteq> 17 \<and> c \<noteq> 18" using that by auto
    moreover from this obtain s where "c = int (grpc_code s)" using code_cases by blast
    ultimately have "grpc_fromValue c = Inr s \<and> grpc_code s \<notin> {8, 13, 14, 17, 18}"
      by (auto simp: grpc_fromValue_code)
    then show ?thesis by (auto simp: retried_error_def)
  qed
  show "\<exists>e. fromResponse (CodedError 13 d) = Inr e \<and>
       (retried_error e \<longleftrightarrow> rst_stream (grpc_message Internal @ '': '' @ d))"
    by (simp add: grpc_fromValue_def retried_error_def)
  show "fromResponse (CodedError c d) = Inl (Error ''(BUG) non-exhaustive GrpcStatus switch statement'')"
    if "c < 0 \<or> 18 < c"
    using that by (auto simp: grpc_fromValue_def)
  show "\<not> retried_error (PlainError err)" "retried_error (SdkHttpError code)"
    by (simp_all add: retried_error_def)
qed

theorem retry_policy_witness:
  "(\<exists>e. fromResponse (CodedError 14 ''no'') = Inr e \<and> retried_error e) \<and>
   (\<exists>e. fromResponse (CodedError 4 ''late'') = Inr e \<and> \<not> retried_error e)"
  using retry_policy[of 14 "''no''"] retry_policy[of 4 "''late''"] by auto

end
