(* ===== verification/Execute.thy ===== *)
theory Execute
  imports NetworkLaws JsList Grpc
begin

text \<open>
  The executor of \<open>src/Executable.js\<close>: every transaction and query is sent by the retry
  loop of \<open>execute\<close>. What differs between requests, the abstract methods of the class, is a
  record of functions; \<open>'st\<close> is the state of the subclass, which they read and may change.
  The world is an \<open>attempt_env\<close> per attempt: what the clock showed at the start of the attempt,
  when the health of the node was asked for and when the call was over, the random numbers, and
  what the node answered or the transport threw, after which time. Logging is left out.
\<close>

section \<open>State\<close>

datatype exec_state = Finished | Retry | ExecError

record ('acc, 'st, 'req, 'resp, 'out) request_ops =
  makeRequest :: "'acc jslist \<Rightarrow> 'st \<Rightarrow> ('req \<times> 'acc jslist \<times> 'st) result"
  shouldRetry :: "'st \<Rightarrow> 'req \<Rightarrow> 'resp \<Rightarrow> string \<times> exec_state \<times> 'st"
  mapResponse :: "'st \<Rightarrow> 'resp \<Rightarrow> 'acc option \<Rightarrow> 'req \<Rightarrow> 'out result \<times> 'st"
  mapStatusError :: "'st \<Rightarrow> 'req \<Rightarrow> 'resp \<Rightarrow> 'acc option \<Rightarrow> js_error"

record 'resp attempt_env =
  clk_start :: rat
  clk_health :: rat
  clk_done :: rat
  rand :: "nat \<Rightarrow> rat"
  latency :: rat
  answer :: "raw_error + 'resp"

record ('acc, 'ch) client =
  key_of :: "'acc \<Rightarrow> string"
  openChannel :: "string \<Rightarrow> string option \<Rightarrow> 'ch"
  client_maxAttempts :: "nat option"
  client_minBackoff :: rat
  client_maxBackoff :: rat
  client_requestTimeout :: "rat option"

datatype persistent = NoError | LastError raw_error | LastStatus string

text \<open>
  The trace of the calls made (attempt, account, node, request, the state of the request and the
  node's readmission time when it was used) and the list of delays are not fields of the class: they record what
  \<open>_execute\<close> and \<open>setTimeout\<close> were called with.
\<close>

record ('acc, 'st, 'req) call =
  at_attempt :: nat
  to_account :: "'acc option"
  to_node :: nat
  with_request :: 'req
  with_state :: 'st
  readmit_at :: rat

record ('acc, 'ch, 'st, 'req) exec =
  x_net :: "('acc, 'ch) net"
  x_nodes :: "'acc jslist"
  x_sub :: 'st
  x_maxAttempts :: nat
  x_minBackoff :: "rat option"
  x_maxBackoff :: "rat option"
  x_requestTimeout :: "rat option"
  x_grpcDeadline :: "rat option"
  transactionNodeIds :: "string list"
  x_last :: persistent
  calls :: "('acc, 'st, 'req) call list"
  delays :: "rat list"

definition new_exec :: "('acc, 'ch) net \<Rightarrow> 'st \<Rightarrow> ('acc, 'ch, 'st, 'req) exec" where
  "new_exec N s =
     \<lparr>x_net = N, x_nodes = new_list, x_sub = s, x_maxAttempts = 10, x_minBackoff = None,
      x_maxBackoff = Some 8000, x_requestTimeout = None, x_grpcDeadline = None,
      transactionNodeIds = [], x_last = NoError, calls = [], delays = []\<rparr>"

definition get_nodeAccountIds :: "('acc, 'ch, 'st, 'req) exec \<Rightarrow> 'acc option list option \<times> ('acc, 'ch, 'st, 'req) exec" where
  "get_nodeAccountIds S =
     (if list_isEmpty (x_nodes S) then (None, S)
      else (Some (items (x_nodes S)), S\<lparr>x_nodes := setLocked (x_nodes S)\<rparr>))"

definition setNodeAccountIds :: "'acc list \<Rightarrow> ('acc, 'ch, 'st, 'req) exec \<Rightarrow> ('acc, 'ch, 'st, 'req) exec result" where
  "setNodeAccountIds ids S =
     res_bind (setList (map Some ids) (x_nodes S)) (\<lambda>l. Inr (S\<lparr>x_nodes := setLocked l\<rparr>))"

definition setMaxAttempts :: "nat \<Rightarrow> ('acc, 'ch, 'st, 'req) exec \<Rightarrow> ('acc, 'ch, 'st, 'req) exec" where
  "setMaxAttempts n S = S\<lparr>x_maxAttempts := n\<rparr>"

definition setGrpcDeadline :: "rat option \<Rightarrow> ('acc, 'ch, 'st, 'req) exec \<Rightarrow> ('acc, 'ch, 'st, 'req) exec" where
  "setGrpcDeadline d S = S\<lparr>x_grpcDeadline := d\<rparr>"

definition exec_setMinBackoff :: "rat option \<Rightarrow> ('acc, 'ch, 'st, 'req) exec \<Rightarrow> ('acc, 'ch, 'st, 'req) exec result" where
  "exec_setMinBackoff b S =
     (case b of
        None \<Rightarrow> Inl (Error ''minBackoff cannot be null.'')
      | Some m \<Rightarrow>
          if (case x_maxBackoff S of None \<Rightarrow> False | Some x \<Rightarrow> m > x)
          then Inl (Error ''minBackoff cannot be larger than maxBackoff.'')
          else Inr (S\<lparr>x_minBackoff := b\<rparr>))"

definition exec_setMaxBackoff :: "rat option \<Rightarrow> ('acc, 'ch, 'st, 'req) exec \<Rightarrow> ('acc, 'ch, 'st, 'req) exec result" where
  "exec_setMaxBackoff b S =
     (case b of
        None \<Rightarrow> Inl (Error ''maxBackoff cannot be null.'')
      | Some m \<Rightarrow>
          if (case x_minBackoff S of None \<Rightarrow> False | Some x \<Rightarrow> m < x)
          then Inl (Error ''maxBackoff cannot be smaller than minBackoff.'')
          else Inr (S\<lparr>x_maxBackoff := b\<rparr>))"

section \<open>One attempt\<close>

datatype ('s, 'o) step_result = Again 's | Stop "'o result" 's

definition undefined_error :: js_error where
  "undefined_error = TypeError ''Cannot read properties of undefined''"

definition current_text :: "('acc \<Rightarrow> string) \<Rightarrow> 'acc jslist \<Rightarrow> string result" where
  "current_text key l =
     (case list_current l of None \<Rightarrow> Inl undefined_error | Some a \<Rightarrow> Inr (key a))"

definition timeout_error :: "('acc \<Rightarrow> string) \<Rightarrow> 'acc jslist \<Rightarrow> js_error" where
  "timeout_error key l =
     (if list_isEmpty l
      then MaxAttemptsOrTimeoutError ''timeout exceeded'' ''No node account ID set''
      else case current_text key l of
             Inl e \<Rightarrow> e
           | Inr s \<Rightarrow> MaxAttemptsOrTimeoutError ''timeout exceeded'' s)"

text \<open>
  Which account the attempt goes to and the node that serves it: a list without nodes is filled
  with the account of a random healthy node.
\<close>

definition choose_node ::
    "('acc, 'ch) client \<Rightarrow> 'resp attempt_env \<Rightarrow> ('acc, 'ch, 'st, 'req) exec
     \<Rightarrow> ('acc option \<times> nat option \<times> ('acc, 'ch, 'st, 'req) exec) result" where
  "choose_node C v S =
     (if list_isEmpty (x_nodes S)
      then res_bind (getNode None (rand v) (clk_start v) (x_net S)) (\<lambda>(n, N).
             case n of
               None \<Rightarrow> Inl undefined_error
             | Some i \<Rightarrow>
                 let a = Some (accountId (store N i))
                 in res_bind (setList [a] (x_nodes S)) (\<lambda>l.
                      Inr (a, Some i, S\<lparr>x_net := N, x_nodes := l\<rparr>)))
      else let a = list_current (x_nodes S)
           in res_bind (getNode (map_option (key_of C) a) (rand v) (clk_start v) (x_net S))
                (\<lambda>(n, N). Inr (a, n, S\<lparr>x_net := N\<rparr>)))"

text \<open>The race of the call with the deadline of the request.\<close>

definition race :: "rat option \<Rightarrow> 'resp attempt_env \<Rightarrow> raw_error + 'resp" where
  "race deadline v =
     (case deadline of
        None \<Rightarrow> answer v
      | Some d \<Rightarrow> if d \<le> latency v then Inl (PlainError (Error ''grpc deadline exceeded''))
                 else answer v)"

definition delayForAttempt :: "bool \<Rightarrow> nat \<Rightarrow> rat \<Rightarrow> rat \<Rightarrow> rat" where
  "delayForAttempt isLocal n lo hi =
     (if isLocal then lo else min (of_int \<lfloor>lo * 2 ^ n\<rfloor>) hi)"

definition handle_failure ::
    "nat \<Rightarrow> 'resp attempt_env \<Rightarrow> raw_error \<Rightarrow> ('acc, 'ch, 'st, 'req) exec
     \<Rightarrow> (('acc, 'ch, 'st, 'req) exec, 'out) step_result" where
  "handle_failure n v err S =
     (case fromResponse err of
        Inl e \<Rightarrow> Stop (Inl e) S
      | Inr e \<Rightarrow>
          let S' = S\<lparr>x_last := LastError e\<rparr>
          in if retried_error e then Again (S'\<lparr>x_net := net_increaseBackoff n (clk_done v) (x_net S')\<rparr>)
             else Stop (Inl (js_of_raw err)) S')"

definition handle_response ::
    "('acc, 'st, 'req, 'resp, 'out) request_ops \<Rightarrow> bool \<Rightarrow> nat \<Rightarrow> rat \<times> rat \<Rightarrow> 'acc option \<Rightarrow> nat \<Rightarrow> 'req
     \<Rightarrow> 'resp \<Rightarrow> ('acc, 'ch, 'st, 'req) exec \<Rightarrow> (('acc, 'ch, 'st, 'req) exec, 'out) step_result" where
  "handle_response P isLocal attempt b acc n req resp S =
     (let S1 = S\<lparr>x_net := net_decreaseBackoff n (x_net S)\<rparr>;
          (status, st, sub) = shouldRetry P (x_sub S) req resp;
          S2 = (if status \<noteq> ''OK'' \<and> status \<noteq> ''SUCCESS'' then S1\<lparr>x_last := LastStatus status\<rparr> else S1)
                 \<lparr>x_sub := sub\<rparr>
      in case st of
           Retry \<Rightarrow> Again (S2\<lparr>delays := delays S2 @ [delayForAttempt isLocal attempt (fst b) (snd b)]\<rparr>)
         | Finished \<Rightarrow> (let (r, sub') = mapResponse P sub resp acc req in Stop r (S2\<lparr>x_sub := sub'\<rparr>))
         | ExecError \<Rightarrow> Stop (Inl (mapStatusError P sub req resp acc)) S2)"

definition send_request ::
    "('acc, 'ch) client \<Rightarrow> ('acc, 'st, 'req, 'resp, 'out) request_ops \<Rightarrow> bool \<Rightarrow> nat \<Rightarrow> rat \<times> rat
     \<Rightarrow> 'resp attempt_env \<Rightarrow> 'acc option \<Rightarrow> nat \<Rightarrow> ('acc, 'ch, 'st, 'req) exec
     \<Rightarrow> (('acc, 'ch, 'st, 'req) exec, 'out) step_result" where
  "send_request C P isLocal attempt b v acc n S =
     (let (ch, nd) = getChannel (openChannel C) (clk_start v) (store (x_net S) n);
          S1 = S\<lparr>x_net := set_node n nd (x_net S)\<rparr>
      in case makeRequest P (x_nodes S1) (x_sub S1) of
           Inl e \<Rightarrow> Stop (Inl e) S1
         | Inr (req, l, sub) \<Rightarrow>
             let S2 = S1\<lparr>x_nodes := l, x_sub := sub\<rparr>;
                 S3 = S2\<lparr>x_nodes := list_advance l\<rparr>;
                 rt = readmitTime (store (x_net S2) n)
             in if \<not> isHealthy (clk_health v) (store (x_net S2) n)
                then if cursor l = Some (length (items l) - 1) \<or> list_length l \<le> 1
                     then Stop (Inl (Error ''Network connectivity issue: All nodes are unhealthy.'')) S2
                     else Again S3
                else let S4 = S3\<lparr>calls := calls S3 @
                       [\<lparr>at_attempt = attempt, to_account = acc, to_node = n, with_request = req,
                         with_state = sub, readmit_at = rt\<rparr>]\<rparr>
                     in case race (x_grpcDeadline S4) v of
                          Inl err \<Rightarrow> handle_failure n v err S4
                        | Inr resp \<Rightarrow> handle_response P isLocal attempt b acc n req resp S4)"

definition attempt_step ::
    "('acc, 'ch) client \<Rightarrow> ('acc, 'st, 'req, 'resp, 'out) request_ops \<Rightarrow> bool \<Rightarrow> rat \<Rightarrow> rat \<times> rat \<Rightarrow> nat
     \<Rightarrow> 'resp attempt_env \<Rightarrow> ('acc, 'ch, 'st, 'req) exec
     \<Rightarrow> (('acc, 'ch, 'st, 'req) exec, 'out) step_result" where
  "attempt_step C P isLocal start b attempt v S =
     (if (case x_requestTimeout S of None \<Rightarrow> False | Some t \<Rightarrow> start + t \<le> clk_start v)
      then Stop (Inl (timeout_error (key_of C) (x_nodes S))) S
      else case choose_node C v S of
             Inl e \<Rightarrow> Stop (Inl e) S
           | Inr (acc, None, S1) \<Rightarrow>
               Stop (Inl (if acc = None then undefined_error else Error ''NodeAccountId not recognized'')) S1
           | Inr (acc, Some n, S1) \<Rightarrow>
               if transactionNodeIds S1 \<noteq> []
               then (case acc of
                       None \<Rightarrow> Stop (Inl undefined_error) S1
                     | Some a \<Rightarrow>
                         if key_of C a \<in> set (transactionNodeIds S1)
                         then send_request C P isLocal attempt b v acc n S1
                         else Again (S1\<lparr>x_nodes := list_advance (x_nodes S1)\<rparr>))
               else send_request C P isLocal attempt b v acc n S1)"

section \<open>The loop\<close>

fun attempts ::
    "(nat \<Rightarrow> 's \<Rightarrow> ('s, 'o) step_result) \<Rightarrow> ('s \<Rightarrow> 'o result) \<Rightarrow> nat \<Rightarrow> nat \<Rightarrow> 's \<Rightarrow> 'o result \<times> 's" where
  "attempts body final 0 attempt S = (final S, S)"
| "attempts body final (Suc k) attempt S =
     (case body attempt S of
        Again S' \<Rightarrow> attempts body final k (Suc attempt) S'
      | Stop r S' \<Rightarrow> (r, S'))"

definition persistent_text :: "persistent \<Rightarrow> string" where
  "persistent_text p =
     (case p of
        NoError \<Rightarrow> ''''
      | LastStatus s \<Rightarrow> s
      | LastError (SdkGrpcError s m) \<Rightarrow> ''GrpcServiceError: '' @ m
      | LastError (SdkHttpError c) \<Rightarrow> ''HttpError: failed with error code: '' @ show_int c
      | LastError (CodedError c d) \<Rightarrow> d
      | LastError (PlainError e) \<Rightarrow> ''Error'')"

definition exhausted_error ::
    "('acc \<Rightarrow> string) \<Rightarrow> nat \<Rightarrow> ('acc, 'ch, 'st, 'req) exec \<Rightarrow> js_error" where
  "exhausted_error key m S =
     (case current_text key (x_nodes S) of
        Inl e \<Rightarrow> e
      | Inr s \<Rightarrow> MaxAttemptsOrTimeoutError
          (''max attempts of '' @ show_nat m @ '' was reached for request with last error being: '' @
           persistent_text (x_last S)) s)"

definition isLocalNode :: "('acc, 'ch) net \<Rightarrow> bool" where
  "isLocalNode N \<longleftrightarrow> map_of (network_of N) ''127.0.0.1:50211'' \<noteq> None"

definition max_attempts :: "('acc, 'ch) client \<Rightarrow> bool \<Rightarrow> ('acc, 'ch, 'st, 'req) exec \<Rightarrow> nat" where
  "max_attempts C isLocal S =
     (if isLocal then 1000
      else case client_maxAttempts C of Some m \<Rightarrow> m | None \<Rightarrow> x_maxAttempts S)"

definition some_valid_node :: "('acc \<Rightarrow> string) \<Rightarrow> ('acc, 'ch, 'st, 'req) exec \<Rightarrow> bool" where
  "some_valid_node key S \<longleftrightarrow>
     list_ex (\<lambda>t. t \<in> set (map (\<lambda>a. key (the a)) (items (x_nodes S)))) (transactionNodeIds S)"

definition execute ::
    "('acc, 'ch) client \<Rightarrow> ('acc, 'st, 'req, 'resp, 'out) request_ops
     \<Rightarrow> (('acc, 'ch, 'st, 'req) exec \<Rightarrow> ('acc, 'ch, 'st, 'req) exec result)
     \<Rightarrow> rat option \<Rightarrow> rat \<Rightarrow> (nat \<Rightarrow> 'resp attempt_env) \<Rightarrow> ('acc, 'ch, 'st, 'req) exec
     \<Rightarrow> 'out result \<times> ('acc, 'ch, 'st, 'req) exec" where
  "execute C P before timeout start env S =
     (let isLocal = isLocalNode (x_net S);
          S1 = (case x_requestTimeout S of
                  None \<Rightarrow> S\<lparr>x_requestTimeout :=
                            (case timeout of None \<Rightarrow> client_requestTimeout C | Some t \<Rightarrow> Some t)\<rparr>
                | Some _ \<Rightarrow> S)
      in case before S1 of
           Inl e \<Rightarrow> (Inl e, S1)
         | Inr S2 \<Rightarrow>
             let hi = (case x_maxBackoff S2 of None \<Rightarrow> client_maxBackoff C | Some b \<Rightarrow> b);
                 lo = (case x_minBackoff S2 of None \<Rightarrow> client_minBackoff C | Some b \<Rightarrow> b);
                 S3 = S2\<lparr>x_maxBackoff := Some hi, x_minBackoff := Some lo, x_last := NoError\<rparr>;
                 m = max_attempts C isLocal S3
             in if transactionNodeIds S3 \<noteq> [] \<and> None \<in> set (items (x_nodes S3))
                then (Inl undefined_error, S3)
                else if transactionNodeIds S3 \<noteq> [] \<and> \<not> some_valid_node (key_of C) S3
                then (Inl (Error ''Attempting to execute a transaction against nodes not included in the client node list''), S3)
                else attempts (\<lambda>i. attempt_step C P isLocal start (lo, hi) i (env i))
                       (\<lambda>S. Inl (exhausted_error (key_of C) m S)) m 1 S3)"

end
