(* ===== verification/Words.thy ===== *)
theory Words
  imports Hex
begin

text \<open>
  Lists of words. Words are compared character by character, so that a long list of words is
  seen to hold each word once by comparing neighbours only.
\<close>

section \<open>Alphabetical order\<close>

fun bits_less :: "bool list \<Rightarrow> bool list \<Rightarrow> bool" where
  "bits_less (a # x) (b # y) = (if a = b then bits_less x y else b)"
| "bits_less _ _ = False"

fun char_bits :: "char \<Rightarrow> bool list" where
  "char_bits (Char b0 b1 b2 b3 b4 b5 b6 b7) = [b7, b6, b5, b4, b3, b2, b1, b0]"

definition char_less :: "char \<Rightarrow> char \<Rightarrow> bool" where
  "char_less a b = bits_less (char_bits a) (char_bits b)"

fun word_less :: "string \<Rightarrow> string \<Rightarrow> bool" where
  "word_less [] w = (w \<noteq> [])"
| "word_less (_ # _) [] = False"
| "word_less (a # x) (b # y) = (if a = b then word_less x y else char_less a b)"

fun ascending :: "string list \<Rightarrow> bool" where
  "ascending (a # b # r) = (if word_less a b then ascending (b # r) else False)"
| "ascending _ = True"

lemma bits_less_trans: "bits_less x y \<Longrightarrow> bits_less y z \<Longrightarrow> bits_less x z"
proof (induction x y arbitrary: z rule: bits_less.induct)
  case (1 a x b y)
  then show ?case by (cases z) (auto split: if_splits)
qed simp_all

lemma bits_less_irrefl: "\<not> bits_less x x"
  by (induction x) simp_all

lemma char_less_trans: "char_less a b \<Longrightarrow> char_less b c \<Longrightarrow> char_less a c"
  unfolding char_less_def by (rule bits_less_trans)

lemma char_less_irrefl: "\<not> char_less a a"
  unfolding char_less_def by (rule bits_less_irrefl)

lemma word_less_irrefl: "\<not> word_less w w"
  by (induction w) simp_all

lemma word_less_trans: "word_less x y \<Longrightarrow> word_less y z \<Longrightarrow> word_less x z"
proof (induction x y arbitrary: z rule: word_less.induct)
  case (1 w)
  then show ?case by (cases w; cases z) simp_all
next
  case (3 a x b y)
  then obtain c u where z: "z = c # u" by (cases z) simp_all
  show ?case
    using 3 char_less_trans char_less_irrefl unfolding z word_less.simps by (metis (full_types))
qed simp

lemma ascending_below: "ascending (a # r) \<Longrightarrow> w \<in> set r \<Longrightarrow> word_less a w"
proof (induction r arbitrary: a)
  case (Cons b r)
  then show ?case using word_less_trans by (auto split: if_splits)
qed simp

lemma ascending_distinct: "ascending ws \<Longrightarrow> distinct ws"
proof (induction ws rule: ascending.induct)
  case (1 a b r)
  then have "a \<notin> set (b # r)"
    using ascending_below[of a "b # r"] word_less_irrefl by blast
  with 1 show ?case by (simp split: if_splits)
qed simp_all

lemma ascending_join:
  "ascending (xs @ [a]) \<Longrightarrow> ascending (a # ys) \<Longrightarrow> ascending (xs @ a # ys)"
  by (induction xs rule: ascending.induct) (simp_all split: if_splits)

text \<open>Long lists are put together from pieces: each piece is ascending together with the first
  word of the next one.\<close>

fun ascending_pieces :: "string list list \<Rightarrow> bool" where
  "ascending_pieces [] = True"
| "ascending_pieces [p] = ascending p"
| "ascending_pieces (p # q # r) =
     (q \<noteq> [] \<and> ascending (p @ [hd q]) \<and> ascending_pieces (q # r))"

lemma ascending_concat: "ascending_pieces ps \<Longrightarrow> ascending (concat ps)"
proof (induction ps rule: ascending_pieces.induct)
  case (3 p q r)
  then have "ascending (q @ concat r)" and "ascending (p @ [hd q])" and "q \<noteq> []" by simp_all
  then show ?case using ascending_join[of p "hd q" "tl q @ concat r"] by (cases q) simp_all
qed simp_all

section \<open>Small letters\<close>

text \<open>\<open>toLowerCase\<close>: a capital letter of ASCII or Latin-1 differs from the small one by 32.\<close>

definition lower_char :: "char \<Rightarrow> char" where
  "lower_char c =
     (let n = code_of c
      in if 65 \<le> n \<and> n \<le> 90 \<or> 192 \<le> n \<and> n \<le> 222 \<and> n \<noteq> 215 then char_of (n + 32) else c)"

definition toLowerCase :: "string \<Rightarrow> string" where
  "toLowerCase s = map lower_char s"

fun is_small :: "char \<Rightarrow> bool" where
  "is_small (Char b0 b1 b2 b3 b4 b5 b6 b7) = (b5 \<and> b6 \<and> \<not> b7)"

lemma lower_small: "is_small c \<Longrightarrow> lower_char c = c"
proof (cases c)
  case (Char b0 b1 b2 b3 b4 b5 b6 b7)
  assume "is_small c"
  then show ?thesis
    unfolding Char lower_char_def code_of_def Let_def by (cases b4; cases b3; cases b2; cases b1; cases b0) simp_all
qed

lemma lower_words: "list_all (list_all is_small) ws \<Longrightarrow> w \<in> set ws \<Longrightarrow> toLowerCase w = w"
  unfolding toLowerCase_def list_all_iff by (intro map_idI lower_small) blast

section \<open>Positions\<close>

text \<open>\<open>indexOf\<close> gives -1 when the value is not in the array.\<close>

fun index_from :: "nat \<Rightarrow> 'a list \<Rightarrow> 'a \<Rightarrow> int" where
  "index_from i [] x = -1"
| "index_from i (y # ys) x = (if y = x then int i else index_from (Suc i) ys x)"

definition indexOf :: "'a list \<Rightarrow> 'a \<Rightarrow> int" where
  "indexOf xs x = index_from 0 xs x"

lemma index_from_mem:
  "x \<in> set xs \<Longrightarrow> \<exists>k < length xs. index_from i xs x = int (i + k) \<and> xs ! k = x"
proof (induction xs arbitrary: i)
  case (Cons y ys)
  show ?case
  proof (cases "y = x")
    case False
    with Cons obtain k where "k < length ys" "index_from (Suc i) ys x = int (Suc i + k)" "ys ! k = x"
      by fastforce
    then show ?thesis using False by (intro exI[of _ "Suc k"]) simp
  qed (intro exI[of _ 0], simp)
qed simp

lemma indexOf_mem:
  assumes "x \<in> set xs"
  shows "nat (indexOf xs x) < length xs" and "xs ! nat (indexOf xs x) = x" and "0 \<le> indexOf xs x"
  using index_from_mem[OF assms, of 0] by (auto simp: indexOf_def)

lemma indexOf_nth: "distinct xs \<Longrightarrow> i < length xs \<Longrightarrow> indexOf xs (xs ! i) = int i"
  using indexOf_mem[OF nth_mem, of i xs] by (metis nat_eq_iff nth_eq_iff_index_eq)

lemma indexOf_missing: "x \<notin> set xs \<Longrightarrow> indexOf xs x = -1"
proof -
  have "x \<notin> set xs \<Longrightarrow> index_from i xs x = -1" for i by (induction xs arbitrary: i) auto
  then show "x \<notin> set xs \<Longrightarrow> ?thesis" by (simp add: indexOf_def)
qed

end
