(* ===== verification/StatusCodes.thy ===== *)
theory StatusCodes
  imports Prelude
begin

text \<open>
  The response codes of \<open>src/Status.js\<close>: the constants with their codes, the texts
  \<open>toString\<close> gives them, and the constants \<open>_fromCode\<close> returns, each in the
  order of the source.
\<close>

definition status_constants_01 :: "(string \<times> nat) list" where
  "status_constants_01 = [
     (''Ok'', 0),
     (''InvalidTransaction'', 1),
     (''PayerAccountNotFound'', 2),
     (''InvalidNodeAccount'', 3),
     (''TransactionExpired'', 4),
     (''InvalidTransactionStart'', 5),
     (''InvalidTransactionDuration'', 6),
     (''InvalidSignature'', 7),
     (''MemoTooLong'', 8),
     (''InsufficientTxFee'', 9),
     (''InsufficientPayerBalance'', 10),
     (''DuplicateTransaction'', 11),
     (''Busy'', 12),
     (''NotSupported'', 13),
     (''InvalidFileId'', 14),
     (''InvalidAccountId'', 15),
     (''InvalidContractId'', 16),
     (''InvalidTransactionId'', 17),
     (''ReceiptNotFound'', 18),
     (''RecordNotFound'', 19),
     (''InvalidSolidityId'', 20),
     (''Unknown'', 21),
     (''Success'', 22),
     (''FailInvalid'', 23),
     (''FailFee'', 24),
     (''FailBalance'', 25),
     (''KeyRequired'', 26),
     (''BadEncoding'', 27),
     (''InsufficientAccountBalance'', 28)]"

definition status_constants_02 :: "(string \<times> nat) list" where
  "status_constants_02 = [
     (''InvalidSolidityAddress'', 29),
     (''InsufficientGas'', 30),
     (''ContractSizeLimitExceeded'', 31),
     (''LocalCallModificationException'', 32),
     (''ContractRevertExecuted'', 33),
     (''ContractExecutionException'', 34),
     (''InvalidReceivingNodeAccount'', 35),
     (''MissingQueryHeader'', 36),
     (''AccountUpdateFailed'', 37),
     (''InvalidKeyEncoding'', 38),
     (''NullSolidityAddress'', 39),
     (''ContractUpdateFailed'', 40),
     (''InvalidQueryHeader'', 41),
     (''InvalidFeeSubmitted'', 42),
     (''InvalidPayerSignature'', 43),
     (''KeyNotProvided'', 44),
     (''InvalidExpirationTime'', 45),
     (''NoWaclKey'', 46),
     (''FileContentEmpty'', 47),
     (''InvalidAccountAmounts'', 48),
     (''EmptyTransactionBody'', 49),
     (''InvalidTransactionBody'', 50),
     (''InvalidSignatureTypeMismatchingKey'', 51),
     (''InvalidSignatureCountMismatchingKey'', 52),
     (''EmptyLiveHashBody'', 53),
     (''EmptyLiveHash'', 54),
     (''EmptyLiveHashKeys'', 55),
     (''InvalidLiveHashSize'', 56),
     (''EmptyQueryBody'', 57)]"

definition status_constants_03 :: "(string \<times> nat) list" where
  "status_constants_03 = [
     (''EmptyLiveHashQuery'', 58),
     (''LiveHashNotFound'', 59),
     (''AccountIdDoesNotExist'', 60),
     (''LiveHashAlreadyExists'', 61),
     (''InvalidFileWacl'', 62),
     (''SerializationFailed'', 63),
     (''TransactionOversize'', 64),
     (''TransactionTooManyLayers'', 65),
     (''ContractDeleted'', 66),
     (''PlatformNotActive'', 67),
     (''KeyPrefixMismatch'', 68),
     (''PlatformTransactionNotCreated'', 69),
     (''InvalidRenewalPeriod'', 70),
     (''InvalidPayerAccountId'', 71),
     (''AccountDeleted'', 72),
     (''FileDeleted'', 73),
     (''AccountRepeatedInAccountAmounts'', 74),
     (''SettingNegativeAccountBalance'', 75),
     (''ObtainerRequired'', 76),
     (''ObtainerSameContractId'', 77),
     (''ObtainerDoesNotExist'', 78),
     (''ModifyingImmutableContract'', 79),
     (''FileSystemException'', 80),
     (''AutorenewDurationNotInRange'', 81),
     (''ErrorDecodingBytestring'', 82),
     (''ContractFileEmpty'', 83),
     (''ContractBytecodeEmpty'', 84),
     (''InvalidInitialBalance'', 85),
     (''InvalidReceiveRecordThreshold'', 86)]"

definition status_constants_04 :: "(string \<times> nat) list" where
  "status_constants_04 = [
     (''InvalidSendRecordThreshold'', 87),
     (''AccountIsNotGenesisAccount'', 88),
     (''PayerAccountUnauthorized'', 89),
     (''InvalidFreezeTransactionBody'', 90),
     (''FreezeTransactionBodyNotFound'', 91),
     (''TransferListSizeLimitExceeded'', 92),
     (''ResultSizeLimitExceeded'', 93),
     (''NotSpecialAccount'', 94),
     (''ContractNegativeGas'', 95),
     (''ContractNegativeValue'', 96),
     (''InvalidFeeFile'', 97),
     (''InvalidExchangeRateFile'', 98),
     (''InsufficientLocalCallGas'', 99),
     (''EntityNotAllowedToDelete'', 100),
     (''AuthorizationFailed'', 101),
     (''FileUploadedProtoInvalid'', 102),
     (''FileUploadedProtoNotSavedToDisk'', 103),
     (''FeeScheduleFilePartUploaded'', 104),
     (''ExchangeRateChangeLimitExceeded'', 105),
     (''MaxContractStorageExceeded'', 106),
     (''TransferAccountSameAsDeleteAccount'', 107),
     (''TotalLedgerBalanceInvalid'', 108),
     (''ExpirationReductionNotAllowed'', 110),
     (''MaxGasLimitExceeded'', 111),
     (''MaxFileSizeExceeded'', 112),
     (''ReceiverSigRequired'', 113),
     (''InvalidTopicId'', 150),
     (''InvalidAdminKey'', 155),
     (''InvalidSubmitKey'', 156)]"

definition status_constants_05 :: "(string \<times> nat) list" where
  "status_constants_05 = [
     (''Unauthorized'', 157),
     (''InvalidTopicMessage'', 158),
     (''InvalidAutorenewAccount'', 159),
     (''AutorenewAccountNotAllowed'', 160),
     (''TopicExpired'', 162),
     (''InvalidChunkNumber'', 163),
     (''InvalidChunkTransactionId'', 164),
     (''AccountFrozenForToken'', 165),
     (''TokensPerAccountLimitExceeded'', 166),
     (''InvalidTokenId'', 167),
     (''InvalidTokenDecimals'', 168),
     (''InvalidTokenInitialSupply'', 169),
     (''InvalidTreasuryAccountForToken'', 170),
     (''InvalidTokenSymbol'', 171),
     (''TokenHasNoFreezeKey'', 172),
     (''TransfersNotZeroSumForToken'', 173),
     (''MissingTokenSymbol'', 174),
     (''TokenSymbolTooLong'', 175),
     (''AccountKycNotGrantedForToken'', 176),
     (''TokenHasNoKycKey'', 177),
     (''InsufficientTokenBalance'', 178),
     (''TokenWasDeleted'', 179),
     (''TokenHasNoSupplyKey'', 180),
     (''TokenHasNoWipeKey'', 181),
     (''InvalidTokenMintAmount'', 182),
     (''InvalidTokenBurnAmount'', 183),
     (''TokenNotAssociatedToAccount'', 184),
     (''CannotWipeTokenTreasuryAccount'', 185),
     (''InvalidKycKey'', 186)]"

definition status_constants_06 :: "(string \<times> nat) list" where
  "status_constants_06 = [
     (''InvalidWipeKey'', 187),
     (''InvalidFreezeKey'', 188),
     (''InvalidSupplyKey'', 189),
     (''MissingTokenName'', 190),
     (''TokenNameTooLong'', 191),
     (''InvalidWipingAmount'', 192),
     (''TokenIsImmutable'', 193),
     (''TokenAlreadyAssociatedToAccount'', 194),
     (''TransactionRequiresZeroTokenBalances'', 195),
     (''AccountIsTreasury'', 196),
     (''TokenIdRepeatedInTokenList'', 197),
     (''TokenTransferListSizeLimitExceeded'', 198),
     (''EmptyTokenTransferBody'', 199),
     (''EmptyTokenTransferAccountAmounts'', 200),
     (''InvalidScheduleId'', 201),
     (''ScheduleIsImmutable'', 202),
     (''InvalidSchedulePayerId'', 203),
     (''InvalidScheduleAccountId'', 204),
     (''NoNewValidSignatures'', 205),
     (''UnresolvableRequiredSigners'', 206),
     (''ScheduledTransactionNotInWhitelist'', 207),
     (''SomeSignaturesWereInvalid'', 208),
     (''TransactionIdFieldNotAllowed'', 209),
     (''IdenticalScheduleAlreadyCreated'', 210),
     (''InvalidZeroByteInString'', 211),
     (''ScheduleAlreadyDeleted'', 212),
     (''ScheduleAlreadyExecuted'', 213),
     (''MessageSizeTooLarge'', 214),
     (''OperationRepeatedInBucketGroups'', 215),
     (''BucketCapacityOverflow'', 216)]"

definition status_constants_07 :: "(string \<times> nat) list" where
  "status_constants_07 = [
     (''NodeCapacityNotSufficientForOperation'', 217),
     (''BucketHasNoThrottleGroups'', 218),
     (''ThrottleGroupHasZeroOpsPerSec'', 219),
     (''SuccessButMissingExpectedOperation'', 220),
     (''UnparseableThrottleDefinitions'', 221),
     (''InvalidThrottleDefinitions'', 222),
     (''AccountExpiredAndPendingRemoval'', 223),
     (''InvalidTokenMaxSupply'', 224),
     (''InvalidTokenNftSerialNumber'', 225),
     (''InvalidNftId'', 226),
     (''MetadataTooLong'', 227),
     (''BatchSizeLimitExceeded'', 228),
     (''InvalidQueryRange'', 229),
     (''FractionDividesByZero'', 230),
     (''InsufficientPayerBalanceForCustomFee'', 231),
     (''CustomFeesListTooLong'', 232),
     (''InvalidCustomFeeCollector'', 233),
     (''InvalidTokenIdInCustomFees'', 234),
     (''TokenNotAssociatedToFeeCollector'', 235),
     (''TokenMaxSupplyReached'', 236),
     (''SenderDoesNotOwnNftSerialNo'', 237),
     (''CustomFeeNotFullySpecified'', 238),
     (''CustomFeeMustBePositive'', 239),
     (''TokenHasNoFeeScheduleKey'', 240),
     (''CustomFeeOutsideNumericRange'', 241),
     (''RoyaltyFractionCannotExceedOne'', 242),
     (''FractionalFeeMaxAmountLessThanMinAmount'', 243),
     (''CustomScheduleAlreadyHasNoFees'', 244),
     (''CustomFeeDenominationMustBeFungibleCommon'', 245),
     (''CustomFractionalFeeOnlyAllowedForFungibleCommon'', 246)]"

definition status_constants_08 :: "(string \<times> nat) list" where
  "status_constants_08 = [
     (''InvalidCustomFeeScheduleKey'', 247),
     (''InvalidTokenMintMetadata'', 248),
     (''InvalidTokenBurnMetadata'', 249),
     (''CurrentTreasuryStillOwnsNfts'', 250),
     (''AccountStillOwnsNfts'', 251),
     (''TreasuryMustOwnBurnedNft'', 252),
     (''AccountDoesNotOwnWipedNft'', 253),
     (''AccountAmountTransfersOnlyAllowedForFungibleCommon'', 254),
     (''MaxNftsInPriceRegimeHaveBeenMinted'', 255),
     (''PayerAccountDeleted'', 256),
     (''CustomFeeChargingExceededMaxRecursionDepth'', 257),
     (''CustomFeeChargingExceededMaxAccountAmounts'', 258),
     (''InsufficientSenderAccountBalanceForCustomFee'', 259),
     (''SerialNumberLimitReached'', 260),
     (''CustomRoyaltyFeeOnlyAllowedForNonFungibleUnique'', 261),
     (''NoRemainingAutomaticAssociations'', 262),
     (''ExistingAutomaticAssociationsExceedGivenLimit'', 263),
     (''RequestedNumAutomaticAssociationsExceedsAssociationLimit'', 264),
     (''TokenIsPaused'', 265),
     (''TokenHasNoPauseKey'', 266),
     (''InvalidPauseKey'', 267),
     (''FreezeUpdateFileDoesNotExist'', 268),
     (''FreezeUpdateFileHashDoesNotMatch'', 269),
     (''NoUpgradeHasBeenPrepared'', 270),
     (''NoFreezeIsScheduled'', 271),
     (''UpdateFileHashChangedSincePrepareUpgrade'', 272),
     (''FreezeStartTimeMustBeFuture'', 273),
     (''PreparedUpdateFileIsImmutable'', 274),
     (''FreezeAlreadyScheduled'', 275)]"

definition status_constants_09 :: "(string \<times> nat) list" where
  "status_constants_09 = [
     (''FreezeUpgradeInProgress'', 276),
     (''UpdateFileIdDoesNotMatchPrepared'', 277),
     (''UpdateFileHashDoesNotMatchPrepared'', 278),
     (''ConsensusGasExhausted'', 279),
     (''RevertedSuccess'', 280),
     (''MaxStorageInPriceRegimeHasBeenUsed'', 281),
     (''InvalidAliasKey'', 282),
     (''UnexpectedTokenDecimals'', 283),
     (''InvalidProxyAccountId'', 284),
     (''InvalidTransferAccountId'', 285),
     (''InvalidFeeCollectorAccountId'', 286),
     (''AliasIsImmutable'', 287),
     (''SpenderAccountSameAsOwner'', 288),
     (''AmountExceedsTokenMaxSupply'', 289),
     (''NegativeAllowanceAmount'', 290),
     (''CannotApproveForAllFungibleCommon'', 291),
     (''SpenderDoesNotHaveAllowance'', 292),
     (''AmountExceedsAllowance'', 293),
     (''MaxAllowancesExceeded'', 294),
     (''EmptyAllowances'', 295),
     (''SpenderAccountRepeatedInAllowances'', 296),
     (''RepeatedSerialNumsInNftAllowances'', 297),
     (''FungibleTokenInNftAllowances'', 298),
     (''NftInFungibleTokenAllowances'', 299),
     (''InvalidAllowanceOwnerId'', 300),
     (''InvalidAllowanceSpenderId'', 301),
     (''RepeatedAllowancesToDelete'', 302),
     (''InvalidDelegatingSpender'', 303)]"

definition status_constants_10 :: "(string \<times> nat) list" where
  "status_constants_10 = [
     (''DelegatingSpenderCannotGrantApproveForAll'', 304),
     (''DelegatingSpenderDoesNotHaveApproveForAll'', 305),
     (''ScheduleExpirationTimeTooFarInFuture'', 306),
     (''ScheduleExpirationTimeMustBeHigherThanConsensusTime'', 307),
     (''ScheduleFutureThrottleExceeded'', 308),
     (''ScheduleFutureGasLimitExceeded'', 309),
     (''InvalidEthereumTransaction'', 310),
     (''WrongChainId'', 311),
     (''WrongNonce'', 312),
     (''AccessListUnsupported'', 313),
     (''SchedulePendingExpiration'', 314),
     (''ContractIsTokenTreasury'', 315),
     (''ContractHasNonZeroTokenBalances'', 316),
     (''ContractExpiredAndPendingRemoval'', 317),
     (''ContractHasNoAutoRenewAccount'', 318),
     (''PermanentRemovalRequiresSystemInitiation'', 319),
     (''ProxyAccountIdFieldIsDeprecated'', 320),
     (''SelfStakingIsNotAllowed'', 321),
     (''InvalidStakingId'', 322),
     (''StakingNotEnabled'', 323),
     (''InvalidPrngRange'', 324),
     (''MaxEntitiesInPriceRegimeHaveBeenCreated'', 325),
     (''InvalidFullPrefixSignatureForPrecompile'', 326),
     (''InsufficientBalancesForStorageRent'', 327),
     (''MaxChildRecordsExceeded'', 328),
     (''InsufficientBalancesForRenewalFees'', 329),
     (''TransactionHasUnknownFields'', 330),
     (''AccountIsImmutable'', 331)]"

definition status_constants_11 :: "(string \<times> nat) list" where
  "status_constants_11 = [
     (''AliasAlreadyAssigned'', 332),
     (''InvalidMetadataKey'', 333),
     (''TokenHasNoMetadataKey'', 334),
     (''MissingTokenMetadata'', 335),
     (''MissingSerialNumbers'', 336),
     (''TokenHasNoAdminKey'', 337),
     (''NodeDeleted'', 338),
     (''InvalidNodeId'', 339),
     (''InvalidGossipEndpoint'', 340),
     (''InvalidNodeAccountId'', 341),
     (''InvalidNodeDescription'', 342),
     (''InvalidServiceEndpoint'', 343),
     (''InvalidGossipCaCertificate'', 344),
     (''InvalidGrpcCertificate'', 345),
     (''InvalidMaxAutoAssociations'', 346),
     (''MaxNodesCreated'', 347),
     (''IpFqdnCannotBeSetForSameEndpoint'', 348),
     (''GossipEndpointCannotHaveFqdn'', 349),
     (''FqdnSizeTooLarge'', 350),
     (''InvalidEndpoint'', 351),
     (''GossipEndpointsExceededLimit'', 352)]"

definition status_constants_12 :: "(string \<times> nat) list" where
  "status_constants_12 = [
     (''TokenReferenceRepeated'', 353),
     (''InvalidOwnerId'', 354),
     (''TokenReferenceListSizeLimitExceeded'', 355)]"

definition status_constants_13 :: "(string \<times> nat) list" where
  "status_constants_13 = [
     (''ServiceEndpointsExceededLimit'', 356),
     (''InvalidIpv4Address'', 357)]"

definition status_constants_14 :: "(string \<times> nat) list" where
  "status_constants_14 = [
     (''EmptyTokenReferenceList'', 358),
     (''UpdateNodeAccountNotAllowed'', 359),
     (''TokenHasNoMetadataOrSupplyKey'', 360),
     (''EmptyPendingAirdropIdList'', 361),
     (''PendingAirdropIdRepeated'', 362),
     (''MaxPendingAirdropIdExceeded'', 363),
     (''PendingNftAirdropAlreadyExists'', 364),
     (''AccountHasPendingAirdrops'', 365),
     (''ThrottledAtConsensus'', 366),
     (''InvalidPendingAirdropId'', 367),
     (''TokenAirdropWithFallbackRoyalty'', 368),
     (''InvalidTokenInPendingAirdrop'', 369),
     (''ScheduleExpiryIsBusy'', 370),
     (''InvalidGrpcCertificateHash'', 371),
     (''MissingExpiryTime'', 372),
     (''NoSchedulingAllowedAfterScheduledRecursion'', 373),
     (''RecursiveSchedulingLimitReached'', 374),
     (''WaitingForLedgerId'', 375),
     (''MaxEntriesForFeeExemptKeyListExceeded'', 376),
     (''FeeExemptKeyListContainsDuplicatedKeys'', 377),
     (''InvalidKeyInFeeExemptKeyList'', 378),
     (''InvalidFeeScheduleKey'', 379),
     (''FeeScheduleKeyCannotBeUpdated'', 380),
     (''FeeScheduleKeyNotSet'', 381),
     (''MaxCustomFeeLimitExceeded'', 382)]"

definition status_constants_15 :: "(string \<times> nat) list" where
  "status_constants_15 = [
     (''NoValidMaxCustomFee'', 383),
     (''InvalidMaxCustomFees'', 384),
     (''DuplicateDenominationInMaxCustomFeeList'', 385),
     (''DuplicateAccountIdInMaxCustomFeeList'', 386),
     (''MaxCustomFeesIsNotSupported'', 387)]"

definition status_constants :: "(string \<times> nat) list" where
  "status_constants = status_constants_01 @ status_constants_02 @ status_constants_03 @ status_constants_04 @ status_constants_05 @ status_constants_06 @ status_constants_07 @ status_constants_08 @ status_constants_09 @ status_constants_10 @ status_constants_11 @ status_constants_12 @ status_constants_13 @ status_constants_14 @ status_constants_15"

lemmas status_constants_defs = status_constants_def status_constants_01_def status_constants_02_def status_constants_03_def status_constants_04_def status_constants_05_def status_constants_06_def status_constants_07_def status_constants_08_def status_constants_09_def status_constants_10_def status_constants_11_def status_constants_12_def status_constants_13_def status_constants_14_def status_constants_15_def

definition status_texts_01 :: "(string \<times> string) list" where
  "status_texts_01 = [
     (''Ok'', ''OK''),
     (''InvalidTransaction'', ''INVALID_TRANSACTION''),
     (''PayerAccountNotFound'', ''PAYER_ACCOUNT_NOT_FOUND''),
     (''InvalidNodeAccount'', ''INVALID_NODE_ACCOUNT''),
     (''TransactionExpired'', ''TRANSACTION_EXPIRED''),
     (''InvalidTransactionStart'', ''INVALID_TRANSACTION_START''),
     (''InvalidTransactionDuration'', ''INVALID_TRANSACTION_DURATION''),
     (''InvalidSignature'', ''INVALID_SIGNATURE''),
     (''MemoTooLong'', ''MEMO_TOO_LONG''),
     (''InsufficientTxFee'', ''INSUFFICIENT_TX_FEE''),
     (''InsufficientPayerBalance'', ''INSUFFICIENT_PAYER_BALANCE''),
     (''DuplicateTransaction'', ''DUPLICATE_TRANSACTION''),
     (''Busy'', ''BUSY''),
     (''NotSupported'', ''NOT_SUPPORTED''),
     (''InvalidFileId'', ''INVALID_FILE_ID''),
     (''InvalidAccountId'', ''INVALID_ACCOUNT_ID''),
     (''InvalidContractId'', ''INVALID_CONTRACT_ID''),
     (''InvalidTransactionId'', ''INVALID_TRANSACTION_ID''),
     (''ReceiptNotFound'', ''RECEIPT_NOT_FOUND''),
     (''RecordNotFound'', ''RECORD_NOT_FOUND''),
     (''InvalidSolidityId'', ''INVALID_SOLIDITY_ID''),
     (''Unknown'', ''UNKNOWN''),
     (''Success'', ''SUCCESS''),
     (''FailInvalid'', ''FAIL_INVALID''),
     (''FailFee'', ''FAIL_FEE''),
     (''FailBalance'', ''FAIL_BALANCE''),
     (''KeyRequired'', ''KEY_REQUIRED''),
     (''BadEncoding'', ''BAD_ENCODING''),
     (''InsufficientAccountBalance'', ''INSUFFICIENT_ACCOUNT_BALANCE''),
     (''InvalidSolidityAddress'', ''INVALID_SOLIDITY_ADDRESS''),
     (''InsufficientGas'', ''INSUFFICIENT_GAS''),
     (''ContractSizeLimitExceeded'', ''CONTRACT_SIZE_LIMIT_EXCEEDED''),
     (''LocalCallModificationException'', ''LOCAL_CALL_MODIFICATION_EXCEPTION''),
     (''ContractRevertExecuted'', ''CONTRACT_REVERT_EXECUTED''),
     (''ContractExecutionException'', ''CONTRACT_EXECUTION_EXCEPTION''),
     (''InvalidReceivingNodeAccount'', ''INVALID_RECEIVING_NODE_ACCOUNT''),
     (''MissingQueryHeader'', ''MISSING_QUERY_HEADER''),
     (''AccountUpdateFailed'', ''ACCOUNT_UPDATE_FAILED''),
     (''InvalidKeyEncoding'', ''INVALID_KEY_ENCODING''),
     (''NullSolidityAddress'', ''NULL_SOLIDITY_ADDRESS''),
     (''ContractUpdateFailed'', ''CONTRACT_UPDATE_FAILED''),
     (''InvalidQueryHeader'', ''INVALID_QUERY_HEADER''),
     (''InvalidFeeSubmitted'', ''INVALID_FEE_SUBMITTED''),
     (''InvalidPayerSignature'', ''INVALID_PAYER_SIGNATURE''),
     (''KeyNotProvided'', ''KEY_NOT_PROVIDED''),
     (''InvalidExpirationTime'', ''INVALID_EXPIRATION_TIME''),
     (''NoWaclKey'', ''NO_WACL_KEY''),
     (''FileContentEmpty'', ''FILE_CONTENT_EMPTY''),
     (''InvalidAccountAmounts'', ''INVALID_ACCOUNT_AMOUNTS''),
     (''EmptyTransactionBody'', ''EMPTY_TRANSACTION_BODY''),
     (''InvalidTransactionBody'', ''INVALID_TRANSACTION_BODY''),
     (''InvalidSignatureTypeMismatchingKey'', ''INVALID_SIGNATURE_TYPE_MISMATCHING_KEY''),
     (''InvalidSignatureCountMismatchingKey'', ''INVALID_SIGNATURE_COUNT_MISMATCHING_KEY''),
     (''EmptyLiveHashBody'', ''EMPTY_LIVE_HASH_BODY''),
     (''EmptyLiveHash'', ''EMPTY_LIVE_HASH''),
     (''EmptyLiveHashKeys'', ''EMPTY_LIVE_HASH_KEYS''),
     (''InvalidLiveHashSize'', ''INVALID_LIVE_HASH_SIZE''),
     (''EmptyQueryBody'', ''EMPTY_QUERY_BODY''),
     (''EmptyLiveHashQuery'', ''EMPTY_LIVE_HASH_QUERY''),
     (''LiveHashNotFound'', ''LIVE_HASH_NOT_FOUND''),
     (''AccountIdDoesNotExist'', ''ACCOUNT_ID_DOES_NOT_EXIST''),
     (''LiveHashAlreadyExists'', ''LIVE_HASH_ALREADY_EXISTS''),
     (''InvalidFileWacl'', ''INVALID_FILE_WACL''),
     (''SerializationFailed'', ''SERIALIZATION_FAILED''),
     (''TransactionOversize'', ''TRANSACTION_OVERSIZE''),
     (''TransactionTooManyLayers'', ''TRANSACTION_TOO_MANY_LAYERS''),
     (''ContractDeleted'', ''CONTRACT_DELETED''),
     (''PlatformNotActive'', ''PLATFORM_NOT_ACTIVE''),
     (''KeyPrefixMismatch'', ''KEY_PREFIX_MISMATCH''),
     (''PlatformTransactionNotCreated'', ''PLATFORM_TRANSACTION_NOT_CREATED''),
     (''InvalidRenewalPeriod'', ''INVALID_RENEWAL_PERIOD''),
     (''InvalidPayerAccountId'', ''INVALID_PAYER_ACCOUNT_ID''),
     (''AccountDeleted'', ''ACCOUNT_DELETED''),
     (''FileDeleted'', ''FILE_DELETED''),
     (''AccountRepeatedInAccountAmounts'', ''ACCOUNT_REPEATED_IN_ACCOUNT_AMOUNTS'')]"

definition status_texts_02 :: "(string \<times> string) list" where
  "status_texts_02 = [
     (''SettingNegativeAccountBalance'', ''SETTING_NEGATIVE_ACCOUNT_BALANCE''),
     (''ObtainerRequired'', ''OBTAINER_REQUIRED''),
     (''ObtainerSameContractId'', ''OBTAINER_SAME_CONTRACT_ID''),
     (''ObtainerDoesNotExist'', ''OBTAINER_DOES_NOT_EXIST''),
     (''ModifyingImmutableContract'', ''MODIFYING_IMMUTABLE_CONTRACT''),
     (''FileSystemException'', ''FILE_SYSTEM_EXCEPTION''),
     (''AutorenewDurationNotInRange'', ''AUTORENEW_DURATION_NOT_IN_RANGE''),
     (''ErrorDecodingBytestring'', ''ERROR_DECODING_BYTESTRING''),
     (''ContractFileEmpty'', ''CONTRACT_FILE_EMPTY''),
     (''ContractBytecodeEmpty'', ''CONTRACT_BYTECODE_EMPTY''),
     (''InvalidInitialBalance'', ''INVALID_INITIAL_BALANCE''),
     (''InvalidReceiveRecordThreshold'', ''INVALID_RECEIVE_RECORD_THRESHOLD''),
     (''InvalidSendRecordThreshold'', ''INVALID_SEND_RECORD_THRESHOLD''),
     (''AccountIsNotGenesisAccount'', ''ACCOUNT_IS_NOT_GENESIS_ACCOUNT''),
     (''PayerAccountUnauthorized'', ''PAYER_ACCOUNT_UNAUTHORIZED''),
     (''InvalidFreezeTransactionBody'', ''INVALID_FREEZE_TRANSACTION_BODY''),
     (''FreezeTransactionBodyNotFound'', ''FREEZE_TRANSACTION_BODY_NOT_FOUND''),
     (''TransferListSizeLimitExceeded'', ''TRANSFER_LIST_SIZE_LIMIT_EXCEEDED''),
     (''ResultSizeLimitExceeded'', ''RESULT_SIZE_LIMIT_EXCEEDED''),
     (''NotSpecialAccount'', ''NOT_SPECIAL_ACCOUNT''),
     (''ContractNegativeGas'', ''CONTRACT_NEGATIVE_GAS''),
     (''ContractNegativeValue'', ''CONTRACT_NEGATIVE_VALUE''),
     (''InvalidFeeFile'', ''INVALID_FEE_FILE''),
     (''InvalidExchangeRateFile'', ''INVALID_EXCHANGE_RATE_FILE''),
     (''InsufficientLocalCallGas'', ''INSUFFICIENT_LOCAL_CALL_GAS''),
     (''EntityNotAllowedToDelete'', ''ENTITY_NOT_ALLOWED_TO_DELETE''),
     (''AuthorizationFailed'', ''AUTHORIZATION_FAILED''),
     (''FileUploadedProtoInvalid'', ''FILE_UPLOADED_PROTO_INVALID''),
     (''FileUploadedProtoNotSavedToDisk'', ''FILE_UPLOADED_PROTO_NOT_SAVED_TO_DISK''),
     (''FeeScheduleFilePartUploaded'', ''FEE_SCHEDULE_FILE_PART_UPLOADED''),
     (''ExchangeRateChangeLimitExceeded'', ''EXCHANGE_RATE_CHANGE_LIMIT_EXCEEDED''),
     (''MaxContractStorageExceeded'', ''MAX_CONTRACT_STORAGE_EXCEEDED''),
     (''TransferAccountSameAsDeleteAccount'', ''TRANSFER_ACCOUNT_SAME_AS_DELETE_ACCOUNT''),
     (''TotalLedgerBalanceInvalid'', ''TOTAL_LEDGER_BALANCE_INVALID''),
     (''ExpirationReductionNotAllowed'', ''EXPIRATION_REDUCTION_NOT_ALLOWED''),
     (''MaxGasLimitExceeded'', ''MAX_GAS_LIMIT_EXCEEDED''),
     (''MaxFileSizeExceeded'', ''MAX_FILE_SIZE_EXCEEDED''),
     (''ReceiverSigRequired'', ''RECEIVER_SIG_REQUIRED''),
     (''InvalidTopicId'', ''INVALID_TOPIC_ID''),
     (''InvalidAdminKey'', ''INVALID_ADMIN_KEY''),
     (''InvalidSubmitKey'', ''INVALID_SUBMIT_KEY''),
     (''Unauthorized'', ''UNAUTHORIZED''),
     (''InvalidTopicMessage'', ''INVALID_TOPIC_MESSAGE''),
     (''InvalidAutorenewAccount'', ''INVALID_AUTORENEW_ACCOUNT''),
     (''AutorenewAccountNotAllowed'', ''AUTORENEW_ACCOUNT_NOT_ALLOWED''),
     (''TopicExpired'', ''TOPIC_EXPIRED''),
     (''InvalidChunkNumber'', ''INVALID_CHUNK_NUMBER''),
     (''InvalidChunkTransactionId'', ''INVALID_CHUNK_TRANSACTION_ID''),
     (''AccountFrozenForToken'', ''ACCOUNT_FROZEN_FOR_TOKEN''),
     (''TokensPerAccountLimitExceeded'', ''TOKENS_PER_ACCOUNT_LIMIT_EXCEEDED''),
     (''InvalidTokenId'', ''INVALID_TOKEN_ID''),
     (''InvalidTokenDecimals'', ''INVALID_TOKEN_DECIMALS''),
     (''InvalidTokenInitialSupply'', ''INVALID_TOKEN_INITIAL_SUPPLY''),
     (''InvalidTreasuryAccountForToken'', ''INVALID_TREASURY_ACCOUNT_FOR_TOKEN''),
     (''InvalidTokenSymbol'', ''INVALID_TOKEN_SYMBOL''),
     (''TokenHasNoFreezeKey'', ''TOKEN_HAS_NO_FREEZE_KEY''),
     (''TransfersNotZeroSumForToken'', ''TRANSFERS_NOT_ZERO_SUM_FOR_TOKEN''),
     (''MissingTokenSymbol'', ''MISSING_TOKEN_SYMBOL''),
     (''TokenSymbolTooLong'', ''TOKEN_SYMBOL_TOO_LONG''),
     (''AccountKycNotGrantedForToken'', ''ACCOUNT_KYC_NOT_GRANTED_FOR_TOKEN''),
     (''TokenHasNoKycKey'', ''TOKEN_HAS_NO_KYC_KEY''),
     (''InsufficientTokenBalance'', ''INSUFFICIENT_TOKEN_BALANCE''),
     (''TokenWasDeleted'', ''TOKEN_WAS_DELETED''),
     (''TokenHasNoSupplyKey'', ''TOKEN_HAS_NO_SUPPLY_KEY''),
     (''TokenHasNoWipeKey'', ''TOKEN_HAS_NO_WIPE_KEY''),
     (''InvalidTokenMintAmount'', ''INVALID_TOKEN_MINT_AMOUNT''),
     (''InvalidTokenBurnAmount'', ''INVALID_TOKEN_BURN_AMOUNT''),
     (''TokenNotAssociatedToAccount'', ''TOKEN_NOT_ASSOCIATED_TO_ACCOUNT''),
     (''CannotWipeTokenTreasuryAccount'', ''CANNOT_WIPE_TOKEN_TREASURY_ACCOUNT''),
     (''InvalidKycKey'', ''INVALID_KYC_KEY''),
     (''InvalidWipeKey'', ''INVALID_WIPE_KEY''),
     (''InvalidFreezeKey'', ''INVALID_FREEZE_KEY''),
     (''InvalidSupplyKey'', ''INVALID_SUPPLY_KEY''),
     (''MissingTokenName'', ''MISSING_TOKEN_NAME''),
     (''TokenNameTooLong'', ''TOKEN_NAME_TOO_LONG'')]"

definition status_texts_03 :: "(string \<times> string) list" where
  "status_texts_03 = [
     (''InvalidWipingAmount'', ''INVALID_WIPING_AMOUNT''),
     (''TokenIsImmutable'', ''TOKEN_IS_IMMUTABLE''),
     (''TokenAlreadyAssociatedToAccount'', ''TOKEN_ALREADY_ASSOCIATED_TO_ACCOUNT''),
     (''TransactionRequiresZeroTokenBalances'', ''TRANSACTION_REQUIRES_ZERO_TOKEN_BALANCES''),
     (''AccountIsTreasury'', ''ACCOUNT_IS_TREASURY''),
     (''TokenIdRepeatedInTokenList'', ''TOKEN_ID_REPEATED_IN_TOKEN_LIST''),
     (''TokenTransferListSizeLimitExceeded'', ''TOKEN_TRANSFER_LIST_SIZE_LIMIT_EXCEEDED''),
     (''EmptyTokenTransferBody'', ''EMPTY_TOKEN_TRANSFER_BODY''),
     (''EmptyTokenTransferAccountAmounts'', ''EMPTY_TOKEN_TRANSFER_ACCOUNT_AMOUNTS''),
     (''InvalidScheduleId'', ''INVALID_SCHEDULE_ID''),
     (''ScheduleIsImmutable'', ''SCHEDULE_IS_IMMUTABLE''),
     (''InvalidSchedulePayerId'', ''INVALID_SCHEDULE_PAYER_ID''),
     (''InvalidScheduleAccountId'', ''INVALID_SCHEDULE_ACCOUNT_ID''),
     (''NoNewValidSignatures'', ''NO_NEW_VALID_SIGNATURES''),
     (''UnresolvableRequiredSigners'', ''UNRESOLVABLE_REQUIRED_SIGNERS''),
     (''ScheduledTransactionNotInWhitelist'', ''SCHEDULED_TRANSACTION_NOT_IN_WHITELIST''),
     (''SomeSignaturesWereInvalid'', ''SOME_SIGNATURES_WERE_INVALID''),
     (''TransactionIdFieldNotAllowed'', ''TRANSACTION_ID_FIELD_NOT_ALLOWED''),
     (''IdenticalScheduleAlreadyCreated'', ''IDENTICAL_SCHEDULE_ALREADY_CREATED''),
     (''InvalidZeroByteInString'', ''INVALID_ZERO_BYTE_IN_STRING''),
     (''ScheduleAlreadyDeleted'', ''SCHEDULE_ALREADY_DELETED''),
     (''ScheduleAlreadyExecuted'', ''SCHEDULE_ALREADY_EXECUTED''),
     (''MessageSizeTooLarge'', ''MESSAGE_SIZE_TOO_LARGE''),
     (''OperationRepeatedInBucketGroups'', ''OPERATION_REPEATED_IN_BUCKET_GROUPS''),
     (''BucketCapacityOverflow'', ''BUCKET_CAPACITY_OVERFLOW''),
     (''NodeCapacityNotSufficientForOperation'', ''NODE_CAPACITY_NOT_SUFFICIENT_FOR_OPERATION''),
     (''BucketHasNoThrottleGroups'', ''BUCKET_HAS_NO_THROTTLE_GROUPS''),
     (''ThrottleGroupHasZeroOpsPerSec'', ''THROTTLE_GROUP_HAS_ZERO_OPS_PER_SEC''),
     (''SuccessButMissingExpectedOperation'', ''SUCCESS_BUT_MISSING_EXPECTED_OPERATION''),
     (''UnparseableThrottleDefinitions'', ''UNPARSEABLE_THROTTLE_DEFINITIONS''),
     (''InvalidThrottleDefinitions'', ''INVALID_THROTTLE_DEFINITIONS''),
     (''AccountExpiredAndPendingRemoval'', ''ACCOUNT_EXPIRED_AND_PENDING_REMOVAL''),
     (''InvalidTokenMaxSupply'', ''INVALID_TOKEN_MAX_SUPPLY''),
     (''InvalidTokenNftSerialNumber'', ''INVALID_TOKEN_NFT_SERIAL_NUMBER''),
     (''InvalidNftId'', ''INVALID_NFT_ID''),
     (''MetadataTooLong'', ''METADATA_TOO_LONG''),
     (''BatchSizeLimitExceeded'', ''BATCH_SIZE_LIMIT_EXCEEDED''),
     (''InvalidQueryRange'', ''INVALID_QUERY_RANGE''),
     (''FractionDividesByZero'', ''FRACTION_DIVIDES_BY_ZERO''),
     (''InsufficientPayerBalanceForCustomFee'', ''INSUFFICIENT_PAYER_BALANCE_FOR_CUSTOM_FEE''),
     (''CustomFeesListTooLong'', ''CUSTOM_FEES_LIST_TOO_LONG''),
     (''InvalidCustomFeeCollector'', ''INVALID_CUSTOM_FEE_COLLECTOR''),
     (''InvalidTokenIdInCustomFees'', ''INVALID_TOKEN_ID_IN_CUSTOM_FEES''),
     (''TokenNotAssociatedToFeeCollector'', ''TOKEN_NOT_ASSOCIATED_TO_FEE_COLLECTOR''),
     (''TokenMaxSupplyReached'', ''TOKEN_MAX_SUPPLY_REACHED''),
     (''SenderDoesNotOwnNftSerialNo'', ''SENDER_DOES_NOT_OWN_NFT_SERIAL_NO''),
     (''CustomFeeNotFullySpecified'', ''CUSTOM_FEE_NOT_FULLY_SPECIFIED''),
     (''CustomFeeMustBePositive'', ''CUSTOM_FEE_MUST_BE_POSITIVE''),
     (''TokenHasNoFeeScheduleKey'', ''TOKEN_HAS_NO_FEE_SCHEDULE_KEY''),
     (''CustomFeeOutsideNumericRange'', ''CUSTOM_FEE_OUTSIDE_NUMERIC_RANGE''),
     (''RoyaltyFractionCannotExceedOne'', ''ROYALTY_FRACTION_CANNOT_EXCEED_ONE''),
     (''FractionalFeeMaxAmountLessThanMinAmount'', ''FRACTIONAL_FEE_MAX_AMOUNT_LESS_THAN_MIN_AMOUNT''),
     (''CustomScheduleAlreadyHasNoFees'', ''CUSTOM_SCHEDULE_ALREADY_HAS_NO_FEES''),
     (''CustomFeeDenominationMustBeFungibleCommon'', ''CUSTOM_FEE_DENOMINATION_MUST_BE_FUNGIBLE_COMMON''),
     (''CustomFractionalFeeOnlyAllowedForFungibleCommon'', ''CUSTOM_FRACTIONAL_FEE_ONLY_ALLOWED_FOR_FUNGIBLE_COMMON''),
     (''InvalidCustomFeeScheduleKey'', ''INVALID_CUSTOM_FEE_SCHEDULE_KEY''),
     (''InvalidTokenMintMetadata'', ''INVALID_TOKEN_MINT_METADATA''),
     (''InvalidTokenBurnMetadata'', ''INVALID_TOKEN_BURN_METADATA''),
     (''CurrentTreasuryStillOwnsNfts'', ''CURRENT_TREASURY_STILL_OWNS_NFTS''),
     (''AccountStillOwnsNfts'', ''ACCOUNT_STILL_OWNS_NFTS''),
     (''TreasuryMustOwnBurnedNft'', ''TREASURY_MUST_OWN_BURNED_NFT''),
     (''AccountDoesNotOwnWipedNft'', ''ACCOUNT_DOES_NOT_OWN_WIPED_NFT''),
     (''AccountAmountTransfersOnlyAllowedForFungibleCommon'', ''ACCOUNT_AMOUNT_TRANSFERS_ONLY_ALLOWED_FOR_FUNGIBLE_COMMON''),
     (''MaxNftsInPriceRegimeHaveBeenMinted'', ''MAX_NFTS_IN_PRICE_REGIME_HAVE_BEEN_MINTED''),
     (''PayerAccountDeleted'', ''PAYER_ACCOUNT_DELETED''),
     (''CustomFeeChargingExceededMaxRecursionDepth'', ''CUSTOM_FEE_CHARGING_EXCEEDED_MAX_RECURSION_DEPTH''),
     (''CustomFeeChargingExceededMaxAccountAmounts'', ''CUSTOM_FEE_CHARGING_EXCEEDED_MAX_ACCOUNT_AMOUNTS''),
     (''InsufficientSenderAccountBalanceForCustomFee'', ''INSUFFICIENT_SENDER_ACCOUNT_BALANCE_FOR_CUSTOM_FEE''),
     (''SerialNumberLimitReached'', ''SERIAL_NUMBER_LIMIT_REACHED''),
     (''CustomRoyaltyFeeOnlyAllowedForNonFungibleUnique'', ''CUSTOM_ROYALTY_FEE_ONLY_ALLOWED_FOR_NON_FUNGIBLE_UNIQUE''),
     (''NoRemainingAutomaticAssociations'', ''NO_REMAINING_AUTOMATIC_ASSOCIATIONS''),
     (''ExistingAutomaticAssociationsExceedGivenLimit'', ''EXISTING_AUTOMATIC_ASSOCIATIONS_EXCEED_GIVEN_LIMIT''),
     (''RequestedNumAutomaticAssociationsExceedsAssociationLimit'', ''REQUESTED_NUM_AUTOMATIC_ASSOCIATIONS_EXCEEDS_ASSOCIATION_LIMIT''),
     (''TokenIsPaused'', ''TOKEN_IS_PAUSED''),
     (''TokenHasNoPauseKey'', ''TOKEN_HAS_NO_PAUSE_KEY'')]"

definition status_texts_04 :: "(string \<times> string) list" where
  "status_texts_04 = [
     (''InvalidPauseKey'', ''INVALID_PAUSE_KEY''),
     (''FreezeUpdateFileDoesNotExist'', ''FREEZE_UPDATE_FILE_DOES_NOT_EXIST''),
     (''FreezeUpdateFileHashDoesNotMatch'', ''FREEZE_UPDATE_FILE_HASH_DOES_NOT_MATCH''),
     (''NoUpgradeHasBeenPrepared'', ''NO_UPGRADE_HAS_BEEN_PREPARED''),
     (''NoFreezeIsScheduled'', ''NO_FREEZE_IS_SCHEDULED''),
     (''UpdateFileHashChangedSincePrepareUpgrade'', ''UPDATE_FILE_HASH_CHANGED_SINCE_PREPARE_UPGRADE''),
     (''FreezeStartTimeMustBeFuture'', ''FREEZE_START_TIME_MUST_BE_FUTURE''),
     (''PreparedUpdateFileIsImmutable'', ''PREPARED_UPDATE_FILE_IS_IMMUTABLE''),
     (''FreezeAlreadyScheduled'', ''FREEZE_ALREADY_SCHEDULED''),
     (''FreezeUpgradeInProgress'', ''FREEZE_UPGRADE_IN_PROGRESS''),
     (''UpdateFileIdDoesNotMatchPrepared'', ''UPDATE_FILE_ID_DOES_NOT_MATCH_PREPARED''),
     (''UpdateFileHashDoesNotMatchPrepared'', ''UPDATE_FILE_HASH_DOES_NOT_MATCH_PREPARED''),
     (''ConsensusGasExhausted'', ''CONSENSUS_GAS_EXHAUSTED''),
     (''RevertedSuccess'', ''REVERTED_SUCCESS''),
     (''MaxStorageInPriceRegimeHasBeenUsed'', ''MAX_STORAGE_IN_PRICE_REGIME_HAS_BEEN_USED''),
     (''InvalidAliasKey'', ''INVALID_ALIAS_KEY''),
     (''UnexpectedTokenDecimals'', ''UNEXPECTED_TOKEN_DECIMALS''),
     (''InvalidProxyAccountId'', ''INVALID_PROXY_ACCOUNT_ID''),
     (''InvalidTransferAccountId'', ''INVALID_TRANSFER_ACCOUNT_ID''),
     (''InvalidFeeCollectorAccountId'', ''INVALID_FEE_COLLECTOR_ACCOUNT_ID''),
     (''AliasIsImmutable'', ''ALIAS_IS_IMMUTABLE''),
     (''SpenderAccountSameAsOwner'', ''SPENDER_ACCOUNT_SAME_AS_OWNER''),
     (''AmountExceedsTokenMaxSupply'', ''AMOUNT_EXCEEDS_TOKEN_MAX_SUPPLY''),
     (''NegativeAllowanceAmount'', ''NEGATIVE_ALLOWANCE_AMOUNT''),
     (''CannotApproveForAllFungibleCommon'', ''CANNOT_APPROVE_FOR_ALL_FUNGIBLE_COMMON''),
     (''SpenderDoesNotHaveAllowance'', ''SPENDER_DOES_NOT_HAVE_ALLOWANCE''),
     (''AmountExceedsAllowance'', ''AMOUNT_EXCEEDS_ALLOWANCE''),
     (''MaxAllowancesExceeded'', ''MAX_ALLOWANCES_EXCEEDED''),
     (''EmptyAllowances'', ''EMPTY_ALLOWANCES''),
     (''SpenderAccountRepeatedInAllowances'', ''SPENDER_ACCOUNT_REPEATED_IN_ALLOWANCES''),
     (''RepeatedSerialNumsInNftAllowances'', ''REPEATED_SERIAL_NUMS_IN_NFT_ALLOWANCES''),
     (''FungibleTokenInNftAllowances'', ''FUNGIBLE_TOKEN_IN_NFT_ALLOWANCES''),
     (''NftInFungibleTokenAllowances'', ''NFT_IN_FUNGIBLE_TOKEN_ALLOWANCES''),
     (''InvalidAllowanceOwnerId'', ''INVALID_ALLOWANCE_OWNER_ID''),
     (''InvalidAllowanceSpenderId'', ''INVALID_ALLOWANCE_SPENDER_ID''),
     (''RepeatedAllowancesToDelete'', ''REPEATED_ALLOWANCES_TO_DELETE''),
     (''InvalidDelegatingSpender'', ''INVALID_DELEGATING_SPENDER''),
     (''DelegatingSpenderCannotGrantApproveForAll'', ''DELEGATING_SPENDER_CANNOT_GRANT_APPROVE_FOR_ALL''),
     (''DelegatingSpenderDoesNotHaveApproveForAll'', ''DELEGATING_SPENDER_DOES_NOT_HAVE_APPROVE_FOR_ALL''),
     (''ScheduleExpirationTimeTooFarInFuture'', ''SCHEDULE_EXPIRATION_TIME_TOO_FAR_IN_FUTURE''),
     (''ScheduleExpirationTimeMustBeHigherThanConsensusTime'', ''SCHEDULE_EXPIRATION_TIME_MUST_BE_HIGHER_THAN_CONSENSUS_TIME''),
     (''ScheduleFutureThrottleExceeded'', ''SCHEDULE_FUTURE_THROTTLE_EXCEEDED''),
     (''ScheduleFutureGasLimitExceeded'', ''SCHEDULE_FUTURE_GAS_LIMIT_EXCEEDED''),
     (''InvalidEthereumTransaction'', ''INVALID_ETHEREUM_TRANSACTION''),
     (''WrongChainId'', ''WRONG_CHAIN_ID''),
     (''WrongNonce'', ''WRONG_NONCE''),
     (''AccessListUnsupported'', ''ACCESS_LIST_UNSUPPORTED''),
     (''SchedulePendingExpiration'', ''SCHEDULE_PENDING_EXPIRATION''),
     (''ContractIsTokenTreasury'', ''CONTRACT_IS_TOKEN_TREASURY''),
     (''ContractHasNonZeroTokenBalances'', ''CONTRACT_HAS_NON_ZERO_TOKEN_BALANCES''),
     (''ContractExpiredAndPendingRemoval'', ''CONTRACT_EXPIRED_AND_PENDING_REMOVAL''),
     (''ContractHasNoAutoRenewAccount'', ''CONTRACT_HAS_NO_AUTO_RENEW_ACCOUNT''),
     (''PermanentRemovalRequiresSystemInitiation'', ''PERMANENT_REMOVAL_REQUIRES_SYSTEM_INITIATION''),
     (''ProxyAccountIdFieldIsDeprecated'', ''PROXY_ACCOUNT_ID_FIELD_IS_DEPRECATED''),
     (''SelfStakingIsNotAllowed'', ''SELF_STAKING_IS_NOT_ALLOWED''),
     (''InvalidStakingId'', ''INVALID_STAKING_ID''),
     (''StakingNotEnabled'', ''STAKING_NOT_ENABLED''),
     (''InvalidPrngRange'', ''INVALID_PRNG_RANGE''),
     (''MaxEntitiesInPriceRegimeHaveBeenCreated'', ''MAX_ENTITIES_IN_PRICE_REGIME_HAVE_BEEN_CREATED''),
     (''InvalidFullPrefixSignatureForPrecompile'', ''INVALID_FULL_PREFIX_SIGNATURE_FOR_PRECOMPILE''),
     (''InsufficientBalancesForStorageRent'', ''INSUFFICIENT_BALANCES_FOR_STORAGE_RENT''),
     (''MaxChildRecordsExceeded'', ''MAX_CHILD_RECORDS_EXCEEDED''),
     (''InsufficientBalancesForRenewalFees'', ''INSUFFICIENT_BALANCES_FOR_RENEWAL_FEES''),
     (''TransactionHasUnknownFields'', ''TRANSACTION_HAS_UNKNOWN_FIELDS''),
     (''AccountIsImmutable'', ''ACCOUNT_IS_IMMUTABLE''),
     (''AliasAlreadyAssigned'', ''ALIAS_ALREADY_ASSIGNED''),
     (''InvalidMetadataKey'', ''INVALID_METADATA_KEY''),
     (''TokenHasNoMetadataKey'', ''TOKEN_HAS_NO_METADATA_KEY''),
     (''MissingTokenMetadata'', ''MISSING_TOKEN_METADATA''),
     (''MissingSerialNumbers'', ''MISSING_SERIAL_NUMBERS''),
     (''TokenHasNoAdminKey'', ''TOKEN_HAS_NO_ADMIN_KEY''),
     (''NodeDeleted'', ''NODE_DELETED''),
     (''InvalidNodeId'', ''INVALID_NODE_ID''),
     (''InvalidGossipEndpoint'', ''INVALID_GOSSIP_ENDPOINT''),
     (''InvalidNodeAccountId'', ''INVALID_NODE_ACCOUNT_ID'')]"

definition status_texts_05 :: "(string \<times> string) list" where
  "status_texts_05 = [
     (''InvalidNodeDescription'', ''INVALID_NODE_DESCRIPTION''),
     (''InvalidServiceEndpoint'', ''INVALID_SERVICE_ENDPOINT''),
     (''InvalidGossipCaCertificate'', ''INVALID_GOSSIP_CA_CERTIFICATE''),
     (''InvalidGrpcCertificate'', ''INVALID_GRPC_CERTIFICATE''),
     (''InvalidMaxAutoAssociations'', ''INVALID_MAX_AUTO_ASSOCIATIONS''),
     (''MaxNodesCreated'', ''MAX_NODES_CREATED''),
     (''IpFqdnCannotBeSetForSameEndpoint'', ''IP_FQDN_CANNOT_BE_SET_FOR_SAME_ENDPOINT''),
     (''GossipEndpointCannotHaveFqdn'', ''GOSSIP_ENDPOINT_CANNOT_HAVE_FQDN''),
     (''FqdnSizeTooLarge'', ''FQDN_SIZE_TOO_LARGE''),
     (''InvalidEndpoint'', ''INVALID_ENDPOINT''),
     (''GossipEndpointsExceededLimit'', ''GOSSIP_ENDPOINTS_EXCEEDED_LIMIT'')]"

definition status_texts_06 :: "(string \<times> string) list" where
  "status_texts_06 = [
     (''ServiceEndpointsExceededLimit'', ''SERVICE_ENDPOINTS_EXCEEDED_LIMIT''),
     (''InvalidIpv4Address'', ''INVALID_IPV4_ADDRESS'')]"

definition status_texts_07 :: "(string \<times> string) list" where
  "status_texts_07 = [
     (''TokenReferenceRepeated'', ''TOKEN_REFERENCE_REPEATED''),
     (''InvalidOwnerId'', ''INVALID_OWNER_ID''),
     (''TokenReferenceListSizeLimitExceeded'', ''TOKEN_REFERENCE_LIST_SIZE_LIMIT_EXCEEDED'')]"

definition status_texts_08 :: "(string \<times> string) list" where
  "status_texts_08 = [
     (''EmptyTokenReferenceList'', ''EMPTY_TOKEN_REFERENCE_LIST''),
     (''UpdateNodeAccountNotAllowed'', ''UPDATE_NODE_ACCOUNT_NOT_ALLOWED''),
     (''TokenHasNoMetadataOrSupplyKey'', ''TOKEN_HAS_NO_METADATA_OR_SUPPLY_KEY''),
     (''EmptyPendingAirdropIdList'', ''EMPTY_PENDING_AIRDROP_ID_LIST''),
     (''PendingAirdropIdRepeated'', ''PENDING_AIRDROP_ID_REPEATED''),
     (''MaxPendingAirdropIdExceeded'', ''PENDING_AIRDROP_ID_LIST_TOO_LONG''),
     (''PendingNftAirdropAlreadyExists'', ''PENDING_NFT_AIRDROP_ALREADY_EXISTS''),
     (''AccountHasPendingAirdrops'', ''ACCOUNT_HAS_PENDING_AIRDROPS''),
     (''ThrottledAtConsensus'', ''THROTTLED_AT_CONSENSUS''),
     (''InvalidPendingAirdropId'', ''INVALID_PENDING_AIRDROP_ID''),
     (''TokenAirdropWithFallbackRoyalty'', ''TOKEN_AIRDROP_WITH_FALLBACK_ROYALTY''),
     (''InvalidTokenInPendingAirdrop'', ''INVALID_TOKEN_IN_PENDING_AIRDROP''),
     (''ScheduleExpiryIsBusy'', ''SCHEDULE_EXPIRY_IS_BUSY''),
     (''InvalidGrpcCertificateHash'', ''INVALID_GRPC_CERTIFICATE_HASH''),
     (''MissingExpiryTime'', ''MISSING_EXPIRY_TIME''),
     (''NoSchedulingAllowedAfterScheduledRecursion'', ''NO_SCHEDULING_ALLOWED_AFTER_SCHEDULED_RECURSION''),
     (''RecursiveSchedulingLimitReached'', ''RECURSIVE_SCHEDULING_LIMIT_REACHED''),
     (''WaitingForLedgerId'', ''WAITING_FOR_LEDGER_ID''),
     (''MaxEntriesForFeeExemptKeyListExceeded'', ''MAX_ENTRIES_FOR_FEE_EXEMPT_KEY_LIST_EXCEEDED''),
     (''FeeExemptKeyListContainsDuplicatedKeys'', ''FEE_EXEMPT_KEY_LIST_CONTAINS_DUPLICATED_KEYS''),
     (''InvalidKeyInFeeExemptKeyList'', ''INVALID_KEY_IN_FEE_EXEMPT_KEY_LIST''),
     (''InvalidFeeScheduleKey'', ''INVALID_FEE_SCHEDULE_KEY''),
     (''FeeScheduleKeyCannotBeUpdated'', ''FEE_SCHEDULE_KEY_CANNOT_BE_UPDATED''),
     (''FeeScheduleKeyNotSet'', ''FEE_SCHEDULE_KEY_NOT_SET''),
     (''MaxCustomFeeLimitExceeded'', ''MAX_CUSTOM_FEE_LIMIT_EXCEEDED''),
     (''NoValidMaxCustomFee'', ''NO_VALID_MAX_CUSTOM_FEE''),
     (''InvalidMaxCustomFees'', ''INVALID_MAX_CUSTOM_FEES''),
     (''DuplicateDenominationInMaxCustomFeeList'', ''DUPLICATE_DENOMINATION_IN_MAX_CUSTOM_FEE_LIST''),
     (''DuplicateAccountIdInMaxCustomFeeList'', ''DUPLICATE_ACCOUNT_ID_IN_MAX_CUSTOM_FEE_LIST''),
     (''MaxCustomFeesIsNotSupported'', ''MAX_CUSTOM_FEES_IS_NOT_SUPPORTED'')]"

definition status_texts :: "(string \<times> string) list" where
  "status_texts = status_texts_01 @ status_texts_02 @ status_texts_03 @ status_texts_04 @ status_texts_05 @ status_texts_06 @ status_texts_07 @ status_texts_08"

lemmas status_texts_defs = status_texts_def status_texts_01_def status_texts_02_def status_texts_03_def status_texts_04_def status_texts_05_def status_texts_06_def status_texts_07_def status_texts_08_def

definition status_cases_01 :: "(nat \<times> string) list" where
  "status_cases_01 = [
     (0, ''Ok''),
     (1, ''InvalidTransaction''),
     (2, ''PayerAccountNotFound''),
     (3, ''InvalidNodeAccount''),
     (4, ''TransactionExpired''),
     (5, ''InvalidTransactionStart''),
     (6, ''InvalidTransactionDuration''),
     (7, ''InvalidSignature''),
     (8, ''MemoTooLong''),
     (9, ''InsufficientTxFee''),
     (10, ''InsufficientPayerBalance''),
     (11, ''DuplicateTransaction''),
     (12, ''Busy''),
     (13, ''NotSupported''),
     (14, ''InvalidFileId''),
     (15, ''InvalidAccountId''),
     (16, ''InvalidContractId''),
     (17, ''InvalidTransactionId''),
     (18, ''ReceiptNotFound''),
     (19, ''RecordNotFound''),
     (20, ''InvalidSolidityId''),
     (21, ''Unknown''),
     (22, ''Success''),
     (23, ''FailInvalid''),
     (24, ''FailFee''),
     (25, ''FailBalance''),
     (26, ''KeyRequired''),
     (27, ''BadEncoding''),
     (28, ''InsufficientAccountBalance''),
     (29, ''InvalidSolidityAddress''),
     (30, ''InsufficientGas''),
     (31, ''ContractSizeLimitExceeded''),
     (32, ''LocalCallModificationException''),
     (33, ''ContractRevertExecuted''),
     (34, ''ContractExecutionException''),
     (35, ''InvalidReceivingNodeAccount''),
     (36, ''MissingQueryHeader''),
     (37, ''AccountUpdateFailed''),
     (38, ''InvalidKeyEncoding''),
     (39, ''NullSolidityAddress''),
     (40, ''ContractUpdateFailed''),
     (41, ''InvalidQueryHeader''),
     (42, ''InvalidFeeSubmitted''),
     (43, ''InvalidPayerSignature''),
     (44, ''KeyNotProvided''),
     (45, ''InvalidExpirationTime''),
     (46, ''NoWaclKey''),
     (47, ''FileContentEmpty''),
     (48, ''InvalidAccountAmounts''),
     (49, ''EmptyTransactionBody''),
     (50, ''InvalidTransactionBody''),
     (51, ''InvalidSignatureTypeMismatchingKey''),
     (52, ''InvalidSignatureCountMismatchingKey''),
     (53, ''EmptyLiveHashBody''),
     (54, ''EmptyLiveHash''),
     (55, ''EmptyLiveHashKeys''),
     (56, ''InvalidLiveHashSize''),
     (57, ''EmptyQueryBody''),
     (58, ''EmptyLiveHashQuery''),
     (59, ''LiveHashNotFound''),
     (60, ''AccountIdDoesNotExist''),
     (61, ''LiveHashAlreadyExists''),
     (62, ''InvalidFileWacl''),
     (63, ''SerializationFailed''),
     (64, ''TransactionOversize''),
     (65, ''TransactionTooManyLayers''),
     (66, ''ContractDeleted''),
     (67, ''PlatformNotActive''),
     (68, ''KeyPrefixMismatch''),
     (69, ''PlatformTransactionNotCreated''),
     (70, ''InvalidRenewalPeriod''),
     (71, ''InvalidPayerAccountId''),
     (72, ''AccountDeleted''),
     (73, ''FileDeleted''),
     (74, ''AccountRepeatedInAccountAmounts'')]"

definition status_cases_02 :: "(nat \<times> string) list" where
  "status_cases_02 = [
     (75, ''SettingNegativeAccountBalance''),
     (76, ''ObtainerRequired''),
     (77, ''ObtainerSameContractId''),
     (78, ''ObtainerDoesNotExist''),
     (79, ''ModifyingImmutableContract''),
     (80, ''FileSystemException''),
     (81, ''AutorenewDurationNotInRange''),
     (82, ''ErrorDecodingBytestring''),
     (83, ''ContractFileEmpty''),
     (84, ''ContractBytecodeEmpty''),
     (85, ''InvalidInitialBalance''),
     (86, ''InvalidReceiveRecordThreshold''),
     (87, ''InvalidSendRecordThreshold''),
     (88, ''AccountIsNotGenesisAccount''),
     (89, ''PayerAccountUnauthorized''),
     (90, ''InvalidFreezeTransactionBody''),
     (91, ''FreezeTransactionBodyNotFound''),
     (92, ''TransferListSizeLimitExceeded''),
     (93, ''ResultSizeLimitExceeded''),
     (94, ''NotSpecialAccount''),
     (95, ''ContractNegativeGas''),
     (96, ''ContractNegativeValue''),
     (97, ''InvalidFeeFile''),
     (98, ''InvalidExchangeRateFile''),
     (99, ''InsufficientLocalCallGas''),
     (100, ''EntityNotAllowedToDelete''),
     (101, ''AuthorizationFailed''),
     (102, ''FileUploadedProtoInvalid''),
     (103, ''FileUploadedProtoNotSavedToDisk''),
     (104, ''FeeScheduleFilePartUploaded''),
     (105, ''ExchangeRateChangeLimitExceeded''),
     (106, ''MaxContractStorageExceeded''),
     (107, ''TransferAccountSameAsDeleteAccount''),
     (108, ''TotalLedgerBalanceInvalid''),
     (110, ''ExpirationReductionNotAllowed''),
     (111, ''MaxGasLimitExceeded''),
     (112, ''MaxFileSizeExceeded''),
     (113, ''ReceiverSigRequired''),
     (150, ''InvalidTopicId''),
     (155, ''InvalidAdminKey''),
     (156, ''InvalidSubmitKey''),
     (157, ''Unauthorized''),
     (158, ''InvalidTopicMessage''),
     (159, ''InvalidAutorenewAccount''),
     (160, ''AutorenewAccountNotAllowed''),
     (162, ''TopicExpired''),
     (163, ''InvalidChunkNumber''),
     (164, ''InvalidChunkTransactionId''),
     (165, ''AccountFrozenForToken''),
     (166, ''TokensPerAccountLimitExceeded''),
     (167, ''InvalidTokenId''),
     (168, ''InvalidTokenDecimals''),
     (169, ''InvalidTokenInitialSupply''),
     (170, ''InvalidTreasuryAccountForToken''),
     (171, ''InvalidTokenSymbol''),
     (172, ''TokenHasNoFreezeKey''),
     (173, ''TransfersNotZeroSumForToken''),
     (174, ''MissingTokenSymbol''),
     (175, ''TokenSymbolTooLong''),
     (176, ''AccountKycNotGrantedForToken''),
     (177, ''TokenHasNoKycKey''),
     (178, ''InsufficientTokenBalance''),
     (179, ''TokenWasDeleted''),
     (180, ''TokenHasNoSupplyKey''),
     (181, ''TokenHasNoWipeKey''),
     (182, ''InvalidTokenMintAmount''),
     (183, ''InvalidTokenBurnAmount''),
     (184, ''TokenNotAssociatedToAccount''),
     (185, ''CannotWipeTokenTreasuryAccount''),
     (186, ''InvalidKycKey''),
     (187, ''InvalidWipeKey''),
     (188, ''InvalidFreezeKey''),
     (189, ''InvalidSupplyKey''),
     (190, ''MissingTokenName''),
     (191, ''TokenNameTooLong'')]"

definition status_cases_03 :: "(nat \<times> string) list" where
  "status_cases_03 = [
     (192, ''InvalidWipingAmount''),
     (193, ''TokenIsImmutable''),
     (194, ''TokenAlreadyAssociatedToAccount''),
     (195, ''TransactionRequiresZeroTokenBalances''),
     (196, ''AccountIsTreasury''),
     (197, ''TokenIdRepeatedInTokenList''),
     (198, ''TokenTransferListSizeLimitExceeded''),
     (199, ''EmptyTokenTransferBody''),
     (200, ''EmptyTokenTransferAccountAmounts''),
     (201, ''InvalidScheduleId''),
     (202, ''ScheduleIsImmutable''),
     (203, ''InvalidSchedulePayerId''),
     (204, ''InvalidScheduleAccountId''),
     (205, ''NoNewValidSignatures''),
     (206, ''UnresolvableRequiredSigners''),
     (207, ''ScheduledTransactionNotInWhitelist''),
     (208, ''SomeSignaturesWereInvalid''),
     (209, ''TransactionIdFieldNotAllowed''),
     (210, ''IdenticalScheduleAlreadyCreated''),
     (211, ''InvalidZeroByteInString''),
     (212, ''ScheduleAlreadyDeleted''),
     (213, ''ScheduleAlreadyExecuted''),
     (214, ''MessageSizeTooLarge''),
     (215, ''OperationRepeatedInBucketGroups''),
     (216, ''BucketCapacityOverflow''),
     (217, ''NodeCapacityNotSufficientForOperation''),
     (218, ''BucketHasNoThrottleGroups''),
     (219, ''ThrottleGroupHasZeroOpsPerSec''),
     (220, ''SuccessButMissingExpectedOperation''),
     (221, ''UnparseableThrottleDefinitions''),
     (222, ''InvalidThrottleDefinitions''),
     (223, ''AccountExpiredAndPendingRemoval''),
     (224, ''InvalidTokenMaxSupply''),
     (225, ''InvalidTokenNftSerialNumber''),
     (226, ''InvalidNftId''),
     (227, ''MetadataTooLong''),
     (228, ''BatchSizeLimitExceeded''),
     (229, ''InvalidQueryRange''),
     (230, ''FractionDividesByZero''),
     (231, ''InsufficientPayerBalanceForCustomFee''),
     (232, ''CustomFeesListTooLong''),
     (233, ''InvalidCustomFeeCollector''),
     (234, ''InvalidTokenIdInCustomFees''),
     (235, ''TokenNotAssociatedToFeeCollector''),
     (236, ''TokenMaxSupplyReached''),
     (237, ''SenderDoesNotOwnNftSerialNo''),
     (238, ''CustomFeeNotFullySpecified''),
     (239, ''CustomFeeMustBePositive''),
     (240, ''TokenHasNoFeeScheduleKey''),
     (241, ''CustomFeeOutsideNumericRange''),
     (242, ''RoyaltyFractionCannotExceedOne''),
     (243, ''FractionalFeeMaxAmountLessThanMinAmount''),
     (244, ''CustomScheduleAlreadyHasNoFees''),
     (245, ''CustomFeeDenominationMustBeFungibleCommon''),
     (246, ''CustomFractionalFeeOnlyAllowedForFungibleCommon''),
     (247, ''InvalidCustomFeeScheduleKey''),
     (248, ''InvalidTokenMintMetadata''),
     (249, ''InvalidTokenBurnMetadata''),
     (250, ''CurrentTreasuryStillOwnsNfts''),
     (251, ''AccountStillOwnsNfts''),
     (252, ''TreasuryMustOwnBurnedNft''),
     (253, ''AccountDoesNotOwnWipedNft''),
     (254, ''AccountAmountTransfersOnlyAllowedForFungibleCommon''),
     (255, ''MaxNftsInPriceRegimeHaveBeenMinted''),
     (256, ''PayerAccountDeleted''),
     (257, ''CustomFeeChargingExceededMaxRecursionDepth''),
     (258, ''CustomFeeChargingExceededMaxAccountAmounts''),
     (259, ''InsufficientSenderAccountBalanceForCustomFee''),
     (260, ''SerialNumberLimitReached''),
     (261, ''CustomRoyaltyFeeOnlyAllowedForNonFungibleUnique''),
     (262, ''NoRemainingAutomaticAssociations''),
     (263, ''ExistingAutomaticAssociationsExceedGivenLimit''),
     (264, ''RequestedNumAutomaticAssociationsExceedsAssociationLimit''),
     (265, ''TokenIsPaused''),
     (266, ''TokenHasNoPauseKey'')]"

definition status_cases_04 :: "(nat \<times> string) list" where
  "status_cases_04 = [
     (267, ''InvalidPauseKey''),
     (268, ''FreezeUpdateFileDoesNotExist''),
     (269, ''FreezeUpdateFileHashDoesNotMatch''),
     (270, ''NoUpgradeHasBeenPrepared''),
     (271, ''NoFreezeIsScheduled''),
     (272, ''UpdateFileHashChangedSincePrepareUpgrade''),
     (273, ''FreezeStartTimeMustBeFuture''),
     (274, ''PreparedUpdateFileIsImmutable''),
     (275, ''FreezeAlreadyScheduled''),
     (276, ''FreezeUpgradeInProgress''),
     (277, ''UpdateFileIdDoesNotMatchPrepared''),
     (278, ''UpdateFileHashDoesNotMatchPrepared''),
     (279, ''ConsensusGasExhausted''),
     (280, ''RevertedSuccess''),
     (281, ''MaxStorageInPriceRegimeHasBeenUsed''),
     (282, ''InvalidAliasKey''),
     (283, ''UnexpectedTokenDecimals''),
     (284, ''InvalidProxyAccountId''),
     (285, ''InvalidTransferAccountId''),
     (286, ''InvalidFeeCollectorAccountId''),
     (287, ''AliasIsImmutable''),
     (288, ''SpenderAccountSameAsOwner''),
     (289, ''AmountExceedsTokenMaxSupply''),
     (290, ''NegativeAllowanceAmount''),
     (291, ''CannotApproveForAllFungibleCommon''),
     (292, ''SpenderDoesNotHaveAllowance''),
     (293, ''AmountExceedsAllowance''),
     (294, ''MaxAllowancesExceeded''),
     (295, ''EmptyAllowances''),
     (296, ''SpenderAccountRepeatedInAllowances''),
     (297, ''RepeatedSerialNumsInNftAllowances''),
     (298, ''FungibleTokenInNftAllowances''),
     (299, ''NftInFungibleTokenAllowances''),
     (300, ''InvalidAllowanceOwnerId''),
     (301, ''InvalidAllowanceSpenderId''),
     (302, ''RepeatedAllowancesToDelete''),
     (303, ''InvalidDelegatingSpender''),
     (304, ''DelegatingSpenderCannotGrantApproveForAll''),
     (305, ''DelegatingSpenderDoesNotHaveApproveForAll''),
     (306, ''ScheduleExpirationTimeTooFarInFuture''),
     (307, ''ScheduleExpirationTimeMustBeHigherThanConsensusTime''),
     (308, ''ScheduleFutureThrottleExceeded''),
     (309, ''ScheduleFutureGasLimitExceeded''),
     (310, ''InvalidEthereumTransaction''),
     (311, ''WrongChainId''),
     (312, ''WrongNonce''),
     (313, ''AccessListUnsupported''),
     (314, ''SchedulePendingExpiration''),
     (315, ''ContractIsTokenTreasury''),
     (316, ''ContractHasNonZeroTokenBalances''),
     (317, ''ContractExpiredAndPendingRemoval''),
     (318, ''ContractHasNoAutoRenewAccount''),
     (319, ''PermanentRemovalRequiresSystemInitiation''),
     (320, ''ProxyAccountIdFieldIsDeprecated''),
     (321, ''SelfStakingIsNotAllowed''),
     (322, ''InvalidStakingId''),
     (323, ''StakingNotEnabled''),
     (324, ''InvalidPrngRange''),
     (325, ''MaxEntitiesInPriceRegimeHaveBeenCreated''),
     (326, ''InvalidFullPrefixSignatureForPrecompile''),
     (327, ''InsufficientBalancesForStorageRent''),
     (328, ''MaxChildRecordsExceeded''),
     (329, ''InsufficientBalancesForRenewalFees''),
     (330, ''TransactionHasUnknownFields''),
     (331, ''AccountIsImmutable''),
     (332, ''AliasAlreadyAssigned''),
     (333, ''InvalidMetadataKey''),
     (334, ''TokenHasNoMetadataKey''),
     (335, ''MissingTokenMetadata''),
     (336, ''MissingSerialNumbers''),
     (337, ''TokenHasNoAdminKey''),
     (338, ''NodeDeleted''),
     (339, ''InvalidNodeId''),
     (340, ''InvalidGossipEndpoint''),
     (341, ''InvalidNodeAccountId'')]"

definition status_cases_05 :: "(nat \<times> string) list" where
  "status_cases_05 = [
     (342, ''InvalidNodeDescription''),
     (343, ''InvalidServiceEndpoint''),
     (344, ''InvalidGossipCaCertificate''),
     (345, ''InvalidGrpcCertificate''),
     (346, ''InvalidMaxAutoAssociations''),
     (347, ''MaxNodesCreated''),
     (348, ''IpFqdnCannotBeSetForSameEndpoint''),
     (349, ''GossipEndpointCannotHaveFqdn''),
     (350, ''FqdnSizeTooLarge''),
     (351, ''InvalidEndpoint''),
     (352, ''GossipEndpointsExceededLimit''),
     (353, ''TokenReferenceRepeated''),
     (354, ''InvalidOwnerId''),
     (355, ''TokenReferenceListSizeLimitExceeded''),
     (356, ''ServiceEndpointsExceededLimit''),
     (357, ''InvalidIpv4Address''),
     (358, ''EmptyTokenReferenceList''),
     (359, ''UpdateNodeAccountNotAllowed''),
     (360, ''TokenHasNoMetadataOrSupplyKey''),
     (361, ''EmptyPendingAirdropIdList''),
     (362, ''PendingAirdropIdRepeated''),
     (363, ''MaxPendingAirdropIdExceeded''),
     (364, ''PendingNftAirdropAlreadyExists''),
     (365, ''AccountHasPendingAirdrops''),
     (366, ''ThrottledAtConsensus''),
     (367, ''InvalidPendingAirdropId''),
     (368, ''TokenAirdropWithFallbackRoyalty''),
     (369, ''InvalidTokenInPendingAirdrop''),
     (370, ''ScheduleExpiryIsBusy''),
     (371, ''InvalidGrpcCertificateHash''),
     (372, ''MissingExpiryTime''),
     (373, ''NoSchedulingAllowedAfterScheduledRecursion''),
     (374, ''RecursiveSchedulingLimitReached''),
     (375, ''WaitingForLedgerId''),
     (376, ''MaxEntriesForFeeExemptKeyListExceeded''),
     (377, ''FeeExemptKeyListContainsDuplicatedKeys''),
     (378, ''InvalidKeyInFeeExemptKeyList''),
     (379, ''InvalidFeeScheduleKey''),
     (380, ''FeeScheduleKeyCannotBeUpdated''),
     (381, ''FeeScheduleKeyNotSet''),
     (382, ''MaxCustomFeeLimitExceeded''),
     (383, ''NoValidMaxCustomFee''),
     (384, ''InvalidMaxCustomFees''),
     (385, ''DuplicateDenominationInMaxCustomFeeList''),
     (386, ''DuplicateAccountIdInMaxCustomFeeList''),
     (387, ''MaxCustomFeesIsNotSupported'')]"

definition status_cases :: "(nat \<times> string) list" where
  "status_cases = status_cases_01 @ status_cases_02 @ status_cases_03 @ status_cases_04 @ status_cases_05"

lemmas status_cases_defs = status_cases_def status_cases_01_def status_cases_02_def status_cases_03_def status_cases_04_def status_cases_05_def

end
