(* ===== verification/RequestCodes.thy ===== *)
theory RequestCodes
  imports Prelude
begin

text \<open>
  The kinds of requests of \<open>src/RequestType.js\<close>: the constants with their codes, the
  texts \<open>toString\<close> gives them, and the constants \<open>_fromCode\<close> returns, each
  in the order of the source.
\<close>

definition request_constants_01 :: "(string \<times> nat) list" where
  "request_constants_01 = [
     (''None'', 0),
     (''CryptoTransfer'', 1),
     (''CryptoUpdate'', 2),
     (''CryptoDelete'', 3),
     (''CryptoAddLiveHash'', 4),
     (''CryptoDeleteLiveHash'', 5),
     (''ContractCall'', 6),
     (''ContractCreate'', 7),
     (''ContractUpdate'', 8),
     (''FileCreate'', 9),
     (''FileAppend'', 10),
     (''FileUpdate'', 11),
     (''FileDelete'', 12),
     (''CryptoGetAccountBalance'', 13),
     (''CryptoGetAccountRecords'', 14),
     (''CryptoGetInfo'', 15),
     (''ContractCallLocal'', 16),
     (''ContractGetInfo'', 17),
     (''ContractGetBytecode'', 18),
     (''GetBySolidityID'', 19),
     (''GetByKey'', 20),
     (''CryptoGetLiveHash'', 21),
     (''CryptoGetStakers'', 22),
     (''FileGetContents'', 23),
     (''FileGetInfo'', 24),
     (''TransactionGetRecord'', 25),
     (''ContractGetRecords'', 26),
     (''CryptoCreate'', 27),
     (''SystemDelete'', 28),
     (''SystemUndelete'', 29)]"

definition request_constants_02 :: "(string \<times> nat) list" where
  "request_constants_02 = [
     (''ContractDelete'', 30),
     (''Freeze'', 31),
     (''CreateTransactionRecord'', 32),
     (''CryptoAccountAutoRenew'', 33),
     (''ContractAutoRenew'', 34),
     (''GetVersionInfo'', 35),
     (''TransactionGetReceipt'', 36),
     (''ConsensusCreateTopic'', 50),
     (''ConsensusUpdateTopic'', 51),
     (''ConsensusDeleteTopic'', 52),
     (''ConsensusGetTopicInfo'', 53),
     (''ConsensusSubmitMessage'', 54),
     (''UncheckedSubmit'', 55),
     (''TokenCreate'', 56),
     (''TokenGetInfo'', 58),
     (''TokenFreezeAccount'', 59),
     (''TokenUnfreezeAccount'', 60),
     (''TokenGrantKycToAccount'', 61),
     (''TokenRevokeKycFromAccount'', 62),
     (''TokenDelete'', 63),
     (''TokenUpdate'', 64),
     (''TokenMint'', 65),
     (''TokenBurn'', 66),
     (''TokenAccountWipe'', 67),
     (''TokenAssociateToAccount'', 68),
     (''TokenDissociateFromAccount'', 69),
     (''ScheduleCreate'', 70),
     (''ScheduleDelete'', 71),
     (''ScheduleSign'', 72),
     (''ScheduleGetInfo'', 73),
     (''TokenGetAccountNftInfos'', 74)]"

definition request_constants_03 :: "(string \<times> nat) list" where
  "request_constants_03 = [
     (''TokenGetNftInfo'', 75),
     (''TokenGetNftInfos'', 76),
     (''TokenFeeScheduleUpdate'', 77),
     (''NetworkGetExecutionTime'', 78),
     (''TokenPause'', 79),
     (''TokenUnpause'', 80),
     (''CryptoApproveAllowance'', 81),
     (''CryptoDeleteAllowance'', 82),
     (''GetAccountDetails'', 83),
     (''EthereumTransaction'', 84),
     (''NodeStakeUpdate'', 85),
     (''Prng'', 86),
     (''TransactionGetFastRecord'', 87),
     (''TokenUpdateNfts'', 88),
     (''NodeCreate'', 89),
     (''NodeUpdate'', 90),
     (''NodeDelete'', 91),
     (''TokenReject'', 92),
     (''TokenAirdrop'', 93),
     (''TokenCancelAirdrop'', 94),
     (''TokenClaimAirdrop'', 95),
     (''TssMessage'', 96),
     (''TssVote'', 97),
     (''TssShareSignature'', 98),
     (''TssEncryptionKey'', 99),
     (''StateSignatureTransaction'', 100),
     (''HistoryAssemblySignature'', 104),
     (''HistoryProofKeyPublication'', 105),
     (''HistoryProofVote'', 106)]"

definition request_constants :: "(string \<times> nat) list" where
  "request_constants = request_constants_01 @ request_constants_02 @ request_constants_03"

lemmas request_constants_defs = request_constants_def request_constants_01_def request_constants_02_def request_constants_03_def

definition request_texts_01 :: "(string \<times> string) list" where
  "request_texts_01 = [
     (''None'', ''NONE''),
     (''CryptoTransfer'', ''CryptoTransfer''),
     (''CryptoUpdate'', ''CryptoUpdate''),
     (''CryptoDelete'', ''CryptoDelete''),
     (''CryptoAddLiveHash'', ''CryptoAddLiveHash''),
     (''CryptoDeleteLiveHash'', ''CryptoDeleteLiveHash''),
     (''ContractCall'', ''ContractCall''),
     (''ContractCreate'', ''ContractCreate''),
     (''ContractUpdate'', ''ContractUpdate''),
     (''FileCreate'', ''FileCreate''),
     (''FileAppend'', ''FileAppend''),
     (''FileUpdate'', ''FileUpdate''),
     (''FileDelete'', ''FileDelete''),
     (''CryptoGetAccountBalance'', ''CryptoGetAccountBalance''),
     (''CryptoGetAccountRecords'', ''CryptoGetAccountRecords''),
     (''CryptoGetInfo'', ''CryptoGetInfo''),
     (''ContractCallLocal'', ''ContractCallLocal''),
     (''ContractGetInfo'', ''ContractGetInfo''),
     (''ContractGetBytecode'', ''ContractGetBytecode''),
     (''GetBySolidityID'', ''GetBySolidityID''),
     (''GetByKey'', ''GetByKey''),
     (''CryptoGetLiveHash'', ''CryptoGetLiveHash''),
     (''CryptoGetStakers'', ''CryptoGetStakers''),
     (''FileGetContents'', ''FileGetContents''),
     (''FileGetInfo'', ''FileGetInfo''),
     (''TransactionGetRecord'', ''TransactionGetRecord''),
     (''ContractGetRecords'', ''ContractGetRecords''),
     (''CryptoCreate'', ''CryptoCreate''),
     (''SystemDelete'', ''SystemDelete''),
     (''SystemUndelete'', ''SystemUndelete''),
     (''ContractDelete'', ''ContractDelete''),
     (''Freeze'', ''Freeze''),
     (''CreateTransactionRecord'', ''CreateTransactionRecord''),
     (''CryptoAccountAutoRenew'', ''CryptoAccountAutoRenew''),
     (''ContractAutoRenew'', ''ContractAutoRenew''),
     (''GetVersionInfo'', ''GetVersionInfo''),
     (''TransactionGetReceipt'', ''TransactionGetReceipt''),
     (''ConsensusCreateTopic'', ''ConsensusCreateTopic''),
     (''ConsensusUpdateTopic'', ''ConsensusUpdateTopic''),
     (''ConsensusDeleteTopic'', ''ConsensusDeleteTopic''),
     (''ConsensusGetTopicInfo'', ''ConsensusGetTopicInfo''),
     (''ConsensusSubmitMessage'', ''ConsensusSubmitMessage''),
     (''UncheckedSubmit'', ''UncheckedSubmit''),
     (''TokenCreate'', ''TokenCreate''),
     (''TokenGetInfo'', ''TokenGetInfo''),
     (''TokenFreezeAccount'', ''TokenFreezeAccount''),
     (''TokenUnfreezeAccount'', ''TokenUnfreezeAccount''),
     (''TokenGrantKycToAccount'', ''TokenGrantKycToAccount''),
     (''TokenRevokeKycFromAccount'', ''TokenRevokeKycFromAccount''),
     (''TokenDelete'', ''TokenDelete''),
     (''TokenUpdate'', ''TokenUpdate''),
     (''TokenMint'', ''TokenMint''),
     (''TokenBurn'', ''TokenBurn''),
     (''TokenAccountWipe'', ''TokenAccountWipe''),
     (''TokenAssociateToAccount'', ''TokenAssociateToAccount''),
     (''TokenDissociateFromAccount'', ''TokenDissociateFromAccount''),
     (''ScheduleCreate'', ''ScheduleCreate''),
     (''ScheduleDelete'', ''ScheduleDelete''),
     (''ScheduleSign'', ''ScheduleSign''),
     (''ScheduleGetInfo'', ''ScheduleGetInfo''),
     (''TokenGetAccountNftInfos'', ''TokenGetAccountNftInfos''),
     (''TokenGetNftInfo'', ''TokenGetNftInfo''),
     (''TokenGetNftInfos'', ''TokenGetNftInfos''),
     (''TokenFeeScheduleUpdate'', ''TokenFeeScheduleUpdate''),
     (''NetworkGetExecutionTime'', ''NetworkGetExecutionTime''),
     (''TokenPause'', ''TokenPause''),
     (''TokenUnpause'', ''TokenUnpause''),
     (''CryptoApproveAllowance'', ''CryptoApproveAllowance''),
     (''CryptoDeleteAllowance'', ''CryptoDeleteAllowance''),
     (''GetAccountDetails'', ''GetAccountDetails''),
     (''EthereumTransaction'', ''EthereumTransaction''),
     (''NodeStakeUpdate'', ''NodeStakeUpdate''),
     (''Prng'', ''UtilPrng''),
     (''TransactionGetFastRecord'', ''TransactionGetFastRecord''),
     (''TokenUpdateNfts'', ''TokenUpdateNfts'')]"

definition request_texts_02 :: "(string \<times> string) list" where
  "request_texts_02 = [
     (''NodeCreate'', ''NodeCreate''),
     (''NodeUpdate'', ''NodeUpdate''),
     (''NodeDelete'', ''NodeDelete''),
     (''TokenReject'', ''TokenReject''),
     (''TokenAirdrop'', ''TokenAirdrop''),
     (''TokenCancelAirdrop'', ''TokenCancelAirdrop''),
     (''TokenClaimAirdrop'', ''TokenClaimAirdrop''),
     (''TssMessage'', ''TssMessage''),
     (''TssVote'', ''TssVote''),
     (''TssShareSignature'', ''TssShareSignature''),
     (''TssEncryptionKey'', ''TssEncryptionKey''),
     (''StateSignatureTransaction'', ''StateSignatureTransaction''),
     (''HistoryAssemblySignature'', ''HistoryAssemblySignature''),
     (''HistoryProofKeyPublication'', ''HistoryProofKeyPublication''),
     (''HistoryProofVote'', ''HistoryProofVote'')]"

definition request_texts :: "(string \<times> string) list" where
  "request_texts = request_texts_01 @ request_texts_02"

lemmas request_texts_defs = request_texts_def request_texts_01_def request_texts_02_def

definition request_cases_01 :: "(nat \<times> string) list" where
  "request_cases_01 = [
     (0, ''None''),
     (1, ''CryptoTransfer''),
     (2, ''CryptoUpdate''),
     (3, ''CryptoDelete''),
     (4, ''CryptoAddLiveHash''),
     (5, ''CryptoDeleteLiveHash''),
     (6, ''ContractCall''),
     (7, ''ContractCreate''),
     (8, ''ContractUpdate''),
     (9, ''FileCreate''),
     (10, ''FileAppend''),
     (11, ''FileUpdate''),
     (12, ''FileDelete''),
     (13, ''CryptoGetAccountBalance''),
     (14, ''CryptoGetAccountRecords''),
     (15, ''CryptoGetInfo''),
     (16, ''ContractCallLocal''),
     (17, ''ContractGetInfo''),
     (18, ''ContractGetBytecode''),
     (19, ''GetBySolidityID''),
     (20, ''GetByKey''),
     (21, ''CryptoGetLiveHash''),
     (22, ''CryptoGetStakers''),
     (23, ''FileGetContents''),
     (24, ''FileGetInfo''),
     (25, ''TransactionGetRecord''),
     (26, ''ContractGetRecords''),
     (27, ''CryptoCreate''),
     (28, ''SystemDelete''),
     (29, ''SystemUndelete''),
     (30, ''ContractDelete''),
     (31, ''Freeze''),
     (32, ''CreateTransactionRecord''),
     (33, ''CryptoAccountAutoRenew''),
     (34, ''ContractAutoRenew''),
     (35, ''GetVersionInfo''),
     (36, ''TransactionGetReceipt''),
     (50, ''ConsensusCreateTopic''),
     (51, ''ConsensusUpdateTopic''),
     (52, ''ConsensusDeleteTopic''),
     (53, ''ConsensusGetTopicInfo''),
     (54, ''ConsensusSubmitMessage''),
     (55, ''UncheckedSubmit''),
     (56, ''TokenCreate''),
     (58, ''TokenGetInfo''),
     (59, ''TokenFreezeAccount''),
     (60, ''TokenUnfreezeAccount''),
     (61, ''TokenGrantKycToAccount''),
     (62, ''TokenRevokeKycFromAccount''),
     (63, ''TokenDelete''),
     (64, ''TokenUpdate''),
     (65, ''TokenMint''),
     (66, ''TokenBurn''),
     (67, ''TokenAccountWipe''),
     (68, ''TokenAssociateToAccount''),
     (69, ''TokenDissociateFromAccount''),
     (70, ''ScheduleCreate''),
     (71, ''ScheduleDelete''),
     (72, ''ScheduleSign''),
     (73, ''ScheduleGetInfo''),
     (74, ''TokenGetAccountNftInfos''),
     (75, ''TokenGetNftInfo''),
     (76, ''TokenGetNftInfos''),
     (77, ''TokenFeeScheduleUpdate''),
     (78, ''NetworkGetExecutionTime''),
     (79, ''TokenPause''),
     (80, ''TokenUnpause''),
     (81, ''CryptoApproveAllowance''),
     (82, ''CryptoDeleteAllowance''),
     (83, ''GetAccountDetails''),
     (84, ''EthereumTransaction''),
     (85, ''NodeStakeUpdate''),
     (86, ''Prng''),
     (87, ''TransactionGetFastRecord''),
     (88, ''TokenUpdateNfts'')]"

definition request_cases_02 :: "(nat \<times> string) list" where
  "request_cases_02 = [
     (89, ''NodeCreate''),
     (90, ''NodeUpdate''),
     (91, ''NodeDelete''),
     (92, ''TokenReject''),
     (93, ''TokenAirdrop''),
     (94, ''TokenCancelAirdrop''),
     (95, ''TokenClaimAirdrop''),
     (96, ''TssMessage''),
     (97, ''TssVote''),
     (98, ''TssShareSignature''),
     (99, ''TssEncryptionKey''),
     (100, ''StateSignatureTransaction''),
     (104, ''HistoryAssemblySignature''),
     (105, ''HistoryProofKeyPublication''),
     (106, ''HistoryProofVote'')]"

definition request_cases :: "(nat \<times> string) list" where
  "request_cases = request_cases_01 @ request_cases_02"

lemmas request_cases_defs = request_cases_def request_cases_01_def request_cases_02_def

end
