(* ===== verification/Codes.thy ===== *)
theory Codes
  imports Longs Words StatusCodes RequestCodes "HOL-Library.Multiset"
begin

text \<open>
  Classes of constants that stand for the codes of the protocol, \<open>src/Status.js\<close> and
  \<open>src/RequestType.js\<close>: a constant is its code, \<open>toString\<close> finds its text and \<open>_fromCode\<close> the constant
  of a code. The locale holds what makes such tables consistent.
\<close>

definition code_named :: "(string \<times> nat) list \<Rightarrow> string \<Rightarrow> nat option" where
  "code_named constants n = map_of constants n"

definition constant_of :: "(string \<times> nat) list \<Rightarrow> (nat \<times> string) list \<Rightarrow> nat \<Rightarrow> nat option" where
  "constant_of constants cases c = Option.bind (map_of cases c) (code_named constants)"

definition text_of :: "(string \<times> nat) list \<Rightarrow> (string \<times> string) list \<Rightarrow> nat \<Rightarrow> string option" where
  "text_of constants texts s = map_option snd (find (\<lambda>(n, t). code_named constants n = Some s) texts)"

section \<open>Names\<close>

text \<open>Names are seen to be different by sorting them.\<close>

fun merge_words :: "string list \<Rightarrow> string list \<Rightarrow> string list" where
  "merge_words (x # xs) (y # ys) =
     (if word_less x y then x # merge_words xs (y # ys) else y # merge_words (x # xs) ys)"
| "merge_words xs [] = xs"
| "merge_words [] ys = ys"

fun merge_pairs :: "string list list \<Rightarrow> string list list" where
  "merge_pairs (p # q # r) = merge_words p q # merge_pairs r"
| "merge_pairs ps = ps"

lemma length_merge_pairs: "length (merge_pairs ps) \<le> length ps"
  by (induction ps rule: merge_pairs.induct) simp_all

function merge_all :: "string list list \<Rightarrow> string list" where
  "merge_all [] = []"
| "merge_all [p] = p"
| "merge_all (p # q # r) = merge_all (merge_pairs (p # q # r))"
  by pat_completeness auto
termination
  by (relation "measure length") (simp_all add: length_merge_pairs le_imp_less_Suc)

lemma mset_merge_words: "mset (merge_words xs ys) = mset xs + mset ys"
  by (induction xs ys rule: merge_words.induct) simp_all

lemma mset_merge_pairs: "sum_list (map mset (merge_pairs ps)) = sum_list (map mset ps)"
  by (induction ps rule: merge_pairs.induct) (simp_all add: mset_merge_words add.assoc)

lemma mset_merge_all: "mset (merge_all ps) = sum_list (map mset ps)"
proof (induction ps rule: merge_all.induct)
  case (3 p q r)
  then show ?case using mset_merge_pairs[of "p # q # r"] by simp
qed simp_all

lemma mset_merge_singles: "mset (merge_all (map (\<lambda>x. [x]) xs)) = mset xs"
  unfolding mset_merge_all by (induction xs) simp_all

lemma distinct_by_sorting: "ascending (merge_all (map (\<lambda>x. [x]) xs)) \<Longrightarrow> distinct xs"
proof -
  assume "ascending (merge_all (map (\<lambda>x. [x]) xs))"
  then show ?thesis using ascending_distinct mset_eq_imp_distinct_iff mset_merge_singles by blast
qed

text \<open>A long list is cut in blocks, of which any two are sorted together.\<close>

lemma distinct_blocks:
  "sorted_wrt (\<lambda>x y. distinct (x @ y)) bs \<Longrightarrow> list_all distinct bs \<Longrightarrow> distinct (concat bs)"
  by (induction bs) auto

section \<open>Consistent tables\<close>

lemma find_SomeD: "find P xs = Some y \<Longrightarrow> y \<in> set xs \<and> P y"
  by (induction xs) (auto split: if_splits)

locale code_table =
  fixes constants :: "(string \<times> nat) list" and texts :: "(string \<times> string) list"
    and cases :: "(nat \<times> string) list"
  assumes names: "distinct (map fst constants)" and codes: "distinct (map snd constants)"
    and cases_names: "map snd cases = map fst constants" and cases_codes: "map fst cases = map snd constants"
    and texts_names: "set (map fst texts) = set (map fst constants)" and texts_once: "distinct (map fst texts)"
begin

lemma named: "(n, c) \<in> set constants \<Longrightarrow> code_named constants n = Some c"
  using names by (simp add: code_named_def)

lemma named_iff: "code_named constants n = Some c \<longleftrightarrow> (n, c) \<in> set constants"
  using names by (simp add: code_named_def)

lemma cases_zip: "cases = zip (map snd constants) (map fst constants)"
  by (metis cases_names cases_codes zip_map_fst_snd)

lemma case_named: "(n, c) \<in> set constants \<Longrightarrow> map_of cases c = Some n"
proof -
  assume "(n, c) \<in> set constants"
  then have "(c, n) \<in> set cases" unfolding cases_zip by (force simp: in_set_zip in_set_conv_nth)
  then show ?thesis using codes cases_codes by simp
qed

lemma constant_known: "c \<in> set (map fst cases) \<Longrightarrow> constant_of constants cases c = Some c"
  using cases_codes case_named named by (auto simp: constant_of_def)

lemma constant_unknown: "c \<notin> set (map fst cases) \<Longrightarrow> constant_of constants cases c = None"
  by (auto simp: constant_of_def Option.bind_eq_None_conv map_of_eq_None_iff)

lemma same_name: "(n, c) \<in> set constants \<Longrightarrow> (m, c) \<in> set constants \<Longrightarrow> n = m"
  by (metis case_named option.inject)

lemma text_known: "(n, c) \<in> set constants \<Longrightarrow> (n, t) \<in> set texts \<Longrightarrow> text_of constants texts c = Some t"
proof -
  assume n: "(n, c) \<in> set constants" and t: "(n, t) \<in> set texts"
  obtain y where y: "find (\<lambda>(n, t). code_named constants n = Some c) texts = Some y"
    using t named[OF n] by (cases "find (\<lambda>(n, t). code_named constants n = Some c) texts") (auto simp: find_None_iff)
  then have "y \<in> set texts" "code_named constants (fst y) = Some c"
    by (auto dest!: find_SomeD)
  then have "fst y = n" using same_name[OF n] named_iff by auto
  with \<open>y \<in> set texts\<close> t texts_once have "y = (n, t)" by (metis eq_key_imp_eq_value prod.collapse)
  with y show ?thesis by (simp add: text_of_def)
qed

lemma text_unknown: "c \<notin> set (map fst cases) \<Longrightarrow> text_of constants texts c = None"
  using cases_codes by (force simp: text_of_def find_None_iff named_iff)

lemma has_text: "c \<in> set (map fst cases) \<Longrightarrow> \<exists>n t. (n, c) \<in> set constants \<and> (n, t) \<in> set texts"
  using cases_codes texts_names by (force simp: set_eq_iff)

lemma texts_tell_apart:
  assumes "distinct (map snd texts)" and "c \<in> set (map fst cases)" and "d \<in> set (map fst cases)"
    and "text_of constants texts c = text_of constants texts d"
  shows "c = d"
proof -
  obtain n t m u where ct: "(n, c) \<in> set constants" "(n, t) \<in> set texts"
    and du: "(m, d) \<in> set constants" "(m, u) \<in> set texts"
    using has_text[OF assms(2)] has_text[OF assms(3)] by blast
  then have "t = u" using text_known assms(4) by fastforce
  then have "n = m" using ct(2) du(2) assms(1) by (metis distinct_map fst_conv inj_onD snd_conv)
  then show ?thesis using named[OF ct(1)] named[OF du(1)] by simp
qed

end

section \<open>The tables of the code\<close>

lemma status_lists:
  "map snd status_cases = map fst status_constants" "map fst status_cases = map snd status_constants"
  by (simp_all only: status_cases_defs status_constants_defs list.map append.simps fst_conv snd_conv)

lemma request_lists:
  "map snd request_cases = map fst request_constants" "map fst request_cases = map snd request_constants"
  "map fst request_texts = map fst request_constants"
  by (simp_all only: request_cases_defs request_constants_defs request_texts_defs list.map append.simps fst_conv snd_conv)

lemma request_codes_distinct: "distinct (map snd request_constants)"
proof -
  have "successively (<) (map snd request_constants)"
    by (simp only: request_constants_defs append.simps list.map snd_conv successively.simps simp_thms
        less_numeral_simps zero_less_numeral less_num_simps rel_simps)
  then show ?thesis by (metis successively_conv_sorted_wrt transp_on_less strict_sorted_iff)
qed

lemma status_codes_distinct: "distinct (map snd status_constants)"
proof -
  have "successively (<) (map snd status_constants)"
    by (simp only: status_constants_defs append.simps list.map snd_conv successively.simps simp_thms
        less_numeral_simps zero_less_numeral less_num_simps rel_simps)
  then show ?thesis by (metis successively_conv_sorted_wrt transp_on_less strict_sorted_iff)
qed

lemma request_names_distinct: "distinct (map fst request_constants)"
  by (rule distinct_by_sorting) code_simp

lemma request_texts_distinct: "distinct (map snd request_texts)"
  by (rule distinct_by_sorting) code_simp

text \<open>Two blocks of the texts of the response codes stand in another order than their constants.\<close>

lemma status_blocks:
  "map fst (status_texts_01 @ status_texts_02 @ status_texts_03 @ status_texts_04 @ status_texts_05) =
   map fst (status_constants_01 @ status_constants_02 @ status_constants_03 @ status_constants_04 @
     status_constants_05 @ status_constants_06 @ status_constants_07 @ status_constants_08 @
     status_constants_09 @ status_constants_10 @ status_constants_11)"
  "map fst status_texts_06 = map fst status_constants_13" "map fst status_texts_07 = map fst status_constants_12"
  "map fst status_texts_08 = map fst (status_constants_14 @ status_constants_15)"
  by (simp_all only: status_texts_defs status_constants_defs list.map append.simps fst_conv)

lemma status_same_names: "mset (map fst status_texts) = mset (map fst status_constants)"
proof -
  have "mset (map fst status_texts) = mset (map fst (status_texts_01 @ status_texts_02 @ status_texts_03 @
      status_texts_04 @ status_texts_05)) + mset (map fst status_texts_06) + mset (map fst status_texts_07)
      + mset (map fst status_texts_08)"
    by (simp add: status_texts_def add.assoc)
  also have "\<dots> = mset (map fst status_constants)"
    unfolding status_blocks by (simp add: status_constants_def ac_simps)
  finally show ?thesis .
qed

lemma status_pair_12:
  "distinct (map fst (status_constants_01 @ status_constants_02 @ status_constants_03) @ map fst (status_constants_04 @ status_constants_05 @ status_constants_06))"
  by (rule distinct_by_sorting) code_simp

lemma status_pair_13:
  "distinct (map fst (status_constants_01 @ status_constants_02 @ status_constants_03) @ map fst (status_constants_07 @ status_constants_08 @ status_constants_09))"
  by (rule distinct_by_sorting) code_simp

lemma status_pair_14:
  "distinct (map fst (status_constants_01 @ status_constants_02 @ status_constants_03) @ map fst (status_constants_10 @ status_constants_11 @ status_constants_12 @ status_constants_13))"
  by (rule distinct_by_sorting) code_simp

lemma status_pair_15:
  "distinct (map fst (status_constants_01 @ status_constants_02 @ status_constants_03) @ map fst (status_constants_14 @ status_constants_15))"
  by (rule distinct_by_sorting) code_simp

lemma status_pair_23:
  "distinct (map fst (status_constants_04 @ status_constants_05 @ status_constants_06) @ map fst (status_constants_07 @ status_constants_08 @ status_constants_09))"
  by (rule distinct_by_sorting) code_simp

lemma status_pair_24:
  "distinct (map fst (status_constants_04 @ status_constants_05 @ status_constants_06) @ map fst (status_constants_10 @ status_constants_11 @ status_constants_12 @ status_constants_13))"
  by (rule distinct_by_sorting) code_simp

lemma status_pair_25:
  "distinct (map fst (status_constants_04 @ status_constants_05 @ status_constants_06) @ map fst (status_constants_14 @ status_constants_15))"
  by (rule distinct_by_sorting) code_simp

lemma status_pair_34:
  "distinct (map fst (status_constants_07 @ status_constants_08 @ status_constants_09) @ map fst (status_constants_10 @ status_constants_11 @ status_constants_12 @ status_constants_13))"
  by (rule distinct_by_sorting) code_simp

lemma status_pair_35:
  "distinct (map fst (status_constants_07 @ status_constants_08 @ status_constants_09) @ map fst (status_constants_14 @ status_constants_15))"
  by (rule distinct_by_sorting) code_simp

lemma status_pair_45:
  "distinct (map fst (status_constants_10 @ status_constants_11 @ status_constants_12 @ status_constants_13) @ map fst (status_constants_14 @ status_constants_15))"
  by (rule distinct_by_sorting) code_simp

lemmas status_pairs =
  status_pair_12 status_pair_13 status_pair_14 status_pair_15 status_pair_23 status_pair_24 status_pair_25 status_pair_34 status_pair_35 status_pair_45

lemma status_names_distinct: "distinct (map fst status_constants)"
proof -
  let ?bs = "[map fst (status_constants_01 @ status_constants_02 @ status_constants_03),
      map fst (status_constants_04 @ status_constants_05 @ status_constants_06),
      map fst (status_constants_07 @ status_constants_08 @ status_constants_09),
      map fst (status_constants_10 @ status_constants_11 @ status_constants_12 @ status_constants_13),
      map fst (status_constants_14 @ status_constants_15)]"
  have "sorted_wrt (\<lambda>x y. distinct (x @ y)) ?bs"
    by (simp only: sorted_wrt.simps list.set ball_simps insert_iff empty_iff status_pairs simp_thms)
  moreover have "list_all distinct ?bs"
    using status_pairs(1,2,3,4)[THEN distinct_append[THEN iffD1]] by (simp only: list.pred_inject simp_thms)
  ultimately have "distinct (concat ?bs)" by (rule distinct_blocks)
  then show ?thesis by (simp only: concat.simps status_constants_def map_append append_assoc append_Nil2)
qed

interpretation statuses: code_table status_constants status_texts status_cases
proof
  show "distinct (map fst status_texts)"
    using status_same_names status_names_distinct mset_eq_imp_distinct_iff by blast
  show "set (map fst status_texts) = set (map fst status_constants)" using status_same_names by (metis mset_eq_setD)
qed (rule status_names_distinct status_codes_distinct status_lists)+

interpretation requests: code_table request_constants request_texts request_cases
  by unfold_locales (simp_all only: request_names_distinct request_codes_distinct request_lists)

end
