(* ===== verification/Status.thy ===== *)
theory Status
  imports Codes
begin

text \<open>
  The response codes of the network, \<open>src/Status.js\<close>. A \<open>Status\<close> is its code.
\<close>

definition status_fromCode :: "nat \<Rightarrow> nat result" where
  "status_fromCode c =
     (case constant_of status_constants status_cases c of
        Some s \<Rightarrow> Inr s
      | None \<Rightarrow> Inl (Error (''(BUG) Status.fromCode() does not handle code: '' @ show_nat c)))"

definition status_toString :: "nat \<Rightarrow> string" where
  "status_toString s =
     (case text_of status_constants status_texts s of
        Some t \<Rightarrow> t
      | None \<Rightarrow> ''UNKNOWN ('' @ show_nat s @ '')'')"

definition status_valueOf :: "nat \<Rightarrow> nat" where
  "status_valueOf s = s"

text \<open>\<open>_fromCode\<close> and \<open>toString\<close> know the same codes, and the text of a code is the one of its constant.\<close>

lemma status_fromCode_eq:
  "status_fromCode c =
     (if c \<in> set (map fst status_cases) then Inr c
      else Inl (Error (''(BUG) Status.fromCode() does not handle code: '' @ show_nat c)))"
  using statuses.constant_known statuses.constant_unknown by (simp add: status_fromCode_def)

lemma status_row:
  "(n, c) \<in> set status_constants \<Longrightarrow> (n, t) \<in> set status_texts \<Longrightarrow>
   status_fromCode c = Inr c \<and> status_toString c = t"
  using statuses.text_known statuses.cases_codes
  by (force simp: status_fromCode_eq status_toString_def)

end
