(* ===== verification/Keys.thy ===== *)
theory Keys
  imports Hex
begin

text \<open>
  Public keys, \<open>packages/cryptography/src/PublicKey.js\<close> with \<open>Ed25519PublicKey.js\<close> and
  \<open>EcdsaPublicKey.js\<close>, wrapped by \<open>src/PublicKey.js\<close>: the raw and the DER bytes, the text, and
  reading them back. The ASN.1 reader of \<open>node-forge\<close> and the point compression of \<open>elliptic\<close> are
  parameters (a \<open>der_lib\<close>).
\<close>

section \<open>Data\<close>

datatype key_type = Ed25519 | Secp256k1

record public_key =
  key_type :: key_type
  raw_key :: "byte list"

record 'asn der_lib =
  forge_fromDer :: "byte list \<Rightarrow> 'asn result"
  forge_publicKeyFromAsn1 :: "'asn \<Rightarrow> byte list result"
  elliptic_compress :: "byte list \<Rightarrow> byte list result"

section \<open>Bytes\<close>

definition ed_derPrefix :: "byte list" where
  "ed_derPrefix = hex_decode ''302a300506032b6570032100''"

definition ecdsa_legacyDerPrefix :: "byte list" where
  "ecdsa_legacyDerPrefix = hex_decode ''302d300706052b8104000a032200''"

definition ecdsa_derPrefix :: "byte list" where
  "ecdsa_derPrefix = hex_decode ''3036301006072a8648ce3d020106052b8104000a032200''"

definition ed_fromBytesDer :: "'asn der_lib \<Rightarrow> byte list \<Rightarrow> public_key result" where
  "ed_fromBytesDer D data =
     res_bind (forge_fromDer D data) (\<lambda>asn.
       (case forge_publicKeyFromAsn1 D asn of
          Inl e \<Rightarrow> Inl (BadKeyError ''cannot decode ED25519 public key data from DER format'')
        | Inr k \<Rightarrow> Inr \<lparr>key_type = Ed25519, raw_key = k\<rparr>))"

definition ed_fromBytesRaw :: "byte list \<Rightarrow> public_key result" where
  "ed_fromBytesRaw data =
     (if length data \<noteq> 32 then Inl (BadKeyError ''invalid public key length'')
      else Inr \<lparr>key_type = Ed25519, raw_key = data\<rparr>)"

definition ed_fromBytes :: "'asn der_lib \<Rightarrow> byte list \<Rightarrow> public_key result" where
  "ed_fromBytes D data =
     (if length data = 32 then ed_fromBytesRaw data
      else if length data = 44 then ed_fromBytesDer D data
      else Inl (BadKeyError ''invalid public key length''))"

definition ecdsa_fromBytesDer :: "'asn der_lib \<Rightarrow> byte list \<Rightarrow> public_key result" where
  "ecdsa_fromBytesDer D data =
     res_bind
       (if length data = 47 then Inr (drop (length ecdsa_legacyDerPrefix) data)
        else if length data = 56 then
          Inr (slice (length ecdsa_derPrefix) (length ecdsa_derPrefix + 33) data)
        else elliptic_compress D (drop (length ecdsa_derPrefix) data))
       (\<lambda>k. if length k = 0
            then Inl (BadKeyError ''cannot decode ECDSA private key data from DER format'')
            else Inr \<lparr>key_type = Secp256k1, raw_key = k\<rparr>)"

definition ecdsa_fromBytesRaw :: "byte list \<Rightarrow> public_key result" where
  "ecdsa_fromBytesRaw data =
     (if length data \<noteq> 33 then Inl (BadKeyError ''invalid public key length'')
      else Inr \<lparr>key_type = Secp256k1, raw_key = data\<rparr>)"

definition ecdsa_fromBytes :: "'asn der_lib \<Rightarrow> byte list \<Rightarrow> public_key result" where
  "ecdsa_fromBytes D data =
     (if length data = 33 then ecdsa_fromBytesRaw data else ecdsa_fromBytesDer D data)"

definition key_fromBytes :: "'asn der_lib \<Rightarrow> byte list \<Rightarrow> public_key result" where
  "key_fromBytes D data =
     (case ed_fromBytes D data of
        Inr k \<Rightarrow> Inr k
      | Inl _ \<Rightarrow>
          (case ecdsa_fromBytes D data of
             Inr k \<Rightarrow> Inr k
           | Inl _ \<Rightarrow> Inl (BadKeyError ''public key cannot be decoded from bytes'')))"

definition toBytesDer :: "public_key \<Rightarrow> byte list" where
  "toBytesDer k =
     (case key_type k of
        Ed25519 \<Rightarrow> ed_derPrefix @ slice 0 32 (raw_key k)
      | Secp256k1 \<Rightarrow> ecdsa_legacyDerPrefix @ raw_key k)"

definition key_toBytes :: "public_key \<Rightarrow> byte list" where
  "key_toBytes k = (case key_type k of Ed25519 \<Rightarrow> raw_key k | Secp256k1 \<Rightarrow> toBytesDer k)"

section \<open>Text\<close>

definition key_fromString :: "'asn der_lib \<Rightarrow> string \<Rightarrow> public_key result" where
  "key_fromString D text = key_fromBytes D (hex_decode text)"

definition key_toString :: "public_key \<Rightarrow> string" where
  "key_toString k = hex_encode (toBytesDer k)"

definition key_hex :: "public_key \<Rightarrow> string" where
  "key_hex k = hex_encode (raw_key k)"

definition key_equals :: "public_key \<Rightarrow> public_key \<Rightarrow> bool" where
  "key_equals k l \<longleftrightarrow> key_type k = key_type l \<and> raw_key k = raw_key l"

section \<open>Protobuf\<close>

text \<open>\<open>KeyOther\<close> stands for a contract ID, a threshold key, a key list or an empty key.\<close>

datatype proto_key = KeyEd25519 "byte list" | KeyEcdsa "byte list" | KeyOther

definition toProtobufKey :: "public_key \<Rightarrow> proto_key" where
  "toProtobufKey k =
     (case key_type k of Ed25519 \<Rightarrow> KeyEd25519 (raw_key k) | Secp256k1 \<Rightarrow> KeyEcdsa (raw_key k))"

text \<open>\<open>None\<close> is a key that is not a \<open>PublicKey\<close>.\<close>

definition fromProtobufKey :: "'asn der_lib \<Rightarrow> proto_key \<Rightarrow> public_key option result" where
  "fromProtobufKey D pk =
     (case pk of
        KeyEd25519 bs \<Rightarrow>
          (if length bs > 0 then res_bind (ed_fromBytes D bs) (\<lambda>k. Inr (Some k)) else Inr None)
      | KeyEcdsa bs \<Rightarrow>
          (if length bs > 0 then res_bind (ecdsa_fromBytes D bs) (\<lambda>k. Inr (Some k)) else Inr None)
      | KeyOther \<Rightarrow> Inr None)"

section \<open>Laws\<close>

text \<open>What the code relies on: forge reads the key out of the DER form the code writes.\<close>

definition der_ok :: "'asn der_lib \<Rightarrow> bool" where
  "der_ok D \<longleftrightarrow>
     (\<forall>k. length k = 32 \<longrightarrow>
        (\<exists>asn. forge_fromDer D (ed_derPrefix @ k) = Inr asn \<and> forge_publicKeyFromAsn1 D asn = Inr k))"

definition key_ok :: "public_key \<Rightarrow> bool" where
  "key_ok k \<longleftrightarrow> length (raw_key k) = (case key_type k of Ed25519 \<Rightarrow> 32 | Secp256k1 \<Rightarrow> 33)"

lemma prefix_lengths [simp]:
  "length ed_derPrefix = 12"
  "length ecdsa_legacyDerPrefix = 14"
  "length ecdsa_derPrefix = 23"
  by code_simp+

lemma fromBytes_der:
  assumes "der_ok D" and "key_ok k"
  shows "key_fromBytes D (toBytesDer k) = Inr k"
proof (cases "key_type k")
  case Ed25519
  with assms(2) have len: "length (raw_key k) = 32" by (simp add: key_ok_def)
  with assms(1) obtain asn where "forge_fromDer D (ed_derPrefix @ raw_key k) = Inr asn"
    and "forge_publicKeyFromAsn1 D asn = Inr (raw_key k)"
    by (auto simp: der_ok_def)
  with Ed25519 len show ?thesis
    by (cases k) (simp add: key_fromBytes_def toBytesDer_def ed_fromBytes_def ed_fromBytesDer_def)
next
  case Secp256k1
  with assms(2) show ?thesis
    by (cases k; cases "raw_key k") (simp_all add: key_ok_def key_fromBytes_def toBytesDer_def
        ed_fromBytes_def ecdsa_fromBytes_def ecdsa_fromBytesDer_def)
qed

lemma fromBytes_raw: "key_ok k \<Longrightarrow> key_fromBytes D (raw_key k) = Inr k"
  by (cases k; cases "key_type k")
     (auto simp: key_ok_def key_fromBytes_def ed_fromBytes_def ed_fromBytesRaw_def
        ecdsa_fromBytes_def ecdsa_fromBytesRaw_def)

lemma length_key_text:
  "key_ok k \<Longrightarrow> length (key_toString k) = (case key_type k of Ed25519 \<Rightarrow> 88 | Secp256k1 \<Rightarrow> 94)"
  by (simp add: key_ok_def key_toString_def toBytesDer_def split: key_type.split)

lemma proto_key_back: "key_ok k \<Longrightarrow> fromProtobufKey D (toProtobufKey k) = Inr (Some k)"
  by (cases k; cases "key_type k"; cases "raw_key k")
     (simp_all add: key_ok_def fromProtobufKey_def toProtobufKey_def ed_fromBytes_def
        ed_fromBytesRaw_def ecdsa_fromBytes_def ecdsa_fromBytesRaw_def)

lemma key_text_back:
  "der_ok D \<Longrightarrow> key_ok k \<Longrightarrow> key_fromString D (key_toString k) = Inr k"
  by (simp add: key_fromString_def key_toString_def decode_encode fromBytes_der)

text \<open>A public key of either kind survives every form the SDK writes: its DER text, its DER
  text after 0x, its raw hex text, the bytes of \<open>toBytes\<close> and the protobuf key all give the same
  key back, of the same kind.\<close>

theorem key_round_trips:
  assumes "der_ok D" and "key_ok k"
  shows "key_fromString D (key_toString k) = Inr k \<and>
         key_fromString D (''0x'' @ key_toString k) = Inr k \<and>
         key_fromString D (key_hex k) = Inr k \<and>
         key_fromBytes D (key_toBytes k) = Inr k \<and>
         fromProtobufKey D (toProtobufKey k) = Inr (Some k)"
  using fromBytes_der[OF assms] fromBytes_raw[OF assms(2), of D] key_text_back[OF assms]
    proto_key_back[OF assms(2), of D]
  by (simp add: key_fromString_def key_toString_def key_hex_def decode_encode key_toBytes_def
      decode_0x_encode[simplified] split: key_type.split)

text \<open>A library that reads the form the code writes.\<close>

definition sample_der :: "byte list der_lib" where
  "sample_der =
     \<lparr>forge_fromDer = (\<lambda>bs. if take 12 bs = ed_derPrefix then Inr (drop 12 bs)
                          else Inl (Error ''not DER'')),
      forge_publicKeyFromAsn1 = Inr,
      elliptic_compress = (\<lambda>bs. Inl (Error ''Unknown point format''))\<rparr>"

lemma sample_der_ok: "der_ok sample_der"
  by (simp add: der_ok_def sample_der_def)

theorem key_round_trips_witness:
  "fromProtobufKey sample_der
     (toProtobufKey \<lparr>key_type = Secp256k1, raw_key = 2 # replicate 32 7\<rparr>) =
   Inr (Some \<lparr>key_type = Secp256k1, raw_key = 2 # replicate 32 7\<rparr>)"
proof -
  have "key_ok \<lparr>key_type = Secp256k1, raw_key = 2 # replicate 32 7\<rparr>" by (simp add: key_ok_def)
  from key_round_trips[OF sample_der_ok this] show ?thesis by blast
qed

end
