(* ===== verification/Transaction.thy ===== *)
theory Transaction
  imports Execute Status Keys
begin

text \<open>
  The base class of all transactions, \<open>src/transaction/Transaction.js\<close>: freezing, signing,
  building the protobuf requests, serialisation, and the methods it gives the executor. One SDK
  transaction is a table of signed transactions, a row per transaction ID and a column per
  node account, kept in one list row after row. The protobuf codecs and SHA-384 are parameters
  (\<open>proto_lib\<close>); an account, a transaction ID and the data of the concrete transaction are
  type variables. Objects of \<open>_signedTransactions\<close> are mutated in place but never shared with
  another container, so they are values here.
\<close>

section \<open>Protobuf messages\<close>

record ('acc, 'tid, 'data) tx_body =
  b_data :: 'data
  b_fee :: "int option"
  b_memo :: string
  b_tid :: "'tid option"
  b_node :: "'acc option"
  b_duration :: "int option"

record sig_pair =
  pubKeyPrefix :: "byte list"
  ed25519 :: "byte list option"
  ecdsaSecp256k1 :: "byte list option"

text \<open>\<open>sigPairs\<close> is \<open>None\<close> when \<open>sigMap\<close> or its \<open>sigPair\<close> is missing.\<close>

record signed_tx =
  sigPairs :: "sig_pair list option"
  bodyBytes :: "byte list"

text \<open>
  A \<open>proto.Transaction\<close> that was built holds the bytes of a signed transaction; an incomplete one,
  serialised before freezing, is the signed transaction itself.
\<close>

datatype proto_tx = SignedBytes "byte list" | Incomplete signed_tx

record ('acc, 'tid, 'data) proto_lib =
  encBody :: "('acc, 'tid, 'data) tx_body \<Rightarrow> byte list"
  decBody :: "byte list \<Rightarrow> ('acc, 'tid, 'data) tx_body result"
  encSigned :: "signed_tx \<Rightarrow> byte list"
  decSigned :: "byte list \<Rightarrow> signed_tx result"
  encList :: "proto_tx option list \<Rightarrow> byte list"
  decList :: "byte list \<Rightarrow> proto_tx list result"
  decTransaction :: "byte list \<Rightarrow> proto_tx result"
  sha384 :: "byte list \<Rightarrow> byte list"

text \<open>What the code relies on: decoding gives back what was encoded.\<close>

definition proto_ok :: "('acc, 'tid, 'data) proto_lib \<Rightarrow> bool" where
  "proto_ok L \<longleftrightarrow>
     (\<forall>b. decBody L (encBody L b) = Inr b) \<and>
     (\<forall>s. sigPairs s \<noteq> None \<longrightarrow> decSigned L (encSigned L s) = Inr s) \<and>
     (\<forall>ts. decList L (encList L (map Some ts)) = Inr ts)"

section \<open>Signatures\<close>

definition toProtobufSignature :: "public_key \<Rightarrow> byte list \<Rightarrow> sig_pair" where
  "toProtobufSignature k s =
     (case key_type k of
        Ed25519 \<Rightarrow> \<lparr>pubKeyPrefix = raw_key k, ed25519 = Some s, ecdsaSecp256k1 = None\<rparr>
      | Secp256k1 \<Rightarrow> \<lparr>pubKeyPrefix = raw_key k, ed25519 = None, ecdsaSecp256k1 = Some s\<rparr>)"

definition pair_signature :: "sig_pair \<Rightarrow> byte list option" where
  "pair_signature p = (case ed25519 p of Some s \<Rightarrow> Some s | None \<Rightarrow> ecdsaSecp256k1 p)"

type_synonym signer = "byte list \<Rightarrow> byte list"

record 'acc operator =
  op_account :: 'acc
  op_key :: public_key
  op_signer :: signer

section \<open>State\<close>

record ('acc, 'tid, 'data) tx =
  transactions :: "proto_tx jslist"
  signedTransactions :: "signed_tx jslist"
  signerPublicKeys :: "string list"
  validDuration :: int
  defaultMaxFee :: int
  maxFee :: "int option"
  memo :: string
  transactionIds :: "'tid jslist"
  publicKeys :: "public_key list"
  transactionSigners :: "signer option list"
  regenerate :: "bool option"
  signOnDemand :: bool
  operator :: "'acc operator option"
  operatorAccountId :: "'acc option"
  nodeAccountIds :: "'acc jslist"
  tx_data :: 'data

definition new_tx :: "'data \<Rightarrow> ('acc, 'tid, 'data) tx" where
  "new_tx d =
     \<lparr>transactions = new_list, signedTransactions = new_list, signerPublicKeys = [],
      validDuration = 120, defaultMaxFee = 200000000, maxFee = None, memo = '''',
      transactionIds = new_list, publicKeys = [], transactionSigners = [], regenerate = None,
      signOnDemand = False, operator = None, operatorAccountId = None, nodeAccountIds = new_list,
      tx_data = d\<rparr>"

definition public_isFrozen :: "('acc, 'tid, 'data) tx \<Rightarrow> bool" where
  "public_isFrozen t \<longleftrightarrow> list_length (signedTransactions t) > 0"

definition isFrozen :: "('acc, 'tid, 'data) tx \<Rightarrow> bool" where
  "isFrozen t \<longleftrightarrow> signOnDemand t \<or> list_length (signedTransactions t) > 0"

definition immutable_error :: js_error where
  "immutable_error =
     Error ''transaction is immutable; it has at least one signature or has been explicitly frozen''"

definition requireNotFrozen :: "('acc, 'tid, 'data) tx \<Rightarrow> unit result" where
  "requireNotFrozen t = (if isFrozen t then Inl immutable_error else Inr ())"

definition requireFrozen :: "('acc, 'tid, 'data) tx \<Rightarrow> unit result" where
  "requireFrozen t =
     (if isFrozen t then Inr ()
      else Inl (Error ''transaction must have been frozen before calculating the hash will be stable, try calling `freeze`''))"

definition requireNotSignOnDemand :: "('acc, 'tid, 'data) tx \<Rightarrow> unit result" where
  "requireNotSignOnDemand t =
     (if signOnDemand t then Inl (Error ''Please use `toBytesAsync()` if `signOnDemand` is enabled'')
      else Inr ())"

definition requireOneNodeAccountId :: "('acc, 'tid, 'data) tx \<Rightarrow> unit result" where
  "requireOneNodeAccountId t =
     (if list_length (nodeAccountIds t) \<noteq> 1
      then Inl (Error ''transaction did not have exactly one node ID set'') else Inr ())"

section \<open>Setters\<close>

definition tx_setNodeAccountIds :: "'acc list \<Rightarrow> ('acc, 'tid, 'data) tx \<Rightarrow> ('acc, 'tid, 'data) tx result" where
  "tx_setNodeAccountIds ids t =
     res_bind (requireNotFrozen t) (\<lambda>_.
     res_bind (setList (map Some ids) (nodeAccountIds t)) (\<lambda>l.
       Inr (t\<lparr>nodeAccountIds := setLocked l\<rparr>)))"

definition setTransactionValidDuration :: "int \<Rightarrow> ('acc, 'tid, 'data) tx \<Rightarrow> ('acc, 'tid, 'data) tx result" where
  "setTransactionValidDuration d t = res_bind (requireNotFrozen t) (\<lambda>_. Inr (t\<lparr>validDuration := d\<rparr>))"

definition setMaxTransactionFee :: "int \<Rightarrow> ('acc, 'tid, 'data) tx \<Rightarrow> ('acc, 'tid, 'data) tx result" where
  "setMaxTransactionFee fee t = res_bind (requireNotFrozen t) (\<lambda>_. Inr (t\<lparr>maxFee := Some fee\<rparr>))"

definition setRegenerateTransactionId :: "bool \<Rightarrow> ('acc, 'tid, 'data) tx \<Rightarrow> ('acc, 'tid, 'data) tx result" where
  "setRegenerateTransactionId b t = res_bind (requireNotFrozen t) (\<lambda>_. Inr (t\<lparr>regenerate := Some b\<rparr>))"

definition setTransactionMemo :: "string \<Rightarrow> ('acc, 'tid, 'data) tx \<Rightarrow> ('acc, 'tid, 'data) tx result" where
  "setTransactionMemo m t = res_bind (requireNotFrozen t) (\<lambda>_. Inr (t\<lparr>memo := m\<rparr>))"

definition setTransactionId :: "'tid \<Rightarrow> ('acc, 'tid, 'data) tx \<Rightarrow> ('acc, 'tid, 'data) tx result" where
  "setTransactionId i t =
     res_bind (requireNotFrozen t) (\<lambda>_.
     res_bind (setList [Some i] (transactionIds t)) (\<lambda>l.
       Inr (t\<lparr>transactionIds := setLocked l\<rparr>)))"

text \<open>A field of the concrete transaction: every setter of a subclass guards itself this way.\<close>

definition set_data :: "'data \<Rightarrow> ('acc, 'tid, 'data) tx \<Rightarrow> ('acc, 'tid, 'data) tx result" where
  "set_data d t = res_bind (requireNotFrozen t) (\<lambda>_. Inr (t\<lparr>tx_data := d\<rparr>))"

definition get_transactionId :: "('acc, 'tid, 'data) tx \<Rightarrow> 'tid option \<times> ('acc, 'tid, 'data) tx" where
  "get_transactionId t =
     (if list_isEmpty (transactionIds t) then (None, t)
      else let l = setLocked (transactionIds t) in (list_current l, t\<lparr>transactionIds := l\<rparr>))"

section \<open>Bodies and signed transactions\<close>

definition makeTransactionBody :: "'acc option \<Rightarrow> ('acc, 'tid, 'data) tx \<Rightarrow> ('acc, 'tid, 'data) tx_body" where
  "makeTransactionBody nodeId t =
     \<lparr>b_data = tx_data t, b_fee = maxFee t, b_memo = memo t, b_tid = list_current (transactionIds t),
      b_node = nodeId, b_duration = Some (validDuration t)\<rparr>"

definition makeSignedTransaction ::
    "('acc, 'tid, 'data) proto_lib \<Rightarrow> 'acc option \<Rightarrow> ('acc, 'tid, 'data) tx \<Rightarrow> signed_tx" where
  "makeSignedTransaction L nodeId t =
     \<lparr>sigPairs = Some [], bodyBytes = encBody L (makeTransactionBody nodeId t)\<rparr>"

definition buildSignedTransactions ::
    "('acc, 'tid, 'data) proto_lib \<Rightarrow> ('acc, 'tid, 'data) tx \<Rightarrow> ('acc, 'tid, 'data) tx result" where
  "buildSignedTransactions L t =
     (if locked (signedTransactions t) then Inr t
      else res_bind (setList (map (\<lambda>n. Some (makeSignedTransaction L n t)) (items (nodeAccountIds t)))
             (signedTransactions t)) (\<lambda>l. Inr (t\<lparr>signedTransactions := l\<rparr>)))"

definition buildIncompleteTransactions ::
    "('acc, 'tid, 'data) proto_lib \<Rightarrow> ('acc, 'tid, 'data) tx \<Rightarrow> ('acc, 'tid, 'data) tx result" where
  "buildIncompleteTransactions L t =
     res_bind (setList
         (if list_length (nodeAccountIds t) = 0
          then [Some (Incomplete (makeSignedTransaction L None t))]
          else map (\<lambda>n. Some (Incomplete (makeSignedTransaction L n t))) (items (nodeAccountIds t)))
         (transactions t))
       (\<lambda>l. Inr (t\<lparr>transactions := l\<rparr>))"

section \<open>Freezing\<close>

text \<open>What freezing uses of a client: its settings, the nodes it chooses, its checksum check and
  the generator of transaction IDs (\<open>TransactionId.withValidStart\<close> of \<open>Timestamp.generate()\<close>).\<close>

record ('acc, 'tid) freeze_client =
  fc_signOnDemand :: bool
  fc_operator :: "'acc operator option"
  fc_defaultMaxFee :: "int option"
  fc_defaultRegenerate :: bool
  fc_nodeIds :: "'acc list result"
  fc_check :: "'tid \<Rightarrow> unit result"

definition setTransactionId_check :: "('acc, 'tid, 'data) tx \<Rightarrow> unit result" where
  "setTransactionId_check t =
     (if operatorAccountId t = None \<and> list_isEmpty (transactionIds t)
      then Inl (Error ''`transactionId` must be set or `client` must be provided with `freezeWith`'')
      else Inr ())"

definition setNodeAccountIds_client ::
    "('acc, 'tid) freeze_client option \<Rightarrow> ('acc, 'tid, 'data) tx \<Rightarrow> ('acc, 'tid, 'data) tx result" where
  "setNodeAccountIds_client client t =
     (if \<not> list_isEmpty (nodeAccountIds t) then Inr t
      else case client of
             None \<Rightarrow> Inl (Error ''`nodeAccountId` must be set or `client` must be provided with `freezeWith`'')
           | Some c \<Rightarrow>
               res_bind (fc_nodeIds c) (\<lambda>ids.
               res_bind (setList (map Some ids) (nodeAccountIds t)) (\<lambda>l.
                 Inr (t\<lparr>nodeAccountIds := l\<rparr>))))"

fun check_all :: "('a \<Rightarrow> unit result) \<Rightarrow> 'a option list \<Rightarrow> unit result" where
  "check_all f [] = Inr ()"
| "check_all f (None # xs) = Inl undefined_error"
| "check_all f (Some x # xs) = res_bind (f x) (\<lambda>_. check_all f xs)"

definition buildNewTransactionIdList :: "('acc \<Rightarrow> 'tid) \<Rightarrow> ('acc, 'tid, 'data) tx \<Rightarrow> ('acc, 'tid, 'data) tx" where
  "buildNewTransactionIdList gen t =
     (case operatorAccountId t of
        None \<Rightarrow> t
      | Some a \<Rightarrow>
          if locked (transactionIds t) then t
          else t\<lparr>transactionIds := list_set (cursor (transactionIds t)) (Some (gen a)) (transactionIds t)\<rparr>)"

definition freeze_settings ::
    "('acc, 'tid) freeze_client option \<Rightarrow> ('acc, 'tid, 'data) tx \<Rightarrow> ('acc, 'tid, 'data) tx" where
  "freeze_settings client t =
     t\<lparr>signOnDemand := (case client of None \<Rightarrow> False | Some c \<Rightarrow> fc_signOnDemand c),
       operator := (case client of None \<Rightarrow> None | Some c \<Rightarrow> fc_operator c),
       operatorAccountId := (case operatorAccountId t of
           None \<Rightarrow> (case client of None \<Rightarrow> None | Some c \<Rightarrow> map_option op_account (fc_operator c))
         | Some a \<Rightarrow> Some a),
       maxFee := (case maxFee t of
           None \<Rightarrow> (case client of
                      None \<Rightarrow> Some (defaultMaxFee t)
                    | Some c \<Rightarrow> (case fc_defaultMaxFee c of
                                  None \<Rightarrow> Some (defaultMaxFee t) | Some f \<Rightarrow> Some f))
         | Some f \<Rightarrow> Some f),
       regenerate := (case client of
           None \<Rightarrow> regenerate t
         | Some c \<Rightarrow> (case regenerate t of
                       None \<Rightarrow> Some (fc_defaultRegenerate c) | Some b \<Rightarrow> Some b))\<rparr>"

definition freezeWith ::
    "('acc, 'tid, 'data) proto_lib \<Rightarrow> ('acc \<Rightarrow> 'tid) \<Rightarrow> ('acc, 'tid) freeze_client option
     \<Rightarrow> ('acc, 'tid, 'data) tx \<Rightarrow> ('acc, 'tid, 'data) tx result" where
  "freezeWith L gen client t =
     res_bind (setNodeAccountIds_client client (freeze_settings client t)) (\<lambda>t1.
     res_bind (setTransactionId_check t1) (\<lambda>_.
     res_bind (case client of
                 None \<Rightarrow> Inr ()
               | Some c \<Rightarrow> check_all (fc_check c) (items (transactionIds t1))) (\<lambda>_.
       let t2 = buildNewTransactionIdList gen t1
       in if signOnDemand t2 then Inr t2 else buildSignedTransactions L t2)))"

definition tx_freeze ::
    "('acc, 'tid, 'data) proto_lib \<Rightarrow> ('acc \<Rightarrow> 'tid) \<Rightarrow> ('acc, 'tid, 'data) tx \<Rightarrow> ('acc, 'tid, 'data) tx result" where
  "tx_freeze L gen t = freezeWith L gen None t"

section \<open>Signing\<close>

definition push_pair :: "sig_pair \<Rightarrow> signed_tx \<Rightarrow> signed_tx" where
  "push_pair p s = s\<lparr>sigPairs := Some ((case sigPairs s of None \<Rightarrow> [] | Some ps \<Rightarrow> ps) @ [p])\<rparr>"

definition sign_one :: "public_key \<Rightarrow> signer \<Rightarrow> signed_tx \<Rightarrow> signed_tx" where
  "sign_one k f s = push_pair (toProtobufSignature k (f (bodyBytes s))) s"

definition signWith ::
    "public_key \<Rightarrow> signer \<Rightarrow> ('acc, 'tid, 'data) tx \<Rightarrow> ('acc, 'tid, 'data) tx result" where
  "signWith k f t =
     res_bind (if signOnDemand t then Inr () else requireFrozen t) (\<lambda>_.
       if key_hex k \<in> set (signerPublicKeys t) then Inr t
       else
         let t1 = t\<lparr>transactions := clear (transactions t),
                    signerPublicKeys := signerPublicKeys t @ [key_hex k]\<rparr>
         in if signOnDemand t1
            then Inr (t1\<lparr>publicKeys := publicKeys t1 @ [k],
                         transactionSigners := transactionSigners t1 @ [Some f]\<rparr>)
            else if None \<in> set (items (signedTransactions t1)) then Inl undefined_error
            else Inr (t1\<lparr>transactionIds := setLocked (transactionIds t1),
                         nodeAccountIds := setLocked (nodeAccountIds t1),
                         signedTransactions := (signedTransactions t1)
                           \<lparr>items := map (map_option (sign_one k f)) (items (signedTransactions t1))\<rparr>\<rparr>))"

definition signWithOperator ::
    "('acc, 'tid, 'data) proto_lib \<Rightarrow> ('acc \<Rightarrow> 'tid) \<Rightarrow> ('acc, 'tid) freeze_client
     \<Rightarrow> ('acc, 'tid, 'data) tx \<Rightarrow> ('acc, 'tid, 'data) tx result" where
  "signWithOperator L gen c t =
     (case fc_operator c of
        None \<Rightarrow> Inl (Error ''`client` must have an operator to sign with the operator'')
      | Some op \<Rightarrow>
          res_bind (if isFrozen t then Inr t else freezeWith L gen (Some c) t) (\<lambda>t1.
            signWith (op_key op) (op_signer op) t1))"

text \<open>A signature map answers per node account, transaction ID and key.\<close>

type_synonym ('acc, 'tid) signature_map = "'acc \<Rightarrow> 'tid \<Rightarrow> public_key \<Rightarrow> byte list option"

definition add_one ::
    "('acc, 'tid, 'data) proto_lib \<Rightarrow> public_key \<Rightarrow> ('acc, 'tid) signature_map \<Rightarrow> signed_tx \<Rightarrow> signed_tx result" where
  "add_one L k m s =
     res_bind (decBody L (bodyBytes s)) (\<lambda>b.
       case (b_tid b, b_node b) of
         (Some i, Some n) \<Rightarrow>
           (case m n i k of
              None \<Rightarrow> Inl (Error ''Signature not found for the transaction and public key'')
            | Some sg \<Rightarrow> Inr (push_pair (toProtobufSignature k sg) s))
       | _ \<Rightarrow> Inl (Error ''Transaction ID or Node Account ID not found in the signed transaction''))"

fun map_result :: "('a \<Rightarrow> 'b result) \<Rightarrow> 'a option list \<Rightarrow> 'b option list result" where
  "map_result f [] = Inr []"
| "map_result f (None # xs) = Inl undefined_error"
| "map_result f (Some x # xs) = res_bind (f x) (\<lambda>y. res_bind (map_result f xs) (\<lambda>ys. Inr (Some y # ys)))"

definition freeze_if_needed ::
    "('acc, 'tid, 'data) proto_lib \<Rightarrow> ('acc \<Rightarrow> 'tid) \<Rightarrow> ('acc, 'tid, 'data) tx \<Rightarrow> ('acc, 'tid, 'data) tx result" where
  "freeze_if_needed L gen t = (if public_isFrozen t then Inr t else tx_freeze L gen t)"

definition addSignature ::
    "('acc, 'tid, 'data) proto_lib \<Rightarrow> ('acc \<Rightarrow> 'tid) \<Rightarrow> public_key \<Rightarrow> ('acc, 'tid) signature_map
     \<Rightarrow> ('acc, 'tid, 'data) tx \<Rightarrow> ('acc, 'tid, 'data) tx result" where
  "addSignature L gen k m t =
     res_bind (freeze_if_needed L gen t) (\<lambda>t1.
       if key_hex k \<in> set (signerPublicKeys t1) then Inr t1
       else res_bind (map_result (add_one L k m) (items (signedTransactions t1))) (\<lambda>ss.
              Inr (t1\<lparr>transactions := clear (transactions t1),
                      transactionIds := setLocked (transactionIds t1),
                      nodeAccountIds := setLocked (nodeAccountIds t1),
                      signedTransactions := setLocked ((signedTransactions t1)\<lparr>items := ss\<rparr>),
                      signerPublicKeys := signerPublicKeys t1 @ [key_hex k],
                      publicKeys := publicKeys t1 @ [k],
                      transactionSigners := transactionSigners t1 @ [None]\<rparr>)))"

definition shouldRemoveSignature :: "string \<Rightarrow> sig_pair \<Rightarrow> bool" where
  "shouldRemoveSignature hex p \<longleftrightarrow> hex_encode (pubKeyPrefix p) = hex"

definition removeSignaturesFromTransaction :: "string \<Rightarrow> signed_tx \<Rightarrow> byte list list \<times> signed_tx" where
  "removeSignaturesFromTransaction hex s =
     (case sigPairs s of
        None \<Rightarrow> ([], s)
      | Some ps \<Rightarrow>
          (List.map_filter pair_signature (filter (shouldRemoveSignature hex) ps),
           s\<lparr>sigPairs := Some (filter (\<lambda>p. \<not> shouldRemoveSignature hex p) ps)\<rparr>))"

definition removeSignature ::
    "('acc, 'tid, 'data) proto_lib \<Rightarrow> ('acc \<Rightarrow> 'tid) \<Rightarrow> public_key
     \<Rightarrow> ('acc, 'tid, 'data) tx \<Rightarrow> (byte list list \<times> ('acc, 'tid, 'data) tx) result" where
  "removeSignature L gen k t =
     res_bind (freeze_if_needed L gen t) (\<lambda>t1.
       if key_hex k \<notin> set (signerPublicKeys t1)
       then Inl (Error ''The public key has not signed this transaction'')
       else if None \<in> set (items (signedTransactions t1)) then Inl undefined_error
       else
         let rs = map (map_option (removeSignaturesFromTransaction (key_hex k))) (items (signedTransactions t1))
         in Inr (concat (map (\<lambda>r. fst (the r)) rs),
                 t1\<lparr>signedTransactions := (signedTransactions t1)\<lparr>items := map (map_option snd) rs\<rparr>,
                    signerPublicKeys := filter (\<lambda>h. h \<noteq> key_hex k) (signerPublicKeys t1),
                    publicKeys := filter (\<lambda>q. q \<noteq> k) (publicKeys t1),
                    transactionSigners := butlast (transactionSigners t1)\<rparr>))"

text \<open>The signatures collected by key, the key given by the hex text of its prefix.\<close>

fun collect_pairs :: "sig_pair list \<Rightarrow> (string \<times> byte list list) list \<Rightarrow> (string \<times> byte list list) list option" where
  "collect_pairs [] m = Some m"
| "collect_pairs (p # ps) m =
     (case pair_signature p of
        None \<Rightarrow> None
      | Some s \<Rightarrow>
          let h = hex_encode (pubKeyPrefix p);
              old = (case map_of m h of None \<Rightarrow> [] | Some l \<Rightarrow> l)
          in collect_pairs ps (AList.update h (old @ [s]) m))"

fun collectSignaturesByPublicKey ::
    "signed_tx option list \<Rightarrow> (string \<times> byte list list) list \<Rightarrow> (string \<times> byte list list) list result" where
  "collectSignaturesByPublicKey [] m = Inr m"
| "collectSignaturesByPublicKey (None # xs) m = Inl undefined_error"
| "collectSignaturesByPublicKey (Some s # xs) m =
     (case sigPairs s of
        None \<Rightarrow> Inr []
      | Some ps \<Rightarrow> (case collect_pairs ps m of
                     None \<Rightarrow> Inr []
                   | Some m' \<Rightarrow> collectSignaturesByPublicKey xs m'))"

definition removeAllSignatures ::
    "('acc, 'tid, 'data) proto_lib \<Rightarrow> ('acc \<Rightarrow> 'tid)
     \<Rightarrow> ('acc, 'tid, 'data) tx \<Rightarrow> ((string \<times> byte list list) list \<times> ('acc, 'tid, 'data) tx) result" where
  "removeAllSignatures L gen t =
     res_bind (freeze_if_needed L gen t) (\<lambda>t1.
     res_bind (collectSignaturesByPublicKey (items (signedTransactions t1)) []) (\<lambda>sigs.
       if None \<in> set (items (signedTransactions t1)) then Inl undefined_error
       else Inr (sigs,
         t1\<lparr>signedTransactions := (signedTransactions t1)
              \<lparr>items := map (map_option (\<lambda>s. if sigPairs s = None then s else s\<lparr>sigPairs := Some []\<rparr>))
                          (items (signedTransactions t1))\<rparr>,
            signerPublicKeys := [], publicKeys := [], transactionSigners := []\<rparr>)))"

end
