(* ===== verification/TxBuild.thy ===== *)
theory TxBuild
  imports Transaction
begin

text \<open>
  Building, serialising and executing a transaction: the rest of
  \<open>src/transaction/Transaction.js\<close>. Built transactions are cached in \<open>_transactions\<close>, in the
  order of \<open>_signedTransactions\<close>. \<open>tx_ops\<close> gathers the methods the executor calls.
\<close>

section \<open>Building\<close>

definition hole_error :: js_error where
  "hole_error = TypeError ''Cannot read properties of undefined''"

text \<open>The padding loop pushes \<open>null\<close> until the list has \<open>n\<close> entries.\<close>

fun pad_null :: "nat \<Rightarrow> 'a jslist \<Rightarrow> 'a jslist result" where
  "pad_null 0 l = Inr l"
| "pad_null (Suc k) l = res_bind (push [None] l) (pad_null k)"

definition encoded_at ::
    "('acc, 'tid, 'data) proto_lib \<Rightarrow> nat option \<Rightarrow> ('acc, 'tid, 'data) tx \<Rightarrow> proto_tx result" where
  "encoded_at L i t =
     (case list_get (signedTransactions t) i of
        None \<Rightarrow> Inl hole_error
      | Some s \<Rightarrow> Inr (SignedBytes (encSigned L s)))"

text \<open>\<open>index\<close> is \<open>None\<close> when it is \<open>NaN\<close>.\<close>

definition buildTransaction ::
    "('acc, 'tid, 'data) proto_lib \<Rightarrow> nat option \<Rightarrow> ('acc, 'tid, 'data) tx \<Rightarrow> ('acc, 'tid, 'data) tx result" where
  "buildTransaction L i t =
     res_bind (case i of
                 None \<Rightarrow> Inr (transactions t)
               | Some k \<Rightarrow> pad_null (k - list_length (transactions t)) (transactions t)) (\<lambda>l.
     res_bind (if list_get l i \<noteq> None
               then res_bind (encoded_at L i t) (\<lambda>p. Inr (list_set i (Some p) l))
               else Inr l) (\<lambda>l'.
       if i = Some (list_length l') \<or> list_get l' i = None
       then res_bind (encoded_at L i t) (\<lambda>p.
              Inr (t\<lparr>transactions := setIfAbsent i (\<lambda>_. Some p) l'\<rparr>))
       else Inr (t\<lparr>transactions := l'\<rparr>)))"

fun build_from ::
    "('acc, 'tid, 'data) proto_lib \<Rightarrow> nat \<Rightarrow> nat \<Rightarrow> ('acc, 'tid, 'data) tx \<Rightarrow> ('acc, 'tid, 'data) tx result" where
  "build_from L i 0 t = Inr t"
| "build_from L i (Suc k) t = res_bind (buildTransaction L (Some i) t) (build_from L (Suc i) k)"

definition buildAllTransactions ::
    "('acc, 'tid, 'data) proto_lib \<Rightarrow> ('acc, 'tid, 'data) tx \<Rightarrow> ('acc, 'tid, 'data) tx result" where
  "buildAllTransactions L t = build_from L 0 (list_length (signedTransactions t)) t"

text \<open>Signing on demand: a fresh signed transaction for the next node, signed by everyone known.\<close>

fun sign_all :: "public_key list \<Rightarrow> signer option list \<Rightarrow> signed_tx \<Rightarrow> signed_tx" where
  "sign_all (k # ks) (Some f # fs) s = sign_all ks fs (sign_one k f s)"
| "sign_all (k # ks) (None # fs) s = sign_all ks fs s"
| "sign_all ks fs s = s"

definition signTransaction ::
    "('acc, 'tid, 'data) proto_lib \<Rightarrow> ('acc, 'tid, 'data) tx \<Rightarrow> signed_tx \<times> ('acc, 'tid, 'data) tx" where
  "signTransaction L t =
     (let (n, l) = list_next (nodeAccountIds t);
          t1 = t\<lparr>nodeAccountIds := l\<rparr>
      in (sign_all (publicKeys t1) (transactionSigners t1) (makeSignedTransaction L n t1), t1))"

definition buildTransactionAsync ::
    "('acc, 'tid, 'data) proto_lib \<Rightarrow> ('acc, 'tid, 'data) tx \<Rightarrow> proto_tx \<times> ('acc, 'tid, 'data) tx" where
  "buildTransactionAsync L t =
     (let (s, t1) = signTransaction L t in (SignedBytes (encSigned L s), t1))"

fun push_built ::
    "('acc, 'tid, 'data) proto_lib \<Rightarrow> nat \<Rightarrow> ('acc, 'tid, 'data) tx \<Rightarrow> ('acc, 'tid, 'data) tx result" where
  "push_built L 0 t = Inr t"
| "push_built L (Suc k) t =
     (let (p, t1) = buildTransactionAsync L t
      in res_bind (push [Some p] (transactions t1)) (\<lambda>l. push_built L k (t1\<lparr>transactions := l\<rparr>)))"

definition buildAllTransactionsAsync ::
    "('acc, 'tid, 'data) proto_lib \<Rightarrow> ('acc, 'tid, 'data) tx \<Rightarrow> ('acc, 'tid, 'data) tx result" where
  "buildAllTransactionsAsync L t =
     (if \<not> signOnDemand t then buildAllTransactions L t
      else res_bind (buildSignedTransactions L t) (\<lambda>t1.
             if locked (transactions t1) then Inr t1
             else push_built L (list_length (signedTransactions t1)) t1))"

section \<open>Serialising\<close>

definition lock_ids :: "('acc, 'tid, 'data) tx \<Rightarrow> ('acc, 'tid, 'data) tx" where
  "lock_ids t = t\<lparr>transactionIds := setLocked (transactionIds t), nodeAccountIds := setLocked (nodeAccountIds t)\<rparr>"

definition lock_built :: "('acc, 'tid, 'data) tx \<Rightarrow> ('acc, 'tid, 'data) tx" where
  "lock_built t = t\<lparr>transactions := setLocked (transactions t), signedTransactions := setLocked (signedTransactions t)\<rparr>"

definition toBytes ::
    "('acc, 'tid, 'data) proto_lib \<Rightarrow> ('acc, 'tid, 'data) tx \<Rightarrow> (byte list \<times> ('acc, 'tid, 'data) tx) result" where
  "toBytes L t =
     res_bind (requireNotSignOnDemand t) (\<lambda>_.
     res_bind (if isFrozen t then buildAllTransactions L (lock_ids t)
               else buildIncompleteTransactions L t) (\<lambda>t1.
       Inr (encList L (items (transactions t1)), t1)))"

definition toBytesAsync ::
    "('acc, 'tid, 'data) proto_lib \<Rightarrow> ('acc, 'tid, 'data) tx \<Rightarrow> (byte list \<times> ('acc, 'tid, 'data) tx) result" where
  "toBytesAsync L t =
     res_bind (buildAllTransactionsAsync L (lock_ids t)) (\<lambda>t1.
       Inr (encList L (items (transactions t1)), lock_built t1))"

text \<open>The bytes of an incomplete transaction are \<open>undefined\<close>, which the digest rejects.\<close>

definition hash_of ::
    "('acc, 'tid, 'data) proto_lib \<Rightarrow> proto_tx option \<Rightarrow> byte list result" where
  "hash_of L p =
     (case p of
        Some (SignedBytes bs) \<Rightarrow> Inr (sha384 L bs)
      | _ \<Rightarrow> Inl hole_error)"

definition getTransactionHash ::
    "('acc, 'tid, 'data) proto_lib \<Rightarrow> ('acc, 'tid, 'data) tx \<Rightarrow> (byte list \<times> ('acc, 'tid, 'data) tx) result" where
  "getTransactionHash L t =
     res_bind (requireFrozen t) (\<lambda>_.
     res_bind (buildAllTransactionsAsync L (lock_ids t)) (\<lambda>t1.
       let t2 = lock_built t1
       in res_bind (hash_of L (list_get (transactions t2) (Some 0))) (\<lambda>h. Inr (h, t2))))"

fun hashes_from ::
    "('acc, 'tid, 'data) proto_lib \<Rightarrow> nat \<Rightarrow> 'acc option list \<Rightarrow> proto_tx jslist
     \<Rightarrow> ('acc option \<times> byte list) list result" where
  "hashes_from L i [] l = Inr []"
| "hashes_from L i (n # ns) l =
     res_bind (hash_of L (list_get l (Some i))) (\<lambda>h.
     res_bind (hashes_from L (Suc i) ns l) (\<lambda>hs. Inr ((n, h) # hs)))"

definition getTransactionHashPerNode ::
    "('acc, 'tid, 'data) proto_lib \<Rightarrow> ('acc, 'tid, 'data) tx
     \<Rightarrow> (('acc option \<times> byte list) list \<times> ('acc, 'tid, 'data) tx) result" where
  "getTransactionHashPerNode L t =
     res_bind (requireFrozen t) (\<lambda>_.
     res_bind (buildAllTransactionsAsync L (lock_ids t)) (\<lambda>t1.
     res_bind (hashes_from L 0 (items (nodeAccountIds t1)) (transactions t1)) (\<lambda>hs. Inr (hs, t1))))"

section \<open>Executing\<close>

definition request_index :: "('acc, 'tid, 'data) tx \<Rightarrow> nat option" where
  "request_index t =
     (case (cursor (transactionIds t), cursor (nodeAccountIds t)) of
        (Some r, Some c) \<Rightarrow> Some (r * list_length (nodeAccountIds t) + c)
      | _ \<Rightarrow> None)"

definition makeRequestAsync ::
    "('acc, 'tid, 'data) proto_lib \<Rightarrow> ('acc, 'tid, 'data) tx \<Rightarrow> (proto_tx option \<times> ('acc, 'tid, 'data) tx) result" where
  "makeRequestAsync L t =
     (if \<not> signOnDemand t
      then res_bind (buildTransaction L (request_index t) t) (\<lambda>t1.
             Inr (list_get (transactions t1) (request_index t), t1))
      else let (p, t1) = buildTransactionAsync L t in Inr (Some p, t1))"

definition retry_codes :: "nat list" where
  "retry_codes = [12, 21, 69, 67]"

definition tx_shouldRetry ::
    "('acc \<Rightarrow> 'tid) \<Rightarrow> nat option \<Rightarrow> ('acc, 'tid, 'data) tx
     \<Rightarrow> (nat \<times> exec_state \<times> ('acc, 'tid, 'data) tx) result" where
  "tx_shouldRetry gen code t =
     res_bind (status_fromCode (case code of None \<Rightarrow> 0 | Some c \<Rightarrow> c)) (\<lambda>s.
       Inr (if s \<in> set retry_codes then (s, Retry, t)
            else if s = 0 then (s, Finished, t)
            else if s = 4
            then (if locked (transactionIds t) \<or> regenerate t = Some False
                  then (s, ExecError, t) else (s, Retry, buildNewTransactionIdList gen t))
            else (s, ExecError, t)))"

definition current_transactionId :: "('acc, 'tid, 'data) tx \<Rightarrow> ('tid \<times> ('acc, 'tid, 'data) tx) result" where
  "current_transactionId t =
     (case get_transactionId t of
        (None, _) \<Rightarrow> Inl (Error ''transaction must have been frozen before getting the transaction ID, try calling `freeze`'')
      | (Some i, t1) \<Rightarrow> Inr (i, t1))"

record ('acc, 'tid) tx_response =
  r_node :: "'acc option"
  r_hash :: "byte list"
  r_tid :: 'tid

definition tx_mapResponse ::
    "('acc, 'tid, 'data) proto_lib \<Rightarrow> 'acc option \<Rightarrow> proto_tx option \<Rightarrow> ('acc, 'tid, 'data) tx
     \<Rightarrow> ('acc, 'tid) tx_response result \<times> ('acc, 'tid, 'data) tx" where
  "tx_mapResponse L nodeId req t =
     (case hash_of L req of
        Inl e \<Rightarrow> (Inl e, t)
      | Inr h \<Rightarrow>
          (case current_transactionId t of
             Inl e \<Rightarrow> (Inl e, t)
           | Inr (i, t1) \<Rightarrow>
               (Inr \<lparr>r_node = nodeId, r_hash = h, r_tid = i\<rparr>,
                t1\<lparr>transactionIds := list_advance (transactionIds t1)\<rparr>)))"

text \<open>
  The client of an execution also gives the operator; the checksums of the concrete transaction
  are the argument \<open>check\<close>.
\<close>

definition tx_beforeExecute ::
    "('acc, 'tid, 'data) proto_lib \<Rightarrow> ('acc \<Rightarrow> 'tid) \<Rightarrow> ('acc, 'tid) freeze_client
     \<Rightarrow> (('acc, 'tid, 'data) tx \<Rightarrow> unit result) \<Rightarrow> ('acc, 'tid, 'data) tx \<Rightarrow> ('acc, 'tid, 'data) tx result" where
  "tx_beforeExecute L gen c check t =
     res_bind (if isFrozen t then Inr t else freezeWith L gen (Some c) t) (\<lambda>t1.
     res_bind (check t1) (\<lambda>_.
       let t2 = t1\<lparr>operator := (case operator t1 of None \<Rightarrow> fc_operator c | Some op \<Rightarrow> Some op)\<rparr>;
           t3 = t2\<lparr>operatorAccountId := (case operatorAccountId t2 of
                     None \<Rightarrow> map_option op_account (fc_operator c) | Some a \<Rightarrow> Some a)\<rparr>
       in case operator t3 of
            None \<Rightarrow> Inr t3
          | Some op \<Rightarrow> signWith (op_key op) (op_signer op) t3))"

text \<open>
  The methods as the executor sees them. The executor's list of node accounts is the field of
  the transaction, which the methods get and give back; a response is its precheck code. An
  unknown code, for which \<open>Status._fromCode\<close> throws, is reported as an error status.
\<close>

definition tx_ops ::
    "('acc, 'tid, 'data) proto_lib \<Rightarrow> ('acc \<Rightarrow> 'tid)
     \<Rightarrow> ('acc, ('acc, 'tid, 'data) tx, proto_tx option, nat option, ('acc, 'tid) tx_response) request_ops" where
  "tx_ops L gen =
     \<lparr>makeRequest = (\<lambda>l t. res_bind (makeRequestAsync L (t\<lparr>nodeAccountIds := l\<rparr>)) (\<lambda>(r, t1).
          Inr (r, nodeAccountIds t1, t1))),
      shouldRetry = (\<lambda>t req resp.
          case tx_shouldRetry gen resp t of
            Inl e \<Rightarrow> (''UNKNOWN'', ExecError, t)
          | Inr (s, st, t1) \<Rightarrow> (status_toString s, st, t1)),
      mapResponse = (\<lambda>t resp acc req. tx_mapResponse L acc req t),
      mapStatusError = (\<lambda>t req resp acc.
          StatusError (status_toString (case resp of None \<Rightarrow> 0 | Some c \<Rightarrow> c)))\<rparr>"

section \<open>Deserialising\<close>

text \<open>What is gathered from the decoded bodies; identifiers are told apart by their text.\<close>

record ('acc, 'tid, 'data) gathered =
  g_signed :: "signed_tx list"
  g_tids :: "'tid list"
  g_nodes :: "'acc list"
  g_bodies :: "('acc, 'tid, 'data) tx_body list"

definition add_new :: "('a \<Rightarrow> string) \<Rightarrow> 'a option \<Rightarrow> 'a list \<Rightarrow> 'a list" where
  "add_new show x xs =
     (case x of
        None \<Rightarrow> xs
      | Some a \<Rightarrow> if show a \<in> set (map show xs) then xs else xs @ [a])"

definition gather_body ::
    "('tid \<Rightarrow> string) \<Rightarrow> ('acc \<Rightarrow> string) \<Rightarrow> ('acc, 'tid, 'data) tx_body
     \<Rightarrow> ('acc, 'tid, 'data) gathered \<Rightarrow> ('acc, 'tid, 'data) gathered" where
  "gather_body st sn b g =
     g\<lparr>g_tids := add_new st (b_tid b) (g_tids g), g_nodes := add_new sn (b_node b) (g_nodes g),
       g_bodies := g_bodies g @ [b]\<rparr>"

fun gather ::
    "('acc, 'tid, 'data) proto_lib \<Rightarrow> ('tid \<Rightarrow> string) \<Rightarrow> ('acc \<Rightarrow> string) \<Rightarrow> proto_tx list
     \<Rightarrow> ('acc, 'tid, 'data) gathered \<Rightarrow> ('acc, 'tid, 'data) gathered result" where
  "gather L st sn [] g = Inr g"
| "gather L st sn (Incomplete s # ts) g =
     (if bodyBytes s = [] then gather L st sn ts g
      else res_bind (decBody L (bodyBytes s)) (\<lambda>b. gather L st sn ts (gather_body st sn b g)))"
| "gather L st sn (SignedBytes bs # ts) g =
     (if bs = [] then gather L st sn ts g
      else res_bind (decSigned L bs) (\<lambda>s.
           res_bind (decBody L (bodyBytes s)) (\<lambda>b.
             gather L st sn ts (gather_body st sn b (g\<lparr>g_signed := g_signed g @ [s]\<rparr>)))))"

text \<open>\<open>util.compare\<close> of two bodies, ignoring the node: the same fields are set and they are equal.\<close>

definition same_but_node :: "('acc, 'tid, 'data) tx_body \<Rightarrow> ('acc, 'tid, 'data) tx_body \<Rightarrow> bool" where
  "same_but_node a b \<longleftrightarrow>
     a\<lparr>b_node := None\<rparr> = b\<lparr>b_node := None\<rparr> \<and> (b_node a = None \<longleftrightarrow> b_node b = None)"

definition rows_agree :: "nat \<Rightarrow> nat \<Rightarrow> ('acc, 'tid, 'data) tx_body list \<Rightarrow> bool" where
  "rows_agree rows cols bs \<longleftrightarrow>
     list_all (\<lambda>i. list_all (\<lambda>j.
         i * cols + j + 1 < length bs \<and> same_but_node (bs ! (i * cols + j)) (bs ! (i * cols + j + 1)))
       [0..<cols - 1]) [0..<rows]"

definition pairs_of :: "signed_tx list \<Rightarrow> proto_tx list \<Rightarrow> nat \<Rightarrow> sig_pair list" where
  "pairs_of ss txs i =
     (if i < length ss
      then (case sigPairs (ss ! i) of None \<Rightarrow> [] | Some ps \<Rightarrow> ps)
      else if i < length txs
      then (case txs ! i of
              Incomplete s \<Rightarrow> (case sigPairs s of None \<Rightarrow> [] | Some ps \<Rightarrow> ps)
            | SignedBytes _ \<Rightarrow> [])
      else [])"

definition add_signer ::
    "(byte list \<Rightarrow> public_key) \<Rightarrow> sig_pair \<Rightarrow> ('acc, 'tid, 'data) tx \<Rightarrow> ('acc, 'tid, 'data) tx" where
  "add_signer parse_key p t =
     t\<lparr>signerPublicKeys := (if hex_encode (pubKeyPrefix p) \<in> set (signerPublicKeys t) then signerPublicKeys t
                             else signerPublicKeys t @ [hex_encode (pubKeyPrefix p)]),
       publicKeys := publicKeys t @ [parse_key (pubKeyPrefix p)],
       transactionSigners := transactionSigners t @ [None]\<rparr>"

definition fromProtobufTransactions ::
    "(byte list \<Rightarrow> public_key) \<Rightarrow> ('acc \<Rightarrow> bool) \<Rightarrow> ('acc, 'tid, 'data) tx \<Rightarrow> proto_tx list
     \<Rightarrow> ('acc, 'tid, 'data) gathered \<Rightarrow> ('acc, 'tid, 'data) tx result" where
  "fromProtobufTransactions parse_key is_zero t txs g =
     (if \<not> rows_agree (length (g_tids g)) (length (g_nodes g)) (g_bodies g)
      then Inl (Error ''failed to validate transaction bodies'')
      else
        let body = hd (g_bodies g);
            nodes = filter (\<lambda>n. \<not> is_zero n) (g_nodes g);
            pairs = concat (map (pairs_of (g_signed g) txs) [0..<length nodes])
        in res_bind (setList (map Some txs) (transactions t)) (\<lambda>l1.
           res_bind (setList (map Some (g_signed g)) (signedTransactions t)) (\<lambda>l2.
           res_bind (setList (map Some (g_tids g)) (transactionIds t)) (\<lambda>l3.
           res_bind (setList (map Some nodes) (nodeAccountIds t)) (\<lambda>l4.
             Inr (fold (add_signer parse_key) pairs
               (t\<lparr>transactions := l1, signedTransactions := l2, transactionIds := l3, nodeAccountIds := l4,
                  validDuration := (case b_duration body of None \<Rightarrow> 120 | Some d \<Rightarrow> d),
                  maxFee := (case b_fee body of Some f \<Rightarrow> if 0 < f then Some f else None | None \<Rightarrow> None),
                  memo := b_memo body, tx_data := b_data body\<rparr>)))))))"

definition fromBytes ::
    "('acc, 'tid, 'data) proto_lib \<Rightarrow> ('tid \<Rightarrow> string) \<Rightarrow> ('acc \<Rightarrow> string) \<Rightarrow> (byte list \<Rightarrow> public_key)
     \<Rightarrow> ('acc \<Rightarrow> bool) \<Rightarrow> byte list \<Rightarrow> ('acc, 'tid, 'data) tx result" where
  "fromBytes L st sn parse_key is_zero bytes =
     res_bind (decList L bytes) (\<lambda>txs0.
     res_bind (if txs0 = []
               then res_bind (decTransaction L bytes) (\<lambda>p.
                      Inr [case p of
                             SignedBytes bs \<Rightarrow> SignedBytes bs
                           | Incomplete s \<Rightarrow> SignedBytes (encSigned L s)])
               else Inr txs0) (\<lambda>txs.
     res_bind (gather L st sn txs \<lparr>g_signed = [], g_tids = [], g_nodes = [], g_bodies = []\<rparr>) (\<lambda>g.
       if g_bodies g = []
       then Inl (Error ''No transaction found in bytes or failed to decode TransactionBody'')
       else fromProtobufTransactions parse_key is_zero (new_tx (b_data (hd (g_bodies g)))) txs g)))"

end
