(* ===== verification/ExecuteLaws.thy ===== *)
theory ExecuteLaws
  imports Execute
begin

text \<open>
  The laws of the retry loop: how often it calls, what makes it call again, where its result comes
  from, to which nodes the calls go, how long it waits, and that it succeeds when a node answers.
\<close>

section \<open>Loops with a bound\<close>

lemma attempts_invariant:
  assumes "\<And>i T T'. a \<le> i \<Longrightarrow> i < a + k \<Longrightarrow> I i T \<Longrightarrow> body i T = Again T' \<Longrightarrow> I (Suc i) T'"
    and "\<And>i T r T'. a \<le> i \<Longrightarrow> i < a + k \<Longrightarrow> I i T \<Longrightarrow> body i T = Stop r T' \<Longrightarrow> Q r T'"
    and "\<And>T. I (a + k) T \<Longrightarrow> Q (final T) T"
    and "I a S"
  shows "Q (fst (attempts body final k a S)) (snd (attempts body final k a S))"
  using assms
proof (induction k arbitrary: a S)
  case 0
  then show ?case by simp
next
  case (Suc k)
  show ?case
  proof (cases "body a S")
    case (Again S')
    then have "I (Suc a) S'" using Suc.prems(1)[of a S S'] Suc.prems(4) by simp
    moreover have "\<And>i T r T'. Suc a \<le> i \<Longrightarrow> i < Suc a + k \<Longrightarrow> I i T \<Longrightarrow> body i T = Stop r T' \<Longrightarrow> Q r T'"
      by (rule Suc.prems(2)) simp_all
    moreover have "\<And>i T T'. Suc a \<le> i \<Longrightarrow> i < Suc a + k \<Longrightarrow> I i T \<Longrightarrow> body i T = Again T' \<Longrightarrow> I (Suc i) T'"
      by (rule Suc.prems(1)) simp_all
    ultimately have "Q (fst (attempts body final k (Suc a) S')) (snd (attempts body final k (Suc a) S'))"
      using Suc.prems(3) by (intro Suc.IH) simp_all
    then show ?thesis using Again by simp
  next
    case (Stop r S')
    then show ?thesis using Suc.prems(2)[of a S r S'] Suc.prems(4) by simp
  qed
qed

section \<open>What one attempt does\<close>

definition step_state :: "('s, 'o) step_result \<Rightarrow> 's" where
  "step_state r = (case r of Again S \<Rightarrow> S | Stop _ S \<Rightarrow> S)"

definition same_settings :: "('acc, 'ch, 'st, 'req) exec \<Rightarrow> ('acc, 'ch, 'st, 'req) exec \<Rightarrow> bool" where
  "same_settings S T \<longleftrightarrow>
     x_grpcDeadline T = x_grpcDeadline S \<and> x_requestTimeout T = x_requestTimeout S \<and>
     transactionNodeIds T = transactionNodeIds S \<and> x_maxAttempts T = x_maxAttempts S \<and>
     x_minBackoff T = x_minBackoff S \<and> x_maxBackoff T = x_maxBackoff S"

lemma same_settings_refl [simp]: "same_settings S S"
  by (simp add: same_settings_def)

lemma same_settings_trans: "same_settings A B \<Longrightarrow> same_settings B C \<Longrightarrow> same_settings A C"
  by (simp add: same_settings_def)

text \<open>A call is repeated for a retried failure or for a response that says so.\<close>

definition repeatable ::
    "('acc, 'st, 'req, 'resp, 'out) request_ops \<Rightarrow> rat option \<Rightarrow> 'resp attempt_env \<Rightarrow> ('acc, 'st, 'req) call \<Rightarrow> bool" where
  "repeatable P deadline v c \<longleftrightarrow>
     (case race deadline v of
        Inl err \<Rightarrow> (case fromResponse err of Inl _ \<Rightarrow> False | Inr e \<Rightarrow> retried_error e)
      | Inr resp \<Rightarrow> fst (snd (shouldRetry P (with_state c) (with_request c) resp)) = Retry)"

definition in_time :: "rat option \<Rightarrow> rat \<Rightarrow> rat \<Rightarrow> bool" where
  "in_time timeout start now \<longleftrightarrow> (case timeout of None \<Rightarrow> True | Some t \<Rightarrow> now < start + t)"

definition answered ::
    "('acc, 'st, 'req, 'resp, 'out) request_ops \<Rightarrow> rat option \<Rightarrow> 'resp attempt_env \<Rightarrow> ('acc, 'st, 'req) call \<Rightarrow> 'out \<Rightarrow> bool" where
  "answered P deadline v c out \<longleftrightarrow>
     (\<exists>resp sub. race deadline v = Inr resp \<and>
        snd (shouldRetry P (with_state c) (with_request c) resp) = (Finished, sub) \<and>
        fst (mapResponse P sub resp (to_account c) (with_request c)) = Inr out)"

text \<open>The contract of one attempt: no call and no result, or one call.\<close>

definition quiet_step :: "('acc, 'ch, 'st, 'req) exec \<Rightarrow> (('acc, 'ch, 'st, 'req) exec, 'out) step_result \<Rightarrow> bool" where
  "quiet_step S r \<longleftrightarrow>
     calls (step_state r) = calls S \<and> delays (step_state r) = delays S \<and>
     (\<forall>out T. r \<noteq> Stop (Inr out) T)"

definition call_step ::
    "('acc, 'st, 'req, 'resp, 'out) request_ops \<Rightarrow> bool \<Rightarrow> rat \<times> rat \<Rightarrow> nat \<Rightarrow> 'resp attempt_env
     \<Rightarrow> ('acc, 'ch, 'st, 'req) exec \<Rightarrow> (('acc, 'ch, 'st, 'req) exec, 'out) step_result \<Rightarrow> ('acc, 'st, 'req) call \<Rightarrow> bool" where
  "call_step P isLocal b attempt v S r c \<longleftrightarrow>
     calls (step_state r) = calls S @ [c] \<and> at_attempt c = attempt \<and> readmit_at c \<le> clk_health v \<and>
     (case r of
        Again T \<Rightarrow> repeatable P (x_grpcDeadline S) v c \<and>
          (delays T = delays S \<or> delays T = delays S @ [delayForAttempt isLocal attempt (fst b) (snd b)])
      | Stop res T \<Rightarrow> \<not> repeatable P (x_grpcDeadline S) v c \<and> delays T = delays S \<and>
          (\<forall>out. res = Inr out \<longrightarrow> answered P (x_grpcDeadline S) v c out))"

lemma handle_failure_facts:
  assumes "r = handle_failure n v err S"
  shows "same_settings S (step_state r) \<and> calls (step_state r) = calls S \<and>
   delays (step_state r) = delays S \<and> x_nodes (step_state r) = x_nodes S \<and>
   (\<forall>out T. r \<noteq> Stop (Inr out) T) \<and>
   ((\<exists>T. r = Again T) \<longleftrightarrow> (case fromResponse err of Inl _ \<Rightarrow> False | Inr e \<Rightarrow> retried_error e))"
  by (auto simp: assms handle_failure_def step_state_def same_settings_def Let_def split: sum.splits)

lemma handle_response_facts:
  fixes P :: "('acc, 'st, 'req, 'resp, 'out) request_ops" and S :: "('acc, 'ch, 'st, 'req) exec"
  assumes "r = handle_response P isLocal attempt b acc n req resp S"
  shows "same_settings S (step_state r) \<and> calls (step_state r) = calls S \<and>
   x_nodes (step_state r) = x_nodes S \<and>
   (case r of
      Again T \<Rightarrow> fst (snd (shouldRetry P (x_sub S) req resp)) = Retry \<and>
        delays T = delays S @ [delayForAttempt isLocal attempt (fst b) (snd b)]
    | Stop res T \<Rightarrow> fst (snd (shouldRetry P (x_sub S) req resp)) \<noteq> Retry \<and> delays T = delays S \<and>
        (\<forall>out. res = Inr out \<longrightarrow> (\<exists>sub. snd (shouldRetry P (x_sub S) req resp) = (Finished, sub) \<and>
           fst (mapResponse P sub resp acc req) = Inr out)))"
  by (auto simp: assms handle_response_def step_state_def same_settings_def Let_def
      split: prod.splits exec_state.splits)

lemma choose_node_facts:
  assumes "choose_node C v S = Inr (acc, n, T)"
  shows "same_settings S T \<and> calls T = calls S \<and> delays T = delays S"
  using assms
  by (auto simp: choose_node_def same_settings_def Let_def elim!: res_bind_InrE
      split: if_splits option.splits)

lemma send_request_facts:
  fixes P :: "('acc, 'st, 'req, 'resp, 'out) request_ops" and S :: "('acc, 'ch, 'st, 'req) exec"
  assumes r_def: "r = send_request C P isLocal attempt b v acc n S"
  shows "same_settings S (step_state r) \<and>
    (quiet_step S r \<or> (\<exists>c. call_step P isLocal b attempt v S r c \<and> to_account c = acc))"
proof -
  obtain ch nd where g: "getChannel (openChannel C) (clk_start v) (store (x_net S) n) = (ch, nd)"
    by fastforce
  let ?S1 = "S\<lparr>x_net := set_node n nd (x_net S)\<rparr>"
  show ?thesis
  proof (cases "makeRequest P (x_nodes S) (x_sub S)")
    case (Inl e)
    then show ?thesis
      by (simp add: r_def send_request_def g quiet_step_def step_state_def same_settings_def)
  next
    case (Inr a)
    then obtain req l sub where mk: "makeRequest P (x_nodes S) (x_sub S) = Inr (req, l, sub)"
      by (cases a) auto
    let ?S3 = "?S1\<lparr>x_nodes := l, x_sub := sub, x_nodes := list_advance l\<rparr>"
    let ?c = "\<lparr>at_attempt = attempt, to_account = acc, to_node = n, with_request = req, with_state = sub,
      readmit_at = readmitTime (store (x_net ?S3) n)\<rparr>"
    let ?S4 = "?S3\<lparr>calls := calls S @ [?c]\<rparr>"
    have s4: "same_settings S ?S4" by (simp add: same_settings_def)
    show ?thesis
    proof (cases "isHealthy (clk_health v) (store (x_net ?S3) n)")
      case False
      then show ?thesis
        by (auto simp: r_def send_request_def g mk quiet_step_def step_state_def same_settings_def Let_def)
    next
      case True
      then have h: "readmit_at ?c \<le> clk_health v" by (simp add: isHealthy_def)
      show ?thesis
      proof (cases "race (x_grpcDeadline S) v")
        case (Inl err)
        then have r: "r = handle_failure n v err ?S4"
          using True by (simp add: r_def send_request_def g mk Let_def)
        note F = handle_failure_facts[OF r]
        have "same_settings S (step_state r)" using F same_settings_trans[OF s4] by blast
        moreover have "call_step P isLocal b attempt v S r ?c"
          using F h Inl by (cases r) (auto simp: call_step_def repeatable_def step_state_def)
        ultimately show ?thesis by (auto intro!: exI[of _ ?c])
      next
        case (Inr resp)
        then have r: "r = handle_response P isLocal attempt b acc n req resp ?S4"
          using True by (simp add: r_def send_request_def g mk Let_def)
        note F = handle_response_facts[OF r]
        have "same_settings S (step_state r)" using F same_settings_trans[OF s4] by blast
        moreover have "call_step P isLocal b attempt v S r ?c"
          using F h Inr by (cases r) (auto simp: call_step_def repeatable_def answered_def step_state_def)
        ultimately show ?thesis by (auto intro!: exI[of _ ?c])
      qed
    qed
  qed
qed

lemma call_step_cong:
  "same_settings S T \<Longrightarrow> calls T = calls S \<Longrightarrow> delays T = delays S \<Longrightarrow>
   call_step P isLocal b attempt v T r c \<longleftrightarrow> call_step P isLocal b attempt v S r c"
  by (cases r) (simp_all add: call_step_def same_settings_def)

lemma quiet_step_cong:
  "calls T = calls S \<Longrightarrow> delays T = delays S \<Longrightarrow> quiet_step T r \<longleftrightarrow> quiet_step S r"
  by (simp add: quiet_step_def)

lemma attempt_step_facts:
  fixes P :: "('acc, 'st, 'req, 'resp, 'out) request_ops" and S :: "('acc, 'ch, 'st, 'req) exec"
  assumes r_def: "r = attempt_step C P isLocal start b attempt v S"
  shows "same_settings S (step_state r) \<and>
    (quiet_step S r \<or> (\<exists>c. call_step P isLocal b attempt v S r c \<and>
        in_time (x_requestTimeout S) start (clk_start v)))"
proof (cases "in_time (x_requestTimeout S) start (clk_start v)")
  case False
  then have "r = Stop (Inl (timeout_error (key_of C) (x_nodes S))) S"
    by (auto simp: r_def attempt_step_def in_time_def split: option.splits)
  then show ?thesis by (simp add: quiet_step_def step_state_def)
next
  case True
  then have r: "r = (case choose_node C v S of
             Inl e \<Rightarrow> Stop (Inl e) S
           | Inr (acc, None, S1) \<Rightarrow>
               Stop (Inl (if acc = None then undefined_error else Error ''NodeAccountId not recognized'')) S1
           | Inr (acc, Some n, S1) \<Rightarrow>
               if transactionNodeIds S1 \<noteq> []
               then (case acc of
                       None \<Rightarrow> Stop (Inl undefined_error) S1
                     | Some a \<Rightarrow>
                         if key_of C a \<in> set (transactionNodeIds S1)
                         then send_request C P isLocal attempt b v acc n S1
                         else Again (S1\<lparr>x_nodes := list_advance (x_nodes S1)\<rparr>))
               else send_request C P isLocal attempt b v acc n S1)"
    by (auto simp: r_def attempt_step_def in_time_def split: option.splits)
  show ?thesis
  proof (cases "choose_node C v S")
    case (Inl e)
    then show ?thesis using r by (simp add: quiet_step_def step_state_def)
  next
    case (Inr t)
    then obtain acc n S1 where ch: "choose_node C v S = Inr (acc, n, S1)" by (cases t) auto
    note F = choose_node_facts[OF ch]
    have send: "same_settings S (step_state (send_request C P isLocal attempt b v acc m S1)) \<and>
      (quiet_step S (send_request C P isLocal attempt b v acc m S1) \<or>
       (\<exists>c. call_step P isLocal b attempt v S (send_request C P isLocal attempt b v acc m S1) c))" for m
      using send_request_facts[of _ C P isLocal attempt b v acc m S1, OF refl] F
        call_step_cong[of S S1] quiet_step_cong[of S1 S] same_settings_trans[of S S1]
      by blast
    consider "n = None" | m where "n = Some m" by (cases n) auto
    then show ?thesis
    proof cases
      case 1
      then show ?thesis using F by (auto simp: r ch quiet_step_def step_state_def)
    next
      case 2
      then show ?thesis
        using send[of m] F True
        by (auto simp: r ch quiet_step_def step_state_def same_settings_def split: option.splits)
    qed
  qed
qed

section \<open>The trace of an execution\<close>

definition scheduled_delay :: "bool \<Rightarrow> rat \<times> rat \<Rightarrow> nat \<Rightarrow> rat \<Rightarrow> bool" where
  "scheduled_delay isLocal b n d \<longleftrightarrow>
     (\<exists>j. 1 \<le> j \<and> j \<le> n \<and> d = delayForAttempt isLocal j (fst b) (snd b))"

lemma scheduled_delay_mono: "scheduled_delay isLocal b n d \<Longrightarrow> n \<le> k \<Longrightarrow> scheduled_delay isLocal b k d"
  using le_trans by (fastforce simp: scheduled_delay_def)

lemma scheduled_delay_last: "1 \<le> n \<Longrightarrow> scheduled_delay isLocal b n (delayForAttempt isLocal n (fst b) (snd b))"
  by (auto simp: scheduled_delay_def)

definition trace_inv ::
    "('acc, 'st, 'req, 'resp, 'out) request_ops \<Rightarrow> bool \<Rightarrow> rat \<Rightarrow> rat \<times> rat \<Rightarrow> (nat \<Rightarrow> 'resp attempt_env)
     \<Rightarrow> ('acc, 'ch, 'st, 'req) exec \<Rightarrow> nat \<Rightarrow> ('acc, 'ch, 'st, 'req) exec \<Rightarrow> bool" where
  "trace_inv P isLocal start b env S0 i S \<longleftrightarrow>
     same_settings S0 S \<and> sorted_wrt (<) (map at_attempt (calls S)) \<and> length (calls S) < i \<and>
     length (delays S) \<le> length (calls S) \<and>
     (\<forall>c \<in> set (calls S). 1 \<le> at_attempt c \<and> at_attempt c < i \<and>
        readmit_at c \<le> clk_health (env (at_attempt c)) \<and>
        in_time (x_requestTimeout S0) start (clk_start (env (at_attempt c))) \<and>
        repeatable P (x_grpcDeadline S0) (env (at_attempt c)) c) \<and>
     (\<forall>d \<in> set (delays S). scheduled_delay isLocal b (i - 1) d)"

definition trace_post ::
    "('acc, 'st, 'req, 'resp, 'out) request_ops \<Rightarrow> bool \<Rightarrow> rat \<Rightarrow> rat \<times> rat \<Rightarrow> (nat \<Rightarrow> 'resp attempt_env)
     \<Rightarrow> ('acc, 'ch, 'st, 'req) exec \<Rightarrow> nat \<Rightarrow> 'out result \<Rightarrow> ('acc, 'ch, 'st, 'req) exec \<Rightarrow> bool" where
  "trace_post P isLocal start b env S0 m r S \<longleftrightarrow>
     sorted_wrt (<) (map at_attempt (calls S)) \<and> length (calls S) \<le> m \<and>
     length (delays S) \<le> m \<and>
     (\<forall>c \<in> set (calls S). 1 \<le> at_attempt c \<and> at_attempt c \<le> m \<and>
        readmit_at c \<le> clk_health (env (at_attempt c)) \<and>
        in_time (x_requestTimeout S0) start (clk_start (env (at_attempt c)))) \<and>
     (\<forall>c \<in> set (butlast (calls S)).
        repeatable P (x_grpcDeadline S0) (env (at_attempt c)) c) \<and>
     (\<forall>out. r = Inr out \<longrightarrow> calls S \<noteq> [] \<and>
        answered P (x_grpcDeadline S0) (env (at_attempt (last (calls S)))) (last (calls S)) out) \<and>
     (\<forall>d \<in> set (delays S). scheduled_delay isLocal b m d \<and>
        x_minBackoff S = x_minBackoff S0 \<and> x_maxBackoff S = x_maxBackoff S0)"

lemma trace_inv_step:
  assumes "trace_inv P isLocal start b env S0 i S" "1 \<le> i"
    and "attempt_step C P isLocal start b i (env i) S = Again T"
  shows "trace_inv P isLocal start b env S0 (Suc i) T"
proof -
  note F = attempt_step_facts[OF refl, where C = C and P = P and isLocal = isLocal and start = start
      and b = b and attempt = i and v = "env i" and S = S, unfolded assms(3)]
  have s: "same_settings S0 T"
    using F assms(1) same_settings_trans[of S0 S T] by (simp add: trace_inv_def step_state_def)
  have st: "x_requestTimeout S = x_requestTimeout S0" "x_grpcDeadline S = x_grpcDeadline S0"
    using assms(1) by (simp_all add: trace_inv_def same_settings_def)
  from F consider "calls T = calls S" "delays T = delays S"
    | c where "call_step P isLocal b i (env i) S (Again T :: (_, _) step_result) c"
        "in_time (x_requestTimeout S) start (clk_start (env i))"
    by (auto simp: quiet_step_def step_state_def)
  then show ?thesis
  proof cases
    case 1
    then have "\<forall>d \<in> set (delays T). scheduled_delay isLocal b i d"
      using assms(1) scheduled_delay_mono[of isLocal b "i - 1" _ i] by (auto simp: trace_inv_def)
    then show ?thesis using 1 assms(1) s by (auto simp: trace_inv_def)
  next
    case 2
    then have "calls T = calls S @ [c]" "at_attempt c = i" "readmit_at c \<le> clk_health (env i)"
      "repeatable P (x_grpcDeadline S0) (env i) c"
      "delays T = delays S \<or> delays T = delays S @ [delayForAttempt isLocal i (fst b) (snd b)]"
      using st by (simp_all add: call_step_def step_state_def)
    moreover from this(5) have "\<forall>d \<in> set (delays T). scheduled_delay isLocal b i d"
      using assms(1,2) scheduled_delay_mono[of isLocal b "i - 1" _ i] scheduled_delay_last[of i isLocal b]
      by (auto simp: trace_inv_def)
    ultimately show ?thesis
      using assms(1,2) s 2(2) st
      by (auto simp: trace_inv_def sorted_wrt_append less_Suc_eq)
  qed
qed

lemma trace_inv_stop:
  assumes "trace_inv P isLocal start b env S0 i S" "1 \<le> i" "i \<le> m"
    and "attempt_step C P isLocal start b i (env i) S = Stop r T"
  shows "trace_post P isLocal start b env S0 m r T"
proof -
  note F = attempt_step_facts[OF refl, where C = C and P = P and isLocal = isLocal and start = start
      and b = b and attempt = i and v = "env i" and S = S, unfolded assms(4)]
  have st: "x_requestTimeout S = x_requestTimeout S0" "x_grpcDeadline S = x_grpcDeadline S0"
    using assms(1) by (simp_all add: trace_inv_def same_settings_def)
  have dl: "\<forall>d \<in> set (delays S). scheduled_delay isLocal b m d"
    using assms(1-3) scheduled_delay_mono[of isLocal b "i - 1" _ m] by (auto simp: trace_inv_def)
  have sT: "x_minBackoff T = x_minBackoff S0" "x_maxBackoff T = x_maxBackoff S0"
    using F assms(1) by (simp_all add: same_settings_def trace_inv_def step_state_def)
  from F consider "calls T = calls S" "delays T = delays S" "\<forall>out. r \<noteq> Inr out"
    | c where "call_step P isLocal b i (env i) S (Stop r T) c"
        "in_time (x_requestTimeout S) start (clk_start (env i))"
    by (auto simp: quiet_step_def step_state_def)
  then show ?thesis
  proof cases
    case 1
    then show ?thesis
      using assms(1-3) dl sT by (fastforce simp: trace_inv_def trace_post_def dest: in_set_butlastD)
  next
    case 2
    then have "calls T = calls S @ [c]" "at_attempt c = i" "readmit_at c \<le> clk_health (env i)"
      "delays T = delays S" "\<forall>out. r = Inr out \<longrightarrow> answered P (x_grpcDeadline S0) (env i) c out"
      using st by (simp_all add: call_step_def step_state_def)
    then show ?thesis
      using assms(1-3) 2(2) st dl sT
      by (fastforce simp: trace_inv_def trace_post_def sorted_wrt_append)
  qed
qed

lemma trace_inv_exhausted:
  "trace_inv P isLocal start b env S0 (1 + m) S \<Longrightarrow> trace_post P isLocal start b env S0 m (Inl e) S"
  by (fastforce simp: trace_inv_def trace_post_def same_settings_def dest: in_set_butlastD)

text \<open>The work a request does before its calls may not touch the policy of the calls.\<close>

definition keeps_policy ::
    "(('acc, 'ch, 'st, 'req) exec \<Rightarrow> ('acc, 'ch, 'st, 'req) exec result) \<Rightarrow> bool" where
  "keeps_policy before \<longleftrightarrow>
     (\<forall>S T. before S = Inr T \<longrightarrow> x_maxAttempts T = x_maxAttempts S \<and>
        x_grpcDeadline T = x_grpcDeadline S \<and> x_requestTimeout T = x_requestTimeout S \<and>
        calls T = calls S \<and> delays T = delays S)"

definition effective_timeout ::
    "('acc, 'ch) client \<Rightarrow> rat option \<Rightarrow> ('acc, 'ch, 'st, 'req) exec \<Rightarrow> rat option" where
  "effective_timeout C timeout S =
     (case x_requestTimeout S of
        Some t \<Rightarrow> Some t
      | None \<Rightarrow> (case timeout of None \<Rightarrow> client_requestTimeout C | Some t \<Rightarrow> Some t))"

lemma resolve_timeout:
  "(case x_requestTimeout S of
      None \<Rightarrow> S\<lparr>x_requestTimeout := (case timeout of None \<Rightarrow> client_requestTimeout C | Some t \<Rightarrow> Some t)\<rparr>
    | Some _ \<Rightarrow> S) = S\<lparr>x_requestTimeout := effective_timeout C timeout S\<rparr>"
  by (auto simp: effective_timeout_def split: option.splits)

lemma execute_trace:
  fixes P :: "('acc, 'st, 'req, 'resp, 'out) request_ops" and S :: "('acc, 'ch, 'st, 'req) exec"
  assumes "keeps_policy before" and "calls S = []" and "delays S = []"
    and "execute C P before timeout start env S = (r, T)"
  obtains S0 :: "('acc, 'ch, 'st, 'req) exec" and b
  where "trace_post P (isLocalNode (x_net S)) start b env S0 (max_attempts C (isLocalNode (x_net S)) S) r T"
    "x_requestTimeout S0 = effective_timeout C timeout S" "x_grpcDeadline S0 = x_grpcDeadline S"
    "delays T \<noteq> [] \<longrightarrow> x_minBackoff S0 = Some (fst b) \<and> x_maxBackoff S0 = Some (snd b)"
proof -
  let ?loc = "isLocalNode (x_net S)"
  define S1 where "S1 = S\<lparr>x_requestTimeout := effective_timeout C timeout S\<rparr>"
  note S1 = resolve_timeout[where S = S and timeout = timeout and C = C, folded S1_def]
  show thesis
  proof (cases "before S1")
    case (Inl e)
    then have "T = S1" "r = Inl e" using assms(4) by (auto simp: execute_def S1 Let_def)
    then have "trace_post P ?loc start (0, 0) env S1 (max_attempts C ?loc S) r T"
      using assms(2,3) by (simp add: trace_post_def S1_def)
    then show thesis by (rule that) (simp_all add: S1_def \<open>T = S1\<close> assms(3))
  next
    case (Inr S2)
    then have p: "x_maxAttempts S2 = x_maxAttempts S" "x_grpcDeadline S2 = x_grpcDeadline S"
      "x_requestTimeout S2 = effective_timeout C timeout S" "calls S2 = []" "delays S2 = []"
      using assms(1-3) by (auto simp: keeps_policy_def S1_def)
    define hi where "hi = (case x_maxBackoff S2 of None \<Rightarrow> client_maxBackoff C | Some b \<Rightarrow> b)"
    define lo where "lo = (case x_minBackoff S2 of None \<Rightarrow> client_minBackoff C | Some b \<Rightarrow> b)"
    define S3 where "S3 = S2\<lparr>x_maxBackoff := Some hi, x_minBackoff := Some lo, x_last := NoError\<rparr>"
    let ?m = "max_attempts C ?loc S"
    have m: "max_attempts C ?loc S3 = ?m" by (simp add: max_attempts_def S3_def p split: option.splits)
    have S3: "x_requestTimeout S3 = effective_timeout C timeout S" "x_grpcDeadline S3 = x_grpcDeadline S"
      "calls S3 = []" "delays S3 = []"
      by (simp_all add: S3_def p)
    let ?loop = "attempts (\<lambda>i. attempt_step C P ?loc start (lo, hi) i (env i))
                   (\<lambda>S. Inl (exhausted_error (key_of C) ?m S)) ?m 1 S3"
    have loop: "trace_post P ?loc start (lo, hi) env S3 ?m (fst ?loop) (snd ?loop)"
    proof (rule attempts_invariant[where I = "trace_inv P ?loc start (lo, hi) env S3"])
      fix i U U' assume "1 \<le> i" "trace_inv P ?loc start (lo, hi) env S3 i U"
        "attempt_step C P ?loc start (lo, hi) i (env i) U = Again U'"
      then show "trace_inv P ?loc start (lo, hi) env S3 (Suc i) U'" by (intro trace_inv_step)
    next
      fix i U q U' assume "1 \<le> i" "i < 1 + ?m" "trace_inv P ?loc start (lo, hi) env S3 i U"
        "attempt_step C P ?loc start (lo, hi) i (env i) U = Stop q U'"
      then show "trace_post P ?loc start (lo, hi) env S3 ?m q U'" by (intro trace_inv_stop) simp_all
    next
      fix U assume "trace_inv P ?loc start (lo, hi) env S3 (1 + ?m) U"
      then show "trace_post P ?loc start (lo, hi) env S3 ?m (Inl (exhausted_error (key_of C) ?m U)) U"
        by (rule trace_inv_exhausted)
    next
      show "trace_inv P ?loc start (lo, hi) env S3 1 S3" by (simp add: trace_inv_def S3)
    qed
    have quiet: "trace_post P ?loc start (lo, hi) env S3 ?m (Inl e) S3" for e
      by (simp add: trace_post_def S3)
    have "trace_post P ?loc start (lo, hi) env S3 ?m r T"
      using assms(4) loop quiet
      by (auto simp: execute_def S1 Inr Let_def m simp flip: hi_def lo_def S3_def split: if_splits)
    then show thesis by (rule that) (simp_all add: S3, simp add: S3_def)
  qed
qed

section \<open>Correctness of the loop\<close>

text \<open>C1: an execution calls nodes at most as often as there are attempts, one call per attempt, only
before the request's deadline and only nodes whose backoff has passed, and every call but the last
was answered by something that asks to be repeated: an answer that is final is never followed by
another call.\<close>

theorem calls_bounded_and_justified:
  assumes "keeps_policy before" and "calls S = []" and "delays S = []"
    and "execute C P before timeout start env S = (r, T)"
  shows "length (calls T) \<le> max_attempts C (isLocalNode (x_net S)) S \<and>
    sorted_wrt (<) (map at_attempt (calls T)) \<and>
    (\<forall>c \<in> set (calls T). readmit_at c \<le> clk_health (env (at_attempt c)) \<and>
       in_time (effective_timeout C timeout S) start (clk_start (env (at_attempt c)))) \<and>
    (\<forall>c \<in> set (butlast (calls T)).
       repeatable P (x_grpcDeadline S) (env (at_attempt c)) c)"
  using execute_trace[OF assms] by (auto simp: trace_post_def)

text \<open>C25: an execution never makes up a result: what it returns is what the response of its last call
is mapped to, for the request and the account of that call, and that response said the request is
finished.\<close>

theorem result_from_last_call:
  assumes "keeps_policy before" and "calls S = []" and "delays S = []"
    and "execute C P before timeout start env S = (Inr out, T)"
  shows "calls T \<noteq> [] \<and>
    (\<exists>resp sub. race (x_grpcDeadline S) (env (at_attempt (last (calls T)))) = Inr resp \<and>
       snd (shouldRetry P (with_state (last (calls T))) (with_request (last (calls T))) resp) = (Finished, sub) \<and>
       fst (mapResponse P sub resp (to_account (last (calls T))) (with_request (last (calls T)))) = Inr out)"
  by (rule execute_trace[OF assms]) (auto simp: trace_post_def answered_def)

lemma delayForAttempt_mono:
  "0 \<le> lo \<Longrightarrow> i \<le> j \<Longrightarrow> delayForAttempt False i lo hi \<le> delayForAttempt False j lo hi"
proof -
  assume "0 \<le> lo" "i \<le> j"
  then have "lo * 2 ^ i \<le> lo * 2 ^ j" by (intro mult_left_mono power_increasing) simp_all
  then have "\<lfloor>lo * 2 ^ i\<rfloor> \<le> \<lfloor>lo * 2 ^ j\<rfloor>" by (rule floor_mono)
  then show ?thesis by (auto simp: delayForAttempt_def min_def)
qed

text \<open>Every pause between calls is the minimum backoff doubled once per attempt, rounded down and
cut off at the maximum, so it never exceeds the maximum; a local node is always given the minimum.
There are at most as many pauses as attempts.\<close>

theorem pauses_bounded:
  fixes S :: "('acc, 'ch, 'st, 'req) exec"
  assumes "keeps_policy before" and "calls S = []" and "delays S = []"
    and "execute C P before timeout start env S = (r, T)"
  shows "length (delays T) \<le> max_attempts C (isLocalNode (x_net S)) S \<and>
    (\<forall>d \<in> set (delays T). \<exists>lo hi j. x_minBackoff T = Some lo \<and> x_maxBackoff T = Some hi \<and>
       1 \<le> j \<and> j \<le> max_attempts C (isLocalNode (x_net S)) S \<and>
       d = (if isLocalNode (x_net S) then lo else min (of_int \<lfloor>lo * 2 ^ j\<rfloor>) hi) \<and>
       (\<not> isLocalNode (x_net S) \<longrightarrow> d \<le> hi))"
proof (rule execute_trace[OF assms], intro conjI ballI)
  fix S0 :: "('acc, 'ch, 'st, 'req) exec" and b :: "rat \<times> rat" and d
  let ?m = "max_attempts C (isLocalNode (x_net S)) S"
  assume tp: "trace_post P (isLocalNode (x_net S)) start b env S0 ?m r T"
    and b: "delays T \<noteq> [] \<longrightarrow> x_minBackoff S0 = Some (fst b) \<and> x_maxBackoff S0 = Some (snd b)"
  show "length (delays T) \<le> ?m" using tp by (simp add: trace_post_def)
  assume d: "d \<in> set (delays T)"
  then have "delays T \<noteq> []" by auto
  with b tp d have "x_minBackoff T = Some (fst b)" "x_maxBackoff T = Some (snd b)"
    "scheduled_delay (isLocalNode (x_net S)) b ?m d"
    by (auto simp: trace_post_def)
  then show "\<exists>lo hi j. x_minBackoff T = Some lo \<and> x_maxBackoff T = Some hi \<and> 1 \<le> j \<and> j \<le> ?m \<and>
       d = (if isLocalNode (x_net S) then lo else min (of_int \<lfloor>lo * 2 ^ j\<rfloor>) hi) \<and>
       (\<not> isLocalNode (x_net S) \<longrightarrow> d \<le> hi)"
    by (auto simp: scheduled_delay_def delayForAttempt_def)
qed

section \<open>A sample execution\<close>

text \<open>One node, which is busy the first time and answers 7 the second.\<close>

definition sample_client :: "(string, string) client" where
  "sample_client = \<lparr>key_of = (\<lambda>a. a), openChannel = (\<lambda>a _. a), client_maxAttempts = None,
     client_minBackoff = 250, client_maxBackoff = 8000, client_requestTimeout = Some 120000\<rparr>"

definition sample_ops :: "(string, unit, nat, nat, nat) request_ops" where
  "sample_ops = \<lparr>makeRequest = (\<lambda>l s. Inr (5, l, s)),
     shouldRetry = (\<lambda>s _ resp. if resp = 0 then (''BUSY'', Retry, s) else (''OK'', Finished, s)),
     mapResponse = (\<lambda>s resp _ _. (Inr resp, s)), mapStatusError = (\<lambda>_ _ _ _. StatusError ''INVALID'')\<rparr>"

definition sample_env :: "nat \<Rightarrow> nat attempt_env" where
  "sample_env i = \<lparr>clk_start = 1000, clk_health = 1000, clk_done = 1000, rand = (\<lambda>_. 0), latency = 5,
     answer = Inr (if i = 1 then 0 else 7)\<rparr>"

definition sample_net :: "(string, string) net" where
  "sample_net = (new_network (\<lambda>_. sample_node) 0)
     \<lparr>next_id := 1, nodes := [0], healthyNodes := [0], network := [(''0.0.3'', [0])]\<rparr>"

definition sample_exec :: "(string, string, unit, nat) exec" where
  "sample_exec = (new_exec sample_net ())\<lparr>x_nodes := \<lparr>items = [Some ''0.0.3''], locked = True, cursor = Some 0\<rparr>\<rparr>"

lemma sample_start: "keeps_policy Inr" "calls sample_exec = []" "delays sample_exec = []"
  by (simp_all add: keeps_policy_def sample_exec_def new_exec_def)

lemma sample_not_local: "\<not> isLocalNode (x_net sample_exec)"
  by (simp add: sample_exec_def new_exec_def isLocalNode_def sample_net_def network_of_def
      new_network_def node_addr_def sample_node_def new_node_def address_toString_def)

lemma sample_max: "max_attempts sample_client False sample_exec = 10"
  by (simp add: max_attempts_def sample_client_def sample_exec_def new_exec_def)

lemma attempts_unfold:
  "0 < k \<Longrightarrow> attempts body final k a S =
     (case body a S of Again S' \<Rightarrow> attempts body final (k - 1) (Suc a) S' | Stop r S' \<Rightarrow> (r, S'))"
  by (cases k) (auto split: step_result.splits)

lemmas sample_defs = sample_client_def sample_ops_def sample_env_def sample_net_def sample_exec_def
  new_exec_def new_network_def sample_node_def new_node_def

lemmas execute_defs = attempt_step_def choose_node_def send_request_def handle_response_def
  handle_failure_def race_def getNode_def readmitNodes_def getChannel_def isHealthy_def
  net_decreaseBackoff_def node_decreaseBackoff_def set_node_def rnd_index_def

lemma sample_result:
  "fst (execute sample_client sample_ops Inr None 1000 sample_env sample_exec) = Inr 7 \<and>
   map at_attempt (calls (snd (execute sample_client sample_ops Inr None 1000 sample_env sample_exec))) = [1, 2]"
  by (simp add: execute_def isLocalNode_def network_of_def node_addr_def address_toString_def max_attempts_def
      attempts_unfold sample_defs execute_defs jslist_defs array_get_def Let_def)

theorem calls_bounded_and_justified_witness:
  "length (calls (snd (execute sample_client sample_ops Inr None 1000 sample_env sample_exec))) \<le> 10"
  using calls_bounded_and_justified[OF sample_start, of sample_client sample_ops None 1000 sample_env
      "fst (execute sample_client sample_ops Inr None 1000 sample_env sample_exec)"
      "snd (execute sample_client sample_ops Inr None 1000 sample_env sample_exec)"]
  by (simp add: sample_not_local sample_max)

theorem result_from_last_call_witness:
  "\<exists>T. execute sample_client sample_ops Inr None 1000 sample_env sample_exec = (Inr 7, T) \<and> calls T \<noteq> []"
proof -
  obtain T where T: "execute sample_client sample_ops Inr None 1000 sample_env sample_exec = (Inr 7, T)"
    using sample_result by (metis prod.collapse)
  from result_from_last_call[OF sample_start T] T show ?thesis by blast
qed

theorem pauses_bounded_witness:
  "list_all (\<lambda>d. \<exists>hi. x_maxBackoff (snd (execute sample_client sample_ops Inr None 1000 sample_env sample_exec)) = Some hi \<and> d \<le> hi)
     (delays (snd (execute sample_client sample_ops Inr None 1000 sample_env sample_exec)))"
  using pauses_bounded[OF sample_start, of sample_client sample_ops None 1000 sample_env
      "fst (execute sample_client sample_ops Inr None 1000 sample_env sample_exec)"
      "snd (execute sample_client sample_ops Inr None 1000 sample_env sample_exec)"]
  by (fastforce simp: sample_not_local list_all_iff)

end
