(* ===== verification/ExecuteLive.thy ===== *)
theory ExecuteLive
  imports ExecuteLaws
begin

text \<open>
  Which nodes an execution uses, and that it succeeds: the calls go round the list of node
  accounts, and busy nodes only delay the answer.
\<close>

section \<open>The accounts in turn\<close>

definition keeps_nodes :: "('acc, 'st, 'req, 'resp, 'out) request_ops \<Rightarrow> bool" where
  "keeps_nodes P \<longleftrightarrow> (\<forall>l s q l' s'. makeRequest P l s = Inr (q, l', s') \<longrightarrow> l' = l)"

lemma choose_node_listed:
  assumes "items (x_nodes S) \<noteq> []" and "choose_node C v S = Inr (acc, n, T)"
  shows "acc = list_current (x_nodes S)" and "x_nodes T = x_nodes S" and "calls T = calls S"
  using assms
  by (auto simp: choose_node_def list_isEmpty_def list_length_def Let_def elim!: res_bind_InrE)

lemma send_request_account:
  assumes "keeps_nodes P" and r: "r = send_request C P isLocal attempt b v acc n S"
  shows "(calls (step_state r) = calls S \<or>
      (\<exists>c. calls (step_state r) = calls S @ [c] \<and> to_account c = acc \<and> at_attempt c = attempt)) \<and>
    (\<forall>T. r = Again T \<longrightarrow> x_nodes T = list_advance (x_nodes S))"
proof -
  have "calls (step_state r) = calls S \<or>
      (\<exists>c. calls (step_state r) = calls S @ [c] \<and> to_account c = acc \<and> at_attempt c = attempt)"
    using send_request_facts[OF r] by (auto simp: quiet_step_def call_step_def)
  moreover have "x_nodes T = list_advance (x_nodes S)" if "r = Again T" for T
  proof -
    obtain ch nd where g: "getChannel (openChannel C) (clk_start v) (store (x_net S) n) = (ch, nd)"
      by fastforce
    show ?thesis
    proof (cases "makeRequest P (x_nodes S) (x_sub S)")
      case (Inl e)
      then show ?thesis using that by (simp add: r send_request_def g)
    next
      case (Inr a)
      then obtain req l sub where mk: "makeRequest P (x_nodes S) (x_sub S) = Inr (req, l, sub)"
        by (cases a) auto
      then have l: "l = x_nodes S" using assms(1) unfolding keeps_nodes_def by blast
      show ?thesis
        using that
        by (auto simp: r send_request_def g mk l handle_failure_def handle_response_def Let_def
            split: if_splits sum.splits prod.splits exec_state.splits)
    qed
  qed
  ultimately show ?thesis by blast
qed

lemma attempt_step_account:
  assumes "keeps_nodes P" and ne: "items (x_nodes S) \<noteq> []"
    and r: "r = attempt_step C P isLocal start b attempt v S"
  shows "(calls (step_state r) = calls S \<or>
      (\<exists>c. calls (step_state r) = calls S @ [c] \<and> to_account c = list_current (x_nodes S) \<and>
         at_attempt c = attempt)) \<and>
    (\<forall>T. r = Again T \<longrightarrow> x_nodes T = list_advance (x_nodes S))"
proof (cases "choose_node C v S")
  case (Inl e)
  then show ?thesis by (auto simp: r attempt_step_def step_state_def split: option.splits)
next
  case (Inr t)
  then obtain acc n S1 where ch: "choose_node C v S = Inr (acc, n, S1)" by (cases t) auto
  note F = choose_node_listed[OF ne ch]
  note G = send_request_account[OF assms(1) refl, where C = C and isLocal = isLocal
      and attempt = attempt and b = b and v = v and acc = acc and S = S1]
  have "r = Stop (Inl (timeout_error (key_of C) (x_nodes S))) S \<or> (\<exists>e. r = Stop (Inl e) S1) \<or>
    r = Again (S1\<lparr>x_nodes := list_advance (x_nodes S1)\<rparr>) \<or>
    (\<exists>m. r = send_request C P isLocal attempt b v acc m S1)"
    by (cases n; cases acc; simp add: r attempt_step_def ch split: option.split; blast)
  then consider "r = Stop (Inl (timeout_error (key_of C) (x_nodes S))) S"
    | e where "r = Stop (Inl e) S1"
    | "r = Again (S1\<lparr>x_nodes := list_advance (x_nodes S1)\<rparr>)"
    | m where "r = send_request C P isLocal attempt b v acc m S1"
    by blast
  then show ?thesis
  proof cases
    case (4 m)
    then show ?thesis using G[of m] F by simp
  qed (use F in \<open>auto simp: step_state_def\<close>)
qed

definition turn_inv :: "'acc jslist \<Rightarrow> nat \<Rightarrow> ('acc, 'ch, 'st, 'req) exec \<Rightarrow> bool" where
  "turn_inv l i S \<longleftrightarrow> x_nodes S = (list_advance ^^ (i - 1)) l \<and>
     (\<forall>c \<in> set (calls S). to_account c = list_current ((list_advance ^^ (at_attempt c - 1)) l))"

lemma list_current_turn:
  assumes "cursor l = Some i" and "i < length (items l)"
  shows "list_current ((list_advance ^^ k) l) = items l ! ((i + k) mod length (items l))"
proof -
  have r: "ready l" using assms by (auto simp: ready_def cursor_ok_def)
  let ?l = "(list_advance ^^ k) l"
  have g: "ready ?l" "items ?l = items l" using rr.steps_good[OF r, of k] by auto
  have p: "the (cursor ?l) = (i + k) mod length (items l)" using rr.steps_pos[OF r, of k] assms by simp
  from list_next_eq[OF g(1)] g p show ?thesis by (simp add: list_next_def list_current_def)
qed

text \<open>The attempts of an execution go round its list of node accounts: the call of attempt \<open>k\<close>
goes to the account \<open>k - 1\<close> places after the cursor, skipped nodes included, so as many
attempts in a row as there are accounts reach every account.\<close>

theorem calls_go_round:
  fixes P :: "('acc, 'st, 'req, 'resp, 'out) request_ops" and S :: "('acc, 'ch, 'st, 'req) exec"
  assumes "keeps_nodes P" and "cursor (x_nodes S) = Some i" and "i < length (items (x_nodes S))"
    and "calls S = []" and "\<And>X Y. before X = Inr Y \<Longrightarrow> x_nodes Y = x_nodes X \<and> calls Y = calls X"
    and "execute C P before timeout start env S = (r, T)"
  shows "\<forall>c \<in> set (calls T). to_account c =
    items (x_nodes S) ! ((i + (at_attempt c - 1)) mod length (items (x_nodes S)))"
proof -
  let ?loc = "isLocalNode (x_net S)" and ?l = "x_nodes S"
  have ne: "items ?l \<noteq> []" using assms(3) by auto
  let ?Q = "\<lambda>r T. \<forall>c \<in> set (calls T). to_account c = list_current ((list_advance ^^ (at_attempt c - 1)) ?l)"
  define S1 where "S1 = S\<lparr>x_requestTimeout := effective_timeout C timeout S\<rparr>"
  note S1 = resolve_timeout[where S = S and timeout = timeout and C = C, folded S1_def]
  have step: "turn_inv ?l (Suc j) U'" if "1 \<le> j" "turn_inv ?l j U"
    "attempt_step C P ?loc start b j (env j) U = Again U'" for j b U U'
  proof -
    have "items (x_nodes U) \<noteq> []" using that(2) ne funpow_advance_frame[of "j - 1" ?l] by (simp add: turn_inv_def)
    from attempt_step_account[OF assms(1) this refl, where C = C and isLocal = ?loc and start = start
        and b = b and attempt = j and v = "env j", unfolded that(3)]
    show ?thesis
      using that(1,2) by (cases j) (auto simp: turn_inv_def step_state_def)
  qed
  have stop: "?Q q U'" if "1 \<le> j" "turn_inv ?l j U"
    "attempt_step C P ?loc start b j (env j) U = Stop q U'" for j b U U' q
  proof -
    have "items (x_nodes U) \<noteq> []" using that(2) ne funpow_advance_frame[of "j - 1" ?l] by (simp add: turn_inv_def)
    from attempt_step_account[OF assms(1) this refl, where C = C and isLocal = ?loc and start = start
        and b = b and attempt = j and v = "env j", unfolded that(3)]
    show ?thesis
      using that(1,2) by (auto simp: turn_inv_def step_state_def)
  qed
  have loop: "?Q (fst (attempts (\<lambda>j. attempt_step C P ?loc start b j (env j)) final m 1 U))
      (snd (attempts (\<lambda>j. attempt_step C P ?loc start b j (env j)) final m 1 U))"
    if "turn_inv ?l 1 U" for b m U and final :: "('acc, 'ch, 'st, 'req) exec \<Rightarrow> 'out result"
  proof (rule attempts_invariant[where I = "turn_inv ?l" and Q = ?Q])
    fix j V V' assume "1 \<le> j" "turn_inv ?l j V" "attempt_step C P ?loc start b j (env j) V = Again V'"
    then show "turn_inv ?l (Suc j) V'" by (rule step)
  next
    fix j V q V' assume "1 \<le> j" "turn_inv ?l j V" "attempt_step C P ?loc start b j (env j) V = Stop q V'"
    then show "?Q q V'" by (rule stop)
  next
    fix V :: "('acc, 'ch, 'st, 'req) exec"
    assume "turn_inv ?l (1 + m) V"
    then show "?Q (final V) V" unfolding turn_inv_def by blast
  qed (rule that)
  have "?Q r T"
  proof (cases "before S1")
    case (Inl e)
    then have "T = S1" using assms(6) by (auto simp: execute_def S1 Let_def)
    then show ?thesis using assms(4) by (simp add: S1_def)
  next
    case (Inr S2)
    then have "x_nodes S2 = ?l" "calls S2 = []" using assms(4,5) by (auto simp: S1_def)
    then have "turn_inv ?l 1 (S2\<lparr>x_maxBackoff := hi, x_minBackoff := lo, x_last := NoError\<rparr>)" for hi lo
      by (simp add: turn_inv_def)
    from loop[OF this] assms(6) show ?thesis
      using \<open>calls S2 = []\<close> by (auto simp: execute_def S1 Inr Let_def split: if_splits dest!: arg_cong[of _ _ snd])
  qed
  then show ?thesis by (simp add: list_current_turn[OF assms(2,3)])
qed

theorem calls_go_round_witness:
  "list_all (\<lambda>c. to_account c = Some ''0.0.3'')
     (calls (snd (execute sample_client sample_ops Inr None 1000 sample_env sample_exec)))"
proof -
  let ?run = "execute sample_client sample_ops Inr None 1000 sample_env sample_exec"
  have ops: "keeps_nodes sample_ops" by (simp add: keeps_nodes_def sample_ops_def)
  have l: "cursor (x_nodes sample_exec) = Some 0" "items (x_nodes sample_exec) = [Some ''0.0.3'']"
    by (simp_all add: sample_exec_def)
  have lt: "0 < length (items (x_nodes sample_exec))" by (simp add: l)
  have run: "?run = (fst ?run, snd ?run)" by simp
  from calls_go_round[OF ops l(1) lt sample_start(2) _ run] show ?thesis by (simp add: l(2) list_all_iff)
qed

section \<open>Busy nodes\<close>

text \<open>Every account of the list has nodes in the map, and no node is in backoff at time \<open>t\<close>.\<close>

definition all_reachable :: "('acc \<Rightarrow> string) \<Rightarrow> rat \<Rightarrow> 'acc jslist \<Rightarrow> ('acc, 'ch) net \<Rightarrow> bool" where
  "all_reachable key t l N \<longleftrightarrow> ready l \<and>
     (\<forall>x \<in> set (items l). \<exists>a ns. x = Some a \<and> map_of (network N) (key a) = Some ns \<and> ns \<noteq> []) \<and>
     (\<forall>n. readmitTime (store N n) \<le> t)"

definition same_reach :: "('acc, 'ch) net \<Rightarrow> ('acc, 'ch) net \<Rightarrow> bool" where
  "same_reach N M \<longleftrightarrow> network M = network N \<and> (\<forall>n. readmitTime (store M n) = readmitTime (store N n))"

lemma same_reach_ops:
  "same_reach N N" "same_reach N M \<Longrightarrow> same_reach N (readmitNodes now M)"
  "same_reach N M \<Longrightarrow> same_reach N (net_decreaseBackoff n M)"
  "same_reach N M \<Longrightarrow> same_reach N (set_node n (snd (getChannel init now (store M n))) M)"
  by (auto simp: same_reach_def net_decreaseBackoff_def set_node_def node_decreaseBackoff_def
      getChannel_def Let_def split: option.splits)

lemma reachable_advance: "all_reachable key t l N \<Longrightarrow> all_reachable key t (list_advance l) N"
  using rr.step_good[of l] by (simp add: all_reachable_def)

lemma getNode_reachable:
  assumes "map_of (network N) k = Some ns" "ns \<noteq> []" "rnd_ok rnd"
  shows "\<exists>n. getNode (Some k) rnd now N = Inr (Some n, readmitNodes now N)"
  using assms rnd_ok_pick[OF assms(3), of "length ns" 0] by (simp add: getNode_def)

lemma choose_node_reachable:
  assumes "all_reachable (key_of C) t (x_nodes S) N" "same_reach N (x_net S)" "rnd_ok (rand v)"
  shows "\<exists>a n. choose_node C v S = Inr (Some a, Some n, S\<lparr>x_net := readmitNodes (clk_start v) (x_net S)\<rparr>)"
proof -
  have r: "ready (x_nodes S)" using assms(1) by (simp add: all_reachable_def)
  then have ne: "items (x_nodes S) \<noteq> []" by (simp add: ready_def)
  have cur: "list_current (x_nodes S) = items (x_nodes S) ! the (cursor (x_nodes S))"
    using list_next_eq[OF r] by (simp add: list_next_def list_current_def)
  have "list_current (x_nodes S) \<in> set (items (x_nodes S))"
    using rr.good_pos[OF r] by (simp add: cur)
  then obtain a ns where a: "list_current (x_nodes S) = Some a"
    "map_of (network (x_net S)) (key_of C a) = Some ns" "ns \<noteq> []"
    using assms(1,2) by (auto simp: all_reachable_def same_reach_def)
  from getNode_reachable[OF a(2,3) assms(3)]
  obtain n where "getNode (Some (key_of C a)) (rand v) (clk_start v) (x_net S)
      = Inr (Some n, readmitNodes (clk_start v) (x_net S))" by blast
  then show ?thesis
    using ne a(1) by (simp add: choose_node_def list_isEmpty_def list_length_def)
qed

text \<open>An attempt on a reachable network whose call is answered.\<close>

lemma attempt_answered:
  assumes "all_reachable (key_of C) t (x_nodes S) N" "same_reach N (x_net S)" "rnd_ok (rand v)"
    and "in_time (x_requestTimeout S) start (clk_start v)" "t \<le> clk_health v"
    and "transactionNodeIds S = []" "x_grpcDeadline S = None" "answer v = Inr resp"
    and "\<exists>q s'. makeRequest P (x_nodes S) (x_sub S) = Inr (q, x_nodes S, s') \<and> J (x_nodes S) s'"
  shows "\<exists>acc n q U. attempt_step C P isLocal start b attempt v S
      = handle_response P isLocal attempt b acc n q resp U \<and>
    x_nodes U = list_advance (x_nodes S) \<and> same_reach N (x_net U) \<and> same_settings S U \<and>
    length (calls U) = Suc (length (calls S)) \<and> J (x_nodes S) (x_sub U)"
proof -
  let ?S1 = "S\<lparr>x_net := readmitNodes (clk_start v) (x_net S)\<rparr>"
  obtain a n where ch: "choose_node C v S = Inr (Some a, Some n, ?S1)"
    using choose_node_reachable[OF assms(1-3)] by blast
  obtain q s' where mk: "makeRequest P (x_nodes S) (x_sub S) = Inr (q, x_nodes S, s')" and J: "J (x_nodes S) s'"
    using assms(9) by blast
  obtain chan nd where g: "getChannel (openChannel C) (clk_start v) (store (x_net ?S1) n) = (chan, nd)"
    by fastforce
  let ?N = "set_node n nd (x_net ?S1)"
  have reach: "same_reach N ?N"
    using same_reach_ops(4)[OF same_reach_ops(2)[OF assms(2)], where n = n and init = "openChannel C" and
      now = "clk_start v"] g by simp
  then have healthy: "isHealthy (clk_health v) (store ?N n)"
    using assms(1,5) by (auto simp: isHealthy_def same_reach_def all_reachable_def intro: order_trans)
  let ?U = "S\<lparr>x_net := ?N, x_sub := s', x_nodes := list_advance (x_nodes S),
    calls := calls S @ [\<lparr>at_attempt = attempt, to_account = Some a, to_node = n, with_request = q, with_state = s',
      readmit_at = readmitTime (store ?N n)\<rparr>]\<rparr>"
  have "attempt_step C P isLocal start b attempt v S
      = handle_response P isLocal attempt b (Some a) n q resp ?U"
    using assms(4,6-8) ch mk g healthy
    by (auto simp: attempt_step_def in_time_def send_request_def race_def Let_def split: option.splits)
  with reach J show ?thesis
    by (intro exI[of _ "Some a"] exI[of _ n] exI[of _ q] exI[of _ ?U] conjI) (simp_all add: same_settings_def)
qed

lemma handle_response_retry:
  "fst (snd (shouldRetry P (x_sub U) q resp)) = Retry \<Longrightarrow>
   \<exists>T x. handle_response P isLocal i b acc n q resp U = Again T \<and> x_nodes T = x_nodes U \<and>
     x_net T = net_decreaseBackoff n (x_net U) \<and> same_settings U T \<and> calls T = calls U \<and>
     shouldRetry P (x_sub U) q resp = (x, Retry, x_sub T)"
  by (auto simp: handle_response_def same_settings_def Let_def split: prod.splits)

lemma handle_response_finished:
  "snd (shouldRetry P (x_sub U) q resp) = (Finished, sub) \<Longrightarrow> fst (mapResponse P sub resp acc q) = Inr out \<Longrightarrow>
   \<exists>T. handle_response P isLocal i b acc n q resp U = Stop (Inr out) T \<and> calls T = calls U"
  by (auto simp: handle_response_def Let_def split: prod.splits)

text \<open>
  What a request needs to go on being asked: a property of its nodes and its state under which a
  request can be made, and that making one, being told to retry and advancing keep.
\<close>

definition can_go_on ::
    "('acc, 'st, 'req, 'resp, 'out) request_ops \<Rightarrow> ('acc jslist \<Rightarrow> 'st \<Rightarrow> bool) \<Rightarrow> bool" where
  "can_go_on P J \<longleftrightarrow>
     (\<forall>l s. J l s \<longrightarrow> (\<exists>q s'. makeRequest P l s = Inr (q, l, s') \<and> J l s')) \<and>
     (\<forall>l s q r x s'. J l s \<longrightarrow> shouldRetry P s q r = (x, Retry, s') \<longrightarrow> J l s') \<and>
     (\<forall>l s. J l s \<longrightarrow> J (list_advance l) s)"

lemma can_go_onD:
  assumes "can_go_on P J" and "J l s"
  shows "\<exists>q s'. makeRequest P l s = Inr (q, l, s') \<and> J l s'"
    and "shouldRetry P s q r = (x, Retry, s'') \<Longrightarrow> J l s''" and "J (list_advance l) s"
  using assms unfolding can_go_on_def by blast+

lemma busy_loop:
  fixes U :: "('acc, 'ch, 'st, 'req) exec"
  assumes env: "\<And>i. rnd_ok (rand (env i))"
    "\<And>i. i \<le> Suc k \<Longrightarrow> in_time timeout start (clk_start (env i)) \<and> t \<le> clk_health (env i)"
    and P: "can_go_on P J"
    "\<And>i s q. 1 \<le> i \<Longrightarrow> i \<le> k \<Longrightarrow> \<exists>resp. answer (env i) = Inr resp \<and> fst (snd (shouldRetry P s q resp)) = Retry"
    "answer (env (Suc k)) = Inr resp"
    "\<And>s acc q. \<exists>sub. snd (shouldRetry P s q resp) = (Finished, sub) \<and> fst (mapResponse P sub resp acc q) = Inr out"
    and "j \<le> k" "j < m" "all_reachable (key_of C) t (x_nodes U) N" "same_reach N (x_net U)"
    "x_requestTimeout U = timeout" "transactionNodeIds U = []" "x_grpcDeadline U = None" "J (x_nodes U) (x_sub U)"
  shows "\<exists>T. attempts (\<lambda>i. attempt_step C P isLocal start b i (env i)) final m (Suc (k - j)) U = (Inr out, T) \<and>
    length (calls T) = length (calls U) + Suc j"
  using assms(7-)
proof (induction j arbitrary: m U)
  case 0
  then obtain m' where m: "m = Suc m'" by (cases m) auto
  have time: "in_time (x_requestTimeout U) start (clk_start (env (Suc k)))"
    and health: "t \<le> clk_health (env (Suc k))"
    using env(2)[of "Suc k"] 0(5) by simp_all
  obtain acc n q V where V: "attempt_step C P isLocal start b (Suc k) (env (Suc k)) U
      = handle_response P isLocal (Suc k) b acc n q resp V" "length (calls V) = Suc (length (calls U))"
    using attempt_answered[where v = "env (Suc k)" and P = P and attempt = "Suc k" and b = b
        and isLocal = isLocal and J = J, OF 0(3,4) env(1) time health 0(6,7) P(3) can_go_onD(1)[OF P(1) 0(8)]] by blast
  obtain sub where "snd (shouldRetry P (x_sub V) q resp) = (Finished, sub)"
    "fst (mapResponse P sub resp acc q) = Inr out" using P(4) by blast
  from handle_response_finished[OF this]
  obtain T where "handle_response P isLocal (Suc k) b acc n q resp V = Stop (Inr out) T" "calls T = calls V"
    by blast
  with V show ?case by (simp add: m)
next
  case (Suc j)
  then obtain m' where m: "m = Suc m'" by (cases m) auto
  let ?i = "Suc (k - Suc j)"
  have i: "1 \<le> ?i" "?i \<le> k" "?i \<le> Suc k" "Suc ?i = Suc (k - j)" using Suc.prems(1) by simp_all
  have time: "in_time (x_requestTimeout U) start (clk_start (env ?i))"
    and health: "t \<le> clk_health (env ?i)"
    using env(2)[OF i(3)] Suc.prems(5) by simp_all
  obtain r0 where r0: "answer (env ?i) = Inr r0" using P(2)[OF i(1,2)] by blast
  obtain acc n q V where V: "attempt_step C P isLocal start b ?i (env ?i) U
      = handle_response P isLocal ?i b acc n q r0 V" "x_nodes V = list_advance (x_nodes U)"
      "same_reach N (x_net V)" "same_settings U V" "length (calls V) = Suc (length (calls U))"
      "J (x_nodes U) (x_sub V)"
    using attempt_answered[where v = "env ?i" and P = P and attempt = ?i and b = b
        and isLocal = isLocal and J = J, OF Suc.prems(3,4) env(1) time health Suc.prems(6,7) r0
          can_go_onD(1)[OF P(1) Suc.prems(8)]] by blast
  have "fst (snd (shouldRetry P (x_sub V) q r0)) = Retry" using P(2)[OF i(1,2), of "x_sub V" q] r0 by auto
  from handle_response_retry[OF this]
  obtain T x where T: "handle_response P isLocal ?i b acc n q r0 V = Again T" "x_nodes T = x_nodes V"
    "x_net T = net_decreaseBackoff n (x_net V)" "same_settings V T" "calls T = calls V"
    "shouldRetry P (x_sub V) q r0 = (x, Retry, x_sub T)" by blast
  have "\<exists>T'. attempts (\<lambda>i. attempt_step C P isLocal start b i (env i)) final m' (Suc (k - j)) T = (Inr out, T') \<and>
    length (calls T') = length (calls T) + Suc j"
  proof (rule Suc.IH)
    show "j \<le> k" "j < m'" using Suc.prems(1,2) m by simp_all
    show "all_reachable (key_of C) t (x_nodes T) N"
      using Suc.prems(3) V(2) T(2) by (simp add: reachable_advance)
    show "same_reach N (x_net T)" using V(3) T(3) by (simp add: same_reach_ops)
    show "x_requestTimeout T = timeout" "transactionNodeIds T = []" "x_grpcDeadline T = None"
      using Suc.prems(5-7) V(4) T(4) by (simp_all add: same_settings_def)
    show "J (x_nodes T) (x_sub T)"
      using can_go_onD(3)[OF P(1) can_go_onD(2)[OF P(1) V(6) T(6)]] V(2) T(2) by simp
  qed
  then show ?case using V(1,5) T(1,5) i(4) by (simp add: m)
qed

lemma busy_execute:
  fixes S :: "('acc, 'ch, 'st, 'req) exec"
  assumes "all_reachable (key_of C) t (x_nodes S) (x_net S)"
    and "\<And>i. rnd_ok (rand (env i))"
    and "\<And>i. i \<le> Suc k \<Longrightarrow> in_time (effective_timeout C timeout S) start (clk_start (env i)) \<and> t \<le> clk_health (env i)"
    and "transactionNodeIds S = []" "x_grpcDeadline S = None" "calls S = []"
    and "can_go_on P J" and "J (x_nodes S) (x_sub S)"
    and "\<And>i s q. 1 \<le> i \<Longrightarrow> i \<le> k \<Longrightarrow> \<exists>resp. answer (env i) = Inr resp \<and> fst (snd (shouldRetry P s q resp)) = Retry"
    and "answer (env (Suc k)) = Inr resp"
    and "\<And>s acc q. \<exists>sub. snd (shouldRetry P s q resp) = (Finished, sub) \<and> fst (mapResponse P sub resp acc q) = Inr out"
    and "Suc k \<le> max_attempts C (isLocalNode (x_net S)) S"
  shows "\<exists>T. execute C P Inr timeout start env S = (Inr out, T) \<and> length (calls T) = Suc k"
proof -
  let ?loc = "isLocalNode (x_net S)"
  define S3 where "S3 = S\<lparr>x_requestTimeout := effective_timeout C timeout S,
    x_maxBackoff := Some (case x_maxBackoff S of None \<Rightarrow> client_maxBackoff C | Some b \<Rightarrow> b),
    x_minBackoff := Some (case x_minBackoff S of None \<Rightarrow> client_minBackoff C | Some b \<Rightarrow> b), x_last := NoError\<rparr>"
  have S3: "x_requestTimeout S3 = effective_timeout C timeout S" "x_net S3 = x_net S" "x_nodes S3 = x_nodes S" "x_sub S3 = x_sub S"
    "transactionNodeIds S3 = []" "x_grpcDeadline S3 = None" "calls S3 = []"
    "max_attempts C ?loc S3 = max_attempts C ?loc S"
    using assms(4-6) by (simp_all add: S3_def max_attempts_def split: option.split)
  have "fst (execute C P Inr timeout start env S, ()) =
    attempts (\<lambda>i. attempt_step C P ?loc start (the (x_minBackoff S3), the (x_maxBackoff S3)) i (env i))
      (\<lambda>U. Inl (exhausted_error (key_of C) (max_attempts C ?loc S) U)) (max_attempts C ?loc S) 1 S3"
    using S3(5,8) assms(4)
    by (simp add: execute_def Let_def S3_def resolve_timeout)
  moreover have "\<exists>T. attempts (\<lambda>i. attempt_step C P ?loc start (the (x_minBackoff S3), the (x_maxBackoff S3)) i (env i))
      (\<lambda>U. Inl (exhausted_error (key_of C) (max_attempts C ?loc S) U)) (max_attempts C ?loc S) (Suc (k - k)) S3
      = (Inr out, T) \<and> length (calls T) = length (calls S3) + Suc k"
  proof (rule busy_loop[where env = env and k = k and j = k and N = "x_net S" and t = t
        and timeout = "effective_timeout C timeout S" and J = J])
    show "k < max_attempts C ?loc S" using assms(12) by simp
  qed (use assms(1-3,7-11) S3 same_reach_ops(1) in simp_all)
  ultimately show ?thesis using S3(7) by simp
qed

text \<open>C24: busy nodes only delay a request. On a network whose nodes are all healthy, when the first
\<open>k\<close> nodes asked say they are busy and the next one finishes the request, the execution returns
that answer after exactly \<open>k + 1\<close> calls, provided it is allowed that many attempts and its deadline
has not passed.\<close>

theorem busy_then_done:
  fixes S :: "('acc, 'ch, 'st, 'req) exec"
  assumes "all_reachable (key_of C) t (x_nodes S) (x_net S)"
    and "\<And>i. rnd_ok (rand (env i))"
    and "\<And>i. i \<le> Suc k \<Longrightarrow> in_time (effective_timeout C timeout S) start (clk_start (env i)) \<and> t \<le> clk_health (env i)"
    and "transactionNodeIds S = []" "x_grpcDeadline S = None" "calls S = []"
    and "\<And>l s. \<exists>q s'. makeRequest P l s = Inr (q, l, s')"
    and "\<And>i s q. 1 \<le> i \<Longrightarrow> i \<le> k \<Longrightarrow> \<exists>resp. answer (env i) = Inr resp \<and> fst (snd (shouldRetry P s q resp)) = Retry"
    and "answer (env (Suc k)) = Inr resp"
    and "\<And>s acc q. \<exists>sub. snd (shouldRetry P s q resp) = (Finished, sub) \<and> fst (mapResponse P sub resp acc q) = Inr out"
    and "Suc k \<le> max_attempts C (isLocalNode (x_net S)) S"
  shows "\<exists>T. execute C P Inr timeout start env S = (Inr out, T) \<and> length (calls T) = Suc k"
proof -
  have "can_go_on P (\<lambda>_ _. True)" using assms(7) by (simp add: can_go_on_def)
  then show ?thesis
    by (intro busy_execute[where J = "\<lambda>_ _. True" and t = t and env = env and resp = resp]) (use assms in simp_all)
qed

lemma sample_reachable: "all_reachable (key_of sample_client) 0 (x_nodes sample_exec) (x_net sample_exec)"
  by (simp add: all_reachable_def ready_def cursor_ok_def sample_defs)

theorem busy_then_done_witness:
  "\<exists>T. execute sample_client sample_ops Inr None 1000 sample_env sample_exec = (Inr 7, T) \<and> length (calls T) = 2"
proof -
  have "\<exists>T. execute sample_client sample_ops Inr None 1000 sample_env sample_exec = (Inr 7, T) \<and>
    length (calls T) = Suc 1"
  proof (rule busy_then_done[OF sample_reachable])
    show "rnd_ok (rand (sample_env i))" for i by (simp add: sample_env_def rnd_ok_def)
    show "in_time (effective_timeout sample_client None sample_exec) 1000 (clk_start (sample_env i)) \<and>
      0 \<le> clk_health (sample_env i)" for i
      by (simp add: effective_timeout_def in_time_def sample_defs)
    show "transactionNodeIds sample_exec = []" "x_grpcDeadline sample_exec = None" "calls sample_exec = []"
      by (simp_all add: sample_defs)
    show "\<exists>q s'. makeRequest sample_ops l s = Inr (q, l, s')" for l s by (simp add: sample_ops_def)
    show "\<exists>resp. answer (sample_env i) = Inr resp \<and> fst (snd (shouldRetry sample_ops s q resp)) = Retry"
      if "1 \<le> i" "i \<le> 1" for i s q
      using that by (simp add: sample_defs)
    show "answer (sample_env (Suc 1)) = Inr 7" by (simp add: sample_env_def)
    show "\<exists>sub. snd (shouldRetry sample_ops s q 7) = (Finished, sub) \<and> fst (mapResponse sample_ops sub 7 acc q) = Inr 7" for s acc q
      by (simp add: sample_ops_def)
    show "Suc 1 \<le> max_attempts sample_client (isLocalNode (x_net sample_exec)) sample_exec"
      by (simp add: sample_not_local sample_max)
  qed
  then show ?thesis by (simp add: numeral_2_eq_2)
qed

section \<open>Invariants of a request\<close>

text \<open>
  A property of the list of nodes and the state of a request that making a request, being told to
  retry and advancing keep holds whenever a request is made.
\<close>

definition request_invariant ::
    "('acc, 'st, 'req, 'resp, 'out) request_ops \<Rightarrow> ('acc jslist \<Rightarrow> 'st \<Rightarrow> bool) \<Rightarrow> bool" where
  "request_invariant P J \<longleftrightarrow>
     (\<forall>l s q l' s'. J l s \<longrightarrow> makeRequest P l s = Inr (q, l', s') \<longrightarrow> J l' s') \<and>
     (\<forall>l s q r x st s'. J l s \<longrightarrow> shouldRetry P s q r = (x, st, s') \<longrightarrow> st \<noteq> ExecError \<longrightarrow> J l s') \<and>
     (\<forall>l s. J l s \<longrightarrow> J (list_advance l) s) \<and>
     (\<forall>l s. J l s \<longrightarrow> items l \<noteq> [])"

lemma request_invariantD:
  assumes "request_invariant P J" and "J l s"
  shows "makeRequest P l s = Inr (q, l', s') \<Longrightarrow> J l' s'"
    and "shouldRetry P s q r = (x, st, s'') \<Longrightarrow> st \<noteq> ExecError \<Longrightarrow> J l s''"
    and "J (list_advance l) s" and "items l \<noteq> []"
  using assms unfolding request_invariant_def by metis+

definition made_by ::
    "('acc, 'st, 'req, 'resp, 'out) request_ops \<Rightarrow> ('acc jslist \<Rightarrow> 'st \<Rightarrow> bool) \<Rightarrow> ('acc, 'st, 'req) call \<Rightarrow> bool" where
  "made_by P J c \<longleftrightarrow>
     (\<exists>l s l'. J l s \<and> to_account c = list_current l \<and>
        makeRequest P l s = Inr (with_request c, l', with_state c))"

text \<open>A result comes from the response to a request made under the invariant.\<close>

definition done_by ::
    "('acc, 'st, 'req, 'resp, 'out) request_ops \<Rightarrow> ('acc jslist \<Rightarrow> 'st \<Rightarrow> bool)
     \<Rightarrow> 'out \<Rightarrow> ('acc, 'ch, 'st, 'req) exec \<Rightarrow> bool" where
  "done_by P J out T \<longleftrightarrow>
     (\<exists>s resp acc q. J (x_nodes T) s \<and> mapResponse P s resp acc q = (Inr out, x_sub T))"

lemma send_request_invariant:
  fixes S :: "('acc, 'ch, 'st, 'req) exec"
  assumes inv: "request_invariant P J" and J: "J (x_nodes S) (x_sub S)"
    and acc: "acc = list_current (x_nodes S)"
    and r: "r = send_request C P isLocal attempt b v acc n S"
  shows "(calls (step_state r) = calls S \<or> (\<exists>c. calls (step_state r) = calls S @ [c] \<and> made_by P J c)) \<and>
    (\<forall>T. r = Again T \<longrightarrow> J (x_nodes T) (x_sub T)) \<and>
    (\<forall>out T. r = Stop (Inr out) T \<longrightarrow> done_by P J out T)"
proof -
  obtain ch nd where g: "getChannel (openChannel C) (clk_start v) (store (x_net S) n) = (ch, nd)"
    by fastforce
  let ?S1 = "S\<lparr>x_net := set_node n nd (x_net S)\<rparr>"
  show ?thesis
  proof (cases "makeRequest P (x_nodes S) (x_sub S)")
    case (Inl e)
    then show ?thesis by (simp add: r send_request_def g step_state_def)
  next
    case (Inr a)
    then obtain req l sub where mk: "makeRequest P (x_nodes S) (x_sub S) = Inr (req, l, sub)"
      by (cases a) auto
    have Jl: "J (list_advance l) sub"
      by (rule request_invariantD(3)[OF inv request_invariantD(1)[OF inv J mk]])
    let ?S3 = "?S1\<lparr>x_nodes := l, x_sub := sub, x_nodes := list_advance l\<rparr>"
    let ?c = "\<lparr>at_attempt = attempt, to_account = acc, to_node = n, with_request = req,
      with_state = sub, readmit_at = readmitTime (store (x_net ?S3) n)\<rparr>"
    let ?S4 = "?S3\<lparr>calls := calls S @ [?c]\<rparr>"
    have c: "made_by P J ?c" unfolding made_by_def using J mk acc by auto
    show ?thesis
    proof (cases "isHealthy (clk_health v) (store (x_net ?S3) n)")
      case False
      then show ?thesis using Jl
        by (auto simp: r send_request_def g mk step_state_def Let_def)
    next
      case True
      show ?thesis
      proof (cases "race (x_grpcDeadline S) v")
        case (Inl err)
        then have rr: "r = handle_failure n v err ?S4"
          using True by (simp add: r send_request_def g mk Let_def)
        have "J (x_nodes T) (x_sub T)" if "r = Again T" for T
          using that Jl by (auto simp: rr handle_failure_def Let_def split: sum.splits if_splits)
        moreover have "r \<noteq> Stop (Inr out) T" for out T
          by (auto simp: rr handle_failure_def Let_def split: sum.splits)
        ultimately show ?thesis using handle_failure_facts[OF rr] c by auto
      next
        case (Inr resp)
        then have rr: "r = handle_response P isLocal attempt b acc n req resp ?S4"
          using True by (simp add: r send_request_def g mk Let_def)
        have "J (x_nodes T) (x_sub T)" if T: "r = Again T" for T
        proof -
          obtain x st s' where sr: "shouldRetry P sub req resp = (x, st, s')" by (cases "shouldRetry P sub req resp")
          with T have t: "st = Retry" "x_nodes T = list_advance l" "x_sub T = s'"
            by (auto simp: rr handle_response_def Let_def split: exec_state.splits prod.splits)
          with sr have "shouldRetry P sub req resp = (x, Retry, s')" by simp
          from request_invariantD(2)[OF inv Jl this] t show ?thesis by simp
        qed
        moreover have "done_by P J out T" if T: "r = Stop (Inr out) T" for out T
        proof -
          obtain x st s' where sr: "shouldRetry P sub req resp = (x, st, s')" by (cases "shouldRetry P sub req resp")
          with T have t: "st = Finished" "x_nodes T = list_advance l"
            "mapResponse P s' resp acc req = (Inr out, x_sub T)"
            by (auto simp: rr handle_response_def Let_def split: exec_state.splits prod.splits)
          from request_invariantD(2)[OF inv Jl sr] t show ?thesis by (auto simp: done_by_def)
        qed
        ultimately show ?thesis using handle_response_facts[OF rr] c by auto
      qed
    qed
  qed
qed

lemma choose_node_frame:
  assumes "items (x_nodes S) \<noteq> []" and "choose_node C v S = Inr (acc, n, T)"
  shows "x_sub T = x_sub S"
  using assms
  by (auto simp: choose_node_def list_isEmpty_def list_length_def Let_def elim!: res_bind_InrE)

lemma attempt_step_invariant:
  fixes S :: "('acc, 'ch, 'st, 'req) exec"
  assumes inv: "request_invariant P J" and J: "J (x_nodes S) (x_sub S)"
    and r: "r = attempt_step C P isLocal start b attempt v S"
  shows "(calls (step_state r) = calls S \<or> (\<exists>c. calls (step_state r) = calls S @ [c] \<and> made_by P J c)) \<and>
    (\<forall>T. r = Again T \<longrightarrow> J (x_nodes T) (x_sub T)) \<and>
    (\<forall>out T. r = Stop (Inr out) T \<longrightarrow> done_by P J out T)"
proof (cases "choose_node C v S")
  case (Inl e)
  then show ?thesis by (auto simp: r attempt_step_def step_state_def split: option.splits)
next
  case (Inr t)
  then obtain acc n S1 where ch: "choose_node C v S = Inr (acc, n, S1)" by (cases t) auto
  note ne = request_invariantD(4)[OF inv J]
  note F = choose_node_listed[OF ne ch] choose_node_frame[OF ne ch]
  have J1: "J (x_nodes S1) (x_sub S1)" "acc = list_current (x_nodes S1)" using J F by simp_all
  note G = send_request_invariant[OF inv J1 refl, where C = C and isLocal = isLocal
      and attempt = attempt and b = b and v = v]
  have "r = Stop (Inl (timeout_error (key_of C) (x_nodes S))) S \<or> (\<exists>e. r = Stop (Inl e) S1) \<or>
    r = Again (S1\<lparr>x_nodes := list_advance (x_nodes S1)\<rparr>) \<or>
    (\<exists>m. r = send_request C P isLocal attempt b v acc m S1)"
    by (cases n; cases acc; simp add: r attempt_step_def ch split: option.split; blast)
  then consider "r = Stop (Inl (timeout_error (key_of C) (x_nodes S))) S"
    | e where "r = Stop (Inl e) S1"
    | "r = Again (S1\<lparr>x_nodes := list_advance (x_nodes S1)\<rparr>)"
    | m where "r = send_request C P isLocal attempt b v acc m S1"
    by blast
  then show ?thesis
  proof cases
    case 3
    note J2 = request_invariantD(3)[OF inv J1(1)]
    with 3 F show ?thesis by (simp add: step_state_def)
  next
    case (4 m)
    then show ?thesis using G[of m] F by simp
  qed (use F in \<open>auto simp: step_state_def\<close>)
qed

lemma execute_invariant:
  fixes P :: "('acc, 'st, 'req, 'resp, 'out) request_ops" and S :: "('acc, 'ch, 'st, 'req) exec"
  assumes inv: "request_invariant P J" and J: "J (x_nodes S) (x_sub S)" and "calls S = []"
    and run: "execute C P Inr timeout start env S = (r, T)"
  shows "\<forall>c \<in> set (calls T). made_by P J c" and "r = Inr out \<Longrightarrow> done_by P J out T"
proof -
  let ?loc = "isLocalNode (x_net S)"
  let ?I = "\<lambda>j::nat. \<lambda>U :: ('acc, 'ch, 'st, 'req) exec.
    J (x_nodes U) (x_sub U) \<and> (\<forall>c \<in> set (calls U). made_by P J c)"
  let ?Q = "\<lambda>r :: 'out result. \<lambda>U :: ('acc, 'ch, 'st, 'req) exec.
    (\<forall>c \<in> set (calls U). made_by P J c) \<and> (\<forall>out. r = Inr out \<longrightarrow> done_by P J out U)"
  have loop: "?Q (fst (attempts (\<lambda>j. attempt_step C P ?loc start b j (env j)) final m 1 U))
      (snd (attempts (\<lambda>j. attempt_step C P ?loc start b j (env j)) final m 1 U))"
    if "?I 1 U" and fin: "\<And>V out. final V \<noteq> Inr out"
    for b m U and final :: "('acc, 'ch, 'st, 'req) exec \<Rightarrow> 'out result"
  proof (rule attempts_invariant[where I = ?I and Q = ?Q])
    fix j V V' assume "?I j V" "attempt_step C P ?loc start b j (env j) V = Again V'"
    then show "?I (Suc j) V'"
      using attempt_step_invariant[OF inv, where S = V and C = C and isLocal = ?loc and start = start
          and b = b and attempt = j and v = "env j"]
      by (auto simp: step_state_def)
  next
    fix j V q V' assume "?I j V" "attempt_step C P ?loc start b j (env j) V = Stop q V'"
    then show "?Q q V'"
      using attempt_step_invariant[OF inv, where S = V and C = C and isLocal = ?loc and start = start
          and b = b and attempt = j and v = "env j"]
      by (auto simp: step_state_def)
  next
    fix V :: "('acc, 'ch, 'st, 'req) exec"
    assume "?I (1 + m) V"
    then show "?Q (final V) V" using fin by blast
  qed (rule that(1))
  have "?I 1 (S\<lparr>x_requestTimeout := tm, x_maxBackoff := hi, x_minBackoff := lo, x_last := NoError\<rparr>)" for tm hi lo
    using J assms(3) by simp
  note start_inv = this
  have fin: "?Q q V"
    if "attempts (\<lambda>j. attempt_step C P ?loc start b j (env j)) (\<lambda>U. Inl (exhausted_error (key_of C) k U)) m (Suc 0)
      (S\<lparr>x_requestTimeout := tm, x_maxBackoff := hi, x_minBackoff := lo, x_last := NoError\<rparr>) = (q, V)"
    for b k m tm hi lo q V
    using loop[OF start_inv, where final = "\<lambda>U. Inl (exhausted_error (key_of C) k U)" and b = b and m = m
        and tm1 = tm and hi1 = hi and lo1 = lo] that by simp
  from run have "?Q r T"
    using assms(3) fin
    by (auto simp: execute_def Let_def resolve_timeout split: if_splits)
  then show "\<forall>c \<in> set (calls T). made_by P J c" and "r = Inr out \<Longrightarrow> done_by P J out T" by auto
qed

end
