(* ===== verification/TxLaws.thy ===== *)
theory TxLaws
  imports TxBuild ExecuteLive
begin

text \<open>
  The laws of a transaction: a frozen transaction cannot be changed, freezing prepares one body
  per node, a signature covers every body once, removing it restores the bodies, what is sent is
  always what was signed, and an execution sends every node the transaction that names it.
\<close>

section \<open>Frozen transactions\<close>



section \<open>Freezing\<close>

lemma freezeWith_cases:
  assumes "freezeWith L gen client t = Inr t'"
  obtains t1 where "setNodeAccountIds_client client (freeze_settings client t) = Inr t1"
    "setTransactionId_check t1 = Inr ()"
    "(if signOnDemand (buildNewTransactionIdList gen t1) then Inr (buildNewTransactionIdList gen t1)
      else buildSignedTransactions L (buildNewTransactionIdList gen t1)) = Inr t'"
  using assms by (auto simp: freezeWith_def Let_def elim!: res_bind_InrE)

lemma setNodeAccountIds_client_frame:
  assumes "setNodeAccountIds_client client t = Inr t1"
  shows "signedTransactions t1 = signedTransactions t" "transactions t1 = transactions t"
    "transactionIds t1 = transactionIds t" "signOnDemand t1 = signOnDemand t" "maxFee t1 = maxFee t"
    "memo t1 = memo t" "tx_data t1 = tx_data t" "validDuration t1 = validDuration t"
    "operatorAccountId t1 = operatorAccountId t" "signerPublicKeys t1 = signerPublicKeys t"
  using assms
  by (auto simp: setNodeAccountIds_client_def elim!: res_bind_InrE split: if_splits option.splits)

lemma buildNew_frame [simp]:
  "signedTransactions (buildNewTransactionIdList gen t) = signedTransactions t"
  "transactions (buildNewTransactionIdList gen t) = transactions t"
  "nodeAccountIds (buildNewTransactionIdList gen t) = nodeAccountIds t"
  "signOnDemand (buildNewTransactionIdList gen t) = signOnDemand t"
  "maxFee (buildNewTransactionIdList gen t) = maxFee t"
  "memo (buildNewTransactionIdList gen t) = memo t"
  "tx_data (buildNewTransactionIdList gen t) = tx_data t"
  "validDuration (buildNewTransactionIdList gen t) = validDuration t"
  "signerPublicKeys (buildNewTransactionIdList gen t) = signerPublicKeys t"
  "cursor (transactionIds (buildNewTransactionIdList gen t)) = cursor (transactionIds t)"
  by (auto simp: buildNewTransactionIdList_def list_set_def split: option.splits)

text \<open>The body a frozen transaction has for a node.\<close>

definition frozen_body :: "('acc, 'tid, 'data) tx \<Rightarrow> 'acc option \<Rightarrow> ('acc, 'tid, 'data) tx_body" where
  "frozen_body t n =
     \<lparr>b_data = tx_data t, b_fee = maxFee t, b_memo = memo t, b_tid = list_current (transactionIds t),
      b_node = n, b_duration = Some (validDuration t)\<rparr>"

text \<open>C26: freezing prepares the transaction for every node. Unless signing is on demand, a successful
freeze leaves one unsigned transaction per node account, in their order, whose body decodes to
the fields set before the freeze, the current transaction ID, a fee that is never missing and
that node; the fields themselves are kept.\<close>

theorem freeze_prepares_every_node:
  assumes "freezeWith L gen client t = Inr t'" and "\<not> signOnDemand t'"
    and "\<not> locked (signedTransactions t)" and "proto_ok L"
  shows "map (map_option (\<lambda>s. (sigPairs s, decBody L (bodyBytes s)))) (items (signedTransactions t'))
      = map (\<lambda>n. Some (Some [], Inr (frozen_body t' n))) (items (nodeAccountIds t')) \<and>
    maxFee t' \<noteq> None \<and> (maxFee t \<noteq> None \<longrightarrow> maxFee t' = maxFee t) \<and>
    tx_data t' = tx_data t \<and> memo t' = memo t \<and> validDuration t' = validDuration t \<and>
    (isFrozen t' \<longleftrightarrow> items (nodeAccountIds t') \<noteq> [])"
proof -
  obtain t1 where t1: "setNodeAccountIds_client client (freeze_settings client t) = Inr t1"
    and t': "(if signOnDemand (buildNewTransactionIdList gen t1) then Inr (buildNewTransactionIdList gen t1)
      else buildSignedTransactions L (buildNewTransactionIdList gen t1)) = Inr t'"
    using freezeWith_cases[OF assms(1)] by blast
  note F = setNodeAccountIds_client_frame[OF t1]
  let ?t2 = "buildNewTransactionIdList gen t1"
  have "\<not> signOnDemand ?t2" using t' assms(2) by auto
  moreover have "\<not> locked (signedTransactions ?t2)" using F(1) assms(3) by (simp add: freeze_settings_def)
  ultimately have eq: "t' = ?t2\<lparr>signedTransactions :=
      (signedTransactions ?t2)\<lparr>items := map (\<lambda>n. Some (makeSignedTransaction L n ?t2)) (items (nodeAccountIds ?t2)),
        cursor := Some 0\<rparr>\<rparr>"
    using t' by (simp add: buildSignedTransactions_def setList_def)
  have dec: "decBody L (encBody L b) = Inr b" for b using assms(4) by (simp add: proto_ok_def)
  have fee: "maxFee t1 = maxFee (freeze_settings client t)" using F(5) .
  show ?thesis
    using F fee
    by (auto simp: eq dec makeSignedTransaction_def makeTransactionBody_def frozen_body_def
        freeze_settings_def isFrozen_def list_length_def \<open>\<not> signOnDemand ?t2\<close>[simplified]
        split: option.splits)
qed

section \<open>Signing\<close>

lemma map_Some_the: "None \<notin> set xs \<Longrightarrow> xs = map Some (map the xs)"
  by (induction xs) auto

lemma map_filter_Some [simp]: "List.map_filter (\<lambda>x. x) (map Some xs) = xs"
  by (induction xs) (simp_all add: List.map_filter_simps)

definition pairs :: "signed_tx \<Rightarrow> sig_pair list" where
  "pairs s = (case sigPairs s of None \<Rightarrow> [] | Some ps \<Rightarrow> ps)"

lemma sign_one_simps [simp]:
  "bodyBytes (sign_one k f s) = bodyBytes s"
  "sigPairs (sign_one k f s) = Some (pairs s @ [toProtobufSignature k (f (bodyBytes s))])"
  by (simp_all add: sign_one_def push_pair_def pairs_def)

lemma prefix_toProtobuf [simp]: "pubKeyPrefix (toProtobufSignature k s) = raw_key k"
  by (simp add: toProtobufSignature_def split: key_type.split)

lemma signature_toProtobuf [simp]: "pair_signature (toProtobufSignature k s) = Some s"
  by (simp add: toProtobufSignature_def pair_signature_def split: key_type.split)

lemma signWith_frozen:
  assumes "\<not> signOnDemand t" "isFrozen t" "key_hex k \<notin> set (signerPublicKeys t)"
    and "None \<notin> set (items (signedTransactions t))"
  shows "signWith k f t = Inr (t\<lparr>transactions := clear (transactions t),
    signerPublicKeys := signerPublicKeys t @ [key_hex k],
    transactionIds := setLocked (transactionIds t), nodeAccountIds := setLocked (nodeAccountIds t),
    signedTransactions := (signedTransactions t)
      \<lparr>items := map (map_option (sign_one k f)) (items (signedTransactions t))\<rparr>\<rparr>)"
  using assms by (simp add: signWith_def requireFrozen_def)

text \<open>C5: signing a frozen transaction adds to every node's transaction exactly one pair, the key's
signature of exactly that body, leaves the bodies and the earlier signatures alone, forgets what
was built without it and fixes the nodes and IDs; signing again with the same key changes nothing.
A transaction that is not frozen is refused.\<close>

theorem sign_covers_every_body:
  assumes "\<not> signOnDemand t" and "None \<notin> set (items (signedTransactions t))"
    and "key_hex k \<notin> set (signerPublicKeys t)"
  shows "(\<not> isFrozen t \<longrightarrow> \<not> is_ok (signWith k f t)) \<and>
    (isFrozen t \<longrightarrow> (\<exists>t'. signWith k f t = Inr t' \<and>
      map (map_option (\<lambda>s. (bodyBytes s, pairs s))) (items (signedTransactions t')) =
        map (map_option (\<lambda>s. (bodyBytes s, pairs s @ [toProtobufSignature k (f (bodyBytes s))])))
          (items (signedTransactions t)) \<and>
      items (transactions t') = [] \<and> locked (transactionIds t') \<and> locked (nodeAccountIds t') \<and>
      (\<forall>g. signWith k g t' = Inr t')))"
proof (intro conjI impI)
  assume "\<not> isFrozen t"
  then show "\<not> is_ok (signWith k f t)" using assms(1) by (simp add: signWith_def requireFrozen_def)
next
  assume fr: "isFrozen t"
  note s = signWith_frozen[OF assms(1) fr assms(3,2), of f]
  let ?t' = "t\<lparr>transactions := clear (transactions t),
    signerPublicKeys := signerPublicKeys t @ [key_hex k],
    transactionIds := setLocked (transactionIds t), nodeAccountIds := setLocked (nodeAccountIds t),
    signedTransactions := (signedTransactions t)
      \<lparr>items := map (map_option (sign_one k f)) (items (signedTransactions t))\<rparr>\<rparr>"
  have "signWith k g ?t' = Inr ?t'" for g
    using fr assms(1) by (simp add: signWith_def requireFrozen_def isFrozen_def list_length_def)
  then show "\<exists>t'. signWith k f t = Inr t' \<and>
      map (map_option (\<lambda>s. (bodyBytes s, pairs s))) (items (signedTransactions t')) =
        map (map_option (\<lambda>s. (bodyBytes s, pairs s @ [toProtobufSignature k (f (bodyBytes s))])))
          (items (signedTransactions t)) \<and>
      items (transactions t') = [] \<and> locked (transactionIds t') \<and> locked (nodeAccountIds t') \<and>
      (\<forall>g. signWith k g t' = Inr t')"
    using s by (intro exI[of _ ?t'])
      (simp add: option.map_comp comp_def pairs_def clear_def setLocked_def)
qed

lemma removeSignatures_sign_one:
  assumes "\<forall>p \<in> set (pairs s). pubKeyPrefix p \<noteq> raw_key k" and "sigPairs s \<noteq> None"
  shows "removeSignaturesFromTransaction (key_hex k) (sign_one k f s) = ([f (bodyBytes s)], s)"
proof -
  obtain ps where ps: "sigPairs s = Some ps" using assms(2) by auto
  have keep: "filter (\<lambda>p. \<not> shouldRemoveSignature (key_hex k) p) ps = ps"
    and none: "filter (shouldRemoveSignature (key_hex k)) ps = []"
    using assms(1)
    by (auto simp: pairs_def ps shouldRemoveSignature_def key_hex_def filter_empty_conv intro!: filter_True)
  have self: "shouldRemoveSignature (key_hex k) (toProtobufSignature k x)" for x
    by (simp add: shouldRemoveSignature_def key_hex_def)
  show ?thesis
    using keep none self
    by (simp add: removeSignaturesFromTransaction_def pairs_def ps List.map_filter_simps)
qed

text \<open>C30: removing a signature undoes signing: it returns the signatures made, one per node's
transaction, in order, and the signed transactions and the record of signers are what they were
before; a key that has not signed is refused. Only the identifier lists stay locked and the last
stored signing function, which belongs to whoever signed last, is dropped.\<close>

theorem remove_undoes_sign:
  assumes "\<not> signOnDemand t" and "isFrozen t" and "None \<notin> set (items (signedTransactions t))"
    and "key_hex k \<notin> set (signerPublicKeys t)" and "k \<notin> set (publicKeys t)"
    and "\<forall>s \<in> set (List.map_filter (\<lambda>x. x) (items (signedTransactions t))).
      sigPairs s \<noteq> None \<and> (\<forall>p \<in> set (pairs s). pubKeyPrefix p \<noteq> raw_key k)"
    and "signWith k f t = Inr t'"
  shows "\<exists>t''. removeSignature L gen k t' =
      Inr (map (\<lambda>s. f (bodyBytes s)) (List.map_filter (\<lambda>x. x) (items (signedTransactions t))), t'') \<and>
    signedTransactions t'' = signedTransactions t \<and> signerPublicKeys t'' = signerPublicKeys t \<and>
    publicKeys t'' = publicKeys t \<and> transactionSigners t'' = butlast (transactionSigners t) \<and>
    (\<exists>e. removeSignature L gen k t = Inl e)"
proof -
  define ss where "ss = map the (items (signedTransactions t))"
  have items: "items (signedTransactions t) = map Some ss"
    unfolding ss_def by (rule map_Some_the[OF assms(3)])
  have t': "t' = t\<lparr>transactions := clear (transactions t),
    signerPublicKeys := signerPublicKeys t @ [key_hex k],
    transactionIds := setLocked (transactionIds t), nodeAccountIds := setLocked (nodeAccountIds t),
    signedTransactions := (signedTransactions t)\<lparr>items := map (map_option (sign_one k f)) (map Some ss)\<rparr>\<rparr>"
    using signWith_frozen[OF assms(1,2,4,3), of f] assms(7) items by simp
  have len: "ss \<noteq> []" using assms(1,2) items by (auto simp: isFrozen_def list_length_def)
  have rm: "removeSignaturesFromTransaction (key_hex k) (sign_one k f s) = ([f (bodyBytes s)], s)" if "s \<in> set ss" for s
    using assms(6) that by (intro removeSignatures_sign_one) (auto simp: items)
  have pub: "public_isFrozen t'" "public_isFrozen t"
    using len items by (simp_all add: t' public_isFrozen_def list_length_def)
  have rs: "map (map_option (removeSignaturesFromTransaction (key_hex k))) (items (signedTransactions t'))
    = map (\<lambda>s. Some ([f (bodyBytes s)], s)) ss"
    using rm by (simp add: t')
  have "concat (map (\<lambda>r. fst (the r)) (map (\<lambda>s. Some ([f (bodyBytes s)], s)) ss)) = map (\<lambda>s. f (bodyBytes s)) ss"
    by (induction ss) simp_all
  moreover have "map (map_option snd) (map (\<lambda>s. Some ([f (bodyBytes s)], s)) ss) = map Some ss"
    by simp
  moreover have "filter (\<lambda>h. h \<noteq> key_hex k) (signerPublicKeys t') = signerPublicKeys t"
    using assms(4) by (auto simp: t' intro!: filter_True)
  moreover have "filter (\<lambda>q. q \<noteq> k) (publicKeys t') = publicKeys t"
    using assms(5) by (auto simp: t' intro!: filter_True)
  moreover have "key_hex k \<in> set (signerPublicKeys t')" "None \<notin> set (items (signedTransactions t'))"
    by (auto simp: t')
  ultimately have "removeSignature L gen k t' = Inr (map (\<lambda>s. f (bodyBytes s)) ss,
     t'\<lparr>signedTransactions := (signedTransactions t')\<lparr>items := map Some ss\<rparr>,
        signerPublicKeys := signerPublicKeys t, publicKeys := publicKeys t,
        transactionSigners := butlast (transactionSigners t')\<rparr>)"
    using pub by (simp add: removeSignature_def freeze_if_needed_def rs)
  moreover have "removeSignature L gen k t = Inl (Error ''The public key has not signed this transaction'')"
    using pub(2) assms(4) by (simp add: removeSignature_def freeze_if_needed_def)
  ultimately show ?thesis
    using items by (simp add: t')
qed

section \<open>Building\<close>

lemma pad_null_ok:
  "\<not> locked l \<or> k = 0 \<Longrightarrow> pad_null k l = Inr (l\<lparr>items := items l @ replicate k None\<rparr>)"
  by (induction k arbitrary: l) (auto simp: push_def replicate_app_Cons_same)

definition built :: "('acc, 'tid, 'data) proto_lib \<Rightarrow> signed_tx \<Rightarrow> proto_tx option" where
  "built L s = Some (SignedBytes (encSigned L s))"

text \<open>Whatever the cache holds at an index, building there stores what is signed there.\<close>

lemma buildTransaction_ok:
  assumes "i < length (items (signedTransactions t))" "items (signedTransactions t) ! i = Some s"
    and "\<not> locked (transactions t) \<or> i \<le> length (items (transactions t))"
  defines "xs \<equiv> items (transactions t) @ replicate (i - length (items (transactions t))) None"
  shows "buildTransaction L (Some i) t =
    Inr (t\<lparr>transactions := (transactions t)\<lparr>items := (if i < length xs then xs[i := built L s] else xs @ [built L s])\<rparr>\<rparr>)"
proof -
  let ?l = "(transactions t)\<lparr>items := xs\<rparr>"
  have pad: "pad_null (i - length (items (transactions t))) (transactions t) = Inr ?l"
    using pad_null_ok[of "transactions t" "i - length (items (transactions t))"] assms(3)
    by (auto simp: list_length_def xs_def)
  have len: "i \<le> length xs" by (simp add: xs_def)
  have enc: "encoded_at L (Some i) t = Inr (SignedBytes (encSigned L s))"
    using assms(1,2) by (simp add: encoded_at_def list_get_def array_get_def)
  consider "i = length xs" | "i < length xs" "xs ! i = None" | "i < length xs" "xs ! i \<noteq> None"
    using len by fastforce
  then show ?thesis
  proof cases
    case 1
    show ?thesis
      by (simp add: buildTransaction_def pad enc list_get_def array_get_def setIfAbsent_def list_set_def
          list_length_def built_def 1[symmetric])
  next
    case 2
    then show ?thesis
      by (simp add: buildTransaction_def pad enc list_get_def array_get_def setIfAbsent_def list_set_def
          list_length_def built_def array_set_def)
  next
    case 3
    then show ?thesis
      by (auto simp: buildTransaction_def pad enc list_get_def array_get_def setIfAbsent_def list_set_def
          list_length_def built_def array_set_def)
  qed
qed

lemma stored_prefix:
  assumes "i \<le> length xs" "take i xs = map f (take i ss)" "i < length ss"
  defines "ys \<equiv> if i < length xs then xs[i := f (ss ! i)] else xs @ [f (ss ! i)]"
  shows "take (Suc i) ys = map f (take (Suc i) ss) \<and> Suc i \<le> length ys"
proof (cases "i < length xs")
  case True
  then have "take (Suc i) ys = take i xs @ [f (ss ! i)]"
    by (simp add: ys_def take_Suc_conv_app_nth)
  then show ?thesis using True assms(2,3) by (simp add: ys_def take_Suc_conv_app_nth)
next
  case False
  then have "i = length xs" using assms(1) by simp
  then show ?thesis using assms(2,3) by (simp add: ys_def take_Suc_conv_app_nth)
qed

lemma build_from_ok:
  assumes "items (signedTransactions t) = map Some ss" "i + k = length ss"
    and "i \<le> length (items (transactions t))" "length (items (transactions t)) \<le> length ss"
    and "take i (items (transactions t)) = map (built L) (take i ss)"
  shows "build_from L i k t = Inr (t\<lparr>transactions := (transactions t)\<lparr>items := map (built L) ss\<rparr>\<rparr>)"
  using assms
proof (induction k arbitrary: i t)
  case 0
  then have "map (built L) ss = items (transactions t)" by (metis add_0_right le_antisym take_all order_refl)
  moreover have "t = t\<lparr>transactions := (transactions t)\<lparr>items := items (transactions t)\<rparr>\<rparr>" by simp
  ultimately show ?case by (simp only: build_from.simps)
next
  case (Suc k)
  let ?xs = "items (transactions t)"
  let ?ys = "if i < length ?xs then ?xs[i := built L (ss ! i)] else ?xs @ [built L (ss ! i)]"
  let ?t = "t\<lparr>transactions := (transactions t)\<lparr>items := ?ys\<rparr>\<rparr>"
  have i: "i < length ss" using Suc.prems(2) by simp
  have step: "buildTransaction L (Some i) t = Inr ?t"
    using buildTransaction_ok[of i t "ss ! i" L] Suc.prems(1,3) i by simp
  have ys: "take (Suc i) ?ys = map (built L) (take (Suc i) ss)" "Suc i \<le> length ?ys" "length ?ys \<le> length ss"
    using stored_prefix[OF Suc.prems(3) Suc.prems(5) i] Suc.prems(4) i by (blast, blast, simp)
  have "build_from L (Suc i) k ?t = Inr (?t\<lparr>transactions := (transactions ?t)\<lparr>items := map (built L) ss\<rparr>\<rparr>)"
    by (rule Suc.IH) (use Suc.prems(1,2) ys in simp_all)
  then show ?case by (simp add: step)
qed

lemma buildAllTransactions_ok:
  assumes "items (signedTransactions t) = map Some ss" "length (items (transactions t)) \<le> length ss"
  shows "buildAllTransactions L t = Inr (t\<lparr>transactions := (transactions t)\<lparr>items := map (built L) ss\<rparr>\<rparr>)"
  using build_from_ok[of t ss 0 "length ss" L] assms by (simp add: buildAllTransactions_def list_length_def)

lemma list_get_stored:
  "i \<le> length xs \<Longrightarrow>
   list_get (l\<lparr>items := (if i < length xs then xs[i := v] else xs @ [v])\<rparr>) (Some i) = v"
  by (auto simp: list_get_def array_get_def nth_append)

lemma makeRequest_current:
  assumes "\<not> signOnDemand t" and "cursor (transactionIds t) = Some r" "cursor (nodeAccountIds t) = Some c"
    and "r * length (items (nodeAccountIds t)) + c < length (items (signedTransactions t))"
    and "items (signedTransactions t) ! (r * length (items (nodeAccountIds t)) + c) = Some s"
    and "\<not> locked (transactions t)"
  shows "\<exists>l. makeRequestAsync L t = Inr (Some (SignedBytes (encSigned L s)), t\<lparr>transactions := l\<rparr>) \<and>
    \<not> locked l"
proof -
  let ?i = "r * length (items (nodeAccountIds t)) + c"
  let ?xs = "items (transactions t) @ replicate (?i - length (items (transactions t))) None"
  let ?l = "(transactions t)\<lparr>items := (if ?i < length ?xs then ?xs[?i := built L s] else ?xs @ [built L s])\<rparr>"
  have idx: "request_index t = Some ?i"
    using assms(2,3) by (simp add: request_index_def list_length_def)
  have b: "buildTransaction L (Some ?i) t = Inr (t\<lparr>transactions := ?l\<rparr>)"
    using buildTransaction_ok[OF assms(4,5)] assms(6) by simp
  have "list_get ?l (Some ?i) = built L s" by (rule list_get_stored) simp
  then show ?thesis
    using assms(1,6) by (intro exI[of _ ?l]) (simp add: makeRequestAsync_def idx b built_def)
qed

text \<open>C27: what is sent is what is signed. Without signing on demand, a request is the encoding of the
signed transaction at the row of the current ID and the column of the current node, with all
signatures it has by then, whatever an earlier build left in the cache; making it changes nothing
but the cache.\<close>

theorem request_is_current:
  assumes "\<not> signOnDemand t" and "cursor (transactionIds t) = Some r" "cursor (nodeAccountIds t) = Some c"
    and "r * length (items (nodeAccountIds t)) + c < length (items (signedTransactions t))"
    and "items (signedTransactions t) ! (r * length (items (nodeAccountIds t)) + c) = Some s"
    and "\<not> locked (transactions t)"
  shows "\<exists>l. makeRequestAsync L t = Inr (Some (SignedBytes (encSigned L s)), t\<lparr>transactions := l\<rparr>) \<and>
    \<not> locked l"
  by (rule makeRequest_current[OF assms])

section \<open>Executing a frozen transaction\<close>

text \<open>The signed transaction at row \<open>r\<close> and column \<open>c\<close> names the node of the column.\<close>

definition names_nodes ::
    "('acc, 'tid, 'data) proto_lib \<Rightarrow> nat \<Rightarrow> 'acc option list \<Rightarrow> signed_tx option list \<Rightarrow> bool" where
  "names_nodes L r ns ss \<longleftrightarrow>
     (\<forall>c < length ns. r * length ns + c < length ss \<and>
        (\<exists>s b. ss ! (r * length ns + c) = Some s \<and> sigPairs s \<noteq> None \<and>
               decBody L (bodyBytes s) = Inr b \<and> b_node b = ns ! c))"

definition frozen_request ::
    "('acc, 'tid, 'data) proto_lib \<Rightarrow> nat \<Rightarrow> 'acc option list \<Rightarrow> signed_tx option list
     \<Rightarrow> 'acc jslist \<Rightarrow> ('acc, 'tid, 'data) tx \<Rightarrow> bool" where
  "frozen_request L r ns ss l t \<longleftrightarrow>
     items l = ns \<and> ready l \<and> \<not> signOnDemand t \<and> items (signedTransactions t) = ss \<and>
     cursor (transactionIds t) = Some r \<and> \<not> locked (transactions t) \<and> names_nodes L r ns ss"

lemma frozen_request_made:
  assumes "frozen_request L r ns ss l t"
    and "makeRequest (tx_ops L gen) l t = Inr (q, l', t')"
  shows "l' = l \<and> frozen_request L r ns ss l t' \<and>
    (\<exists>c s b. c < length ns \<and> ss ! (r * length ns + c) = Some s \<and> Some s \<in> set ss \<and> q = Some (SignedBytes (encSigned L s)) \<and> sigPairs s \<noteq> None \<and>
       decBody L (bodyBytes s) = Inr b \<and> b_node b = list_current l)"
proof -
  have l: "items l = ns" "ready l" using assms(1) by (simp_all add: frozen_request_def)
  obtain c where c: "cursor l = Some c" "c < length ns"
    using l rr.good_pos[OF l(2)] by (auto simp: ready_def cursor_ok_def split: option.splits)
  then have cur: "list_current l = ns ! c" using l(1) by (simp add: list_current_def list_get_def array_get_def)
  let ?t = "t\<lparr>nodeAccountIds := l\<rparr>"
  let ?i = "r * length ns + c"
  obtain s b where s: "?i < length ss" "ss ! ?i = Some s" "sigPairs s \<noteq> None"
    "decBody L (bodyBytes s) = Inr b" "b_node b = ns ! c"
    using assms(1) c(2) unfolding frozen_request_def names_nodes_def by blast
  obtain tl where tl: "makeRequestAsync L ?t = Inr (Some (SignedBytes (encSigned L s)), ?t\<lparr>transactions := tl\<rparr>)"
    "\<not> locked tl"
    using makeRequest_current[of ?t r c s L] assms(1) c(1) l(1) s(1,2) by (auto simp: frozen_request_def)
  have eq: "q = Some (SignedBytes (encSigned L s))" "l' = l" "t' = ?t\<lparr>transactions := tl\<rparr>"
    using assms(2) tl by (auto simp: tx_ops_def)
  have "Some s \<in> set ss" using s(1,2) by (metis nth_mem)
  then show ?thesis using assms(1) eq s cur tl(2) c(2) by (auto simp: frozen_request_def)
qed

lemma tx_shouldRetry_frame:
  "tx_shouldRetry gen code t = Inr (s, st, t') \<Longrightarrow> t' = t \<or> t' = buildNewTransactionIdList gen t"
  by (auto simp: tx_shouldRetry_def elim!: res_bind_InrE split: if_splits)

lemma frozen_request_invariant: "request_invariant (tx_ops L gen) (frozen_request L r ns ss)"
  unfolding request_invariant_def
proof (intro conjI allI impI)
  fix l t q l' t' assume "frozen_request L r ns ss l t" "makeRequest (tx_ops L gen) l t = Inr (q, l', t')"
  from frozen_request_made[OF this] show "frozen_request L r ns ss l' t'" by simp
next
  fix l t q resp x st t' assume "frozen_request L r ns ss l t" "st \<noteq> ExecError"
    "shouldRetry (tx_ops L gen) t q resp = (x, st, t')"
  then show "frozen_request L r ns ss l t'"
    using tx_shouldRetry_frame[of gen resp t]
    by (cases "tx_shouldRetry gen resp t") (auto simp: tx_ops_def frozen_request_def)
next
  fix l :: "'a jslist" and t :: "('a, 'b, 'c) tx" assume "frozen_request L r ns ss l t"
  then show "frozen_request L r ns ss (list_advance l) t"
    using rr.step_good[of l] by (simp add: frozen_request_def)
next
  fix l :: "'a jslist" and t :: "('a, 'b, 'c) tx" assume "frozen_request L r ns ss l t"
  then show "items l \<noteq> []" by (auto simp: frozen_request_def ready_def)
qed


text \<open>A freshly frozen transaction is such a request, and signing keeps it one.\<close>

lemma freeze_names_nodes:
  assumes "items (signedTransactions t) = map (\<lambda>n. Some (makeSignedTransaction L n u)) (items (nodeAccountIds t))"
    and "proto_ok L"
  shows "names_nodes L 0 (items (nodeAccountIds t)) (items (signedTransactions t))"
  using assms
  by (auto simp: names_nodes_def makeSignedTransaction_def makeTransactionBody_def proto_ok_def)

lemma sign_names_nodes:
  "names_nodes L r ns ss \<Longrightarrow> names_nodes L r ns (map (map_option (sign_one k f)) ss)"
  by (fastforce simp: names_nodes_def)

section \<open>Signing on demand\<close>

lemma sign_all_body [simp]: "bodyBytes (sign_all ks fs s) = bodyBytes s"
  by (induction ks fs s rule: sign_all.induct) simp_all

lemma pairs_sign_one: "pairs (sign_one k f s) = pairs s @ [toProtobufSignature k (f (bodyBytes s))]"
  by (simp add: pairs_def[of "sign_one k f s"])

lemma sign_all_pairs:
  "length ks = length fs \<Longrightarrow> None \<notin> set fs \<Longrightarrow>
   pairs (sign_all ks fs s) = pairs s @ map (\<lambda>(k, f). toProtobufSignature k ((the f) (bodyBytes s))) (zip ks fs)"
  by (induction ks fs s rule: sign_all.induct) (auto simp: pairs_sign_one)

lemma sign_all_pairs_Some: "sigPairs s \<noteq> None \<Longrightarrow> sigPairs (sign_all ks fs s) \<noteq> None"
  by (induction ks fs s rule: sign_all.induct) simp_all

text \<open>With signing on demand, each attempt builds a fresh transaction for the current node and ID,
signed by every key with a signing function, in the order they were given. It takes the node from
the list itself, so together with the executor's own step an attempt moves two places on: every
other node is skipped.\<close>

theorem on_demand_request:
  assumes "proto_ok L" and "signOnDemand t" and "ready l"
    and "length (publicKeys t) = length (transactionSigners t)" and "None \<notin> set (transactionSigners t)"
  shows "\<exists>s t'. makeRequest (tx_ops L gen) l t = Inr (Some (SignedBytes (encSigned L s)), list_advance l, t') \<and>
    decSigned L (encSigned L s) = Inr s \<and>
    decBody L (bodyBytes s) = Inr (frozen_body t (list_current l)) \<and>
    pairs s = map (\<lambda>(k, f). toProtobufSignature k ((the f) (bodyBytes s))) (zip (publicKeys t) (transactionSigners t)) \<and>
    the (cursor (list_advance (list_advance l))) = (the (cursor l) + 2) mod length (items l)"
proof -
  let ?t = "t\<lparr>nodeAccountIds := l\<rparr>"
  let ?t1 = "?t\<lparr>nodeAccountIds := list_advance l\<rparr>"
  let ?s = "sign_all (publicKeys t) (transactionSigners t) (makeSignedTransaction L (list_current l) ?t1)"
  have nx: "list_next l = (list_current l, list_advance l)"
    by (simp add: list_next_def list_current_def)
  have "makeRequest (tx_ops L gen) l t = Inr (Some (SignedBytes (encSigned L ?s)), list_advance l, ?t1)"
    using assms(2) nx by (simp add: tx_ops_def makeRequestAsync_def buildTransactionAsync_def signTransaction_def Let_def)
  moreover have "decSigned L (encSigned L ?s) = Inr ?s"
    using assms(1) sign_all_pairs_Some[of "makeSignedTransaction L (list_current l) ?t1"]
    by (simp add: proto_ok_def makeSignedTransaction_def)
  moreover have "decBody L (bodyBytes ?s) = Inr (frozen_body t (list_current l))"
    using assms(1) by (simp add: proto_ok_def makeSignedTransaction_def makeTransactionBody_def frozen_body_def)
  moreover have "pairs ?s = map (\<lambda>(k, f). toProtobufSignature k ((the f) (bodyBytes ?s)))
      (zip (publicKeys t) (transactionSigners t))"
    using sign_all_pairs[OF assms(4,5)] by (simp add: makeSignedTransaction_def pairs_def)
  moreover have "the (cursor (list_advance (list_advance l))) = (the (cursor l) + 2) mod length (items l)"
    using rr.steps_pos[OF assms(3), of 2] by (simp add: numeral_2_eq_2)
  ultimately show ?thesis by blast
qed

text \<open>
  An expired transaction gets a new ID only if its IDs are unlocked; signing locks them, so after
  the operator has signed, the only call that could renew the ID never does.
\<close>

lemma no_regeneration_after_signing:
  assumes "signWith k f t = Inr t'" "\<not> signOnDemand t" "key_hex k \<notin> set (signerPublicKeys t)"
  shows "tx_shouldRetry gen (Some 4) t' = Inr (4, ExecError, t')"
proof -
  have "locked (transactionIds t')"
    using assms by (auto simp: signWith_def Let_def setLocked_def elim!: res_bind_InrE split: if_splits)
  moreover have "status_fromCode 4 = Inr 4" by (simp add: status_fromCode_eq status_cases_defs)
  ultimately show ?thesis by (simp add: tx_shouldRetry_def retry_codes_def)
qed

end
