(* ===== verification/SampleCodec.thy ===== *)
theory SampleCodec
  imports Transaction
begin

text \<open>
  A concrete codec with the round-trip laws that are assumed of the protobuf library
  (\<open>proto_ok\<close>): messages are flattened to lists of numbers with explicit lengths, and a list of
  numbers is written in unary. It stands in for the library where a theorem about an arbitrary
  codec is applied to a concrete one; accounts and transaction IDs are numbers there, and the data
  of a transaction is a list of numbers.
\<close>

section \<open>Numbers\<close>

definition unary :: "nat list \<Rightarrow> byte list" where
  "unary ns = concat (map (\<lambda>n. replicate n 1 @ [0]) ns)"

fun from_unary :: "nat \<Rightarrow> byte list \<Rightarrow> nat list" where
  "from_unary k [] = []"
| "from_unary k (b # bs) = (if b = 0 then k # from_unary 0 bs else from_unary (Suc k) bs)"

lemma from_unary_replicate: "from_unary k (replicate n 1 @ 0 # bs) = (k + n) # from_unary 0 bs"
  by (induction n arbitrary: k) simp_all

lemma from_unary_unary [simp]: "from_unary 0 (unary ns) = ns"
  by (induction ns) (simp_all add: unary_def from_unary_replicate)

definition put_list :: "nat list \<Rightarrow> nat list" where
  "put_list xs = length xs # xs"

definition get_list :: "nat list \<Rightarrow> nat list \<times> nat list" where
  "get_list xs = (take (hd xs) (tl xs), drop (hd xs) (tl xs))"

lemma get_put_list [simp]: "get_list (put_list xs @ r) = (xs, r)"
  by (simp add: get_list_def put_list_def)

definition nats :: "byte list \<Rightarrow> nat list" where
  "nats bs = map unat bs"

definition bytes :: "nat list \<Rightarrow> byte list" where
  "bytes ns = map of_nat ns"

lemma bytes_nats [simp]: "bytes (nats bs) = bs"
  by (simp add: bytes_def nats_def comp_def)

definition put_opt :: "nat option \<Rightarrow> nat" where
  "put_opt x = (case x of None \<Rightarrow> 0 | Some n \<Rightarrow> Suc n)"

definition get_opt :: "nat \<Rightarrow> nat option" where
  "get_opt n = (if n = 0 then None else Some (n - 1))"

lemma get_put_opt [simp]: "get_opt (put_opt x) = x"
  by (cases x) (simp_all add: get_opt_def put_opt_def)

definition put_int :: "int \<Rightarrow> nat" where
  "put_int i = (if 0 \<le> i then 2 * nat i else 2 * nat (- i) + 1)"

definition get_int :: "nat \<Rightarrow> int" where
  "get_int n = (if even n then int (n div 2) else - int (n div 2))"

lemma get_put_int [simp]: "get_int (put_int i) = i"
  by (simp add: get_int_def put_int_def)

section \<open>Messages\<close>

definition put_body :: "(nat, nat, nat list) tx_body \<Rightarrow> nat list" where
  "put_body b =
     [put_opt (b_tid b), put_opt (b_node b), put_opt (map_option put_int (b_fee b)),
      put_opt (map_option put_int (b_duration b))] @ put_list (b_data b) @ map of_char (b_memo b)"

definition get_body :: "nat list \<Rightarrow> (nat, nat, nat list) tx_body" where
  "get_body ns =
     (let (d, m) = get_list (drop 4 ns)
      in \<lparr>b_data = d, b_fee = map_option get_int (get_opt (ns ! 2)), b_memo = map char_of m,
          b_tid = get_opt (ns ! 0), b_node = get_opt (ns ! 1),
          b_duration = map_option get_int (get_opt (ns ! 3))\<rparr>)"

lemma get_put_body [simp]: "get_body (put_body b) = b"
  by (simp add: get_body_def put_body_def option.map_comp comp_def option.map_ident
      numeral_2_eq_2 numeral_3_eq_3)

definition put_bytes_opt :: "byte list option \<Rightarrow> nat list" where
  "put_bytes_opt x = (case x of None \<Rightarrow> [0] | Some bs \<Rightarrow> 1 # put_list (nats bs))"

definition get_bytes_opt :: "nat list \<Rightarrow> byte list option \<times> nat list" where
  "get_bytes_opt ns =
     (if hd ns = 0 then (None, tl ns)
      else let (x, r) = get_list (tl ns) in (Some (bytes x), r))"

lemma get_put_bytes_opt [simp]: "get_bytes_opt (put_bytes_opt x @ r) = (x, r)"
  by (cases x) (simp_all add: get_bytes_opt_def put_bytes_opt_def)

definition put_pair :: "sig_pair \<Rightarrow> nat list" where
  "put_pair p = put_list (nats (pubKeyPrefix p)) @ put_bytes_opt (ed25519 p) @ put_bytes_opt (ecdsaSecp256k1 p)"

definition get_pair :: "nat list \<Rightarrow> sig_pair \<times> nat list" where
  "get_pair ns =
     (let (x, r) = get_list ns; (e, r1) = get_bytes_opt r; (c, r2) = get_bytes_opt r1
      in (\<lparr>pubKeyPrefix = bytes x, ed25519 = e, ecdsaSecp256k1 = c\<rparr>, r2))"

lemma get_put_pair [simp]: "get_pair (put_pair p @ r) = (p, r)"
  by (simp add: get_pair_def put_pair_def)

fun get_many :: "(nat list \<Rightarrow> 'a \<times> nat list) \<Rightarrow> nat \<Rightarrow> nat list \<Rightarrow> 'a list \<times> nat list" where
  "get_many g 0 ns = ([], ns)"
| "get_many g (Suc k) ns = (let (x, r) = g ns; (xs, r') = get_many g k r in (x # xs, r'))"

lemma get_many_put:
  "(\<And>x r. g (p x @ r) = (x, r)) \<Longrightarrow> get_many g (length xs) (concat (map p xs) @ r) = (xs, r)"
  by (induction xs) simp_all

definition put_signed :: "signed_tx \<Rightarrow> nat list" where
  "put_signed s =
     (let ps = (case sigPairs s of None \<Rightarrow> [] | Some ps \<Rightarrow> ps)
      in length ps # concat (map put_pair ps) @ nats (bodyBytes s))"

definition get_signed :: "nat list \<Rightarrow> signed_tx" where
  "get_signed ns =
     (let (ps, r) = get_many get_pair (hd ns) (tl ns) in \<lparr>sigPairs = Some ps, bodyBytes = bytes r\<rparr>)"

lemma get_put_signed: "sigPairs s \<noteq> None \<Longrightarrow> get_signed (put_signed s) = s"
  by (cases s) (auto simp: get_signed_def put_signed_def get_many_put)

definition put_tx :: "proto_tx \<Rightarrow> nat list" where
  "put_tx p =
     (case p of
        SignedBytes bs \<Rightarrow> 0 # put_list (nats bs)
      | Incomplete s \<Rightarrow> (if sigPairs s = None then 2 else 1) # put_list (put_signed s))"

definition get_tx :: "nat list \<Rightarrow> proto_tx \<times> nat list" where
  "get_tx ns =
     (let (x, r) = get_list (tl ns)
      in (if hd ns = 0 then SignedBytes (bytes x)
          else if hd ns = 1 then Incomplete (get_signed x)
          else Incomplete ((get_signed x)\<lparr>sigPairs := None\<rparr>), r))"

lemma get_put_tx: "get_tx (put_tx p @ r) = (p, r)"
proof (cases p)
  case (SignedBytes bs)
  then show ?thesis by (simp add: get_tx_def put_tx_def)
next
  case (Incomplete s)
  show ?thesis
  proof (cases "sigPairs s")
    case None
    then have "(get_signed (put_signed s))\<lparr>sigPairs := None\<rparr> = s"
      by (cases s) (simp add: get_signed_def put_signed_def)
    with None Incomplete show ?thesis by (simp add: get_tx_def put_tx_def)
  next
    case (Some ps)
    then show ?thesis using Incomplete get_put_signed[of s] by (simp add: get_tx_def put_tx_def)
  qed
qed

definition sample_lib :: "(nat, nat, nat list) proto_lib" where
  "sample_lib =
     \<lparr>encBody = (\<lambda>b. unary (put_body b)), decBody = (\<lambda>bs. Inr (get_body (from_unary 0 bs))),
      encSigned = (\<lambda>s. unary (put_signed s)), decSigned = (\<lambda>bs. Inr (get_signed (from_unary 0 bs))),
      encList = (\<lambda>ts. unary (length ts # concat (map (\<lambda>t. case t of None \<Rightarrow> [] | Some p \<Rightarrow> put_tx p) ts))),
      decList = (\<lambda>bs. let ns = from_unary 0 bs in Inr (fst (get_many get_tx (hd ns) (tl ns)))),
      decTransaction = (\<lambda>bs. Inr (fst (get_tx (from_unary 0 bs)))),
      sha384 = (\<lambda>bs. take 48 bs)\<rparr>"

lemma sample_lib_ok: "proto_ok sample_lib"
proof -
  have "fst (get_many get_tx (length ts) (concat (map put_tx ts))) = ts" for ts
    using get_many_put[of get_tx put_tx ts "[]"] get_put_tx by simp
  then show ?thesis
    by (simp add: proto_ok_def sample_lib_def get_put_signed comp_def)
qed

end
