(* ===== verification/TxRoundTrip.thy ===== *)
theory TxRoundTrip
  imports TxLaws SampleCodec
begin

text \<open>
  Serialising a frozen transaction and reading it back (\<open>toBytes\<close> and \<open>fromBytes\<close> of
  \<open>src/transaction/Transaction.js\<close>), and the instances of the laws of a transaction at concrete
  inputs.
\<close>

section \<open>Gathering what was serialised\<close>

text \<open>A table of signed transactions: a row per transaction ID, a column per node.\<close>

definition table_body ::
    "('acc, 'tid, 'data) tx_body \<Rightarrow> ('tid \<times> 'acc) \<Rightarrow> ('acc, 'tid, 'data) tx_body" where
  "table_body b x = b\<lparr>b_tid := Some (fst x), b_node := Some (snd x)\<rparr>"

definition cells :: "'tid list \<Rightarrow> 'acc list \<Rightarrow> ('tid \<times> 'acc) list" where
  "cells tids ns = concat (map (\<lambda>i. map (\<lambda>n. (i, n)) ns) tids)"

definition is_table ::
    "('acc, 'tid, 'data) proto_lib \<Rightarrow> ('tid \<Rightarrow> ('acc, 'tid, 'data) tx_body) \<Rightarrow> 'tid list \<Rightarrow> 'acc list
     \<Rightarrow> signed_tx list \<Rightarrow> bool" where
  "is_table L row tids ns ss \<longleftrightarrow>
     map (\<lambda>s. decBody L (bodyBytes s)) ss = map (\<lambda>x. Inr (table_body (row (fst x)) x)) (cells tids ns) \<and>
     list_all (\<lambda>s. sigPairs s \<noteq> None \<and> encSigned L s \<noteq> []) ss"

lemma length_cells [simp]: "length (cells tids ns) = length tids * length ns"
  by (induction tids) (simp_all add: cells_def)

lemma is_table_length: "is_table L row tids ns ss \<Longrightarrow> length ss = length tids * length ns"
  unfolding is_table_def by (drule conjunct1, drule arg_cong[of _ _ length], simp)

lemma nth_cells:
  "i < length tids \<Longrightarrow> j < length ns \<Longrightarrow> cells tids ns ! (i * length ns + j) = (tids ! i, ns ! j)"
proof (induction tids arbitrary: i)
  case Nil
  then show ?case by simp
next
  case (Cons a tids)
  show ?case
  proof (cases i)
    case 0
    then show ?thesis using Cons.prems by (simp add: cells_def nth_append)
  next
    case (Suc k)
    have "cells (a # tids) ns ! (i * length ns + j) = cells tids ns ! (k * length ns + j)"
      using Suc by (simp add: cells_def nth_append)
    then show ?thesis using Cons Suc by simp
  qed
qed

lemma gather_signed:
  assumes "proto_ok L" "list_all (\<lambda>s. sigPairs s \<noteq> None \<and> encSigned L s \<noteq> []) ss"
    and "map (\<lambda>s. decBody L (bodyBytes s)) ss = map Inr bs"
  shows "gather L st sn (map (\<lambda>s. SignedBytes (encSigned L s)) ss) g =
    Inr (fold (gather_body st sn) bs (g\<lparr>g_signed := g_signed g @ ss\<rparr>))"
  using assms(2,3)
proof (induction ss arbitrary: bs g)
  case Nil
  then show ?case by simp
next
  case (Cons s ss)
  then obtain b bs' where bs: "bs = b # bs'" "decBody L (bodyBytes s) = Inr b"
    "map (\<lambda>s. decBody L (bodyBytes s)) ss = map Inr bs'" by (cases bs) auto
  have s: "encSigned L s \<noteq> []" "decSigned L (encSigned L s) = Inr s"
    using Cons.prems(1) assms(1) by (simp_all add: proto_ok_def)
  have comm: "(gather_body st sn b (g\<lparr>g_signed := g_signed g @ [s]\<rparr>))
      \<lparr>g_signed := g_signed (gather_body st sn b (g\<lparr>g_signed := g_signed g @ [s]\<rparr>)) @ ss\<rparr>
    = gather_body st sn b (g\<lparr>g_signed := g_signed g @ s # ss\<rparr>)"
    by (simp add: gather_body_def)
  show ?case
    using Cons.IH[OF _ bs(3), of "gather_body st sn b (g\<lparr>g_signed := g_signed g @ [s]\<rparr>)"] Cons.prems(1) s bs(2)
    by (simp add: bs(1) comm)
qed

lemma fold_gather_body:
  "fold (gather_body st sn) bs g =
     g\<lparr>g_tids := fold (\<lambda>b. add_new st (b_tid b)) bs (g_tids g),
       g_nodes := fold (\<lambda>b. add_new sn (b_node b)) bs (g_nodes g), g_bodies := g_bodies g @ bs\<rparr>"
  by (induction bs arbitrary: g) (simp_all add: gather_body_def)

lemma fold_add_seen: "set xs \<subseteq> set acc \<Longrightarrow> fold (\<lambda>x. add_new st (Some x)) xs acc = acc"
  by (induction xs) (auto simp: add_new_def)

lemma fold_add_fresh:
  "distinct (map st (acc @ xs)) \<Longrightarrow> fold (\<lambda>x. add_new st (Some x)) xs acc = acc @ xs"
proof (induction xs arbitrary: acc)
  case Nil
  then show ?case by simp
next
  case (Cons x xs)
  then have "st x \<notin> st ` set acc" by auto
  with Cons show ?case by (simp add: add_new_def)
qed

lemma fold_add_repeat:
  "n \<noteq> 0 \<Longrightarrow> st i \<notin> st ` set acc \<Longrightarrow> fold (\<lambda>x. add_new st (Some x)) (replicate n i) acc = acc @ [i]"
proof -
  assume "n \<noteq> 0" "st i \<notin> st ` set acc"
  then obtain m where "n = Suc m" by (cases n) auto
  with \<open>st i \<notin> st ` set acc\<close> show ?thesis
    using fold_add_seen[of "replicate m i" "acc @ [i]" st] by (simp add: add_new_def set_replicate_conv_if)
qed

lemma gather_tids:
  "ns \<noteq> [] \<Longrightarrow> distinct (map st (acc @ tids)) \<Longrightarrow>
   fold (\<lambda>x. add_new st (Some (fst x))) (cells tids ns) acc = acc @ tids"
proof (induction tids arbitrary: acc)
  case Nil
  then show ?case by (simp add: cells_def)
next
  case (Cons i tids)
  have "fold (\<lambda>x. add_new st (Some (fst x))) (map (\<lambda>n. (i, n)) ns) acc
      = fold (\<lambda>x. add_new st (Some x)) (replicate (length ns) i) acc"
    by (induction ns arbitrary: acc) simp_all
  also have "\<dots> = acc @ [i]" using Cons.prems by (intro fold_add_repeat) auto
  finally show ?case using Cons.IH[of "acc @ [i]"] Cons.prems by (simp add: cells_def)
qed

lemma gather_nodes:
  assumes "tids \<noteq> []" "distinct (map sn ns)"
  shows "fold (\<lambda>x. add_new sn (Some (snd x))) (cells tids ns) [] = ns"
proof -
  have row: "fold (\<lambda>x. add_new sn (Some (snd x))) (map (\<lambda>n. (i, n)) ns) acc
      = fold (\<lambda>x. add_new sn (Some x)) ns acc" for i :: 'a and acc
    by (simp add: fold_map comp_def)
  have seen: "fold (\<lambda>x. add_new sn (Some (snd x))) (cells is ns) ns = ns" for "is" :: "'a list"
    by (induction "is") (simp_all add: cells_def row fold_add_seen)
  obtain i is' where "tids = i # is'" using assms(1) by (cases tids) auto
  then show ?thesis
    using seen[of is'] fold_add_fresh[of sn "[]" ns] assms(2) by (simp add: cells_def row)
qed

lemma rows_agree_table:
  "rows_agree (length tids) (length ns) (map (\<lambda>x. table_body (row (fst x)) x) (cells tids ns))"
proof -
  let ?bs = "map (\<lambda>x. table_body (row (fst x)) x) (cells tids ns)"
  have cell: "i * length ns + j < length ?bs" "?bs ! (i * length ns + j) = table_body (row (tids ! i)) (tids ! i, ns ! j)"
    if "i < length tids" "j < length ns" for i j
  proof -
    have "i * length ns + j < Suc i * length ns" using that(2) by simp
    also have "\<dots> \<le> length tids * length ns" using that(1) by (intro mult_le_mono1) simp
    finally show "i * length ns + j < length ?bs" by simp
    then show "?bs ! (i * length ns + j) = table_body (row (tids ! i)) (tids ! i, ns ! j)"
      using nth_cells[OF that] by simp
  qed
  have "same_but_node (table_body (row (tids ! i)) (tids ! i, a)) (table_body (row (tids ! i)) (tids ! i, b))" for i a b
    by (simp add: same_but_node_def table_body_def)
  then show ?thesis
    using cell(2) cell[of _ "Suc _"] unfolding rows_agree_def list_all_iff by (auto simp: less_diff_conv)
qed

section \<open>The round trip\<close>

lemma add_signers_frame:
  "fold (add_signer pk) ps t = t
     \<lparr>signerPublicKeys := signerPublicKeys (fold (add_signer pk) ps t),
      publicKeys := publicKeys t @ map (\<lambda>p. pk (pubKeyPrefix p)) ps,
      transactionSigners := transactionSigners t @ map (\<lambda>_. None) ps\<rparr>"
proof (induction ps arbitrary: t)
  case Nil
  then show ?case by simp
next
  case (Cons p ps)
  show ?case by (subst fold_simps, subst Cons.IH) (simp add: add_signer_def)
qed

lemma add_signers_keys:
  "set (signerPublicKeys (fold (add_signer pk) ps t))
     = set (signerPublicKeys t) \<union> (\<lambda>p. hex_encode (pubKeyPrefix p)) ` set ps"
  by (induction ps arbitrary: t) (auto simp: add_signer_def)

text \<open>What a client may serialise: a table of its nodes and IDs, none of them the zero account.\<close>

definition serialisable ::
    "('acc, 'tid, 'data) proto_lib \<Rightarrow> ('tid \<Rightarrow> string) \<Rightarrow> ('acc \<Rightarrow> string) \<Rightarrow> ('acc \<Rightarrow> bool)
     \<Rightarrow> ('tid \<Rightarrow> ('acc, 'tid, 'data) tx_body) \<Rightarrow> 'tid list \<Rightarrow> 'acc list \<Rightarrow> signed_tx list
     \<Rightarrow> ('acc, 'tid, 'data) tx \<Rightarrow> bool" where
  "serialisable L st sn is_zero row tids ns ss t \<longleftrightarrow>
     \<not> signOnDemand t \<and> items (signedTransactions t) = map Some ss \<and> is_table L row tids ns ss \<and>
     tids \<noteq> [] \<and> ns \<noteq> [] \<and> distinct (map st tids) \<and> distinct (map sn ns) \<and>
     list_all (\<lambda>n. \<not> is_zero n) ns \<and> length (items (transactions t)) \<le> length ss"

lemma toBytes_eq:
  assumes "\<not> signOnDemand t" "items (signedTransactions t) = map Some ss" "ss \<noteq> []"
    and "length (items (transactions t)) \<le> length ss"
  shows "\<exists>t1. toBytes L t = Inr (encList L (map (built L) ss), t1)"
proof -
  have "isFrozen t" using assms(2,3) by (simp add: isFrozen_def list_length_def)
  moreover have "buildAllTransactions L (lock_ids t)
      = Inr ((lock_ids t)\<lparr>transactions := (transactions (lock_ids t))\<lparr>items := map (built L) ss\<rparr>\<rparr>)"
    using assms(2,4) by (intro buildAllTransactions_ok) (simp_all add: lock_ids_def)
  ultimately show ?thesis using assms(1) by (simp add: toBytes_def requireNotSignOnDemand_def)
qed

lemma fromBytes_table:
  assumes "proto_ok L" "is_table L row tids ns ss" "tids \<noteq> []" "ns \<noteq> []"
    and "distinct (map st tids)" "distinct (map sn ns)" "list_all (\<lambda>n. \<not> is_zero n) ns"
  shows "\<exists>t. fromBytes L st sn pk is_zero (encList L (map (built L) ss)) = Inr t \<and>
    signOnDemand t = False \<and> items (signedTransactions t) = map Some ss \<and>
    items (transactions t) = map (built L) ss \<and>
    items (transactionIds t) = map Some tids \<and> items (nodeAccountIds t) = map Some ns \<and>
    memo t = b_memo (row (hd tids)) \<and> tx_data t = b_data (row (hd tids)) \<and>
    maxFee t = (case b_fee (row (hd tids)) of Some f \<Rightarrow> if 0 < f then Some f else None | None \<Rightarrow> None) \<and>
    validDuration t = (case b_duration (row (hd tids)) of None \<Rightarrow> 120 | Some d \<Rightarrow> d) \<and>
    set (signerPublicKeys t) = (\<lambda>p. hex_encode (pubKeyPrefix p)) ` set (concat (map pairs (take (length ns) ss)))"
proof -
  let ?bs = "map (\<lambda>x. table_body (row (fst x)) x) (cells tids ns)"
  let ?txs = "map (\<lambda>s. SignedBytes (encSigned L s)) ss"
  note len = is_table_length[OF assms(2)]
  have ne: "ss \<noteq> []" using len assms(3,4) by auto
  have le: "length ns \<le> length ss" using len assms(3) by (cases tids) auto
  have dec: "decList L (encList L (map (built L) ss)) = Inr ?txs"
  proof -
    have "map (built L) ss = map Some ?txs" by (simp add: built_def)
    then show ?thesis using assms(1) by (simp only: proto_ok_def)
  qed
  let ?g = "\<lparr>g_signed = ss, g_tids = tids, g_nodes = ns, g_bodies = ?bs\<rparr>"
  have gather: "gather L st sn ?txs \<lparr>g_signed = [], g_tids = [], g_nodes = [], g_bodies = []\<rparr> = Inr ?g"
  proof -
    have t: "fold (\<lambda>b. add_new st (b_tid b)) ?bs [] = tids"
      using gather_tids[OF assms(4), of st "[]" tids] assms(5) by (simp add: fold_map comp_def table_body_def)
    have n: "fold (\<lambda>b. add_new sn (b_node b)) ?bs [] = ns"
      using gather_nodes[OF assms(3,6)] by (simp add: fold_map comp_def table_body_def)
    have "gather L st sn ?txs \<lparr>g_signed = [], g_tids = [], g_nodes = [], g_bodies = []\<rparr>
        = Inr (fold (gather_body st sn) ?bs \<lparr>g_signed = ss, g_tids = [], g_nodes = [], g_bodies = []\<rparr>)"
      using gather_signed[OF assms(1), of ss ?bs st sn "\<lparr>g_signed = [], g_tids = [], g_nodes = [], g_bodies = []\<rparr>"]
        assms(2) by (simp add: is_table_def comp_def)
    then show ?thesis by (simp only: fold_gather_body) (simp add: t n)
  qed
  have hd: "hd ?bs = table_body (row (hd tids)) (hd tids, hd ns)" "?bs \<noteq> []"
    using assms(3,4) by (cases tids; cases ns; simp add: cells_def)+
  have prs: "concat (map (pairs_of ss ?txs) [0..<length ns]) = concat (map pairs (take (length ns) ss))"
  proof -
    have "map (pairs_of ss ?txs) [0..<length ns] = map pairs (take (length ns) ss)"
      using le by (intro nth_equalityI) (auto simp: pairs_of_def pairs_def)
    then show ?thesis by simp
  qed
  have nz: "filter (\<lambda>n. \<not> is_zero n) ns = ns" using assms(7) by (simp add: list_all_iff)
  define t0 where "t0 = (new_tx (b_data (row (hd tids))))
    \<lparr>transactions := new_list\<lparr>items := map Some ?txs\<rparr>, signedTransactions := new_list\<lparr>items := map Some ss\<rparr>,
     transactionIds := new_list\<lparr>items := map Some tids\<rparr>, nodeAccountIds := new_list\<lparr>items := map Some ns\<rparr>,
     validDuration := (case b_duration (row (hd tids)) of None \<Rightarrow> 120 | Some d \<Rightarrow> d),
     maxFee := (case b_fee (row (hd tids)) of Some f \<Rightarrow> if 0 < f then Some f else None | None \<Rightarrow> None),
     memo := b_memo (row (hd tids)), tx_data := b_data (row (hd tids))\<rparr>"
  define t where "t = fold (add_signer pk) (concat (map pairs (take (length ns) ss))) t0"
  have "fromBytes L st sn pk is_zero (encList L (map (built L) ss)) = Inr t"
    using ne hd rows_agree_table[of tids ns row] prs nz
    by (simp add: fromBytes_def dec gather fromProtobufTransactions_def Let_def setList_def new_tx_def
        new_list_def table_body_def t_def t0_def)
  moreover have "signOnDemand t = False" "signedTransactions t = signedTransactions t0"
    "transactions t = transactions t0" "transactionIds t = transactionIds t0"
    "nodeAccountIds t = nodeAccountIds t0" "memo t = memo t0" "tx_data t = tx_data t0"
    "maxFee t = maxFee t0" "validDuration t = validDuration t0"
    unfolding t_def by (subst add_signers_frame, simp add: t0_def new_tx_def)+
  moreover have "set (signerPublicKeys t)
      = (\<lambda>p. hex_encode (pubKeyPrefix p)) ` set (concat (map pairs (take (length ns) ss)))"
    unfolding t_def by (simp only: add_signers_keys) (simp add: t0_def new_tx_def)
  ultimately show ?thesis
    by (intro exI[of _ t]) (simp add: built_def t0_def comp_def)
qed


section \<open>Instances\<close>

text \<open>A transaction with ID 7 for the nodes 3 and 4, before and after freezing.\<close>

definition sample_tx :: "(nat, nat, nat list) tx" where
  "sample_tx = (new_tx [1, 2])
     \<lparr>transactionIds := \<lparr>items = [Some 7], locked = True, cursor = Some 0\<rparr>,
      nodeAccountIds := \<lparr>items = [Some 3, Some 4], locked = True, cursor = Some 0\<rparr>\<rparr>"

definition sample_fee :: "(nat, nat, nat list) tx" where
  "sample_fee = sample_tx\<lparr>maxFee := Some 200000000\<rparr>"

definition sample_signed :: "signed_tx list" where
  "sample_signed = [makeSignedTransaction sample_lib (Some 3) sample_fee,
                    makeSignedTransaction sample_lib (Some 4) sample_fee]"

definition sample_frozen :: "(nat, nat, nat list) tx" where
  "sample_frozen = sample_fee\<lparr>signedTransactions := \<lparr>items = map Some sample_signed, locked = False, cursor = Some 0\<rparr>\<rparr>"

definition sample_key :: public_key where
  "sample_key = \<lparr>key_type = Ed25519, raw_key = [1, 2]\<rparr>"

lemma sample_freeze: "freezeWith sample_lib (\<lambda>_. 9) None sample_tx = Inr sample_frozen"
proof -
  have "freeze_settings None sample_tx = sample_fee"
    by (simp add: freeze_settings_def sample_fee_def sample_tx_def new_tx_def)
  moreover have "setNodeAccountIds_client None sample_fee = Inr sample_fee" "setTransactionId_check sample_fee = Inr ()"
    "buildNewTransactionIdList (\<lambda>_. 9) sample_fee = sample_fee" "\<not> signOnDemand sample_fee"
    by (simp_all add: setNodeAccountIds_client_def setTransactionId_check_def buildNewTransactionIdList_def
        sample_fee_def sample_tx_def new_tx_def list_isEmpty_def list_length_def)
  moreover have "buildSignedTransactions sample_lib sample_fee = Inr sample_frozen"
    by (simp add: buildSignedTransactions_def setList_def sample_frozen_def sample_signed_def)
      (simp add: sample_fee_def sample_tx_def new_tx_def new_list_def)
  ultimately show ?thesis by (simp add: freezeWith_def)
qed

lemma sample_frozen_simps [simp]:
  "signOnDemand sample_frozen = False" "signOnDemand sample_fee = False"
  "items (signedTransactions sample_frozen) = map Some sample_signed"
  "transactionIds sample_frozen = \<lparr>items = [Some 7], locked = True, cursor = Some 0\<rparr>"
  "nodeAccountIds sample_frozen = \<lparr>items = [Some 3, Some 4], locked = True, cursor = Some 0\<rparr>"
  "transactions sample_frozen = new_list" "signerPublicKeys sample_frozen = []" "publicKeys sample_frozen = []"
  "transactionSigners sample_frozen = []"
  by (simp_all add: sample_frozen_def sample_fee_def sample_tx_def new_tx_def)

lemma sample_isFrozen: "isFrozen sample_frozen"
  by (simp add: isFrozen_def list_length_def sample_signed_def)

theorem freeze_prepares_every_node_witness:
  "map (map_option (\<lambda>s. (sigPairs s, decBody sample_lib (bodyBytes s)))) (items (signedTransactions sample_frozen))
   = [Some (Some [], Inr (frozen_body sample_frozen (Some 3))), Some (Some [], Inr (frozen_body sample_frozen (Some 4)))]"
proof -
  have "\<not> locked (signedTransactions sample_tx)" by (simp add: sample_tx_def new_tx_def new_list_def)
  from freeze_prepares_every_node[OF sample_freeze _ this sample_lib_ok] show ?thesis by simp
qed

theorem sign_covers_every_body_witness:
  "\<exists>t'. signWith sample_key (\<lambda>_. [170]) sample_frozen = Inr t' \<and> items (transactions t') = [] \<and>
     length (items (signedTransactions t')) = 2"
proof -
  have "key_hex sample_key \<notin> set (signerPublicKeys sample_frozen)" "None \<notin> set (items (signedTransactions sample_frozen))"
    by auto
  from sign_covers_every_body[OF _ this(2,1), of "\<lambda>_. [170]"] sample_isFrozen
  obtain t' where t': "signWith sample_key (\<lambda>_. [170]) sample_frozen = Inr t'" "items (transactions t') = []"
    "map (map_option (\<lambda>s. (bodyBytes s, pairs s))) (items (signedTransactions t')) =
        map (map_option (\<lambda>s. (bodyBytes s, pairs s @ [toProtobufSignature sample_key [170]])))
          (items (signedTransactions sample_frozen))" by auto
  from arg_cong[OF t'(3), of length] t'(1,2) show ?thesis by (simp add: sample_signed_def)
qed

theorem remove_undoes_sign_witness:
  "\<exists>t' t''. signWith sample_key (\<lambda>_. [170]) sample_frozen = Inr t' \<and>
     removeSignature sample_lib (\<lambda>_. 9) sample_key t' = Inr ([[170], [170]], t'') \<and>
     signedTransactions t'' = signedTransactions sample_frozen"
proof -
  have s: "list_all (\<lambda>s. sigPairs s = Some []) sample_signed"
    by (simp add: sample_signed_def makeSignedTransaction_def)
  obtain t' where t': "signWith sample_key (\<lambda>_. [170]) sample_frozen = Inr t'"
    using signWith_frozen[of sample_frozen sample_key] sample_isFrozen by auto
  have "\<forall>s \<in> set (List.map_filter (\<lambda>x. x) (items (signedTransactions sample_frozen))).
      sigPairs s \<noteq> None \<and> (\<forall>p \<in> set (pairs s). pubKeyPrefix p \<noteq> raw_key sample_key)"
    using s by (auto simp: list_all_iff pairs_def)
  from remove_undoes_sign[OF _ sample_isFrozen _ _ _ this t', of sample_lib "\<lambda>_. 9"] t'
  show ?thesis by (auto simp: sample_signed_def)
qed

theorem request_is_current_witness:
  "\<exists>l. makeRequestAsync sample_lib sample_frozen =
     Inr (Some (SignedBytes (encSigned sample_lib (hd sample_signed))), sample_frozen\<lparr>transactions := l\<rparr>)"
proof -
  have "\<exists>l. makeRequestAsync sample_lib sample_frozen =
     Inr (Some (SignedBytes (encSigned sample_lib (hd sample_signed))), sample_frozen\<lparr>transactions := l\<rparr>) \<and> \<not> locked l"
    by (rule request_is_current[where r = 0 and c = 0])
      (simp_all add: sample_signed_def new_list_def)
  then show ?thesis by blast
qed

lemma sample_dec: "decBody sample_lib (bodyBytes (makeSignedTransaction sample_lib n t)) = Inr (frozen_body t n)"
  using sample_lib_ok by (simp add: proto_ok_def makeSignedTransaction_def makeTransactionBody_def frozen_body_def)

lemma sample_pairs: "sigPairs (makeSignedTransaction sample_lib n t) = Some []"
  by (simp add: makeSignedTransaction_def)

lemma sample_request:
  "frozen_request sample_lib 0 [Some 3, Some 4] (map Some sample_signed) (nodeAccountIds sample_frozen) sample_frozen"
proof -
  have "names_nodes sample_lib 0 [Some 3, Some 4] (map Some sample_signed)"
    by (auto simp: names_nodes_def sample_signed_def less_Suc_eq sample_dec frozen_body_def sample_pairs
        numeral_2_eq_2)
  then show ?thesis
    by (simp add: frozen_request_def ready_def cursor_ok_def new_list_def)
qed

definition sample_tx_exec :: "(nat, string, (nat, nat, nat list) tx, proto_tx option) exec" where
  "sample_tx_exec = (new_exec (new_network (\<lambda>_. new_node \<lparr>host = ''a'', port = Some 1\<rparr> 3 0 0) 0) sample_frozen)
     \<lparr>x_nodes := nodeAccountIds sample_frozen\<rparr>"

definition sample_tx_client :: "(nat, string) client" where
  "sample_tx_client = \<lparr>key_of = show_nat, openChannel = (\<lambda>a _. a), client_maxAttempts = Some 3,
     client_minBackoff = 250, client_maxBackoff = 8000, client_requestTimeout = Some 120000\<rparr>"

definition sample_tx_env :: "nat \<Rightarrow> nat option attempt_env" where
  "sample_tx_env i = \<lparr>clk_start = 0, clk_health = 0, clk_done = 0, rand = (\<lambda>_. 0), latency = 5,
     answer = Inr (Some 0)\<rparr>"


theorem on_demand_request_witness:
  "\<exists>s l' t'. makeRequest (tx_ops sample_lib (\<lambda>_. 9)) (nodeAccountIds sample_frozen)
       (sample_fee\<lparr>signOnDemand := True, publicKeys := [sample_key], transactionSigners := [Some (\<lambda>_. [170])]\<rparr>)
     = Inr (Some (SignedBytes (encSigned sample_lib s)), l', t') \<and>
     pairs s = [toProtobufSignature sample_key [170]]"
proof -
  let ?t = "sample_fee\<lparr>signOnDemand := True, publicKeys := [sample_key], transactionSigners := [Some (\<lambda>_. [170])]\<rparr>"
  have "ready (nodeAccountIds sample_frozen)" by (simp add: ready_def cursor_ok_def)
  from on_demand_request[OF sample_lib_ok _ this, of ?t "\<lambda>_. 9"] show ?thesis by auto
qed

lemma sample_serialisable:
  "serialisable sample_lib show_nat show_nat (\<lambda>n. n = 0) (\<lambda>_. frozen_body sample_frozen None) [7] [3, 4] sample_signed sample_frozen"
proof -
  have "encSigned sample_lib s \<noteq> []" for s by (simp add: sample_lib_def put_signed_def unary_def Let_def)
  moreover have "frozen_body sample_fee n = table_body (frozen_body sample_frozen None) (7, the n)" if "n \<noteq> None" for n
    using that by (auto simp: frozen_body_def table_body_def sample_frozen_def sample_fee_def sample_tx_def
        list_current_def list_get_def array_get_def)
  ultimately show ?thesis
    by (simp add: serialisable_def is_table_def sample_signed_def sample_dec cells_def new_list_def show_nat.simps
        sample_pairs)
qed


end
