(* ===== verification/TxLife.thy ===== *)
theory TxLife
  imports TxRoundTrip
begin

text \<open>
  The life of a transaction of \<open>src/transaction/Transaction.js\<close> whose signatures are not made on demand:
  setters, freezing, signing, adding and removing signatures, building requests and serialising, in any
  order, as a step relation. In every state that can be reached each signed transaction carries one
  signature for each recorded signer, in order. Freezing again after signing, which the relation leaves
  out, breaks this: \<open>refreeze_loses_signatures\<close>.
\<close>

section \<open>Steps\<close>

text \<open>What a setter may do: it refuses a frozen transaction and leaves signatures and signers alone.\<close>

definition setter :: "(('acc, 'tid, 'data) tx \<Rightarrow> ('acc, 'tid, 'data) tx result) \<Rightarrow> bool" where
  "setter f \<longleftrightarrow>
     (\<forall>t t'. f t = Inr t' \<longrightarrow>
        \<not> isFrozen t \<and> signedTransactions t' = signedTransactions t \<and> signOnDemand t' = signOnDemand t \<and>
        signerPublicKeys t' = signerPublicKeys t)"

lemma setters:
  "setter (tx_setNodeAccountIds ids)" "setter (setTransactionValidDuration d)" "setter (setMaxTransactionFee fee)"
  "setter (setRegenerateTransactionId b)" "setter (setTransactionMemo m)" "setter (setTransactionId i)"
  "setter (set_data x)"
  by (auto simp: setter_def tx_setNodeAccountIds_def setTransactionValidDuration_def setMaxTransactionFee_def
      setRegenerateTransactionId_def setTransactionMemo_def setTransactionId_def set_data_def requireNotFrozen_def
      elim!: res_bind_InrE split: if_splits)

definition client_demand :: "('acc, 'tid) freeze_client option \<Rightarrow> bool" where
  "client_demand client = (case client of None \<Rightarrow> False | Some c \<Rightarrow> fc_signOnDemand c)"

inductive tx_step ::
    "('acc, 'tid, 'data) proto_lib \<Rightarrow> ('acc \<Rightarrow> 'tid) \<Rightarrow> ('acc, 'tid, 'data) tx \<Rightarrow> ('acc, 'tid, 'data) tx \<Rightarrow> bool"
  for L gen where
  set_field: "setter f \<Longrightarrow> f t = Inr t' \<Longrightarrow> tx_step L gen t t'"
| freeze: "signerPublicKeys t = [] \<or> locked (signedTransactions t) \<Longrightarrow> \<not> client_demand client \<Longrightarrow>
     freezeWith L gen client t = Inr t' \<Longrightarrow> tx_step L gen t t'"
| sign: "signWith k f t = Inr t' \<Longrightarrow> tx_step L gen t t'"
| add: "addSignature L gen k m t = Inr t' \<Longrightarrow> tx_step L gen t t'"
| remove: "removeSignature L gen k t = Inr (sigs, t') \<Longrightarrow> tx_step L gen t t'"
| remove_all: "removeAllSignatures L gen t = Inr (m, t') \<Longrightarrow> tx_step L gen t t'"
| build: "buildTransaction L i t = Inr t' \<Longrightarrow> tx_step L gen t t'"
| to_bytes: "toBytes L t = Inr (bs, t') \<Longrightarrow> tx_step L gen t t'"
| to_bytes_async: "toBytesAsync L t = Inr (bs, t') \<Longrightarrow> tx_step L gen t t'"

inductive tx_life ::
    "('acc, 'tid, 'data) proto_lib \<Rightarrow> ('acc \<Rightarrow> 'tid) \<Rightarrow> 'data \<Rightarrow> ('acc, 'tid, 'data) tx \<Rightarrow> bool"
  for L gen d where
  born: "tx_life L gen d (new_tx d)"
| lives: "tx_life L gen d t \<Longrightarrow> tx_step L gen t t' \<Longrightarrow> tx_life L gen d t'"

section \<open>The invariant\<close>

definition signer_hexes :: "signed_tx \<Rightarrow> string list" where
  "signer_hexes s = map (\<lambda>p. hex_encode (pubKeyPrefix p)) (pairs s)"

definition signed_by :: "string list \<Rightarrow> signed_tx option \<Rightarrow> bool" where
  "signed_by ks x \<longleftrightarrow> (\<exists>s. x = Some s \<and> sigPairs s \<noteq> None \<and> signer_hexes s = ks)"

definition life_ok :: "('acc, 'tid, 'data) tx \<Rightarrow> bool" where
  "life_ok t \<longleftrightarrow>
     \<not> signOnDemand t \<and> distinct (signerPublicKeys t) \<and>
     (signerPublicKeys t \<noteq> [] \<longrightarrow> items (signedTransactions t) \<noteq> [] \<or> locked (signedTransactions t)) \<and>
     list_all (signed_by (signerPublicKeys t)) (items (signedTransactions t))"

lemma signed_by_pushed:
  "signed_by ks x \<Longrightarrow> signed_by (ks @ [key_hex k]) (map_option (push_pair (toProtobufSignature k sg)) x)"
  by (auto simp: signed_by_def signer_hexes_def push_pair_def pairs_def key_hex_def)

lemma signed_by_signed: "signed_by ks x \<Longrightarrow> signed_by (ks @ [key_hex k]) (map_option (sign_one k f) x)"
  by (auto simp: signed_by_def signer_hexes_def sign_one_def push_pair_def pairs_def key_hex_def)

lemma signed_by_removed:
  "signed_by ks x \<Longrightarrow> signed_by (filter (\<lambda>h. h \<noteq> hex) ks) (map_option snd (map_option (removeSignaturesFromTransaction hex) x))"
  by (auto simp: signed_by_def signer_hexes_def removeSignaturesFromTransaction_def pairs_def shouldRemoveSignature_def
      filter_map comp_def)

lemma add_one_signs:
  "signed_by ks (Some s) \<Longrightarrow> add_one L k m s = Inr s' \<Longrightarrow> signed_by (ks @ [key_hex k]) (Some s')"
  using signed_by_pushed[of ks "Some s" k]
  by (auto simp: add_one_def elim!: res_bind_InrE split: option.splits)

lemma map_result_signs:
  "list_all (signed_by ks) xs \<Longrightarrow> map_result (add_one L k m) xs = Inr ys \<Longrightarrow>
     list_all (signed_by (ks @ [key_hex k])) ys \<and> length ys = length xs"
proof (induction xs arbitrary: ys)
  case (Cons x xs)
  then obtain s where x: "x = Some s" by (auto simp: signed_by_def)
  with Cons(3) obtain s' zs where "add_one L k m s = Inr s'" "map_result (add_one L k m) xs = Inr zs" "ys = Some s' # zs"
    by (auto elim!: res_bind_InrE)
  then show ?case using Cons(1,2) add_one_signs by (auto simp: x)
qed simp

section \<open>Steps keep the invariant\<close>

lemma setter_keeps: "setter f \<Longrightarrow> f t = Inr t' \<Longrightarrow> life_ok t \<Longrightarrow> life_ok t'"
  unfolding setter_def life_ok_def by metis

lemma freeze_keeps:
  assumes "signerPublicKeys t = [] \<or> locked (signedTransactions t)" and "\<not> client_demand client"
    and "freezeWith L gen client t = Inr t'" and "life_ok t"
  shows "life_ok t' \<and> signerPublicKeys t' = signerPublicKeys t"
proof -
  obtain t1 where t1: "setNodeAccountIds_client client (freeze_settings client t) = Inr t1"
    and t': "(if signOnDemand (buildNewTransactionIdList gen t1) then Inr (buildNewTransactionIdList gen t1)
      else buildSignedTransactions L (buildNewTransactionIdList gen t1)) = Inr t'"
    using freezeWith_cases[OF assms(3)] by blast
  note F = setNodeAccountIds_client_frame[OF t1]
  let ?t2 = "buildNewTransactionIdList gen t1"
  have d: "\<not> signOnDemand ?t2" using F(4) assms(2) by (simp add: freeze_settings_def client_demand_def)
  have same: "signedTransactions ?t2 = signedTransactions t" "signerPublicKeys ?t2 = signerPublicKeys t"
    using F(1,10) by (simp_all add: freeze_settings_def)
  show ?thesis
  proof (cases "locked (signedTransactions t)")
    case True
    then have "t' = ?t2" using t' d same by (simp add: buildSignedTransactions_def)
    then show ?thesis using assms(4) d same by (simp add: life_ok_def)
  next
    case False
    then have "t' = ?t2\<lparr>signedTransactions := (signedTransactions ?t2)
        \<lparr>items := map (\<lambda>n. Some (makeSignedTransaction L n ?t2)) (items (nodeAccountIds ?t2)), cursor := Some 0\<rparr>\<rparr>"
      using t' d same by (simp add: buildSignedTransactions_def setList_def)
    then show ?thesis
      using assms(1) False d same
      by (auto simp: life_ok_def list_all_iff signed_by_def signer_hexes_def pairs_def makeSignedTransaction_def)
  qed
qed

lemma freeze_if_needed_keeps:
  assumes "freeze_if_needed L gen t = Inr t'" and "life_ok t"
  shows "life_ok t' \<and> signerPublicKeys t' = signerPublicKeys t"
proof (cases "public_isFrozen t")
  case False
  then have "signerPublicKeys t = [] \<or> locked (signedTransactions t)"
    using assms(2) by (auto simp: life_ok_def public_isFrozen_def list_length_def)
  with False assms show ?thesis
    using freeze_keeps[of t None L gen t'] by (simp add: freeze_if_needed_def tx_freeze_def client_demand_def)
qed (use assms in \<open>simp add: freeze_if_needed_def\<close>)

lemma sign_keeps: "signWith k f t = Inr t' \<Longrightarrow> life_ok t \<Longrightarrow> life_ok t'"
  by (auto simp: signWith_def Let_def requireFrozen_def isFrozen_def list_length_def life_ok_def list_all_iff
      signed_by_signed split: if_splits)

lemma add_keeps: "addSignature L gen k m t = Inr t' \<Longrightarrow> life_ok t \<Longrightarrow> life_ok t'"
  by (auto simp: addSignature_def life_ok_def setLocked_def dest!: freeze_if_needed_keeps map_result_signs[rotated]
      elim!: res_bind_InrE split: if_splits)

lemma remove_keeps: "removeSignature L gen k t = Inr (sigs, t') \<Longrightarrow> life_ok t \<Longrightarrow> life_ok t'"
  by (auto simp: removeSignature_def life_ok_def Let_def list_all_iff signed_by_removed[simplified]
      dest!: freeze_if_needed_keeps elim!: res_bind_InrE split: if_splits)

definition clear_pairs :: "signed_tx \<Rightarrow> signed_tx" where
  "clear_pairs s = (if sigPairs s = None then s else s\<lparr>sigPairs := Some []\<rparr>)"

lemma signed_by_cleared: "signed_by ks x \<Longrightarrow> signed_by [] (map_option clear_pairs x)"
proof -
  assume "signed_by ks x"
  then obtain s where "x = Some s" "sigPairs s \<noteq> None" by (auto simp: signed_by_def)
  then have "map_option clear_pairs x = Some (s\<lparr>sigPairs := Some []\<rparr>)" by (simp add: clear_pairs_def)
  then show ?thesis unfolding signed_by_def
    by (intro exI[of _ "s\<lparr>sigPairs := Some []\<rparr>"]) (simp add: signer_hexes_def pairs_def)
qed

lemma remove_all_keeps:
  assumes "removeAllSignatures L gen t = Inr (m, t')" and "life_ok t"
  shows "life_ok t'"
proof -
  obtain u where u: "freeze_if_needed L gen t = Inr u"
    and t': "t' = u\<lparr>signedTransactions := (signedTransactions u)
          \<lparr>items := map (map_option clear_pairs) (items (signedTransactions u))\<rparr>,
        signerPublicKeys := [], publicKeys := [], transactionSigners := []\<rparr>"
    using assms(1) unfolding removeAllSignatures_def clear_pairs_def[abs_def]
    by (auto elim!: res_bind_InrE split: if_splits)
  have "life_ok u" using freeze_if_needed_keeps[OF u assms(2)] by simp
  then show ?thesis using signed_by_cleared by (auto simp: t' life_ok_def list_all_iff)
qed

lemma build_frame: "buildTransaction L i t = Inr t' \<Longrightarrow> \<exists>l. t' = t\<lparr>transactions := l\<rparr>"
  by (auto simp: buildTransaction_def elim!: res_bind_InrE split: if_splits)

lemma build_from_frame: "build_from L i n t = Inr t' \<Longrightarrow> \<exists>l. t' = t\<lparr>transactions := l\<rparr>"
proof (induction n arbitrary: i t)
  case 0
  then show ?case by (intro exI[of _ "transactions t"]) simp
next
  case (Suc n)
  then obtain u where "buildTransaction L (Some i) t = Inr u" "build_from L (Suc i) n u = Inr t'"
    by (auto elim!: res_bind_InrE)
  moreover obtain l where "u = t\<lparr>transactions := l\<rparr>" using build_frame[OF calculation(1)] by blast
  moreover obtain l' where "t' = u\<lparr>transactions := l'\<rparr>" using Suc(1)[OF calculation(2)] by blast
  ultimately have "t' = t\<lparr>transactions := l'\<rparr>" by simp
  then show ?case by blast
qed

lemma life_ok_transactions [simp]: "life_ok (t\<lparr>transactions := l\<rparr>) = life_ok t"
  by (simp add: life_ok_def)

lemma life_ok_locks [simp]: "life_ok (lock_ids t) = life_ok t" "life_ok t \<Longrightarrow> life_ok (lock_built t)"
  by (auto simp: life_ok_def lock_ids_def lock_built_def setLocked_def)

lemma bytes_keep: "toBytes L t = Inr (bs, t') \<Longrightarrow> life_ok t \<Longrightarrow> life_ok t'"
  by (auto simp: toBytes_def buildAllTransactions_def buildIncompleteTransactions_def
      dest!: build_from_frame elim!: res_bind_InrE split: if_splits)

lemma bytes_async_keep: "toBytesAsync L t = Inr (bs, t') \<Longrightarrow> life_ok t \<Longrightarrow> life_ok t'"
proof -
  assume a: "toBytesAsync L t = Inr (bs, t')" "life_ok t"
  then have "\<not> signOnDemand (lock_ids t)" by (simp add: life_ok_def lock_ids_def)
  with a show ?thesis
    by (auto simp: toBytesAsync_def buildAllTransactionsAsync_def buildAllTransactions_def
        dest!: build_from_frame elim!: res_bind_InrE)
qed

lemma step_keeps:
  assumes "tx_step L gen t t'" and "life_ok t"
  shows "life_ok t'"
  using assms(1)
proof cases
  case (set_field f)
  then show ?thesis using setter_keeps assms(2) by blast
next
  case (freeze client)
  then show ?thesis using freeze_keeps assms(2) by blast
next
  case (sign k f)
  then show ?thesis using sign_keeps assms(2) by blast
next
  case (add k m)
  then show ?thesis using add_keeps assms(2) by blast
next
  case (remove k sigs)
  then show ?thesis using remove_keeps assms(2) by blast
next
  case (remove_all m)
  then show ?thesis using remove_all_keeps assms(2) by blast
next
  case (build i)
  from build_frame[OF build(1)] obtain l where "t' = t\<lparr>transactions := l\<rparr>" by blast
  with assms(2) show ?thesis by simp
next
  case (to_bytes bs)
  then show ?thesis using bytes_keep assms(2) by blast
next
  case (to_bytes_async bs)
  then show ?thesis using bytes_async_keep assms(2) by blast
qed

lemma life_keeps: "tx_life L gen d t \<Longrightarrow> life_ok t"
proof (induction rule: tx_life.induct)
  case born
  show ?case by (simp add: life_ok_def new_tx_def new_list_def)
next
  case (lives t t')
  show ?case by (rule step_keeps[OF lives(2,3)])
qed

section \<open>Freezing after signing\<close>

text \<open>
  \<open>signWith\<close> does not lock the signed transactions: freezing again builds them anew, without signatures,
  while the signers stay recorded, so that signing again does nothing.
\<close>

lemma refreeze_loses_signatures:
  assumes "freezeWith L gen client t = Inr t'" and "\<not> client_demand client"
    and "\<not> locked (signedTransactions t)" and "key_hex k \<in> set (signerPublicKeys t)"
    and "items (signedTransactions t') \<noteq> []"
  shows "list_all (signed_by []) (items (signedTransactions t')) \<and> signWith k f t' = Inr t'"
proof -
  obtain t1 where t1: "setNodeAccountIds_client client (freeze_settings client t) = Inr t1"
    and t': "(if signOnDemand (buildNewTransactionIdList gen t1) then Inr (buildNewTransactionIdList gen t1)
      else buildSignedTransactions L (buildNewTransactionIdList gen t1)) = Inr t'"
    using freezeWith_cases[OF assms(1)] by blast
  note F = setNodeAccountIds_client_frame[OF t1]
  let ?t2 = "buildNewTransactionIdList gen t1"
  have d: "\<not> signOnDemand ?t2" using F(4) assms(2) by (simp add: freeze_settings_def client_demand_def)
  have same: "signedTransactions ?t2 = signedTransactions t" "signerPublicKeys ?t2 = signerPublicKeys t"
    using F(1,10) by (simp_all add: freeze_settings_def)
  then have eq: "t' = ?t2\<lparr>signedTransactions := (signedTransactions ?t2)
        \<lparr>items := map (\<lambda>n. Some (makeSignedTransaction L n ?t2)) (items (nodeAccountIds ?t2)), cursor := Some 0\<rparr>\<rparr>"
    using t' d assms(3) by (simp add: buildSignedTransactions_def setList_def)
  have "list_all (signed_by []) (items (signedTransactions t'))"
    by (auto simp: eq list_all_iff signed_by_def signer_hexes_def pairs_def makeSignedTransaction_def)
  moreover have "key_hex k \<in> set (signerPublicKeys t')" using assms(4) same by (simp add: eq)
  ultimately show ?thesis
    using assms(5) by (auto simp: signWith_def requireFrozen_def isFrozen_def list_length_def)
qed

section \<open>Signatures and signers\<close>


lemma sample_tx_lives: "tx_life sample_lib (\<lambda>_. 9) [1, 2] sample_tx"
proof -
  let ?a = "(new_tx [1, 2])\<lparr>nodeAccountIds := \<lparr>items = [Some 3, Some 4], locked = True, cursor = Some 0\<rparr>\<rparr>
    :: (nat, nat, nat list) tx"
  have "tx_setNodeAccountIds [3, 4] (new_tx [1, 2]) = Inr ?a" "setTransactionId 7 ?a = Inr sample_tx"
    by (simp_all add: tx_setNodeAccountIds_def setTransactionId_def requireNotFrozen_def isFrozen_def new_tx_def
        list_length_def new_list_def setList_def setLocked_def sample_tx_def)
  then show ?thesis using born lives set_field setters(1,6) by metis
qed


end
