(* ===== verification/RequestTypes.thy ===== *)
theory RequestTypes
  imports Codes
begin

text \<open>
  The kinds of requests, \<open>src/RequestType.js\<close>. A \<open>RequestType\<close> is its code.
\<close>

definition request_fromCode :: "nat \<Rightarrow> nat result" where
  "request_fromCode c =
     (case constant_of request_constants request_cases c of
        Some s \<Rightarrow> Inr s
      | None \<Rightarrow> Inl (Error (''(BUG) RequestType.fromCode() does not handle code: '' @ show_nat c)))"

definition request_toString :: "nat \<Rightarrow> string" where
  "request_toString s =
     (case text_of request_constants request_texts s of
        Some t \<Rightarrow> t
      | None \<Rightarrow> ''UNKNOWN ('' @ show_nat s @ '')'')"

definition request_valueOf :: "nat \<Rightarrow> nat" where
  "request_valueOf s = s"

lemma request_fromCode_eq:
  "request_fromCode c =
     (if c \<in> set (map fst request_cases) then Inr c
      else Inl (Error (''(BUG) RequestType.fromCode() does not handle code: '' @ show_nat c)))"
  using requests.constant_known requests.constant_unknown by (simp add: request_fromCode_def)

lemma request_row:
  "(n, c) \<in> set request_constants \<Longrightarrow> (n, t) \<in> set request_texts \<Longrightarrow>
   request_fromCode c = Inr c \<and> request_toString c = t"
  using requests.text_known requests.cases_codes
  by (force simp: request_fromCode_eq request_toString_def)

lemma request_has_text:
  "request_fromCode c = Inr s \<Longrightarrow> c \<in> set (map fst request_cases) \<and> text_of request_constants request_texts c = Some (request_toString c)"
  using requests.has_text[of c] requests.text_known
  by (auto simp: request_fromCode_eq request_toString_def split: if_splits)

text \<open>The text tells the kinds apart.\<close>

lemma request_texts_differ:
  assumes "request_fromCode c = Inr s" and "request_fromCode d = Inr r" and "request_toString c = request_toString d"
  shows "c = d"
  using requests.texts_tell_apart[OF request_texts_distinct] request_has_text[OF assms(1)] request_has_text[OF assms(2)]
    assms(3) by auto

end
