(* ===== verification/AccountIds.thy ===== *)
theory AccountIds
  imports EntityId Keys
begin

text \<open>
  Account identifiers, \<open>src/account/AccountId.js\<close>, with the EVM addresses of
  \<open>src/EvmAddress.js\<close>: an account is a shard, a realm and a number, or a public key or an EVM
  address in place of the number. Reading and printing, the protobuf message, solidity addresses,
  equality and order. The two methods that ask the mirror node are not modelled.
\<close>

section \<open>Data\<close>

record account_id =
  acc_id :: entity_id
  aliasKey :: "public_key option"
  evmAddress :: "byte list option"
  acc_checksum :: "string option"

text \<open>The protobuf message; a missing field is \<open>None\<close>.\<close>

record account_message =
  shardNum :: "long option"
  realmNum :: "long option"
  accountNum :: "long option"
  alias_bytes :: "byte list option"

text \<open>The codec of a protobuf key, a parameter.\<close>

record key_codec =
  encKey :: "proto_key \<Rightarrow> byte list"
  decKey :: "byte list \<Rightarrow> proto_key result"

section \<open>Construction\<close>

definition account_constructor ::
    "id_props \<Rightarrow> long option \<Rightarrow> long option \<Rightarrow> public_key option \<Rightarrow> byte list option
     \<Rightarrow> account_id result" where
  "account_constructor props r n k e =
     res_bind (entity_constructor props r n) (\<lambda>i.
       Inr \<lparr>acc_id = i, aliasKey = k, evmAddress = e, acc_checksum = None\<rparr>)"

definition new_account ::
    "long \<Rightarrow> long \<Rightarrow> long \<Rightarrow> public_key option \<Rightarrow> byte list option \<Rightarrow> account_id result" where
  "new_account s r n k e = account_constructor (PNum s) (Some r) (Some n) k e"

definition account_fromString :: "long_lib \<Rightarrow> 'asn der_lib \<Rightarrow> string \<Rightarrow> account_id result" where
  "account_fromString L D text =
     (if (startsWith_0x text \<and> length text = 42) \<or> length text = 40
      then new_account 0 0 0 None (Some (hex_decode text))
      else res_bind (fromStringSplitter text) (\<lambda>p.
             res_bind (parseText L (part_shard p)) (\<lambda>s.
             res_bind (parseText L (part_realm p)) (\<lambda>r.
               if length (numOrHex p) < 20
               then res_bind (parseText L (numOrHex p)) (\<lambda>n. new_account s r n None None)
               else if length (numOrHex p) = 40
               then new_account s r 0 None (Some (hex_decode (numOrHex p)))
               else res_bind (key_fromString D (numOrHex p)) (\<lambda>k.
                      new_account s r 0 (Some k) None)))))"

definition isLongZeroAddress :: "byte list \<Rightarrow> bool" where
  "isLongZeroAddress bs \<longleftrightarrow> 12 \<le> length bs \<and> list_all (\<lambda>b. b = 0) (take 12 bs)"

text \<open>
  \<open>fromEvmAddress\<close> and \<open>fromSolidityAddress\<close> call each other; each goes to the other only with
  an address for which the other does not come back, so the shared branches are written once.
\<close>

definition long_zero_account :: "string \<Rightarrow> account_id result" where
  "long_zero_account address =
     res_bind (fromSolidityAddress address) (\<lambda>i.
       new_account (shard i) (realm i) (num i) None None)"

definition fromEvmAddress :: "long \<Rightarrow> long \<Rightarrow> byte list \<Rightarrow> account_id result" where
  "fromEvmAddress s r e =
     (if isLongZeroAddress e then long_zero_account (hex_encode e)
      else new_account s r 0 None (Some e))"

definition fromEvmAddress_text :: "long \<Rightarrow> long \<Rightarrow> string \<Rightarrow> account_id result" where
  "fromEvmAddress_text s r e = fromEvmAddress s r (hex_decode e)"

definition account_fromSolidityAddress :: "string \<Rightarrow> account_id result" where
  "account_fromSolidityAddress address =
     (if isLongZeroAddress (hex_decode address) then long_zero_account address
      else fromEvmAddress_text 0 0 address)"

section \<open>Protobuf\<close>

definition account_fromProtobuf ::
    "'asn der_lib \<Rightarrow> key_codec \<Rightarrow> account_message \<Rightarrow> account_id result" where
  "account_fromProtobuf D K m =
     res_bind
       (case alias_bytes m of
          None \<Rightarrow> Inr (None, None)
        | Some a \<Rightarrow>
            if length a = 20 then Inr (None, Some a)
            else res_bind (decKey K a) (\<lambda>pk.
                   res_bind (fromProtobufKey D pk) (\<lambda>k. Inr (k, None))))
       (\<lambda>(k, e). new_account (from_some (shardNum m)) (from_some (realmNum m))
                   (from_some (accountNum m)) k e)"

definition account_toProtobuf :: "key_codec \<Rightarrow> account_id \<Rightarrow> account_message" where
  "account_toProtobuf K a =
     \<lparr>shardNum = Some (shard (acc_id a)), realmNum = Some (realm (acc_id a)),
      accountNum = (if aliasKey a \<noteq> None then None else Some (num (acc_id a))),
      alias_bytes =
        (case aliasKey a of
           Some k \<Rightarrow> Some (encKey K (toProtobufKey k))
         | None \<Rightarrow> evmAddress a)\<rparr>"

section \<open>Text\<close>

definition account_toString :: "long_lib \<Rightarrow> account_id \<Rightarrow> string" where
  "account_toString L a =
     toText L (shard (acc_id a)) @ ''.'' @ toText L (realm (acc_id a)) @ ''.'' @
     (case aliasKey a of
        Some k \<Rightarrow> key_toString k
      | None \<Rightarrow> (case evmAddress a of
                  Some e \<Rightarrow> hex_encode e
                | None \<Rightarrow> toText L (num (acc_id a))))"

definition account_validateChecksum ::
    "long_lib \<Rightarrow> account_id \<Rightarrow> byte list option \<Rightarrow> unit result" where
  "account_validateChecksum L a ledger =
     (if aliasKey a \<noteq> None
      then Inl (Error ''cannot calculate checksum with an account ID that has a aliasKey'')
      else validateChecksum L (acc_id a) (acc_checksum a) ledger)"

definition account_toStringWithChecksum ::
    "long_lib \<Rightarrow> account_id \<Rightarrow> byte list option \<Rightarrow> string result" where
  "account_toStringWithChecksum L a ledger =
     (if aliasKey a \<noteq> None
      then Inl (Error ''cannot calculate checksum with an account ID that has a aliasKey'')
      else toStringWithChecksum (account_toString L a) ledger)"

text \<open>\<open>evm\<close> stands for \<open>PublicKey.toEvmAddress\<close>, which needs elliptic curve arithmetic.\<close>

definition account_toSolidityAddress :: "(public_key \<Rightarrow> string) \<Rightarrow> account_id \<Rightarrow> string" where
  "account_toSolidityAddress evm a =
     (case (evmAddress a, aliasKey a) of
        (Some e, _) \<Rightarrow> hex_encode e
      | (None, Some k) \<Rightarrow>
          if key_type k = Secp256k1 then evm k else toSolidityAddress (acc_id a)
      | (None, None) \<Rightarrow> toSolidityAddress (acc_id a))"

section \<open>Equality and order\<close>

definition account_equals :: "account_id \<Rightarrow> account_id \<Rightarrow> bool" where
  "account_equals a b \<longleftrightarrow>
     shard (acc_id a) = shard (acc_id b) \<and> realm (acc_id a) = realm (acc_id b) \<and>
     (case (aliasKey a, aliasKey b) of
        (Some k, Some l) \<Rightarrow> key_equals k l
      | (k, l) \<Rightarrow>
          (case (evmAddress a, evmAddress b) of
             (Some e, Some f) \<Rightarrow> e = f
           | (e, f) \<Rightarrow> k = None \<and> l = None \<and> e = None \<and> f = None \<and>
                        num (acc_id a) = num (acc_id b)))"

text \<open>Texts are compared by UTF-16 code units; for these texts, by character codes.\<close>

fun text_less :: "string \<Rightarrow> string \<Rightarrow> bool" where
  "text_less s [] = False"
| "text_less [] (d # t) = True"
| "text_less (c # s) (d # t) = (code_of c < code_of d \<or> (c = d \<and> text_less s t))"

definition text_compare :: "string \<Rightarrow> string \<Rightarrow> int" where
  "text_compare t o' = (if text_less o' t then 1 else if text_less t o' then -1 else 0)"

definition account_compare :: "account_id \<Rightarrow> account_id \<Rightarrow> int" where
  "account_compare a b =
     (let c1 = long_compare (shard (acc_id a)) (shard (acc_id b));
          c2 = long_compare (realm (acc_id a)) (realm (acc_id b))
      in if c1 \<noteq> 0 then c1 else if c2 \<noteq> 0 then c2
         else (case (aliasKey a, aliasKey b) of
                 (Some k, Some l) \<Rightarrow> text_compare (key_toString k) (key_toString l)
               | (k, l) \<Rightarrow>
                   (case (evmAddress a, evmAddress b) of
                      (Some e, Some f) \<Rightarrow> text_compare (hex_encode e) (hex_encode f)
                    | (e, f) \<Rightarrow>
                        if k = None \<and> l = None \<and> e = None \<and> f = None
                        then long_compare (num (acc_id a)) (num (acc_id b))
                        else 1)))"

definition account_clone :: "account_id \<Rightarrow> account_id result" where
  "account_clone a =
     res_bind (account_constructor
                 (PObj (Some (shard (acc_id a))) (Some (realm (acc_id a))) (num (acc_id a)))
                 None None None None) (\<lambda>i.
       Inr (i\<lparr>acc_checksum := acc_checksum a, aliasKey := aliasKey a, evmAddress := evmAddress a\<rparr>))"

section \<open>Texts of accounts\<close>

lemma length_show_nat: "0 < k \<Longrightarrow> n < 10 ^ k \<Longrightarrow> length (show_nat n) \<le> k"
proof (induction n arbitrary: k rule: show_nat.induct)
  case (1 n)
  show ?case
  proof (cases "n < 10")
    case True
    then show ?thesis using 1(2) by (subst show_nat.simps) simp
  next
    case False
    then obtain j where k: "k = Suc j" "0 < j"
      using 1(2,3) by (cases k; cases "k = 1") auto
    with 1(3) have "n div 10 < 10 ^ j" by (simp add: less_mult_imp_div_less mult.commute)
    with 1(1)[OF False k(2)] False k show ?thesis by (subst show_nat.simps) simp
  qed
qed

lemma length_show_long: "nonneg n \<Longrightarrow> length (show_nat (unat n)) \<le> 19"
  using nonneg_unat(2)[of n] by (intro length_show_nat) simp_all

lemma hex_digit_is_hex: "n < 16 \<Longrightarrow> is_hex (hex_digit n)"
  by (simp add: is_hex_def hex_digit_val)

lemma hex_encode_is_hex: "list_all is_hex (hex_encode bs)"
  by (auto simp: hex_encode_def byteToHex_def list_all_iff hex_digit_is_hex unat_byte_split)

lemma splitter_hex:
  assumes "list_all is_hex h" and "h \<noteq> []"
  shows "fromStringSplitter (show_nat a @ ''.'' @ show_nat b @ ''.'' @ h) =
         Inr \<lparr>part_shard = show_nat a, part_realm = show_nat b, numOrHex = h, part_checksum = None\<rparr>"
proof -
  note n = span_run[OF show_nat_digits[of a], of "''.'' @ show_nat b @ ''.'' @ h"]
    span_run[OF show_nat_digits[of b], of "''.'' @ h"]
  have h: "takeWhile is_hex h = h" "dropWhile is_hex h = []"
    using assms(1) by (simp_all add: takeWhile_eq_all_conv dropWhile_eq_Nil_conv list_all_iff)
  have "regex_dotted (''.'' @ show_nat b @ ''.'' @ h) = Some (show_nat b, h, [])"
    using n assms(2) by (simp add: regex_dotted_def Let_def h)
  then show ?thesis
    using n by (simp add: fromStringSplitter_def Let_def regex_checksum_def)
qed

lemma parseText_nat:
  assumes "long_lib_ok L" and "nonneg n"
  shows "parseText L (show_nat (unat n)) = Inr n"
  using assms nonneg_unat(2)[OF assms(2)]
  by (simp add: long_lib_ok_def show_nat_digits)

lemma show_nat_no_0x: "\<not> startsWith_0x (show_nat a @ ''.'' @ s)"
proof -
  have "list_all is_digit (show_nat a)" by (rule show_nat_digits)
  moreover have "\<not> is_digit CHR ''x''" "CHR ''x'' \<noteq> CHR ''.''" by (simp_all add: is_digit_def code_of_def)
  ultimately show ?thesis
    by (cases "show_nat a"; cases "tl (show_nat a)") (auto simp: startsWith_0x_def)
qed

definition account_ok :: "account_id \<Rightarrow> bool" where
  "account_ok a \<longleftrightarrow>
     valid_id (acc_id a) \<and> acc_checksum a = None \<and>
     (case (aliasKey a, evmAddress a) of
        (Some k, e) \<Rightarrow> key_ok k \<and> e = None \<and> num (acc_id a) = 0
      | (None, Some e) \<Rightarrow> length e = 20 \<and> num (acc_id a) = 0
      | (None, None) \<Rightarrow> True)"

definition is_plain :: "account_id \<Rightarrow> bool" where
  "is_plain a \<longleftrightarrow> aliasKey a = None \<and> evmAddress a = None"

lemma new_account_ok:
  "nonneg s \<Longrightarrow> nonneg r \<Longrightarrow> nonneg n \<Longrightarrow>
   new_account s r n k e = Inr \<lparr>acc_id = \<lparr>shard = s, realm = r, num = n\<rparr>, aliasKey = k,
                                evmAddress = e, acc_checksum = None\<rparr>"
  by (simp add: new_account_def account_constructor_def entity_constructor_def is_negative_def
      nonneg_def from_some_def)

lemma nonneg_0 [simp]: "nonneg 0"
  by (simp add: nonneg_def)

text \<open>The last part of the text of an account, and what reading it back does.\<close>

definition last_part :: "account_id \<Rightarrow> string" where
  "last_part a =
     (case aliasKey a of
        Some k \<Rightarrow> key_toString k
      | None \<Rightarrow> (case evmAddress a of Some e \<Rightarrow> hex_encode e
                | None \<Rightarrow> show_nat (unat (num (acc_id a)))))"

lemma account_text:
  assumes "long_lib_ok L" and "account_ok a"
  shows "account_toString L a =
           show_nat (unat (shard (acc_id a))) @ ''.'' @ show_nat (unat (realm (acc_id a))) @ ''.'' @
           last_part a"
  using assms by (simp add: account_toString_def account_ok_def valid_id_def toText_nonneg
      last_part_def split: option.split)

lemma last_part_hex: "list_all is_hex (last_part a)"
  using show_nat_digits[of "unat (num (acc_id a))"] hex_encode_is_hex
  by (auto simp: last_part_def key_toString_def list_all_iff digit_hex split: option.split)

lemma last_part_length:
  assumes "account_ok a"
  shows "is_plain a \<Longrightarrow> 0 < length (last_part a) \<and> length (last_part a) < 20"
    and "aliasKey a = Some k \<Longrightarrow> 40 < length (last_part a)"
    and "aliasKey a = None \<Longrightarrow> evmAddress a = Some e \<Longrightarrow> length (last_part a) = 40"
  using assms length_show_long[of "num (acc_id a)"]
  by (auto simp: account_ok_def last_part_def is_plain_def valid_id_def length_key_text
      split: option.splits key_type.split)

lemma account_text_back:
  assumes "long_lib_ok L" and "der_ok D" and "account_ok a"
  shows "account_fromString L D (account_toString L a) = Inr a \<longleftrightarrow>
         \<not> (is_plain a \<and> length (account_toString L a) = 40)"
proof -
  let ?s = "unat (shard (acc_id a))" and ?r = "unat (realm (acc_id a))"
  note shown = account_text[OF assms(1,3)] and len = last_part_length[OF assms(3)]
  have v: "nonneg (shard (acc_id a))" "nonneg (realm (acc_id a))" "nonneg (num (acc_id a))"
    using assms(3) by (simp_all add: account_ok_def valid_id_def)
  have ne: "last_part a \<noteq> []"
    using len by (cases "aliasKey a"; cases "evmAddress a") (auto simp: is_plain_def)
  have no0x: "\<not> startsWith_0x (account_toString L a)"
    unfolding shown by (rule show_nat_no_0x)
  have not40: "\<not> is_plain a \<Longrightarrow> length (account_toString L a) \<noteq> 40"
    using len by (cases "aliasKey a"; cases "evmAddress a") (auto simp: is_plain_def shown)
  have split: "fromStringSplitter (account_toString L a) =
      Inr \<lparr>part_shard = show_nat ?s, part_realm = show_nat ?r, numOrHex = last_part a,
           part_checksum = None\<rparr>"
    unfolding shown by (rule splitter_hex[OF last_part_hex ne])
  note p = parseText_nat[OF assms(1)]
  show ?thesis
  proof (cases "length (account_toString L a) = 40")
    case True
    then have "is_plain a" using not40 by blast
    with True v show ?thesis
      by (cases a) (auto simp: account_fromString_def new_account_ok is_plain_def)
  next
    case False
    have parts: "Inr a = new_account (shard (acc_id a)) (realm (acc_id a)) (num (acc_id a)) (aliasKey a) (evmAddress a)"
      using v assms(3) by (simp add: new_account_ok account_ok_def)
    have step: "account_fromString L D (account_toString L a) =
        (if length (last_part a) < 20
         then res_bind (parseText L (last_part a)) (\<lambda>n.
                new_account (shard (acc_id a)) (realm (acc_id a)) n None None)
         else if length (last_part a) = 40
         then new_account (shard (acc_id a)) (realm (acc_id a)) 0 None (Some (hex_decode (last_part a)))
         else res_bind (key_fromString D (last_part a)) (\<lambda>k.
                new_account (shard (acc_id a)) (realm (acc_id a)) 0 (Some k) None))"
      using False no0x v by (simp add: account_fromString_def split p)
    have "account_fromString L D (account_toString L a) = Inr a"
    proof (cases "aliasKey a")
      case (Some k)
      with assms(3) have k: "key_ok k" "evmAddress a = None" "num (acc_id a) = 0"
        by (simp_all add: account_ok_def)
      have "key_fromString D (last_part a) = Inr k"
        using key_text_back[OF assms(2) k(1)] Some by (simp add: last_part_def)
      with len(2)[OF Some] Some k show ?thesis
        unfolding step parts by simp
    next
      case None
      show ?thesis
      proof (cases "evmAddress a")
        case (Some e)
        with None assms(3) have "num (acc_id a) = 0" by (simp add: account_ok_def)
        moreover have "hex_decode (last_part a) = e"
          using None Some by (simp add: last_part_def decode_encode)
        ultimately show ?thesis
          using len(3)[OF None Some] None Some unfolding step parts by simp
      next
        case plain: None
        have "parseText L (last_part a) = Inr (num (acc_id a))"
          using None plain v p by (simp add: last_part_def)
        with len(1) None plain show ?thesis
          unfolding step parts by (simp add: is_plain_def)
      qed
    qed
    with False show ?thesis by simp
  qed
qed

section \<open>Messages\<close>

text \<open>What the code relies on: a key is read back from its encoding, and no key has an encoding as
  long as an EVM address.\<close>

definition key_codec_ok :: "key_codec \<Rightarrow> bool" where
  "key_codec_ok K \<longleftrightarrow>
     (\<forall>k. key_ok k \<longrightarrow> decKey K (encKey K (toProtobufKey k)) = Inr (toProtobufKey k) \<and>
                  length (encKey K (toProtobufKey k)) \<noteq> 20)"

lemma account_proto_back:
  assumes "key_codec_ok K" and "account_ok a"
  shows "account_fromProtobuf D K (account_toProtobuf K a) = Inr a"
proof -
  have v: "nonneg (shard (acc_id a))" "nonneg (realm (acc_id a))" "nonneg (num (acc_id a))"
    using assms(2) by (simp_all add: account_ok_def valid_id_def)
  have parts: "Inr a = new_account (shard (acc_id a)) (realm (acc_id a)) (num (acc_id a)) (aliasKey a) (evmAddress a)"
    using v assms(2) by (simp add: new_account_ok account_ok_def)
  show ?thesis
  proof (cases "aliasKey a")
    case (Some k)
    with assms(2) have k: "key_ok k" "evmAddress a = None" "num (acc_id a) = 0"
      by (simp_all add: account_ok_def)
    with Some assms(1) proto_key_back[OF k(1), of D] show ?thesis
      unfolding parts
      by (simp add: account_fromProtobuf_def account_toProtobuf_def key_codec_ok_def from_some_def)
  next
    case None
    with assms(2) show ?thesis
      unfolding parts
      by (cases "evmAddress a")
         (simp_all add: account_fromProtobuf_def account_toProtobuf_def from_some_def account_ok_def)
  qed
qed

text \<open>C35: A well-formed account - a number, a public key or an EVM address - is read back from its
  protobuf message, and from its text unless it is a plain number whose text happens to be 40
  characters long: such a text is taken for an EVM address.\<close>

theorem account_round_trips:
  assumes "long_lib_ok L" and "der_ok D" and "key_codec_ok K" and "account_ok a"
  shows "account_fromProtobuf D K (account_toProtobuf K a) = Inr a \<and>
         (account_fromString L D (account_toString L a) = Inr a \<longleftrightarrow>
          \<not> (is_plain a \<and> length (account_toString L a) = 40))"
  using account_proto_back[OF assms(3,4)] account_text_back[OF assms(1,2,4)] by blast

definition sample_codec :: key_codec where
  "sample_codec =
     \<lparr>encKey = (\<lambda>k. case k of KeyEd25519 bs \<Rightarrow> 18 # of_nat (length bs) # bs
                           | KeyEcdsa bs \<Rightarrow> 58 # of_nat (length bs) # bs
                           | KeyOther \<Rightarrow> []),
      decKey = (\<lambda>bs. case bs of
                         a # b # cs \<Rightarrow> if a = 18 then Inr (KeyEd25519 cs)
                                      else if a = 58 then Inr (KeyEcdsa cs)
                                      else Inr KeyOther
                       | _ \<Rightarrow> Inr KeyOther)\<rparr>"

lemma sample_codec_ok: "key_codec_ok sample_codec"
  by (auto simp: key_codec_ok_def sample_codec_def toProtobufKey_def key_ok_def split: key_type.splits)

definition sample_account :: account_id where
  "sample_account = \<lparr>acc_id = \<lparr>shard = 0, realm = 0, num = 0\<rparr>, aliasKey = None,
                     evmAddress = Some (replicate 20 171), acc_checksum = None\<rparr>"

lemma sample_account_ok: "account_ok sample_account"
  by (simp add: account_ok_def sample_account_def valid_id_def)

theorem account_round_trips_witness:
  "account_fromString decimal_lib sample_der (account_toString decimal_lib sample_account) =
   Inr sample_account"
  using account_round_trips[OF decimal_lib_ok sample_der_ok sample_codec_ok sample_account_ok]
  by (simp add: is_plain_def sample_account_def)

section \<open>The order of accounts\<close>

lemma code_of_eq: "code_of c = code_of d \<longleftrightarrow> c = d"
  by (metis code_of_inj)

lemma text_less_irrefl [simp]: "\<not> text_less s s"
  by (induction s) simp_all

lemma text_less_total: "text_less s t \<or> s = t \<or> text_less t s"
proof (induction s t rule: text_less.induct)
  case (3 c s d t)
  then show ?case using code_of_eq[of c d] by (auto simp: nat_neq_iff)
qed (auto simp: neq_Nil_conv elim: text_less.elims)

lemma text_less_trans: "text_less s t \<Longrightarrow> text_less t u \<Longrightarrow> text_less s u"
proof (induction s u arbitrary: t rule: text_less.induct)
  case (1 s)
  then show ?case by simp
next
  case (2 d u)
  then show ?case by simp
next
  case (3 c s d u)
  from 3(2,3) obtain e t' where "t = e # t'" by (cases t) auto
  with 3 show ?case by auto
qed

lemma text_less_asym: "text_less s t \<Longrightarrow> \<not> text_less t s"
  using text_less_trans[of s t s] by auto

interpretation text_cmp: comparator text_compare
proof
  show "text_compare a b = 0 \<longleftrightarrow> a = b" for a b
    using text_less_total[of a b] by (auto simp: text_compare_def)
  show "text_compare a b < 0 \<longleftrightarrow> 0 < text_compare b a" for a b
    using text_less_asym[of a b] by (auto simp: text_compare_def)
  show "text_compare a b < 0 \<Longrightarrow> text_compare b c < 0 \<Longrightarrow> text_compare a c < 0" for a b c
    using text_less_trans[of a b c] text_less_asym[of a c] by (auto simp: text_compare_def split: if_splits)
qed

text \<open>Two accounts are of one kind when both are keys, both EVM addresses or both numbers.\<close>

definition same_kind :: "account_id \<Rightarrow> account_id \<Rightarrow> bool" where
  "same_kind a b \<longleftrightarrow>
     (aliasKey a = None \<longleftrightarrow> aliasKey b = None) \<and> (evmAddress a = None \<longleftrightarrow> evmAddress b = None)"

definition same_realm :: "account_id \<Rightarrow> account_id \<Rightarrow> bool" where
  "same_realm a b \<longleftrightarrow> shard (acc_id a) = shard (acc_id b) \<and> realm (acc_id a) = realm (acc_id b)"

definition kind_compare :: "account_id \<Rightarrow> account_id \<Rightarrow> int" where
  "kind_compare a b =
     (case aliasKey a of
        Some k \<Rightarrow> text_compare (last_part a) (last_part b)
      | None \<Rightarrow> (case evmAddress a of
                  Some e \<Rightarrow> text_compare (last_part a) (last_part b)
                | None \<Rightarrow> long_compare (num (acc_id a)) (num (acc_id b))))"

lemma key_text_inj: "key_ok k \<Longrightarrow> key_ok l \<Longrightarrow> key_toString k = key_toString l \<Longrightarrow> k = l"
  by (metis key_text_back sample_der_ok sum.inject(2))

lemma hex_encode_inj: "hex_encode e = hex_encode f \<longleftrightarrow> e = f"
  by (metis decode_encode)

lemma account_compare_kind:
  assumes "account_ok a" and "account_ok b" and "same_kind a b"
  shows "account_compare a b =
           (if \<not> same_realm a b
            then (if shard (acc_id a) \<noteq> shard (acc_id b)
                  then long_compare (shard (acc_id a)) (shard (acc_id b))
                  else long_compare (realm (acc_id a)) (realm (acc_id b)))
            else kind_compare a b)"
proof (cases "aliasKey a"; cases "evmAddress a"; cases "aliasKey b"; cases "evmAddress b")
qed (use assms in \<open>auto simp: account_ok_def same_kind_def account_compare_def Let_def same_realm_def
       kind_compare_def last_part_def\<close>)

lemma account_eqI:
  assumes "account_ok a" and "account_ok b" and "same_kind a b" and "same_realm a b"
  shows "kind_compare a b = 0 \<longleftrightarrow> a = b"
proof (cases "aliasKey a")
  case (Some k)
  then obtain l where "aliasKey b = Some l" using assms(3) by (auto simp: same_kind_def)
  with Some assms show ?thesis
    using key_text_inj[of k l]
    by (cases a; cases b; cases "acc_id a"; cases "acc_id b")
       (auto simp: kind_compare_def account_ok_def same_realm_def last_part_def text_cmp.cmp_eq)
next
  case None
  then have n: "aliasKey b = None" using assms(3) by (auto simp: same_kind_def)
  show ?thesis
  proof (cases "evmAddress a")
    case (Some e)
    then obtain f where "evmAddress b = Some f" using assms(3) by (auto simp: same_kind_def)
    with Some None n assms show ?thesis
      by (cases a; cases b; cases "acc_id a"; cases "acc_id b")
         (auto simp: kind_compare_def account_ok_def same_realm_def last_part_def text_cmp.cmp_eq hex_encode_inj)
  next
    case plain: None
    then have "evmAddress b = None" using assms(3) by (auto simp: same_kind_def)
    with plain None n assms show ?thesis
      by (cases a; cases b; cases "acc_id a"; cases "acc_id b")
         (auto simp: kind_compare_def account_ok_def same_realm_def)
  qed
qed

lemma kind_compare_anti:
  assumes "account_ok a" and "account_ok b" and "same_kind a b"
  shows "kind_compare a b < 0 \<longleftrightarrow> 0 < kind_compare b a"
  using assms(3) text_cmp.cmp_anti long_cmp.cmp_anti
  by (auto simp: kind_compare_def same_kind_def split: option.splits)

lemma account_eq_iff:
  "(a :: account_id) = b \<longleftrightarrow>
     shard (acc_id a) = shard (acc_id b) \<and> realm (acc_id a) = realm (acc_id b) \<and>
     num (acc_id a) = num (acc_id b) \<and> aliasKey a = aliasKey b \<and> evmAddress a = evmAddress b \<and>
     acc_checksum a = acc_checksum b"
  by (auto intro: account_id.equality entity_id.equality)

lemma key_equals_iff: "key_equals k l \<longleftrightarrow> k = l"
  by (auto simp: key_equals_def intro: public_key.equality)

lemma account_equals_iff:
  assumes "account_ok a" and "account_ok b"
  shows "account_equals a b \<longleftrightarrow> a = b"
proof (cases "aliasKey a"; cases "aliasKey b"; cases "evmAddress a"; cases "evmAddress b")
qed (use assms in \<open>auto simp: account_equals_def account_ok_def key_equals_iff account_eq_iff\<close>)

text \<open>On well-formed accounts \<open>equals\<close> is equality and \<open>compare\<close> is 0 exactly for equal
  accounts; between accounts of different shards or realms, or of one kind, it changes its sign
  with the order of its arguments; between a key, an EVM address and a number of one realm it is 1
  both ways, so it is not an order there.\<close>

theorem account_compare_correct:
  assumes "account_ok a" and "account_ok b"
  shows "(account_equals a b \<longleftrightarrow> a = b) \<and> (account_compare a b = 0 \<longleftrightarrow> a = b) \<and>
         (if same_kind a b \<or> \<not> same_realm a b
          then account_compare a b < 0 \<longleftrightarrow> 0 < account_compare b a
          else account_compare a b = 1 \<and> account_compare b a = 1)"
proof -
  have mixed: "account_compare x y = 1" 
    if "account_ok x" "account_ok y" "\<not> same_kind x y" "same_realm x y" for x y
    using that by (cases "aliasKey x"; cases "aliasKey y")
      (auto simp: account_ok_def same_kind_def same_realm_def account_compare_def Let_def split: option.splits)
  have sym: "same_kind b a \<longleftrightarrow> same_kind a b" "same_realm b a \<longleftrightarrow> same_realm a b"
    by (auto simp: same_kind_def same_realm_def)
  have far: "account_compare x y =
      (if shard (acc_id x) \<noteq> shard (acc_id y) then long_compare (shard (acc_id x)) (shard (acc_id y))
       else long_compare (realm (acc_id x)) (realm (acc_id y)))" if "\<not> same_realm x y" for x y
    using that by (auto simp: account_compare_def Let_def same_realm_def)
  have eq: "a = b \<Longrightarrow> same_kind a b \<and> same_realm a b" by (auto simp: same_kind_def same_realm_def)
  note e = account_equals_iff[OF assms]
  consider "\<not> same_realm a b" | "same_realm a b" "same_kind a b" | "same_realm a b" "\<not> same_kind a b"
    by blast
  then show ?thesis
  proof cases
    case 1
    with far[of a b] far[of b a] sym eq e show ?thesis
      using long_cmp.cmp_anti[of "shard (acc_id a)" "shard (acc_id b)"]
        long_cmp.cmp_anti[of "realm (acc_id a)" "realm (acc_id b)"]
      by (auto simp: same_realm_def)
  next
    case 2
    with account_compare_kind[OF assms] account_compare_kind[OF assms(2,1)] sym e
      account_eqI[OF assms] kind_compare_anti[OF assms]
    show ?thesis by simp
  next
    case 3
    with mixed[OF assms] mixed[OF assms(2,1)] sym eq e show ?thesis by auto
  qed
qed

theorem account_compare_correct_witness:
  "account_compare sample_account (sample_account\<lparr>evmAddress := None\<rparr>) = 1 \<and>
   account_compare (sample_account\<lparr>evmAddress := None\<rparr>) sample_account = 1"
proof -
  have "account_ok (sample_account\<lparr>evmAddress := None\<rparr>)"
    by (simp add: account_ok_def sample_account_def valid_id_def)
  from account_compare_correct[OF sample_account_ok this] show ?thesis
    by (simp add: same_kind_def same_realm_def sample_account_def)
qed

end
