(* ===== verification/Timestamps.thy ===== *)
theory Timestamps
  imports EntityId "HOL-Library.Signed_Division"
begin

text \<open>
  Points in time, \<open>src/Timestamp.js\<close>: generation of fresh valid starts, conversion to and from
  dates, addition of nanoseconds, the protobuf and the text form, and the order. Seconds and
  nanoseconds are \<open>Long\<close>s; \<open>Date.now\<close>, \<open>Math.random\<close> and \<open>Date.parse\<close> are arguments.
\<close>

section \<open>Signed division of longs\<close>

definition long_div :: "long \<Rightarrow> long \<Rightarrow> long" where
  "long_div a b = word_of_int (sint a sdiv sint b)"

definition long_mod :: "long \<Rightarrow> long \<Rightarrow> long" where
  "long_mod a b = word_of_int (sint a smod sint b)"

text \<open>\<open>toInt\<close> keeps the low 32 bits, signed.\<close>

definition toInt :: "long \<Rightarrow> int" where
  "toInt n = sint (ucast n :: 32 word)"

section \<open>Data\<close>

record timestamp =
  seconds :: long
  nanos :: long

definition MAX_NS :: long where
  "MAX_NS = 1000000000"

text \<open>The \<open>seconds\<close> of a protobuf timestamp is a \<open>Long\<close>, a number or missing.\<close>

datatype seconds_field = SecondsLong long | SecondsNumber int | NoSeconds

record ts_message =
  m_seconds :: seconds_field
  m_nanos :: "int option"

section \<open>Operations\<close>

definition plusNanos :: "timestamp \<Rightarrow> long \<Rightarrow> timestamp" where
  "plusNanos t n =
     (let ns = nanos t + n
      in \<lparr>seconds = seconds t + long_div ns MAX_NS, nanos = long_mod ns MAX_NS\<rparr>)"

datatype date_arg = DNumber int | DText string | DDate int | DOther

definition fromDate :: "long_lib \<Rightarrow> (string \<Rightarrow> int option) \<Rightarrow> date_arg \<Rightarrow> timestamp result" where
  "fromDate L parse d =
     (let zero = \<lparr>seconds = fromNumber L 0, nanos = fromNumber L 0\<rparr>
      in case d of
           DNumber n \<Rightarrow> Inr (plusNanos zero (fromNumber L n))
         | DText s \<Rightarrow>
             Inr (plusNanos zero
                    ((case parse s of Some ms \<Rightarrow> fromNumber L ms | None \<Rightarrow> 0) * 1000000))
         | DDate ms \<Rightarrow> Inr (plusNanos zero (fromNumber L ms * 1000000))
         | DOther \<Rightarrow> Inl (TypeError ''invalid type for data, expected Date''))"

text \<open>The number of milliseconds of the resulting \<open>Date\<close>.\<close>

definition toDate :: "timestamp \<Rightarrow> int" where
  "toDate t = toInt (seconds t) * 1000 + toInt (nanos t) div 1000000"

definition ts_toProtobuf :: "timestamp \<Rightarrow> ts_message" where
  "ts_toProtobuf t = \<lparr>m_seconds = SecondsLong (seconds t), m_nanos = Some (toInt (nanos t))\<rparr>"

definition ts_fromProtobuf :: "long_lib \<Rightarrow> ts_message \<Rightarrow> timestamp" where
  "ts_fromProtobuf L m =
     \<lparr>seconds = fromNumber L (case m_seconds m of
                    SecondsLong n \<Rightarrow> toInt n | SecondsNumber n \<Rightarrow> n | NoSeconds \<Rightarrow> 0),
      nanos = fromNumber L (case m_nanos m of Some n \<Rightarrow> n | None \<Rightarrow> 0)\<rparr>"

definition ts_toString :: "long_lib \<Rightarrow> timestamp \<Rightarrow> string" where
  "ts_toString L t = toText L (seconds t) @ ''.'' @ padStart 9 CHR ''0'' (toText L (nanos t))"

definition ts_compare :: "timestamp \<Rightarrow> timestamp \<Rightarrow> int" where
  "ts_compare a b =
     (if long_compare (seconds a) (seconds b) \<noteq> 0 then long_compare (seconds a) (seconds b)
      else long_compare (nanos a) (nanos b))"

section \<open>Generation\<close>

text \<open>
  One round of \<open>generate\<close> reads the clock once and draws two random integers, below 5000 and below
  1000000. The rounds the environment offers are a list; a list that is too short gives \<open>None\<close>.
  The recursive call uses the default argument, so it always applies jitter.
\<close>

record draw =
  rand_jitter :: nat
  now_ms :: int
  rand_nanos :: nat

definition draw_timestamp :: "long_lib \<Rightarrow> int \<Rightarrow> bool \<Rightarrow> draw \<Rightarrow> timestamp" where
  "draw_timestamp L timeDrift hasJitter d =
     (let jitter = (if hasJitter then int (rand_jitter d) + 3000 else 0);
          now = now_ms d - jitter
      in \<lparr>seconds = fromNumber L (now div 1000 + timeDrift),
          nanos = fromNumber L ((now smod 1000) * 1000000 + int (rand_nanos d))\<rparr>)"

fun generate ::
    "long_lib \<Rightarrow> int \<Rightarrow> bool \<Rightarrow> draw list \<Rightarrow> string set \<Rightarrow> (timestamp \<times> string set) option" where
  "generate L timeDrift hasJitter [] ids = None"
| "generate L timeDrift hasJitter (d # ds) ids =
     (let t = draw_timestamp L timeDrift hasJitter d
      in if ts_toString L t \<in> ids then generate L timeDrift True ds ids
         else Some (t, insert (ts_toString L t) ids))"

section \<open>Laws\<close>

definition total_nanos :: "timestamp \<Rightarrow> int" where
  "total_nanos t = sint (seconds t) * 1000000000 + sint (nanos t)"

lemma sint_MAX_NS [simp]: "sint MAX_NS = 1000000000"
  by (simp add: MAX_NS_def)

lemma sdiv_pos: "0 < (b :: int) \<Longrightarrow> a sdiv b = (if 0 \<le> a then a div b else - (- a div b))"
  by (auto simp: signed_divide_int_def sgn_if)

lemma smod_pos: "0 < (b :: int) \<Longrightarrow> a smod b = (if 0 \<le> a then a mod b else - (- a mod b))"
  by (auto simp: signed_modulo_int_def sgn_if abs_if)

lemma smod_bound: "0 < (b :: int) \<Longrightarrow> \<bar>a smod b\<bar> < b"
  by (metis abs_of_pos abs_mod_less abs_minus_cancel less_numeral_extra(3) smod_pos)

lemma sint_plus_exact:
  assumes "- (2 ^ 63) \<le> sint a + sint b" and "sint a + sint b < 2 ^ 63"
  shows "sint (a + b :: long) = sint a + sint b"
proof -
  have "a + b = word_of_int (sint a + sint b)" by simp
  then show ?thesis using assms by (metis sint_of_int)
qed

lemma sdiv_ns_bound:
  fixes x :: int
  assumes "- (2 ^ 63) \<le> x" and "x < 2 ^ 63"
  shows "- (2 ^ 63) \<le> x sdiv 1000000000" and "x sdiv 1000000000 < 2 ^ 63"
  using assms by (auto simp: sdiv_pos)

lemma smod_ns_bound:
  fixes x :: int
  shows "- (2 ^ 63) \<le> x smod 1000000000" and "x smod 1000000000 < 2 ^ 63"
  using smod_bound[of 1000000000 x] by auto

lemma sint_div_ns [simp]: "sint (long_div n MAX_NS) = sint n sdiv 1000000000"
  using sdiv_ns_bound[of "sint n"] sint_range[of n] by (simp add: long_div_def)

lemma sint_mod_ns [simp]: "sint (long_mod n MAX_NS) = sint n smod 1000000000"
  using smod_ns_bound[of "sint n"] by (simp add: long_mod_def)

lemma smod_nonneg: "0 < (b :: int) \<Longrightarrow> 0 \<le> a \<Longrightarrow> 0 \<le> a smod b"
  by (simp add: smod_pos)

text \<open>Adding nanoseconds moves the point in time by exactly that many, forwards or backwards,
  as long as nothing leaves the 63-bit range; the nanosecond field stays below a second in absolute
  value, and is not negative when the sum of the nanoseconds is not.\<close>

theorem plusNanos_exact:
  assumes "- (2 ^ 63) \<le> sint (nanos t) + sint n" and "sint (nanos t) + sint n < 2 ^ 63"
    and "- (2 ^ 62) \<le> sint (seconds t)" and "sint (seconds t) < 2 ^ 62"
  shows "total_nanos (plusNanos t n) = total_nanos t + sint n \<and>
         \<bar>sint (nanos (plusNanos t n))\<bar> < 1000000000 \<and>
         (0 \<le> sint (nanos t) + sint n \<longrightarrow> 0 \<le> sint (nanos (plusNanos t n)))"
proof -
  define x where "x = sint (nanos t) + sint n"
  have x: "sint (nanos t + n) = x"
    unfolding x_def by (rule sint_plus_exact[OF assms(1,2)])
  have q: "\<bar>x sdiv 1000000000\<bar> \<le> 2 ^ 62"
    using assms(1,2) by (auto simp: x_def sdiv_pos abs_if)
  have s: "sint (seconds t + long_div (nanos t + n) MAX_NS) = sint (seconds t) + x sdiv 1000000000"
    using sint_plus_exact[of "seconds t" "long_div (nanos t + n) MAX_NS"] q assms(3,4)
    by (auto simp: x abs_if split: if_splits)
  have "x sdiv 1000000000 * 1000000000 + x smod 1000000000 = x"
    by (rule sdiv_mult_smod_eq)
  moreover have "sint (nanos (plusNanos t n)) = x smod 1000000000"
    by (simp add: plusNanos_def Let_def x)
  moreover have "sint (seconds (plusNanos t n)) = sint (seconds t) + x sdiv 1000000000"
    by (simp add: plusNanos_def Let_def s)
  ultimately show ?thesis
    using smod_bound[of 1000000000 x] smod_nonneg[of 1000000000 x]
    by (simp add: total_nanos_def x_def algebra_simps)
qed

theorem plusNanos_exact_witness:
  "total_nanos (plusNanos \<lparr>seconds = 5, nanos = 999999999\<rparr> 1) = 6000000000"
  using plusNanos_exact[of "\<lparr>seconds = 5, nanos = 999999999\<rparr>" 1] by (simp add: total_nanos_def)

section \<open>Dates\<close>

lemma toInt_of_int: "- (2 ^ 31) \<le> i \<Longrightarrow> i < 2 ^ 31 \<Longrightarrow> toInt (word_of_int i) = i"
  by (simp add: toInt_def unsigned_of_int signed_of_int signed_take_bit_take_bit
      signed_take_bit_int_eq_self)

lemma toInt_small: "- (2 ^ 31) \<le> sint n \<Longrightarrow> sint n < 2 ^ 31 \<Longrightarrow> toInt n = sint n"
  using toInt_of_int[of "sint n"] by simp

lemma toInt_bound: "- (2 ^ 31) \<le> toInt n" "toInt n < 2 ^ 31"
  using sint_ge[of "ucast n :: 32 word"] sint_less[of "ucast n :: 32 word"] by (simp_all add: toInt_def)

lemma fromNumber_small:
  "long_lib_ok L \<Longrightarrow> \<bar>i\<bar> \<le> 2 ^ 53 \<Longrightarrow> fromNumber L i = word_of_int i"
  by (simp add: long_lib_ok_def)

lemma fromNumber_0: "long_lib_ok L \<Longrightarrow> fromNumber L 0 = 0"
  by (simp add: fromNumber_small)

lemma plusNanos_zero:
  assumes "0 \<le> sint n"
  shows "sint (seconds (plusNanos \<lparr>seconds = 0, nanos = 0\<rparr> n)) = sint n div 1000000000 \<and>
         sint (nanos (plusNanos \<lparr>seconds = 0, nanos = 0\<rparr> n)) = sint n mod 1000000000"
  using assms by (simp add: plusNanos_def Let_def sdiv_pos smod_pos)

lemma div_millis: "(ms :: int) * 1000000 div 1000000000 = ms div 1000"
  using div_mult_mult2[of 1000000 ms "1000 :: int"] by simp

lemma mod_millis: "(ms :: int) * 1000000 mod 1000000000 = ms mod 1000 * 1000000"
  using mod_mult_mult2[of ms 1000000 "1000 :: int"] by simp

text \<open>A date between 1970 and 2038 survives the conversion to a timestamp and back, and its
  timestamp holds whole seconds and less than a second of nanoseconds; a date after that comes back
  as another date, because the seconds are read with \<open>toInt\<close>.\<close>

theorem date_round_trip:
  assumes "long_lib_ok L" and "0 \<le> ms" and "ms < 1000 * 2 ^ 33"
    and "fromDate L parse (DDate ms) = Inr t"
  shows "(toDate t = ms \<longleftrightarrow> ms < 1000 * 2 ^ 31) \<and>
         sint (seconds t) = ms div 1000 \<and> sint (nanos t) = ms mod 1000 * 1000000"
proof -
  have w: "fromNumber L ms * 1000000 = word_of_int (ms * 1000000)"
    using fromNumber_small[OF assms(1), of ms] assms(2,3) by simp
  have s: "sint (word_of_int (ms * 1000000) :: long) = ms * 1000000"
    using assms(2,3) by (intro sint_of_int) simp_all
  have t: "t = plusNanos \<lparr>seconds = 0, nanos = 0\<rparr> (word_of_int (ms * 1000000))"
    using assms(4) by (simp add: fromDate_def Let_def w fromNumber_0[OF assms(1)])
  have secs: "sint (seconds t) = ms div 1000"
    and ns: "sint (nanos t) = ms mod 1000 * 1000000"
    using plusNanos_zero[of "word_of_int (ms * 1000000)", unfolded s] assms(2)
    unfolding t by (simp_all only: div_millis mod_millis mult_nonneg_nonneg zero_le_numeral)
  have "ms mod 1000 * 1000000 < 2 ^ 31" using pos_mod_bound[of 1000 ms] by simp
  then have tn: "toInt (nanos t) = ms mod 1000 * 1000000"
    using toInt_small[of "nanos t"] by (simp add: ns)
  have "toInt (seconds t) = ms div 1000 \<longleftrightarrow> ms < 1000 * 2 ^ 31"
    using toInt_small[of "seconds t"] toInt_bound[of "seconds t"] assms(2) by (auto simp: secs)
  then have "toDate t = ms \<longleftrightarrow> ms < 1000 * 2 ^ 31"
    unfolding toDate_def tn using div_mult_mod_eq[of ms 1000] by auto
  with secs ns show ?thesis by simp
qed

theorem date_round_trip_witness:
  "case fromDate decimal_lib (\<lambda>s. None) (DDate 1700000000123) of
     Inl e \<Rightarrow> False | Inr t \<Rightarrow> toDate t = 1700000000123"
proof -
  obtain t where t: "fromDate decimal_lib (\<lambda>s. None) (DDate 1700000000123) = Inr t"
    by (simp add: fromDate_def Let_def)
  from date_round_trip[OF decimal_lib_ok _ _ t] t show ?thesis by simp
qed

section \<open>Order, text and protobuf\<close>

lemma ts_compare_less:
  "ts_compare a b < 0 \<longleftrightarrow>
     sint (seconds a) < sint (seconds b) \<or>
     sint (seconds a) = sint (seconds b) \<and> sint (nanos a) < sint (nanos b)"
  by (auto simp: ts_compare_def long_compare_def)

interpretation ts_cmp: comparator ts_compare
proof
  show "ts_compare a b = 0 \<longleftrightarrow> a = b" for a b
    by (cases a; cases b) (simp add: ts_compare_def)
  show "ts_compare a b < 0 \<longleftrightarrow> 0 < ts_compare b a" for a b
    by (auto simp: ts_compare_def long_compare_def)
  show "ts_compare a b < 0 \<Longrightarrow> ts_compare b c < 0 \<Longrightarrow> ts_compare a c < 0" for a b c
    unfolding ts_compare_less by auto
qed

definition ts_ok :: "timestamp \<Rightarrow> bool" where
  "ts_ok t \<longleftrightarrow> nonneg (seconds t) \<and> nonneg (nanos t) \<and> sint (nanos t) < 1000000000"

lemma total_nanos_order:
  assumes "ts_ok a" and "ts_ok b"
  shows "ts_compare a b < 0 \<longleftrightarrow> total_nanos a < total_nanos b"
  using assms unfolding ts_compare_less total_nanos_def ts_ok_def nonneg_def by auto

lemma word_of_toInt:
  assumes "long_lib_ok L"
  shows "fromNumber L (toInt n) = n \<longleftrightarrow> - (2 ^ 31) \<le> sint n \<and> sint n < 2 ^ 31"
proof -
  have f: "fromNumber L (toInt n) = word_of_int (toInt n)"
    using assms toInt_bound[of n] by (intro fromNumber_small) auto
  show ?thesis
  proof
    assume "fromNumber L (toInt n) = n"
    then have "sint n = sint (word_of_int (toInt n) :: long)" by (simp add: f)
    also have "\<dots> = toInt n" using toInt_bound[of n] by (intro sint_of_int) simp_all
    finally show "- (2 ^ 31) \<le> sint n \<and> sint n < 2 ^ 31" using toInt_bound[of n] by simp
  next
    assume "- (2 ^ 31) \<le> sint n \<and> sint n < 2 ^ 31"
    then show "fromNumber L (toInt n) = n" unfolding f by (simp add: toInt_small)
  qed
qed

lemma ts_proto_back:
  assumes "long_lib_ok L" and "ts_ok t"
  shows "ts_fromProtobuf L (ts_toProtobuf t) = t \<longleftrightarrow> sint (seconds t) < 2 ^ 31"
proof -
  have "fromNumber L (toInt (nanos t)) = nanos t"
    using assms by (simp add: word_of_toInt ts_ok_def nonneg_def)
  with assms word_of_toInt[OF assms(1), of "seconds t"] show ?thesis
    by (cases t) (simp add: ts_fromProtobuf_def ts_toProtobuf_def ts_ok_def nonneg_def)
qed

section \<open>Fresh timestamps\<close>

definition draw_ok :: "draw \<Rightarrow> bool" where
  "draw_ok d \<longleftrightarrow> rand_jitter d < 5000 \<and> rand_nanos d < 1000000 \<and>
     8000 \<le> now_ms d \<and> now_ms d < 2 ^ 52"

lemma draw_timestamp_ok:
  assumes "long_lib_ok L" and "draw_ok d"
  shows "ts_ok (draw_timestamp L 0 j d)"
    and "total_nanos (draw_timestamp L 0 j d) =
           (now_ms d - (if j then int (rand_jitter d) + 3000 else 0)) * 1000000 + int (rand_nanos d)"
proof -
  define now where "now = now_ms d - (if j then int (rand_jitter d) + 3000 else 0)"
  have now: "0 \<le> now" "now < 2 ^ 52"
    using assms(2) by (auto simp: now_def draw_ok_def)
  define ns where "ns = (now mod 1000) * 1000000 + int (rand_nanos d)"
  have "now mod 1000 \<le> 999" using pos_mod_bound[of 1000 now] by simp
  then have ns: "0 \<le> ns" "ns < 1000000000"
    using assms(2) by (auto simp: ns_def draw_ok_def)
  have t: "draw_timestamp L 0 j d = \<lparr>seconds = word_of_int (now div 1000), nanos = word_of_int ns\<rparr>"
    using fromNumber_small[OF assms(1), of "now div 1000"] fromNumber_small[OF assms(1), of ns] now ns
    by (auto simp: draw_timestamp_def Let_def now_def ns_def smod_pos)
  have s: "sint (word_of_int (now div 1000) :: long) = now div 1000"
    and n: "sint (word_of_int ns :: long) = ns"
    using now ns by (auto intro!: sint_of_int)
  show "ts_ok (draw_timestamp L 0 j d)"
    using now ns by (simp add: t ts_ok_def nonneg_def s n)
  show "total_nanos (draw_timestamp L 0 j d) =
          (now_ms d - (if j then int (rand_jitter d) + 3000 else 0)) * 1000000 + int (rand_nanos d)"
  proof -
    have "total_nanos (draw_timestamp L 0 j d) = now div 1000 * 1000000000 + ns"
      by (simp only: t total_nanos_def timestamp.simps s n)
    also have "\<dots> = (now div 1000 * 1000 + now mod 1000) * 1000000 + int (rand_nanos d)"
      unfolding ns_def by (simp only: distrib_right)
    also have "\<dots> = now * 1000000 + int (rand_nanos d)"
      by (simp only: div_mult_mod_eq)
    finally show ?thesis by (simp only: now_def)
  qed
qed

lemma generate_none:
  "generate L dr j ds ids = None \<longleftrightarrow>
     (\<forall>k < length ds. ts_toString L (draw_timestamp L dr (j \<or> 0 < k) (ds ! k)) \<in> ids)"
  by (induction L dr j ds ids rule: generate.induct) (auto simp: Let_def nth_Cons split: nat.split)

lemma generate_some:
  "generate L dr j ds ids = Some (t, ids') \<Longrightarrow>
     ts_toString L t \<notin> ids \<and> ids' = insert (ts_toString L t) ids \<and>
     (\<exists>k < length ds. t = draw_timestamp L dr (j \<or> 0 < k) (ds ! k))"
proof (induction L dr j ds ids rule: generate.induct)
  case (1 L dr j ids)
  then show ?case by simp
next
  case (2 L dr j d ds ids)
  show ?case
  proof (cases "ts_toString L (draw_timestamp L dr j d) \<in> ids")
    case True
    with 2 obtain k where "k < length ds" and "t = draw_timestamp L dr True (ds ! k)"
      and "ts_toString L t \<notin> ids" and "ids' = insert (ts_toString L t) ids"
      by (auto simp: Let_def)
    then show ?thesis by (intro conjI exI[of _ "Suc k"]) simp_all
  next
    case False
    with 2(2) show ?thesis by (auto simp: Let_def intro!: exI[of _ 0])
  qed
qed

text \<open>C34: \<open>generate\<close> comes to an end exactly when one of the rounds draws a timestamp that was not
  given out before, and returns the first such one: it is well formed, its text is recorded so that
  it is never given out again, and it lies at most eight seconds before the clock of its round,
  at least three seconds less a millisecond when jitter applies.\<close>

theorem generate_fresh:
  assumes "long_lib_ok L" and "list_all draw_ok ds"
  shows "(generate L 0 j ds ids = None \<longleftrightarrow>
            (\<forall>k < length ds. ts_toString L (draw_timestamp L 0 (j \<or> 0 < k) (ds ! k)) \<in> ids)) \<and>
         (\<forall>t ids'. generate L 0 j ds ids = Some (t, ids') \<longrightarrow>
            ts_toString L t \<notin> ids \<and> ids' = insert (ts_toString L t) ids \<and> ts_ok t \<and>
            (\<exists>k < length ds.
               (now_ms (ds ! k) - 8000) * 1000000 < total_nanos t \<and>
               total_nanos t < (now_ms (ds ! k) + 1) * 1000000 \<and>
               (j \<or> 0 < k \<longrightarrow> total_nanos t < (now_ms (ds ! k) - 2999) * 1000000)))"
proof (intro conjI allI impI)
  show "generate L 0 j ds ids = None \<longleftrightarrow>
      (\<forall>k < length ds. ts_toString L (draw_timestamp L 0 (j \<or> 0 < k) (ds ! k)) \<in> ids)"
    by (rule generate_none)
  fix t ids'
  assume g: "generate L 0 j ds ids = Some (t, ids')"
  from generate_some[OF g] obtain k where k: "k < length ds"
    and t: "t = draw_timestamp L 0 (j \<or> 0 < k) (ds ! k)" by blast
  from k assms(2) have ok: "draw_ok (ds ! k)" by (simp add: list_all_length)
  note d = draw_timestamp_ok[OF assms(1) ok, of "j \<or> 0 < k"]
  show "ts_ok t" using d(1) by (simp only: t)
  show "\<exists>k < length ds.
           (now_ms (ds ! k) - 8000) * 1000000 < total_nanos t \<and>
           total_nanos t < (now_ms (ds ! k) + 1) * 1000000 \<and>
           (j \<or> 0 < k \<longrightarrow> total_nanos t < (now_ms (ds ! k) - 2999) * 1000000)"
    using ok k d(2) unfolding draw_ok_def t
    by (intro exI[of _ k]) (cases "j \<or> 0 < k"; simp)
qed (use generate_some in blast)+

theorem generate_fresh_witness:
  "case generate decimal_lib 0 False
          [\<lparr>rand_jitter = 1, now_ms = 1700000000000, rand_nanos = 7\<rparr>] {} of
     None \<Rightarrow> False
   | Some (t, ids) \<Rightarrow> ts_toString decimal_lib t \<in> ids"
proof -
  have "list_all draw_ok [\<lparr>rand_jitter = 1, now_ms = 1700000000000, rand_nanos = 7\<rparr>]"
    by (simp add: draw_ok_def)
  note g = generate_fresh[OF decimal_lib_ok this, of False "{}"]
  from g[THEN conjunct1] obtain t ids where
    r: "generate decimal_lib 0 False [\<lparr>rand_jitter = 1, now_ms = 1700000000000, rand_nanos = 7\<rparr>] {}
        = Some (t, ids)"
    by (metis empty_iff length_Cons option.exhaust surj_pair zero_less_Suc)
  from g[THEN conjunct2, rule_format, OF r] have "ids = insert (ts_toString decimal_lib t) {}"
    by blast
  then show ?thesis unfolding r by simp
qed

end
