(* ===== verification/TxIds.thy ===== *)
theory TxIds
  imports AccountIds Timestamps
begin

text \<open>
  Transaction identifiers, \<open>src/transaction/TransactionId.js\<close>: an account, a valid start, the
  scheduled flag and a nonce; the text form
  \<open>shard.realm.num@seconds.nanos?scheduled/nonce\<close>, the protobuf message and the order.
\<close>

section \<open>Data\<close>

record tx_id =
  accountId :: "account_id option"
  validStart :: "timestamp option"
  scheduled :: bool
  nonce :: "long option"

record tx_id_message =
  accountID :: "account_message option"
  transactionValidStart :: "ts_message option"
  m_scheduled :: "bool option"
  m_nonce :: "int option"

definition new_tx_id ::
    "account_id option \<Rightarrow> timestamp option \<Rightarrow> bool \<Rightarrow> long option \<Rightarrow> tx_id" where
  "new_tx_id a v s n =
     \<lparr>accountId = a, validStart = v, scheduled = s,
      nonce = (if n \<noteq> None \<and> n \<noteq> Some 0 then n else None)\<rparr>"

definition setNonce :: "long \<Rightarrow> tx_id \<Rightarrow> tx_id" where
  "setNonce n i = i\<lparr>nonce := Some n\<rparr>"

definition setScheduled :: "bool \<Rightarrow> tx_id \<Rightarrow> tx_id" where
  "setScheduled b i = i\<lparr>scheduled := b\<rparr>"

definition withValidStart :: "account_id \<Rightarrow> timestamp \<Rightarrow> tx_id" where
  "withValidStart a v = new_tx_id (Some a) (Some v) False None"

text \<open>
  \<open>generate\<close> takes an account or its text. From an account it builds a new one out of its three
  numbers only. \<open>None\<close> means that the environment offered too few rounds.
\<close>

definition generate_tx_id ::
    "long_lib \<Rightarrow> 'asn der_lib \<Rightarrow> int \<Rightarrow> account_id + string \<Rightarrow> draw list \<Rightarrow> string set
     \<Rightarrow> (tx_id result \<times> string set) option" where
  "generate_tx_id L D drift arg ds ids =
     (case (case arg of
              Inl a \<Rightarrow> account_constructor
                         (PObj (Some (shard (acc_id a))) (Some (realm (acc_id a))) (num (acc_id a)))
                         None None None None
            | Inr text \<Rightarrow> account_fromString L D text) of
        Inl e \<Rightarrow> Some (Inl e, ids)
      | Inr a' \<Rightarrow>
          (case generate L drift True ds ids of
             None \<Rightarrow> None
           | Some (t, ids') \<Rightarrow> Some (Inr (new_tx_id (Some a') (Some t) False None), ids')))"

definition tx_id_clone :: "tx_id \<Rightarrow> tx_id" where
  "tx_id_clone i = new_tx_id (accountId i) (validStart i) (scheduled i) (nonce i)"

section \<open>Text\<close>

text \<open>\<open>split_on sep s\<close> is \<open>s.split(sep)\<close> for a separator that is not empty: the pieces between the
  occurrences of \<open>sep\<close>, found from left to right.\<close>

function split_acc :: "string \<Rightarrow> string \<Rightarrow> string \<Rightarrow> string list" where
  "split_acc sep cur s =
     (if s = [] then [cur]
      else if sep \<noteq> [] \<and> take (length sep) s = sep
      then cur # split_acc sep [] (drop (length sep) s)
      else split_acc sep (cur @ [hd s]) (tl s))"
  by pat_completeness auto
termination
  by (relation "measure (\<lambda>(sep, cur, s). length s)") auto

declare split_acc.simps [simp del]

definition split_on :: "string \<Rightarrow> string \<Rightarrow> string list" where
  "split_on sep s = split_acc sep [] s"

text \<open>The first two pieces, as the destructuring reads them: the second may be undefined.\<close>

definition split2 :: "string \<Rightarrow> string \<Rightarrow> string \<times> string option" where
  "split2 sep s =
     (case split_on sep s of [] \<Rightarrow> ([], None) | [a] \<Rightarrow> (a, None) | a # b # _ \<Rightarrow> (a, Some b))"

text \<open>\<open>s.replace("/", "")\<close> removes the first slash.\<close>

fun remove_slash :: "string \<Rightarrow> string" where
  "remove_slash [] = []"
| "remove_slash (c # s) = (if c = CHR ''/'' then s else c # remove_slash s)"

definition undef_error :: "'a result" where
  "undef_error = Inl (TypeError ''Cannot read properties of undefined'')"

definition split_rest :: "string \<Rightarrow> (string \<times> bool \<times> string option) result" where
  "split_rest rest =
     (if CHR ''?'' \<in> set rest
      then (let (ns, r) = split2 ''?scheduled'' rest
            in case r of
                 None \<Rightarrow> undef_error
               | Some r' \<Rightarrow>
                   Inr (ns, True, if CHR ''/'' \<in> set r' then Some (remove_slash r') else None))
      else if CHR ''/'' \<in> set rest
      then (let (ns, n) = split2 ''/'' rest in Inr (ns, False, n))
      else Inr (rest, False, None))"

definition tx_id_fromString :: "long_lib \<Rightarrow> 'asn der_lib \<Rightarrow> string \<Rightarrow> tx_id result" where
  "tx_id_fromString L D wholeId =
     (let (account, rest) = split2 ''@'' wholeId
      in case rest of
           None \<Rightarrow> undef_error
         | Some rest \<Rightarrow>
             (let (secs, rest) = split2 ''.'' rest
              in case rest of
                   None \<Rightarrow> undef_error
                 | Some rest \<Rightarrow>
                     res_bind (split_rest rest) (\<lambda>(ns, sched, n).
                     res_bind (account_fromString L D account) (\<lambda>a.
                     res_bind (parseText L secs) (\<lambda>secs'.
                     res_bind (parseText L ns) (\<lambda>ns'.
                     res_bind (case n of None \<Rightarrow> Inr None
                               | Some t \<Rightarrow> res_bind (parseText L t) (\<lambda>v. Inr (Some v))) (\<lambda>n'.
                       Inr (new_tx_id (Some a) (Some \<lparr>seconds = secs', nanos = ns'\<rparr>) sched n'))))))))"

definition tx_id_toString :: "long_lib \<Rightarrow> tx_id \<Rightarrow> string result" where
  "tx_id_toString L i =
     (case (accountId i, validStart i) of
        (Some a, Some v) \<Rightarrow>
          Inr (account_toString L a @ ''@'' @ toText L (seconds v) @ ''.'' @
               padStart 9 CHR ''0'' (toText L (nanos v)) @
               (if scheduled i then ''?scheduled'' else '''') @
               (case nonce i of Some n \<Rightarrow> ''/'' @ toText L n | None \<Rightarrow> ''''))
      | _ \<Rightarrow> Inl (Error ''neither `accountId` nor `validStart` are set''))"

section \<open>Protobuf\<close>

definition tx_id_fromProtobuf ::
    "long_lib \<Rightarrow> 'asn der_lib \<Rightarrow> key_codec \<Rightarrow> tx_id_message \<Rightarrow> tx_id result" where
  "tx_id_fromProtobuf L D K m =
     (case (accountID m, transactionValidStart m) of
        (Some am, Some tm) \<Rightarrow>
          res_bind (account_fromProtobuf D K am) (\<lambda>a.
            Inr (new_tx_id (Some a) (Some (ts_fromProtobuf L tm))
                   (case m_scheduled m of Some b \<Rightarrow> b | None \<Rightarrow> False)
                   (case m_nonce m of Some n \<Rightarrow> if n = 0 then None else Some (fromNumber L n) | None \<Rightarrow> None)))
      | _ \<Rightarrow> Inl (Error ''Neither `nonce` or `accountID` and `transactionValidStart` are set''))"

definition tx_id_toProtobuf :: "key_codec \<Rightarrow> tx_id \<Rightarrow> tx_id_message" where
  "tx_id_toProtobuf K i =
     \<lparr>accountID = map_option (account_toProtobuf K) (accountId i),
      transactionValidStart = map_option ts_toProtobuf (validStart i),
      m_scheduled = Some (scheduled i), m_nonce = map_option toInt (nonce i)\<rparr>"

section \<open>Order\<close>

text \<open>The missing parts are only asked for with a type cast: reading a method of one throws.\<close>

definition tx_id_compare :: "tx_id \<Rightarrow> tx_id \<Rightarrow> int result" where
  "tx_id_compare i j =
     (case (accountId i, accountId j) of
        (Some a, Some b) \<Rightarrow>
          if account_compare a b \<noteq> 0 then Inr (account_compare a b)
          else (case (validStart i, validStart j) of
                  (Some v, Some w) \<Rightarrow> Inr (ts_compare v w)
                | _ \<Rightarrow> undef_error)
      | _ \<Rightarrow> undef_error)"

section \<open>Splitting\<close>

lemma split_acc_end: "split_acc sep cur [] = [cur]"
  by (simp add: split_acc.simps)

lemma split_acc_skip:
  assumes "c \<notin> set a"
  shows "split_acc (c # sep) cur (a @ s) = split_acc (c # sep) (cur @ a) s"
  using assms
proof (induction a arbitrary: cur)
  case Nil
  then show ?case by simp
next
  case (Cons x a)
  have "split_acc (c # sep) cur ((x # a) @ s) = split_acc (c # sep) (cur @ [x]) (a @ s)"
    using Cons.prems by (subst split_acc.simps) auto
  with Cons show ?case by simp
qed

lemma split_acc_match: "split_acc (c # sep) cur ((c # sep) @ s) = cur # split_acc (c # sep) [] s"
  by (subst split_acc.simps) simp

lemma split_plain:
  assumes "c \<notin> set b"
  shows "split_acc (c # sep) cur b = [cur @ b]"
  using split_acc_skip[OF assms, of sep cur "[]"] by (simp add: split_acc_end)

lemma split2_once:
  assumes "c \<notin> set a" and "c \<notin> set b"
  shows "split2 (c # sep) (a @ (c # sep) @ b) = (a, Some b)"
proof -
  have "split_on (c # sep) (a @ (c # sep) @ b) = [a, b]"
    unfolding split_on_def split_acc_skip[OF assms(1)] split_acc_match split_plain[OF assms(2)] by simp
  then show ?thesis by (simp add: split2_def)
qed

section \<open>Round trips\<close>

definition tx_id_ok :: "tx_id \<Rightarrow> bool" where
  "tx_id_ok i \<longleftrightarrow>
     (case (accountId i, validStart i) of (Some a, Some v) \<Rightarrow> account_ok a \<and> ts_ok v | _ \<Rightarrow> False) \<and>
     (case nonce i of Some n \<Rightarrow> n \<noteq> 0 \<and> nonneg n | None \<Rightarrow> True)"

lemma account_text_chars:
  assumes "long_lib_ok L" and "account_ok a" and "c \<in> set (account_toString L a)"
  shows "is_hex c \<or> c = CHR ''.''"
  using assms(3) account_text[OF assms(1,2)] last_part_hex[of a]
  by (auto simp: list_all_iff dest: show_nat_digit digit_hex)

lemma digit_not_special:
  "is_digit c \<Longrightarrow> c \<notin> {CHR ''@'', CHR ''.'', CHR ''?'', CHR ''/''}"
  by (auto simp: is_digit_def code_of_def)

lemma hex_not_at: "\<not> is_hex CHR ''@''"
  by (simp add: is_hex_def hex_val_def code_of_def)

text \<open>The text of the valid start and of the suffix, in digits.\<close>

definition nanos_text :: "timestamp \<Rightarrow> string" where
  "nanos_text v = padStart 9 CHR ''0'' (show_nat (unat (nanos v)))"

definition suffix_text :: "tx_id \<Rightarrow> string" where
  "suffix_text i = (if scheduled i then ''?scheduled'' else '''') @
     (case nonce i of Some n \<Rightarrow> ''/'' @ show_nat (unat n) | None \<Rightarrow> '''')"

lemma nanos_text_digits: "list_all is_digit (nanos_text v)"
  unfolding nanos_text_def by (rule padStart_digits[OF show_nat_digits])

lemma nanos_text_ne: "nanos_text v \<noteq> []"
  by (simp add: nanos_text_def padStart_def)

lemma no_special:
  assumes "list_all is_digit s"
  shows "CHR ''@'' \<notin> set s" "CHR ''.'' \<notin> set s" "CHR ''?'' \<notin> set s" "CHR ''/'' \<notin> set s"
  using assms digit_not_special by (auto simp: list_all_iff)

lemma suffix_chars: "CHR ''@'' \<notin> set (suffix_text i)" "CHR ''.'' \<notin> set (suffix_text i)"
  using no_special[OF show_nat_digits]
  by (auto simp: suffix_text_def split: option.splits if_splits)

lemma split_rest_print:
  "split_rest (nanos_text v @ suffix_text i) =
     Inr (nanos_text v, scheduled i, map_option (\<lambda>n. show_nat (unat n)) (nonce i))"
proof -
  let ?n = "case nonce i of Some n \<Rightarrow> ''/'' @ show_nat (unat n) | None \<Rightarrow> ''''"
  note d = no_special[OF nanos_text_digits[of v]] and s = no_special[OF show_nat_digits]
  have q: "CHR ''?'' \<notin> set ?n" using s by (auto split: option.split)
  show ?thesis
  proof (cases "scheduled i")
    case True
    have "split2 ''?scheduled'' (nanos_text v @ ''?scheduled'' @ ?n) = (nanos_text v, Some ?n)"
      by (rule split2_once[OF d(3) q])
    with True show ?thesis
      using s by (auto simp: split_rest_def suffix_text_def split: option.split)
  next
    case False
    have "split2 ''/'' (nanos_text v @ ''/'' @ show_nat k) = (nanos_text v, Some (show_nat k))" for k
      by (rule split2_once[OF d(4) s(4)])
    with False show ?thesis
      using d s by (auto simp: split_rest_def suffix_text_def split: option.split)
  qed
qed

lemma tx_id_print:
  assumes "long_lib_ok L" and "tx_id_ok i" and "accountId i = Some a" and "validStart i = Some v"
  shows "tx_id_toString L i =
         Inr (account_toString L a @ ''@'' @ show_nat (unat (seconds v)) @ ''.'' @
              nanos_text v @ suffix_text i)"
  using assms by (auto simp: tx_id_toString_def tx_id_ok_def ts_ok_def toText_nonneg nanos_text_def
      suffix_text_def split: option.splits)

lemma parse_nanos:
  assumes "long_lib_ok L" and "nonneg (nanos v)"
  shows "parseText L (nanos_text v) = Inr (nanos v)"
  using assms nonneg_unat(2)[OF assms(2)] nanos_text_digits[of v] nanos_text_ne[of v]
  by (simp add: long_lib_ok_def nanos_text_def)

lemma tx_id_text_back:
  assumes "long_lib_ok L" and "der_ok D" and "tx_id_ok i" and "tx_id_toString L i = Inr s"
    and "accountId i = Some a"
  shows "tx_id_fromString L D s = Inr i \<longleftrightarrow> account_fromString L D (account_toString L a) = Inr a"
proof -
  obtain v where v: "validStart i = Some v" "ts_ok v" and acc: "account_ok a"
    using assms(3,5) by (auto simp: tx_id_ok_def split: option.splits)
  let ?r = "show_nat (unat (seconds v)) @ ''.'' @ nanos_text v @ suffix_text i"
  have s: "s = account_toString L a @ ''@'' @ ?r"
    using tx_id_print[OF assms(1,3,5) v(1)] assms(4) by simp
  have at1: "CHR ''@'' \<notin> set (account_toString L a)"
    using account_text_chars[OF assms(1) acc] hex_not_at by fastforce
  have at2: "CHR ''@'' \<notin> set ?r"
    using no_special[OF show_nat_digits] no_special[OF nanos_text_digits] suffix_chars by auto
  have one: "split2 ''@'' s = (account_toString L a, Some ?r)"
    unfolding s by (rule split2_once[OF at1 at2])
  have "CHR ''.'' \<notin> set (nanos_text v @ suffix_text i)"
    using no_special[OF nanos_text_digits] suffix_chars by auto
  with no_special(2)[OF show_nat_digits] have two:
    "split2 ''.'' ?r = (show_nat (unat (seconds v)), Some (nanos_text v @ suffix_text i))"
    by (rule split2_once)
  note p = parseText_nat[OF assms(1)] parse_nanos[OF assms(1)]
  have vv: "\<lparr>seconds = seconds v, nanos = nanos v\<rparr> = v" by simp
  have n: "(case nonce i of None \<Rightarrow> Inr None
            | Some x \<Rightarrow> res_bind (parseText L (show_nat (unat x))) (\<lambda>v. Inr (Some v))) = Inr (nonce i)"
    using assms(3) p by (auto simp: tx_id_ok_def split: option.splits)
  have "tx_id_fromString L D s =
        res_bind (account_fromString L D (account_toString L a)) (\<lambda>a'.
          Inr (new_tx_id (Some a') (Some v) (scheduled i) (nonce i)))"
    using v(2) p n
    by (cases "nonce i")
       (simp_all add: tx_id_fromString_def one two[simplified] split_rest_print ts_ok_def vv)
  moreover have "new_tx_id (Some a') (Some v) (scheduled i) (nonce i) = i \<longleftrightarrow> a' = a" for a'
    using assms(3,5) v(1) by (cases i) (auto simp: new_tx_id_def tx_id_ok_def split: option.splits)
  ultimately show ?thesis
    by (cases "account_fromString L D (account_toString L a)") simp_all
qed

lemma tx_id_proto_back:
  assumes "long_lib_ok L" and "key_codec_ok K" and "tx_id_ok i"
  shows "tx_id_fromProtobuf L D K (tx_id_toProtobuf K i) = Inr i \<longleftrightarrow>
         (\<forall>v. validStart i = Some v \<longrightarrow> sint (seconds v) < 2 ^ 31) \<and>
         (\<forall>n. nonce i = Some n \<longrightarrow> sint n < 2 ^ 31)"
proof -
  obtain a v where av: "accountId i = Some a" "validStart i = Some v" "account_ok a" "ts_ok v"
    using assms(3) by (auto simp: tx_id_ok_def split: option.splits)
  have "fromNumber L (toInt n) = n \<longleftrightarrow> sint n < 2 ^ 31" if "nonneg n" for n
    using word_of_toInt[OF assms(1), of n] that by (auto simp: nonneg_def)
  moreover have "toInt n \<noteq> 0" if "n \<noteq> 0" "nonneg n" "sint n < 2 ^ 31" for n
  proof
    note n = that
    assume "toInt n = 0"
    moreover have "- (2 ^ 31) \<le> sint n" using n(2) by (simp add: nonneg_def)
    ultimately have "sint n = 0" using toInt_small[of n] n(3) by simp
    then have "n = 0" by (simp add: signed_eq_0_iff)
    with n(1) show False by simp
  qed
  moreover have "fromNumber L 0 = 0" by (rule fromNumber_0[OF assms(1)])
  ultimately show ?thesis
    using account_proto_back[OF assms(2) av(3), of D] ts_proto_back[OF assms(1) av(4)] av assms(3)
    by (cases i; cases "nonce i")
       (auto simp: tx_id_fromProtobuf_def tx_id_toProtobuf_def new_tx_id_def tx_id_ok_def, metis)
qed

text \<open>A complete transaction ID printed as text is read back as the same ID - account, seconds,
  nanoseconds, scheduled flag and nonce - for every kind of account whose own text is read back; its
  protobuf message is read back exactly when seconds and nonce fit 31 bits.\<close>

theorem tx_id_round_trips:
  assumes "long_lib_ok L" and "der_ok D" and "key_codec_ok K" and "tx_id_ok i"
    and "accountId i = Some a"
  shows "(\<exists>s. tx_id_toString L i = Inr s \<and>
            (if is_plain a \<and> length (account_toString L a) = 40
             then tx_id_fromString L D s \<noteq> Inr i else tx_id_fromString L D s = Inr i)) \<and>
         (tx_id_fromProtobuf L D K (tx_id_toProtobuf K i) = Inr i \<longleftrightarrow>
           (\<forall>v. validStart i = Some v \<longrightarrow> sint (seconds v) < 2 ^ 31) \<and>
           (\<forall>n. nonce i = Some n \<longrightarrow> sint n < 2 ^ 31))"
proof -
  obtain s where s: "tx_id_toString L i = Inr s"
    using assms(4) by (auto simp: tx_id_ok_def tx_id_toString_def split: option.splits)
  have "account_ok a" using assms(4,5) by (auto simp: tx_id_ok_def split: option.splits)
  then show ?thesis
    using s tx_id_text_back[OF assms(1,2,4) s assms(5)] account_text_back[OF assms(1,2)]
      tx_id_proto_back[OF assms(1,3,4)] by auto
qed

definition sample_tx_id :: tx_id where
  "sample_tx_id = \<lparr>accountId = Some sample_account, validStart = Some \<lparr>seconds = 5, nanos = 4\<rparr>,
                   scheduled = True, nonce = Some 117\<rparr>"

lemma sample_tx_id_ok: "tx_id_ok sample_tx_id"
  using sample_account_ok by (simp add: tx_id_ok_def sample_tx_id_def ts_ok_def nonneg_def)

theorem tx_id_round_trips_witness:
  "tx_id_fromProtobuf decimal_lib sample_der sample_codec (tx_id_toProtobuf sample_codec sample_tx_id)
   = Inr sample_tx_id"
  using tx_id_round_trips[OF decimal_lib_ok sample_der_ok sample_codec_ok sample_tx_id_ok]
  by (simp add: sample_tx_id_def)

end
