(* ===== verification/Chunked.thy ===== *)
theory Chunked
  imports TxBuild TxIds
begin

text \<open>
  Transactions that are sent in chunks: \<open>src/file/FileAppendTransaction.js\<close> and
  \<open>src/topic/TopicMessageSubmitTransaction.js\<close>. Both override \<open>freezeWith\<close>, which rebuilds the
  table of signed transactions with a row per chunk, and \<open>execute\<close>, which runs the base class once
  per row. The base transaction is the field \<open>fa_tx\<close> or \<open>tm_tx\<close>; its \<open>tx_data\<close> is what
  \<open>_makeTransactionData\<close> returns when a body is made, so it is set before each row. Identifiers of
  files and topics are type variables.
\<close>

section \<open>Rows\<close>

type_synonym 'd chunk_tx = "(account_id, tx_id, 'd) tx"

text \<open>One signed transaction per node is pushed at the end of the table.\<close>

fun push_row ::
    "(account_id, tx_id, 'd) proto_lib \<Rightarrow> account_id option list \<Rightarrow> 'd chunk_tx \<Rightarrow> 'd chunk_tx result" where
  "push_row L [] t = Inr t"
| "push_row L (n # ns) t =
     res_bind (push [Some (makeSignedTransaction L n t)] (signedTransactions t)) (\<lambda>l.
       push_row L ns (t\<lparr>signedTransactions := l\<rparr>))"

definition start_chunk :: "tx_id \<Rightarrow> 'd chunk_tx \<Rightarrow> 'd chunk_tx result" where
  "start_chunk i t =
     res_bind (push [Some i] (transactionIds t)) (\<lambda>l. Inr (t\<lparr>transactionIds := list_advance l\<rparr>))"

text \<open>The ID of the next chunk: the interval is added to the nanoseconds, without a carry.\<close>

definition next_chunk_id :: "long \<Rightarrow> tx_id \<Rightarrow> tx_id result" where
  "next_chunk_id d i =
     (case validStart i of
        None \<Rightarrow> undef_error
      | Some v \<Rightarrow>
          Inr (new_tx_id (accountId i) (Some \<lparr>seconds = seconds v, nanos = nanos v + d\<rparr>) False None))"

text \<open>
  The loop both classes share: \<open>data k c\<close> is what \<open>_makeTransactionData\<close> returns for chunk \<open>k\<close>
  when the cursor of the IDs is \<open>c\<close>.
\<close>

fun chunk_loop ::
    "(account_id, tx_id, 'd) proto_lib \<Rightarrow> long \<Rightarrow> (nat \<Rightarrow> nat option \<Rightarrow> 'd) \<Rightarrow> nat \<Rightarrow> nat \<Rightarrow> tx_id
     \<Rightarrow> 'd chunk_tx \<Rightarrow> 'd chunk_tx result" where
  "chunk_loop L d data k 0 i t = Inr t"
| "chunk_loop L d data k (Suc m) i t =
     res_bind (start_chunk i t) (\<lambda>t1.
     res_bind (push_row L (items (nodeAccountIds t1))
                 (t1\<lparr>tx_data := data k (cursor (transactionIds t1))\<rparr>)) (\<lambda>t2.
     res_bind (next_chunk_id d i) (\<lambda>i'. chunk_loop L d data (Suc k) m i' t2)))"

definition clear_lists :: "'d chunk_tx \<Rightarrow> 'd chunk_tx" where
  "clear_lists t =
     t\<lparr>transactionIds := clear ((transactionIds t)\<lparr>locked := False\<rparr>),
       transactions := clear (transactions t), signedTransactions := clear (signedTransactions t)\<rparr>"

definition close_ids :: "'d chunk_tx \<Rightarrow> 'd chunk_tx" where
  "close_ids t = t\<lparr>transactionIds := list_advance (transactionIds t)\<rparr>"

section \<open>Appending to a file\<close>

record 'fid append_body =
  ab_fileID :: "'fid option"
  ab_contents :: "byte list option"

record 'fid file_append =
  fa_tx :: "'fid append_body chunk_tx"
  fa_fileId :: "'fid option"
  fa_contents :: "byte list option"
  fa_maxChunks :: nat
  fa_chunkSize :: nat
  fa_chunkInterval :: int

definition new_file_append :: "'fid file_append" where
  "new_file_append =
     \<lparr>fa_tx = (new_tx \<lparr>ab_fileID = None, ab_contents = None\<rparr>)\<lparr>defaultMaxFee := 500000000\<rparr>,
      fa_fileId = None, fa_contents = None, fa_maxChunks = 20, fa_chunkSize = 4096,
      fa_chunkInterval = 10\<rparr>"

definition setFileId :: "'fid \<Rightarrow> 'fid file_append \<Rightarrow> 'fid file_append result" where
  "setFileId i f = res_bind (requireNotFrozen (fa_tx f)) (\<lambda>_. Inr (f\<lparr>fa_fileId := Some i\<rparr>))"

definition fa_setContents :: "byte list \<Rightarrow> 'fid file_append \<Rightarrow> 'fid file_append result" where
  "fa_setContents bs f = res_bind (requireNotFrozen (fa_tx f)) (\<lambda>_. Inr (f\<lparr>fa_contents := Some bs\<rparr>))"

definition fa_setMaxChunks :: "nat \<Rightarrow> 'fid file_append \<Rightarrow> 'fid file_append result" where
  "fa_setMaxChunks m f = res_bind (requireNotFrozen (fa_tx f)) (\<lambda>_. Inr (f\<lparr>fa_maxChunks := m\<rparr>))"

definition fa_setChunkSize :: "nat \<Rightarrow> 'fid file_append \<Rightarrow> 'fid file_append" where
  "fa_setChunkSize m f = f\<lparr>fa_chunkSize := m\<rparr>"

definition fa_setChunkInterval :: "int \<Rightarrow> 'fid file_append \<Rightarrow> 'fid file_append" where
  "fa_setChunkInterval d f = f\<lparr>fa_chunkInterval := d\<rparr>"

text \<open>
  The number of chunks; \<open>None\<close> is infinity, from a chunk size of 0. The quotient of 0 by 0 is
  \<open>NaN\<close>, which every comparison treats like 0 here.
\<close>

definition getRequiredChunks :: "'fid file_append \<Rightarrow> nat option" where
  "getRequiredChunks f =
     (case fa_contents f of
        None \<Rightarrow> Some 1
      | Some c \<Rightarrow> if fa_chunkSize f = 0 then (if c = [] then Some 0 else None)
                  else Some (ceil_div (length c) (fa_chunkSize f)))"

definition too_many_chunks :: "'fid file_append \<Rightarrow> bool" where
  "too_many_chunks f \<longleftrightarrow>
     fa_maxChunks f \<noteq> 0 \<and>
     (case getRequiredChunks f of None \<Rightarrow> True | Some r \<Rightarrow> r > fa_maxChunks f)"

text \<open>The bytes of the row the cursor is at; an index that is \<open>NaN\<close> takes an empty slice.\<close>

definition fa_makeTransactionData :: "'fid file_append \<Rightarrow> nat option \<Rightarrow> 'fid append_body" where
  "fa_makeTransactionData f index =
     (let len = (case fa_contents f of None \<Rightarrow> 0 | Some c \<Rightarrow> length c)
      in \<lparr>ab_fileID = fa_fileId f,
          ab_contents =
            map_option (\<lambda>c. case index of
                None \<Rightarrow> []
              | Some i \<Rightarrow> slice (i * fa_chunkSize f) (min (i * fa_chunkSize f + fa_chunkSize f) len) c)
              (fa_contents f)\<rparr>)"

definition fa_sync :: "'fid file_append \<Rightarrow> 'fid append_body chunk_tx" where
  "fa_sync f = (fa_tx f)\<lparr>tx_data := fa_makeTransactionData f (cursor (transactionIds (fa_tx f)))\<rparr>"

text \<open>\<open>None\<close> means that the loop over infinitely many chunks does not end.\<close>

definition fa_freezeWith ::
    "long_lib \<Rightarrow> (account_id, tx_id, 'fid append_body) proto_lib \<Rightarrow> (account_id \<Rightarrow> tx_id)
     \<Rightarrow> (account_id, tx_id) freeze_client option \<Rightarrow> 'fid file_append \<Rightarrow> 'fid file_append result option" where
  "fa_freezeWith N L gen client f =
     (case freezeWith L gen client (fa_sync f) of
        Inl e \<Rightarrow> Some (Inl e)
      | Inr t \<Rightarrow>
          if fa_contents f = None then Some (Inr (f\<lparr>fa_tx := t\<rparr>))
          else
            (case current_transactionId t of
               Inl e \<Rightarrow> Some (Inl e)
             | Inr (i, t1) \<Rightarrow>
                 (case getRequiredChunks f of
                    None \<Rightarrow> None
                  | Some m \<Rightarrow>
                      Some (res_bind
                        (chunk_loop L (fromNumber N (fa_chunkInterval f)) (\<lambda>k. fa_makeTransactionData f)
                           0 m i (clear_lists t1)) (\<lambda>t2.
                        let t3 = close_ids t2
                        in Inr (f\<lparr>fa_tx := t3\<lparr>transactionIds := setLocked (transactionIds t3)\<rparr>\<rparr>))))))"

definition fa_schedule_check :: "'fid file_append \<Rightarrow> unit result" where
  "fa_schedule_check f =
     res_bind (requireNotFrozen (fa_tx f)) (\<lambda>_.
       case fa_contents f of
         None \<Rightarrow> Inr ()
       | Some c \<Rightarrow>
           if length c > fa_chunkSize f
           then Inl (Error ''cannot schedule `FileAppendTransaction` with message over chunk size bytes'')
           else Inr ())"

definition fa_buildAllTransactions ::
    "(account_id, tx_id, 'fid append_body) proto_lib \<Rightarrow> 'fid file_append \<Rightarrow> 'fid file_append result" where
  "fa_buildAllTransactions L f =
     (if too_many_chunks f
      then Inl (Error ''cannot build `FileAppendTransaction` with more than the maximum number of chunks'')
      else res_bind (buildAllTransactions L (fa_tx f)) (\<lambda>t. Inr (f\<lparr>fa_tx := t\<rparr>)))"

section \<open>Incomplete file transactions\<close>

text \<open>
  Before freezing, a row per chunk is pushed to \<open>_transactions\<close>; without nodes a row is one
  transaction for no node. The account is the one of the ID that is set, or 0.0.0.
\<close>

fun push_incomplete ::
    "(account_id, tx_id, 'd) proto_lib \<Rightarrow> account_id option list \<Rightarrow> 'd chunk_tx \<Rightarrow> 'd chunk_tx result" where
  "push_incomplete L [] t = Inr t"
| "push_incomplete L (n # ns) t =
     res_bind (push [Some (Incomplete (makeSignedTransaction L n t))] (transactions t)) (\<lambda>l.
       push_incomplete L ns (t\<lparr>transactions := l\<rparr>))"

fun incomplete_loop ::
    "(account_id, tx_id, 'd) proto_lib \<Rightarrow> (nat \<Rightarrow> tx_id) \<Rightarrow> (nat option \<Rightarrow> 'd) \<Rightarrow> nat \<Rightarrow> nat
     \<Rightarrow> 'd chunk_tx \<Rightarrow> 'd chunk_tx result" where
  "incomplete_loop L ids data k 0 t = Inr t"
| "incomplete_loop L ids data k (Suc m) t =
     res_bind (start_chunk (ids k) t) (\<lambda>t1.
     res_bind (push_incomplete L (if items (nodeAccountIds t1) = [] then [None] else items (nodeAccountIds t1))
                 (t1\<lparr>tx_data := data (cursor (transactionIds t1))\<rparr>)) (\<lambda>t2.
       incomplete_loop L ids data (Suc k) m t2))"

definition fa_buildIncompleteTransactions ::
    "long_lib \<Rightarrow> timestamp \<Rightarrow> (account_id, tx_id, 'fid append_body) proto_lib \<Rightarrow> 'fid file_append
     \<Rightarrow> 'fid file_append result option" where
  "fa_buildIncompleteTransactions N now L f =
     (let (cur, t1) = get_transactionId (fa_tx f);
          acc = (case cur of Some i \<Rightarrow> (case accountId i of Some a \<Rightarrow> a
                                       | None \<Rightarrow> \<lparr>acc_id = \<lparr>shard = 0, realm = 0, num = 0\<rparr>, aliasKey = None,
                                                   evmAddress = None, acc_checksum = None\<rparr>)
                 | None \<Rightarrow> \<lparr>acc_id = \<lparr>shard = 0, realm = 0, num = 0\<rparr>, aliasKey = None,
                            evmAddress = None, acc_checksum = None\<rparr>);
          start = (case cur of Some i \<Rightarrow> (case validStart i of Some v \<Rightarrow> v | None \<Rightarrow> now) | None \<Rightarrow> now);
          ids = (\<lambda>k. withValidStart acc (plusNanos start (fromNumber N (fa_chunkInterval f * int k))))
      in if too_many_chunks f
         then Some (Inl (Error ''cannot build `FileAppendTransaction` with more than the maximum number of chunks''))
         else (case getRequiredChunks f of
                 None \<Rightarrow> None
               | Some m \<Rightarrow>
                   Some (res_bind (incomplete_loop L ids (fa_makeTransactionData f) 0 m (clear_lists t1)) (\<lambda>t2.
                     let t3 = close_ids t2
                     in Inr (f\<lparr>fa_tx := t3\<lparr>transactionIds := setLocked (transactionIds t3)\<rparr>\<rparr>)))))"

section \<open>Submitting a message\<close>

record chunk_info =
  ci_initialTransactionID :: tx_id_message
  ci_total :: nat
  ci_number :: nat

record 'top submit_body =
  sb_topicID :: "'top option"
  sb_message :: "byte list option"
  sb_chunkInfo :: "chunk_info option"

record 'top topic_submit =
  tm_tx :: "'top submit_body chunk_tx"
  tm_topicId :: "'top option"
  tm_message :: "byte list option"
  tm_maxChunks :: nat
  tm_chunkSize :: nat
  tm_chunkInfo :: "chunk_info option"

definition new_topic_submit :: "'top topic_submit" where
  "new_topic_submit =
     \<lparr>tm_tx = new_tx \<lparr>sb_topicID = None, sb_message = None, sb_chunkInfo = None\<rparr>, tm_topicId = None,
      tm_message = None, tm_maxChunks = 20, tm_chunkSize = 1024, tm_chunkInfo = None\<rparr>"

definition setTopicId :: "'top \<Rightarrow> 'top topic_submit \<Rightarrow> 'top topic_submit result" where
  "setTopicId i m = res_bind (requireNotFrozen (tm_tx m)) (\<lambda>_. Inr (m\<lparr>tm_topicId := Some i\<rparr>))"

definition setMessage :: "byte list \<Rightarrow> 'top topic_submit \<Rightarrow> 'top topic_submit result" where
  "setMessage bs m = res_bind (requireNotFrozen (tm_tx m)) (\<lambda>_. Inr (m\<lparr>tm_message := Some bs\<rparr>))"

definition tm_setMaxChunks :: "nat \<Rightarrow> 'top topic_submit \<Rightarrow> 'top topic_submit result" where
  "tm_setMaxChunks n m = res_bind (requireNotFrozen (tm_tx m)) (\<lambda>_. Inr (m\<lparr>tm_maxChunks := n\<rparr>))"

definition tm_setChunkSize :: "nat \<Rightarrow> 'top topic_submit \<Rightarrow> 'top topic_submit" where
  "tm_setChunkSize n m = m\<lparr>tm_chunkSize := n\<rparr>"

definition tm_makeTransactionData :: "'top topic_submit \<Rightarrow> 'top submit_body" where
  "tm_makeTransactionData m =
     (case (tm_chunkInfo m, tm_message m) of
        (Some ci, Some msg) \<Rightarrow>
          let a = (ci_number ci - 1) * tm_chunkSize m; b = a + tm_chunkSize m
          in \<lparr>sb_topicID = tm_topicId m,
              sb_message = Some (slice a (if b > length msg then length msg else b) msg),
              sb_chunkInfo = Some ci\<rparr>
      | _ \<Rightarrow> \<lparr>sb_topicID = tm_topicId m, sb_message = tm_message m, sb_chunkInfo = None\<rparr>)"

text \<open>
  A chunk size of 0 makes the quotient infinite, \<open>NaN\<close> or negative infinity: more than any maximum for
  a message of two bytes or more, otherwise no chunk.
\<close>

definition tm_chunks :: "'top topic_submit \<Rightarrow> nat option" where
  "tm_chunks m =
     (case tm_message m of
        None \<Rightarrow> Some 0
      | Some msg \<Rightarrow> if tm_chunkSize m = 0 then (if 2 \<le> length msg then None else Some 0)
                    else Some ((length msg + (tm_chunkSize m - 1)) div tm_chunkSize m))"

definition tm_chunk :: "tx_id_message \<Rightarrow> nat \<Rightarrow> 'top topic_submit \<Rightarrow> nat \<Rightarrow> 'top submit_body" where
  "tm_chunk init nchunks m k =
     tm_makeTransactionData
       (m\<lparr>tm_chunkInfo := Some \<lparr>ci_initialTransactionID = init, ci_total = nchunks, ci_number = k + 1\<rparr>\<rparr>)"

definition tm_freezeWith ::
    "long_lib \<Rightarrow> key_codec \<Rightarrow> (account_id, tx_id, 'top submit_body) proto_lib \<Rightarrow> (account_id \<Rightarrow> tx_id)
     \<Rightarrow> (account_id, tx_id) freeze_client option \<Rightarrow> 'top topic_submit \<Rightarrow> 'top topic_submit result" where
  "tm_freezeWith N K L gen client m =
     res_bind (freezeWith L gen client ((tm_tx m)\<lparr>tx_data := tm_makeTransactionData m\<rparr>)) (\<lambda>t.
       if tm_message m = None then Inr (m\<lparr>tm_tx := t\<rparr>)
       else
         (let over = Inl (Error ''Message too long for the maximum number of chunks'')
          in case tm_chunks m of
               None \<Rightarrow> over
             | Some nchunks \<Rightarrow>
                 if nchunks > tm_maxChunks m then over
                 else
                   res_bind (current_transactionId t) (\<lambda>(i, t1).
                   res_bind (chunk_loop L (fromNumber N 1)
                               (\<lambda>k c. tm_chunk (tx_id_toProtobuf K i) nchunks m k)
                               0 nchunks i (clear_lists t1)) (\<lambda>t2.
                     Inr (m\<lparr>tm_tx := close_ids t2, tm_chunkInfo := None\<rparr>)))))"

definition tm_schedule_check :: "'top topic_submit \<Rightarrow> unit result" where
  "tm_schedule_check m =
     res_bind (requireNotFrozen (tm_tx m)) (\<lambda>_.
       case tm_message m of
         None \<Rightarrow> Inr ()
       | Some msg \<Rightarrow>
           if length msg > tm_chunkSize m
           then Inl (Error ''cannot schedule `TopicMessageSubmitTransaction` with message over chunk size bytes'')
           else Inr ())"

section \<open>Executing all chunks\<close>

text \<open>
  The requests of a chunked transaction are those of the base class; with signing on demand a body
  is made for each request, from the chunk the cursor is at.
\<close>

definition chunk_ops ::
    "(account_id, tx_id, 'd) proto_lib \<Rightarrow> (account_id \<Rightarrow> tx_id) \<Rightarrow> (nat option \<Rightarrow> 'd)
     \<Rightarrow> (account_id, 'd chunk_tx, proto_tx option, nat option, (account_id, tx_id) tx_response) request_ops" where
  "chunk_ops L gen data =
     (tx_ops L gen)\<lparr>makeRequest := (\<lambda>l t.
        makeRequest (tx_ops L gen) l (t\<lparr>tx_data := data (cursor (transactionIds t))\<rparr>))\<rparr>"

definition lift_before ::
    "(account_id, tx_id, 'd) proto_lib \<Rightarrow> (account_id \<Rightarrow> tx_id) \<Rightarrow> (account_id, tx_id) freeze_client
     \<Rightarrow> ('d chunk_tx \<Rightarrow> unit result) \<Rightarrow> (account_id, 'ch, 'd chunk_tx, 'req) exec
     \<Rightarrow> (account_id, 'ch, 'd chunk_tx, 'req) exec result" where
  "lift_before L gen c check S =
     res_bind (tx_beforeExecute L gen c check ((x_sub S)\<lparr>nodeAccountIds := x_nodes S\<rparr>)) (\<lambda>t.
       Inr (S\<lparr>x_sub := t, x_nodes := nodeAccountIds t\<rparr>))"

text \<open>
  What one round of the loop sees: the clock before and after, and the attempts of its execution.
  The traces of the rounds are collected one by one. The number of IDs, over which the source
  loops, is read once: an execution does not change it. \<open>receipt\<close> stands for waiting for the receipt
  of a response.
\<close>

record 'resp round_env =
  round_start :: rat
  round_end :: rat
  round_env :: "nat \<Rightarrow> 'resp attempt_env"

fun run_rows ::
    "('acc, 'ch) client \<Rightarrow> ('acc, 'st, 'req, 'resp, 'out) request_ops
     \<Rightarrow> (('acc, 'ch, 'st, 'req) exec \<Rightarrow> ('acc, 'ch, 'st, 'req) exec result)
     \<Rightarrow> (nat \<Rightarrow> 'out \<Rightarrow> unit result) \<Rightarrow> (nat \<Rightarrow> 'resp round_env) \<Rightarrow> rat option \<Rightarrow> nat \<Rightarrow> nat
     \<Rightarrow> ('acc, 'ch, 'st, 'req) exec
     \<Rightarrow> 'out list result \<times> ('acc, 'ch, 'st, 'req) exec \<times> ('acc, 'st, 'req) call list list" where
  "run_rows C P before receipt rounds timeout i 0 S = (Inr [], S, [])"
| "run_rows C P before receipt rounds timeout i (Suc m) S =
     (case execute C P before timeout (round_start (rounds i)) (round_env (rounds i))
             (S\<lparr>calls := [], delays := []\<rparr>) of
        (Inl e, S1) \<Rightarrow> (Inl e, S1, [calls S1])
      | (Inr out, S1) \<Rightarrow>
          (case receipt i out of
             Inl e \<Rightarrow> (Inl e, S1, [calls S1])
           | Inr _ \<Rightarrow>
               let timeout' = (case timeout of None \<Rightarrow> None
                               | Some _ \<Rightarrow> Some (round_end (rounds i) - round_start (rounds i)));
                   (r, S2, cs) = run_rows C P before receipt rounds timeout' (Suc i) m S1
               in (res_bind r (\<lambda>outs. Inr (out # outs)), S2, calls S1 # cs)))"

text \<open>\<open>operatorAccountId.equals(transactionId.accountId)\<close>, for an ID that has an account.\<close>

definition operator_pays :: "(account_id, tx_id) freeze_client \<Rightarrow> tx_id \<Rightarrow> bool" where
  "operator_pays c i =
     (case (fc_operator c, accountId i) of
        (Some op, Some a) \<Rightarrow> account_equals (op_account op) a
      | _ \<Rightarrow> False)"

definition fa_executeAll ::
    "(account_id, 'ch) client \<Rightarrow> long_lib \<Rightarrow> (account_id, tx_id, 'fid append_body) proto_lib
     \<Rightarrow> (account_id \<Rightarrow> tx_id) \<Rightarrow> (account_id, tx_id) freeze_client
     \<Rightarrow> ('fid append_body chunk_tx \<Rightarrow> unit result)
     \<Rightarrow> (nat \<Rightarrow> (account_id, tx_id) tx_response \<Rightarrow> unit result) \<Rightarrow> (nat \<Rightarrow> nat option round_env)
     \<Rightarrow> rat option \<Rightarrow> (account_id, 'ch, 'fid append_body chunk_tx, proto_tx option) exec
     \<Rightarrow> 'fid file_append
     \<Rightarrow> ((account_id, tx_id) tx_response list result \<times> 'fid file_append \<times>
         (account_id, 'fid append_body chunk_tx, proto_tx option) call list list) option" where
  "fa_executeAll C N L gen c check receipt rounds timeout S f =
     (if too_many_chunks f
      then Some (Inl (Error ''cannot execute `FileAppendTransaction` with more than the maximum number of chunks''), f, [])
      else
        (case (if isFrozen (fa_tx f) then Some (Inr f) else fa_freezeWith N L gen (Some c) f) of
           None \<Rightarrow> None
         | Some (Inl e) \<Rightarrow> Some (Inl e, f, [])
         | Some (Inr f1) \<Rightarrow>
             (case current_transactionId (fa_tx f1) of
                Inl e \<Rightarrow> Some (Inl e, f1, [])
              | Inr (i, t1) \<Rightarrow>
                  (case (if operator_pays c i then signWithOperator L gen c t1 else Inr t1) of
                     Inl e \<Rightarrow> Some (Inl e, f1, [])
                   | Inr t2 \<Rightarrow>
                       let (r, S', cs) =
                         run_rows C (chunk_ops L gen (fa_makeTransactionData f1)) (lift_before L gen c check)
                           receipt rounds timeout 0 (list_length (transactionIds t2))
                           (S\<lparr>x_sub := t2, x_nodes := nodeAccountIds t2\<rparr>)
                       in Some (r, f1\<lparr>fa_tx := (x_sub S')\<lparr>nodeAccountIds := x_nodes S'\<rparr>\<rparr>, cs)))))"

definition tm_executeAll ::
    "(account_id, 'ch) client \<Rightarrow> long_lib \<Rightarrow> key_codec \<Rightarrow> (account_id, tx_id, 'top submit_body) proto_lib
     \<Rightarrow> (account_id \<Rightarrow> tx_id) \<Rightarrow> (account_id, tx_id) freeze_client
     \<Rightarrow> ('top submit_body chunk_tx \<Rightarrow> unit result) \<Rightarrow> (nat \<Rightarrow> nat option round_env)
     \<Rightarrow> rat option \<Rightarrow> (account_id, 'ch, 'top submit_body chunk_tx, proto_tx option) exec
     \<Rightarrow> 'top topic_submit \<Rightarrow> (account_id, tx_id) tx_response list result \<times> 'top topic_submit \<times>
         (account_id, 'top submit_body chunk_tx, proto_tx option) call list list" where
  "tm_executeAll C N K L gen c check rounds timeout S m =
     (case (if isFrozen (tm_tx m) then Inr m else tm_freezeWith N K L gen (Some c) m) of
        Inl e \<Rightarrow> (Inl e, m, [])
      | Inr m1 \<Rightarrow>
          (case current_transactionId (tm_tx m1) of
             Inl e \<Rightarrow> (Inl e, m1, [])
           | Inr (i, t1) \<Rightarrow>
               (case (if operator_pays c i then signWithOperator L gen c t1 else Inr t1) of
                  Inl e \<Rightarrow> (Inl e, m1, [])
                | Inr t2 \<Rightarrow>
                    let (r, S', cs) =
                      run_rows C (chunk_ops L gen (\<lambda>_. tm_makeTransactionData m1)) (lift_before L gen c check)
                        (\<lambda>_ _. Inr ()) rounds timeout 0 (list_length (transactionIds t2))
                        (S\<lparr>x_sub := t2, x_nodes := nodeAccountIds t2\<rparr>)
                    in (r, m1\<lparr>tm_tx := (x_sub S')\<lparr>nodeAccountIds := x_nodes S'\<rparr>\<rparr>, cs))))"

section \<open>Reading back\<close>

text \<open>
  A file transaction read from bytes takes its contents from the first body of each row and its
  settings from the shape of the table. The bodies without contents end the loop.
\<close>

fun gather_contents :: "nat \<Rightarrow> 'fid append_body list \<Rightarrow> byte list option \<Rightarrow> byte list option" where
  "gather_contents step [] acc = acc"
| "gather_contents step (b # bs) acc =
     (case ab_contents b of
        None \<Rightarrow> acc
      | Some c \<Rightarrow>
          gather_contents step (drop (step - 1) bs)
            (Some (case acc of None \<Rightarrow> c | Some a \<Rightarrow> a @ c)))"

text \<open>
  The chunk size is the length of the first chunk, unless that is missing or empty; the number of rows
  may be a fraction, so only whole tables are read here. \<open>toNumber\<close> of the difference of the
  nanoseconds is its signed value.
\<close>

definition fa_fromProtobuf ::
    "'fid append_body list \<Rightarrow> tx_id list \<Rightarrow> nat \<Rightarrow> 'fid file_append result" where
  "fa_fromProtobuf bodies tids nnodes =
     (case bodies of
        [] \<Rightarrow> undef_error
      | body # _ \<Rightarrow>
          let inc = (if nnodes > 0 then nnodes else 1);
              contents = gather_contents inc bodies None;
              chunkSize = (case ab_contents body of None \<Rightarrow> None
                           | Some c \<Rightarrow> if length c = 0 then None else Some (length c));
              interval = (case tids of
                  i # j # _ \<Rightarrow> (case (validStart i, validStart j) of
                                 (Some v, Some w) \<Rightarrow> Some (sint (nanos w - nanos v)) | _ \<Rightarrow> None)
                | _ \<Rightarrow> None)
          in Inr (new_file_append\<lparr>fa_fileId := ab_fileID body, fa_contents := contents,
                    fa_maxChunks := length bodies div inc,
                    fa_chunkSize := (case chunkSize of Some s \<Rightarrow> s | None \<Rightarrow> 4096),
                    fa_chunkInterval := (case interval of Some d \<Rightarrow> d | None \<Rightarrow> 10)\<rparr>))"

definition tm_fromProtobuf :: "'top submit_body list \<Rightarrow> 'top topic_submit result" where
  "tm_fromProtobuf bodies =
     (case bodies of
        [] \<Rightarrow> undef_error
      | body # _ \<Rightarrow> Inr (new_topic_submit\<lparr>tm_topicId := sb_topicID body, tm_message := sb_message body\<rparr>))"

end
