(* ===== verification/ChunkLaws.thy ===== *)
theory ChunkLaws
  imports Chunked TxLaws
begin

text \<open>
  What holds of chunked transactions: the table that freezing builds, its contents, and the order in
  which executing all chunks sends them.
\<close>

section \<open>The table\<close>

text \<open>The ID of chunk \<open>k\<close>, from the first ID and its valid start.\<close>

definition chunk_id :: "long \<Rightarrow> timestamp \<Rightarrow> tx_id \<Rightarrow> nat \<Rightarrow> tx_id" where
  "chunk_id d v i k =
     (if k = 0 then i
      else new_tx_id (accountId i) (Some \<lparr>seconds = seconds v, nanos = nanos v + of_nat k * d\<rparr>) False None)"

lemma next_chunk_id_step:
  "validStart i = Some v \<Longrightarrow> next_chunk_id d (chunk_id d v i k) = Inr (chunk_id d v i (Suc k))"
  by (simp add: next_chunk_id_def chunk_id_def new_tx_id_def algebra_simps)

definition chunk_body ::
    "long \<Rightarrow> timestamp \<Rightarrow> tx_id \<Rightarrow> (nat \<Rightarrow> nat option \<Rightarrow> 'd) \<Rightarrow> 'd chunk_tx \<Rightarrow> nat \<Rightarrow> account_id option
     \<Rightarrow> (account_id, tx_id, 'd) tx_body" where
  "chunk_body d v i data t k n =
     \<lparr>b_data = data k (Some k), b_fee = maxFee t, b_memo = memo t, b_tid = Some (chunk_id d v i k),
      b_node = n, b_duration = Some (validDuration t)\<rparr>"

definition chunk_row ::
    "(account_id, tx_id, 'd) proto_lib \<Rightarrow> long \<Rightarrow> timestamp \<Rightarrow> tx_id \<Rightarrow> (nat \<Rightarrow> nat option \<Rightarrow> 'd)
     \<Rightarrow> 'd chunk_tx \<Rightarrow> nat \<Rightarrow> signed_tx option list" where
  "chunk_row L d v i data t k =
     map (\<lambda>n. Some \<lparr>sigPairs = Some [], bodyBytes = encBody L (chunk_body d v i data t k n)\<rparr>)
       (items (nodeAccountIds t))"

lemma push_row_ok:
  "\<not> locked (signedTransactions t) \<Longrightarrow>
   push_row L ns t = Inr (t\<lparr>signedTransactions := (signedTransactions t)
     \<lparr>items := items (signedTransactions t) @ map (\<lambda>n. Some (makeSignedTransaction L n t)) ns\<rparr>\<rparr>)"
proof (induction ns arbitrary: t)
  case Nil
  then show ?case by simp
next
  case (Cons n ns)
  have "makeSignedTransaction L n' (t\<lparr>signedTransactions := l\<rparr>) = makeSignedTransaction L n' t" for n' l
    by (simp add: makeSignedTransaction_def makeTransactionBody_def)
  with Cons show ?case by (simp add: push_def)
qed

lemma start_chunk_ok:
  assumes "\<not> locked (transactionIds t)" and "length (items (transactionIds t)) = k"
    and "cursor (transactionIds t) = Some (k - 1)"
  shows "start_chunk i t = Inr (t\<lparr>transactionIds := (transactionIds t)
           \<lparr>items := items (transactionIds t) @ [Some i], cursor := Some k\<rparr>\<rparr>)"
  using assms by (cases k) (simp_all add: start_chunk_def push_def list_advance_def)

text \<open>The table after \<open>k\<close> rows.\<close>

definition rows_done ::
    "(account_id, tx_id, 'd) proto_lib \<Rightarrow> long \<Rightarrow> timestamp \<Rightarrow> tx_id \<Rightarrow> (nat \<Rightarrow> nat option \<Rightarrow> 'd)
     \<Rightarrow> 'd chunk_tx \<Rightarrow> nat \<Rightarrow> 'd chunk_tx" where
  "rows_done L d v i data t k =
     t\<lparr>transactionIds := \<lparr>items = map (\<lambda>k. Some (chunk_id d v i k)) [0..<k], locked = False,
                          cursor = Some (k - 1)\<rparr>,
       signedTransactions := (signedTransactions t)
         \<lparr>items := concat (map (chunk_row L d v i data t) [0..<k])\<rparr>,
       tx_data := (if k = 0 then tx_data t else data (k - 1) (Some (k - 1)))\<rparr>"

lemma rows_done_step:
  assumes "\<not> locked (signedTransactions t)" and "validStart i = Some v"
  shows "chunk_loop L d data k (Suc m) (chunk_id d v i k) (rows_done L d v i data t k) =
         chunk_loop L d data (Suc k) m (chunk_id d v i (Suc k)) (rows_done L d v i data t (Suc k))"
proof -
  let ?t = "rows_done L d v i data t k"
  let ?t1 = "?t\<lparr>transactionIds := (transactionIds ?t)
    \<lparr>items := items (transactionIds ?t) @ [Some (chunk_id d v i k)], cursor := Some k\<rparr>\<rparr>"
  let ?t2 = "?t1\<lparr>tx_data := data k (Some k)\<rparr>"
  have s: "start_chunk (chunk_id d v i k) ?t = Inr ?t1"
    by (rule start_chunk_ok) (simp_all add: rows_done_def)
  have made: "makeSignedTransaction L n ?t2 =
      \<lparr>sigPairs = Some [], bodyBytes = encBody L (chunk_body d v i data t k n)\<rparr>" for n
    by (simp add: makeSignedTransaction_def makeTransactionBody_def chunk_body_def rows_done_def
        list_current_def list_get_def array_get_def nth_append)
  have r: "push_row L (items (nodeAccountIds t)) ?t2 = Inr (rows_done L d v i data t (Suc k))"
    using assms(1) by (subst push_row_ok) (simp_all only: made, simp_all add: rows_done_def chunk_row_def)
  have c: "cursor (transactionIds ?t1) = Some k" "nodeAccountIds ?t1 = nodeAccountIds t"
    by (simp_all add: rows_done_def)
  show ?thesis
    using next_chunk_id_step[OF assms(2), of d k]
    by (simp only: chunk_loop.simps s res_bind_simps c r)
qed

lemma chunk_loop_ok:
  assumes "\<not> locked (signedTransactions t)" and "validStart i = Some v"
  shows "chunk_loop L d data k m (chunk_id d v i k) (rows_done L d v i data t k) =
         Inr (rows_done L d v i data t (k + m))"
proof (induction m arbitrary: k)
  case 0
  then show ?case by simp
next
  case (Suc m)
  then show ?case unfolding rows_done_step[OF assms] by simp
qed

section \<open>Rows of one length\<close>

lemma length_concat_rows:
  "(\<And>k. length (row k) = n) \<Longrightarrow> length (concat (map row [0..<m])) = m * n"
  by (induction m) simp_all

lemma nth_concat_rows:
  assumes "\<And>k. length (row k) = n" and "k < m" and "j < n"
  shows "concat (map row [0..<m]) ! (k * n + j) = row k ! j"
  using assms(2)
proof (induction m)
  case 0
  then show ?case by simp
next
  case (Suc m)
  have len: "length (concat (map row [0..<m])) = m * n" by (rule length_concat_rows[OF assms(1)])
  show ?case
  proof (cases "k = m")
    case True
    then show ?thesis by (simp add: nth_append len)
  next
    case False
    with Suc.prems have "k < m" by simp
    then have "Suc k * n \<le> m * n" by (intro mult_le_mono1) simp
    with assms(3) have "k * n + j < m * n" by simp
    with Suc.IH[OF \<open>k < m\<close>] show ?thesis by (simp add: nth_append len)
  qed
qed

lemma slice_min: "slice a (min b (length xs)) xs = slice a b xs"
  by (cases "b \<le> length xs") (simp_all add: slice_def min_def)

definition piece :: "nat \<Rightarrow> byte list \<Rightarrow> nat \<Rightarrow> byte list" where
  "piece n c k = slice (k * n) (k * n + n) c"

lemma pieces_join: "0 < n \<Longrightarrow> concat (map (piece n c) [0..<ceil_div (length c) n]) = c"
  using concat_chunks[of n c] by (simp add: piece_def[abs_def])

lemma piece_length:
  "0 < n \<Longrightarrow> k < ceil_div (length c) n \<Longrightarrow> 0 < length (piece n c k) \<and> length (piece n c k) \<le> n"
  using ceil_div_last[of n k "length c"] by (simp add: piece_def)

section \<open>Freezing\<close>

lemma freezeWith_unlocked:
  assumes "freezeWith L gen client t = Inr t'" and "\<not> locked (signedTransactions t)"
  shows "\<not> locked (signedTransactions t') \<and> transactions t' = transactions t \<and>
    signOnDemand t' = (case client of None \<Rightarrow> False | Some c \<Rightarrow> fc_signOnDemand c) \<and>
    (items (nodeAccountIds t) \<noteq> [] \<longrightarrow> nodeAccountIds t' = nodeAccountIds t)"
proof -
  obtain t1 where t1: "setNodeAccountIds_client client (freeze_settings client t) = Inr t1"
    and t': "(if signOnDemand (buildNewTransactionIdList gen t1) then Inr (buildNewTransactionIdList gen t1)
      else buildSignedTransactions L (buildNewTransactionIdList gen t1)) = Inr t'"
    using freezeWith_cases[OF assms(1)] by blast
  have "\<not> locked (signedTransactions t1)" "transactions t1 = transactions t"
    "signOnDemand t1 = (case client of None \<Rightarrow> False | Some c \<Rightarrow> fc_signOnDemand c)"
    "items (nodeAccountIds t) \<noteq> [] \<longrightarrow> nodeAccountIds t1 = nodeAccountIds t"
    using setNodeAccountIds_client_frame(1,2,4)[OF t1] assms(2) t1
    by (auto simp: freeze_settings_def setNodeAccountIds_client_def list_isEmpty_def list_length_def)
  with t' show ?thesis by (auto simp: buildSignedTransactions_def setList_def split: if_splits)
qed

lemma current_transactionId_cases:
  assumes "current_transactionId t = Inr (i, t1)"
  shows "list_current (transactionIds t) = Some i \<and> t1 = t\<lparr>transactionIds := setLocked (transactionIds t)\<rparr>"
  using assms by (auto simp: current_transactionId_def get_transactionId_def Let_def list_current_def
      list_get_def setLocked_def
      split: if_splits option.splits)

lemma clear_is_row_0:
  "clear_lists (t\<lparr>transactionIds := l\<rparr>) =
     rows_done L d v i data (t\<lparr>transactionIds := l, transactions := clear (transactions t),
       signedTransactions := clear (signedTransactions t)\<rparr>) 0"
  by (cases l) (simp add: clear_lists_def rows_done_def clear_def)

text \<open>A table of \<open>m\<close> rows as freezing leaves it: the IDs, the cursor and a transaction for each chunk
  and node, not signed yet.\<close>

definition chunk_table ::
    "(account_id, tx_id, 'd) proto_lib \<Rightarrow> (nat \<Rightarrow> 'd) \<Rightarrow> nat \<Rightarrow> 'd chunk_tx \<Rightarrow> bool" where
  "chunk_table L data m t \<longleftrightarrow>
     (let ns = items (nodeAccountIds t); ss = items (signedTransactions t) in
      length (items (transactionIds t)) = m \<and> cursor (transactionIds t) = Some 0 \<and>
      items (transactions t) = [] \<and> length ss = m * length ns \<and>
      (\<forall>k < m. \<forall>j < length ns. \<exists>s b. ss ! (k * length ns + j) = Some s \<and>
          decBody L (bodyBytes s) = Inr b \<and> b_node b = ns ! j \<and>
          b_tid b = items (transactionIds t) ! k \<and> b_data b = data k \<and> sigPairs s \<noteq> None))"

lemma rows_table:
  assumes "proto_ok L" and "0 < m" and "items (transactions t) = []"
  shows "chunk_table L (\<lambda>k. data k (Some k)) m (close_ids (rows_done L d v i data t m))"
proof -
  let ?ns = "items (nodeAccountIds t)"
  have len: "length (chunk_row L d v i data t k) = length ?ns" for k by (simp add: chunk_row_def)
  have dec: "decBody L (encBody L b) = Inr b" for b using assms(1) by (simp add: proto_ok_def)
  note n = length_concat_rows[of "chunk_row L d v i data t", OF len]
    nth_concat_rows[of "chunk_row L d v i data t", OF len]
  show ?thesis
    using assms(2,3)
    by (auto simp: chunk_table_def close_ids_def rows_done_def list_advance_def n chunk_row_def dec chunk_body_def)
qed

lemma chunk_table_lock:
  "chunk_table L data m (t\<lparr>transactionIds := setLocked (transactionIds t)\<rparr>) \<longleftrightarrow> chunk_table L data m t"
  by (simp add: chunk_table_def setLocked_def)

lemma chunk_loop_valid:
  assumes "chunk_loop L d data k m i t = Inr t'" and "0 < m"
  shows "\<exists>v. validStart i = Some v"
  using assms by (cases m) (auto simp: next_chunk_id_def undef_error_def elim!: res_bind_InrE split: option.splits)

lemma first_id:
  "0 < m \<Longrightarrow> list_current (transactionIds (close_ids (rows_done L d v i data t m))) = Some i"
  by (simp add: close_ids_def rows_done_def list_advance_def list_current_def list_get_def array_get_def
      chunk_id_def)

lemma chunk_loop_table:
  assumes "chunk_loop L d data 0 m i (clear_lists (t\<lparr>transactionIds := l\<rparr>)) = Inr t'"
    and "proto_ok L" and "0 < m" and "\<not> locked (signedTransactions t)"
  shows "chunk_table L (\<lambda>k. data k (Some k)) m (close_ids t') \<and> nodeAccountIds t' = nodeAccountIds t \<and>
    signOnDemand t' = signOnDemand t \<and> locked (transactions t') = locked (transactions t) \<and>
    list_current (transactionIds (close_ids t')) = Some i"
proof -
  obtain v where v: "validStart i = Some v" using chunk_loop_valid[OF assms(1,3)] by blast
  let ?t = "t\<lparr>transactionIds := l, transactions := clear (transactions t),
    signedTransactions := clear (signedTransactions t)\<rparr>"
  have "chunk_loop L d data 0 m i (rows_done L d v i data ?t 0) = Inr (rows_done L d v i data ?t m)"
    using chunk_loop_ok[of ?t i v L d data 0 m] v assms(4) by (simp add: chunk_id_def clear_def)
  then have "t' = rows_done L d v i data ?t m"
    using assms(1) by (simp add: clear_is_row_0[where L = L and d = d and v = v and i = i and data = data])
  then show ?thesis
    using rows_table[OF assms(2,3), of ?t] first_id[OF assms(3), of L d v i data ?t]
    by (simp add: clear_def) (simp add: rows_done_def)
qed

lemma list_current_lock: "list_current (setLocked l) = list_current l"
  by (simp add: list_current_def list_get_def setLocked_def split: option.split)

lemma fa_freeze_table:
  assumes "fa_freezeWith N L gen client f = Some (Inr f')" and "fa_contents f = Some c"
    and "c \<noteq> []" and "0 < fa_chunkSize f" and "\<not> locked (signedTransactions (fa_tx f))" and "proto_ok L"
  shows "f' = f\<lparr>fa_tx := fa_tx f'\<rparr> \<and> locked (transactionIds (fa_tx f')) \<and>
    locked (transactions (fa_tx f')) = locked (transactions (fa_tx f)) \<and>
    signOnDemand (fa_tx f') = (case client of None \<Rightarrow> False | Some c \<Rightarrow> fc_signOnDemand c) \<and>
    (items (nodeAccountIds (fa_tx f)) \<noteq> [] \<longrightarrow> nodeAccountIds (fa_tx f') = nodeAccountIds (fa_tx f)) \<and>
    list_current (transactionIds (fa_tx f')) \<noteq> None \<and>
    chunk_table L (\<lambda>k. fa_makeTransactionData f (Some k)) (ceil_div (length c) (fa_chunkSize f)) (fa_tx f')"
proof -
  let ?m = "ceil_div (length c) (fa_chunkSize f)"
  have m: "0 < ?m" using assms(3,4) by (intro ceil_div_pos) simp_all
  obtain t0 where t0: "freezeWith L gen client (fa_sync f) = Inr t0"
    using assms(1) by (auto simp: fa_freezeWith_def split: sum.splits)
  have req: "getRequiredChunks f = Some ?m" using assms(2,4) by (simp add: getRequiredChunks_def)
  obtain i t1 where i: "current_transactionId t0 = Inr (i, t1)"
    using assms(1,2) t0 by (cases "current_transactionId t0") (auto simp: fa_freezeWith_def)
  have t1: "t1 = t0\<lparr>transactionIds := setLocked (transactionIds t0)\<rparr>"
    using current_transactionId_cases[OF i] by simp
  obtain t2 where t2: "chunk_loop L (fromNumber N (fa_chunkInterval f)) (\<lambda>k. fa_makeTransactionData f) 0 ?m i (clear_lists t1) = Inr t2"
    and f': "f' = f\<lparr>fa_tx := (close_ids t2)\<lparr>transactionIds := setLocked (transactionIds (close_ids t2))\<rparr>\<rparr>"
    using assms(1,2) by (auto simp: fa_freezeWith_def t0 i req Let_def elim!: res_bind_InrE)
  have u: "\<not> locked (signedTransactions t0)" "transactions t0 = transactions (fa_tx f)"
    "signOnDemand t0 = (case client of None \<Rightarrow> False | Some c \<Rightarrow> fc_signOnDemand c)"
    "items (nodeAccountIds (fa_tx f)) \<noteq> [] \<longrightarrow> nodeAccountIds t0 = nodeAccountIds (fa_tx f)"
    using freezeWith_unlocked[OF t0] assms(5) by (simp_all add: fa_sync_def)
  note table = chunk_loop_table[OF t2[unfolded t1] assms(6) m u(1)]
  then show ?thesis
    using u(2-4) by (simp add: f' chunk_table_lock list_current_lock) (simp add: close_ids_def setLocked_def)
qed

text \<open>Freezing a file append cuts the contents into pieces of at most the chunk size, none of them
  empty, that joined give the contents again, and leaves a row per piece: for every node a
  transaction, not built yet, whose body decodes to the file, exactly that piece, the ID of the
  row and that node. The cursor of the IDs is back at the first row and the list of IDs is
  locked.\<close>

theorem file_chunks:
  assumes "fa_freezeWith N L gen client f = Some (Inr f')" and "fa_contents f = Some c"
    and "c \<noteq> []" and "0 < fa_chunkSize f" and "\<not> locked (signedTransactions (fa_tx f))" and "proto_ok L"
    and r: "m = ceil_div (length c) (fa_chunkSize f)" "ns = items (nodeAccountIds (fa_tx f'))"
  shows "concat (map (piece (fa_chunkSize f) c) [0..<m]) = c \<and>
    (\<forall>k < m. 0 < length (piece (fa_chunkSize f) c k) \<and> length (piece (fa_chunkSize f) c k) \<le> fa_chunkSize f) \<and>
    length (items (transactionIds (fa_tx f'))) = m \<and> cursor (transactionIds (fa_tx f')) = Some 0 \<and>
    locked (transactionIds (fa_tx f')) \<and> items (transactions (fa_tx f')) = [] \<and>
    length (items (signedTransactions (fa_tx f'))) = m * length ns \<and>
    (\<forall>k < m. \<forall>j < length ns. \<exists>s b.
        items (signedTransactions (fa_tx f')) ! (k * length ns + j) = Some s \<and>
        decBody L (bodyBytes s) = Inr b \<and> b_node b = ns ! j \<and>
        b_tid b = items (transactionIds (fa_tx f')) ! k \<and>
        b_data b = \<lparr>ab_fileID = fa_fileId f, ab_contents = Some (piece (fa_chunkSize f) c k)\<rparr>)"
proof -
  have data: "fa_makeTransactionData f (Some k) =
      \<lparr>ab_fileID = fa_fileId f, ab_contents = Some (piece (fa_chunkSize f) c k)\<rparr>" for k
    using assms(2) by (simp add: fa_makeTransactionData_def piece_def slice_min Let_def)
  show ?thesis
    using fa_freeze_table[OF assms(1-6)] pieces_join[OF assms(4)] piece_length[OF assms(4), of _ c]
    unfolding chunk_table_def Let_def data r by blast
qed

section \<open>Rounds\<close>

text \<open>
  The state between two rounds: the cursor at row \<open>r\<close>, a list of nodes to go round, and a table of
  the bodies \<open>bb\<close>, whatever has been signed.
\<close>

definition bodies_decode ::
    "(account_id, tx_id, 'd) proto_lib \<Rightarrow> account_id option list \<Rightarrow> nat \<Rightarrow> byte list list \<Rightarrow> bool" where
  "bodies_decode L ns rows bb \<longleftrightarrow>
     length bb = rows * length ns \<and>
     (\<forall>k < rows. \<forall>j < length ns. \<exists>b. decBody L (bb ! (k * length ns + j)) = Inr b \<and> b_node b = ns ! j)"

definition chunk_state ::
    "account_id option list \<Rightarrow> nat \<Rightarrow> byte list list \<Rightarrow> nat \<Rightarrow> account_id jslist
     \<Rightarrow> 'd chunk_tx \<Rightarrow> bool" where
  "chunk_state ns rows bb r l t \<longleftrightarrow>
     items l = ns \<and> ready l \<and> \<not> signOnDemand t \<and> \<not> locked (transactions t) \<and>
     cursor (transactionIds t) = Some r \<and> r < rows \<and> length (items (transactionIds t)) = rows \<and>
     map (map_option bodyBytes) (items (signedTransactions t)) = map Some bb \<and>
     (\<forall>s. Some s \<in> set (items (signedTransactions t)) \<longrightarrow> sigPairs s \<noteq> None)"

lemma row_index: "k < rows \<Longrightarrow> j < (n :: nat) \<Longrightarrow> k * n + j < rows * n"
proof -
  assume "k < rows" "j < n"
  then have "Suc k * n \<le> rows * n" by (intro mult_le_mono1) simp
  with \<open>j < n\<close> show ?thesis by simp
qed

lemma chunk_state_names:
  assumes "chunk_state ns rows bb r l t" and "bodies_decode L ns rows bb"
  shows "frozen_request L r ns (items (signedTransactions t)) l t"
proof -
  let ?ss = "items (signedTransactions t)"
  have r: "r < rows" and bodies: "map (map_option bodyBytes) ?ss = map Some bb"
    using assms(1) by (simp_all add: chunk_state_def)
  have len: "length ?ss = rows * length ns"
    using arg_cong[OF bodies, of length] assms(2) by (simp add: bodies_decode_def)
  have "names_nodes L r ns ?ss"
    unfolding names_nodes_def
  proof (intro allI impI conjI)
    fix j assume j: "j < length ns"
    let ?i = "r * length ns + j"
    show i: "?i < length ?ss" using row_index[OF r j] len by simp
    obtain b where b: "decBody L (bb ! ?i) = Inr b" "b_node b = ns ! j"
      using assms(2) r j by (auto simp: bodies_decode_def)
    have "map_option bodyBytes (?ss ! ?i) = Some (bb ! ?i)"
      using arg_cong[OF bodies, of "\<lambda>xs. xs ! ?i"] i len assms(2) by (simp add: bodies_decode_def)
    then obtain s where s: "?ss ! ?i = Some s" "bodyBytes s = bb ! ?i" by auto
    moreover have "sigPairs s \<noteq> None"
      using assms(1) i s(1) by (metis chunk_state_def nth_mem)
    ultimately show "\<exists>s b. ?ss ! ?i = Some s \<and> sigPairs s \<noteq> None \<and> decBody L (bodyBytes s) = Inr b \<and> b_node b = ns ! j"
      using b by auto
  qed
  with assms(1) show ?thesis by (simp add: frozen_request_def chunk_state_def)
qed

lemma buildTransaction_frame:
  "buildTransaction L i t = Inr t' \<Longrightarrow> \<exists>l. t' = t\<lparr>transactions := l\<rparr>"
  by (auto simp: buildTransaction_def elim!: res_bind_InrE split: if_splits)

text \<open>The invariant of one execution.\<close>

definition round_inv ::
    "(account_id, tx_id, 'd) proto_lib \<Rightarrow> account_id option list \<Rightarrow> nat \<Rightarrow> byte list list
     \<Rightarrow> signed_tx option list \<Rightarrow> nat \<Rightarrow> account_id jslist \<Rightarrow> 'd chunk_tx \<Rightarrow> bool" where
  "round_inv L ns rows bb ss r l t \<longleftrightarrow>
     chunk_state ns rows bb r l t \<and> items (signedTransactions t) = ss \<and> bodies_decode L ns rows bb"

lemma round_inv_made:
  assumes "round_inv L ns rows bb ss r l t" and "makeRequest (chunk_ops L gen data) l t = Inr (q, l', t')"
  shows "round_inv L ns rows bb ss r l' t' \<and>
    (\<exists>j s b. j < length ns \<and> ss ! (r * length ns + j) = Some s \<and> sigPairs s \<noteq> None \<and>
       q = Some (SignedBytes (encSigned L s)) \<and> bodyBytes s = bb ! (r * length ns + j) \<and>
       decBody L (bodyBytes s) = Inr b \<and> b_node b = list_current l)"
proof -
  let ?t = "t\<lparr>tx_data := data (cursor (transactionIds t))\<rparr>"
  have st: "chunk_state ns rows bb r l ?t" and bd: "bodies_decode L ns rows bb"
    and ss: "items (signedTransactions ?t) = ss"
    using assms(1) by (auto simp: round_inv_def chunk_state_def)
  have mk: "makeRequest (tx_ops L gen) l ?t = Inr (q, l', t')"
    using assms(2) by (simp add: chunk_ops_def)
  note F = frozen_request_made[OF chunk_state_names[OF st bd] mk, unfolded ss]
  obtain tl where t': "t' = ?t\<lparr>nodeAccountIds := l, transactions := tl\<rparr>" and l': "l' = l"
    using mk st buildTransaction_frame F
    by (fastforce simp: tx_ops_def makeRequestAsync_def chunk_state_def elim!: res_bind_InrE split: if_splits)
  obtain j s b where s: "j < length ns" "ss ! (r * length ns + j) = Some s" "sigPairs s \<noteq> None"
    "q = Some (SignedBytes (encSigned L s))" "decBody L (bodyBytes s) = Inr b" "b_node b = list_current l"
    using F by blast
  have "r < rows" using st by (simp add: chunk_state_def)
  then have i: "r * length ns + j < length bb" using s(1) bd row_index by (simp add: bodies_decode_def)
  have "map (map_option bodyBytes) ss = map Some bb" using st ss by (auto simp: chunk_state_def)
  then have "map (map_option bodyBytes) ss ! (r * length ns + j) = Some (bb ! (r * length ns + j))"
    and "length ss = length bb" using i by (simp, metis length_map)
  then have "bodyBytes s = bb ! (r * length ns + j)" using i s(2) by simp
  moreover have "\<not> locked (transactions t')" using F by (simp add: frozen_request_def)
  then have "round_inv L ns rows bb ss r l' t'"
    using st ss bd by (simp add: round_inv_def chunk_state_def t' l')
  ultimately show ?thesis using s by blast
qed

lemma list_set_length: "cursor l = Some r \<Longrightarrow> r < length (items l) \<Longrightarrow> length (items (list_set (Some r) x l)) = length (items l)"
  by (simp add: list_set_def list_length_def)

lemma round_inv_invariant: "request_invariant (chunk_ops L gen data) (round_inv L ns rows bb ss r)"
  unfolding request_invariant_def
proof (intro conjI allI impI)
  fix l t q l' t' assume "round_inv L ns rows bb ss r l t" "makeRequest (chunk_ops L gen data) l t = Inr (q, l', t')"
  from round_inv_made[OF this] show "round_inv L ns rows bb ss r l' t'" by simp
next
  fix l t q resp x st t' assume *: "round_inv L ns rows bb ss r l t" "st \<noteq> ExecError"
    "shouldRetry (chunk_ops L gen data) t q resp = (x, st, t')"
  then have "t' = t \<or> t' = buildNewTransactionIdList gen t"
    using tx_shouldRetry_frame[of gen resp t]
    by (cases "tx_shouldRetry gen resp t") (auto simp: chunk_ops_def tx_ops_def)
  moreover have "round_inv L ns rows bb ss r l (buildNewTransactionIdList gen t)"
    using *(1) by (auto simp: round_inv_def chunk_state_def buildNewTransactionIdList_def list_set_def
        list_length_def split: option.split)
  ultimately show "round_inv L ns rows bb ss r l t'" using *(1) by blast
next
  fix l t assume "round_inv L ns rows bb ss r l t"
  then show "round_inv L ns rows bb ss r (list_advance l) t" and "items l \<noteq> []"
    using rr.step_good[of l] by (auto simp: round_inv_def chunk_state_def ready_def)
qed

text \<open>A response that was mapped has moved the cursor to the next row.\<close>

lemma round_done:
  assumes "done_by (chunk_ops L gen data) (round_inv L ns rows bb ss r) out T"
  shows "chunk_state ns rows bb (Suc r mod rows) (x_nodes T) (x_sub T)"
proof -
  obtain s resp acc q where s: "round_inv L ns rows bb ss r (x_nodes T) s"
    and map: "mapResponse (chunk_ops L gen data) s resp acc q = (Inr out, x_sub T)"
    using assms by (auto simp: done_by_def)
  have "tx_mapResponse L acc q s = (Inr out, x_sub T)"
    using map by (simp add: chunk_ops_def tx_ops_def)
  then obtain i t1 where i: "current_transactionId s = Inr (i, t1)"
    and T: "x_sub T = t1\<lparr>transactionIds := list_advance (transactionIds t1)\<rparr>"
    by (auto simp: tx_mapResponse_def split: sum.splits)
  have "x_sub T = s\<lparr>transactionIds := list_advance (setLocked (transactionIds s))\<rparr>"
    using current_transactionId_cases[OF i] T by simp
  with s show ?thesis
    by (auto simp: round_inv_def chunk_state_def list_advance_def setLocked_def)
qed

lemma signWith_state:
  assumes "signWith k f t = Inr t'" and "chunk_state ns rows bb r (nodeAccountIds t) t"
  shows "chunk_state ns rows bb r (nodeAccountIds t') t'"
proof (cases "key_hex k \<in> set (signerPublicKeys t)")
  case True
  with assms show ?thesis by (auto simp: signWith_def chunk_state_def elim!: res_bind_InrE)
next
  case False
  have "\<not> signOnDemand t" using assms(2) by (simp add: chunk_state_def)
  with False assms(1) have t': "t' = t\<lparr>transactions := clear (transactions t),
      signerPublicKeys := signerPublicKeys t @ [key_hex k],
      transactionIds := setLocked (transactionIds t), nodeAccountIds := setLocked (nodeAccountIds t),
      signedTransactions := (signedTransactions t)
        \<lparr>items := map (map_option (sign_one k f)) (items (signedTransactions t))\<rparr>\<rparr>"
    by (auto simp: signWith_def Let_def elim!: res_bind_InrE split: if_splits)
  have "map_option bodyBytes \<circ> map_option (sign_one k f) = map_option bodyBytes"
    by (rule ext) (simp add: option.map_comp comp_def)
  moreover have "ready (setLocked (nodeAccountIds t))"
    using assms(2) by (auto simp: chunk_state_def setLocked_def ready_def cursor_ok_def split: option.splits)
  moreover have "sigPairs s \<noteq> None" if "Some s = map_option (sign_one k f) x" for s x
    using that by (cases x) (simp_all add: sign_one_def push_pair_def)
  ultimately show ?thesis
    using assms(2) by (auto simp: t' chunk_state_def setLocked_def clear_def)
qed

lemma lift_before_state:
  assumes "lift_before L gen c check S = Inr S'" and "chunk_state ns rows bb r (x_nodes S) (x_sub S)"
    and "bodies_decode L ns rows bb"
  shows "chunk_state ns rows bb r (x_nodes S') (x_sub S') \<and>
    S' = S\<lparr>x_sub := x_sub S', x_nodes := x_nodes S'\<rparr>"
proof -
  let ?t = "(x_sub S)\<lparr>nodeAccountIds := x_nodes S\<rparr>"
  have st: "chunk_state ns rows bb r (nodeAccountIds ?t) ?t" using assms(2) by (simp add: chunk_state_def)
  obtain t where t: "tx_beforeExecute L gen c check ?t = Inr t"
    and S': "S' = S\<lparr>x_sub := t, x_nodes := nodeAccountIds t\<rparr>"
    using assms(1) by (auto simp: lift_before_def elim!: res_bind_InrE)
  have "items (signedTransactions ?t) \<noteq> []"
  proof
    assume "items (signedTransactions ?t) = []"
    then have "bb = []" using st by (simp add: chunk_state_def)
    then have "rows * length ns = 0" using assms(3) by (simp add: bodies_decode_def)
    then show False using st by (auto simp: chunk_state_def ready_def)
  qed
  then have "isFrozen ?t" by (simp add: isFrozen_def list_length_def)
  then have "\<exists>o1 o2. t = ?t\<lparr>operator := o1, operatorAccountId := o2\<rparr> \<or>
      (\<exists>k f. signWith k f (?t\<lparr>operator := o1, operatorAccountId := o2\<rparr>) = Inr t)"
    using t by (auto simp: tx_beforeExecute_def Let_def elim!: res_bind_InrE split: option.splits if_splits)
  moreover have "chunk_state ns rows bb r (nodeAccountIds (?t\<lparr>operator := o1, operatorAccountId := o2\<rparr>))
      (?t\<lparr>operator := o1, operatorAccountId := o2\<rparr>)" for o1 o2
    using st by (simp add: chunk_state_def)
  ultimately have "chunk_state ns rows bb r (nodeAccountIds t) t"
    using signWith_state by metis
  then show ?thesis by (simp add: S')
qed

text \<open>What happens before the attempts can be taken out of an execution.\<close>

lemma execute_before:
  assumes "before (S\<lparr>x_requestTimeout := effective_timeout C timeout S\<rparr>) = Inr S2"
    and "x_net S2 = x_net S" and "x_requestTimeout S2 = effective_timeout C timeout S"
  shows "execute C P before timeout start env S = execute C P Inr timeout start env S2"
proof -
  have "effective_timeout C timeout S2 = effective_timeout C timeout S"
    using assms(3) by (auto simp: effective_timeout_def split: option.splits)
  then have "S2\<lparr>x_requestTimeout := effective_timeout C timeout S2\<rparr> = S2"
    using assms(3) by (cases S2) simp
  with assms(1,2) show ?thesis
    by (simp add: execute_def Let_def resolve_timeout)
qed

text \<open>A call that carries the body of row \<open>r\<close> for the node it goes to.\<close>

definition carries ::
    "(account_id, tx_id, 'd) proto_lib \<Rightarrow> account_id option list \<Rightarrow> byte list list \<Rightarrow> nat
     \<Rightarrow> (account_id, 'd chunk_tx, proto_tx option) call \<Rightarrow> bool" where
  "carries L ns bb r c \<longleftrightarrow>
     (\<exists>j bs s b. j < length ns \<and> with_request c = Some (SignedBytes bs) \<and> decSigned L bs = Inr s \<and>
        bodyBytes s = bb ! (r * length ns + j) \<and> decBody L (bodyBytes s) = Inr b \<and> b_node b = to_account c)"

lemma round_calls:
  assumes "execute C (chunk_ops L gen data) (lift_before L gen c check) timeout start env S = (res, T)"
    and "chunk_state ns rows bb r (x_nodes S) (x_sub S)" and "bodies_decode L ns rows bb"
    and "calls S = []" and "proto_ok L"
  shows "(\<forall>k \<in> set (calls T). carries L ns bb r k) \<and>
    (\<forall>out. res = Inr out \<longrightarrow> chunk_state ns rows bb (Suc r mod rows) (x_nodes T) (x_sub T))"
proof -
  let ?S1 = "S\<lparr>x_requestTimeout := effective_timeout C timeout S\<rparr>"
  show ?thesis
  proof (cases "lift_before L gen c check ?S1")
    case (Inl e)
    then have "execute C (chunk_ops L gen data) (lift_before L gen c check) timeout start env S = (Inl e, ?S1)"
      by (simp add: execute_def Let_def resolve_timeout)
    with assms(1,4) show ?thesis by auto
  next
    case (Inr S2)
    have st1: "chunk_state ns rows bb r (x_nodes ?S1) (x_sub ?S1)" using assms(2) by simp
    note F = lift_before_state[OF Inr st1 assms(3)]
    then obtain u l where "S2 = ?S1\<lparr>x_sub := u, x_nodes := l\<rparr>" by blast
    then have keep: "x_net S2 = x_net S" "x_requestTimeout S2 = effective_timeout C timeout S" "calls S2 = []"
      using assms(4) by simp_all
    let ?ss = "items (signedTransactions (x_sub S2))"
    let ?J = "round_inv L ns rows bb ?ss r"
    have J: "?J (x_nodes S2) (x_sub S2)" using F assms(3) by (simp add: round_inv_def)
    have run: "execute C (chunk_ops L gen data) Inr timeout start env S2 = (res, T)"
      using execute_before[where before = "lift_before L gen c check" and P = "chunk_ops L gen data"
        and start = start and env = env, OF Inr keep(1,2)] assms(1) by simp
    note inv = execute_invariant[OF round_inv_invariant J keep(3) run]
    have "carries L ns bb r k" if k: "k \<in> set (calls T)" for k
    proof -
      from inv(1) k have "made_by (chunk_ops L gen data) ?J k" by blast
      then obtain l t l' where lt: "?J l t" "to_account k = list_current l"
        "makeRequest (chunk_ops L gen data) l t = Inr (with_request k, l', with_state k)"
        by (auto simp: made_by_def)
      from round_inv_made[OF lt(1,3)] lt(2) obtain j s b where s: "j < length ns" "sigPairs s \<noteq> None"
        "with_request k = Some (SignedBytes (encSigned L s))" "bodyBytes s = bb ! (r * length ns + j)"
        "decBody L (bodyBytes s) = Inr b" "b_node b = to_account k" by metis
      moreover have "decSigned L (encSigned L s) = Inr s" using assms(5) s(2) by (simp add: proto_ok_def)
      ultimately show ?thesis unfolding carries_def by blast
    qed
    moreover have "chunk_state ns rows bb (Suc r mod rows) (x_nodes T) (x_sub T)" if "res = Inr out" for out
      using round_done[OF inv(2)[OF that]] .
    ultimately show ?thesis by blast
  qed
qed

lemma rounds_in_order:
  assumes "run_rows C (chunk_ops L gen data) (lift_before L gen c check) receipt rounds timeout i m S = (res, T, cs)"
    and "chunk_state ns rows bb i (x_nodes S) (x_sub S)" and "i + m \<le> rows"
    and "bodies_decode L ns rows bb" and "proto_ok L"
  shows "length cs \<le> m \<and> (\<forall>outs. res = Inr outs \<longrightarrow> length cs = m \<and> length outs = m) \<and>
    (\<forall>k < length cs. \<forall>q \<in> set (cs ! k). carries L ns bb (i + k) q)"
  using assms(1-3)
proof (induction m arbitrary: i S timeout res T cs)
  case 0
  then show ?case by auto
next
  case (Suc m)
  let ?S = "S\<lparr>calls := [], delays := []\<rparr>"
  obtain r S1 where r: "execute C (chunk_ops L gen data) (lift_before L gen c check) timeout
      (round_start (rounds i)) (round_env (rounds i)) ?S = (r, S1)" by fastforce
  have st: "chunk_state ns rows bb i (x_nodes ?S) (x_sub ?S)" using Suc.prems(2) by simp
  have "calls ?S = []" by simp
  note F = round_calls[OF r st assms(4) this assms(5)]
  consider e where "res = Inl e" "cs = [calls S1]"
    | out res2 T2 cs2 where "r = Inr out" "res = res_bind res2 (\<lambda>outs. Inr (out # outs))" "cs = calls S1 # cs2"
      "run_rows C (chunk_ops L gen data) (lift_before L gen c check) receipt rounds
         (case timeout of None \<Rightarrow> None | Some _ \<Rightarrow> Some (round_end (rounds i) - round_start (rounds i)))
         (Suc i) m S1 = (res2, T2, cs2)"
    using Suc.prems(1) by (auto simp: r Let_def split: sum.splits prod.splits)
  then show ?case
  proof cases
    case 1
    with F show ?thesis by simp
  next
    case 2
    show ?thesis
    proof (cases m)
      case 0
      with 2 F show ?thesis by auto
    next
      case (Suc m')
      then have "Suc i < rows" using Suc.prems(3) by simp
      then have "chunk_state ns rows bb (Suc i) (x_nodes S1) (x_sub S1)" using F 2(1) by simp
      note G = Suc.IH[OF 2(4) this]
      have "carries L ns bb (i + k) q" if "k < length cs" "q \<in> set (cs ! k)" for k q
        using that F G Suc.prems(3) 2(3) by (cases k) auto
      then show ?thesis
        using G Suc.prems(3) 2(2,3) by (cases res2) auto
    qed
  qed
qed

section \<open>Executing all chunks\<close>

lemma table_state:
  assumes "chunk_table L data m t" and "ready (nodeAccountIds t)" and "\<not> signOnDemand t"
    and "\<not> locked (transactions t)" and "0 < m"
  obtains bb where "chunk_state (items (nodeAccountIds t)) m bb 0 (nodeAccountIds t) t"
    and "bodies_decode L (items (nodeAccountIds t)) m bb"
    and "\<And>k j b. k < m \<Longrightarrow> j < length (items (nodeAccountIds t)) \<Longrightarrow>
           decBody L (bb ! (k * length (items (nodeAccountIds t)) + j)) = Inr b \<Longrightarrow> b_data b = data k"
proof -
  let ?ns = "items (nodeAccountIds t)" and ?ss = "items (signedTransactions t)"
  let ?bb = "map (\<lambda>x. bodyBytes (the x)) ?ss"
  have len: "length ?ss = m * length ?ns" using assms(1) by (simp add: chunk_table_def Let_def)
  have at: "\<exists>s b. ?ss ! (k * length ?ns + j) = Some s \<and> decBody L (bodyBytes s) = Inr b \<and>
      b_node b = ?ns ! j \<and> b_data b = data k \<and> sigPairs s \<noteq> None" if "k < m" "j < length ?ns" for k j
    using assms(1) that unfolding chunk_table_def Let_def by blast
  have some: "\<exists>s. x = Some s \<and> sigPairs s \<noteq> None" if "x \<in> set ?ss" for x
  proof -
    from that obtain i where i: "i < length ?ss" "x = ?ss ! i" unfolding in_set_conv_nth by blast
    have n: "0 < length ?ns" using i(1) len by (cases "length ?ns") simp_all
    have "i div length ?ns < m" using i(1) len by (simp add: less_mult_imp_div_less)
    from at[OF this mod_less_divisor[OF n, of i]] i(2) show ?thesis by auto
  qed
  have bodies: "map (map_option bodyBytes) ?ss = map Some ?bb"
    using some by (fastforce simp: map_eq_conv)
  have st: "chunk_state ?ns m ?bb 0 (nodeAccountIds t) t"
    using assms bodies some by (fastforce simp: chunk_state_def chunk_table_def Let_def)
  have bb: "\<exists>b. decBody L (?bb ! (k * length ?ns + j)) = Inr b \<and> b_node b = ?ns ! j \<and> b_data b = data k"
    if "k < m" "j < length ?ns" for k j
    using at[OF that] row_index[OF that] len by auto
  have dec: "bodies_decode L ?ns m ?bb"
    using bb len by (fastforce simp: bodies_decode_def)
  show thesis by (rule that[OF st dec]) (use bb in fastforce)
qed

lemma operator_signed:
  assumes "(if operator_pays c i then signWithOperator L gen c t else Inr t) = Inr t'"
    and "chunk_state ns rows bb r (nodeAccountIds t) t" and "isFrozen t"
  shows "chunk_state ns rows bb r (nodeAccountIds t') t'"
  using assms signWith_state
  by (fastforce simp: signWithOperator_def split: if_splits option.splits)

lemma fa_executeAll_runs:
  assumes "fa_executeAll C N L gen c check receipt rounds timeout S f = Some (res, f2, cs)"
    and "fa_contents f = Some bs" and "bs \<noteq> []" and "0 < fa_chunkSize f"
    and "\<not> isFrozen (fa_tx f)" and "\<not> locked (signedTransactions (fa_tx f))"
    and "\<not> locked (transactions (fa_tx f))" and "ready (nodeAccountIds (fa_tx f))"
    and "\<not> fc_signOnDemand c" and "proto_ok L"
    and m: "m = ceil_div (length bs) (fa_chunkSize f)"
  shows "length cs \<le> m \<and> (\<forall>outs. res = Inr outs \<longrightarrow> length cs = m \<and> length outs = m) \<and>
    (\<forall>k < length cs. \<forall>q \<in> set (cs ! k). \<exists>rq s b. with_request q = Some (SignedBytes rq) \<and>
       decSigned L rq = Inr s \<and> decBody L (bodyBytes s) = Inr b \<and> b_node b = to_account q \<and>
       b_data b = fa_makeTransactionData f (Some k))"
proof (cases "cs = [] \<and> (\<exists>e. res = Inl e)")
  case True
  then show ?thesis by auto
next
  case False
  have mpos: "0 < m" using assms(3,4) by (simp add: m ceil_div_pos)
  have few: "\<not> too_many_chunks f" using False assms(1) by (auto simp: fa_executeAll_def split: if_splits)
  from False assms(1,5) few obtain f1 where f1: "fa_freezeWith N L gen (Some c) f = Some (Inr f1)"
    by (auto simp: fa_executeAll_def split: if_splits option.splits sum.splits)
  from False assms(1,5) few f1 obtain i t1 where i: "current_transactionId (fa_tx f1) = Inr (i, t1)"
    by (cases "current_transactionId (fa_tx f1)") (auto simp: fa_executeAll_def split: if_splits)
  from False assms(1,5) few f1 i obtain t2 where t2: "(if operator_pays c i then signWithOperator L gen c t1 else Inr t1) = Inr t2"
    by (cases "if operator_pays c i then signWithOperator L gen c t1 else Inr t1")
       (auto simp: fa_executeAll_def split: if_splits)
  from assms(1,5) few f1 i t2 obtain S' where run:
    "run_rows C (chunk_ops L gen (fa_makeTransactionData f1)) (lift_before L gen c check) receipt rounds timeout 0
       (list_length (transactionIds t2)) (S\<lparr>x_sub := t2, x_nodes := nodeAccountIds t2\<rparr>) = (res, S', cs)"
    by (auto simp: fa_executeAll_def Let_def split: if_splits prod.splits)
  note T = fa_freeze_table[OF f1 assms(2,3,4,6,10), folded m]
  have t1: "t1 = (fa_tx f1)\<lparr>transactionIds := setLocked (transactionIds (fa_tx f1))\<rparr>"
    using current_transactionId_cases[OF i] by simp
  have nodes: "nodeAccountIds (fa_tx f1) = nodeAccountIds (fa_tx f)" and od: "\<not> signOnDemand (fa_tx f1)"
    using T assms(8,9) by (simp_all add: ready_def)
  have table: "chunk_table L (\<lambda>k. fa_makeTransactionData f (Some k)) m t1"
    using T by (simp add: t1 chunk_table_lock)
  have rd: "ready (nodeAccountIds t1)" using assms(8) nodes by (simp add: t1)
  obtain bb where st: "chunk_state (items (nodeAccountIds t1)) m bb 0 (nodeAccountIds t1) t1"
    and bd: "bodies_decode L (items (nodeAccountIds t1)) m bb"
    and data: "\<And>k j b. k < m \<Longrightarrow> j < length (items (nodeAccountIds t1)) \<Longrightarrow>
        decBody L (bb ! (k * length (items (nodeAccountIds t1)) + j)) = Inr b \<Longrightarrow>
        b_data b = fa_makeTransactionData f (Some k)"
    using table_state[OF table rd _ _ mpos] T od assms(7) by (auto simp: t1)
  have "isFrozen t1"
    using bd st mpos rd by (auto simp: isFrozen_def list_length_def chunk_state_def bodies_decode_def ready_def)
  from operator_signed[OF t2 st this] have st2:
    "chunk_state (items (nodeAccountIds t1)) m bb 0 (nodeAccountIds t2) t2" .
  then have len: "list_length (transactionIds t2) = m" by (simp add: chunk_state_def list_length_def)
  note R = rounds_in_order[OF run[unfolded len] _ _ bd assms(10)]
  have R': "length cs \<le> m \<and> (\<forall>outs. res = Inr outs \<longrightarrow> length cs = m \<and> length outs = m) \<and>
    (\<forall>k < length cs. \<forall>q \<in> set (cs ! k). carries L (items (nodeAccountIds t1)) bb k q)"
    using R[simplified] st2 by simp
  moreover have "\<exists>rq s b. with_request q = Some (SignedBytes rq) \<and>
       decSigned L rq = Inr s \<and> decBody L (bodyBytes s) = Inr b \<and> b_node b = to_account q \<and>
       b_data b = fa_makeTransactionData f (Some k)" if "k < length cs" "q \<in> set (cs ! k)" for k q
  proof -
    have "k < m" using R' that(1) by linarith
    moreover from R' that have "carries L (items (nodeAccountIds t1)) bb k q" by blast
    then obtain j rq s b where "j < length (items (nodeAccountIds t1))" "with_request q = Some (SignedBytes rq)"
      "decSigned L rq = Inr s" "bodyBytes s = bb ! (k * length (items (nodeAccountIds t1)) + j)"
      "decBody L (bodyBytes s) = Inr b" "b_node b = to_account q"
      unfolding carries_def by blast
    ultimately show ?thesis using data[of k j b] by auto
  qed
  ultimately show ?thesis by blast
qed


section \<open>Messages of a topic\<close>

lemma tm_data:
  assumes "tm_message m = Some msg"
  shows "tm_chunk ini n m k =
    \<lparr>sb_topicID = tm_topicId m, sb_message = Some (piece (tm_chunkSize m) msg k),
     sb_chunkInfo = Some \<lparr>ci_initialTransactionID = ini, ci_total = n, ci_number = Suc k\<rparr>\<rparr>"
proof -
  have "(if k * tm_chunkSize m + tm_chunkSize m > length msg then length msg
         else k * tm_chunkSize m + tm_chunkSize m) = min (k * tm_chunkSize m + tm_chunkSize m) (length msg)"
    by simp
  then show ?thesis
    using assms by (simp add: tm_chunk_def tm_makeTransactionData_def Let_def piece_def slice_min)
qed

text \<open>Freezing a topic message that needs more chunks than allowed throws; when freezing succeeds it
  leaves a row per chunk whose bodies decode to the chunk's piece of the message, numbered from 1, with
  the number of chunks and the ID of the first one; the pieces joined are the message.\<close>

theorem message_chunks:
  assumes "tm_message m = Some msg" and "msg \<noteq> []" and "0 < tm_chunkSize m"
    and "\<not> locked (signedTransactions (tm_tx m))" and "proto_ok L"
    and n: "n = ceil_div (length msg) (tm_chunkSize m)"
  shows "(n > tm_maxChunks m \<longrightarrow> (\<exists>e. tm_freezeWith N K L gen client m = Inl e)) \<and>
    (\<forall>m'. tm_freezeWith N K L gen client m = Inr m' \<longrightarrow>
       n \<le> tm_maxChunks m \<and> tm_chunkInfo m' = None \<and>
       concat (map (piece (tm_chunkSize m) msg) [0..<n]) = msg \<and>
       (\<exists>i. list_current (transactionIds (tm_tx m')) = Some i \<and>
          chunk_table L (\<lambda>k. \<lparr>sb_topicID = tm_topicId m, sb_message = Some (piece (tm_chunkSize m) msg k),
             sb_chunkInfo = Some \<lparr>ci_initialTransactionID = tx_id_toProtobuf K i, ci_total = n,
                                 ci_number = Suc k\<rparr>\<rparr>) n (tm_tx m')))"
proof -
  have pos: "0 < n" using assms(2,3) by (simp add: n ceil_div_pos)
  have chunks: "tm_chunks m = Some n"
    using assms(1,3) by (simp add: tm_chunks_def n ceil_div_def)
  let ?t = "(tm_tx m)\<lparr>tx_data := tm_makeTransactionData m\<rparr>"
  have run: "\<exists>i. list_current (transactionIds (tm_tx m')) = Some i \<and> tm_chunkInfo m' = None \<and>
      chunk_table L (tm_chunk (tx_id_toProtobuf K i) n m) n (tm_tx m') \<and> n \<le> tm_maxChunks m"
    if ok: "tm_freezeWith N K L gen client m = Inr m'" for m'
  proof -
    from ok assms(1) chunks obtain t0 i t1 t2 where t0: "freezeWith L gen client ?t = Inr t0"
      and few: "n \<le> tm_maxChunks m" and i: "current_transactionId t0 = Inr (i, t1)"
      and t2: "chunk_loop L (fromNumber N 1) (\<lambda>k c. tm_chunk (tx_id_toProtobuf K i) n m k) 0 n i (clear_lists t1) = Inr t2"
      and m': "m' = m\<lparr>tm_tx := close_ids t2, tm_chunkInfo := None\<rparr>"
      by (auto simp: tm_freezeWith_def Let_def elim!: res_bind_InrE split: if_splits)
    have t1: "t1 = t0\<lparr>transactionIds := setLocked (transactionIds t0)\<rparr>"
      using current_transactionId_cases[OF i] by simp
    have "\<not> locked (signedTransactions t0)" using freezeWith_unlocked[OF t0] assms(4) by simp
    from chunk_loop_table[OF t2[unfolded t1] assms(5) pos this] few show ?thesis by (simp add: m')
  qed
  have "\<exists>e. tm_freezeWith N K L gen client m = Inl e" if "n > tm_maxChunks m"
    using run that by (cases "tm_freezeWith N K L gen client m") (auto simp: not_less)
  then show ?thesis
    using run pieces_join[OF assms(3), of msg] unfolding tm_data[OF assms(1), abs_def] n by blast
qed

end
