(* ===== verification/ChunkSample.thy ===== *)
theory ChunkSample
  imports ChunkLaws SampleCodec
begin

text \<open>
  Concrete codecs for the bodies of chunked transactions, built from combinators that keep the
  round-trip law, and the theorems on chunks applied to a small file and a small message.
\<close>

section \<open>Self-delimiting codecs\<close>

type_synonym 'a codec = "('a \<Rightarrow> nat list) \<times> (nat list \<Rightarrow> 'a \<times> nat list)"

definition codec_ok :: "'a codec \<Rightarrow> bool" where
  "codec_ok c \<longleftrightarrow> (\<forall>x r. snd c (fst c x @ r) = (x, r))"

definition nat_c :: "nat codec" where
  "nat_c = (\<lambda>n. [n], \<lambda>ns. (hd ns, tl ns))"

definition iso_c :: "('b \<Rightarrow> 'a) \<Rightarrow> ('a \<Rightarrow> 'b) \<Rightarrow> 'a codec \<Rightarrow> 'b codec" where
  "iso_c f g c = (\<lambda>x. fst c (f x), \<lambda>ns. let (y, r) = snd c ns in (g y, r))"

definition pair_c :: "'a codec \<Rightarrow> 'b codec \<Rightarrow> ('a \<times> 'b) codec" where
  "pair_c c d = (\<lambda>(x, y). fst c x @ fst d y,
     \<lambda>ns. let (x, r) = snd c ns; (y, r') = snd d r in ((x, y), r'))"

definition opt_c :: "'a codec \<Rightarrow> 'a option codec" where
  "opt_c c = (\<lambda>x. case x of None \<Rightarrow> [0] | Some y \<Rightarrow> 1 # fst c y,
     \<lambda>ns. if hd ns = 0 then (None, tl ns) else let (y, r) = snd c (tl ns) in (Some y, r))"

definition list_c :: "'a codec \<Rightarrow> 'a list codec" where
  "list_c c = (\<lambda>xs. length xs # concat (map (fst c) xs), \<lambda>ns. get_many (snd c) (hd ns) (tl ns))"

named_theorems codecs \<open>codecs that keep the round-trip law\<close>

lemma nat_c_ok [codecs]: "codec_ok nat_c"
  by (simp add: codec_ok_def nat_c_def)

lemma iso_c_ok: "codec_ok c \<Longrightarrow> (\<And>x. g (f x) = x) \<Longrightarrow> codec_ok (iso_c f g c)"
  by (simp add: codec_ok_def iso_c_def)

lemma pair_c_ok [codecs]: "codec_ok c \<Longrightarrow> codec_ok d \<Longrightarrow> codec_ok (pair_c c d)"
  by (auto simp: codec_ok_def pair_c_def)

lemma opt_c_ok [codecs]: "codec_ok c \<Longrightarrow> codec_ok (opt_c c)"
  by (auto simp: codec_ok_def opt_c_def split: option.split)

lemma list_c_ok [codecs]: "codec_ok c \<Longrightarrow> codec_ok (list_c c)"
  by (simp add: codec_ok_def list_c_def get_many_put)

section \<open>The types of the bodies\<close>

definition int_c :: "int codec" where "int_c = iso_c put_int get_int nat_c"
definition long_c :: "long codec" where "long_c = iso_c unat of_nat nat_c"
definition bytes_c :: "byte list codec" where "bytes_c = iso_c nats bytes (list_c nat_c)"
definition string_c :: "string codec" where "string_c = iso_c (map of_char) (map char_of) (list_c nat_c)"
definition bool_c :: "bool codec" where "bool_c = iso_c (\<lambda>b. if b then 1 else 0) (\<lambda>n. n = 1) nat_c"

lemma base_codecs [codecs]:
  "codec_ok int_c" "codec_ok long_c" "codec_ok bytes_c" "codec_ok string_c" "codec_ok bool_c"
  unfolding int_c_def long_c_def bytes_c_def string_c_def bool_c_def
  by (auto intro!: iso_c_ok codecs simp: comp_def split: if_splits)

definition entity_c :: "entity_id codec" where
  "entity_c = iso_c (\<lambda>i. (shard i, realm i, num i)) (\<lambda>(s, r, n). \<lparr>shard = s, realm = r, num = n\<rparr>)
     (pair_c long_c (pair_c long_c long_c))"

definition key_c :: "public_key codec" where
  "key_c = iso_c (\<lambda>k. (key_type k = Ed25519, raw_key k))
     (\<lambda>(b, r). \<lparr>key_type = (if b then Ed25519 else Secp256k1), raw_key = r\<rparr>) (pair_c bool_c bytes_c)"

definition account_c :: "account_id codec" where
  "account_c = iso_c (\<lambda>a. (acc_id a, aliasKey a, evmAddress a, acc_checksum a))
     (\<lambda>(i, k, e, c). \<lparr>acc_id = i, aliasKey = k, evmAddress = e, acc_checksum = c\<rparr>)
     (pair_c entity_c (pair_c (opt_c key_c) (pair_c (opt_c bytes_c) (opt_c string_c))))"

definition timestamp_c :: "timestamp codec" where
  "timestamp_c = iso_c (\<lambda>t. (seconds t, nanos t)) (\<lambda>(s, n). \<lparr>seconds = s, nanos = n\<rparr>)
     (pair_c long_c long_c)"

definition tx_id_c :: "tx_id codec" where
  "tx_id_c = iso_c (\<lambda>i. (accountId i, validStart i, scheduled i, nonce i))
     (\<lambda>(a, v, s, n). \<lparr>accountId = a, validStart = v, scheduled = s, nonce = n\<rparr>)
     (pair_c (opt_c account_c) (pair_c (opt_c timestamp_c) (pair_c bool_c (opt_c long_c))))"

lemma key_c_ok [codecs]: "codec_ok key_c"
  unfolding key_c_def
proof (intro iso_c_ok codecs)
  fix k :: public_key
  show "(case (key_type k = Ed25519, raw_key k) of
      (b, r) \<Rightarrow> \<lparr>key_type = (if b then Ed25519 else Secp256k1), raw_key = r\<rparr>) = k"
    by (cases k; cases "key_type k") simp_all
qed

lemma id_codecs [codecs]:
  "codec_ok entity_c" "codec_ok account_c" "codec_ok timestamp_c" "codec_ok tx_id_c"
proof -
  show e: "codec_ok entity_c" unfolding entity_c_def by (intro iso_c_ok codecs) simp
  show a: "codec_ok account_c" unfolding account_c_def by (intro iso_c_ok codecs e) simp
  show t: "codec_ok timestamp_c" unfolding timestamp_c_def by (intro iso_c_ok codecs) simp
  show "codec_ok tx_id_c" unfolding tx_id_c_def by (intro iso_c_ok codecs a t) simp
qed

definition body_c :: "'d codec \<Rightarrow> (account_id, tx_id, 'd) tx_body codec" where
  "body_c d = iso_c (\<lambda>b. (b_data b, b_fee b, b_memo b, b_tid b, b_node b, b_duration b))
     (\<lambda>(d, f, m, t, n, v). \<lparr>b_data = d, b_fee = f, b_memo = m, b_tid = t, b_node = n, b_duration = v\<rparr>)
     (pair_c d (pair_c (opt_c int_c) (pair_c string_c (pair_c (opt_c tx_id_c)
       (pair_c (opt_c account_c) (opt_c int_c))))))"

lemma body_c_ok [codecs]: "codec_ok d \<Longrightarrow> codec_ok (body_c d)"
  unfolding body_c_def by (intro iso_c_ok codecs) simp_all

definition chunk_lib :: "'d codec \<Rightarrow> (account_id, tx_id, 'd) proto_lib" where
  "chunk_lib d =
     \<lparr>encBody = (\<lambda>b. unary (fst (body_c d) b)),
      decBody = (\<lambda>bs. Inr (fst (snd (body_c d) (from_unary 0 bs)))),
      encSigned = encSigned sample_lib, decSigned = decSigned sample_lib, encList = encList sample_lib,
      decList = decList sample_lib, decTransaction = decTransaction sample_lib,
      sha384 = sha384 sample_lib\<rparr>"

lemma chunk_lib_ok: "codec_ok d \<Longrightarrow> proto_ok (chunk_lib d)"
proof -
  assume "codec_ok d"
  then have "snd (body_c d) (fst (body_c d) b @ []) = (b, [])" for b
    using body_c_ok[of d] unfolding codec_ok_def by blast
  then show ?thesis
    using sample_lib_ok by (simp add: proto_ok_def chunk_lib_def)
qed

definition append_c :: "nat append_body codec" where
  "append_c = iso_c (\<lambda>b. (ab_fileID b, ab_contents b)) (\<lambda>(i, c). \<lparr>ab_fileID = i, ab_contents = c\<rparr>)
     (pair_c (opt_c nat_c) (opt_c bytes_c))"

lemma append_c_ok [codecs]: "codec_ok append_c"
  unfolding append_c_def by (intro iso_c_ok codecs) simp

definition account_message_c :: "account_message codec" where
  "account_message_c = iso_c (\<lambda>m. (shardNum m, realmNum m, accountNum m, alias_bytes m))
     (\<lambda>(s, r, n, a). \<lparr>shardNum = s, realmNum = r, accountNum = n, alias_bytes = a\<rparr>)
     (pair_c (opt_c long_c) (pair_c (opt_c long_c) (pair_c (opt_c long_c) (opt_c bytes_c))))"

definition ts_message_c :: "ts_message codec" where
  "ts_message_c = iso_c
     (\<lambda>m. (case m_seconds m of SecondsLong n \<Rightarrow> (Some n, None) | SecondsNumber i \<Rightarrow> (None, Some i)
            | NoSeconds \<Rightarrow> (None, None), m_nanos m))
     (\<lambda>((a, b), n). \<lparr>m_seconds = (case a of Some n \<Rightarrow> SecondsLong n
        | None \<Rightarrow> (case b of Some i \<Rightarrow> SecondsNumber i | None \<Rightarrow> NoSeconds)), m_nanos = n\<rparr>)
     (pair_c (pair_c (opt_c long_c) (opt_c int_c)) (opt_c int_c))"

definition tx_id_message_c :: "tx_id_message codec" where
  "tx_id_message_c = iso_c (\<lambda>m. (accountID m, transactionValidStart m, m_scheduled m, m_nonce m))
     (\<lambda>(a, v, s, n). \<lparr>accountID = a, transactionValidStart = v, m_scheduled = s, m_nonce = n\<rparr>)
     (pair_c (opt_c account_message_c) (pair_c (opt_c ts_message_c) (pair_c (opt_c bool_c) (opt_c int_c))))"

definition chunk_info_c :: "chunk_info codec" where
  "chunk_info_c = iso_c (\<lambda>c. (ci_initialTransactionID c, ci_total c, ci_number c))
     (\<lambda>(i, t, n). \<lparr>ci_initialTransactionID = i, ci_total = t, ci_number = n\<rparr>)
     (pair_c tx_id_message_c (pair_c nat_c nat_c))"

definition submit_c :: "nat submit_body codec" where
  "submit_c = iso_c (\<lambda>b. (sb_topicID b, sb_message b, sb_chunkInfo b))
     (\<lambda>(i, m, c). \<lparr>sb_topicID = i, sb_message = m, sb_chunkInfo = c\<rparr>)
     (pair_c (opt_c nat_c) (pair_c (opt_c bytes_c) (opt_c chunk_info_c)))"

lemma id_message_codecs [codecs]:
  "codec_ok account_message_c" "codec_ok ts_message_c" "codec_ok tx_id_message_c"
proof -
  show a: "codec_ok account_message_c" unfolding account_message_c_def by (intro iso_c_ok codecs) simp
  show t: "codec_ok ts_message_c" unfolding ts_message_c_def
    by (intro iso_c_ok codecs) (simp split: seconds_field.split)
  show "codec_ok tx_id_message_c" unfolding tx_id_message_c_def by (intro iso_c_ok codecs a t) simp
qed

lemma submit_c_ok [codecs]: "codec_ok submit_c"
proof -
  have c: "codec_ok chunk_info_c" unfolding chunk_info_c_def by (intro iso_c_ok codecs) simp
  show ?thesis unfolding submit_c_def by (intro iso_c_ok codecs c) simp
qed

section \<open>A file of three bytes in chunks of two\<close>

definition sample_account_3 :: account_id where
  "sample_account_3 = \<lparr>acc_id = \<lparr>shard = 0, realm = 0, num = 3\<rparr>, aliasKey = None, evmAddress = None,
                  acc_checksum = None\<rparr>"

definition sample_file :: "nat file_append" where
  "sample_file = new_file_append
     \<lparr>fa_tx := (new_tx \<lparr>ab_fileID = None, ab_contents = None\<rparr>)
        \<lparr>transactionIds := \<lparr>items = [Some sample_tx_id], locked = True, cursor = Some 0\<rparr>,
         nodeAccountIds := \<lparr>items = [Some sample_account_3], locked = True, cursor = Some 0\<rparr>\<rparr>,
      fa_contents := Some [1, 2, 3], fa_chunkSize := 2\<rparr>"

definition sample_file_client :: "(account_id, tx_id) freeze_client" where
  "sample_file_client = \<lparr>fc_signOnDemand = False, fc_operator = None, fc_defaultMaxFee = None,
     fc_defaultRegenerate = True, fc_nodeIds = Inr [], fc_check = (\<lambda>_. Inr ())\<rparr>"

lemma sample_file_simps [simp]:
  "fa_contents sample_file = Some [1, 2, 3]" "fa_chunkSize sample_file = 2"
  "fa_maxChunks sample_file = 20" "\<not> isFrozen (fa_tx sample_file)"
  "\<not> locked (signedTransactions (fa_tx sample_file))" "\<not> locked (transactions (fa_tx sample_file))"
  "ready (nodeAccountIds (fa_tx sample_file))" "\<not> fc_signOnDemand sample_file_client"
  "fa_fileId sample_file = None"
  by (simp_all add: sample_file_def new_file_append_def new_tx_def isFrozen_def list_length_def
      new_list_def ready_def cursor_ok_def sample_file_client_def)

lemma chunk_loop_total:
  assumes "validStart i = Some v" and "\<not> locked (signedTransactions t)"
  shows "\<exists>t'. chunk_loop L d data 0 m i (clear_lists (t\<lparr>transactionIds := l\<rparr>)) = Inr t'"
proof -
  let ?r = "t\<lparr>transactionIds := l, transactions := clear (transactions t),
    signedTransactions := clear (signedTransactions t)\<rparr>"
  have "chunk_loop L d data 0 m (chunk_id d v i 0) (rows_done L d v i data ?r 0) =
    Inr (rows_done L d v i data ?r (0 + m))"
    by (rule chunk_loop_ok[OF _ assms(1)]) (simp add: clear_def assms(2))
  then show ?thesis
    using clear_is_row_0[where t = t and l = l and L = L and d = d and v = v and i = i and data = data]
    by (simp add: chunk_id_def)
qed

lemma sample_base_freeze:
  assumes "t0 = (new_tx data)\<lparr>transactionIds := \<lparr>items = [Some sample_tx_id], locked = True, cursor = Some 0\<rparr>,
      nodeAccountIds := \<lparr>items = [Some sample_account_3], locked = True, cursor = Some 0\<rparr>, tx_data := data2\<rparr>"
  shows "\<exists>t t1. freezeWith L (\<lambda>_. sample_tx_id) (Some sample_file_client) t0 = Inr t \<and>
     current_transactionId t = Inr (sample_tx_id, t1) \<and>
     (\<forall>d f m. \<exists>t'. chunk_loop L d f 0 m sample_tx_id (clear_lists t1) = Inr t')"
proof -
  have u: "\<not> locked (signedTransactions t0)" by (simp add: assms new_tx_def new_list_def)
  have "\<exists>t. freezeWith L (\<lambda>_. sample_tx_id) (Some sample_file_client) t0 = Inr t \<and>
     transactionIds t = \<lparr>items = [Some sample_tx_id], locked = True, cursor = Some 0\<rparr>"
    by (simp add: freezeWith_def Let_def freeze_settings_def setNodeAccountIds_client_def list_isEmpty_def
        list_length_def setTransactionId_check_def buildNewTransactionIdList_def buildSignedTransactions_def
        setList_def assms new_tx_def new_list_def sample_file_client_def)
  then obtain t where t: "freezeWith L (\<lambda>_. sample_tx_id) (Some sample_file_client) t0 = Inr t"
    "transactionIds t = \<lparr>items = [Some sample_tx_id], locked = True, cursor = Some 0\<rparr>" by blast
  have i: "current_transactionId t = Inr (sample_tx_id, t\<lparr>transactionIds := setLocked (transactionIds t)\<rparr>)"
    using t(2) by (simp add: current_transactionId_def get_transactionId_def list_isEmpty_def list_length_def
        list_current_def list_get_def setLocked_def array_get_def Let_def)
  have v: "validStart sample_tx_id = Some \<lparr>seconds = 5, nanos = 4\<rparr>" by (simp add: sample_tx_id_def)
  show ?thesis
    using t(1) i chunk_loop_total[OF v freezeWith_unlocked[OF t(1) u, THEN conjunct1]] by blast
qed

lemma sample_file_freeze:
  "\<exists>f. fa_freezeWith decimal_lib (chunk_lib append_c) (\<lambda>_. sample_tx_id) (Some sample_file_client) sample_file = Some (Inr f)"
proof -
  have s: "fa_sync sample_file = (new_tx \<lparr>ab_fileID = None, ab_contents = None\<rparr>)
    \<lparr>transactionIds := \<lparr>items = [Some sample_tx_id], locked = True, cursor = Some 0\<rparr>,
     nodeAccountIds := \<lparr>items = [Some sample_account_3], locked = True, cursor = Some 0\<rparr>,
     tx_data := tx_data (fa_sync sample_file)\<rparr>"
    by (simp add: fa_sync_def sample_file_def)
  obtain t t1 where t: "freezeWith (chunk_lib append_c) (\<lambda>_. sample_tx_id) (Some sample_file_client)
      (fa_sync sample_file) = Inr t" and i: "current_transactionId t = Inr (sample_tx_id, t1)"
    and c: "\<forall>d f m. \<exists>t'. chunk_loop (chunk_lib append_c) d f 0 m sample_tx_id (clear_lists t1) = Inr t'"
    using sample_base_freeze[OF s, where L = "chunk_lib append_c"] by blast
  obtain t' where "chunk_loop (chunk_lib append_c) (fromNumber decimal_lib (fa_chunkInterval sample_file))
      (\<lambda>k. fa_makeTransactionData sample_file) 0 2 sample_tx_id (clear_lists t1) = Inr t'" using c by blast
  moreover have "getRequiredChunks sample_file = Some 2" by (simp add: getRequiredChunks_def ceil_div_def)
  ultimately show ?thesis by (simp add: fa_freezeWith_def t i Let_def)
qed

theorem file_chunks_witness:
  "case fa_freezeWith decimal_lib (chunk_lib append_c) (\<lambda>_. sample_tx_id) (Some sample_file_client) sample_file of
     Some (Inr f) \<Rightarrow> length (items (transactionIds (fa_tx f))) = 2 \<and> cursor (transactionIds (fa_tx f)) = Some 0 \<and>
       concat (map (piece 2 [1, 2, 3]) [0..<2]) = [1, 2, 3]
   | _ \<Rightarrow> False"
proof -
  obtain f where f: "fa_freezeWith decimal_lib (chunk_lib append_c) (\<lambda>_. sample_tx_id) (Some sample_file_client)
      sample_file = Some (Inr f)" using sample_file_freeze by blast
  have m: "2 = ceil_div (length [1, 2, 3 :: byte]) (fa_chunkSize sample_file)" by (simp add: ceil_div_def)
  note F = file_chunks[OF f sample_file_simps(1) _ _ sample_file_simps(5) chunk_lib_ok[OF append_c_ok] m refl]
  then show ?thesis unfolding f by simp
qed

section \<open>Executing the sample\<close>

definition sample_chunk_client :: "(account_id, string) client" where
  "sample_chunk_client = \<lparr>key_of = account_toString decimal_lib, openChannel = (\<lambda>a _. a),
     client_maxAttempts = None, client_minBackoff = 250, client_maxBackoff = 8000,
     client_requestTimeout = Some 120000\<rparr>"

definition sample_file_exec :: "(account_id, string, nat append_body chunk_tx, proto_tx option) exec" where
  "sample_file_exec = new_exec
     ((new_network (\<lambda>_. new_node \<lparr>host = ''10.0.0.1'', port = Some 50211\<rparr> sample_account_3 0 0) 0)
       \<lparr>next_id := 1, nodes := [0], healthyNodes := [0],
        network := [(account_toString decimal_lib sample_account_3, [0])]\<rparr>)
     (fa_tx sample_file)"

definition sample_round :: "nat option round_env" where
  "sample_round = \<lparr>round_start = 1000, round_end = 2000,
     round_env = (\<lambda>_. \<lparr>clk_start = 1000, clk_health = 1000, clk_done = 1000, rand = (\<lambda>_. 0), latency = 5,
       answer = Inr (Some 0)\<rparr>)\<rparr>"

lemma run_rows_trace:
  assumes "run_rows C P before receipt rounds timeout i m S = (r, S', cs)" and "0 < m"
  shows "cs \<noteq> []"
  using assms by (cases m) (auto simp: Let_def split: sum.splits prod.splits)


section \<open>A message of three bytes in chunks of two\<close>

definition sample_message :: "nat topic_submit" where
  "sample_message = new_topic_submit
     \<lparr>tm_tx := (new_tx \<lparr>sb_topicID = None, sb_message = None, sb_chunkInfo = None\<rparr>)
        \<lparr>transactionIds := \<lparr>items = [Some sample_tx_id], locked = True, cursor = Some 0\<rparr>,
         nodeAccountIds := \<lparr>items = [Some sample_account_3], locked = True, cursor = Some 0\<rparr>\<rparr>,
      tm_message := Some [1, 2, 3], tm_chunkSize := 2\<rparr>"

lemma sample_message_simps [simp]:
  "tm_message sample_message = Some [1, 2, 3]" "tm_chunkSize sample_message = 2"
  "tm_maxChunks sample_message = 20" "\<not> locked (signedTransactions (tm_tx sample_message))"
  by (simp_all add: sample_message_def new_topic_submit_def new_tx_def new_list_def)

lemma sample_message_freeze:
  "\<exists>m. tm_freezeWith decimal_lib sample_codec (chunk_lib submit_c) (\<lambda>_. sample_tx_id) (Some sample_file_client)
     sample_message = Inr m"
proof -
  let ?t = "(tm_tx sample_message)\<lparr>tx_data := tm_makeTransactionData sample_message\<rparr>"
  have s: "?t = (new_tx \<lparr>sb_topicID = None, sb_message = None, sb_chunkInfo = None\<rparr>)
    \<lparr>transactionIds := \<lparr>items = [Some sample_tx_id], locked = True, cursor = Some 0\<rparr>,
     nodeAccountIds := \<lparr>items = [Some sample_account_3], locked = True, cursor = Some 0\<rparr>,
     tx_data := tm_makeTransactionData sample_message\<rparr>"
    by (simp add: sample_message_def)
  obtain t t1 where t: "freezeWith (chunk_lib submit_c) (\<lambda>_. sample_tx_id) (Some sample_file_client) ?t = Inr t"
    and i: "current_transactionId t = Inr (sample_tx_id, t1)"
    and c: "\<forall>d f m. \<exists>t'. chunk_loop (chunk_lib submit_c) d f 0 m sample_tx_id (clear_lists t1) = Inr t'"
    using sample_base_freeze[OF s, where L = "chunk_lib submit_c"] by blast
  obtain t' where "chunk_loop (chunk_lib submit_c) (fromNumber decimal_lib 1)
      (\<lambda>k _. tm_chunk (tx_id_toProtobuf sample_codec sample_tx_id) 2 sample_message k) 0 2 sample_tx_id
      (clear_lists t1) = Inr t'" using c by blast
  moreover have "tm_chunks sample_message = Some 2" by (simp add: tm_chunks_def)
  ultimately show ?thesis by (simp add: tm_freezeWith_def t i Let_def)
qed

theorem message_chunks_witness:
  "(case tm_freezeWith decimal_lib sample_codec (chunk_lib submit_c) (\<lambda>_. sample_tx_id) (Some sample_file_client)
       sample_message of
      Inl _ \<Rightarrow> False
    | Inr m \<Rightarrow> tm_chunkInfo m = None \<and> list_current (transactionIds (tm_tx m)) \<noteq> None) \<and>
   (case tm_freezeWith decimal_lib sample_codec (chunk_lib submit_c) (\<lambda>_. sample_tx_id) (Some sample_file_client)
       (sample_message\<lparr>tm_maxChunks := 1\<rparr>) of Inl _ \<Rightarrow> True | Inr _ \<Rightarrow> False)"
proof -
  have n: "2 = ceil_div (length [1, 2, 3 :: byte]) 2" by (simp add: ceil_div_def)
  obtain m where m: "tm_freezeWith decimal_lib sample_codec (chunk_lib submit_c) (\<lambda>_. sample_tx_id)
      (Some sample_file_client) sample_message = Inr m" using sample_message_freeze by blast
  note ok = chunk_lib_ok[OF submit_c_ok]
  have M: "n > tm_maxChunks q \<Longrightarrow> \<exists>e. tm_freezeWith decimal_lib sample_codec (chunk_lib submit_c) (\<lambda>_. sample_tx_id)
        (Some sample_file_client) q = Inl e"
      "tm_freezeWith decimal_lib sample_codec (chunk_lib submit_c) (\<lambda>_. sample_tx_id)
        (Some sample_file_client) q = Inr m \<Longrightarrow>
        tm_chunkInfo m = None \<and> list_current (transactionIds (tm_tx m)) \<noteq> None"
    if "tm_message q = Some [1, 2, 3]" "tm_chunkSize q = 2" "\<not> locked (signedTransactions (tm_tx q))" "n = 2" for q n
  proof -
    have n2: "n = ceil_div (length [1, 2, 3 :: byte]) (tm_chunkSize q)" using that n by simp
    have c: "0 < tm_chunkSize q" using that by simp
    note F = message_chunks[OF that(1) list.distinct(2) c that(3) ok n2]
    show "\<exists>e. tm_freezeWith decimal_lib sample_codec (chunk_lib submit_c) (\<lambda>_. sample_tx_id)
        (Some sample_file_client) q = Inl e" if "n > tm_maxChunks q" using F that by blast
    show "tm_chunkInfo m = None \<and> list_current (transactionIds (tm_tx m)) \<noteq> None"
      if "tm_freezeWith decimal_lib sample_codec (chunk_lib submit_c) (\<lambda>_. sample_tx_id)
        (Some sample_file_client) q = Inr m"
      using F[THEN conjunct2, rule_format, OF that] by (elim conjE exE) simp
  qed
  have A: "tm_chunkInfo m = None \<and> list_current (transactionIds (tm_tx m)) \<noteq> None"
    by (rule M(2)[OF _ _ _ refl m]) simp_all
  have "\<exists>e. tm_freezeWith decimal_lib sample_codec (chunk_lib submit_c) (\<lambda>_. sample_tx_id)
      (Some sample_file_client) (sample_message\<lparr>tm_maxChunks := 1\<rparr>) = Inl e"
    by (rule M(1)[OF _ _ _ refl]) simp_all
  with A show ?thesis unfolding m by auto
qed

end
