(* ===== verification/Keccak.thy ===== *)
theory Keccak
  imports Hex
begin

text \<open>
  The hash of \<open>src/cryptography/keccak.js\<close>, which works on halves of the lanes: \<open>s\<close> is a list of 50
  words of 32 bits, the word at \<open>2 * i\<close> the low half of lane \<open>i\<close> and the word after it the high half.
  Numbers in bitwise operations are words; an element of \<open>blocks\<close> that was never set counts as 0
  in them. A text is the list of its UTF-16 code units.
\<close>

unbundle bit_operations_syntax

section \<open>Tables\<close>

definition KECCAK_PADDING :: "32 word list" where
  "KECCAK_PADDING = [1, 256, 65536, 16777216]"

definition SHIFT :: "nat list" where
  "SHIFT = [0, 8, 16, 24]"

definition RC :: "32 word list" where
  "RC =
     [1, 0, 32898, 0, 32906, 2147483648, 2147516416, 2147483648,
      32907, 0, 2147483649, 0, 2147516545, 2147483648, 32777, 2147483648,
      138, 0, 136, 0, 2147516425, 0, 2147483658, 0,
      2147516555, 0, 139, 2147483648, 32905, 2147483648, 32771, 2147483648,
      32770, 2147483648, 128, 2147483648, 32778, 0, 2147483658, 2147483648,
      2147516545, 2147483648, 32896, 2147483648, 2147483649, 0, 2147516424, 2147483648]"

record keccak_state =
  k_blocks :: "nat \<Rightarrow> 32 word"
  k_reset :: bool
  k_block :: "32 word"
  k_start :: nat
  k_blockCount :: nat
  k_outputBlocks :: nat
  k_s :: "32 word list"
  k_lastByteIndex :: "nat option"

definition new_keccak :: "nat \<Rightarrow> keccak_state" where
  "new_keccak bits =
     \<lparr>k_blocks = (\<lambda>_. 0), k_reset = True, k_block = 0, k_start = 0,
      k_blockCount = (1600 - 2 * bits) div 32, k_outputBlocks = bits div 32,
      k_s = replicate 50 0, k_lastByteIndex = None\<rparr>"

section \<open>The permutation\<close>

text \<open>The three steps of a round, before the round constant is added.\<close>

definition theta :: "32 word list \<Rightarrow> 32 word list" where
  "theta s =
     (let c0 = s ! 0 XOR s ! 10 XOR s ! 20 XOR s ! 30 XOR s ! 40;
          c1 = s ! 1 XOR s ! 11 XOR s ! 21 XOR s ! 31 XOR s ! 41;
          c2 = s ! 2 XOR s ! 12 XOR s ! 22 XOR s ! 32 XOR s ! 42;
          c3 = s ! 3 XOR s ! 13 XOR s ! 23 XOR s ! 33 XOR s ! 43;
          c4 = s ! 4 XOR s ! 14 XOR s ! 24 XOR s ! 34 XOR s ! 44;
          c5 = s ! 5 XOR s ! 15 XOR s ! 25 XOR s ! 35 XOR s ! 45;
          c6 = s ! 6 XOR s ! 16 XOR s ! 26 XOR s ! 36 XOR s ! 46;
          c7 = s ! 7 XOR s ! 17 XOR s ! 27 XOR s ! 37 XOR s ! 47;
          c8 = s ! 8 XOR s ! 18 XOR s ! 28 XOR s ! 38 XOR s ! 48;
          c9 = s ! 9 XOR s ! 19 XOR s ! 29 XOR s ! 39 XOR s ! 49;
          h0 = c8 XOR (push_bit 1 c2 OR drop_bit 31 c3);
          l0 = c9 XOR (push_bit 1 c3 OR drop_bit 31 c2);
          h1 = c0 XOR (push_bit 1 c4 OR drop_bit 31 c5);
          l1 = c1 XOR (push_bit 1 c5 OR drop_bit 31 c4);
          h2 = c2 XOR (push_bit 1 c6 OR drop_bit 31 c7);
          l2 = c3 XOR (push_bit 1 c7 OR drop_bit 31 c6);
          h3 = c4 XOR (push_bit 1 c8 OR drop_bit 31 c9);
          l3 = c5 XOR (push_bit 1 c9 OR drop_bit 31 c8);
          h4 = c6 XOR (push_bit 1 c0 OR drop_bit 31 c1);
          l4 = c7 XOR (push_bit 1 c1 OR drop_bit 31 c0)
      in [s ! 0 XOR h0, s ! 1 XOR l0,
          s ! 2 XOR h1, s ! 3 XOR l1,
          s ! 4 XOR h2, s ! 5 XOR l2,
          s ! 6 XOR h3, s ! 7 XOR l3,
          s ! 8 XOR h4, s ! 9 XOR l4,
          s ! 10 XOR h0, s ! 11 XOR l0,
          s ! 12 XOR h1, s ! 13 XOR l1,
          s ! 14 XOR h2, s ! 15 XOR l2,
          s ! 16 XOR h3, s ! 17 XOR l3,
          s ! 18 XOR h4, s ! 19 XOR l4,
          s ! 20 XOR h0, s ! 21 XOR l0,
          s ! 22 XOR h1, s ! 23 XOR l1,
          s ! 24 XOR h2, s ! 25 XOR l2,
          s ! 26 XOR h3, s ! 27 XOR l3,
          s ! 28 XOR h4, s ! 29 XOR l4,
          s ! 30 XOR h0, s ! 31 XOR l0,
          s ! 32 XOR h1, s ! 33 XOR l1,
          s ! 34 XOR h2, s ! 35 XOR l2,
          s ! 36 XOR h3, s ! 37 XOR l3,
          s ! 38 XOR h4, s ! 39 XOR l4,
          s ! 40 XOR h0, s ! 41 XOR l0,
          s ! 42 XOR h1, s ! 43 XOR l1,
          s ! 44 XOR h2, s ! 45 XOR l2,
          s ! 46 XOR h3, s ! 47 XOR l3,
          s ! 48 XOR h4, s ! 49 XOR l4])"

definition rho_pi :: "32 word list \<Rightarrow> 32 word list" where
  "rho_pi s =
     [s ! 0,
      s ! 1,
      push_bit 12 (s ! 13) OR drop_bit 20 (s ! 12),
      push_bit 12 (s ! 12) OR drop_bit 20 (s ! 13),
      push_bit 11 (s ! 25) OR drop_bit 21 (s ! 24),
      push_bit 11 (s ! 24) OR drop_bit 21 (s ! 25),
      push_bit 21 (s ! 36) OR drop_bit 11 (s ! 37),
      push_bit 21 (s ! 37) OR drop_bit 11 (s ! 36),
      push_bit 14 (s ! 48) OR drop_bit 18 (s ! 49),
      push_bit 14 (s ! 49) OR drop_bit 18 (s ! 48),
      push_bit 28 (s ! 6) OR drop_bit 4 (s ! 7),
      push_bit 28 (s ! 7) OR drop_bit 4 (s ! 6),
      push_bit 20 (s ! 18) OR drop_bit 12 (s ! 19),
      push_bit 20 (s ! 19) OR drop_bit 12 (s ! 18),
      push_bit 3 (s ! 20) OR drop_bit 29 (s ! 21),
      push_bit 3 (s ! 21) OR drop_bit 29 (s ! 20),
      push_bit 13 (s ! 33) OR drop_bit 19 (s ! 32),
      push_bit 13 (s ! 32) OR drop_bit 19 (s ! 33),
      push_bit 29 (s ! 45) OR drop_bit 3 (s ! 44),
      push_bit 29 (s ! 44) OR drop_bit 3 (s ! 45),
      push_bit 1 (s ! 2) OR drop_bit 31 (s ! 3),
      push_bit 1 (s ! 3) OR drop_bit 31 (s ! 2),
      push_bit 6 (s ! 14) OR drop_bit 26 (s ! 15),
      push_bit 6 (s ! 15) OR drop_bit 26 (s ! 14),
      push_bit 25 (s ! 26) OR drop_bit 7 (s ! 27),
      push_bit 25 (s ! 27) OR drop_bit 7 (s ! 26),
      push_bit 8 (s ! 38) OR drop_bit 24 (s ! 39),
      push_bit 8 (s ! 39) OR drop_bit 24 (s ! 38),
      push_bit 18 (s ! 40) OR drop_bit 14 (s ! 41),
      push_bit 18 (s ! 41) OR drop_bit 14 (s ! 40),
      push_bit 27 (s ! 8) OR drop_bit 5 (s ! 9),
      push_bit 27 (s ! 9) OR drop_bit 5 (s ! 8),
      push_bit 4 (s ! 11) OR drop_bit 28 (s ! 10),
      push_bit 4 (s ! 10) OR drop_bit 28 (s ! 11),
      push_bit 10 (s ! 22) OR drop_bit 22 (s ! 23),
      push_bit 10 (s ! 23) OR drop_bit 22 (s ! 22),
      push_bit 15 (s ! 34) OR drop_bit 17 (s ! 35),
      push_bit 15 (s ! 35) OR drop_bit 17 (s ! 34),
      push_bit 24 (s ! 47) OR drop_bit 8 (s ! 46),
      push_bit 24 (s ! 46) OR drop_bit 8 (s ! 47),
      push_bit 30 (s ! 5) OR drop_bit 2 (s ! 4),
      push_bit 30 (s ! 4) OR drop_bit 2 (s ! 5),
      push_bit 23 (s ! 17) OR drop_bit 9 (s ! 16),
      push_bit 23 (s ! 16) OR drop_bit 9 (s ! 17),
      push_bit 7 (s ! 29) OR drop_bit 25 (s ! 28),
      push_bit 7 (s ! 28) OR drop_bit 25 (s ! 29),
      push_bit 9 (s ! 31) OR drop_bit 23 (s ! 30),
      push_bit 9 (s ! 30) OR drop_bit 23 (s ! 31),
      push_bit 2 (s ! 42) OR drop_bit 30 (s ! 43),
      push_bit 2 (s ! 43) OR drop_bit 30 (s ! 42)]"

definition chi :: "32 word list \<Rightarrow> 32 word list" where
  "chi b =
     [b ! 0 XOR (NOT (b ! 2) AND b ! 4),
      b ! 1 XOR (NOT (b ! 3) AND b ! 5),
      b ! 2 XOR (NOT (b ! 4) AND b ! 6),
      b ! 3 XOR (NOT (b ! 5) AND b ! 7),
      b ! 4 XOR (NOT (b ! 6) AND b ! 8),
      b ! 5 XOR (NOT (b ! 7) AND b ! 9),
      b ! 6 XOR (NOT (b ! 8) AND b ! 0),
      b ! 7 XOR (NOT (b ! 9) AND b ! 1),
      b ! 8 XOR (NOT (b ! 0) AND b ! 2),
      b ! 9 XOR (NOT (b ! 1) AND b ! 3),
      b ! 10 XOR (NOT (b ! 12) AND b ! 14),
      b ! 11 XOR (NOT (b ! 13) AND b ! 15),
      b ! 12 XOR (NOT (b ! 14) AND b ! 16),
      b ! 13 XOR (NOT (b ! 15) AND b ! 17),
      b ! 14 XOR (NOT (b ! 16) AND b ! 18),
      b ! 15 XOR (NOT (b ! 17) AND b ! 19),
      b ! 16 XOR (NOT (b ! 18) AND b ! 10),
      b ! 17 XOR (NOT (b ! 19) AND b ! 11),
      b ! 18 XOR (NOT (b ! 10) AND b ! 12),
      b ! 19 XOR (NOT (b ! 11) AND b ! 13),
      b ! 20 XOR (NOT (b ! 22) AND b ! 24),
      b ! 21 XOR (NOT (b ! 23) AND b ! 25),
      b ! 22 XOR (NOT (b ! 24) AND b ! 26),
      b ! 23 XOR (NOT (b ! 25) AND b ! 27),
      b ! 24 XOR (NOT (b ! 26) AND b ! 28),
      b ! 25 XOR (NOT (b ! 27) AND b ! 29),
      b ! 26 XOR (NOT (b ! 28) AND b ! 20),
      b ! 27 XOR (NOT (b ! 29) AND b ! 21),
      b ! 28 XOR (NOT (b ! 20) AND b ! 22),
      b ! 29 XOR (NOT (b ! 21) AND b ! 23),
      b ! 30 XOR (NOT (b ! 32) AND b ! 34),
      b ! 31 XOR (NOT (b ! 33) AND b ! 35),
      b ! 32 XOR (NOT (b ! 34) AND b ! 36),
      b ! 33 XOR (NOT (b ! 35) AND b ! 37),
      b ! 34 XOR (NOT (b ! 36) AND b ! 38),
      b ! 35 XOR (NOT (b ! 37) AND b ! 39),
      b ! 36 XOR (NOT (b ! 38) AND b ! 30),
      b ! 37 XOR (NOT (b ! 39) AND b ! 31),
      b ! 38 XOR (NOT (b ! 30) AND b ! 32),
      b ! 39 XOR (NOT (b ! 31) AND b ! 33),
      b ! 40 XOR (NOT (b ! 42) AND b ! 44),
      b ! 41 XOR (NOT (b ! 43) AND b ! 45),
      b ! 42 XOR (NOT (b ! 44) AND b ! 46),
      b ! 43 XOR (NOT (b ! 45) AND b ! 47),
      b ! 44 XOR (NOT (b ! 46) AND b ! 48),
      b ! 45 XOR (NOT (b ! 47) AND b ! 49),
      b ! 46 XOR (NOT (b ! 48) AND b ! 40),
      b ! 47 XOR (NOT (b ! 49) AND b ! 41),
      b ! 48 XOR (NOT (b ! 40) AND b ! 42),
      b ! 49 XOR (NOT (b ! 41) AND b ! 43)]"

definition keccak_round :: "32 word list \<Rightarrow> nat \<Rightarrow> 32 word list" where
  "keccak_round s n =
     (let t = chi (rho_pi (theta s))
      in t[0 := t ! 0 XOR RC ! n, 1 := t ! 1 XOR RC ! (n + 1)])"

definition keccak_f :: "32 word list \<Rightarrow> 32 word list" where
  "keccak_f s = foldl keccak_round s (map (\<lambda>k. 2 * k) [0..<24])"

section \<open>Filling the blocks\<close>

datatype keccak_message = Numbers "32 word list" | Text "nat list"

definition or_byte :: "32 word \<Rightarrow> nat \<Rightarrow> (nat \<Rightarrow> 32 word) \<Rightarrow> (nat \<Rightarrow> 32 word)" where
  "or_byte v i b = b(i div 4 := b (i div 4) OR push_bit (SHIFT ! (i mod 4)) v)"

fun or_bytes :: "32 word list \<Rightarrow> nat \<Rightarrow> (nat \<Rightarrow> 32 word) \<Rightarrow> (nat \<Rightarrow> 32 word)" where
  "or_bytes [] i b = b"
| "or_bytes (v # vs) i b = or_bytes vs (Suc i) (or_byte v i b)"

fun fill_numbers ::
    "nat \<Rightarrow> 32 word list \<Rightarrow> nat \<Rightarrow> (nat \<Rightarrow> 32 word) \<Rightarrow> 32 word list \<times> nat \<times> (nat \<Rightarrow> 32 word)" where
  "fill_numbers byteCount [] i b = ([], i, b)"
| "fill_numbers byteCount (v # vs) i b =
     (if i < byteCount then fill_numbers byteCount vs (Suc i) (or_byte v i b) else (v # vs, i, b))"

text \<open>The bytes of a code unit, or of a pair of surrogates with the code unit after it.\<close>

definition utf8_units :: "nat \<Rightarrow> nat list \<Rightarrow> 32 word list \<times> nat list" where
  "utf8_units c rest =
     (let w = of_nat c :: 32 word
      in if c < 0x80 then ([w], rest)
         else if c < 0x800 then ([0xC0 OR drop_bit 6 w, 0x80 OR (w AND 0x3F)], rest)
         else if c < 0xD800 \<or> 0xE000 \<le> c
         then ([0xE0 OR drop_bit 12 w, 0x80 OR (drop_bit 6 w AND 0x3F), 0x80 OR (w AND 0x3F)], rest)
         else let d = (case rest of [] \<Rightarrow> (0 :: 32 word) | u # _ \<Rightarrow> of_nat u);
                  p = 0x10000 + (push_bit 10 (w AND 0x3FF) OR (d AND 0x3FF))
              in ([0xF0 OR drop_bit 18 p, 0x80 OR (drop_bit 12 p AND 0x3F),
                   0x80 OR (drop_bit 6 p AND 0x3F), 0x80 OR (p AND 0x3F)], tl rest))"

lemma utf8_units_rest: "length (snd (utf8_units c rest)) \<le> length rest"
  by (simp add: utf8_units_def Let_def)

function fill_text ::
    "nat \<Rightarrow> nat list \<Rightarrow> nat \<Rightarrow> (nat \<Rightarrow> 32 word) \<Rightarrow> nat list \<times> nat \<times> (nat \<Rightarrow> 32 word)" where
  "fill_text byteCount [] i b = ([], i, b)"
| "fill_text byteCount (c # cs) i b =
     (if i < byteCount
      then fill_text byteCount (snd (utf8_units c cs)) (i + length (fst (utf8_units c cs)))
             (or_bytes (fst (utf8_units c cs)) i b)
      else (c # cs, i, b))"
  by pat_completeness auto
termination
  by (relation "measure (\<lambda>(_, cs, _, _). length cs)") (simp_all add: less_Suc_eq_le utf8_units_rest)

fun fill :: "nat \<Rightarrow> keccak_message \<Rightarrow> nat \<Rightarrow> (nat \<Rightarrow> 32 word) \<Rightarrow> keccak_message \<times> nat \<times> (nat \<Rightarrow> 32 word)" where
  "fill byteCount (Numbers vs) i b =
     (let (vs', i', b') = fill_numbers byteCount vs i b in (Numbers vs', i', b'))"
| "fill byteCount (Text cs) i b =
     (let (cs', i', b') = fill_text byteCount cs i b in (Text cs', i', b'))"

fun message_length :: "keccak_message \<Rightarrow> nat" where
  "message_length (Numbers vs) = length vs"
| "message_length (Text cs) = length cs"

section \<open>Absorbing, padding and printing\<close>

definition xor_in :: "nat \<Rightarrow> 32 word list \<Rightarrow> (nat \<Rightarrow> 32 word) \<Rightarrow> 32 word list" where
  "xor_in n s b = map (\<lambda>i. if i < n then s ! i XOR b i else s ! i) [0..<length s]"

definition clear_blocks :: "nat \<Rightarrow> 32 word \<Rightarrow> (nat \<Rightarrow> 32 word) \<Rightarrow> (nat \<Rightarrow> 32 word)" where
  "clear_blocks n first b = (\<lambda>i. if i = 0 then first else if i < n + 1 then 0 else b i)"

text \<open>One turn of the outer loop of \<open>update\<close>.\<close>

definition absorb_step :: "keccak_state \<Rightarrow> keccak_message \<Rightarrow> keccak_state \<times> keccak_message" where
  "absorb_step st msg =
     (let bc = k_blockCount st; byteCount = 4 * bc;
          b0 = (if k_reset st then clear_blocks bc (k_block st) (k_blocks st) else k_blocks st);
          (rest, i, b) = fill byteCount msg (k_start st) b0;
          st1 = st\<lparr>k_reset := False, k_blocks := b, k_lastByteIndex := Some i\<rparr>
      in (if i \<ge> byteCount
          then st1\<lparr>k_start := i - byteCount, k_block := b bc, k_s := keccak_f (xor_in bc (k_s st) b),
                   k_reset := True\<rparr>
          else st1\<lparr>k_start := i\<rparr>, rest))"

partial_function (option) absorb :: "keccak_state \<Rightarrow> keccak_message \<Rightarrow> keccak_state option" where
  "absorb st msg =
     (if message_length msg = 0 then Some st
      else let (st', rest) = absorb_step st msg in absorb st' rest)"

text \<open>Nothing was absorbed from an empty message; its last index counts as 0.\<close>

definition finalize :: "keccak_state \<Rightarrow> 32 word list" where
  "finalize st =
     (let bc = k_blockCount st;
          i = (case k_lastByteIndex st of None \<Rightarrow> 0 | Some i \<Rightarrow> i);
          b1 = (k_blocks st)(i div 4 := k_blocks st (i div 4) OR KECCAK_PADDING ! (i mod 4));
          b2 = (if k_lastByteIndex st = Some (4 * bc) then clear_blocks bc (b1 bc) b1 else b1);
          b3 = b2(bc - 1 := b2 (bc - 1) OR 0x80000000)
      in keccak_f (xor_in bc (k_s st) b3))"

definition hex_char :: "32 word \<Rightarrow> nat \<Rightarrow> char" where
  "hex_char w n = hex_digit (unat (drop_bit n w AND 0x0F))"

definition word_hex :: "32 word \<Rightarrow> string" where
  "word_hex w = [hex_char w 4, hex_char w 0, hex_char w 12, hex_char w 8,
                 hex_char w 20, hex_char w 16, hex_char w 28, hex_char w 24]"

partial_function (option) squeeze ::
    "nat \<Rightarrow> nat \<Rightarrow> 32 word list \<Rightarrow> nat \<Rightarrow> string \<Rightarrow> string option" where
  "squeeze blockCount outputBlocks s j hex =
     (if j < outputBlocks then
        let n = min blockCount (outputBlocks - j); j' = j + n;
            s' = (if j' mod blockCount = 0 then keccak_f s else s)
        in squeeze blockCount outputBlocks s' j' (hex @ concat (map word_hex (take n s)))
      else Some hex)"

declare absorb.simps [code] squeeze.simps [code]

definition update :: "keccak_state \<Rightarrow> keccak_message \<Rightarrow> string option" where
  "update st msg =
     (case absorb st msg of
        None \<Rightarrow> None
      | Some st' \<Rightarrow>
          map_option (\<lambda>h. ''0x'' @ h) (squeeze (k_blockCount st') (k_outputBlocks st') (finalize st') 0 []))"

text \<open>\<open>parseInt(run, 16)\<close> as the word it is in the bitwise operations, \<open>NaN\<close> the word 0.\<close>

fun slices_of_two :: "string \<Rightarrow> string list" where
  "slices_of_two [] = []"
| "slices_of_two [c] = [[c]]"
| "slices_of_two (c # d # r) = [c, d] # slices_of_two r"

definition parse_hex_word :: "string \<Rightarrow> 32 word" where
  "parse_hex_word s =
     (let t = dropWhile is_space s;
          neg = (t \<noteq> [] \<and> hd t = CHR ''-'');
          u = (if t \<noteq> [] \<and> (hd t = CHR ''-'' \<or> hd t = CHR ''+'') then tl t else t);
          v = of_nat (hex_digits_value 0 (strip_0x u))
      in if neg then - v else v)"

definition keccak :: "nat \<Rightarrow> string \<Rightarrow> string option" where
  "keccak bits str =
     update (new_keccak bits)
       (if take 2 str = ''0x'' then Numbers (map parse_hex_word (slices_of_two (drop 2 str)))
        else Text (map code_of str))"

definition keccak256 :: "string \<Rightarrow> string option" where
  "keccak256 = keccak 256"

end
