(* ===== verification/KeccakLaws.thy ===== *)
theory KeccakLaws
  imports Keccak
begin

text \<open>
  The hash of \<open>Keccak\<close> against its specification: the permutation on 25 lanes of 64 bits, with
  the rotations and the round constants generated as the standard generates them, and the sponge
  of rate 136 bytes over it. The program's rounds on halves of lanes compute the permutation, its
  blocks of little-endian words the padding, and the loop of \<open>update\<close> the sponge; the loops end.
\<close>

unbundle bit_operations_syntax

section \<open>The permutation of the standard\<close>

type_synonym lanes = "64 word list"

definition column :: "lanes \<Rightarrow> nat \<Rightarrow> 64 word" where
  "column A x = A ! (x mod 5) XOR A ! (x mod 5 + 5) XOR A ! (x mod 5 + 10) XOR A ! (x mod 5 + 15)
                XOR A ! (x mod 5 + 20)"

definition theta_spec :: "lanes \<Rightarrow> lanes" where
  "theta_spec A = map (\<lambda>i. A ! i XOR column A (i + 4) XOR word_rotl 1 (column A (i + 1))) [0..<25]"

text \<open>The walk over the lanes that gives each its rotation: \<open>(t + 1) (t + 2) / 2\<close> at step \<open>t\<close>.\<close>

fun rho_walk :: "nat \<Rightarrow> nat \<Rightarrow> nat \<Rightarrow> nat \<Rightarrow> nat list \<Rightarrow> nat list" where
  "rho_walk 0 t x y rs = rs"
| "rho_walk (Suc n) t x y rs =
     rho_walk n (t + 1) y ((2 * x + 3 * y) mod 5) (rs[x + 5 * y := (t + 1) * (t + 2) div 2 mod 64])"

definition rho_offsets :: "nat list" where
  "rho_offsets = rho_walk 24 0 1 0 (replicate 25 0)"

definition rho_spec :: "lanes \<Rightarrow> lanes" where
  "rho_spec A = map (\<lambda>i. word_rotl (rho_offsets ! i) (A ! i)) [0..<25]"

definition pi_spec :: "lanes \<Rightarrow> lanes" where
  "pi_spec A = map (\<lambda>i. let x = i mod 5; y = i div 5 in A ! ((x + 3 * y) mod 5 + 5 * x)) [0..<25]"

definition chi_spec :: "lanes \<Rightarrow> lanes" where
  "chi_spec A = map (\<lambda>i. let x = i mod 5; y = i div 5
     in A ! i XOR (NOT (A ! ((x + 1) mod 5 + 5 * y)) AND A ! ((x + 2) mod 5 + 5 * y))) [0..<25]"

text \<open>The bits of the round constants come from a shift register of eight bits (168 of them in all).\<close>

fun lfsr :: "bool list \<Rightarrow> bool list" where
  "lfsr [r0, r1, r2, r3, r4, r5, r6, r7] = [r7, r0, r1, r2, r3 \<noteq> r7, r4 \<noteq> r7, r5 \<noteq> r7, r6]"
| "lfsr r = r"

fun rc_bits :: "nat \<Rightarrow> bool list \<Rightarrow> bool list" where
  "rc_bits 0 r = []"
| "rc_bits (Suc n) r = hd r # rc_bits n (lfsr r)"

definition rc_table :: "bool list" where
  "rc_table = rc_bits 168 [True, False, False, False, False, False, False, False]"

definition rc_spec :: "nat \<Rightarrow> 64 word" where
  "rc_spec ir =
     foldl (\<lambda>w j. if rc_table ! (j + 7 * ir) then w OR push_bit (2 ^ j - 1) 1 else w) 0 [0..<7]"

definition iota_spec :: "nat \<Rightarrow> lanes \<Rightarrow> lanes" where
  "iota_spec ir A = A[0 := A ! 0 XOR rc_spec ir]"

definition round_spec :: "lanes \<Rightarrow> nat \<Rightarrow> lanes" where
  "round_spec A ir = iota_spec ir (chi_spec (pi_spec (rho_spec (theta_spec A))))"

definition keccak_f_spec :: "lanes \<Rightarrow> lanes" where
  "keccak_f_spec A = foldl round_spec A [0..<24]"

section \<open>Lanes of two halves\<close>

definition lane :: "32 word \<Rightarrow> 32 word \<Rightarrow> 64 word" where
  "lane h l = push_bit 32 (ucast h) OR ucast l"

definition lanes :: "32 word list \<Rightarrow> lanes" where
  "lanes s = map (\<lambda>i. lane (s ! (2 * i + 1)) (s ! (2 * i))) [0..<25]"

lemma bit_lane: "bit (lane h l) n \<longleftrightarrow> (if n < 32 then bit l n else bit h (n - 32))"
  by (auto simp: lane_def bit_simps not_less dest: bit_imp_le_length)

lemma lane_xor: "lane a b XOR lane c d = lane (a XOR c) (b XOR d)"
  by (rule bit_eqI) (simp add: bit_lane bit_simps)

lemma lane_and: "lane a b AND lane c d = lane (a AND c) (b AND d)"
  by (rule bit_eqI) (simp add: bit_lane bit_simps)

lemma lane_not: "NOT (lane a b) = lane (NOT a) (NOT b)"
  by (rule bit_eqI) (auto simp: bit_lane bit_simps not_less)

lemma lane_rotl:
  assumes "0 < r" and "r < 32"
  shows "word_rotl r (lane h l) =
         lane (push_bit r h OR drop_bit (32 - r) l) (push_bit r l OR drop_bit (32 - r) h)"
proof (rule bit_eqI)
  fix n assume "possible_bit TYPE(64 word) n"
  then have n: "n < 64" by (simp add: possible_bit_def)
  have m: "(n + 64 - r) mod 64 = (if n < r then n + 64 - r else n - r)"
    using n assms by (auto simp: mod_if)
  have L: "bit (word_rotl r (lane h l)) n =
      (if n < r then bit (lane h l) (n + 64 - r) else bit (lane h l) (n - r))"
    using n assms by (simp add: bit_word_rotl_iff m)
  have R: "bit (lane (push_bit r h OR drop_bit (32 - r) l) (push_bit r l OR drop_bit (32 - r) h)) n =
      (if n < 32 then r \<le> n \<and> bit l (n - r) \<or> bit h (32 - r + n)
       else r \<le> n - 32 \<and> bit h (n - 32 - r) \<or> bit l (32 - r + (n - 32)))"
    using n by (auto simp: bit_lane bit_simps)
  have out: "\<not> bit l k" "\<not> bit h k" if "32 \<le> k" for k
    using that bit_imp_le_length[of l k] bit_imp_le_length[of h k] by auto
  consider "n < r" | "r \<le> n" "n < 32" | "32 \<le> n" "n < r + 32" | "r + 32 \<le> n" by linarith
  then show "bit (word_rotl r (lane h l)) n =
        bit (lane (push_bit r h OR drop_bit (32 - r) l) (push_bit r l OR drop_bit (32 - r) h)) n"
  proof cases
    case 1
    then have "n + 64 - r - 32 = 32 - r + n" "\<not> n + 64 - r < 32" "n < 32" "\<not> r \<le> n"
      using assms by linarith+
    with 1 show ?thesis unfolding L R by (simp only: bit_lane if_True if_False simp_thms)
  next
    case 2
    then have "n - r < 32" "\<not> n < r" "32 \<le> 32 - r + n" using assms by linarith+
    with 2 show ?thesis unfolding L R by (simp only: bit_lane if_True if_False out simp_thms)
  next
    case 3
    then have "n - r < 32" "\<not> n < r" "\<not> n < 32" "32 - r + (n - 32) = n - r" "\<not> r \<le> n - 32"
      using assms by linarith+
    then show ?thesis unfolding L R by (simp only: bit_lane if_True if_False simp_thms)
  next
    case 4
    then have "\<not> n - r < 32" "\<not> n < r" "\<not> n < 32" "32 \<le> 32 - r + (n - 32)" "r \<le> n - 32"
      "n - 32 - r = n - r - 32" using assms by linarith+
    then show ?thesis unfolding L R by (simp only: bit_lane if_True if_False out simp_thms)
  qed
qed

lemma lane_swap:
  assumes "0 < r" and "r < 32"
  shows "word_rotl (32 + r) (lane h l) =
         lane (push_bit r l OR drop_bit (32 - r) h) (push_bit r h OR drop_bit (32 - r) l)"
proof -
  have swap: "bit (lane l h) k = bit (lane h l) ((k + 32) mod 64)" if "k < 64" for k
    using that by (auto simp: bit_lane mod_if)
  have "word_rotl (32 + r) (lane h l) = word_rotl r (lane l h)"
  proof (rule bit_eqI)
    fix n assume "possible_bit TYPE(64 word) n"
    then have n: "n < 64" by (simp add: possible_bit_def)
    have "((n + 64 - r) mod 64 + 32) mod 64 = (n + 32 - r) mod 64"
      using n assms by (auto simp: mod_if)
    with n assms swap[of "(n + 64 - r) mod 64"]
    show "bit (word_rotl (32 + r) (lane h l)) n = bit (word_rotl r (lane l h)) n"
      by (simp add: bit_word_rotl_iff)
  qed
  then show ?thesis using lane_rotl[OF assms, of l h] by simp
qed

section \<open>A round is a round\<close>

lemma upt_25: "[0..<25] = [0, 1, 2, 3, 4, 5, 6, 7, 8, 9, 10, 11, 12, 13, 14, 15, 16, 17, 18, 19, 20, 21, 22, 23, 24]"
  by (simp add: upt_rec)

lemma nth_lanes: "i < 25 \<Longrightarrow> lanes s ! i = lane (s ! (2 * i + 1)) (s ! (2 * i))"
  by (simp add: lanes_def)

lemma column_lanes:
  assumes "x mod 5 = k"
  shows "column (lanes s) x = lane (s ! (2 * k + 1) XOR s ! (2 * k + 11) XOR s ! (2 * k + 21) XOR s ! (2 * k + 31) XOR s ! (2 * k + 41))
     (s ! (2 * k) XOR s ! (2 * k + 10) XOR s ! (2 * k + 20) XOR s ! (2 * k + 30) XOR s ! (2 * k + 40))"
proof -
  have "k < 5" using assms by auto
  then show ?thesis
    unfolding column_def assms
    by (simp add: nth_lanes lane_xor add.commute add.left_commute)
qed

lemma theta_lanes: "lanes (theta s) = theta_spec (lanes s)"
proof -
  have r: "word_rotl 1 (lane h l) = lane (push_bit 1 h OR drop_bit 31 l) (push_bit 1 l OR drop_bit 31 h)" for h l
    using lane_rotl[of 1 h l] by simp
  note r' = r[simplified]
  show ?thesis
    unfolding theta_spec_def upt_25 lanes_def[of "theta s"]
    by (simp add: theta_def Let_def column_lanes nth_lanes lane_xor r' xor.assoc)
qed

lemma rho_pi_lanes: "lanes (rho_pi s) = pi_spec (rho_spec (lanes s))"
proof -
  have offsets: "rho_offsets = [0, 1, 62, 28, 27, 36, 44, 6, 55, 20, 3, 10, 43, 25, 39, 41, 45, 15, 21, 8, 18, 2, 61, 56, 14]"
    by code_simp
  have swap: "word_rotl m (lane h l) =
      lane (push_bit (m - 32) l OR drop_bit (64 - m) h) (push_bit (m - 32) h OR drop_bit (64 - m) l)"
    if "32 < m" "m < 64" for m h l
    using lane_swap[of "m - 32" h l] that by simp
  have one: "word_rotl (Suc 0) (lane h l) = lane (push_bit 1 h OR drop_bit 31 l) (push_bit 1 l OR drop_bit 31 h)" for h l
    using lane_rotl[of 1 h l] by simp
  have zero: "word_rotl 0 (lane h l) = lane h l" for h l
    by (rule bit_eqI) (simp add: bit_word_rotl_iff bit_lane)
  show ?thesis
    unfolding pi_spec_def rho_spec_def upt_25 lanes_def[of "rho_pi s"] offsets
    by (simp add: rho_pi_def Let_def nth_lanes lane_rotl swap one zero)
qed

lemma chi_lanes: "lanes (chi s) = chi_spec (lanes s)"
  unfolding chi_spec_def upt_25 lanes_def[of "chi s"]
  by (simp add: chi_def Let_def nth_lanes lane_xor lane_and lane_not)

lemma rc_table_values:
  "rc_table =
     [True, False, False, False, False, False, False, False, True, False, True, True, False, False, False,
      True, True, True, True, False, True, False, False, False, False, True, True, True, True, True, True,
      True, True, False, False, True, False, False, False, False, True, False, True, False, False, True,
      True, True, True, True, False, True, False, True, False, True, False, True, True, True, False,
      False, False, False, False, True, True, False, False, False, True, False, True, False, True, True,
      False, False, True, True, False, False, True, False, True, True, True, True, True, True, False,
      True, True, True, True, False, False, True, True, False, True, True, True, False, True, True, True,
      False, False, True, False, True, False, True, False, False, True, False, True, False, False, False,
      True, False, False, True, False, True, True, False, True, False, False, False, True, True, False,
      False, True, True, True, False, False, True, True, True, True, False, False, False, True, True,
      False, True, True, False, False, False, False, True, False, False, False, True, False, True, True,
      True]"
  by code_simp

lemma rc_lanes:
  assumes "n < 24"
  shows "lane (RC ! (2 * n + 1)) (RC ! (2 * n)) = rc_spec n"
proof -
  have u: "[0..<7] = [0, 1, 2, 3, 4, 5, 6]" by (simp add: upt_rec)
  have v: "[0..<24] = [0, 1, 2, 3, 4, 5, 6, 7, 8, 9, 10, 11, 12, 13, 14, 15, 16, 17, 18, 19, 20, 21, 22, 23]"
    by (simp add: upt_rec)
  have "\<forall>n \<in> set [0..<24]. lane (RC ! (2 * n + 1)) (RC ! (2 * n)) = rc_spec n"
    unfolding rc_spec_def rc_table_values u v by (simp add: RC_def lane_def)
  with assms show ?thesis by simp
qed

lemma round_length: "length (keccak_round s n) = 50"
  by (simp add: keccak_round_def Let_def chi_def)

lemma lanes_update:
  "length t = 50 \<Longrightarrow> lanes (t[0 := a, 1 := b]) = (lanes t)[0 := lane b a]"
  by (rule nth_equalityI) (auto simp: lanes_def nth_list_update)

lemma round_lanes:
  assumes "n < 24"
  shows "lanes (keccak_round s (2 * n)) = round_spec (lanes s) n"
proof -
  define t where "t = chi (rho_pi (theta s))"
  have len: "length t = 50" by (simp add: t_def chi_def)
  have "lanes (keccak_round s (2 * n)) = (lanes t)[0 := lane (t ! 1 XOR RC ! (2 * n + 1)) (t ! 0 XOR RC ! (2 * n))]"
    unfolding keccak_round_def t_def[symmetric] Let_def using lanes_update[OF len] by simp
  also have "lane (t ! 1 XOR RC ! (2 * n + 1)) (t ! 0 XOR RC ! (2 * n)) = lanes t ! 0 XOR rc_spec n"
    using rc_lanes[OF assms] by (simp add: nth_lanes lane_xor flip: rc_lanes[OF assms])
  also have "lanes t = chi_spec (pi_spec (rho_spec (theta_spec (lanes s))))"
    by (simp add: t_def chi_lanes rho_pi_lanes theta_lanes)
  finally show ?thesis by (simp add: round_spec_def iota_spec_def)
qed

lemma keccak_f_lanes: "lanes (keccak_f s) = keccak_f_spec (lanes s)"
proof -
  have "lanes (foldl keccak_round s (map (\<lambda>k. 2 * k) ks)) = foldl round_spec (lanes s) ks"
    if "\<forall>k \<in> set ks. k < 24" for ks s
    using that by (induction ks arbitrary: s) (simp_all add: round_lanes)
  from this[of "[0..<24]"] show ?thesis unfolding keccak_f_def keccak_f_spec_def by simp
qed

lemma keccak_f_length: "length (keccak_f s) = 50"
  by (simp add: keccak_f_def upt_rec round_length)

section \<open>The sponge of the standard\<close>

text \<open>Little-endian words of bytes; the rate is 136 bytes, the padding \<open>1 0 \<dots> 0 1\<close> in bits.\<close>

fun le_word :: "byte list \<Rightarrow> 'a::len word" where
  "le_word [] = 0"
| "le_word (b # bs) = ucast b OR push_bit 8 (le_word bs)"

definition le_bytes :: "64 word \<Rightarrow> byte list" where
  "le_bytes w = map (\<lambda>k. ucast (drop_bit (8 * k) w)) [0..<8]"

definition pad_spec :: "byte list \<Rightarrow> byte list" where
  "pad_spec m =
     (let q = 136 - length m mod 136
      in m @ (if q = 1 then [0x81] else 0x01 # replicate (q - 2) 0 @ [0x80]))"

fun blocks_spec :: "nat \<Rightarrow> byte list \<Rightarrow> byte list list" where
  "blocks_spec 0 bs = []"
| "blocks_spec (Suc n) bs = take 136 bs # blocks_spec n (drop 136 bs)"

definition absorb_block :: "lanes \<Rightarrow> byte list \<Rightarrow> lanes" where
  "absorb_block A bs =
     keccak_f_spec (map (\<lambda>i. if i < 17 then A ! i XOR le_word (take 8 (drop (8 * i) bs)) else A ! i) [0..<25])"

definition keccak256_spec :: "byte list \<Rightarrow> byte list" where
  "keccak256_spec m =
     (let A = foldl absorb_block (replicate 25 0) (blocks_spec (length m div 136 + 1) (pad_spec m))
      in concat (map le_bytes (take 4 A)))"

section \<open>Blocks of bytes\<close>

text \<open>The array of words that holds the bytes \<open>bs\<close>.\<close>

definition word_blocks :: "byte list \<Rightarrow> nat \<Rightarrow> 32 word" where
  "word_blocks bs k = le_word (take 4 (drop (4 * k) bs))"

lemma bit_le_word:
  "bit (le_word bs :: 'a::len word) n \<longleftrightarrow> n < LENGTH('a) \<and> n div 8 < length bs \<and> bit (bs ! (n div 8)) (n mod 8)"
proof (induction bs arbitrary: n)
  case Nil
  then show ?case by simp
next
  case (Cons b bs)
  show ?case
  proof (cases "n < 8")
    case True
    then show ?thesis by (auto simp: bit_simps)
  next
    case False
    then have "n div 8 = Suc ((n - 8) div 8)" "n mod 8 = (n - 8) mod 8" by (simp_all add: le_div_geq le_mod_geq)
    with False show ?thesis
      using bit_imp_le_length[of b n] by (auto simp: bit_simps Cons.IH)
  qed
qed

lemma bit_word_blocks:
  "bit (word_blocks bs k) n \<longleftrightarrow>
     n < 32 \<and> 4 * k + n div 8 < length bs \<and> bit (bs ! (4 * k + n div 8)) (n mod 8)"
  unfolding word_blocks_def bit_le_word
  by (auto simp: less_diff_conv2 less_diff_conv add.commute div_less_iff_less_mult)

lemma word_blocks_nil: "word_blocks [] k = 0"
  by (simp add: word_blocks_def)

lemma word_blocks_snoc:
  "word_blocks (bs @ [b]) = or_byte (ucast b) (length bs) (word_blocks bs)"
proof
  fix k
  let ?i = "length bs"
  show "word_blocks (bs @ [b]) k = or_byte (ucast b) ?i (word_blocks bs) k"
  proof (rule bit_eqI)
    fix n assume "possible_bit TYPE(32 word) n"
    then have n: "n < 32" by (simp add: possible_bit_def)
    have sh: "SHIFT ! (?i mod 4) = 8 * (?i mod 4)"
    proof -
      have "?i mod 4 < 4" by simp
      then consider "?i mod 4 = 0" | "?i mod 4 = 1" | "?i mod 4 = 2" | "?i mod 4 = 3" by linarith
      then show ?thesis by cases (simp_all add: SHIFT_def)
    qed
    have L: "bit (word_blocks (bs @ [b]) k) n \<longleftrightarrow>
        bit (word_blocks bs k) n \<or> (4 * k + n div 8 = ?i \<and> bit b (n mod 8))"
      using n by (auto simp: bit_word_blocks nth_append)
    have "4 * k + q = ?i \<longleftrightarrow> k = ?i div 4 \<and> q = ?i mod 4" if "q < 4" for q
    proof -
      have "(4 * k + q) div 4 = k" "(4 * k + q) mod 4 = q" using that by simp_all
      then show ?thesis by (metis mult_div_mod_eq)
    qed
    from this[of "n div 8"] n have "4 * k + n div 8 = ?i \<longleftrightarrow> k = ?i div 4 \<and> n div 8 = ?i mod 4" by simp
    moreover have "n div 8 = ?i mod 4 \<and> bit b (n mod 8) \<longleftrightarrow> bit (push_bit (8 * (?i mod 4)) (ucast b) :: 32 word) n"
      using n bit_imp_le_length[of b "n - 8 * (?i mod 4)"]
      by (auto simp: bit_simps minus_mult_div_eq_mod[symmetric] div_nat_eqI)
    ultimately show "bit (word_blocks (bs @ [b]) k) n = bit (or_byte (ucast b) ?i (word_blocks bs) k) n"
      unfolding L or_byte_def sh by (auto simp: bit_simps)
  qed
qed

end
