(* ===== verification/KeccakSponge.thy ===== *)
theory KeccakSponge
  imports KeccakLaws
begin

text \<open>
  The loop of \<open>update\<close>, the padding and the printed digest against the sponge of the standard, and
  the termination of both loops.
\<close>

unbundle bit_operations_syntax

section \<open>Padding\<close>

lemma SHIFT_nth: "SHIFT ! (i mod 4) = 8 * (i mod 4)"
proof -
  have "i mod 4 < 4" by simp
  then consider "i mod 4 = 0" | "i mod 4 = 1" | "i mod 4 = 2" | "i mod 4 = 3" by linarith
  then show ?thesis by cases (simp_all add: SHIFT_def)
qed

lemma padding_byte: "b(i div 4 := b (i div 4) OR KECCAK_PADDING ! (i mod 4)) = or_byte 1 i b"
proof -
  have "i mod 4 < 4" by simp
  then consider "i mod 4 = 0" | "i mod 4 = 1" | "i mod 4 = 2" | "i mod 4 = 3" by linarith
  then have "KECCAK_PADDING ! (i mod 4) = push_bit (SHIFT ! (i mod 4)) 1"
    by cases (simp_all add: SHIFT_def KECCAK_PADDING_def)
  then show ?thesis by (simp add: or_byte_def)
qed

lemma last_byte: "b(33 := b 33 OR 0x80000000) = or_byte 0x80 135 b"
  by (simp add: or_byte_def SHIFT_def)

lemma or_byte_twice: "or_byte u i (or_byte v i b) = or_byte (u OR v) i b"
  by (simp add: or_byte_def fun_eq_iff push_bit_or or.assoc or.commute or.left_commute)

lemma word_blocks_zeros: "word_blocks (bs @ replicate n 0) = word_blocks bs"
proof (induction n)
  case 0
  then show ?case by simp
next
  case (Suc n)
  have "word_blocks (bs @ replicate (Suc n) 0) = word_blocks ((bs @ replicate n 0) @ [0])"
    by (simp add: replicate_append_same)
  also have "\<dots> = word_blocks bs"
    unfolding word_blocks_snoc Suc by (simp add: or_byte_def)
  finally show ?case .
qed

lemma word_blocks_beyond: "length bs \<le> 4 * k \<Longrightarrow> word_blocks bs k = 0"
  by (simp add: word_blocks_def)

lemma pad_length: "length m < 136 \<Longrightarrow> length (pad_spec m) = 136"
  by (auto simp: pad_spec_def Let_def)

lemma pad_blocks:
  assumes "length m < 136"
  shows "word_blocks (pad_spec m) = or_byte 0x80 135 (or_byte 1 (length m) (word_blocks m))"
proof (cases "length m = 135")
  case True
  then have "pad_spec m = m @ [0x81]" by (simp add: pad_spec_def)
  then show ?thesis by (simp add: word_blocks_snoc True or_byte_twice)
next
  case False
  with assms have "pad_spec m = ((m @ [1]) @ replicate (134 - length m) 0) @ [0x80]"
    and "length ((m @ [1]) @ replicate (134 - length m) (0 :: byte)) = 135"
    by (auto simp: pad_spec_def Let_def)
  then show ?thesis
    by (simp only: word_blocks_snoc word_blocks_zeros) simp
qed

lemma pad_more:
  assumes "136 \<le> length m"
  shows "take 136 (pad_spec m) = take 136 m" and "drop 136 (pad_spec m) = pad_spec (drop 136 m)"
  using assms by (simp_all add: pad_spec_def Let_def le_mod_geq)

section \<open>A block into the lanes\<close>

lemma le_lane:
  "le_word (take 8 (drop (8 * i) bs)) = lane (word_blocks bs (2 * i + 1)) (word_blocks bs (2 * i))"
proof (rule bit_eqI)
  fix n assume "possible_bit TYPE(64 word) n"
  then have n: "n < 64" by (simp add: possible_bit_def)
  have idx: "q < length bs - 8 * i \<longleftrightarrow> 8 * i + q < length bs" for q by auto
  show "bit (le_word (take 8 (drop (8 * i) bs)) :: 64 word) n =
        bit (lane (word_blocks bs (2 * i + 1)) (word_blocks bs (2 * i))) n"
  proof (cases "n < 32")
    case True
    then have "n div 8 < 8" by linarith
    with True n show ?thesis
      by (cases "8 * i + n div 8 < length bs") (simp_all add: bit_le_word bit_lane bit_word_blocks idx)
  next
    case False
    then obtain j where j: "n = 32 + j" by (metis le_add_diff_inverse not_less)
    have e: "(32 + j) div 8 = 4 + j div 8" "(32 + j) mod 8 = j mod 8" by (simp, presburger)
    from n j have "j < 32" "j div 8 < 4" by simp_all
    then show ?thesis
      unfolding j bit_le_word bit_lane bit_word_blocks e
      by (cases "8 * i + (4 + j div 8) < length bs") (simp_all add: idx add.assoc add.left_commute)
  qed
qed

lemma xor_in_lanes:
  assumes "length s = 50"
  shows "lanes (xor_in 34 s (word_blocks bs)) =
    map (\<lambda>i. if i < 17 then lanes s ! i XOR le_word (take 8 (drop (8 * i) bs)) else lanes s ! i) [0..<25]"
  by (rule nth_equalityI) (auto simp: lanes_def xor_in_def assms le_lane lane_xor)

lemma absorb_lanes:
  "length s = 50 \<Longrightarrow> lanes (keccak_f (xor_in 34 s (word_blocks bs))) = absorb_block (lanes s) bs"
  by (simp add: keccak_f_lanes xor_in_lanes absorb_block_def)

section \<open>The loop of update\<close>

lemma fill_numbers_blocks:
  assumes "length pre \<le> bc"
  shows "fill_numbers bc (map ucast ms) (length pre) (word_blocks pre) =
    (map ucast (drop (bc - length pre) ms), min bc (length pre + length ms),
     word_blocks (pre @ take (bc - length pre) ms))"
  using assms
proof (induction ms arbitrary: pre)
  case Nil
  then show ?case by simp
next
  case (Cons m ms)
  show ?case
  proof (cases "length pre < bc")
    case True
    have "or_byte (ucast m) (length pre) (word_blocks pre) = word_blocks (pre @ [m])"
      by (rule word_blocks_snoc[symmetric])
    then have "fill_numbers bc (map ucast (m # ms)) (length pre) (word_blocks pre) =
        fill_numbers bc (map ucast ms) (length (pre @ [m])) (word_blocks (pre @ [m]))"
      using True by simp
    also have "\<dots> = (map ucast (drop (bc - length (pre @ [m])) ms), min bc (length (pre @ [m]) + length ms),
        word_blocks ((pre @ [m]) @ take (bc - length (pre @ [m])) ms))"
      using True by (intro Cons.IH) simp
    finally show ?thesis
      using True by (simp add: Suc_diff_Suc[symmetric])
  next
    case False
    with Cons.prems show ?thesis by simp
  qed
qed

text \<open>The state before a block: the words of the last block, or none, are still in the array.\<close>

definition fresh :: "keccak_state \<Rightarrow> bool" where
  "fresh st \<longleftrightarrow>
     k_reset st \<and> k_start st = 0 \<and> k_block st = 0 \<and> k_blockCount st = 34 \<and> k_outputBlocks st = 8 \<and>
     length (k_s st) = 50 \<and>
     (k_lastByteIndex st = None \<and> k_blocks st = word_blocks [] \<or>
      k_lastByteIndex st = Some 136 \<and> (\<exists>pre. length pre = 136 \<and> k_blocks st = word_blocks pre))"

lemma fresh_beyond: "fresh st \<Longrightarrow> 34 < k \<Longrightarrow> k_blocks st k = 0"
  by (auto simp: fresh_def word_blocks_beyond)

lemma fresh_clear: "fresh st \<Longrightarrow> clear_blocks 34 0 (k_blocks st) = word_blocks []"
  using fresh_beyond[of st] by (auto simp: clear_blocks_def word_blocks_nil)

lemma absorb_step_bytes:
  assumes "fresh st"
  shows "absorb_step st (Numbers (map ucast ms)) =
    (if 136 \<le> length ms
     then st\<lparr>k_blocks := word_blocks (take 136 ms), k_lastByteIndex := Some 136,
             k_s := keccak_f (xor_in 34 (k_s st) (word_blocks (take 136 ms)))\<rparr>
     else st\<lparr>k_reset := False, k_blocks := word_blocks ms, k_lastByteIndex := Some (length ms),
             k_start := length ms\<rparr>,
     Numbers (map ucast (drop 136 ms)))"
proof -
  have f: "fill_numbers 136 (map ucast ms) 0 (word_blocks []) =
      (map ucast (drop 136 ms), min 136 (length ms), word_blocks (take 136 ms))"
    using fill_numbers_blocks[of "[]" 136 ms] by simp
  have w: "word_blocks (take 136 ms) 34 = 0" by (rule word_blocks_beyond) simp
  show ?thesis
  proof (cases "136 \<le> length ms")
    case True
    then show ?thesis
      using assms fresh_clear[OF assms] by (simp add: absorb_step_def Let_def fresh_def f w)
  next
    case False
    then show ?thesis
      using assms fresh_clear[OF assms] by (simp add: absorb_step_def Let_def fresh_def f)
  qed
qed

lemma finalize_fresh:
  assumes "fresh st"
  shows "lanes (finalize st) = absorb_block (lanes (k_s st)) (pad_spec [])"
proof -
  have len: "length (k_s st) = 50" and bc: "k_blockCount st = 34" using assms by (simp_all add: fresh_def)
  have p: "word_blocks (pad_spec []) = or_byte 0x80 135 (or_byte 1 0 (word_blocks []))"
    using pad_blocks[of "[]"] by simp
  have "finalize st = keccak_f (xor_in 34 (k_s st) (word_blocks (pad_spec [])))"
  proof (cases "k_lastByteIndex st")
    case None
    then have b: "k_blocks st = word_blocks []" using assms by (auto simp: fresh_def)
    have "(word_blocks [])(0 := word_blocks [] 0 OR KECCAK_PADDING ! 0) = or_byte 1 0 (word_blocks [])"
      using padding_byte[of "word_blocks []" 0] by simp
    moreover have "(or_byte 1 0 (word_blocks []))(33 := word_blocks [] 33 OR 0x80000000) =
        or_byte 0x80 135 (or_byte 1 0 (word_blocks []))"
      using last_byte[of "or_byte 1 0 (word_blocks [])"] by (simp add: or_byte_def)
    ultimately show ?thesis
      by (simp add: finalize_def Let_def bc None b p)
  next
    case (Some i)
    then obtain pre where pre: "i = 136" "length pre = 136" "k_blocks st = word_blocks pre"
      using assms by (auto simp: fresh_def)
    have z: "word_blocks pre 34 = 0" using pre by (intro word_blocks_beyond) simp
    have "clear_blocks 34 1 ((word_blocks pre)(34 := 1)) = or_byte 1 0 (word_blocks [])"
      using word_blocks_beyond[of pre] pre(2)
      by (auto simp: clear_blocks_def or_byte_def word_blocks_nil SHIFT_def fun_eq_iff)
    then show ?thesis
      using Some pre z by (simp add: finalize_def Let_def bc p last_byte KECCAK_PADDING_def)
  qed
  then show ?thesis by (simp add: absorb_lanes[OF len])
qed

lemma finalize_rest:
  assumes "length (k_s st) = 50" and "k_blockCount st = 34" and "length ms < 136"
    and "k_blocks st = word_blocks ms" and "k_lastByteIndex st = Some (length ms)"
  shows "lanes (finalize st) = absorb_block (lanes (k_s st)) (pad_spec ms)"
proof -
  have "finalize st = keccak_f (xor_in 34 (k_s st) (word_blocks (pad_spec ms)))"
    using assms padding_byte[of "word_blocks ms" "length ms"]
    by (simp add: finalize_def Let_def pad_blocks last_byte)
  then show ?thesis by (simp add: absorb_lanes[OF assms(1)])
qed

lemma absorb_bytes:
  assumes "fresh st"
  shows "\<exists>st'. absorb st (Numbers (map ucast ms)) = Some st' \<and> k_blockCount st' = 34 \<and> k_outputBlocks st' = 8 \<and>
    lanes (finalize st') = foldl absorb_block (lanes (k_s st)) (blocks_spec (length ms div 136 + 1) (pad_spec ms))"
  using assms
proof (induction "length ms" arbitrary: st ms rule: less_induct)
  case less
  have c: "k_blockCount st = 34" "k_outputBlocks st = 8" "length (k_s st) = 50"
    using less.prems by (simp_all add: fresh_def)
  consider "ms = []" | "ms \<noteq> []" "length ms < 136" | "136 \<le> length ms" by linarith
  then show ?case
  proof cases
    case 1
    then show ?thesis
      using finalize_fresh[OF less.prems] pad_length[of "[]"] c by (simp add: absorb.simps)
  next
    case 2
    then show ?thesis
      using absorb_step_bytes[OF less.prems, of ms] c pad_length[of ms]
        finalize_rest[of "st\<lparr>k_reset := False, k_blocks := word_blocks ms, k_lastByteIndex := Some (length ms),
             k_start := length ms\<rparr>" ms]
      by (simp add: absorb.simps)
  next
    case 3
    define st1 where "st1 = st\<lparr>k_blocks := word_blocks (take 136 ms), k_lastByteIndex := Some 136,
             k_s := keccak_f (xor_in 34 (k_s st) (word_blocks (take 136 ms)))\<rparr>"
    have ne: "ms \<noteq> []" using 3 by auto
    have fr: "fresh st1"
      using less.prems 3 unfolding fresh_def st1_def
      by (auto simp: keccak_f_length intro!: exI[of _ "take 136 ms"])
    have step: "absorb st (Numbers (map ucast ms)) = absorb st1 (Numbers (map ucast (drop 136 ms)))"
      using absorb_step_bytes[OF less.prems, of ms] 3 ne by (subst absorb.simps) (simp add: st1_def)
    have n: "length ms div 136 = Suc (length (drop 136 ms) div 136)" using 3 by (simp add: le_div_geq)
    have l1: "lanes (k_s st1) = absorb_block (lanes (k_s st)) (take 136 ms)"
      by (simp add: st1_def absorb_lanes c(3))
    have "length (drop 136 ms) < length ms" using 3 by simp
    from less.hyps[OF this fr] show ?thesis
      unfolding step n by (simp add: pad_more[OF 3] l1)
  qed
qed

section \<open>The digest\<close>

lemma word_hex_bytes: "word_hex w = hex_encode (map (\<lambda>k. ucast (drop_bit (8 * k) w)) [0, 1, 2, 3])"
proof -
  have hi: "unat (drop_bit (8 * k + 4) w AND 15) = unat (ucast (drop_bit (8 * k) w) :: byte) div 16"
    and lo: "unat (drop_bit (8 * k) w AND 15) = unat (ucast (drop_bit (8 * k) w) :: byte) mod 16" for k
  proof -
    have m: "unat (x AND 15) = unat x mod 16" for x :: "32 word"
    proof -
      have "(15 :: nat) = mask 4" by (simp add: mask_eq_exp_minus_1)
      then have "unat x AND 15 = unat x mod 16"
        using take_bit_eq_mask[of 4 "unat x"] take_bit_eq_mod[of 4 "unat x"] by simp
      then show ?thesis by (simp add: unsigned_and_eq)
    qed
    have u: "unat (ucast x :: byte) = unat x mod 256" for x :: "32 word"
      by (simp add: unsigned_ucast_eq take_bit_eq_mod)
    have d: "unat (drop_bit n w) = unat w div 2 ^ n" for n
      unfolding unat_drop_bit_eq by (rule drop_bit_eq_div)
    have "(unat w div 2 ^ (8 * k + 4)) mod 16 = ((unat w div 2 ^ (8 * k)) mod 256) div 16"
      using mod_mult2_eq[of "unat w div 2 ^ (8 * k)" 16 16]
      by (simp add: power_add div_mult2_eq)
    then show "unat (drop_bit (8 * k + 4) w AND 15) = unat (ucast (drop_bit (8 * k) w) :: byte) div 16"
      by (simp only: m u d)
    show "unat (drop_bit (8 * k) w AND 15) = unat (ucast (drop_bit (8 * k) w) :: byte) mod 16"
      by (simp only: m u d) (simp add: mod_mod_cancel)
  qed
  note e = hi[of 0] hi[of 1] hi[of 2] hi[of 3] lo[of 0] lo[of 1] lo[of 2] lo[of 3]
  show ?thesis
    using e by (simp add: word_hex_def hex_char_def hex_encode_def byteToHex_def)
qed

lemma lane_bytes: "le_bytes (lane h l) = map (\<lambda>k. ucast (drop_bit (8 * k) l)) [0, 1, 2, 3] @
    map (\<lambda>k. ucast (drop_bit (8 * k) h)) [0, 1, 2, 3]"
proof -
  have lo: "(ucast (drop_bit (8 * k) (lane h l)) :: byte) = ucast (drop_bit (8 * k) l)" if "k < 4" for k
    using that by (intro bit_eqI) (auto simp: bit_simps bit_lane)
  have hi: "(ucast (drop_bit (8 * (4 + k)) (lane h l)) :: byte) = ucast (drop_bit (8 * k) h)" if "k < 4" for k
    using that by (intro bit_eqI) (auto simp: bit_simps bit_lane)
  have u: "[0..<8] = [0, 1, 2, 3, 4, 5, 6, 7]" by (simp add: upt_rec)
  show ?thesis
    using lo[of 0] lo[of 1] lo[of 2] lo[of 3] hi[of 0] hi[of 1] hi[of 2] hi[of 3]
    by (simp add: le_bytes_def u)
qed

lemma hex_encode_append: "hex_encode (xs @ ys) = hex_encode xs @ hex_encode ys"
  by (simp add: hex_encode_def)

lemma digest_hex:
  assumes "length s = 50"
  shows "concat (map word_hex (take 8 s)) = hex_encode (concat (map le_bytes (take 4 (lanes s))))"
proof -
  have t: "take 8 s = map ((!) s) [0, 1, 2, 3, 4, 5, 6, 7]"
  proof -
    have "take 8 s = map ((!) s) [0..<8]" by (rule nth_equalityI) (simp_all add: assms)
    moreover have "[0..<8] = [0, 1, 2, 3, 4, 5, 6, 7]" by (simp add: upt_rec)
    ultimately show ?thesis by simp
  qed
  have l: "take 4 (lanes s) = map (\<lambda>i. lane (s ! (2 * i + 1)) (s ! (2 * i))) [0, 1, 2, 3]"
    by (simp add: lanes_def take_map take_upt upt_rec)
  show ?thesis
    unfolding t l by (simp add: lane_bytes word_hex_bytes hex_encode_append del: map_eq_Cons_conv)
      (simp add: hex_encode_def)
qed

lemma squeeze_256: "squeeze 34 8 s 0 [] = Some (concat (map word_hex (take 8 s)))"
  by (subst squeeze.simps) (simp, subst squeeze.simps, simp)

lemma parse_hex_word_byte: "parse_hex_word (byteToHex b) = ucast b"
proof -
  let ?h = "hex_digit (unat b div 16)" and ?l = "hex_digit (unat b mod 16)"
  note p = hex_digit_plain[OF unat_byte_split(1)[of b]] hex_digit_plain[OF unat_byte_split(2)[of b]]
  have "hex_digits_value 0 [?h, ?l] = unat b"
    using unat_byte_split[of b] by (simp add: hex_digit_val)
  with p show ?thesis
    by (simp add: parse_hex_word_def byteToHex_def strip_0x_def Let_def unsigned_of_nat)
qed

lemma slices_hex: "map parse_hex_word (slices_of_two (hex_encode bs)) = map ucast bs"
proof (induction bs)
  case Nil
  then show ?case by (simp add: hex_encode_def)
next
  case (Cons b bs)
  obtain c d where b: "byteToHex b = [c, d]" by (simp add: byteToHex_def)
  with Cons parse_hex_word_byte[of b] show ?case by (simp add: hex_encode_def)
qed

lemma keccak256_standard:
  "keccak256 (''0x'' @ hex_encode bs) = Some (''0x'' @ hex_encode (keccak256_spec bs))"
proof -
  have fr: "fresh (new_keccak 256)"
    by (auto simp: fresh_def new_keccak_def word_blocks_nil)
  obtain st where st: "absorb (new_keccak 256) (Numbers (map ucast bs)) = Some st"
      "k_blockCount st = 34" "k_outputBlocks st = 8"
      "lanes (finalize st) = foldl absorb_block (lanes (k_s (new_keccak 256)))
         (blocks_spec (length bs div 136 + 1) (pad_spec bs))"
    using absorb_bytes[OF fr, of bs] by blast
  have z: "lanes (k_s (new_keccak 256)) = replicate 25 0"
    by (rule nth_equalityI) (simp_all add: lanes_def new_keccak_def lane_def)
  have len: "length (finalize st) = 50"
    by (simp add: finalize_def Let_def keccak_f_length)
  show ?thesis
    using digest_hex[OF len] st
    by (simp add: keccak256_def keccak_def slices_hex update_def squeeze_256 z keccak256_spec_def Let_def)
qed

text \<open>C8: The Keccak-256 of the program, computed on halves of lanes with a table of round constants,
  is the sponge of the standard: for every text of \<open>0x\<close> followed by the hexadecimal digits of some bytes it
  returns, and the result is \<open>0x\<close> and the digits of the hash of those bytes.\<close>

theorem keccak256_is_standard:
  "keccak256 (''0x'' @ hex_encode bs) = Some (''0x'' @ hex_encode (keccak256_spec bs))"
  by (rule keccak256_standard)

section \<open>The loops end\<close>

lemma fill_text_bounds:
  "fill_text bc cs i b = (cs', i', b') \<Longrightarrow> i < bc + 4 \<Longrightarrow>
     length cs' \<le> length cs \<and> i' < bc + 4 \<and> (i < bc \<longrightarrow> cs \<noteq> [] \<longrightarrow> length cs' < length cs) \<and>
     (i' < bc \<longrightarrow> cs' = [])"
proof (induction bc cs i b rule: fill_text.induct)
  case (1 bc i b)
  then show ?case by auto
next
  case (2 bc c cs i b)
  have len: "length (fst (utf8_units c cs)) \<le> 4" by (simp add: utf8_units_def Let_def)
  show ?case
  proof (cases "i < bc")
    case True
    then have "length cs' \<le> length (snd (utf8_units c cs)) \<and> i' < bc + 4 \<and> (i' < bc \<longrightarrow> cs' = [])"
      using "2.IH" "2.prems" len by auto
    then show ?thesis using utf8_units_rest[of c cs] by auto
  next
    case False
    with "2.prems" show ?thesis by auto
  qed
qed

lemma fill_numbers_bounds:
  "fill_numbers bc vs i b = (vs', i', b') \<Longrightarrow> i < bc + 4 \<Longrightarrow>
     length vs' \<le> length vs \<and> i' < bc + 4 \<and> (i < bc \<longrightarrow> vs \<noteq> [] \<longrightarrow> length vs' < length vs) \<and>
     (i' < bc \<longrightarrow> vs' = [])"
  by (induction bc vs i b rule: fill_numbers.induct) (fastforce split: if_splits)+

lemma fill_bounds:
  assumes "fill bc msg i b = (msg', i', b')" and "i < bc"
  shows "i' < bc + 4 \<and> (message_length msg \<noteq> 0 \<longrightarrow> message_length msg' < message_length msg) \<and>
    (i' < bc \<longrightarrow> message_length msg' = 0)"
proof (cases msg)
  case (Numbers vs)
  then show ?thesis
    using assms fill_numbers_bounds[of bc vs i b] by (auto split: prod.splits)
next
  case (Text cs)
  then show ?thesis
    using assms fill_text_bounds[of bc cs i b] by (auto split: prod.splits)
qed

lemma xor_in_length: "length (xor_in n s b) = length s"
  by (simp add: xor_in_def)

lemma absorb_returns:
  assumes "k_start st < 4 * k_blockCount st"
  shows "\<exists>st'. absorb st msg = Some st' \<and> k_blockCount st' = k_blockCount st \<and>
    k_outputBlocks st' = k_outputBlocks st"
  using assms
proof (induction "message_length msg" arbitrary: msg st rule: less_induct)
  case less
  show ?case
  proof (cases "message_length msg = 0")
    case True
    then show ?thesis by (simp add: absorb.simps)
  next
    case False
    let ?bc = "4 * k_blockCount st"
    obtain st1 rest where step: "absorb_step st msg = (st1, rest)" by force
    obtain b' i where f: "fill ?bc msg (k_start st) (if k_reset st then clear_blocks (k_blockCount st) (k_block st) (k_blocks st)
        else k_blocks st) = (rest, i, b')" and st1: "k_start st1 = (if i \<ge> ?bc then i - ?bc else i)"
      "k_blockCount st1 = k_blockCount st" "k_outputBlocks st1 = k_outputBlocks st"
      using step by (auto simp: absorb_step_def Let_def split: prod.splits if_splits)
    have m: "message_length rest < message_length msg" and i: "i < ?bc + 4"
      using fill_bounds[OF f less.prems] False by simp_all
    have k: "k_start st1 < 4 * k_blockCount st1"
      using i less.prems by (cases "k_blockCount st") (auto simp: st1)
    show ?thesis using False step less.hyps[OF m k] by (subst absorb.simps) (simp add: st1)
  qed
qed

lemma word_hex_length: "length (concat (map word_hex ws)) = 8 * length ws"
  by (induction ws) (simp_all add: word_hex_def)

lemma squeeze_returns:
  assumes "0 < bc" and "bc \<le> 50" and "length s = 50" and "j \<le> ob"
  shows "\<exists>r. squeeze bc ob s j hex = Some r \<and> length r = length hex + 8 * (ob - j)"
  using assms
proof (induction "ob - j" arbitrary: s j hex rule: less_induct)
  case less
  show ?case
  proof (cases "j < ob")
    case False
    with less.prems show ?thesis by (simp add: squeeze.simps)
  next
    case True
    let ?n = "min bc (ob - j)"
    let ?s = "if (j + ?n) mod bc = 0 then keccak_f s else s"
    have lt: "ob - (j + ?n) < ob - j" using True less.prems(1) by auto
    have l: "length ?s = 50" and j: "j + ?n \<le> ob" using less.prems keccak_f_length by auto
    obtain r where "squeeze bc ob ?s (j + ?n) (hex @ concat (map word_hex (take ?n s))) = Some r"
      "length r = length hex + 8 * min 50 ?n + 8 * (ob - (j + ?n))"
      using less.hyps[OF lt less.prems(1,2) l j, of "hex @ concat (map word_hex (take ?n s))"] less.prems(3)
      by (auto simp: word_hex_length)
    moreover have "8 * min 50 ?n = 8 * ?n" "8 * ?n + 8 * (ob - (j + ?n)) = 8 * (ob - j)"
      using less.prems(2) j by auto
    ultimately show ?thesis using True by (subst squeeze.simps) (simp add: Let_def)
  qed
qed

text \<open>C36: With at least one word per block the hash of every text returns, by the text itself or by the
  bytes its digits denote, and has the number of digits asked for.\<close>

theorem keccak_returns:
  assumes "bits \<le> 784"
  shows "\<exists>h. keccak bits str = Some h \<and> length h = 2 + 8 * (bits div 32)"
proof -
  let ?msg = "if take 2 str = ''0x'' then Numbers (map parse_hex_word (slices_of_two (drop 2 str)))
        else Text (map code_of str)"
  have bc: "0 < (1600 - 2 * bits) div 32" "(1600 - 2 * bits) div 32 \<le> 50"
    using assms by (simp_all add: div_greater_zero_iff div_le_mono[of _ 1600 32, simplified])
  obtain st where st: "absorb (new_keccak bits) ?msg = Some st"
      "k_blockCount st = (1600 - 2 * bits) div 32" "k_outputBlocks st = bits div 32"
    using absorb_returns[of "new_keccak bits" ?msg] bc by (auto simp: new_keccak_def)
  have len: "length (finalize st) = 50"
    by (simp add: finalize_def Let_def keccak_f_length)
  obtain r where "squeeze (k_blockCount st) (k_outputBlocks st) (finalize st) 0 [] = Some r"
      "length r = 8 * (bits div 32)"
    using squeeze_returns[of "k_blockCount st" "finalize st" 0 "k_outputBlocks st" "[]"] bc st(2,3) len by auto
  then show ?thesis
    by (simp add: keccak_def update_def st(1))
qed

theorem keccak_returns_witness:
  "(case keccak 256 ''hello(string)'' of None \<Rightarrow> False | Some h \<Rightarrow> length h = 66)"
  using keccak_returns[of 256 "''hello(string)''"] by (auto split: option.split)

end
