(* ===== verification/Utf8.thy ===== *)
theory Utf8
  imports Prelude
begin

text \<open>
  \<open>encode\<close> and \<open>decode\<close> of \<open>src/encoding/utf8.js\<close>, which pass to the UTF-8 codec of the platform.
  A text is the list of its code points, a surrogate among them being one without its partner; the
  encoder writes U+FFFD for it and the decoder for every maximal part of a sequence that is not well
  formed, as the encoding standard says.
\<close>

type_synonym text_points = "nat list"

definition scalar_value :: "nat \<Rightarrow> bool" where
  "scalar_value c \<longleftrightarrow> c < 0xD800 \<or> 0xE000 \<le> c \<and> c < 0x110000"

definition encode_point :: "nat \<Rightarrow> nat list" where
  "encode_point c =
     (if c < 0x80 then [c]
      else if c < 0x800 then [0xC0 + c div 64, 0x80 + c mod 64]
      else if \<not> scalar_value c then [0xEF, 0xBF, 0xBD]
      else if c < 0x10000 then [0xE0 + c div 4096, 0x80 + c div 64 mod 64, 0x80 + c mod 64]
      else [0xF0 + c div 262144, 0x80 + c div 4096 mod 64, 0x80 + c div 64 mod 64, 0x80 + c mod 64])"

definition utf8_encode :: "text_points \<Rightarrow> byte list" where
  "utf8_encode t = map of_nat (concat (map encode_point t))"

text \<open>
  The decoder: how many bytes are still needed, the bits so far and the range the next byte must
  be in, or \<open>None\<close> between two code points. A byte out of range is read again.
\<close>

definition lead_byte :: "nat \<Rightarrow> (nat \<times> nat \<times> nat \<times> nat) option" where
  "lead_byte b =
     (if 0xC2 \<le> b \<and> b \<le> 0xDF then Some (1, b - 0xC0, 0x80, 0xBF)
      else if 0xE0 \<le> b \<and> b \<le> 0xEF
      then Some (2, b - 0xE0, if b = 0xE0 then 0xA0 else 0x80, if b = 0xED then 0x9F else 0xBF)
      else if 0xF0 \<le> b \<and> b \<le> 0xF4
      then Some (3, b - 0xF0, if b = 0xF0 then 0x90 else 0x80, if b = 0xF4 then 0x8F else 0xBF)
      else None)"

function decode_from :: "(nat \<times> nat \<times> nat \<times> nat) option \<Rightarrow> nat list \<Rightarrow> text_points" where
  "decode_from None [] = []"
| "decode_from None (b # bs) =
     (if b < 0x80 then b # decode_from None bs
      else case lead_byte b of None \<Rightarrow> 0xFFFD # decode_from None bs | Some st \<Rightarrow> decode_from (Some st) bs)"
| "decode_from (Some st) [] = [0xFFFD]"
| "decode_from (Some (n, c, lo, hi)) (b # bs) =
     (if b < lo \<or> hi < b then 0xFFFD # decode_from None (b # bs)
      else let c' = 64 * c + (b - 0x80)
           in if n \<le> 1 then c' # decode_from None bs else decode_from (Some (n - 1, c', 0x80, 0xBF)) bs)"
  by pat_completeness auto
termination
  by (relation "measure (\<lambda>(st, bs). 2 * length bs + (case st of None \<Rightarrow> 0 | Some _ \<Rightarrow> 1))") auto

definition utf8_decode :: "byte list \<Rightarrow> text_points" where
  "utf8_decode bs = decode_from None (map unat bs)"

lemma encode_point_bytes: "scalar_value c \<Longrightarrow> list_all (\<lambda>b. b < 256) (encode_point c)"
  by (auto simp: encode_point_def scalar_value_def)

lemma decode_point:
  assumes "scalar_value c"
  shows "decode_from None (encode_point c @ bs) = c # decode_from None bs"
proof -
  consider "c < 0x80" | "0x80 \<le> c" "c < 0x800" | "0x800 \<le> c" "c < 0x10000" | "0x10000 \<le> c" "c < 0x110000"
    using assms by (fastforce simp: scalar_value_def)
  then show ?thesis
  proof cases
    case 1
    then show ?thesis by (simp add: encode_point_def)
  next
    case 2
    define y z where "y = c div 64" and "z = c mod 64"
    have c: "c = 64 * y + z" by (simp add: y_def z_def)
    have b: "2 \<le> y" "y < 32" "z < 64"
      using 2 by (simp_all add: y_def z_def less_eq_div_iff_mult_less_eq div_less_iff_less_mult)
    moreover have "encode_point c = [0xC0 + y, 0x80 + z]" using 2 by (simp add: encode_point_def y_def z_def)
    ultimately show ?thesis by (simp add: lead_byte_def c)
  next
    case 3
    define x y z where "x = c div 4096" and "y = c div 64 mod 64" and "z = c mod 64"
    have "c div 4096 = c div 64 div 64" using div_mult2_eq[of c 64 64] by simp
    then have c: "c = 4096 * x + 64 * y + z"
      using mult_div_mod_eq[of 64 c] mult_div_mod_eq[of 64 "c div 64"]
      unfolding x_def y_def z_def by linarith
    have yz: "y < 64" "z < 64" "x < 16" using 3 by (simp_all add: x_def y_def z_def div_less_iff_less_mult)
    have "x = 0 \<longrightarrow> 32 \<le> y" using 3(1) yz unfolding c by auto
    moreover have "x = 13 \<longrightarrow> y < 32" using assms yz unfolding c by (auto simp: scalar_value_def)
    moreover have "encode_point c = [0xE0 + x, 0x80 + y, 0x80 + z]"
      using 3 assms by (simp add: encode_point_def x_def y_def z_def)
    ultimately show ?thesis
      using yz c by (auto simp: lead_byte_def)
  next
    case 4
    define w x y z where "w = c div 262144" and "x = c div 4096 mod 64" and "y = c div 64 mod 64" and "z = c mod 64"
    have "c div 4096 = c div 64 div 64" "c div 262144 = c div 4096 div 64"
      using div_mult2_eq[of c 64 64] div_mult2_eq[of c 4096 64] by simp_all
    then have c: "c = 262144 * w + 4096 * x + 64 * y + z"
      using mult_div_mod_eq[of 64 c] mult_div_mod_eq[of 64 "c div 64"] mult_div_mod_eq[of 64 "c div 4096"]
      unfolding w_def x_def y_def z_def by linarith
    have b: "w < 5" "x < 64" "y < 64" "z < 64"
      using 4 by (simp_all add: w_def x_def y_def z_def div_less_iff_less_mult)
    have "w = 0 \<longrightarrow> 16 \<le> x" using 4(1) b unfolding c by auto
    moreover have "w = 4 \<longrightarrow> x < 16" using 4(2) b unfolding c by auto
    moreover have "encode_point c = [0xF0 + w, 0x80 + x, 0x80 + y, 0x80 + z]"
      using 4 assms by (simp add: encode_point_def w_def x_def y_def z_def)
    ultimately show ?thesis
      using b c by (auto simp: lead_byte_def)
  qed
qed

lemma utf8_round_trip: "list_all scalar_value t \<Longrightarrow> utf8_decode (utf8_encode t) = t"
proof -
  assume ok: "list_all scalar_value t"
  then have "list_all (\<lambda>b. b < 256) (concat (map encode_point t))"
    using encode_point_bytes by (induction t) auto
  then have "map (\<lambda>n. unat (of_nat n :: byte)) (concat (map encode_point t)) = concat (map encode_point t)"
    by (intro map_idI) (auto simp: list_all_iff unat_of_nat)
  moreover from ok have "decode_from None (concat (map encode_point t)) = t"
    by (induction t) (simp_all add: decode_point)
  ultimately show ?thesis by (simp add: utf8_decode_def utf8_encode_def comp_def)
qed

end
