(* ===== verification/Selector.thy ===== *)
theory Selector
  imports KeccakSponge Utf8 Longs
begin

text \<open>
  Function selectors of \<open>src/contract/ContractFunctionSelector.js\<close>: the argument types, the
  signature text that the methods extend by one type each, and the four bytes of its hash. The 64
  integer types \<open>uint8\<close> to \<open>int256\<close> are \<open>UintT\<close> and \<open>IntT\<close> with their width in bits; a
  width that \<open>int_width\<close> rules out is no member of the enumeration.
\<close>

section \<open>Types\<close>

datatype argument_type =
    UintT nat
  | IntT nat
  | StringT
  | BoolT
  | BytesT
  | Bytes32T
  | AddressT
  | FuncT

definition int_width :: "nat \<Rightarrow> bool" where
  "int_width w \<longleftrightarrow> 8 dvd w \<and> 8 \<le> w \<and> w \<le> 256"

text \<open>The numbers of the enumeration \<open>ArgumentType\<close>.\<close>

fun argument_type_number :: "argument_type \<Rightarrow> nat" where
  "argument_type_number (UintT w) = 2 * (w div 8 - 1)"
| "argument_type_number (IntT w) = 2 * (w div 8 - 1) + 1"
| "argument_type_number StringT = 64"
| "argument_type_number BoolT = 65"
| "argument_type_number BytesT = 66"
| "argument_type_number Bytes32T = 67"
| "argument_type_number AddressT = 68"
| "argument_type_number FuncT = 69"

fun argument_type_member :: "argument_type \<Rightarrow> bool" where
  "argument_type_member (UintT w) = int_width w"
| "argument_type_member (IntT w) = int_width w"
| "argument_type_member _ = True"

record solidity_type =
  ty :: argument_type
  is_array :: bool

fun argument_type_name :: "argument_type \<Rightarrow> string" where
  "argument_type_name (UintT w) = (if int_width w then ''uint'' @ show_nat w else '''')"
| "argument_type_name (IntT w) = (if int_width w then ''int'' @ show_nat w else '''')"
| "argument_type_name StringT = ''string''"
| "argument_type_name BoolT = ''bool''"
| "argument_type_name BytesT = ''bytes''"
| "argument_type_name Bytes32T = ''bytes32''"
| "argument_type_name AddressT = ''address''"
| "argument_type_name FuncT = ''function''"

definition solidityTypeToString :: "solidity_type \<Rightarrow> string" where
  "solidityTypeToString t = argument_type_name (ty t) @ (if is_array t then ''[]'' else '''')"

section \<open>The selector\<close>

text \<open>The field \<open>sel_name\<close> is \<open>_name\<close>; the field \<open>name\<close> of the class is never read.\<close>

record selector =
  sel_name :: "string option"
  sel_params :: string
  sel_paramTypes :: "solidity_type list"

definition new_selector :: "string option \<Rightarrow> selector" where
  "new_selector name = \<lparr>sel_name = name, sel_params = '''', sel_paramTypes = []\<rparr>"

definition sel_addParam :: "solidity_type \<Rightarrow> selector \<Rightarrow> selector" where
  "sel_addParam t s =
     s\<lparr>sel_params := (if length (sel_paramTypes s) > 0 then sel_params s @ '','' else sel_params s)
                     @ solidityTypeToString t,
       sel_paramTypes := sel_paramTypes s @ [t]\<rparr>"

definition sel_toString :: "selector \<Rightarrow> string" where
  "sel_toString s = (case sel_name s of None \<Rightarrow> '''' | Some n \<Rightarrow> n) @ ''('' @ sel_params s @ '')''"

text \<open>\<open>None\<close> means that the hash does not return.\<close>

definition sel_build :: "string option \<Rightarrow> selector \<Rightarrow> (byte list result \<times> selector) option" where
  "sel_build name s =
     (let s' = (case name of Some n \<Rightarrow> s\<lparr>sel_name := Some n\<rparr> | None \<Rightarrow> s)
      in if sel_name s' = None
         then Some (Inl (Error ''`name` required for ContractFunctionSelector''), s')
         else
           (let func = hex_encode (utf8_encode (map of_char (sel_toString s')))
            in map_option (\<lambda>h. (Inr (slice 0 4 (hex_decode h)), s')) (keccak256 (''0x'' @ func))))"

lemma sel_build_standard:
  "sel_build name s =
     (let s' = (case name of Some n \<Rightarrow> s\<lparr>sel_name := Some n\<rparr> | None \<Rightarrow> s)
      in if sel_name s' = None
         then Some (Inl (Error ''`name` required for ContractFunctionSelector''), s')
         else Some (Inr (take 4 (keccak256_spec (utf8_encode (map of_char (sel_toString s'))))), s'))"
  by (simp add: sel_build_def Let_def keccak256_standard decode_0x_encode Prelude.slice_def del: append.simps)

section \<open>The methods\<close>

definition sel_addString :: "selector \<Rightarrow> selector" where
  "sel_addString = sel_addParam \<lparr>ty = StringT, is_array = False\<rparr>"

definition sel_addStringArray :: "selector \<Rightarrow> selector" where
  "sel_addStringArray = sel_addParam \<lparr>ty = StringT, is_array = True\<rparr>"

definition sel_addBytes :: "selector \<Rightarrow> selector" where
  "sel_addBytes = sel_addParam \<lparr>ty = BytesT, is_array = False\<rparr>"

definition sel_addBytes32 :: "selector \<Rightarrow> selector" where
  "sel_addBytes32 = sel_addParam \<lparr>ty = Bytes32T, is_array = False\<rparr>"

definition sel_addBytesArray :: "selector \<Rightarrow> selector" where
  "sel_addBytesArray = sel_addParam \<lparr>ty = BytesT, is_array = True\<rparr>"

definition sel_addBytes32Array :: "selector \<Rightarrow> selector" where
  "sel_addBytes32Array = sel_addParam \<lparr>ty = Bytes32T, is_array = True\<rparr>"

definition sel_addInt8 :: "selector \<Rightarrow> selector" where
  "sel_addInt8 = sel_addParam \<lparr>ty = IntT 8, is_array = False\<rparr>"

definition sel_addUint8 :: "selector \<Rightarrow> selector" where
  "sel_addUint8 = sel_addParam \<lparr>ty = UintT 8, is_array = False\<rparr>"

definition sel_addInt16 :: "selector \<Rightarrow> selector" where
  "sel_addInt16 = sel_addParam \<lparr>ty = IntT 16, is_array = False\<rparr>"

definition sel_addUint16 :: "selector \<Rightarrow> selector" where
  "sel_addUint16 = sel_addParam \<lparr>ty = UintT 16, is_array = False\<rparr>"

definition sel_addInt24 :: "selector \<Rightarrow> selector" where
  "sel_addInt24 = sel_addParam \<lparr>ty = IntT 24, is_array = False\<rparr>"

definition sel_addUint24 :: "selector \<Rightarrow> selector" where
  "sel_addUint24 = sel_addParam \<lparr>ty = UintT 24, is_array = False\<rparr>"

definition sel_addInt32 :: "selector \<Rightarrow> selector" where
  "sel_addInt32 = sel_addParam \<lparr>ty = IntT 32, is_array = False\<rparr>"

definition sel_addUint32 :: "selector \<Rightarrow> selector" where
  "sel_addUint32 = sel_addParam \<lparr>ty = UintT 32, is_array = False\<rparr>"

definition sel_addInt40 :: "selector \<Rightarrow> selector" where
  "sel_addInt40 = sel_addParam \<lparr>ty = IntT 40, is_array = False\<rparr>"

definition sel_addUint40 :: "selector \<Rightarrow> selector" where
  "sel_addUint40 = sel_addParam \<lparr>ty = UintT 40, is_array = False\<rparr>"

definition sel_addInt48 :: "selector \<Rightarrow> selector" where
  "sel_addInt48 = sel_addParam \<lparr>ty = IntT 48, is_array = False\<rparr>"

definition sel_addUint48 :: "selector \<Rightarrow> selector" where
  "sel_addUint48 = sel_addParam \<lparr>ty = UintT 48, is_array = False\<rparr>"

definition sel_addInt56 :: "selector \<Rightarrow> selector" where
  "sel_addInt56 = sel_addParam \<lparr>ty = IntT 56, is_array = False\<rparr>"

definition sel_addUint56 :: "selector \<Rightarrow> selector" where
  "sel_addUint56 = sel_addParam \<lparr>ty = UintT 56, is_array = False\<rparr>"

definition sel_addInt64 :: "selector \<Rightarrow> selector" where
  "sel_addInt64 = sel_addParam \<lparr>ty = IntT 64, is_array = False\<rparr>"

definition sel_addUint64 :: "selector \<Rightarrow> selector" where
  "sel_addUint64 = sel_addParam \<lparr>ty = UintT 64, is_array = False\<rparr>"

definition sel_addInt72 :: "selector \<Rightarrow> selector" where
  "sel_addInt72 = sel_addParam \<lparr>ty = IntT 72, is_array = False\<rparr>"

definition sel_addUint72 :: "selector \<Rightarrow> selector" where
  "sel_addUint72 = sel_addParam \<lparr>ty = UintT 72, is_array = False\<rparr>"

definition sel_addInt80 :: "selector \<Rightarrow> selector" where
  "sel_addInt80 = sel_addParam \<lparr>ty = IntT 80, is_array = False\<rparr>"

definition sel_addUint80 :: "selector \<Rightarrow> selector" where
  "sel_addUint80 = sel_addParam \<lparr>ty = UintT 80, is_array = False\<rparr>"

definition sel_addInt88 :: "selector \<Rightarrow> selector" where
  "sel_addInt88 = sel_addParam \<lparr>ty = IntT 88, is_array = False\<rparr>"

definition sel_addUint88 :: "selector \<Rightarrow> selector" where
  "sel_addUint88 = sel_addParam \<lparr>ty = UintT 88, is_array = False\<rparr>"

definition sel_addInt96 :: "selector \<Rightarrow> selector" where
  "sel_addInt96 = sel_addParam \<lparr>ty = IntT 96, is_array = False\<rparr>"

definition sel_addUint96 :: "selector \<Rightarrow> selector" where
  "sel_addUint96 = sel_addParam \<lparr>ty = UintT 96, is_array = False\<rparr>"

definition sel_addInt104 :: "selector \<Rightarrow> selector" where
  "sel_addInt104 = sel_addParam \<lparr>ty = IntT 104, is_array = False\<rparr>"

definition sel_addUint104 :: "selector \<Rightarrow> selector" where
  "sel_addUint104 = sel_addParam \<lparr>ty = UintT 104, is_array = False\<rparr>"

definition sel_addInt112 :: "selector \<Rightarrow> selector" where
  "sel_addInt112 = sel_addParam \<lparr>ty = IntT 112, is_array = False\<rparr>"

definition sel_addUint112 :: "selector \<Rightarrow> selector" where
  "sel_addUint112 = sel_addParam \<lparr>ty = UintT 112, is_array = False\<rparr>"

definition sel_addInt120 :: "selector \<Rightarrow> selector" where
  "sel_addInt120 = sel_addParam \<lparr>ty = IntT 120, is_array = False\<rparr>"

definition sel_addUint120 :: "selector \<Rightarrow> selector" where
  "sel_addUint120 = sel_addParam \<lparr>ty = UintT 120, is_array = False\<rparr>"

definition sel_addInt128 :: "selector \<Rightarrow> selector" where
  "sel_addInt128 = sel_addParam \<lparr>ty = IntT 128, is_array = False\<rparr>"

definition sel_addUint128 :: "selector \<Rightarrow> selector" where
  "sel_addUint128 = sel_addParam \<lparr>ty = UintT 128, is_array = False\<rparr>"

definition sel_addInt136 :: "selector \<Rightarrow> selector" where
  "sel_addInt136 = sel_addParam \<lparr>ty = IntT 136, is_array = False\<rparr>"

definition sel_addUint136 :: "selector \<Rightarrow> selector" where
  "sel_addUint136 = sel_addParam \<lparr>ty = UintT 136, is_array = False\<rparr>"

definition sel_addInt144 :: "selector \<Rightarrow> selector" where
  "sel_addInt144 = sel_addParam \<lparr>ty = IntT 144, is_array = False\<rparr>"

definition sel_addUint144 :: "selector \<Rightarrow> selector" where
  "sel_addUint144 = sel_addParam \<lparr>ty = UintT 144, is_array = False\<rparr>"

definition sel_addInt152 :: "selector \<Rightarrow> selector" where
  "sel_addInt152 = sel_addParam \<lparr>ty = IntT 152, is_array = False\<rparr>"

definition sel_addUint152 :: "selector \<Rightarrow> selector" where
  "sel_addUint152 = sel_addParam \<lparr>ty = UintT 152, is_array = False\<rparr>"

definition sel_addInt160 :: "selector \<Rightarrow> selector" where
  "sel_addInt160 = sel_addParam \<lparr>ty = IntT 160, is_array = False\<rparr>"

definition sel_addUint160 :: "selector \<Rightarrow> selector" where
  "sel_addUint160 = sel_addParam \<lparr>ty = UintT 160, is_array = False\<rparr>"

definition sel_addInt168 :: "selector \<Rightarrow> selector" where
  "sel_addInt168 = sel_addParam \<lparr>ty = IntT 168, is_array = False\<rparr>"

definition sel_addUint168 :: "selector \<Rightarrow> selector" where
  "sel_addUint168 = sel_addParam \<lparr>ty = UintT 168, is_array = False\<rparr>"

definition sel_addInt176 :: "selector \<Rightarrow> selector" where
  "sel_addInt176 = sel_addParam \<lparr>ty = IntT 176, is_array = False\<rparr>"

definition sel_addUint176 :: "selector \<Rightarrow> selector" where
  "sel_addUint176 = sel_addParam \<lparr>ty = UintT 176, is_array = False\<rparr>"

definition sel_addInt184 :: "selector \<Rightarrow> selector" where
  "sel_addInt184 = sel_addParam \<lparr>ty = IntT 184, is_array = False\<rparr>"

definition sel_addUint184 :: "selector \<Rightarrow> selector" where
  "sel_addUint184 = sel_addParam \<lparr>ty = UintT 184, is_array = False\<rparr>"

definition sel_addInt192 :: "selector \<Rightarrow> selector" where
  "sel_addInt192 = sel_addParam \<lparr>ty = IntT 192, is_array = False\<rparr>"

definition sel_addUint192 :: "selector \<Rightarrow> selector" where
  "sel_addUint192 = sel_addParam \<lparr>ty = UintT 192, is_array = False\<rparr>"

definition sel_addInt200 :: "selector \<Rightarrow> selector" where
  "sel_addInt200 = sel_addParam \<lparr>ty = IntT 200, is_array = False\<rparr>"

definition sel_addUint200 :: "selector \<Rightarrow> selector" where
  "sel_addUint200 = sel_addParam \<lparr>ty = UintT 200, is_array = False\<rparr>"

definition sel_addInt208 :: "selector \<Rightarrow> selector" where
  "sel_addInt208 = sel_addParam \<lparr>ty = IntT 208, is_array = False\<rparr>"

definition sel_addUint208 :: "selector \<Rightarrow> selector" where
  "sel_addUint208 = sel_addParam \<lparr>ty = UintT 208, is_array = False\<rparr>"

definition sel_addInt216 :: "selector \<Rightarrow> selector" where
  "sel_addInt216 = sel_addParam \<lparr>ty = IntT 216, is_array = False\<rparr>"

definition sel_addUint216 :: "selector \<Rightarrow> selector" where
  "sel_addUint216 = sel_addParam \<lparr>ty = UintT 216, is_array = False\<rparr>"

definition sel_addInt224 :: "selector \<Rightarrow> selector" where
  "sel_addInt224 = sel_addParam \<lparr>ty = IntT 224, is_array = False\<rparr>"

definition sel_addUint224 :: "selector \<Rightarrow> selector" where
  "sel_addUint224 = sel_addParam \<lparr>ty = UintT 224, is_array = False\<rparr>"

definition sel_addInt232 :: "selector \<Rightarrow> selector" where
  "sel_addInt232 = sel_addParam \<lparr>ty = IntT 232, is_array = False\<rparr>"

definition sel_addUint232 :: "selector \<Rightarrow> selector" where
  "sel_addUint232 = sel_addParam \<lparr>ty = UintT 232, is_array = False\<rparr>"

definition sel_addInt240 :: "selector \<Rightarrow> selector" where
  "sel_addInt240 = sel_addParam \<lparr>ty = IntT 240, is_array = False\<rparr>"

definition sel_addUint240 :: "selector \<Rightarrow> selector" where
  "sel_addUint240 = sel_addParam \<lparr>ty = UintT 240, is_array = False\<rparr>"

definition sel_addInt248 :: "selector \<Rightarrow> selector" where
  "sel_addInt248 = sel_addParam \<lparr>ty = IntT 248, is_array = False\<rparr>"

definition sel_addUint248 :: "selector \<Rightarrow> selector" where
  "sel_addUint248 = sel_addParam \<lparr>ty = UintT 248, is_array = False\<rparr>"

definition sel_addInt256 :: "selector \<Rightarrow> selector" where
  "sel_addInt256 = sel_addParam \<lparr>ty = IntT 256, is_array = False\<rparr>"

definition sel_addUint256 :: "selector \<Rightarrow> selector" where
  "sel_addUint256 = sel_addParam \<lparr>ty = UintT 256, is_array = False\<rparr>"

definition sel_addInt8Array :: "selector \<Rightarrow> selector" where
  "sel_addInt8Array = sel_addParam \<lparr>ty = IntT 8, is_array = True\<rparr>"

definition sel_addUint8Array :: "selector \<Rightarrow> selector" where
  "sel_addUint8Array = sel_addParam \<lparr>ty = UintT 8, is_array = True\<rparr>"

definition sel_addInt16Array :: "selector \<Rightarrow> selector" where
  "sel_addInt16Array = sel_addParam \<lparr>ty = IntT 16, is_array = True\<rparr>"

definition sel_addUint16Array :: "selector \<Rightarrow> selector" where
  "sel_addUint16Array = sel_addParam \<lparr>ty = UintT 16, is_array = True\<rparr>"

definition sel_addInt24Array :: "selector \<Rightarrow> selector" where
  "sel_addInt24Array = sel_addParam \<lparr>ty = IntT 24, is_array = True\<rparr>"

definition sel_addUint24Array :: "selector \<Rightarrow> selector" where
  "sel_addUint24Array = sel_addParam \<lparr>ty = UintT 24, is_array = True\<rparr>"

definition sel_addInt32Array :: "selector \<Rightarrow> selector" where
  "sel_addInt32Array = sel_addParam \<lparr>ty = IntT 32, is_array = True\<rparr>"

definition sel_addUint32Array :: "selector \<Rightarrow> selector" where
  "sel_addUint32Array = sel_addParam \<lparr>ty = UintT 32, is_array = True\<rparr>"

definition sel_addInt40Array :: "selector \<Rightarrow> selector" where
  "sel_addInt40Array = sel_addParam \<lparr>ty = IntT 40, is_array = True\<rparr>"

definition sel_addUint40Array :: "selector \<Rightarrow> selector" where
  "sel_addUint40Array = sel_addParam \<lparr>ty = UintT 40, is_array = True\<rparr>"

definition sel_addInt48Array :: "selector \<Rightarrow> selector" where
  "sel_addInt48Array = sel_addParam \<lparr>ty = IntT 48, is_array = True\<rparr>"

definition sel_addUint48Array :: "selector \<Rightarrow> selector" where
  "sel_addUint48Array = sel_addParam \<lparr>ty = UintT 48, is_array = True\<rparr>"

definition sel_addInt56Array :: "selector \<Rightarrow> selector" where
  "sel_addInt56Array = sel_addParam \<lparr>ty = IntT 56, is_array = True\<rparr>"

definition sel_addUint56Array :: "selector \<Rightarrow> selector" where
  "sel_addUint56Array = sel_addParam \<lparr>ty = UintT 56, is_array = True\<rparr>"

definition sel_addInt64Array :: "selector \<Rightarrow> selector" where
  "sel_addInt64Array = sel_addParam \<lparr>ty = IntT 64, is_array = True\<rparr>"

definition sel_addUint64Array :: "selector \<Rightarrow> selector" where
  "sel_addUint64Array = sel_addParam \<lparr>ty = UintT 64, is_array = True\<rparr>"

definition sel_addInt72Array :: "selector \<Rightarrow> selector" where
  "sel_addInt72Array = sel_addParam \<lparr>ty = IntT 72, is_array = True\<rparr>"

definition sel_addUint72Array :: "selector \<Rightarrow> selector" where
  "sel_addUint72Array = sel_addParam \<lparr>ty = UintT 72, is_array = True\<rparr>"

definition sel_addInt80Array :: "selector \<Rightarrow> selector" where
  "sel_addInt80Array = sel_addParam \<lparr>ty = IntT 80, is_array = True\<rparr>"

definition sel_addUint80Array :: "selector \<Rightarrow> selector" where
  "sel_addUint80Array = sel_addParam \<lparr>ty = UintT 80, is_array = True\<rparr>"

definition sel_addInt88Array :: "selector \<Rightarrow> selector" where
  "sel_addInt88Array = sel_addParam \<lparr>ty = IntT 88, is_array = True\<rparr>"

definition sel_addUint88Array :: "selector \<Rightarrow> selector" where
  "sel_addUint88Array = sel_addParam \<lparr>ty = UintT 88, is_array = True\<rparr>"

definition sel_addInt96Array :: "selector \<Rightarrow> selector" where
  "sel_addInt96Array = sel_addParam \<lparr>ty = IntT 96, is_array = True\<rparr>"

definition sel_addUint96Array :: "selector \<Rightarrow> selector" where
  "sel_addUint96Array = sel_addParam \<lparr>ty = UintT 96, is_array = True\<rparr>"

definition sel_addInt104Array :: "selector \<Rightarrow> selector" where
  "sel_addInt104Array = sel_addParam \<lparr>ty = IntT 104, is_array = True\<rparr>"

definition sel_addUint104Array :: "selector \<Rightarrow> selector" where
  "sel_addUint104Array = sel_addParam \<lparr>ty = UintT 104, is_array = True\<rparr>"

definition sel_addInt112Array :: "selector \<Rightarrow> selector" where
  "sel_addInt112Array = sel_addParam \<lparr>ty = IntT 112, is_array = True\<rparr>"

definition sel_addUint112Array :: "selector \<Rightarrow> selector" where
  "sel_addUint112Array = sel_addParam \<lparr>ty = UintT 112, is_array = True\<rparr>"

definition sel_addInt120Array :: "selector \<Rightarrow> selector" where
  "sel_addInt120Array = sel_addParam \<lparr>ty = IntT 120, is_array = True\<rparr>"

definition sel_addUint120Array :: "selector \<Rightarrow> selector" where
  "sel_addUint120Array = sel_addParam \<lparr>ty = UintT 120, is_array = True\<rparr>"

definition sel_addInt128Array :: "selector \<Rightarrow> selector" where
  "sel_addInt128Array = sel_addParam \<lparr>ty = IntT 128, is_array = True\<rparr>"

definition sel_addUint128Array :: "selector \<Rightarrow> selector" where
  "sel_addUint128Array = sel_addParam \<lparr>ty = UintT 128, is_array = True\<rparr>"

definition sel_addInt136Array :: "selector \<Rightarrow> selector" where
  "sel_addInt136Array = sel_addParam \<lparr>ty = IntT 136, is_array = True\<rparr>"

definition sel_addUint136Array :: "selector \<Rightarrow> selector" where
  "sel_addUint136Array = sel_addParam \<lparr>ty = UintT 136, is_array = True\<rparr>"

definition sel_addInt144Array :: "selector \<Rightarrow> selector" where
  "sel_addInt144Array = sel_addParam \<lparr>ty = IntT 144, is_array = True\<rparr>"

definition sel_addUint144Array :: "selector \<Rightarrow> selector" where
  "sel_addUint144Array = sel_addParam \<lparr>ty = UintT 144, is_array = True\<rparr>"

definition sel_addInt152Array :: "selector \<Rightarrow> selector" where
  "sel_addInt152Array = sel_addParam \<lparr>ty = IntT 152, is_array = True\<rparr>"

definition sel_addUint152Array :: "selector \<Rightarrow> selector" where
  "sel_addUint152Array = sel_addParam \<lparr>ty = UintT 152, is_array = True\<rparr>"

definition sel_addInt160Array :: "selector \<Rightarrow> selector" where
  "sel_addInt160Array = sel_addParam \<lparr>ty = IntT 160, is_array = True\<rparr>"

definition sel_addUint160Array :: "selector \<Rightarrow> selector" where
  "sel_addUint160Array = sel_addParam \<lparr>ty = UintT 160, is_array = True\<rparr>"

definition sel_addInt168Array :: "selector \<Rightarrow> selector" where
  "sel_addInt168Array = sel_addParam \<lparr>ty = IntT 168, is_array = True\<rparr>"

definition sel_addUint168Array :: "selector \<Rightarrow> selector" where
  "sel_addUint168Array = sel_addParam \<lparr>ty = UintT 168, is_array = True\<rparr>"

definition sel_addInt176Array :: "selector \<Rightarrow> selector" where
  "sel_addInt176Array = sel_addParam \<lparr>ty = IntT 176, is_array = True\<rparr>"

definition sel_addUint176Array :: "selector \<Rightarrow> selector" where
  "sel_addUint176Array = sel_addParam \<lparr>ty = UintT 176, is_array = True\<rparr>"

definition sel_addInt184Array :: "selector \<Rightarrow> selector" where
  "sel_addInt184Array = sel_addParam \<lparr>ty = IntT 184, is_array = True\<rparr>"

definition sel_addUint184Array :: "selector \<Rightarrow> selector" where
  "sel_addUint184Array = sel_addParam \<lparr>ty = UintT 184, is_array = True\<rparr>"

definition sel_addInt192Array :: "selector \<Rightarrow> selector" where
  "sel_addInt192Array = sel_addParam \<lparr>ty = IntT 192, is_array = True\<rparr>"

definition sel_addUint192Array :: "selector \<Rightarrow> selector" where
  "sel_addUint192Array = sel_addParam \<lparr>ty = UintT 192, is_array = True\<rparr>"

definition sel_addInt200Array :: "selector \<Rightarrow> selector" where
  "sel_addInt200Array = sel_addParam \<lparr>ty = IntT 200, is_array = True\<rparr>"

definition sel_addUint200Array :: "selector \<Rightarrow> selector" where
  "sel_addUint200Array = sel_addParam \<lparr>ty = UintT 200, is_array = True\<rparr>"

definition sel_addInt208Array :: "selector \<Rightarrow> selector" where
  "sel_addInt208Array = sel_addParam \<lparr>ty = IntT 208, is_array = True\<rparr>"

definition sel_addUint208Array :: "selector \<Rightarrow> selector" where
  "sel_addUint208Array = sel_addParam \<lparr>ty = UintT 208, is_array = True\<rparr>"

definition sel_addInt216Array :: "selector \<Rightarrow> selector" where
  "sel_addInt216Array = sel_addParam \<lparr>ty = IntT 216, is_array = True\<rparr>"

definition sel_addUint216Array :: "selector \<Rightarrow> selector" where
  "sel_addUint216Array = sel_addParam \<lparr>ty = UintT 216, is_array = True\<rparr>"

definition sel_addInt224Array :: "selector \<Rightarrow> selector" where
  "sel_addInt224Array = sel_addParam \<lparr>ty = IntT 224, is_array = True\<rparr>"

definition sel_addUint224Array :: "selector \<Rightarrow> selector" where
  "sel_addUint224Array = sel_addParam \<lparr>ty = UintT 224, is_array = True\<rparr>"

definition sel_addInt232Array :: "selector \<Rightarrow> selector" where
  "sel_addInt232Array = sel_addParam \<lparr>ty = IntT 232, is_array = True\<rparr>"

definition sel_addUint232Array :: "selector \<Rightarrow> selector" where
  "sel_addUint232Array = sel_addParam \<lparr>ty = UintT 232, is_array = True\<rparr>"

definition sel_addInt240Array :: "selector \<Rightarrow> selector" where
  "sel_addInt240Array = sel_addParam \<lparr>ty = IntT 240, is_array = True\<rparr>"

definition sel_addUint240Array :: "selector \<Rightarrow> selector" where
  "sel_addUint240Array = sel_addParam \<lparr>ty = UintT 240, is_array = True\<rparr>"

definition sel_addInt248Array :: "selector \<Rightarrow> selector" where
  "sel_addInt248Array = sel_addParam \<lparr>ty = IntT 248, is_array = True\<rparr>"

definition sel_addUint248Array :: "selector \<Rightarrow> selector" where
  "sel_addUint248Array = sel_addParam \<lparr>ty = UintT 248, is_array = True\<rparr>"

definition sel_addInt256Array :: "selector \<Rightarrow> selector" where
  "sel_addInt256Array = sel_addParam \<lparr>ty = IntT 256, is_array = True\<rparr>"

definition sel_addUint256Array :: "selector \<Rightarrow> selector" where
  "sel_addUint256Array = sel_addParam \<lparr>ty = UintT 256, is_array = True\<rparr>"

definition sel_addBool :: "selector \<Rightarrow> selector" where
  "sel_addBool = sel_addParam \<lparr>ty = BoolT, is_array = False\<rparr>"

definition sel_addAddress :: "selector \<Rightarrow> selector" where
  "sel_addAddress = sel_addParam \<lparr>ty = AddressT, is_array = False\<rparr>"

definition sel_addAddressArray :: "selector \<Rightarrow> selector" where
  "sel_addAddressArray = sel_addParam \<lparr>ty = AddressT, is_array = True\<rparr>"

definition sel_addFunction :: "selector \<Rightarrow> selector" where
  "sel_addFunction = sel_addParam \<lparr>ty = FuncT, is_array = False\<rparr>"

end
