(* ===== verification/AbiParams.thy ===== *)
theory AbiParams
  imports Selector
begin

text \<open>
  The arguments of a contract call: \<open>src/contract/ContractFunctionParameters.js\<close>. Each method adds
  its type to the selector and the bytes of its value to the arguments; \<open>_build\<close> lays out the
  arguments with the offsets of those of variable length.

  The packages that write and read integers (\<open>bignumber.js\<close> and \<open>@ethersproject\<close>) are not part
  of the repository: an \<open>abi_lib\<close> stands for what is called of them. Integers given to the methods
  are \<open>int\<close>. A method that throws leaves the type it has added behind, so every method also returns
  the parameters as they are then. The values a method passes on have the kind of its type; the
  model lets the other combinations throw.
\<close>

record abi_lib =
  toString16 :: "int \<Rightarrow> string"
  abi_encode :: "string list \<Rightarrow> string list \<Rightarrow> string result"
  arrayify :: "string \<Rightarrow> byte list"
  abi_decode :: "string list \<Rightarrow> byte list \<Rightarrow> string result"
  bigNumber :: "string \<Rightarrow> nat \<Rightarrow> int option"

datatype param =
    PText text_points
  | PBool bool
  | PBytes "byte list"
  | PNum int
  | PArr "param list"

section \<open>Typed arrays and views\<close>

definition typed_set :: "byte list \<Rightarrow> nat \<Rightarrow> byte list \<Rightarrow> byte list result" where
  "typed_set src off v =
     (if off + length src \<le> length v then Inr (take off v @ src @ drop (off + length src) v)
      else Inl (RangeError ''offset is out of bounds''))"

definition u32_bytes :: "nat \<Rightarrow> byte list" where
  "u32_bytes n = map (\<lambda>k. of_nat (n div 2 ^ (8 * k))) [3, 2, 1, 0]"

definition setUint32 :: "nat \<Rightarrow> nat \<Rightarrow> byte list \<Rightarrow> byte list result" where
  "setUint32 pos n v = typed_set (u32_bytes n) pos v"

definition bytes_value :: "byte list \<Rightarrow> nat" where
  "bytes_value bs = foldl (\<lambda>a b. 256 * a + unat b) 0 bs"

definition getUint32 :: "nat \<Rightarrow> byte list \<Rightarrow> nat result" where
  "getUint32 pos v =
     (if pos + 4 \<le> length v then Inr (bytes_value (slice pos (pos + 4) v))
      else Inl (RangeError ''Offset is outside the bounds of the DataView''))"

section \<open>The bytes of a value\<close>

definition number_hex :: "abi_lib \<Rightarrow> int \<Rightarrow> string" where
  "number_hex L n =
     (let h = toString16 L n in if n > 0 \<or> n = 0 then ''0x'' @ h else take 1 h @ ''0x'' @ drop 1 h)"

definition number_bytes :: "abi_lib \<Rightarrow> argument_type \<Rightarrow> param \<Rightarrow> byte list result" where
  "number_bytes L t p =
     (case p of
        PNum n \<Rightarrow>
          res_bind (abi_encode L [solidityTypeToString \<lparr>ty = t, is_array = False\<rparr>] [number_hex L n])
            (\<lambda>h. Inr (arrayify L h))
      | _ \<Rightarrow> Inl (TypeError ''param is not a number''))"

definition padded_bytes :: "nat \<Rightarrow> param \<Rightarrow> byte list result" where
  "padded_bytes off p =
     (case p of
        PBytes b \<Rightarrow> typed_set b off (replicate 32 0)
      | _ \<Rightarrow> Inl (TypeError ''param is not a byte array''))"

definition sized_bytes :: "byte list \<Rightarrow> byte list result" where
  "sized_bytes par =
     (let value = (if length par mod 32 \<noteq> 0 then replicate ((length par div 32 + 1) * 32 + 32) 0
                   else replicate (length par div 32 * 32 + 32) 0)
      in res_bind (typed_set par 32 value) (\<lambda>v. setUint32 28 (length par) v))"

fun scalar_bytes :: "abi_lib \<Rightarrow> param \<Rightarrow> argument_type \<Rightarrow> byte list result" where
  "scalar_bytes L p (UintT w) =
     (if int_width w then number_bytes L (UintT w) p else Inl (Error ''Unsupported argument type''))"
| "scalar_bytes L p (IntT w) =
     (if int_width w then number_bytes L (IntT w) p else Inl (Error ''Unsupported argument type''))"
| "scalar_bytes L p AddressT = padded_bytes (32 - 20) p"
| "scalar_bytes L p BoolT =
     Inr (replicate 31 0 @ [case p of PBool b \<Rightarrow> if b then 1 else 0 | PNum n \<Rightarrow> if n \<noteq> 0 then 1 else 0
                                    | PText t \<Rightarrow> if t \<noteq> [] then 1 else 0 | _ \<Rightarrow> 1])"
| "scalar_bytes L p FuncT = padded_bytes (32 - 24) p"
| "scalar_bytes L p Bytes32T = padded_bytes 0 p"
| "scalar_bytes L p t =
     (case p of
        PBytes b \<Rightarrow> sized_bytes b
      | PText s \<Rightarrow> sized_bytes (utf8_encode s)
      | _ \<Rightarrow> Inl (TypeError ''param is neither bytes nor text''))"

fun scalar_list_bytes :: "abi_lib \<Rightarrow> argument_type \<Rightarrow> param list \<Rightarrow> byte list list result" where
  "scalar_list_bytes L t [] = Inr []"
| "scalar_list_bytes L t (p # ps) =
     res_bind (scalar_bytes L p t) (\<lambda>v.
     res_bind (scalar_list_bytes L t ps) (\<lambda>vs. Inr (v # vs)))"

definition variable_length :: "argument_type \<Rightarrow> bool" where
  "variable_length t \<longleftrightarrow> t = BytesT \<or> t = StringT"

text \<open>The loops over the elements of an array: in place, or behind a table of offsets.\<close>

fun put_static :: "nat \<Rightarrow> byte list list \<Rightarrow> byte list \<Rightarrow> byte list result" where
  "put_static i [] value = Inr value"
| "put_static i (e # es) value = res_bind (typed_set e (i * 32 + 32) value) (put_static (Suc i) es)"

fun put_variable :: "nat \<Rightarrow> nat \<Rightarrow> byte list list \<Rightarrow> byte list \<Rightarrow> byte list result" where
  "put_variable i offset [] value = Inr value"
| "put_variable i offset (e # es) value =
     res_bind (setUint32 ((i + 1) * 32 + 28) offset value) (\<lambda>v.
     res_bind (getUint32 ((i + 1) * 32 + 28) v) (\<lambda>pos.
     res_bind (typed_set e (pos + 32) v) (put_variable (Suc i) (offset + length e) es)))"

definition array_bytes :: "argument_type \<Rightarrow> byte list list \<Rightarrow> byte list result" where
  "array_bytes t values =
     (let sum = sum_list (map length values)
      in if \<not> argument_type_member t then Inl (TypeError ''Expected param type to be ArgumentType'')
         else
           (let value = (if variable_length t then replicate (length values * 32 + sum + 32) 0
                         else replicate (sum + 32) 0)
            in res_bind (setUint32 28 (length values) value) (\<lambda>v.
                 if variable_length t then put_variable 0 (32 * length values) values v
                 else put_static 0 values v)))"

definition argumentToBytes :: "abi_lib \<Rightarrow> param \<Rightarrow> solidity_type \<Rightarrow> byte list result" where
  "argumentToBytes L p t =
     (if is_array t
      then (case p of
              PArr ps \<Rightarrow> res_bind (scalar_list_bytes L (ty t) ps) (array_bytes (ty t))
            | _ \<Rightarrow> Inl (TypeError ''SolidityType indicates type is array, but parameter is not an array''))
      else scalar_bytes L p (ty t))"

section \<open>The parameters\<close>

record abi_argument =
  dynamic :: bool
  arg_value :: "byte list"

record call_parameters =
  cf_selector :: selector
  cf_arguments :: "abi_argument list"

definition new_parameters :: call_parameters where
  "new_parameters = \<lparr>cf_selector = new_selector None, cf_arguments = []\<rparr>"

definition cf_addParam ::
    "abi_lib \<Rightarrow> param \<Rightarrow> bool \<Rightarrow> call_parameters \<Rightarrow> js_error option \<times> call_parameters" where
  "cf_addParam L p dyn c =
     (let types = sel_paramTypes (cf_selector c)
      in if types = [] then (Some (TypeError ''cannot read properties of undefined''), c)
         else case argumentToBytes L p (types ! (length types - 1)) of
                Inl e \<Rightarrow> (Some e, c)
              | Inr v \<Rightarrow> (None, c\<lparr>cf_arguments := cf_arguments c @ [\<lparr>dynamic = dyn, arg_value = v\<rparr>]\<rparr>))"

text \<open>The loop of \<open>_build\<close> over the arguments.\<close>

fun lay_out :: "nat \<Rightarrow> nat \<Rightarrow> nat \<Rightarrow> abi_argument list \<Rightarrow> byte list \<Rightarrow> byte list result" where
  "lay_out nameOffset i offset [] func = Inr func"
| "lay_out nameOffset i offset (a # as) func =
     (if dynamic a then
        res_bind (setUint32 (nameOffset + i * 32 + 28) offset func) (\<lambda>f.
        res_bind (getUint32 (nameOffset + i * 32 + 28) f) (\<lambda>pos.
        res_bind (typed_set (arg_value a) (pos + nameOffset) f)
          (lay_out nameOffset (Suc i) (offset + length (arg_value a)) as)))
      else res_bind (typed_set (arg_value a) (nameOffset + i * 32) func)
             (lay_out nameOffset (Suc i) offset as))"

definition build_length :: "nat \<Rightarrow> abi_argument list \<Rightarrow> nat" where
  "build_length nameOffset as =
     (if length as = 0 then nameOffset
      else length as * 32 + sum_list (map (\<lambda>a. if dynamic a then length (arg_value a) else 0) as) + nameOffset)"

definition cf_build :: "string option \<Rightarrow> call_parameters \<Rightarrow> (byte list result \<times> call_parameters) option" where
  "cf_build name c =
     (let nameOffset = (if name \<noteq> None then 4 else 0);
          func = replicate (build_length nameOffset (cf_arguments c)) 0;
          rest = (\<lambda>f. lay_out nameOffset 0 (32 * length (cf_arguments c)) (cf_arguments c) f)
      in if name = None then Some (rest func, c)
         else case sel_build name (cf_selector c) of
                None \<Rightarrow> None
              | Some (ident, s) \<Rightarrow>
                  Some (res_bind ident (\<lambda>b. res_bind (typed_set b 0 func) rest), c\<lparr>cf_selector := s\<rparr>))"

section \<open>The methods\<close>

definition add_typed ::
    "abi_lib \<Rightarrow> (selector \<Rightarrow> selector) \<Rightarrow> param \<Rightarrow> bool \<Rightarrow> call_parameters
     \<Rightarrow> js_error option \<times> call_parameters" where
  "add_typed L add p dyn c = cf_addParam L p dyn (c\<lparr>cf_selector := add (cf_selector c)\<rparr>)"

datatype address_value = AddressText string | EvmAddressObject "byte list"

definition address_bytes :: "address_value \<Rightarrow> byte list result" where
  "address_bytes v =
     (let decode = (\<lambda>a. if length a = 40 then hex_decode a else hex_decode (drop 2 a))
      in case v of
           AddressText s \<Rightarrow>
             if length s \<noteq> 40 \<and> length s \<noteq> 42
             then Inl (Error ''`address` type requires parameter to be 40 or 42 characters'')
             else Inr (decode s)
         | EvmAddressObject b \<Rightarrow> Inr (decode (hex_encode b)))"

fun address_list_bytes :: "address_value list \<Rightarrow> byte list list result" where
  "address_list_bytes [] = Inr []"
| "address_list_bytes (v # vs) =
     res_bind (address_bytes v) (\<lambda>b. res_bind (address_list_bytes vs) (\<lambda>bs. Inr (b # bs)))"

definition addString :: "abi_lib \<Rightarrow> text_points \<Rightarrow> call_parameters \<Rightarrow> js_error option \<times> call_parameters" where
  "addString L v c = add_typed L sel_addString (PText v) True c"

definition addStringArray ::
    "abi_lib \<Rightarrow> text_points list \<Rightarrow> call_parameters \<Rightarrow> js_error option \<times> call_parameters" where
  "addStringArray L v c = add_typed L sel_addStringArray (PArr (map PText v)) True c"

definition addBytes :: "abi_lib \<Rightarrow> byte list \<Rightarrow> call_parameters \<Rightarrow> js_error option \<times> call_parameters" where
  "addBytes L v c = add_typed L sel_addBytes (PBytes v) True c"

definition addBytes32 :: "abi_lib \<Rightarrow> byte list \<Rightarrow> call_parameters \<Rightarrow> js_error option \<times> call_parameters" where
  "addBytes32 L v c =
     (if length v \<noteq> 32 then (Some (Error ''addBytes32 expected array to be of length 32''), c)
      else add_typed L sel_addBytes32 (PBytes v) False c)"

definition addBytesArray ::
    "abi_lib \<Rightarrow> byte list list \<Rightarrow> call_parameters \<Rightarrow> js_error option \<times> call_parameters" where
  "addBytesArray L v c = add_typed L sel_addBytesArray (PArr (map PBytes v)) True c"

definition addBytes32Array ::
    "abi_lib \<Rightarrow> byte list list \<Rightarrow> call_parameters \<Rightarrow> js_error option \<times> call_parameters" where
  "addBytes32Array L v c =
     (if list_ex (\<lambda>e. length e \<noteq> 32) v
      then (Some (Error ''addBytes32 expected array to be of length 32''), c)
      else add_typed L sel_addBytes32Array (PArr (map PBytes v)) True c)"

definition addBool :: "abi_lib \<Rightarrow> bool \<Rightarrow> call_parameters \<Rightarrow> js_error option \<times> call_parameters" where
  "addBool L v c = add_typed L sel_addBool (PBool v) False c"

definition addAddress ::
    "abi_lib \<Rightarrow> address_value \<Rightarrow> call_parameters \<Rightarrow> js_error option \<times> call_parameters" where
  "addAddress L v c =
     (case address_bytes v of
        Inl e \<Rightarrow> (Some e, c)
      | Inr b \<Rightarrow> add_typed L sel_addAddress (PBytes b) False c)"

definition addAddressArray ::
    "abi_lib \<Rightarrow> address_value list \<Rightarrow> call_parameters \<Rightarrow> js_error option \<times> call_parameters" where
  "addAddressArray L v c =
     (case address_list_bytes v of
        Inl e \<Rightarrow> (Some e, c)
      | Inr bs \<Rightarrow> add_typed L sel_addAddressArray (PArr (map PBytes bs)) True c)"

definition addFunction ::
    "abi_lib \<Rightarrow> string \<Rightarrow> selector \<Rightarrow> call_parameters \<Rightarrow> (js_error option \<times> call_parameters) option" where
  "addFunction L address s c =
     (let addressParam = hex_decode address
      in case sel_build None s of
           None \<Rightarrow> None
         | Some (Inl e, _) \<Rightarrow> Some (Some e, c)
         | Some (Inr functionSelector, _) \<Rightarrow>
             if length addressParam \<noteq> 20
             then Some (Some (Error ''`function` type requires parameter `address` to be exactly 20 bytes''), c)
             else Some (add_typed L sel_addFunction (PBytes (addressParam @ functionSelector)) False c))"

text \<open>The integer methods and those of arrays of integers.\<close>

definition addInt8 :: "abi_lib \<Rightarrow> int \<Rightarrow> call_parameters \<Rightarrow> js_error option \<times> call_parameters" where
  "addInt8 L v c = add_typed L sel_addInt8 (PNum v) False c"

definition addUint8 :: "abi_lib \<Rightarrow> int \<Rightarrow> call_parameters \<Rightarrow> js_error option \<times> call_parameters" where
  "addUint8 L v c = add_typed L sel_addUint8 (PNum v) False c"

definition addInt16 :: "abi_lib \<Rightarrow> int \<Rightarrow> call_parameters \<Rightarrow> js_error option \<times> call_parameters" where
  "addInt16 L v c = add_typed L sel_addInt16 (PNum v) False c"

definition addUint16 :: "abi_lib \<Rightarrow> int \<Rightarrow> call_parameters \<Rightarrow> js_error option \<times> call_parameters" where
  "addUint16 L v c = add_typed L sel_addUint16 (PNum v) False c"

definition addInt24 :: "abi_lib \<Rightarrow> int \<Rightarrow> call_parameters \<Rightarrow> js_error option \<times> call_parameters" where
  "addInt24 L v c = add_typed L sel_addInt24 (PNum v) False c"

definition addUint24 :: "abi_lib \<Rightarrow> int \<Rightarrow> call_parameters \<Rightarrow> js_error option \<times> call_parameters" where
  "addUint24 L v c = add_typed L sel_addUint24 (PNum v) False c"

definition addInt32 :: "abi_lib \<Rightarrow> int \<Rightarrow> call_parameters \<Rightarrow> js_error option \<times> call_parameters" where
  "addInt32 L v c = add_typed L sel_addInt32 (PNum v) False c"

definition addUint32 :: "abi_lib \<Rightarrow> int \<Rightarrow> call_parameters \<Rightarrow> js_error option \<times> call_parameters" where
  "addUint32 L v c = add_typed L sel_addUint32 (PNum v) False c"

definition addInt40 :: "abi_lib \<Rightarrow> int \<Rightarrow> call_parameters \<Rightarrow> js_error option \<times> call_parameters" where
  "addInt40 L v c = add_typed L sel_addInt40 (PNum v) False c"

definition addUint40 :: "abi_lib \<Rightarrow> int \<Rightarrow> call_parameters \<Rightarrow> js_error option \<times> call_parameters" where
  "addUint40 L v c = add_typed L sel_addUint40 (PNum v) False c"

definition addInt48 :: "abi_lib \<Rightarrow> int \<Rightarrow> call_parameters \<Rightarrow> js_error option \<times> call_parameters" where
  "addInt48 L v c = add_typed L sel_addInt48 (PNum v) False c"

definition addUint48 :: "abi_lib \<Rightarrow> int \<Rightarrow> call_parameters \<Rightarrow> js_error option \<times> call_parameters" where
  "addUint48 L v c = add_typed L sel_addUint48 (PNum v) False c"

definition addInt56 :: "abi_lib \<Rightarrow> int \<Rightarrow> call_parameters \<Rightarrow> js_error option \<times> call_parameters" where
  "addInt56 L v c = add_typed L sel_addInt56 (PNum v) False c"

definition addUint56 :: "abi_lib \<Rightarrow> int \<Rightarrow> call_parameters \<Rightarrow> js_error option \<times> call_parameters" where
  "addUint56 L v c = add_typed L sel_addUint56 (PNum v) False c"

definition addInt64 :: "abi_lib \<Rightarrow> int \<Rightarrow> call_parameters \<Rightarrow> js_error option \<times> call_parameters" where
  "addInt64 L v c = add_typed L sel_addInt64 (PNum v) False c"

definition addUint64 :: "abi_lib \<Rightarrow> int \<Rightarrow> call_parameters \<Rightarrow> js_error option \<times> call_parameters" where
  "addUint64 L v c = add_typed L sel_addUint64 (PNum v) False c"

definition addInt72 :: "abi_lib \<Rightarrow> int \<Rightarrow> call_parameters \<Rightarrow> js_error option \<times> call_parameters" where
  "addInt72 L v c = add_typed L sel_addInt72 (PNum v) False c"

definition addUint72 :: "abi_lib \<Rightarrow> int \<Rightarrow> call_parameters \<Rightarrow> js_error option \<times> call_parameters" where
  "addUint72 L v c = add_typed L sel_addUint72 (PNum v) False c"

definition addInt80 :: "abi_lib \<Rightarrow> int \<Rightarrow> call_parameters \<Rightarrow> js_error option \<times> call_parameters" where
  "addInt80 L v c = add_typed L sel_addInt80 (PNum v) False c"

definition addUint80 :: "abi_lib \<Rightarrow> int \<Rightarrow> call_parameters \<Rightarrow> js_error option \<times> call_parameters" where
  "addUint80 L v c = add_typed L sel_addUint80 (PNum v) False c"

definition addInt88 :: "abi_lib \<Rightarrow> int \<Rightarrow> call_parameters \<Rightarrow> js_error option \<times> call_parameters" where
  "addInt88 L v c = add_typed L sel_addInt88 (PNum v) False c"

definition addUint88 :: "abi_lib \<Rightarrow> int \<Rightarrow> call_parameters \<Rightarrow> js_error option \<times> call_parameters" where
  "addUint88 L v c = add_typed L sel_addUint88 (PNum v) False c"

definition addInt96 :: "abi_lib \<Rightarrow> int \<Rightarrow> call_parameters \<Rightarrow> js_error option \<times> call_parameters" where
  "addInt96 L v c = add_typed L sel_addInt96 (PNum v) False c"

definition addUint96 :: "abi_lib \<Rightarrow> int \<Rightarrow> call_parameters \<Rightarrow> js_error option \<times> call_parameters" where
  "addUint96 L v c = add_typed L sel_addUint96 (PNum v) False c"

definition addInt104 :: "abi_lib \<Rightarrow> int \<Rightarrow> call_parameters \<Rightarrow> js_error option \<times> call_parameters" where
  "addInt104 L v c = add_typed L sel_addInt104 (PNum v) False c"

definition addUint104 :: "abi_lib \<Rightarrow> int \<Rightarrow> call_parameters \<Rightarrow> js_error option \<times> call_parameters" where
  "addUint104 L v c = add_typed L sel_addUint104 (PNum v) False c"

definition addInt112 :: "abi_lib \<Rightarrow> int \<Rightarrow> call_parameters \<Rightarrow> js_error option \<times> call_parameters" where
  "addInt112 L v c = add_typed L sel_addInt112 (PNum v) False c"

definition addUint112 :: "abi_lib \<Rightarrow> int \<Rightarrow> call_parameters \<Rightarrow> js_error option \<times> call_parameters" where
  "addUint112 L v c = add_typed L sel_addUint112 (PNum v) False c"

definition addInt120 :: "abi_lib \<Rightarrow> int \<Rightarrow> call_parameters \<Rightarrow> js_error option \<times> call_parameters" where
  "addInt120 L v c = add_typed L sel_addInt120 (PNum v) False c"

definition addUint120 :: "abi_lib \<Rightarrow> int \<Rightarrow> call_parameters \<Rightarrow> js_error option \<times> call_parameters" where
  "addUint120 L v c = add_typed L sel_addUint120 (PNum v) False c"

definition addInt128 :: "abi_lib \<Rightarrow> int \<Rightarrow> call_parameters \<Rightarrow> js_error option \<times> call_parameters" where
  "addInt128 L v c = add_typed L sel_addInt128 (PNum v) False c"

definition addUint128 :: "abi_lib \<Rightarrow> int \<Rightarrow> call_parameters \<Rightarrow> js_error option \<times> call_parameters" where
  "addUint128 L v c = add_typed L sel_addUint128 (PNum v) False c"

definition addInt136 :: "abi_lib \<Rightarrow> int \<Rightarrow> call_parameters \<Rightarrow> js_error option \<times> call_parameters" where
  "addInt136 L v c = add_typed L sel_addInt136 (PNum v) False c"

definition addUint136 :: "abi_lib \<Rightarrow> int \<Rightarrow> call_parameters \<Rightarrow> js_error option \<times> call_parameters" where
  "addUint136 L v c = add_typed L sel_addUint136 (PNum v) False c"

definition addInt144 :: "abi_lib \<Rightarrow> int \<Rightarrow> call_parameters \<Rightarrow> js_error option \<times> call_parameters" where
  "addInt144 L v c = add_typed L sel_addInt144 (PNum v) False c"

definition addUint144 :: "abi_lib \<Rightarrow> int \<Rightarrow> call_parameters \<Rightarrow> js_error option \<times> call_parameters" where
  "addUint144 L v c = add_typed L sel_addUint144 (PNum v) False c"

definition addInt152 :: "abi_lib \<Rightarrow> int \<Rightarrow> call_parameters \<Rightarrow> js_error option \<times> call_parameters" where
  "addInt152 L v c = add_typed L sel_addInt152 (PNum v) False c"

definition addUint152 :: "abi_lib \<Rightarrow> int \<Rightarrow> call_parameters \<Rightarrow> js_error option \<times> call_parameters" where
  "addUint152 L v c = add_typed L sel_addUint152 (PNum v) False c"

definition addInt160 :: "abi_lib \<Rightarrow> int \<Rightarrow> call_parameters \<Rightarrow> js_error option \<times> call_parameters" where
  "addInt160 L v c = add_typed L sel_addInt160 (PNum v) False c"

definition addUint160 :: "abi_lib \<Rightarrow> int \<Rightarrow> call_parameters \<Rightarrow> js_error option \<times> call_parameters" where
  "addUint160 L v c = add_typed L sel_addUint160 (PNum v) False c"

definition addInt168 :: "abi_lib \<Rightarrow> int \<Rightarrow> call_parameters \<Rightarrow> js_error option \<times> call_parameters" where
  "addInt168 L v c = add_typed L sel_addInt168 (PNum v) False c"

definition addUint168 :: "abi_lib \<Rightarrow> int \<Rightarrow> call_parameters \<Rightarrow> js_error option \<times> call_parameters" where
  "addUint168 L v c = add_typed L sel_addUint168 (PNum v) False c"

definition addInt176 :: "abi_lib \<Rightarrow> int \<Rightarrow> call_parameters \<Rightarrow> js_error option \<times> call_parameters" where
  "addInt176 L v c = add_typed L sel_addInt176 (PNum v) False c"

definition addUint176 :: "abi_lib \<Rightarrow> int \<Rightarrow> call_parameters \<Rightarrow> js_error option \<times> call_parameters" where
  "addUint176 L v c = add_typed L sel_addUint176 (PNum v) False c"

definition addInt184 :: "abi_lib \<Rightarrow> int \<Rightarrow> call_parameters \<Rightarrow> js_error option \<times> call_parameters" where
  "addInt184 L v c = add_typed L sel_addInt184 (PNum v) False c"

definition addUint184 :: "abi_lib \<Rightarrow> int \<Rightarrow> call_parameters \<Rightarrow> js_error option \<times> call_parameters" where
  "addUint184 L v c = add_typed L sel_addUint184 (PNum v) False c"

definition addInt192 :: "abi_lib \<Rightarrow> int \<Rightarrow> call_parameters \<Rightarrow> js_error option \<times> call_parameters" where
  "addInt192 L v c = add_typed L sel_addInt192 (PNum v) False c"

definition addUint192 :: "abi_lib \<Rightarrow> int \<Rightarrow> call_parameters \<Rightarrow> js_error option \<times> call_parameters" where
  "addUint192 L v c = add_typed L sel_addUint192 (PNum v) False c"

definition addInt200 :: "abi_lib \<Rightarrow> int \<Rightarrow> call_parameters \<Rightarrow> js_error option \<times> call_parameters" where
  "addInt200 L v c = add_typed L sel_addInt200 (PNum v) False c"

definition addUint200 :: "abi_lib \<Rightarrow> int \<Rightarrow> call_parameters \<Rightarrow> js_error option \<times> call_parameters" where
  "addUint200 L v c = add_typed L sel_addUint200 (PNum v) False c"

definition addInt208 :: "abi_lib \<Rightarrow> int \<Rightarrow> call_parameters \<Rightarrow> js_error option \<times> call_parameters" where
  "addInt208 L v c = add_typed L sel_addInt208 (PNum v) False c"

definition addUint208 :: "abi_lib \<Rightarrow> int \<Rightarrow> call_parameters \<Rightarrow> js_error option \<times> call_parameters" where
  "addUint208 L v c = add_typed L sel_addUint208 (PNum v) False c"

definition addInt216 :: "abi_lib \<Rightarrow> int \<Rightarrow> call_parameters \<Rightarrow> js_error option \<times> call_parameters" where
  "addInt216 L v c = add_typed L sel_addInt216 (PNum v) False c"

definition addUint216 :: "abi_lib \<Rightarrow> int \<Rightarrow> call_parameters \<Rightarrow> js_error option \<times> call_parameters" where
  "addUint216 L v c = add_typed L sel_addUint216 (PNum v) False c"

definition addInt224 :: "abi_lib \<Rightarrow> int \<Rightarrow> call_parameters \<Rightarrow> js_error option \<times> call_parameters" where
  "addInt224 L v c = add_typed L sel_addInt224 (PNum v) False c"

definition addUint224 :: "abi_lib \<Rightarrow> int \<Rightarrow> call_parameters \<Rightarrow> js_error option \<times> call_parameters" where
  "addUint224 L v c = add_typed L sel_addUint224 (PNum v) False c"

definition addInt232 :: "abi_lib \<Rightarrow> int \<Rightarrow> call_parameters \<Rightarrow> js_error option \<times> call_parameters" where
  "addInt232 L v c = add_typed L sel_addInt232 (PNum v) False c"

definition addUint232 :: "abi_lib \<Rightarrow> int \<Rightarrow> call_parameters \<Rightarrow> js_error option \<times> call_parameters" where
  "addUint232 L v c = add_typed L sel_addUint232 (PNum v) False c"

definition addInt240 :: "abi_lib \<Rightarrow> int \<Rightarrow> call_parameters \<Rightarrow> js_error option \<times> call_parameters" where
  "addInt240 L v c = add_typed L sel_addInt240 (PNum v) False c"

definition addUint240 :: "abi_lib \<Rightarrow> int \<Rightarrow> call_parameters \<Rightarrow> js_error option \<times> call_parameters" where
  "addUint240 L v c = add_typed L sel_addUint240 (PNum v) False c"

definition addInt248 :: "abi_lib \<Rightarrow> int \<Rightarrow> call_parameters \<Rightarrow> js_error option \<times> call_parameters" where
  "addInt248 L v c = add_typed L sel_addInt248 (PNum v) False c"

definition addUint248 :: "abi_lib \<Rightarrow> int \<Rightarrow> call_parameters \<Rightarrow> js_error option \<times> call_parameters" where
  "addUint248 L v c = add_typed L sel_addUint248 (PNum v) False c"

definition addInt256 :: "abi_lib \<Rightarrow> int \<Rightarrow> call_parameters \<Rightarrow> js_error option \<times> call_parameters" where
  "addInt256 L v c = add_typed L sel_addInt256 (PNum v) False c"

definition addUint256 :: "abi_lib \<Rightarrow> int \<Rightarrow> call_parameters \<Rightarrow> js_error option \<times> call_parameters" where
  "addUint256 L v c = add_typed L sel_addUint256 (PNum v) False c"

definition addInt8Array ::
    "abi_lib \<Rightarrow> int list \<Rightarrow> call_parameters \<Rightarrow> js_error option \<times> call_parameters" where
  "addInt8Array L v c = add_typed L sel_addInt8Array (PArr (map PNum v)) True c"

definition addUint8Array ::
    "abi_lib \<Rightarrow> int list \<Rightarrow> call_parameters \<Rightarrow> js_error option \<times> call_parameters" where
  "addUint8Array L v c = add_typed L sel_addUint8Array (PArr (map PNum v)) True c"

definition addInt16Array ::
    "abi_lib \<Rightarrow> int list \<Rightarrow> call_parameters \<Rightarrow> js_error option \<times> call_parameters" where
  "addInt16Array L v c = add_typed L sel_addInt16Array (PArr (map PNum v)) True c"

definition addUint16Array ::
    "abi_lib \<Rightarrow> int list \<Rightarrow> call_parameters \<Rightarrow> js_error option \<times> call_parameters" where
  "addUint16Array L v c = add_typed L sel_addUint16Array (PArr (map PNum v)) True c"

definition addInt24Array ::
    "abi_lib \<Rightarrow> int list \<Rightarrow> call_parameters \<Rightarrow> js_error option \<times> call_parameters" where
  "addInt24Array L v c = add_typed L sel_addInt24Array (PArr (map PNum v)) True c"

definition addUint24Array ::
    "abi_lib \<Rightarrow> int list \<Rightarrow> call_parameters \<Rightarrow> js_error option \<times> call_parameters" where
  "addUint24Array L v c = add_typed L sel_addUint24Array (PArr (map PNum v)) True c"

definition addInt32Array ::
    "abi_lib \<Rightarrow> int list \<Rightarrow> call_parameters \<Rightarrow> js_error option \<times> call_parameters" where
  "addInt32Array L v c = add_typed L sel_addInt32Array (PArr (map PNum v)) True c"

definition addUint32Array ::
    "abi_lib \<Rightarrow> int list \<Rightarrow> call_parameters \<Rightarrow> js_error option \<times> call_parameters" where
  "addUint32Array L v c = add_typed L sel_addUint32Array (PArr (map PNum v)) True c"

definition addInt40Array ::
    "abi_lib \<Rightarrow> int list \<Rightarrow> call_parameters \<Rightarrow> js_error option \<times> call_parameters" where
  "addInt40Array L v c = add_typed L sel_addInt40Array (PArr (map PNum v)) True c"

definition addUint40Array ::
    "abi_lib \<Rightarrow> int list \<Rightarrow> call_parameters \<Rightarrow> js_error option \<times> call_parameters" where
  "addUint40Array L v c = add_typed L sel_addUint40Array (PArr (map PNum v)) True c"

definition addInt48Array ::
    "abi_lib \<Rightarrow> int list \<Rightarrow> call_parameters \<Rightarrow> js_error option \<times> call_parameters" where
  "addInt48Array L v c = add_typed L sel_addInt48Array (PArr (map PNum v)) True c"

definition addUint48Array ::
    "abi_lib \<Rightarrow> int list \<Rightarrow> call_parameters \<Rightarrow> js_error option \<times> call_parameters" where
  "addUint48Array L v c = add_typed L sel_addUint48Array (PArr (map PNum v)) True c"

definition addInt56Array ::
    "abi_lib \<Rightarrow> int list \<Rightarrow> call_parameters \<Rightarrow> js_error option \<times> call_parameters" where
  "addInt56Array L v c = add_typed L sel_addInt56Array (PArr (map PNum v)) True c"

definition addUint56Array ::
    "abi_lib \<Rightarrow> int list \<Rightarrow> call_parameters \<Rightarrow> js_error option \<times> call_parameters" where
  "addUint56Array L v c = add_typed L sel_addUint56Array (PArr (map PNum v)) True c"

definition addInt64Array ::
    "abi_lib \<Rightarrow> int list \<Rightarrow> call_parameters \<Rightarrow> js_error option \<times> call_parameters" where
  "addInt64Array L v c = add_typed L sel_addInt64Array (PArr (map PNum v)) True c"

definition addUint64Array ::
    "abi_lib \<Rightarrow> int list \<Rightarrow> call_parameters \<Rightarrow> js_error option \<times> call_parameters" where
  "addUint64Array L v c = add_typed L sel_addUint64Array (PArr (map PNum v)) True c"

definition addInt72Array ::
    "abi_lib \<Rightarrow> int list \<Rightarrow> call_parameters \<Rightarrow> js_error option \<times> call_parameters" where
  "addInt72Array L v c = add_typed L sel_addInt72Array (PArr (map PNum v)) True c"

definition addUint72Array ::
    "abi_lib \<Rightarrow> int list \<Rightarrow> call_parameters \<Rightarrow> js_error option \<times> call_parameters" where
  "addUint72Array L v c = add_typed L sel_addUint72Array (PArr (map PNum v)) True c"

definition addInt80Array ::
    "abi_lib \<Rightarrow> int list \<Rightarrow> call_parameters \<Rightarrow> js_error option \<times> call_parameters" where
  "addInt80Array L v c = add_typed L sel_addInt80Array (PArr (map PNum v)) True c"

definition addUint80Array ::
    "abi_lib \<Rightarrow> int list \<Rightarrow> call_parameters \<Rightarrow> js_error option \<times> call_parameters" where
  "addUint80Array L v c = add_typed L sel_addUint80Array (PArr (map PNum v)) True c"

definition addInt88Array ::
    "abi_lib \<Rightarrow> int list \<Rightarrow> call_parameters \<Rightarrow> js_error option \<times> call_parameters" where
  "addInt88Array L v c = add_typed L sel_addInt88Array (PArr (map PNum v)) True c"

definition addUint88Array ::
    "abi_lib \<Rightarrow> int list \<Rightarrow> call_parameters \<Rightarrow> js_error option \<times> call_parameters" where
  "addUint88Array L v c = add_typed L sel_addUint88Array (PArr (map PNum v)) True c"

definition addInt96Array ::
    "abi_lib \<Rightarrow> int list \<Rightarrow> call_parameters \<Rightarrow> js_error option \<times> call_parameters" where
  "addInt96Array L v c = add_typed L sel_addInt96Array (PArr (map PNum v)) True c"

definition addUint96Array ::
    "abi_lib \<Rightarrow> int list \<Rightarrow> call_parameters \<Rightarrow> js_error option \<times> call_parameters" where
  "addUint96Array L v c = add_typed L sel_addUint96Array (PArr (map PNum v)) True c"

definition addInt104Array ::
    "abi_lib \<Rightarrow> int list \<Rightarrow> call_parameters \<Rightarrow> js_error option \<times> call_parameters" where
  "addInt104Array L v c = add_typed L sel_addInt104Array (PArr (map PNum v)) True c"

definition addUint104Array ::
    "abi_lib \<Rightarrow> int list \<Rightarrow> call_parameters \<Rightarrow> js_error option \<times> call_parameters" where
  "addUint104Array L v c = add_typed L sel_addUint104Array (PArr (map PNum v)) True c"

definition addInt112Array ::
    "abi_lib \<Rightarrow> int list \<Rightarrow> call_parameters \<Rightarrow> js_error option \<times> call_parameters" where
  "addInt112Array L v c = add_typed L sel_addInt112Array (PArr (map PNum v)) True c"

definition addUint112Array ::
    "abi_lib \<Rightarrow> int list \<Rightarrow> call_parameters \<Rightarrow> js_error option \<times> call_parameters" where
  "addUint112Array L v c = add_typed L sel_addUint112Array (PArr (map PNum v)) True c"

definition addInt120Array ::
    "abi_lib \<Rightarrow> int list \<Rightarrow> call_parameters \<Rightarrow> js_error option \<times> call_parameters" where
  "addInt120Array L v c = add_typed L sel_addInt120Array (PArr (map PNum v)) True c"

definition addUint120Array ::
    "abi_lib \<Rightarrow> int list \<Rightarrow> call_parameters \<Rightarrow> js_error option \<times> call_parameters" where
  "addUint120Array L v c = add_typed L sel_addUint120Array (PArr (map PNum v)) True c"

definition addInt128Array ::
    "abi_lib \<Rightarrow> int list \<Rightarrow> call_parameters \<Rightarrow> js_error option \<times> call_parameters" where
  "addInt128Array L v c = add_typed L sel_addInt128Array (PArr (map PNum v)) True c"

definition addUint128Array ::
    "abi_lib \<Rightarrow> int list \<Rightarrow> call_parameters \<Rightarrow> js_error option \<times> call_parameters" where
  "addUint128Array L v c = add_typed L sel_addUint128Array (PArr (map PNum v)) True c"

definition addInt136Array ::
    "abi_lib \<Rightarrow> int list \<Rightarrow> call_parameters \<Rightarrow> js_error option \<times> call_parameters" where
  "addInt136Array L v c = add_typed L sel_addInt136Array (PArr (map PNum v)) True c"

definition addUint136Array ::
    "abi_lib \<Rightarrow> int list \<Rightarrow> call_parameters \<Rightarrow> js_error option \<times> call_parameters" where
  "addUint136Array L v c = add_typed L sel_addUint136Array (PArr (map PNum v)) True c"

definition addInt144Array ::
    "abi_lib \<Rightarrow> int list \<Rightarrow> call_parameters \<Rightarrow> js_error option \<times> call_parameters" where
  "addInt144Array L v c = add_typed L sel_addInt144Array (PArr (map PNum v)) True c"

definition addUint144Array ::
    "abi_lib \<Rightarrow> int list \<Rightarrow> call_parameters \<Rightarrow> js_error option \<times> call_parameters" where
  "addUint144Array L v c = add_typed L sel_addUint144Array (PArr (map PNum v)) True c"

definition addInt152Array ::
    "abi_lib \<Rightarrow> int list \<Rightarrow> call_parameters \<Rightarrow> js_error option \<times> call_parameters" where
  "addInt152Array L v c = add_typed L sel_addInt152Array (PArr (map PNum v)) True c"

definition addUint152Array ::
    "abi_lib \<Rightarrow> int list \<Rightarrow> call_parameters \<Rightarrow> js_error option \<times> call_parameters" where
  "addUint152Array L v c = add_typed L sel_addUint152Array (PArr (map PNum v)) True c"

definition addInt160Array ::
    "abi_lib \<Rightarrow> int list \<Rightarrow> call_parameters \<Rightarrow> js_error option \<times> call_parameters" where
  "addInt160Array L v c = add_typed L sel_addInt160Array (PArr (map PNum v)) True c"

definition addUint160Array ::
    "abi_lib \<Rightarrow> int list \<Rightarrow> call_parameters \<Rightarrow> js_error option \<times> call_parameters" where
  "addUint160Array L v c = add_typed L sel_addUint160Array (PArr (map PNum v)) True c"

definition addInt168Array ::
    "abi_lib \<Rightarrow> int list \<Rightarrow> call_parameters \<Rightarrow> js_error option \<times> call_parameters" where
  "addInt168Array L v c = add_typed L sel_addInt168Array (PArr (map PNum v)) True c"

definition addUint168Array ::
    "abi_lib \<Rightarrow> int list \<Rightarrow> call_parameters \<Rightarrow> js_error option \<times> call_parameters" where
  "addUint168Array L v c = add_typed L sel_addUint168Array (PArr (map PNum v)) True c"

definition addInt176Array ::
    "abi_lib \<Rightarrow> int list \<Rightarrow> call_parameters \<Rightarrow> js_error option \<times> call_parameters" where
  "addInt176Array L v c = add_typed L sel_addInt176Array (PArr (map PNum v)) True c"

definition addUint176Array ::
    "abi_lib \<Rightarrow> int list \<Rightarrow> call_parameters \<Rightarrow> js_error option \<times> call_parameters" where
  "addUint176Array L v c = add_typed L sel_addUint176Array (PArr (map PNum v)) True c"

definition addInt184Array ::
    "abi_lib \<Rightarrow> int list \<Rightarrow> call_parameters \<Rightarrow> js_error option \<times> call_parameters" where
  "addInt184Array L v c = add_typed L sel_addInt184Array (PArr (map PNum v)) True c"

definition addUint184Array ::
    "abi_lib \<Rightarrow> int list \<Rightarrow> call_parameters \<Rightarrow> js_error option \<times> call_parameters" where
  "addUint184Array L v c = add_typed L sel_addUint184Array (PArr (map PNum v)) True c"

definition addInt192Array ::
    "abi_lib \<Rightarrow> int list \<Rightarrow> call_parameters \<Rightarrow> js_error option \<times> call_parameters" where
  "addInt192Array L v c = add_typed L sel_addInt192Array (PArr (map PNum v)) True c"

definition addUint192Array ::
    "abi_lib \<Rightarrow> int list \<Rightarrow> call_parameters \<Rightarrow> js_error option \<times> call_parameters" where
  "addUint192Array L v c = add_typed L sel_addUint192Array (PArr (map PNum v)) True c"

definition addInt200Array ::
    "abi_lib \<Rightarrow> int list \<Rightarrow> call_parameters \<Rightarrow> js_error option \<times> call_parameters" where
  "addInt200Array L v c = add_typed L sel_addInt200Array (PArr (map PNum v)) True c"

definition addUint200Array ::
    "abi_lib \<Rightarrow> int list \<Rightarrow> call_parameters \<Rightarrow> js_error option \<times> call_parameters" where
  "addUint200Array L v c = add_typed L sel_addUint200Array (PArr (map PNum v)) True c"

definition addInt208Array ::
    "abi_lib \<Rightarrow> int list \<Rightarrow> call_parameters \<Rightarrow> js_error option \<times> call_parameters" where
  "addInt208Array L v c = add_typed L sel_addInt208Array (PArr (map PNum v)) True c"

definition addUint208Array ::
    "abi_lib \<Rightarrow> int list \<Rightarrow> call_parameters \<Rightarrow> js_error option \<times> call_parameters" where
  "addUint208Array L v c = add_typed L sel_addUint208Array (PArr (map PNum v)) True c"

definition addInt216Array ::
    "abi_lib \<Rightarrow> int list \<Rightarrow> call_parameters \<Rightarrow> js_error option \<times> call_parameters" where
  "addInt216Array L v c = add_typed L sel_addInt216Array (PArr (map PNum v)) True c"

definition addUint216Array ::
    "abi_lib \<Rightarrow> int list \<Rightarrow> call_parameters \<Rightarrow> js_error option \<times> call_parameters" where
  "addUint216Array L v c = add_typed L sel_addUint216Array (PArr (map PNum v)) True c"

definition addInt224Array ::
    "abi_lib \<Rightarrow> int list \<Rightarrow> call_parameters \<Rightarrow> js_error option \<times> call_parameters" where
  "addInt224Array L v c = add_typed L sel_addInt224Array (PArr (map PNum v)) True c"

definition addUint224Array ::
    "abi_lib \<Rightarrow> int list \<Rightarrow> call_parameters \<Rightarrow> js_error option \<times> call_parameters" where
  "addUint224Array L v c = add_typed L sel_addUint224Array (PArr (map PNum v)) True c"

definition addInt232Array ::
    "abi_lib \<Rightarrow> int list \<Rightarrow> call_parameters \<Rightarrow> js_error option \<times> call_parameters" where
  "addInt232Array L v c = add_typed L sel_addInt232Array (PArr (map PNum v)) True c"

definition addUint232Array ::
    "abi_lib \<Rightarrow> int list \<Rightarrow> call_parameters \<Rightarrow> js_error option \<times> call_parameters" where
  "addUint232Array L v c = add_typed L sel_addUint232Array (PArr (map PNum v)) True c"

definition addInt240Array ::
    "abi_lib \<Rightarrow> int list \<Rightarrow> call_parameters \<Rightarrow> js_error option \<times> call_parameters" where
  "addInt240Array L v c = add_typed L sel_addInt240Array (PArr (map PNum v)) True c"

definition addUint240Array ::
    "abi_lib \<Rightarrow> int list \<Rightarrow> call_parameters \<Rightarrow> js_error option \<times> call_parameters" where
  "addUint240Array L v c = add_typed L sel_addUint240Array (PArr (map PNum v)) True c"

definition addInt248Array ::
    "abi_lib \<Rightarrow> int list \<Rightarrow> call_parameters \<Rightarrow> js_error option \<times> call_parameters" where
  "addInt248Array L v c = add_typed L sel_addInt248Array (PArr (map PNum v)) True c"

definition addUint248Array ::
    "abi_lib \<Rightarrow> int list \<Rightarrow> call_parameters \<Rightarrow> js_error option \<times> call_parameters" where
  "addUint248Array L v c = add_typed L sel_addUint248Array (PArr (map PNum v)) True c"

definition addInt256Array ::
    "abi_lib \<Rightarrow> int list \<Rightarrow> call_parameters \<Rightarrow> js_error option \<times> call_parameters" where
  "addInt256Array L v c = add_typed L sel_addInt256Array (PArr (map PNum v)) True c"

definition addUint256Array ::
    "abi_lib \<Rightarrow> int list \<Rightarrow> call_parameters \<Rightarrow> js_error option \<times> call_parameters" where
  "addUint256Array L v c = add_typed L sel_addUint256Array (PArr (map PNum v)) True c"

end
