(* ===== verification/AbiResult.thy ===== *)
theory AbiResult
  imports AbiParams
begin

text \<open>
  Reading the values a contract returned: the getters of \<open>src/contract/ContractFunctionResult.js\<close> over
  the bytes of the result. A getter takes the index of a value, 0 when there is none. \<open>None\<close> is
  \<open>undefined\<close> for a byte and \<open>NaN\<close> for a number.
\<close>

section \<open>Views\<close>

definition slot :: "nat option \<Rightarrow> nat" where
  "slot index = (case index of None \<Rightarrow> 0 | Some i \<Rightarrow> i) * 32"

text \<open>\<open>subarray\<close> counts negative positions from the end.\<close>

definition subarray :: "int \<Rightarrow> int \<Rightarrow> byte list \<Rightarrow> byte list" where
  "subarray a b v =
     (let len = int (length v);
          pos = (\<lambda>k. if k < 0 then max (len + k) 0 else min k len)
      in take (nat (pos b - pos a)) (drop (nat (pos a)) v))"

definition view_range :: "int \<Rightarrow> nat \<Rightarrow> byte list \<Rightarrow> byte list result" where
  "view_range pos n v =
     (if 0 \<le> pos \<and> pos + int n \<le> int (length v) then Inr (slice (nat pos) (nat pos + n) v)
      else Inl (RangeError ''Offset is outside the bounds of the DataView''))"

definition view_uint32 :: "int \<Rightarrow> byte list \<Rightarrow> int result" where
  "view_uint32 pos v = res_bind (view_range pos 4 v) (\<lambda>bs. Inr (int (bytes_value bs)))"

definition view_int32 :: "int \<Rightarrow> byte list \<Rightarrow> int result" where
  "view_int32 pos v = res_bind (view_range pos 4 v) (\<lambda>bs. Inr (sint (of_nat (bytes_value bs) :: 32 word)))"

section \<open>The getters\<close>

definition get_slot :: "nat option \<Rightarrow> byte list \<Rightarrow> byte list" where
  "get_slot index r = subarray (int (slot index)) (int (slot index) + 32) r"

definition getBytes32 :: "nat option \<Rightarrow> byte list \<Rightarrow> byte list" where
  "getBytes32 index r = subarray (int (slot index)) (int (slot index) + 32) r"

definition getBool :: "nat option \<Rightarrow> byte list \<Rightarrow> bool" where
  "getBool index r = (if slot index + 31 < length r then r ! (slot index + 31) \<noteq> 0 else True)"

definition getInt8 :: "nat option \<Rightarrow> byte list \<Rightarrow> int result" where
  "getInt8 index r = res_bind (view_range (int (slot index) + 31) 1 r) (\<lambda>bs. Inr (sint (hd bs)))"

definition getUint8 :: "nat option \<Rightarrow> byte list \<Rightarrow> nat option" where
  "getUint8 index r = (if slot index + 31 < length r then Some (unat (r ! (slot index + 31))) else None)"

definition getInt16 :: "nat option \<Rightarrow> byte list \<Rightarrow> int result" where
  "getInt16 index r = view_int32 (int (slot index) + 28) r"

definition getUint16 :: "nat option \<Rightarrow> byte list \<Rightarrow> int result" where
  "getUint16 index r = view_uint32 (int (slot index) + 28) r"

definition getInt24 :: "nat option \<Rightarrow> byte list \<Rightarrow> int result" where
  "getInt24 index r = view_int32 (int (slot index) + 28) r"

definition getUint24 :: "nat option \<Rightarrow> byte list \<Rightarrow> int result" where
  "getUint24 index r = view_uint32 (int (slot index) + 28) r"

definition getInt32 :: "nat option \<Rightarrow> byte list \<Rightarrow> int result" where
  "getInt32 index r = view_int32 (int (slot index) + 28) r"

definition getUint32_at :: "nat option \<Rightarrow> byte list \<Rightarrow> int result" where
  "getUint32_at index r = view_uint32 (int (slot index) + 28) r"

definition getBytes :: "nat option \<Rightarrow> byte list \<Rightarrow> byte list result" where
  "getBytes index r =
     res_bind (getInt32 index r) (\<lambda>offset.
     res_bind (view_int32 (offset + 28) r) (\<lambda>len.
       Inr (subarray (offset + 32) (offset + 32 + len) r)))"

definition getString :: "nat option \<Rightarrow> byte list \<Rightarrow> text_points result" where
  "getString index r = res_bind (getBytes index r) (\<lambda>bs. Inr (utf8_decode bs))"

definition getAddress :: "nat option \<Rightarrow> byte list \<Rightarrow> string" where
  "getAddress index r = hex_encode (subarray (int (slot index) + 12) (int (slot index) + 32) r)"

text \<open>The wider integers go through the packages; the text of a decoded result is its decimal digits.\<close>

definition decoded_int :: "abi_lib \<Rightarrow> string \<Rightarrow> nat option \<Rightarrow> byte list \<Rightarrow> int option result" where
  "decoded_int L t index r =
     res_bind (abi_decode L [t] (get_slot (Some (case index of None \<Rightarrow> 0 | Some i \<Rightarrow> i)) r))
       (\<lambda>result. Inr (bigNumber L result 10))"

definition hex_uint :: "abi_lib \<Rightarrow> nat \<Rightarrow> nat option \<Rightarrow> byte list \<Rightarrow> int option" where
  "hex_uint L from_byte index r = bigNumber L (hex_encode (subarray (int from_byte) 32 (get_slot index r))) 16"

definition getUint256 :: "abi_lib \<Rightarrow> nat option \<Rightarrow> byte list \<Rightarrow> int option" where
  "getUint256 L index r = bigNumber L (hex_encode (get_slot index r)) 16"

definition getInt40 :: "abi_lib \<Rightarrow> nat option \<Rightarrow> byte list \<Rightarrow> int option result" where
  "getInt40 L index r = decoded_int L ''int40'' index r"

definition getUint40 :: "abi_lib \<Rightarrow> nat option \<Rightarrow> byte list \<Rightarrow> int option" where
  "getUint40 L index r = hex_uint L 27 index r"

definition getInt48 :: "abi_lib \<Rightarrow> nat option \<Rightarrow> byte list \<Rightarrow> int option result" where
  "getInt48 L index r = decoded_int L ''int48'' index r"

definition getUint48 :: "abi_lib \<Rightarrow> nat option \<Rightarrow> byte list \<Rightarrow> int option" where
  "getUint48 L index r = hex_uint L 26 index r"

definition getInt56 :: "abi_lib \<Rightarrow> nat option \<Rightarrow> byte list \<Rightarrow> int option result" where
  "getInt56 L index r = decoded_int L ''int56'' index r"

definition getUint56 :: "abi_lib \<Rightarrow> nat option \<Rightarrow> byte list \<Rightarrow> int option" where
  "getUint56 L index r = hex_uint L 25 index r"

definition getInt64 :: "abi_lib \<Rightarrow> nat option \<Rightarrow> byte list \<Rightarrow> int option result" where
  "getInt64 L index r = decoded_int L ''int64'' index r"

definition getUint64 :: "abi_lib \<Rightarrow> nat option \<Rightarrow> byte list \<Rightarrow> int option" where
  "getUint64 L index r = hex_uint L 24 index r"

definition getInt72 :: "abi_lib \<Rightarrow> nat option \<Rightarrow> byte list \<Rightarrow> int option result" where
  "getInt72 L index r = decoded_int L ''int72'' index r"

definition getUint72 :: "abi_lib \<Rightarrow> nat option \<Rightarrow> byte list \<Rightarrow> int option" where
  "getUint72 L index r = hex_uint L 23 index r"

definition getInt80 :: "abi_lib \<Rightarrow> nat option \<Rightarrow> byte list \<Rightarrow> int option result" where
  "getInt80 L index r = decoded_int L ''int80'' index r"

definition getUint80 :: "abi_lib \<Rightarrow> nat option \<Rightarrow> byte list \<Rightarrow> int option" where
  "getUint80 L index r = hex_uint L 22 index r"

definition getInt88 :: "abi_lib \<Rightarrow> nat option \<Rightarrow> byte list \<Rightarrow> int option result" where
  "getInt88 L index r = decoded_int L ''int88'' index r"

definition getUint88 :: "abi_lib \<Rightarrow> nat option \<Rightarrow> byte list \<Rightarrow> int option" where
  "getUint88 L index r = hex_uint L 21 index r"

definition getInt96 :: "abi_lib \<Rightarrow> nat option \<Rightarrow> byte list \<Rightarrow> int option result" where
  "getInt96 L index r = decoded_int L ''int96'' index r"

definition getUint96 :: "abi_lib \<Rightarrow> nat option \<Rightarrow> byte list \<Rightarrow> int option" where
  "getUint96 L index r = hex_uint L 20 index r"

definition getInt104 :: "abi_lib \<Rightarrow> nat option \<Rightarrow> byte list \<Rightarrow> int option result" where
  "getInt104 L index r = decoded_int L ''int104'' index r"

definition getUint104 :: "abi_lib \<Rightarrow> nat option \<Rightarrow> byte list \<Rightarrow> int option" where
  "getUint104 L index r = hex_uint L 19 index r"

definition getInt112 :: "abi_lib \<Rightarrow> nat option \<Rightarrow> byte list \<Rightarrow> int option result" where
  "getInt112 L index r = decoded_int L ''int112'' index r"

definition getUint112 :: "abi_lib \<Rightarrow> nat option \<Rightarrow> byte list \<Rightarrow> int option" where
  "getUint112 L index r = hex_uint L 18 index r"

definition getInt120 :: "abi_lib \<Rightarrow> nat option \<Rightarrow> byte list \<Rightarrow> int option result" where
  "getInt120 L index r = decoded_int L ''int120'' index r"

definition getUint120 :: "abi_lib \<Rightarrow> nat option \<Rightarrow> byte list \<Rightarrow> int option" where
  "getUint120 L index r = hex_uint L 17 index r"

definition getInt128 :: "abi_lib \<Rightarrow> nat option \<Rightarrow> byte list \<Rightarrow> int option result" where
  "getInt128 L index r = decoded_int L ''int128'' index r"

definition getUint128 :: "abi_lib \<Rightarrow> nat option \<Rightarrow> byte list \<Rightarrow> int option" where
  "getUint128 L index r = hex_uint L 16 index r"

definition getInt136 :: "abi_lib \<Rightarrow> nat option \<Rightarrow> byte list \<Rightarrow> int option result" where
  "getInt136 L index r = decoded_int L ''int136'' index r"

definition getUint136 :: "abi_lib \<Rightarrow> nat option \<Rightarrow> byte list \<Rightarrow> int option" where
  "getUint136 L index r = hex_uint L 15 index r"

definition getInt144 :: "abi_lib \<Rightarrow> nat option \<Rightarrow> byte list \<Rightarrow> int option result" where
  "getInt144 L index r = decoded_int L ''int144'' index r"

definition getUint144 :: "abi_lib \<Rightarrow> nat option \<Rightarrow> byte list \<Rightarrow> int option" where
  "getUint144 L index r = hex_uint L 14 index r"

definition getInt152 :: "abi_lib \<Rightarrow> nat option \<Rightarrow> byte list \<Rightarrow> int option result" where
  "getInt152 L index r = decoded_int L ''int152'' index r"

definition getUint152 :: "abi_lib \<Rightarrow> nat option \<Rightarrow> byte list \<Rightarrow> int option" where
  "getUint152 L index r = hex_uint L 13 index r"

definition getInt160 :: "abi_lib \<Rightarrow> nat option \<Rightarrow> byte list \<Rightarrow> int option result" where
  "getInt160 L index r = decoded_int L ''int160'' index r"

definition getUint160 :: "abi_lib \<Rightarrow> nat option \<Rightarrow> byte list \<Rightarrow> int option" where
  "getUint160 L index r = hex_uint L 12 index r"

definition getInt168 :: "abi_lib \<Rightarrow> nat option \<Rightarrow> byte list \<Rightarrow> int option result" where
  "getInt168 L index r = decoded_int L ''int168'' index r"

definition getUint168 :: "abi_lib \<Rightarrow> nat option \<Rightarrow> byte list \<Rightarrow> int option" where
  "getUint168 L index r = hex_uint L 11 index r"

definition getInt176 :: "abi_lib \<Rightarrow> nat option \<Rightarrow> byte list \<Rightarrow> int option result" where
  "getInt176 L index r = decoded_int L ''int176'' index r"

definition getUint176 :: "abi_lib \<Rightarrow> nat option \<Rightarrow> byte list \<Rightarrow> int option" where
  "getUint176 L index r = hex_uint L 10 index r"

definition getInt184 :: "abi_lib \<Rightarrow> nat option \<Rightarrow> byte list \<Rightarrow> int option result" where
  "getInt184 L index r = decoded_int L ''int184'' index r"

definition getUint184 :: "abi_lib \<Rightarrow> nat option \<Rightarrow> byte list \<Rightarrow> int option" where
  "getUint184 L index r = hex_uint L 9 index r"

definition getInt192 :: "abi_lib \<Rightarrow> nat option \<Rightarrow> byte list \<Rightarrow> int option result" where
  "getInt192 L index r = decoded_int L ''int192'' index r"

definition getUint192 :: "abi_lib \<Rightarrow> nat option \<Rightarrow> byte list \<Rightarrow> int option" where
  "getUint192 L index r = hex_uint L 8 index r"

definition getInt200 :: "abi_lib \<Rightarrow> nat option \<Rightarrow> byte list \<Rightarrow> int option result" where
  "getInt200 L index r = decoded_int L ''int200'' index r"

definition getUint200 :: "abi_lib \<Rightarrow> nat option \<Rightarrow> byte list \<Rightarrow> int option" where
  "getUint200 L index r = hex_uint L 7 index r"

definition getInt208 :: "abi_lib \<Rightarrow> nat option \<Rightarrow> byte list \<Rightarrow> int option result" where
  "getInt208 L index r = decoded_int L ''int208'' index r"

definition getUint208 :: "abi_lib \<Rightarrow> nat option \<Rightarrow> byte list \<Rightarrow> int option" where
  "getUint208 L index r = hex_uint L 6 index r"

definition getInt216 :: "abi_lib \<Rightarrow> nat option \<Rightarrow> byte list \<Rightarrow> int option result" where
  "getInt216 L index r = decoded_int L ''int216'' index r"

definition getUint216 :: "abi_lib \<Rightarrow> nat option \<Rightarrow> byte list \<Rightarrow> int option" where
  "getUint216 L index r = hex_uint L 5 index r"

definition getInt224 :: "abi_lib \<Rightarrow> nat option \<Rightarrow> byte list \<Rightarrow> int option result" where
  "getInt224 L index r = decoded_int L ''int224'' index r"

definition getUint224 :: "abi_lib \<Rightarrow> nat option \<Rightarrow> byte list \<Rightarrow> int option" where
  "getUint224 L index r = hex_uint L 4 index r"

definition getInt232 :: "abi_lib \<Rightarrow> nat option \<Rightarrow> byte list \<Rightarrow> int option result" where
  "getInt232 L index r = decoded_int L ''int232'' index r"

definition getUint232 :: "abi_lib \<Rightarrow> nat option \<Rightarrow> byte list \<Rightarrow> int option" where
  "getUint232 L index r = hex_uint L 3 index r"

definition getInt240 :: "abi_lib \<Rightarrow> nat option \<Rightarrow> byte list \<Rightarrow> int option result" where
  "getInt240 L index r = decoded_int L ''int240'' index r"

definition getUint240 :: "abi_lib \<Rightarrow> nat option \<Rightarrow> byte list \<Rightarrow> int option" where
  "getUint240 L index r = hex_uint L 2 index r"

definition getInt248 :: "abi_lib \<Rightarrow> nat option \<Rightarrow> byte list \<Rightarrow> int option result" where
  "getInt248 L index r = decoded_int L ''int248'' index r"

definition getUint248 :: "abi_lib \<Rightarrow> nat option \<Rightarrow> byte list \<Rightarrow> int option" where
  "getUint248 L index r = hex_uint L 1 index r"

definition getInt256 :: "abi_lib \<Rightarrow> nat option \<Rightarrow> byte list \<Rightarrow> int option result" where
  "getInt256 L index r = decoded_int L ''int256'' index r"

end
