(* ===== verification/AbiLaws.thy ===== *)
theory AbiLaws
  imports AbiResult
begin

text \<open>
  The layout of the arguments against the encoding the Solidity ABI specification describes, what the
  packages promise, and reading back what was built.
\<close>

section \<open>The encoding of the specification\<close>

definition int_bytes :: "int \<Rightarrow> byte list" where
  "int_bytes n = map (\<lambda>k. word_of_int (n div 2 ^ (8 * k))) (rev [0..<32])"

definition sized_spec :: "byte list \<Rightarrow> byte list" where
  "sized_spec b = int_bytes (int (length b)) @ b @ replicate ((32 - length b mod 32) mod 32) 0"

fun enc_scalar :: "argument_type \<Rightarrow> param \<Rightarrow> byte list" where
  "enc_scalar AddressT (PBytes b) = replicate 12 0 @ b"
| "enc_scalar BoolT (PBool b) = int_bytes (if b then 1 else 0)"
| "enc_scalar Bytes32T (PBytes b) = b"
| "enc_scalar BytesT (PBytes b) = sized_spec b"
| "enc_scalar StringT (PText t) = sized_spec (utf8_encode t)"
| "enc_scalar _ (PNum n) = int_bytes n"
| "enc_scalar _ _ = []"

text \<open>A tuple: the heads, an offset for a dynamic element, and the tails.\<close>

fun enc_heads :: "nat \<Rightarrow> (bool \<times> byte list) list \<Rightarrow> byte list" where
  "enc_heads off [] = []"
| "enc_heads off ((d, v) # es) =
     (if d then int_bytes (int off) @ enc_heads (off + length v) es else v @ enc_heads off es)"

definition enc_tuple :: "(bool \<times> byte list) list \<Rightarrow> byte list" where
  "enc_tuple es = enc_heads (32 * length es) es @ concat (map snd (filter fst es))"

definition enc_value :: "solidity_type \<Rightarrow> param \<Rightarrow> bool \<times> byte list" where
  "enc_value t p =
     (if is_array t
      then (True, case p of
                    PArr ps \<Rightarrow> int_bytes (int (length ps)) @
                                enc_tuple (map (\<lambda>q. (variable_length (ty t), enc_scalar (ty t) q)) ps)
                  | _ \<Rightarrow> [])
      else (variable_length (ty t), enc_scalar (ty t) p))"

section \<open>Bytes of numbers\<close>

lemma length_int_bytes [simp]: "length (int_bytes n) = 32"
  by (simp add: int_bytes_def)

lemma length_u32_bytes [simp]: "length (u32_bytes n) = 4"
  by (simp add: u32_bytes_def)

lemma rev_upt_32: "rev [0..<32] = rev [4..<32] @ [3, 2, 1, 0 :: nat]"
  by (simp add: upt_rec)

lemma int_bytes_small: "n < 2 ^ 32 \<Longrightarrow> int_bytes (int n) = replicate 28 0 @ u32_bytes n"
proof -
  assume n: "n < 2 ^ 32"
  have w: "word_of_int (int n div 2 ^ (8 * k)) = (of_nat (n div 2 ^ (8 * k)) :: byte)" for k
  proof -
    have "int n div 2 ^ (8 * k) = int (n div 2 ^ (8 * k))" by (simp add: zdiv_int)
    then show ?thesis by (simp only: of_int_of_nat_eq)
  qed
  have "word_of_int (int n div 2 ^ (8 * k)) = (0 :: byte)" if "4 \<le> k" for k :: nat
  proof -
    have "(2 :: nat) ^ 32 \<le> 2 ^ (8 * k)" using that by (intro power_increasing) auto
    then have "n div 2 ^ (8 * k) = 0" using n by (metis div_less order_less_le_trans)
    then show ?thesis unfolding w by simp
  qed
  then have "map (\<lambda>k. word_of_int (int n div 2 ^ (8 * k)) :: byte) (rev [4..<32]) = map (\<lambda>k. 0) (rev [4..<32 :: nat])"
    by (intro map_cong[OF refl]) (simp only: set_rev set_upt atLeastLessThan_iff)
  then have z: "map (\<lambda>k. word_of_int (int n div 2 ^ (8 * k)) :: byte) (rev [4..<32]) = replicate 28 0"
    by (simp only: map_replicate_const length_rev length_upt) simp
  show ?thesis
    unfolding int_bytes_def rev_upt_32 map_append z by (simp add: u32_bytes_def w)
qed

lemma bytes_value_snoc: "bytes_value (bs @ [b]) = 256 * bytes_value bs + unat b"
  by (simp add: bytes_value_def)

lemma bytes_value_u32: "bytes_value (u32_bytes n) = n mod 2 ^ 32"
proof -
  define a b c where "a = n div 256" and "b = a div 256" and "c = b div 256"
  have d: "n div 2 ^ 8 = a" "n div 2 ^ 16 = b" "n div 2 ^ 24 = c"
    using div_mult2_eq[of n 256 256] div_mult2_eq[of n 65536 256] by (simp_all add: a_def b_def c_def)
  have e1: "n mod 4294967296 = 256 * (a mod 16777216) + n mod 256"
    using mod_mult2_eq[of n 256 16777216] by (simp add: a_def)
  have e2: "a mod 16777216 = 256 * (b mod 65536) + a mod 256"
    using mod_mult2_eq[of a 256 65536] by (simp add: b_def)
  have e3: "b mod 65536 = 256 * (c mod 256) + b mod 256"
    using mod_mult2_eq[of b 256 256] by (simp add: c_def)
  have "n mod 4294967296 = 256 * (256 * (256 * (c mod 256) + b mod 256) + a mod 256) + n mod 256"
    unfolding e1 e2 e3 by (rule refl)
  moreover have "bytes_value (u32_bytes n) = 256 * (256 * (256 * (c mod 256) + b mod 256) + a mod 256) + n mod 256"
    using d by (simp add: bytes_value_def u32_bytes_def unat_of_nat)
  ultimately show ?thesis by simp
qed

section \<open>Writing in place\<close>

lemma typed_set_middle:
  "length P = off \<Longrightarrow> length Q = length src \<Longrightarrow> typed_set src off (P @ Q @ R) = Inr (P @ src @ R)"
  by (simp add: typed_set_def)

lemma setUint32_slot:
  "length P = pos \<Longrightarrow> setUint32 (pos + 28) n (P @ replicate 32 0 @ R) = Inr (P @ (replicate 28 0 @ u32_bytes n) @ R)"
proof -
  assume P: "length P = pos"
  have "P @ replicate 32 0 @ R = (P @ replicate 28 0) @ replicate 4 0 @ R"
    by (simp add: replicate_add[of 28 4, simplified, symmetric])
  then show ?thesis
    unfolding setUint32_def using P typed_set_middle[of "P @ replicate 28 0" "pos + 28" "replicate 4 0" "u32_bytes n" R]
    by simp
qed

lemma getUint32_slot:
  "length P = pos \<Longrightarrow> n < 2 ^ 32 \<Longrightarrow> getUint32 (pos + 28) (P @ (replicate 28 0 @ u32_bytes n) @ R) = Inr n"
  by (simp add: getUint32_def Prelude.slice_def bytes_value_u32)

section \<open>The layout\<close>

definition spec_argument :: "abi_argument \<Rightarrow> bool \<times> byte list" where
  "spec_argument a = (dynamic a, arg_value a)"

definition static_ok :: "abi_argument list \<Rightarrow> bool" where
  "static_ok as \<longleftrightarrow> list_all (\<lambda>a. dynamic a \<or> length (arg_value a) = 32) as"

definition tails :: "abi_argument list \<Rightarrow> byte list" where
  "tails as = concat (map arg_value (filter dynamic as))"

definition heads :: "nat \<Rightarrow> abi_argument list \<Rightarrow> byte list" where
  "heads off as = enc_heads off (map spec_argument as)"

lemma heads_simps [simp]:
  "heads off [] = []"
  "heads off (a # as) =
     (if dynamic a then int_bytes (int off) @ heads (off + length (arg_value a)) as
      else arg_value a @ heads off as)"
  by (simp_all add: heads_def spec_argument_def)

lemma tails_simps [simp]:
  "tails [] = []"
  "tails (a # as) = (if dynamic a then arg_value a @ tails as else tails as)"
  by (simp_all add: tails_def)

lemma length_heads: "static_ok as \<Longrightarrow> length (heads off as) = 32 * length as"
  by (induction as arbitrary: off) (auto simp: static_ok_def)

lemma enc_tuple_arguments: "enc_tuple (map spec_argument as) = heads (32 * length as) as @ tails as"
  by (simp add: enc_tuple_def heads_def tails_def spec_argument_def filter_map comp_def)

text \<open>
  After some arguments the buffer holds the head \<open>H\<close> of each, room for the heads to come, the tails
  \<open>T\<close> so far and room for the tails to come.
\<close>

lemma lay_out_spec:
  assumes "static_ok as" and "length P = no" and "length H = 32 * i"
    and "off = 32 * (i + length as) + length T" and "off + length (tails as) < 2 ^ 32"
  shows "lay_out no i off as (P @ H @ replicate (32 * length as) 0 @ T @ replicate (length (tails as)) 0) =
         Inr (P @ H @ heads off as @ T @ tails as)"
  using assms
proof (induction as arbitrary: i off H T)
  case Nil
  then show ?case by simp
next
  case (Cons a as)
  let ?m = "32 * length as"
  have room: "replicate (32 * length (a # as)) (0 :: byte) = replicate 32 0 @ replicate ?m 0"
    by (simp add: replicate_add)
  have ok: "static_ok as" using Cons.prems(1) by (simp add: static_ok_def)
  show ?case
  proof (cases "dynamic a")
    case True
    let ?v = "arg_value a"
    let ?h = "replicate 28 0 @ u32_bytes off"
    have off: "off < 2 ^ 32" using Cons.prems(5) by simp
    have h: "int_bytes (int off) = ?h" using int_bytes_small[OF off] .
    have PH: "length (P @ H) = no + i * 32" using Cons.prems(2,3) by simp
    let ?R = "replicate ?m 0 @ T @ replicate (length (tails (a # as))) 0"
    have set: "setUint32 (no + i * 32 + 28) off ((P @ H) @ replicate 32 0 @ ?R) = Inr ((P @ H) @ ?h @ ?R)"
      by (rule setUint32_slot[OF PH])
    have get: "getUint32 (no + i * 32 + 28) ((P @ H) @ ?h @ ?R) = Inr off"
      by (rule getUint32_slot[OF PH off])
    have split: "(P @ H) @ ?h @ ?R = (P @ H @ ?h @ replicate ?m 0 @ T) @ replicate (length ?v) 0 @ replicate (length (tails as)) 0"
      using True by (simp add: replicate_add)
    have put: "typed_set ?v (off + no) ((P @ H) @ ?h @ ?R) =
        Inr ((P @ H @ ?h @ replicate ?m 0 @ T) @ ?v @ replicate (length (tails as)) 0)"
      unfolding split using Cons.prems by (intro typed_set_middle) simp_all
    have "lay_out no (Suc i) (off + length ?v) as
        (P @ (H @ ?h) @ replicate ?m 0 @ (T @ ?v) @ replicate (length (tails as)) 0) =
        Inr (P @ (H @ ?h) @ heads (off + length ?v) as @ (T @ ?v) @ tails as)"
      using ok Cons.prems True by (intro Cons.IH) simp_all
    then have "lay_out no i off (a # as) ((P @ H) @ replicate 32 0 @ ?R) =
        Inr (P @ (H @ ?h) @ heads (off + length ?v) as @ (T @ ?v) @ tails as)"
      unfolding lay_out.simps set res_bind_simps get put using True by simp
    then show ?thesis using True unfolding room by (simp add: h)
  next
    case False
    let ?v = "arg_value a"
    have v: "length ?v = 32" using Cons.prems(1) False by (simp add: static_ok_def)
    have put: "typed_set ?v (no + i * 32) ((P @ H) @ replicate 32 0 @ replicate ?m 0 @ T @ replicate (length (tails as)) 0) =
        Inr ((P @ H) @ ?v @ replicate ?m 0 @ T @ replicate (length (tails as)) 0)"
      using Cons.prems(2,3) v by (intro typed_set_middle) simp_all
    have "lay_out no (Suc i) off as (P @ (H @ ?v) @ replicate ?m 0 @ T @ replicate (length (tails as)) 0) =
        Inr (P @ (H @ ?v) @ heads off as @ T @ tails as)"
      using ok Cons.prems False v by (intro Cons.IH) simp_all
    then have "lay_out no i off (a # as) ((P @ H) @ replicate 32 0 @ replicate ?m 0 @ T @ replicate (length (tails as)) 0) =
        Inr (P @ (H @ ?v) @ heads off as @ T @ tails as)"
      unfolding lay_out.simps put res_bind_simps using False by simp
    then show ?thesis using False unfolding room by simp
  qed
qed

lemma lay_out_fresh:
  assumes "static_ok as" and "length P = no" and "32 * length as + length (tails as) < 2 ^ 32"
  shows "lay_out no 0 (32 * length as) as (P @ replicate (32 * length as + length (tails as)) 0) =
         Inr (P @ enc_tuple (map spec_argument as))"
  using lay_out_spec[of as P no "[]" 0 "32 * length as" "[]"] assms
  by (simp add: enc_tuple_arguments replicate_add)

section \<open>What the packages promise\<close>

fun in_range :: "argument_type \<Rightarrow> int \<Rightarrow> bool" where
  "in_range (UintT w) n \<longleftrightarrow> 0 \<le> n \<and> n < 2 ^ w"
| "in_range (IntT w) n \<longleftrightarrow> - (2 ^ (w - 1)) \<le> n \<and> n < 2 ^ (w - 1)"
| "in_range _ n \<longleftrightarrow> False"

fun integer_type :: "argument_type \<Rightarrow> bool" where
  "integer_type (UintT w) = int_width w"
| "integer_type (IntT w) = int_width w"
| "integer_type _ = False"

fun show_hex :: "nat \<Rightarrow> string" where
  "show_hex n = (if n < 16 then [hex_digit n] else show_hex (n div 16) @ [hex_digit (n mod 16)])"

declare show_hex.simps [simp del]

text \<open>
  The text in base 16, the encoding of integers in range and the error for the others, the decoding of a
  signed integer to decimal text, and reading such texts.
\<close>

definition signed_hex :: "int \<Rightarrow> string" where
  "signed_hex n = (if n < 0 then ''-0x'' @ show_hex (nat (- n)) else ''0x'' @ show_hex (nat n))"

definition abi_ok :: "abi_lib \<Rightarrow> bool" where
  "abi_ok L \<longleftrightarrow>
     (\<forall>n. toString16 L n = (if n < 0 then ''-'' @ show_hex (nat (- n)) else show_hex (nat n))) \<and>
     (\<forall>t n. integer_type t \<and> in_range t n \<longrightarrow>
        (\<exists>h. abi_encode L [argument_type_name t] [signed_hex n] = Inr h \<and> arrayify L h = int_bytes n)) \<and>
     (\<forall>t n. integer_type t \<and> \<not> in_range t n \<longrightarrow>
        (\<exists>e. abi_encode L [argument_type_name t] [signed_hex n] = Inl e)) \<and>
     (\<forall>w n. int_width w \<and> in_range (IntT w) n \<longrightarrow>
        abi_decode L [''int'' @ show_nat w] (int_bytes n) = Inr (show_int n)) \<and>
     (\<forall>n. bigNumber L (show_int n) 10 = Some n) \<and>
     (\<forall>bs. bs \<noteq> [] \<longrightarrow> bigNumber L (hex_encode bs) 16 = Some (int (bytes_value bs)))"

section \<open>Scalars\<close>

fun value_ok :: "argument_type \<Rightarrow> param \<Rightarrow> bool" where
  "value_ok AddressT (PBytes b) \<longleftrightarrow> length b = 20"
| "value_ok BoolT (PBool b) \<longleftrightarrow> True"
| "value_ok Bytes32T (PBytes b) \<longleftrightarrow> length b = 32"
| "value_ok BytesT (PBytes b) \<longleftrightarrow> True"
| "value_ok StringT (PText t) \<longleftrightarrow> True"
| "value_ok t (PNum n) \<longleftrightarrow> integer_type t \<and> in_range t n"
| "value_ok _ _ \<longleftrightarrow> False"

lemma number_hex_signed: "abi_ok L \<Longrightarrow> number_hex L n = signed_hex n"
  by (auto simp: abi_ok_def number_hex_def signed_hex_def Let_def)

lemma number_bytes_ok:
  assumes "abi_ok L" and "integer_type t"
  shows "in_range t n \<Longrightarrow> number_bytes L t (PNum n) = Inr (int_bytes n)"
    and "\<not> in_range t n \<Longrightarrow> \<exists>e. number_bytes L t (PNum n) = Inl e"
proof -
  have enc: "\<And>n. in_range t n \<Longrightarrow> \<exists>h. abi_encode L [argument_type_name t] [signed_hex n] = Inr h \<and> arrayify L h = int_bytes n"
    and bad: "\<And>n. \<not> in_range t n \<Longrightarrow> \<exists>e. abi_encode L [argument_type_name t] [signed_hex n] = Inl e"
    using assms unfolding abi_ok_def by blast+
  show "in_range t n \<Longrightarrow> number_bytes L t (PNum n) = Inr (int_bytes n)"
    using enc[of n] by (auto simp: number_bytes_def solidityTypeToString_def number_hex_signed[OF assms(1)])
  show "\<not> in_range t n \<Longrightarrow> \<exists>e. number_bytes L t (PNum n) = Inl e"
    using bad[of n] by (auto simp: number_bytes_def solidityTypeToString_def number_hex_signed[OF assms(1)])
qed

lemma scalar_bytes_integer: "integer_type t \<Longrightarrow> scalar_bytes L p t = number_bytes L t p"
  by (cases t) auto

lemma sized_bytes_spec:
  assumes "length b < 2 ^ 32"
  shows "sized_bytes b = Inr (sized_spec b)"
proof -
  let ?pad = "(32 - length b mod 32) mod 32"
  have n: "(if length b mod 32 \<noteq> 0 then (length b div 32 + 1) * 32 + 32 else length b div 32 * 32 + 32) =
      32 + length b + ?pad"
  proof -
    define q r where "q = length b div 32" and "r = length b mod 32"
    have "length b = 32 * q + r" "r < 32" by (simp_all add: q_def r_def)
    then show ?thesis unfolding q_def[symmetric] r_def[symmetric] by (cases "r = 0") simp_all
  qed
  have buf: "(if length b mod 32 \<noteq> 0 then replicate ((length b div 32 + 1) * 32 + 32) 0
        else replicate (length b div 32 * 32 + 32) 0) = replicate 32 0 @ replicate (length b) 0 @ replicate ?pad (0 :: byte)"
    by (simp only: n[symmetric] replicate_add[symmetric] add.assoc[symmetric]) simp
  have "typed_set b 32 (replicate 32 0 @ replicate (length b) 0 @ replicate ?pad 0) =
      Inr (replicate 32 0 @ b @ replicate ?pad 0)"
    by (rule typed_set_middle) simp_all
  moreover have "setUint32 28 (length b) (replicate 32 0 @ b @ replicate ?pad 0) = Inr (sized_spec b)"
    using setUint32_slot[of "[]" 0 "length b" "b @ replicate ?pad 0"]
    by (simp add: sized_spec_def int_bytes_small[OF assms])
  ultimately show ?thesis
    unfolding sized_bytes_def buf Let_def by simp
qed

lemma int_bytes_bool: "int_bytes (if b then 1 else 0) = replicate 31 0 @ [if b then 1 else 0]"
proof -
  have z: "replicate 28 0 @ [0, 0, 0, x] = replicate 31 0 @ [x]" for x :: byte
    using replicate_add[of 28 3 "0 :: byte"] by (simp add: eval_nat_numeral)
  have "u32_bytes 0 = [0, 0, 0, 0]" "u32_bytes 1 = [0, 0, 0, 1]" by (simp_all add: u32_bytes_def)
  then show ?thesis
    using int_bytes_small[of 0] int_bytes_small[of 1] z[of 0] z[of 1] by simp
qed

lemma scalar_bytes_spec:
  assumes "abi_ok L" and "value_ok t p" and "length (enc_scalar t p) < 2 ^ 32"
  shows "scalar_bytes L p t = Inr (enc_scalar t p)"
proof -
  have sized: "length b < 2 ^ 32" if "length (sized_spec b) < 2 ^ 32" for b
    using that by (simp add: sized_spec_def)
  have pad: "typed_set b (32 - length b) (replicate 32 0) = Inr (replicate (32 - length b) 0 @ b)" if "length b \<le> 32" for b
    using typed_set_middle[of "replicate (32 - length b) 0" "32 - length b" "replicate (length b) 0" b "[]"] that
    by (simp add: replicate_add[symmetric])
  show ?thesis
  proof (cases "integer_type t")
    case True
    then obtain n where p: "p = PNum n" "in_range t n" using assms(2) by (cases t; cases p) auto
    moreover have "enc_scalar t p = int_bytes n" using True p by (cases t) auto
    ultimately show ?thesis
      using scalar_bytes_integer[OF True] number_bytes_ok(1)[OF assms(1) True] by simp
  next
    case False
    then consider b where "t = AddressT" "p = PBytes b" "length b = 20" | b where "t = BoolT" "p = PBool b"
      | b where "t = Bytes32T" "p = PBytes b" "length b = 32" | b where "t = BytesT" "p = PBytes b"
      | s where "t = StringT" "p = PText s"
      using assms(2) by (cases t; cases p) auto
    then show ?thesis
    proof cases
      case 1 then show ?thesis using pad[of b] by (simp add: padded_bytes_def)
    next
      case 2 then show ?thesis using int_bytes_bool[of b] by simp
    next
      case 3 then show ?thesis using pad[of b] by (simp add: padded_bytes_def)
    next
      case 4 then show ?thesis using assms(3) sized[of b] by (simp add: sized_bytes_spec)
    next
      case 5 then show ?thesis using assms(3) sized[of "utf8_encode s"] by (simp add: sized_bytes_spec)
    qed
  qed
qed

lemma enc_scalar_length: "value_ok t p \<Longrightarrow> \<not> variable_length t \<Longrightarrow> length (enc_scalar t p) = 32"
  by (cases t; cases p) (auto simp: variable_length_def)

section \<open>Arrays\<close>

lemma put_variable_lay_out:
  "put_variable i off es v = lay_out 32 i off (map (\<lambda>e. \<lparr>dynamic = True, arg_value = e\<rparr>) es) v"
proof (induction es arbitrary: i off v)
  case (Cons e es)
  have p: "(i + 1) * 32 + 28 = 32 + i * 32 + 28" by simp
  show ?case unfolding put_variable.simps list.map lay_out.simps abi_argument.simps p if_True Cons ..
qed simp

lemma put_static_lay_out:
  "put_static i es v = lay_out 32 i off (map (\<lambda>e. \<lparr>dynamic = False, arg_value = e\<rparr>) es) v"
proof (induction es arbitrary: i v)
  case (Cons e es)
  have p: "i * 32 + 32 = 32 + i * 32" by simp
  show ?case unfolding put_static.simps list.map lay_out.simps abi_argument.simps p if_False Cons ..
qed simp

lemma length_enc_heads:
  "list_all (\<lambda>(d, v). d \<or> length v = 32) es \<Longrightarrow> length (enc_heads off es) = 32 * length es"
  by (induction off es rule: enc_heads.induct) auto

lemma member_variable: "variable_length t \<Longrightarrow> argument_type_member t"
  by (auto simp: variable_length_def)

lemma array_bytes_spec:
  assumes "argument_type_member t" and "\<not> variable_length t \<Longrightarrow> list_all (\<lambda>v. length v = 32) vs"
    and "32 + length (enc_tuple (map (\<lambda>v. (variable_length t, v)) vs)) < 2 ^ 32"
  shows "array_bytes t vs =
         Inr (int_bytes (int (length vs)) @ enc_tuple (map (\<lambda>v. (variable_length t, v)) vs))"
proof -
  let ?as = "map (\<lambda>e. \<lparr>dynamic = variable_length t, arg_value = e\<rparr>) vs"
  let ?es = "map (\<lambda>v. (variable_length t, v)) vs"
  have spec: "map spec_argument ?as = ?es" by (simp add: spec_argument_def)
  have ok: "static_ok ?as" using assms(2) by (auto simp: static_ok_def list_all_iff)
  have tl: "length (tails ?as) = (if variable_length t then sum_list (map length vs) else 0)"
    by (simp add: tails_def filter_map comp_def length_concat)
  have len: "length (enc_tuple ?es) = 32 * length vs + length (tails ?as)"
    unfolding spec[symmetric] enc_tuple_arguments by (simp add: length_heads[OF ok])
  then have n: "length vs < 2 ^ 32" and small: "32 * length ?as + length (tails ?as) < 2 ^ 32"
    using assms(3) by simp_all
  have static: "\<not> variable_length t \<Longrightarrow> sum_list (map length vs) = 32 * length vs"
    using assms(2) by (induction vs) auto
  have buf: "(if variable_length t then replicate (length vs * 32 + sum_list (map length vs) + 32) 0
      else replicate (sum_list (map length vs) + 32) 0) =
      replicate 32 0 @ replicate (32 * length ?as + length (tails ?as)) (0 :: byte)"
    unfolding tl using static by (auto simp: replicate_add[symmetric] mult.commute add_ac)
  have set: "setUint32 28 (length vs) (replicate 32 0 @ R) = Inr (int_bytes (int (length vs)) @ R)" for R
    using setUint32_slot[of "[]" 0 "length vs" R] by (simp add: int_bytes_small[OF n])
  have put: "(if variable_length t then put_variable 0 (32 * length vs) vs v else put_static 0 vs v) =
      lay_out 32 0 (32 * length ?as) ?as v" for v
    by (simp add: put_variable_lay_out put_static_lay_out[where off = "32 * length vs"])
  have lay: "lay_out 32 0 (32 * length ?as) ?as
      (int_bytes (int (length vs)) @ replicate (32 * length ?as + length (tails ?as)) 0) =
      Inr (int_bytes (int (length vs)) @ enc_tuple ?es)"
    unfolding spec[symmetric] by (rule lay_out_fresh[OF ok _ small]) simp
  show ?thesis
    unfolding array_bytes_def Let_def buf set res_bind_simps put lay using assms(1) by simp
qed

definition typed_value :: "solidity_type \<Rightarrow> param \<Rightarrow> bool" where
  "typed_value t p \<longleftrightarrow>
     (if is_array t
      then (case p of PArr ps \<Rightarrow> argument_type_member (ty t) \<and> list_all (value_ok (ty t)) ps | _ \<Rightarrow> False)
      else value_ok (ty t) p)"

lemma element_length:
  assumes "v \<in> set vs" and "\<not> d \<Longrightarrow> list_all (\<lambda>v. length v = 32) vs"
  shows "length v \<le> 32 + length (enc_tuple (map (\<lambda>v. (d, v)) vs))"
proof (cases d)
  case False
  then show ?thesis using assms by (auto simp: list_all_iff)
next
  case True
  have "length v \<le> length (concat vs)" using assms(1) by (induction vs) auto
  then show ?thesis using True by (simp add: enc_tuple_def filter_map comp_def)
qed

lemma scalar_list_spec:
  assumes "abi_ok L" and "list_all (value_ok t) ps" and "\<forall>p \<in> set ps. length (enc_scalar t p) < 2 ^ 32"
  shows "scalar_list_bytes L t ps = Inr (map (enc_scalar t) ps)"
  using assms(2,3) by (induction ps) (simp_all add: scalar_bytes_spec[OF assms(1)])

lemma argumentToBytes_spec:
  assumes "abi_ok L" and "typed_value t p" and "length (snd (enc_value t p)) < 2 ^ 32 - 32"
  shows "argumentToBytes L p t = Inr (snd (enc_value t p))"
proof (cases "is_array t")
  case False
  then show ?thesis
    using assms scalar_bytes_spec[OF assms(1), of "ty t" p]
    by (simp add: argumentToBytes_def typed_value_def enc_value_def)
next
  case True
  then obtain ps where p: "p = PArr ps" and ok: "argument_type_member (ty t)" "list_all (value_ok (ty t)) ps"
    using assms(2) by (cases p) (auto simp: typed_value_def)
  let ?vs = "map (enc_scalar (ty t)) ps"
  have st: "\<not> variable_length (ty t) \<Longrightarrow> list_all (\<lambda>v. length v = 32) ?vs"
    using ok(2) enc_scalar_length by (auto simp: list_all_iff)
  have e: "snd (enc_value t p) = int_bytes (int (length ps)) @ enc_tuple (map (\<lambda>v. (variable_length (ty t), v)) ?vs)"
    using True by (simp add: enc_value_def p comp_def)
  with assms(3) have small: "32 + length (enc_tuple (map (\<lambda>v. (variable_length (ty t), v)) ?vs)) < 2 ^ 32 - 32" by simp
  have "length (enc_scalar (ty t) q) < 2 ^ 32" if "q \<in> set ps" for q
    using element_length[of "enc_scalar (ty t) q" ?vs "variable_length (ty t)"] st small that by simp
  then have "scalar_list_bytes L (ty t) ps = Inr ?vs" using scalar_list_spec[OF assms(1) ok(2)] by simp
  moreover have "array_bytes (ty t) ?vs =
      Inr (int_bytes (int (length ?vs)) @ enc_tuple (map (\<lambda>v. (variable_length (ty t), v)) ?vs))"
    using small by (intro array_bytes_spec[OF ok(1) st]) simp_all
  ultimately show ?thesis
    using True by (simp add: argumentToBytes_def p enc_value_def comp_def)
qed

section \<open>Adding and building\<close>

definition is_dynamic :: "solidity_type \<Rightarrow> bool" where
  "is_dynamic t \<longleftrightarrow> is_array t \<or> variable_length (ty t)"

text \<open>Values of given types added one after the other until one throws.\<close>

fun add_all ::
    "abi_lib \<Rightarrow> (solidity_type \<times> param) list \<Rightarrow> call_parameters \<Rightarrow> js_error option \<times> call_parameters" where
  "add_all L [] c = (None, c)"
| "add_all L ((t, p) # vs) c =
     (case add_typed L (sel_addParam t) p (is_dynamic t) c of
        (None, c') \<Rightarrow> add_all L vs c'
      | (Some e, c') \<Rightarrow> (Some e, c'))"

fun signature_params :: "solidity_type list \<Rightarrow> string" where
  "signature_params [] = ''''"
| "signature_params [t] = solidityTypeToString t"
| "signature_params (t # ts) = solidityTypeToString t @ '','' @ signature_params ts"

lemma signature_params_snoc:
  "signature_params (ts @ [t]) =
     (if ts = [] then solidityTypeToString t else signature_params ts @ '','' @ solidityTypeToString t)"
  by (induction ts rule: signature_params.induct) auto

definition selector_ok :: "selector \<Rightarrow> bool" where
  "selector_ok s \<longleftrightarrow> sel_params s = signature_params (sel_paramTypes s)"

lemma selector_ok_add: "selector_ok s \<Longrightarrow> selector_ok (sel_addParam t s)"
  by (simp add: selector_ok_def sel_addParam_def signature_params_snoc)

lemma add_typed_spec:
  assumes "argumentToBytes L p t = Inr v"
  shows "add_typed L (sel_addParam t) p d c =
    (None, c\<lparr>cf_selector := sel_addParam t (cf_selector c),
             cf_arguments := cf_arguments c @ [\<lparr>dynamic = d, arg_value = v\<rparr>]\<rparr>)"
  using assms by (simp add: add_typed_def cf_addParam_def Let_def sel_addParam_def nth_append)

definition encoded :: "(solidity_type \<times> param) list \<Rightarrow> (bool \<times> byte list) list" where
  "encoded vs = map (\<lambda>(t, p). enc_value t p) vs"

definition arguments_of :: "(solidity_type \<times> param) list \<Rightarrow> abi_argument list" where
  "arguments_of vs = map (\<lambda>(t, p). \<lparr>dynamic = is_dynamic t, arg_value = snd (enc_value t p)\<rparr>) vs"

lemma spec_arguments: "map spec_argument (arguments_of vs) = encoded vs"
  by (auto simp: arguments_of_def encoded_def spec_argument_def enc_value_def is_dynamic_def)

lemma add_all_spec:
  assumes "abi_ok L" and "list_all (\<lambda>(t, p). typed_value t p) vs"
    and "\<forall>(t, p) \<in> set vs. length (snd (enc_value t p)) < 2 ^ 32 - 32" and "selector_ok (cf_selector c)"
  shows "\<exists>c'. add_all L vs c = (None, c') \<and> cf_arguments c' = cf_arguments c @ arguments_of vs \<and>
    selector_ok (cf_selector c') \<and> sel_name (cf_selector c') = sel_name (cf_selector c) \<and>
    sel_paramTypes (cf_selector c') = sel_paramTypes (cf_selector c) @ map fst vs"
  using assms(2-4)
proof (induction vs arbitrary: c)
  case Nil
  then show ?case by (simp add: arguments_of_def)
next
  case (Cons tp vs)
  obtain t p where tp: "tp = (t, p)" by force
  let ?c = "c\<lparr>cf_selector := sel_addParam t (cf_selector c),
             cf_arguments := cf_arguments c @ [\<lparr>dynamic = is_dynamic t, arg_value = snd (enc_value t p)\<rparr>]\<rparr>"
  have "argumentToBytes L p t = Inr (snd (enc_value t p))"
    using Cons.prems tp by (intro argumentToBytes_spec[OF assms(1)]) simp_all
  then have step: "add_typed L (sel_addParam t) p (is_dynamic t) c = (None, ?c)" by (rule add_typed_spec)
  obtain c' where "add_all L vs ?c = (None, c')" "cf_arguments c' = cf_arguments ?c @ arguments_of vs"
      "selector_ok (cf_selector c')" "sel_name (cf_selector c') = sel_name (cf_selector ?c)"
      "sel_paramTypes (cf_selector c') = sel_paramTypes (cf_selector ?c) @ map fst vs"
    using Cons.IH[of ?c] Cons.prems tp by (auto simp: selector_ok_add)
  then show ?case using step by (simp add: tp arguments_of_def sel_addParam_def)
qed

lemma keccak256_spec_length: "length (keccak256_spec bs) = 32"
proof -
  have 0: "length (foldl round_spec A ks) = 25" if "length A = 25" for A ks
    using that by (induction ks arbitrary: A) (simp_all add: round_spec_def iota_spec_def chi_spec_def)
  have 1: "length (absorb_block A b) = 25" for A b
    by (simp add: absorb_block_def keccak_f_spec_def 0)
  have 2: "length (foldl absorb_block A bl) = 25" if "length A = 25" for A bl
    using that by (induction bl arbitrary: A) (simp_all add: 1)
  have 3: "length (concat (map le_bytes ws)) = 8 * length ws" for ws
    by (induction ws) (simp_all add: le_bytes_def)
  show ?thesis by (simp add: keccak256_spec_def Let_def 1 2 3)
qed

lemma build_length_spec:
  assumes "static_ok as"
  shows "build_length no as = no + length (enc_tuple (map spec_argument as))"
proof -
  have "sum_list (map (\<lambda>a. if dynamic a then length (arg_value a) else 0) as) = length (tails as)"
    by (induction as) simp_all
  then show ?thesis
    by (simp add: build_length_def enc_tuple_arguments length_heads[OF assms])
qed

lemma cf_build_spec:
  assumes "static_ok (cf_arguments c)" and "length (enc_tuple (map spec_argument (cf_arguments c))) < 2 ^ 32"
  shows "cf_build None c = Some (Inr (enc_tuple (map spec_argument (cf_arguments c))), c) \<and>
    cf_build (Some n) c =
      Some (Inr (take 4 (keccak256_spec (utf8_encode (map of_char (n @ ''('' @ sel_params (cf_selector c) @ '')'')))) @
                 enc_tuple (map spec_argument (cf_arguments c))),
            c\<lparr>cf_selector := (cf_selector c)\<lparr>sel_name := Some n\<rparr>\<rparr>)"
proof -
  let ?as = "cf_arguments c"
  define ident where
    "ident = take 4 (keccak256_spec (utf8_encode (map of_char (n @ ''('' @ sel_params (cf_selector c) @ '')''))))"
  have len: "length (enc_tuple (map spec_argument ?as)) = 32 * length ?as + length (tails ?as)"
    by (simp add: enc_tuple_arguments length_heads[OF assms(1)])
  have buf: "replicate (build_length no ?as) (0 :: byte) =
      replicate no 0 @ replicate (32 * length ?as + length (tails ?as)) 0" for no
    by (simp add: build_length_spec[OF assms(1)] len replicate_add)
  have lay: "lay_out no 0 (32 * length ?as) ?as (P @ replicate (32 * length ?as + length (tails ?as)) 0) =
      Inr (P @ enc_tuple (map spec_argument ?as))" if "length P = no" for P no
    using assms(2) unfolding len by (intro lay_out_fresh[OF assms(1) that])
  have id: "length ident = 4" by (simp add: ident_def keccak256_spec_length)
  have set: "typed_set ident 0 (replicate 4 0 @ R) = Inr (ident @ R)" for R
    using typed_set_middle[of "[]" 0 "replicate 4 0" ident R] id by simp
  have sel: "sel_build (Some n) (cf_selector c) = Some (Inr ident, (cf_selector c)\<lparr>sel_name := Some n\<rparr>)"
    by (simp add: sel_build_standard Let_def sel_toString_def ident_def)
  have "cf_build None c = Some (Inr (enc_tuple (map spec_argument ?as)), c)"
    using lay[of "[]" 0] buf[of 0] by (simp add: cf_build_def Let_def)
  moreover have "cf_build (Some n) c = Some (Inr (ident @ enc_tuple (map spec_argument ?as)),
      c\<lparr>cf_selector := (cf_selector c)\<lparr>sel_name := Some n\<rparr>\<rparr>)"
    using set lay[OF id] by (simp add: cf_build_def Let_def sel buf)
  ultimately show ?thesis unfolding ident_def by blast
qed

lemma tail_length: "a \<in> set as \<Longrightarrow> dynamic a \<Longrightarrow> length (arg_value a) \<le> length (tails as)"
  by (induction as) auto

lemma static_value_length:
  assumes "typed_value t p" and "\<not> is_dynamic t"
  shows "length (snd (enc_value t p)) = 32"
  using assms enc_scalar_length by (simp add: enc_value_def is_dynamic_def typed_value_def)

lemma encoded_static_ok:
  assumes "list_all (\<lambda>(t, p). typed_value t p) vs"
  shows "static_ok (arguments_of vs)"
  using assms static_value_length
  by (fastforce simp: static_ok_def arguments_of_def list_all_iff)

lemma built_call:
  assumes "abi_ok L" and "list_all (\<lambda>(t, p). typed_value t p) vs"
    and "length (enc_tuple (encoded vs)) < 2 ^ 32 - 32"
  shows "\<exists>c. add_all L vs new_parameters = (None, c) \<and> cf_arguments c = arguments_of vs \<and>
    sel_params (cf_selector c) = signature_params (map fst vs) \<and>
    cf_build None c = Some (Inr (enc_tuple (encoded vs)), c) \<and>
    cf_build (Some n) c =
      Some (Inr (take 4 (keccak256_spec (utf8_encode (map of_char (n @ ''('' @ signature_params (map fst vs) @ '')'')))) @
                 enc_tuple (encoded vs)), c\<lparr>cf_selector := (cf_selector c)\<lparr>sel_name := Some n\<rparr>\<rparr>)"
proof -
  have st: "static_ok (arguments_of vs)" by (rule encoded_static_ok[OF assms(2)])
  have tup: "length (enc_tuple (encoded vs)) = 32 * length (arguments_of vs) + length (tails (arguments_of vs))"
    unfolding spec_arguments[symmetric] enc_tuple_arguments by (simp add: length_heads[OF st])
  have "length (snd (enc_value t p)) < 2 ^ 32 - 32" if "(t, p) \<in> set vs" for t p
  proof (cases "is_dynamic t")
    case True
    let ?a = "\<lparr>dynamic = is_dynamic t, arg_value = snd (enc_value t p)\<rparr>"
    have "?a \<in> set (arguments_of vs)" using that by (force simp: arguments_of_def)
    then have "length (arg_value ?a) \<le> length (tails (arguments_of vs))"
      using True by (intro tail_length) simp_all
    then show ?thesis using assms(3) tup by simp
  next
    case False
    then have "length (snd (enc_value t p)) = 32"
      using assms(2) that by (intro static_value_length) (auto simp: list_all_iff)
    then show ?thesis by simp
  qed
  then have small: "\<forall>(t, p) \<in> set vs. length (snd (enc_value t p)) < 2 ^ 32 - 32" by blast
  have sel: "selector_ok (cf_selector new_parameters)"
    by (simp add: selector_ok_def new_parameters_def new_selector_def)
  obtain c where c: "add_all L vs new_parameters = (None, c)" "cf_arguments c = arguments_of vs"
      "selector_ok (cf_selector c)" "sel_paramTypes (cf_selector c) = map fst vs"
    using add_all_spec[OF assms(1,2) small sel] by (auto simp: new_parameters_def new_selector_def)
  have p: "sel_params (cf_selector c) = signature_params (map fst vs)" using c(3,4) by (simp add: selector_ok_def)
  have "length (enc_tuple (map spec_argument (cf_arguments c))) < 2 ^ 32"
    using assms(3) by (simp add: c(2) spec_arguments)
  from cf_build_spec[OF _ this, of n] st show ?thesis
    using c p by (simp add: spec_arguments)
qed

end
