(* ===== verification/AbiCalls.thy ===== *)
theory AbiCalls
  imports AbiLaws
begin

text \<open>
  The methods of the class called for a list of values, each by the method for its type, and the
  getters that read the values back from the bytes.
\<close>

section \<open>The methods and getters by width\<close>

definition uint_adds :: "(nat \<times> (abi_lib \<Rightarrow> int \<Rightarrow> call_parameters \<Rightarrow> js_error option \<times> call_parameters)) list" where
  "uint_adds =
     [(8, addUint8), (16, addUint16), (24, addUint24), (32, addUint32),
      (40, addUint40), (48, addUint48), (56, addUint56), (64, addUint64),
      (72, addUint72), (80, addUint80), (88, addUint88), (96, addUint96),
      (104, addUint104), (112, addUint112), (120, addUint120), (128, addUint128),
      (136, addUint136), (144, addUint144), (152, addUint152), (160, addUint160),
      (168, addUint168), (176, addUint176), (184, addUint184), (192, addUint192),
      (200, addUint200), (208, addUint208), (216, addUint216), (224, addUint224),
      (232, addUint232), (240, addUint240), (248, addUint248), (256, addUint256)]"

definition int_adds :: "(nat \<times> (abi_lib \<Rightarrow> int \<Rightarrow> call_parameters \<Rightarrow> js_error option \<times> call_parameters)) list" where
  "int_adds =
     [(8, addInt8), (16, addInt16), (24, addInt24), (32, addInt32),
      (40, addInt40), (48, addInt48), (56, addInt56), (64, addInt64),
      (72, addInt72), (80, addInt80), (88, addInt88), (96, addInt96),
      (104, addInt104), (112, addInt112), (120, addInt120), (128, addInt128),
      (136, addInt136), (144, addInt144), (152, addInt152), (160, addInt160),
      (168, addInt168), (176, addInt176), (184, addInt184), (192, addInt192),
      (200, addInt200), (208, addInt208), (216, addInt216), (224, addInt224),
      (232, addInt232), (240, addInt240), (248, addInt248), (256, addInt256)]"

definition uint_array_adds :: "(nat \<times> (abi_lib \<Rightarrow> int list \<Rightarrow> call_parameters \<Rightarrow> js_error option \<times> call_parameters)) list" where
  "uint_array_adds =
     [(8, addUint8Array), (16, addUint16Array), (24, addUint24Array), (32, addUint32Array),
      (40, addUint40Array), (48, addUint48Array), (56, addUint56Array), (64, addUint64Array),
      (72, addUint72Array), (80, addUint80Array), (88, addUint88Array), (96, addUint96Array),
      (104, addUint104Array), (112, addUint112Array), (120, addUint120Array), (128, addUint128Array),
      (136, addUint136Array), (144, addUint144Array), (152, addUint152Array), (160, addUint160Array),
      (168, addUint168Array), (176, addUint176Array), (184, addUint184Array), (192, addUint192Array),
      (200, addUint200Array), (208, addUint208Array), (216, addUint216Array), (224, addUint224Array),
      (232, addUint232Array), (240, addUint240Array), (248, addUint248Array), (256, addUint256Array)]"

definition int_array_adds :: "(nat \<times> (abi_lib \<Rightarrow> int list \<Rightarrow> call_parameters \<Rightarrow> js_error option \<times> call_parameters)) list" where
  "int_array_adds =
     [(8, addInt8Array), (16, addInt16Array), (24, addInt24Array), (32, addInt32Array),
      (40, addInt40Array), (48, addInt48Array), (56, addInt56Array), (64, addInt64Array),
      (72, addInt72Array), (80, addInt80Array), (88, addInt88Array), (96, addInt96Array),
      (104, addInt104Array), (112, addInt112Array), (120, addInt120Array), (128, addInt128Array),
      (136, addInt136Array), (144, addInt144Array), (152, addInt152Array), (160, addInt160Array),
      (168, addInt168Array), (176, addInt176Array), (184, addInt184Array), (192, addInt192Array),
      (200, addInt200Array), (208, addInt208Array), (216, addInt216Array), (224, addInt224Array),
      (232, addInt232Array), (240, addInt240Array), (248, addInt248Array), (256, addInt256Array)]"

definition uint_getters :: "(nat \<times> (abi_lib \<Rightarrow> nat option \<Rightarrow> byte list \<Rightarrow> int option)) list" where
  "uint_getters =
     [(40, getUint40), (48, getUint48), (56, getUint56), (64, getUint64),
      (72, getUint72), (80, getUint80), (88, getUint88), (96, getUint96),
      (104, getUint104), (112, getUint112), (120, getUint120), (128, getUint128),
      (136, getUint136), (144, getUint144), (152, getUint152), (160, getUint160),
      (168, getUint168), (176, getUint176), (184, getUint184), (192, getUint192),
      (200, getUint200), (208, getUint208), (216, getUint216), (224, getUint224),
      (232, getUint232), (240, getUint240), (248, getUint248), (256, getUint256)]"

definition int_getters :: "(nat \<times> (abi_lib \<Rightarrow> nat option \<Rightarrow> byte list \<Rightarrow> int option result)) list" where
  "int_getters =
     [(40, getInt40), (48, getInt48), (56, getInt56), (64, getInt64),
      (72, getInt72), (80, getInt80), (88, getInt88), (96, getInt96),
      (104, getInt104), (112, getInt112), (120, getInt120), (128, getInt128),
      (136, getInt136), (144, getInt144), (152, getInt152), (160, getInt160),
      (168, getInt168), (176, getInt176), (184, getInt184), (192, getInt192),
      (200, getInt200), (208, getInt208), (216, getInt216), (224, getInt224),
      (232, getInt232), (240, getInt240), (248, getInt248), (256, getInt256)]"

lemmas add_defs =
    addUint8_def addInt8_def addUint16_def addInt16_def addUint24_def addInt24_def addUint32_def addInt32_def addUint40_def addInt40_def addUint48_def addInt48_def
    addUint56_def addInt56_def addUint64_def addInt64_def addUint72_def addInt72_def addUint80_def addInt80_def addUint88_def addInt88_def addUint96_def addInt96_def
    addUint104_def addInt104_def addUint112_def addInt112_def addUint120_def addInt120_def addUint128_def addInt128_def addUint136_def addInt136_def addUint144_def addInt144_def
    addUint152_def addInt152_def addUint160_def addInt160_def addUint168_def addInt168_def addUint176_def addInt176_def addUint184_def addInt184_def addUint192_def addInt192_def
    addUint200_def addInt200_def addUint208_def addInt208_def addUint216_def addInt216_def addUint224_def addInt224_def addUint232_def addInt232_def addUint240_def addInt240_def
    addUint248_def addInt248_def addUint256_def addInt256_def
    addUint8Array_def addInt8Array_def addUint16Array_def addInt16Array_def addUint24Array_def addInt24Array_def addUint32Array_def addInt32Array_def addUint40Array_def addInt40Array_def addUint48Array_def addInt48Array_def
    addUint56Array_def addInt56Array_def addUint64Array_def addInt64Array_def addUint72Array_def addInt72Array_def addUint80Array_def addInt80Array_def addUint88Array_def addInt88Array_def addUint96Array_def addInt96Array_def
    addUint104Array_def addInt104Array_def addUint112Array_def addInt112Array_def addUint120Array_def addInt120Array_def addUint128Array_def addInt128Array_def addUint136Array_def addInt136Array_def addUint144Array_def addInt144Array_def
    addUint152Array_def addInt152Array_def addUint160Array_def addInt160Array_def addUint168Array_def addInt168Array_def addUint176Array_def addInt176Array_def addUint184Array_def addInt184Array_def addUint192Array_def addInt192Array_def
    addUint200Array_def addInt200Array_def addUint208Array_def addInt208Array_def addUint216Array_def addInt216Array_def addUint224Array_def addInt224Array_def addUint232Array_def addInt232Array_def addUint240Array_def addInt240Array_def
    addUint248Array_def addInt248Array_def addUint256Array_def addInt256Array_def

lemmas sel_defs =
    sel_addUint8_def sel_addInt8_def sel_addUint16_def sel_addInt16_def sel_addUint24_def sel_addInt24_def sel_addUint32_def sel_addInt32_def sel_addUint40_def sel_addInt40_def sel_addUint48_def sel_addInt48_def
    sel_addUint56_def sel_addInt56_def sel_addUint64_def sel_addInt64_def sel_addUint72_def sel_addInt72_def sel_addUint80_def sel_addInt80_def sel_addUint88_def sel_addInt88_def sel_addUint96_def sel_addInt96_def
    sel_addUint104_def sel_addInt104_def sel_addUint112_def sel_addInt112_def sel_addUint120_def sel_addInt120_def sel_addUint128_def sel_addInt128_def sel_addUint136_def sel_addInt136_def sel_addUint144_def sel_addInt144_def
    sel_addUint152_def sel_addInt152_def sel_addUint160_def sel_addInt160_def sel_addUint168_def sel_addInt168_def sel_addUint176_def sel_addInt176_def sel_addUint184_def sel_addInt184_def sel_addUint192_def sel_addInt192_def
    sel_addUint200_def sel_addInt200_def sel_addUint208_def sel_addInt208_def sel_addUint216_def sel_addInt216_def sel_addUint224_def sel_addInt224_def sel_addUint232_def sel_addInt232_def sel_addUint240_def sel_addInt240_def
    sel_addUint248_def sel_addInt248_def sel_addUint256_def sel_addInt256_def
    sel_addUint8Array_def sel_addInt8Array_def sel_addUint16Array_def sel_addInt16Array_def sel_addUint24Array_def sel_addInt24Array_def sel_addUint32Array_def sel_addInt32Array_def sel_addUint40Array_def sel_addInt40Array_def sel_addUint48Array_def sel_addInt48Array_def
    sel_addUint56Array_def sel_addInt56Array_def sel_addUint64Array_def sel_addInt64Array_def sel_addUint72Array_def sel_addInt72Array_def sel_addUint80Array_def sel_addInt80Array_def sel_addUint88Array_def sel_addInt88Array_def sel_addUint96Array_def sel_addInt96Array_def
    sel_addUint104Array_def sel_addInt104Array_def sel_addUint112Array_def sel_addInt112Array_def sel_addUint120Array_def sel_addInt120Array_def sel_addUint128Array_def sel_addInt128Array_def sel_addUint136Array_def sel_addInt136Array_def sel_addUint144Array_def sel_addInt144Array_def
    sel_addUint152Array_def sel_addInt152Array_def sel_addUint160Array_def sel_addInt160Array_def sel_addUint168Array_def sel_addInt168Array_def sel_addUint176Array_def sel_addInt176Array_def sel_addUint184Array_def sel_addInt184Array_def sel_addUint192Array_def sel_addInt192Array_def
    sel_addUint200Array_def sel_addInt200Array_def sel_addUint208Array_def sel_addInt208Array_def sel_addUint216Array_def sel_addInt216Array_def sel_addUint224Array_def sel_addInt224Array_def sel_addUint232Array_def sel_addInt232Array_def sel_addUint240Array_def sel_addInt240Array_def
    sel_addUint248Array_def sel_addInt248Array_def sel_addUint256Array_def sel_addInt256Array_def

lemmas getter_defs =
    getUint40_def getUint48_def getUint56_def getUint64_def getUint72_def getUint80_def
    getUint88_def getUint96_def getUint104_def getUint112_def getUint120_def getUint128_def
    getUint136_def getUint144_def getUint152_def getUint160_def getUint168_def getUint176_def
    getUint184_def getUint192_def getUint200_def getUint208_def getUint216_def getUint224_def
    getUint232_def getUint240_def getUint248_def getUint256_def
    getInt40_def getInt48_def getInt56_def getInt64_def getInt72_def getInt80_def
    getInt88_def getInt96_def getInt104_def getInt112_def getInt120_def getInt128_def
    getInt136_def getInt144_def getInt152_def getInt160_def getInt168_def getInt176_def
    getInt184_def getInt192_def getInt200_def getInt208_def getInt216_def getInt224_def
    getInt232_def getInt240_def getInt248_def getInt256_def

section \<open>Calling the method for a type\<close>

fun num_of :: "param \<Rightarrow> int" where
  "num_of (PNum n) = n"
| "num_of _ = 0"

fun bytes_of :: "param \<Rightarrow> byte list" where
  "bytes_of (PBytes b) = b"
| "bytes_of _ = []"

fun text_of :: "param \<Rightarrow> text_points" where
  "text_of (PText t) = t"
| "text_of _ = []"

fun elements_of :: "param \<Rightarrow> param list" where
  "elements_of (PArr ps) = ps"
| "elements_of _ = []"

definition no_method :: "call_parameters \<Rightarrow> js_error option \<times> call_parameters" where
  "no_method c = (Some (TypeError ''not a function''), c)"

definition by_width ::
    "(nat \<times> (abi_lib \<Rightarrow> 'v \<Rightarrow> call_parameters \<Rightarrow> js_error option \<times> call_parameters)) list \<Rightarrow> nat
     \<Rightarrow> abi_lib \<Rightarrow> 'v \<Rightarrow> call_parameters \<Rightarrow> js_error option \<times> call_parameters" where
  "by_width tab w L v c = (case map_of tab w of None \<Rightarrow> no_method c | Some add \<Rightarrow> add L v c)"

text \<open>An address is given as its hexadecimal text. There is no method for an array of booleans or functions.\<close>

definition add_value ::
    "abi_lib \<Rightarrow> solidity_type \<Rightarrow> param \<Rightarrow> call_parameters \<Rightarrow> js_error option \<times> call_parameters" where
  "add_value L t p c =
     (if is_array t then
        (case ty t of
           UintT w \<Rightarrow> by_width uint_array_adds w L (map num_of (elements_of p)) c
         | IntT w \<Rightarrow> by_width int_array_adds w L (map num_of (elements_of p)) c
         | StringT \<Rightarrow> addStringArray L (map text_of (elements_of p)) c
         | BytesT \<Rightarrow> addBytesArray L (map bytes_of (elements_of p)) c
         | Bytes32T \<Rightarrow> addBytes32Array L (map bytes_of (elements_of p)) c
         | AddressT \<Rightarrow> addAddressArray L (map (\<lambda>q. AddressText (hex_encode (bytes_of q))) (elements_of p)) c
         | _ \<Rightarrow> no_method c)
      else
        (case ty t of
           UintT w \<Rightarrow> by_width uint_adds w L (num_of p) c
         | IntT w \<Rightarrow> by_width int_adds w L (num_of p) c
         | StringT \<Rightarrow> addString L (text_of p) c
         | BoolT \<Rightarrow> addBool L (p = PBool True) c
         | BytesT \<Rightarrow> addBytes L (bytes_of p) c
         | Bytes32T \<Rightarrow> addBytes32 L (bytes_of p) c
         | AddressT \<Rightarrow> addAddress L (AddressText (hex_encode (bytes_of p))) c
         | FuncT \<Rightarrow> no_method c))"

fun add_values ::
    "abi_lib \<Rightarrow> (solidity_type \<times> param) list \<Rightarrow> call_parameters \<Rightarrow> js_error option \<times> call_parameters" where
  "add_values L [] c = (None, c)"
| "add_values L ((t, p) # vs) c =
     (case add_value L t p c of
        (None, c') \<Rightarrow> add_values L vs c'
      | (Some e, c') \<Rightarrow> (Some e, c'))"

definition call_value :: "solidity_type \<Rightarrow> param \<Rightarrow> bool" where
  "call_value t p \<longleftrightarrow> typed_value t p \<and> (is_array t \<longrightarrow> ty t \<noteq> BoolT \<and> ty t \<noteq> FuncT)"

lemma width_cases:
  assumes "int_width w"
  shows "w \<in> {8, 16, 24, 32, 40, 48, 56, 64, 72, 80, 88, 96, 104, 112, 120, 128,
              136, 144, 152, 160, 168, 176, 184, 192, 200, 208, 216, 224, 232, 240, 248, 256}"
proof -
  obtain k where k: "w = 8 * k" "1 \<le> k" "k \<le> 32" using assms by (auto simp: int_width_def)
  then have "k \<in> set [1..<33]" by simp
  also have "[1..<33] = [1, 2, 3, 4, 5, 6, 7, 8, 9, 10, 11, 12, 13, 14, 15, 16, 17, 18, 19, 20, 21, 22, 23, 24, 25, 26, 27, 28,
      29, 30, 31, 32 :: nat]" by (simp add: upt_rec)
  finally have "8 * k \<in> (\<lambda>k. 8 * k) ` set [1, 2, 3, 4, 5, 6, 7, 8, 9, 10, 11, 12, 13, 14, 15, 16, 17, 18, 19, 20, 21, 22, 23, 24,
      25, 26, 27, 28, 29, 30, 31, 32]" by (rule imageI)
  then show ?thesis unfolding k(1) by simp
qed

lemma tables_typed:
  "list_all (\<lambda>(w, add). \<forall>L v c. add L v c = add_typed L (sel_addParam \<lparr>ty = UintT w, is_array = False\<rparr>) (PNum v) False c) uint_adds"
  "list_all (\<lambda>(w, add). \<forall>L v c. add L v c = add_typed L (sel_addParam \<lparr>ty = IntT w, is_array = False\<rparr>) (PNum v) False c) int_adds"
  "list_all (\<lambda>(w, add). \<forall>L v c. add L v c = add_typed L (sel_addParam \<lparr>ty = UintT w, is_array = True\<rparr>) (PArr (map PNum v)) True c) uint_array_adds"
  "list_all (\<lambda>(w, add). \<forall>L v c. add L v c = add_typed L (sel_addParam \<lparr>ty = IntT w, is_array = True\<rparr>) (PArr (map PNum v)) True c) int_array_adds"
  by (simp_all add: uint_adds_def int_adds_def uint_array_adds_def int_array_adds_def add_defs sel_defs)

lemma tables_complete:
  assumes "int_width w"
  shows "w \<in> set (map fst uint_adds)" "w \<in> set (map fst int_adds)"
    "w \<in> set (map fst uint_array_adds)" "w \<in> set (map fst int_array_adds)"
  using width_cases[OF assms]
  unfolding uint_adds_def int_adds_def uint_array_adds_def int_array_adds_def by simp_all

lemma by_width_typed:
  assumes "list_all (\<lambda>(w, add). \<forall>L v c. add L v c = add_typed L (f w) (g v) d c) tab"
    and "w \<in> set (map fst tab)"
  shows "by_width tab w L v c = add_typed L (f w) (g v) d c"
proof -
  obtain add where "map_of tab w = Some add" using assms(2) by (metis map_of_eq_None_iff not_Some_eq set_map)
  moreover from this have "(w, add) \<in> set tab" by (rule map_of_SomeD)
  ultimately show ?thesis using assms(1) by (auto simp: by_width_def list_all_iff)
qed

lemma address_list_hex: "address_list_bytes (map (\<lambda>b. AddressText (hex_encode b)) bs) = Inr bs"
  if "list_all (\<lambda>b. length b = 20) bs"
  using that by (induction bs) (simp_all add: address_bytes_def decode_encode)

lemma add_value_typed:
  assumes "call_value t p"
  shows "add_value L t p c = add_typed L (sel_addParam t) p (is_dynamic t) c"
proof -
  obtain y a where t: "t = \<lparr>ty = y, is_array = a\<rparr>" by (cases t) auto
  show ?thesis
  proof (cases a)
    case False
    then show ?thesis
      using assms tables_complete by_width_typed[OF tables_typed(1)] by_width_typed[OF tables_typed(2)]
      by (cases y; cases p)
        (auto simp: t add_value_def call_value_def typed_value_def is_dynamic_def variable_length_def addString_def
          sel_addString_def addBool_def sel_addBool_def addBytes_def sel_addBytes_def addBytes32_def sel_addBytes32_def
          addAddress_def sel_addAddress_def address_bytes_def decode_encode)
  next
    case True
    then obtain ps where p: "p = PArr ps" and ok: "argument_type_member y" "list_all (value_ok y) ps" "y \<noteq> BoolT"
      using assms by (cases p) (auto simp: t call_value_def typed_value_def)
    have num: "map PNum (map num_of ps) = ps" if "integer_type y"
      using ok(2) that by (induction ps) (auto elim!: value_ok.elims)
    have bytes: "map PBytes (map bytes_of ps) = ps" "list_all (\<lambda>b. y = Bytes32T \<longrightarrow> length b = 32) (map bytes_of ps)"
      "list_all (\<lambda>b. y = AddressT \<longrightarrow> length b = 20) (map bytes_of ps)" if "y = BytesT \<or> y = Bytes32T \<or> y = AddressT"
      using ok(2) that by (induction ps) (auto elim!: value_ok.elims)
    have texts: "map PText (map text_of ps) = ps" if "y = StringT"
      using ok(2) that by (induction ps) (auto elim!: value_ok.elims)
    show ?thesis
    proof (cases y)
      case (UintT w)
      then show ?thesis using True ok num tables_complete by_width_typed[OF tables_typed(3), of w L "map num_of ps" c]
        by (simp add: t p add_value_def is_dynamic_def)
    next
      case (IntT w)
      then show ?thesis using True ok num tables_complete by_width_typed[OF tables_typed(4), of w L "map num_of ps" c]
        by (simp add: t p add_value_def is_dynamic_def)
    next
      case StringT
      then show ?thesis using True texts
        by (simp add: t p add_value_def is_dynamic_def addStringArray_def sel_addStringArray_def)
    next
      case BytesT
      then show ?thesis using True bytes
        by (simp add: t p add_value_def is_dynamic_def addBytesArray_def sel_addBytesArray_def)
    next
      case Bytes32T
      then have "\<not> list_ex (\<lambda>e. length e \<noteq> 32) (map bytes_of ps)" using bytes by (auto simp: list_ex_iff list_all_iff)
      then show ?thesis using True bytes Bytes32T
        by (simp add: t p add_value_def is_dynamic_def addBytes32Array_def sel_addBytes32Array_def)
    next
      case AddressT
      then have "list_all (\<lambda>b. length b = 20) (map bytes_of ps)" using bytes by (auto simp: list_all_iff)
      then have "address_list_bytes (map (\<lambda>q. AddressText (hex_encode (bytes_of q))) ps) = Inr (map bytes_of ps)"
        using address_list_hex[of "map bytes_of ps"] by (simp add: comp_def)
      then show ?thesis using True bytes AddressT
        by (simp add: t p add_value_def is_dynamic_def addAddressArray_def sel_addAddressArray_def)
    next
      case FuncT
      then show ?thesis using True assms by (simp add: t call_value_def)
    qed (use ok in simp_all)
  qed
qed

lemma add_values_all:
  assumes "list_all (\<lambda>(t, p). call_value t p) vs"
  shows "add_values L vs c = add_all L vs c"
  using assms
proof (induction vs arbitrary: c)
  case (Cons tp vs)
  obtain t p where "tp = (t, p)" by force
  with Cons show ?case
    by (simp add: add_value_typed split: option.splits prod.splits)
qed simp

lemma call_typed: "list_all (\<lambda>(t, p). call_value t p) vs \<Longrightarrow> list_all (\<lambda>(t, p). typed_value t p) vs"
  by (auto simp: list_all_iff call_value_def)

lemma built_values:
  assumes "abi_ok L" and "list_all (\<lambda>(t, p). call_value t p) vs"
    and "length (enc_tuple (encoded vs)) < 2 ^ 32 - 32"
  shows "\<exists>c. add_values L vs new_parameters = (None, c) \<and>
    sel_params (cf_selector c) = signature_params (map fst vs) \<and>
    cf_build None c = Some (Inr (enc_tuple (encoded vs)), c) \<and>
    cf_build (Some n) c =
      Some (Inr (take 4 (keccak256_spec (utf8_encode (map of_char (n @ ''('' @ signature_params (map fst vs) @ '')'')))) @
                 enc_tuple (encoded vs)), c\<lparr>cf_selector := (cf_selector c)\<lparr>sel_name := Some n\<rparr>\<rparr>)"
  using built_call[OF assms(1) call_typed[OF assms(2)] assms(3), of n] by (auto simp: add_values_all[OF assms(2)])


text \<open>C37: An integer that does not fit its type makes the method throw, but the type stays in the
  signature: the parameters then have one type more than arguments, so a call that is built after the
  error was caught hashes a signature its bytes do not match.\<close>

theorem failed_add_keeps_type:
  assumes "abi_ok L" and "integer_type y" and "\<not> in_range y n"
  shows "\<exists>e c'. add_value L \<lparr>ty = y, is_array = False\<rparr> (PNum n) c = (Some e, c') \<and>
    cf_arguments c' = cf_arguments c \<and>
    sel_paramTypes (cf_selector c') = sel_paramTypes (cf_selector c) @ [\<lparr>ty = y, is_array = False\<rparr>] \<and>
    (selector_ok (cf_selector c) \<longrightarrow>
       sel_params (cf_selector c') =
         signature_params (sel_paramTypes (cf_selector c) @ [\<lparr>ty = y, is_array = False\<rparr>]))"
proof -
  let ?t = "\<lparr>ty = y, is_array = False\<rparr>"
  have add: "add_value L ?t (PNum n) c = add_typed L (sel_addParam ?t) (PNum n) False c"
    using assms(2) tables_complete by_width_typed[OF tables_typed(1)] by_width_typed[OF tables_typed(2)]
    by (cases y) (auto simp: add_value_def)
  obtain e where "number_bytes L y (PNum n) = Inl e" using number_bytes_ok(2)[OF assms] by blast
  then have "argumentToBytes L (PNum n) ?t = Inl e"
    using scalar_bytes_integer[OF assms(2)] by (simp add: argumentToBytes_def)
  then have "add_value L ?t (PNum n) c = (Some e, c\<lparr>cf_selector := sel_addParam ?t (cf_selector c)\<rparr>)"
    unfolding add by (simp add: add_typed_def cf_addParam_def Let_def sel_addParam_def nth_append)
  then show ?thesis
    using selector_ok_add[of "cf_selector c" ?t]
    by (auto simp: selector_ok_def) (simp_all add: sel_addParam_def)
qed

end
