(* ===== verification/AbiRead.thy ===== *)
theory AbiRead
  imports AbiCalls
begin

text \<open>
  The getters of a result over bytes laid out as a call: each reads back the value of its index. A
  concrete library of integer texts shows that what the packages promise can hold.
\<close>

section \<open>Positions\<close>

lemma subarray_nat: "a \<le> b \<Longrightarrow> subarray (int a) (int b) v = take (b - a) (drop a v)"
proof -
  have "nat (int b - int a) = b - a" by linarith
  then show "a \<le> b \<Longrightarrow> ?thesis" by (auto simp: subarray_def Let_def min_def)
qed

lemma get_slot_eq: "get_slot (Some i) r = take 32 (drop (32 * i) r)"
  using subarray_nat[of "i * 32" "i * 32 + 32" r] by (simp add: get_slot_def slot_def mult.commute)

lemma head_at:
  assumes "static_ok as" and "i < length as"
  shows "take 32 (drop (32 * i) (heads off as @ R)) =
    (if dynamic (as ! i) then int_bytes (int (off + length (tails (take i as)))) else arg_value (as ! i))"
  using assms
proof (induction as arbitrary: i off)
  case (Cons a as)
  have l: "\<not> dynamic a \<Longrightarrow> length (arg_value a) = 32" and ok: "static_ok as"
    using Cons.prems(1) by (auto simp: static_ok_def)
  show ?case
  proof (cases i)
    case 0
    then show ?thesis using l by simp
  next
    case (Suc j)
    then show ?thesis using Cons.IH[OF ok, of j] Cons.prems(2) l by (auto simp: add.assoc)
  qed
qed simp

lemma tails_split:
  assumes "i < length as" and "dynamic (as ! i)"
  shows "drop (length (tails (take i as))) (tails as) = arg_value (as ! i) @ tails (drop (Suc i) as)"
proof -
  have "tails (xs @ ys) = tails xs @ tails ys" for xs ys by (induction xs) simp_all
  moreover have "as = take i as @ as ! i # drop (Suc i) as" using assms(1) by (rule id_take_nth_drop)
  ultimately have "tails as = tails (take i as) @ arg_value (as ! i) @ tails (drop (Suc i) as)"
    using assms(2) by (metis tails_simps(2))
  then show ?thesis by simp
qed

text \<open>What a slot holds, and what is behind the offset it holds.\<close>

lemma slot_of_call:
  assumes "list_all (\<lambda>(t, p). typed_value t p) vs" and "i < length vs" and "vs ! i = (t, p)"
  shows "\<not> is_dynamic t \<Longrightarrow> get_slot (Some i) (enc_tuple (encoded vs)) = snd (enc_value t p)"
    and "is_dynamic t \<Longrightarrow> \<exists>off rest. get_slot (Some i) (enc_tuple (encoded vs)) = int_bytes (int off) \<and>
      drop off (enc_tuple (encoded vs)) = snd (enc_value t p) @ rest"
proof -
  let ?as = "arguments_of vs"
  have ok: "static_ok ?as" by (rule encoded_static_ok[OF assms(1)])
  have i: "i < length ?as" using assms(2) by (simp add: arguments_of_def)
  have a: "?as ! i = \<lparr>dynamic = is_dynamic t, arg_value = snd (enc_value t p)\<rparr>"
    using assms(2,3) by (simp add: arguments_of_def)
  have r: "enc_tuple (encoded vs) = heads (32 * length ?as) ?as @ tails ?as"
    by (simp add: spec_arguments[symmetric] enc_tuple_arguments)
  show "\<not> is_dynamic t \<Longrightarrow> get_slot (Some i) (enc_tuple (encoded vs)) = snd (enc_value t p)"
    using head_at[OF ok i] by (simp add: get_slot_eq r a)
  assume d: "is_dynamic t"
  let ?off = "32 * length ?as + length (tails (take i ?as))"
  have "drop ?off (enc_tuple (encoded vs)) = snd (enc_value t p) @ tails (drop (Suc i) ?as)"
    using tails_split[OF i] d by (simp add: r a length_heads[OF ok])
  moreover have "get_slot (Some i) (enc_tuple (encoded vs)) = int_bytes (int ?off)"
    using head_at[OF ok i] d by (simp add: get_slot_eq r a)
  ultimately show "\<exists>off rest. get_slot (Some i) (enc_tuple (encoded vs)) = int_bytes (int off) \<and>
      drop off (enc_tuple (encoded vs)) = snd (enc_value t p) @ rest" by blast
qed

section \<open>Numbers in a slot\<close>

lemma bytes_value_cons: "bytes_value (b # bs) = unat b * 256 ^ length bs + bytes_value bs"
proof -
  have "foldl (\<lambda>a b. 256 * a + unat b) x bs = x * 256 ^ length bs + foldl (\<lambda>a b. 256 * a + unat b) 0 bs"
    for x and bs :: "byte list"
  proof (induction bs rule: rev_induct)
    case (snoc c cs)
    then show ?case by (simp add: algebra_simps)
  qed simp
  from this[of "unat b"] show ?thesis by (simp add: bytes_value_def)
qed

lemma low_bytes_value:
  "int (bytes_value (map (\<lambda>k. word_of_int (n div 2 ^ (8 * k))) (rev [0..<m]))) = n mod 256 ^ m"
proof (induction m)
  case 0
  then show ?case by (simp add: bytes_value_def)
next
  case (Suc m)
  have e: "(2 :: int) ^ (8 * m) = 256 ^ m" "(2 :: int) ^ (m * 8) = 256 ^ m"
    by (simp_all add: power_mult mult.commute[of m])
  have "n mod 256 ^ Suc m = 256 ^ m * (n div 256 ^ m mod 256) + n mod 256 ^ m"
    using zmod_zmult2_eq[of 256 n "256 ^ m"] by (simp add: mult.commute)
  moreover have "int (unat (word_of_int k :: byte)) = k mod 256" for k :: int
    by (simp add: unat_eq_nat_uint uint_word_of_int)
  ultimately show ?case
    using Suc by (simp add: bytes_value_cons e algebra_simps)
qed

lemma drop_int_bytes: "m \<le> 32 \<Longrightarrow> drop (32 - m) (int_bytes n) = map (\<lambda>k. word_of_int (n div 2 ^ (8 * k))) (rev [0..<m])"
proof -
  assume m: "m \<le> 32"
  then have "rev [0..<32] = rev [m..<32] @ rev [0..<m]" using upt_add_eq_append[of 0 m "32 - m"] by simp
  then have "drop (32 - m) (rev [0..<32 :: nat]) = rev [0..<m]" using m by simp
  then show ?thesis by (simp only: int_bytes_def drop_map)
qed

lemma low_bytes: "m \<le> 32 \<Longrightarrow> int (bytes_value (drop (32 - m) (int_bytes n))) = n mod 256 ^ m"
  by (simp add: drop_int_bytes low_bytes_value)

lemma slot_drop: "drop k (get_slot (Some i) r) = take (32 - k) (drop (32 * i + k) r)"
  by (simp add: get_slot_eq drop_take add.commute)

lemma view_of_slot:
  assumes "get_slot (Some i) r = int_bytes n"
  shows "view_range (int (slot (Some i)) + 28) 4 r = Inr (drop 28 (int_bytes n))"
    and "view_range (int (slot (Some i)) + 31) 1 r = Inr (drop 31 (int_bytes n))"
    and "slot (Some i) + 31 < length r" and "r ! (slot (Some i) + 31) = int_bytes n ! 31"
proof -
  have s: "slot (Some i) = 32 * i" by (simp add: slot_def)
  have p: "int (32 * i) + 28 = int (32 * i + 28)" "int (32 * i) + 31 = int (32 * i + 31)" by simp_all
  have "min 32 (length r - 32 * i) = 32" using arg_cong[OF assms, of length] by (simp add: get_slot_eq)
  then have len: "32 * i + 32 \<le> length r" by linarith
  have d: "take (32 - k) (drop (32 * i + k) r) = drop k (int_bytes n)" for k
    using slot_drop[of k i r] assms by simp
  show "view_range (int (slot (Some i)) + 28) 4 r = Inr (drop 28 (int_bytes n))"
    unfolding s p view_range_def nat_int using len d[of 28] by (simp add: Prelude.slice_def)
  show "view_range (int (slot (Some i)) + 31) 1 r = Inr (drop 31 (int_bytes n))"
    unfolding s p view_range_def nat_int using len d[of 31] by (simp add: Prelude.slice_def)
  show "slot (Some i) + 31 < length r" using len by (simp add: s)
  have "int_bytes n ! 31 = take 32 (drop (32 * i) r) ! 31" using assms by (simp add: get_slot_eq)
  then show "r ! (slot (Some i) + 31) = int_bytes n ! 31" using len by (simp add: s)
qed

lemma sint_word_of_int:
  "- (2 ^ (LENGTH('a) - 1)) \<le> n \<Longrightarrow> n < 2 ^ (LENGTH('a) - 1) \<Longrightarrow> sint (word_of_int n :: 'a::len word) = n"
  by (simp add: sint_sbintrunc' signed_take_bit_int_eq_self)

lemma word_mod: "word_of_int (n mod 256 ^ m) = (word_of_int n :: 'a::len word)" if "LENGTH('a) = 8 * m"
proof -
  have "(256 :: int) ^ m = 2 ^ LENGTH('a)" by (simp add: that power_mult)
  then show ?thesis by (simp add: word_of_int_eq_iff take_bit_eq_mod)
qed

lemma view_numbers:
  assumes "get_slot (Some i) r = int_bytes n"
  shows "view_uint32 (int (slot (Some i)) + 28) r = Inr (n mod 2 ^ 32)"
    and "view_int32 (int (slot (Some i)) + 28) r = Inr (sint (word_of_int n :: 32 word))"
    and "getUint8 (Some i) r = Some (nat (n mod 256))"
    and "getInt8 (Some i) r = Inr (sint (word_of_int n :: byte))"
    and "getBool (Some i) r = (n mod 256 \<noteq> 0)"
proof -
  have 4: "int (bytes_value (drop 28 (int_bytes n))) = n mod 2 ^ 32" using low_bytes[of 4 n] by simp
  show "view_uint32 (int (slot (Some i)) + 28) r = Inr (n mod 2 ^ 32)"
    using view_of_slot(1)[OF assms] 4 by (simp add: view_uint32_def)
  have l: "int (bytes_value (drop 28 (int_bytes n))) = n mod 256 ^ 4" using low_bytes[of 4 n] by simp
  have "(of_nat (bytes_value (drop 28 (int_bytes n))) :: 32 word) = word_of_int (n mod 256 ^ 4)"
    by (metis of_int_of_nat_eq l)
  then show "view_int32 (int (slot (Some i)) + 28) r = Inr (sint (word_of_int n :: 32 word))"
    using view_of_slot(1)[OF assms] word_mod[of 4 n, where 'a = 32] by (simp add: view_int32_def)
  have d: "drop 31 (int_bytes n) = [word_of_int n]" using drop_int_bytes[of 1 n] by simp
  then have b: "int_bytes n ! 31 = word_of_int n"
    by (metis hd_drop_conv_nth length_int_bytes list.sel(1) numeral_less_iff semiring_norm(76,78,79,81))
  show "getUint8 (Some i) r = Some (nat (n mod 256))"
    using view_of_slot(3,4)[OF assms] b by (simp add: getUint8_def unat_eq_nat_uint uint_word_of_int)
  show "getInt8 (Some i) r = Inr (sint (word_of_int n :: byte))"
    using view_of_slot(2)[OF assms] d by (simp add: getInt8_def)
  show "getBool (Some i) r = (n mod 256 \<noteq> 0)"
  proof -
    have "word_of_int n = (0 :: byte) \<longleftrightarrow> n mod 256 = 0"
      using word_of_int_eq_iff[of n 0, where 'a = 8] by (simp add: take_bit_eq_mod)
    then show ?thesis using view_of_slot(3,4)[OF assms] b by (simp add: getBool_def)
  qed
qed

section \<open>Reading a value back\<close>

lemma getters_generic:
  assumes "length (get_slot (Some i) r) = 32"
  shows "list_all (\<lambda>(w, get). get L (Some i) r =
      bigNumber L (hex_encode (drop (32 - w div 8) (get_slot (Some i) r))) 16) uint_getters"
    and "list_all (\<lambda>(w, get). get L (Some i) r =
      res_bind (abi_decode L [''int'' @ show_nat w] (get_slot (Some i) r)) (\<lambda>x. Inr (bigNumber L x 10))) int_getters"
proof -
  have d: "subarray k 32 (get_slot (Some i) r) = drop (nat k) (get_slot (Some i) r)" if "0 \<le> k" "k \<le> 32" for k
    using subarray_nat[of "nat k" 32 "get_slot (Some i) r"] that assms by simp
  show "list_all (\<lambda>(w, get). get L (Some i) r =
      bigNumber L (hex_encode (drop (32 - w div 8) (get_slot (Some i) r))) 16) uint_getters"
    by (simp add: uint_getters_def getter_defs hex_uint_def d getUint256_def)
  show "list_all (\<lambda>(w, get). get L (Some i) r =
      res_bind (abi_decode L [''int'' @ show_nat w] (get_slot (Some i) r)) (\<lambda>x. Inr (bigNumber L x 10))) int_getters"
    by (simp add: int_getters_def getter_defs decoded_int_def show_nat.simps)
qed

lemma getters_complete:
  assumes "int_width w" and "32 < w"
  shows "w \<in> set (map fst uint_getters)" "w \<in> set (map fst int_getters)"
  using width_cases[OF assms(1)] assms(2) unfolding uint_getters_def int_getters_def by simp_all

fun read_ok :: "abi_lib \<Rightarrow> byte list \<Rightarrow> nat \<Rightarrow> argument_type \<Rightarrow> param \<Rightarrow> bool" where
  "read_ok L r i (UintT w) (PNum n) \<longleftrightarrow>
     (if w = 8 then getUint8 (Some i) r = Some (nat n)
      else if w = 16 then getUint16 (Some i) r = Inr n
      else if w = 24 then getUint24 (Some i) r = Inr n
      else if w = 32 then getUint32_at (Some i) r = Inr n
      else case map_of uint_getters w of None \<Rightarrow> False | Some get \<Rightarrow> get L (Some i) r = Some n)"
| "read_ok L r i (IntT w) (PNum n) \<longleftrightarrow>
     (if w = 8 then getInt8 (Some i) r = Inr n
      else if w = 16 then getInt16 (Some i) r = Inr n
      else if w = 24 then getInt24 (Some i) r = Inr n
      else if w = 32 then getInt32 (Some i) r = Inr n
      else case map_of int_getters w of None \<Rightarrow> False | Some get \<Rightarrow> get L (Some i) r = Inr (Some n))"
| "read_ok L r i BoolT (PBool b) \<longleftrightarrow> getBool (Some i) r = b"
| "read_ok L r i AddressT (PBytes b) \<longleftrightarrow> getAddress (Some i) r = hex_encode b"
| "read_ok L r i Bytes32T (PBytes b) \<longleftrightarrow> getBytes32 (Some i) r = b"
| "read_ok L r i BytesT (PBytes b) \<longleftrightarrow> getBytes (Some i) r = Inr b"
| "read_ok L r i StringT (PText s) \<longleftrightarrow> getString (Some i) r = Inr s"
| "read_ok L r i _ _ \<longleftrightarrow> False"

lemma small_width: "int_width w \<Longrightarrow> \<not> 32 < w \<Longrightarrow> w \<in> {8, 16, 24, 32}"
  using width_cases[of w] by auto

lemma uint_read:
  assumes "abi_ok L" and "int_width w" and "0 \<le> n" and "n < 2 ^ w"
    and "get_slot (Some i) r = int_bytes n"
  shows "read_ok L r i (UintT w) (PNum n)"
proof (cases "32 < w")
  case True
  have len: "length (get_slot (Some i) r) = 32" by (simp add: assms(5))
  obtain get where get: "map_of uint_getters w = Some get"
    using getters_complete(1)[OF assms(2) True] by (metis map_of_eq_None_iff not_Some_eq set_map)
  then have "get L (Some i) r = bigNumber L (hex_encode (drop (32 - w div 8) (int_bytes n))) 16"
    using getters_generic(1)[OF len, of L] map_of_SomeD[OF get] by (auto simp: list_all_iff assms(5))
  moreover obtain m where m: "w = 8 * m" "0 < m" "m \<le> 32" using assms(2) True by (auto simp: int_width_def)
  have "n mod 256 ^ m = n" using assms(3,4) m by (simp add: power_mult)
  then have "int (bytes_value (drop (32 - w div 8) (int_bytes n))) = n"
    using low_bytes[of m n] m by simp
  moreover have "drop (32 - w div 8) (int_bytes n) \<noteq> []" using m by simp
  ultimately have "get L (Some i) r = Some n" using assms(1) by (simp add: abi_ok_def)
  then show ?thesis using True get by auto
next
  case False
  have "(2 :: int) ^ w \<le> 2 ^ 32" using False by (intro power_increasing) auto
  then have 32: "n mod 2 ^ 32 = n" using assms(3,4) by simp
  have 8: "n mod 256 = n" if "w = 8" using assms(3,4) that by simp
  show ?thesis
    using small_width[OF assms(2) False] view_numbers[OF assms(5)] 32 8
    by (auto simp: getUint16_def getUint24_def getUint32_at_def)
qed

lemma int_read:
  assumes "abi_ok L" and "int_width w" and "in_range (IntT w) n" and "get_slot (Some i) r = int_bytes n"
  shows "read_ok L r i (IntT w) (PNum n)"
proof (cases "32 < w")
  case True
  have len: "length (get_slot (Some i) r) = 32" by (simp add: assms(4))
  obtain get where get: "map_of int_getters w = Some get"
    using getters_complete(2)[OF assms(2) True] by (metis map_of_eq_None_iff not_Some_eq set_map)
  then have "get L (Some i) r = res_bind (abi_decode L [''int'' @ show_nat w] (int_bytes n)) (\<lambda>x. Inr (bigNumber L x 10))"
    using getters_generic(2)[OF len, of L] map_of_SomeD[OF get] by (auto simp: list_all_iff assms(4))
  also have "\<dots> = Inr (Some n)" using assms(1-3) unfolding abi_ok_def by simp
  finally show ?thesis using True get by auto
next
  case False
  have w: "w \<in> {8, 16, 24, 32}" by (rule small_width[OF assms(2) False])
  then have "(2 :: int) ^ (w - 1) \<le> 2 ^ 31" by auto
  then have 32: "sint (word_of_int n :: 32 word) = n"
    using assms(3) by (intro sint_word_of_int) auto
  have 8: "sint (word_of_int n :: byte) = n" if "w = 8"
    using assms(3) that by (intro sint_word_of_int) auto
  show ?thesis
    using w view_numbers[OF assms(4)] 32 8 by (auto simp: getInt16_def getInt24_def getInt32_def)
qed

lemma sized_read:
  assumes "get_slot (Some i) r = int_bytes (int off)" and "drop off r = sized_spec b @ rest" and "length r < 2 ^ 31"
  shows "getBytes (Some i) r = Inr b"
proof -
  have len: "off + 32 + length b \<le> length r"
    using arg_cong[OF assms(2), of length] by (simp add: sized_spec_def)
  have s: "sint (word_of_int (int k) :: 32 word) = int k" if "k < 2 ^ 31" for k
    using that by (intro sint_word_of_int) auto
  have off: "getInt32 (Some i) r = Inr (int off)"
    using view_numbers(2)[OF assms(1)] s[of off] len assms(3) by (simp add: getInt32_def)
  have b: "length b < 2 ^ 32" using len assms(3) by simp
  have "take 4 (drop (off + 28) r) = u32_bytes (length b)"
  proof -
    have "drop (off + 28) r = drop 28 (drop off r)" by (simp add: add.commute)
    then show ?thesis using assms(2) by (simp add: sized_spec_def int_bytes_small[OF b])
  qed
  then have "view_range (int (off + 28)) 4 r = Inr (u32_bytes (length b))"
    unfolding view_range_def nat_int using len by (simp add: Prelude.slice_def)
  then have l: "view_int32 (int off + 28) r = Inr (int (length b))"
    using s[of "length b"] len assms(3) b
    by (simp add: view_int32_def bytes_value_u32)
  have "subarray (int off + 32) (int off + 32 + int (length b)) r = take (length b) (drop (off + 32) r)"
    using subarray_nat[of "off + 32" "off + 32 + length b" r] by simp
  also have "drop (off + 32) r = drop 32 (drop off r)" by (simp add: add.commute)
  finally have "subarray (int off + 32) (int off + 32 + int (length b)) r = b"
    using assms(2) by (simp add: sized_spec_def)
  then show ?thesis by (simp add: getBytes_def off l)
qed


lemma value_read:
  assumes "abi_ok L" and "value_ok y p" and "list_all scalar_value (text_of p)"
    and "\<not> variable_length y \<Longrightarrow> get_slot (Some i) r = enc_scalar y p"
    and "variable_length y \<Longrightarrow> \<exists>off rest. get_slot (Some i) r = int_bytes (int off) \<and>
      drop off r = enc_scalar y p @ rest"
    and "length r < 2 ^ 31"
  shows "read_ok L r i y p"
proof -
  have slot: "getBytes32 (Some i) r = get_slot (Some i) r" by (simp add: getBytes32_def get_slot_def)
  have bool: "getBool (Some i) r = b" if "y = BoolT" "p = PBool b" for b
    using assms(4) that view_numbers(5)[of i r "if b then 1 else 0"] by (cases b) (auto simp: variable_length_def)
  have addr: "getAddress (Some i) r = hex_encode b" if "y = AddressT" "p = PBytes b" "length b = 20" for b
  proof -
    have "drop 12 (get_slot (Some i) r) = b" using assms(4) that by (simp add: variable_length_def)
    then have "take 20 (drop (32 * i + 12) r) = b" by (simp add: slot_drop)
    then show ?thesis using subarray_nat[of "32 * i + 12" "32 * i + 32" r]
      by (simp add: getAddress_def slot_def mult.commute add.commute)
  qed
  have bytes: "getBytes (Some i) r = Inr b" if "variable_length y" "enc_scalar y p = sized_spec b" for b
    using assms(5)[OF that(1)] sized_read[OF _ _ assms(6)] that(2) by metis
  show ?thesis
  proof (cases y)
    case (UintT w)
    then obtain n where "p = PNum n" "int_width w" "0 \<le> n" "n < 2 ^ w" using assms(2) by (cases p) auto
    then show ?thesis using UintT assms(4) uint_read[OF assms(1)] by (simp add: variable_length_def del: read_ok.simps)
  next
    case (IntT w)
    then obtain n where "p = PNum n" "int_width w" "in_range (IntT w) n" using assms(2) by (cases p) auto
    then show ?thesis using IntT assms(4) int_read[OF assms(1)] by (simp add: variable_length_def del: read_ok.simps in_range.simps)
  next
    case StringT
    then obtain s where "p = PText s" using assms(2) by (cases p) auto
    then show ?thesis using StringT assms(3) bytes[of "utf8_encode s"]
      by (simp add: getString_def utf8_round_trip variable_length_def)
  next
    case BoolT
    then show ?thesis using bool assms(2) by (cases p) auto
  next
    case BytesT
    then show ?thesis using bytes assms(2) by (cases p) (auto simp: variable_length_def)
  next
    case Bytes32T
    then show ?thesis using slot assms(2,4) by (cases p) (auto simp: variable_length_def)
  next
    case AddressT
    then show ?thesis using addr assms(2) by (cases p) auto
  next
    case FuncT
    then show ?thesis using assms(2) by (cases p) auto
  qed
qed

text \<open>C9: Each value that is added to a call and is no array is read back from the built parameters by the
  getter of its type at its index: integers of every width, booleans, addresses, bytes and text.\<close>

theorem values_read_back:
  assumes "abi_ok L" and "list_all (\<lambda>(t, p). call_value t p) vs"
    and "list_all (\<lambda>(t, p). list_all scalar_value (text_of p)) vs"
    and "length (enc_tuple (encoded vs)) < 2 ^ 31"
    and "i < length vs" and "vs ! i = (t, p)" and "\<not> is_array t"
  shows "\<exists>c r. add_values L vs new_parameters = (None, c) \<and> cf_build None c = Some (Inr r, c) \<and>
    read_ok L r i (ty t) p"
proof -
  let ?r = "enc_tuple (encoded vs)"
  have small: "length ?r < 2 ^ 32 - 32" using assms(4) by simp
  have ty: "typed_value t p" and pts: "list_all scalar_value (text_of p)"
    using assms(2,3,5,6) by (auto simp: list_all_length call_value_def split: prod.splits)
  note at = slot_of_call[OF call_typed[OF assms(2)] assms(5,6)]
  have ev: "snd (enc_value t p) = enc_scalar (ty t) p" using assms(7) by (simp add: enc_value_def)
  have vo: "value_ok (ty t) p" using ty assms(7) by (simp add: typed_value_def)
  have "read_ok L ?r i (ty t) p"
  proof (rule value_read[OF assms(1) vo pts])
    show "\<not> variable_length (ty t) \<Longrightarrow> get_slot (Some i) ?r = enc_scalar (ty t) p"
      using at(1) assms(7) by (simp add: is_dynamic_def ev)
    show "variable_length (ty t) \<Longrightarrow> \<exists>off rest. get_slot (Some i) ?r = int_bytes (int off) \<and>
      drop off ?r = enc_scalar (ty t) p @ rest"
      using at(2) by (simp add: is_dynamic_def ev)
  qed (rule assms(4))
  then show ?thesis using built_values[OF assms(1,2) small] by blast
qed

end
