(* ===== verification/AbiSample.thy ===== *)
theory AbiSample
  imports AbiRead
begin

text \<open>
  A concrete library with what is assumed of the packages (\<open>abi_ok\<close>), and the theorems about calls
  applied to it.
\<close>

section \<open>Integers as text\<close>

definition read_signed_hex :: "string \<Rightarrow> int" where
  "read_signed_hex s =
     (if take 1 s = ''-'' then - int (hex_digits_value 0 (drop 3 s)) else int (hex_digits_value 0 (drop 2 s)))"

definition read_type :: "string \<Rightarrow> argument_type" where
  "read_type s = (if take 4 s = ''uint'' then UintT (dec_val (drop 4 s)) else IntT (dec_val (drop 3 s)))"

definition sample_decode :: "string \<Rightarrow> byte list \<Rightarrow> string" where
  "sample_decode t bs =
     (let v = int (bytes_value bs)
      in show_int (if take 4 t \<noteq> ''uint'' \<and> 2 ^ 255 \<le> v then v - 2 ^ 256 else v))"

definition sample_number :: "string \<Rightarrow> nat \<Rightarrow> int" where
  "sample_number s base =
     (if base = 16 then int (hex_digits_value 0 s)
      else if take 1 s = ''-'' then - int (dec_val (drop 1 s)) else int (dec_val s))"

definition sample_abi :: abi_lib where
  "sample_abi =
     \<lparr>toString16 = (\<lambda>n. if n < 0 then ''-'' @ show_hex (nat (- n)) else show_hex (nat n)),
      abi_encode = (\<lambda>ts vs.
        let n = read_signed_hex (hd vs)
        in if in_range (read_type (hd ts)) n then Inr (''0x'' @ hex_encode (int_bytes n))
           else Inl (Error ''value out-of-bounds'')),
      arrayify = hex_decode,
      abi_decode = (\<lambda>ts bs. Inr (sample_decode (hd ts) bs)),
      bigNumber = (\<lambda>s base. Some (sample_number s base))\<rparr>"

lemma hex_digits_append:
  "list_all (\<lambda>c. hex_val c \<noteq> None) s \<Longrightarrow>
     hex_digits_value a (s @ t) = hex_digits_value (hex_digits_value a s) t"
  by (induction s arbitrary: a) (auto split: option.splits)

lemma hex_digits_show: "hex_digits_value 0 (show_hex n) = n \<and> list_all (\<lambda>c. hex_val c \<noteq> None) (show_hex n)"
proof (induction n rule: show_hex.induct)
  case (1 n)
  then show ?case
    by (subst (1 2) show_hex.simps) (auto simp: hex_digit_val hex_digits_append)
qed

lemma hex_digits_bytes: "hex_digits_value 0 (hex_encode bs) = bytes_value bs \<and> list_all (\<lambda>c. hex_val c \<noteq> None) (hex_encode bs)"
proof (induction bs rule: rev_induct)
  case Nil
  then show ?case by (simp add: hex_encode_def bytes_value_def)
next
  case (snoc b bs)
  have e: "hex_encode (bs @ [b]) = hex_encode bs @ byteToHex b" by (simp add: hex_encode_def)
  have "16 * (16 * v + unat b div 16) + unat b mod 16 = 256 * v + unat b" for v by simp
  then show ?case
    using snoc unat_byte_split[of b]
    by (simp add: e hex_digits_append byteToHex_def hex_digit_val bytes_value_snoc)
qed

lemma read_signed_hex: "read_signed_hex (signed_hex n) = n"
  using hex_digits_show by (simp add: read_signed_hex_def signed_hex_def)

lemma read_type_name: "integer_type t \<Longrightarrow> read_type (argument_type_name t) = t"
  by (cases t) (simp_all add: read_type_def)

lemma show_nat_sign: "take 1 (show_nat n) \<noteq> ''-''"
  using show_nat_digit[of "CHR ''-''" n] by (cases "show_nat n") (auto simp: is_digit_def code_of_def)

lemma sample_decimal: "sample_number (show_int n) 10 = n"
  using show_nat_sign[of "nat n"] by (simp add: sample_number_def show_int_def)

lemma sample_decode_int:
  assumes "int_width w" and "in_range (IntT w) n"
  shows "sample_decode (''int'' @ show_nat w) (int_bytes n) = show_int n"
proof -
  have "w - 1 \<le> 255" using assms(1) by (auto simp: int_width_def)
  then have "(2 :: int) ^ (w - 1) \<le> 2 ^ 255" by (intro power_increasing) simp_all
  then have n: "- (2 ^ 255) \<le> n" "n < 2 ^ 255" using assms(2) by simp_all
  have v: "int (bytes_value (int_bytes n)) = n mod 2 ^ 256"
    using low_bytes[of 32 n] by simp
  have "n mod 2 ^ 256 = (if n < 0 then n + 2 ^ 256 else n)"
  proof (cases "n < 0")
    case True
    have "(n + 2 ^ 256) mod 2 ^ 256 = n + 2 ^ 256" using n True by (intro mod_pos_pos_trivial) simp_all
    then show ?thesis using True by simp
  next
    case False
    then show ?thesis using n by (simp add: mod_pos_pos_trivial)
  qed
  then have "(if 2 ^ 255 \<le> n mod 2 ^ 256 then n mod 2 ^ 256 - 2 ^ 256 else n mod 2 ^ 256) = n"
    using n by auto
  moreover have "(take 4 (''int'' @ show_nat w) \<noteq> ''uint'') = True" by simp
  ultimately show ?thesis unfolding sample_decode_def Let_def v by (simp only: simp_thms)
qed

lemma sample_abi_ok: "abi_ok sample_abi"
proof -
  have "arrayify sample_abi (''0x'' @ hex_encode b) = b" for b
    using decode_0x_encode[of b] by (simp add: sample_abi_def)
  moreover have "bigNumber sample_abi (hex_encode bs) 16 = Some (int (bytes_value bs))" for bs
    using hex_digits_bytes[of bs] by (simp add: sample_abi_def sample_number_def)
  moreover have "abi_encode sample_abi [argument_type_name t] [signed_hex n] =
      (if in_range t n then Inr (''0x'' @ hex_encode (int_bytes n)) else Inl (Error ''value out-of-bounds''))"
    if "integer_type t" for t n
    using that by (simp add: sample_abi_def read_signed_hex read_type_name)
  moreover have "abi_decode sample_abi [''int'' @ show_nat w] (int_bytes n) = Inr (show_int n)"
    if "int_width w" "in_range (IntT w) n" for w n
    using sample_decode_int[OF that] by (simp add: sample_abi_def)
  moreover have "bigNumber sample_abi (show_int n) 10 = Some n" for n
    using sample_decimal by (simp add: sample_abi_def)
  moreover have "toString16 sample_abi n = (if n < 0 then ''-'' @ show_hex (nat (- n)) else show_hex (nat n))" for n
    by (simp add: sample_abi_def)
  ultimately show ?thesis unfolding abi_ok_def by (intro conjI allI impI) simp_all
qed

section \<open>A call\<close>

text \<open>A call with a number, a text, an array and an address.\<close>

definition sample_values :: "(solidity_type \<times> param) list" where
  "sample_values =
     [(\<lparr>ty = UintT 256, is_array = False\<rparr>, PNum 1000), (\<lparr>ty = StringT, is_array = False\<rparr>, PText [72, 105]),
      (\<lparr>ty = IntT 16, is_array = True\<rparr>, PArr [PNum (- 1), PNum 7]),
      (\<lparr>ty = AddressT, is_array = False\<rparr>, PBytes (replicate 20 5))]"

lemma sample_facts:
  "list_all (\<lambda>(t, p). call_value t p) sample_values"
  "list_all (\<lambda>(t, p). list_all scalar_value (text_of p)) sample_values"
  "length (enc_tuple (encoded sample_values)) = 288"
  by (simp_all add: sample_values_def call_value_def typed_value_def int_width_def scalar_value_def
      enc_tuple_def encoded_def enc_value_def variable_length_def sized_spec_def utf8_encode_def encode_point_def)


lemma failed_add_keeps_type_witness:
  "\<exists>e c'. add_value sample_abi \<lparr>ty = UintT 8, is_array = False\<rparr> (PNum 256) new_parameters = (Some e, c') \<and>
    cf_arguments c' = [] \<and> sel_paramTypes (cf_selector c') = [\<lparr>ty = UintT 8, is_array = False\<rparr>] \<and>
    sel_params (cf_selector c') = ''uint8''"
  using failed_add_keeps_type[OF sample_abi_ok, of "UintT 8" 256 new_parameters]
  by (simp add: int_width_def new_parameters_def new_selector_def selector_ok_def solidityTypeToString_def show_nat.simps)

lemma values_read_back_witness:
  "\<exists>c r. add_values sample_abi sample_values new_parameters = (None, c) \<and> cf_build None c = Some (Inr r, c) \<and>
    getString (Some 1) r = Inr [72, 105]"
  using values_read_back[OF sample_abi_ok sample_facts(1,2), of 1 "\<lparr>ty = StringT, is_array = False\<rparr>" "PText [72, 105]"]
  by (simp add: sample_facts(3)) (simp add: sample_values_def)

end
