(* ===== verification/Hbars.thy ===== *)
theory Hbars
  imports AccountIds Utf8
begin

text \<open>
  Amounts of the currency: \<open>src/Hbar.js\<close>, \<open>src/HbarUnit.js\<close> and \<open>src/long.js\<close>. The
  \<open>bignumber.js\<close> package is not part of the repository: reading and printing a number are
  parameters (a \<open>big_lib\<close>), its value is a rational and its arithmetic, which is exact for the
  operands here, that of the rationals. A value that is not a number is \<open>None\<close>; the negative zero
  of the package is not told apart from zero.
\<close>

section \<open>Units\<close>

datatype hbar_unit = Tinybar | Microbar | Millibar | HbarUnit | Kilobar | Megabar | Gigabar

definition units :: "hbar_unit list" where
  "units = [HbarUnit, Tinybar, Microbar, Millibar, Kilobar, Megabar, Gigabar]"

fun unit_name :: "hbar_unit \<Rightarrow> string" where
  "unit_name Tinybar = ''tinybar''"
| "unit_name Microbar = ''microbar''"
| "unit_name Millibar = ''millibar''"
| "unit_name HbarUnit = ''hbar''"
| "unit_name Kilobar = ''kilobar''"
| "unit_name Megabar = ''megabar''"
| "unit_name Gigabar = ''gigabar''"

text \<open>The sign of the currency is code point 8463, the micro sign 956.\<close>

fun unit_symbol :: "hbar_unit \<Rightarrow> text_points" where
  "unit_symbol Tinybar = [116, 8463]"
| "unit_symbol Microbar = [956, 8463]"
| "unit_symbol Millibar = [109, 8463]"
| "unit_symbol HbarUnit = [8463]"
| "unit_symbol Kilobar = [107, 8463]"
| "unit_symbol Megabar = [77, 8463]"
| "unit_symbol Gigabar = [71, 8463]"

fun unit_tinybar :: "hbar_unit \<Rightarrow> int" where
  "unit_tinybar Tinybar = 1"
| "unit_tinybar Microbar = 100"
| "unit_tinybar Millibar = 100000"
| "unit_tinybar HbarUnit = 100000000"
| "unit_tinybar Kilobar = 1000 * 100000000"
| "unit_tinybar Megabar = 1000000 * 100000000"
| "unit_tinybar Gigabar = 1000000000 * 100000000"

definition unit_fromString :: "text_points \<Rightarrow> hbar_unit result" where
  "unit_fromString t =
     (case List.find (\<lambda>u. t = unit_symbol u) units of
        Some u \<Rightarrow> Inr u
      | None \<Rightarrow> Inl (Error ''Unknown unit.''))"

section \<open>Amounts\<close>

record big_lib =
  bigOf :: "text_points \<Rightarrow> rat option"
  bigText :: "rat \<Rightarrow> text_points"
  bigFixed :: "rat \<Rightarrow> text_points"

datatype amount =
    AmountNumber rat
  | AmountText text_points
  | AmountLong long
  | AmountBig "rat option"
  | AmountObject

type_synonym hbar = int

definition valueToLong :: "big_lib \<Rightarrow> amount \<Rightarrow> rat option" where
  "valueToLong B v =
     (case v of
        AmountBig x \<Rightarrow> x
      | AmountNumber x \<Rightarrow> Some x
      | AmountText t \<Rightarrow> bigOf B t
      | AmountLong n \<Rightarrow> Some (of_int (sint n))
      | AmountObject \<Rightarrow> None)"

definition hbar_value :: "big_lib \<Rightarrow> amount \<Rightarrow> hbar_unit \<Rightarrow> rat option" where
  "hbar_value B v u =
     (if u = Tinybar then valueToLong B v
      else map_option (\<lambda>x. x * of_int (unit_tinybar u))
             (case v of
                AmountLong n \<Rightarrow> Some (of_int (sint n))
              | AmountBig x \<Rightarrow> x
              | AmountText t \<Rightarrow> bigOf B t
              | AmountNumber x \<Rightarrow> Some x
              | AmountObject \<Rightarrow> Some 0))"

definition hbar_new :: "big_lib \<Rightarrow> amount \<Rightarrow> hbar_unit \<Rightarrow> hbar result" where
  "hbar_new B v u =
     (case hbar_value B v u of
        None \<Rightarrow> Inl (Error ''Hbar in tinybars contains decimals'')
      | Some x \<Rightarrow> if of_int \<lfloor>x\<rfloor> = x then Inr \<lfloor>x\<rfloor> else Inl (Error ''Hbar in tinybars contains decimals''))"

definition hbar_from :: "big_lib \<Rightarrow> amount \<Rightarrow> hbar_unit \<Rightarrow> hbar result" where
  "hbar_from B v u = hbar_new B v u"

text \<open>
  The pattern of \<open>fromString\<close>: an optional sign, digits, an optional fraction; then the end, or a
  space and a symbol. No digit and no dot can start what follows, so the longest runs are the only match.
\<close>

definition is_digit_point :: "nat \<Rightarrow> bool" where
  "is_digit_point c \<longleftrightarrow> 48 \<le> c \<and> c \<le> 57"

definition points_value :: "text_points \<Rightarrow> nat" where
  "points_value t = foldl (\<lambda>a c. 10 * a + (c - 48)) 0 t"

definition number_pattern :: "text_points \<Rightarrow> (rat \<times> text_points) option" where
  "number_pattern t =
     (let neg = (t \<noteq> [] \<and> hd t = 45);
          s = (if t \<noteq> [] \<and> (hd t = 43 \<or> hd t = 45) then tl t else t);
          ds = takeWhile is_digit_point s; r = dropWhile is_digit_point s;
          fs = (if r \<noteq> [] \<and> hd r = 46 then takeWhile is_digit_point (tl r) else []);
          x = of_nat (points_value ds) + of_nat (points_value fs) / 10 ^ length fs
      in if ds = [] then None
         else Some (if neg then - x else x, if fs = [] then r else dropWhile is_digit_point (tl r)))"

definition hbar_fromString :: "big_lib \<Rightarrow> text_points \<Rightarrow> hbar_unit \<Rightarrow> hbar result" where
  "hbar_fromString B str u =
     (let amount = takeWhile (\<lambda>c. c \<noteq> 32) str;
          invalid = Inl (Error ''invalid argument provided'')
      in case number_pattern str of
           None \<Rightarrow> invalid
         | Some (_, []) \<Rightarrow> hbar_new B (AmountBig (bigOf B amount)) u
         | Some (_, c # symbol) \<Rightarrow>
             if c = 32 \<and> symbol \<in> set (map unit_symbol units)
             then res_bind (unit_fromString symbol) (\<lambda>v. hbar_new B (AmountBig (bigOf B amount)) v)
             else invalid)"

definition fromTinybars :: "big_lib \<Rightarrow> amount \<Rightarrow> hbar result" where
  "fromTinybars B v =
     (case v of AmountText t \<Rightarrow> hbar_fromString B t Tinybar | _ \<Rightarrow> hbar_new B v Tinybar)"

definition hbar_to :: "hbar_unit \<Rightarrow> hbar \<Rightarrow> rat" where
  "hbar_to u h = of_int h / of_int (unit_tinybar u)"

definition toBigNumber :: "hbar \<Rightarrow> rat" where
  "toBigNumber h = hbar_to HbarUnit h"

definition toTinybars :: "long_lib \<Rightarrow> big_lib \<Rightarrow> hbar \<Rightarrow> long" where
  "toTinybars L B h = fromText L (map char_of (bigFixed B (of_int h)))"

definition hbar_negated :: "big_lib \<Rightarrow> hbar \<Rightarrow> hbar result" where
  "hbar_negated B h = fromTinybars B (AmountBig (Some (- of_int h)))"

definition hbar_isNegative :: "hbar \<Rightarrow> bool" where
  "hbar_isNegative h \<longleftrightarrow> h < 0"

definition hbar_toString :: "big_lib \<Rightarrow> hbar_unit option \<Rightarrow> hbar \<Rightarrow> text_points" where
  "hbar_toString B u h =
     (case u of
        Some v \<Rightarrow> bigText B (of_int h / of_int (unit_tinybar v)) @ 32 # unit_symbol v
      | None \<Rightarrow>
          if h < 10000 \<and> h > - 10000 then bigFixed B (of_int h) @ 32 # unit_symbol Tinybar
          else bigText B (hbar_to HbarUnit h) @ 32 # unit_symbol HbarUnit)"

section \<open>What the package promises\<close>

text \<open>
  Decimal text is read exactly, an integer prints as its digits, and a number between \<open>10 ^ -7\<close> and
  \<open>10 ^ 21\<close> that has at most 20 decimals prints in plain notation.
\<close>

definition plain_number :: "rat \<Rightarrow> bool" where
  "plain_number x \<longleftrightarrow>
     of_int \<lfloor>x * 10 ^ 20\<rfloor> = x * 10 ^ 20 \<and> (x = 0 \<or> 1 / 10 ^ 7 \<le> \<bar>x\<bar> \<and> \<bar>x\<bar> < 10 ^ 21)"

definition big_ok :: "big_lib \<Rightarrow> bool" where
  "big_ok B \<longleftrightarrow>
     (\<forall>t x. number_pattern t = Some (x, []) \<longrightarrow> bigOf B t = Some x) \<and>
     (\<forall>n. bigFixed B (of_int n) = map code_of (show_int n)) \<and>
     (\<forall>x. plain_number x \<longrightarrow> number_pattern (bigText B x) = Some (x, []))"

definition signed_text_ok :: "long_lib \<Rightarrow> bool" where
  "signed_text_ok L \<longleftrightarrow>
     (\<forall>n. - (2 ^ 63) \<le> n \<and> n < 2 ^ 63 \<longrightarrow> fromText L (show_int n) = word_of_int n)"

section \<open>Text and back\<close>

lemma digit_points: "list_all is_digit_point ds \<Longrightarrow> (r = [] \<or> \<not> is_digit_point (hd r)) \<Longrightarrow>
    takeWhile is_digit_point (ds @ r) = ds \<and> dropWhile is_digit_point (ds @ r) = r"
  by (induction ds) (cases r; simp)+

text \<open>A text that is a number altogether: what follows a space does not change how it is read.\<close>

lemma number_pattern_space:
  assumes "number_pattern t = Some (x, [])"
  shows "number_pattern (t @ 32 # u) = Some (x, 32 # u) \<and> 32 \<notin> set t"
proof -
  define s where "s = (if t \<noteq> [] \<and> (hd t = 43 \<or> hd t = 45) then tl t else t)"
  define ds r where "ds = takeWhile is_digit_point s" and "r = dropWhile is_digit_point s"
  define fs where "fs = (if r \<noteq> [] \<and> hd r = 46 then takeWhile is_digit_point (tl r) else [])"
  have p: "ds \<noteq> []" "(if fs = [] then r else dropWhile is_digit_point (tl r)) = []"
    and x: "x = (let v = of_nat (points_value ds) + of_nat (points_value fs) / 10 ^ length fs
                 in if t \<noteq> [] \<and> hd t = 45 then - v else v)"
    using assms unfolding number_pattern_def s_def[symmetric] Let_def ds_def[symmetric] r_def[symmetric] fs_def[symmetric]
    by (auto split: if_splits)
  have sr: "s = ds @ r" by (simp add: ds_def r_def)
  have d: "list_all is_digit_point ds" by (auto simp: ds_def list_all_iff dest: set_takeWhileD)
  have r: "r = [] \<and> fs = [] \<or> r = 46 # fs \<and> fs \<noteq> [] \<and> list_all is_digit_point fs"
  proof (cases "fs = []")
    case True
    then show ?thesis using p by simp
  next
    case False
    then have "r \<noteq> []" "hd r = 46" "fs = takeWhile is_digit_point (tl r)" by (auto simp: fs_def split: if_splits)
    moreover from this False p have "dropWhile is_digit_point (tl r) = []" by simp
    ultimately have "r = 46 # fs" "list_all is_digit_point fs"
      by (metis append.right_neutral list.collapse takeWhile_dropWhile_id,
          metis list_all_iff set_takeWhileD)
    then show ?thesis using False by blast
  qed
  have t: "t \<noteq> []" using p(1) sr s_def by (metis append_is_Nil_conv)
  have s': "(if t @ 32 # u \<noteq> [] \<and> (hd (t @ 32 # u) = 43 \<or> hd (t @ 32 # u) = 45) then tl (t @ 32 # u) else t @ 32 # u) = s @ 32 # u"
    using t by (simp add: s_def)
  have nd: "\<not> is_digit_point 46" "\<not> is_digit_point 32" by (simp_all add: is_digit_point_def)
  have dd: "takeWhile is_digit_point (s @ 32 # u) = ds" "dropWhile is_digit_point (s @ 32 # u) = r @ 32 # u"
    using digit_points[OF d, of "r @ 32 # u"] r nd by (auto simp: sr)
  have ff: "(if r @ 32 # u \<noteq> [] \<and> hd (r @ 32 # u) = 46 then takeWhile is_digit_point (tl (r @ 32 # u)) else []) = fs"
    and rest: "(if fs = [] then r @ 32 # u else dropWhile is_digit_point (tl (r @ 32 # u))) = 32 # u"
    using r digit_points[of fs "32 # u"] nd by auto
  have "number_pattern (t @ 32 # u) = Some (x, 32 # u)"
    unfolding number_pattern_def s' Let_def dd ff rest using p(1) x t by (simp add: Let_def)
  moreover have "32 \<notin> set ds" "32 \<notin> set fs" using d r by (auto simp: list_all_iff is_digit_point_def)
  then have "32 \<notin> set s" using r by (auto simp: sr)
  then have "32 \<notin> set t" by (cases t) (auto simp: s_def split: if_splits)
  ultimately show ?thesis by blast
qed

lemma takeWhile_space: "32 \<notin> set t \<Longrightarrow> takeWhile (\<lambda>c. c \<noteq> 32) (t @ (32 :: nat) # u) = t"
  by (induction t) auto

lemma unit_symbol_back: "unit_fromString (unit_symbol u) = Inr u" "unit_symbol u \<in> set (map unit_symbol units)"
  by (cases u; simp add: unit_fromString_def units_def)+

lemma hbar_parse:
  assumes "big_ok B" and "number_pattern t = Some (x, [])" and "x * of_int (unit_tinybar u) = of_int h"
  shows "hbar_fromString B (t @ 32 # unit_symbol u) v = Inr h"
proof -
  have "bigOf B t = Some x" using assms(1,2) by (auto simp: big_ok_def)
  moreover have "hbar_value B (AmountBig (Some x)) u = Some (of_int h)"
    using assms(3) by (cases "u = Tinybar") (simp_all add: hbar_value_def valueToLong_def)
  ultimately show ?thesis
    using number_pattern_space[OF assms(2), of "unit_symbol u"] unit_symbol_back[of u]
    by (simp add: hbar_fromString_def takeWhile_space hbar_new_def)
qed

lemma unit_tinybar_pos: "0 < unit_tinybar u" "unit_tinybar u \<le> 10 ^ 17" "unit_tinybar u dvd 10 ^ 20"
  by (cases u; simp)+

lemma plain_in_unit:
  assumes "h = 0 \<or> unit_tinybar u \<le> \<bar>h\<bar> * 10 ^ 7" and "\<bar>h\<bar> < 10 ^ 21"
  shows "plain_number (of_int h / of_int (unit_tinybar u))"
proof -
  let ?u = "unit_tinybar u"
  have u: "0 < ?u" by (rule unit_tinybar_pos)
  obtain k where k: "(10 :: int) ^ 20 = ?u * k" using unit_tinybar_pos(3)[of u] by (elim dvdE)
  have "(10 :: rat) ^ 20 = of_int (10 ^ 20)" by simp
  then have e: "(10 :: rat) ^ 20 = of_int ?u * of_int k" unfolding k by simp
  have "of_int h / of_int ?u * 10 ^ 20 = (of_int (h * k) :: rat)" unfolding e using u by simp
  then have "of_int \<lfloor>(of_int h / of_int ?u :: rat) * 10 ^ 20\<rfloor> = (of_int h / of_int ?u :: rat) * 10 ^ 20"
    by (metis floor_of_int)
  moreover have "h = 0 \<or> (1 / 10 ^ 7 :: rat) \<le> \<bar>of_int h / of_int ?u\<bar>"
  proof (cases "h = 0")
    case False
    then have "(of_int ?u :: rat) \<le> of_int (\<bar>h\<bar> * 10 ^ 7)" using assms(1) by (simp only: of_int_le_iff) simp
    then have "1 / 10 ^ 7 \<le> (of_int \<bar>h\<bar> :: rat) / of_int ?u" using u by (simp add: field_simps)
    then show ?thesis using u by (simp add: abs_divide)
  qed simp
  moreover have "\<bar>of_int h / of_int ?u :: rat\<bar> < 10 ^ 21"
  proof -
    have "(of_int \<bar>h\<bar> :: rat) < of_int (10 ^ 21)" using assms(2) by (simp only: of_int_less_iff)
    moreover have "(1 :: rat) \<le> of_int ?u" using u by simp
    ultimately have "(of_int \<bar>h\<bar> :: rat) / of_int ?u < 10 ^ 21"
      by (simp add: divide_less_eq)
    then show ?thesis using u by (simp add: abs_divide)
  qed
  ultimately show ?thesis by (auto simp: plain_number_def)
qed

lemma show_nat_points: "list_all is_digit_point (map code_of (show_nat n)) \<and> points_value (map code_of (show_nat n)) = n"
proof -
  have "list_all is_digit_point (map code_of (show_nat n))"
    using show_nat_digits[of n] by (auto simp: list_all_iff is_digit_point_def is_digit_def)
  moreover have "foldl (\<lambda>a c. 10 * a + (c - 48)) x (map code_of s) = foldl (\<lambda>a c. 10 * a + digit_val c) x s" for x s
    by (induction s arbitrary: x) (simp_all add: digit_val_def)
  then have "points_value (map code_of (show_nat n)) = dec_val (show_nat n)"
    by (simp only: points_value_def dec_val_def)
  ultimately show ?thesis by simp
qed

lemma show_int_pattern: "number_pattern (map code_of (show_int n)) = Some (of_int n, [])"
proof -
  define t where "t k = map code_of (show_nat k)" for k
  have d: "takeWhile is_digit_point (t k) = t k" "dropWhile is_digit_point (t k) = []" for k
    using digit_points[of "t k" "[]"] show_nat_points[of k] by (simp_all add: t_def)
  have v: "points_value (t k) = k" "t k \<noteq> []" for k using show_nat_points[of k] by (simp_all add: t_def)
  have "is_digit_point (hd (t k))" for k using show_nat_points[of k] by (cases "show_nat k") (auto simp: t_def)
  moreover have nd: "\<not> is_digit_point 45" "\<not> is_digit_point 43" by (simp_all add: is_digit_point_def)
  ultimately have hd: "hd (t k) \<noteq> 45" "hd (t k) \<noteq> 43" for k using nd by metis+
  have "map code_of (show_int n) = (if n < 0 then 45 # t (nat (- n)) else t (nat n))"
    by (simp add: show_int_def t_def code_of_def)
  then show ?thesis by (cases "n < 0") (simp_all add: number_pattern_def Let_def d hd v points_value_def[of "[]"])
qed

text \<open>An amount is read back from its text, printed with the unit the method chooses or in a
  given unit that is not more than ten million times larger; negating is exact, and the 64-bit
  number of tinybars is the amount when it fits.\<close>

theorem hbar_round_trips:
  assumes "big_ok B" and "signed_text_ok L" and "\<bar>h\<bar> < 10 ^ 21"
    and "h = 0 \<or> unit_tinybar u \<le> \<bar>h\<bar> * 10 ^ 7"
  shows "hbar_fromString B (hbar_toString B None h) v = Inr h \<and>
    hbar_fromString B (hbar_toString B (Some u) h) v = Inr h \<and> hbar_negated B h = Inr (- h) \<and>
    (- (2 ^ 63) \<le> h \<and> h < 2 ^ 63 \<longrightarrow> sint (toTinybars L B h) = h)"
proof -
  have pl: "number_pattern (bigText B x) = Some (x, [])" if "plain_number x" for x
    using assms(1) that by (auto simp: big_ok_def)
  have fx: "bigFixed B (of_int n) = map code_of (show_int n)" for n using assms(1) by (simp add: big_ok_def)
  have in_unit: "hbar_fromString B (hbar_toString B (Some w) h) v = Inr h" if "h = 0 \<or> unit_tinybar w \<le> \<bar>h\<bar> * 10 ^ 7" for w
    using hbar_parse[OF assms(1) pl[OF plain_in_unit[OF that assms(3)]], of w h v] unit_tinybar_pos(1)[of w]
    by (simp add: hbar_toString_def)
  have "hbar_fromString B (hbar_toString B None h) v = Inr h"
  proof (cases "h < 10000 \<and> h > - 10000")
    case True
    then show ?thesis
      using hbar_parse[OF assms(1) show_int_pattern, of h Tinybar h v] by (simp add: hbar_toString_def fx)
  next
    case False
    then have "hbar_toString B None h = hbar_toString B (Some HbarUnit) h"
      by (auto simp: hbar_toString_def hbar_to_def)
    moreover have "unit_tinybar HbarUnit \<le> \<bar>h\<bar> * 10 ^ 7" using False by auto
    ultimately show ?thesis using in_unit[of HbarUnit] by simp
  qed
  moreover have "hbar_negated B h = Inr (- h)"
    by (simp add: hbar_negated_def fromTinybars_def hbar_new_def hbar_value_def valueToLong_def)
  moreover have "sint (toTinybars L B h) = h" if "- (2 ^ 63) \<le> h" "h < 2 ^ 63"
  proof -
    have "map char_of (map code_of (show_int h)) = show_int h" by (simp add: code_of_def comp_def)
    then show ?thesis using assms(2) that by (simp add: toTinybars_def fx signed_text_ok_def)
  qed
  ultimately show ?thesis using in_unit[OF assms(4)] by blast
qed

section \<open>A concrete package\<close>

text \<open>Numbers with twenty decimals.\<close>

definition sample_text :: "rat \<Rightarrow> text_points" where
  "sample_text x =
     (let n = nat \<lfloor>\<bar>x\<bar> * 10 ^ 20\<rfloor>
      in (if x < 0 then [45] else []) @ map code_of (show_nat (n div 10 ^ 20)) @ 46 #
         map code_of (padStart 20 CHR ''0'' (show_nat (n mod 10 ^ 20))))"

definition sample_big :: big_lib where
  "sample_big =
     \<lparr>bigOf = (\<lambda>t. case number_pattern t of Some (x, []) \<Rightarrow> Some x | _ \<Rightarrow> None),
      bigText = sample_text, bigFixed = (\<lambda>x. map code_of (show_int \<lfloor>x\<rfloor>))\<rparr>"

lemma points_value_dec: "points_value (map code_of s) = dec_val s"
proof -
  have "foldl (\<lambda>a c. 10 * a + (c - 48)) x (map code_of s) = foldl (\<lambda>a c. 10 * a + digit_val c) x s" for x
    by (induction s arbitrary: x) (simp_all add: digit_val_def)
  then show ?thesis by (simp only: points_value_def dec_val_def)
qed

lemma sample_text_back:
  assumes "of_int \<lfloor>x * 10 ^ 20\<rfloor> = x * 10 ^ 20"
  shows "number_pattern (sample_text x) = Some (x, [])"
proof -
  define n where "n = nat \<lfloor>\<bar>x\<bar> * 10 ^ 20\<rfloor>"
  define a b where "a = map code_of (show_nat (n div 10 ^ 20))"
    and "b = map code_of (padStart 20 CHR ''0'' (show_nat (n mod 10 ^ 20)))"
  have n: "of_nat n = \<bar>x\<bar> * 10 ^ 20"
  proof -
    have "\<bar>x\<bar> * 10 ^ 20 = \<bar>x * 10 ^ 20\<bar>" by (simp add: abs_mult)
    also have "\<dots> = of_int \<bar>\<lfloor>x * 10 ^ 20\<rfloor>\<bar>" unfolding of_int_abs assms by (rule refl)
    finally have e: "\<bar>x\<bar> * 10 ^ 20 = of_int \<bar>\<lfloor>x * 10 ^ 20\<rfloor>\<bar>" .
    have "n = nat \<bar>\<lfloor>x * 10 ^ 20\<rfloor>\<bar>" unfolding n_def e by (simp only: floor_of_int)
    then have "(of_nat n :: rat) = of_int \<bar>\<lfloor>x * 10 ^ 20\<rfloor>\<bar>" by simp
    then show ?thesis using e by simp
  qed
  have da: "list_all is_digit_point a" "a \<noteq> []" "points_value a = n div 10 ^ 20"
    using show_nat_points[of "n div 10 ^ 20"] by (simp_all add: a_def)
  have db: "list_all is_digit_point b" "b \<noteq> []"
    using padStart_digits[OF show_nat_digits, of 20 "n mod 10 ^ 20"]
    by (auto simp: b_def list_all_iff is_digit_point_def is_digit_def padStart_def)
  have vb: "points_value b = n mod 10 ^ 20"
    by (simp only: b_def points_value_dec dec_val_padStart dec_val_show_nat)
  have len: "length b = 20"
  proof -
    have "length (show_nat (n mod 10 ^ 20)) \<le> 20" by (intro length_show_nat) simp_all
    then show ?thesis by (simp add: b_def padStart_def)
  qed
  have hd: "hd a \<noteq> 43" "hd a \<noteq> 45" using da(1,2) by (cases a; auto simp: is_digit_point_def)+
  have run: "takeWhile is_digit_point (a @ 46 # b) = a" "dropWhile is_digit_point (a @ 46 # b) = 46 # b"
    "takeWhile is_digit_point b = b" "dropWhile is_digit_point b = []"
    using digit_points[OF da(1), of "46 # b"] digit_points[OF db(1), of "[]"] by (simp_all add: is_digit_point_def)
  have v: "of_nat (n div 10 ^ 20) + of_nat (n mod 10 ^ 20) / 10 ^ 20 = \<bar>x\<bar>"
  proof -
    have "(of_nat n :: rat) = of_nat (10 ^ 20 * (n div 10 ^ 20) + n mod 10 ^ 20)" by (simp only: mult_div_mod_eq)
    also have "\<dots> = 10 ^ 20 * of_nat (n div 10 ^ 20) + of_nat (n mod 10 ^ 20)"
      by (simp only: of_nat_add of_nat_mult of_nat_power of_nat_numeral)
    finally have "\<bar>x\<bar> * 10 ^ 20 = 10 ^ 20 * of_nat (n div 10 ^ 20) + of_nat (n mod 10 ^ 20)" using n by simp
    then show ?thesis by (simp add: field_simps)
  qed
  have "sample_text x = (if x < 0 then [45] else []) @ a @ 46 # b"
    unfolding sample_text_def Let_def n_def[symmetric] a_def[symmetric] b_def[symmetric] by (rule refl)
  then show ?thesis
    using v hd by (cases "x < 0") (simp_all add: number_pattern_def Let_def run da db vb len)
qed

lemma sample_big_ok: "big_ok sample_big"
  using sample_text_back by (simp add: big_ok_def sample_big_def plain_number_def)

definition signed_lib :: long_lib where
  "signed_lib =
     decimal_lib\<lparr>fromText := (\<lambda>s. if take 1 s = ''-'' then - of_nat (dec_val (drop 1 s)) else of_nat (dec_val s))\<rparr>"

lemma signed_lib_ok: "long_lib_ok signed_lib" "signed_text_ok signed_lib"
proof -
  have sign: "take 1 s \<noteq> ''-''" if "list_all is_digit s" for s
    using that by (cases s) (auto simp: is_digit_def code_of_def)
  show "long_lib_ok signed_lib"
    using decimal_lib_ok sign by (auto simp: long_lib_ok_def signed_lib_def decimal_lib_def)
  have m: "- (of_nat (nat (- n)) :: long) = word_of_int n" if "n < 0" for n
  proof -
    have "(of_nat (nat (- n)) :: long) = word_of_int (int (nat (- n)))" by (simp only: of_int_of_nat_eq)
    also have "int (nat (- n)) = - n" using that by simp
    finally show ?thesis by simp
  qed
  show "signed_text_ok signed_lib"
    using sign[OF show_nat_digits] m
    by (auto simp: signed_text_ok_def signed_lib_def show_int_def)
qed

lemma hbar_round_trips_witness:
  "hbar_fromString sample_big (hbar_toString sample_big None 123456789) Tinybar = Inr 123456789 \<and>
   sint (toTinybars signed_lib sample_big 123456789) = 123456789"
  using hbar_round_trips[OF sample_big_ok signed_lib_ok(2), of 123456789 Kilobar Tinybar] by simp

end
