(* ===== verification/Query.thy ===== *)
theory Query
  imports TxBuild Hbars Timestamps ExecuteLive
begin

text \<open>
  Queries, \<open>src/query/Query.js\<close>, and the question for their price, \<open>src/query/CostQuery.js\<close>. A query
  that must be paid asks a node for its price first, compares it with a limit and then attaches a
  payment, a transfer from the operator to the node, to every request it makes. What differs between
  queries is a \<open>query_ops\<close>; accounts and transaction IDs are type variables. Of the world a query
  sees the identifiers that \<open>TransactionId.generate\<close> returns, call by call, the draws with which nodes
  are chosen, and the run of the question for the price (\<open>query_env\<close>). Logging is left out, and with
  it the timestamp that only the log reads.
\<close>

section \<open>Data\<close>

datatype response_type = AnswerOnly | CostAnswer

record query_header =
  qh_payment :: "proto_tx option"
  qh_type :: "response_type option"

record response_header =
  rh_code :: "nat option"
  rh_cost :: amount

text \<open>The transfers of a payment: accounts with signed amounts.\<close>

type_synonym 'acc account_amounts = "('acc \<times> long) list"

record ('acc, 'tid) pay_lib =
  pay_proto :: "('acc, 'tid, 'acc account_amounts) proto_lib"
  pay_long :: long_lib
  pay_big :: big_lib

record ('acc, 'tid) query =
  q_paymentId :: "'tid option"
  q_payments :: "proto_tx list"
  q_payment :: "hbar option"
  q_maxPayment :: "hbar option"
  q_operator :: "'acc operator option"
  q_generated :: nat

record ('acc, 'tid, 'req, 'resp, 'out) query_ops =
  isPaymentRequired :: bool
  checkIds :: "unit result"
  responseHeader :: "'resp \<Rightarrow> response_header"
  onMakeRequest :: "query_header option \<Rightarrow> 'req"
  retryQuery :: "'resp \<Rightarrow> string \<times> exec_state"
  queryError :: "'tid option \<Rightarrow> 'resp \<Rightarrow> 'acc option \<Rightarrow> js_error"
  mapQueryResponse :: "'resp \<Rightarrow> 'out result"

record 'acc query_client =
  qc_operator :: "'acc operator option"
  qc_maxPayment :: hbar
  qc_validate :: bool

record ('acc, 'tid, 'resp) query_env =
  newId :: "nat \<Rightarrow> 'acc \<Rightarrow> 'tid"
  zeroAccount :: 'acc
  drawn :: "nat \<Rightarrow> (nat \<Rightarrow> rat) \<times> rat"
  cost_start :: rat
  cost_env :: "nat \<Rightarrow> 'resp attempt_env"

definition new_query :: "('acc, 'tid) query" where
  "new_query = \<lparr>q_paymentId = None, q_payments = [], q_payment = None, q_maxPayment = None,
     q_operator = None, q_generated = 0\<rparr>"

definition setQueryPayment :: "hbar \<Rightarrow> ('acc, 'tid) query \<Rightarrow> ('acc, 'tid) query" where
  "setQueryPayment h q = q\<lparr>q_payment := Some h\<rparr>"

definition setMaxQueryPayment :: "hbar \<Rightarrow> ('acc, 'tid) query \<Rightarrow> ('acc, 'tid) query" where
  "setMaxQueryPayment h q = q\<lparr>q_maxPayment := Some h\<rparr>"

definition setPaymentTransactionId :: "'tid \<Rightarrow> ('acc, 'tid) query \<Rightarrow> ('acc, 'tid) query" where
  "setPaymentTransactionId i q = q\<lparr>q_paymentId := Some i\<rparr>"

definition getTransactionId :: "'tid option \<Rightarrow> 'tid result" where
  "getTransactionId i =
     (case i of
        None \<Rightarrow> Inl (Error ''Query.PaymentTransactionId was not set duration execution'')
      | Some t \<Rightarrow> Inr t)"

section \<open>Steps that keep the state when they throw\<close>

definition st_bind :: "'a result \<times> 's \<Rightarrow> ('a \<Rightarrow> 's \<Rightarrow> 'b result \<times> 's) \<Rightarrow> 'b result \<times> 's" where
  "st_bind p f = (case p of (Inl e, s) \<Rightarrow> (Inl e, s) | (Inr a, s) \<Rightarrow> f a s)"

lemma st_bind_simps [simp]: "st_bind (Inl e, s) f = (Inl e, s)" "st_bind (Inr a, s) f = f a s"
  by (simp_all add: st_bind_def)

lemma st_bind_InrE:
  assumes "st_bind p f = (Inr b, t)"
  obtains a s where "p = (Inr a, s)" and "f a s = (Inr b, t)"
  using assms by (cases p; cases "fst p") auto

section \<open>Payments\<close>

definition payer :: "'acc \<Rightarrow> 'acc operator option \<Rightarrow> 'acc" where
  "payer zero op = (case op of None \<Rightarrow> zero | Some p \<Rightarrow> op_account p)"

definition payment_body ::
    "('acc, 'tid) pay_lib \<Rightarrow> 'tid \<Rightarrow> 'acc \<Rightarrow> 'acc account_amounts \<Rightarrow> ('acc, 'tid, 'acc account_amounts) tx_body" where
  "payment_body L i nodeId amounts =
     \<lparr>b_data = amounts, b_fee = Some (sint (toTinybars (pay_long L) (pay_big L) 100000000)), b_memo = '''',
      b_tid = Some i, b_node = Some nodeId, b_duration = Some 120\<rparr>"

definition makePaymentTransaction ::
    "('acc, 'tid) pay_lib \<Rightarrow> 'acc \<Rightarrow> 'tid \<Rightarrow> 'acc \<Rightarrow> 'acc operator option \<Rightarrow> hbar \<Rightarrow> proto_tx result" where
  "makePaymentTransaction L zero i nodeId op amount =
     res_bind (hbar_negated (pay_big L) amount) (\<lambda>neg.
       let amounts = [(payer zero op, toTinybars (pay_long L) (pay_big L) neg),
                      (nodeId, toTinybars (pay_long L) (pay_big L) amount)];
           s = \<lparr>sigPairs = None, bodyBytes = encBody (pay_proto L) (payment_body L i nodeId amounts)\<rparr>;
           s' = (case op of None \<Rightarrow> s | Some p \<Rightarrow> sign_one (op_key p) (op_signer p) s)
       in Inr (SignedBytes (encSigned (pay_proto L) s')))"

section \<open>Statuses\<close>

definition code_or_ok :: "nat option \<Rightarrow> nat" where
  "code_or_ok c = (case c of None \<Rightarrow> 0 | Some n \<Rightarrow> n)"

text \<open>
  The method of the base class; a code for which \<open>Status._fromCode\<close> throws is reported as an error.
\<close>

definition query_shouldRetry :: "response_header \<Rightarrow> string \<times> exec_state" where
  "query_shouldRetry h =
     (case status_fromCode (code_or_ok (rh_code h)) of
        Inl e \<Rightarrow> (''UNKNOWN'', ExecError)
      | Inr s \<Rightarrow> (status_toString s,
          if s \<in> set [12, 21, 69, 67] then Retry else if s = 0 then Finished else ExecError))"

definition precheck_error :: "'tid result \<Rightarrow> nat option \<Rightarrow> js_error" where
  "precheck_error i c =
     (case status_fromCode (code_or_ok c) of
        Inl e \<Rightarrow> e
      | Inr s \<Rightarrow> (case i of Inl e \<Rightarrow> e | Inr _ \<Rightarrow> StatusError (status_toString s)))"

definition query_mapStatusError :: "'tid option \<Rightarrow> response_header \<Rightarrow> js_error" where
  "query_mapStatusError i h = precheck_error (getTransactionId i) (rh_code h)"

section \<open>The question for the price\<close>

definition fill_nodes ::
    "('acc \<Rightarrow> string) \<Rightarrow> (nat \<Rightarrow> rat) \<times> rat \<Rightarrow> 'acc jslist \<Rightarrow> ('acc, 'ch) net
     \<Rightarrow> unit result \<times> 'acc jslist \<times> ('acc, 'ch) net" where
  "fill_nodes key d l N =
     (if \<not> list_isEmpty l then (Inr (), l, N)
      else case getNodeAccountIdsForExecute key (fst d) (snd d) N of
             Inl e \<Rightarrow> (Inl e, l, N)
           | Inr (ids, N1) \<Rightarrow>
               (case setList (map Some ids) l of
                  Inl e \<Rightarrow> (Inl e, l, N1)
                | Inr l1 \<Rightarrow> (Inr (), l1, N1)))"

text \<open>The executor with a step before the loop that keeps what it has changed when it throws.\<close>

definition execute_after ::
    "('acc, 'ch) client \<Rightarrow> ('acc, 'st, 'req, 'resp, 'out) request_ops
     \<Rightarrow> (('acc, 'ch, 'st, 'req) exec \<Rightarrow> unit result \<times> ('acc, 'ch, 'st, 'req) exec)
     \<Rightarrow> rat option \<Rightarrow> rat \<Rightarrow> (nat \<Rightarrow> 'resp attempt_env) \<Rightarrow> ('acc, 'ch, 'st, 'req) exec
     \<Rightarrow> 'out result \<times> ('acc, 'ch, 'st, 'req) exec" where
  "execute_after C P before timeout start env S =
     (let S1 = (case x_requestTimeout S of
                  None \<Rightarrow> S\<lparr>x_requestTimeout :=
                            (case timeout of None \<Rightarrow> client_requestTimeout C | Some t \<Rightarrow> Some t)\<rparr>
                | Some _ \<Rightarrow> S)
      in case before S1 of
           (Inl e, S2) \<Rightarrow> (Inl e, S2)
         | (Inr _, S2) \<Rightarrow> execute C P Inr timeout start env S2)"

record ('acc, 'tid) cost_query =
  cq_query :: "('acc, 'tid) query"
  cq_nodes :: "'acc jslist"
  cq_header :: "query_header option"
  cq_operator :: "'acc operator option"

definition no_operator_error :: js_error where
  "no_operator_error =
     Error ''`client` must have an `operator` or an explicit payment transaction must be provided''"

definition cost_beforeExecute ::
    "('acc, 'ch) client \<Rightarrow> 'acc query_client \<Rightarrow> ('acc, 'tid) pay_lib \<Rightarrow> ('acc, 'tid, 'resp) query_env
     \<Rightarrow> ('acc, 'ch, ('acc, 'tid) cost_query, 'req) exec
     \<Rightarrow> unit result \<times> ('acc, 'ch, ('acc, 'tid) cost_query, 'req) exec" where
  "cost_beforeExecute C K L V S =
     (case (case cq_operator (x_sub S) of None \<Rightarrow> qc_operator K | Some p \<Rightarrow> Some p) of
        None \<Rightarrow> (Inl no_operator_error, S)
      | Some op \<Rightarrow>
          (case fill_nodes (key_of C) (drawn V 2) (cq_nodes (x_sub S)) (x_net S) of
             (Inl e, l, N) \<Rightarrow> (Inl e, S\<lparr>x_net := N\<rparr>)
           | (Inr _, l, N) \<Rightarrow>
               let q = cq_query (x_sub S);
                   i = newId V (q_generated q) (op_account op);
                   q1 = (if q_paymentId q = None then setPaymentTransactionId i q else q);
                   j = newId V (Suc (q_generated q)) (zeroAccount V);
                   q2 = q1\<lparr>q_generated := Suc (Suc (q_generated q))\<rparr>;
                   S1 = S\<lparr>x_net := N, x_sub := (x_sub S)\<lparr>cq_query := q2, cq_nodes := l\<rparr>\<rparr>
               in case makePaymentTransaction L (zeroAccount V) j (zeroAccount V) (Some op) 0 of
                    Inl e \<Rightarrow> (Inl e, S1)
                  | Inr p \<Rightarrow> (Inr (), S1\<lparr>x_sub := (x_sub S1)
                      \<lparr>cq_header := Some \<lparr>qh_payment = Some p, qh_type = Some CostAnswer\<rparr>\<rparr>\<rparr>)))"

definition cost_ops ::
    "('acc, 'tid) pay_lib \<Rightarrow> ('acc, 'tid, 'req, 'resp, 'out) query_ops
     \<Rightarrow> ('acc, ('acc, 'tid) cost_query, 'req, 'resp, hbar) request_ops" where
  "cost_ops L Q =
     \<lparr>makeRequest = (\<lambda>l s. Inr (onMakeRequest Q (cq_header s), l, s)),
      shouldRetry = (\<lambda>s req resp. let (x, st) = retryQuery Q resp in (x, st, s)),
      mapResponse = (\<lambda>s resp acc req.
          (fromTinybars (pay_big L) (rh_cost (responseHeader Q resp)), s)),
      mapStatusError = (\<lambda>s req resp acc. queryError Q (q_paymentId (cq_query s)) resp acc)\<rparr>"

text \<open>\<open>new CostQuery(query)\<close>: the nodes are a clone of the query's.\<close>

definition new_cost_query ::
    "('acc, 'ch, ('acc, 'tid) query, 'req) exec \<Rightarrow> ('acc, 'ch, ('acc, 'tid) cost_query, 'req) exec" where
  "new_cost_query S =
     (new_exec (x_net S) \<lparr>cq_query = x_sub S, cq_nodes = x_nodes S, cq_header = None,
        cq_operator = q_operator (x_sub S)\<rparr>)
       \<lparr>x_grpcDeadline := x_grpcDeadline S, x_requestTimeout := x_requestTimeout S,
        x_nodes := list_clone (x_nodes S)\<rparr>"

definition cost_execute ::
    "('acc, 'ch) client \<Rightarrow> 'acc query_client \<Rightarrow> ('acc, 'tid) pay_lib \<Rightarrow> ('acc, 'tid, 'resp) query_env
     \<Rightarrow> ('acc, 'tid, 'req, 'resp, 'out) query_ops \<Rightarrow> ('acc, 'ch, ('acc, 'tid) query, 'req) exec
     \<Rightarrow> hbar result \<times> ('acc, 'ch, ('acc, 'tid) cost_query, 'req) exec" where
  "cost_execute C K L V Q S =
     execute_after C (cost_ops L Q) (cost_beforeExecute C K L V) None (cost_start V) (cost_env V)
       (new_cost_query S)"

text \<open>Rounding of \<open>toFixed(0)\<close>: to the nearest integer, halves away from zero.\<close>

definition to_fixed0 :: "rat \<Rightarrow> int" where
  "to_fixed0 x = (if x < 0 then - \<lfloor>1 / 2 - x\<rfloor> else \<lfloor>x + 1 / 2\<rfloor>)"

definition getCost ::
    "('acc, 'ch) client \<Rightarrow> 'acc query_client \<Rightarrow> ('acc, 'tid) pay_lib \<Rightarrow> ('acc, 'tid, 'resp) query_env
     \<Rightarrow> ('acc, 'tid, 'req, 'resp, 'out) query_ops \<Rightarrow> ('acc, 'ch, ('acc, 'tid) query, 'req) exec
     \<Rightarrow> hbar result \<times> ('acc, 'ch, ('acc, 'tid) query, 'req) exec" where
  "getCost C K L V Q S =
     (case fill_nodes (key_of C) (drawn V 1) (x_nodes S) (x_net S) of
        (Inl e, l, N) \<Rightarrow> (Inl e, S\<lparr>x_net := N\<rparr>)
      | (Inr _, l, N) \<Rightarrow>
          let S1 = S\<lparr>x_nodes := l, x_net := N\<rparr>;
              (r, X) = cost_execute C K L V Q S1;
              S2 = S1\<lparr>x_net := x_net X, x_nodes := cq_nodes (x_sub X), x_sub := cq_query (x_sub X)\<rparr>
          in (res_bind r (\<lambda>cost. fromTinybars (pay_big L)
                (AmountText (bigFixed (pay_big L) (of_int (to_fixed0 (of_int cost * 11 / 10)))))), S2))"

section \<open>Before the execution\<close>

definition payment_id ::
    "('acc, 'ch) client \<Rightarrow> ('acc, 'tid, 'resp) query_env \<Rightarrow> bool \<Rightarrow> ('acc, 'ch, ('acc, 'tid) query, 'req) exec
     \<Rightarrow> unit result \<times> ('acc, 'ch, ('acc, 'tid) query, 'req) exec" where
  "payment_id C V required S =
     (let gen = (\<lambda>a q. q\<lparr>q_paymentId := Some (newId V (q_generated q) a), q_generated := Suc (q_generated q)\<rparr>)
      in if required
         then let S1 = S\<lparr>transactionNodeIds := map (\<lambda>n. key_of C (snd n)) (network_of (x_net S))\<rparr>
              in case q_operator (x_sub S1) of
                   None \<Rightarrow> (Inl no_operator_error, S1)
                 | Some op \<Rightarrow> (Inr (), S1\<lparr>x_sub := gen (op_account op) (x_sub S1)\<rparr>)
         else (Inr (), S\<lparr>x_sub := gen (zeroAccount V) (x_sub S)\<rparr>))"

definition amount_to_pay ::
    "('acc, 'ch) client \<Rightarrow> 'acc query_client \<Rightarrow> ('acc, 'tid) pay_lib \<Rightarrow> ('acc, 'tid, 'resp) query_env
     \<Rightarrow> ('acc, 'tid, 'req, 'resp, 'out) query_ops \<Rightarrow> ('acc, 'ch, ('acc, 'tid) query, 'req) exec
     \<Rightarrow> hbar result \<times> ('acc, 'ch, ('acc, 'tid) query, 'req) exec" where
  "amount_to_pay C K L V Q S =
     (let most = (case q_maxPayment (x_sub S) of None \<Rightarrow> qc_maxPayment K | Some h \<Rightarrow> h);
          tinybars = (\<lambda>h. toInt (toTinybars (pay_long L) (pay_big L) h))
      in case q_payment (x_sub S) of
           Some h \<Rightarrow> (Inr h, S)
         | None \<Rightarrow>
             if q_payments (x_sub S) = [] \<and> isPaymentRequired Q
             then st_bind (getCost C K L V Q S) (\<lambda>actual S1.
                    if tinybars most < tinybars actual then (Inl (MaxQueryPaymentExceeded actual most), S1)
                    else (Inr actual, S1))
             else (Inr 0, S))"

fun push_payments ::
    "('acc, 'tid) pay_lib \<Rightarrow> 'acc \<Rightarrow> 'tid option \<Rightarrow> 'acc operator option \<Rightarrow> hbar \<Rightarrow> 'acc option list
     \<Rightarrow> ('acc, 'tid) query \<Rightarrow> unit result \<times> ('acc, 'tid) query" where
  "push_payments L zero i op h [] q = (Inr (), q)"
| "push_payments L zero (Some i) op h (Some n # ns) q =
     (case makePaymentTransaction L zero i n op h of
        Inl e \<Rightarrow> (Inl e, q)
      | Inr p \<Rightarrow> push_payments L zero (Some i) op h ns (q\<lparr>q_payments := q_payments q @ [p]\<rparr>))"
| "push_payments L zero i op h ns q = (Inl undefined_error, q)"

definition paying_operator ::
    "('acc, 'tid, 'req, 'resp, 'out) query_ops \<Rightarrow> ('acc, 'tid) query \<Rightarrow> 'acc operator option" where
  "paying_operator Q q = (if isPaymentRequired Q then q_operator q else None)"

definition query_beforeExecute ::
    "('acc, 'ch) client \<Rightarrow> 'acc query_client \<Rightarrow> ('acc, 'tid) pay_lib \<Rightarrow> ('acc, 'tid, 'resp) query_env
     \<Rightarrow> ('acc, 'tid, 'req, 'resp, 'out) query_ops \<Rightarrow> ('acc, 'ch, ('acc, 'tid) query, 'req) exec
     \<Rightarrow> unit result \<times> ('acc, 'ch, ('acc, 'tid) query, 'req) exec" where
  "query_beforeExecute C K L V Q S =
     (if q_payments (x_sub S) \<noteq> [] then (Inr (), S)
      else st_bind (if qc_validate K then checkIds Q else Inr (), S) (\<lambda>_ S.
        let (f, l, N) = fill_nodes (key_of C) (drawn V 0) (x_nodes S) (x_net S)
        in st_bind (f, S\<lparr>x_nodes := l, x_net := N\<rparr>) (\<lambda>_ S.
        let q = x_sub S;
            S1 = S\<lparr>x_sub := q\<lparr>q_operator := (case q_operator q of None \<Rightarrow> qc_operator K | Some p \<Rightarrow> Some p)\<rparr>\<rparr>
        in st_bind (payment_id C V (isPaymentRequired Q) S1) (\<lambda>_ S.
        st_bind (amount_to_pay C K L V Q S) (\<lambda>cost S.
          let S2 = S\<lparr>x_sub := setQueryPayment cost (x_sub S), x_nodes := setLocked (x_nodes S)\<rparr>;
              (r, q2) = push_payments L (zeroAccount V) (q_paymentId (x_sub S2))
                          (paying_operator Q (x_sub S2)) cost (items (x_nodes S2)) (x_sub S2)
          in (r, S2\<lparr>x_sub := q2\<rparr>))))))"

section \<open>Requests\<close>

definition query_makeRequest ::
    "('acc, 'tid, 'req, 'resp, 'out) query_ops \<Rightarrow> 'acc jslist \<Rightarrow> ('acc, 'tid) query \<Rightarrow> 'req" where
  "query_makeRequest Q l q =
     onMakeRequest Q (Some
       (if isPaymentRequired Q
        then \<lparr>qh_payment = (case cursor l of None \<Rightarrow> None | Some k \<Rightarrow> array_get (map Some (q_payments q)) k),
              qh_type = Some AnswerOnly\<rparr>
        else \<lparr>qh_payment = None, qh_type = None\<rparr>))"

definition query_makeRequestAsync ::
    "('acc, 'tid) pay_lib \<Rightarrow> ('acc, 'tid, 'resp) query_env \<Rightarrow> ('acc, 'tid, 'req, 'resp, 'out) query_ops
     \<Rightarrow> 'acc jslist \<Rightarrow> ('acc, 'tid) query \<Rightarrow> ('req \<times> 'acc jslist \<times> ('acc, 'tid) query) result" where
  "query_makeRequestAsync L V Q l q =
     (let i = newId V (q_generated q) (payer (zeroAccount V) (q_operator q))
      in case (list_current l, q_payment q) of
           (Some n, Some h) \<Rightarrow>
             res_bind (makePaymentTransaction L (zeroAccount V) i n (paying_operator Q q) h) (\<lambda>p.
               Inr (onMakeRequest Q (Some \<lparr>qh_payment = Some p, qh_type = Some AnswerOnly\<rparr>), l,
                    q\<lparr>q_generated := Suc (q_generated q)\<rparr>))
         | _ \<Rightarrow> Inl undefined_error)"

definition exec_ops ::
    "('acc, 'tid) pay_lib \<Rightarrow> ('acc, 'tid, 'resp) query_env \<Rightarrow> ('acc, 'tid, 'req, 'resp, 'out) query_ops
     \<Rightarrow> ('acc, ('acc, 'tid) query, 'req, 'resp, 'out) request_ops" where
  "exec_ops L V Q =
     \<lparr>makeRequest = query_makeRequestAsync L V Q,
      shouldRetry = (\<lambda>s req resp. let (x, st) = retryQuery Q resp in (x, st, s)),
      mapResponse = (\<lambda>s resp acc req. (mapQueryResponse Q resp, s)),
      mapStatusError = (\<lambda>s req resp acc. queryError Q (q_paymentId s) resp acc)\<rparr>"

definition query_execute ::
    "('acc, 'ch) client \<Rightarrow> 'acc query_client \<Rightarrow> ('acc, 'tid) pay_lib \<Rightarrow> ('acc, 'tid, 'resp) query_env
     \<Rightarrow> ('acc, 'tid, 'req, 'resp, 'out) query_ops \<Rightarrow> rat option \<Rightarrow> rat \<Rightarrow> (nat \<Rightarrow> 'resp attempt_env)
     \<Rightarrow> ('acc, 'ch, ('acc, 'tid) query, 'req) exec
     \<Rightarrow> 'out result \<times> ('acc, 'ch, ('acc, 'tid) query, 'req) exec" where
  "query_execute C K L V Q timeout start env S =
     execute_after C (exec_ops L V Q) (query_beforeExecute C K L V Q) timeout start env S"

text \<open>
  \<open>fromBytes\<close>: the decoder of the protobuf library gives the name of the query that is set and the
  message; the registry is filled by the query classes.
\<close>

definition query_fromBytes ::
    "(byte list \<Rightarrow> (string option \<times> 'msg) result) \<Rightarrow> (string \<rightharpoonup> ('msg \<Rightarrow> 'q result)) \<Rightarrow> byte list \<Rightarrow> 'q result" where
  "query_fromBytes decode registry bs =
     res_bind (decode bs) (\<lambda>(name, msg).
       case name of
         None \<Rightarrow> Inl (Error ''(BUG) query.query was not set in the protobuf'')
       | Some n \<Rightarrow>
           (case registry n of
              None \<Rightarrow> Inl (Error ''(BUG) Query.fromBytes() not implemented for type'')
            | Some f \<Rightarrow> f msg))"

end
