(* ===== verification/IdClasses.thy ===== *)
theory IdClasses
  imports AccountIds
begin

text \<open>
  The identifiers of tokens, files, topics, schedules, unique tokens and contracts:
  \<open>src/token/TokenId.js\<close>, \<open>src/file/FileId.js\<close>, \<open>src/topic/TopicId.js\<close>,
  \<open>src/schedule/ScheduleId.js\<close>, \<open>src/token/NftId.js\<close>, \<open>src/contract/ContractId.js\<close> and
  \<open>src/contract/DelegateContractId.js\<close>. The first four are one class written four times; what
  they have in common is the locale \<open>id_class\<close>. The protobuf codec of identifiers is a parameter.
\<close>

section \<open>Data\<close>

record simple_id =
  sid :: entity_id
  sid_checksum :: "string option"

type_synonym token_id = simple_id
type_synonym file_id = simple_id
type_synonym topic_id = simple_id
type_synonym schedule_id = simple_id

record id_message =
  im_shard :: "long option"
  im_realm :: "long option"
  im_num :: "long option"

record id_codec =
  encId :: "id_message \<Rightarrow> byte list"
  decId :: "byte list \<Rightarrow> id_message result"

definition id_codec_ok :: "id_codec \<Rightarrow> bool" where
  "id_codec_ok C \<longleftrightarrow> (\<forall>m. decId C (encId C m) = Inr m)"

section \<open>Tokens\<close>

definition token_new :: "id_props \<Rightarrow> long option \<Rightarrow> long option \<Rightarrow> token_id result" where
  "token_new props r n =
     res_bind (entity_constructor props r n) (\<lambda>i. Inr \<lparr>sid = i, sid_checksum = None\<rparr>)"

definition token_of :: "entity_id \<Rightarrow> token_id result" where
  "token_of i = token_new (PObj (Some (shard i)) (Some (realm i)) (num i)) None None"

definition token_fromString :: "long_lib \<Rightarrow> string \<Rightarrow> token_id result" where
  "token_fromString L t =
     res_bind (id_fromString L t) (\<lambda>r.
     res_bind (token_of (parsed r)) (\<lambda>i. Inr (i\<lparr>sid_checksum := parsed_checksum r\<rparr>)))"

definition token_fromProtobuf :: "id_message \<Rightarrow> token_id result" where
  "token_fromProtobuf m =
     token_new (PNum (from_some (im_shard m))) (Some (from_some (im_realm m))) (Some (from_some (im_num m)))"

definition token_validateChecksum :: "long_lib \<Rightarrow> token_id \<Rightarrow> byte list option \<Rightarrow> unit result" where
  "token_validateChecksum L i ledger = validateChecksum L (sid i) (sid_checksum i) ledger"

definition token_fromBytes :: "id_codec \<Rightarrow> byte list \<Rightarrow> token_id result" where
  "token_fromBytes C bs = res_bind (decId C bs) (token_fromProtobuf)"

definition token_fromSolidityAddress :: "string \<Rightarrow> token_id result" where
  "token_fromSolidityAddress address =
     res_bind (fromSolidityAddress address) (\<lambda>i.
       token_new (PNum (shard i)) (Some (realm i)) (Some (num i)))"

definition token_toSolidityAddress :: "token_id \<Rightarrow> string" where
  "token_toSolidityAddress i = toSolidityAddress (sid i)"

definition token_toProtobuf :: "token_id \<Rightarrow> id_message" where
  "token_toProtobuf i =
     \<lparr>im_shard = Some (shard (sid i)), im_realm = Some (realm (sid i)), im_num = Some (num (sid i))\<rparr>"

definition token_toString :: "long_lib \<Rightarrow> token_id \<Rightarrow> string" where
  "token_toString L i = toText L (shard (sid i)) @ ''.'' @ toText L (realm (sid i)) @ ''.'' @ toText L (num (sid i))"

definition token_toStringWithChecksum :: "long_lib \<Rightarrow> token_id \<Rightarrow> byte list option \<Rightarrow> string result" where
  "token_toStringWithChecksum L i ledger = toStringWithChecksum (token_toString L i) ledger"

definition token_toBytes :: "id_codec \<Rightarrow> token_id \<Rightarrow> byte list" where
  "token_toBytes C i = encId C (token_toProtobuf i)"

definition token_clone :: "token_id \<Rightarrow> token_id result" where
  "token_clone i = res_bind (token_of (sid i)) (\<lambda>j. Inr (j\<lparr>sid_checksum := sid_checksum i\<rparr>))"

definition token_compare :: "token_id \<Rightarrow> token_id \<Rightarrow> int" where
  "token_compare a b = entity_compare (sid a) (sid b)"

section \<open>Files\<close>

definition file_new :: "id_props \<Rightarrow> long option \<Rightarrow> long option \<Rightarrow> file_id result" where
  "file_new props r n =
     res_bind (entity_constructor props r n) (\<lambda>i. Inr \<lparr>sid = i, sid_checksum = None\<rparr>)"

definition file_of :: "entity_id \<Rightarrow> file_id result" where
  "file_of i = file_new (PObj (Some (shard i)) (Some (realm i)) (num i)) None None"

definition file_fromString :: "long_lib \<Rightarrow> string \<Rightarrow> file_id result" where
  "file_fromString L t =
     res_bind (id_fromString L t) (\<lambda>r.
     res_bind (file_of (parsed r)) (\<lambda>i. Inr (i\<lparr>sid_checksum := parsed_checksum r\<rparr>)))"

definition text_long :: "long_lib \<Rightarrow> long option \<Rightarrow> long" where
  "text_long L n = (case n of None \<Rightarrow> 0 | Some v \<Rightarrow> fromText L (toText L v))"

definition file_fromProtobuf :: "long_lib \<Rightarrow> id_message \<Rightarrow> file_id result" where
  "file_fromProtobuf L m =
     file_new (PNum (text_long L (im_shard m))) (Some (text_long L (im_realm m))) (Some (text_long L (im_num m)))"

definition file_validateChecksum :: "long_lib \<Rightarrow> file_id \<Rightarrow> byte list option \<Rightarrow> unit result" where
  "file_validateChecksum L i ledger = validateChecksum L (sid i) (sid_checksum i) ledger"

definition file_fromBytes :: "long_lib \<Rightarrow> id_codec \<Rightarrow> byte list \<Rightarrow> file_id result" where
  "file_fromBytes L C bs = res_bind (decId C bs) (file_fromProtobuf L)"

definition file_fromSolidityAddress :: "string \<Rightarrow> file_id result" where
  "file_fromSolidityAddress address =
     res_bind (fromSolidityAddress address) (\<lambda>i.
       file_new (PNum (shard i)) (Some (realm i)) (Some (num i)))"

definition file_toSolidityAddress :: "file_id \<Rightarrow> string" where
  "file_toSolidityAddress i = toSolidityAddress (sid i)"

definition file_toProtobuf :: "file_id \<Rightarrow> id_message" where
  "file_toProtobuf i =
     \<lparr>im_shard = Some (shard (sid i)), im_realm = Some (realm (sid i)), im_num = Some (num (sid i))\<rparr>"

definition file_toString :: "long_lib \<Rightarrow> file_id \<Rightarrow> string" where
  "file_toString L i = toText L (shard (sid i)) @ ''.'' @ toText L (realm (sid i)) @ ''.'' @ toText L (num (sid i))"

definition file_toStringWithChecksum :: "long_lib \<Rightarrow> file_id \<Rightarrow> byte list option \<Rightarrow> string result" where
  "file_toStringWithChecksum L i ledger = toStringWithChecksum (file_toString L i) ledger"

definition file_toBytes :: "id_codec \<Rightarrow> file_id \<Rightarrow> byte list" where
  "file_toBytes C i = encId C (file_toProtobuf i)"

definition file_clone :: "file_id \<Rightarrow> file_id result" where
  "file_clone i = res_bind (file_of (sid i)) (\<lambda>j. Inr (j\<lparr>sid_checksum := sid_checksum i\<rparr>))"

definition file_compare :: "file_id \<Rightarrow> file_id \<Rightarrow> int" where
  "file_compare a b = entity_compare (sid a) (sid b)"

definition file_new_num :: "long \<Rightarrow> file_id result" where
  "file_new_num n = file_new (PNum n) None None"

definition ADDRESS_BOOK :: "file_id result" where "ADDRESS_BOOK = file_new_num 102"

definition FEE_SCHEDULE :: "file_id result" where "FEE_SCHEDULE = file_new_num 111"

definition EXCHANGE_RATES :: "file_id result" where "EXCHANGE_RATES = file_new_num 112"

section \<open>Topics\<close>

definition topic_new :: "id_props \<Rightarrow> long option \<Rightarrow> long option \<Rightarrow> topic_id result" where
  "topic_new props r n =
     res_bind (entity_constructor props r n) (\<lambda>i. Inr \<lparr>sid = i, sid_checksum = None\<rparr>)"

definition topic_of :: "entity_id \<Rightarrow> topic_id result" where
  "topic_of i = topic_new (PObj (Some (shard i)) (Some (realm i)) (num i)) None None"

definition topic_fromString :: "long_lib \<Rightarrow> string \<Rightarrow> topic_id result" where
  "topic_fromString L t =
     res_bind (id_fromString L t) (\<lambda>r.
     res_bind (topic_of (parsed r)) (\<lambda>i. Inr (i\<lparr>sid_checksum := parsed_checksum r\<rparr>)))"

definition topic_fromProtobuf :: "id_message \<Rightarrow> topic_id result" where
  "topic_fromProtobuf m =
     topic_new (PNum (from_some (im_shard m))) (Some (from_some (im_realm m))) (Some (from_some (im_num m)))"

definition topic_validateChecksum :: "long_lib \<Rightarrow> topic_id \<Rightarrow> byte list option \<Rightarrow> unit result" where
  "topic_validateChecksum L i ledger = validateChecksum L (sid i) (sid_checksum i) ledger"

definition topic_fromBytes :: "id_codec \<Rightarrow> byte list \<Rightarrow> topic_id result" where
  "topic_fromBytes C bs = res_bind (decId C bs) (topic_fromProtobuf)"

definition topic_fromSolidityAddress :: "string \<Rightarrow> topic_id result" where
  "topic_fromSolidityAddress address =
     res_bind (fromSolidityAddress address) (\<lambda>i.
       topic_new (PNum (shard i)) (Some (realm i)) (Some (num i)))"

definition topic_toSolidityAddress :: "topic_id \<Rightarrow> string" where
  "topic_toSolidityAddress i = toSolidityAddress (sid i)"

definition topic_toProtobuf :: "topic_id \<Rightarrow> id_message" where
  "topic_toProtobuf i =
     \<lparr>im_shard = Some (shard (sid i)), im_realm = Some (realm (sid i)), im_num = Some (num (sid i))\<rparr>"

definition topic_toString :: "long_lib \<Rightarrow> topic_id \<Rightarrow> string" where
  "topic_toString L i = toText L (shard (sid i)) @ ''.'' @ toText L (realm (sid i)) @ ''.'' @ toText L (num (sid i))"

definition topic_toStringWithChecksum :: "long_lib \<Rightarrow> topic_id \<Rightarrow> byte list option \<Rightarrow> string result" where
  "topic_toStringWithChecksum L i ledger = toStringWithChecksum (topic_toString L i) ledger"

definition topic_toBytes :: "id_codec \<Rightarrow> topic_id \<Rightarrow> byte list" where
  "topic_toBytes C i = encId C (topic_toProtobuf i)"

definition topic_clone :: "topic_id \<Rightarrow> topic_id result" where
  "topic_clone i = res_bind (topic_of (sid i)) (\<lambda>j. Inr (j\<lparr>sid_checksum := sid_checksum i\<rparr>))"

definition topic_compare :: "topic_id \<Rightarrow> topic_id \<Rightarrow> int" where
  "topic_compare a b = entity_compare (sid a) (sid b)"

section \<open>Schedules\<close>

definition schedule_new :: "id_props \<Rightarrow> long option \<Rightarrow> long option \<Rightarrow> schedule_id result" where
  "schedule_new props r n =
     res_bind (entity_constructor props r n) (\<lambda>i. Inr \<lparr>sid = i, sid_checksum = None\<rparr>)"

definition schedule_of :: "entity_id \<Rightarrow> schedule_id result" where
  "schedule_of i = schedule_new (PObj (Some (shard i)) (Some (realm i)) (num i)) None None"

definition schedule_fromString :: "long_lib \<Rightarrow> string \<Rightarrow> schedule_id result" where
  "schedule_fromString L t =
     res_bind (id_fromString L t) (\<lambda>r.
     res_bind (schedule_of (parsed r)) (\<lambda>i. Inr (i\<lparr>sid_checksum := parsed_checksum r\<rparr>)))"

definition schedule_fromProtobuf :: "id_message \<Rightarrow> schedule_id result" where
  "schedule_fromProtobuf m =
     schedule_new (PNum (from_some (im_shard m))) (Some (from_some (im_realm m))) (Some (from_some (im_num m)))"

definition schedule_validateChecksum :: "long_lib \<Rightarrow> schedule_id \<Rightarrow> byte list option \<Rightarrow> unit result" where
  "schedule_validateChecksum L i ledger = validateChecksum L (sid i) (sid_checksum i) ledger"

definition schedule_fromBytes :: "id_codec \<Rightarrow> byte list \<Rightarrow> schedule_id result" where
  "schedule_fromBytes C bs = res_bind (decId C bs) (schedule_fromProtobuf)"

definition schedule_fromSolidityAddress :: "string \<Rightarrow> schedule_id result" where
  "schedule_fromSolidityAddress address =
     res_bind (fromSolidityAddress address) (\<lambda>i.
       schedule_new (PNum (shard i)) (Some (realm i)) (Some (num i)))"

definition schedule_toSolidityAddress :: "schedule_id \<Rightarrow> string" where
  "schedule_toSolidityAddress i = toSolidityAddress (sid i)"

definition schedule_toProtobuf :: "schedule_id \<Rightarrow> id_message" where
  "schedule_toProtobuf i =
     \<lparr>im_shard = Some (shard (sid i)), im_realm = Some (realm (sid i)), im_num = Some (num (sid i))\<rparr>"

definition schedule_toString :: "long_lib \<Rightarrow> schedule_id \<Rightarrow> string" where
  "schedule_toString L i = toText L (shard (sid i)) @ ''.'' @ toText L (realm (sid i)) @ ''.'' @ toText L (num (sid i))"

definition schedule_toStringWithChecksum :: "long_lib \<Rightarrow> schedule_id \<Rightarrow> byte list option \<Rightarrow> string result" where
  "schedule_toStringWithChecksum L i ledger = toStringWithChecksum (schedule_toString L i) ledger"

definition schedule_toBytes :: "id_codec \<Rightarrow> schedule_id \<Rightarrow> byte list" where
  "schedule_toBytes C i = encId C (schedule_toProtobuf i)"

definition schedule_clone :: "schedule_id \<Rightarrow> schedule_id result" where
  "schedule_clone i = res_bind (schedule_of (sid i)) (\<lambda>j. Inr (j\<lparr>sid_checksum := sid_checksum i\<rparr>))"

definition schedule_compare :: "schedule_id \<Rightarrow> schedule_id \<Rightarrow> int" where
  "schedule_compare a b = entity_compare (sid a) (sid b)"

section \<open>What the classes have in common\<close>

lemma entity_constructor_valid:
  "valid_id i \<Longrightarrow> entity_constructor (PObj (Some (shard i)) (Some (realm i)) (num i)) None None = Inr i"
  by (cases i) (simp add: entity_constructor_def valid_id_def is_negative_def nonneg_def from_some_def)

lemma entity_constructor_three:
  "valid_id i \<Longrightarrow> entity_constructor (PNum (shard i)) (Some (realm i)) (Some (num i)) = Inr i"
  by (cases i) (simp add: entity_constructor_def valid_id_def is_negative_def nonneg_def from_some_def)

lemma id_print_parse:
  "long_lib_ok L \<Longrightarrow> valid_id i \<Longrightarrow> good_checksum ck \<Longrightarrow>
   id_fromString L (toText L (shard i) @ CHR ''.'' # toText L (realm i) @ CHR ''.'' # toText L (num i) @ checksum_suffix ck)
     = Inr \<lparr>parsed = i, parsed_checksum = ck\<rparr>"
  using fromString_print[of L i ck] by (simp add: id_toString_def)

lemma text_long_back:
  assumes "long_lib_ok L" and "valid_id i"
  shows "text_long L (Some (shard i)) = shard i" "text_long L (Some (realm i)) = realm i"
    "text_long L (Some (num i)) = num i"
  using assms by (simp_all add: text_long_def fromText_toText valid_id_def)

text \<open>
  An identifier class: it parses and prints text with an optional checksum, reads and writes the
  protobuf message, copies and compares.
\<close>

locale id_class =
  fixes of_text :: "long_lib \<Rightarrow> string \<Rightarrow> simple_id result"
    and to_text :: "long_lib \<Rightarrow> simple_id \<Rightarrow> string"
    and of_msg :: "long_lib \<Rightarrow> id_message \<Rightarrow> simple_id result"
    and to_msg :: "simple_id \<Rightarrow> id_message"
    and dup :: "simple_id \<Rightarrow> simple_id result"
    and cmp :: "simple_id \<Rightarrow> simple_id \<Rightarrow> int"
  assumes parse_print: "long_lib_ok L \<Longrightarrow> valid_id (sid a) \<Longrightarrow> good_checksum ck \<Longrightarrow>
      of_text L (to_text L a @ checksum_suffix ck) = Inr (a\<lparr>sid_checksum := ck\<rparr>)"
    and of_msg_to_msg: "long_lib_ok L \<Longrightarrow> valid_id (sid a) \<Longrightarrow> of_msg L (to_msg a) = Inr (a\<lparr>sid_checksum := None\<rparr>)"
    and dup_eq: "valid_id (sid a) \<Longrightarrow> dup a = Inr a"
    and print_text: "to_text L a = id_toString L (sid a)"
    and cmp_sid: "cmp a b = entity_compare (sid a) (sid b)"
begin

lemma parse_plain:
  "long_lib_ok L \<Longrightarrow> valid_id (sid a) \<Longrightarrow> of_text L (to_text L a) = Inr (a\<lparr>sid_checksum := None\<rparr>)"
  using parse_print[of L a None] by (simp add: checksum_suffix_def good_checksum_def)

lemma print_inj:
  assumes "long_lib_ok L" and "valid_id (sid a)" and "valid_id (sid b)"
  shows "to_text L a = to_text L b \<longleftrightarrow> sid a = sid b"
proof
  assume "to_text L a = to_text L b"
  then have "a\<lparr>sid_checksum := None\<rparr> = b\<lparr>sid_checksum := None\<rparr>"
    using parse_plain[OF assms(1,2)] parse_plain[OF assms(1,3)] by simp
  then show "sid a = sid b" by (cases a; cases b) simp
qed (simp add: print_text)

lemma cmp_zero: "cmp a b = 0 \<longleftrightarrow> sid a = sid b"
  by (simp add: cmp_sid entity_cmp.cmp_eq)

text \<open>The text with the checksum of a ledger is of_msg back with that checksum, which then validates.\<close>

lemma parse_checked:
  assumes "long_lib_ok L" and "valid_id (sid a)"
  shows "toStringWithChecksum (to_text L a) (Some l) = Inr (to_text L a @ ''-'' @ checksum l (to_text L a)) \<and>
    of_text L (to_text L a @ ''-'' @ checksum l (to_text L a)) = Inr (a\<lparr>sid_checksum := Some (checksum l (to_text L a))\<rparr>) \<and>
    validateChecksum L (sid a) (Some (checksum l (to_text L a))) (Some l) = Inr ()"
proof -
  have "good_checksum (Some (checksum l (to_text L a)))"
    using assms by (simp only: print_text) (intro checksum_good id_toString_addr_text)
  from parse_print[OF assms this] show ?thesis
    by (simp add: checksum_suffix_def toStringWithChecksum_def validateChecksum_def print_text)
qed

lemma write_inj:
  assumes "long_lib_ok L" and "valid_id (sid a)" and "valid_id (sid b)" and "to_msg a = to_msg b"
  shows "sid a = sid b"
proof -
  have "a\<lparr>sid_checksum := None\<rparr> = b\<lparr>sid_checksum := None\<rparr>"
    using of_msg_to_msg[OF assms(1,2)] of_msg_to_msg[OF assms(1,3)] assms(4) by simp
  then show ?thesis by (cases a; cases b) simp
qed

lemma round_trips:
  assumes "long_lib_ok L" and "id_codec_ok C" and "valid_id (sid a)" and "valid_id (sid b)"
  shows "of_text L (to_text L a) = Inr (a\<lparr>sid_checksum := None\<rparr>) \<and>
    (\<exists>t ck. toStringWithChecksum (to_text L a) (Some l) = Inr t \<and>
      of_text L t = Inr (a\<lparr>sid_checksum := Some ck\<rparr>) \<and> validateChecksum L (sid a) (Some ck) (Some l) = Inr ()) \<and>
    res_bind (decId C (encId C (to_msg a))) (of_msg L) = Inr (a\<lparr>sid_checksum := None\<rparr>) \<and> dup a = Inr a \<and>
    (to_text L a = to_text L b \<longleftrightarrow> sid a = sid b) \<and> (cmp a b = 0 \<longleftrightarrow> sid a = sid b)"
  using parse_plain[OF assms(1,3)] parse_checked[OF assms(1,3), of l] of_msg_to_msg[OF assms(1,3)]
    dup_eq[OF assms(3)] print_inj[OF assms(1,3,4)] cmp_zero[of a b] assms(2)
  by (auto simp: id_codec_ok_def)

end

lemmas token_defs =
  token_new_def token_of_def token_fromString_def token_fromProtobuf_def token_toProtobuf_def token_toString_def
  token_clone_def token_compare_def

interpretation token_class: id_class token_fromString token_toString
    "\<lambda>L. token_fromProtobuf" token_toProtobuf token_clone token_compare
  by unfold_locales (simp_all add: token_defs id_print_parse id_toString_def from_some_def
      entity_constructor_valid entity_constructor_three)

lemmas file_defs =
  file_new_def file_of_def file_fromString_def file_fromProtobuf_def file_toProtobuf_def file_toString_def
  file_clone_def file_compare_def

interpretation file_class: id_class file_fromString file_toString
    "file_fromProtobuf" file_toProtobuf file_clone file_compare
  by unfold_locales (simp_all add: file_defs id_print_parse id_toString_def from_some_def
      entity_constructor_valid entity_constructor_three text_long_back)

lemmas topic_defs =
  topic_new_def topic_of_def topic_fromString_def topic_fromProtobuf_def topic_toProtobuf_def topic_toString_def
  topic_clone_def topic_compare_def

interpretation topic_class: id_class topic_fromString topic_toString
    "\<lambda>L. topic_fromProtobuf" topic_toProtobuf topic_clone topic_compare
  by unfold_locales (simp_all add: topic_defs id_print_parse id_toString_def from_some_def
      entity_constructor_valid entity_constructor_three)

lemmas schedule_defs =
  schedule_new_def schedule_of_def schedule_fromString_def schedule_fromProtobuf_def schedule_toProtobuf_def schedule_toString_def
  schedule_clone_def schedule_compare_def

interpretation schedule_class: id_class schedule_fromString schedule_toString
    "\<lambda>L. schedule_fromProtobuf" schedule_toProtobuf schedule_clone schedule_compare
  by unfold_locales (simp_all add: schedule_defs id_print_parse id_toString_def from_some_def
      entity_constructor_valid entity_constructor_three)

text \<open>C38: The identifiers of tokens, files, topics and schedules are read back from their text, from
  their text with the checksum of a ledger (which then validates), from their bytes and from a copy;
  only the checksum is not part of the bytes. Equal texts mean equal identifiers, and so does a
  comparison of 0.\<close>

theorem ids_round_trip:
  assumes "long_lib_ok L" and "id_codec_ok C" and "valid_id (sid a)" and "valid_id (sid b)"
  shows "list_all (\<lambda>(parse, show, checked, fromBytes, toBytes, copy, cmp).
      parse (show a) = Inr (a\<lparr>sid_checksum := None\<rparr>) \<and>
      (\<exists>t ck. checked a = Inr t \<and> parse t = Inr (a\<lparr>sid_checksum := Some ck\<rparr>) \<and>
        validateChecksum L (sid a) (Some ck) (Some l) = Inr ()) \<and>
      fromBytes (toBytes a) = Inr (a\<lparr>sid_checksum := None\<rparr>) \<and> copy a = Inr a \<and>
      (show a = show b \<longleftrightarrow> sid a = sid b) \<and> (cmp a b = (0 :: int) \<longleftrightarrow> sid a = sid b))
    [(token_fromString L, token_toString L, \<lambda>i. token_toStringWithChecksum L i (Some l),
        token_fromBytes C, token_toBytes C, token_clone, token_compare),
     (file_fromString L, file_toString L, \<lambda>i. file_toStringWithChecksum L i (Some l),
        file_fromBytes L C, file_toBytes C, file_clone, file_compare),
     (topic_fromString L, topic_toString L, \<lambda>i. topic_toStringWithChecksum L i (Some l),
        topic_fromBytes C, topic_toBytes C, topic_clone, topic_compare),
     (schedule_fromString L, schedule_toString L, \<lambda>i. schedule_toStringWithChecksum L i (Some l),
        schedule_fromBytes C, schedule_toBytes C, schedule_clone, schedule_compare)]"
  using token_class.round_trips[OF assms, of l] file_class.round_trips[OF assms, of l]
    topic_class.round_trips[OF assms, of l] schedule_class.round_trips[OF assms, of l]
  by (simp add: token_fromBytes_def token_toBytes_def token_toStringWithChecksum_def file_fromBytes_def
      file_toBytes_def file_toStringWithChecksum_def topic_fromBytes_def topic_toBytes_def
      topic_toStringWithChecksum_def schedule_fromBytes_def schedule_toBytes_def
      schedule_toStringWithChecksum_def)

text \<open>A codec that writes each number in eight bytes behind a flag.\<close>

definition put_num :: "long option \<Rightarrow> byte list" where
  "put_num n = (case n of None \<Rightarrow> [0] | Some v \<Rightarrow> 1 # be_bytes 8 (unat v))"

definition take_num :: "byte list \<Rightarrow> long option \<times> byte list" where
  "take_num bs = (if hd bs = 0 then (None, tl bs) else (Some (of_nat (be_val (take 8 (tl bs)))), drop 8 (tl bs)))"

lemma take_put_num [simp]: "take_num (put_num n @ r) = (n, r)"
proof (cases n)
  case (Some v)
  have "unat v < 256 ^ 8" using unsigned_less[of v, where ?'a = nat] by simp
  then show ?thesis using Some by (simp add: take_num_def put_num_def)
qed (simp add: take_num_def put_num_def)

definition sample_id_codec :: id_codec where
  "sample_id_codec =
     \<lparr>encId = (\<lambda>m. put_num (im_shard m) @ put_num (im_realm m) @ put_num (im_num m)),
      decId = (\<lambda>bs. let (s, r1) = take_num bs; (r, r2) = take_num r1; (n, r3) = take_num r2
                    in Inr \<lparr>im_shard = s, im_realm = r, im_num = n\<rparr>)\<rparr>"

lemma sample_id_codec_ok: "id_codec_ok sample_id_codec"
proof -
  have "take_num (put_num n) = (n, [])" for n using take_put_num[of n "[]"] by simp
  then show ?thesis by (simp add: id_codec_ok_def sample_id_codec_def)
qed

lemma ids_round_trip_witness:
  "topic_fromBytes sample_id_codec (topic_toBytes sample_id_codec \<lparr>sid = \<lparr>shard = 0, realm = 0, num = 7\<rparr>, sid_checksum = None\<rparr>)
   = Inr \<lparr>sid = \<lparr>shard = 0, realm = 0, num = 7\<rparr>, sid_checksum = None\<rparr>"
proof -
  have v: "valid_id (sid \<lparr>sid = \<lparr>shard = 0, realm = 0, num = 7\<rparr>, sid_checksum = None\<rparr>)" by (simp add: valid_id_def nonneg_def)
  show ?thesis using ids_round_trip[OF decimal_lib_ok sample_id_codec_ok v v] by simp
qed

end
