(* ===== verification/ContractIds.thy ===== *)
theory ContractIds
  imports IdClasses TxIds
begin

text \<open>
  Identifiers with more parts than three numbers: a unique token is a token and a serial number
  (\<open>src/token/NftId.js\<close>), a contract may have an EVM address in place of its number
  (\<open>src/contract/ContractId.js\<close>), and \<open>src/contract/DelegateContractId.js\<close> extends it. The method
  that asks the mirror node for a number is not modelled.
\<close>

section \<open>Unique tokens\<close>

record nft_id =
  nft_token :: token_id
  nft_serial :: long

record nft_message =
  nm_token :: id_message
  nm_serial :: "long option"

record nft_codec =
  encNft :: "nft_message \<Rightarrow> byte list"
  decNft :: "byte list \<Rightarrow> nft_message result"

definition nft_codec_ok :: "nft_codec \<Rightarrow> bool" where
  "nft_codec_ok C \<longleftrightarrow> (\<forall>m. decNft C (encNft C m) = Inr m)"

definition nft_error :: js_error where
  "nft_error = Error ''invalid format for NftId: use [token]/[serial] or [token]@[serial]''"

definition nft_fromString :: "long_lib \<Rightarrow> string \<Rightarrow> nft_id result" where
  "nft_fromString L t =
     (let strings = (if length (split_on ''/'' t) > 1 then split_on ''/'' t else split_on ''@'' t)
      in if list_ex (\<lambda>s. s = []) strings then Inl nft_error
         else case strings of
                [] \<Rightarrow> undef_error
              | s # r \<Rightarrow>
                  res_bind (token_fromString L s) (\<lambda>i.
                    case r of
                      [] \<Rightarrow> undef_error
                    | n # _ \<Rightarrow> res_bind (parseText L n) (\<lambda>v. Inr \<lparr>nft_token = i, nft_serial = v\<rparr>)))"

definition nft_fromProtobuf :: "nft_message \<Rightarrow> nft_id result" where
  "nft_fromProtobuf m =
     res_bind (token_fromProtobuf (nm_token m)) (\<lambda>i.
       Inr \<lparr>nft_token = i, nft_serial = from_some (nm_serial m)\<rparr>)"

definition nft_fromBytes :: "nft_codec \<Rightarrow> byte list \<Rightarrow> nft_id result" where
  "nft_fromBytes C bs = res_bind (decNft C bs) nft_fromProtobuf"

definition nft_toProtobuf :: "nft_id \<Rightarrow> nft_message" where
  "nft_toProtobuf i = \<lparr>nm_token = token_toProtobuf (nft_token i), nm_serial = Some (nft_serial i)\<rparr>"

definition nft_toString :: "long_lib \<Rightarrow> nft_id \<Rightarrow> string" where
  "nft_toString L i = token_toString L (nft_token i) @ ''/'' @ toText L (nft_serial i)"

definition nft_toBytes :: "nft_codec \<Rightarrow> nft_id \<Rightarrow> byte list" where
  "nft_toBytes C i = encNft C (nft_toProtobuf i)"

section \<open>Contracts\<close>

record contract_id =
  con_id :: entity_id
  con_evm :: "byte list option"
  con_checksum :: "string option"

record contract_message = id_message +
  im_evm :: "byte list option"

record contract_codec =
  encContract :: "contract_message \<Rightarrow> byte list"
  decContract :: "byte list \<Rightarrow> contract_message result"

definition contract_codec_ok :: "contract_codec \<Rightarrow> bool" where
  "contract_codec_ok C \<longleftrightarrow> (\<forall>m. decContract C (encContract C m) = Inr m)"

definition contract_new ::
    "id_props \<Rightarrow> long option \<Rightarrow> long option \<Rightarrow> byte list option \<Rightarrow> contract_id result" where
  "contract_new props r n evm =
     res_bind (entity_constructor props r n) (\<lambda>i.
       Inr \<lparr>con_id = i, con_evm = evm, con_checksum = None\<rparr>)"

definition contract_of :: "contract_id \<Rightarrow> contract_id result" where
  "contract_of c =
     contract_new (PObj (Some (shard (con_id c))) (Some (realm (con_id c))) (num (con_id c))) None None None"

definition contract_long_zero :: "string \<Rightarrow> contract_id result" where
  "contract_long_zero address =
     res_bind (fromSolidityAddress address) (\<lambda>i.
       contract_new (PNum (shard i)) (Some (realm i)) (Some (num i)) None)"

definition contract_fromEvmAddress :: "long \<Rightarrow> long \<Rightarrow> string \<Rightarrow> contract_id result" where
  "contract_fromEvmAddress s r address =
     (if isLongZeroAddress (hex_decode address) then contract_long_zero address
      else contract_new (PNum s) (Some r) (Some 0) (Some (hex_decode address)))"

definition contract_fromString :: "long_lib \<Rightarrow> string \<Rightarrow> contract_id result" where
  "contract_fromString L t =
     res_bind (fromStringSplitter t) (\<lambda>p.
       let (n, evm) = (if length (numOrHex p) < 40 then (fromText L (numOrHex p), None)
                       else (0, Some (hex_decode (numOrHex p))))
       in contract_new (PNum (fromText L (part_shard p))) (Some (fromText L (part_realm p))) (Some n) evm)"

definition contract_fromProtobuf :: "contract_message \<Rightarrow> contract_id result" where
  "contract_fromProtobuf m =
     contract_new (PNum (from_some (im_shard m))) (Some (from_some (im_realm m))) (Some (from_some (im_num m))) None"

definition contract_validateChecksum :: "long_lib \<Rightarrow> contract_id \<Rightarrow> byte list option \<Rightarrow> unit result" where
  "contract_validateChecksum L c ledger = validateChecksum L (con_id c) (con_checksum c) ledger"

definition contract_fromBytes :: "contract_codec \<Rightarrow> byte list \<Rightarrow> contract_id result" where
  "contract_fromBytes C bs = res_bind (decContract C bs) contract_fromProtobuf"

definition contract_fromSolidityAddress :: "string \<Rightarrow> contract_id result" where
  "contract_fromSolidityAddress address =
     (if isLongZeroAddress (hex_decode address) then contract_long_zero address
      else contract_fromEvmAddress 0 0 address)"

definition contract_toSolidityAddress :: "contract_id \<Rightarrow> string" where
  "contract_toSolidityAddress c =
     (case con_evm c of Some e \<Rightarrow> hex_encode e | None \<Rightarrow> toSolidityAddress (con_id c))"

definition contract_toProtobuf :: "contract_id \<Rightarrow> contract_message" where
  "contract_toProtobuf c =
     \<lparr>im_shard = Some (shard (con_id c)), im_realm = Some (realm (con_id c)), im_num = Some (num (con_id c)),
      im_evm = con_evm c\<rparr>"

definition contract_toString :: "long_lib \<Rightarrow> contract_id \<Rightarrow> string" where
  "contract_toString L c =
     toText L (shard (con_id c)) @ ''.'' @ toText L (realm (con_id c)) @ ''.'' @
     (case con_evm c of Some e \<Rightarrow> hex_encode e | None \<Rightarrow> toText L (num (con_id c)))"

definition contract_toStringWithChecksum :: "long_lib \<Rightarrow> contract_id \<Rightarrow> byte list option \<Rightarrow> string result" where
  "contract_toStringWithChecksum L c ledger = toStringWithChecksum (contract_toString L c) ledger"

definition contract_toBytes :: "contract_codec \<Rightarrow> contract_id \<Rightarrow> byte list" where
  "contract_toBytes C c = encContract C (contract_toProtobuf c)"

definition contract_clone :: "contract_id \<Rightarrow> contract_id result" where
  "contract_clone c =
     res_bind (contract_of c) (\<lambda>d. Inr (d\<lparr>con_checksum := con_checksum c, con_evm := con_evm c\<rparr>))"

definition contract_compare :: "contract_id \<Rightarrow> contract_id \<Rightarrow> int" where
  "contract_compare a b = entity_compare (con_id a) (con_id b)"

definition contract_equals :: "contract_id \<Rightarrow> contract_id \<Rightarrow> bool" where
  "contract_equals a b \<longleftrightarrow>
     shard (con_id a) = shard (con_id b) \<and> realm (con_id a) = realm (con_id b) \<and>
     num (con_id a) = num (con_id b) \<and>
     (case (con_evm a, con_evm b) of (Some e, Some f) \<Rightarrow> e = f | _ \<Rightarrow> False)"

section \<open>Delegates\<close>

type_synonym delegate_id = contract_id

definition delegate_new ::
    "id_props \<Rightarrow> long option \<Rightarrow> long option \<Rightarrow> byte list option \<Rightarrow> delegate_id result" where
  "delegate_new props r n evm = contract_new props r n evm"

definition delegate_of :: "contract_id \<Rightarrow> delegate_id result" where
  "delegate_of c =
     delegate_new (PObj (Some (shard (con_id c))) (Some (realm (con_id c))) (num (con_id c))) None None None"

definition delegate_fromEvmAddress :: "long \<Rightarrow> long \<Rightarrow> string \<Rightarrow> delegate_id result" where
  "delegate_fromEvmAddress s r address = delegate_new (PNum s) (Some r) (Some 0) (Some (hex_decode address))"

definition delegate_fromString :: "long_lib \<Rightarrow> string \<Rightarrow> delegate_id result" where
  "delegate_fromString L t = res_bind (contract_fromString L t) delegate_of"

definition delegate_fromProtobuf :: "contract_message \<Rightarrow> delegate_id result" where
  "delegate_fromProtobuf m = res_bind (contract_fromProtobuf m) delegate_of"

definition delegate_fromBytes :: "contract_codec \<Rightarrow> byte list \<Rightarrow> delegate_id result" where
  "delegate_fromBytes C bs = res_bind (contract_fromBytes C bs) delegate_of"

definition delegate_fromSolidityAddress :: "string \<Rightarrow> delegate_id result" where
  "delegate_fromSolidityAddress address = res_bind (contract_fromSolidityAddress address) delegate_of"

definition delegate_clone :: "delegate_id \<Rightarrow> delegate_id result" where
  "delegate_clone c = res_bind (delegate_of c) (\<lambda>d. Inr (d\<lparr>con_checksum := con_checksum c\<rparr>))"

section \<open>Reading back\<close>

lemma token_text: "long_lib_ok L \<Longrightarrow> valid_id (sid i) \<Longrightarrow>
    token_toString L i = show_nat (unat (shard (sid i))) @ ''.'' @ show_nat (unat (realm (sid i))) @ ''.'' @
      show_nat (unat (num (sid i)))"
  by (simp add: token_toString_def toText_nonneg valid_id_def)

lemma split_once:
  assumes "c \<notin> set a" and "c \<notin> set b"
  shows "split_on [c] (a @ c # b) = [a, b]"
  using split_acc_skip[OF assms(1), of "[]" "[]" "c # b"] split_acc_match[of c "[]" a b] split_plain[OF assms(2), of "[]" "[]"]
  by (simp add: split_on_def)

lemma split_none: "c \<notin> set a \<Longrightarrow> split_on [c] a = [a]"
  using split_plain[of c a "[]" "[]"] by (simp add: split_on_def)

definition nft_ok :: "nft_id \<Rightarrow> bool" where
  "nft_ok i \<longleftrightarrow> valid_id (sid (nft_token i)) \<and> sid_checksum (nft_token i) = None \<and> nonneg (nft_serial i)"

lemma nft_text_back:
  assumes "long_lib_ok L" and "nft_ok i" and "c = CHR ''/'' \<or> c = CHR ''@''"
  shows "nft_fromString L (token_toString L (nft_token i) @ c # toText L (nft_serial i)) = Inr i"
proof -
  let ?a = "token_toString L (nft_token i)" and ?b = "show_nat (unat (nft_serial i))"
  have v: "valid_id (sid (nft_token i))" "nonneg (nft_serial i)" and ck: "sid_checksum (nft_token i) = None"
    using assms(2) by (simp_all add: nft_ok_def)
  note a = token_text[OF assms(1) v(1)] and d = no_special[OF show_nat_digits]
  have na: "CHR ''/'' \<notin> set ?a" "CHR ''@'' \<notin> set ?a" and nb: "CHR ''/'' \<notin> set ?b" "CHR ''@'' \<notin> set ?b"
    unfolding a using d by simp_all
  have "(if length (split_on ''/'' (?a @ c # ?b)) > 1 then split_on ''/'' (?a @ c # ?b) else split_on ''@'' (?a @ c # ?b)) = [?a, ?b]"
  proof (cases "c = CHR ''/''")
    case True
    then show ?thesis using split_once[OF na(1) nb(1)] by simp
  next
    case False
    then have "c = CHR ''@''" using assms(3) by blast
    moreover from this have "split_on ''/'' (?a @ c # ?b) = [?a @ c # ?b]" using na(1) nb(1) by (intro split_none) simp
    ultimately show ?thesis using split_once[OF na(2) nb(2)] by simp
  qed
  moreover have "?a \<noteq> []" unfolding a by simp
  moreover have "token_fromString L ?a = Inr (nft_token i)"
    using token_class.parse_plain[OF assms(1) v(1)] ck by simp
  ultimately show ?thesis
    using parseText_nat[OF assms(1) v(2)]
    by (simp add: nft_fromString_def toText_nonneg[OF assms(1) v(2)] Let_def)
qed

lemma nft_proto_back: "nft_ok i \<Longrightarrow> nft_fromProtobuf (nft_toProtobuf i) = Inr i"
  using token_class.of_msg_to_msg[OF decimal_lib_ok, of "nft_token i"]
  by (simp add: nft_ok_def nft_fromProtobuf_def nft_toProtobuf_def from_some_def)

definition contract_ok :: "contract_id \<Rightarrow> bool" where
  "contract_ok c \<longleftrightarrow> valid_id (con_id c) \<and> con_checksum c = None \<and>
     (case con_evm c of None \<Rightarrow> True | Some e \<Rightarrow> length e = 20 \<and> num (con_id c) = 0)"

lemma contract_new_valid:
  "valid_id \<lparr>shard = s, realm = r, num = n\<rparr> \<Longrightarrow>
   contract_new (PNum s) (Some r) (Some n) e = Inr \<lparr>con_id = \<lparr>shard = s, realm = r, num = n\<rparr>, con_evm = e, con_checksum = None\<rparr>"
  using entity_constructor_three[of "\<lparr>shard = s, realm = r, num = n\<rparr>"] by (simp add: contract_new_def)

lemma contract_text_back:
  assumes "long_lib_ok L" and "contract_ok c"
  shows "contract_fromString L (contract_toString L c) = Inr c"
proof -
  let ?h = "case con_evm c of Some e \<Rightarrow> hex_encode e | None \<Rightarrow> show_nat (unat (num (con_id c)))"
  have v: "valid_id (con_id c)" using assms(2) by (simp add: contract_ok_def)
  then have n: "nonneg (shard (con_id c))" "nonneg (realm (con_id c))" "nonneg (num (con_id c))"
    by (simp_all add: valid_id_def)
  have t: "contract_toString L c = show_nat (unat (shard (con_id c))) @ ''.'' @ show_nat (unat (realm (con_id c))) @ ''.'' @ ?h"
    using n by (simp add: contract_toString_def toText_nonneg[OF assms(1)] split: option.split)
  have "list_all is_hex ?h \<and> ?h \<noteq> []"
    using assms(2) hex_encode_is_hex show_nat_digits[of "unat (num (con_id c))"]
    by (auto simp: contract_ok_def list_all_iff digit_hex hex_encode_def byteToHex_def split: option.split)
  then have s: "fromStringSplitter (contract_toString L c) =
      Inr \<lparr>part_shard = show_nat (unat (shard (con_id c))), part_realm = show_nat (unat (realm (con_id c))),
           numOrHex = ?h, part_checksum = None\<rparr>"
    unfolding t by (intro splitter_hex) simp_all
  have read_nat: "fromText L (show_nat (unat k)) = k" if "nonneg k" for k
    using fromText_toText[OF assms(1) that] by (simp add: toText_nonneg[OF assms(1) that])
  have len: "length (show_nat (unat (num (con_id c)))) < 40"
    using length_show_long[OF n(3)] by simp
  have hlen: "length (hex_encode e) = 2 * length e" for e
    by (induction e) (simp_all add: hex_encode_def byteToHex_def)
  show ?thesis
  proof (cases "con_evm c")
    case None
    then show ?thesis
      using s v n assms(2) len by (cases c; cases "con_id c") (simp add: contract_fromString_def read_nat contract_new_valid contract_ok_def)
  next
    case (Some e)
    then show ?thesis
      using s v n assms(2)
      by (cases c; cases "con_id c") (simp add: contract_fromString_def read_nat contract_new_valid contract_ok_def hlen decode_encode)
  qed
qed

lemma contract_proto_back:
  "contract_ok c \<Longrightarrow> contract_fromProtobuf (contract_toProtobuf c) = Inr (c\<lparr>con_evm := None\<rparr>)"
  by (cases c; cases "con_id c") (simp add: contract_ok_def contract_fromProtobuf_def contract_toProtobuf_def from_some_def contract_new_valid)

lemma delegate_of_ok: "contract_ok c \<Longrightarrow> delegate_of c = Inr (c\<lparr>con_evm := None\<rparr>)"
  by (cases c; cases "con_id c")
    (simp add: contract_ok_def delegate_of_def delegate_new_def contract_new_def entity_constructor_def
      valid_id_def is_negative_def nonneg_def from_some_def)

text \<open>A contract is read back from its text, but its EVM address is lost in its bytes; a delegate
  loses it in its text and in a copy as well, so an EVM contract ends up as number 0.\<close>

theorem contract_round_trips:
  assumes "long_lib_ok L" and "contract_codec_ok C" and "contract_ok c"
  shows "contract_fromString L (contract_toString L c) = Inr c \<and> contract_clone c = Inr c \<and>
    contract_fromBytes C (contract_toBytes C c) = Inr (c\<lparr>con_evm := None\<rparr>) \<and>
    delegate_fromString L (contract_toString L c) = Inr (c\<lparr>con_evm := None\<rparr>) \<and>
    delegate_clone c = Inr (c\<lparr>con_evm := None\<rparr>)"
proof -
  have "contract_of c = Inr (c\<lparr>con_evm := None\<rparr>)"
    using delegate_of_ok[OF assms(3)] by (simp add: delegate_of_def delegate_new_def contract_of_def)
  then have "contract_clone c = Inr c" by (simp add: contract_clone_def)
  moreover have "contract_fromBytes C (contract_toBytes C c) = Inr (c\<lparr>con_evm := None\<rparr>)"
    using assms(2) contract_proto_back[OF assms(3)]
    by (simp add: contract_fromBytes_def contract_toBytes_def contract_codec_ok_def)
  ultimately show ?thesis
    using contract_text_back[OF assms(1,3)] delegate_of_ok[OF assms(3)]
    by (simp add: delegate_fromString_def delegate_clone_def)
qed

definition sample_contract_codec :: contract_codec where
  "sample_contract_codec =
     \<lparr>encContract = (\<lambda>m. put_num (im_shard m) @ put_num (im_realm m) @ put_num (im_num m) @
        (case im_evm m of None \<Rightarrow> [] | Some e \<Rightarrow> 1 # e)),
      decContract = (\<lambda>bs. let (s, r1) = take_num bs; (r, r2) = take_num r1; (n, r3) = take_num r2
        in Inr \<lparr>im_shard = s, im_realm = r, im_num = n, im_evm = (case r3 of [] \<Rightarrow> None | _ # e \<Rightarrow> Some e)\<rparr>)\<rparr>"

lemma sample_contract_codec_ok: "contract_codec_ok sample_contract_codec"
  by (auto simp: contract_codec_ok_def sample_contract_codec_def split: option.split)

lemma contract_round_trips_witness:
  "contract_fromBytes sample_contract_codec (contract_toBytes sample_contract_codec
      \<lparr>con_id = \<lparr>shard = 0, realm = 0, num = 0\<rparr>, con_evm = Some (replicate 20 7), con_checksum = None\<rparr>)
   = Inr \<lparr>con_id = \<lparr>shard = 0, realm = 0, num = 0\<rparr>, con_evm = None, con_checksum = None\<rparr>"
proof -
  have "contract_ok \<lparr>con_id = \<lparr>shard = 0, realm = 0, num = 0\<rparr>, con_evm = Some (replicate 20 7), con_checksum = None\<rparr>"
    by (simp add: contract_ok_def valid_id_def nonneg_def)
  from contract_round_trips[OF decimal_lib_ok sample_contract_codec_ok this] show ?thesis by simp
qed

text \<open>\<open>equals\<close> of contracts is never true for a contract without an EVM address, not even for
  itself; with EVM addresses it is equality up to the checksum. \<open>compare\<close> looks at the three numbers
  only, so it is 0 for contracts of one realm with different EVM addresses.\<close>

theorem contract_identity:
  "(contract_equals a b \<longleftrightarrow> con_evm a \<noteq> None \<and> con_id a = con_id b \<and> con_evm a = con_evm b) \<and>
   (contract_compare a b = 0 \<longleftrightarrow> con_id a = con_id b)"
  by (cases "con_id a"; cases "con_id b")
    (auto simp: contract_equals_def contract_compare_def entity_cmp.cmp_eq split: option.splits)

end
