(* ===== verification/ObjectMaps.thy ===== *)
theory ObjectMaps
  imports ContractIds Hbars
begin

text \<open>
  Maps whose keys are objects, \<open>src/ObjectMap.js\<close>, and the maps of transfers built on it:
  \<open>HbarTransferMap\<close>, \<open>TokenTransferMap\<close>, \<open>TokenTransferAccountMap\<close> and \<open>TokenNftTransferMap\<close> of
  \<open>src/account/\<close>. A map holds every value twice, under the text of the key and under the key object
  itself; an object is a number, its identity, with its contents.
\<close>

section \<open>Maps of the language\<close>

text \<open>A \<open>Map\<close> keeps its entries in the order in which their keys were first set.\<close>

fun map_set :: "'k \<Rightarrow> 'v \<Rightarrow> ('k \<times> 'v) list \<Rightarrow> ('k \<times> 'v) list" where
  "map_set k v [] = [(k, v)]"
| "map_set k v ((k', v') # m) = (if k' = k then (k', v) # m else (k', v') # map_set k v m)"

lemma map_of_set [simp]: "map_of (map_set k v m) = (map_of m)(k \<mapsto> v)"
  by (induction k v m rule: map_set.induct) (auto simp: fun_upd_twist)

lemma map_set_keys: "map fst (map_set k v m) = (if k \<in> fst ` set m then map fst m else map fst m @ [k])"
  by (induction k v m rule: map_set.induct) auto

lemma distinct_map_set: "distinct (map fst m) \<Longrightarrow> distinct (map fst (map_set k v m))"
  by (simp add: map_set_keys)

lemma map_set_absent: "k \<notin> fst ` set m \<Longrightarrow> map_set k v m = m @ [(k, v)]"
  by (induction k v m rule: map_set.induct) auto

section \<open>Object maps\<close>

record ('k, 'v) object_map =
  om_text :: "(string \<times> 'v) list"
  om_object :: "((nat \<times> 'k) \<times> 'v) list"

definition om_new :: "('k, 'v) object_map" where
  "om_new = \<lparr>om_text = [], om_object = []\<rparr>"

definition om_get :: "('k \<Rightarrow> string) \<Rightarrow> 'k + string \<Rightarrow> ('k, 'v) object_map \<Rightarrow> 'v option" where
  "om_get txt key m = map_of (om_text m) (case key of Inl k \<Rightarrow> txt k | Inr s \<Rightarrow> s)"

definition om_set :: "('k \<Rightarrow> string) \<Rightarrow> nat \<times> 'k \<Rightarrow> 'v \<Rightarrow> ('k, 'v) object_map \<Rightarrow> ('k, 'v) object_map" where
  "om_set txt key v m =
     \<lparr>om_text = map_set (txt (snd key)) v (om_text m), om_object = map_set key v (om_object m)\<rparr>"

definition om_values :: "('k, 'v) object_map \<Rightarrow> 'v list" where
  "om_values m = map snd (om_text m)"

definition om_size :: "('k, 'v) object_map \<Rightarrow> nat" where
  "om_size m = length (om_text m)"

definition om_keys :: "('k, 'v) object_map \<Rightarrow> 'k list" where
  "om_keys m = map (snd \<circ> fst) (om_object m)"

definition om_entries :: "('k, 'v) object_map \<Rightarrow> ('k \<times> 'v) list" where
  "om_entries m = map (\<lambda>((_, k), v). (k, v)) (om_object m)"

definition om_toJSON :: "('k, 'v) object_map \<Rightarrow> (string \<times> 'v) list" where
  "om_toJSON m = foldl (\<lambda>obj (k, v). map_set k v obj) [] (om_text m)"

text \<open>Setting with a key object that has just been created.\<close>

definition om_fresh :: "('k, 'v) object_map \<Rightarrow> nat" where
  "om_fresh m = Suc (foldr max (map (fst \<circ> fst) (om_object m)) 0)"

definition om_put :: "('k \<Rightarrow> string) \<Rightarrow> 'k \<Rightarrow> 'v \<Rightarrow> ('k, 'v) object_map \<Rightarrow> ('k, 'v) object_map" where
  "om_put txt k v m = om_set txt (om_fresh m, k) v m"

text \<open>A value that is an object itself is changed under both keys at once.\<close>

definition om_modify ::
    "('k \<Rightarrow> string) \<Rightarrow> 'k \<Rightarrow> ('v \<Rightarrow> 'v) \<Rightarrow> ('k, 'v) object_map \<Rightarrow> ('k, 'v) object_map" where
  "om_modify txt k f m =
     \<lparr>om_text = map (\<lambda>(t, v). (t, if t = txt k then f v else v)) (om_text m),
      om_object = map (\<lambda>(o', v). (o', if txt (snd o') = txt k then f v else v)) (om_object m)\<rparr>"

text \<open>The two halves agree: one key object per text.\<close>

definition om_ok :: "('k \<Rightarrow> string) \<Rightarrow> ('k, 'v) object_map \<Rightarrow> bool" where
  "om_ok txt m \<longleftrightarrow> distinct (map fst (om_text m)) \<and>
     om_text m = map (\<lambda>((_, k), v). (txt k, v)) (om_object m)"

lemma om_new_ok [simp]: "om_ok txt om_new"
  by (simp add: om_ok_def om_new_def)

lemma om_get_new [simp]: "om_get txt key om_new = None"
  by (simp add: om_get_def om_new_def)

lemma om_get_set: "om_get txt (Inl k) (om_set txt key v m) =
    (if txt k = txt (snd key) then Some v else om_get txt (Inl k) m)"
  by (simp add: om_get_def om_set_def)

lemma om_get_put: "om_get txt (Inl k) (om_put txt k' v m) = (if txt k = txt k' then Some v else om_get txt (Inl k) m)"
  by (simp add: om_put_def om_get_set)

lemma om_get_cong: "txt k = txt k' \<Longrightarrow> om_get txt (Inl k) m = om_get txt (Inl k') m"
  by (simp add: om_get_def)

lemma om_get_modify: "om_get txt (Inl k) (om_modify txt k' f m) =
    (if txt k = txt k' then map_option f (om_get txt (Inl k) m) else om_get txt (Inl k) m)"
proof -
  have "map_of (map (\<lambda>(t, v). (t, if t = s then f v else v)) xs) t =
      (if t = s then map_option f (map_of xs t) else map_of xs t)" for xs and s t :: string
    by (induction xs) auto
  then show ?thesis by (simp add: om_get_def om_modify_def)
qed

lemma om_fresh_new: "om_fresh m \<notin> fst ` fst ` set (om_object m)"
proof -
  have "x \<in> set xs \<Longrightarrow> x \<le> foldr max xs (0 :: nat)" for x xs by (induction xs) auto
  from this[of _ "map (fst \<circ> fst) (om_object m)"] show ?thesis
    by (fastforce simp: om_fresh_def)
qed

lemma om_put_ok:
  assumes "om_ok txt m" and "om_get txt (Inl k) m = None"
  shows "om_ok txt (om_put txt k v m)" "om_entries (om_put txt k v m) = om_entries m @ [(k, v)]"
proof -
  have a: "txt k \<notin> fst ` set (om_text m)" using assms(2) by (simp add: om_get_def map_of_eq_None_iff)
  have "(om_fresh m, k) \<notin> fst ` set (om_object m)" using om_fresh_new[of m] by (force simp: image_iff)
  then have e: "om_put txt k v m =
      \<lparr>om_text = om_text m @ [(txt k, v)], om_object = om_object m @ [((om_fresh m, k), v)]\<rparr>"
    using a by (simp add: om_put_def om_set_def map_set_absent)
  have d: "distinct (map fst (om_text m))" and o': "om_text m = map (\<lambda>((_, k), v). (txt k, v)) (om_object m)"
    using assms(1) unfolding om_ok_def by blast+
  have "distinct (map fst (om_text (om_put txt k v m)))" using d a by (simp add: e)
  moreover have "om_text (om_put txt k v m) = map (\<lambda>((_, k), v). (txt k, v)) (om_object (om_put txt k v m))"
    unfolding e by (simp add: o')
  ultimately show "om_ok txt (om_put txt k v m)" by (simp only: om_ok_def)
  show "om_entries (om_put txt k v m) = om_entries m @ [(k, v)]" by (simp add: e om_entries_def)
qed

lemma om_modify_ok: "om_ok txt m \<Longrightarrow> om_ok txt (om_modify txt k f m)"
  by (auto simp: om_ok_def om_modify_def comp_def case_prod_beta)

lemma om_entries_text: "om_ok txt m \<Longrightarrow> map (\<lambda>(k, v). (txt k, v)) (om_entries m) = om_text m"
  by (simp add: om_ok_def om_entries_def case_prod_beta comp_def)

section \<open>Maps of transfers\<close>

type_synonym hbar_transfer_map = "(account_id, hbar) object_map"
type_synonym token_account_map = "(account_id, long) object_map"
type_synonym token_transfer_map = "(token_id, token_account_map) object_map"

record nft_entry =
  ne_sender :: account_id
  ne_recipient :: account_id
  ne_serial :: long
  ne_approved :: bool

type_synonym token_nft_map = "(token_id, nft_entry list) object_map"

definition ttm_set ::
    "long_lib \<Rightarrow> token_id \<Rightarrow> account_id \<Rightarrow> long \<Rightarrow> token_transfer_map \<Rightarrow> token_transfer_map" where
  "ttm_set L t a n m =
     (let m' = (if om_get (token_toString L) (Inl t) m = None then om_put (token_toString L) t om_new m else m)
      in om_modify (token_toString L) t (om_put (account_toString L) a n) m')"

definition tnm_set :: "long_lib \<Rightarrow> token_id \<Rightarrow> nft_entry \<Rightarrow> token_nft_map \<Rightarrow> token_nft_map" where
  "tnm_set L t e m =
     (let m' = (if om_get (token_toString L) (Inl t) m = None then om_put (token_toString L) t [] m else m)
      in om_modify (token_toString L) t (\<lambda>es. es @ [e]) m')"

lemma ttm_get:
  "om_get (token_toString L) (Inl t') (ttm_set L t a n m) =
     (if token_toString L t' = token_toString L t
      then Some (om_put (account_toString L) a n
                  (case om_get (token_toString L) (Inl t') m of None \<Rightarrow> om_new | Some x \<Rightarrow> x))
      else om_get (token_toString L) (Inl t') m)"
  using om_get_cong[of "token_toString L" t' t m]
  by (auto simp: ttm_set_def Let_def om_get_modify om_get_put split: option.splits)

lemma tnm_get:
  "om_get (token_toString L) (Inl t') (tnm_set L t e m) =
     (if token_toString L t' = token_toString L t
      then Some ((case om_get (token_toString L) (Inl t') m of None \<Rightarrow> [] | Some x \<Rightarrow> x) @ [e])
      else om_get (token_toString L) (Inl t') m)"
  using om_get_cong[of "token_toString L" t' t m]
  by (auto simp: tnm_set_def Let_def om_get_modify om_get_put split: option.splits)

end
