(* ===== verification/Transfers.thy ===== *)
theory Transfers
  imports ObjectMaps Transaction
begin

text \<open>
  Transfers of the currency and of tokens: \<open>src/account/TransferTransaction.js\<close>,
  \<open>src/token/AbstractTokenTransferTransaction.js\<close> and the entries \<open>src/Transfer.js\<close>,
  \<open>src/token/TokenTransfer.js\<close> and \<open>src/token/TokenNftTransfer.js\<close>. The base transaction is the
  field \<open>tr_tx\<close>. An amount of the currency is a number of tinybars, one of a token a 64-bit number.
\<close>

section \<open>Entries\<close>

record hbar_transfer =
  ht_account :: account_id
  ht_amount :: hbar
  ht_approved :: bool

record token_transfer =
  tt_token :: token_id
  tt_account :: account_id
  tt_decimals :: "nat option"
  tt_amount :: long
  tt_approved :: bool

record nft_transfer =
  nt_token :: token_id
  nt_sender :: account_id
  nt_receiver :: account_id
  nt_serial :: long
  nt_approved :: bool

text \<open>The protobuf messages; a field that is not set is \<open>None\<close>. The number of decimals is wrapped in
  a message of its own.\<close>

record account_amount =
  aa_account :: account_message
  aa_amount :: "long option"
  aa_approval :: "bool option"

record nft_transfer_message =
  nf_sender :: account_message
  nf_receiver :: account_message
  nf_serial :: "long option"
  nf_approval :: "bool option"

record token_transfer_list =
  tl_token :: id_message
  tl_decimals :: "nat option option"
  tl_transfers :: "account_amount list"
  tl_nfts :: "nft_transfer_message list"

record transfer_body =
  tb_hbars :: "account_amount list"
  tb_tokens :: "token_transfer_list list"

text \<open>The packages and codecs the operations use.\<close>

record 'asn transfer_lib =
  lb_long :: long_lib
  lb_big :: big_lib
  lb_der :: "'asn der_lib"
  lb_key :: key_codec

definition transfer_toProtobuf :: "'asn transfer_lib \<Rightarrow> hbar_transfer \<Rightarrow> account_amount" where
  "transfer_toProtobuf E t =
     \<lparr>aa_account = account_toProtobuf (lb_key E) (ht_account t),
      aa_amount = Some (toTinybars (lb_long E) (lb_big E) (ht_amount t)), aa_approval = Some (ht_approved t)\<rparr>"

fun transfers_fromProtobuf :: "'asn transfer_lib \<Rightarrow> account_amount list \<Rightarrow> hbar_transfer list result" where
  "transfers_fromProtobuf E [] = Inr []"
| "transfers_fromProtobuf E (m # ms) =
     res_bind (account_fromProtobuf (lb_der E) (lb_key E) (aa_account m)) (\<lambda>a.
     res_bind (fromTinybars (lb_big E) (case aa_amount m of Some n \<Rightarrow> AmountLong n | None \<Rightarrow> AmountNumber 0)) (\<lambda>h.
     res_bind (transfers_fromProtobuf E ms) (\<lambda>ts.
       Inr (\<lparr>ht_account = a, ht_amount = h, ht_approved = (aa_approval m = Some True)\<rparr> # ts))))"

definition tokenTransfer_toProtobuf :: "'asn transfer_lib \<Rightarrow> token_transfer \<Rightarrow> account_amount" where
  "tokenTransfer_toProtobuf E t =
     \<lparr>aa_account = account_toProtobuf (lb_key E) (tt_account t), aa_amount = Some (tt_amount t),
      aa_approval = Some (tt_approved t)\<rparr>"

fun token_entries ::
    "'asn transfer_lib \<Rightarrow> token_id \<Rightarrow> nat option \<Rightarrow> account_amount list \<Rightarrow> token_transfer list result" where
  "token_entries E t d [] = Inr []"
| "token_entries E t d (m # ms) =
     res_bind (account_fromProtobuf (lb_der E) (lb_key E) (aa_account m)) (\<lambda>a.
     res_bind (token_entries E t d ms) (\<lambda>ts.
       Inr (\<lparr>tt_token = t, tt_account = a, tt_decimals = (if d = Some 0 then None else d),
             tt_amount = from_some (aa_amount m), tt_approved = (aa_approval m = Some True)\<rparr> # ts)))"

definition read_decimals :: "nat option option \<Rightarrow> nat option" where
  "read_decimals d = (case d of None \<Rightarrow> None | Some v \<Rightarrow> v)"

fun tokenTransfers_fromProtobuf ::
    "'asn transfer_lib \<Rightarrow> token_transfer_list list \<Rightarrow> token_transfer list result" where
  "tokenTransfers_fromProtobuf E [] = Inr []"
| "tokenTransfers_fromProtobuf E (l # ls) =
     res_bind (token_fromProtobuf (tl_token l)) (\<lambda>t.
     res_bind (token_entries E t (read_decimals (tl_decimals l)) (tl_transfers l)) (\<lambda>xs.
     res_bind (tokenTransfers_fromProtobuf E ls) (\<lambda>ys. Inr (xs @ ys))))"

definition nftTransfer_toProtobuf :: "'asn transfer_lib \<Rightarrow> nft_transfer \<Rightarrow> nft_transfer_message" where
  "nftTransfer_toProtobuf E t =
     \<lparr>nf_sender = account_toProtobuf (lb_key E) (nt_sender t),
      nf_receiver = account_toProtobuf (lb_key E) (nt_receiver t), nf_serial = Some (nt_serial t),
      nf_approval = Some (nt_approved t)\<rparr>"

fun nft_entries :: "'asn transfer_lib \<Rightarrow> token_id \<Rightarrow> nft_transfer_message list \<Rightarrow> nft_transfer list result" where
  "nft_entries E t [] = Inr []"
| "nft_entries E t (m # ms) =
     res_bind (account_fromProtobuf (lb_der E) (lb_key E) (nf_sender m)) (\<lambda>a.
     res_bind (account_fromProtobuf (lb_der E) (lb_key E) (nf_receiver m)) (\<lambda>b.
     res_bind (nft_entries E t ms) (\<lambda>ts.
       Inr (\<lparr>nt_token = t, nt_sender = a, nt_receiver = b, nt_serial = from_some (nf_serial m),
             nt_approved = (nf_approval m = Some True)\<rparr> # ts))))"

fun nftTransfers_fromProtobuf ::
    "'asn transfer_lib \<Rightarrow> token_transfer_list list \<Rightarrow> nft_transfer list result" where
  "nftTransfers_fromProtobuf E [] = Inr []"
| "nftTransfers_fromProtobuf E (l # ls) =
     res_bind (token_fromProtobuf (tl_token l)) (\<lambda>t.
     res_bind (nft_entries E t (tl_nfts l)) (\<lambda>xs.
     res_bind (nftTransfers_fromProtobuf E ls) (\<lambda>ys. Inr (xs @ ys))))"

section \<open>State and arguments\<close>

record transfers =
  tr_tx :: "(account_id, tx_id, transfer_body) tx"
  tr_hbars :: "hbar_transfer list"
  tr_tokens :: "token_transfer list"
  tr_nfts :: "nft_transfer list"

datatype 'a id_arg = IdObject 'a | IdText string

datatype long_arg = LongObject long | LongNumber int

datatype hbar_arg = HbarObject hbar | HbarAmount amount

definition account_arg :: "'asn transfer_lib \<Rightarrow> account_id id_arg \<Rightarrow> account_id result" where
  "account_arg E a =
     (case a of IdObject i \<Rightarrow> Inr i | IdText s \<Rightarrow> account_fromString (lb_long E) (lb_der E) s)"

definition token_arg :: "'asn transfer_lib \<Rightarrow> token_id id_arg \<Rightarrow> token_id result" where
  "token_arg E a = (case a of IdObject i \<Rightarrow> Inr i | IdText s \<Rightarrow> token_fromString (lb_long E) s)"

definition nft_arg :: "'asn transfer_lib \<Rightarrow> nft_id id_arg \<Rightarrow> nft_id result" where
  "nft_arg E a = (case a of IdObject i \<Rightarrow> Inr i | IdText s \<Rightarrow> nft_fromString (lb_long E) s)"

definition long_value :: "'asn transfer_lib \<Rightarrow> long_arg \<Rightarrow> long" where
  "long_value E n = (case n of LongObject v \<Rightarrow> v | LongNumber i \<Rightarrow> fromNumber (lb_long E) i)"

definition hbar_of_arg :: "'asn transfer_lib \<Rightarrow> hbar_arg \<Rightarrow> hbar result" where
  "hbar_of_arg E v = (case v of HbarObject h \<Rightarrow> Inr h | HbarAmount a \<Rightarrow> hbar_new (lb_big E) a HbarUnit)"

definition empty_body :: transfer_body where
  "empty_body = \<lparr>tb_hbars = [], tb_tokens = []\<rparr>"

section \<open>Adding transfers of the currency\<close>

fun merge_hbar ::
    "'asn transfer_lib \<Rightarrow> account_id \<Rightarrow> hbar \<Rightarrow> bool \<Rightarrow> hbar_transfer list \<Rightarrow> hbar_transfer list result" where
  "merge_hbar E a h ap [] = Inr [\<lparr>ht_account = a, ht_amount = h, ht_approved = ap\<rparr>]"
| "merge_hbar E a h ap (t # ts) =
     (if account_compare (ht_account t) a = 0
      then res_bind (fromTinybars (lb_big E)
                      (AmountLong (toTinybars (lb_long E) (lb_big E) (ht_amount t) + toTinybars (lb_long E) (lb_big E) h)))
             (\<lambda>v. Inr (t\<lparr>ht_amount := v\<rparr> # ts))
      else res_bind (merge_hbar E a h ap ts) (\<lambda>ts'. Inr (t # ts')))"

definition add_hbar ::
    "'asn transfer_lib \<Rightarrow> account_id id_arg \<Rightarrow> hbar_arg \<Rightarrow> bool \<Rightarrow> transfers \<Rightarrow> transfers result" where
  "add_hbar E acc amt ap s =
     res_bind (requireNotFrozen (tr_tx s)) (\<lambda>_.
     res_bind (case acc of IdObject i \<Rightarrow> account_clone i
               | IdText t \<Rightarrow> account_fromString (lb_long E) (lb_der E) t) (\<lambda>a.
     res_bind (hbar_of_arg E amt) (\<lambda>h.
     res_bind (merge_hbar E a h ap (tr_hbars s)) (\<lambda>hs. Inr (s\<lparr>tr_hbars := hs\<rparr>)))))"

definition addHbarTransfer ::
    "'asn transfer_lib \<Rightarrow> account_id id_arg \<Rightarrow> hbar_arg \<Rightarrow> transfers \<Rightarrow> transfers result" where
  "addHbarTransfer E acc amt s = add_hbar E acc amt False s"

definition addApprovedHbarTransfer ::
    "'asn transfer_lib \<Rightarrow> account_id id_arg \<Rightarrow> hbar_arg \<Rightarrow> transfers \<Rightarrow> transfers result" where
  "addApprovedHbarTransfer E acc amt s = add_hbar E acc amt True s"

section \<open>Adding transfers of tokens\<close>

fun merge_token ::
    "token_id \<Rightarrow> account_id \<Rightarrow> long \<Rightarrow> bool \<Rightarrow> nat option \<Rightarrow> token_transfer list \<Rightarrow> token_transfer list" where
  "merge_token t a n ap d [] =
     [\<lparr>tt_token = t, tt_account = a, tt_decimals = d, tt_amount = n, tt_approved = ap\<rparr>]"
| "merge_token t a n ap d (x # xs) =
     (if token_compare (tt_token x) t = 0 \<and> account_compare (tt_account x) a = 0
      then x\<lparr>tt_amount := tt_amount x + n, tt_decimals := d\<rparr> # xs
      else x # merge_token t a n ap d xs)"

definition add_token ::
    "'asn transfer_lib \<Rightarrow> token_id id_arg \<Rightarrow> account_id id_arg \<Rightarrow> long_arg \<Rightarrow> bool \<Rightarrow> nat option
     \<Rightarrow> transfers \<Rightarrow> transfers result" where
  "add_token E tok acc amt ap d s =
     res_bind (requireNotFrozen (tr_tx s)) (\<lambda>_.
     res_bind (token_arg E tok) (\<lambda>t.
     res_bind (account_arg E acc) (\<lambda>a.
       Inr (s\<lparr>tr_tokens := merge_token t a (long_value E amt) ap d (tr_tokens s)\<rparr>))))"

definition addTokenTransfer ::
    "'asn transfer_lib \<Rightarrow> token_id id_arg \<Rightarrow> account_id id_arg \<Rightarrow> long_arg \<Rightarrow> transfers \<Rightarrow> transfers result" where
  "addTokenTransfer E tok acc amt s = add_token E tok acc amt False None s"

definition addApprovedTokenTransfer ::
    "'asn transfer_lib \<Rightarrow> token_id id_arg \<Rightarrow> account_id id_arg \<Rightarrow> long_arg \<Rightarrow> transfers \<Rightarrow> transfers result" where
  "addApprovedTokenTransfer E tok acc amt s = add_token E tok acc amt True None s"

text \<open>
  With decimals every entry of the token is looked at. An entry with other decimals throws, and what
  was set on the entries before it stays.
\<close>

fun set_decimals ::
    "token_id \<Rightarrow> account_id \<Rightarrow> long \<Rightarrow> nat \<Rightarrow> bool \<Rightarrow> token_transfer list
     \<Rightarrow> js_error option \<times> token_transfer list \<times> bool" where
  "set_decimals t a n d found [] = (None, [], found)"
| "set_decimals t a n d found (x # xs) =
     (if token_compare (tt_token x) t = 0
      then if tt_decimals x \<noteq> None \<and> tt_decimals x \<noteq> Some d
           then (Some (Error ''expected decimals mis-match''), x # xs, found)
           else let x1 = x\<lparr>tt_decimals := Some d\<rparr>;
                    hit = (account_compare (tt_account x) a = 0);
                    x2 = (if hit then x1\<lparr>tt_amount := tt_amount x + n\<rparr> else x1);
                    (e, ys, f) = set_decimals t a n d (found \<or> hit) xs
                in (e, x2 # ys, f)
      else let (e, ys, f) = set_decimals t a n d found xs in (e, x # ys, f))"

definition addTokenTransferWithDecimals ::
    "'asn transfer_lib \<Rightarrow> token_id id_arg \<Rightarrow> account_id id_arg \<Rightarrow> long_arg \<Rightarrow> nat \<Rightarrow> transfers
     \<Rightarrow> js_error option \<times> transfers" where
  "addTokenTransferWithDecimals E tok acc amt d s =
     (case res_bind (requireNotFrozen (tr_tx s)) (\<lambda>_.
            res_bind (token_arg E tok) (\<lambda>t. res_bind (account_arg E acc) (\<lambda>a. Inr (t, a)))) of
        Inl e \<Rightarrow> (Some e, s)
      | Inr (t, a) \<Rightarrow>
          (case set_decimals t a (long_value E amt) d False (tr_tokens s) of
             (Some e, xs, _) \<Rightarrow> (Some e, s\<lparr>tr_tokens := xs\<rparr>)
           | (None, xs, found) \<Rightarrow>
               (None, s\<lparr>tr_tokens :=
                  (if found then xs
                   else xs @ [\<lparr>tt_token = t, tt_account = a, tt_decimals = Some d,
                               tt_amount = long_value E amt, tt_approved = False\<rparr>])\<rparr>)))"

section \<open>Adding transfers of unique tokens\<close>

text \<open>
  The first argument decides how the others are read. A text is first tried as a unique token with
  sender and receiver, and taken for a token with serial number, sender and receiver when anything of
  that throws. An argument that is not of the kind its position asks for is an error at once here; the
  code fails later, when the value is used.
\<close>

datatype nft_argument = AccountArgument "account_id id_arg" | SerialArgument long_arg

datatype nft_first = FirstNft nft_id | FirstToken token_id | FirstText string

definition kind_error :: "'a result" where
  "kind_error = Inl (TypeError ''compare is not a function'')"

definition nft_account :: "'asn transfer_lib \<Rightarrow> nft_argument \<Rightarrow> account_id result" where
  "nft_account E x = (case x of AccountArgument a \<Rightarrow> account_arg E a | SerialArgument _ \<Rightarrow> kind_error)"

definition nft_last :: "'asn transfer_lib \<Rightarrow> account_id id_arg option \<Rightarrow> account_id result" where
  "nft_last E x = (case x of Some a \<Rightarrow> account_arg E a | None \<Rightarrow> kind_error)"

definition nft_serial_arg :: "'asn transfer_lib \<Rightarrow> nft_argument \<Rightarrow> long result" where
  "nft_serial_arg E x = (case x of SerialArgument n \<Rightarrow> Inr (long_value E n) | AccountArgument _ \<Rightarrow> kind_error)"

definition nft_by_id ::
    "'asn transfer_lib \<Rightarrow> nft_id \<Rightarrow> nft_argument \<Rightarrow> account_id id_arg \<Rightarrow> (nft_id \<times> account_id \<times> account_id) result" where
  "nft_by_id E i x y =
     res_bind (nft_account E x) (\<lambda>a. res_bind (account_arg E y) (\<lambda>b. Inr (i, a, b)))"

definition nft_by_token ::
    "'asn transfer_lib \<Rightarrow> token_id \<Rightarrow> nft_argument \<Rightarrow> account_id id_arg \<Rightarrow> account_id id_arg option
     \<Rightarrow> (nft_id \<times> account_id \<times> account_id) result" where
  "nft_by_token E t x y z =
     res_bind (nft_serial_arg E x) (\<lambda>n.
     res_bind (account_arg E y) (\<lambda>a.
     res_bind (nft_last E z) (\<lambda>b. Inr (\<lparr>nft_token = t, nft_serial = n\<rparr>, a, b))))"

definition nft_arguments ::
    "'asn transfer_lib \<Rightarrow> nft_first \<Rightarrow> nft_argument \<Rightarrow> account_id id_arg \<Rightarrow> account_id id_arg option
     \<Rightarrow> (nft_id \<times> account_id \<times> account_id) result" where
  "nft_arguments E f x y z =
     (case f of
        FirstNft i \<Rightarrow> nft_by_id E i x y
      | FirstToken t \<Rightarrow> nft_by_token E t x y z
      | FirstText s \<Rightarrow>
          (case res_bind (nft_fromString (lb_long E) s) (\<lambda>i. nft_by_id E i x y) of
             Inr r \<Rightarrow> Inr r
           | Inl _ \<Rightarrow> res_bind (token_fromString (lb_long E) s) (\<lambda>t. nft_by_token E t x y z)))"

fun merge_nft :: "nft_id \<Rightarrow> account_id \<Rightarrow> account_id \<Rightarrow> bool \<Rightarrow> nft_transfer list \<Rightarrow> nft_transfer list" where
  "merge_nft i a b ap [] =
     [\<lparr>nt_token = nft_token i, nt_sender = a, nt_receiver = b, nt_serial = nft_serial i, nt_approved = ap\<rparr>]"
| "merge_nft i a b ap (x # xs) =
     (if token_compare (nt_token x) (nft_token i) = 0 \<and> long_compare (nt_serial x) (nft_serial i) = 0
      then x\<lparr>nt_sender := a, nt_receiver := b\<rparr> # xs
      else x # merge_nft i a b ap xs)"

definition add_nft ::
    "'asn transfer_lib \<Rightarrow> bool \<Rightarrow> nft_first \<Rightarrow> nft_argument \<Rightarrow> account_id id_arg \<Rightarrow> account_id id_arg option
     \<Rightarrow> transfers \<Rightarrow> transfers result" where
  "add_nft E ap f x y z s =
     res_bind (requireNotFrozen (tr_tx s)) (\<lambda>_.
     res_bind (nft_arguments E f x y z) (\<lambda>(i, a, b).
       Inr (s\<lparr>tr_nfts := merge_nft i a b ap (tr_nfts s)\<rparr>)))"

definition addNftTransfer ::
    "'asn transfer_lib \<Rightarrow> nft_first \<Rightarrow> nft_argument \<Rightarrow> account_id id_arg \<Rightarrow> account_id id_arg option
     \<Rightarrow> transfers \<Rightarrow> transfers result" where
  "addNftTransfer E f x y z s = add_nft E False f x y z s"

definition addApprovedNftTransfer ::
    "'asn transfer_lib \<Rightarrow> nft_first \<Rightarrow> nft_argument \<Rightarrow> account_id id_arg \<Rightarrow> account_id id_arg option
     \<Rightarrow> transfers \<Rightarrow> transfers result" where
  "addApprovedNftTransfer E f x y z s = add_nft E True f x y z s"

section \<open>Construction and approvals\<close>

text \<open>The constructor of the subclass calls that of its base without the properties.\<close>

fun add_hbars ::
    "'asn transfer_lib \<Rightarrow> (account_id id_arg \<times> hbar_arg) list \<Rightarrow> transfers \<Rightarrow> transfers result" where
  "add_hbars E [] s = Inr s"
| "add_hbars E ((a, h) # xs) s = res_bind (addHbarTransfer E a h s) (add_hbars E xs)"

definition no_transfers :: transfers where
  "no_transfers = \<lparr>tr_tx = (new_tx empty_body)\<lparr>defaultMaxFee := 100000000\<rparr>, tr_hbars = [], tr_tokens = [], tr_nfts = []\<rparr>"

definition new_transfers ::
    "'asn transfer_lib \<Rightarrow> (account_id id_arg \<times> hbar_arg) list \<Rightarrow> transfers result" where
  "new_transfers E hs = add_hbars E hs no_transfers"

definition setHbarTransferApproval ::
    "'asn transfer_lib \<Rightarrow> account_id id_arg \<Rightarrow> bool \<Rightarrow> transfers \<Rightarrow> transfers result" where
  "setHbarTransferApproval E acc b s =
     res_bind (account_arg E acc) (\<lambda>a.
       Inr (s\<lparr>tr_hbars := map (\<lambda>t. if account_compare (ht_account t) a = 0 then t\<lparr>ht_approved := b\<rparr> else t) (tr_hbars s)\<rparr>))"

definition setTokenTransferApproval ::
    "'asn transfer_lib \<Rightarrow> token_id id_arg \<Rightarrow> account_id id_arg \<Rightarrow> bool \<Rightarrow> transfers \<Rightarrow> transfers result" where
  "setTokenTransferApproval E tok acc b s =
     res_bind (token_arg E tok) (\<lambda>t. res_bind (account_arg E acc) (\<lambda>a.
       Inr (s\<lparr>tr_tokens :=
         map (\<lambda>x. if token_compare (tt_token x) t = 0 \<and> account_compare (tt_account x) a = 0
                  then x\<lparr>tt_approved := b\<rparr> else x) (tr_tokens s)\<rparr>)))"

definition setNftTransferApproval ::
    "'asn transfer_lib \<Rightarrow> nft_id id_arg \<Rightarrow> bool \<Rightarrow> transfers \<Rightarrow> transfers result" where
  "setNftTransferApproval E n b s =
     res_bind (nft_arg E n) (\<lambda>i.
       Inr (s\<lparr>tr_nfts :=
         map (\<lambda>x. if token_compare (nt_token x) (nft_token i) = 0 \<and> long_compare (nt_serial x) (nft_serial i) = 0
                  then x\<lparr>nt_approved := b\<rparr> else x) (tr_nfts s)\<rparr>))"

fun each_ok :: "('a \<Rightarrow> unit result) \<Rightarrow> 'a list \<Rightarrow> unit result" where
  "each_ok f [] = Inr ()"
| "each_ok f (x # xs) = res_bind (f x) (\<lambda>_. each_ok f xs)"

definition validateChecksums :: "'asn transfer_lib \<Rightarrow> byte list option \<Rightarrow> transfers \<Rightarrow> unit result" where
  "validateChecksums E ledger s =
     (let acc = (\<lambda>a. account_validateChecksum (lb_long E) a ledger);
          tok = (\<lambda>t. token_validateChecksum (lb_long E) t ledger)
      in res_bind (each_ok (\<lambda>t. acc (ht_account t)) (tr_hbars s)) (\<lambda>_.
         res_bind (each_ok (\<lambda>t. res_bind (tok (tt_token t)) (\<lambda>_. acc (tt_account t))) (tr_tokens s)) (\<lambda>_.
           each_ok (\<lambda>t. res_bind (tok (nt_token t)) (\<lambda>_. res_bind (acc (nt_sender t)) (\<lambda>_. acc (nt_receiver t))))
             (tr_nfts s))))"

section \<open>Looking at the transfers\<close>

definition hbarTransfers :: "long_lib \<Rightarrow> transfers \<Rightarrow> hbar_transfer_map" where
  "hbarTransfers L s =
     foldl (\<lambda>m t. om_put (account_toString L) (ht_account t) (ht_amount t) m) om_new (tr_hbars s)"

text \<open>\<open>ref i\<close> is the identity of the token object of entry \<open>i\<close>: entries may share one.\<close>

definition tokenIdDecimals ::
    "long_lib \<Rightarrow> (nat \<Rightarrow> nat) \<Rightarrow> transfers \<Rightarrow> (token_id, nat option) object_map" where
  "tokenIdDecimals L ref s =
     foldl (\<lambda>m (i, t). om_set (token_toString L) (ref i, tt_token t) (tt_decimals t) m) om_new
       (enumerate 0 (tr_tokens s))"

definition tokenTransfers :: "long_lib \<Rightarrow> transfers \<Rightarrow> token_transfer_map" where
  "tokenTransfers L s = foldl (\<lambda>m t. ttm_set L (tt_token t) (tt_account t) (tt_amount t) m) om_new (tr_tokens s)"

definition nftTransfers :: "long_lib \<Rightarrow> transfers \<Rightarrow> token_nft_map" where
  "nftTransfers L s =
     foldl (\<lambda>m t. tnm_set L (nt_token t)
              \<lparr>ne_sender = nt_sender t, ne_recipient = nt_receiver t, ne_serial = nt_serial t,
               ne_approved = nt_approved t\<rparr> m) om_new (tr_nfts s)"

section \<open>The body\<close>

text \<open>
  Sorting is stable. Between accounts of different kinds the comparison is no order, and the language
  leaves the result open; here it is that of an insertion sort.
\<close>

fun insert_by :: "('a \<Rightarrow> 'a \<Rightarrow> int) \<Rightarrow> 'a \<Rightarrow> 'a list \<Rightarrow> 'a list" where
  "insert_by cmp x [] = [x]"
| "insert_by cmp x (y # ys) = (if cmp x y \<le> 0 then x # y # ys else y # insert_by cmp x ys)"

definition sort_by :: "('a \<Rightarrow> 'a \<Rightarrow> int) \<Rightarrow> 'a list \<Rightarrow> 'a list" where
  "sort_by cmp xs = foldr (insert_by cmp) xs []"

definition token_order :: "token_transfer \<Rightarrow> token_transfer \<Rightarrow> int" where
  "token_order a b =
     (let c = token_compare (tt_token a) (tt_token b)
      in if c \<noteq> 0 then c else account_compare (tt_account a) (tt_account b))"

definition nft_order :: "nft_transfer \<Rightarrow> nft_transfer \<Rightarrow> int" where
  "nft_order a b =
     (let c1 = account_compare (nt_sender a) (nt_sender b); c2 = account_compare (nt_receiver a) (nt_receiver b)
      in if c1 \<noteq> 0 then c1 else if c2 \<noteq> 0 then c2 else long_compare (nt_serial a) (nt_serial b))"

record token_group =
  gr_token :: token_id
  gr_decimals :: "nat option"
  gr_transfers :: "token_transfer list"
  gr_nfts :: "nft_transfer list"

definition same_token :: "token_id \<Rightarrow> token_group \<Rightarrow> bool" where
  "same_token t g \<longleftrightarrow> token_compare (gr_token g) t = 0"

text \<open>The last group, when it is of the token; and the last of the groups of the token.\<close>

definition last_group :: "token_id \<Rightarrow> token_group list \<Rightarrow> nat option" where
  "last_group t gs = (if gs \<noteq> [] \<and> same_token t (last gs) then Some (length gs - 1) else None)"

definition find_group :: "token_id \<Rightarrow> token_group list \<Rightarrow> nat option" where
  "find_group t gs = foldl (\<lambda>r (i, g). if same_token t g then Some i else r) None (enumerate 0 gs)"

definition push_transfer :: "token_transfer \<Rightarrow> nat \<Rightarrow> token_group list \<Rightarrow> token_group list" where
  "push_transfer x i gs = gs[i := (gs ! i)\<lparr>gr_transfers := gr_transfers (gs ! i) @ [x]\<rparr>]"

definition push_nft :: "nft_transfer \<Rightarrow> nat \<Rightarrow> token_group list \<Rightarrow> token_group list" where
  "push_nft y i gs = gs[i := (gs ! i)\<lparr>gr_nfts := gr_nfts (gs ! i) @ [y]\<rparr>]"

definition transfer_group :: "token_transfer \<Rightarrow> token_group" where
  "transfer_group x =
     \<lparr>gr_token = tt_token x, gr_decimals = tt_decimals x, gr_transfers = [x], gr_nfts = []\<rparr>"

definition nft_group :: "nft_transfer \<Rightarrow> token_group" where
  "nft_group y = \<lparr>gr_token = nt_token y, gr_decimals = None, gr_transfers = [], gr_nfts = [y]\<rparr>"

function (sequential) group_transfers ::
    "token_transfer list \<Rightarrow> nft_transfer list \<Rightarrow> token_group list \<Rightarrow> token_group list" where
  "group_transfers [] [] gs = gs"
| "group_transfers (x # xs) (y # ys) gs =
     (case last_group (tt_token x) gs of
        Some i \<Rightarrow> group_transfers xs (y # ys) (push_transfer x i gs)
      | None \<Rightarrow>
          (case last_group (nt_token y) gs of
             Some i \<Rightarrow> group_transfers (x # xs) ys (push_nft y i gs)
           | None \<Rightarrow>
               (let c = token_compare (tt_token x) (nt_token y)
                in if c = 0 then group_transfers xs ys (gs @ [(transfer_group x)\<lparr>gr_nfts := [y]\<rparr>])
                   else if c < 0 then group_transfers xs (y # ys) (gs @ [transfer_group x])
                   else group_transfers (x # xs) ys (gs @ [nft_group y]))))"
| "group_transfers (x # xs) [] gs =
     (case find_group (tt_token x) gs of
        Some i \<Rightarrow> group_transfers xs [] (push_transfer x i gs)
      | None \<Rightarrow> group_transfers xs [] (gs @ [transfer_group x]))"
| "group_transfers [] (y # ys) gs =
     (case find_group (nt_token y) gs of
        Some i \<Rightarrow> group_transfers [] ys (push_nft y i gs)
      | None \<Rightarrow> group_transfers [] ys (gs @ [nft_group y]))"
  by pat_completeness auto
termination
  by (relation "measure (\<lambda>(xs, ys, gs). length xs + length ys)") auto

definition group_toProtobuf :: "'asn transfer_lib \<Rightarrow> token_group \<Rightarrow> token_transfer_list" where
  "group_toProtobuf E g =
     \<lparr>tl_token = token_toProtobuf (gr_token g), tl_decimals = map_option Some (gr_decimals g),
      tl_transfers = map (tokenTransfer_toProtobuf E) (gr_transfers g),
      tl_nfts = map (nftTransfer_toProtobuf E) (gr_nfts g)\<rparr>"

definition makeTokenData :: "'asn transfer_lib \<Rightarrow> transfers \<Rightarrow> token_transfer_list list \<times> transfers" where
  "makeTokenData E s =
     (let xs = sort_by token_order (tr_tokens s); ys = sort_by nft_order (tr_nfts s)
      in (map (group_toProtobuf E) (group_transfers xs ys []), s\<lparr>tr_tokens := xs, tr_nfts := ys\<rparr>))"

definition makeTransferData :: "'asn transfer_lib \<Rightarrow> transfers \<Rightarrow> transfer_body \<times> transfers" where
  "makeTransferData E s =
     (let (tl, s1) = makeTokenData E s;
          hs = sort_by (\<lambda>a b. account_compare (ht_account a) (ht_account b)) (tr_hbars s1)
      in (\<lparr>tb_hbars = map (transfer_toProtobuf E) hs, tb_tokens = tl\<rparr>, s1\<lparr>tr_hbars := hs\<rparr>))"

definition transfers_of_body :: "'asn transfer_lib \<Rightarrow> transfer_body \<Rightarrow> transfers result" where
  "transfers_of_body E b =
     res_bind (tokenTransfers_fromProtobuf E (tb_tokens b)) (\<lambda>xs.
     res_bind (transfers_fromProtobuf E (tb_hbars b)) (\<lambda>hs.
     res_bind (nftTransfers_fromProtobuf E (tb_tokens b)) (\<lambda>ys.
       Inr (no_transfers\<lparr>tr_tokens := xs, tr_hbars := hs, tr_nfts := ys\<rparr>))))"

end
