(* ===== verification/Receipts.thy ===== *)
theory Receipts
  imports Query ContractIds TxIds Transfers
begin

text \<open>
  Receipts and how they are fetched: \<open>src/transaction/TransactionReceipt.js\<close> with
  \<open>src/ExchangeRate.js\<close>, the two queries \<open>src/transaction/TransactionReceiptQuery.js\<close> and
  \<open>src/transaction/TransactionRecordQuery.js\<close>, and \<open>src/transaction/TransactionResponse.js\<close>, which is
  what sending a transaction returns. A record is a type variable; only the receipt inside it and the
  kind of the response are looked at. Printing a receipt as JSON text is left out.
\<close>

section \<open>Exchange rates\<close>

text \<open>The expiration is a date, a number of milliseconds.\<close>

record exchange_rate =
  er_hbars :: int
  er_cents :: int
  er_expiration :: int

record rate_message =
  ra_hbarEquiv :: int
  ra_centEquiv :: int
  ra_expiration :: "seconds_field option"

definition exchangeRateInCents :: "exchange_rate \<Rightarrow> rat option" where
  "exchangeRateInCents r = (if er_hbars r = 0 then None else Some (of_int (er_cents r) / of_int (er_hbars r)))"

definition rate_fromProtobuf :: "rate_message option \<Rightarrow> exchange_rate result" where
  "rate_fromProtobuf m =
     (case m of
        None \<Rightarrow> Inl undefined_error
      | Some r \<Rightarrow> Inr \<lparr>er_hbars = ra_hbarEquiv r, er_cents = ra_centEquiv r,
          er_expiration = (case ra_expiration r of
             None \<Rightarrow> 0
           | Some NoSeconds \<Rightarrow> 0
           | Some (SecondsLong n) \<Rightarrow> toInt n * 1000
           | Some (SecondsNumber n) \<Rightarrow> n)\<rparr>)"

definition rate_toProtobuf :: "long_lib \<Rightarrow> exchange_rate \<Rightarrow> rate_message" where
  "rate_toProtobuf L r =
     \<lparr>ra_hbarEquiv = er_hbars r, ra_centEquiv = er_cents r,
      ra_expiration = Some (SecondsLong (fromNumber L (er_expiration r sdiv 1000)))\<rparr>"

section \<open>Receipts\<close>

text \<open>
  A receipt without the duplicates and children, which are receipts too; those of a duplicate or a child
  are never written or read.
\<close>

record receipt =
  rc_status :: nat
  rc_account :: "account_id option"
  rc_file :: "file_id option"
  rc_contract :: "contract_id option"
  rc_topic :: "topic_id option"
  rc_token :: "token_id option"
  rc_schedule :: "schedule_id option"
  rc_rate :: "exchange_rate option"
  rc_nextRate :: "exchange_rate option"
  rc_sequence :: "long option"
  rc_hash :: "byte list option"
  rc_supply :: "long option"
  rc_scheduledId :: "tx_id option"
  rc_serials :: "long list"
  rc_node :: "long option"

record tx_receipt =
  the_receipt :: receipt
  duplicates :: "receipt list"
  children :: "receipt list"

record rates_message =
  currentRate :: "rate_message option"
  nextRate :: "rate_message option"

record receipt_message =
  rm_status :: "nat option"
  rm_account :: "account_message option"
  rm_file :: "id_message option"
  rm_contract :: "contract_message option"
  rm_topic :: "id_message option"
  rm_token :: "id_message option"
  rm_schedule :: "id_message option"
  rm_rates :: "rates_message option"
  rm_sequence :: "long option"
  rm_hash :: "byte list option"
  rm_supply :: "long option"
  rm_scheduledId :: "tx_id_message option"
  rm_serials :: "long list option"
  rm_node :: "long option"

record receipt_body =
  rb_receipt :: "receipt_message option"
  rb_duplicates :: "receipt_message list option"
  rb_children :: "receipt_message list option"

record receipt_codec =
  encReceipt :: "receipt_body \<Rightarrow> byte list"
  decReceipt :: "byte list \<Rightarrow> receipt_body result"

definition receipt_codec_ok :: "receipt_codec \<Rightarrow> bool" where
  "receipt_codec_ok R \<longleftrightarrow> (\<forall>m. decReceipt R (encReceipt R m) = Inr m)"

definition receipt_message_of :: "'asn transfer_lib \<Rightarrow> receipt \<Rightarrow> receipt_message" where
  "receipt_message_of E r =
     \<lparr>rm_status = Some (rc_status r),
      rm_account = map_option (account_toProtobuf (lb_key E)) (rc_account r),
      rm_file = map_option file_toProtobuf (rc_file r),
      rm_contract = map_option contract_toProtobuf (rc_contract r),
      rm_topic = map_option topic_toProtobuf (rc_topic r),
      rm_token = map_option token_toProtobuf (rc_token r),
      rm_schedule = map_option schedule_toProtobuf (rc_schedule r),
      rm_rates = Some \<lparr>currentRate = map_option (rate_toProtobuf (lb_long E)) (rc_rate r),
                       nextRate = map_option (rate_toProtobuf (lb_long E)) (rc_nextRate r)\<rparr>,
      rm_sequence = rc_sequence r, rm_hash = rc_hash r, rm_supply = rc_supply r,
      rm_scheduledId = map_option (tx_id_toProtobuf (lb_key E)) (rc_scheduledId r),
      rm_serials = Some (rc_serials r), rm_node = rc_node r\<rparr>"

definition receipt_toProtobuf :: "'asn transfer_lib \<Rightarrow> tx_receipt \<Rightarrow> receipt_body" where
  "receipt_toProtobuf E t =
     \<lparr>rb_receipt = Some (receipt_message_of E (the_receipt t)),
      rb_duplicates = Some (map (receipt_message_of E) (duplicates t)),
      rb_children = Some (map (receipt_message_of E) (children t))\<rparr>"

text \<open>A number that is printed and read again.\<close>

definition reread :: "long_lib \<Rightarrow> long \<Rightarrow> long" where
  "reread L n = fromText L (toText L n)"

definition receipt_of_message :: "'asn transfer_lib \<Rightarrow> receipt_message \<Rightarrow> receipt result" where
  "receipt_of_message E m =
     res_bind (status_fromCode (code_or_ok (rm_status m))) (\<lambda>st.
     res_bind (res_opt (account_fromProtobuf (lb_der E) (lb_key E)) (rm_account m)) (\<lambda>a.
     res_bind (res_opt (file_fromProtobuf (lb_long E)) (rm_file m)) (\<lambda>f.
     res_bind (res_opt contract_fromProtobuf (rm_contract m)) (\<lambda>c.
     res_bind (res_opt topic_fromProtobuf (rm_topic m)) (\<lambda>t.
     res_bind (res_opt token_fromProtobuf (rm_token m)) (\<lambda>k.
     res_bind (res_opt schedule_fromProtobuf (rm_schedule m)) (\<lambda>s.
     res_bind (res_opt (\<lambda>r. rate_fromProtobuf (currentRate r)) (rm_rates m)) (\<lambda>r.
     res_bind (res_opt (\<lambda>r. rate_fromProtobuf (nextRate r)) (rm_rates m)) (\<lambda>n.
     res_bind (res_opt (tx_id_fromProtobuf (lb_long E) (lb_der E) (lb_key E)) (rm_scheduledId m)) (\<lambda>i.
       Inr \<lparr>rc_status = st, rc_account = a, rc_file = f, rc_contract = c, rc_topic = t, rc_token = k,
            rc_schedule = s, rc_rate = r, rc_nextRate = n,
            rc_sequence = map_option (reread (lb_long E)) (rm_sequence m), rc_hash = rm_hash m,
            rc_supply = map_option (reread (lb_long E)) (rm_supply m), rc_scheduledId = i,
            rc_serials = (case rm_serials m of None \<Rightarrow> [] | Some ns \<Rightarrow> ns), rc_node = rm_node m\<rparr>))))))))))"

definition some_list :: "'a list option \<Rightarrow> 'a list" where
  "some_list x = (case x of None \<Rightarrow> [] | Some xs \<Rightarrow> xs)"

definition receipt_fromProtobuf :: "'asn transfer_lib \<Rightarrow> receipt_body \<Rightarrow> tx_receipt result" where
  "receipt_fromProtobuf E b =
     res_bind (res_map (receipt_of_message E) (some_list (rb_children b))) (\<lambda>cs.
     res_bind (res_map (receipt_of_message E) (some_list (rb_duplicates b))) (\<lambda>ds.
       case rb_receipt b of
         None \<Rightarrow> Inl undefined_error
       | Some m \<Rightarrow> res_bind (receipt_of_message E m) (\<lambda>r.
           Inr \<lparr>the_receipt = r, duplicates = ds, children = cs\<rparr>)))"

definition receipt_fromBytes :: "'asn transfer_lib \<Rightarrow> receipt_codec \<Rightarrow> byte list \<Rightarrow> tx_receipt result" where
  "receipt_fromBytes E R bs = res_bind (decReceipt R bs) (receipt_fromProtobuf E)"

definition receipt_toBytes :: "'asn transfer_lib \<Rightarrow> receipt_codec \<Rightarrow> tx_receipt \<Rightarrow> byte list" where
  "receipt_toBytes E R t = encReceipt R (receipt_toProtobuf E t)"

section \<open>The query for a receipt\<close>

record id_query =
  iq_tid :: "tx_id option"
  iq_children :: "bool option"
  iq_duplicates :: "bool option"
  iq_validate :: bool

record id_request =
  ir_header :: "query_header option"
  ir_tid :: "tx_id_message option"
  ir_duplicates :: "bool option"
  ir_children :: "bool option"

record receipt_response =
  rr_header :: response_header
  rr_body :: receipt_body

text \<open>\<open>setTransactionId\<close> takes an identifier or its text.\<close>

definition tid_of_arg :: "long_lib \<Rightarrow> 'asn der_lib \<Rightarrow> tx_id + string \<Rightarrow> tx_id result" where
  "tid_of_arg L D x = (case x of Inl i \<Rightarrow> Inr (tx_id_clone i) | Inr t \<Rightarrow> tx_id_fromString L D t)"

definition new_receipt_query ::
    "long_lib \<Rightarrow> 'asn der_lib \<Rightarrow> (tx_id + string) option \<Rightarrow> bool option \<Rightarrow> bool option \<Rightarrow> bool option \<Rightarrow> id_query result" where
  "new_receipt_query L D tid dup child valid =
     res_bind (res_opt (tid_of_arg L D) tid) (\<lambda>i.
       Inr \<lparr>iq_tid = i, iq_children = child, iq_duplicates = dup,
            iq_validate = (case valid of None \<Rightarrow> True | Some b \<Rightarrow> b)\<rparr>)"

definition receipt_setTransactionId ::
    "long_lib \<Rightarrow> 'asn der_lib \<Rightarrow> tx_id + string \<Rightarrow> id_query \<Rightarrow> id_query result" where
  "receipt_setTransactionId L D x q = res_bind (tid_of_arg L D x) (\<lambda>i. Inr (q\<lparr>iq_tid := Some i\<rparr>))"

definition receipt_setIncludeDuplicates :: "bool \<Rightarrow> id_query \<Rightarrow> id_query" where
  "receipt_setIncludeDuplicates b q = q\<lparr>iq_duplicates := Some b\<rparr>"

definition receipt_setIncludeChildren :: "bool \<Rightarrow> id_query \<Rightarrow> id_query" where
  "receipt_setIncludeChildren b q = q\<lparr>iq_children := Some b\<rparr>"

definition receipt_setValidateStatus :: "bool \<Rightarrow> id_query \<Rightarrow> id_query" where
  "receipt_setValidateStatus b q = q\<lparr>iq_validate := b\<rparr>"

definition receipt_query_fromProtobuf ::
    "'asn transfer_lib \<Rightarrow> id_request \<Rightarrow> id_query result" where
  "receipt_query_fromProtobuf E m =
     res_bind (res_opt (tx_id_fromProtobuf (lb_long E) (lb_der E) (lb_key E)) (ir_tid m)) (\<lambda>i.
       new_receipt_query (lb_long E) (lb_der E) (map_option Inl i) (ir_duplicates m) (ir_children m) None)"

definition receipt_onMakeRequest :: "key_codec \<Rightarrow> id_query \<Rightarrow> query_header option \<Rightarrow> id_request" where
  "receipt_onMakeRequest K q h =
     \<lparr>ir_header = h, ir_tid = map_option (tx_id_toProtobuf K) (iq_tid q),
      ir_duplicates = iq_duplicates q, ir_children = iq_children q\<rparr>"

definition receipt_validateChecksums :: "(account_id \<Rightarrow> unit result) \<Rightarrow> id_query \<Rightarrow> unit result" where
  "receipt_validateChecksums check q =
     (case iq_tid q of
        None \<Rightarrow> Inr ()
      | Some i \<Rightarrow> (case accountId i of None \<Rightarrow> Inr () | Some a \<Rightarrow> check a))"

text \<open>
  The status inside the receipt decides once the node has accepted the question. A code that
  \<open>_fromCode\<close> rejects or a missing receipt throws; that is reported as an error, whose cause
  \<open>_mapStatusError\<close> finds again.
\<close>

definition status_of_code :: "nat option \<Rightarrow> nat result" where
  "status_of_code c =
     (case c of
        None \<Rightarrow> Inl (Error ''(BUG) Status.fromCode() does not handle code'')
      | Some k \<Rightarrow> status_fromCode k)"

definition decided_by :: "nat option result \<Rightarrow> (nat \<Rightarrow> exec_state) \<Rightarrow> string \<times> exec_state" where
  "decided_by c f =
     (case res_bind c status_of_code of
        Inl e \<Rightarrow> (''UNKNOWN'', ExecError)
      | Inr s \<Rightarrow> (status_toString s, f s))"

definition receipt_status :: "receipt_body \<Rightarrow> nat option result" where
  "receipt_status b = (case rb_receipt b of None \<Rightarrow> Inl undefined_error | Some m \<Rightarrow> Inr (rm_status m))"

definition receipt_shouldRetry :: "id_query \<Rightarrow> receipt_response \<Rightarrow> string \<times> exec_state" where
  "receipt_shouldRetry q r =
     (case status_fromCode (code_or_ok (rh_code (rr_header r))) of
        Inl e \<Rightarrow> (''UNKNOWN'', ExecError)
      | Inr s \<Rightarrow>
          if s \<in> set [12, 21, 18, 67] then (status_toString s, Retry)
          else if s \<noteq> 0 then (status_toString s, ExecError)
          else decided_by (receipt_status (rr_body r)) (\<lambda>s.
                 if s \<in> set [12, 21, 18] then Retry
                 else if s \<in> set [22, 104] then Finished
                 else if iq_validate q then ExecError else Finished))"

definition own_transactionId :: "id_query \<Rightarrow> tx_id option \<Rightarrow> tx_id result" where
  "own_transactionId q payment = (case iq_tid q of Some i \<Rightarrow> Inr i | None \<Rightarrow> getTransactionId payment)"

definition receipt_mapStatusError ::
    "'asn transfer_lib \<Rightarrow> id_query \<Rightarrow> tx_id option \<Rightarrow> receipt_response \<Rightarrow> js_error" where
  "receipt_mapStatusError E q payment r =
     (if status_fromCode (code_or_ok (rh_code (rr_header r))) \<noteq> Inr 0
      then precheck_error (own_transactionId q payment) (rh_code (rr_header r))
      else case res_bind (receipt_status (rr_body r)) status_of_code of
             Inl e \<Rightarrow> e
           | Inr s \<Rightarrow>
               if iq_tid q = None
               then Error ''Failed to construct `ReceiptStatusError` because `transactionId` is `null`''
               else (case receipt_fromProtobuf E (rr_body r) of
                       Inl e \<Rightarrow> e
                     | Inr _ \<Rightarrow> ReceiptStatusError (status_toString s)))"

definition receipt_ops ::
    "'asn transfer_lib \<Rightarrow> (account_id \<Rightarrow> unit result) \<Rightarrow> id_query
     \<Rightarrow> (account_id, tx_id, id_request, receipt_response, tx_receipt) query_ops" where
  "receipt_ops E check q =
     \<lparr>isPaymentRequired = False, checkIds = receipt_validateChecksums check q, responseHeader = rr_header,
      onMakeRequest = receipt_onMakeRequest (lb_key E) q, retryQuery = receipt_shouldRetry q,
      queryError = (\<lambda>i r a. receipt_mapStatusError E q i r),
      mapQueryResponse = (\<lambda>r. receipt_fromProtobuf E (rr_body r))\<rparr>"

section \<open>The query for a record\<close>

text \<open>
  The query has two fields for the duplicates: the one that is sent is never written.
\<close>

record record_query = id_query +
  rq_duplicates :: "bool option"

record 'rec record_response =
  rd_header :: response_header
  rd_type :: response_type
  rd_receipt :: "receipt_message option option"
  rd_record :: 'rec

definition new_record_query ::
    "long_lib \<Rightarrow> 'asn der_lib \<Rightarrow> tx_id option \<Rightarrow> bool option \<Rightarrow> bool option \<Rightarrow> bool option \<Rightarrow> record_query result" where
  "new_record_query L D tid child dup valid =
     Inr \<lparr>iq_tid = map_option tx_id_clone tid, iq_children = child, iq_duplicates = None,
          iq_validate = (case valid of None \<Rightarrow> True | Some b \<Rightarrow> b), rq_duplicates = dup\<rparr>"

definition record_setTransactionId ::
    "long_lib \<Rightarrow> 'asn der_lib \<Rightarrow> tx_id + string \<Rightarrow> record_query \<Rightarrow> record_query result" where
  "record_setTransactionId L D x q = res_bind (tid_of_arg L D x) (\<lambda>i. Inr (q\<lparr>iq_tid := Some i\<rparr>))"

definition record_setIncludeDuplicates :: "bool \<Rightarrow> record_query \<Rightarrow> record_query" where
  "record_setIncludeDuplicates b q = q\<lparr>rq_duplicates := Some b\<rparr>"

definition record_includeDuplicates :: "record_query \<Rightarrow> bool" where
  "record_includeDuplicates q = (case rq_duplicates q of None \<Rightarrow> False | Some b \<Rightarrow> b)"

definition record_setIncludeChildren :: "bool \<Rightarrow> record_query \<Rightarrow> record_query" where
  "record_setIncludeChildren b q = q\<lparr>iq_children := Some b\<rparr>"

definition record_setValidateReceiptStatus :: "bool \<Rightarrow> record_query \<Rightarrow> record_query" where
  "record_setValidateReceiptStatus b q = q\<lparr>iq_validate := b\<rparr>"

definition record_query_fromProtobuf :: "'asn transfer_lib \<Rightarrow> id_request \<Rightarrow> record_query result" where
  "record_query_fromProtobuf E m =
     res_bind (res_opt (tx_id_fromProtobuf (lb_long E) (lb_der E) (lb_key E)) (ir_tid m)) (\<lambda>i.
       new_record_query (lb_long E) (lb_der E) i (ir_children m) (ir_duplicates m) None)"

definition record_onMakeRequest :: "key_codec \<Rightarrow> record_query \<Rightarrow> query_header option \<Rightarrow> id_request" where
  "record_onMakeRequest K q h =
     \<lparr>ir_header = h, ir_tid = map_option (tx_id_toProtobuf K) (iq_tid q),
      ir_duplicates = iq_duplicates q, ir_children = iq_children q\<rparr>"

definition record_status :: "'rec record_response \<Rightarrow> nat option result" where
  "record_status r = (case rd_receipt r of Some (Some m) \<Rightarrow> Inr (rm_status m) | _ \<Rightarrow> Inl undefined_error)"

definition record_shouldRetry :: "record_query \<Rightarrow> 'rec record_response \<Rightarrow> string \<times> exec_state" where
  "record_shouldRetry q r =
     (case status_fromCode (code_or_ok (rh_code (rd_header r))) of
        Inl e \<Rightarrow> (''UNKNOWN'', ExecError)
      | Inr s \<Rightarrow>
          if s \<in> set [12, 21, 18, 19, 67] then (status_toString s, Retry)
          else if s \<noteq> 0 then (status_toString s, ExecError)
          else if rd_type r = CostAnswer then (status_toString s, Finished)
          else decided_by (record_status r) (\<lambda>s.
                 if s \<in> set [0, 12, 21, 18, 19] then Retry
                 else if s = 22 then Finished
                 else if iq_validate q then ExecError else Finished))"

text \<open>A revert is an error with the record, \<open>mapRecord\<close>, whether the node or the receipt says so.\<close>

definition record_error :: "tx_id result \<Rightarrow> 'rec result \<Rightarrow> nat \<Rightarrow> js_error \<Rightarrow> js_error" where
  "record_error i rec s other =
     (case i of
        Inl e \<Rightarrow> e
      | Inr _ \<Rightarrow>
          if s = 33 then (case rec of Inl e \<Rightarrow> e | Inr _ \<Rightarrow> RecordStatusError (status_toString s)) else other)"

definition record_mapStatusError ::
    "'asn transfer_lib \<Rightarrow> ('raw \<Rightarrow> 'rec result) \<Rightarrow> record_query \<Rightarrow> tx_id option \<Rightarrow> 'raw record_response \<Rightarrow> js_error" where
  "record_mapStatusError E mapRecord q payment r =
     (let i = own_transactionId (id_query.truncate q) payment
      in case status_fromCode (code_or_ok (rh_code (rd_header r))) of
           Inl e \<Rightarrow> e
         | Inr s \<Rightarrow>
             if s \<noteq> 0
             then record_error i (mapRecord (rd_record r)) s (StatusError (status_toString s))
             else (case res_bind (record_status r) status_of_code of
                     Inl e \<Rightarrow> e
                   | Inr s \<Rightarrow> record_error i (mapRecord (rd_record r)) s
                       (case receipt_fromProtobuf E \<lparr>rb_receipt = the (rd_receipt r), rb_duplicates = None, rb_children = None\<rparr> of
                          Inl e \<Rightarrow> e
                        | Inr _ \<Rightarrow> ReceiptStatusError (status_toString s))))"

definition record_ops ::
    "'asn transfer_lib \<Rightarrow> ('raw \<Rightarrow> 'rec result) \<Rightarrow> (account_id \<Rightarrow> unit result) \<Rightarrow> record_query
     \<Rightarrow> (account_id, tx_id, id_request, 'raw record_response, 'rec) query_ops" where
  "record_ops E mapRecord check q =
     \<lparr>isPaymentRequired = True, checkIds = receipt_validateChecksums check (id_query.truncate q),
      responseHeader = rd_header, onMakeRequest = record_onMakeRequest (lb_key E) q,
      retryQuery = record_shouldRetry q,
      queryError = (\<lambda>i r a. record_mapStatusError E mapRecord q i r),
      mapQueryResponse = (\<lambda>r. mapRecord (rd_record r))\<rparr>"

section \<open>The response to a transaction\<close>

record response_json =
  js_nodeId :: string
  js_transactionHash :: string
  js_transactionId :: string

type_synonym response = "(account_id, tx_id) tx_response"

definition response_fromJSON :: "long_lib \<Rightarrow> 'asn der_lib \<Rightarrow> response_json \<Rightarrow> response result" where
  "response_fromJSON L D j =
     res_bind (account_fromString L D (js_nodeId j)) (\<lambda>a.
     res_bind (tx_id_fromString L D (js_transactionId j)) (\<lambda>i.
       Inr \<lparr>r_node = Some a, r_hash = hex_decode (js_transactionHash j), r_tid = i\<rparr>))"

definition response_toJSON :: "long_lib \<Rightarrow> response \<Rightarrow> response_json result" where
  "response_toJSON L r =
     (case r_node r of
        None \<Rightarrow> Inl undefined_error
      | Some a \<Rightarrow> res_bind (tx_id_toString L (r_tid r)) (\<lambda>t.
          Inr \<lparr>js_nodeId = account_toString L a, js_transactionHash = hex_encode (r_hash r), js_transactionId = t\<rparr>))"

definition getReceiptQuery :: "response \<Rightarrow> id_query" where
  "getReceiptQuery r =
     \<lparr>iq_tid = Some (tx_id_clone (r_tid r)), iq_children = None, iq_duplicates = None, iq_validate = True\<rparr>"

definition getRecordQuery :: "response \<Rightarrow> record_query" where
  "getRecordQuery r =
     \<lparr>iq_tid = Some (tx_id_clone (r_tid r)), iq_children = None, iq_duplicates = None, iq_validate = True,
      rq_duplicates = None\<rparr>"

text \<open>The query asks the node the transaction was sent to.\<close>

definition response_exec ::
    "(account_id, 'ch) net \<Rightarrow> response \<Rightarrow> (account_id, 'ch, (account_id, tx_id) query, id_request) exec" where
  "response_exec N r =
     (new_exec N new_query)\<lparr>x_nodes := setLocked (new_list\<lparr>items := [r_node r]\<rparr>)\<rparr>"

definition execute_receipt ::
    "(account_id, 'ch) client \<Rightarrow> account_id query_client \<Rightarrow> (account_id, tx_id) pay_lib
     \<Rightarrow> (account_id, tx_id, receipt_response) query_env \<Rightarrow> 'asn transfer_lib \<Rightarrow> (account_id \<Rightarrow> unit result)
     \<Rightarrow> rat \<Rightarrow> (nat \<Rightarrow> receipt_response attempt_env) \<Rightarrow> (account_id, 'ch) net \<Rightarrow> response
     \<Rightarrow> tx_receipt result \<times> (account_id, 'ch, (account_id, tx_id) query, id_request) exec" where
  "execute_receipt C K L V E check start env N r =
     query_execute C K L V (receipt_ops E check (getReceiptQuery r)) None start env (response_exec N r)"

definition getReceipt ::
    "(account_id, 'ch) client \<Rightarrow> account_id query_client \<Rightarrow> (account_id, tx_id) pay_lib
     \<Rightarrow> (account_id, tx_id, receipt_response) query_env \<Rightarrow> 'asn transfer_lib \<Rightarrow> (account_id \<Rightarrow> unit result)
     \<Rightarrow> rat \<Rightarrow> (nat \<Rightarrow> receipt_response attempt_env) \<Rightarrow> (account_id, 'ch) net \<Rightarrow> response
     \<Rightarrow> tx_receipt result \<times> (account_id, 'ch, (account_id, tx_id) query, id_request) exec" where
  "getReceipt C K L V E check start env N r =
     (let (res, S) = execute_receipt C K L V E check start env N r
      in (res_bind res (\<lambda>t.
            if rc_status (the_receipt t) \<noteq> 22 \<and> rc_status (the_receipt t) \<noteq> 104
            then Inl (ReceiptStatusError (status_toString (rc_status (the_receipt t)))) else Inr t), S))"

definition execute_record ::
    "(account_id, 'ch) client \<Rightarrow> account_id query_client \<Rightarrow> (account_id, tx_id) pay_lib
     \<Rightarrow> (account_id, tx_id, 'raw record_response) query_env \<Rightarrow> 'asn transfer_lib \<Rightarrow> ('raw \<Rightarrow> 'rec result)
     \<Rightarrow> (account_id \<Rightarrow> unit result) \<Rightarrow> rat \<Rightarrow> (nat \<Rightarrow> 'raw record_response attempt_env) \<Rightarrow> (account_id, 'ch) net
     \<Rightarrow> response \<Rightarrow> 'rec result \<times> (account_id, 'ch, (account_id, tx_id) query, id_request) exec" where
  "execute_record C K L V E mapRecord check start env N r =
     query_execute C K L V (record_ops E mapRecord check (getRecordQuery r)) None start env (response_exec N r)"

text \<open>The record is asked for on the network as the query for the receipt left it.\<close>

definition getRecord ::
    "(account_id, 'ch) client \<Rightarrow> account_id query_client \<Rightarrow> (account_id, tx_id) pay_lib \<Rightarrow> 'asn transfer_lib
     \<Rightarrow> ('raw \<Rightarrow> 'rec result) \<Rightarrow> (account_id \<Rightarrow> unit result)
     \<Rightarrow> (account_id, tx_id, receipt_response) query_env \<Rightarrow> rat \<Rightarrow> (nat \<Rightarrow> receipt_response attempt_env)
     \<Rightarrow> (account_id, tx_id, 'raw record_response) query_env \<Rightarrow> rat \<Rightarrow> (nat \<Rightarrow> 'raw record_response attempt_env)
     \<Rightarrow> (account_id, 'ch) net \<Rightarrow> response \<Rightarrow> 'rec result \<times> (account_id, 'ch) net" where
  "getRecord C K L E mapRecord check V start env W start' env' N r =
     (let (res, S) = getReceipt C K L V E check start env N r
      in case res of
           Inl e \<Rightarrow> (Inl e, x_net S)
         | Inr _ \<Rightarrow> (let (res', T) = execute_record C K L W E mapRecord check start' env' (x_net S) r in (res', x_net T)))"

text \<open>Whatever becomes of the receipt, the record is asked for.\<close>

definition getVerboseRecord ::
    "(account_id, 'ch) client \<Rightarrow> account_id query_client \<Rightarrow> (account_id, tx_id) pay_lib \<Rightarrow> 'asn transfer_lib
     \<Rightarrow> ('raw \<Rightarrow> 'rec result) \<Rightarrow> (account_id \<Rightarrow> unit result)
     \<Rightarrow> (account_id, tx_id, receipt_response) query_env \<Rightarrow> rat \<Rightarrow> (nat \<Rightarrow> receipt_response attempt_env)
     \<Rightarrow> (account_id, tx_id, 'raw record_response) query_env \<Rightarrow> rat \<Rightarrow> (nat \<Rightarrow> 'raw record_response attempt_env)
     \<Rightarrow> (account_id, 'ch) net \<Rightarrow> response \<Rightarrow> 'rec result \<times> (account_id, 'ch) net" where
  "getVerboseRecord C K L E mapRecord check V start env W start' env' N r =
     (let (res, S) = execute_receipt C K L V E check start env N r;
          (res', T) = execute_record C K L W E mapRecord check start' env' (x_net S) r
      in (res', x_net T))"

end
