(* ===== verification/QueryLaws.thy ===== *)
theory QueryLaws
  imports Query
begin

text \<open>
  What a query pays: every request of a paid query carries one payment, signed by the operator, to the
  node it is sent to, of the amount that was set or that was asked for and compared with the limit;
  the question for the price and the free queries pay nothing.
\<close>

section \<open>One payment\<close>

lemma hbar_negated_exact: "hbar_negated B h = Inr (- h)"
  by (simp add: hbar_negated_def fromTinybars_def hbar_new_def hbar_value_def valueToLong_def
      flip: of_int_minus)

lemma toTinybars_exact:
  assumes "big_ok B" and "signed_text_ok L" and "- (2 ^ 63) \<le> h" and "h < 2 ^ 63"
  shows "sint (toTinybars L B h) = h"
proof -
  have "map char_of (bigFixed B (of_int h)) = show_int h"
    using assms(1) by (simp add: big_ok_def comp_def code_of_def)
  then have "toTinybars L B h = word_of_int h" using assms(2-4) by (simp add: toTinybars_def signed_text_ok_def)
  then show ?thesis using assms(3,4) by (simp add: sint_of_int)
qed

definition pay_ok :: "('acc, 'tid) pay_lib \<Rightarrow> bool" where
  "pay_ok L \<longleftrightarrow> proto_ok (pay_proto L) \<and> big_ok (pay_big L) \<and> signed_text_ok (pay_long L)"

text \<open>
  The payment decodes to a transfer of \<open>h\<close> from the operator to the node, and is signed by the operator.
\<close>

definition pays ::
    "('acc, 'tid) pay_lib \<Rightarrow> 'acc operator \<Rightarrow> 'tid \<Rightarrow> 'acc \<Rightarrow> hbar \<Rightarrow> proto_tx \<Rightarrow> bool" where
  "pays L op i n h p \<longleftrightarrow>
     (\<exists>bs s b x y. p = SignedBytes bs \<and> decSigned (pay_proto L) bs = Inr s \<and>
        decBody (pay_proto L) (bodyBytes s) = Inr b \<and> b_tid b = Some i \<and> b_node b = Some n \<and>
        b_data b = [(op_account op, x), (n, y)] \<and> (\<bar>h\<bar> < 2 ^ 63 \<longrightarrow> sint x = - h \<and> sint y = h) \<and>
        sigPairs s = Some [toProtobufSignature (op_key op) (op_signer op (bodyBytes s))])"

lemma makePayment_pays:
  assumes "pay_ok L" and "makePaymentTransaction L z i n (Some op) h = Inr p"
  shows "pays L op i n h p"
proof -
  let ?P = "pay_proto L"
  let ?t = "toTinybars (pay_long L) (pay_big L)"
  let ?b = "payment_body L i n [(op_account op, ?t (- h)), (n, ?t h)]"
  let ?s = "sign_one (op_key op) (op_signer op) \<lparr>sigPairs = None, bodyBytes = encBody ?P ?b\<rparr>"
  have p: "p = SignedBytes (encSigned ?P ?s)"
    using assms(2) by (simp add: makePaymentTransaction_def hbar_negated_exact payer_def Let_def)
  have s: "sigPairs ?s = Some [toProtobufSignature (op_key op) (op_signer op (bodyBytes ?s))]"
    "bodyBytes ?s = encBody ?P ?b"
    by (simp_all add: sign_one_def push_pair_def)
  have d: "decSigned ?P (encSigned ?P ?s) = Inr ?s" "decBody ?P (encBody ?P ?b) = Inr ?b"
    using assms(1) s(1) by (simp_all add: pay_ok_def proto_ok_def)
  have "\<bar>h\<bar> < 2 ^ 63 \<longrightarrow> sint (?t (- h)) = - h \<and> sint (?t h) = h"
    using assms(1) by (auto simp: pay_ok_def intro!: toTinybars_exact)
  then show ?thesis
    unfolding pays_def using p d s
    by (intro exI[of _ "encSigned ?P ?s"] exI[of _ ?s] exI[of _ ?b] exI[of _ "?t (- h)"] exI[of _ "?t h"])
      (simp add: payment_body_def)
qed

section \<open>Requests in order\<close>

text \<open>
  A number read off the state of a request that making a request increases and everything else keeps
  grows from call to call.
\<close>

definition counts :: "('acc, 'st, 'req, 'resp, 'out) request_ops \<Rightarrow> ('st \<Rightarrow> nat) \<Rightarrow> bool" where
  "counts P f \<longleftrightarrow>
     (\<forall>l s q l' s'. makeRequest P l s = Inr (q, l', s') \<longrightarrow> f s < f s') \<and>
     (\<forall>s q r x st s'. shouldRetry P s q r = (x, st, s') \<longrightarrow> f s' = f s)"

definition counted ::
    "('st \<Rightarrow> nat) \<Rightarrow> ('acc, 'ch, 'st, 'req) exec \<Rightarrow> (('acc, 'ch, 'st, 'req) exec, 'out) step_result \<Rightarrow> bool" where
  "counted f S r \<longleftrightarrow>
     (\<exists>cs. calls (step_state r) = calls S @ cs \<and> sorted_wrt (<) (map (f \<circ> with_state) cs) \<and>
        (\<forall>c \<in> set cs. f (x_sub S) < f (with_state c)) \<and>
        (\<forall>T. r = Again T \<longrightarrow> f (x_sub S) \<le> f (x_sub T) \<and> (\<forall>c \<in> set cs. f (with_state c) \<le> f (x_sub T))))"

lemma counted_quiet:
  "calls (step_state r) = calls S \<Longrightarrow> (\<And>T. r = Again T \<Longrightarrow> f (x_sub S) \<le> f (x_sub T)) \<Longrightarrow> counted f S r"
  by (auto simp: counted_def intro: exI[of _ "[]"])

lemma counted_call:
  "calls (step_state r) = calls S @ [c] \<Longrightarrow> f (x_sub S) < f (with_state c) \<Longrightarrow>
   (\<And>T. r = Again T \<Longrightarrow> f (x_sub T) = f (with_state c)) \<Longrightarrow> counted f S r"
  unfolding counted_def by (rule exI[of _ "[c]"]) auto

lemma send_request_counted:
  fixes P :: "('acc, 'st, 'req, 'resp, 'out) request_ops" and S :: "('acc, 'ch, 'st, 'req) exec"
  assumes P: "counts P f" and r: "r = send_request C P isLocal attempt b v acc n S"
  shows "counted f S r"
proof -
  obtain ch nd where g: "getChannel (openChannel C) (clk_start v) (store (x_net S) n) = (ch, nd)"
    by fastforce
  show ?thesis
  proof (cases "makeRequest P (x_nodes S) (x_sub S)")
    case (Inl e)
    then show ?thesis by (intro counted_quiet) (simp_all add: r send_request_def g step_state_def)
  next
    case (Inr a)
    then obtain req l sub where mk: "makeRequest P (x_nodes S) (x_sub S) = Inr (req, l, sub)"
      by (cases a) auto
    then have less: "f (x_sub S) < f sub" using P by (auto simp: counts_def)
    let ?S3 = "S\<lparr>x_net := set_node n nd (x_net S), x_nodes := l, x_sub := sub, x_nodes := list_advance l\<rparr>"
    let ?c = "\<lparr>at_attempt = attempt, to_account = acc, to_node = n, with_request = req,
      with_state = sub, readmit_at = readmitTime (store (x_net ?S3) n)\<rparr>"
    let ?S4 = "?S3\<lparr>calls := calls S @ [?c]\<rparr>"
    show ?thesis
    proof (cases "isHealthy (clk_health v) (store (x_net ?S3) n)")
      case False
      then show ?thesis using less
        by (intro counted_quiet) (auto simp: r send_request_def g mk step_state_def Let_def split: if_splits)
    next
      case True
      show ?thesis
      proof (cases "race (x_grpcDeadline S) v")
        case (Inl err)
        then have rr: "r = handle_failure n v err ?S4"
          using True by (simp add: r send_request_def g mk Let_def)
        show ?thesis
          by (rule counted_call[where c = ?c])
            (use handle_failure_facts[OF rr] less in
              \<open>auto simp: rr handle_failure_def Let_def split: sum.splits if_splits\<close>)
      next
        case (Inr resp)
        then have rr: "r = handle_response P isLocal attempt b acc n req resp ?S4"
          using True by (simp add: r send_request_def g mk Let_def)
        have "f s' = f sub" if "shouldRetry P sub req resp = (x, st, s')" for x st s'
          using P that by (auto simp: counts_def)
        then show ?thesis
          by (intro counted_call[where c = ?c])
            (use handle_response_facts[OF rr] less in
              \<open>auto simp: rr handle_response_def Let_def split: prod.splits exec_state.splits\<close>)
      qed
    qed
  qed
qed

lemma attempt_step_counted:
  fixes P :: "('acc, 'st, 'req, 'resp, 'out) request_ops" and S :: "('acc, 'ch, 'st, 'req) exec"
  assumes P: "counts P f" and r: "r = attempt_step C P isLocal start b attempt v S"
  shows "counted f S r"
proof (cases "choose_node C v S")
  case (Inl e)
  then show ?thesis
    by (intro counted_quiet) (auto simp: r attempt_step_def step_state_def split: option.splits if_splits)
next
  case (Inr t)
  then obtain acc n S1 where ch: "choose_node C v S = Inr (acc, n, S1)" by (cases t) auto
  then have F: "calls S1 = calls S" "x_sub S1 = x_sub S"
    using choose_node_facts[OF ch]
    by (auto simp: choose_node_def Let_def elim!: res_bind_InrE split: if_splits option.splits)
  have "counted f S1 r \<or> calls (step_state r) = calls S \<and> (\<forall>T. r = Again T \<longrightarrow> x_sub T = x_sub S)"
    using send_request_counted[OF P refl, where C = C and isLocal = isLocal and attempt = attempt and b = b
        and v = v and acc = acc and S = S1] F
    by (cases n; cases acc; auto simp: r attempt_step_def ch step_state_def split: option.splits if_splits)
  then show ?thesis
    using F by (auto simp: counted_def[of f S1] counted_def[of f S] intro: counted_quiet)
qed

lemma execute_counted:
  fixes P :: "('acc, 'st, 'req, 'resp, 'out) request_ops" and S :: "('acc, 'ch, 'st, 'req) exec"
  assumes P: "counts P f" and "calls S = []" and run: "execute C P Inr timeout start env S = (r, T)"
  shows "sorted_wrt (<) (map (f \<circ> with_state) (calls T))"
proof -
  let ?I = "\<lambda>j::nat. \<lambda>U :: ('acc, 'ch, 'st, 'req) exec.
    sorted_wrt (<) (map (f \<circ> with_state) (calls U)) \<and> (\<forall>c \<in> set (calls U). f (with_state c) \<le> f (x_sub U))"
  let ?Q = "\<lambda>r :: 'out result. \<lambda>U :: ('acc, 'ch, 'st, 'req) exec. sorted_wrt (<) (map (f \<circ> with_state) (calls U))"
  have loop: "?Q r (snd (attempts (\<lambda>j. attempt_step C P loc start b j (env j)) final m 1 U))"
    if "?I 1 U" for loc b m U and final :: "('acc, 'ch, 'st, 'req) exec \<Rightarrow> 'out result"
  proof (rule attempts_invariant[where I = ?I and Q = ?Q])
    fix j V V' assume "?I j V" "attempt_step C P loc start b j (env j) V = Again V'"
    then show "?I (Suc j) V'"
      using attempt_step_counted[OF P refl, where C = C and isLocal = loc and start = start and b = b
          and attempt = j and v = "env j" and S = V]
      by (auto simp: counted_def step_state_def sorted_wrt_append)
         (meson dual_order.strict_trans2 le_trans)+
  next
    fix j V q V' assume "?I j V" "attempt_step C P loc start b j (env j) V = Stop q V'"
    then show "?Q q V'"
      using attempt_step_counted[OF P refl, where C = C and isLocal = loc and start = start and b = b
          and attempt = j and v = "env j" and S = V]
      by (auto simp: counted_def step_state_def sorted_wrt_append)
         (meson order_le_less_trans)+
  qed (use that in simp_all)
  let ?U = "\<lambda>tm hi lo. S\<lparr>x_requestTimeout := tm, x_maxBackoff := hi, x_minBackoff := lo, x_last := NoError\<rparr>"
  have U: "?I 1 (?U tm hi lo)" for tm hi lo using assms(2) by simp
  have fin: "?Q r V"
    if "attempts (\<lambda>j. attempt_step C P loc start b j (env j)) final m (Suc 0) (?U tm hi lo) = (q, V)"
    for loc b final m tm hi lo q V
    using loop[OF U, where final = final and b = b and m = m and loc = loc and tm1 = tm and hi1 = hi and lo1 = lo]
      that by simp
  from run show ?thesis
    using assms(2) fin by (auto simp: execute_def Let_def resolve_timeout split: if_splits)
qed

section \<open>Before the execution\<close>

text \<open>Methods that leave the state of the request alone.\<close>

definition keeps_sub :: "('acc, 'st, 'req, 'resp, 'out) request_ops \<Rightarrow> bool" where
  "keeps_sub P \<longleftrightarrow>
     (\<forall>l s q l' s'. makeRequest P l s = Inr (q, l', s') \<longrightarrow> s' = s) \<and>
     (\<forall>s q r. snd (snd (shouldRetry P s q r)) = s) \<and>
     (\<forall>s r a q. snd (mapResponse P s r a q) = s)"

lemma handle_failure_sub: "x_sub (step_state (handle_failure n v err U)) = x_sub U"
  by (auto simp: handle_failure_def step_state_def Let_def split: sum.splits)

lemma handle_response_sub:
  assumes "keeps_sub P"
  shows "x_sub (step_state (handle_response P isLocal attempt b acc n req resp U)) = x_sub U"
proof -
  obtain x st where "shouldRetry P (x_sub U) req resp = (x, st, x_sub U)"
    using assms by (metis keeps_sub_def prod.collapse)
  moreover obtain q where "mapResponse P (x_sub U) resp acc req = (q, x_sub U)"
    using assms by (metis keeps_sub_def prod.collapse)
  ultimately show ?thesis
    by (auto simp: handle_response_def step_state_def Let_def split: exec_state.split)
qed

lemma step_state_simps: "step_state (Again S) = S" "step_state (Stop r S) = S"
  by (simp_all add: step_state_def)

lemma send_request_sub:
  assumes "keeps_sub P"
  shows "x_sub (step_state (send_request C P isLocal attempt b v acc n S)) = x_sub S"
proof -
  obtain ch nd where g: "getChannel (openChannel C) (clk_start v) (store (x_net S) n) = (ch, nd)"
    by fastforce
  show ?thesis
  proof (cases "makeRequest P (x_nodes S) (x_sub S)")
    case (Inl e)
    then show ?thesis by (simp add: send_request_def g step_state_def)
  next
    case (Inr a)
    then obtain req l where mk: "makeRequest P (x_nodes S) (x_sub S) = Inr (req, l, x_sub S)"
      using assms by (cases a) (auto simp: keeps_sub_def)
    show ?thesis
      by (simp add: send_request_def g mk Let_def step_state_simps handle_failure_sub
          handle_response_sub[OF assms] split: sum.split)
  qed
qed

lemma attempt_step_sub:
  assumes "keeps_sub P"
  shows "x_sub (step_state (attempt_step C P isLocal start b attempt v S)) = x_sub S"
proof (cases "choose_node C v S")
  case (Inl e)
  then show ?thesis by (auto simp: attempt_step_def step_state_def split: option.splits if_splits)
next
  case (Inr t)
  then obtain acc n S1 where ch: "choose_node C v S = Inr (acc, n, S1)" by (cases t) auto
  then have "x_sub S1 = x_sub S"
    by (auto simp: choose_node_def Let_def elim!: res_bind_InrE split: if_splits option.splits)
  then show ?thesis
    using send_request_sub[OF assms, where S = S1 and C = C and isLocal = isLocal and attempt = attempt
        and b = b and v = v and acc = acc]
    by (cases n; cases acc; auto simp: attempt_step_def ch step_state_def split: option.splits if_splits)
qed

lemma execute_sub:
  fixes P :: "('acc, 'st, 'req, 'resp, 'out) request_ops" and S :: "('acc, 'ch, 'st, 'req) exec"
  assumes P: "keeps_sub P" and run: "execute C P Inr timeout start env S = (r, T)"
  shows "x_sub T = x_sub S"
proof -
  have loop: "x_sub (snd (attempts (\<lambda>j. attempt_step C P loc start b j (env j)) final m i U)) = x_sub U"
    for loc b m i U and final :: "('acc, 'ch, 'st, 'req) exec \<Rightarrow> 'out result"
  proof (induction m arbitrary: i U)
    case (Suc m)
    then show ?case
      using attempt_step_sub[OF P, where S = U and C = C and isLocal = loc and start = start and b = b
          and attempt = i and v = "env i"]
      by (auto simp: step_state_def split: step_result.split)
  qed simp
  have fin: "x_sub V = x_sub U"
    if "attempts (\<lambda>j. attempt_step C P loc start b j (env j)) final m i U = (q, V)"
    for loc b final m i q U V
    using loop[where loc = loc and b = b and final = final and m = m and i = i and U = U] that by simp
  from run show ?thesis
    by (auto simp: execute_def Let_def resolve_timeout dest: fin split: if_splits)
qed

lemma execute_after_eq:
  "execute_after C P before timeout start env S =
     (case before (S\<lparr>x_requestTimeout := effective_timeout C timeout S\<rparr>) of
        (Inl e, T) \<Rightarrow> (Inl e, T)
      | (Inr _, T) \<Rightarrow> execute C P Inr timeout start env T)"
  by (simp add: execute_after_def resolve_timeout)

lemma cost_execute_query:
  assumes "cost_execute C K L V Q S = (r, X)"
  shows "q_operator (cq_query (x_sub X)) = q_operator (x_sub S) \<and>
    q_maxPayment (cq_query (x_sub X)) = q_maxPayment (x_sub S) \<and>
    q_payments (cq_query (x_sub X)) = q_payments (x_sub S)"
proof -
  have keep: "keeps_sub (cost_ops L Q)"
    by (auto simp: keeps_sub_def cost_ops_def split: prod.split)
  have before: "q_operator (cq_query (x_sub S2)) = q_operator (cq_query (x_sub S1)) \<and>
    q_maxPayment (cq_query (x_sub S2)) = q_maxPayment (cq_query (x_sub S1)) \<and>
    q_payments (cq_query (x_sub S2)) = q_payments (cq_query (x_sub S1))"
    if "cost_beforeExecute C K L V S1 = (u, S2)" for S1 S2 u
    using that
    by (auto simp: cost_beforeExecute_def Let_def setPaymentTransactionId_def
        split: option.splits prod.splits sum.splits if_splits)
  show ?thesis
    using assms
    by (auto simp: cost_execute_def execute_after_eq new_cost_query_def new_exec_def
        split: prod.splits sum.splits dest!: execute_sub[OF keep] before)
qed

lemma getCost_frame:
  assumes "getCost C K L V Q S = (r, T)"
  shows "q_operator (x_sub T) = q_operator (x_sub S) \<and> q_maxPayment (x_sub T) = q_maxPayment (x_sub S) \<and>
    q_payments (x_sub T) = q_payments (x_sub S) \<and>
    calls T = calls S \<and> delays T = delays S"
  using assms
  by (auto simp: getCost_def Let_def split: prod.splits sum.splits dest!: cost_execute_query)

lemma push_payments_frame:
  "push_payments L z i op h ns q = (r, q') \<Longrightarrow> q_payment q' = q_payment q \<and> q_operator q' = q_operator q"
  by (induction L z i op h ns q rule: push_payments.induct) (auto split: sum.splits)

definition query_operator :: "'acc query_client \<Rightarrow> ('acc, 'tid) query \<Rightarrow> 'acc operator option" where
  "query_operator K q = (case q_operator q of None \<Rightarrow> qc_operator K | Some p \<Rightarrow> Some p)"

definition most_payment :: "'acc query_client \<Rightarrow> ('acc, 'tid) query \<Rightarrow> hbar" where
  "most_payment K q = (case q_maxPayment q of None \<Rightarrow> qc_maxPayment K | Some h \<Rightarrow> h)"

text \<open>
  The amount is the one that was set, or one whose number of tinybars, cut to 32 bits, is not above the
  limit's, or nothing for a free query.
\<close>

definition agreed ::
    "('acc, 'tid) pay_lib \<Rightarrow> 'acc query_client \<Rightarrow> bool \<Rightarrow> ('acc, 'tid) query \<Rightarrow> hbar \<Rightarrow> bool" where
  "agreed L K required q h \<longleftrightarrow>
     (case q_payment q of
        Some g \<Rightarrow> h = g
      | None \<Rightarrow>
          if required
          then toInt (toTinybars (pay_long L) (pay_big L) h)
                 \<le> toInt (toTinybars (pay_long L) (pay_big L) (most_payment K q))
          else h = 0)"

lemma payment_id_frame:
  assumes "payment_id C V required S = (Inr u, T)"
  shows "q_operator (x_sub T) = q_operator (x_sub S) \<and> (required \<longrightarrow> q_operator (x_sub S) \<noteq> None) \<and>
    q_payment (x_sub T) = q_payment (x_sub S) \<and> q_maxPayment (x_sub T) = q_maxPayment (x_sub S) \<and>
    q_payments (x_sub T) = q_payments (x_sub S) \<and> calls T = calls S \<and> delays T = delays S"
  using assms by (auto simp: payment_id_def Let_def split: if_splits option.splits)

lemma amount_to_pay_agreed:
  assumes "amount_to_pay C K L V Q S = (Inr h, T)" and "q_payments (x_sub S) = []"
  shows "agreed L K (isPaymentRequired Q) (x_sub S) h \<and> q_operator (x_sub T) = q_operator (x_sub S) \<and>
    calls T = calls S \<and> delays T = delays S"
  using assms
  by (auto simp: amount_to_pay_def agreed_def most_payment_def Let_def split: option.splits if_splits
      elim!: st_bind_InrE dest: getCost_frame)

lemma before_agreed:
  assumes "query_beforeExecute C K L V Q S = (Inr u, T)" and "q_payments (x_sub S) = []"
  shows "\<exists>h. q_payment (x_sub T) = Some h \<and> agreed L K (isPaymentRequired Q) (x_sub S) h \<and>
    q_operator (x_sub T) = query_operator K (x_sub S) \<and>
    (isPaymentRequired Q \<longrightarrow> q_operator (x_sub T) \<noteq> None) \<and> locked (x_nodes T) \<and>
    calls T = calls S \<and> delays T = delays S"
proof -
  obtain f l N where fl: "fill_nodes (key_of C) (drawn V 0) (x_nodes S) (x_net S) = (f, l, N)"
    by (cases "fill_nodes (key_of C) (drawn V 0) (x_nodes S) (x_net S)") auto
  define q1 where "q1 = (x_sub S)\<lparr>q_operator := query_operator K (x_sub S)\<rparr>"
  define S1 where "S1 = S\<lparr>x_nodes := l, x_net := N, x_sub := q1\<rparr>"
  obtain w S2 h S3 where s2: "payment_id C V (isPaymentRequired Q) S1 = (Inr w, S2)"
    and s3: "amount_to_pay C K L V Q S2 = (Inr h, S3)"
    and t: "(\<lambda>S4. case push_payments L (zeroAccount V) (q_paymentId (x_sub S4)) (paying_operator Q (x_sub S4)) h
              (items (x_nodes S4)) (x_sub S4) of (r, q2) \<Rightarrow> (r, S4\<lparr>x_sub := q2\<rparr>))
            (S3\<lparr>x_sub := setQueryPayment h (x_sub S3), x_nodes := setLocked (x_nodes S3)\<rparr>) = (Inr u, T)"
    using assms
    by (auto simp: query_beforeExecute_def fl S1_def q1_def query_operator_def Let_def elim!: st_bind_InrE)
  note F = payment_id_frame[OF s2]
  have p: "q_payments (x_sub S2) = []" using F assms(2) by (simp add: S1_def q1_def)
  note A = amount_to_pay_agreed[OF s3 p]
  have "agreed L K (isPaymentRequired Q) (x_sub S) h"
    using A F by (cases "q_payment (x_sub S)") (auto simp: agreed_def most_payment_def S1_def q1_def)
  moreover have "q_payment (x_sub T) = Some h \<and> q_operator (x_sub T) = q_operator (x_sub S3) \<and> locked (x_nodes T) \<and>
      calls T = calls S3 \<and> delays T = delays S3"
    using t by (auto simp: setQueryPayment_def setLocked_def dest: push_payments_frame split: prod.splits)
  ultimately show ?thesis using A F by (auto simp: S1_def q1_def)
qed

lemma before_calls:
  assumes "query_beforeExecute C K L V Q S = (r, T)"
  shows "calls T = calls S"
proof -
  have "calls U = calls R" if "payment_id C V b R = (x, U)" for b R x U
    using that by (auto simp: payment_id_def Let_def split: if_splits option.splits)
  moreover have "calls U = calls R" if "amount_to_pay C K L V Q R = (x, U)" for R x U
    using that
    by (auto simp: amount_to_pay_def st_bind_def Let_def split: option.splits if_splits prod.splits sum.splits
        dest: getCost_frame)
  ultimately show ?thesis
    using assms
    by (fastforce simp: query_beforeExecute_def st_bind_def Let_def split: if_splits prod.splits sum.splits)
qed

lemma fromTinybars_fixed:
  assumes "big_ok B"
  shows "fromTinybars B (AmountText (bigFixed B (of_int n))) = Inr n"
proof -
  obtain t where t: "bigFixed B (of_int n) = t" "number_pattern t = Some (of_int n, [])" "bigOf B t = Some (of_int n)"
    using assms show_int_pattern[of n] by (auto simp: big_ok_def simp del: map_map)
  have "32 \<notin> set t" using number_pattern_space[OF t(2)] by simp
  then have tw: "takeWhile (\<lambda>c. c \<noteq> 32) t = t" by (auto simp: takeWhile_eq_all_conv)
  show ?thesis
    by (simp add: fromTinybars_def t tw hbar_fromString_def hbar_new_def hbar_value_def valueToLong_def)
qed

section \<open>The calls of a query\<close>

text \<open>A locked empty list of nodes: nothing is called.\<close>

lemma empty_locked_execute:
  fixes P :: "('acc, 'st, 'req, 'resp, 'out) request_ops" and S :: "('acc, 'ch, 'st, 'req) exec"
  assumes "items (x_nodes S) = []" and "locked (x_nodes S)" and run: "execute C P Inr timeout start env S = (r, T)"
  shows "calls T = calls S"
proof -
  have step: "\<exists>e. attempt_step C P loc start b i v U = Stop (Inl e) U"
    if "items (x_nodes U) = []" "locked (x_nodes U)" for loc b i v and U :: "('acc, 'ch, 'st, 'req) exec"
  proof -
    have "\<exists>e. choose_node C v U = Inl e"
      using that by (cases "getNode None (rand v) (clk_start v) (x_net U)")
        (auto simp: choose_node_def list_isEmpty_def list_length_def setList_def Let_def split: option.split)
    then show ?thesis by (auto simp: attempt_step_def split: option.split)
  qed
  have loop: "calls (snd (attempts (\<lambda>j. attempt_step C P loc start b j (env j)) final m i U)) = calls U"
    if "items (x_nodes U) = []" "locked (x_nodes U)"
    for loc b m i and U :: "('acc, 'ch, 'st, 'req) exec" and final :: "('acc, 'ch, 'st, 'req) exec \<Rightarrow> 'out result"
    using step[OF that, of loc b i "env i"] by (cases m) auto
  have fin: "calls V = calls U"
    if "attempts (\<lambda>j. attempt_step C P loc start b j (env j)) final m i U = (q, V)"
      "items (x_nodes U) = []" "locked (x_nodes U)"
    for loc b final m i q U V
    using loop[OF that(2,3), where loc = loc and b = b and final = final and m = m and i = i] that(1) by simp
  from run show ?thesis
    using assms(1,2) by (auto simp: execute_def Let_def resolve_timeout dest!: fin split: if_splits)
qed

definition paid_query :: "'acc operator option \<Rightarrow> hbar \<Rightarrow> 'acc jslist \<Rightarrow> ('acc, 'tid) query \<Rightarrow> bool" where
  "paid_query op h l q \<longleftrightarrow> items l \<noteq> [] \<and> q_operator q = op \<and> q_payment q = Some h"

lemma makeRequestAsync_InrD:
  assumes "query_makeRequestAsync L V Q l q = Inr (req, l', q')" and "q_payment q = Some h"
  shows "\<exists>n p. list_current l = Some n \<and> l' = l \<and> q' = q\<lparr>q_generated := Suc (q_generated q)\<rparr> \<and>
    makePaymentTransaction L (zeroAccount V) (newId V (q_generated q) (payer (zeroAccount V) (q_operator q))) n
      (paying_operator Q q) h = Inr p \<and>
    req = onMakeRequest Q (Some \<lparr>qh_payment = Some p, qh_type = Some AnswerOnly\<rparr>)"
  using assms by (auto simp: query_makeRequestAsync_def Let_def elim!: res_bind_InrE split: option.splits)

lemma paid_query_invariant: "request_invariant (exec_ops L V Q) (paid_query op h)"
  unfolding request_invariant_def
  by (auto simp: paid_query_def exec_ops_def dest!: makeRequestAsync_InrD split: prod.splits)

lemma query_counts: "counts (exec_ops L V Q) q_generated"
  by (auto simp: counts_def exec_ops_def query_makeRequestAsync_def Let_def
      elim!: res_bind_InrE split: prod.splits option.splits)

text \<open>The identifier of the payment that a call carries.\<close>

definition call_payment_id ::
    "('acc, 'tid, 'resp) query_env \<Rightarrow> 'acc operator \<Rightarrow> ('acc, ('acc, 'tid) query, 'req) call \<Rightarrow> 'tid" where
  "call_payment_id V op c = newId V (q_generated (with_state c) - 1) (op_account op)"

lemma call_payment_ids_distinct:
  assumes "inj (\<lambda>k. newId V k (op_account op))" and "sorted_wrt (<) (map (q_generated \<circ> with_state) cs)"
    and "\<And>c. c \<in> set cs \<Longrightarrow> 0 < q_generated (with_state c)"
  shows "distinct (map (call_payment_id V op) cs)"
proof -
  have d: "distinct (map (q_generated \<circ> with_state) cs)"
    using assms(2) by (auto simp: distinct_conv_nth sorted_wrt_iff_nth_less) (metis nat_neq_iff)
  show ?thesis
  proof (rule distinct_map[THEN iffD2], intro conjI inj_onI)
    show "distinct cs" using d by (simp add: distinct_map)
    fix c d' assume cd: "c \<in> set cs" "d' \<in> set cs" "call_payment_id V op c = call_payment_id V op d'"
    then have "q_generated (with_state c) - 1 = q_generated (with_state d') - 1"
      using assms(1) by (auto simp: call_payment_id_def inj_def)
    then have "q_generated (with_state c) = q_generated (with_state d')" using assms(3)[OF cd(1)] assms(3)[OF cd(2)] by auto
    then show "c = d'" using d cd(1,2) by (simp add: distinct_map inj_on_def)
  qed
qed

lemma agreed_within_limit:
  assumes "agreed L K True q h" and "pay_ok L" and "q_payment q = None" and "\<bar>h\<bar> < 2 ^ 31"
    and "\<bar>most_payment K q\<bar> < 2 ^ 31"
  shows "h \<le> most_payment K q"
proof -
  have "toInt (toTinybars (pay_long L) (pay_big L) k) = k" if "\<bar>k\<bar> < 2 ^ 31" for k
    using toTinybars_exact[of "pay_big L" "pay_long L" k] toInt_small[of "toTinybars (pay_long L) (pay_big L) k"]
      assms(2) that
    by (auto simp: pay_ok_def)
  then show ?thesis using assms(1,3-5) by (simp add: agreed_def)
qed

text \<open>A call of a paid query carries its payment.\<close>

lemma paid_call:
  assumes "made_by (exec_ops L V Q) (paid_query (Some op) h) c" and "pay_ok L" and "isPaymentRequired Q"
  shows "\<exists>n p. to_account c = Some n \<and> pays L op (call_payment_id V op c) n h p \<and> 0 < q_generated (with_state c) \<and>
    with_request c = onMakeRequest Q (Some \<lparr>qh_payment = Some p, qh_type = Some AnswerOnly\<rparr>)"
proof -
  obtain l q l' where q: "paid_query (Some op) h l q" "to_account c = list_current l"
    "query_makeRequestAsync L V Q l q = Inr (with_request c, l', with_state c)"
    using assms(1) by (auto simp: made_by_def exec_ops_def)
  then have ph: "q_payment q = Some h" "q_operator q = Some op" by (simp_all add: paid_query_def)
  show ?thesis
    using makeRequestAsync_InrD[OF q(3) ph(1)] makePayment_pays[OF assms(2)] q(2) ph assms(3)
    by (fastforce simp: call_payment_id_def payer_def paying_operator_def)
qed

text \<open>What is known when the first call of a paid query is made.\<close>

lemma paid_start:
  fixes S T :: "('acc, 'ch, ('acc, 'tid) query, 'req) exec"
  assumes "isPaymentRequired Q" and "q_payments (x_sub S) = []" and "calls S = []"
    and "query_execute C K L V Q timeout start env S = (r, T)" and "calls T \<noteq> []"
  obtains op h S2 where "query_operator K (x_sub S) = Some op" and "agreed L K True (x_sub S) h"
    and "paid_query (Some op) h (x_nodes S2) (x_sub S2)" and "calls S2 = []"
    and "execute C (exec_ops L V Q) Inr timeout start env S2 = (r, T)"
proof -
  obtain u S2 where b: "query_beforeExecute C K L V Q (S\<lparr>x_requestTimeout := effective_timeout C timeout S\<rparr>) = (u, S2)"
    by fastforce
  have "u \<noteq> Inl e" for e
    using assms(3-5) before_calls[OF b] by (auto simp: query_execute_def execute_after_eq b)
  then obtain w where w: "u = Inr w" by (cases u) auto
  have run: "execute C (exec_ops L V Q) Inr timeout start env S2 = (r, T)"
    using assms(4) by (simp add: query_execute_def execute_after_eq b w)
  obtain h where h: "q_payment (x_sub S2) = Some h" "agreed L K True (x_sub S) h"
    "q_operator (x_sub S2) = query_operator K (x_sub S)" "q_operator (x_sub S2) \<noteq> None"
    "locked (x_nodes S2)" "calls S2 = []"
    using before_agreed[OF b[unfolded w]] assms(1-3) by auto metis
  then obtain op where op: "q_operator (x_sub S2) = Some op" "query_operator K (x_sub S) = Some op"
    by (metis option.exhaust)
  have "items (x_nodes S2) \<noteq> []"
    using empty_locked_execute[OF _ h(5) run] h(6) assms(5) by auto
  then have "paid_query (Some op) h (x_nodes S2) (x_sub S2)" by (simp add: paid_query_def h op)
  then show ?thesis using that op(2) h(2,6) run by blast
qed


section \<open>What is not paid\<close>

definition asks_price :: "query_header \<Rightarrow> 'acc jslist \<Rightarrow> ('acc, 'tid) cost_query \<Rightarrow> bool" where
  "asks_price h l s \<longleftrightarrow> items l \<noteq> [] \<and> cq_header s = Some h"

lemma asks_price_invariant: "request_invariant (cost_ops L Q) (asks_price h)"
  unfolding request_invariant_def
  by (auto simp: asks_price_def cost_ops_def split: prod.splits)

lemma cost_before:
  assumes "cost_beforeExecute C K L V S = (Inr u, T)" and "pay_ok L"
  shows "\<exists>op i p. (case cq_operator (x_sub S) of None \<Rightarrow> qc_operator K | Some p \<Rightarrow> Some p) = Some op \<and>
    pays L op i (zeroAccount V) 0 p \<and>
    cq_header (x_sub T) = Some \<lparr>qh_payment = Some p, qh_type = Some CostAnswer\<rparr> \<and>
    x_nodes T = x_nodes S \<and> calls T = calls S"
  using assms
  by (fastforce simp: cost_beforeExecute_def Let_def dest: makePayment_pays
      split: option.splits prod.splits sum.splits if_splits)

lemma cost_before_calls:
  "cost_beforeExecute C K L V S = (u, T) \<Longrightarrow> calls T = calls S"
  by (auto simp: cost_beforeExecute_def Let_def split: option.splits prod.splits sum.splits)

lemma price_question:
  assumes "cost_execute C K L V Q S = (r, X)" and "pay_ok L" and "items (x_nodes S) \<noteq> []" and "c \<in> set (calls X)"
  shows "\<exists>op i p. query_operator K (x_sub S) = Some op \<and> pays L op i (zeroAccount V) 0 p \<and>
    with_request c = onMakeRequest Q (Some \<lparr>qh_payment = Some p, qh_type = Some CostAnswer\<rparr>)"
proof -
  let ?S = "(new_cost_query S)\<lparr>x_requestTimeout := effective_timeout C None (new_cost_query S)\<rparr>"
  have s: "calls ?S = []" "items (x_nodes ?S) = items (x_nodes S)" "cq_operator (x_sub ?S) = q_operator (x_sub S)"
    by (simp_all add: new_cost_query_def new_exec_def list_clone_def)
  obtain u T where b: "cost_beforeExecute C K L V ?S = (u, T)" by fastforce
  have "u \<noteq> Inl e" for e
    using assms(1,4) cost_before_calls[OF b] s(1) by (auto simp: cost_execute_def execute_after_eq b)
  then obtain w where w: "u = Inr w" by (cases u) auto
  obtain op i p where p: "query_operator K (x_sub S) = Some op" "pays L op i (zeroAccount V) 0 p"
    "cq_header (x_sub T) = Some \<lparr>qh_payment = Some p, qh_type = Some CostAnswer\<rparr>"
    "items (x_nodes T) \<noteq> []" "calls T = []"
    using cost_before[OF b[unfolded w] assms(2)] s assms(3) by (auto simp: query_operator_def)
  have run: "execute C (cost_ops L Q) Inr None (cost_start V) (cost_env V) T = (r, X)"
    using assms(1) by (simp add: cost_execute_def execute_after_eq b w)
  have "asks_price \<lparr>qh_payment = Some p, qh_type = Some CostAnswer\<rparr> (x_nodes T) (x_sub T)"
    using p by (simp add: asks_price_def)
  from execute_invariant(1)[OF asks_price_invariant this p(5) run] assms(4)
  have "made_by (cost_ops L Q) (asks_price \<lparr>qh_payment = Some p, qh_type = Some CostAnswer\<rparr>) c" by blast
  then have "with_request c = onMakeRequest Q (Some \<lparr>qh_payment = Some p, qh_type = Some CostAnswer\<rparr>)"
    by (auto simp: made_by_def cost_ops_def asks_price_def)
  with p show ?thesis by blast
qed

lemma to_fixed0_tenth: "0 \<le> c \<Longrightarrow> \<bar>10 * to_fixed0 (of_int c * 11 / 10) - 11 * c\<bar> \<le> 5"
proof -
  assume c: "0 \<le> c"
  let ?x = "of_int c * 11 / 10 :: rat"
  have "\<not> ?x < 0" using c by simp
  then have e: "to_fixed0 ?x = \<lfloor>?x + 1 / 2\<rfloor>" by (simp add: to_fixed0_def)
  have "of_int \<lfloor>?x + 1 / 2\<rfloor> \<le> ?x + 1 / 2" "?x + 1 / 2 < of_int \<lfloor>?x + 1 / 2\<rfloor> + 1" by linarith+
  then have "of_int (10 * \<lfloor>?x + 1 / 2\<rfloor> - 11 * c) \<le> (of_int 5 :: rat)"
    "(of_int (- 5) :: rat) \<le> of_int (10 * \<lfloor>?x + 1 / 2\<rfloor> - 11 * c)"
    by (simp_all add: field_simps)
  then show ?thesis unfolding e of_int_le_iff by linarith
qed

text \<open>Asking for the price pays nothing: each of its calls carries a payment of 0 to account 0. The
  price a query accepts is 110 percent of the answer, rounded to the nearest tinybar. A free query
  attaches a transfer that nobody signs, from account 0, of nothing unless a payment was set.\<close>

theorem asking_is_free:
  fixes S T :: "('acc, 'ch, ('acc, 'tid) query, 'req) exec"
  assumes "pay_ok L" and "items (x_nodes S) \<noteq> []" and "calls S = []" and "q_payments (x_sub S) = []"
    and "cost_execute C K L V Q S = (Inr cost, X)" and "0 \<le> cost"
    and "\<not> isPaymentRequired F" and "query_execute C K L V F timeout start env S = (r, T)"
  shows "(\<forall>c \<in> set (calls X). \<exists>op i p. query_operator K (x_sub S) = Some op \<and> pays L op i (zeroAccount V) 0 p \<and>
      with_request c = onMakeRequest Q (Some \<lparr>qh_payment = Some p, qh_type = Some CostAnswer\<rparr>)) \<and>
    (\<exists>h. fst (getCost C K L V Q S) = Inr h \<and> \<bar>10 * h - 11 * cost\<bar> \<le> 5) \<and>
    (\<forall>c \<in> set (calls T). \<exists>i n x y. with_request c = onMakeRequest F (Some \<lparr>qh_payment = Some (SignedBytes
        (encSigned (pay_proto L) \<lparr>sigPairs = None,
           bodyBytes = encBody (pay_proto L) (payment_body L i n [(zeroAccount V, x), (n, y)])\<rparr>)),
        qh_type = Some AnswerOnly\<rparr>) \<and> (q_payment (x_sub S) = None \<longrightarrow> x = 0 \<and> y = 0))"
proof (intro conjI ballI)
  fix c assume "c \<in> set (calls X)"
  then show "\<exists>op i p. query_operator K (x_sub S) = Some op \<and> pays L op i (zeroAccount V) 0 p \<and>
      with_request c = onMakeRequest Q (Some \<lparr>qh_payment = Some p, qh_type = Some CostAnswer\<rparr>)"
    by (rule price_question[OF assms(5,1,2)])
next
  have "fill_nodes key d (x_nodes S) N = (Inr (), x_nodes S, N)" for key d and N :: "('acc, 'ch) net"
    using assms(2) by (simp add: fill_nodes_def list_isEmpty_def list_length_def)
  then have "fst (getCost C K L V Q S) = Inr (to_fixed0 (of_int cost * 11 / 10))"
    using assms(1,5) fromTinybars_fixed[of "pay_big L"] by (simp add: getCost_def pay_ok_def)
  then show "\<exists>h. fst (getCost C K L V Q S) = Inr h \<and> \<bar>10 * h - 11 * cost\<bar> \<le> 5"
    using to_fixed0_tenth[OF assms(6)] by blast
next
  fix c assume c: "c \<in> set (calls T)"
  obtain u S2 where b: "query_beforeExecute C K L V F (S\<lparr>x_requestTimeout := effective_timeout C timeout S\<rparr>) = (u, S2)"
    by fastforce
  have "u \<noteq> Inl e" for e
    using assms(3,8) c before_calls[OF b] by (auto simp: query_execute_def execute_after_eq b)
  then obtain w where w: "u = Inr w" by (cases u) auto
  have run: "execute C (exec_ops L V F) Inr timeout start env S2 = (r, T)"
    using assms(8) by (simp add: query_execute_def execute_after_eq b w)
  obtain h where h: "q_payment (x_sub S2) = Some h" "agreed L K False (x_sub S) h" "locked (x_nodes S2)" "calls S2 = []"
    using before_agreed[OF b[unfolded w]] assms(3,4,7) by auto
  have "items (x_nodes S2) \<noteq> []" using empty_locked_execute[OF _ h(3) run] h(4) c by auto
  then have "paid_query (q_operator (x_sub S2)) h (x_nodes S2) (x_sub S2)" by (simp add: paid_query_def h)
  from execute_invariant(1)[OF paid_query_invariant this h(4) run] c
  obtain l q l' where q: "paid_query (q_operator (x_sub S2)) h l q"
    "query_makeRequestAsync L V F l q = Inr (with_request c, l', with_state c)"
    by (fastforce simp: made_by_def exec_ops_def)
  have ph: "q_payment q = Some h" using q(1) by (simp add: paid_query_def)
  have zero: "toTinybars (pay_long L) (pay_big L) 0 = 0"
    using toTinybars_exact[of "pay_big L" "pay_long L" 0] assms(1) by (simp add: pay_ok_def signed_eq_0_iff)
  have "q_payment (x_sub S) = None \<longrightarrow> h = 0" using h(2) by (auto simp: agreed_def)
  with makeRequestAsync_InrD[OF q(2) ph] assms(7) zero
  show "\<exists>i n x y. with_request c = onMakeRequest F (Some \<lparr>qh_payment = Some (SignedBytes
        (encSigned (pay_proto L) \<lparr>sigPairs = None,
           bodyBytes = encBody (pay_proto L) (payment_body L i n [(zeroAccount V, x), (n, y)])\<rparr>)),
        qh_type = Some AnswerOnly\<rparr>) \<and> (q_payment (x_sub S) = None \<longrightarrow> x = 0 \<and> y = 0)"
    by (auto simp: paying_operator_def makePaymentTransaction_def hbar_negated_exact payer_def Let_def) blast+
qed

end
