(* ===== verification/TransferLaws.thy ===== *)
theory TransferLaws
  imports Transfers
begin

text \<open>
  What adding transfers does to the balances they stand for, how the entries are grouped by token, and
  reading the body back.
\<close>

section \<open>The ledger of a transaction\<close>

definition transfer_lib_ok :: "'asn transfer_lib \<Rightarrow> bool" where
  "transfer_lib_ok E \<longleftrightarrow> long_lib_ok (lb_long E) \<and> signed_text_ok (lb_long E) \<and> big_ok (lb_big E) \<and>
     der_ok (lb_der E) \<and> key_codec_ok (lb_key E)"

text \<open>What is sent to every account: the currency, each token, and who gives whom a unique token.\<close>

record ledger =
  lg_hbar :: "account_id \<Rightarrow> long"
  lg_token :: "entity_id \<times> account_id \<Rightarrow> long"
  lg_nft :: "entity_id \<times> long \<Rightarrow> (account_id \<times> account_id) option"

definition tinybars :: "'asn transfer_lib \<Rightarrow> hbar \<Rightarrow> long" where
  "tinybars E h = toTinybars (lb_long E) (lb_big E) h"

definition hbar_key :: "hbar_transfer \<Rightarrow> account_id" where "hbar_key t = ht_account t"

definition token_key :: "token_transfer \<Rightarrow> entity_id \<times> account_id" where
  "token_key t = (sid (tt_token t), tt_account t)"

definition nft_key :: "nft_transfer \<Rightarrow> entity_id \<times> long" where
  "nft_key t = (sid (nt_token t), nt_serial t)"

definition balance :: "('t \<Rightarrow> 'k) \<Rightarrow> ('t \<Rightarrow> long) \<Rightarrow> 't list \<Rightarrow> 'k \<Rightarrow> long" where
  "balance key amt ts k = (case map_of (map (\<lambda>t. (key t, amt t)) ts) k of None \<Rightarrow> 0 | Some n \<Rightarrow> n)"

lemma balance_simps [simp]:
  "balance key amt [] k = 0"
  "balance key amt (t # ts) k = (if key t = k then amt t else balance key amt ts k)"
  by (simp_all add: balance_def)

definition hbar_balance :: "'asn transfer_lib \<Rightarrow> hbar_transfer list \<Rightarrow> account_id \<Rightarrow> long" where
  "hbar_balance E = balance hbar_key (\<lambda>t. tinybars E (ht_amount t))"

definition owners :: "nft_transfer list \<Rightarrow> entity_id \<times> long \<Rightarrow> (account_id \<times> account_id) option" where
  "owners ts = map_of (map (\<lambda>t. (nft_key t, (nt_sender t, nt_receiver t))) ts)"

definition ledger_of :: "'asn transfer_lib \<Rightarrow> transfers \<Rightarrow> ledger" where
  "ledger_of E s =
     \<lparr>lg_hbar = hbar_balance E (tr_hbars s), lg_token = balance token_key tt_amount (tr_tokens s),
      lg_nft = owners (tr_nfts s)\<rparr>"

definition transfers_ok :: "transfers \<Rightarrow> bool" where
  "transfers_ok s \<longleftrightarrow>
     list_all (\<lambda>t. account_ok (ht_account t)) (tr_hbars s) \<and>
     list_all (\<lambda>t. account_ok (tt_account t) \<and> valid_id (sid (tt_token t))) (tr_tokens s) \<and>
     list_all (\<lambda>t. account_ok (nt_sender t) \<and> account_ok (nt_receiver t) \<and> valid_id (sid (nt_token t))) (tr_nfts s) \<and>
     distinct (map hbar_key (tr_hbars s)) \<and> distinct (map token_key (tr_tokens s)) \<and>
     distinct (map nft_key (tr_nfts s))"

datatype transfer_op =
    SendHbar account_id hbar bool
  | SendToken token_id account_id long bool
  | SendNft nft_id account_id account_id bool

fun op_ok :: "transfer_op \<Rightarrow> bool" where
  "op_ok (SendHbar a h ap) \<longleftrightarrow> account_ok a"
| "op_ok (SendToken t a n ap) \<longleftrightarrow> account_ok a \<and> valid_id (sid t)"
| "op_ok (SendNft i a b ap) \<longleftrightarrow> account_ok a \<and> account_ok b \<and> valid_id (sid (nft_token i))"

fun send :: "'asn transfer_lib \<Rightarrow> transfer_op \<Rightarrow> transfers \<Rightarrow> transfers result" where
  "send E (SendHbar a h ap) s =
     (if ap then addApprovedHbarTransfer E (IdObject a) (HbarObject h) s
      else addHbarTransfer E (IdObject a) (HbarObject h) s)"
| "send E (SendToken t a n ap) s =
     (if ap then addApprovedTokenTransfer E (IdObject t) (IdObject a) (LongObject n) s
      else addTokenTransfer E (IdObject t) (IdObject a) (LongObject n) s)"
| "send E (SendNft i a b ap) s =
     (if ap then addApprovedNftTransfer E (FirstNft i) (AccountArgument (IdObject a)) (IdObject b) None s
      else addNftTransfer E (FirstNft i) (AccountArgument (IdObject a)) (IdObject b) None s)"

fun sends :: "'asn transfer_lib \<Rightarrow> transfer_op list \<Rightarrow> transfers \<Rightarrow> transfers result" where
  "sends E [] s = Inr s"
| "sends E (x # xs) s = res_bind (send E x s) (sends E xs)"

fun credit :: "'asn transfer_lib \<Rightarrow> ledger \<Rightarrow> transfer_op \<Rightarrow> ledger" where
  "credit E g (SendHbar a h ap) = g\<lparr>lg_hbar := (lg_hbar g)(a := lg_hbar g a + tinybars E h)\<rparr>"
| "credit E g (SendToken t a n ap) =
     g\<lparr>lg_token := (lg_token g)((sid t, a) := lg_token g (sid t, a) + n)\<rparr>"
| "credit E g (SendNft i a b ap) =
     g\<lparr>lg_nft := (lg_nft g)((sid (nft_token i), nft_serial i) \<mapsto> (a, b))\<rparr>"

section \<open>One addition\<close>

lemma tinybars_sint: "transfer_lib_ok E \<Longrightarrow> tinybars E (sint n) = n"
proof -
  assume ok: "transfer_lib_ok E"
  have "map char_of (map code_of (show_int (sint n))) = show_int (sint n)" by (simp add: code_of_def comp_def)
  moreover have "bigFixed (lb_big E) (of_int (sint n)) = map code_of (show_int (sint n))"
    using ok unfolding transfer_lib_ok_def big_ok_def by blast
  ultimately have "tinybars E (sint n) = fromText (lb_long E) (show_int (sint n))"
    by (simp add: tinybars_def toTinybars_def del: of_int_sint)
  also have "\<dots> = word_of_int (sint n)"
    using ok sint_range[of n] by (simp add: transfer_lib_ok_def signed_text_ok_def)
  finally show ?thesis by simp
qed

lemma fromTinybars_long: "fromTinybars B (AmountLong n) = Inr (sint n)"
  by (simp add: fromTinybars_def hbar_new_def hbar_value_def valueToLong_def del: of_int_sint)

lemma account_zero:
  assumes "account_ok a" and "account_ok b"
  shows "account_compare a b = 0 \<longleftrightarrow> a = b"
proof -
  consider "\<not> same_realm a b" | "same_realm a b" "same_kind a b" | "same_realm a b" "\<not> same_kind a b" by blast
  then show ?thesis
  proof cases
    case 1
    then show ?thesis by (auto simp: account_compare_def Let_def same_realm_def)
  next
    case 2
    then show ?thesis using account_compare_kind[OF assms 2(2)] account_eqI[OF assms 2(2,1)] by simp
  next
    case 3
    then have "account_compare a b = 1"
      using assms by (cases "aliasKey a"; cases "aliasKey b")
        (auto simp: account_ok_def same_kind_def same_realm_def account_compare_def Let_def split: option.splits)
    then show ?thesis using 3(2) by (auto simp: same_kind_def)
  qed
qed

lemma token_zero: "token_compare a b = 0 \<longleftrightarrow> sid a = sid b"
  by (rule token_class.cmp_zero)

lemma clone_ok: "account_ok a \<Longrightarrow> account_clone a = Inr a"
  by (cases a; cases "acc_id a")
    (auto simp: account_clone_def account_constructor_def account_ok_def entity_constructor_def
      valid_id_def is_negative_def nonneg_def from_some_def)

lemma merge_hbar_spec:
  assumes "transfer_lib_ok E" and "account_ok a" and "list_all (\<lambda>t. account_ok (ht_account t)) ts"
    and "distinct (map hbar_key ts)"
  shows "\<exists>us. merge_hbar E a h ap ts = Inr us \<and>
    map hbar_key us = (if a \<in> hbar_key ` set ts then map hbar_key ts else map hbar_key ts @ [a]) \<and>
    hbar_balance E us = (hbar_balance E ts)(a := hbar_balance E ts a + tinybars E h)"
  using assms(3,4)
proof (induction ts)
  case Nil
  then show ?case by (auto simp: hbar_key_def hbar_balance_def)
next
  case (Cons t ts)
  show ?case
  proof (cases "ht_account t = a")
    case True
    then have "account_compare (ht_account t) a = 0" using account_zero[OF assms(2,2)] by simp
    then have "merge_hbar E a h ap (t # ts) =
        Inr (t\<lparr>ht_amount := sint (tinybars E (ht_amount t) + tinybars E h)\<rparr> # ts)"
      by (simp add: fromTinybars_long tinybars_def)
    then show ?thesis using True tinybars_sint[OF assms(1)] by (auto simp: hbar_key_def hbar_balance_def)
  next
    case False
    then have "account_compare (ht_account t) a \<noteq> 0" using account_zero[OF _ assms(2)] Cons.prems(1) by simp
    moreover have p: "list_all (\<lambda>t. account_ok (ht_account t)) ts" "distinct (map hbar_key ts)" using Cons.prems by simp_all
    obtain us where us: "merge_hbar E a h ap ts = Inr us"
        "map hbar_key us = (if a \<in> hbar_key ` set ts then map hbar_key ts else map hbar_key ts @ [a])"
        "hbar_balance E us = (hbar_balance E ts)(a := hbar_balance E ts a + tinybars E h)"
      using Cons.IH[OF p] by blast
    moreover have "hbar_balance E (t # us) = (hbar_balance E (t # ts))(a := hbar_balance E (t # ts) a + tinybars E h)"
      using us(3) False by (auto simp: hbar_balance_def hbar_key_def fun_eq_iff)
    moreover have "hbar_key t \<noteq> a" using False by (simp add: hbar_key_def)
    ultimately show ?thesis by auto
  qed
qed

lemma merge_token_spec:
  assumes "account_ok a" and "list_all (\<lambda>t. account_ok (tt_account t) \<and> valid_id (sid (tt_token t))) ts"
  shows "map token_key (merge_token t a n ap d ts) =
      (if (sid t, a) \<in> token_key ` set ts then map token_key ts else map token_key ts @ [(sid t, a)]) \<and>
    balance token_key tt_amount (merge_token t a n ap d ts) =
      (balance token_key tt_amount ts)((sid t, a) := balance token_key tt_amount ts (sid t, a) + n)"
  using assms(2)
proof (induction ts)
  case Nil
  then show ?case by (auto simp: token_key_def)
next
  case (Cons x xs)
  have hit: "token_compare (tt_token x) t = 0 \<and> account_compare (tt_account x) a = 0 \<longleftrightarrow> token_key x = (sid t, a)"
    using account_zero[OF _ assms(1), of "tt_account x"] Cons.prems(1) by (simp add: token_zero token_key_def)
  show ?case
  proof (cases "token_key x = (sid t, a)")
    case True
    then show ?thesis using hit by (auto simp: token_key_def)
  next
    case False
    then have "merge_token t a n ap d (x # xs) = x # merge_token t a n ap d xs" using hit by auto
    then show ?thesis using Cons False by (auto simp: fun_eq_iff)
  qed
qed

lemma merge_nft_spec:
  "map nft_key (merge_nft i a b ap ts) =
      (if (sid (nft_token i), nft_serial i) \<in> nft_key ` set ts then map nft_key ts
       else map nft_key ts @ [(sid (nft_token i), nft_serial i)]) \<and>
    owners (merge_nft i a b ap ts) = (owners ts)((sid (nft_token i), nft_serial i) \<mapsto> (a, b))"
proof (induction ts)
  case Nil
  then show ?case by (auto simp: nft_key_def owners_def)
next
  case (Cons x xs)
  have hit: "token_compare (nt_token x) (nft_token i) = 0 \<and> long_compare (nt_serial x) (nft_serial i) = 0 \<longleftrightarrow>
      nft_key x = (sid (nft_token i), nft_serial i)"
    by (simp add: token_zero nft_key_def)
  show ?case
  proof (cases "nft_key x = (sid (nft_token i), nft_serial i)")
    case True
    then show ?thesis using hit by (auto simp: nft_key_def owners_def)
  next
    case False
    then have "merge_nft i a b ap (x # xs) = x # merge_nft i a b ap xs" using hit by auto
    then show ?thesis using Cons False by (auto simp: owners_def fun_eq_iff)
  qed
qed

section \<open>A sequence of additions\<close>

lemma merge_hbar_accounts:
  "merge_hbar E a h ap ts = Inr us \<Longrightarrow> account_ok a \<Longrightarrow> list_all (\<lambda>t. account_ok (ht_account t)) ts \<Longrightarrow>
   list_all (\<lambda>t. account_ok (ht_account t)) us"
  by (induction ts arbitrary: us) (auto simp: fromTinybars_long split: if_splits elim!: res_bind_InrE)

lemma merge_token_accounts:
  "account_ok a \<and> valid_id (sid t) \<Longrightarrow> list_all (\<lambda>t. account_ok (tt_account t) \<and> valid_id (sid (tt_token t))) ts \<Longrightarrow>
   list_all (\<lambda>t. account_ok (tt_account t) \<and> valid_id (sid (tt_token t))) (merge_token t a n ap d ts)"
  by (induction ts) auto

lemma merge_nft_accounts:
  "account_ok a \<and> account_ok b \<and> valid_id (sid (nft_token i)) \<Longrightarrow>
   list_all (\<lambda>t. account_ok (nt_sender t) \<and> account_ok (nt_receiver t) \<and> valid_id (sid (nt_token t))) ts \<Longrightarrow>
   list_all (\<lambda>t. account_ok (nt_sender t) \<and> account_ok (nt_receiver t) \<and> valid_id (sid (nt_token t))) (merge_nft i a b ap ts)"
  by (induction ts) auto

lemma send_refines:
  assumes "transfer_lib_ok E" and "\<not> isFrozen (tr_tx s)" and "transfers_ok s" and "op_ok x"
  shows "\<exists>s'. send E x s = Inr s' \<and> tr_tx s' = tr_tx s \<and> transfers_ok s' \<and> ledger_of E s' = credit E (ledger_of E s) x"
proof (cases x)
  case (SendHbar a h ap)
  have ok: "account_ok a" "list_all (\<lambda>t. account_ok (ht_account t)) (tr_hbars s)" "distinct (map hbar_key (tr_hbars s))"
    using assms(3,4) SendHbar by (auto simp: transfers_ok_def)
  obtain us where us: "merge_hbar E a h ap (tr_hbars s) = Inr us"
      "map hbar_key us = (if a \<in> hbar_key ` set (tr_hbars s) then map hbar_key (tr_hbars s) else map hbar_key (tr_hbars s) @ [a])"
      "hbar_balance E us = (hbar_balance E (tr_hbars s))(a := hbar_balance E (tr_hbars s) a + tinybars E h)"
    using merge_hbar_spec[OF assms(1) ok(1,2,3), of h ap] by blast
  have "send E x s = Inr (s\<lparr>tr_hbars := us\<rparr>)"
    using us(1) SendHbar assms(2) clone_ok[OF ok(1)]
    by (cases ap) (simp_all add: addHbarTransfer_def addApprovedHbarTransfer_def add_hbar_def requireNotFrozen_def hbar_of_arg_def)
  moreover have "transfers_ok (s\<lparr>tr_hbars := us\<rparr>)"
    using assms(3) us(2) merge_hbar_accounts[OF us(1) ok(1,2)] by (auto simp: transfers_ok_def)
  ultimately show ?thesis using us(3) SendHbar by (simp add: ledger_of_def)
next
  case (SendToken t a n ap)
  let ?us = "merge_token t a n ap None (tr_tokens s)"
  have ok: "account_ok a \<and> valid_id (sid t)" "list_all (\<lambda>t. account_ok (tt_account t) \<and> valid_id (sid (tt_token t))) (tr_tokens s)"
    using assms(3,4) SendToken by (auto simp: transfers_ok_def)
  have "send E x s = Inr (s\<lparr>tr_tokens := ?us\<rparr>)"
    using SendToken assms(2)
    by (cases ap) (simp_all add: addTokenTransfer_def addApprovedTokenTransfer_def add_token_def requireNotFrozen_def
        token_arg_def account_arg_def long_value_def)
  moreover have "transfers_ok (s\<lparr>tr_tokens := ?us\<rparr>)"
    using assms(3) merge_token_spec[of a "tr_tokens s" t n ap None] merge_token_accounts[OF ok] ok
    by (auto simp: transfers_ok_def)
  ultimately show ?thesis
    using merge_token_spec[of a "tr_tokens s" t n ap None] ok SendToken by (simp add: ledger_of_def)
next
  case (SendNft i a b ap)
  let ?us = "merge_nft i a b ap (tr_nfts s)"
  have ok: "account_ok a \<and> account_ok b \<and> valid_id (sid (nft_token i))"
    "list_all (\<lambda>t. account_ok (nt_sender t) \<and> account_ok (nt_receiver t) \<and> valid_id (sid (nt_token t))) (tr_nfts s)"
    using assms(3,4) SendNft by (auto simp: transfers_ok_def)
  have "send E x s = Inr (s\<lparr>tr_nfts := ?us\<rparr>)"
    using SendNft assms(2)
    by (cases ap) (simp_all add: addNftTransfer_def addApprovedNftTransfer_def add_nft_def requireNotFrozen_def
        nft_arguments_def nft_by_id_def nft_account_def account_arg_def)
  moreover have "transfers_ok (s\<lparr>tr_nfts := ?us\<rparr>)"
    using assms(3) merge_nft_spec[of i a b ap "tr_nfts s"] merge_nft_accounts[OF ok] by (auto simp: transfers_ok_def)
  ultimately show ?thesis
    using merge_nft_spec[of i a b ap "tr_nfts s"] SendNft by (simp add: ledger_of_def)
qed

lemma sends_refine:
  assumes "transfer_lib_ok E" and "\<not> isFrozen (tr_tx s)" and "transfers_ok s" and "list_all op_ok xs"
  shows "\<exists>s'. sends E xs s = Inr s' \<and> transfers_ok s' \<and> ledger_of E s' = foldl (credit E) (ledger_of E s) xs"
  using assms(2-4)
proof (induction xs arbitrary: s)
  case (Cons x xs)
  obtain s1 where s1: "send E x s = Inr s1" "tr_tx s1 = tr_tx s" "transfers_ok s1" "ledger_of E s1 = credit E (ledger_of E s) x"
    using send_refines[OF assms(1) Cons.prems(1,2)] Cons.prems(3) by auto
  then show ?case using Cons.IH[of s1] Cons.prems by simp
qed simp


end
