(* ===== verification/ReceiptLaws.thy ===== *)
theory ReceiptLaws
  imports Receipts QueryLaws TransferLaws
begin

text \<open>
  What holds of receipts: reading one back from its bytes, and fetching one: the question is repeated
  until the network has decided, and what is returned is final.
\<close>

section \<open>Bytes\<close>

definition rate_ok :: "exchange_rate \<Rightarrow> bool" where
  "rate_ok r \<longleftrightarrow> (\<exists>s. 0 \<le> s \<and> s < 2 ^ 31 \<and> er_expiration r = s * 1000)"

definition plain_contract :: "contract_id \<Rightarrow> bool" where
  "plain_contract c \<longleftrightarrow> contract_ok c \<and> con_evm c = None"

definition plain_id :: "simple_id \<Rightarrow> bool" where
  "plain_id i \<longleftrightarrow> valid_id (sid i) \<and> sid_checksum i = None"

definition sent_tx_id :: "tx_id \<Rightarrow> bool" where
  "sent_tx_id i \<longleftrightarrow> tx_id_ok i \<and> (\<forall>v. validStart i = Some v \<longrightarrow> sint (seconds v) < 2 ^ 31) \<and>
     (\<forall>n. nonce i = Some n \<longrightarrow> sint n < 2 ^ 31)"

definition receipt_ok :: "receipt \<Rightarrow> bool" where
  "receipt_ok r \<longleftrightarrow> rc_status r \<in> set (map fst status_cases) \<and>
     pred_option account_ok (rc_account r) \<and> pred_option plain_contract (rc_contract r) \<and>
     list_all (pred_option plain_id) [rc_file r, rc_topic r, rc_token r, rc_schedule r] \<and>
     pred_option rate_ok (rc_rate r) \<and> pred_option rate_ok (rc_nextRate r) \<and>
     pred_option nonneg (rc_sequence r) \<and> pred_option nonneg (rc_supply r) \<and>
     pred_option sent_tx_id (rc_scheduledId r)"

lemma rate_back:
  assumes "long_lib_ok L" and "rate_ok r"
  shows "rate_fromProtobuf (Some (rate_toProtobuf L r)) = Inr r"
proof -
  obtain s where s: "0 \<le> s" "s < 2 ^ 31" "er_expiration r = s * 1000" using assms(2) by (auto simp: rate_ok_def)
  have "er_expiration r sdiv 1000 = s" using s by (simp add: sdiv_pos)
  moreover have "fromNumber L s = word_of_int s" using assms(1) s by (simp add: long_lib_ok_def)
  ultimately show ?thesis
    using s toInt_of_int[of s] by (simp add: rate_fromProtobuf_def rate_toProtobuf_def)
qed

lemma rate_missing: "rate_fromProtobuf None = Inl undefined_error"
  by (simp add: rate_fromProtobuf_def)

lemma id_backs:
  assumes "long_lib_ok L" and "plain_id i"
  shows "file_fromProtobuf L (file_toProtobuf i) = Inr i" "topic_fromProtobuf (topic_toProtobuf i) = Inr i"
    "token_fromProtobuf (token_toProtobuf i) = Inr i" "schedule_fromProtobuf (schedule_toProtobuf i) = Inr i"
proof -
  have v: "valid_id (sid i)" and i: "i\<lparr>sid_checksum := None\<rparr> = i" using assms(2) by (simp_all add: plain_id_def)
  show "file_fromProtobuf L (file_toProtobuf i) = Inr i" "topic_fromProtobuf (topic_toProtobuf i) = Inr i"
    "token_fromProtobuf (token_toProtobuf i) = Inr i" "schedule_fromProtobuf (schedule_toProtobuf i) = Inr i"
    using file_class.of_msg_to_msg[OF assms(1) v] topic_class.of_msg_to_msg[OF assms(1) v]
      token_class.of_msg_to_msg[OF assms(1) v] schedule_class.of_msg_to_msg[OF assms(1) v]
    by (simp_all only: i)
qed

lemma reread_nonneg: "long_lib_ok L \<Longrightarrow> pred_option nonneg n \<Longrightarrow> map_option (reread L) n = n"
  by (cases n) (simp_all add: reread_def fromText_toText)

definition has_rates :: "receipt \<Rightarrow> bool" where
  "has_rates r \<longleftrightarrow> rc_rate r \<noteq> None \<and> rc_nextRate r \<noteq> None"

lemma receipt_message_back:
  fixes E :: "'asn transfer_lib"
  assumes "transfer_lib_ok E" and "receipt_ok r"
  shows "receipt_of_message E (receipt_message_of E r) = (if has_rates r then Inr r else Inl undefined_error)"
proof -
  note ok = assms[unfolded transfer_lib_ok_def receipt_ok_def]
  have st: "status_fromCode (rc_status r) = Inr (rc_status r)" using ok by (simp add: status_fromCode_eq)
  have a: "res_opt (account_fromProtobuf (lb_der E) (lb_key E)) (map_option (account_toProtobuf (lb_key E)) (rc_account r))
      = Inr (rc_account r)"
    using ok by (intro res_opt_back account_proto_back) auto
  have c: "res_opt contract_fromProtobuf (map_option contract_toProtobuf (rc_contract r)) = Inr (rc_contract r)"
    using ok by (intro res_opt_back) (auto simp: plain_contract_def contract_proto_back)
  have f: "res_opt (file_fromProtobuf (lb_long E)) (map_option file_toProtobuf (rc_file r)) = Inr (rc_file r)"
    "res_opt topic_fromProtobuf (map_option topic_toProtobuf (rc_topic r)) = Inr (rc_topic r)"
    "res_opt token_fromProtobuf (map_option token_toProtobuf (rc_token r)) = Inr (rc_token r)"
    "res_opt schedule_fromProtobuf (map_option schedule_toProtobuf (rc_schedule r)) = Inr (rc_schedule r)"
    using ok id_backs[of "lb_long E"] by (auto intro!: res_opt_back)
  have i: "res_opt (tx_id_fromProtobuf (lb_long E) (lb_der E) (lb_key E))
      (map_option (tx_id_toProtobuf (lb_key E)) (rc_scheduledId r)) = Inr (rc_scheduledId r)"
    using ok tx_id_proto_back[of "lb_long E" "lb_key E"]
    by (intro res_opt_back) (auto simp: sent_tx_id_def)
  have n: "map_option (reread (lb_long E)) (rc_sequence r) = rc_sequence r"
    "map_option (reread (lb_long E)) (rc_supply r) = rc_supply r"
    using ok by (simp_all add: reread_nonneg)
  have rate: "rate_fromProtobuf (map_option (rate_toProtobuf (lb_long E)) x)
      = (case x of None \<Rightarrow> Inl undefined_error | Some y \<Rightarrow> Inr y)" if "pred_option rate_ok x" for x
    using that ok rate_back[of "lb_long E"] by (cases x) (simp_all add: rate_missing)
  show ?thesis
    using rate[of "rc_rate r"] rate[of "rc_nextRate r"] ok
    by (simp add: receipt_of_message_def receipt_message_of_def code_or_ok_def st a c f i n has_rates_def
        split: option.split)
qed


section \<open>Fetching a receipt\<close>

definition code_in :: "nat set \<Rightarrow> nat option \<Rightarrow> bool" where
  "code_in A c \<longleftrightarrow> code_or_ok c \<in> A"

definition receipt_code :: "receipt_response \<Rightarrow> nat option" where
  "receipt_code r = (case rb_receipt (rr_body r) of None \<Rightarrow> None | Some m \<Rightarrow> rm_status m)"

text \<open>The network has not decided yet: the node says so, or the receipt does.\<close>

definition undecided :: "receipt_response \<Rightarrow> bool" where
  "undecided r \<longleftrightarrow>
     code_or_ok (rh_code (rr_header r)) \<in> {12, 21, 18, 67} \<or>
     code_or_ok (rh_code (rr_header r)) = 0 \<and> receipt_code r \<in> Some ` {12, 21, 18}"

definition decided_well :: "receipt_response \<Rightarrow> bool" where
  "decided_well r \<longleftrightarrow> code_or_ok (rh_code (rr_header r)) = 0 \<and> receipt_code r \<in> Some ` {22, 104}"

lemma known_codes: "c \<in> {0, 12, 21, 18, 67, 22, 104} \<Longrightarrow> status_fromCode c = Inr c"
  by (auto simp: status_fromCode_eq status_cases_defs)

lemma undecided_retry: "undecided r \<Longrightarrow> snd (receipt_shouldRetry q r) = Retry"
  by (auto simp: undecided_def receipt_shouldRetry_def decided_by_def receipt_status_def receipt_code_def
      status_of_code_def known_codes split: option.splits)

lemma decided_finished: "decided_well r \<Longrightarrow> snd (receipt_shouldRetry q r) = Finished"
  by (auto simp: decided_well_def receipt_shouldRetry_def decided_by_def receipt_status_def receipt_code_def
      status_of_code_def known_codes split: option.splits)

lemma status_fromCode_Inr: "status_fromCode c = Inr s \<Longrightarrow> s = c"
  by (auto simp: status_fromCode_eq split: if_splits)

lemma finished_decided:
  assumes "snd (receipt_shouldRetry q r) = Finished" and "iq_validate q"
  shows "decided_well r"
  using assms
  by (fastforce simp: decided_well_def receipt_shouldRetry_def decided_by_def receipt_status_def receipt_code_def
      status_of_code_def split: option.splits sum.splits if_splits dest!: status_fromCode_Inr elim!: res_bind_InrE)

lemma retry_undecided:
  assumes "snd (receipt_shouldRetry q r) = Retry"
  shows "undecided r"
  using assms
  by (fastforce simp: undecided_def receipt_shouldRetry_def decided_by_def receipt_status_def receipt_code_def
      status_of_code_def split: option.splits sum.splits if_splits dest!: status_fromCode_Inr elim!: res_bind_InrE)

lemma read_status:
  assumes "receipt_fromProtobuf E (rr_body r) = Inr t" and "receipt_code r = Some c"
  shows "rc_status (the_receipt t) = c"
  using assms
  by (auto simp: receipt_fromProtobuf_def receipt_of_message_def receipt_code_def code_or_ok_def
      elim!: res_bind_InrE dest!: status_fromCode_Inr split: option.splits)

text \<open>The state in which the query for a receipt is sent.\<close>

definition asks_one :: "account_id \<Rightarrow> account_id jslist \<Rightarrow> (account_id, tx_id) query \<Rightarrow> bool" where
  "asks_one a l q \<longleftrightarrow> items l = [Some a] \<and> cursor l = Some 0 \<and> q_payment q \<noteq> None"

lemma asks_one_goes_on:
  assumes "\<not> isPaymentRequired Q"
  shows "can_go_on (exec_ops L V Q) (asks_one a)"
  unfolding can_go_on_def
  by (auto simp: asks_one_def exec_ops_def query_makeRequestAsync_def list_current_def list_get_def array_get_def
      makePaymentTransaction_def hbar_negated_exact list_advance_def Let_def split: prod.splits)

lemma asks_one_invariant: "request_invariant (exec_ops L V Q) (asks_one a)"
  unfolding request_invariant_def
  by (auto simp: asks_one_def exec_ops_def query_makeRequestAsync_def list_advance_def Let_def
      elim!: res_bind_InrE split: prod.splits option.splits)

lemma receipt_before:
  assumes "r_node r = Some a"
    and "qc_validate K \<Longrightarrow> receipt_validateChecksums check (getReceiptQuery r) = Inr ()"
  shows "\<exists>S. query_beforeExecute C K L V (receipt_ops E check (getReceiptQuery r))
      ((response_exec N r)\<lparr>x_requestTimeout := tm\<rparr>) = (Inr (), S) \<and>
    asks_one a (x_nodes S) (x_sub S) \<and> x_net S = N \<and> x_nodes S = x_nodes (response_exec N r) \<and>
    transactionNodeIds S = [] \<and>
    x_grpcDeadline S = None \<and> calls S = [] \<and> delays S = [] \<and> x_requestTimeout S = tm \<and> x_maxAttempts S = 10"
  using assms
  by (auto simp: query_beforeExecute_def receipt_ops_def fill_nodes_def response_exec_def new_exec_def new_query_def
      jslist_defs payment_id_def amount_to_pay_def setQueryPayment_def makePaymentTransaction_def
      hbar_negated_exact paying_operator_def asks_one_def Let_def)

lemma receipt_polled:
  assumes "r_node r = Some a" and "qc_validate K \<Longrightarrow> receipt_validateChecksums check (getReceiptQuery r) = Inr ()"
    and "all_reachable (key_of C) up (x_nodes (response_exec N r)) N" and "\<And>i. rnd_ok (rand (env i))"
    and "\<And>i. i \<le> Suc k \<Longrightarrow> in_time (client_requestTimeout C) start (clk_start (env i)) \<and> up \<le> clk_health (env i)"
    and "\<And>i. 1 \<le> i \<Longrightarrow> i \<le> k \<Longrightarrow> \<exists>resp. answer (env i) = Inr resp \<and> undecided resp"
    and "answer (env (Suc k)) = Inr resp" and "decided_well resp"
    and "receipt_fromProtobuf E (rr_body resp) = Inr t" and "Suc k \<le> 10" and "client_maxAttempts C = None"
  shows "\<exists>T. getReceipt C K L V E check start env N r = (Inr t, T) \<and> length (calls T) = Suc k"
proof -
  let ?Q = "receipt_ops E check (getReceiptQuery r)"
  let ?S = "response_exec N r"
  have tm: "effective_timeout C None ?S = client_requestTimeout C"
    by (simp add: effective_timeout_def response_exec_def new_exec_def)
  obtain S where S: "query_beforeExecute C K L V ?Q (?S\<lparr>x_requestTimeout := client_requestTimeout C\<rparr>) = (Inr (), S)"
    "asks_one a (x_nodes S) (x_sub S)" "x_net S = N" "x_nodes S = x_nodes ?S" "transactionNodeIds S = []"
    "x_grpcDeadline S = None" "calls S = []" "x_requestTimeout S = client_requestTimeout C" "x_maxAttempts S = 10"
    using receipt_before[OF assms(1,2), where C = C and L = L and V = V and E = E and N = N
        and tm = "client_requestTimeout C"] by blast
  have free: "\<not> isPaymentRequired ?Q" by (simp add: receipt_ops_def)
  have "\<exists>T. execute C (exec_ops L V ?Q) Inr None start env S = (Inr t, T) \<and> length (calls T) = Suc k"
  proof (rule busy_execute[where J = "asks_one a" and t = up and resp = resp])
    show "all_reachable (key_of C) up (x_nodes S) (x_net S)" using assms(3) S(3,4) by simp
    show "in_time (effective_timeout C None S) start (clk_start (env i)) \<and> up \<le> clk_health (env i)" if "i \<le> Suc k" for i
      using assms(5)[OF that] S(8) by (cases "client_requestTimeout C") (simp_all add: effective_timeout_def)
    show "can_go_on (exec_ops L V ?Q) (asks_one a)" by (rule asks_one_goes_on[OF free])
    show "\<exists>x. answer (env i) = Inr x \<and> fst (snd (shouldRetry (exec_ops L V ?Q) s q x)) = Retry"
      if i: "1 \<le> i" "i \<le> k" for i s q
    proof -
      obtain x where "answer (env i) = Inr x" "undecided x" using assms(6) i by blast
      then show ?thesis
        using undecided_retry[of x "getReceiptQuery r"] by (simp add: exec_ops_def receipt_ops_def case_prod_beta)
    qed
    show "\<exists>sub. snd (shouldRetry (exec_ops L V ?Q) s q resp) = (Finished, sub) \<and>
        fst (mapResponse (exec_ops L V ?Q) sub resp acc q) = Inr t" for s acc q
      using decided_finished[OF assms(8), of "getReceiptQuery r"] assms(9)
      by (simp add: exec_ops_def receipt_ops_def case_prod_beta)
    show "Suc k \<le> max_attempts C (isLocalNode (x_net S)) S"
      using assms(10,11) S(9) by (simp add: max_attempts_def)
  qed (use assms S in auto)
  then obtain T where T: "execute C (exec_ops L V ?Q) Inr None start env S = (Inr t, T)" "length (calls T) = Suc k"
    by blast
  obtain c where c: "receipt_code resp = Some c" "c \<in> {22, 104}" using assms(8) by (auto simp: decided_well_def)
  have "getReceipt C K L V E check start env N r = (Inr t, T)"
    using T(1) read_status[OF assms(9) c(1)] c(2)
    by (auto simp: getReceipt_def execute_receipt_def query_execute_def execute_after_eq tm S(1))
  with T(2) show ?thesis by blast
qed

text \<open>C23: The receipt of a transaction is waited for: while the node, or the receipt it returns, says that
  the network has not decided, the question is repeated, and the first receipt that says the transaction
  succeeded is returned, after one call per answer.\<close>

theorem receipt_waited_for:
  assumes "r_node r = Some a" and "qc_validate K \<Longrightarrow> receipt_validateChecksums check (getReceiptQuery r) = Inr ()"
    and "all_reachable (key_of C) up (x_nodes (response_exec N r)) N" and "\<And>i. rnd_ok (rand (env i))"
    and "\<And>i. i \<le> Suc k \<Longrightarrow> in_time (client_requestTimeout C) start (clk_start (env i)) \<and> up \<le> clk_health (env i)"
    and "\<And>i. 1 \<le> i \<Longrightarrow> i \<le> k \<Longrightarrow> \<exists>resp. answer (env i) = Inr resp \<and> undecided resp"
    and "answer (env (Suc k)) = Inr resp" and "decided_well resp"
    and "receipt_fromProtobuf E (rr_body resp) = Inr t" and "Suc k \<le> 10" and "client_maxAttempts C = None"
  shows "\<exists>T. getReceipt C K L V E check start env N r = (Inr t, T) \<and> length (calls T) = Suc k"
  by (rule receipt_polled[where up = up and env = env and k = k and resp = resp]) (use assms in blast)+

text \<open>Fetching a receipt by a response is an execution on the one node of the response.\<close>

lemma receipt_run:
  assumes "r_node r = Some a" and "execute_receipt C K L V E check start env N r = (Inr t, T)"
  obtains S where "execute C (exec_ops L V (receipt_ops E check (getReceiptQuery r))) Inr None start env S = (Inr t, T)"
    and "asks_one a (x_nodes S) (x_sub S)" and "x_grpcDeadline S = None" and "calls S = []" and "delays S = []"
proof -
  let ?Q = "receipt_ops E check (getReceiptQuery r)"
  let ?S = "response_exec N r"
  have tm: "effective_timeout C None ?S = client_requestTimeout C"
    by (simp add: effective_timeout_def response_exec_def new_exec_def)
  have "qc_validate K \<Longrightarrow> receipt_validateChecksums check (getReceiptQuery r) = Inr ()"
    using assms(2)
    by (cases "receipt_validateChecksums check (getReceiptQuery r)")
      (auto simp: execute_receipt_def query_execute_def execute_after_eq tm query_beforeExecute_def response_exec_def
        new_exec_def new_query_def receipt_ops_def)
  from receipt_before[OF assms(1) this, where C = C and L = L and V = V and E = E and N = N
        and tm = "client_requestTimeout C"]
  obtain S where S: "query_beforeExecute C K L V ?Q (?S\<lparr>x_requestTimeout := client_requestTimeout C\<rparr>) = (Inr (), S)"
    "asks_one a (x_nodes S) (x_sub S)" "x_grpcDeadline S = None" "calls S = []" "delays S = []"
    by blast
  have "execute C (exec_ops L V ?Q) Inr None start env S = (Inr t, T)"
    using assms(2) by (simp add: execute_receipt_def query_execute_def execute_after_eq tm S(1))
  then show ?thesis using that S by blast
qed

text \<open>The three facts about a single call: what ends the questions, what repeats them, and what is asked.\<close>

lemma no_race [simp]: "race None v = answer v"
  by (simp add: race_def)

lemma receipt_answered:
  assumes "answered (exec_ops L V (receipt_ops E check (getReceiptQuery r))) None v c t"
  shows "\<exists>resp. answer v = Inr resp \<and> decided_well resp \<and> receipt_fromProtobuf E (rr_body resp) = Inr t"
proof -
  obtain resp where "answer v = Inr resp" "snd (receipt_shouldRetry (getReceiptQuery r) resp) = Finished"
    "receipt_fromProtobuf E (rr_body resp) = Inr t"
    using assms by (auto simp: answered_def exec_ops_def receipt_ops_def case_prod_beta)
  then show ?thesis using finished_decided[of "getReceiptQuery r" resp] by (auto simp: getReceiptQuery_def)
qed

lemma receipt_repeated:
  assumes "repeatable (exec_ops L V (receipt_ops E check (getReceiptQuery r))) None v c"
  shows "case answer v of Inr resp \<Rightarrow> undecided resp | Inl e \<Rightarrow> (\<exists>e'. fromResponse e = Inr e' \<and> retried_error e')"
  using assms
  by (cases "answer v")
    (auto simp: repeatable_def exec_ops_def receipt_ops_def intro!: retry_undecided[of "getReceiptQuery r"]
      split: sum.splits prod.splits)

lemma receipt_asked:
  assumes "made_by (exec_ops L V (receipt_ops E check (getReceiptQuery r))) (asks_one a) c"
  shows "to_account c = Some a \<and> ir_tid (with_request c) = Some (tx_id_toProtobuf (lb_key E) (tx_id_clone (r_tid r)))"
proof -
  let ?Q = "receipt_ops E check (getReceiptQuery r)"
  obtain l s l' h where l: "items l = [Some a]" "cursor l = Some 0" "q_payment s = Some h"
    "to_account c = list_current l" "query_makeRequestAsync L V ?Q l s = Inr (with_request c, l', with_state c)"
    using assms by (auto simp: made_by_def asks_one_def exec_ops_def)
  have "\<exists>p. with_request c = onMakeRequest ?Q (Some \<lparr>qh_payment = Some p, qh_type = Some AnswerOnly\<rparr>)"
    using makeRequestAsync_InrD[OF l(5,3)] by blast
  then have "ir_tid (with_request c) = Some (tx_id_toProtobuf (lb_key E) (tx_id_clone (r_tid r)))"
    by (auto simp: receipt_ops_def receipt_onMakeRequest_def getReceiptQuery_def)
  then show ?thesis using l by (simp add: list_current_def list_get_def array_get_def)
qed


end
