(* ===== verification/QuerySample.thy ===== *)
theory QuerySample
  imports QueryLaws ChunkSample TxRoundTrip
begin

text \<open>
  A concrete codec of payments and the theorems on queries applied to a query of one node, whose price
  is asked for first.
\<close>

definition pay_c :: "(string, nat, string account_amounts) tx_body codec" where
  "pay_c = iso_c (\<lambda>b. (b_data b, b_fee b, b_memo b, b_tid b, b_node b, b_duration b))
     (\<lambda>(d, f, m, t, n, v). \<lparr>b_data = d, b_fee = f, b_memo = m, b_tid = t, b_node = n, b_duration = v\<rparr>)
     (pair_c (list_c (pair_c string_c long_c)) (pair_c (opt_c int_c) (pair_c string_c (pair_c (opt_c nat_c)
       (pair_c (opt_c string_c) (opt_c int_c))))))"

lemma pay_c_ok: "codec_ok pay_c"
  unfolding pay_c_def by (intro iso_c_ok codecs) simp_all

definition sample_pay :: "(string, nat) pay_lib" where
  "sample_pay =
     \<lparr>pay_proto = \<lparr>encBody = (\<lambda>b. unary (fst pay_c b)),
        decBody = (\<lambda>bs. Inr (fst (snd pay_c (from_unary 0 bs)))),
        encSigned = encSigned sample_lib, decSigned = decSigned sample_lib, encList = encList sample_lib,
        decList = decList sample_lib, decTransaction = decTransaction sample_lib, sha384 = sha384 sample_lib\<rparr>,
      pay_long = signed_lib, pay_big = sample_big\<rparr>"

lemma sample_pay_ok: "pay_ok sample_pay"
proof -
  have "snd pay_c (fst pay_c b @ []) = (b, [])" for b using pay_c_ok unfolding codec_ok_def by blast
  then show ?thesis
    using sample_lib_ok by (simp add: pay_ok_def proto_ok_def sample_pay_def sample_big_ok signed_lib_ok)
qed

definition sample_query_ops :: "(string, nat, query_header option, nat, nat) query_ops" where
  "sample_query_ops =
     \<lparr>isPaymentRequired = True, checkIds = Inr (),
      responseHeader = (\<lambda>n. \<lparr>rh_code = None, rh_cost = AmountLong (of_nat n)\<rparr>),
      onMakeRequest = (\<lambda>h. h), retryQuery = (\<lambda>n. (''OK'', Finished)),
      queryError = (\<lambda>i n a. StatusError ''INVALID''), mapQueryResponse = Inr\<rparr>"

definition sample_query_client :: "string query_client" where
  "sample_query_client =
     \<lparr>qc_operator = Some \<lparr>op_account = ''0.0.9'', op_key = sample_key, op_signer = (\<lambda>_. [170])\<rparr>,
      qc_maxPayment = 100000000, qc_validate = False\<rparr>"

definition sample_answers :: "nat \<Rightarrow> nat attempt_env" where
  "sample_answers i = \<lparr>clk_start = 1000, clk_health = 1000, clk_done = 1000, rand = (\<lambda>_. 0), latency = 5,
     answer = Inr 1000\<rparr>"

definition sample_query_env :: "(string, nat, nat) query_env" where
  "sample_query_env = \<lparr>newId = (\<lambda>k a. k), zeroAccount = ''0.0.0'', drawn = (\<lambda>_. ((\<lambda>_. 0), 1000)),
     cost_start = 1000, cost_env = sample_answers\<rparr>"

definition sample_query_exec :: "(string, string, (string, nat) query, query_header option) exec" where
  "sample_query_exec = (new_exec sample_net new_query)\<lparr>x_nodes := \<lparr>items = [Some ''0.0.3''], locked = True, cursor = Some 0\<rparr>\<rparr>"

lemmas query_sample_defs = sample_query_ops_def sample_query_client_def sample_answers_def
  sample_query_env_def sample_query_exec_def

lemmas exec_eval = execute_def isLocalNode_def network_of_def node_addr_def address_toString_def max_attempts_def
  attempts_unfold sample_client_def sample_net_def new_exec_def new_network_def sample_node_def new_node_def
  execute_defs jslist_defs array_get_def Let_def

lemma sample_run:
  "calls (snd (query_execute sample_client sample_query_client sample_pay sample_query_env sample_query_ops
     None 1000 sample_answers sample_query_exec)) \<noteq> []"
proof -
  have t: "toInt (toTinybars signed_lib sample_big k) = k" if "\<bar>k\<bar> < 2 ^ 31" for k
    using toTinybars_exact[OF sample_big_ok signed_lib_ok(2), of k]
      toInt_small[of "toTinybars signed_lib sample_big k"] that
    by auto
  have f: "to_fixed0 1100 = 1100" by (simp add: to_fixed0_def floor_eq_iff)
  show ?thesis
    by (simp add: query_execute_def query_beforeExecute_def payment_id_def amount_to_pay_def getCost_def
        cost_execute_def execute_after_eq new_cost_query_def cost_beforeExecute_def fill_nodes_def
        makePaymentTransaction_def hbar_negated_exact effective_timeout_def new_query_def
        paying_operator_def query_makeRequestAsync_def exec_ops_def list_clone_def setQueryPayment_def
        setPaymentTransactionId_def sample_pay_def fromTinybars_fixed[OF sample_big_ok, of 1100, simplified]
        query_sample_defs cost_ops_def fromTinybars_def[of _ "AmountLong _"] hbar_new_def hbar_value_def
        valueToLong_def some_valid_node_def f t exec_eval)
qed


lemma sample_price:
  "fst (cost_execute sample_client sample_query_client sample_pay sample_query_env sample_query_ops sample_query_exec) = Inr 1000"
  by (simp add: cost_execute_def execute_after_eq new_cost_query_def cost_beforeExecute_def fill_nodes_def
      makePaymentTransaction_def hbar_negated_exact effective_timeout_def new_query_def list_clone_def
      setPaymentTransactionId_def query_sample_defs cost_ops_def fromTinybars_def hbar_new_def hbar_value_def
      valueToLong_def exec_eval)

theorem asking_is_free_witness:
  "\<exists>h. fst (getCost sample_client sample_query_client sample_pay sample_query_env sample_query_ops
      sample_query_exec) = Inr h \<and> \<bar>10 * h - 11 * 1000\<bar> \<le> 5"
proof -
  let ?X = "cost_execute sample_client sample_query_client sample_pay sample_query_env sample_query_ops sample_query_exec"
  let ?F = "sample_query_ops\<lparr>isPaymentRequired := False\<rparr>"
  let ?T = "query_execute sample_client sample_query_client sample_pay sample_query_env ?F None 1000 sample_answers sample_query_exec"
  have x: "?X = (Inr 1000, snd ?X)" using sample_price by (metis prod.collapse)
  show ?thesis
    using asking_is_free[OF sample_pay_ok _ _ _ x, of ?F None 1000 sample_answers "fst ?T" "snd ?T"]
    by (simp add: sample_query_exec_def new_exec_def new_query_def)
qed

text \<open>
  The limit is compared in 32 bits: a price of 43 hbar passes a limit of one, and a price of ten does
  not pass one of fifty.
\<close>

lemma limit_is_cut:
  "agreed sample_pay \<lparr>qc_operator = None, qc_maxPayment = 100000000, qc_validate = False\<rparr> True
     (new_query :: (string, nat) query) 4300000000"
  "\<not> agreed sample_pay \<lparr>qc_operator = None, qc_maxPayment = 5000000000, qc_validate = False\<rparr> True
     (new_query :: (string, nat) query) 1000000000"
proof -
  have "toTinybars signed_lib sample_big k = word_of_int k" if "\<bar>k\<bar> < 2 ^ 63" for k
  proof -
    have "sint (toTinybars signed_lib sample_big k) = k"
      using toTinybars_exact[OF sample_big_ok signed_lib_ok(2), of k] that by auto
    from arg_cong[OF this, of "word_of_int :: int \<Rightarrow> long"] show ?thesis by simp
  qed
  then show "agreed sample_pay \<lparr>qc_operator = None, qc_maxPayment = 100000000, qc_validate = False\<rparr> True
     (new_query :: (string, nat) query) 4300000000"
    "\<not> agreed sample_pay \<lparr>qc_operator = None, qc_maxPayment = 5000000000, qc_validate = False\<rparr> True
     (new_query :: (string, nat) query) 1000000000"
    by (simp_all add: agreed_def new_query_def sample_pay_def most_payment_def toInt_def)
qed

end
