(* ===== verification/TransferBody.thy ===== *)
theory TransferBody
  imports TransferLaws "HOL-Library.Multiset"
begin

text \<open>
  The body of a transfer: the entries grouped by token, and the transaction that is read back from it.
\<close>

section \<open>Groups\<close>

definition of_token :: "token_id \<Rightarrow> token_id \<Rightarrow> bool" where
  "of_token t u \<longleftrightarrow> sid u = sid t"

definition entries_of :: "token_id \<Rightarrow> token_group list \<Rightarrow> token_transfer list" where
  "entries_of t gs = concat (map gr_transfers (filter (\<lambda>g. of_token t (gr_token g)) gs))"

definition nfts_of :: "token_id \<Rightarrow> token_group list \<Rightarrow> nft_transfer list" where
  "nfts_of t gs = concat (map gr_nfts (filter (\<lambda>g. of_token t (gr_token g)) gs))"

definition group_ok :: "token_group \<Rightarrow> bool" where
  "group_ok g \<longleftrightarrow> list_all (\<lambda>x. of_token (gr_token g) (tt_token x)) (gr_transfers g) \<and>
     list_all (\<lambda>y. of_token (gr_token g) (nt_token y)) (gr_nfts g) \<and>
     gr_token g \<in> set (map tt_token (gr_transfers g)) \<union> set (map nt_token (gr_nfts g))"

lemma same_token_iff: "same_token t g \<longleftrightarrow> of_token t (gr_token g)"
  by (simp add: same_token_def of_token_def token_class.cmp_zero)

lemma find_group_step:
  "find_group t (gs @ [g]) = (if same_token t g then Some (length gs) else find_group t gs)"
  by (simp add: find_group_def enumerate_append_eq)

text \<open>The group that is found, and no group of the token behind it.\<close>

definition is_last_of :: "token_id \<Rightarrow> nat \<Rightarrow> token_group list \<Rightarrow> bool" where
  "is_last_of t i gs \<longleftrightarrow> i < length gs \<and> of_token t (gr_token (gs ! i)) \<and>
     list_all (\<lambda>g. \<not> of_token t (gr_token g)) (drop (Suc i) gs)"

lemma find_group_last: "find_group t gs = Some i \<Longrightarrow> is_last_of t i gs"
proof (induction gs arbitrary: i rule: rev_induct)
  case Nil
  then show ?case by (simp add: find_group_def)
next
  case (snoc g gs)
  then show ?case
    by (auto simp: find_group_step is_last_of_def same_token_iff nth_append split: if_splits)
qed

lemma find_group_none: "find_group t gs = None \<longleftrightarrow> list_all (\<lambda>g. \<not> of_token t (gr_token g)) gs"
  by (induction gs rule: rev_induct) (auto simp: find_group_def enumerate_append_eq same_token_iff)

lemma last_group_last: "last_group t gs = Some i \<Longrightarrow> is_last_of t i gs"
  by (auto simp: last_group_def is_last_of_def same_token_iff last_conv_nth split: if_splits)

lemma last_split:
  assumes "is_last_of t i gs"
  obtains as g bs where "gs = as @ g # bs" "i = length as" "of_token t (gr_token g)"
    "list_all (\<lambda>g. \<not> of_token t (gr_token g)) bs"
proof
  show "gs = take i gs @ gs ! i # drop (Suc i) gs" using assms by (simp add: is_last_of_def id_take_nth_drop)
qed (use assms in \<open>auto simp: is_last_of_def\<close>)

lemma none_filter: "list_all (\<lambda>g. \<not> of_token t (gr_token g)) bs \<Longrightarrow> filter (\<lambda>g. of_token t (gr_token g)) bs = []"
  by (induction bs) auto

lemma of_token_trans: "of_token t u \<Longrightarrow> of_token v u \<longleftrightarrow> of_token v t"
  by (simp add: of_token_def)

lemma push_spec:
  assumes "is_last_of (tt_token x) i gs"
  shows "entries_of t (push_transfer x i gs) = entries_of t gs @ (if of_token t (tt_token x) then [x] else [])"
    and "nfts_of t (push_transfer x i gs) = nfts_of t gs"
    and "list_all group_ok gs \<Longrightarrow> list_all group_ok (push_transfer x i gs)"
    and "map gr_token (push_transfer x i gs) = map gr_token gs"
proof -
  obtain as g bs where gs: "gs = as @ g # bs" "i = length as" "of_token (tt_token x) (gr_token g)"
      "list_all (\<lambda>g. \<not> of_token (tt_token x) (gr_token g)) bs"
    using last_split[OF assms] .
  have p: "push_transfer x i gs = as @ g\<lparr>gr_transfers := gr_transfers g @ [x]\<rparr> # bs"
    by (simp add: push_transfer_def gs)
  have sym: "of_token t (gr_token h) \<longleftrightarrow> of_token t (tt_token x)" if "of_token (tt_token x) (gr_token h)" for h
    using that by (simp add: of_token_def)
  have tail: "filter (\<lambda>g. of_token t (gr_token g)) bs = []" if "of_token t (tt_token x)"
    using gs(4) that by (intro none_filter) (auto simp: list_all_iff of_token_def)
  show "entries_of t (push_transfer x i gs) = entries_of t gs @ (if of_token t (tt_token x) then [x] else [])"
    using sym[OF gs(3)] tail by (auto simp: entries_of_def p) (auto simp: gs(1))
  show "nfts_of t (push_transfer x i gs) = nfts_of t gs"
    by (auto simp: nfts_of_def p) (auto simp: gs(1))
  show "list_all group_ok gs \<Longrightarrow> list_all group_ok (push_transfer x i gs)"
    using gs(3) by (auto simp: p group_ok_def of_token_def) (auto simp: gs(1) group_ok_def of_token_def)
  show "map gr_token (push_transfer x i gs) = map gr_token gs" by (simp add: p) (simp add: gs(1))
qed

lemma push_nft_spec:
  assumes "is_last_of (nt_token y) i gs"
  shows "nfts_of t (push_nft y i gs) = nfts_of t gs @ (if of_token t (nt_token y) then [y] else [])"
    and "entries_of t (push_nft y i gs) = entries_of t gs"
    and "list_all group_ok gs \<Longrightarrow> list_all group_ok (push_nft y i gs)"
    and "map gr_token (push_nft y i gs) = map gr_token gs"
proof -
  obtain as g bs where gs: "gs = as @ g # bs" "i = length as" "of_token (nt_token y) (gr_token g)"
      "list_all (\<lambda>g. \<not> of_token (nt_token y) (gr_token g)) bs"
    using last_split[OF assms] .
  have p: "push_nft y i gs = as @ g\<lparr>gr_nfts := gr_nfts g @ [y]\<rparr> # bs"
    by (simp add: push_nft_def gs)
  have sym: "of_token t (gr_token h) \<longleftrightarrow> of_token t (nt_token y)" if "of_token (nt_token y) (gr_token h)" for h
    using that by (simp add: of_token_def)
  have tail: "filter (\<lambda>g. of_token t (gr_token g)) bs = []" if "of_token t (nt_token y)"
    using gs(4) that by (intro none_filter) (auto simp: list_all_iff of_token_def)
  show "nfts_of t (push_nft y i gs) = nfts_of t gs @ (if of_token t (nt_token y) then [y] else [])"
    using sym[OF gs(3)] tail by (auto simp: nfts_of_def p) (auto simp: gs(1))
  show "entries_of t (push_nft y i gs) = entries_of t gs"
    by (auto simp: entries_of_def p) (auto simp: gs(1))
  show "list_all group_ok gs \<Longrightarrow> list_all group_ok (push_nft y i gs)"
    using gs(3) by (auto simp: p group_ok_def of_token_def) (auto simp: gs(1) group_ok_def of_token_def)
  show "map gr_token (push_nft y i gs) = map gr_token gs" by (simp add: p) (simp add: gs(1))
qed

lemma new_groups [simp]:
  "entries_of t (gs @ [transfer_group x]) = entries_of t gs @ (if of_token t (tt_token x) then [x] else [])"
  "nfts_of t (gs @ [transfer_group x]) = nfts_of t gs"
  "entries_of t (gs @ [nft_group y]) = entries_of t gs"
  "nfts_of t (gs @ [nft_group y]) = nfts_of t gs @ (if of_token t (nt_token y) then [y] else [])"
  "group_ok (transfer_group x)" "group_ok (nft_group y)"
  by (simp_all add: entries_of_def nfts_of_def transfer_group_def nft_group_def group_ok_def of_token_def)

lemma both_group:
  assumes "token_compare (tt_token x) (nt_token y) = 0"
  shows "entries_of t (gs @ [(transfer_group x)\<lparr>gr_nfts := [y]\<rparr>]) = entries_of t gs @ (if of_token t (tt_token x) then [x] else [])"
    "nfts_of t (gs @ [(transfer_group x)\<lparr>gr_nfts := [y]\<rparr>]) = nfts_of t gs @ (if of_token t (nt_token y) then [y] else [])"
    "group_ok ((transfer_group x)\<lparr>gr_nfts := [y]\<rparr>)"
  using assms
  by (simp_all add: entries_of_def nfts_of_def transfer_group_def group_ok_def of_token_def token_class.cmp_zero)

lemma group_transfers_entries:
  "entries_of t (group_transfers xs ys gs) = entries_of t gs @ filter (\<lambda>x. of_token t (tt_token x)) xs \<and>
   nfts_of t (group_transfers xs ys gs) = nfts_of t gs @ filter (\<lambda>y. of_token t (nt_token y)) ys \<and>
   (list_all group_ok gs \<longrightarrow> list_all group_ok (group_transfers xs ys gs))"
proof (induction xs ys gs rule: group_transfers.induct)
  case (1 gs)
  then show ?case by simp
next
  case (2 x xs y ys gs)
  note x_spec = push_spec[OF last_group_last, of x gs] and y_spec = push_nft_spec[OF last_group_last, of y gs]
  show ?case
  proof (cases "last_group (tt_token x) gs")
    case (Some i)
    then show ?thesis using 2(5)[OF Some] x_spec[OF Some] by simp
  next
    case none: None
    show ?thesis
    proof (cases "last_group (nt_token y) gs")
      case (Some i)
      then show ?thesis using none 2(4)[OF none Some] y_spec[OF Some] by simp
    next
      case None
      show ?thesis
        using none None 2(1)[OF none None refl] 2(2)[OF none None refl] 2(3)[OF none None refl] both_group(1,2)[of x y t gs] both_group(3)[of x y]
        by (auto simp: Let_def)
    qed
  qed
next
  case (3 x xs gs)
  then show ?case
    using push_spec[OF find_group_last, of x gs] by (cases "find_group (tt_token x) gs") auto
next
  case (4 y ys gs)
  then show ?case
    using push_nft_spec[OF find_group_last, of y gs] by (cases "find_group (nt_token y) gs") auto
qed

definition tokens_distinct :: "token_group list \<Rightarrow> bool" where
  "tokens_distinct gs \<longleftrightarrow> distinct (map (\<lambda>g. sid (gr_token g)) gs)"

lemma push_tokens:
  "is_last_of (tt_token x) i gs \<Longrightarrow> tokens_distinct (push_transfer x i gs) \<longleftrightarrow> tokens_distinct gs"
  "is_last_of (nt_token y) i gs \<Longrightarrow> tokens_distinct (push_nft y i gs) \<longleftrightarrow> tokens_distinct gs"
  using push_spec(4)[of x i gs] push_nft_spec(4)[of y i gs]
  by (simp_all add: tokens_distinct_def flip: comp_def[of sid gr_token] map_map)

lemma group_one_kind:
  "tokens_distinct gs \<Longrightarrow> tokens_distinct (group_transfers xs [] gs)"
  "tokens_distinct gs \<Longrightarrow> tokens_distinct (group_transfers [] ys gs)"
proof -
  show "tokens_distinct gs \<Longrightarrow> tokens_distinct (group_transfers xs [] gs)"
  proof (induction xs arbitrary: gs)
    case (Cons x xs)
    show ?case
    proof (cases "find_group (tt_token x) gs")
      case None
      then have "tokens_distinct (gs @ [transfer_group x])"
        using Cons.prems by (auto simp: find_group_none list_all_iff tokens_distinct_def of_token_def transfer_group_def)
      then show ?thesis using Cons.IH None by simp
    next
      case (Some i)
      then show ?thesis using Cons push_tokens(1)[OF find_group_last[OF Some]] by simp
    qed
  qed simp
  show "tokens_distinct gs \<Longrightarrow> tokens_distinct (group_transfers [] ys gs)"
  proof (induction ys arbitrary: gs)
    case (Cons y ys)
    show ?case
    proof (cases "find_group (nt_token y) gs")
      case None
      then have "tokens_distinct (gs @ [nft_group y])"
        using Cons.prems by (auto simp: find_group_none list_all_iff tokens_distinct_def of_token_def nft_group_def)
      then show ?thesis using Cons.IH None by simp
    next
      case (Some i)
      then show ?thesis using Cons push_tokens(2)[OF find_group_last[OF Some]] by simp
    qed
  qed simp
qed

section \<open>Sorting\<close>

lemma mset_insert_by [simp]: "mset (insert_by cmp x ys) = add_mset x (mset ys)"
  by (induction ys) auto

lemma mset_sort_by [simp]: "mset (sort_by cmp xs) = mset xs"
  by (induction xs) (simp_all add: sort_by_def)

lemma set_sort_by [simp]: "set (sort_by cmp xs) = set xs"
  by (metis mset_sort_by set_mset_mset)

lemma list_all_sort_by [simp]: "list_all P (sort_by cmp xs) \<longleftrightarrow> list_all P xs"
  by (simp add: list_all_iff)

text \<open>However the entries are grouped, the groups hold every entry once, under its own token and in
  the order of sorting, and no group is empty. A transaction with transfers of one kind only, of
  tokens or of unique tokens, lists no token twice.\<close>

theorem groups_hold_entries:
  "list_all group_ok (group_transfers xs ys []) \<and>
   entries_of t (group_transfers xs ys []) = filter (\<lambda>x. of_token t (tt_token x)) xs \<and>
   nfts_of t (group_transfers xs ys []) = filter (\<lambda>y. of_token t (nt_token y)) ys \<and>
   tokens_distinct (group_transfers xs [] []) \<and> tokens_distinct (group_transfers [] ys [])"
proof -
  have "tokens_distinct []" by (simp add: tokens_distinct_def)
  then show ?thesis
    using group_transfers_entries[of t xs ys "[]"] group_one_kind
    by (simp add: entries_of_def nfts_of_def)
qed

text \<open>With both kinds a token can be listed twice: the unique tokens are sorted by their senders.\<close>

lemma token_listed_twice:
  "map (\<lambda>g. num (sid (gr_token g)))
     (group_transfers [\<lparr>tt_token = tok 9, tt_account = a, tt_decimals = None, tt_amount = 1, tt_approved = False\<rparr>]
        [\<lparr>nt_token = tok 2, nt_sender = a, nt_receiver = b, nt_serial = 1, nt_approved = False\<rparr>,
         \<lparr>nt_token = tok 1, nt_sender = a, nt_receiver = b, nt_serial = 1, nt_approved = False\<rparr>,
         \<lparr>nt_token = tok 2, nt_sender = b, nt_receiver = a, nt_serial = 2, nt_approved = False\<rparr>] []) = [2, 1, 2, 9]"
  if "tok = (\<lambda>n. \<lparr>sid = \<lparr>shard = 0, realm = 0, num = n\<rparr>, sid_checksum = None\<rparr>)"
  using that
  by (simp add: last_group_def find_group_def same_token_def token_compare_def entity_compare_def long_compare_def
      transfer_group_def nft_group_def push_transfer_def push_nft_def)

section \<open>Reading the body back\<close>

lemma mset_all_push:
  "is_last_of (tt_token x) i gs \<Longrightarrow>
     mset (concat (map gr_transfers (push_transfer x i gs))) = add_mset x (mset (concat (map gr_transfers gs)))"
  "is_last_of (tt_token x) i gs \<Longrightarrow> concat (map gr_nfts (push_transfer x i gs)) = concat (map gr_nfts gs)"
  "is_last_of (nt_token y) i gs \<Longrightarrow>
     mset (concat (map gr_nfts (push_nft y i gs))) = add_mset y (mset (concat (map gr_nfts gs)))"
  "is_last_of (nt_token y) i gs \<Longrightarrow> concat (map gr_transfers (push_nft y i gs)) = concat (map gr_transfers gs)"
  by (erule last_split; simp add: push_transfer_def push_nft_def)+

lemma mset_group_transfers:
  "mset (concat (map gr_transfers (group_transfers xs ys gs))) = mset xs + mset (concat (map gr_transfers gs)) \<and>
   mset (concat (map gr_nfts (group_transfers xs ys gs))) = mset ys + mset (concat (map gr_nfts gs))"
proof (induction xs ys gs rule: group_transfers.induct)
  case (1 gs)
  then show ?case by simp
next
  case (2 x xs y ys gs)
  show ?case
  proof (cases "last_group (tt_token x) gs")
    case (Some i)
    then show ?thesis using 2(5)[OF Some] mset_all_push(1,2)[OF last_group_last[OF Some]] by simp
  next
    case none: None
    show ?thesis
    proof (cases "last_group (nt_token y) gs")
      case (Some i)
      then show ?thesis using none 2(4)[OF none Some] mset_all_push(3,4)[OF last_group_last[OF Some]] by simp
    next
      case None
      show ?thesis
        using none None 2(1)[OF none None refl] 2(2)[OF none None refl] 2(3)[OF none None refl]
        by (auto simp: Let_def transfer_group_def nft_group_def)
    qed
  qed
next
  case (3 x xs gs)
  then show ?case
    using mset_all_push(1,2)[OF find_group_last, of x gs]
    by (cases "find_group (tt_token x) gs") (auto simp: transfer_group_def)
next
  case (4 y ys gs)
  then show ?case
    using mset_all_push(3,4)[OF find_group_last, of y gs]
    by (cases "find_group (nt_token y) gs") (auto simp: nft_group_def)
qed

text \<open>The decimals of a group, when no token is both divisible and unique.\<close>

definition decimals_ok :: "(entity_id \<Rightarrow> nat option) \<Rightarrow> entity_id set \<Rightarrow> token_group \<Rightarrow> bool" where
  "decimals_ok f X g \<longleftrightarrow> gr_decimals g = (if sid (gr_token g) \<in> X then f (sid (gr_token g)) else None) \<and>
     list_all (\<lambda>x. sid (tt_token x) \<in> X) (gr_transfers g)"

lemma decimals_push:
  "is_last_of (tt_token x) i gs \<Longrightarrow> sid (tt_token x) \<in> X \<Longrightarrow> list_all (decimals_ok f X) gs \<Longrightarrow>
     list_all (decimals_ok f X) (push_transfer x i gs)"
  "is_last_of (nt_token y) i gs \<Longrightarrow> list_all (decimals_ok f X) gs \<Longrightarrow> list_all (decimals_ok f X) (push_nft y i gs)"
  by (erule last_split; auto simp: push_transfer_def push_nft_def decimals_ok_def)+

lemma decimals_group_transfers:
  assumes "list_all (\<lambda>x. sid (tt_token x) \<in> X \<and> tt_decimals x = f (sid (tt_token x))) xs"
    and "list_all (\<lambda>y. sid (nt_token y) \<notin> X) ys" and "list_all (decimals_ok f X) gs"
  shows "list_all (decimals_ok f X) (group_transfers xs ys gs)"
  using assms
proof (induction xs ys gs rule: group_transfers.induct)
  case (1 gs)
  then show ?case by simp
next
  case (2 x xs y ys gs)
  have g: "decimals_ok f X (transfer_group x)" "decimals_ok f X (nft_group y)"
      "decimals_ok f X ((transfer_group x)\<lparr>gr_nfts := [y]\<rparr>)"
    using 2(6,7) by (simp_all add: decimals_ok_def transfer_group_def nft_group_def)
  show ?case
  proof (cases "last_group (tt_token x) gs")
    case (Some i)
    then show ?thesis using 2(5)[OF Some] 2(6-8) decimals_push(1)[OF last_group_last[OF Some]] by simp
  next
    case none: None
    show ?thesis
    proof (cases "last_group (nt_token y) gs")
      case (Some i)
      then show ?thesis using none 2(4)[OF none Some] 2(6-8) decimals_push(2)[OF last_group_last[OF Some]] by simp
    next
      case None
      show ?thesis
        using none None g 2(6-8) 2(1)[OF none None refl] 2(2)[OF none None refl] 2(3)[OF none None refl]
        by (auto simp: Let_def)
    qed
  qed
next
  case (3 x xs gs)
  have "decimals_ok f X (transfer_group x)" using 3(3) by (simp add: decimals_ok_def transfer_group_def)
  then show ?case
    using 3 decimals_push(1)[OF find_group_last, of x gs] by (cases "find_group (tt_token x) gs") auto
next
  case (4 y ys gs)
  have "decimals_ok f X (nft_group y)" using 4(4) by (simp add: decimals_ok_def nft_group_def)
  then show ?case
    using 4 decimals_push(2)[OF find_group_last, of y gs] by (cases "find_group (nt_token y) gs") auto
qed

lemma account_back:
  "transfer_lib_ok E \<Longrightarrow> account_ok a \<Longrightarrow>
   account_fromProtobuf (lb_der E) (lb_key E) (account_toProtobuf (lb_key E) a) = Inr a"
  by (simp add: transfer_lib_ok_def account_proto_back)

lemma read_hbars:
  assumes "transfer_lib_ok E"
    and "list_all (\<lambda>t. account_ok (ht_account t) \<and> - (2 ^ 63) \<le> ht_amount t \<and> ht_amount t < 2 ^ 63) hs"
  shows "transfers_fromProtobuf E (map (transfer_toProtobuf E) hs) = Inr hs"
  using assms(2)
proof (induction hs)
  case (Cons t hs)
  have amount: "sint (toTinybars (lb_long E) (lb_big E) (ht_amount t)) = ht_amount t"
    using tinybars_sint[OF assms(1), of "word_of_int (ht_amount t)"] Cons.prems by (simp add: tinybars_def)
  have "account_fromProtobuf (lb_der E) (lb_key E) (account_toProtobuf (lb_key E) (ht_account t)) = Inr (ht_account t)"
    using account_back[OF assms(1)] Cons.prems by simp
  then show ?case using Cons amount by (simp add: transfer_toProtobuf_def fromTinybars_long)
qed simp

lemma read_entries:
  assumes "transfer_lib_ok E" and "list_all (\<lambda>x. account_ok (tt_account x)) xs"
  shows "token_entries E t d (map (tokenTransfer_toProtobuf E) xs) =
    Inr (map (\<lambda>x. x\<lparr>tt_token := t, tt_decimals := (if d = Some 0 then None else d)\<rparr>) xs)"
  using assms(2)
proof (induction xs)
  case (Cons x xs)
  have "account_fromProtobuf (lb_der E) (lb_key E) (account_toProtobuf (lb_key E) (tt_account x)) = Inr (tt_account x)"
    using account_back[OF assms(1)] Cons.prems by simp
  then show ?case using Cons by (simp add: tokenTransfer_toProtobuf_def from_some_def)
qed simp

lemma read_nfts:
  assumes "transfer_lib_ok E" and "list_all (\<lambda>y. account_ok (nt_sender y) \<and> account_ok (nt_receiver y)) ys"
  shows "nft_entries E t (map (nftTransfer_toProtobuf E) ys) = Inr (map (\<lambda>y. y\<lparr>nt_token := t\<rparr>) ys)"
  using assms(2)
proof (induction ys)
  case (Cons y ys)
  have "account_fromProtobuf (lb_der E) (lb_key E) (account_toProtobuf (lb_key E) a) = Inr a" if "account_ok a" for a
    using account_back[OF assms(1)] that by simp
  then show ?case using Cons by (simp add: nftTransfer_toProtobuf_def from_some_def)
qed simp

lemma token_back:
  "valid_id (sid t) \<Longrightarrow> sid_checksum t = None \<Longrightarrow> token_fromProtobuf (token_toProtobuf t) = Inr t"
  using token_class.of_msg_to_msg[OF decimal_lib_ok, of t] by simp

text \<open>A group that is read back gives its own entries.\<close>

definition readable :: "token_group \<Rightarrow> bool" where
  "readable g \<longleftrightarrow> valid_id (sid (gr_token g)) \<and> sid_checksum (gr_token g) = None \<and> gr_decimals g \<noteq> Some 0 \<and>
     list_all (\<lambda>x. account_ok (tt_account x) \<and> tt_token x = gr_token g \<and> tt_decimals x = gr_decimals g) (gr_transfers g) \<and>
     list_all (\<lambda>y. account_ok (nt_sender y) \<and> account_ok (nt_receiver y) \<and> nt_token y = gr_token g) (gr_nfts g)"

lemma read_groups:
  assumes "transfer_lib_ok E" and "list_all readable gs"
  shows "tokenTransfers_fromProtobuf E (map (group_toProtobuf E) gs) = Inr (concat (map gr_transfers gs))"
    and "nftTransfers_fromProtobuf E (map (group_toProtobuf E) gs) = Inr (concat (map gr_nfts gs))"
proof -
  have g: "token_entries E (gr_token g) (gr_decimals g) (map (tokenTransfer_toProtobuf E) (gr_transfers g)) = Inr (gr_transfers g)"
    "nft_entries E (gr_token g) (map (nftTransfer_toProtobuf E) (gr_nfts g)) = Inr (gr_nfts g)" if "readable g" for g
  proof -
    have xs: "list_all (\<lambda>x. account_ok (tt_account x)) (gr_transfers g)"
      and ys: "list_all (\<lambda>y. account_ok (nt_sender y) \<and> account_ok (nt_receiver y)) (gr_nfts g)"
      using that by (auto simp: readable_def list_all_iff)
    have "map (\<lambda>x. x\<lparr>tt_token := gr_token g, tt_decimals := (if gr_decimals g = Some 0 then None else gr_decimals g)\<rparr>) (gr_transfers g) = gr_transfers g"
      using that by (intro map_idI) (auto simp: readable_def list_all_iff)
    then show "token_entries E (gr_token g) (gr_decimals g) (map (tokenTransfer_toProtobuf E) (gr_transfers g)) = Inr (gr_transfers g)"
      using read_entries[OF assms(1) xs] by simp
    have "map (\<lambda>y. y\<lparr>nt_token := gr_token g\<rparr>) (gr_nfts g) = gr_nfts g"
      using that by (intro map_idI) (auto simp: readable_def list_all_iff)
    then show "nft_entries E (gr_token g) (map (nftTransfer_toProtobuf E) (gr_nfts g)) = Inr (gr_nfts g)"
      using read_nfts[OF assms(1) ys] by simp
  qed
  have t: "token_fromProtobuf (token_toProtobuf (gr_token g)) = Inr (gr_token g)" if "readable g" for g
    using that by (simp add: readable_def token_back)
  have d: "read_decimals (map_option Some d) = d" for d by (cases d) (simp_all add: read_decimals_def)
  show "tokenTransfers_fromProtobuf E (map (group_toProtobuf E) gs) = Inr (concat (map gr_transfers gs))"
    using assms(2) by (induction gs) (simp_all add: group_toProtobuf_def t g d)
  show "nftTransfers_fromProtobuf E (map (group_toProtobuf E) gs) = Inr (concat (map gr_nfts gs))"
    using assms(2) by (induction gs) (simp_all add: group_toProtobuf_def t g)
qed

definition body_ok :: "transfers \<Rightarrow> bool" where
  "body_ok s \<longleftrightarrow> transfers_ok s \<and>
     list_all (\<lambda>t. - (2 ^ 63) \<le> ht_amount t \<and> ht_amount t < 2 ^ 63) (tr_hbars s) \<and>
     list_all (\<lambda>x. sid_checksum (tt_token x) = None \<and> tt_decimals x \<noteq> Some 0) (tr_tokens s) \<and>
     list_all (\<lambda>y. sid_checksum (nt_token y) = None \<and>
        sid (nt_token y) \<notin> set (map (\<lambda>x. sid (tt_token x)) (tr_tokens s))) (tr_nfts s) \<and>
     list_all (\<lambda>x. list_all (\<lambda>z. sid (tt_token x) = sid (tt_token z) \<longrightarrow> tt_decimals x = tt_decimals z) (tr_tokens s))
       (tr_tokens s)"

lemma group_member:
  "g \<in> set gs \<Longrightarrow> x \<in> set (gr_transfers g) \<Longrightarrow> x \<in> set (concat (map gr_transfers gs))"
  "g \<in> set gs \<Longrightarrow> y \<in> set (gr_nfts g) \<Longrightarrow> y \<in> set (concat (map gr_nfts gs))"
  by auto

lemma simple_id_eqI: "sid a = sid b \<Longrightarrow> sid_checksum a = sid_checksum b \<Longrightarrow> (a :: simple_id) = b"
  by (auto intro: simple_id.equality)

lemma body_okD:
  assumes "body_ok s"
  shows "x \<in> set (tr_tokens s) \<Longrightarrow> account_ok (tt_account x) \<and> valid_id (sid (tt_token x)) \<and>
      sid_checksum (tt_token x) = None \<and> tt_decimals x \<noteq> Some 0"
    and "y \<in> set (tr_nfts s) \<Longrightarrow> account_ok (nt_sender y) \<and> account_ok (nt_receiver y) \<and> valid_id (sid (nt_token y)) \<and>
      sid_checksum (nt_token y) = None \<and> sid (nt_token y) \<notin> set (map (\<lambda>x. sid (tt_token x)) (tr_tokens s))"
    and "x \<in> set (tr_tokens s) \<Longrightarrow> z \<in> set (tr_tokens s) \<Longrightarrow> sid (tt_token x) = sid (tt_token z) \<Longrightarrow>
      tt_decimals x = tt_decimals z"
    and "list_all (\<lambda>t. account_ok (ht_account t) \<and> - (2 ^ 63) \<le> ht_amount t \<and> ht_amount t < 2 ^ 63) (tr_hbars s)"
  using assms unfolding body_ok_def transfers_ok_def list_all_iff by blast+

lemma groups_readable:
  assumes "body_ok s" and "gs = group_transfers (sort_by token_order (tr_tokens s)) (sort_by nft_order (tr_nfts s)) []"
  shows "list_all readable gs"
proof -
  let ?X = "set (map (\<lambda>x. sid (tt_token x)) (tr_tokens s))"
  let ?xs = "sort_by token_order (tr_tokens s)" and ?ys = "sort_by nft_order (tr_nfts s)"
  define f where "f i = (case filter (\<lambda>x. sid (tt_token x) = i) (tr_tokens s) of x # _ \<Rightarrow> tt_decimals x | [] \<Rightarrow> None)" for i
  have same: "tt_decimals x = tt_decimals z" if "x \<in> set (tr_tokens s)" "z \<in> set (tr_tokens s)" "sid (tt_token x) = sid (tt_token z)" for x z
    by (rule body_okD(3)[OF assms(1) that])
  have f: "tt_decimals x = f (sid (tt_token x))" if x: "x \<in> set (tr_tokens s)" for x
  proof -
    obtain z zs where z: "filter (\<lambda>z. sid (tt_token z) = sid (tt_token x)) (tr_tokens s) = z # zs"
      using x by (cases "filter (\<lambda>z. sid (tt_token z) = sid (tt_token x)) (tr_tokens s)") (auto simp: filter_empty_conv)
    then have "z \<in> set (tr_tokens s)" "sid (tt_token z) = sid (tt_token x)"
      by (metis (mono_tags, lifting) list.set_intros(1) mem_Collect_eq set_filter)+
    then show ?thesis using same[of x z] x z by (simp add: f_def)
  qed
  have dec: "list_all (decimals_ok f ?X) gs"
    unfolding assms(2) using f body_okD(2)[OF assms(1)] by (intro decimals_group_transfers) (auto simp: list_all_iff)
  have ok: "list_all group_ok gs"
    unfolding assms(2) using group_transfers_entries[of undefined ?xs ?ys "[]"] by simp
  have "mset (concat (map gr_transfers gs)) = mset (tr_tokens s)" "mset (concat (map gr_nfts gs)) = mset (tr_nfts s)"
    unfolding assms(2) using mset_group_transfers[of ?xs ?ys "[]"] by simp_all
  then have members: "set (concat (map gr_transfers gs)) = set (tr_tokens s)" "set (concat (map gr_nfts gs)) = set (tr_nfts s)"
    by (metis set_mset_mset)+
  have "readable g" if g: "g \<in> set gs" for g
  proof -
    have xs: "x \<in> set (tr_tokens s)" if "x \<in> set (gr_transfers g)" for x using group_member(1)[OF g that] unfolding members(1) .
    have ys: "y \<in> set (tr_nfts s)" if "y \<in> set (gr_nfts g)" for y using group_member(2)[OF g that] unfolding members(2) .
    have tok: "sid (tt_token x) = sid (gr_token g)" if "x \<in> set (gr_transfers g)" for x
      using ok g that by (auto simp: list_all_iff group_ok_def of_token_def)
    have tok': "sid (nt_token y) = sid (gr_token g)" if "y \<in> set (gr_nfts g)" for y
      using ok g that by (auto simp: list_all_iff group_ok_def of_token_def)
    have valid: "valid_id (sid (gr_token g))" "sid_checksum (gr_token g) = None"
    proof -
      have "gr_token g \<in> tt_token ` set (gr_transfers g) \<union> nt_token ` set (gr_nfts g)"
        using ok g by (auto simp: list_all_iff group_ok_def)
      then show "valid_id (sid (gr_token g))" "sid_checksum (gr_token g) = None"
        using body_okD(1)[OF assms(1) xs] body_okD(2)[OF assms(1) ys] by auto
    qed
    have d: "gr_decimals g = (if sid (gr_token g) \<in> ?X then f (sid (gr_token g)) else None)"
      "\<And>x. x \<in> set (gr_transfers g) \<Longrightarrow> sid (tt_token x) \<in> ?X"
      using dec g by (auto simp: list_all_iff decimals_ok_def)
    have "gr_decimals g \<noteq> Some 0"
    proof (cases "sid (gr_token g) \<in> ?X")
      case True
      then obtain x where "x \<in> set (tr_tokens s)" "sid (tt_token x) = sid (gr_token g)" by auto
      then show ?thesis using f[of x] d(1) True body_okD(1)[OF assms(1), of x] by simp
    qed (simp add: d(1))
    moreover have "tt_token x = gr_token g \<and> tt_decimals x = gr_decimals g \<and> account_ok (tt_account x)" if "x \<in> set (gr_transfers g)" for x
    proof -
      have "sid (gr_token g) \<in> ?X" using tok[OF that] d(2)[OF that] by simp
      then have "tt_decimals x = gr_decimals g" using f[OF xs[OF that]] tok[OF that] d(1) by simp
      moreover have "sid_checksum (tt_token x) = None" "account_ok (tt_account x)"
        using body_okD(1)[OF assms(1) xs[OF that]] by simp_all
      ultimately show ?thesis using tok[OF that] valid(2) by (auto intro: simple_id_eqI)
    qed
    moreover have "nt_token y = gr_token g \<and> account_ok (nt_sender y) \<and> account_ok (nt_receiver y)" if "y \<in> set (gr_nfts g)" for y
    proof -
      have "sid_checksum (nt_token y) = None" "account_ok (nt_sender y)" "account_ok (nt_receiver y)"
        using body_okD(2)[OF assms(1) ys[OF that]] by simp_all
      then show ?thesis using tok'[OF that] valid(2) by (auto intro: simple_id_eqI)
    qed
    ultimately show ?thesis using valid by (auto simp: readable_def list_all_iff)
  qed
  then show ?thesis by (simp add: list_all_iff)
qed


end
