(* ===== verification/TransferMaps.thy ===== *)
theory TransferMaps
  imports TransferBody
begin

text \<open>
  Looking transfers up, and the theorems about transfers applied to a concrete transaction.
\<close>

section \<open>Texts of accounts\<close>

lemma account_text_inj:
  assumes "long_lib_ok L" and "account_ok a" and "account_ok b"
  shows "account_toString L a = account_toString L b \<longleftrightarrow> a = b"
proof
  have ne: "last_part c \<noteq> []" if "account_ok c" for c
    using last_part_length[OF that] by (cases "aliasKey c"; cases "evmAddress c") (auto simp: is_plain_def)
  have split: "fromStringSplitter (account_toString L c) =
      Inr \<lparr>part_shard = show_nat (unat (shard (acc_id c))), part_realm = show_nat (unat (realm (acc_id c))),
           numOrHex = last_part c, part_checksum = None\<rparr>" if "account_ok c" for c
    unfolding account_text[OF assms(1) that] by (rule splitter_hex[OF last_part_hex ne[OF that]])
  assume "account_toString L a = account_toString L b"
  then have eq: "shard (acc_id a) = shard (acc_id b)" "realm (acc_id a) = realm (acc_id b)" "last_part a = last_part b"
    using split[OF assms(2)] split[OF assms(3)] by (auto dest: word_unat_eq_iff[THEN iffD2])
  have kind: "same_kind a b"
    using eq(3) last_part_length[OF assms(2)] last_part_length[OF assms(3)] assms(2,3)
    by (cases "aliasKey a"; cases "aliasKey b"; cases "evmAddress a"; cases "evmAddress b")
      (auto simp: same_kind_def is_plain_def account_ok_def)
  have "kind_compare a b = 0"
    using eq(3) kind by (auto simp: kind_compare_def last_part_def same_kind_def text_cmp.cmp_eq word_unat_eq_iff split: option.splits)
  then show "a = b"
    using account_eqI[OF assms(2,3) kind] eq by (simp add: same_realm_def)
qed simp

section \<open>Looking up\<close>

definition find_amount :: "transfers \<Rightarrow> account_id \<Rightarrow> hbar option" where
  "find_amount s = map_of (map (\<lambda>t. (hbar_key t, ht_amount t)) (tr_hbars s))"

definition find_token_amount :: "transfers \<Rightarrow> entity_id \<times> account_id \<Rightarrow> long option" where
  "find_token_amount s = map_of (map (\<lambda>t. (token_key t, tt_amount t)) (tr_tokens s))"

definition nft_entry_of :: "nft_transfer \<Rightarrow> nft_entry" where
  "nft_entry_of t = \<lparr>ne_sender = nt_sender t, ne_recipient = nt_receiver t, ne_serial = nt_serial t, ne_approved = nt_approved t\<rparr>"

lemma map_of_snoc:
  "distinct (map key (ts @ [t])) \<Longrightarrow>
   map_of (map (\<lambda>t. (key t, val t)) (ts @ [t])) k = (if k = key t then Some (val t) else map_of (map (\<lambda>t. (key t, val t)) ts) k)"
proof -
  assume "distinct (map key (ts @ [t]))"
  then have "map_of (map (\<lambda>t. (key t, val t)) ts) (key t) = None"
    by (auto simp: map_of_eq_None_iff)
  then show ?thesis by (auto simp: map_add_def split: option.split)
qed

lemma hbar_lookup:
  assumes "long_lib_ok L" and "account_ok a" and "list_all (\<lambda>t. account_ok (ht_account t)) ts" and "distinct (map hbar_key ts)"
  shows "om_get (account_toString L) (Inl a) (foldl (\<lambda>m t. om_put (account_toString L) (ht_account t) (ht_amount t) m) om_new ts)
    = map_of (map (\<lambda>t. (hbar_key t, ht_amount t)) ts) a"
  using assms(3,4)
proof (induction ts rule: rev_induct)
  case (snoc t ts)
  have "account_toString L a = account_toString L (ht_account t) \<longleftrightarrow> a = hbar_key t"
    using account_text_inj[OF assms(1,2)] snoc.prems(1) by (simp add: hbar_key_def)
  then show ?case
    using snoc map_of_snoc[OF snoc.prems(2), of ht_amount a] by (simp add: om_get_put)
qed simp

definition nested :: "long_lib \<Rightarrow> token_id \<Rightarrow> account_id \<Rightarrow> token_transfer_map \<Rightarrow> long option" where
  "nested L t a m =
     (case om_get (token_toString L) (Inl t) m of None \<Rightarrow> None | Some x \<Rightarrow> om_get (account_toString L) (Inl a) x)"

lemma nested_set:
  "nested L t a (ttm_set L t' a' n m) =
     (if token_toString L t = token_toString L t' \<and> account_toString L a = account_toString L a' then Some n else nested L t a m)"
  by (auto simp: nested_def ttm_get om_get_put split: option.splits)

lemma token_lookup:
  assumes "long_lib_ok L" and "account_ok a" and "valid_id (sid t)"
    and "list_all (\<lambda>x. account_ok (tt_account x) \<and> valid_id (sid (tt_token x))) ts" and "distinct (map token_key ts)"
  shows "nested L t a (foldl (\<lambda>m x. ttm_set L (tt_token x) (tt_account x) (tt_amount x) m) om_new ts)
    = map_of (map (\<lambda>x. (token_key x, tt_amount x)) ts) (sid t, a)"
  using assms(4,5)
proof (induction ts rule: rev_induct)
  case Nil
  then show ?case by (simp add: nested_def)
next
  case (snoc x ts)
  have "token_toString L t = token_toString L (tt_token x) \<and> account_toString L a = account_toString L (tt_account x)
      \<longleftrightarrow> (sid t, a) = token_key x"
    using account_text_inj[OF assms(1,2)] token_class.print_inj[OF assms(1,3)] snoc.prems(1) by (simp add: token_key_def)
  then show ?case
    using snoc map_of_snoc[OF snoc.prems(2), of tt_amount "(sid t, a)"] by (simp add: nested_set)
qed

lemma nft_lookup:
  assumes "long_lib_ok L" and "valid_id (sid t)" and "list_all (\<lambda>y. valid_id (sid (nt_token y))) ts"
  shows "om_get (token_toString L) (Inl t) (foldl (\<lambda>m y. tnm_set L (nt_token y) (nft_entry_of y) m) om_new ts)
    = (case filter (\<lambda>y. of_token t (nt_token y)) ts of [] \<Rightarrow> None | ys \<Rightarrow> Some (map nft_entry_of ys))"
  using assms(3)
proof (induction ts rule: rev_induct)
  case (snoc y ts)
  have "token_toString L t = token_toString L (nt_token y) \<longleftrightarrow> of_token t (nt_token y)"
    using token_class.print_inj[OF assms(1,2)] snoc.prems by (auto simp: of_token_def)
  then show ?case using snoc by (auto simp: tnm_get split: list.split)
qed simp

text \<open>The maps of a transaction answer by value: an account that is equal to one of the entries finds
  its amount, a token and an account the amount of the token, and a token its unique tokens in the
  order they were added; what was not added is not found.\<close>

theorem maps_hold_transfers:
  assumes "long_lib_ok L" and "transfers_ok s" and "account_ok a" and "valid_id (sid t)"
  shows "om_get (account_toString L) (Inl a) (hbarTransfers L s) = find_amount s a \<and>
    nested L t a (tokenTransfers L s) = find_token_amount s (sid t, a) \<and>
    om_get (token_toString L) (Inl t) (nftTransfers L s) =
      (case filter (\<lambda>y. of_token t (nt_token y)) (tr_nfts s) of [] \<Rightarrow> None | ys \<Rightarrow> Some (map nft_entry_of ys))"
proof -
  have ok: "list_all (\<lambda>t. account_ok (ht_account t)) (tr_hbars s)" "distinct (map hbar_key (tr_hbars s))"
    "list_all (\<lambda>x. account_ok (tt_account x) \<and> valid_id (sid (tt_token x))) (tr_tokens s)" "distinct (map token_key (tr_tokens s))"
    "list_all (\<lambda>y. valid_id (sid (nt_token y))) (tr_nfts s)"
    using assms(2) by (auto simp: transfers_ok_def list_all_iff)
  show ?thesis
    using hbar_lookup[OF assms(1,3) ok(1,2)] token_lookup[OF assms(1,3,4) ok(3,4)] nft_lookup[OF assms(1,4) ok(5)]
    by (simp add: hbarTransfers_def tokenTransfers_def nftTransfers_def find_amount_def find_token_amount_def nft_entry_of_def)
qed

text \<open>Iterating over the decimals visits a token once per entry when every entry has a token object of its own.\<close>

lemma decimals_visit_entries:
  assumes "inj ref"
  shows "om_keys (tokenIdDecimals L ref s) = map tt_token (tr_tokens s)"
proof -
  have "map fst (om_object (foldl (\<lambda>m (i, t). om_set (token_toString L) (ref i, tt_token t) (tt_decimals t) m) om_new (enumerate 0 ts)))
      = map (\<lambda>(i, t). (ref i, tt_token t)) (enumerate 0 ts)" for ts
  proof (induction ts rule: rev_induct)
    case Nil
    then show ?case by (simp add: om_new_def)
  next
    case (snoc t ts)
    let ?m = "foldl (\<lambda>m (i, t). om_set (token_toString L) (ref i, tt_token t) (tt_decimals t) m) om_new (enumerate 0 ts)"
    let ?k = "(ref (length ts), tt_token t)"
    have "fst ` set (om_object ?m) = set (map fst (om_object ?m))" by (rule list.set_map[symmetric])
    also have "\<dots> = set (map (\<lambda>(i, t). (ref i, tt_token t)) (enumerate 0 ts))" by (simp only: snoc.IH)
    finally have "?k \<notin> fst ` set (om_object ?m)"
      using assms by (auto simp: in_set_enumerate_eq dest: injD)
    then have "map fst (map_set ?k (tt_decimals t) (om_object ?m)) = map fst (om_object ?m) @ [?k]"
      by (simp only: map_set_keys if_False)
    then show ?case
      unfolding snoc.IH by (simp add: enumerate_append_eq om_set_def)
  qed
  from arg_cong[OF this, of "map snd"] have "om_keys (tokenIdDecimals L ref s) = map (tt_token \<circ> snd) (enumerate 0 (tr_tokens s))"
    by (simp add: om_keys_def tokenIdDecimals_def comp_def case_prod_beta)
  also have "\<dots> = map tt_token (tr_tokens s)" unfolding map_map[symmetric] by simp
  finally show ?thesis .
qed

section \<open>A concrete transaction\<close>

definition sample_transfer_lib :: "byte list transfer_lib" where
  "sample_transfer_lib = \<lparr>lb_long = signed_lib, lb_big = sample_big, lb_der = sample_der, lb_key = sample_codec\<rparr>"

lemma sample_transfer_lib_ok: "transfer_lib_ok sample_transfer_lib"
  by (simp add: transfer_lib_ok_def sample_transfer_lib_def signed_lib_ok sample_big_ok sample_der_ok sample_codec_ok)

definition sample_token :: "nat \<Rightarrow> token_id" where
  "sample_token n = \<lparr>sid = \<lparr>shard = 0, realm = 0, num = of_nat n\<rparr>, sid_checksum = None\<rparr>"

lemma no_transfers_ok: "transfers_ok no_transfers" "\<not> isFrozen (tr_tx no_transfers)"
  by (simp_all add: transfers_ok_def no_transfers_def isFrozen_def new_tx_def new_list_def list_length_def)

lemma sample_token_valid: "valid_id (sid (sample_token 7))"
  by (simp add: sample_token_def valid_id_def nonneg_def)


definition sample_transfers :: transfers where
  "sample_transfers =
     no_transfers\<lparr>tr_hbars := [\<lparr>ht_account = sample_account, ht_amount = 5, ht_approved = False\<rparr>],
       tr_tokens := [\<lparr>tt_token = sample_token 7, tt_account = sample_account, tt_decimals = Some 2, tt_amount = 3, tt_approved = True\<rparr>],
       tr_nfts := [\<lparr>nt_token = sample_token 8, nt_sender = sample_account, nt_receiver = sample_account, nt_serial = 1, nt_approved = False\<rparr>]\<rparr>"

lemma sample_transfers_ok: "transfers_ok sample_transfers" "body_ok sample_transfers"
  by (simp_all add: transfers_ok_def body_ok_def sample_transfers_def no_transfers_def sample_account_ok sample_token_def
      valid_id_def nonneg_def)


lemma maps_hold_transfers_witness:
  "om_get (account_toString signed_lib) (Inl sample_account) (hbarTransfers signed_lib sample_transfers) = Some 5"
  using maps_hold_transfers[OF signed_lib_ok(1) sample_transfers_ok(1) sample_account_ok sample_token_valid]
  by (simp add: find_amount_def sample_transfers_def hbar_key_def)

end
