(* ===== verification/ReceiptSample.thy ===== *)
theory ReceiptSample
  imports ReceiptLaws QuerySample TransferMaps
begin

text \<open>
  A concrete codec of receipts and the theorems on receipts applied to a transaction whose receipt is
  unknown the first time it is asked for.
\<close>

section \<open>A codec\<close>

definition id_message_c :: "id_message codec" where
  "id_message_c = iso_c (\<lambda>m. (im_shard m, im_realm m, im_num m))
     (\<lambda>(s, r, n). \<lparr>im_shard = s, im_realm = r, im_num = n\<rparr>)
     (pair_c (opt_c long_c) (pair_c (opt_c long_c) (opt_c long_c)))"

definition contract_message_c :: "contract_message codec" where
  "contract_message_c = iso_c (\<lambda>m. (im_shard m, im_realm m, im_num m, im_evm m))
     (\<lambda>(s, r, n, e). \<lparr>im_shard = s, im_realm = r, im_num = n, im_evm = e\<rparr>)
     (pair_c (opt_c long_c) (pair_c (opt_c long_c) (pair_c (opt_c long_c) (opt_c bytes_c))))"

definition field_c :: "seconds_field codec" where
  "field_c = iso_c (\<lambda>f. case f of SecondsLong n \<Rightarrow> (Some n, None) | SecondsNumber i \<Rightarrow> (None, Some i) | NoSeconds \<Rightarrow> (None, None))
     (\<lambda>(n, i). case n of Some k \<Rightarrow> SecondsLong k | None \<Rightarrow> (case i of Some j \<Rightarrow> SecondsNumber j | None \<Rightarrow> NoSeconds))
     (pair_c (opt_c long_c) (opt_c int_c))"

definition rate_c :: "rate_message codec" where
  "rate_c = iso_c (\<lambda>m. (ra_hbarEquiv m, ra_centEquiv m, ra_expiration m))
     (\<lambda>(h, c, e). \<lparr>ra_hbarEquiv = h, ra_centEquiv = c, ra_expiration = e\<rparr>)
     (pair_c int_c (pair_c int_c (opt_c field_c)))"

definition rates_c :: "rates_message codec" where
  "rates_c = iso_c (\<lambda>m. (currentRate m, nextRate m)) (\<lambda>(c, n). \<lparr>currentRate = c, nextRate = n\<rparr>)
     (pair_c (opt_c rate_c) (opt_c rate_c))"

definition receipt_message_c :: "receipt_message codec" where
  "receipt_message_c = iso_c
     (\<lambda>m. ((rm_status m, rm_account m, rm_file m, rm_contract m, rm_topic m, rm_token m, rm_schedule m),
           (rm_rates m, rm_sequence m, rm_hash m, rm_supply m, rm_scheduledId m, rm_serials m, rm_node m)))
     (\<lambda>((s, a, f, c, t, k, d), (r, q, h, u, i, l, n)).
        \<lparr>rm_status = s, rm_account = a, rm_file = f, rm_contract = c, rm_topic = t, rm_token = k, rm_schedule = d,
         rm_rates = r, rm_sequence = q, rm_hash = h, rm_supply = u, rm_scheduledId = i, rm_serials = l, rm_node = n\<rparr>)
     (pair_c
       (pair_c (opt_c nat_c) (pair_c (opt_c account_message_c) (pair_c (opt_c id_message_c)
         (pair_c (opt_c contract_message_c) (pair_c (opt_c id_message_c) (pair_c (opt_c id_message_c)
         (opt_c id_message_c)))))))
       (pair_c (opt_c rates_c) (pair_c (opt_c long_c) (pair_c (opt_c bytes_c) (pair_c (opt_c long_c)
         (pair_c (opt_c tx_id_message_c) (pair_c (opt_c (list_c long_c)) (opt_c long_c))))))))"

definition receipt_body_c :: "receipt_body codec" where
  "receipt_body_c = iso_c (\<lambda>b. (rb_receipt b, rb_duplicates b, rb_children b))
     (\<lambda>(r, d, c). \<lparr>rb_receipt = r, rb_duplicates = d, rb_children = c\<rparr>)
     (pair_c (opt_c receipt_message_c) (pair_c (opt_c (list_c receipt_message_c)) (opt_c (list_c receipt_message_c))))"

lemma field_c_ok [codecs]: "codec_ok field_c"
  unfolding field_c_def by (intro iso_c_ok codecs) (simp split: seconds_field.split)

lemma message_codecs [codecs]:
  "codec_ok id_message_c" "codec_ok contract_message_c"
  "codec_ok rate_c" "codec_ok rates_c" "codec_ok receipt_message_c" "codec_ok receipt_body_c"
proof -
  show a: "codec_ok id_message_c" "codec_ok contract_message_c"
    unfolding id_message_c_def contract_message_c_def by (intro iso_c_ok codecs; simp)+
  show c: "codec_ok rate_c" unfolding rate_c_def by (intro iso_c_ok codecs) simp
  show d: "codec_ok rates_c" unfolding rates_c_def by (intro iso_c_ok codecs c) simp
  show e: "codec_ok receipt_message_c" unfolding receipt_message_c_def by (intro iso_c_ok codecs a d) simp
  show "codec_ok receipt_body_c" unfolding receipt_body_c_def by (intro iso_c_ok codecs e) simp
qed

definition sample_receipt_codec :: receipt_codec where
  "sample_receipt_codec =
     \<lparr>encReceipt = (\<lambda>b. unary (fst receipt_body_c b)),
      decReceipt = (\<lambda>bs. Inr (fst (snd receipt_body_c (from_unary 0 bs))))\<rparr>"

lemma sample_receipt_codec_ok: "receipt_codec_ok sample_receipt_codec"
proof -
  have "snd receipt_body_c (fst receipt_body_c b @ []) = (b, [])" for b
    using message_codecs(6) unfolding codec_ok_def by blast
  then show ?thesis by (simp add: receipt_codec_ok_def sample_receipt_codec_def)
qed

section \<open>A receipt\<close>

definition sample_receipt :: receipt where
  "sample_receipt = \<lparr>rc_status = 22, rc_account = None, rc_file = None, rc_contract = None, rc_topic = None,
     rc_token = None, rc_schedule = None,
     rc_rate = Some \<lparr>er_hbars = 1, er_cents = 12, er_expiration = 1700000000000\<rparr>,
     rc_nextRate = Some \<lparr>er_hbars = 1, er_cents = 15, er_expiration = 1700003600000\<rparr>,
     rc_sequence = None, rc_hash = None, rc_supply = Some 5, rc_scheduledId = None, rc_serials = [1, 2], rc_node = None\<rparr>"

lemma sample_receipt_ok: "receipt_ok sample_receipt" "receipt_ok (sample_receipt\<lparr>rc_rate := None\<rparr>)"
proof -
  have "\<exists>s. 0 \<le> s \<and> s < 2 ^ 31 \<and> (1700000000000 :: int) = s * 1000" by (rule exI[of _ 1700000000]) simp
  moreover have "\<exists>s. 0 \<le> s \<and> s < 2 ^ 31 \<and> (1700003600000 :: int) = s * 1000" by (rule exI[of _ 1700003600]) simp
  moreover have "22 \<in> set (map fst status_cases)"
    using known_codes[of 22] by (simp add: status_fromCode_eq split: if_splits)
  ultimately show "receipt_ok sample_receipt" "receipt_ok (sample_receipt\<lparr>rc_rate := None\<rparr>)"
    by (simp_all add: receipt_ok_def sample_receipt_def rate_ok_def nonneg_def)
qed


section \<open>A transaction whose receipt is unknown at first\<close>

definition sample_node_account :: account_id where
  "sample_node_account = \<lparr>acc_id = \<lparr>shard = 0, realm = 0, num = 3\<rparr>, aliasKey = None, evmAddress = None, acc_checksum = None\<rparr>"

definition sample_response :: response where
  "sample_response = \<lparr>r_node = Some sample_node_account, r_hash = [1], r_tid = sample_tx_id\<rparr>"

definition account_client :: "(account_id, string) client" where
  "account_client = \<lparr>key_of = account_toString decimal_lib, openChannel = (\<lambda>a _. a), client_maxAttempts = None,
     client_minBackoff = 250, client_maxBackoff = 8000, client_requestTimeout = Some 120000\<rparr>"

definition account_net :: "(account_id, string) net" where
  "account_net = (new_network (\<lambda>_. new_node \<lparr>host = ''10.0.0.1'', port = Some 50211\<rparr> sample_node_account 0 0) 0)
     \<lparr>next_id := 1, nodes := [0], healthyNodes := [0],
      network := [(account_toString decimal_lib sample_node_account, [0])]\<rparr>"

definition receipt_client :: "account_id query_client" where
  "receipt_client = \<lparr>qc_operator = None, qc_maxPayment = 100000000, qc_validate = False\<rparr>"

definition receipt_pay :: "(account_id, tx_id) pay_lib" where
  "receipt_pay = \<lparr>pay_proto = chunk_lib (list_c (pair_c account_c long_c)), pay_long = signed_lib, pay_big = sample_big\<rparr>"

definition unknown_answer :: receipt_response where
  "unknown_answer = \<lparr>rr_header = \<lparr>rh_code = Some 18, rh_cost = AmountLong 0\<rparr>,
     rr_body = \<lparr>rb_receipt = None, rb_duplicates = None, rb_children = None\<rparr>\<rparr>"

definition plain_message :: receipt_message where
  "plain_message = \<lparr>rm_status = Some 22, rm_account = None, rm_file = None, rm_contract = None, rm_topic = None,
     rm_token = None, rm_schedule = None, rm_rates = None, rm_sequence = None, rm_hash = None, rm_supply = None,
     rm_scheduledId = None, rm_serials = None, rm_node = None\<rparr>"

definition final_answer :: receipt_response where
  "final_answer = \<lparr>rr_header = \<lparr>rh_code = Some 0, rh_cost = AmountLong 0\<rparr>,
     rr_body = \<lparr>rb_receipt = Some plain_message, rb_duplicates = None, rb_children = None\<rparr>\<rparr>"

definition receipt_env :: "nat \<Rightarrow> receipt_response attempt_env" where
  "receipt_env i = \<lparr>clk_start = 1000, clk_health = 1000, clk_done = 1000, rand = (\<lambda>_. 0), latency = 5,
     answer = Inr (if i = 1 then unknown_answer else final_answer)\<rparr>"

definition receipt_query_env :: "(account_id, tx_id, receipt_response) query_env" where
  "receipt_query_env = \<lparr>newId = (\<lambda>k a. sample_tx_id), zeroAccount = sample_node_account,
     drawn = (\<lambda>_. ((\<lambda>_. 0), 1000)), cost_start = 1000, cost_env = receipt_env\<rparr>"

abbreviation sample_getReceipt where
  "sample_getReceipt \<equiv> getReceipt account_client receipt_client receipt_pay receipt_query_env sample_transfer_lib
     (\<lambda>_. Inr ()) 1000 receipt_env account_net sample_response"

lemma plain_receipt:
  "\<exists>t. receipt_fromProtobuf sample_transfer_lib (rr_body final_answer) = Inr t"
  by (simp add: receipt_fromProtobuf_def final_answer_def some_list_def receipt_of_message_def plain_message_def
      code_or_ok_def known_codes)

lemma sample_answers_undecided: "undecided unknown_answer" "decided_well final_answer"
  by (simp_all add: undecided_def decided_well_def unknown_answer_def final_answer_def code_or_ok_def receipt_code_def
      plain_message_def)

lemma sample_reach:
  "all_reachable (key_of account_client) 0 (x_nodes (response_exec account_net sample_response)) account_net"
  by (simp add: all_reachable_def response_exec_def new_exec_def sample_response_def account_client_def
      account_net_def new_network_def new_node_def ready_def new_list_def setLocked_def cursor_ok_def)

lemma sample_waiting:
  "r_node sample_response = Some sample_node_account" "\<not> qc_validate receipt_client"
  "rnd_ok (rand (receipt_env i))"
  "in_time (client_requestTimeout account_client) 1000 (clk_start (receipt_env i)) \<and> 0 \<le> clk_health (receipt_env i)"
  "1 \<le> i \<Longrightarrow> i \<le> 1 \<Longrightarrow> \<exists>resp. answer (receipt_env i) = Inr resp \<and> undecided resp"
  "answer (receipt_env (Suc 1)) = Inr final_answer" "Suc 1 \<le> 10" "client_maxAttempts account_client = None"
  using sample_answers_undecided(1)
  by (simp_all add: sample_response_def receipt_client_def rnd_ok_def receipt_env_def in_time_def account_client_def)

theorem receipt_waited_for_witness:
  "\<exists>t T. sample_getReceipt = (Inr t, T) \<and> length (calls T) = 2"
proof -
  obtain t where t: "receipt_fromProtobuf sample_transfer_lib (rr_body final_answer) = Inr t" using plain_receipt by blast
  have "\<exists>T. sample_getReceipt = (Inr t, T) \<and> length (calls T) = Suc 1"
    by (rule receipt_waited_for[where up = 0 and k = 1 and resp = final_answer])
      (use t sample_waiting sample_reach sample_answers_undecided(2) in blast)+
  then show ?thesis by (auto simp: numeral_2_eq_2)
qed

lemma sample_receipt_run: "\<exists>t. fst sample_getReceipt = Inr t"
proof -
  obtain t where t: "receipt_fromProtobuf sample_transfer_lib (rr_body final_answer) = Inr t" using plain_receipt by blast
  have "\<exists>T. sample_getReceipt = (Inr t, T) \<and> length (calls T) = Suc 1"
    by (rule receipt_polled[where up = 0 and k = 1 and resp = final_answer])
      (use t sample_waiting sample_reach sample_answers_undecided(2) in blast)+
  then show ?thesis by auto
qed


end
