(* ===== verification/LegacyWords.thy ===== *)
theory LegacyWords
  imports Words "HOL-Library.Multiset"
begin

text \<open>
  The word list of the legacy phrases, \<open>packages/cryptography/src/words/legacy.js\<close>: 4096 words, in pieces
  of 128. They are in alphabetical order but for one pair of neighbours, \<open>cajun\<close> and \<open>cajole\<close>.
\<close>

definition legacy_words_01 :: "string list" where
  "legacy_words_01 = [
    ''aback'', ''abbey'', ''abbot'', ''abide'', ''ablaze'', ''able'', ''aboard'', ''abode'',
    ''abort'', ''abound'', ''about'', ''above'', ''abroad'', ''abrupt'', ''absent'', ''absorb'',
    ''absurd'', ''abuse'', ''accent'', ''accept'', ''access'', ''accord'', ''accuse'', ''ace'',
    ''ache'', ''aching'', ''acid'', ''acidic'', ''acorn'', ''acre'', ''across'', ''act'',
    ''action'', ''active'', ''actor'', ''actual'', ''acute'', ''adam'', ''adapt'', ''add'',
    ''added'', ''addict'', ''adept'', ''adhere'', ''adjust'', ''admire'', ''admit'', ''adobe'',
    ''adopt'', ''adrift'', ''adult'', ''adverb'', ''advice'', ''aerial'', ''afar'', ''affair'',
    ''affect'', ''afford'', ''afghan'', ''afield'', ''afloat'', ''afraid'', ''afresh'',
    ''after'', ''again'', ''age'', ''agency'', ''agenda'', ''agent'', ''aghast'', ''agile'',
    ''ago'', ''agony'', ''agree'', ''agreed'', ''ahead'', ''aid'', ''aide'', ''aim'', ''air'',
    ''airman'', ''airy'', ''akin'', ''alarm'', ''alaska'', ''albeit'', ''album'', ''ale'',
    ''alert'', ''alibi'', ''alice'', ''alien'', ''alight'', ''align'', ''alike'', ''alive'',
    ''alkali'', ''all'', ''alley'', ''allied'', ''allow'', ''alloy'', ''ally'', ''almond'',
    ''almost'', ''aloft'', ''alone'', ''along'', ''aloof'', ''aloud'', ''alpha'', ''alpine'',
    ''also'', ''altar'', ''alter'', ''always'', ''amaze'', ''amazon'', ''amber'', ''ambush'',
    ''amen'', ''amend'', ''amid'', ''amidst'', ''amiss'', ''among'', ''amount'', ''ample'']"

definition legacy_words_02 :: "string list" where
  "legacy_words_02 = [
    ''amuse'', ''anchor'', ''and'', ''andrew'', ''anew'', ''angel'', ''anger'', ''angle'',
    ''angry'', ''animal'', ''ankle'', ''annoy'', ''annual'', ''answer'', ''anthem'', ''any'',
    ''anyhow'', ''anyway'', ''apart'', ''apathy'', ''apex'', ''apiece'', ''appeal'', ''appear'',
    ''apple'', ''apply'', ''april'', ''apron'', ''arab'', ''arcade'', ''arcane'', ''arch'',
    ''arctic'', ''ardent'', ''are'', ''area'', ''argue'', ''arid'', ''arise'', ''ark'', ''arm'',
    ''armful'', ''army'', ''aroma'', ''around'', ''arouse'', ''array'', ''arrest'', ''arrive'',
    ''arrow'', ''arson'', ''art'', ''artery'', ''artful'', ''artist'', ''ascent'', ''ash'',
    ''ashen'', ''ashore'', ''aside'', ''ask'', ''asleep'', ''aspect'', ''assay'', ''assent'',
    ''assert'', ''assess'', ''asset'', ''assign'', ''assist'', ''assume'', ''assure'',
    ''asthma'', ''astute'', ''asylum'', ''ate'', ''athens'', ''atlas'', ''atom'', ''atomic'',
    ''attach'', ''attack'', ''attain'', ''attend'', ''attic'', ''auburn'', ''audio'', ''audit'',
    ''august'', ''aunt'', ''auntie'', ''aura'', ''austin'', ''author'', ''auto'', ''autumn'',
    ''avail'', ''avenge'', ''avenue'', ''avert'', ''avid'', ''avoid'', ''await'', ''awake'',
    ''awaken'', ''award'', ''aware'', ''awash'', ''away'', ''awful'', ''awhile'', ''axe'',
    ''axes'', ''axiom'', ''axis'', ''axle'', ''aye'', ''babe'', ''baby'', ''bach'', ''back'',
    ''backup'', ''bacon'', ''bad'', ''badge'', ''badly'', ''bag'', ''baggy'']"

definition legacy_words_03 :: "string list" where
  "legacy_words_03 = [
    ''bail'', ''bait'', ''bake'', ''baker'', ''bakery'', ''bald'', ''ball'', ''ballad'',
    ''ballet'', ''ballot'', ''baltic'', ''bamboo'', ''ban'', ''banal'', ''banana'', ''band'',
    ''bang'', ''bank'', ''bar'', ''barber'', ''bare'', ''barely'', ''barge'', ''bark'',
    ''barley'', ''barn'', ''baron'', ''barrel'', ''barren'', ''basalt'', ''base'', ''basic'',
    ''basil'', ''basin'', ''basis'', ''basket'', ''bass'', ''bat'', ''batch'', ''bath'',
    ''baton'', ''battle'', ''bay'', ''beach'', ''beacon'', ''beak'', ''beam'', ''bean'',
    ''bear'', ''beard'', ''beast'', ''beat'', ''beauty'', ''become'', ''bed'', ''beech'',
    ''beef'', ''beefy'', ''beep'', ''beer'', ''beet'', ''beetle'', ''before'', ''beg'',
    ''beggar'', ''begin'', ''behalf'', ''behave'', ''behind'', ''beige'', ''being'', ''belief'',
    ''bell'', ''belly'', ''belong'', ''below'', ''belt'', ''bench'', ''bend'', ''benign'',
    ''bent'', ''berlin'', ''berry'', ''berth'', ''beset'', ''beside'', ''best'', ''bestow'',
    ''bet'', ''beta'', ''betray'', ''better'', ''beware'', ''beyond'', ''bias'', ''biceps'',
    ''bicker'', ''bid'', ''big'', ''bigger'', ''bike'', ''bile'', ''bill'', ''bin'', ''binary'',
    ''bind'', ''biopsy'', ''birch'', ''bird'', ''birdie'', ''birth'', ''bishop'', ''bit'',
    ''bitch'', ''bite'', ''bitter'', ''black'', ''blade'', ''blame'', ''bland'', ''blast'',
    ''blaze'', ''bleak'', ''blend'', ''bless'', ''blew'', ''blind'', ''blink'']"

definition legacy_words_04 :: "string list" where
  "legacy_words_04 = [
    ''blip'', ''bliss'', ''blitz'', ''block'', ''blond'', ''blood'', ''bloody'', ''bloom'',
    ''blot'', ''blouse'', ''blow'', ''blue'', ''bluff'', ''blunt'', ''blur'', ''blush'',
    ''boar'', ''board'', ''boast'', ''boat'', ''bob'', ''bodily'', ''body'', ''bogus'',
    ''boil'', ''bold'', ''bolt'', ''bomb'', ''bombay'', ''bond'', ''bone'', ''bonn'',
    ''bonnet'', ''bonus'', ''bony'', ''book'', ''boom'', ''boost'', ''boot'', ''booth'',
    ''booze'', ''border'', ''bore'', ''borrow'', ''bosom'', ''boss'', ''boston'', ''both'',
    ''bother'', ''bottle'', ''bottom'', ''bought'', ''bounce'', ''bound'', ''bounty'', ''bout'',
    ''bovine'', ''bow'', ''bowel'', ''bowl'', ''box'', ''boy'', ''boyish'', ''brace'',
    ''brain'', ''brainy'', ''brake'', ''bran'', ''branch'', ''brand'', ''brandy'', ''brass'',
    ''brave'', ''bravo'', ''brazil'', ''breach'', ''bread'', ''break'', ''breast'', ''breath'',
    ''bred'', ''breed'', ''breeze'', ''brew'', ''bribe'', ''brick'', ''bride'', ''bridge'',
    ''brief'', ''bright'', ''brim'', ''brine'', ''bring'', ''brink'', ''brisk'', ''broad'',
    ''broke'', ''broken'', ''bronze'', ''brook'', ''broom'', ''brown'', ''bruise'', ''brush'',
    ''brutal'', ''brute'', ''bubble'', ''buck'', ''bucket'', ''buckle'', ''budget'', ''buffet'',
    ''buggy'', ''build'', ''bulb'', ''bulge'', ''bulk'', ''bulky'', ''bull'', ''bullet'',
    ''bully'', ''bump'', ''bumpy'', ''bunch'', ''bundle'', ''bunk'', ''bunny'', ''burden'']"

definition legacy_words_05 :: "string list" where
  "legacy_words_05 = [
    ''bureau'', ''burial'', ''buried'', ''burly'', ''burn'', ''burnt'', ''burrow'', ''burst'',
    ''bury'', ''bus'', ''bush'', ''bust'', ''bustle'', ''busy'', ''but'', ''butler'', ''butt'',
    ''butter'', ''button'', ''buy'', ''buyer'', ''buzz'', ''bye'', ''byte'', ''cab'', ''cabin'',
    ''cable'', ''cache'', ''cactus'', ''caesar'', ''cage'', ''cairo'', ''cajun'', ''cajole'',
    ''cake'', ''calf'', ''call'', ''caller'', ''calm'', ''calmly'', ''came'', ''camel'',
    ''camera'', ''camp'', ''campus'', ''can'', ''canada'', ''canal'', ''canary'', ''cancel'',
    ''cancer'', ''candid'', ''candle'', ''candy'', ''cane'', ''canine'', ''canoe'', ''canopy'',
    ''canvas'', ''canyon'', ''cap'', ''cape'', ''car'', ''carbon'', ''card'', ''care'',
    ''career'', ''caress'', ''cargo'', ''carl'', ''carnal'', ''carol'', ''carp'', ''carpet'',
    ''carrot'', ''carry'', ''cart'', ''cartel'', ''case'', ''cash'', ''cask'', ''cast'',
    ''castle'', ''casual'', ''cat'', ''catch'', ''cater'', ''cattle'', ''caught'', ''causal'',
    ''cause'', ''cave'', ''cease'', ''celery'', ''cell'', ''cellar'', ''celtic'', ''cement'',
    ''censor'', ''census'', ''cent'', ''cereal'', ''chain'', ''chair'', ''chalk'', ''chalky'',
    ''champ'', ''chance'', ''change'', ''chant'', ''chaos'', ''chap'', ''chapel'', ''charge'',
    ''charm'', ''chart'', ''chase'', ''chat'', ''cheap'', ''cheat'', ''check'', ''cheek'',
    ''cheeky'', ''cheer'', ''cheery'', ''cheese'', ''chef'', ''cheque'']"

definition legacy_words_06 :: "string list" where
  "legacy_words_06 = [
    ''cherry'', ''chess'', ''chest'', ''chew'', ''chic'', ''chick'', ''chief'', ''child'',
    ''chile'', ''chill'', ''chilly'', ''chin'', ''china'', ''chip'', ''choice'', ''choir'',
    ''choose'', ''chop'', ''choppy'', ''chord'', ''chorus'', ''chose'', ''chosen'', ''chris'',
    ''chrome'', ''chunk'', ''chunky'', ''church'', ''cider'', ''cigar'', ''cinema'', ''circa'',
    ''circle'', ''circus'', ''cite'', ''city'', ''civic'', ''civil'', ''clad'', ''claim'',
    ''clammy'', ''clan'', ''clap'', ''clash'', ''clasp'', ''class'', ''clause'', ''claw'',
    ''clay'', ''clean'', ''clear'', ''clergy'', ''clerk'', ''clever'', ''click'', ''client'',
    ''cliff'', ''climax'', ''climb'', ''clinch'', ''cling'', ''clinic'', ''clip'', ''cloak'',
    ''clock'', ''clone'', ''close'', ''closer'', ''closet'', ''cloth'', ''cloud'', ''cloudy'',
    ''clout'', ''clown'', ''club'', ''clue'', ''clumsy'', ''clung'', ''clutch'', ''coach'',
    ''coal'', ''coarse'', ''coast'', ''coat'', ''coax'', ''cobalt'', ''cobra'', ''coca'',
    ''cock'', ''cocoa'', ''code'', ''coffee'', ''coffin'', ''cohort'', ''coil'', ''coin'',
    ''coke'', ''cold'', ''collar'', ''colon'', ''colony'', ''colt'', ''column'', ''comb'',
    ''combat'', ''come'', ''comedy'', ''comic'', ''commit'', ''common'', ''compel'', ''comply'',
    ''concur'', ''cone'', ''confer'', ''congo'', ''consul'', ''convex'', ''convey'', ''convoy'',
    ''cook'', ''cool'', ''cope'', ''copper'', ''copy'', ''coral'', ''cord'', ''core'']"

definition legacy_words_07 :: "string list" where
  "legacy_words_07 = [
    ''cork'', ''corn'', ''corner'', ''corps'', ''corpse'', ''corpus'', ''cortex'', ''cosmic'',
    ''cosmos'', ''cost'', ''costly'', ''cotton'', ''couch'', ''cough'', ''could'', ''count'',
    ''county'', ''coup'', ''couple'', ''coupon'', ''course'', ''court'', ''cousin'', ''cove'',
    ''cover'', ''covert'', ''cow'', ''coward'', ''cowboy'', ''cozy'', ''crab'', ''crack'',
    ''cradle'', ''craft'', ''crafty'', ''crag'', ''crane'', ''crash'', ''crate'', ''crater'',
    ''crawl'', ''crazy'', ''creak'', ''cream'', ''creamy'', ''create'', ''credit'', ''creed'',
    ''creek'', ''creep'', ''creepy'', ''crept'', ''crest'', ''crew'', ''cried'', ''crime'',
    ''crisis'', ''crisp'', ''critic'', ''crook'', ''crop'', ''cross'', ''crow'', ''crowd'',
    ''crown'', ''crude'', ''cruel'', ''cruise'', ''crunch'', ''crush'', ''crust'', ''crux'',
    ''cry'', ''crypt'', ''cuba'', ''cube'', ''cubic'', ''cuckoo'', ''cuff'', ''cult'', ''cup'',
    ''curb'', ''cure'', ''curfew'', ''curl'', ''curry'', ''curse'', ''cursor'', ''curve'',
    ''cuss'', ''custom'', ''cut'', ''cute'', ''cycle'', ''cyclic'', ''cynic'', ''czech'',
    ''dad'', ''daddy'', ''dagger'', ''daily'', ''dairy'', ''daisy'', ''dale'', ''dam'',
    ''damage'', ''damp'', ''dampen'', ''dance'', ''danger'', ''danish'', ''dare'', ''dark'',
    ''darken'', ''darn'', ''dart'', ''dash'', ''data'', ''date'', ''david'', ''dawn'', ''day'',
    ''dead'', ''deadly'', ''deaf'', ''deal'', ''dealer'', ''dean'']"

definition legacy_words_08 :: "string list" where
  "legacy_words_08 = [
    ''dear'', ''death'', ''debate'', ''debit'', ''debris'', ''debt'', ''debtor'', ''decade'',
    ''decay'', ''decent'', ''decide'', ''deck'', ''decor'', ''decree'', ''deduce'', ''deed'',
    ''deep'', ''deeply'', ''deer'', ''defeat'', ''defect'', ''defend'', ''defer'', ''define'',
    ''defy'', ''degree'', ''deity'', ''delay'', ''delete'', ''delhi'', ''delta'', ''demand'',
    ''demise'', ''demo'', ''demure'', ''denial'', ''denote'', ''dense'', ''dental'', ''deny'',
    ''depart'', ''depend'', ''depict'', ''deploy'', ''depot'', ''depth'', ''deputy'',
    ''derive'', ''desert'', ''design'', ''desire'', ''desist'', ''desk'', ''detail'',
    ''detect'', ''deter'', ''detest'', ''detour'', ''device'', ''devise'', ''devoid'',
    ''devote'', ''devour'', ''dial'', ''diana'', ''diary'', ''dice'', ''dictum'', ''did'',
    ''die'', ''diesel'', ''diet'', ''differ'', ''dig'', ''digest'', ''digit'', ''dine'',
    ''dinghy'', ''dinner'', ''diode'', ''dip'', ''dire'', ''direct'', ''dirt'', ''dirty'',
    ''disc'', ''disco'', ''dish'', ''disk'', ''dismal'', ''dispel'', ''ditch'', ''dive'',
    ''divert'', ''divide'', ''divine'', ''dizzy'', ''docile'', ''dock'', ''doctor'', ''dog'',
    ''dogma'', ''dole'', ''doll'', ''dollar'', ''dolly'', ''domain'', ''dome'', ''domino'',
    ''donate'', ''done'', ''donkey'', ''donor'', ''doom'', ''door'', ''dorsal'', ''dose'',
    ''dot'', ''double'', ''doubt'', ''dough'', ''dour'', ''dove'', ''down'', ''dozen'',
    ''draft'', ''drag'', ''dragon'']"

definition legacy_words_09 :: "string list" where
  "legacy_words_09 = [
    ''drain'', ''drama'', ''drank'', ''draw'', ''drawer'', ''dread'', ''dream'', ''dreary'',
    ''dress'', ''drew'', ''dried'', ''drift'', ''drill'', ''drink'', ''drip'', ''drive'',
    ''driver'', ''drop'', ''drove'', ''drown'', ''drug'', ''drum'', ''drunk'', ''dry'',
    ''dual'', ''duck'', ''duct'', ''due'', ''duel'', ''duet'', ''duke'', ''dull'', ''duly'',
    ''dumb'', ''dummy'', ''dump'', ''dune'', ''dung'', ''duress'', ''during'', ''dusk'',
    ''dust'', ''dusty'', ''dutch'', ''duty'', ''dwarf'', ''dwell'', ''dyer'', ''dying'',
    ''dynamo'', ''each'', ''eager'', ''eagle'', ''ear'', ''earl'', ''early'', ''earn'',
    ''earth'', ''ease'', ''easel'', ''easily'', ''east'', ''easter'', ''easy'', ''eat'',
    ''eaten'', ''eater'', ''echo'', ''eddy'', ''eden'', ''edge'', ''edible'', ''edict'',
    ''edit'', ''editor'', ''eel'', ''eerie'', ''eerily'', ''effect'', ''effort'', ''egg'',
    ''ego'', ''eight'', ''eighth'', ''eighty'', ''either'', ''elbow'', ''elder'', ''eldest'',
    ''elect'', ''eleven'', ''elicit'', ''elite'', ''else'', ''elude'', ''elves'', ''embark'',
    ''emblem'', ''embryo'', ''emerge'', ''emit'', ''empire'', ''employ'', ''empty'', ''enable'',
    ''enamel'', ''end'', ''endure'', ''enemy'', ''energy'', ''engage'', ''engine'', ''enjoy'',
    ''enlist'', ''enough'', ''ensure'', ''entail'', ''enter'', ''entire'', ''entry'', ''envoy'',
    ''envy'', ''enzyme'', ''epic'', ''epoch'', ''equal'', ''equate'', ''equip'']"

definition legacy_words_10 :: "string list" where
  "legacy_words_10 = [
    ''equity'', ''era'', ''erect'', ''eric'', ''erode'', ''erotic'', ''errant'', ''error'',
    ''escape'', ''escort'', ''essay'', ''essex'', ''estate'', ''esteem'', ''ethic'', ''ethnic'',
    ''europe'', ''evade'', ''eve'', ''even'', ''event'', ''ever'', ''every'', ''evict'',
    ''evil'', ''evoke'', ''evolve'', ''exact'', ''exam'', ''exceed'', ''excel'', ''except'',
    ''excess'', ''excise'', ''excite'', ''excuse'', ''exempt'', ''exert'', ''exile'', ''exist'',
    ''exit'', ''exodus'', ''exotic'', ''expand'', ''expect'', ''expert'', ''expire'',
    ''export'', ''expose'', ''extend'', ''extra'', ''eye'', ''eyed'', ''fabric'', ''face'',
    ''facial'', ''fact'', ''factor'', ''fade'', ''fail'', ''faint'', ''fair'', ''fairly'',
    ''fairy'', ''faith'', ''fake'', ''falcon'', ''fall'', ''false'', ''falter'', ''fame'',
    ''family'', ''famine'', ''famous'', ''fan'', ''fancy'', ''far'', ''farce'', ''fare'',
    ''farm'', ''farmer'', ''fast'', ''fasten'', ''faster'', ''fat'', ''fatal'', ''fate'',
    ''father'', ''fatty'', ''fault'', ''faulty'', ''fauna'', ''fear'', ''feast'', ''feat'',
    ''fed'', ''fee'', ''feeble'', ''feed'', ''feel'', ''feet'', ''fell'', ''fellow'', ''felt'',
    ''female'', ''fence'', ''fend'', ''ferry'', ''fetal'', ''fetch'', ''feudal'', ''fever'',
    ''few'', ''fewer'', ''fiasco'', ''fiddle'', ''field'', ''fiend'', ''fierce'', ''fiery'',
    ''fifth'', ''fifty'', ''fig'', ''fight'', ''figure'', ''file'', ''fill'', ''filled'']"

definition legacy_words_11 :: "string list" where
  "legacy_words_11 = [
    ''filler'', ''film'', ''filter'', ''filth'', ''filthy'', ''final'', ''finale'', ''find'',
    ''fine'', ''finery'', ''finger'', ''finish'', ''finite'', ''fire'', ''firm'', ''firmly'',
    ''first'', ''fiscal'', ''fish'', ''fisher'', ''fist'', ''fit'', ''fitful'', ''five'',
    ''fix'', ''flag'', ''flair'', ''flak'', ''flame'', ''flank'', ''flap'', ''flare'',
    ''flash'', ''flask'', ''flat'', ''flavor'', ''flaw'', ''fled'', ''flee'', ''fleece'',
    ''fleet'', ''flesh'', ''fleshy'', ''flew'', ''flick'', ''flight'', ''flimsy'', ''flint'',
    ''flirt'', ''float'', ''flock'', ''flood'', ''floor'', ''floppy'', ''flora'', ''floral'',
    ''flour'', ''flow'', ''flower'', ''fluent'', ''fluffy'', ''fluid'', ''flung'', ''flurry'',
    ''flush'', ''flute'', ''flux'', ''fly'', ''flyer'', ''foal'', ''foam'', ''focal'',
    ''focus'', ''fog'', ''foil'', ''fold'', ''folk'', ''follow'', ''folly'', ''fond'',
    ''fondly'', ''font'', ''food'', ''fool'', ''foot'', ''for'', ''forbid'', ''force'',
    ''ford'', ''forest'', ''forge'', ''forget'', ''fork'', ''form'', ''formal'', ''format'',
    ''former'', ''fort'', ''forth'', ''forty'', ''forum'', ''fossil'', ''foster'', ''foul'',
    ''found'', ''four'', ''fourth'', ''fox'', ''foyer'', ''frail'', ''frame'', ''franc'',
    ''france'', ''frank'', ''fraud'', ''fred'', ''free'', ''freed'', ''freely'', ''freeze'',
    ''french'', ''frenzy'', ''fresh'', ''friar'', ''friday'', ''fridge'', ''fried'', ''friend'']"

definition legacy_words_12 :: "string list" where
  "legacy_words_12 = [
    ''fright'', ''fringe'', ''frock'', ''frog'', ''from'', ''front'', ''frost'', ''frosty'',
    ''frown'', ''frozen'', ''frugal'', ''fruit'', ''fry'', ''fudge'', ''fuel'', ''full'',
    ''fully'', ''fumes'', ''fun'', ''fund'', ''funny'', ''fur'', ''furry'', ''fury'', ''fuse'',
    ''fusion'', ''fuss'', ''fussy'', ''futile'', ''future'', ''fuzzy'', ''gadget'', ''gain'',
    ''gala'', ''galaxy'', ''gale'', ''gall'', ''galley'', ''gallon'', ''gallop'', ''gamble'',
    ''game'', ''gamma'', ''gandhi'', ''gang'', ''gap'', ''garage'', ''garden'', ''garlic'',
    ''gas'', ''gasp'', ''gate'', ''gather'', ''gauge'', ''gaunt'', ''gave'', ''gaze'', ''gear'',
    ''geese'', ''gem'', ''gemini'', ''gender'', ''gene'', ''geneva'', ''genial'', ''genius'',
    ''genre'', ''gentle'', ''gently'', ''gentry'', ''genus'', ''george'', ''germ'', ''get'',
    ''ghetto'', ''ghost'', ''giant'', ''gift'', ''giggle'', ''gill'', ''gilt'', ''ginger'',
    ''girl'', ''give'', ''given'', ''glad'', ''glade'', ''glance'', ''gland'', ''glare'',
    ''glass'', ''glassy'', ''gleam'', ''glee'', ''glide'', ''global'', ''globe'', ''gloom'',
    ''gloomy'', ''gloria'', ''glory'', ''gloss'', ''glossy'', ''glove'', ''glow'', ''glue'',
    ''gnat'', ''gnu'', ''goal'', ''goat'', ''gold'', ''golden'', ''golf'', ''gone'', ''gong'',
    ''goo'', ''good'', ''goose'', ''gore'', ''gorge'', ''gory'', ''gosh'', ''gospel'',
    ''gossip'', ''got'', ''gothic'', ''govern'', ''gown'']"

definition legacy_words_13 :: "string list" where
  "legacy_words_13 = [
    ''grab'', ''grace'', ''grade'', ''grail'', ''grain'', ''grand'', ''grant'', ''grape'',
    ''graph'', ''grasp'', ''grass'', ''grassy'', ''grate'', ''grave'', ''gravel'', ''gravy'',
    ''grease'', ''greasy'', ''great'', ''greece'', ''greed'', ''greedy'', ''greek'', ''green'',
    ''greet'', ''grew'', ''grey'', ''grid'', ''grief'', ''grill'', ''grim'', ''grin'',
    ''grind'', ''grip'', ''grit'', ''gritty'', ''groan'', ''groin'', ''groom'', ''groove'',
    ''gross'', ''ground'', ''group'', ''grove'', ''grow'', ''grown'', ''growth'', ''grudge'',
    ''grunt'', ''guard'', ''guess'', ''guest'', ''guide'', ''guild'', ''guilt'', ''guilty'',
    ''guise'', ''guitar'', ''gulf'', ''gully'', ''gun'', ''gunman'', ''guru'', ''gut'', ''guy'',
    ''gypsy'', ''habit'', ''hack'', ''had'', ''hail'', ''hair'', ''hairy'', ''haiti'', ''hale'',
    ''half'', ''hall'', ''halt'', ''hamlet'', ''hammer'', ''hand'', ''handle'', ''handy'',
    ''hang'', ''hangar'', ''hanoi'', ''happen'', ''happy'', ''harass'', ''harbor'', ''hard'',
    ''harder'', ''hardly'', ''hare'', ''harem'', ''harm'', ''harp'', ''harry'', ''harsh'',
    ''has'', ''hash'', ''hassle'', ''haste'', ''hasten'', ''hasty'', ''hat'', ''hatch'',
    ''hate'', ''haul'', ''haunt'', ''havana'', ''have'', ''haven'', ''havoc'', ''hawaii'',
    ''hawk'', ''hay'', ''hazard'', ''haze'', ''hazel'', ''hazy'', ''head'', ''heal'',
    ''health'', ''heap'', ''hear'', ''heard'', ''heart'', ''hearth'']"

definition legacy_words_14 :: "string list" where
  "legacy_words_14 = [
    ''hearty'', ''heat'', ''heater'', ''heaven'', ''heavy'', ''hebrew'', ''heck'', ''hectic'',
    ''hedge'', ''heel'', ''hefty'', ''height'', ''heir'', ''held'', ''helium'', ''helix'',
    ''hell'', ''hello'', ''helm'', ''helmet'', ''help'', ''hemp'', ''hence'', ''henry'',
    ''her'', ''herald'', ''herb'', ''herd'', ''here'', ''hereby'', ''hermes'', ''hernia'',
    ''hero'', ''heroic'', ''heroin'', ''hey'', ''heyday'', ''hick'', ''hidden'', ''hide'',
    ''high'', ''higher'', ''highly'', ''hill'', ''him'', ''hind'', ''hinder'', ''hint'',
    ''hippie'', ''hire'', ''his'', ''hiss'', ''hit'', ''hive'', ''hoard'', ''hoarse'',
    ''hobby'', ''hockey'', ''hold'', ''holder'', ''hole'', ''hollow'', ''holly'', ''holy'',
    ''home'', ''honest'', ''honey'', ''hood'', ''hook'', ''hope'', ''horn'', ''horrid'',
    ''horror'', ''horse'', ''hose'', ''host'', ''hot'', ''hotel'', ''hound'', ''hour'',
    ''house'', ''hover'', ''how'', ''huge'', ''hull'', ''human'', ''humane'', ''humble'',
    ''humid'', ''hung'', ''hunger'', ''hungry'', ''hunt'', ''hurdle'', ''hurl'', ''hurry'',
    ''hurt'', ''hush'', ''hut'', ''hybrid'', ''hymn'', ''hyphen'', ''ice'', ''icing'', ''icon'',
    ''idaho'', ''idea'', ''ideal'', ''idiom'', ''idiot'', ''idle'', ''idly'', ''idol'',
    ''ignite'', ''ignore'', ''ill'', ''image'', ''immune'', ''impact'', ''imply'', ''import'',
    ''impose'', ''inca'', ''incest'', ''inch'', ''income'', ''incur'', ''indeed'']"

definition legacy_words_15 :: "string list" where
  "legacy_words_15 = [
    ''index'', ''india'', ''indian'', ''indoor'', ''induce'', ''inept'', ''inert'', ''infant'',
    ''infect'', ''infer'', ''influx'', ''inform'', ''inject'', ''injure'', ''injury'', ''ink'',
    ''inlaid'', ''inland'', ''inlet'', ''inmate'', ''inn'', ''innate'', ''inner'', ''input'',
    ''insane'', ''insect'', ''insert'', ''inset'', ''inside'', ''insist'', ''insult'',
    ''insure'', ''intact'', ''intake'', ''intend'', ''inter'', ''into'', ''invade'', ''invent'',
    ''invest'', ''invite'', ''invoke'', ''inward'', ''iowa'', ''iran'', ''iraq'', ''irish'',
    ''iron'', ''ironic'', ''irony'', ''isaac'', ''isabel'', ''island'', ''isle'', ''israel'',
    ''issue'', ''italy'', ''itch'', ''item'', ''itself'', ''ivan'', ''ivory'', ''jack'',
    ''jacket'', ''jacob'', ''jade'', ''jaguar'', ''jail'', ''james'', ''jane'', ''japan'',
    ''jargon'', ''java'', ''jaw'', ''jazz'', ''jeep'', ''jelly'', ''jerky'', ''jest'', ''jet'',
    ''jewel'', ''jewish'', ''jim'', ''job'', ''jock'', ''jockey'', ''joe'', ''john'', ''join'',
    ''joint'', ''joke'', ''jolly'', ''jolt'', ''jordan'', ''joseph'', ''joy'', ''joyful'',
    ''joyous'', ''judge'', ''judy'', ''juice'', ''juicy'', ''july'', ''jumble'', ''jumbo'',
    ''jump'', ''june'', ''jungle'', ''junior'', ''junk'', ''junta'', ''jury'', ''just'',
    ''kansas'', ''karate'', ''karl'', ''keel'', ''keen'', ''keep'', ''keeper'', ''kenya'',
    ''kept'', ''kernel'', ''kettle'', ''key'', ''khaki'', ''kick'', ''kid'']"

definition legacy_words_16 :: "string list" where
  "legacy_words_16 = [
    ''kidnap'', ''kidney'', ''kill'', ''killer'', ''kin'', ''kind'', ''kindly'', ''king'',
    ''kiss'', ''kite'', ''kitten'', ''knack'', ''knee'', ''kneel'', ''knew'', ''knife'',
    ''knight'', ''knit'', ''knob'', ''knock'', ''knot'', ''know'', ''known'', ''koran'',
    ''korea'', ''kuwait'', ''label'', ''lace'', ''lack'', ''lad'', ''ladder'', ''laden'',
    ''lady'', ''lagoon'', ''laity'', ''lake'', ''lamb'', ''lame'', ''lamp'', ''lance'',
    ''land'', ''lane'', ''lap'', ''lapse'', ''large'', ''larval'', ''laser'', ''last'',
    ''latch'', ''late'', ''lately'', ''latent'', ''later'', ''latest'', ''latin'', ''latter'',
    ''laugh'', ''launch'', ''lava'', ''lavish'', ''law'', ''lawful'', ''lawn'', ''lawyer'',
    ''lay'', ''layer'', ''layman'', ''lazy'', ''lead'', ''leader'', ''leaf'', ''leafy'',
    ''league'', ''leak'', ''leaky'', ''lean'', ''leap'', ''learn'', ''lease'', ''leash'',
    ''least'', ''leave'', ''led'', ''ledge'', ''left'', ''leg'', ''legacy'', ''legal'',
    ''legend'', ''legion'', ''lemon'', ''lend'', ''length'', ''lens'', ''lent'', ''leo'',
    ''leper'', ''lesion'', ''less'', ''lessen'', ''lesser'', ''lesson'', ''lest'', ''let'',
    ''lethal'', ''letter'', ''level'', ''lever'', ''levy'', ''lewis'', ''liable'', ''liar'',
    ''libel'', ''libya'', ''lice'', ''lick'', ''lid'', ''lie'', ''lied'', ''lier'', ''life'',
    ''lift'', ''light'', ''like'', ''likely'', ''limb'', ''lime'', ''limit'']"

definition legacy_words_17 :: "string list" where
  "legacy_words_17 = [
    ''limp'', ''line'', ''linear'', ''linen'', ''linger'', ''link'', ''lint'', ''lion'',
    ''lip'', ''liquid'', ''liquor'', ''list'', ''listen'', ''lit'', ''live'', ''lively'',
    ''liver'', ''liz'', ''lizard'', ''load'', ''loaf'', ''loan'', ''lobby'', ''lobe'',
    ''local'', ''locate'', ''lock'', ''locus'', ''lodge'', ''loft'', ''lofty'', ''log'',
    ''logic'', ''logo'', ''london'', ''lone'', ''lonely'', ''long'', ''longer'', ''look'',
    ''loop'', ''loose'', ''loosen'', ''loot'', ''lord'', ''lorry'', ''lose'', ''loss'',
    ''lost'', ''lot'', ''lotion'', ''lotus'', ''loud'', ''loudly'', ''lounge'', ''lousy'',
    ''love'', ''lovely'', ''lover'', ''low'', ''lower'', ''lowest'', ''loyal'', ''lucid'',
    ''luck'', ''lucky'', ''lucy'', ''lull'', ''lump'', ''lumpy'', ''lunacy'', ''lunar'',
    ''lunch'', ''lung'', ''lure'', ''lurid'', ''lush'', ''lust'', ''lute'', ''luther'',
    ''luxury'', ''lying'', ''lymph'', ''lynch'', ''lyric'', ''macho'', ''macro'', ''mad'',
    ''madam'', ''made'', ''mafia'', ''magic'', ''magma'', ''magnet'', ''magnum'', ''magpie'',
    ''maid'', ''maiden'', ''mail'', ''main'', ''mainly'', ''major'', ''make'', ''maker'',
    ''male'', ''malice'', ''mall'', ''malt'', ''mammal'', ''manage'', ''mane'', ''mania'',
    ''manic'', ''manner'', ''manor'', ''mantle'', ''manual'', ''manure'', ''many'', ''map'',
    ''maple'', ''marble'', ''march'', ''mare'', ''margin'', ''maria'', ''marina'', ''mark'']"

definition legacy_words_18 :: "string list" where
  "legacy_words_18 = [
    ''market'', ''marry'', ''mars'', ''marsh'', ''martin'', ''martyr'', ''mary'', ''mask'',
    ''mason'', ''mass'', ''mast'', ''master'', ''mat'', ''match'', ''mate'', ''matrix'',
    ''matter'', ''mature'', ''maxim'', ''may'', ''maybe'', ''mayor'', ''maze'', ''mead'',
    ''meadow'', ''meal'', ''mean'', ''meant'', ''meat'', ''medal'', ''media'', ''median'',
    ''medic'', ''medium'', ''meet'', ''mellow'', ''melody'', ''melon'', ''melt'', ''member'',
    ''memo'', ''memory'', ''menace'', ''mend'', ''mental'', ''mentor'', ''menu'', ''mercy'',
    ''mere'', ''merely'', ''merge'', ''merger'', ''merit'', ''merry'', ''mesh'', ''mess'',
    ''messy'', ''met'', ''metal'', ''meter'', ''method'', ''methyl'', ''metric'', ''metro'',
    ''mexico'', ''miami'', ''mickey'', ''mid'', ''midday'', ''middle'', ''midst'', ''midway'',
    ''might'', ''mighty'', ''mild'', ''mildew'', ''mile'', ''milk'', ''milky'', ''mill'',
    ''mimic'', ''mince'', ''mind'', ''mine'', ''mini'', ''mink'', ''minor'', ''mint'',
    ''minus'', ''minute'', ''mire'', ''mirror'', ''mirth'', ''misery'', ''miss'', ''mist'',
    ''misty'', ''mite'', ''mix'', ''moan'', ''moat'', ''mob'', ''mobile'', ''mock'', ''mode'',
    ''model'', ''modem'', ''modern'', ''modest'', ''modify'', ''module'', ''moist'', ''molar'',
    ''mold'', ''mole'', ''molten'', ''moment'', ''monday'', ''money'', ''monk'', ''monkey'',
    ''month'', ''mood'', ''moody'', ''moon'', ''moor'', ''moral'', ''morale'']"

definition legacy_words_19 :: "string list" where
  "legacy_words_19 = [
    ''morbid'', ''more'', ''morgue'', ''mortal'', ''mortar'', ''mosaic'', ''moscow'', ''moses'',
    ''mosque'', ''moss'', ''most'', ''mostly'', ''moth'', ''mother'', ''motion'', ''motive'',
    ''motor'', ''mount'', ''mourn'', ''mouse'', ''mouth'', ''move'', ''movie'', ''mrs'',
    ''much'', ''muck'', ''mucus'', ''mud'', ''muddle'', ''muddy'', ''mule'', ''mummy'',
    ''munich'', ''murder'', ''murky'', ''murmur'', ''muscle'', ''museum'', ''music'',
    ''mussel'', ''must'', ''mutant'', ''mute'', ''mutiny'', ''mutter'', ''mutton'', ''mutual'',
    ''muzzle'', ''myopic'', ''myriad'', ''myself'', ''mystic'', ''myth'', ''nadir'', ''nail'',
    ''naked'', ''name'', ''namely'', ''nape'', ''napkin'', ''naples'', ''narrow'', ''nasal'',
    ''nasty'', ''nathan'', ''nation'', ''native'', ''nature'', ''nausea'', ''naval'', ''nave'',
    ''navy'', ''near'', ''nearer'', ''nearly'', ''neat'', ''neatly'', ''neck'', ''need'',
    ''needle'', ''needy'', ''negate'', ''neon'', ''nepal'', ''nephew'', ''nerve'', ''nest'',
    ''net'', ''neural'', ''never'', ''newly'', ''next'', ''nice'', ''nicely'', ''niche'',
    ''nickel'', ''niece'', ''night'', ''nile'', ''nimble'', ''nine'', ''ninety'', ''ninth'',
    ''nobel'', ''noble'', ''nobody'', ''node'', ''noise'', ''noisy'', ''none'', ''noon'',
    ''nor'', ''norm'', ''normal'', ''north'', ''norway'', ''nose'', ''nosy'', ''not'', ''note'',
    ''notice'', ''notify'', ''notion'', ''noun'', ''novel'', ''novice'', ''now'', ''nozzle'']"

definition legacy_words_20 :: "string list" where
  "legacy_words_20 = [
    ''null'', ''numb'', ''number'', ''nurse'', ''nut'', ''nylon'', ''nymph'', ''oak'', ''oar'',
    ''oasis'', ''oath'', ''obese'', ''obey'', ''object'', ''oblige'', ''oboe'', ''obtain'',
    ''obtuse'', ''occult'', ''occupy'', ''occur'', ''ocean'', ''octave'', ''odd'', ''off'',
    ''offend'', ''offer'', ''office'', ''offset'', ''often'', ''ohio'', ''oil'', ''oily'',
    ''okay'', ''old'', ''older'', ''oldest'', ''olive'', ''omega'', ''omen'', ''omit'',
    ''once'', ''one'', ''onion'', ''only'', ''onset'', ''onto'', ''onus'', ''onward'',
    ''opaque'', ''open'', ''openly'', ''opera'', ''opium'', ''oppose'', ''optic'', ''option'',
    ''oracle'', ''oral'', ''orange'', ''orbit'', ''orchid'', ''ordeal'', ''order'', ''organ'',
    ''orgasm'', ''orient'', ''origin'', ''ornate'', ''orphan'', ''oscar'', ''other'', ''otter'',
    ''ought'', ''ounce'', ''our'', ''out'', ''outer'', ''output'', ''outset'', ''oval'',
    ''oven'', ''over'', ''overt'', ''owe'', ''owing'', ''owl'', ''own'', ''owner'', ''oxford'',
    ''oxide'', ''oxygen'', ''oyster'', ''ozone'', ''pace'', ''pack'', ''packet'', ''pact'',
    ''pad'', ''paddle'', ''paddy'', ''pagan'', ''page'', ''paid'', ''pain'', ''paint'',
    ''pair'', ''palace'', ''pale'', ''palm'', ''pan'', ''panama'', ''panel'', ''panic'',
    ''papa'', ''papal'', ''paper'', ''parade'', ''parcel'', ''pardon'', ''parent'', ''paris'',
    ''parish'', ''park'', ''parody'', ''parrot'', ''part'', ''partly'']"

definition legacy_words_21 :: "string list" where
  "legacy_words_21 = [
    ''party'', ''pascal'', ''pass'', ''past'', ''paste'', ''pastel'', ''pastor'', ''pastry'',
    ''pat'', ''patch'', ''patent'', ''path'', ''patio'', ''patrol'', ''patron'', ''paul'',
    ''pause'', ''pave'', ''paw'', ''pawn'', ''pay'', ''peace'', ''peach'', ''peak'', ''pear'',
    ''pearl'', ''pedal'', ''peel'', ''peer'', ''peking'', ''pelvic'', ''pelvis'', ''pen'',
    ''penal'', ''pence'', ''pencil'', ''penny'', ''people'', ''pepper'', ''per'', ''perch'',
    ''peril'', ''period'', ''perish'', ''permit'', ''person'', ''peru'', ''pest'', ''pet'',
    ''peter'', ''petite'', ''petrol'', ''petty'', ''phase'', ''philip'', ''phone'', ''photo'',
    ''phrase'', ''piano'', ''pick'', ''picket'', ''picnic'', ''pie'', ''piece'', ''pier'',
    ''pierce'', ''piety'', ''pig'', ''pigeon'', ''piggy'', ''pike'', ''pile'', ''pill'',
    ''pillar'', ''pillow'', ''pilot'', ''pin'', ''pinch'', ''pine'', ''pink'', ''pint'',
    ''pious'', ''pipe'', ''pirate'', ''piss'', ''pistol'', ''piston'', ''pit'', ''pitch'',
    ''pity'', ''pivot'', ''pixel'', ''pizza'', ''place'', ''placid'', ''plague'', ''plain'',
    ''plan'', ''plane'', ''planet'', ''plank'', ''plant'', ''plasma'', ''plate'', ''play'',
    ''player'', ''plea'', ''plead'', ''please'', ''pledge'', ''plenty'', ''plight'', ''plot'',
    ''plough'', ''ploy'', ''plug'', ''plum'', ''plump'', ''plunge'', ''plural'', ''plus'',
    ''plush'', ''pocket'', ''poem'', ''poet'', ''poetic'', ''poetry'', ''point'']"

definition legacy_words_22 :: "string list" where
  "legacy_words_22 = [
    ''poison'', ''poland'', ''polar'', ''pole'', ''police'', ''policy'', ''polish'', ''polite'',
    ''poll'', ''pollen'', ''polo'', ''pond'', ''ponder'', ''pony'', ''pool'', ''poor'',
    ''poorly'', ''pop'', ''poppy'', ''pore'', ''pork'', ''port'', ''portal'', ''pose'',
    ''posh'', ''post'', ''postal'', ''pot'', ''potato'', ''potent'', ''pouch'', ''pound'',
    ''pour'', ''powder'', ''power'', ''praise'', ''pray'', ''prayer'', ''preach'', ''prefer'',
    ''prefix'', ''press'', ''pretty'', ''price'', ''pride'', ''priest'', ''primal'', ''prime'',
    ''prince'', ''print'', ''prior'', ''prism'', ''prison'', ''privy'', ''prize'', ''probe'',
    ''profit'', ''prompt'', ''prone'', ''proof'', ''propel'', ''proper'', ''prose'', ''proton'',
    ''proud'', ''prove'', ''proven'', ''proxy'', ''prune'', ''pry'', ''psalm'', ''pseudo'',
    ''psyche'', ''pub'', ''public'', ''puff'', ''pull'', ''pulp'', ''pulpit'', ''pulsar'',
    ''pulse'', ''pump'', ''punch'', ''punish'', ''punk'', ''pupil'', ''puppet'', ''puppy'',
    ''pure'', ''purely'', ''purge'', ''purify'', ''purple'', ''purse'', ''pursue'', ''push'',
    ''pushy'', ''put'', ''putt'', ''puzzle'', ''quaint'', ''quake'', ''quarry'', ''quart'',
    ''quartz'', ''quebec'', ''queen'', ''queer'', ''query'', ''quest'', ''queue'', ''quick'',
    ''quid'', ''quiet'', ''quilt'', ''quirk'', ''quit'', ''quite'', ''quiver'', ''quiz'',
    ''quota'', ''quote'', ''rabbit'', ''race'', ''racial'', ''racism'', ''rack'', ''racket'']"

definition legacy_words_23 :: "string list" where
  "legacy_words_23 = [
    ''radar'', ''radio'', ''radish'', ''radius'', ''raffle'', ''raft'', ''rage'', ''raid'',
    ''rail'', ''rain'', ''rainy'', ''raise'', ''rake'', ''rally'', ''ramp'', ''random'',
    ''range'', ''rank'', ''ransom'', ''rape'', ''rapid'', ''rare'', ''rarely'', ''rarity'',
    ''rash'', ''rat'', ''rate'', ''rather'', ''ratify'', ''ratio'', ''rattle'', ''rave'',
    ''raven'', ''raw'', ''ray'', ''razor'', ''reach'', ''react'', ''read'', ''reader'',
    ''ready'', ''real'', ''really'', ''realm'', ''reap'', ''rear'', ''reason'', ''rebel'',
    ''recall'', ''recent'', ''recess'', ''recipe'', ''reckon'', ''record'', ''recoup'',
    ''rector'', ''red'', ''redeem'', ''redo'', ''reduce'', ''reed'', ''reef'', ''reek'',
    ''refer'', ''reform'', ''refuge'', ''refuse'', ''regal'', ''regard'', ''regent'',
    ''regime'', ''region'', ''regret'', ''reign'', ''reject'', ''relate'', ''relax'', ''relay'',
    ''relic'', ''relief'', ''relish'', ''rely'', ''remain'', ''remark'', ''remedy'', ''remind'',
    ''remit'', ''remote'', ''remove'', ''renal'', ''render'', ''rent'', ''rental'', ''repair'',
    ''repeal'', ''repeat'', ''repent'', ''reply'', ''report'', ''rescue'', ''resent'',
    ''reside'', ''resign'', ''resin'', ''resist'', ''resort'', ''rest'', ''result'', ''resume'',
    ''retail'', ''retain'', ''retina'', ''retire'', ''return'', ''reveal'', ''review'',
    ''revise'', ''revive'', ''revolt'', ''reward'', ''rex'', ''rhine'', ''rhino'', ''rhyme'',
    ''rhythm'', ''ribbon'', ''rice'', ''rich'']"

definition legacy_words_24 :: "string list" where
  "legacy_words_24 = [
    ''rick'', ''rid'', ''ride'', ''rider'', ''ridge'', ''rife'', ''rifle'', ''rift'', ''right'',
    ''rigid'', ''rile'', ''rim'', ''ring'', ''rinse'', ''riot'', ''ripe'', ''ripen'',
    ''ripple'', ''rise'', ''risk'', ''risky'', ''rite'', ''ritual'', ''ritz'', ''rival'',
    ''river'', ''road'', ''roar'', ''roast'', ''rob'', ''robe'', ''robert'', ''robin'',
    ''robot'', ''robust'', ''rock'', ''rocket'', ''rocky'', ''rod'', ''rode'', ''rodent'',
    ''rogue'', ''role'', ''roll'', ''roman'', ''rome'', ''roof'', ''room'', ''root'', ''rope'',
    ''rose'', ''rosy'', ''rot'', ''rotate'', ''rotor'', ''rotten'', ''rouge'', ''rough'',
    ''round'', ''route'', ''rover'', ''row'', ''royal'', ''rub'', ''rubber'', ''rubble'',
    ''ruby'', ''rudder'', ''rude'', ''rug'', ''rugby'', ''ruin'', ''rule'', ''ruler'',
    ''rumble'', ''rump'', ''run'', ''rune'', ''rung'', ''runway'', ''rural'', ''rush'',
    ''russia'', ''rust'', ''rustic'', ''rusty'', ''sack'', ''sacred'', ''sad'', ''saddle'',
    ''sadism'', ''sadly'', ''safari'', ''safe'', ''safely'', ''safer'', ''safety'', ''saga'',
    ''sage'', ''sahara'', ''said'', ''sail'', ''sailor'', ''saint'', ''sake'', ''salad'',
    ''salary'', ''sale'', ''saline'', ''saliva'', ''salmon'', ''saloon'', ''salt'', ''salty'',
    ''salute'', ''sam'', ''same'', ''sample'', ''sand'', ''sandy'', ''sane'', ''sash'',
    ''satin'', ''satire'', ''saturn'', ''sauce'', ''saucer'', ''saudi'']"

definition legacy_words_25 :: "string list" where
  "legacy_words_25 = [
    ''sauna'', ''savage'', ''save'', ''saw'', ''say'', ''scale'', ''scalp'', ''scan'',
    ''scant'', ''scar'', ''scarce'', ''scare'', ''scarf'', ''scary'', ''scene'', ''scenic'',
    ''scent'', ''school'', ''scold'', ''scope'', ''score'', ''scorn'', ''scotch'', ''scott'',
    ''scout'', ''scrap'', ''scrape'', ''scream'', ''screen'', ''screw'', ''script'', ''scroll'',
    ''scrub'', ''scum'', ''sea'', ''seal'', ''seam'', ''seaman'', ''search'', ''season'',
    ''seat'', ''second'', ''secret'', ''sect'', ''sector'', ''secure'', ''see'', ''seed'',
    ''seeing'', ''seek'', ''seem'', ''seize'', ''seldom'', ''select'', ''self'', ''sell'',
    ''seller'', ''semi'', ''senate'', ''send'', ''senile'', ''senior'', ''sense'', ''sensor'',
    ''sent'', ''sentry'', ''seoul'', ''sequel'', ''serene'', ''serial'', ''series'', ''sermon'',
    ''serum'', ''serve'', ''server'', ''set'', ''settle'', ''seven'', ''severe'', ''sew'',
    ''sewage'', ''shabby'', ''shade'', ''shadow'', ''shady'', ''shaft'', ''shaggy'', ''shah'',
    ''shake'', ''shaky'', ''shall'', ''sham'', ''shame'', ''shape'', ''share'', ''shark'',
    ''sharp'', ''shawl'', ''she'', ''shear'', ''sheen'', ''sheep'', ''sheer'', ''sheet'',
    ''shelf'', ''shell'', ''sherry'', ''shield'', ''shift'', ''shine'', ''shiny'', ''ship'',
    ''shire'', ''shirk'', ''shirt'', ''shiver'', ''shock'', ''shoe'', ''shook'', ''shoot'',
    ''shop'', ''shore'', ''short'', ''shot'', ''should'', ''shout'', ''show'', ''shower'']"

definition legacy_words_26 :: "string list" where
  "legacy_words_26 = [
    ''shrank'', ''shrewd'', ''shrill'', ''shrimp'', ''shrine'', ''shrink'', ''shrub'',
    ''shrug'', ''shut'', ''shy'', ''shyly'', ''sick'', ''side'', ''siege'', ''sigh'', ''sight'',
    ''sigma'', ''sign'', ''signal'', ''silent'', ''silk'', ''silken'', ''silky'', ''sill'',
    ''silly'', ''silo'', ''silver'', ''simple'', ''simply'', ''since'', ''sinful'', ''sing'',
    ''singer'', ''single'', ''sink'', ''sir'', ''sire'', ''siren'', ''sister'', ''sit'',
    ''site'', ''sitter'', ''six'', ''sixth'', ''sixty'', ''size'', ''sketch'', ''skill'',
    ''skin'', ''skinny'', ''skip'', ''skirt'', ''skull'', ''sky'', ''slab'', ''slack'',
    ''slain'', ''slam'', ''slang'', ''slap'', ''slat'', ''slate'', ''slave'', ''sleek'',
    ''sleep'', ''sleepy'', ''sleeve'', ''slice'', ''slick'', ''slid'', ''slide'', ''slight'',
    ''slim'', ''slimy'', ''sling'', ''slip'', ''slit'', ''slogan'', ''slope'', ''sloppy'',
    ''slot'', ''slow'', ''slowly'', ''slug'', ''slum'', ''slump'', ''smack'', ''small'',
    ''smart'', ''smash'', ''smear'', ''smell'', ''smelly'', ''smelt'', ''smile'', ''smite'',
    ''smoke'', ''smoky'', ''smooth'', ''smug'', ''snack'', ''snail'', ''snake'', ''snap'',
    ''snatch'', ''sneak'', ''snow'', ''snowy'', ''snug'', ''soak'', ''soap'', ''sober'',
    ''soccer'', ''social'', ''sock'', ''socket'', ''socks'', ''soda'', ''sodden'', ''sodium'',
    ''sofa'', ''soft'', ''soften'', ''softly'', ''soggy'', ''soil'', ''solar'', ''sold'']"

definition legacy_words_27 :: "string list" where
  "legacy_words_27 = [
    ''sole'', ''solely'', ''solemn'', ''solid'', ''solo'', ''solve'', ''some'', ''son'',
    ''sonar'', ''sonata'', ''song'', ''sonic'', ''sony'', ''soon'', ''sooner'', ''soot'',
    ''soothe'', ''sordid'', ''sore'', ''sorrow'', ''sorry'', ''sort'', ''soul'', ''sound'',
    ''soup'', ''sour'', ''source'', ''soviet'', ''sow'', ''space'', ''spade'', ''spain'',
    ''span'', ''spare'', ''spark'', ''sparse'', ''spasm'', ''spat'', ''spate'', ''speak'',
    ''spear'', ''speech'', ''speed'', ''speedy'', ''spell'', ''spend'', ''sphere'', ''spice'',
    ''spicy'', ''spider'', ''spiky'', ''spill'', ''spin'', ''spinal'', ''spine'', ''spiral'',
    ''spirit'', ''spit'', ''spite'', ''splash'', ''split'', ''spoil'', ''spoke'', ''sponge'',
    ''spoon'', ''sport'', ''spot'', ''spouse'', ''spray'', ''spread'', ''spree'', ''spring'',
    ''sprint'', ''spur'', ''squad'', ''square'', ''squash'', ''squat'', ''squid'', ''stab'',
    ''stable'', ''stack'', ''staff'', ''stage'', ''stain'', ''stair'', ''stairs'', ''stake'',
    ''stale'', ''stall'', ''stamp'', ''stance'', ''stand'', ''staple'', ''star'', ''starch'',
    ''stare'', ''stark'', ''start'', ''starve'', ''state'', ''static'', ''statue'', ''status'',
    ''stay'', ''stead'', ''steady'', ''steak'', ''steal'', ''steam'', ''steel'', ''steep'',
    ''steer'', ''stem'', ''stench'', ''step'', ''stereo'', ''stern'', ''stew'', ''stick'',
    ''sticky'', ''stiff'', ''stifle'', ''stigma'', ''still'', ''sting'', ''stint'', ''stir'']"

definition legacy_words_28 :: "string list" where
  "legacy_words_28 = [
    ''stitch'', ''stock'', ''stocky'', ''stone'', ''stony'', ''stool'', ''stop'', ''store'',
    ''storm'', ''stormy'', ''story'', ''stout'', ''stove'', ''stow'', ''strain'', ''strait'',
    ''strand'', ''strap'', ''strata'', ''straw'', ''stray'', ''streak'', ''stream'', ''street'',
    ''stress'', ''strict'', ''stride'', ''strife'', ''strike'', ''string'', ''strip'',
    ''stripe'', ''strive'', ''stroke'', ''stroll'', ''strong'', ''stud'', ''studio'', ''study'',
    ''stuff'', ''stuffy'', ''stunt'', ''stupid'', ''sturdy'', ''style'', ''submit'', ''subtle'',
    ''subtly'', ''suburb'', ''such'', ''sudden'', ''sue'', ''suez'', ''suffer'', ''sugar'',
    ''suit'', ''suite'', ''suitor'', ''sullen'', ''sultan'', ''sum'', ''summer'', ''summit'',
    ''summon'', ''sun'', ''sunday'', ''sunny'', ''sunset'', ''super'', ''superb'', ''supper'',
    ''supple'', ''supply'', ''sure'', ''surely'', ''surf'', ''surge'', ''survey'', ''suture'',
    ''swamp'', ''swan'', ''swap'', ''swarm'', ''sway'', ''swear'', ''sweat'', ''sweaty'',
    ''sweden'', ''sweep'', ''sweet'', ''swell'', ''swift'', ''swim'', ''swine'', ''swing'',
    ''swirl'', ''swiss'', ''switch'', ''sword'', ''swore'', ''sydney'', ''symbol'', ''synod'',
    ''syntax'', ''syria'', ''syrup'', ''system'', ''table'', ''tablet'', ''taboo'', ''tacit'',
    ''tackle'', ''tact'', ''tactic'', ''tail'', ''tailor'', ''taiwan'', ''take'', ''tale'',
    ''talent'', ''talk'', ''tall'', ''tally'', ''tame'', ''tampa'', ''tan'', ''tandem'',
    ''tangle'']"

definition legacy_words_29 :: "string list" where
  "legacy_words_29 = [
    ''tank'', ''tap'', ''tape'', ''target'', ''tariff'', ''tarp'', ''tart'', ''tarzan'',
    ''task'', ''taste'', ''tasty'', ''tattoo'', ''taurus'', ''taut'', ''tavern'', ''tax'',
    ''taxi'', ''tea'', ''teach'', ''teak'', ''team'', ''tear'', ''tease'', ''tech'', ''teeth'',
    ''tell'', ''temper'', ''temple'', ''tempo'', ''tempt'', ''ten'', ''tenant'', ''tend'',
    ''tender'', ''tendon'', ''tennis'', ''tenor'', ''tense'', ''tent'', ''tenth'', ''tenure'',
    ''teresa'', ''term'', ''terror'', ''terse'', ''test'', ''texas'', ''text'', ''thank'',
    ''thaw'', ''them'', ''theme'', ''thence'', ''theory'', ''there'', ''these'', ''thesis'',
    ''they'', ''thick'', ''thief'', ''thigh'', ''thin'', ''thing'', ''think'', ''third'',
    ''thirst'', ''thirty'', ''this'', ''thomas'', ''thorn'', ''those'', ''though'', ''thread'',
    ''threat'', ''three'', ''thrill'', ''thrive'', ''throat'', ''throne'', ''throng'',
    ''throw'', ''thrust'', ''thud'', ''thug'', ''thumb'', ''thus'', ''thyme'', ''tibet'',
    ''tick'', ''ticket'', ''tidal'', ''tide'', ''tidy'', ''tie'', ''tier'', ''tiger'',
    ''tight'', ''tile'', ''till'', ''tilt'', ''timber'', ''time'', ''timid'', ''tin'', ''tiny'',
    ''tip'', ''tire'', ''tissue'', ''title'', ''toad'', ''toast'', ''today'', ''toe'',
    ''toilet'', ''token'', ''tokyo'', ''told'', ''toll'', ''tom'', ''tomato'', ''tomb'',
    ''tonal'', ''tone'', ''tongue'', ''tonic'', ''too'', ''took'', ''tool'']"

definition legacy_words_30 :: "string list" where
  "legacy_words_30 = [
    ''tooth'', ''top'', ''topaz'', ''topic'', ''torch'', ''torque'', ''torso'', ''tort'',
    ''toss'', ''total'', ''touch'', ''tough'', ''tour'', ''toward'', ''towel'', ''tower'',
    ''town'', ''toxic'', ''toxin'', ''toy'', ''trace'', ''track'', ''tract'', ''trade'',
    ''tragic'', ''trail'', ''train'', ''trait'', ''tram'', ''trance'', ''trap'', ''trauma'',
    ''travel'', ''tray'', ''tread'', ''treat'', ''treaty'', ''treble'', ''tree'', ''trek'',
    ''tremor'', ''trench'', ''trend'', ''trendy'', ''trial'', ''tribal'', ''tribe'', ''trick'',
    ''tricky'', ''tried'', ''trifle'', ''trim'', ''trio'', ''trip'', ''triple'', ''troop'',
    ''trophy'', ''trot'', ''trough'', ''trout'', ''truce'', ''truck'', ''true'', ''truly'',
    ''trunk'', ''trust'', ''truth'', ''try'', ''tube'', ''tumble'', ''tuna'', ''tundra'',
    ''tune'', ''tunic'', ''tunnel'', ''turban'', ''turf'', ''turk'', ''turkey'', ''turn'',
    ''turtle'', ''tutor'', ''tweed'', ''twelve'', ''twenty'', ''twice'', ''twin'', ''twist'',
    ''two'', ''tycoon'', ''tying'', ''type'', ''tyrant'', ''ugly'', ''ulcer'', ''ultra'',
    ''umpire'', ''unable'', ''uncle'', ''under'', ''uneasy'', ''unfair'', ''unify'', ''union'',
    ''unique'', ''unit'', ''unite'', ''unity'', ''unlike'', ''unrest'', ''unruly'', ''until'',
    ''update'', ''upheld'', ''uphill'', ''uphold'', ''upon'', ''upper'', ''uproar'', ''upset'',
    ''upshot'', ''uptake'', ''upturn'', ''upward'', ''urban'', ''urge'', ''urgent'', ''urging'']"

definition legacy_words_31 :: "string list" where
  "legacy_words_31 = [
    ''urine'', ''usable'', ''usage'', ''use'', ''useful'', ''user'', ''usual'', ''utmost'',
    ''utter'', ''vacant'', ''vacuum'', ''vague'', ''vain'', ''valet'', ''valid'', ''valley'',
    ''value'', ''valve'', ''van'', ''vanish'', ''vanity'', ''vary'', ''vase'', ''vast'',
    ''vat'', ''vault'', ''vector'', ''veil'', ''vein'', ''velvet'', ''vendor'', ''veneer'',
    ''venice'', ''venom'', ''vent'', ''venue'', ''venus'', ''verb'', ''verbal'', ''verge'',
    ''verify'', ''verity'', ''verse'', ''versus'', ''very'', ''vessel'', ''vest'', ''vet'',
    ''veto'', ''via'', ''viable'', ''vicar'', ''vice'', ''victim'', ''victor'', ''video'',
    ''vienna'', ''view'', ''vigil'', ''viking'', ''vile'', ''villa'', ''vine'', ''vinyl'',
    ''viola'', ''violet'', ''violin'', ''viral'', ''virgo'', ''virtue'', ''virus'', ''visa'',
    ''vision'', ''visit'', ''visual'', ''vital'', ''vivid'', ''vocal'', ''vodka'', ''vogue'',
    ''voice'', ''void'', ''volley'', ''volume'', ''vote'', ''vowel'', ''voyage'', ''vulgar'',
    ''wade'', ''wage'', ''waist'', ''wait'', ''waiter'', ''wake'', ''walk'', ''walker'',
    ''wall'', ''wallet'', ''walnut'', ''wander'', ''want'', ''war'', ''warden'', ''warm'',
    ''warmth'', ''warn'', ''warp'', ''warsaw'', ''wary'', ''was'', ''wash'', ''wasp'',
    ''waste'', ''watch'', ''water'', ''watery'', ''wave'', ''wax'', ''way'', ''weak'',
    ''weaken'', ''wealth'', ''weapon'', ''wear'', ''weary'', ''weave'', ''wedge'', ''wee'']"

definition legacy_words_32 :: "string list" where
  "legacy_words_32 = [
    ''weed'', ''week'', ''weekly'', ''weep'', ''weigh'', ''weight'', ''weird'', ''well'',
    ''were'', ''west'', ''wet'', ''whale'', ''wharf'', ''what'', ''wheat'', ''wheel'', ''when'',
    ''whence'', ''where'', ''which'', ''whiff'', ''while'', ''whim'', ''whip'', ''whisky'',
    ''white'', ''who'', ''whole'', ''wholly'', ''whom'', ''whose'', ''why'', ''wicked'',
    ''wide'', ''widely'', ''widen'', ''wider'', ''widow'', ''width'', ''wife'', ''wig'',
    ''wild'', ''wildly'', ''will'', ''willow'', ''wily'', ''win'', ''wind'', ''window'',
    ''windy'', ''wine'', ''wing'', ''wink'', ''winner'', ''winter'', ''wipe'', ''wire'',
    ''wisdom'', ''wise'', ''wish'', ''wit'', ''witch'', ''with'', ''within'', ''witty'',
    ''wizard'', ''woke'', ''wolf'', ''wolves'', ''woman'', ''womb'', ''won'', ''wonder'',
    ''wood'', ''wooden'', ''woods'', ''woody'', ''wool'', ''word'', ''work'', ''worker'',
    ''world'', ''worm'', ''worry'', ''worse'', ''worst'', ''worth'', ''worthy'', ''would'',
    ''wound'', ''wrap'', ''wrath'', ''wreath'', ''wreck'', ''wring'', ''wrist'', ''writ'',
    ''write'', ''writer'', ''wrong'', ''xerox'', ''yacht'', ''yale'', ''yard'', ''yarn'',
    ''yeah'', ''year'', ''yeard'', ''yeast'', ''yellow'', ''yet'', ''yield'', ''yogurt'',
    ''yolk'', ''you'', ''young'', ''your'', ''youth'', ''zaire'', ''zeal'', ''zebra'',
    ''zenith'', ''zero'', ''zeus'', ''zigzag'', ''zinc'', ''zombie'', ''zone'']"

definition legacy_pieces :: "string list list" where
  "legacy_pieces = [
    legacy_words_01, legacy_words_02, legacy_words_03, legacy_words_04, legacy_words_05,
    legacy_words_06, legacy_words_07, legacy_words_08, legacy_words_09, legacy_words_10,
    legacy_words_11, legacy_words_12, legacy_words_13, legacy_words_14, legacy_words_15,
    legacy_words_16, legacy_words_17, legacy_words_18, legacy_words_19, legacy_words_20,
    legacy_words_21, legacy_words_22, legacy_words_23, legacy_words_24, legacy_words_25,
    legacy_words_26, legacy_words_27, legacy_words_28, legacy_words_29, legacy_words_30,
    legacy_words_31, legacy_words_32]"

definition legacy_words :: "string list" where
  "legacy_words = concat legacy_pieces"

section \<open>No word occurs twice\<close>

definition legacy_words_05_swapped :: "string list" where
  "legacy_words_05_swapped = legacy_words_05[32 := legacy_words_05 ! 33, 33 := legacy_words_05 ! 32]"

lemma legacy_words_01_sorted: "ascending (legacy_words_01 @ [hd legacy_words_02])" by code_simp
lemma legacy_words_01_small: "list_all (list_all is_small) legacy_words_01" by code_simp
lemma legacy_words_01_length: "length legacy_words_01 = 128" by (simp add: legacy_words_01_def)

lemma legacy_words_02_sorted: "ascending (legacy_words_02 @ [hd legacy_words_03])" by code_simp
lemma legacy_words_02_small: "list_all (list_all is_small) legacy_words_02" by code_simp
lemma legacy_words_02_length: "length legacy_words_02 = 128" by (simp add: legacy_words_02_def)

lemma legacy_words_03_sorted: "ascending (legacy_words_03 @ [hd legacy_words_04])" by code_simp
lemma legacy_words_03_small: "list_all (list_all is_small) legacy_words_03" by code_simp
lemma legacy_words_03_length: "length legacy_words_03 = 128" by (simp add: legacy_words_03_def)

lemma legacy_words_04_sorted: "ascending (legacy_words_04 @ [hd legacy_words_05_swapped])" by code_simp
lemma legacy_words_04_small: "list_all (list_all is_small) legacy_words_04" by code_simp
lemma legacy_words_04_length: "length legacy_words_04 = 128" by (simp add: legacy_words_04_def)

lemma legacy_words_05_swapped_sorted: "ascending (legacy_words_05_swapped @ [hd legacy_words_06])" by code_simp
lemma legacy_words_05_small: "list_all (list_all is_small) legacy_words_05" by code_simp
lemma legacy_words_05_length: "length legacy_words_05 = 128" by (simp add: legacy_words_05_def)

lemma legacy_words_06_sorted: "ascending (legacy_words_06 @ [hd legacy_words_07])" by code_simp
lemma legacy_words_06_small: "list_all (list_all is_small) legacy_words_06" by code_simp
lemma legacy_words_06_length: "length legacy_words_06 = 128" by (simp add: legacy_words_06_def)

lemma legacy_words_07_sorted: "ascending (legacy_words_07 @ [hd legacy_words_08])" by code_simp
lemma legacy_words_07_small: "list_all (list_all is_small) legacy_words_07" by code_simp
lemma legacy_words_07_length: "length legacy_words_07 = 128" by (simp add: legacy_words_07_def)

lemma legacy_words_08_sorted: "ascending (legacy_words_08 @ [hd legacy_words_09])" by code_simp
lemma legacy_words_08_small: "list_all (list_all is_small) legacy_words_08" by code_simp
lemma legacy_words_08_length: "length legacy_words_08 = 128" by (simp add: legacy_words_08_def)

lemma legacy_words_09_sorted: "ascending (legacy_words_09 @ [hd legacy_words_10])" by code_simp
lemma legacy_words_09_small: "list_all (list_all is_small) legacy_words_09" by code_simp
lemma legacy_words_09_length: "length legacy_words_09 = 128" by (simp add: legacy_words_09_def)

lemma legacy_words_10_sorted: "ascending (legacy_words_10 @ [hd legacy_words_11])" by code_simp
lemma legacy_words_10_small: "list_all (list_all is_small) legacy_words_10" by code_simp
lemma legacy_words_10_length: "length legacy_words_10 = 128" by (simp add: legacy_words_10_def)

lemma legacy_words_11_sorted: "ascending (legacy_words_11 @ [hd legacy_words_12])" by code_simp
lemma legacy_words_11_small: "list_all (list_all is_small) legacy_words_11" by code_simp
lemma legacy_words_11_length: "length legacy_words_11 = 128" by (simp add: legacy_words_11_def)

lemma legacy_words_12_sorted: "ascending (legacy_words_12 @ [hd legacy_words_13])" by code_simp
lemma legacy_words_12_small: "list_all (list_all is_small) legacy_words_12" by code_simp
lemma legacy_words_12_length: "length legacy_words_12 = 128" by (simp add: legacy_words_12_def)

lemma legacy_words_13_sorted: "ascending (legacy_words_13 @ [hd legacy_words_14])" by code_simp
lemma legacy_words_13_small: "list_all (list_all is_small) legacy_words_13" by code_simp
lemma legacy_words_13_length: "length legacy_words_13 = 128" by (simp add: legacy_words_13_def)

lemma legacy_words_14_sorted: "ascending (legacy_words_14 @ [hd legacy_words_15])" by code_simp
lemma legacy_words_14_small: "list_all (list_all is_small) legacy_words_14" by code_simp
lemma legacy_words_14_length: "length legacy_words_14 = 128" by (simp add: legacy_words_14_def)

lemma legacy_words_15_sorted: "ascending (legacy_words_15 @ [hd legacy_words_16])" by code_simp
lemma legacy_words_15_small: "list_all (list_all is_small) legacy_words_15" by code_simp
lemma legacy_words_15_length: "length legacy_words_15 = 128" by (simp add: legacy_words_15_def)

lemma legacy_words_16_sorted: "ascending (legacy_words_16 @ [hd legacy_words_17])" by code_simp
lemma legacy_words_16_small: "list_all (list_all is_small) legacy_words_16" by code_simp
lemma legacy_words_16_length: "length legacy_words_16 = 128" by (simp add: legacy_words_16_def)

lemma legacy_words_17_sorted: "ascending (legacy_words_17 @ [hd legacy_words_18])" by code_simp
lemma legacy_words_17_small: "list_all (list_all is_small) legacy_words_17" by code_simp
lemma legacy_words_17_length: "length legacy_words_17 = 128" by (simp add: legacy_words_17_def)

lemma legacy_words_18_sorted: "ascending (legacy_words_18 @ [hd legacy_words_19])" by code_simp
lemma legacy_words_18_small: "list_all (list_all is_small) legacy_words_18" by code_simp
lemma legacy_words_18_length: "length legacy_words_18 = 128" by (simp add: legacy_words_18_def)

lemma legacy_words_19_sorted: "ascending (legacy_words_19 @ [hd legacy_words_20])" by code_simp
lemma legacy_words_19_small: "list_all (list_all is_small) legacy_words_19" by code_simp
lemma legacy_words_19_length: "length legacy_words_19 = 128" by (simp add: legacy_words_19_def)

lemma legacy_words_20_sorted: "ascending (legacy_words_20 @ [hd legacy_words_21])" by code_simp
lemma legacy_words_20_small: "list_all (list_all is_small) legacy_words_20" by code_simp
lemma legacy_words_20_length: "length legacy_words_20 = 128" by (simp add: legacy_words_20_def)

lemma legacy_words_21_sorted: "ascending (legacy_words_21 @ [hd legacy_words_22])" by code_simp
lemma legacy_words_21_small: "list_all (list_all is_small) legacy_words_21" by code_simp
lemma legacy_words_21_length: "length legacy_words_21 = 128" by (simp add: legacy_words_21_def)

lemma legacy_words_22_sorted: "ascending (legacy_words_22 @ [hd legacy_words_23])" by code_simp
lemma legacy_words_22_small: "list_all (list_all is_small) legacy_words_22" by code_simp
lemma legacy_words_22_length: "length legacy_words_22 = 128" by (simp add: legacy_words_22_def)

lemma legacy_words_23_sorted: "ascending (legacy_words_23 @ [hd legacy_words_24])" by code_simp
lemma legacy_words_23_small: "list_all (list_all is_small) legacy_words_23" by code_simp
lemma legacy_words_23_length: "length legacy_words_23 = 128" by (simp add: legacy_words_23_def)

lemma legacy_words_24_sorted: "ascending (legacy_words_24 @ [hd legacy_words_25])" by code_simp
lemma legacy_words_24_small: "list_all (list_all is_small) legacy_words_24" by code_simp
lemma legacy_words_24_length: "length legacy_words_24 = 128" by (simp add: legacy_words_24_def)

lemma legacy_words_25_sorted: "ascending (legacy_words_25 @ [hd legacy_words_26])" by code_simp
lemma legacy_words_25_small: "list_all (list_all is_small) legacy_words_25" by code_simp
lemma legacy_words_25_length: "length legacy_words_25 = 128" by (simp add: legacy_words_25_def)

lemma legacy_words_26_sorted: "ascending (legacy_words_26 @ [hd legacy_words_27])" by code_simp
lemma legacy_words_26_small: "list_all (list_all is_small) legacy_words_26" by code_simp
lemma legacy_words_26_length: "length legacy_words_26 = 128" by (simp add: legacy_words_26_def)

lemma legacy_words_27_sorted: "ascending (legacy_words_27 @ [hd legacy_words_28])" by code_simp
lemma legacy_words_27_small: "list_all (list_all is_small) legacy_words_27" by code_simp
lemma legacy_words_27_length: "length legacy_words_27 = 128" by (simp add: legacy_words_27_def)

lemma legacy_words_28_sorted: "ascending (legacy_words_28 @ [hd legacy_words_29])" by code_simp
lemma legacy_words_28_small: "list_all (list_all is_small) legacy_words_28" by code_simp
lemma legacy_words_28_length: "length legacy_words_28 = 128" by (simp add: legacy_words_28_def)

lemma legacy_words_29_sorted: "ascending (legacy_words_29 @ [hd legacy_words_30])" by code_simp
lemma legacy_words_29_small: "list_all (list_all is_small) legacy_words_29" by code_simp
lemma legacy_words_29_length: "length legacy_words_29 = 128" by (simp add: legacy_words_29_def)

lemma legacy_words_30_sorted: "ascending (legacy_words_30 @ [hd legacy_words_31])" by code_simp
lemma legacy_words_30_small: "list_all (list_all is_small) legacy_words_30" by code_simp
lemma legacy_words_30_length: "length legacy_words_30 = 128" by (simp add: legacy_words_30_def)

lemma legacy_words_31_sorted: "ascending (legacy_words_31 @ [hd legacy_words_32])" by code_simp
lemma legacy_words_31_small: "list_all (list_all is_small) legacy_words_31" by code_simp
lemma legacy_words_31_length: "length legacy_words_31 = 128" by (simp add: legacy_words_31_def)

lemma legacy_words_32_sorted: "ascending (legacy_words_32)" by code_simp
lemma legacy_words_32_small: "list_all (list_all is_small) legacy_words_32" by code_simp
lemma legacy_words_32_length: "length legacy_words_32 = 128" by (simp add: legacy_words_32_def)

lemmas legacy_sorted =
  legacy_words_01_sorted legacy_words_02_sorted legacy_words_03_sorted legacy_words_04_sorted
  legacy_words_05_swapped_sorted legacy_words_06_sorted legacy_words_07_sorted
  legacy_words_08_sorted legacy_words_09_sorted legacy_words_10_sorted legacy_words_11_sorted
  legacy_words_12_sorted legacy_words_13_sorted legacy_words_14_sorted legacy_words_15_sorted
  legacy_words_16_sorted legacy_words_17_sorted legacy_words_18_sorted legacy_words_19_sorted
  legacy_words_20_sorted legacy_words_21_sorted legacy_words_22_sorted legacy_words_23_sorted
  legacy_words_24_sorted legacy_words_25_sorted legacy_words_26_sorted legacy_words_27_sorted
  legacy_words_28_sorted legacy_words_29_sorted legacy_words_30_sorted legacy_words_31_sorted
  legacy_words_32_sorted

lemmas legacy_small =
  legacy_words_01_small legacy_words_02_small legacy_words_03_small legacy_words_04_small
  legacy_words_05_small legacy_words_06_small legacy_words_07_small legacy_words_08_small
  legacy_words_09_small legacy_words_10_small legacy_words_11_small legacy_words_12_small
  legacy_words_13_small legacy_words_14_small legacy_words_15_small legacy_words_16_small
  legacy_words_17_small legacy_words_18_small legacy_words_19_small legacy_words_20_small
  legacy_words_21_small legacy_words_22_small legacy_words_23_small legacy_words_24_small
  legacy_words_25_small legacy_words_26_small legacy_words_27_small legacy_words_28_small
  legacy_words_29_small legacy_words_30_small legacy_words_31_small legacy_words_32_small

lemmas legacy_lengths =
  legacy_words_01_length legacy_words_02_length legacy_words_03_length legacy_words_04_length
  legacy_words_05_length legacy_words_06_length legacy_words_07_length legacy_words_08_length
  legacy_words_09_length legacy_words_10_length legacy_words_11_length legacy_words_12_length
  legacy_words_13_length legacy_words_14_length legacy_words_15_length legacy_words_16_length
  legacy_words_17_length legacy_words_18_length legacy_words_19_length legacy_words_20_length
  legacy_words_21_length legacy_words_22_length legacy_words_23_length legacy_words_24_length
  legacy_words_25_length legacy_words_26_length legacy_words_27_length legacy_words_28_length
  legacy_words_29_length legacy_words_30_length legacy_words_31_length legacy_words_32_length

definition legacy_ordered :: "string list list" where
  "legacy_ordered = [
    legacy_words_01, legacy_words_02, legacy_words_03, legacy_words_04, legacy_words_05_swapped,
    legacy_words_06, legacy_words_07, legacy_words_08, legacy_words_09, legacy_words_10,
    legacy_words_11, legacy_words_12, legacy_words_13, legacy_words_14, legacy_words_15,
    legacy_words_16, legacy_words_17, legacy_words_18, legacy_words_19, legacy_words_20,
    legacy_words_21, legacy_words_22, legacy_words_23, legacy_words_24, legacy_words_25,
    legacy_words_26, legacy_words_27, legacy_words_28, legacy_words_29, legacy_words_30,
    legacy_words_31, legacy_words_32]"

lemma legacy_words_05_swapped_length: "length legacy_words_05_swapped = 128"
  by (simp add: legacy_words_05_swapped_def legacy_words_05_length)

lemma legacy_words_05_swapped_mset: "mset legacy_words_05_swapped = mset legacy_words_05"
  unfolding legacy_words_05_swapped_def by (rule mset_swap) (simp_all add: legacy_words_05_length)

lemma legacy_no_empty: "length p = 128 \<Longrightarrow> p \<noteq> []"
  by auto

lemma legacy_length: "length legacy_words = 4096"
  by (simp add: legacy_words_def legacy_pieces_def legacy_lengths)

lemma legacy_ordered_distinct: "distinct (concat legacy_ordered)"
  unfolding legacy_ordered_def
  by (intro ascending_distinct ascending_concat)
    (simp only: ascending_pieces.simps legacy_sorted legacy_lengths[THEN legacy_no_empty]
      legacy_words_05_swapped_length[THEN legacy_no_empty] simp_thms not_False_eq_True)

lemma legacy_ordered_mset: "mset (concat legacy_ordered) = mset legacy_words"
  unfolding legacy_words_def legacy_ordered_def legacy_pieces_def
  by (simp only: concat.simps mset_append legacy_words_05_swapped_mset)

lemma legacy_distinct: "distinct legacy_words"
  using legacy_ordered_distinct mset_eq_imp_distinct_iff[OF legacy_ordered_mset] by simp

lemma legacy_lower: "w \<in> set legacy_words \<Longrightarrow> toLowerCase w = w"
  by (rule lower_words[of legacy_words])
    (simp_all only: legacy_words_def legacy_pieces_def concat.simps list_all_append list.pred_inject append_Nil2
      legacy_small simp_thms)

end
