(* ===== verification/Mnemonic.thy ===== *)
theory Mnemonic
  imports Bip39Words LegacyWords Longs "HOL-Library.Signed_Division"
begin

text \<open>
  Phrases of words that stand for a key, \<open>packages/cryptography/src/Mnemonic.js\<close> with
  \<open>util/entropy.js\<close>: making a phrase from random bytes, checking one, and the bytes behind the legacy
  forms. The SHA-256 of the platform and its random bytes are arguments. Big numbers of
  \<open>bignumber.js\<close> that hold integers are \<open>int\<close>; its division rounds towards zero.
\<close>

unbundle bit_operations_syntax

section \<open>Bits as text\<close>

text \<open>\<open>to_binary n\<close> is \<open>n.toString(2)\<close>, \<open>binaryToByte s\<close> is \<open>parseInt(s, 2)\<close> (\<open>None\<close> is \<open>NaN\<close>), and
  \<open>pieces k s\<close> is \<open>s.match(/(.{1,k})/g)\<close>, the empty array standing for \<open>null\<close>.\<close>

fun to_binary :: "nat \<Rightarrow> string" where
  "to_binary n = (if n < 2 then [digit_char n] else to_binary (n div 2) @ [digit_char (n mod 2)])"

declare to_binary.simps [simp del]

definition is_bit :: "char \<Rightarrow> bool" where
  "is_bit c \<longleftrightarrow> c = CHR ''0'' \<or> c = CHR ''1''"

definition bin_val :: "string \<Rightarrow> nat" where
  "bin_val s = foldl (\<lambda>a c. 2 * a + digit_val c) 0 s"

definition binaryToByte :: "string \<Rightarrow> nat option" where
  "binaryToByte s = (let d = takeWhile is_bit s in if d = [] then None else Some (bin_val d))"

fun pieces :: "nat \<Rightarrow> 'a list \<Rightarrow> 'a list list" where
  "pieces k [] = []"
| "pieces k (x # xs) = take (Suc (k - 1)) (x # xs) # pieces k (drop (k - 1) xs)"

definition bytesToBinary :: "byte list \<Rightarrow> string" where
  "bytesToBinary bs = concat (map (\<lambda>b. padStart 8 CHR ''0'' (to_binary (unat b))) bs)"

definition deriveChecksumBits :: "(byte list \<Rightarrow> byte list) \<Rightarrow> byte list \<Rightarrow> string" where
  "deriveChecksumBits sha e = take (length e * 8 div 32) (bytesToBinary (sha e))"

section \<open>Making a phrase\<close>

record mnemonic =
  phrase :: "string list"

text \<open>An index out of range would give \<open>undefined\<close>; with bits in pieces of eleven there is none.\<close>

definition word_of_bits :: "string \<Rightarrow> string option" where
  "word_of_bits bin =
     (case binaryToByte bin of
        None \<Rightarrow> None
      | Some i \<Rightarrow> if i < length bip39_words then Some (bip39_words ! i) else None)"

definition words_of_seed :: "(byte list \<Rightarrow> byte list) \<Rightarrow> byte list \<Rightarrow> string option list" where
  "words_of_seed sha seed =
     map word_of_bits (pieces 11 (bytesToBinary seed @ deriveChecksumBits sha seed))"

definition mnemonic_generate_n ::
    "(byte list \<Rightarrow> byte list) \<Rightarrow> (nat \<Rightarrow> byte list) \<Rightarrow> nat \<Rightarrow> mnemonic result" where
  "mnemonic_generate_n sha rnd n =
     (let from_seed = \<lambda>seed. Inr \<lparr>phrase = map the (words_of_seed sha seed)\<rparr>
      in if n = 12 then from_seed (rnd 16)
         else if n = 24 then from_seed (rnd 32)
         else Inl (Error ''unsupported phrase length, only 12 or 24 are supported''))"

definition mnemonic_generate ::
    "(byte list \<Rightarrow> byte list) \<Rightarrow> (nat \<Rightarrow> byte list) \<Rightarrow> mnemonic result" where
  "mnemonic_generate sha rnd = mnemonic_generate_n sha rnd 24"

definition mnemonic_generate12 ::
    "(byte list \<Rightarrow> byte list) \<Rightarrow> (nat \<Rightarrow> byte list) \<Rightarrow> mnemonic result" where
  "mnemonic_generate12 sha rnd = mnemonic_generate_n sha rnd 12"

section \<open>Errors\<close>

datatype bad_reason = BadLength | ChecksumMismatch | UnknownWords

record bad_mnemonic =
  bad_message :: string
  bad_reason :: bad_reason
  bad_phrase :: mnemonic
  unknownWordIndices :: "nat list"

definition reason_message :: "bad_reason \<Rightarrow> string" where
  "reason_message r =
     (case r of
        BadLength \<Rightarrow> ''mnemonic is of an unexpected number of words''
      | ChecksumMismatch \<Rightarrow> ''checksum byte in mnemonic did not match the rest of the mnemonic''
      | UnknownWords \<Rightarrow> ''mnemonic contained words that are not in the standard word list'')"

definition bad_mnemonic_error :: "mnemonic \<Rightarrow> bad_reason \<Rightarrow> nat list \<Rightarrow> bad_mnemonic" where
  "bad_mnemonic_error mn r idx =
     \<lparr>bad_message = ''invalid mnemonic: '' @ reason_message r, bad_reason = r, bad_phrase = mn,
      unknownWordIndices = idx\<rparr>"

section \<open>The legacy forms\<close>

definition radix_number :: "int list \<Rightarrow> int \<Rightarrow> int" where
  "radix_number nums fromRadix = foldl (\<lambda>num element. num * fromRadix + element) 0 nums"

fun radix_bytes :: "int \<Rightarrow> int \<Rightarrow> nat \<Rightarrow> byte list" where
  "radix_bytes num toRadix 0 = []"
| "radix_bytes num toRadix (Suc n) =
     radix_bytes (num sdiv toRadix) toRadix n @ [word_of_int (num smod toRadix)]"

definition convertRadix :: "int list \<Rightarrow> int \<Rightarrow> int \<Rightarrow> nat \<Rightarrow> byte list" where
  "convertRadix nums fromRadix toRadix toLength =
     radix_bytes (radix_number nums fromRadix) toRadix toLength"

definition legacy1 :: "string list \<Rightarrow> string list \<Rightarrow> byte list \<times> byte" where
  "legacy1 ws wordlist =
     (let indicies = map (\<lambda>w. indexOf wordlist (toLowerCase w)) ws;
          data = convertRadix indicies (int (length wordlist)) 256 33;
          checksum = last data
      in (map (\<lambda>b. b XOR checksum) (butlast data), checksum))"

text \<open>The checksum works on 32-bit numbers that stay below 256.\<close>

fun crc_bits :: "nat \<Rightarrow> 32 word \<Rightarrow> 32 word" where
  "crc_bits 0 crc = crc"
| "crc_bits (Suc n) crc = crc_bits n (drop_bit 1 crc XOR (if crc AND 1 = 0 then 0 else 0xB2))"

definition crc8 :: "byte list \<Rightarrow> 32 word" where
  "crc8 data = foldl (\<lambda>crc b. crc_bits 8 (crc XOR ucast b)) 0xFF (butlast data) XOR 0xFF"

text \<open>
  The other form keeps the bits as booleans. Where the number of words is not a multiple of three
  the position of the checksum is a fraction, the bit read there is \<open>undefined\<close> and never equals the
  bit of the hash.
\<close>

definition bits_of_index :: "nat \<Rightarrow> bool list" where
  "bits_of_index i = map (\<lambda>k. (word_of_nat i :: 32 word) AND push_bit (10 - k) 1 \<noteq> 0) [0..<11]"

definition bytesToBits :: "byte list \<Rightarrow> bool list" where
  "bytesToBits bs =
     concat (map (\<lambda>b. map (\<lambda>j. (ucast b :: 32 word) AND push_bit (7 - j) 1 \<noteq> 0) [0..<8]) bs)"

fun fill_bits :: "bool list \<Rightarrow> nat \<Rightarrow> nat \<Rightarrow> byte \<Rightarrow> byte" where
  "fill_bits bits at 0 b = b"
| "fill_bits bits at (Suc n) b =
     fill_bits bits (Suc at) n (if at < length bits \<and> bits ! at then b OR push_bit n 1 else b)"

fun concat_bits :: "string list \<Rightarrow> string list \<Rightarrow> bool list result" where
  "concat_bits [] wordlist = Inr []"
| "concat_bits (w # ws) wordlist =
     (let index = indexOf wordlist (toLowerCase w)
      in if index < 0 then Inl (Error ''Word not found in wordlist'')
         else res_bind (concat_bits ws wordlist) (\<lambda>bits. Inr (bits_of_index (nat index) @ bits)))"

definition legacy2 ::
    "(byte list \<Rightarrow> byte list) \<Rightarrow> string list \<Rightarrow> string list \<Rightarrow> byte list result" where
  "legacy2 sha ws wordlist =
     res_bind (concat_bits ws wordlist) (\<lambda>concatBits.
       (if length ws mod 3 \<noteq> 0 then Inl (Error ''Checksum mismatch'')
        else
          let checksumBitsLen = length ws * 11 div 33;
              entropyBitsLen = length ws * 11 - checksumBitsLen;
              entropy = map (\<lambda>i. fill_bits concatBits (i * 8) 8 0) [0..<entropyBitsLen div 8];
              hashBits = bytesToBits (sha entropy)
          in if list_all (\<lambda>i. array_get (map Some concatBits) (entropyBitsLen + i) =
                           array_get (map Some hashBits) i) [0..<checksumBitsLen]
             then Inr entropy else Inl (Error ''Checksum mismatch'')))"

section \<open>Checking a phrase\<close>

definition unknown_words :: "(string \<Rightarrow> bool) \<Rightarrow> string list \<Rightarrow> nat list" where
  "unknown_words known ws = filter (\<lambda>i. \<not> known (ws ! i)) [0..<length ws]"

definition validate_legacy :: "mnemonic \<Rightarrow> bad_mnemonic + mnemonic" where
  "validate_legacy mn =
     (let unknown = unknown_words (\<lambda>w. toLowerCase w \<in> set legacy_words) (phrase mn)
      in if unknown \<noteq> [] then Inl (bad_mnemonic_error mn UnknownWords unknown)
         else (case legacy1 (phrase mn) legacy_words of
                 (seed, checksum) \<Rightarrow>
                   if ucast checksum \<noteq> crc8 seed then Inl (bad_mnemonic_error mn ChecksumMismatch [])
                   else Inr mn))"

definition bits_of_words :: "string list \<Rightarrow> string" where
  "bits_of_words ws =
     concat (map (\<lambda>w. padStart 11 CHR ''0'' (to_binary (nat (indexOf bip39_words w)))) ws)"

definition mnemonic_validate ::
    "(byte list \<Rightarrow> byte list) \<Rightarrow> mnemonic \<Rightarrow> bad_mnemonic + mnemonic" where
  "mnemonic_validate sha mn =
     (let ws = phrase mn
      in if length ws = 22 then validate_legacy mn
         else if \<not> (length ws = 12 \<or> length ws = 24) then Inl (bad_mnemonic_error mn BadLength [])
         else
           let unknown = unknown_words (\<lambda>w. w \<in> set bip39_words) ws
           in if unknown \<noteq> [] then Inl (bad_mnemonic_error mn UnknownWords unknown)
              else
                let bits = bits_of_words ws;
                    dividerIndex = length bits div 33 * 32;
                    entropyBits = take dividerIndex bits;
                    checksumBits = drop dividerIndex bits;
                    entropyBytes = map (\<lambda>b. of_nat (the (binaryToByte b))) (pieces 8 entropyBits);
                    newChecksum = deriveChecksumBits sha entropyBytes
                in if newChecksum \<noteq> checksumBits then Inl (bad_mnemonic_error mn ChecksumMismatch [])
                   else Inr mn)"

definition mnemonic_fromWords ::
    "(byte list \<Rightarrow> byte list) \<Rightarrow> string list \<Rightarrow> bad_mnemonic + mnemonic" where
  "mnemonic_fromWords sha ws = mnemonic_validate sha \<lparr>phrase = ws\<rparr>"

text \<open>\<open>split(/\s|,/)\<close>: every white space character and every comma ends a word.\<close>

fun split_at :: "(char \<Rightarrow> bool) \<Rightarrow> string \<Rightarrow> string list" where
  "split_at p [] = [[]]"
| "split_at p (c # s) =
     (if p c then [] # split_at p s
      else case split_at p s of [] \<Rightarrow> [[c]] | w # r \<Rightarrow> (c # w) # r)"

definition mnemonic_fromString ::
    "(byte list \<Rightarrow> byte list) \<Rightarrow> string \<Rightarrow> bad_mnemonic + mnemonic" where
  "mnemonic_fromString sha s =
     mnemonic_fromWords sha (split_at (\<lambda>c. is_space c \<or> c = CHR '','') s)"

fun join_with :: "string \<Rightarrow> string list \<Rightarrow> string" where
  "join_with sep [] = []"
| "join_with sep [w] = w"
| "join_with sep (w # v # r) = w @ sep @ join_with sep (v # r)"

definition mnemonic_toString :: "mnemonic \<Rightarrow> string" where
  "mnemonic_toString mn = join_with '' '' (phrase mn)"

text \<open>The bytes that \<open>toLegacyPrivateKey\<close> makes a private key of.\<close>

definition legacy_seed :: "(byte list \<Rightarrow> byte list) \<Rightarrow> mnemonic \<Rightarrow> byte list result" where
  "legacy_seed sha mn =
     (if length (phrase mn) = 22 then Inr (fst (legacy1 (phrase mn) legacy_words))
      else legacy2 sha (phrase mn) bip39_words)"

end
