(* ===== verification/PhraseBits.thy ===== *)
theory PhraseBits
  imports Mnemonic
begin

text \<open>
  The bits of a phrase: texts of zeros and ones against numbers and bytes, cutting them into pieces,
  and the words they name.
\<close>

section \<open>Numbers\<close>

definition bits_of :: "nat \<Rightarrow> nat \<Rightarrow> string" where
  "bits_of k n = padStart k CHR ''0'' (to_binary n)"

lemma bin_val_append: "bin_val (s @ t) = bin_val s * 2 ^ length t + bin_val t"
proof (induction t rule: rev_induct)
  case (snoc c t)
  then show ?case by (simp add: bin_val_def flip: append_assoc)
qed (simp add: bin_val_def)

lemma bin_val_single [simp]: "bin_val [] = 0" "bin_val [c] = digit_val c"
  by (simp_all add: bin_val_def)

lemma bin_val_to_binary [simp]: "bin_val (to_binary n) = n"
proof (induction n rule: to_binary.induct)
  case (1 n)
  then show ?case by (subst to_binary.simps) (simp add: bin_val_append)
qed

lemma to_binary_bits: "list_all is_bit (to_binary n)"
proof (induction n rule: to_binary.induct)
  case (1 n)
  have "m < 2 \<Longrightarrow> is_bit (digit_char m)" for m :: nat
    by (cases m) (auto simp: is_bit_def)
  with 1 show ?case by (subst to_binary.simps) simp
qed

lemma length_to_binary: "n < 2 ^ k \<Longrightarrow> 0 < k \<Longrightarrow> length (to_binary n) \<le> k"
proof (induction n arbitrary: k rule: to_binary.induct)
  case (1 n)
  show ?case
  proof (cases "n < 2")
    case True
    with 1(3) show ?thesis by (subst to_binary.simps) simp
  next
    case False
    with 1(2) have k: "k \<noteq> 1" by (intro notI) simp
    with 1(3) have "0 < k - 1" and "n div 2 < 2 ^ (k - 1)"
      using 1(2) by (simp_all add: less_mult_imp_div_less flip: power_Suc2)
    with 1(1)[OF False, of "k - 1"] False show ?thesis by (subst to_binary.simps) simp
  qed
qed

lemma bin_val_zeros: "bin_val (replicate k CHR ''0'') = 0"
  by (induction k) (simp_all add: bin_val_append[of "[_]", simplified] digit_val_def code_of_def)

lemma bits_of_props [simp]:
  "bin_val (bits_of k n) = n"
  "list_all is_bit (bits_of k n)"
proof -
  show "bin_val (bits_of k n) = n" by (simp add: bits_of_def padStart_def bin_val_append bin_val_zeros)
  have "list_all is_bit (replicate m CHR ''0'')" for m by (induction m) (simp_all add: is_bit_def)
  then show "list_all is_bit (bits_of k n)" using to_binary_bits by (simp add: bits_of_def padStart_def)
qed

lemma length_bits_of: "n < 2 ^ k \<Longrightarrow> 0 < k \<Longrightarrow> length (bits_of k n) = k"
  using length_to_binary[of n k] by (simp add: bits_of_def padStart_def)

lemma bit_digit: "is_bit c \<Longrightarrow> digit_val c < 2" "is_bit c \<Longrightarrow> is_bit d \<Longrightarrow> digit_val c = digit_val d \<Longrightarrow> c = d"
  by (auto simp: is_bit_def digit_val_def code_of_def)

lemma bin_val_bound: "list_all is_bit s \<Longrightarrow> bin_val s < 2 ^ length s"
proof (induction s rule: rev_induct)
  case (snoc c s)
  then show ?case using bit_digit(1)[of c] by (simp add: bin_val_append)
qed simp

lemma bin_val_inj:
  "list_all is_bit s \<Longrightarrow> list_all is_bit t \<Longrightarrow> length s = length t \<Longrightarrow> bin_val s = bin_val t \<Longrightarrow> s = t"
proof (induction s arbitrary: t rule: rev_induct)
  case (snoc c s)
  from snoc(4) obtain u d where t: "t = u @ [d]" by (cases t rule: rev_cases) simp_all
  from snoc(2,3) have bits: "is_bit c" "is_bit d" by (simp_all add: t)
  from snoc(5) have "bin_val s * 2 + digit_val c = bin_val u * 2 + digit_val d" by (simp add: t bin_val_append)
  with bit_digit(1)[OF bits(1)] bit_digit(1)[OF bits(2)]
  have eq: "bin_val s = bin_val u" "digit_val c = digit_val d" by presburger+
  with snoc.IH[of u] snoc.prems(1-3) have "s = u" by (simp add: t)
  with bit_digit(2)[OF bits eq(2)] show ?case by (simp add: t)
qed simp

lemma bits_of_bin_val: "list_all is_bit s \<Longrightarrow> s \<noteq> [] \<Longrightarrow> bits_of (length s) (bin_val s) = s"
  by (rule bin_val_inj) (simp_all add: length_bits_of bin_val_bound)

lemma binaryToByte_bits: "list_all is_bit s \<Longrightarrow> s \<noteq> [] \<Longrightarrow> binaryToByte s = Some (bin_val s)"
proof -
  assume "list_all is_bit s" "s \<noteq> []"
  then have "takeWhile is_bit s = s" by (simp only: list_all_iff takeWhile_eq_all_conv)
  with \<open>s \<noteq> []\<close> show ?thesis by (simp only: binaryToByte_def Let_def if_False)
qed

section \<open>Pieces\<close>

lemma pieces_take: "0 < k \<Longrightarrow> xs \<noteq> [] \<Longrightarrow> pieces k xs = take k xs # pieces k (drop k xs)"
  by (cases xs; cases k) simp_all

lemma pieces_concat: "0 < k \<Longrightarrow> concat (pieces k xs) = xs"
proof (induction k xs rule: pieces.induct)
  case (2 k x xs)
  then show ?case by (cases k) simp_all
qed simp

lemma pieces_of_concat: "0 < k \<Longrightarrow> list_all (\<lambda>p. length p = k) ps \<Longrightarrow> pieces k (concat ps) = ps"
proof (induction ps)
  case (Cons p ps)
  then have "p @ concat ps \<noteq> []" by auto
  with Cons show ?case by (simp add: pieces_take)
qed simp

lemma dvd_drop: "0 < k \<Longrightarrow> k dvd length xs \<Longrightarrow> xs \<noteq> [] \<Longrightarrow> k \<le> length xs \<and> k dvd length (drop k xs)"
  by (auto intro: dvd_diff_nat dest: dvd_imp_le)

lemma pieces_length: "0 < k \<Longrightarrow> k dvd length xs \<Longrightarrow> list_all (\<lambda>p. length p = k) (pieces k xs)"
proof (induction "length xs" arbitrary: xs rule: less_induct)
  case less
  show ?case
  proof (cases "xs = []")
    case False
    from dvd_drop[OF less(2,3) False] have "k \<le> length xs" and d: "k dvd length (drop k xs)" by simp_all
    with less(1)[OF _ less(2) d] less(2) show ?thesis by (simp add: pieces_take[OF less(2) False])
  qed simp
qed

lemma length_pieces: "0 < k \<Longrightarrow> k dvd length xs \<Longrightarrow> length (pieces k xs) * k = length xs"
proof -
  assume k: "0 < k" "k dvd length xs"
  have "length (concat ps) = length ps * k" if "list_all (\<lambda>p. length p = k) ps" for ps :: "'a list list"
    using that by (induction ps) simp_all
  from this[OF pieces_length[OF k]] show ?thesis by (simp add: pieces_concat[OF k(1)])
qed

lemma pieces_all: "0 < k \<Longrightarrow> list_all P xs \<Longrightarrow> list_all (list_all P) (pieces k xs)"
  using pieces_concat[of k xs] by (simp add: list_all_iff) (metis UN_I set_concat)

section \<open>Bytes\<close>

definition bits_bytes :: "string \<Rightarrow> byte list" where
  "bits_bytes s = map (\<lambda>b. of_nat (the (binaryToByte b))) (pieces 8 s)"

lemma bytesToBinary_bits: "bytesToBinary bs = concat (map (\<lambda>b. bits_of 8 (unat b)) bs)"
  by (simp add: bytesToBinary_def bits_of_def)

lemma length_byte_bits [simp]: "length (bits_of 8 (unat (b :: byte))) = 8"
  using unsigned_less[of b] by (intro length_bits_of) simp_all

lemma length_bytesToBinary [simp]: "length (bytesToBinary bs) = 8 * length bs"
  by (induction bs) (simp_all add: bytesToBinary_bits)

lemma bytesToBinary_all [simp]: "list_all is_bit (bytesToBinary bs)"
  by (induction bs) (simp_all add: bytesToBinary_bits)

lemma bits_bytes_back: "bits_bytes (bytesToBinary bs) = bs"
proof -
  have "pieces 8 (bytesToBinary bs) = map (\<lambda>b. bits_of 8 (unat b)) bs"
    unfolding bytesToBinary_bits by (rule pieces_of_concat) (simp_all add: list_all_iff)
  moreover have "binaryToByte (bits_of 8 (unat b)) = Some (unat b)" for b :: byte
    using binaryToByte_bits[of "bits_of 8 (unat b)"] length_byte_bits[of b] by fastforce
  ultimately show ?thesis by (simp add: bits_bytes_def comp_def)
qed

lemma piece_byte:
  "list_all is_bit p \<Longrightarrow> length p = 8 \<Longrightarrow> bits_of 8 (unat (of_nat (the (binaryToByte p)) :: byte)) = p"
proof -
  assume p: "list_all is_bit p" "length p = 8"
  then have "binaryToByte p = Some (bin_val p)" by (intro binaryToByte_bits) auto
  moreover have "unat (of_nat (bin_val p) :: byte) = bin_val p"
    using bin_val_bound[OF p(1)] p(2) by (simp add: unsigned_of_nat take_bit_nat_eq_self)
  ultimately show ?thesis using bits_of_bin_val[OF p(1)] p(2) by (cases p) simp_all
qed

lemma bytes_bits_back: "list_all is_bit s \<Longrightarrow> 8 dvd length s \<Longrightarrow> bytesToBinary (bits_bytes s) = s"
proof -
  assume s: "list_all is_bit s" "8 dvd length s"
  have "map (\<lambda>p. bits_of 8 (unat (of_nat (the (binaryToByte p)) :: byte))) (pieces 8 s) = pieces 8 s"
    using pieces_all[of 8, OF _ s(1)] pieces_length[of 8, OF _ s(2)]
    by (intro map_idI piece_byte) (simp_all add: list_all_iff)
  then show ?thesis by (simp add: bytesToBinary_bits bits_bytes_def comp_def pieces_concat)
qed

lemma length_bits_bytes: "8 dvd length s \<Longrightarrow> length (bits_bytes s) * 8 = length s"
  using length_pieces[of 8 s] by (simp add: bits_bytes_def)

section \<open>Words\<close>

lemma word_bits: "w \<in> set bip39_words \<Longrightarrow> length (bits_of 11 (nat (indexOf bip39_words w))) = 11"
  using indexOf_mem(1)[of w bip39_words] by (intro length_bits_of) (simp_all add: bip39_length)

lemma word_of_bits_index:
  "w \<in> set bip39_words \<Longrightarrow> word_of_bits (bits_of 11 (nat (indexOf bip39_words w))) = Some w"
  using indexOf_mem[of w bip39_words] word_bits[of w]
    binaryToByte_bits[of "bits_of 11 (nat (indexOf bip39_words w))"]
  by (fastforce simp: word_of_bits_def)

lemma word_of_bits_some:
  assumes "list_all is_bit b" and "length b = 11"
  shows "word_of_bits b = Some (bip39_words ! bin_val b)"
    and "bip39_words ! bin_val b \<in> set bip39_words"
    and "bits_of 11 (nat (indexOf bip39_words (bip39_words ! bin_val b))) = b"
proof -
  have bound: "bin_val b < length bip39_words"
    using bin_val_bound[OF assms(1)] by (simp add: assms(2) bip39_length)
  from assms have "binaryToByte b = Some (bin_val b)" by (intro binaryToByte_bits) auto
  with bound show "word_of_bits b = Some (bip39_words ! bin_val b)" by (simp add: word_of_bits_def)
  from bound show "bip39_words ! bin_val b \<in> set bip39_words" by simp
  show "bits_of 11 (nat (indexOf bip39_words (bip39_words ! bin_val b))) = b"
    using indexOf_nth[OF bip39_distinct bound] bits_of_bin_val[OF assms(1)] assms(2) by (cases b) simp_all
qed

lemma bits_of_words_concat: "bits_of_words ws = concat (map (\<lambda>w. bits_of 11 (nat (indexOf bip39_words w))) ws)"
  by (simp add: bits_of_words_def bits_of_def)

lemma bits_of_words_bits: "list_all is_bit (bits_of_words ws)"
  by (induction ws) (simp_all add: bits_of_words_concat)

lemma length_bits_of_words: "set ws \<subseteq> set bip39_words \<Longrightarrow> length (bits_of_words ws) = 11 * length ws"
  by (induction ws) (simp_all add: bits_of_words_concat word_bits)

text \<open>Bits in pieces of eleven and words are two forms of the same thing.\<close>

lemma bits_to_words:
  assumes "list_all is_bit s" and "11 dvd length s" and "map word_of_bits (pieces 11 s) = map Some ws"
  shows "bits_of_words ws = s" and "set ws \<subseteq> set bip39_words"
proof -
  have piece: "list_all is_bit b \<and> length b = 11" if "b \<in> set (pieces 11 s)" for b
    using that pieces_all[of 11, OF _ assms(1)] pieces_length[of 11, OF _ assms(2)] by (simp add: list_all_iff)
  have "map word_of_bits (pieces 11 s) = map (\<lambda>b. Some (bip39_words ! bin_val b)) (pieces 11 s)"
    using piece word_of_bits_some(1) by (intro map_cong) simp_all
  with assms(3) have "map the (map Some ws) = map the (map (\<lambda>b. Some (bip39_words ! bin_val b)) (pieces 11 s))"
    by simp
  then have ws: "ws = map (\<lambda>b. bip39_words ! bin_val b) (pieces 11 s)"
    by (simp add: comp_def)
  have "map (\<lambda>w. bits_of 11 (nat (indexOf bip39_words w))) ws = pieces 11 s"
    unfolding ws map_map comp_def using piece word_of_bits_some(3) by (intro map_idI) simp
  then show "bits_of_words ws = s" by (simp add: bits_of_words_concat pieces_concat)
  show "set ws \<subseteq> set bip39_words" using piece word_of_bits_some(2) by (auto simp: ws)
qed

lemma words_to_bits:
  assumes "set ws \<subseteq> set bip39_words"
  shows "map word_of_bits (pieces 11 (bits_of_words ws)) = map Some ws"
proof -
  have "pieces 11 (bits_of_words ws) = map (\<lambda>w. bits_of 11 (nat (indexOf bip39_words w))) ws"
    unfolding bits_of_words_concat using assms word_bits by (intro pieces_of_concat) (auto simp: list_all_iff)
  then show ?thesis using assms word_of_bits_index by (auto simp: comp_def)
qed

end
