(* ===== verification/PhraseLaws.thy ===== *)
theory PhraseLaws
  imports PhraseBits
begin

text \<open>
  What holds of phrases of 12 and 24 words: the phrases that are accepted are those that some random
  bytes generate, and both decoders give these bytes back.
\<close>

unbundle bit_operations_syntax

section \<open>Accepted phrases\<close>

definition sha_ok :: "(byte list \<Rightarrow> byte list) \<Rightarrow> bool" where
  "sha_ok sha \<longleftrightarrow> (\<forall>d. length (sha d) = 32)"

definition random_ok :: "(nat \<Rightarrow> byte list) \<Rightarrow> bool" where
  "random_ok rnd \<longleftrightarrow> (\<forall>n. length (rnd n) = n)"

definition entropy_of :: "string list \<Rightarrow> byte list" where
  "entropy_of ws = bits_bytes (take (length ws div 3 * 32) (bits_of_words ws))"

text \<open>A third of the words and the checksum that a phrase of known words carries.\<close>

definition checksum_right :: "(byte list \<Rightarrow> byte list) \<Rightarrow> string list \<Rightarrow> bool" where
  "checksum_right sha ws \<longleftrightarrow>
     deriveChecksumBits sha (entropy_of ws) = drop (length ws div 3 * 32) (bits_of_words ws)"

lemma unknown_words_none: "unknown_words known ws = [] \<longleftrightarrow> list_all known ws"
  by (auto simp: unknown_words_def list_all_length filter_empty_conv)

lemma fromWords_accepts:
  assumes "length ws = 12 \<or> length ws = 24"
  shows "mnemonic_fromWords sha ws = Inr mn \<longleftrightarrow>
           mn = \<lparr>phrase = ws\<rparr> \<and> set ws \<subseteq> set bip39_words \<and> checksum_right sha ws"
proof (cases "set ws \<subseteq> set bip39_words")
  case True
  then have none: "unknown_words (\<lambda>w. w \<in> set bip39_words) ws = []"
    by (simp add: unknown_words_none list_all_iff subset_iff)
  have divider: "length (bits_of_words ws) div 33 * 32 = length ws div 3 * 32"
    using assms by (auto simp: length_bits_of_words[OF True])
  show ?thesis
    using assms none True
    by (auto simp: mnemonic_fromWords_def mnemonic_validate_def Let_def divider checksum_right_def
        entropy_of_def bits_bytes_def)
next
  case False
  then have "unknown_words (\<lambda>w. w \<in> set bip39_words) ws \<noteq> []"
    by (auto simp: unknown_words_none list_all_iff)
  with assms False show ?thesis
    by (auto simp: mnemonic_fromWords_def mnemonic_validate_def Let_def)
qed

lemma length_checksum: "sha_ok sha \<Longrightarrow> length e \<le> 1024 \<Longrightarrow> length (deriveChecksumBits sha e) = length e * 8 div 32"
  using div_le_mono[of "length e" 1024 4] by (auto simp: deriveChecksumBits_def sha_ok_def min_def)

lemma checksum_bits: "list_all is_bit (deriveChecksumBits sha e)"
  using bytesToBinary_all[of "sha e"] by (auto simp: deriveChecksumBits_def list_all_iff dest: in_set_takeD)

lemma length_entropy_of:
  assumes "length ws = 12 \<or> length ws = 24" and "set ws \<subseteq> set bip39_words"
  shows "length (entropy_of ws) = length ws div 3 * 4"
proof -
  have "length (take (length ws div 3 * 32) (bits_of_words ws)) = length ws div 3 * 32"
    using assms(1) by (auto simp: length_bits_of_words[OF assms(2)])
  then show ?thesis
    using length_bits_bytes[of "take (length ws div 3 * 32) (bits_of_words ws)"] assms(1)
    by (auto simp: entropy_of_def)
qed

text \<open>The words of a seed are all there, and their bits are the seed followed by its checksum.\<close>

lemma words_of_seed_bits:
  assumes "sha_ok sha" and "length seed = 16 \<or> length seed = 32" and "words_of_seed sha seed = map Some ws"
  shows "bits_of_words ws = bytesToBinary seed @ deriveChecksumBits sha seed"
    and "set ws \<subseteq> set bip39_words" and "length ws = length seed * 3 div 4"
proof -
  let ?s = "bytesToBinary seed @ deriveChecksumBits sha seed"
  have len: "length ?s = (if length seed = 16 then 132 else 264)"
    using assms(1,2) by (auto simp: length_checksum)
  then have d: "11 dvd length ?s" by simp
  have s: "list_all is_bit ?s" by (simp add: checksum_bits)
  note assms(3)[unfolded words_of_seed_def]
  from bits_to_words[OF s d this]
  show b: "bits_of_words ws = ?s" and w: "set ws \<subseteq> set bip39_words" by simp_all
  from length_bits_of_words[OF w] len assms(2) show "length ws = length seed * 3 div 4"
    by (auto simp: b split: if_splits)
qed

lemma words_of_seed_exist:
  assumes "sha_ok sha" and "length seed = 16 \<or> length seed = 32"
  shows "\<exists>ws. words_of_seed sha seed = map Some ws"
proof -
  let ?s = "bytesToBinary seed @ deriveChecksumBits sha seed"
  have s: "list_all is_bit ?s" by (simp add: checksum_bits)
  have d: "11 dvd length ?s" using assms by (auto simp: length_checksum)
  have "list_all (\<lambda>b. \<exists>w. word_of_bits b = Some w) (pieces 11 ?s)"
    using pieces_all[of 11, OF _ s] pieces_length[of 11, OF _ d] word_of_bits_some(1)
    by (simp add: list_all_iff)
  then show ?thesis
    unfolding words_of_seed_def by (induction "pieces 11 ?s") (auto simp: ex_map_conv list_all_iff)
qed

lemma seed_accepted:
  assumes "sha_ok sha" and "length seed = 16 \<or> length seed = 32" and "words_of_seed sha seed = map Some ws"
  shows "mnemonic_fromWords sha ws = Inr \<lparr>phrase = ws\<rparr>" and "entropy_of ws = seed"
proof -
  note b = words_of_seed_bits[OF assms]
  have n: "length ws div 3 * 32 = 8 * length seed" using assms(2) by (auto simp: b(3))
  then show e: "entropy_of ws = seed" by (simp add: entropy_of_def b(1) bits_bytes_back)
  have "checksum_right sha ws" by (simp add: checksum_right_def e n b(1))
  then show "mnemonic_fromWords sha ws = Inr \<lparr>phrase = ws\<rparr>"
    using assms(2) b(2) by (subst fromWords_accepts) (auto simp: b(3))
qed

lemma accepted_seed:
  assumes "length ws = 12 \<or> length ws = 24" and "mnemonic_fromWords sha ws = Inr mn"
  shows "words_of_seed sha (entropy_of ws) = map Some ws"
proof -
  from assms(2) have w: "set ws \<subseteq> set bip39_words" and c: "checksum_right sha ws"
    by (simp_all add: fromWords_accepts[OF assms(1)])
  let ?n = "length ws div 3 * 32"
  have "8 dvd length (take ?n (bits_of_words ws))"
    using assms(1) by (auto simp: length_bits_of_words[OF w])
  then have "bytesToBinary (entropy_of ws) = take ?n (bits_of_words ws)"
    using bits_of_words_bits[of ws] unfolding entropy_of_def
    by (intro bytes_bits_back) (auto simp: list_all_iff dest: in_set_takeD)
  with c words_to_bits[OF w] show ?thesis by (simp add: words_of_seed_def checksum_right_def)
qed

lemma generate_words:
  assumes "sha_ok sha" and "random_ok rnd" and "n = 12 \<or> n = 24"
  shows "mnemonic_generate_n sha rnd n = Inr \<lparr>phrase = ws\<rparr> \<longleftrightarrow>
           words_of_seed sha (rnd (n div 3 * 4)) = map Some ws"
proof -
  have "length (rnd (n div 3 * 4)) = 16 \<or> length (rnd (n div 3 * 4)) = 32"
    using assms(2,3) by (auto simp: random_ok_def)
  from words_of_seed_exist[OF assms(1) this]
  obtain vs where vs: "words_of_seed sha (rnd (n div 3 * 4)) = map Some vs" by blast
  have "mnemonic_generate_n sha rnd n = Inr \<lparr>phrase = vs\<rparr>"
    using assms(3) vs by (auto simp: mnemonic_generate_n_def comp_def)
  with vs show ?thesis by (auto simp: inj_map_eq_map)
qed

lemma accepted_generated:
  assumes "sha_ok sha" and "length ws = 12 \<or> length ws = 24"
  shows "mnemonic_fromWords sha ws = Inr \<lparr>phrase = ws\<rparr> \<longleftrightarrow>
           (\<exists>rnd. random_ok rnd \<and> mnemonic_generate_n sha rnd (length ws) = Inr \<lparr>phrase = ws\<rparr>)"
proof
  assume a: "mnemonic_fromWords sha ws = Inr \<lparr>phrase = ws\<rparr>"
  then have w: "set ws \<subseteq> set bip39_words" by (simp add: fromWords_accepts[OF assms(2)])
  let ?r = "\<lambda>n. if n = length ws div 3 * 4 then entropy_of ws else replicate n 0"
  have r: "random_ok ?r" by (simp add: random_ok_def length_entropy_of[OF assms(2) w])
  have "mnemonic_generate_n sha ?r (length ws) = Inr \<lparr>phrase = ws\<rparr>"
    by (simp add: generate_words[OF assms(1) r assms(2)] accepted_seed[OF assms(2) a])
  with r show "\<exists>rnd. random_ok rnd \<and> mnemonic_generate_n sha rnd (length ws) = Inr \<lparr>phrase = ws\<rparr>" by blast
next
  assume "\<exists>rnd. random_ok rnd \<and> mnemonic_generate_n sha rnd (length ws) = Inr \<lparr>phrase = ws\<rparr>"
  then obtain rnd where r: "random_ok rnd" and g: "mnemonic_generate_n sha rnd (length ws) = Inr \<lparr>phrase = ws\<rparr>"
    by blast
  have "length (rnd (length ws div 3 * 4)) = 16 \<or> length (rnd (length ws div 3 * 4)) = 32"
    using r assms(2) by (auto simp: random_ok_def)
  with g show "mnemonic_fromWords sha ws = Inr \<lparr>phrase = ws\<rparr>"
    unfolding generate_words[OF assms(1) r assms(2)] using seed_accepted(1)[OF assms(1)] by blast
qed

section \<open>The two decoders\<close>

definition truth :: "string \<Rightarrow> bool list" where
  "truth s = map (\<lambda>c. c = CHR ''1'') s"

lemma truth_simps [simp]:
  "length (truth s) = length s"
  "truth (s @ t) = truth s @ truth t"
  "truth (take k s) = take k (truth s)"
  "truth (drop k s) = drop k (truth s)"
  "truth (concat ss) = concat (map truth ss)"
  by (simp_all add: truth_def[abs_def] take_map drop_map map_concat)

lemma truth_inj: "list_all is_bit s \<Longrightarrow> list_all is_bit t \<Longrightarrow> truth s = truth t \<longleftrightarrow> s = t"
proof (induction s arbitrary: t)
  case (Cons c s)
  then show ?case by (cases t) (auto simp: truth_def is_bit_def)
qed (auto simp: truth_def)

lemma nth_bit: "list_all is_bit s \<Longrightarrow> j < length s \<Longrightarrow> s ! j = CHR ''1'' \<longleftrightarrow> bit (bin_val s) (length s - Suc j)"
proof (induction s rule: rev_induct)
  case (snoc c s)
  have c: "c = CHR ''1'' \<longleftrightarrow> odd (digit_val c)" "digit_val c < 2"
    using snoc(2) by (auto simp: is_bit_def digit_val_def code_of_def)
  show ?case
  proof (cases "j = length s")
    case True
    then show ?thesis by (simp add: c(1) bin_val_append bit_0)
  next
    case False
    with snoc(3) have "length s - j = Suc (length s - Suc j)" by simp
    moreover from c(2) have "(bin_val s * 2 + digit_val c) div 2 = bin_val s" by simp
    ultimately show ?thesis using snoc False by (simp add: nth_append bin_val_append bit_Suc)
  qed
qed simp

lemma truth_bits:
  assumes "n < 2 ^ k" and "0 < k"
  shows "truth (bits_of k n) = map (\<lambda>j. bit n (k - Suc j)) [0..<k]"
  by (rule nth_equalityI) (simp_all add: truth_def length_bits_of[OF assms] nth_bit)

lemma mask_bit: "w AND push_bit n 1 \<noteq> 0 \<longleftrightarrow> bit w n" for w :: "'a::len word"
  by (simp only: bit_iff_and_push_bit_not_eq_0)

lemma truth_index: "i < 2048 \<Longrightarrow> bits_of_index i = truth (bits_of 11 i)"
  unfolding bits_of_index_def mask_bit by (auto simp: truth_bits bit_of_nat_iff)

lemma truth_bytes: "bytesToBits bs = truth (bytesToBinary bs)"
proof -
  have "map (\<lambda>j. (ucast b :: 32 word) AND push_bit (7 - j) 1 \<noteq> 0) [0..<8] = truth (bits_of 8 (unat b))" for b :: byte
    using unsigned_less[of b, where 'a = nat] unfolding mask_bit by (auto simp: truth_bits bit_unsigned_iff)
  then show ?thesis by (simp add: bytesToBits_def bytesToBinary_bits comp_def)
qed

lemma concat_bits_known: "set ws \<subseteq> set bip39_words \<Longrightarrow> concat_bits ws bip39_words = Inr (truth (bits_of_words ws))"
proof (induction ws)
  case (Cons w ws)
  then have "bits_of_index (nat (indexOf bip39_words w)) = truth (bits_of 11 (nat (indexOf bip39_words w)))"
    using indexOf_mem(1)[of w bip39_words] by (intro truth_index) (simp add: bip39_length)
  with Cons indexOf_mem(3)[of w bip39_words] show ?case
    by (simp add: bip39_lower Let_def bits_of_words_concat not_less)
qed (simp add: bits_of_words_concat truth_def)

lemma bit_fill:
  "m < 8 \<Longrightarrow> bit (fill_bits bits at n b) m \<longleftrightarrow>
     bit b m \<or> m < n \<and> at + (n - Suc m) < length bits \<and> bits ! (at + (n - Suc m))"
proof (induction n arbitrary: at b)
  case (Suc n)
  define c where "c = (if at < length bits \<and> bits ! at then b OR push_bit n 1 else b)"
  have c: "bit c m \<longleftrightarrow> bit b m \<or> m = n \<and> at < length bits \<and> bits ! at"
    using Suc(2) by (auto simp: c_def bit_or_iff bit_push_bit_iff bit_1_iff simp del: push_bit_of_1)
  have "m < n \<Longrightarrow> Suc at + (n - Suc m) = at + (Suc n - Suc m)" by simp
  then show ?case
    using Suc(1)[OF Suc(2), of "Suc at" c] c by (auto simp: c_def less_Suc_eq simp del: push_bit_of_1)
qed simp

lemma fill_byte: "take 8 (drop at bits) = truth (bits_of 8 (unat b)) \<Longrightarrow> fill_bits bits at 8 0 = b"
proof (rule bit_word_eqI)
  fix m
  assume t: "take 8 (drop at bits) = truth (bits_of 8 (unat b))" and "m < LENGTH(8)"
  then have m: "m < 8" by simp
  have "length (take 8 (drop at bits)) = 8" unfolding t by simp
  with m have len: "at + (7 - m) < length bits" by (simp only: length_take length_drop)
  have "bits ! (at + (7 - m)) = take 8 (drop at bits) ! (7 - m)" using len m by simp
  also have "\<dots> = bit b m"
    using m nth_upt[of 0 "7 - m" 8] unsigned_less[of b, where 'a = nat] unfolding t by (simp add: truth_bits bit_unsigned_iff)
  finally show "bit (fill_bits bits at 8 0) m = bit b m" using len m by (simp add: bit_fill)
qed

text \<open>The bytes filled in from the bits are those that the pieces of eight stand for.\<close>

lemma filled_bytes:
  assumes "truth (take (8 * length e) bits) = truth (bytesToBinary e)"
  shows "map (\<lambda>i. fill_bits (truth bits) (i * 8) 8 0) [0..<length e] = e"
proof (rule nth_equalityI)
  fix i
  assume "i < length (map (\<lambda>i. fill_bits (truth bits) (i * 8) 8 0) [0..<length e])"
  then have i: "i < length e" by simp
  have b: "bytesToBinary e = bytesToBinary (take i e) @ bits_of 8 (unat (e ! i)) @ bytesToBinary (drop (Suc i) e)"
    using id_take_nth_drop[OF i] by (metis (no_types, lifting) bytesToBinary_bits concat.simps(2) concat_append
        list.simps(9) map_append)
  have "take 8 (drop (i * 8) (truth bits)) = take 8 (drop (i * 8) (take (8 * length e) (truth bits)))"
    using i by (simp add: drop_take min_def)
  also have "\<dots> = take 8 (drop (i * 8) (truth (bytesToBinary e)))"
    using assms by simp
  also have "\<dots> = truth (bits_of 8 (unat (e ! i)))"
    using i unfolding b by (simp add: min_def)
  finally have "fill_bits (truth bits) (i * 8) 8 0 = e ! i" by (rule fill_byte)
  with i show "map (\<lambda>i. fill_bits (truth bits) (i * 8) 8 0) [0..<length e] ! i = e ! i" by simp
qed simp

lemma same_front:
  assumes "length ys = n + k" and "k \<le> length zs"
  shows "list_all (\<lambda>i. array_get (map Some ys) (n + i) = array_get (map Some zs) i) [0..<k] \<longleftrightarrow>
           drop n ys = take k zs"
  using assms by (auto simp: list_all_iff list_eq_iff_nth_eq)

lemma legacy2_decodes:
  assumes "sha_ok sha" and "length ws = 12 \<or> length ws = 24" and "set ws \<subseteq> set bip39_words"
  shows "legacy2 sha ws bip39_words =
           (if checksum_right sha ws then Inr (entropy_of ws) else Inl (Error ''Checksum mismatch''))"
proof -
  let ?s = "bits_of_words ws" and ?k = "length ws div 3"
  let ?e = "entropy_of ws"
  have len: "length ?s = 33 * ?k" using assms(2) by (auto simp: length_bits_of_words[OF assms(3)])
  have e: "length ?e = ?k * 4" by (rule length_entropy_of[OF assms(2,3)])
  have "8 dvd length (take (?k * 32) ?s)" using assms(2) by (auto simp: len)
  then have "bytesToBinary ?e = take (?k * 32) ?s"
    using bits_of_words_bits[of ws] unfolding entropy_of_def
    by (intro bytes_bits_back) (auto simp: list_all_iff dest: in_set_takeD)
  then have entropy: "map (\<lambda>i. fill_bits (truth ?s) (i * 8) 8 0) [0..<?k * 32 div 8] = ?e"
    using filled_bytes[of ?e ?s] by (simp add: e mult.commute)
  have "list_all (\<lambda>i. array_get (map Some (truth ?s)) (?k * 32 + i) =
            array_get (map Some (truth (bytesToBinary (sha ?e)))) i) [0..<?k] \<longleftrightarrow>
          drop (?k * 32) (truth ?s) = take ?k (truth (bytesToBinary (sha ?e)))"
    using assms(1,2) by (intro same_front) (auto simp: len sha_ok_def)
  also have "\<dots> \<longleftrightarrow> truth (drop (?k * 32) ?s) = truth (deriveChecksumBits sha ?e)"
    by (simp add: deriveChecksumBits_def e)
  also have "\<dots> \<longleftrightarrow> checksum_right sha ws"
    using bits_of_words_bits[of ws] checksum_bits
    by (subst truth_inj) (auto simp: checksum_right_def list_all_iff dest: in_set_dropD)
  finally have "list_all (\<lambda>i. array_get (map Some (truth ?s)) (?k * 32 + i) =
            array_get (map Some (truth (bytesToBinary (sha ?e)))) i) [0..<?k] \<longleftrightarrow> checksum_right sha ws" .
  moreover have "length ws mod 3 = 0" "length ws * 11 div 33 = ?k" "length ws * 11 - ?k = ?k * 32"
    using assms(2) by auto
  ultimately show ?thesis
    by (simp only: legacy2_def concat_bits_known[OF assms(3)] res_bind_simps Let_def entropy truth_bytes
        refl if_False not_True_eq_False simp_thms if_cancel)
qed

lemma accepted_decodes:
  assumes "sha_ok sha" and "length ws = 12 \<or> length ws = 24" and "set ws \<subseteq> set bip39_words"
  shows "legacy_seed sha \<lparr>phrase = ws\<rparr> = Inr e \<longleftrightarrow>
           mnemonic_fromWords sha ws = Inr \<lparr>phrase = ws\<rparr> \<and> words_of_seed sha e = map Some ws \<and>
           length e = length ws div 3 * 4"
proof -
  have "legacy_seed sha \<lparr>phrase = ws\<rparr> = legacy2 sha ws bip39_words"
    using assms(2) by (auto simp: legacy_seed_def)
  moreover have "length e = length ws div 3 * 4 \<Longrightarrow> words_of_seed sha e = map Some ws \<Longrightarrow> e = entropy_of ws"
    using seed_accepted(2)[OF assms(1), of e ws] assms(2) by auto
  ultimately show ?thesis
    using accepted_seed[OF assms(2), of sha] length_entropy_of[OF assms(2,3)] assms(3)
    by (auto simp: legacy2_decodes[OF assms] fromWords_accepts[OF assms(2)])
qed

section \<open>Reading a printed phrase\<close>

lemma split_word: "list_all (\<lambda>c. \<not> p c) w \<Longrightarrow> split_at p w = [w]"
  by (induction w) simp_all

lemma split_join:
  "ws \<noteq> [] \<Longrightarrow> list_all (list_all (\<lambda>c. \<not> p c)) ws \<Longrightarrow> p c \<Longrightarrow> split_at p (join_with [c] ws) = ws"
proof (induction "[c]" ws rule: join_with.induct)
  case (3 w v r)
  have "list_all (\<lambda>c. \<not> p c) u \<Longrightarrow> split_at p (u @ c # t) = u # split_at p t" for u t
    using 3(4) by (induction u) simp_all
  with 3 show ?case by simp
qed (simp_all add: split_word)

lemma small_not_separator: "is_small c \<Longrightarrow> \<not> (is_space c \<or> c = CHR '','')"
proof (cases c)
  case (Char b0 b1 b2 b3 b4 b5 b6 b7)
  assume "is_small c"
  then show ?thesis
    unfolding Char is_space_def code_of_def
    by (cases b4; cases b3; cases b2; cases b1; cases b0) simp_all
qed

lemma bip39_all_small: "list_all (list_all is_small) bip39_words"
  by (simp only: bip39_words_def bip39_pieces_def concat.simps list_all_append list.pred_inject append_Nil2
      bip39_small simp_thms)

lemma printed_phrase_back:
  assumes "ws \<noteq> []" and "set ws \<subseteq> set bip39_words"
  shows "mnemonic_fromString sha (mnemonic_toString \<lparr>phrase = ws\<rparr>) = mnemonic_fromWords sha ws"
proof -
  have "list_all (list_all (\<lambda>c. \<not> (is_space c \<or> c = CHR '',''))) ws"
    using assms(2) bip39_all_small small_not_separator by (fastforce simp: list_all_iff)
  with assms(1) show ?thesis
    unfolding mnemonic_fromString_def mnemonic_toString_def
    by (simp add: split_join is_space_def code_of_def)
qed

end
