(* ===== verification/LegacyPhrase.thy ===== *)
theory LegacyPhrase
  imports PhraseLaws
begin

text \<open>
  The legacy phrases of 22 words: 22 digits of base 4096 are as many numbers as 33 bytes, so that every
  seed has exactly one accepted phrase. The checksum does not see the last byte of the seed.
\<close>

unbundle bit_operations_syntax

section \<open>Digits\<close>

fun radix_digits :: "int \<Rightarrow> int \<Rightarrow> nat \<Rightarrow> int list" where
  "radix_digits num r 0 = []"
| "radix_digits num r (Suc n) = radix_digits (num div r) r n @ [num mod r]"

definition digits_ok :: "int \<Rightarrow> int list \<Rightarrow> bool" where
  "digits_ok r ds \<longleftrightarrow> list_all (\<lambda>d. 0 \<le> d \<and> d < r) ds"

lemma radix_number_append: "radix_number (ds @ [d]) r = radix_number ds r * r + d"
  by (simp add: radix_number_def)

lemma length_radix_digits [simp]: "length (radix_digits num r n) = n"
  by (induction n arbitrary: num) simp_all

lemma radix_digits_ok: "0 < r \<Longrightarrow> digits_ok r (radix_digits num r n)"
  by (induction n arbitrary: num) (simp_all add: digits_ok_def)

lemma radix_number_bound: "0 < r \<Longrightarrow> digits_ok r ds \<Longrightarrow> 0 \<le> radix_number ds r \<and> radix_number ds r < r ^ length ds"
proof (induction ds rule: rev_induct)
  case (snoc d ds)
  then have ih: "0 \<le> radix_number ds r" "radix_number ds r + 1 \<le> r ^ length ds" and d: "0 \<le> d" "d < r"
    by (simp_all add: digits_ok_def)
  have "radix_number ds r * r + d < (radix_number ds r + 1) * r" using d by (simp add: distrib_right)
  also have "\<dots> \<le> r ^ length ds * r" using ih(2) snoc(2) by (intro mult_right_mono) simp_all
  finally show ?case using ih(1) d snoc(2) by (simp add: radix_number_append mult.commute)
qed (simp add: radix_number_def)

lemma radix_digits_number: "0 < r \<Longrightarrow> digits_ok r ds \<Longrightarrow> radix_digits (radix_number ds r) r (length ds) = ds"
proof (induction ds rule: rev_induct)
  case (snoc d ds)
  then show ?case by (simp add: digits_ok_def radix_number_append div_pos_pos_trivial)
qed simp

lemma radix_number_digits: "0 < r \<Longrightarrow> 0 \<le> num \<Longrightarrow> num < r ^ n \<Longrightarrow> radix_number (radix_digits num r n) r = num"
proof (induction n arbitrary: num)
  case (Suc n)
  have "num div r * r \<le> num" using Suc(2) by (simp flip: minus_mod_eq_div_mult)
  also have "\<dots> < r ^ n * r" using Suc(4) by (simp add: mult.commute)
  finally have "num div r < r ^ n" using Suc(2) by simp
  with Suc show ?case by (simp add: radix_number_append pos_imp_zdiv_nonneg_iff)
qed (simp add: radix_number_def)

lemma signed_division_nonneg:
  fixes num r :: int
  assumes "0 \<le> num" and "0 < r"
  shows "num sdiv r = num div r" and "num smod r = num mod r"
  using assms by (simp_all add: signed_divide_int_def signed_modulo_int_def sgn_if)

lemma radix_bytes_digits: "0 < r \<Longrightarrow> 0 \<le> num \<Longrightarrow> radix_bytes num r n = map word_of_int (radix_digits num r n)"
  by (induction n arbitrary: num) (simp_all add: pos_imp_zdiv_nonneg_iff signed_division_nonneg)

lemma radix_bytes_back:
  "radix_bytes (radix_number (map uint bs) 256) 256 (length bs) = (bs :: byte list)"
proof -
  have ok: "digits_ok 256 (map uint bs)"
    using unsigned_less[where 'a = int and 'b = 8] by (simp add: digits_ok_def list_all_iff)
  show ?thesis
    using radix_bytes_digits[of 256 "radix_number (map uint bs) 256" "length bs"] radix_number_bound[OF _ ok]
      radix_digits_number[OF _ ok] by (simp add: comp_def)
qed

lemma radix_bytes_number:
  assumes "0 \<le> num" and "num < 256 ^ n"
  shows "radix_number (map uint (radix_bytes num 256 n)) 256 = num"
proof -
  have ok: "digits_ok 256 (radix_digits num 256 n)" by (rule radix_digits_ok) simp
  have "map (\<lambda>d. uint (word_of_int d :: byte)) (radix_digits num 256 n) = radix_digits num 256 n"
    using ok by (intro map_idI) (simp add: digits_ok_def list_all_iff uint_word_of_int)
  then show ?thesis
    using assms by (simp add: radix_bytes_digits radix_number_digits comp_def)
qed

section \<open>Words and bytes\<close>

definition phrase_data :: "string list \<Rightarrow> byte list" where
  "phrase_data ws =
     convertRadix (map (\<lambda>w. indexOf legacy_words (toLowerCase w)) ws) (int (length legacy_words)) 256 33"

lemma legacy_index: "w \<in> set legacy_words \<Longrightarrow> indexOf legacy_words (toLowerCase w) = indexOf legacy_words w"
  by (simp add: legacy_lower)

lemma phrase_data_unique:
  assumes "length data = 33"
  shows "\<exists>!ws. length ws = 22 \<and> set ws \<subseteq> set legacy_words \<and> phrase_data ws = data"
proof (rule ex1I)
  define num where "num = radix_number (map uint data) 256"
  have "digits_ok 256 (map uint data)"
    using unsigned_less[where 'a = int and 'b = 8] by (simp add: digits_ok_def list_all_iff)
  from radix_number_bound[OF _ this] have num: "0 \<le> num" "num < 4096 ^ 22"
    by (simp_all add: num_def assms)
  define ds where "ds = radix_digits num 4096 22"
  have ds: "digits_ok 4096 ds" "length ds = 22" "radix_number ds 4096 = num"
    using num by (simp_all add: ds_def radix_digits_ok radix_number_digits)
  define vs where "vs = map (\<lambda>d. legacy_words ! nat d) ds"
  have idx: "indexOf legacy_words (legacy_words ! nat d) = d" "legacy_words ! nat d \<in> set legacy_words"
    if "d \<in> set ds" for d
    using that ds(1) indexOf_nth[OF legacy_distinct, of "nat d"] nth_mem[of "nat d" legacy_words]
    by (auto simp: digits_ok_def list_all_iff legacy_length)
  have "map (\<lambda>w. indexOf legacy_words (toLowerCase w)) vs = ds"
    unfolding vs_def map_map comp_def by (rule map_idI) (simp add: idx legacy_index)
  then have "phrase_data vs = data"
    using radix_bytes_back[of data] by (simp add: phrase_data_def convertRadix_def legacy_length ds(3) num_def assms)
  then show "length vs = 22 \<and> set vs \<subseteq> set legacy_words \<and> phrase_data vs = data"
    using idx(2) ds(2) by (auto simp: vs_def)
  fix ws
  assume ws: "length ws = 22 \<and> set ws \<subseteq> set legacy_words \<and> phrase_data ws = data"
  define ks where "ks = map (indexOf legacy_words) ws"
  have ks: "map (\<lambda>w. indexOf legacy_words (toLowerCase w)) ws = ks"
    unfolding ks_def using ws by (intro map_cong) (auto simp: legacy_index)
  have ok: "digits_ok 4096 ks" and len: "length ks = 22"
    using ws indexOf_mem[of _ legacy_words] by (force simp: ks_def digits_ok_def list_all_iff legacy_length)+
  have "radix_bytes (radix_number ks 4096) 256 33 = data"
    using ws ks by (simp add: phrase_data_def convertRadix_def legacy_length)
  moreover have "0 \<le> radix_number ks 4096" "radix_number ks 4096 < 256 ^ 33"
    using radix_number_bound[OF _ ok] len by simp_all
  ultimately have "radix_number ks 4096 = num" using radix_bytes_number by (metis num_def)
  then have ks_ds: "ks = ds" using radix_digits_number[OF _ ok] len by (simp add: ds_def)
  have "vs = map (\<lambda>w. legacy_words ! nat (indexOf legacy_words w)) ws"
    unfolding vs_def ks_ds[symmetric] ks_def by (simp add: comp_def)
  also have "\<dots> = ws" using ws indexOf_mem(2)[of _ legacy_words] by (intro map_idI) blast
  finally show "ws = vs" ..
qed

section \<open>The checksum\<close>

definition small :: "32 word \<Rightarrow> bool" where
  "small w \<longleftrightarrow> (\<forall>n. 8 \<le> n \<longrightarrow> \<not> bit w n)"

lemma small_take: "take_bit 8 w = w \<Longrightarrow> small w"
  unfolding small_def by (metis bit_take_bit_iff not_less)

lemma small_xor: "small a \<Longrightarrow> small b \<Longrightarrow> small (a XOR b)"
  by (simp add: small_def bit_xor_iff)

lemma small_numbers: "small 0xFF" "small 0xB2" "small 0" "small (ucast (b :: byte))"
  by (rule small_take, simp)+ (auto simp: small_def bit_unsigned_iff dest: bit_imp_le_length)

lemma small_crc_bits: "small c \<Longrightarrow> small (crc_bits n c)"
proof (induction n arbitrary: c)
  case (Suc n)
  have "small (drop_bit 1 c)" using Suc(2) by (simp add: small_def bit_drop_bit_eq)
  then show ?case using small_xor small_numbers Suc(1) by simp
qed simp

lemma small_crc8: "small (crc8 data)"
proof -
  have "small c \<Longrightarrow> small (foldl (\<lambda>crc b. crc_bits 8 (crc XOR ucast b)) c bs)" for c :: "32 word" and bs :: "byte list"
    by (induction bs arbitrary: c) (simp_all add: small_crc_bits small_xor small_numbers)
  from this[OF small_numbers(1)] show ?thesis unfolding crc8_def by (intro small_xor small_numbers(1))
qed

lemma small_byte: "small w \<Longrightarrow> ucast (ucast w :: byte) = w"
  by (rule bit_word_eqI) (auto simp: small_def bit_unsigned_iff bit_ucast_iff not_le)

lemma byte_wide: "ucast (ucast b :: 32 word) = (b :: byte)"
  by (rule bit_word_eqI) (simp add: bit_unsigned_iff bit_ucast_iff)

lemma crc8_last_byte: "crc8 (bs @ [a]) = crc8 (bs @ [b])"
  by (simp add: crc8_def)

section \<open>Accepted phrases\<close>

lemma legacy_accepts:
  assumes "length ws = 22" and "set ws \<subseteq> set legacy_words"
  shows "mnemonic_fromWords sha ws = Inr \<lparr>phrase = ws\<rparr> \<and> legacy_seed sha \<lparr>phrase = ws\<rparr> = Inr seed \<longleftrightarrow>
           phrase_data ws = map (\<lambda>b. b XOR ucast (crc8 seed)) seed @ [ucast (crc8 seed)]"
proof -
  have "unknown_words (\<lambda>w. toLowerCase w \<in> set legacy_words) ws = []"
    using assms(2) by (auto simp: unknown_words_none list_all_iff legacy_lower)
  moreover have "radix_bytes n 256 33 \<noteq> []" for n by (simp add: numeral_eq_Suc)
  then have "phrase_data ws \<noteq> []" by (simp add: phrase_data_def convertRadix_def)
  then obtain ds c where d: "phrase_data ws = ds @ [c]" by (meson rev_exhaust)
  then have "legacy1 ws legacy_words = (map (\<lambda>b. b XOR c) ds, c)"
    by (simp add: legacy1_def phrase_data_def Let_def)
  moreover have "ucast c = crc8 seed \<longleftrightarrow> c = ucast (crc8 seed)"
    using small_byte[OF small_crc8, of seed] byte_wide[of c] by metis
  moreover have "(b XOR c) XOR c = b" for b by (simp add: xor.assoc)
  then have "map (\<lambda>b. b XOR c) ds = seed \<longleftrightarrow> ds = map (\<lambda>b. b XOR c) seed"
    by (auto simp: comp_def)
  ultimately show ?thesis
    using assms(1) by (auto simp: mnemonic_fromWords_def mnemonic_validate_def validate_legacy_def legacy_seed_def d)
qed

lemma legacy_phrase_unique:
  assumes "length seed = 32"
  shows "\<exists>!ws. length ws = 22 \<and> set ws \<subseteq> set legacy_words \<and>
           mnemonic_fromWords sha ws = Inr \<lparr>phrase = ws\<rparr> \<and> legacy_seed sha \<lparr>phrase = ws\<rparr> = Inr seed"
proof -
  have "\<exists>!ws. length ws = 22 \<and> set ws \<subseteq> set legacy_words \<and>
          phrase_data ws = map (\<lambda>b. b XOR ucast (crc8 seed)) seed @ [ucast (crc8 seed)]"
    by (rule phrase_data_unique) (simp add: assms)
  then show ?thesis
    by (rule back_subst[where P = Ex1]) (intro ext, use legacy_accepts[of _ sha seed] in blast)
qed

end
