(* ===== verification/PhraseSample.thy ===== *)
theory PhraseSample
  imports LegacyPhrase
begin

text \<open>
  The theorems on phrases, and their instances for the bytes that are all zero with a hash that is
  all zero.
\<close>

text \<open>C11: a phrase of 12 or 24 words is accepted exactly when some random bytes generate it: the check of
  the words and of the checksum lets through what the generator can make and nothing else.\<close>

theorem phrases_are_generated:
  assumes "sha_ok sha" and "length ws = 12 \<or> length ws = 24"
  shows "mnemonic_fromWords sha ws = Inr \<lparr>phrase = ws\<rparr> \<longleftrightarrow>
           (\<exists>rnd. random_ok rnd \<and> mnemonic_generate_n sha rnd (length ws) = Inr \<lparr>phrase = ws\<rparr>)"
  by (rule accepted_generated[OF assms])

text \<open>C15: generating a phrase of 12 or 24 words always succeeds; printing it and reading the text gives the
  same phrase, and decoding it gives the random bytes it was made of.\<close>

theorem phrase_gives_back_bytes:
  assumes "sha_ok sha" and "random_ok rnd" and "n = 12 \<or> n = 24"
  shows "\<exists>ws. mnemonic_generate_n sha rnd n = Inr \<lparr>phrase = ws\<rparr> \<and> length ws = n \<and>
           mnemonic_fromString sha (mnemonic_toString \<lparr>phrase = ws\<rparr>) = Inr \<lparr>phrase = ws\<rparr> \<and>
           legacy_seed sha \<lparr>phrase = ws\<rparr> = Inr (rnd (n div 3 * 4))"
proof -
  let ?e = "rnd (n div 3 * 4)"
  have e: "length ?e = 16 \<or> length ?e = 32" and ne: "length ?e = n div 3 * 4"
    using assms(2,3) by (auto simp: random_ok_def)
  obtain ws where ws: "words_of_seed sha ?e = map Some ws"
    using words_of_seed_exist[OF assms(1) e] by blast
  note b = words_of_seed_bits(2,3)[OF assms(1) e ws]
  have n: "length ws = n" using b(2) assms(3) ne by auto
  then have len: "length ws = 12 \<or> length ws = 24" using assms(3) by simp
  have ok: "mnemonic_fromWords sha ws = Inr \<lparr>phrase = ws\<rparr>" by (rule seed_accepted(1)[OF assms(1) e ws])
  have "ws \<noteq> []" using len by auto
  then show ?thesis
    using ws ok n ne printed_phrase_back[OF _ b(1), of sha] accepted_decodes[OF assms(1) len b(1), of ?e]
    by (intro exI[of _ ws]) (simp add: generate_words[OF assms])
qed

text \<open>C40: for every seed of 32 bytes there is exactly one legacy phrase of 22 words of the legacy list
  that is accepted and stands for the seed.\<close>

theorem legacy_phrase_exact:
  assumes "length seed = 32"
  shows "\<exists>!ws. length ws = 22 \<and> set ws \<subseteq> set legacy_words \<and>
           mnemonic_fromWords sha ws = Inr \<lparr>phrase = ws\<rparr> \<and> legacy_seed sha \<lparr>phrase = ws\<rparr> = Inr seed"
  by (rule legacy_phrase_unique[OF assms])

section \<open>Instances\<close>

definition zero_hash :: "byte list \<Rightarrow> byte list" where
  "zero_hash d = replicate 32 0"

definition zero_random :: "nat \<Rightarrow> byte list" where
  "zero_random n = replicate n 0"

lemma zero_ok: "sha_ok zero_hash" "random_ok zero_random"
  by (simp_all add: sha_ok_def random_ok_def zero_hash_def zero_random_def)

lemma abandon_first: "bip39_words ! 0 = ''abandon''"
  by (simp add: bip39_words_def bip39_pieces_def bip39_words_01_def)

lemma abandon_index: "indexOf bip39_words ''abandon'' = 0" "''abandon'' \<in> set bip39_words"
  using indexOf_nth[OF bip39_distinct, of 0] nth_mem[of 0 bip39_words]
  by (simp_all add: abandon_first bip39_length)

lemma zero_bits:
  "bytesToBinary (zero_random 16) @ deriveChecksumBits zero_hash (zero_random 16) =
     concat (replicate 12 (padStart 11 CHR ''0'' (to_binary 0)))"
  by code_simp

lemma zero_phrase: "mnemonic_generate_n zero_hash zero_random 12 = Inr \<lparr>phrase = replicate 12 ''abandon''\<rparr>"
proof -
  have "bits_of_words (replicate 12 ''abandon'') = concat (replicate 12 (padStart 11 CHR ''0'' (to_binary 0)))"
    by (simp add: bits_of_words_def abandon_index)
  then have "words_of_seed zero_hash (zero_random 16) = map Some (replicate 12 ''abandon'')"
    using words_to_bits[of "replicate 12 ''abandon''"] abandon_index(2)
    by (simp add: words_of_seed_def zero_bits subset_iff)
  then show ?thesis using generate_words[OF zero_ok, of 12] by simp
qed

theorem phrases_are_generated_witness:
  "mnemonic_fromWords zero_hash (replicate 12 ''abandon'') = Inr \<lparr>phrase = replicate 12 ''abandon''\<rparr>"
proof -
  have "length (replicate 12 ''abandon'') = 12 \<or> length (replicate 12 ''abandon'') = 24" by simp
  from phrases_are_generated[OF zero_ok(1) this] show ?thesis
    using zero_ok(2) zero_phrase by (metis length_replicate)
qed

theorem phrase_gives_back_bytes_witness:
  "legacy_seed zero_hash \<lparr>phrase = replicate 12 ''abandon''\<rparr> = Inr (replicate 16 0)"
  using phrase_gives_back_bytes[OF zero_ok, of 12] zero_phrase by (auto simp: zero_random_def)

theorem legacy_phrase_exact_witness:
  "\<exists>!ws. length ws = 22 \<and> set ws \<subseteq> set legacy_words \<and>
     mnemonic_fromWords zero_hash ws = Inr \<lparr>phrase = ws\<rparr> \<and>
     legacy_seed zero_hash \<lparr>phrase = ws\<rparr> = Inr (replicate 32 0)"
  by (rule legacy_phrase_exact) simp

end
