(* ===== verification/PrivateKeys.thy ===== *)
theory PrivateKeys
  imports Keys KeccakSponge Mnemonic Utf8 Longs
begin

text \<open>
  Private keys: \<open>packages/cryptography/src/PrivateKey.js\<close> with \<open>Ed25519PrivateKey.js\<close>, \<open>EcdsaPrivateKey.js\<close>,
  \<open>primitive/ecdsa.js\<close>, \<open>primitive/slip10.js\<close>, \<open>primitive/bip32.js\<close>, \<open>util/derive.js\<close>, and the keys of a phrase
  (\<open>Mnemonic.js\<close>). The curves, the MACs of the platform and the ASN.1 reader are the functions of a
  \<open>curve_lib\<close>; big numbers of \<open>bn.js\<close> that hold integers are \<open>nat\<close>.
\<close>

unbundle bit_operations_syntax

section \<open>What is used of the packages\<close>

record key_pair =
  kp_public :: "byte list"
  kp_secret :: "byte list"

text \<open>
  \<open>nacl_fromSeed\<close> and \<open>nacl_fromSecretKey\<close> are the two ways to make a pair of \<open>tweetnacl\<close>, which throws for
  another length; \<open>elliptic_private\<close> and \<open>elliptic_public\<close> are the bytes of \<open>getPrivate("hex")\<close> and
  \<open>getPublic(true, "hex")\<close> of a key read from bytes, \<open>elliptic_full\<close> the uncompressed point of a public
  key, \<open>elliptic_scalar\<close> the number behind a private key and \<open>bn_bytes\<close> is \<open>toBuffer\<close> of a number.
\<close>

record 'asn curve_lib =
  nacl_fromSeed :: "byte list \<Rightarrow> key_pair result"
  nacl_fromSecretKey :: "byte list \<Rightarrow> key_pair result"
  nacl_detached :: "byte list \<Rightarrow> byte list \<Rightarrow> byte list"
  elliptic_private :: "byte list \<Rightarrow> byte list"
  elliptic_public :: "byte list \<Rightarrow> byte list"
  elliptic_full :: "byte list \<Rightarrow> byte list"
  elliptic_scalar :: "byte list \<Rightarrow> nat"
  elliptic_sign :: "byte list \<Rightarrow> byte list \<Rightarrow> byte list \<times> byte list"
  bn_bytes :: "nat \<Rightarrow> byte list"
  asn_fromDer :: "byte list \<Rightarrow> 'asn result"
  asn_privateKey :: "'asn \<Rightarrow> byte list result"
  hmac_sha512 :: "byte list \<Rightarrow> byte list \<Rightarrow> byte list"
  pbkdf2_sha512 :: "byte list \<Rightarrow> byte list \<Rightarrow> nat \<Rightarrow> nat \<Rightarrow> byte list"
  nfkd :: "text_points \<Rightarrow> text_points"

record private_key =
  pk_type :: key_type
  pk_pair :: key_pair
  pk_chainCode :: "byte list option"

text \<open>\<open>new Uint8Array(n)\<close> with \<open>set(src, at)\<close>: the source must fit.\<close>

definition bytes_set :: "byte list \<Rightarrow> nat \<Rightarrow> byte list \<Rightarrow> byte list result" where
  "bytes_set dst at src =
     (if at + length src \<le> length dst then Inr (take at dst @ src @ drop (at + length src) dst)
      else Inl (RangeError ''offset is out of bounds''))"

definition be32 :: "int \<Rightarrow> byte list" where
  "be32 n = map (\<lambda>k. ucast (drop_bit (8 * (3 - k)) (word_of_int n :: 32 word))) [0..<4]"

section \<open>Derivation\<close>

definition HARDENED_BIT :: int where
  "HARDENED_BIT = 0x80000000"

text \<open>The operators work on 32 bits and the result of \<open>|\<close> is signed.\<close>

definition toHardenedIndex :: "int \<Rightarrow> int" where
  "toHardenedIndex index = sint ((word_of_int index :: 32 word) OR word_of_int HARDENED_BIT)"

definition isHardenedIndex :: "int \<Rightarrow> bool" where
  "isHardenedIndex index \<longleftrightarrow> (word_of_int index :: 32 word) AND word_of_int HARDENED_BIT \<noteq> 0"

definition split_digest :: "byte list \<Rightarrow> byte list \<times> byte list" where
  "split_digest d = (take 32 d, drop 32 d)"

definition slip10_derive ::
    "'asn curve_lib \<Rightarrow> byte list \<Rightarrow> byte list \<Rightarrow> int \<Rightarrow> (byte list \<times> byte list) result" where
  "slip10_derive L parentKey chainCode index =
     (if isHardenedIndex index then Inl (Error ''the index should not be pre-hardened'')
      else
        res_bind (bytes_set (replicate 37 0) 1 parentKey) (\<lambda>a.
        res_bind (bytes_set a 33 (be32 index)) (\<lambda>b.
          Inr (split_digest (hmac_sha512 L chainCode (b[33 := b ! 33 OR 128]))))))"

definition slip10_fromSeed :: "'asn curve_lib \<Rightarrow> byte list \<Rightarrow> byte list \<times> byte list" where
  "slip10_fromSeed L seed = split_digest (hmac_sha512 L (utf8_encode (map code_of ''ed25519 seed'')) seed)"

definition curve_order :: nat where
  "curve_order = 0xfffffffffffffffffffffffffffffffebaaedce6af48a03bbfd25e8cd0364141"

definition bip32_input :: "'asn curve_lib \<Rightarrow> byte list \<Rightarrow> int \<Rightarrow> byte list result" where
  "bip32_input L parentKey index =
     res_bind
       (if isHardenedIndex index then bytes_set (replicate 37 0) 1 parentKey
        else bytes_set (replicate 37 0) 0 (elliptic_public L parentKey))
       (\<lambda>data. bytes_set data 33 (be32 index))"

text \<open>The next index is tried when the sum is zero; nothing bounds the number of tries.\<close>

partial_function (option) bip32_derive ::
    "'asn curve_lib \<Rightarrow> byte list \<Rightarrow> byte list \<Rightarrow> int \<Rightarrow> (byte list \<times> byte list) result option" where
  "bip32_derive L parentKey chainCode index =
     (case bip32_input L parentKey index of
        Inl e \<Rightarrow> Some (Inl e)
      | Inr data \<Rightarrow>
          (let d = split_digest (hmac_sha512 L chainCode data);
               ki = (elliptic_scalar L parentKey + elliptic_scalar L (fst d)) mod curve_order
           in if ki = 0 then bip32_derive L parentKey chainCode (index + 1)
              else Some (Inr (hex_decode (hexZeroPadded (bn_bytes L ki) 32), snd d))))"

definition bip32_fromSeed :: "'asn curve_lib \<Rightarrow> byte list \<Rightarrow> (byte list \<times> byte list) result" where
  "bip32_fromSeed L seed =
     (if length seed < 16 then Inl (TypeError ''Seed should be at least 128 bits'')
      else if length seed > 64 then Inl (TypeError ''Seed should be at most 512 bits'')
      else Inr (split_digest (hmac_sha512 L (utf8_encode (map code_of ''Bitcoin seed'')) seed)))"

text \<open>\<open>derive.legacy\<close>: eight more bytes of index behind the seed.\<close>

definition legacy_index_bytes :: "int \<Rightarrow> byte list" where
  "legacy_index_bytes index =
     (if index = 0xffffffffff then be32 0xff @ be32 (-1)
      else be32 (if index < 0 then -1 else 0) @ be32 index)"

definition derive_legacy :: "'asn curve_lib \<Rightarrow> byte list \<Rightarrow> int \<Rightarrow> byte list" where
  "derive_legacy L seed index = pbkdf2_sha512 L (seed @ legacy_index_bytes index) [0xff] 2048 32"

section \<open>Ed25519\<close>

definition ed_private_derPrefix :: "byte list" where
  "ed_private_derPrefix = hex_decode ''302e020100300506032b657004220420''"

definition edp_new :: "key_pair \<Rightarrow> byte list option \<Rightarrow> private_key" where
  "edp_new p chain = \<lparr>pk_type = Ed25519, pk_pair = p, pk_chainCode = chain\<rparr>"

definition edp_from_seed :: "'asn curve_lib \<Rightarrow> byte list \<Rightarrow> byte list option \<Rightarrow> private_key result" where
  "edp_from_seed L seed chain = res_bind (nacl_fromSeed L seed) (\<lambda>p. Inr (edp_new p chain))"

definition edp_generate :: "'asn curve_lib \<Rightarrow> (nat \<Rightarrow> byte list) \<Rightarrow> private_key result" where
  "edp_generate L rnd = edp_from_seed L (take 32 (rnd 64)) (Some (drop 32 (rnd 64)))"

definition edp_fromBytesDer :: "'asn curve_lib \<Rightarrow> byte list \<Rightarrow> private_key result" where
  "edp_fromBytesDer L data =
     res_bind (asn_fromDer L data) (\<lambda>asn.
       (case asn_privateKey L asn of
          Inl e \<Rightarrow> Inl (BadKeyError ''cannot decode ED25519 private key data from DER format'')
        | Inr k \<Rightarrow> edp_from_seed L k None))"

definition edp_fromBytesRaw :: "'asn curve_lib \<Rightarrow> byte list \<Rightarrow> private_key result" where
  "edp_fromBytesRaw L data =
     (if length data = 32 then edp_from_seed L data None
      else if length data = 64 then res_bind (nacl_fromSecretKey L data) (\<lambda>p. Inr (edp_new p None))
      else Inl (BadKeyError ''invalid private key length''))"

definition edp_fromBytes :: "'asn curve_lib \<Rightarrow> byte list \<Rightarrow> private_key result" where
  "edp_fromBytes L data =
     (if length data = 48 then edp_fromBytesDer L data
      else if length data = 32 \<or> length data = 64 then edp_fromBytesRaw L data
      else Inl (BadKeyError ''invalid private key length''))"

definition edp_fromSeed :: "'asn curve_lib \<Rightarrow> byte list \<Rightarrow> private_key result" where
  "edp_fromSeed L seed =
     (case slip10_fromSeed L seed of (keyData, chainCode) \<Rightarrow> edp_from_seed L keyData (Some chainCode))"

definition edp_toBytesDer :: "private_key \<Rightarrow> byte list" where
  "edp_toBytesDer k =
     (let privateKey = take 32 (kp_secret (pk_pair k))
      in ed_private_derPrefix @ replicate (32 - length privateKey) 0 @ privateKey)"

definition edp_toBytesRaw :: "private_key \<Rightarrow> byte list" where
  "edp_toBytesRaw k = take 32 (kp_secret (pk_pair k))"

section \<open>ECDSA\<close>

definition ecdsa_private_derPrefix :: "byte list" where
  "ecdsa_private_derPrefix = hex_decode ''3030020100300706052b8104000a04220420''"

definition ecdsa_private_derPrefix2 :: "byte list" where
  "ecdsa_private_derPrefix2 = hex_decode ''30540201010420''"

definition arrayStartsWith :: "byte list \<Rightarrow> byte list \<Rightarrow> bool" where
  "arrayStartsWith a pre \<longleftrightarrow> length pre \<le> length a \<and> take (length pre) a = pre"

definition ecdsa_pair :: "'asn curve_lib \<Rightarrow> byte list \<Rightarrow> key_pair" where
  "ecdsa_pair L data = \<lparr>kp_public = elliptic_public L data, kp_secret = elliptic_private L data\<rparr>"

definition ecp_new :: "key_pair \<Rightarrow> byte list option \<Rightarrow> private_key" where
  "ecp_new p chain = \<lparr>pk_type = Secp256k1, pk_pair = p, pk_chainCode = chain\<rparr>"

definition ecp_fromBytesDer :: "'asn curve_lib \<Rightarrow> byte list \<Rightarrow> private_key" where
  "ecp_fromBytesDer L data =
     (let bs = (if arrayStartsWith data ecdsa_private_derPrefix
                then drop (length ecdsa_private_derPrefix) data
                else slice (length ecdsa_private_derPrefix2) (length ecdsa_private_derPrefix2 + 32) data)
      in ecp_new (ecdsa_pair L bs) None)"

definition ecp_fromBytesRaw :: "'asn curve_lib \<Rightarrow> byte list \<Rightarrow> private_key" where
  "ecp_fromBytesRaw L data = ecp_new (ecdsa_pair L data) None"

definition ecp_fromBytes :: "'asn curve_lib \<Rightarrow> byte list \<Rightarrow> private_key" where
  "ecp_fromBytes L data = (if length data = 32 then ecp_fromBytesRaw L data else ecp_fromBytesDer L data)"

definition ecp_fromSeed :: "'asn curve_lib \<Rightarrow> byte list \<Rightarrow> private_key result" where
  "ecp_fromSeed L seed =
     res_bind (bip32_fromSeed L seed) (\<lambda>(keyData, chainCode).
       Inr (ecp_new (ecdsa_pair L keyData) (Some chainCode)))"

definition ecp_toBytesDer :: "private_key \<Rightarrow> byte list" where
  "ecp_toBytesDer k =
     (let privateKey = take 32 (kp_secret (pk_pair k))
      in ecdsa_private_derPrefix @ replicate (32 - length privateKey) 0 @ privateKey)"

text \<open>A shorter key is moved to the front here.\<close>

definition ecp_toBytesRaw :: "private_key \<Rightarrow> byte list" where
  "ecp_toBytesRaw k =
     (let privateKey = take 32 (kp_secret (pk_pair k))
      in privateKey @ replicate (32 - length privateKey) 0)"

text \<open>\<open>None\<close>: the hash loops; it never does.\<close>

definition ecdsa_digest :: "byte list \<Rightarrow> byte list option" where
  "ecdsa_digest message = map_option hex_decode (keccak256 (''0x'' @ hex_encode message))"

definition ecdsa_sign :: "'asn curve_lib \<Rightarrow> byte list \<Rightarrow> byte list \<Rightarrow> byte list option" where
  "ecdsa_sign L keydata message =
     map_option (\<lambda>data. case elliptic_sign L keydata data of (r, s) \<Rightarrow> r @ s) (ecdsa_digest message)"

definition toEthereumAddress :: "'asn curve_lib \<Rightarrow> public_key \<Rightarrow> string option" where
  "toEthereumAddress L k =
     map_option (\<lambda>h. hex_encode (drop 12 (hex_decode h)))
       (keccak256 (''0x'' @ hex_encode (drop 1 (elliptic_full L (raw_key k)))))"

section \<open>Both kinds\<close>

definition private_generate_ed :: "'asn curve_lib \<Rightarrow> (nat \<Rightarrow> byte list) \<Rightarrow> private_key result" where
  "private_generate_ed L rnd = edp_generate L rnd"

definition private_fromBytes :: "'asn curve_lib \<Rightarrow> byte list \<Rightarrow> private_key result" where
  "private_fromBytes L data =
     (case edp_fromBytes L data of Inr k \<Rightarrow> Inr k | Inl _ \<Rightarrow> Inr (ecp_fromBytes L data))"

definition private_fromString :: "'asn curve_lib \<Rightarrow> string \<Rightarrow> private_key result" where
  "private_fromString L text = private_fromBytes L (hex_decode text)"

definition private_fromStringECDSA :: "'asn curve_lib \<Rightarrow> string \<Rightarrow> private_key" where
  "private_fromStringECDSA L text = ecp_fromBytes L (hex_decode text)"

definition private_fromStringED25519 :: "'asn curve_lib \<Rightarrow> string \<Rightarrow> private_key result" where
  "private_fromStringED25519 L text = edp_fromBytes L (hex_decode text)"

definition private_publicKey :: "private_key \<Rightarrow> public_key" where
  "private_publicKey k = \<lparr>key_type = pk_type k, raw_key = kp_public (pk_pair k)\<rparr>"

definition private_sign :: "'asn curve_lib \<Rightarrow> private_key \<Rightarrow> byte list \<Rightarrow> byte list option" where
  "private_sign L k bs =
     (case pk_type k of
        Ed25519 \<Rightarrow> Some (nacl_detached L bs (kp_secret (pk_pair k)))
      | Secp256k1 \<Rightarrow> ecdsa_sign L (kp_secret (pk_pair k)) bs)"

definition private_toBytesDer :: "private_key \<Rightarrow> byte list" where
  "private_toBytesDer k = (case pk_type k of Ed25519 \<Rightarrow> edp_toBytesDer k | Secp256k1 \<Rightarrow> ecp_toBytesDer k)"

definition private_toBytesRaw :: "private_key \<Rightarrow> byte list" where
  "private_toBytesRaw k = (case pk_type k of Ed25519 \<Rightarrow> edp_toBytesRaw k | Secp256k1 \<Rightarrow> ecp_toBytesRaw k)"

definition private_toBytes :: "private_key \<Rightarrow> byte list" where
  "private_toBytes k =
     (case pk_type k of Ed25519 \<Rightarrow> private_toBytesRaw k | Secp256k1 \<Rightarrow> private_toBytesDer k)"

definition private_toString :: "private_key \<Rightarrow> string" where
  "private_toString k = hex_encode (private_toBytesDer k)"

definition private_toStringRaw :: "private_key \<Rightarrow> string" where
  "private_toStringRaw k = hex_encode (private_toBytesRaw k)"

definition isDerivable :: "private_key \<Rightarrow> bool" where
  "isDerivable k \<longleftrightarrow> pk_chainCode k \<noteq> None"

definition private_derive :: "'asn curve_lib \<Rightarrow> private_key \<Rightarrow> int \<Rightarrow> private_key result option" where
  "private_derive L k index =
     (case pk_chainCode k of
        None \<Rightarrow> Some (Inl (Error ''this private key does not support key derivation''))
      | Some chain \<Rightarrow>
          (case pk_type k of
             Ed25519 \<Rightarrow>
               Some (res_bind (slip10_derive L (private_toBytesRaw k) chain index) (\<lambda>(keyData, chainCode).
                       edp_from_seed L keyData (Some chainCode)))
           | Secp256k1 \<Rightarrow>
               map_option (\<lambda>r. res_bind r (\<lambda>(keyData, chainCode).
                             Inr (ecp_new (ecdsa_pair L keyData) (Some chainCode))))
                 (bip32_derive L (private_toBytesRaw k) chain index)))"

text \<open>For an ECDSA key the constructor is given bytes in place of a pair: \<open>None\<close> stands for the key without
  a pair that comes out, which every later method fails on.\<close>

definition private_legacyDerive :: "'asn curve_lib \<Rightarrow> private_key \<Rightarrow> int \<Rightarrow> private_key option result" where
  "private_legacyDerive L k index =
     (let keyBytes = derive_legacy L (take 32 (private_toBytesRaw k)) index
      in case pk_type k of
           Ed25519 \<Rightarrow> res_bind (edp_from_seed L keyBytes None) (\<lambda>q. Inr (Some q))
         | Secp256k1 \<Rightarrow> Inr None)"

section \<open>Keys of a phrase\<close>

definition bip39_toSeed :: "'asn curve_lib \<Rightarrow> string list \<Rightarrow> text_points \<Rightarrow> byte list" where
  "bip39_toSeed L ws passphrase =
     pbkdf2_sha512 L (utf8_encode (map code_of (join_with '' '' ws)))
       (utf8_encode (nfkd L (map code_of ''mnemonic'' @ passphrase))) 2048 64"

definition toKeyData :: "'asn curve_lib \<Rightarrow> mnemonic \<Rightarrow> text_points \<Rightarrow> string \<Rightarrow> byte list \<times> byte list" where
  "toKeyData L mn passphrase seedText =
     split_digest (hmac_sha512 L (utf8_encode (map code_of seedText)) (bip39_toSeed L (phrase mn) passphrase))"

fun slip10_path ::
    "'asn curve_lib \<Rightarrow> byte list \<times> byte list \<Rightarrow> int list \<Rightarrow> (byte list \<times> byte list) result" where
  "slip10_path L kc [] = Inr kc"
| "slip10_path L kc (index # path) =
     res_bind (slip10_derive L (fst kc) (snd kc) index) (\<lambda>next. slip10_path L next path)"

definition HEDERA_PATH :: "int list" where
  "HEDERA_PATH = [44, 3030, 0, 0]"

definition phrase_ed25519 ::
    "'asn curve_lib \<Rightarrow> mnemonic \<Rightarrow> text_points \<Rightarrow> int list \<Rightarrow> private_key result" where
  "phrase_ed25519 L mn passphrase path =
     res_bind (slip10_path L (toKeyData L mn passphrase ''ed25519 seed'') path) (\<lambda>(keyData, chainCode).
       edp_from_seed L keyData (Some chainCode))"

fun bip32_path ::
    "'asn curve_lib \<Rightarrow> byte list \<times> byte list \<Rightarrow> int list \<Rightarrow> (byte list \<times> byte list) result option" where
  "bip32_path L kc [] = Some (Inr kc)"
| "bip32_path L kc (index # path) =
     (case bip32_derive L (fst kc) (snd kc) index of
        None \<Rightarrow> None
      | Some (Inl e) \<Rightarrow> Some (Inl e)
      | Some (Inr next) \<Rightarrow> bip32_path L next path)"

definition phrase_ecdsa ::
    "'asn curve_lib \<Rightarrow> mnemonic \<Rightarrow> text_points \<Rightarrow> int list \<Rightarrow> private_key result option" where
  "phrase_ecdsa L mn passphrase path =
     map_option (\<lambda>r. res_bind r (\<lambda>(keyData, chainCode). Inr (ecp_new (ecdsa_pair L keyData) (Some chainCode))))
       (bip32_path L (toKeyData L mn passphrase ''Bitcoin seed'') path)"

fun derive_path :: "'asn curve_lib \<Rightarrow> private_key \<Rightarrow> int list \<Rightarrow> private_key result option" where
  "derive_path L k [] = Some (Inr k)"
| "derive_path L k (index # path) =
     (case private_derive L k index of
        None \<Rightarrow> None
      | Some (Inl e) \<Rightarrow> Some (Inl e)
      | Some (Inr next) \<Rightarrow> derive_path L next path)"

definition from_seed_along :: "'asn curve_lib \<Rightarrow> private_key result \<Rightarrow> int list \<Rightarrow> private_key result option" where
  "from_seed_along L r path = (case r of Inl e \<Rightarrow> Some (Inl e) | Inr k \<Rightarrow> derive_path L k path)"

definition phrase_standard_ed25519 ::
    "'asn curve_lib \<Rightarrow> mnemonic \<Rightarrow> text_points \<Rightarrow> int option \<Rightarrow> private_key result option" where
  "phrase_standard_ed25519 L mn passphrase index =
     from_seed_along L (edp_fromSeed L (bip39_toSeed L (phrase mn) passphrase))
       [44, 3030, 0, 0, (case index of None \<Rightarrow> 0 | Some i \<Rightarrow> i)]"

definition phrase_standard_ecdsa ::
    "'asn curve_lib \<Rightarrow> mnemonic \<Rightarrow> text_points \<Rightarrow> int option \<Rightarrow> private_key result option" where
  "phrase_standard_ecdsa L mn passphrase index =
     from_seed_along L (ecp_fromSeed L (bip39_toSeed L (phrase mn) passphrase))
       [toHardenedIndex 44, toHardenedIndex 3030, toHardenedIndex 0, 0, (case index of None \<Rightarrow> 0 | Some i \<Rightarrow> i)]"

definition phrase_legacy :: "(byte list \<Rightarrow> byte list) \<Rightarrow> 'asn curve_lib \<Rightarrow> mnemonic \<Rightarrow> private_key result" where
  "phrase_legacy sha L mn = res_bind (legacy_seed sha mn) (private_fromBytes L)"

section \<open>Derivation paths\<close>

text \<open>
  \<open>calculateDerivationPathValues\<close> of \<open>src/Mnemonic.js\<close>: the first place of the text where \<open>m/\<close> and five
  numbers with an optional apostrophe stand, or five holes. A hole is 0 where it is used.
\<close>

definition path_part :: "string \<Rightarrow> (int \<times> string) option" where
  "path_part s =
     (let d = takeWhile is_digit s; r = dropWhile is_digit s; v = to_double (int (dec_val d))
      in if d = [] then None
         else case r of
                [] \<Rightarrow> Some (v, [])
              | c # r' \<Rightarrow> if code_of c = 39 then Some (toHardenedIndex v, r') else Some (v, r))"

fun path_parts :: "nat \<Rightarrow> string \<Rightarrow> int list option" where
  "path_parts 0 s = Some []"
| "path_parts (Suc n) s =
     (case path_part s of
        None \<Rightarrow> None
      | Some (v, r) \<Rightarrow>
          if n = 0 then Some [v]
          else case r of
                 [] \<Rightarrow> None
               | c # r' \<Rightarrow> if c = CHR ''/'' then map_option ((#) v) (path_parts n r') else None)"

fun find_path :: "string \<Rightarrow> int list option" where
  "find_path [] = None"
| "find_path (c # s) =
     (case (if take 2 (c # s) = ''m/'' then path_parts 5 (drop 2 (c # s)) else None) of
        Some vs \<Rightarrow> Some vs
      | None \<Rightarrow> find_path s)"

definition calculateDerivationPathValues :: "string \<Rightarrow> int option list" where
  "calculateDerivationPathValues text =
     (case find_path text of None \<Rightarrow> replicate 5 None | Some vs \<Rightarrow> map Some vs)"

definition phrase_custom_ecdsa ::
    "'asn curve_lib \<Rightarrow> mnemonic \<Rightarrow> text_points \<Rightarrow> string \<Rightarrow> private_key result option" where
  "phrase_custom_ecdsa L mn passphrase path =
     phrase_ecdsa L mn passphrase
       (map (\<lambda>v. case v of None \<Rightarrow> 0 | Some i \<Rightarrow> i) (calculateDerivationPathValues path))"

end
