(* ===== verification/PrivateKeyLaws.thy ===== *)
theory PrivateKeyLaws
  imports PrivateKeys PhraseLaws
begin

text \<open>
  What holds of private keys: every key that the package makes is well formed and is read back from its
  DER text, and the derivation of Ed25519 keys is the one of SLIP-0010.
\<close>

unbundle bit_operations_syntax

section \<open>What the packages promise\<close>

definition scalar_padded :: "byte list \<Rightarrow> byte list" where
  "scalar_padded p = replicate (32 - length p) 0 @ p"

definition curve_ok :: "'asn curve_lib \<Rightarrow> bool" where
  "curve_ok L \<longleftrightarrow>
     (\<forall>s. length s = 32 \<longrightarrow>
        (\<exists>p. length p = 32 \<and> nacl_fromSeed L s = Inr \<lparr>kp_public = p, kp_secret = s @ p\<rparr>)) \<and>
     (\<forall>s p. nacl_fromSeed L s = Inr p \<longrightarrow> length s = 32) \<and>
     (\<forall>s. length s = 64 \<longrightarrow> nacl_fromSecretKey L s = Inr \<lparr>kp_public = drop 32 s, kp_secret = s\<rparr>) \<and>
     (\<forall>s. length s = 32 \<longrightarrow>
        (\<exists>asn. asn_fromDer L (ed_private_derPrefix @ s) = Inr asn \<and> asn_privateKey L asn = Inr s)) \<and>
     (\<forall>bs. length (elliptic_private L bs) \<le> 32 \<and> length (elliptic_public L bs) = 33 \<and>
        ecdsa_pair L (scalar_padded (elliptic_private L bs)) = ecdsa_pair L bs) \<and>
     (\<forall>k d. length (hmac_sha512 L k d) = 64)"

lemma curve_okD:
  assumes "curve_ok L"
  shows "length s = 32 \<Longrightarrow> \<exists>p. length p = 32 \<and> nacl_fromSeed L s = Inr \<lparr>kp_public = p, kp_secret = s @ p\<rparr>"
    and "nacl_fromSeed L s = Inr q \<Longrightarrow> length s = 32"
    and "length s = 64 \<Longrightarrow> nacl_fromSecretKey L s = Inr \<lparr>kp_public = drop 32 s, kp_secret = s\<rparr>"
    and "length s = 32 \<Longrightarrow> \<exists>asn. asn_fromDer L (ed_private_derPrefix @ s) = Inr asn \<and> asn_privateKey L asn = Inr s"
    and "length (elliptic_private L bs) \<le> 32" and "length (elliptic_public L bs) = 33"
    and "ecdsa_pair L (scalar_padded (elliptic_private L bs)) = ecdsa_pair L bs"
    and "length (hmac_sha512 L k d) = 64"
  using assms unfolding curve_ok_def by blast+

section \<open>Well-formed keys\<close>

definition chain_ok :: "byte list option \<Rightarrow> bool" where
  "chain_ok c \<longleftrightarrow> (case c of None \<Rightarrow> True | Some bs \<Rightarrow> length bs = 32)"

lemma chain_ok_simps [simp]: "chain_ok None" "chain_ok (Some bs) \<longleftrightarrow> length bs = 32"
  by (simp_all add: chain_ok_def)

text \<open>The pair of an Ed25519 key made of 64 bytes is believed; any other one fits its seed.\<close>

definition private_ok :: "'asn curve_lib \<Rightarrow> private_key \<Rightarrow> bool" where
  "private_ok L k \<longleftrightarrow>
     chain_ok (pk_chainCode k) \<and>
     (case pk_type k of
        Ed25519 \<Rightarrow> length (kp_secret (pk_pair k)) = 64 \<and> kp_public (pk_pair k) = drop 32 (kp_secret (pk_pair k))
      | Secp256k1 \<Rightarrow> \<exists>bs. pk_pair k = ecdsa_pair L bs)"

lemma edp_from_seed_ok:
  "curve_ok L \<Longrightarrow> chain_ok c \<Longrightarrow> edp_from_seed L s c = Inr k \<Longrightarrow> private_ok L k"
  using curve_okD(1)[of L s] curve_okD(2)[of L s]
  by (fastforce simp: edp_from_seed_def edp_new_def private_ok_def elim!: res_bind_InrE)

lemma edp_chain_ok:
  "curve_ok L \<Longrightarrow> length c = 32 \<Longrightarrow> edp_from_seed L s (Some c) = Inr k \<Longrightarrow> private_ok L k"
  using edp_from_seed_ok[of L "Some c"] by simp

lemma ecp_ok: "chain_ok c \<Longrightarrow> private_ok L (ecp_new (ecdsa_pair L bs) c)"
  by (auto simp: private_ok_def ecp_new_def)

lemma digest_chain: "curve_ok L \<Longrightarrow> split_digest (hmac_sha512 L k d) = (a, b) \<Longrightarrow> length a = 32 \<and> length b = 32"
  using curve_okD(8)[of L k d] by (auto simp: split_digest_def)

lemma private_fromBytes_ok:
  assumes "curve_ok L" and "private_fromBytes L data = Inr k"
  shows "private_ok L k"
proof (cases "edp_fromBytes L data")
  case (Inl e)
  with assms(2) show ?thesis
    by (auto simp: private_fromBytes_def ecp_fromBytes_def ecp_fromBytesRaw_def ecp_fromBytesDer_def Let_def
        chain_ok_def intro!: ecp_ok)
next
  case (Inr q)
  have seed: "edp_from_seed L s None = Inr k \<Longrightarrow> ?thesis" for s
    using edp_from_seed_ok[OF assms(1), of None] by (simp add: chain_ok_def)
  from Inr assms(2) have "edp_fromBytes L data = Inr k" by (simp add: private_fromBytes_def)
  then have "(\<exists>s. edp_from_seed L s None = Inr k) \<or>
      length data = 64 \<and> res_bind (nacl_fromSecretKey L data) (\<lambda>p. Inr (edp_new p None)) = Inr k"
    by (auto simp: edp_fromBytes_def edp_fromBytesDer_def edp_fromBytesRaw_def elim!: res_bind_InrE
        split: if_splits sum.splits)
  then show ?thesis
    using seed curve_okD(3)[OF assms(1), of data] by (auto simp: edp_new_def private_ok_def chain_ok_def)
qed

lemma slip10_derive_ok:
  "curve_ok L \<Longrightarrow> slip10_derive L key chain i = Inr (a, b) \<Longrightarrow> length a = 32 \<and> length b = 32"
  using digest_chain by (fastforce simp: slip10_derive_def elim!: res_bind_InrE split: if_splits)

lemma bip32_derive_chain:
  assumes "bip32_derive L key chain i = Some r" and "curve_ok L" and "r = Inr (a, b)"
  shows "length b = 32"
proof -
  have "curve_ok L \<longrightarrow> (\<forall>a b. r = Inr (a, b) \<longrightarrow> length b = 32)"
  proof (rule bip32_derive.raw_induct[OF _ assms(1)])
    fix rec :: "'a curve_lib \<Rightarrow> byte list \<Rightarrow> byte list \<Rightarrow> int \<Rightarrow> (byte list \<times> byte list) result option"
    fix L :: "'a curve_lib" and key chain i y
    assume ih: "\<And>L key chain i y. rec L key chain i = Some y \<Longrightarrow>
        curve_ok L \<longrightarrow> (\<forall>a b. y = Inr (a, b) \<longrightarrow> length b = 32)"
      and eq: "(case bip32_input L key i of Inl e \<Rightarrow> Some (Inl e)
        | Inr data \<Rightarrow> let d = split_digest (hmac_sha512 L chain data);
              ki = (elliptic_scalar L key + elliptic_scalar L (fst d)) mod curve_order
            in if ki = 0 then rec L key chain (i + 1)
               else Some (Inr (hex_decode (hexZeroPadded (bn_bytes L ki) 32), snd d))) = Some y"
    show "curve_ok L \<longrightarrow> (\<forall>a b. y = Inr (a, b) \<longrightarrow> length b = 32)"
    proof (intro impI allI)
      fix a b assume ok: "curve_ok L" and y: "y = Inr (a, b)"
      have "length (snd (split_digest (hmac_sha512 L chain data))) = 32" for data
        using digest_chain[OF ok, of chain data] by (cases "split_digest (hmac_sha512 L chain data)") auto
      then show "length b = 32"
        using eq ih[of L key chain "i + 1" y] ok y by (auto simp: Let_def split: sum.splits if_splits)
    qed
  qed
  with assms(2,3) show ?thesis by blast
qed

lemma private_derive_ok:
  assumes "curve_ok L" and "private_derive L k i = Some (Inr q)"
  shows "private_ok L q"
proof (cases "pk_type k")
  case Ed25519
  with assms(2) obtain key chain a b
    where "slip10_derive L key chain i = Inr (a, b)" and "edp_from_seed L a (Some b) = Inr q"
    by (auto simp: private_derive_def elim!: res_bind_InrE split: option.splits)
  then show ?thesis
    using slip10_derive_ok[OF assms(1)] edp_chain_ok[OF assms(1)] by blast
next
  case Secp256k1
  with assms(2) obtain key chain a b
    where "bip32_derive L key chain i = Some (Inr (a, b))" and q: "q = ecp_new (ecdsa_pair L a) (Some b)"
    by (auto simp: private_derive_def elim!: res_bind_InrE split: option.splits)
  then have "length b = 32" using bip32_derive_chain[OF _ assms(1)] by blast
  then show ?thesis unfolding q by (intro ecp_ok) simp
qed

lemma from_seed_ok:
  assumes "curve_ok L"
  shows "edp_fromSeed L seed = Inr k \<Longrightarrow> private_ok L k" and "ecp_fromSeed L seed = Inr k \<Longrightarrow> private_ok L k"
proof -
  show "edp_fromSeed L seed = Inr k \<Longrightarrow> private_ok L k"
    using edp_chain_ok[OF assms] digest_chain[OF assms, OF surjective_pairing]
    unfolding edp_fromSeed_def slip10_fromSeed_def split_beta by blast
  show "ecp_fromSeed L seed = Inr k \<Longrightarrow> private_ok L k"
    using digest_chain[OF assms] ecp_ok[of "Some _" L]
    by (fastforce simp: ecp_fromSeed_def bip32_fromSeed_def split: prod.splits if_splits
        elim!: res_bind_InrE)
qed

text \<open>The ways to come by a key.\<close>

inductive made_key :: "'asn curve_lib \<Rightarrow> private_key \<Rightarrow> bool" for L where
  generated: "length (rnd 64) = 64 \<Longrightarrow> edp_generate L rnd = Inr k \<Longrightarrow> made_key L k"
| from_bytes: "private_fromBytes L data = Inr k \<Longrightarrow> made_key L k"
| from_bytes_ed: "edp_fromBytes L data = Inr k \<Longrightarrow> made_key L k"
| from_bytes_ecdsa: "made_key L (ecp_fromBytes L data)"
| from_seed_ed: "edp_fromSeed L seed = Inr k \<Longrightarrow> made_key L k"
| from_seed_ecdsa: "ecp_fromSeed L seed = Inr k \<Longrightarrow> made_key L k"
| derived: "made_key L k \<Longrightarrow> private_derive L k index = Some (Inr q) \<Longrightarrow> made_key L q"
| derived_legacy: "made_key L k \<Longrightarrow> private_legacyDerive L k index = Inr (Some q) \<Longrightarrow> made_key L q"

lemma made_key_ok: "made_key L k \<Longrightarrow> curve_ok L \<Longrightarrow> private_ok L k"
proof (induction rule: made_key.induct)
  case (generated rnd k)
  then show ?case using edp_chain_ok[OF generated(3), of "drop 32 (rnd 64)"] by (simp add: edp_generate_def)
next
  case (from_bytes data k)
  then show ?case by (intro private_fromBytes_ok)
next
  case (from_bytes_ed data k)
  then show ?case by (intro private_fromBytes_ok[of L data]) (simp_all add: private_fromBytes_def)
next
  case (from_bytes_ecdsa data)
  then show ?case
    by (auto simp: ecp_fromBytes_def ecp_fromBytesRaw_def ecp_fromBytesDer_def Let_def chain_ok_def intro!: ecp_ok)
next
  case (derived_legacy k index q)
  then obtain s where "edp_from_seed L s None = Inr q"
    by (auto simp: private_legacyDerive_def Let_def elim!: res_bind_InrE split: key_type.splits)
  then show ?case using edp_from_seed_ok[OF derived_legacy(4), of None] by (simp add: chain_ok_def)
qed (use from_seed_ok private_derive_ok in blast)+

section \<open>Forms of a key\<close>

lemma private_prefix_lengths [simp]:
  "length ed_private_derPrefix = 16"
  "length ecdsa_private_derPrefix = 18"
  "length ecdsa_private_derPrefix2 = 7"
  by code_simp+

text \<open>The seed that the pair of a key is made of again when the DER form is read.\<close>

definition same_pair :: "'asn curve_lib \<Rightarrow> private_key \<Rightarrow> bool" where
  "same_pair L k \<longleftrightarrow>
     (pk_type k = Ed25519 \<longrightarrow> nacl_fromSeed L (take 32 (kp_secret (pk_pair k))) = Inr (pk_pair k))"

lemma private_forms:
  assumes "curve_ok L" and "private_ok L k"
  shows "length (private_toBytesRaw k) = 32"
    and "length (private_toBytesDer k) = (case pk_type k of Ed25519 \<Rightarrow> 48 | Secp256k1 \<Rightarrow> 50)"
    and "key_ok (private_publicKey k)"
  using assms(2) curve_okD(5,6)[OF assms(1)]
  by (cases "pk_type k"; force simp: private_ok_def private_toBytesRaw_def private_toBytesDer_def edp_toBytesRaw_def
      edp_toBytesDer_def ecp_toBytesRaw_def ecp_toBytesDer_def Let_def key_ok_def private_publicKey_def ecdsa_pair_def)+

lemma private_der_back:
  assumes "curve_ok L" and "private_ok L k" and "same_pair L k"
  shows "private_fromBytes L (private_toBytesDer k) = Inr (k\<lparr>pk_chainCode := None\<rparr>)"
proof (cases "pk_type k")
  case Ed25519
  then have len: "length (take 32 (kp_secret (pk_pair k))) = 32" using assms(2) by (simp add: private_ok_def)
  then have der: "private_toBytesDer k = ed_private_derPrefix @ take 32 (kp_secret (pk_pair k))"
    using Ed25519 by (simp add: private_toBytesDer_def edp_toBytesDer_def Let_def)
  from curve_okD(4)[OF assms(1) len] obtain asn
    where "asn_fromDer L (private_toBytesDer k) = Inr asn" and "asn_privateKey L asn = Inr (take 32 (kp_secret (pk_pair k)))"
    unfolding der by blast
  moreover have "length (private_toBytesDer k) = 48" using len by (simp add: der)
  ultimately show ?thesis
    using Ed25519 assms(3)
    by (simp add: private_fromBytes_def edp_fromBytes_def edp_fromBytesDer_def edp_from_seed_def same_pair_def edp_new_def)
next
  case Secp256k1
  then obtain bs where p: "pk_pair k = ecdsa_pair L bs" using assms(2) by (auto simp: private_ok_def)
  have "take 32 (elliptic_private L bs) = elliptic_private L bs" using curve_okD(5)[OF assms(1), of bs] by simp
  then have der: "private_toBytesDer k = ecdsa_private_derPrefix @ scalar_padded (elliptic_private L bs)"
    using Secp256k1 by (simp add: private_toBytesDer_def ecp_toBytesDer_def Let_def p ecdsa_pair_def scalar_padded_def)
  have "length (private_toBytesDer k) = 50"
    using curve_okD(5)[OF assms(1), of bs] by (simp add: der scalar_padded_def)
  then show ?thesis
    using Secp256k1 curve_okD(7)[OF assms(1), of bs]
    by (simp add: private_fromBytes_def edp_fromBytes_def ecp_fromBytes_def ecp_fromBytesDer_def arrayStartsWith_def
        Let_def ecp_new_def p der)
qed

lemma private_text_back:
  "curve_ok L \<Longrightarrow> private_ok L k \<Longrightarrow> same_pair L k \<Longrightarrow>
     private_fromString L (private_toString k) = Inr (k\<lparr>pk_chainCode := None\<rparr>)"
  by (simp add: private_fromString_def private_toString_def decode_encode private_der_back)

text \<open>The raw form of a short scalar is another number than the DER form.\<close>

lemma short_scalar_moves:
  assumes "pk_type k = Secp256k1" and "length (kp_secret (pk_pair k)) < 32"
  shows "private_toBytesRaw k = kp_secret (pk_pair k) @ replicate (32 - length (kp_secret (pk_pair k))) 0"
    and "drop 18 (private_toBytesDer k) = replicate (32 - length (kp_secret (pk_pair k))) 0 @ kp_secret (pk_pair k)"
  using assms by (simp_all add: private_toBytesRaw_def ecp_toBytesRaw_def private_toBytesDer_def ecp_toBytesDer_def Let_def)

section \<open>Derivation\<close>

text \<open>The child of SLIP-0010: the MAC of a zero byte, the key and the hardened index.\<close>

definition slip10_child :: "'asn curve_lib \<Rightarrow> byte list \<times> byte list \<Rightarrow> nat \<Rightarrow> byte list \<times> byte list" where
  "slip10_child L kc i =
     split_digest (hmac_sha512 L (snd kc) (0 # fst kc @ be32 (2 ^ 31 + int i)))"

lemma be32_nth: "be32 n = [ucast (drop_bit 24 (word_of_int n :: 32 word)), ucast (drop_bit 16 (word_of_int n :: 32 word)),
    ucast (drop_bit 8 (word_of_int n :: 32 word)), ucast (word_of_int n :: 32 word)]"
  by (simp add: be32_def upt_rec)

lemma hardened_word:
  assumes "i < 2 ^ 31"
  shows "word_of_int (2 ^ 31 + int i) = (word_of_nat i :: 32 word) OR push_bit 31 1"
proof -
  have "i div 2 ^ n = 0" if "31 \<le> n" for n
    using assms power_increasing[OF that, of "2 :: nat"] by (intro div_less) linarith
  then have "(word_of_nat i :: 32 word) AND push_bit 31 1 = 0"
    by (intro bit_word_eqI) (auto simp: bit_simps bit_iff_odd[of i] simp del: push_bit_of_1)
  then have "(word_of_nat i :: 32 word) + push_bit 31 1 = word_of_nat i OR push_bit 31 1"
    by (rule disjunctive_add_eq_or)
  then show ?thesis by (simp add: add.commute)
qed

lemma be32_hardened:
  assumes "i < 2 ^ 31"
  shows "be32 (2 ^ 31 + int i) = (be32 (int i))[0 := be32 (int i) ! 0 OR 128]"
proof -
  have "ucast (drop_bit 24 (w OR push_bit 31 1)) = (ucast (drop_bit 24 w) OR 128 :: byte)"
    and "ucast (drop_bit 16 (w OR push_bit 31 1)) = (ucast (drop_bit 16 w) :: byte)"
    and "ucast (drop_bit 8 (w OR push_bit 31 1)) = (ucast (drop_bit 8 w) :: byte)"
    and "ucast (w OR push_bit 31 1) = (ucast w :: byte)" for w :: "32 word"
  proof -
    have b: "(128 :: byte) = push_bit 7 1" by simp
    show "ucast (drop_bit 24 (w OR push_bit 31 1)) = (ucast (drop_bit 24 w) OR 128 :: byte)"
      unfolding b by (intro bit_word_eqI) (auto simp: bit_simps simp del: push_bit_of_1)
  qed (intro bit_word_eqI, auto simp: bit_simps simp del: push_bit_of_1)+
  then show ?thesis unfolding be32_nth hardened_word[OF assms] by simp
qed

lemma length_be32 [simp]: "length (be32 n) = 4"
  by (simp add: be32_nth)

lemma unhardened: "i < 2 ^ 31 \<Longrightarrow> \<not> isHardenedIndex (int i)"
proof -
  assume i: "i < 2 ^ 31"
  have "word_of_int HARDENED_BIT = (push_bit 31 1 :: 32 word)" by (simp add: HARDENED_BIT_def)
  then have "isHardenedIndex (int i) \<longleftrightarrow> bit (word_of_nat i :: 32 word) 31"
    by (simp only: isHardenedIndex_def bit_iff_and_push_bit_not_eq_0 of_int_of_nat_eq)
  also have "\<dots> \<longleftrightarrow> odd (i div 2 ^ 31)" by (simp add: bit_simps bit_iff_odd[of i])
  finally show ?thesis using i by simp
qed

lemma slip10_step:
  assumes "length (fst kc) = 32" and "i < 2 ^ 31"
  shows "slip10_derive L (fst kc) (snd kc) (int i) = Inr (slip10_child L kc i)"
proof -
  have "bytes_set (replicate 37 0) 1 (fst kc) = Inr (0 # fst kc @ replicate 4 0)"
    using assms(1) by (simp add: bytes_set_def)
  moreover have "bytes_set (0 # fst kc @ replicate 4 0) 33 (be32 (int i)) = Inr (0 # fst kc @ be32 (int i))"
    using assms(1) by (simp add: bytes_set_def)
  moreover have "(0 # fst kc @ be32 (int i))[33 := (0 # fst kc @ be32 (int i)) ! 33 OR 128] =
      0 # fst kc @ be32 (2 ^ 31 + int i)"
    using assms(1) unfolding be32_hardened[OF assms(2)] by (simp add: list_update_append nth_append)
  ultimately show ?thesis
    using unhardened[OF assms(2)] by (simp add: slip10_derive_def slip10_child_def)
qed

lemma slip10_child_length:
  "curve_ok L \<Longrightarrow> length (fst (slip10_child L kc i)) = 32 \<and> length (snd (slip10_child L kc i)) = 32"
  using digest_chain[of L "snd kc" "0 # fst kc @ be32 (2 ^ 31 + int i)" "fst (slip10_child L kc i)" "snd (slip10_child L kc i)"]
  by (simp add: slip10_child_def)

lemma slip10_path_follows:
  "curve_ok L \<Longrightarrow> length (fst kc) = 32 \<Longrightarrow> list_all (\<lambda>i. i < 2 ^ 31) path \<Longrightarrow>
     slip10_path L kc (map int path) = Inr (foldl (slip10_child L) kc path)"
  by (induction path arbitrary: kc) (simp_all add: slip10_step slip10_child_length)

lemma edp_from_seed_pair:
  assumes "curve_ok L" and "length s = 32"
  obtains k where "edp_from_seed L s c = Inr k" and "pk_type k = Ed25519" and "private_toBytesRaw k = s"
    and "pk_chainCode k = c"
  using curve_okD(1)[OF assms] assms(2)
  by (auto simp: edp_from_seed_def edp_new_def private_toBytesRaw_def edp_toBytesRaw_def)

lemma derive_path_follows:
  assumes "curve_ok L"
  shows "length (fst kc) = 32 \<Longrightarrow> list_all (\<lambda>i. i < 2 ^ 31) path \<Longrightarrow>
     edp_from_seed L (fst kc) (Some (snd kc)) = Inr k \<Longrightarrow>
     derive_path L k (map int path) =
       Some (edp_from_seed L (fst (foldl (slip10_child L) kc path)) (Some (snd (foldl (slip10_child L) kc path))))"
proof (induction path arbitrary: kc k)
  case (Cons i path)
  obtain q where q: "edp_from_seed L (fst kc) (Some (snd kc)) = Inr q" "pk_type q = Ed25519"
      "private_toBytesRaw q = fst kc" "pk_chainCode q = Some (snd kc)"
    by (rule edp_from_seed_pair[OF assms Cons(2)])
  with Cons(4) have qk: "q = k" by simp
  let ?n = "slip10_child L kc i"
  have n: "length (fst ?n) = 32" using slip10_child_length[OF assms] by simp
  obtain m where m: "edp_from_seed L (fst ?n) (Some (snd ?n)) = Inr m"
    by (rule edp_from_seed_pair[OF assms n])
  have "private_derive L k (int i) = Some (edp_from_seed L (fst ?n) (Some (snd ?n)))"
    using q Cons(3) slip10_step[OF Cons(2), of i L]
    by (simp add: private_derive_def split_beta flip: qk)
  then show ?case using Cons(1)[OF n _ m] Cons(3) by (simp add: m)
qed simp

lemma phrase_seed: "slip10_fromSeed L (bip39_toSeed L (phrase mn) pass) = toKeyData L mn pass ''ed25519 seed''"
  by (simp only: slip10_fromSeed_def toKeyData_def)

lemma standard_key_follows:
  assumes "curve_ok L" and "i < 2 ^ 31"
  shows "phrase_standard_ed25519 L mn pass (Some (int i)) =
           Some (phrase_ed25519 L mn pass (HEDERA_PATH @ [int i])) \<and>
         phrase_ed25519 L mn pass (HEDERA_PATH @ [int i]) =
           (let kc = foldl (slip10_child L) (toKeyData L mn pass ''ed25519 seed'') [44, 3030, 0, 0, i]
            in edp_from_seed L (fst kc) (Some (snd kc)))"
proof -
  let ?kc = "toKeyData L mn pass ''ed25519 seed''"
  let ?last = "foldl (slip10_child L) ?kc [44, 3030, 0, 0, i]"
  have len: "length (fst ?kc) = 32"
    using digest_chain[OF assms(1)] unfolding toKeyData_def by (metis prod.collapse)
  have path: "map int [44, 3030, 0, 0, i] = HEDERA_PATH @ [int i]" by (simp add: HEDERA_PATH_def)
  have small: "list_all (\<lambda>i. i < 2 ^ 31) [44, 3030, 0, 0, i]" using assms(2) by simp
  have one: "phrase_ed25519 L mn pass (HEDERA_PATH @ [int i]) = edp_from_seed L (fst ?last) (Some (snd ?last))"
    using slip10_path_follows[OF assms(1) len small]
    unfolding phrase_ed25519_def path by (simp only: res_bind_simps split_beta)
  obtain k where k: "edp_from_seed L (fst ?kc) (Some (snd ?kc)) = Inr k"
    by (rule edp_from_seed_pair[OF assms(1) len])
  have "edp_fromSeed L (bip39_toSeed L (phrase mn) pass) = Inr k"
    using k by (simp only: edp_fromSeed_def phrase_seed split_beta)
  then have "phrase_standard_ed25519 L mn pass (Some (int i)) = derive_path L k (map int [44, 3030, 0, 0, i])"
    by (simp add: phrase_standard_ed25519_def from_seed_along_def)
  also have "\<dots> = Some (edp_from_seed L (fst ?last) (Some (snd ?last)))"
    by (rule derive_path_follows[OF assms(1) len small k])
  finally show ?thesis unfolding one Let_def by simp
qed

section \<open>Signing with ECDSA\<close>

lemma ecdsa_digest_standard: "ecdsa_digest m = Some (keccak256_spec m)"
  by (simp add: ecdsa_digest_def keccak256_standard[simplified] decode_0x_encode[simplified])

end
