(* ===== verification/KeySigning.thy ===== *)
theory KeySigning
  imports PrivateKeyLaws TxLaws
begin

text \<open>
  \<open>signTransaction\<close> of \<open>src/PrivateKey.js\<close>: a private key signs the body of every signed transaction, puts
  the signatures into a map by node and transaction, and adds them to the transaction.
\<close>

fun sign_map ::
    "('acc, 'tid, 'data) proto_lib \<Rightarrow> 'asn curve_lib \<Rightarrow> private_key \<Rightarrow> ('acc, 'tid) signature_map
     \<Rightarrow> signed_tx option list \<Rightarrow> ('acc, 'tid) signature_map result option" where
  "sign_map L C k m [] = Some (Inr m)"
| "sign_map L C k m (None # xs) = Some (Inl undefined_error)"
| "sign_map L C k m (Some s # xs) =
     (case decBody L (bodyBytes s) of
        Inl e \<Rightarrow> Some (Inl e)
      | Inr b \<Rightarrow>
          (case (b_tid b, b_node b) of
             (Some i, Some n) \<Rightarrow>
               (case private_sign C k (bodyBytes s) of
                  None \<Rightarrow> None
                | Some sg \<Rightarrow> sign_map L C k (m(n := (m n)(i := (m n i)(private_publicKey k := Some sg)))) xs)
           | _ \<Rightarrow> Some (Inl (Error ''Transaction ID or Node Account ID not found in the signed transaction''))))"

definition private_signTransaction ::
    "('acc, 'tid, 'data) proto_lib \<Rightarrow> ('acc \<Rightarrow> 'tid) \<Rightarrow> 'asn curve_lib \<Rightarrow> private_key
     \<Rightarrow> ('acc, 'tid, 'data) tx \<Rightarrow> (('acc, 'tid) signature_map \<times> ('acc, 'tid, 'data) tx) result option" where
  "private_signTransaction L gen C k t =
     map_option (\<lambda>r. res_bind r (\<lambda>m.
         res_bind (addSignature L gen (private_publicKey k) m t) (\<lambda>t'. Inr (m, t'))))
       (sign_map L C k (\<lambda>_ _ _. None) (items (signedTransactions t)))"

section \<open>Laws\<close>

definition signature_of :: "'asn curve_lib \<Rightarrow> private_key \<Rightarrow> signer" where
  "signature_of C k bs = the (private_sign C k bs)"

lemma private_sign_some: "private_sign C k bs = Some (signature_of C k bs)"
  by (cases "pk_type k") (simp_all add: signature_of_def private_sign_def ecdsa_sign_def ecdsa_digest_standard)

text \<open>The body names its node and its transaction, and the two name the body.\<close>

definition bodies_ok :: "('acc, 'tid, 'data) proto_lib \<Rightarrow> ('acc \<Rightarrow> 'tid \<Rightarrow> byte list) \<Rightarrow> signed_tx option list \<Rightarrow> bool" where
  "bodies_ok L body xs \<longleftrightarrow>
     list_all (\<lambda>x. \<exists>s b i n. x = Some s \<and> decBody L (bodyBytes s) = Inr b \<and> b_tid b = Some i \<and>
       b_node b = Some n \<and> body n i = bodyBytes s) xs"

definition map_right :: "public_key \<Rightarrow> signer \<Rightarrow> ('acc \<Rightarrow> 'tid \<Rightarrow> byte list) \<Rightarrow> ('acc, 'tid) signature_map \<Rightarrow> bool" where
  "map_right q f body m \<longleftrightarrow> (\<forall>n i sg. m n i q = Some sg \<longrightarrow> sg = f (body n i))"

definition map_covers ::
    "('acc, 'tid, 'data) proto_lib \<Rightarrow> public_key \<Rightarrow> signed_tx option list \<Rightarrow> ('acc, 'tid) signature_map \<Rightarrow> bool" where
  "map_covers L q xs m \<longleftrightarrow>
     (\<forall>s b i n. Some s \<in> set xs \<longrightarrow> decBody L (bodyBytes s) = Inr b \<longrightarrow> b_tid b = Some i \<longrightarrow>
        b_node b = Some n \<longrightarrow> m n i q \<noteq> None)"

definition map_grows :: "public_key \<Rightarrow> ('acc, 'tid) signature_map \<Rightarrow> ('acc, 'tid) signature_map \<Rightarrow> bool" where
  "map_grows q m m' \<longleftrightarrow> (\<forall>n i. m n i q \<noteq> None \<longrightarrow> m' n i q \<noteq> None)"

lemma sign_map_runs:
  "bodies_ok L body xs \<Longrightarrow> map_right (private_publicKey k) (signature_of C k) body m \<Longrightarrow>
     \<exists>m'. sign_map L C k m xs = Some (Inr m') \<and> map_right (private_publicKey k) (signature_of C k) body m' \<and>
       map_grows (private_publicKey k) m m' \<and> map_covers L (private_publicKey k) xs m'"
proof (induction xs arbitrary: m)
  case Nil
  then show ?case by (simp add: map_grows_def map_covers_def)
next
  case (Cons x xs)
  let ?q = "private_publicKey k"
  from Cons(2) obtain s b i n where x: "x = Some s" "decBody L (bodyBytes s) = Inr b" "b_tid b = Some i"
      "b_node b = Some n" "body n i = bodyBytes s"
    by (auto simp: bodies_ok_def)
  let ?m = "m(n := (m n)(i := (m n i)(?q := Some (signature_of C k (bodyBytes s)))))"
  have r: "map_right ?q (signature_of C k) body ?m" using Cons(3) x(5) by (auto simp: map_right_def)
  have "bodies_ok L body xs" using Cons(2) by (simp add: bodies_ok_def)
  from Cons(1)[OF this r] obtain m' where m': "sign_map L C k ?m xs = Some (Inr m')"
    "map_right ?q (signature_of C k) body m'" "map_grows ?q ?m m'" "map_covers L ?q xs m'"
    by blast
  have "map_grows ?q m ?m" by (simp add: map_grows_def)
  with m'(3) have grows: "map_grows ?q m m'" unfolding map_grows_def by blast
  have "m' n i ?q \<noteq> None" using m'(3) by (simp add: map_grows_def)
  then have "map_covers L ?q (x # xs) m'" using m'(4) x by (auto simp: map_covers_def)
  moreover have "sign_map L C k m (x # xs) = Some (Inr m')"
    using m'(1) x by (simp add: private_sign_some)
  ultimately show ?case using m'(2) grows by blast
qed

lemma add_signed:
  "bodies_ok L body xs \<Longrightarrow> map_right q f body m \<Longrightarrow> map_covers L q xs m \<Longrightarrow>
     map_result (add_one L q m) xs = Inr (map (map_option (sign_one q f)) xs)"
proof (induction xs)
  case (Cons x xs)
  from Cons(2) obtain s b i n where x: "x = Some s" "decBody L (bodyBytes s) = Inr b" "b_tid b = Some i"
      "b_node b = Some n" "body n i = bodyBytes s"
    by (auto simp: bodies_ok_def)
  obtain sg where sg: "m n i q = Some sg" using Cons(4) x by (fastforce simp: map_covers_def)
  with Cons(3) x(5) have "sg = f (bodyBytes s)" by (metis map_right_def)
  moreover have "map_result (add_one L q m) xs = Inr (map (map_option (sign_one q f)) xs)"
    using Cons by (simp add: bodies_ok_def map_covers_def)
  moreover have "add_one L q m s = Inr (sign_one q f s)"
    using x sg calculation(1) by (simp add: add_one_def sign_one_def)
  ultimately show ?case using x(1) by simp
qed simp

text \<open>C12: a private key of either curve signs a frozen transaction: every signed transaction gets exactly the
  key's signature of its own body, the earlier ones stay, what was built is forgotten and the table is
  locked. An ECDSA key signs the Keccak-256 of the body.\<close>

theorem private_key_signs_transaction:
  assumes "public_isFrozen t" and "bodies_ok L body (items (signedTransactions t))"
    and "key_hex (private_publicKey k) \<notin> set (signerPublicKeys t)"
  shows "\<exists>m t'. private_signTransaction L gen C k t = Some (Inr (m, t')) \<and>
    items (signedTransactions t') =
      map (map_option (sign_one (private_publicKey k) (signature_of C k))) (items (signedTransactions t)) \<and>
    items (transactions t') = [] \<and> locked (signedTransactions t') \<and>
    signerPublicKeys t' = signerPublicKeys t @ [key_hex (private_publicKey k)] \<and>
    (pk_type k = Secp256k1 \<longrightarrow>
       signature_of C k bs = (case elliptic_sign C (kp_secret (pk_pair k)) (keccak256_spec bs) of (r, s) \<Rightarrow> r @ s))"
proof -
  have "map_right (private_publicKey k) (signature_of C k) body (\<lambda>_ _ _. None)" by (simp add: map_right_def)
  from sign_map_runs[OF assms(2) this] obtain m
    where m: "sign_map L C k (\<lambda>_ _ _. None) (items (signedTransactions t)) = Some (Inr m)"
      "map_right (private_publicKey k) (signature_of C k) body m"
      "map_covers L (private_publicKey k) (items (signedTransactions t)) m"
    by blast
  note add = add_signed[OF assms(2) m(2,3)]
  show ?thesis
    using assms(1,3) m(1)
    by (simp add: private_signTransaction_def addSignature_def freeze_if_needed_def add signature_of_def private_sign_def
        ecdsa_sign_def ecdsa_digest_standard clear_def setLocked_def)
qed

end
