(* ===== verification/KeySample.thy ===== *)
theory KeySample
  imports KeySigning
begin

text \<open>
  The theorems on private keys, and their instances for a library without curves: a private scalar is
  its 32 bytes and the public key repeats them.
\<close>


text \<open>C13: the standard Ed25519 key of a phrase and an index is the key of SLIP-0010 at the end of the path
  44, 3030, 0, 0, index, every step hardened: deriving key objects one by one, deriving key data along the
  path and the derivation of the standard agree.\<close>

theorem standard_key_is_slip10:
  assumes "curve_ok L" and "i < 2 ^ 31"
  shows "phrase_standard_ed25519 L mn pass (Some (int i)) =
           Some (phrase_ed25519 L mn pass (HEDERA_PATH @ [int i])) \<and>
         phrase_ed25519 L mn pass (HEDERA_PATH @ [int i]) =
           (let kc = foldl (slip10_child L) (toKeyData L mn pass ''ed25519 seed'') [44, 3030, 0, 0, i]
            in edp_from_seed L (fst kc) (Some (snd kc)))"
  by (rule standard_key_follows[OF assms])

text \<open>A path that is not one is not refused: all such texts give the key of \<open>m/0/0/0/0/0\<close>.\<close>

lemma bad_path_is_zero:
  "find_path text = None \<Longrightarrow> phrase_custom_ecdsa L mn pass text = phrase_ecdsa L mn pass [0, 0, 0, 0, 0]"
  by (simp add: phrase_custom_ecdsa_def calculateDerivationPathValues_def numeral_eq_Suc)

lemma bad_path_example:
  "phrase_custom_ecdsa L mn pass ''44/60/0/0/7'' = phrase_custom_ecdsa L mn pass ''1/2/3''"
  by (subst (1 2) bad_path_is_zero) simp_all

section \<open>Instances\<close>

definition sample_scalar :: "byte list \<Rightarrow> byte list" where
  "sample_scalar bs = take 32 (bs @ replicate 32 0)"

definition sample_curve :: "byte list curve_lib" where
  "sample_curve =
     \<lparr>nacl_fromSeed = (\<lambda>s. if length s = 32 then Inr \<lparr>kp_public = s, kp_secret = s @ s\<rparr>
                        else Inl (Error ''bad seed size'')),
      nacl_fromSecretKey = (\<lambda>s. if length s = 64 then Inr \<lparr>kp_public = drop 32 s, kp_secret = s\<rparr>
                             else Inl (Error ''bad secret key size'')),
      nacl_detached = (\<lambda>m k. take 32 k @ m),
      elliptic_private = sample_scalar,
      elliptic_public = (\<lambda>bs. 2 # sample_scalar bs),
      elliptic_full = (\<lambda>bs. 4 # bs),
      elliptic_scalar = (\<lambda>bs. foldl (\<lambda>n b. 256 * n + unat b) 0 bs),
      elliptic_sign = (\<lambda>k d. (k, d)),
      bn_bytes = (\<lambda>n. [of_nat n]),
      asn_fromDer = (\<lambda>bs. Inr (drop 16 bs)),
      asn_privateKey = Inr,
      hmac_sha512 = (\<lambda>k d. take 64 (d @ k @ replicate 64 0)),
      pbkdf2_sha512 = (\<lambda>p s n len. take len (p @ replicate len 0)),
      nfkd = (\<lambda>t. t)\<rparr>"

lemma sample_curve_ok: "curve_ok sample_curve"
  by (auto simp: curve_ok_def sample_curve_def ecdsa_pair_def scalar_padded_def sample_scalar_def)

definition sample_ed :: private_key where
  "sample_ed = edp_new \<lparr>kp_public = replicate 32 7, kp_secret = replicate 64 7\<rparr> None"

lemma sample_made: "made_key sample_curve sample_ed"
proof (rule made_key.from_bytes_ed)
  show "edp_fromBytes sample_curve (replicate 32 7) = Inr sample_ed"
    by (simp add: edp_fromBytes_def edp_fromBytesRaw_def edp_from_seed_def sample_curve_def sample_ed_def
        flip: replicate_add)
qed


theorem standard_key_is_slip10_witness:
  "phrase_standard_ed25519 sample_curve \<lparr>phrase = [''abandon'']\<rparr> [] (Some 0) =
     Some (phrase_ed25519 sample_curve \<lparr>phrase = [''abandon'']\<rparr> [] [44, 3030, 0, 0, 0])"
  using standard_key_is_slip10[OF sample_curve_ok, of 0 "\<lparr>phrase = [''abandon'']\<rparr>" "[]"]
  by (simp add: HEDERA_PATH_def)

section \<open>Signing a transaction\<close>

definition signing_lib :: "(nat, nat, unit) proto_lib" where
  "signing_lib =
     \<lparr>encBody = (\<lambda>b. []),
      decBody = (\<lambda>bs. Inr \<lparr>b_data = (), b_fee = None, b_memo = [], b_tid = Some 1, b_node = Some (length bs),
                        b_duration = None\<rparr>),
      encSigned = (\<lambda>s. []), decSigned = (\<lambda>bs. Inl (Error [])), encList = (\<lambda>l. []),
      decList = (\<lambda>bs. Inl (Error [])), decTransaction = (\<lambda>bs. Inl (Error [])), sha384 = (\<lambda>bs. bs)\<rparr>"

definition signing_tx :: "(nat, nat, unit) tx" where
  "signing_tx = (new_tx ())
     \<lparr>signedTransactions := new_list\<lparr>items :=
        [Some \<lparr>sigPairs = None, bodyBytes = [5]\<rparr>, Some \<lparr>sigPairs = None, bodyBytes = [5, 6]\<rparr>]\<rparr>\<rparr>"

theorem private_key_signs_transaction_witness:
  "\<exists>m t'. private_signTransaction signing_lib (\<lambda>a. 1) sample_curve sample_ed signing_tx = Some (Inr (m, t')) \<and>
     items (transactions t') = []"
proof -
  have "public_isFrozen signing_tx"
    and "key_hex (private_publicKey sample_ed) \<notin> set (signerPublicKeys signing_tx)"
    by (simp_all add: public_isFrozen_def signing_tx_def list_length_def new_tx_def)
  moreover have "bodies_ok signing_lib (\<lambda>n i. if n = 1 then [5] else [5, 6]) (items (signedTransactions signing_tx))"
    by (simp add: bodies_ok_def signing_tx_def signing_lib_def)
  ultimately show ?thesis
    using private_key_signs_transaction[of signing_tx signing_lib "\<lambda>n i. if n = 1 then [5] else [5, 6]" sample_ed
        "\<lambda>a. 1" sample_curve "[]"] by blast
qed

end
