(* ===== verification/KeyTree.thy ===== *)
theory KeyTree
  imports Keys ContractIds
begin

text \<open>
  Keys that are made of keys: \<open>src/Key.js\<close> and \<open>src/KeyList.js\<close>. A key is a public key, a contract, a
  contract that may delegate, or a list of keys with an optional threshold, nested as deep as it likes;
  an element of a list may be \<open>null\<close>, which is what reading a message of an unknown kind gives.
\<close>

section \<open>Keys and messages\<close>

datatype key_tree =
    PublicTree public_key
  | ContractTree contract_id
  | DelegateTree delegate_id
  | ListTree "key_tree option list" "int option"

text \<open>A message has one field for each kind of key; a field that is not set is \<open>None\<close>.\<close>

datatype key_message =
  KeyMessage (km_contract: "contract_message option") (km_delegate: "contract_message option")
    (km_ed25519: "byte list option") (km_ecdsa: "byte list option")
    (km_threshold: "threshold_message option") (km_list: "key_list_message option")
and threshold_message = ThresholdMessage (th_threshold: "int option") (th_keys: "key_list_message option")
and key_list_message = KeyListMessage (kl_keys: "key_message list option")

definition no_key :: key_message where
  "no_key = KeyMessage None None None None None None"

section \<open>Reading\<close>

definition given_bytes :: "byte list option \<Rightarrow> byte list" where
  "given_bytes b = (case b of None \<Rightarrow> [] | Some bs \<Rightarrow> bs)"

function tree_of :: "'asn der_lib \<Rightarrow> key_message \<Rightarrow> key_tree option result"
  and trees_of :: "'asn der_lib \<Rightarrow> key_message list \<Rightarrow> key_tree option list result"
  and keyList_of :: "'asn der_lib \<Rightarrow> key_list_message \<Rightarrow> key_tree option list result" where
  "tree_of D (KeyMessage c d e s t l) =
     (case c of Some m \<Rightarrow> res_bind (contract_fromProtobuf m) (\<lambda>i. Inr (Some (ContractTree i)))
      | None \<Rightarrow>
     (case d of Some m \<Rightarrow> res_bind (delegate_fromProtobuf m) (\<lambda>i. Inr (Some (DelegateTree i)))
      | None \<Rightarrow>
        if length (given_bytes e) > 0 then res_bind (ed_fromBytes D (given_bytes e)) (\<lambda>k. Inr (Some (PublicTree k)))
        else if length (given_bytes s) > 0 then res_bind (ecdsa_fromBytes D (given_bytes s)) (\<lambda>k. Inr (Some (PublicTree k)))
        else
     (case t of Some (ThresholdMessage (Some n) ks) \<Rightarrow>
          res_bind (case ks of None \<Rightarrow> Inr [] | Some k \<Rightarrow> keyList_of D k) (\<lambda>xs. Inr (Some (ListTree xs (Some n))))
      | _ \<Rightarrow>
     (case l of Some k \<Rightarrow> res_bind (keyList_of D k) (\<lambda>xs. Inr (Some (ListTree xs None)))
      | None \<Rightarrow> Inr None))))"
| "trees_of D [] = Inr []"
| "trees_of D (m # ms) = res_bind (tree_of D m) (\<lambda>k. res_bind (trees_of D ms) (\<lambda>ks. Inr (k # ks)))"
| "keyList_of D (KeyListMessage ks) = (case ks of None \<Rightarrow> Inr [] | Some ms \<Rightarrow> trees_of D ms)"
  by pat_completeness auto
termination
  by (relation "measure (case_sum (\<lambda>(_, m). size m) (case_sum (\<lambda>(_, ms). size_list size ms) (\<lambda>(_, k). size k)))")
    auto

section \<open>Writing\<close>

definition null_element :: "'a result" where
  "null_element = Inl (TypeError ''Cannot read properties of null (reading '_toProtobufKey')'')"

fun tree_message :: "key_tree \<Rightarrow> key_message result"
  and tree_messages :: "key_tree option list \<Rightarrow> key_message list result" where
  "tree_message (PublicTree k) =
     Inr (case key_type k of
            Ed25519 \<Rightarrow> KeyMessage None None (Some (raw_key k)) None None None
          | Secp256k1 \<Rightarrow> KeyMessage None None None (Some (raw_key k)) None None)"
| "tree_message (ContractTree i) = Inr (KeyMessage (Some (contract_toProtobuf i)) None None None None None)"
| "tree_message (DelegateTree i) = Inr (KeyMessage None (Some (contract_toProtobuf i)) None None None None)"
| "tree_message (ListTree ks th) =
     res_bind (tree_messages ks) (\<lambda>ms. Inr
       (case th of
          None \<Rightarrow> KeyMessage None None None None None (Some (KeyListMessage (Some ms)))
        | Some n \<Rightarrow> KeyMessage None None None None
                      (Some (ThresholdMessage (Some n) (Some (KeyListMessage (Some ms))))) None))"
| "tree_messages [] = Inr []"
| "tree_messages (None # ks) = null_element"
| "tree_messages (Some k # ks) =
     res_bind (tree_message k) (\<lambda>m. res_bind (tree_messages ks) (\<lambda>ms. Inr (m # ms)))"

section \<open>Lists of keys\<close>

text \<open>The keys of a list and its threshold.\<close>

type_synonym key_list = "key_tree option list \<times> int option"

datatype keys_arg = NoKeys | OneKey key_tree | ManyKeys "key_tree option list"

definition keyList_new :: "keys_arg \<Rightarrow> int option \<Rightarrow> key_list" where
  "keyList_new ks th = ((case ks of NoKeys \<Rightarrow> [] | OneKey k \<Rightarrow> [Some k] | ManyKeys xs \<Rightarrow> xs), th)"

definition keyList_single :: "key_tree option list \<Rightarrow> key_list" where
  "keyList_single ks = keyList_new (ManyKeys ks) None"

definition keyList_from :: "(key_tree option \<Rightarrow> nat \<Rightarrow> key_tree option) option \<Rightarrow> key_tree option list \<Rightarrow> key_list" where
  "keyList_from f xs =
     keyList_new (ManyKeys (case f of None \<Rightarrow> xs | Some g \<Rightarrow> map (\<lambda>(i, x). g x i) (enumerate 0 xs))) None"

definition keyList_setThreshold :: "int \<Rightarrow> key_list \<Rightarrow> key_list" where
  "keyList_setThreshold n k = (fst k, Some n)"

text \<open>\<open>push\<close> returns the new length.\<close>

definition keyList_push :: "key_tree option list \<Rightarrow> key_list \<Rightarrow> nat \<times> key_list" where
  "keyList_push new k = (length (fst k) + length new, (fst k @ new, snd k))"

text \<open>A position of \<open>slice\<close> and \<open>splice\<close> counts from the end when it is negative.\<close>

definition position :: "nat \<Rightarrow> int \<Rightarrow> nat" where
  "position len i = (if i < 0 then nat (int len + i) else min (nat i) len)"

text \<open>\<open>splice\<close> takes keys out of the list it is called on, puts others in their place, and returns those it
  took out as a list with the same threshold.\<close>

definition keyList_splice ::
    "int \<Rightarrow> int \<Rightarrow> key_tree option list \<Rightarrow> key_list \<Rightarrow> key_list \<times> key_list" where
  "keyList_splice start count new k =
     (let ks = fst k; s = position (length ks) start; n = min (nat count) (length ks - s)
      in (keyList_new (ManyKeys (take n (drop s ks))) (snd k), (take s ks @ new @ drop (s + n) ks, snd k)))"

definition keyList_slice :: "int option \<Rightarrow> int option \<Rightarrow> key_list \<Rightarrow> key_list" where
  "keyList_slice start stop k =
     (let ks = fst k; s = position (length ks) (case start of None \<Rightarrow> 0 | Some i \<Rightarrow> i);
          e = (case stop of None \<Rightarrow> length ks | Some i \<Rightarrow> position (length ks) i)
      in keyList_new (ManyKeys (take (e - s) (drop s ks))) (snd k))"

definition keyList_toArray :: "key_list \<Rightarrow> key_tree option list" where
  "keyList_toArray k = fst k"

definition keyList_toTree :: "key_list \<Rightarrow> key_tree" where
  "keyList_toTree k = ListTree (fst k) (snd k)"

text \<open>The text of a list is JSON whose keys are one text, joined by commas.\<close>

definition json_text :: "string \<Rightarrow> string" where
  "json_text s = ''\"'' @ concat (map (\<lambda>c. if c = CHR ''\"'' \<or> c = CHR 0x5C then [CHR 0x5C, c] else [c]) s) @ ''\"''"

fun join_commas :: "string list \<Rightarrow> string" where
  "join_commas [] = []"
| "join_commas [s] = s"
| "join_commas (s # r) = s @ '','' @ join_commas r"

fun tree_toString :: "long_lib \<Rightarrow> key_tree \<Rightarrow> string"
  and trees_toString :: "long_lib \<Rightarrow> key_tree option list \<Rightarrow> string list" where
  "tree_toString L (PublicTree k) = key_toString k"
| "tree_toString L (ContractTree i) = contract_toString L i"
| "tree_toString L (DelegateTree i) = contract_toString L i"
| "tree_toString L (ListTree ks th) =
     ''{\"threshold\":'' @ (case th of None \<Rightarrow> ''null'' | Some n \<Rightarrow> show_int n) @
     '',\"keys\":'' @ json_text (join_commas (trees_toString L ks)) @ ''}''"
| "trees_toString L [] = []"
| "trees_toString L (None # ks) = [] # trees_toString L ks"
| "trees_toString L (Some k # ks) = tree_toString L k # trees_toString L ks"

section \<open>Laws\<close>

text \<open>A key that the protocol knows: no element is missing, the public keys have their length, and the
  contracts are given by their numbers.\<close>

fun tree_ok :: "key_tree \<Rightarrow> bool" and trees_ok :: "key_tree option list \<Rightarrow> bool" where
  "tree_ok (PublicTree k) = key_ok k"
| "tree_ok (ContractTree i) = (contract_ok i \<and> con_evm i = None)"
| "tree_ok (DelegateTree i) = (contract_ok i \<and> con_evm i = None)"
| "tree_ok (ListTree ks th) = trees_ok ks"
| "trees_ok [] = True"
| "trees_ok (None # ks) = False"
| "trees_ok (Some k # ks) = (tree_ok k \<and> trees_ok ks)"

text \<open>Every such key is written, and reading the message gives it back.\<close>

lemma no_evm: "con_evm i = None \<Longrightarrow> i\<lparr>con_evm := None\<rparr> = i"
  by (cases i) simp

lemma delegate_proto_back:
  "contract_ok i \<Longrightarrow> con_evm i = None \<Longrightarrow> delegate_fromProtobuf (contract_toProtobuf i) = Inr i"
  by (simp add: delegate_fromProtobuf_def contract_proto_back no_evm delegate_of_ok)

lemma public_tree_back:
  "key_ok k \<Longrightarrow> \<exists>m. tree_message (PublicTree k) = Inr m \<and> tree_of D m = Inr (Some (PublicTree k))"
  by (cases k; cases "key_type k"; cases "raw_key k")
     (simp_all add: key_ok_def given_bytes_def ed_fromBytes_def ed_fromBytesRaw_def ecdsa_fromBytes_def
        ecdsa_fromBytesRaw_def)

lemma tree_back:
  "tree_ok k \<Longrightarrow> \<exists>m. tree_message k = Inr m \<and> tree_of D m = Inr (Some k)"
  "trees_ok ks \<Longrightarrow> \<exists>ms. tree_messages ks = Inr ms \<and> trees_of D ms = Inr ks"
proof (induction k and ks rule: tree_message_tree_messages.induct)
  case (1 k)
  then show ?case using public_tree_back[of k D] by (simp del: tree_message.simps)
next
  case (2 i)
  then show ?case by (simp add: contract_proto_back no_evm)
next
  case (3 i)
  then show ?case by (simp add: delegate_proto_back)
next
  case (4 ks th)
  then obtain ms where "tree_messages ks = Inr ms" "trees_of D ms = Inr ks" by auto
  then show ?case by (cases th) (simp_all add: given_bytes_def)
qed auto


definition sample_tree :: key_tree where
  "sample_tree = ListTree [Some (ContractTree \<lparr>con_id = \<lparr>shard = 0, realm = 0, num = 5\<rparr>, con_evm = None, con_checksum = None\<rparr>),
     Some (ListTree [] None)] (Some 1)"

lemma sample_tree_ok: "tree_ok sample_tree"
  by (simp add: sample_tree_def contract_ok_def valid_id_def nonneg_def)


section \<open>Moving keys\<close>

text \<open>\<open>splice\<close> only moves keys: what it returns and what it leaves hold the old keys and the new ones, and
  putting the returned keys back in their place undoes it.\<close>

lemma splice_parts:
  assumes "s \<le> length ks"
  obtains x y z where "ks = x @ y @ z" and "length x = s"
    and "keyList_splice (int s) (int n) new (ks, th) = ((y, th), (x @ new @ z, th))"
proof
  let ?m = "min n (length ks - s)"
  show "ks = take s ks @ take ?m (drop s ks) @ drop (s + ?m) ks"
    by (metis append_take_drop_id drop_drop add.commute)
  show "length (take s ks) = s" using assms by simp
  show "keyList_splice (int s) (int n) new (ks, th)
      = ((take ?m (drop s ks), th), (take s ks @ new @ drop (s + ?m) ks, th))"
    using assms by (simp add: keyList_splice_def keyList_new_def position_def Let_def min_def)
qed

lemma splice_undone:
  assumes "keyList_splice (int s) (int n) new k = (out, k')" and "s \<le> length (fst k)"
  shows "keyList_splice (int s) (int (length new)) (keyList_toArray out) k' = ((new, snd k), k)"
proof -
  obtain ks th where k: "k = (ks, th)" by fastforce
  with assms(2) have "s \<le> length ks" by simp
  then obtain x y z where p: "ks = x @ y @ z" "length x = s"
    "keyList_splice (int s) (int n) new (ks, th) = ((y, th), (x @ new @ z, th))" using splice_parts by blast
  then have "out = (y, th)" "k' = (x @ new @ z, th)" using assms(1) k by simp_all
  then show ?thesis
    using p(1,2) by (simp add: k keyList_splice_def keyList_toArray_def keyList_new_def position_def Let_def)
qed

end
