(* ===== verification/TxFields.thy ===== *)
theory TxFields
  imports TransferLaws KeyTree TxRoundTrip
begin

text \<open>
  What the concrete transactions have in common. Such a class keeps its fields beside the base
  transaction (here they are the data of the base), every setter first refuses a frozen transaction,
  the constructor calls the setter of each property that is given, \<open>_makeTransactionData\<close> writes the
  message of the body and \<open>_fromProtobuf\<close> constructs the transaction from the message. The locale at the
  end states what writing and reading owe each other.

  A message has \<open>None\<close> for what is not set. protobufjs fills a scalar that was not sent with its default,
  so the laws ask for scalars that are set.
\<close>

section \<open>Setters and constructors\<close>

type_synonym 'd base = "(account_id, tx_id, 'd) tx"

definition set_field :: "('d \<Rightarrow> 'd result) \<Rightarrow> 'd base \<Rightarrow> 'd base result" where
  "set_field f t =
     res_bind (requireNotFrozen t) (\<lambda>_. res_bind (f (tx_data t)) (\<lambda>d. Inr (t\<lparr>tx_data := d\<rparr>)))"

text \<open>Some setters forget to look whether the transaction is frozen.\<close>

definition set_unguarded :: "('d \<Rightarrow> 'd result) \<Rightarrow> 'd base \<Rightarrow> 'd base result" where
  "set_unguarded f t = res_bind (f (tx_data t)) (\<lambda>d. Inr (t\<lparr>tx_data := d\<rparr>))"

text \<open>What a setter computes is stored in a field that may be \<open>null\<close> or in one that always has a value.\<close>

definition put :: "'a result \<Rightarrow> ('a option \<Rightarrow> 'd \<Rightarrow> 'd) \<Rightarrow> 'd \<Rightarrow> 'd result" where
  "put r upd d = res_bind r (\<lambda>a. Inr (upd (Some a) d))"

definition store :: "'a result \<Rightarrow> ('a \<Rightarrow> 'd \<Rightarrow> 'd) \<Rightarrow> 'd \<Rightarrow> 'd result" where
  "store r upd d = res_bind r (\<lambda>a. Inr (upd a d))"

text \<open>A new transaction with its default maximum fee, before the properties are looked at.\<close>

definition start :: "int \<Rightarrow> 'd \<Rightarrow> 'd base" where
  "start fee d = (new_tx d)\<lparr>defaultMaxFee := fee\<rparr>"

definition given :: "('a \<Rightarrow> 's \<Rightarrow> 's result) \<Rightarrow> 'a option \<Rightarrow> 's \<Rightarrow> 's result" where
  "given f x s = (case x of None \<Rightarrow> Inr s | Some a \<Rightarrow> f a s)"

text \<open>A text for which the constructor also asks whether it is empty.\<close>

definition nonempty :: "string option \<Rightarrow> string option" where
  "nonempty x = (case x of Some [] \<Rightarrow> None | _ \<Rightarrow> x)"

fun chain :: "('s \<Rightarrow> 's result) list \<Rightarrow> 's \<Rightarrow> 's result" where
  "chain [] s = Inr s"
| "chain (f # fs) s = res_bind (f s) (chain fs)"

definition checked :: "('a \<Rightarrow> unit result) \<Rightarrow> 'a option \<Rightarrow> unit result" where
  "checked f x = (case x of None \<Rightarrow> Inr () | Some a \<Rightarrow> f a)"

fun all_checked :: "unit result list \<Rightarrow> unit result" where
  "all_checked [] = Inr ()"
| "all_checked (r # rs) = res_bind r (\<lambda>_. all_checked rs)"

section \<open>Arguments\<close>

text \<open>Where the setter copies an identifier it is given as an object.\<close>

definition account_copy :: "'asn transfer_lib \<Rightarrow> account_id id_arg \<Rightarrow> account_id result" where
  "account_copy E a =
     (case a of IdObject i \<Rightarrow> account_clone i | IdText s \<Rightarrow> account_fromString (lb_long E) (lb_der E) s)"

definition token_copy :: "'asn transfer_lib \<Rightarrow> token_id id_arg \<Rightarrow> token_id result" where
  "token_copy E a = (case a of IdObject i \<Rightarrow> token_clone i | IdText s \<Rightarrow> token_fromString (lb_long E) s)"

text \<open>One setter writes the identifier to a message and reads it again.\<close>

definition token_reread :: "'asn transfer_lib \<Rightarrow> token_id id_arg \<Rightarrow> token_id result" where
  "token_reread E a =
     (case a of IdObject i \<Rightarrow> token_fromProtobuf (token_toProtobuf i) | IdText s \<Rightarrow> token_fromString (lb_long E) s)"

definition file_copy :: "'asn transfer_lib \<Rightarrow> file_id id_arg \<Rightarrow> file_id result" where
  "file_copy E a = (case a of IdObject i \<Rightarrow> file_clone i | IdText s \<Rightarrow> file_fromString (lb_long E) s)"

definition file_arg :: "'asn transfer_lib \<Rightarrow> file_id id_arg \<Rightarrow> file_id result" where
  "file_arg E a = (case a of IdObject i \<Rightarrow> Inr i | IdText s \<Rightarrow> file_fromString (lb_long E) s)"

definition topic_copy :: "'asn transfer_lib \<Rightarrow> topic_id id_arg \<Rightarrow> topic_id result" where
  "topic_copy E a = (case a of IdObject i \<Rightarrow> topic_clone i | IdText s \<Rightarrow> topic_fromString (lb_long E) s)"

definition schedule_copy :: "'asn transfer_lib \<Rightarrow> schedule_id id_arg \<Rightarrow> schedule_id result" where
  "schedule_copy E a = (case a of IdObject i \<Rightarrow> schedule_clone i | IdText s \<Rightarrow> schedule_fromString (lb_long E) s)"

definition contract_copy :: "'asn transfer_lib \<Rightarrow> contract_id id_arg \<Rightarrow> contract_id result" where
  "contract_copy E a = (case a of IdObject i \<Rightarrow> contract_clone i | IdText s \<Rightarrow> contract_fromString (lb_long E) s)"

definition contract_arg :: "'asn transfer_lib \<Rightarrow> contract_id id_arg \<Rightarrow> contract_id result" where
  "contract_arg E a = (case a of IdObject i \<Rightarrow> Inr i | IdText s \<Rightarrow> contract_fromString (lb_long E) s)"

datatype duration_arg = DurationObject long | DurationSeconds long_arg

definition duration_value :: "'asn transfer_lib \<Rightarrow> duration_arg \<Rightarrow> long" where
  "duration_value E a = (case a of DurationObject s \<Rightarrow> s | DurationSeconds n \<Rightarrow> long_value E n)"

text \<open>A duration of a message without seconds is 0 seconds long.\<close>

definition duration_fromProtobuf :: "long option \<Rightarrow> long" where
  "duration_fromProtobuf s = (case s of None \<Rightarrow> 0 | Some n \<Rightarrow> n)"

text \<open>A point in time is a timestamp or something to make a date of; \<open>parse\<close> is how the platform reads the
  text of a date.\<close>

datatype time_arg = TimeObject timestamp | TimeDate date_arg

definition time_value :: "'asn transfer_lib \<Rightarrow> (string \<Rightarrow> int option) \<Rightarrow> time_arg \<Rightarrow> timestamp result" where
  "time_value E parse a = (case a of TimeObject t \<Rightarrow> Inr t | TimeDate x \<Rightarrow> fromDate (lb_long E) parse x)"

text \<open>Where only a \<open>Date\<close> is converted and anything else is kept.\<close>

definition date_value :: "'asn transfer_lib \<Rightarrow> timestamp + int \<Rightarrow> timestamp result" where
  "date_value E a = (case a of Inl t \<Rightarrow> Inr t | Inr ms \<Rightarrow> fromDate (lb_long E) (\<lambda>_. None) (DDate ms))"

datatype bytes_arg = BytesObject "byte list" | BytesText string

definition bytes_given :: "bytes_arg \<Rightarrow> byte list" where
  "bytes_given a = (case a of BytesObject b \<Rightarrow> b | BytesText s \<Rightarrow> hex_decode s)"

text \<open>Keys are a list or an array; the keys of a file may have no threshold.\<close>

datatype file_keys = KeyObject key_list | KeyArray "key_tree option list"

definition file_keys_value :: "file_keys \<Rightarrow> key_tree option list result" where
  "file_keys_value a =
     (case a of
        KeyObject k \<Rightarrow> if snd k \<noteq> None then Inl (Error ''Cannot set threshold key as file key'') else Inr (keyList_toArray k)
      | KeyArray ks \<Rightarrow> Inr ks)"

definition any_keys_value :: "file_keys \<Rightarrow> key_tree option list" where
  "any_keys_value a = (case a of KeyObject k \<Rightarrow> keyList_toArray k | KeyArray ks \<Rightarrow> ks)"

definition account_zero_id :: account_id where
  "account_zero_id =
     \<lparr>acc_id = \<lparr>shard = 0, realm = 0, num = 0\<rparr>, aliasKey = None, evmAddress = None, acc_checksum = None\<rparr>"

section \<open>Fields of messages\<close>

definition read_account :: "'asn transfer_lib \<Rightarrow> account_message option \<Rightarrow> account_id option result" where
  "read_account E = res_opt (account_fromProtobuf (lb_der E) (lb_key E))"

definition make_account :: "'asn transfer_lib \<Rightarrow> account_id option \<Rightarrow> account_message option" where
  "make_account E = map_option (account_toProtobuf (lb_key E))"

text \<open>A key of an unknown kind is read as \<open>null\<close>, which is no key for the constructor.\<close>

definition read_key :: "'asn transfer_lib \<Rightarrow> key_message option \<Rightarrow> key_tree option result" where
  "read_key E m = (case m of None \<Rightarrow> Inr None | Some k \<Rightarrow> tree_of (lb_der E) k)"

text \<open>A list of keys inside a message of its own.\<close>

definition make_keys :: "key_tree option list option \<Rightarrow> key_message list option option result" where
  "make_keys x = res_opt (\<lambda>ks. res_bind (tree_messages ks) (\<lambda>ms. Inr (Some ms))) x"

definition read_keys ::
    "'asn transfer_lib \<Rightarrow> key_message list option option \<Rightarrow> key_tree option list option result" where
  "read_keys E m = res_opt (trees_of (lb_der E)) (case m of None \<Rightarrow> None | Some v \<Rightarrow> v)"

definition read_hbar :: "'asn transfer_lib \<Rightarrow> long option \<Rightarrow> hbar option result" where
  "read_hbar E = res_opt (\<lambda>n. fromTinybars (lb_big E) (AmountLong n))"

definition make_hbar :: "'asn transfer_lib \<Rightarrow> hbar option \<Rightarrow> long option" where
  "make_hbar E = map_option (toTinybars (lb_long E) (lb_big E))"

text \<open>A message inside the message, of which one value is read.\<close>

definition inner :: "'a option option \<Rightarrow> 'a option" where
  "inner m = (case m of None \<Rightarrow> None | Some v \<Rightarrow> v)"

section \<open>Laws of setters\<close>

lemma set_field_frozen: "isFrozen t \<Longrightarrow> set_field f t = Inl immutable_error"
  by (simp add: set_field_def requireNotFrozen_def)

lemma set_field_frame: "set_field f t = Inr t' \<Longrightarrow> \<not> isFrozen t \<and> (\<exists>d. f (tx_data t) = Inr d \<and> t' = t\<lparr>tx_data := d\<rparr>)"
  by (auto simp: set_field_def requireNotFrozen_def elim!: res_bind_InrE split: if_splits)

lemma start_not_frozen [simp]: "\<not> isFrozen (start n d)"
  by (simp add: start_def new_tx_def isFrozen_def list_length_def new_list_def)

lemma start_data [simp]: "tx_data (start n d) = d" "(start n d)\<lparr>tx_data := e\<rparr> = start n e"
  by (simp_all add: start_def new_tx_def)

lemma store_value [simp]: "store (Inr a) upd d = Inr (upd a d)" "put (Inr a) upd' d = Inr (upd' (Some a) d)"
  by (simp_all add: store_def put_def)

lemma set_start [simp]:
  "set_field f (start n d) = res_bind (f d) (\<lambda>d'. Inr (start n d'))"
  "set_unguarded f (start n d) = res_bind (f d) (\<lambda>d'. Inr (start n d'))"
  by (simp_all add: set_field_def set_unguarded_def requireNotFrozen_def)

lemma given_simps [simp]: "given f None s = Inr s" "given f (Some a) s = f a s"
  by (simp_all add: given_def)

lemma nonempty_same [simp]: "x \<noteq> Some [] \<Longrightarrow> nonempty x = x"
  by (simp add: nonempty_def split: option.splits list.splits)

lemma checked_simps [simp]: "checked f None = Inr ()" "checked f (Some a) = f a"
  by (simp_all add: checked_def)

section \<open>Laws of arguments and messages\<close>

definition plain_id :: "simple_id \<Rightarrow> bool" where
  "plain_id i \<longleftrightarrow> valid_id (sid i) \<and> sid_checksum i = None"

definition plain_contract :: "contract_id \<Rightarrow> bool" where
  "plain_contract i \<longleftrightarrow> contract_ok i \<and> con_evm i = None"

lemma no_checksum: "sid_checksum i = None \<Longrightarrow> i\<lparr>sid_checksum := None\<rparr> = i"
  by (cases i) simp

named_theorems field_back

lemma copy_back [field_back]:
  "account_ok a \<Longrightarrow> account_copy E (IdObject a) = Inr a" "account_arg E (IdObject a) = Inr a"
  "plain_id i \<Longrightarrow> token_copy E (IdObject i) = Inr i" "plain_id i \<Longrightarrow> file_copy E (IdObject i) = Inr i"
  "file_arg E (IdObject i) = Inr i" "plain_id i \<Longrightarrow> topic_copy E (IdObject i) = Inr i"
  "plain_id i \<Longrightarrow> schedule_copy E (IdObject i) = Inr i"
  "contract_arg E (IdObject c) = Inr c" "token_arg E (IdObject i) = Inr i"
  by (simp_all add: account_copy_def clone_ok account_arg_def token_copy_def token_class.dup_eq file_copy_def
      file_class.dup_eq file_arg_def topic_copy_def topic_class.dup_eq schedule_copy_def schedule_class.dup_eq
      contract_arg_def token_arg_def plain_id_def)

lemma duration_back [field_back]:
  "duration_fromProtobuf (Some n) = n" "map_option duration_fromProtobuf (map_option Some x) = x"
  by (cases x; simp add: duration_fromProtobuf_def)+

lemma contract_copy_back [field_back]: "plain_contract c \<Longrightarrow> contract_copy E (IdObject c) = Inr c"
proof -
  assume c: "plain_contract c"
  then have "contract_of c = Inr (c\<lparr>con_evm := None\<rparr>)"
    using delegate_of_ok[of c] by (simp add: plain_contract_def delegate_of_def delegate_new_def contract_of_def)
  then show ?thesis using c by (cases c) (simp add: contract_copy_def contract_clone_def)
qed

lemma message_back [field_back]:
  assumes "transfer_lib_ok E"
  shows "account_ok a \<Longrightarrow> account_fromProtobuf (lb_der E) (lb_key E) (account_toProtobuf (lb_key E) a) = Inr a"
    "plain_id i \<Longrightarrow> token_fromProtobuf (token_toProtobuf i) = Inr i"
    "plain_id i \<Longrightarrow> file_fromProtobuf (lb_long E) (file_toProtobuf i) = Inr i"
    "plain_id i \<Longrightarrow> topic_fromProtobuf (topic_toProtobuf i) = Inr i"
    "plain_id i \<Longrightarrow> schedule_fromProtobuf (schedule_toProtobuf i) = Inr i"
    "plain_contract c \<Longrightarrow> contract_fromProtobuf (contract_toProtobuf c) = Inr c"
  using assms account_proto_back token_class.of_msg_to_msg file_class.of_msg_to_msg topic_class.of_msg_to_msg
    schedule_class.of_msg_to_msg contract_proto_back no_evm
  by (auto simp: transfer_lib_ok_def plain_id_def plain_contract_def no_checksum)

lemma inner_some [simp]: "inner (map_option Some x) = x" "inner (Some y) = y" "inner None = None"
  by (cases x) (simp_all add: inner_def)

lemma argument_back [field_back]:
  "long_value E (LongObject n) = n" "duration_value E (DurationSeconds (LongObject n)) = n"
  "duration_value E (DurationObject n) = n" "time_value E parse (TimeObject t) = Inr t"
  "hbar_of_arg E (HbarObject h) = Inr h" "bytes_given (BytesObject b) = b" "date_value E (Inl t) = Inr t"
  by (simp_all add: date_value_def long_value_def duration_value_def time_value_def hbar_of_arg_def bytes_given_def)

lemma list_argument_back [field_back]:
  "map (\<lambda>n. long_value E (LongObject n)) ns = ns" "map (\<lambda>b. bytes_given (BytesObject b)) bs = bs"
  "map (long_value E \<circ> LongObject) ns = ns" "map (bytes_given \<circ> BytesObject) bs = bs"
  by (simp_all add: long_value_def bytes_given_def comp_def)

definition hbar_fits :: "hbar \<Rightarrow> bool" where
  "hbar_fits h \<longleftrightarrow> - (2 ^ 63) \<le> h \<and> h < 2 ^ 63"

lemma hbar_back:
  assumes "transfer_lib_ok E" and "hbar_fits h"
  shows "fromTinybars (lb_big E) (AmountLong (toTinybars (lb_long E) (lb_big E) h)) = Inr h"
proof -
  have h: "sint (word_of_int h :: long) = h" using assms(2) by (intro sint_of_int) (simp_all add: hbar_fits_def)
  then have "toTinybars (lb_long E) (lb_big E) h = word_of_int h"
    using tinybars_sint[OF assms(1), of "word_of_int h"] by (simp add: tinybars_def)
  then show ?thesis using h by (simp add: fromTinybars_long)
qed

definition time_fits :: "timestamp \<Rightarrow> bool" where
  "time_fits t \<longleftrightarrow> ts_ok t \<and> sint (seconds t) < 2 ^ 31"

text \<open>Reading what was written, field by field.\<close>

lemma opt_back: "pred_option P x \<Longrightarrow> (\<And>a. P a \<Longrightarrow> g (f a) = Inr a) \<Longrightarrow> res_opt g (map_option f x) = Inr x"
  by (cases x) simp_all

lemma field_reads [field_back]:
  assumes "transfer_lib_ok E"
  shows "pred_option account_ok x \<Longrightarrow> read_account E (make_account E x) = Inr x"
    and "pred_option hbar_fits h \<Longrightarrow> read_hbar E (make_hbar E h) = Inr h"
    and "pred_option plain_id i \<Longrightarrow> res_opt token_fromProtobuf (map_option token_toProtobuf i) = Inr i"
    and "pred_option plain_id i \<Longrightarrow> res_opt (file_fromProtobuf (lb_long E)) (map_option file_toProtobuf i) = Inr i"
    and "pred_option plain_id i \<Longrightarrow> res_opt topic_fromProtobuf (map_option topic_toProtobuf i) = Inr i"
    and "pred_option plain_id i \<Longrightarrow> res_opt schedule_fromProtobuf (map_option schedule_toProtobuf i) = Inr i"
    and "pred_option plain_contract c \<Longrightarrow> res_opt contract_fromProtobuf (map_option contract_toProtobuf c) = Inr c"
  unfolding read_account_def make_account_def read_hbar_def make_hbar_def
  by (erule opt_back, simp add: message_back[OF assms] hbar_back[OF assms])+

lemma time_reads [field_back]:
  "transfer_lib_ok E \<Longrightarrow> time_fits u \<Longrightarrow> ts_fromProtobuf (lb_long E) (ts_toProtobuf u) = u"
  "transfer_lib_ok E \<Longrightarrow> pred_option time_fits t \<Longrightarrow> map_option (ts_fromProtobuf (lb_long E)) (map_option ts_toProtobuf t) = t"
  using ts_proto_back[of "lb_long E"] by (cases t; simp add: time_fits_def transfer_lib_ok_def)+

lemma list_reads [field_back]:
  assumes "transfer_lib_ok E"
  shows "list_all plain_id xs \<Longrightarrow> res_map token_fromProtobuf (map token_toProtobuf xs) = Inr xs"
    and "pred_option (list_all plain_id) x \<Longrightarrow>
      res_opt (res_map token_fromProtobuf) (map_option (map token_toProtobuf) x) = Inr x"
proof -
  have tokens: "list_all plain_id ys \<Longrightarrow> res_map token_fromProtobuf (map token_toProtobuf ys) = Inr ys" for ys
    by (intro res_map_back message_back(2)[OF assms]) (simp add: list_all_iff)
  then show "list_all plain_id xs \<Longrightarrow> res_map token_fromProtobuf (map token_toProtobuf xs) = Inr xs" .
  show "pred_option (list_all plain_id) x \<Longrightarrow>
      res_opt (res_map token_fromProtobuf) (map_option (map token_toProtobuf) x) = Inr x"
    by (erule opt_back) (rule tokens)
qed

lemma key_reads:
  assumes "pred_option tree_ok k"
  obtains m where "res_opt tree_message k = Inr m" and "read_key E m = Inr k"
proof (cases k)
  case None
  then show ?thesis using that[of None] by (simp add: read_key_def)
next
  case (Some x)
  then obtain m where "tree_message x = Inr m" "tree_of (lb_der E) m = Inr (Some x)"
    using tree_back(1)[of x "lb_der E"] assms by auto
  then show ?thesis using that[of "Some m"] Some by (simp add: read_key_def)
qed

lemma keys_reads:
  assumes "pred_option trees_ok k"
  obtains m where "make_keys k = Inr m" and "read_keys E m = Inr k"
proof (cases k)
  case None
  then show ?thesis using that[of None] by (simp add: make_keys_def read_keys_def)
next
  case (Some x)
  then obtain m where "tree_messages x = Inr m" "trees_of (lb_der E) m = Inr x"
    using tree_back(2)[of x "lb_der E"] assms by auto
  then show ?thesis using that[of "Some (Some m)"] Some by (simp add: make_keys_def read_keys_def)
qed

definition small_long :: "long \<Rightarrow> bool" where
  "small_long n \<longleftrightarrow> - (2 ^ 31) \<le> sint n \<and> sint n < 2 ^ 31"

lemma small_back [field_back]:
  "transfer_lib_ok E \<Longrightarrow> small_long n \<Longrightarrow> long_value E (LongNumber (toInt n)) = n"
  "transfer_lib_ok E \<Longrightarrow> small_long n \<Longrightarrow> fromNumber (lb_long E) (toInt n) = n"
  by (simp_all add: long_value_def small_long_def word_of_toInt transfer_lib_ok_def)

lemma small_reads [field_back]:
  "transfer_lib_ok E \<Longrightarrow> pred_option small_long x \<Longrightarrow>
    map_option (fromNumber (lb_long E)) (inner (map_option (\<lambda>n. Some (toInt n)) x)) = x"
  by (cases x) (simp_all add: inner_def small_back)

text \<open>A setter that is given a value from a message stores that value; a field that was \<open>null\<close> stays so when
  nothing is given.\<close>

lemma put_back:
  assumes "upd None d = d" and "\<And>i. x = Some i \<Longrightarrow> g (h i) = Inr i"
  shows "given (\<lambda>a. set_field (put (g a) upd)) (map_option h x) (start n d) = Inr (start n (upd x d))"
    and "given (\<lambda>a. set_unguarded (put (g a) upd)) (map_option h x) (start n d) = Inr (start n (upd x d))"
  using assms by (cases x; simp add: put_def)+

lemma put_same [field_back]:
  "upd None d = d \<Longrightarrow> given (\<lambda>a. set_field (put (Inr a) upd)) x (start n d) = Inr (start n (upd x d))"
  "upd None d = d \<Longrightarrow> given (\<lambda>a. set_unguarded (put (Inr a) upd)) x (start n d) = Inr (start n (upd x d))"
  by (cases x; simp add: put_def)+

lemma put_id_back [field_back]:
  "upd None d = d \<Longrightarrow> pred_option account_ok x \<Longrightarrow>
    given (\<lambda>a. set_field (put (account_copy E a) upd)) (map_option IdObject x) (start n d) = Inr (start n (upd x d))"
  "upd None d = d \<Longrightarrow>
    given (\<lambda>a. set_field (put (account_arg E a) upd)) (map_option IdObject x) (start n d) = Inr (start n (upd x d))"
  "upd' None d = d \<Longrightarrow> pred_option plain_id i \<Longrightarrow>
    given (\<lambda>a. set_field (put (token_copy E a) upd')) (map_option IdObject i) (start n d) = Inr (start n (upd' i d))"
  "upd' None d = d \<Longrightarrow> pred_option plain_id i \<Longrightarrow>
    given (\<lambda>a. set_field (put (file_copy E a) upd')) (map_option IdObject i) (start n d) = Inr (start n (upd' i d))"
  "upd' None d = d \<Longrightarrow>
    given (\<lambda>a. set_field (put (file_arg E a) upd')) (map_option IdObject i) (start n d) = Inr (start n (upd' i d))"
  "upd' None d = d \<Longrightarrow> pred_option plain_id i \<Longrightarrow>
    given (\<lambda>a. set_field (put (topic_copy E a) upd')) (map_option IdObject i) (start n d) = Inr (start n (upd' i d))"
  "upd' None d = d \<Longrightarrow> pred_option plain_id i \<Longrightarrow>
    given (\<lambda>a. set_field (put (schedule_copy E a) upd')) (map_option IdObject i) (start n d) = Inr (start n (upd' i d))"
  "upd'' None d = d \<Longrightarrow> pred_option plain_contract c \<Longrightarrow>
    given (\<lambda>a. set_field (put (contract_copy E a) upd'')) (map_option IdObject c) (start n d) = Inr (start n (upd'' c d))"
  "upd'' None d = d \<Longrightarrow>
    given (\<lambda>a. set_field (put (contract_arg E a) upd'')) (map_option IdObject c) (start n d) = Inr (start n (upd'' c d))"
  by (rule put_back(1); force simp: field_back)+

lemma put_value_back [field_back]:
  "upd None d = d \<Longrightarrow>
    given (\<lambda>a. set_field (put (Inr (long_value E a)) upd)) (map_option LongObject x) (start n d) = Inr (start n (upd x d))"
  "upd None d = d \<Longrightarrow>
    given (\<lambda>a. set_field (put (Inr (duration_value E a)) upd)) (map_option (\<lambda>s. DurationSeconds (LongObject s)) x) (start n d)
      = Inr (start n (upd x d))"
  "upd' None d = d \<Longrightarrow>
    given (\<lambda>a. set_field (put (time_value E parse a) upd')) (map_option TimeObject t) (start n d) = Inr (start n (upd' t d))"
  "upd' None d = d \<Longrightarrow>
    given (\<lambda>a. set_field (put (date_value E a) upd')) (map_option Inl t) (start n d) = Inr (start n (upd' t d))"
  "upd'' None d = d \<Longrightarrow>
    given (\<lambda>a. set_field (put (hbar_of_arg E a) upd'')) (map_option HbarObject h) (start n d) = Inr (start n (upd'' h d))"
  by (rule put_back(1); force simp: field_back)+

lemma put_unguarded_back [field_back]:
  "upd None d = d \<Longrightarrow>
    given (\<lambda>a. set_unguarded (put (Inr (long_value E a)) upd)) (map_option LongObject x) (start n d)
      = Inr (start n (upd x d))"
  by (rule put_back(2); force simp: field_back)

lemma put_duration_back [field_back]:
  "upd None d = d \<Longrightarrow>
    given (\<lambda>a. set_field (put (Inr (duration_value E a)) upd)) (map_option DurationObject x) (start n d)
      = Inr (start n (upd x d))"
  by (rule put_back(1); force simp: field_back)

lemma put_reread_back [field_back]:
  "upd None d = d \<Longrightarrow> pred_option plain_id x \<Longrightarrow>
    given (\<lambda>a. set_field (put (token_reread E a) upd)) (map_option IdObject x) (start n d) = Inr (start n (upd x d))"
  using token_class.of_msg_to_msg[OF decimal_lib_ok]
  by (intro put_back(1)) (auto simp: token_reread_def plain_id_def no_checksum)

lemma put_small_back [field_back]:
  "upd None d = d \<Longrightarrow> transfer_lib_ok E \<Longrightarrow> pred_option small_long x \<Longrightarrow>
    given (\<lambda>a. set_field (put (Inr (long_value E a)) upd)) (map_option (LongNumber \<circ> toInt) x) (start n d)
      = Inr (start n (upd x d))"
  "upd None d = d \<Longrightarrow> transfer_lib_ok E \<Longrightarrow> pred_option small_long x \<Longrightarrow>
    given (\<lambda>a. set_field (put (Inr (long_value E a)) upd)) (map_option LongNumber (map_option toInt x)) (start n d)
      = Inr (start n (upd x d))"
  by (cases x; simp add: put_def small_back)+

lemma put_keys_back [field_back]:
  "upd None d = d \<Longrightarrow>
    given (\<lambda>a. set_field (put (file_keys_value a) upd)) (map_option KeyArray x) (start n d) = Inr (start n (upd x d))"
  "upd None d = d \<Longrightarrow>
    given (\<lambda>a. set_field (put (Inr (any_keys_value a)) upd)) (map_option KeyArray x) (start n d) = Inr (start n (upd x d))"
  by (cases x; simp add: put_def file_keys_value_def any_keys_value_def)+

lemma put_tokens_back [field_back]:
  "upd None d = d \<Longrightarrow> pred_option (list_all plain_id) x \<Longrightarrow>
    given (\<lambda>a. set_field (put (res_map (token_copy E) a) upd)) (map_option (map IdObject) x) (start n d)
      = Inr (start n (upd x d))"
  by (rule put_back(1); auto simp: field_back list_all_iff intro!: res_map_back)

lemma store_given [field_back]:
  "given (\<lambda>a. set_field (store (g a) upd)) (Some a) (start n d) = res_bind (g a) (\<lambda>v. Inr (start n (upd v d)))"
  "given (\<lambda>a. set_unguarded (store (g a) upd)) (Some a) (start n d) = res_bind (g a) (\<lambda>v. Inr (start n (upd v d)))"
  by (cases "g a"; simp add: store_def)+

section \<open>Bytes\<close>

text \<open>The base with other data.\<close>

definition with_data :: "'e \<Rightarrow> ('acc, 'tid, 'd) tx \<Rightarrow> ('acc, 'tid, 'e) tx" where
  "with_data e t =
     \<lparr>transactions = transactions t, signedTransactions = signedTransactions t,
      signerPublicKeys = signerPublicKeys t, validDuration = validDuration t, defaultMaxFee = defaultMaxFee t,
      maxFee = maxFee t, memo = memo t, transactionIds = transactionIds t, publicKeys = publicKeys t,
      transactionSigners = transactionSigners t, regenerate = regenerate t, signOnDemand = signOnDemand t,
      operator = operator t, operatorAccountId = operatorAccountId t, nodeAccountIds = nodeAccountIds t,
      tx_data = e\<rparr>"

text \<open>The class of a transaction in bytes reads its fields from the message of the body, and the base fills
  the new transaction with the rest.\<close>

definition class_fromBytes ::
    "('m \<Rightarrow> 'f base result) \<Rightarrow> (account_id, tx_id, 'm) proto_lib \<Rightarrow> (tx_id \<Rightarrow> string) \<Rightarrow> (account_id \<Rightarrow> string)
     \<Rightarrow> (byte list \<Rightarrow> public_key) \<Rightarrow> (account_id \<Rightarrow> bool) \<Rightarrow> byte list \<Rightarrow> 'f base result" where
  "class_fromBytes read L st sn pk z bs =
     res_bind (fromBytes L st sn pk z bs) (\<lambda>t.
     res_bind (read (tx_data t)) (\<lambda>x. Inr ((with_data (tx_data x) t)\<lparr>defaultMaxFee := defaultMaxFee x\<rparr>)))"

text \<open>A class of transactions: what it writes of good fields is read back.\<close>

locale body_class =
  fixes make :: "'asn transfer_lib \<Rightarrow> 'f \<Rightarrow> 'm result" and read :: "'asn transfer_lib \<Rightarrow> 'm \<Rightarrow> 'f base result"
    and good :: "'f \<Rightarrow> bool" and fee :: "'f \<Rightarrow> int"
  assumes read_make: "transfer_lib_ok E \<Longrightarrow> good d \<Longrightarrow> \<exists>m. make E d = Inr m \<and> read E m = Inr (start (fee d) d)"
begin

lemma same_message: "transfer_lib_ok E \<Longrightarrow> good d \<Longrightarrow> good e \<Longrightarrow> make E d = make E e \<Longrightarrow> d = e"
  using read_make[of E d] read_make[of E e] start_data(1) by (metis Inr_inject)

text \<open>A table of signed transactions whose bodies carry the message of good fields gives, as bytes, a
  transaction of the class with these fields and the table's IDs, nodes and signatures.\<close>

lemma bytes_give_fields:
  assumes "transfer_lib_ok E" and "good d" and "make E d = Inr m" and "proto_ok L" and "is_table L row tids ns ss"
    and "tids \<noteq> []" and "ns \<noteq> []" and "distinct (map st tids)" and "distinct (map sn ns)"
    and "list_all (\<lambda>n. \<not> z n) ns" and "b_data (row (hd tids)) = m"
  shows "\<exists>t. class_fromBytes (read E) L st sn pk z (encList L (map (built L) ss)) = Inr t \<and> tx_data t = d \<and>
    items (signedTransactions t) = map Some ss \<and> items (transactionIds t) = map Some tids \<and>
    items (nodeAccountIds t) = map Some ns \<and> memo t = b_memo (row (hd tids)) \<and> defaultMaxFee t = fee d"
proof -
  obtain t where t: "fromBytes L st sn pk z (encList L (map (built L) ss)) = Inr t"
    "items (signedTransactions t) = map Some ss" "items (transactionIds t) = map Some tids"
    "items (nodeAccountIds t) = map Some ns" "memo t = b_memo (row (hd tids))" "tx_data t = m"
    using fromBytes_table[OF assms(4-10), of pk] assms(11) by blast
  have "read E m = Inr (start (fee d) d)" using read_make[OF assms(1,2)] assms(3) by auto
  then show ?thesis using t by (simp add: class_fromBytes_def with_data_def start_def new_tx_def)
qed

end

end
