(* ===== verification/TokenActions.thy ===== *)
theory TokenActions
  imports TxFields
begin

text \<open>
  Transactions on tokens that exist: deleting, pausing, freezing, granting and revoking, associating,
  burning, minting, wiping and changing the metadata of unique tokens, one section per class of
  src/token.
\<close>

section \<open>\<open>src/token/TokenDeleteTransaction.js\<close>\<close>

record tokenDelete =
  tokenDelete_tokenId :: "token_id option"

record tokenDelete_body =
  tokenDelete_m_token :: "id_message option"

definition tokenDelete_empty :: "tokenDelete" where
  "tokenDelete_empty = \<lparr>tokenDelete_tokenId = None\<rparr>"

definition tokenDelete_setTokenId ::
    "'asn transfer_lib \<Rightarrow> token_id id_arg \<Rightarrow> tokenDelete base \<Rightarrow> tokenDelete base result" where
  "tokenDelete_setTokenId E a =
     set_field (put (token_copy E a) (\<lambda>x d. d\<lparr>tokenDelete_tokenId := x\<rparr>))"

definition tokenDelete_new ::
    "'asn transfer_lib \<Rightarrow>
      (token_id id_arg) option \<Rightarrow> tokenDelete base result" where
  "tokenDelete_new E a1 =
     chain [given (tokenDelete_setTokenId E) a1] (start 200000000 tokenDelete_empty)"

definition tokenDelete_data :: "'asn transfer_lib \<Rightarrow> tokenDelete \<Rightarrow> tokenDelete_body result" where
  "tokenDelete_data E d =
     Inr \<lparr>tokenDelete_m_token = map_option token_toProtobuf (tokenDelete_tokenId d)\<rparr>"

definition tokenDelete_fromProtobuf ::
    "'asn transfer_lib \<Rightarrow> tokenDelete_body \<Rightarrow> tokenDelete base result" where
  "tokenDelete_fromProtobuf E b =
     res_bind (res_opt token_fromProtobuf (tokenDelete_m_token b)) (\<lambda>x0.
     tokenDelete_new E (map_option IdObject x0))"

definition tokenDelete_validateChecksums :: "'asn transfer_lib \<Rightarrow> byte list option \<Rightarrow> tokenDelete \<Rightarrow> unit result" where
  "tokenDelete_validateChecksums E ledger d =
     all_checked [
      checked (\<lambda>i. token_validateChecksum (lb_long E) i ledger) (tokenDelete_tokenId d)]"

definition tokenDelete_case :: string where
  "tokenDelete_case = ''tokenDeletion''"

definition tokenDelete_execute :: "string \<times> string" where
  "tokenDelete_execute = (''token'', ''deleteToken'')"

definition tokenDelete_good :: "tokenDelete \<Rightarrow> bool" where
  "tokenDelete_good d \<longleftrightarrow> pred_option plain_id (tokenDelete_tokenId d)"

lemmas tokenDelete_defs =
  tokenDelete_empty_def tokenDelete_setTokenId_def[abs_def] tokenDelete_new_def tokenDelete_data_def
      tokenDelete_fromProtobuf_def

lemma tokenDelete_read_make:
  assumes "transfer_lib_ok E" and "tokenDelete_good d"
  shows "\<exists>m. tokenDelete_data E d = Inr m \<and> tokenDelete_fromProtobuf E m = Inr (start 200000000 d)"
  using assms by (cases d) (simp add: tokenDelete_defs tokenDelete_good_def field_back)

interpretation tokenDelete_rw: body_class tokenDelete_data tokenDelete_fromProtobuf tokenDelete_good "\<lambda>_. 200000000"
  by unfold_locales (rule tokenDelete_read_make)

section \<open>\<open>src/token/TokenPauseTransaction.js\<close>\<close>

record tokenPause =
  tokenPause_tokenId :: "token_id option"

record tokenPause_body =
  tokenPause_m_token :: "id_message option"

definition tokenPause_empty :: "tokenPause" where
  "tokenPause_empty = \<lparr>tokenPause_tokenId = None\<rparr>"

definition tokenPause_setTokenId ::
    "'asn transfer_lib \<Rightarrow> token_id id_arg \<Rightarrow> tokenPause base \<Rightarrow> tokenPause base result" where
  "tokenPause_setTokenId E a =
     set_field (put (token_copy E a) (\<lambda>x d. d\<lparr>tokenPause_tokenId := x\<rparr>))"

definition tokenPause_new ::
    "'asn transfer_lib \<Rightarrow> (token_id id_arg) option \<Rightarrow> tokenPause base result" where
  "tokenPause_new E a1 =
     chain [given (tokenPause_setTokenId E) a1] (start 200000000 tokenPause_empty)"

definition tokenPause_data :: "'asn transfer_lib \<Rightarrow> tokenPause \<Rightarrow> tokenPause_body result" where
  "tokenPause_data E d =
     Inr \<lparr>tokenPause_m_token = map_option token_toProtobuf (tokenPause_tokenId d)\<rparr>"

definition tokenPause_fromProtobuf ::
    "'asn transfer_lib \<Rightarrow> tokenPause_body \<Rightarrow> tokenPause base result" where
  "tokenPause_fromProtobuf E b =
     res_bind (res_opt token_fromProtobuf (tokenPause_m_token b)) (\<lambda>x0.
     tokenPause_new E (map_option IdObject x0))"

definition tokenPause_validateChecksums :: "'asn transfer_lib \<Rightarrow> byte list option \<Rightarrow> tokenPause \<Rightarrow> unit result" where
  "tokenPause_validateChecksums E ledger d =
     all_checked [
      checked (\<lambda>i. token_validateChecksum (lb_long E) i ledger) (tokenPause_tokenId d)]"

definition tokenPause_case :: string where
  "tokenPause_case = ''tokenPause''"

definition tokenPause_execute :: "string \<times> string" where
  "tokenPause_execute = (''token'', ''pauseToken'')"

definition tokenPause_good :: "tokenPause \<Rightarrow> bool" where
  "tokenPause_good d \<longleftrightarrow> pred_option plain_id (tokenPause_tokenId d)"

lemmas tokenPause_defs =
  tokenPause_empty_def tokenPause_setTokenId_def[abs_def] tokenPause_new_def tokenPause_data_def
      tokenPause_fromProtobuf_def

lemma tokenPause_read_make:
  assumes "transfer_lib_ok E" and "tokenPause_good d"
  shows "\<exists>m. tokenPause_data E d = Inr m \<and> tokenPause_fromProtobuf E m = Inr (start 200000000 d)"
  using assms by (cases d) (simp add: tokenPause_defs tokenPause_good_def field_back)

interpretation tokenPause_rw: body_class tokenPause_data tokenPause_fromProtobuf tokenPause_good "\<lambda>_. 200000000"
  by unfold_locales (rule tokenPause_read_make)

section \<open>\<open>src/token/TokenUnpauseTransaction.js\<close>\<close>

record tokenUnpause =
  tokenUnpause_tokenId :: "token_id option"

record tokenUnpause_body =
  tokenUnpause_m_token :: "id_message option"

definition tokenUnpause_empty :: "tokenUnpause" where
  "tokenUnpause_empty = \<lparr>tokenUnpause_tokenId = None\<rparr>"

definition tokenUnpause_setTokenId ::
    "'asn transfer_lib \<Rightarrow> token_id id_arg \<Rightarrow> tokenUnpause base \<Rightarrow> tokenUnpause base result" where
  "tokenUnpause_setTokenId E a =
     set_field (put (token_copy E a) (\<lambda>x d. d\<lparr>tokenUnpause_tokenId := x\<rparr>))"

definition tokenUnpause_new ::
    "'asn transfer_lib \<Rightarrow>
      (token_id id_arg) option \<Rightarrow> tokenUnpause base result" where
  "tokenUnpause_new E a1 =
     chain [given (tokenUnpause_setTokenId E) a1] (start 200000000 tokenUnpause_empty)"

definition tokenUnpause_data :: "'asn transfer_lib \<Rightarrow> tokenUnpause \<Rightarrow> tokenUnpause_body result" where
  "tokenUnpause_data E d =
     Inr \<lparr>tokenUnpause_m_token = map_option token_toProtobuf (tokenUnpause_tokenId d)\<rparr>"

definition tokenUnpause_fromProtobuf ::
    "'asn transfer_lib \<Rightarrow> tokenUnpause_body \<Rightarrow> tokenUnpause base result" where
  "tokenUnpause_fromProtobuf E b =
     res_bind (res_opt token_fromProtobuf (tokenUnpause_m_token b)) (\<lambda>x0.
     tokenUnpause_new E (map_option IdObject x0))"

definition tokenUnpause_validateChecksums :: "'asn transfer_lib \<Rightarrow> byte list option \<Rightarrow> tokenUnpause \<Rightarrow> unit result" where
  "tokenUnpause_validateChecksums E ledger d =
     all_checked [
      checked (\<lambda>i. token_validateChecksum (lb_long E) i ledger) (tokenUnpause_tokenId d)]"

definition tokenUnpause_case :: string where
  "tokenUnpause_case = ''tokenUnpause''"

definition tokenUnpause_execute :: "string \<times> string" where
  "tokenUnpause_execute = (''token'', ''unpauseToken'')"

definition tokenUnpause_good :: "tokenUnpause \<Rightarrow> bool" where
  "tokenUnpause_good d \<longleftrightarrow> pred_option plain_id (tokenUnpause_tokenId d)"

lemmas tokenUnpause_defs =
  tokenUnpause_empty_def tokenUnpause_setTokenId_def[abs_def] tokenUnpause_new_def tokenUnpause_data_def
      tokenUnpause_fromProtobuf_def

lemma tokenUnpause_read_make:
  assumes "transfer_lib_ok E" and "tokenUnpause_good d"
  shows "\<exists>m. tokenUnpause_data E d = Inr m \<and> tokenUnpause_fromProtobuf E m = Inr (start 200000000 d)"
  using assms by (cases d) (simp add: tokenUnpause_defs tokenUnpause_good_def field_back)

interpretation tokenUnpause_rw: body_class tokenUnpause_data tokenUnpause_fromProtobuf tokenUnpause_good "\<lambda>_. 200000000"
  by unfold_locales (rule tokenUnpause_read_make)

section \<open>\<open>src/token/TokenFreezeTransaction.js\<close>\<close>

record tokenFreeze =
  tokenFreeze_tokenId :: "token_id option"
  tokenFreeze_accountId :: "account_id option"

record tokenFreeze_body =
  tokenFreeze_m_token :: "id_message option"
  tokenFreeze_m_account :: "account_message option"

definition tokenFreeze_empty :: "tokenFreeze" where
  "tokenFreeze_empty = \<lparr>tokenFreeze_tokenId = None, tokenFreeze_accountId = None\<rparr>"

definition tokenFreeze_setTokenId ::
    "'asn transfer_lib \<Rightarrow> token_id id_arg \<Rightarrow> tokenFreeze base \<Rightarrow> tokenFreeze base result" where
  "tokenFreeze_setTokenId E a =
     set_field (put (token_copy E a) (\<lambda>x d. d\<lparr>tokenFreeze_tokenId := x\<rparr>))"

definition tokenFreeze_setAccountId ::
    "'asn transfer_lib \<Rightarrow> account_id id_arg \<Rightarrow> tokenFreeze base \<Rightarrow> tokenFreeze base result" where
  "tokenFreeze_setAccountId E a =
     set_field (put (account_copy E a) (\<lambda>x d. d\<lparr>tokenFreeze_accountId := x\<rparr>))"

definition tokenFreeze_new ::
    "'asn transfer_lib \<Rightarrow> (token_id id_arg) option \<Rightarrow>
      (account_id id_arg) option \<Rightarrow> tokenFreeze base result" where
  "tokenFreeze_new E a1 a2 =
     chain [given (tokenFreeze_setTokenId E) a1,
      given (tokenFreeze_setAccountId E) a2] (start 200000000 tokenFreeze_empty)"

definition tokenFreeze_data :: "'asn transfer_lib \<Rightarrow> tokenFreeze \<Rightarrow> tokenFreeze_body result" where
  "tokenFreeze_data E d =
     Inr \<lparr>tokenFreeze_m_token = map_option token_toProtobuf (tokenFreeze_tokenId d),
      tokenFreeze_m_account = make_account E (tokenFreeze_accountId d)\<rparr>"

definition tokenFreeze_fromProtobuf ::
    "'asn transfer_lib \<Rightarrow> tokenFreeze_body \<Rightarrow> tokenFreeze base result" where
  "tokenFreeze_fromProtobuf E b =
     res_bind (res_opt token_fromProtobuf (tokenFreeze_m_token b)) (\<lambda>x0.
     res_bind (read_account E (tokenFreeze_m_account b)) (\<lambda>x1.
     tokenFreeze_new E (map_option IdObject x0) (map_option IdObject x1)))"

definition tokenFreeze_validateChecksums :: "'asn transfer_lib \<Rightarrow> byte list option \<Rightarrow> tokenFreeze \<Rightarrow> unit result" where
  "tokenFreeze_validateChecksums E ledger d =
     all_checked [
      checked (\<lambda>i. token_validateChecksum (lb_long E) i ledger) (tokenFreeze_tokenId d),
      checked (\<lambda>i. account_validateChecksum (lb_long E) i ledger) (tokenFreeze_accountId d)]"

definition tokenFreeze_case :: string where
  "tokenFreeze_case = ''tokenFreeze''"

definition tokenFreeze_execute :: "string \<times> string" where
  "tokenFreeze_execute = (''token'', ''freezeTokenAccount'')"

definition tokenFreeze_good :: "tokenFreeze \<Rightarrow> bool" where
  "tokenFreeze_good d \<longleftrightarrow> pred_option plain_id (tokenFreeze_tokenId d) \<and>
      pred_option account_ok (tokenFreeze_accountId d)"

lemmas tokenFreeze_defs =
  tokenFreeze_empty_def tokenFreeze_setTokenId_def[abs_def] tokenFreeze_setAccountId_def[abs_def]
      tokenFreeze_new_def tokenFreeze_data_def tokenFreeze_fromProtobuf_def

lemma tokenFreeze_read_make:
  assumes "transfer_lib_ok E" and "tokenFreeze_good d"
  shows "\<exists>m. tokenFreeze_data E d = Inr m \<and> tokenFreeze_fromProtobuf E m = Inr (start 200000000 d)"
  using assms by (cases d) (simp add: tokenFreeze_defs tokenFreeze_good_def field_back)

interpretation tokenFreeze_rw: body_class tokenFreeze_data tokenFreeze_fromProtobuf tokenFreeze_good "\<lambda>_. 200000000"
  by unfold_locales (rule tokenFreeze_read_make)

section \<open>\<open>src/token/TokenUnfreezeTransaction.js\<close>\<close>

record tokenUnfreeze =
  tokenUnfreeze_tokenId :: "token_id option"
  tokenUnfreeze_accountId :: "account_id option"

record tokenUnfreeze_body =
  tokenUnfreeze_m_token :: "id_message option"
  tokenUnfreeze_m_account :: "account_message option"

definition tokenUnfreeze_empty :: "tokenUnfreeze" where
  "tokenUnfreeze_empty = \<lparr>tokenUnfreeze_tokenId = None, tokenUnfreeze_accountId = None\<rparr>"

definition tokenUnfreeze_setTokenId ::
    "'asn transfer_lib \<Rightarrow> token_id id_arg \<Rightarrow> tokenUnfreeze base \<Rightarrow> tokenUnfreeze base result" where
  "tokenUnfreeze_setTokenId E a =
     set_field (put (token_copy E a) (\<lambda>x d. d\<lparr>tokenUnfreeze_tokenId := x\<rparr>))"

definition tokenUnfreeze_setAccountId ::
    "'asn transfer_lib \<Rightarrow> account_id id_arg \<Rightarrow> tokenUnfreeze base \<Rightarrow> tokenUnfreeze base result" where
  "tokenUnfreeze_setAccountId E a =
     set_field (put (account_copy E a) (\<lambda>x d. d\<lparr>tokenUnfreeze_accountId := x\<rparr>))"

definition tokenUnfreeze_new ::
    "'asn transfer_lib \<Rightarrow> (token_id id_arg) option \<Rightarrow>
      (account_id id_arg) option \<Rightarrow> tokenUnfreeze base result" where
  "tokenUnfreeze_new E a1 a2 =
     chain [given (tokenUnfreeze_setTokenId E) a1,
      given (tokenUnfreeze_setAccountId E) a2] (start 200000000 tokenUnfreeze_empty)"

definition tokenUnfreeze_data :: "'asn transfer_lib \<Rightarrow> tokenUnfreeze \<Rightarrow> tokenUnfreeze_body result" where
  "tokenUnfreeze_data E d =
     Inr \<lparr>tokenUnfreeze_m_token = map_option token_toProtobuf (tokenUnfreeze_tokenId d),
      tokenUnfreeze_m_account = make_account E (tokenUnfreeze_accountId d)\<rparr>"

definition tokenUnfreeze_fromProtobuf ::
    "'asn transfer_lib \<Rightarrow> tokenUnfreeze_body \<Rightarrow> tokenUnfreeze base result" where
  "tokenUnfreeze_fromProtobuf E b =
     res_bind (res_opt token_fromProtobuf (tokenUnfreeze_m_token b)) (\<lambda>x0.
     res_bind (read_account E (tokenUnfreeze_m_account b)) (\<lambda>x1.
     tokenUnfreeze_new E (map_option IdObject x0) (map_option IdObject x1)))"

definition tokenUnfreeze_validateChecksums :: "'asn transfer_lib \<Rightarrow> byte list option \<Rightarrow> tokenUnfreeze \<Rightarrow> unit result" where
  "tokenUnfreeze_validateChecksums E ledger d =
     all_checked [
      checked (\<lambda>i. token_validateChecksum (lb_long E) i ledger) (tokenUnfreeze_tokenId d),
      checked (\<lambda>i. account_validateChecksum (lb_long E) i ledger) (tokenUnfreeze_accountId d)]"

definition tokenUnfreeze_case :: string where
  "tokenUnfreeze_case = ''tokenUnfreeze''"

definition tokenUnfreeze_execute :: "string \<times> string" where
  "tokenUnfreeze_execute = (''token'', ''unfreezeTokenAccount'')"

definition tokenUnfreeze_good :: "tokenUnfreeze \<Rightarrow> bool" where
  "tokenUnfreeze_good d \<longleftrightarrow> pred_option plain_id (tokenUnfreeze_tokenId d) \<and>
      pred_option account_ok (tokenUnfreeze_accountId d)"

lemmas tokenUnfreeze_defs =
  tokenUnfreeze_empty_def tokenUnfreeze_setTokenId_def[abs_def] tokenUnfreeze_setAccountId_def[abs_def]
      tokenUnfreeze_new_def tokenUnfreeze_data_def tokenUnfreeze_fromProtobuf_def

lemma tokenUnfreeze_read_make:
  assumes "transfer_lib_ok E" and "tokenUnfreeze_good d"
  shows "\<exists>m. tokenUnfreeze_data E d = Inr m \<and> tokenUnfreeze_fromProtobuf E m = Inr (start 200000000 d)"
  using assms by (cases d) (simp add: tokenUnfreeze_defs tokenUnfreeze_good_def field_back)

interpretation tokenUnfreeze_rw: body_class tokenUnfreeze_data tokenUnfreeze_fromProtobuf tokenUnfreeze_good "\<lambda>_. 200000000"
  by unfold_locales (rule tokenUnfreeze_read_make)

section \<open>\<open>src/token/TokenGrantKycTransaction.js\<close>\<close>

record tokenGrantKyc =
  tokenGrantKyc_tokenId :: "token_id option"
  tokenGrantKyc_accountId :: "account_id option"

record tokenGrantKyc_body =
  tokenGrantKyc_m_token :: "id_message option"
  tokenGrantKyc_m_account :: "account_message option"

definition tokenGrantKyc_empty :: "tokenGrantKyc" where
  "tokenGrantKyc_empty = \<lparr>tokenGrantKyc_tokenId = None, tokenGrantKyc_accountId = None\<rparr>"

definition tokenGrantKyc_setTokenId ::
    "'asn transfer_lib \<Rightarrow> token_id id_arg \<Rightarrow> tokenGrantKyc base \<Rightarrow> tokenGrantKyc base result" where
  "tokenGrantKyc_setTokenId E a =
     set_field (put (token_copy E a) (\<lambda>x d. d\<lparr>tokenGrantKyc_tokenId := x\<rparr>))"

definition tokenGrantKyc_setAccountId ::
    "'asn transfer_lib \<Rightarrow> account_id id_arg \<Rightarrow> tokenGrantKyc base \<Rightarrow> tokenGrantKyc base result" where
  "tokenGrantKyc_setAccountId E a =
     set_field (put (account_copy E a) (\<lambda>x d. d\<lparr>tokenGrantKyc_accountId := x\<rparr>))"

definition tokenGrantKyc_new ::
    "'asn transfer_lib \<Rightarrow> (token_id id_arg) option \<Rightarrow>
      (account_id id_arg) option \<Rightarrow> tokenGrantKyc base result" where
  "tokenGrantKyc_new E a1 a2 =
     chain [given (tokenGrantKyc_setTokenId E) a1,
      given (tokenGrantKyc_setAccountId E) a2] (start 200000000 tokenGrantKyc_empty)"

definition tokenGrantKyc_data :: "'asn transfer_lib \<Rightarrow> tokenGrantKyc \<Rightarrow> tokenGrantKyc_body result" where
  "tokenGrantKyc_data E d =
     Inr \<lparr>tokenGrantKyc_m_token = map_option token_toProtobuf (tokenGrantKyc_tokenId d),
      tokenGrantKyc_m_account = make_account E (tokenGrantKyc_accountId d)\<rparr>"

definition tokenGrantKyc_fromProtobuf ::
    "'asn transfer_lib \<Rightarrow> tokenGrantKyc_body \<Rightarrow> tokenGrantKyc base result" where
  "tokenGrantKyc_fromProtobuf E b =
     res_bind (res_opt token_fromProtobuf (tokenGrantKyc_m_token b)) (\<lambda>x0.
     res_bind (read_account E (tokenGrantKyc_m_account b)) (\<lambda>x1.
     tokenGrantKyc_new E (map_option IdObject x0) (map_option IdObject x1)))"

definition tokenGrantKyc_validateChecksums :: "'asn transfer_lib \<Rightarrow> byte list option \<Rightarrow> tokenGrantKyc \<Rightarrow> unit result" where
  "tokenGrantKyc_validateChecksums E ledger d =
     all_checked [
      checked (\<lambda>i. token_validateChecksum (lb_long E) i ledger) (tokenGrantKyc_tokenId d),
      checked (\<lambda>i. account_validateChecksum (lb_long E) i ledger) (tokenGrantKyc_accountId d)]"

definition tokenGrantKyc_case :: string where
  "tokenGrantKyc_case = ''tokenGrantKyc''"

definition tokenGrantKyc_execute :: "string \<times> string" where
  "tokenGrantKyc_execute = (''token'', ''grantKycToTokenAccount'')"

definition tokenGrantKyc_good :: "tokenGrantKyc \<Rightarrow> bool" where
  "tokenGrantKyc_good d \<longleftrightarrow> pred_option plain_id (tokenGrantKyc_tokenId d) \<and>
      pred_option account_ok (tokenGrantKyc_accountId d)"

lemmas tokenGrantKyc_defs =
  tokenGrantKyc_empty_def tokenGrantKyc_setTokenId_def[abs_def] tokenGrantKyc_setAccountId_def[abs_def]
      tokenGrantKyc_new_def tokenGrantKyc_data_def tokenGrantKyc_fromProtobuf_def

lemma tokenGrantKyc_read_make:
  assumes "transfer_lib_ok E" and "tokenGrantKyc_good d"
  shows "\<exists>m. tokenGrantKyc_data E d = Inr m \<and> tokenGrantKyc_fromProtobuf E m = Inr (start 200000000 d)"
  using assms by (cases d) (simp add: tokenGrantKyc_defs tokenGrantKyc_good_def field_back)

interpretation tokenGrantKyc_rw: body_class tokenGrantKyc_data tokenGrantKyc_fromProtobuf tokenGrantKyc_good "\<lambda>_. 200000000"
  by unfold_locales (rule tokenGrantKyc_read_make)

section \<open>\<open>src/token/TokenRevokeKycTransaction.js\<close>\<close>

record tokenRevokeKyc =
  tokenRevokeKyc_tokenId :: "token_id option"
  tokenRevokeKyc_accountId :: "account_id option"

record tokenRevokeKyc_body =
  tokenRevokeKyc_m_token :: "id_message option"
  tokenRevokeKyc_m_account :: "account_message option"

definition tokenRevokeKyc_empty :: "tokenRevokeKyc" where
  "tokenRevokeKyc_empty = \<lparr>tokenRevokeKyc_tokenId = None, tokenRevokeKyc_accountId = None\<rparr>"

definition tokenRevokeKyc_setTokenId ::
    "'asn transfer_lib \<Rightarrow> token_id id_arg \<Rightarrow> tokenRevokeKyc base \<Rightarrow> tokenRevokeKyc base result" where
  "tokenRevokeKyc_setTokenId E a =
     set_field (put (token_copy E a) (\<lambda>x d. d\<lparr>tokenRevokeKyc_tokenId := x\<rparr>))"

definition tokenRevokeKyc_setAccountId ::
    "'asn transfer_lib \<Rightarrow> account_id id_arg \<Rightarrow> tokenRevokeKyc base \<Rightarrow> tokenRevokeKyc base result" where
  "tokenRevokeKyc_setAccountId E a =
     set_field (put (account_copy E a) (\<lambda>x d. d\<lparr>tokenRevokeKyc_accountId := x\<rparr>))"

definition tokenRevokeKyc_new ::
    "'asn transfer_lib \<Rightarrow> (token_id id_arg) option \<Rightarrow>
      (account_id id_arg) option \<Rightarrow> tokenRevokeKyc base result" where
  "tokenRevokeKyc_new E a1 a2 =
     chain [given (tokenRevokeKyc_setTokenId E) a1,
      given (tokenRevokeKyc_setAccountId E) a2] (start 200000000 tokenRevokeKyc_empty)"

definition tokenRevokeKyc_data :: "'asn transfer_lib \<Rightarrow> tokenRevokeKyc \<Rightarrow> tokenRevokeKyc_body result" where
  "tokenRevokeKyc_data E d =
     Inr \<lparr>tokenRevokeKyc_m_token = map_option token_toProtobuf (tokenRevokeKyc_tokenId d),
      tokenRevokeKyc_m_account = make_account E (tokenRevokeKyc_accountId d)\<rparr>"

definition tokenRevokeKyc_fromProtobuf ::
    "'asn transfer_lib \<Rightarrow> tokenRevokeKyc_body \<Rightarrow> tokenRevokeKyc base result" where
  "tokenRevokeKyc_fromProtobuf E b =
     res_bind (res_opt token_fromProtobuf (tokenRevokeKyc_m_token b)) (\<lambda>x0.
     res_bind (read_account E (tokenRevokeKyc_m_account b)) (\<lambda>x1.
     tokenRevokeKyc_new E (map_option IdObject x0) (map_option IdObject x1)))"

definition tokenRevokeKyc_validateChecksums :: "'asn transfer_lib \<Rightarrow> byte list option \<Rightarrow> tokenRevokeKyc \<Rightarrow> unit result" where
  "tokenRevokeKyc_validateChecksums E ledger d =
     all_checked [
      checked (\<lambda>i. token_validateChecksum (lb_long E) i ledger) (tokenRevokeKyc_tokenId d),
      checked (\<lambda>i. account_validateChecksum (lb_long E) i ledger) (tokenRevokeKyc_accountId d)]"

definition tokenRevokeKyc_case :: string where
  "tokenRevokeKyc_case = ''tokenRevokeKyc''"

definition tokenRevokeKyc_execute :: "string \<times> string" where
  "tokenRevokeKyc_execute = (''token'', ''revokeKycFromTokenAccount'')"

definition tokenRevokeKyc_good :: "tokenRevokeKyc \<Rightarrow> bool" where
  "tokenRevokeKyc_good d \<longleftrightarrow> pred_option plain_id (tokenRevokeKyc_tokenId d) \<and>
      pred_option account_ok (tokenRevokeKyc_accountId d)"

lemmas tokenRevokeKyc_defs =
  tokenRevokeKyc_empty_def tokenRevokeKyc_setTokenId_def[abs_def]
      tokenRevokeKyc_setAccountId_def[abs_def] tokenRevokeKyc_new_def tokenRevokeKyc_data_def
      tokenRevokeKyc_fromProtobuf_def

lemma tokenRevokeKyc_read_make:
  assumes "transfer_lib_ok E" and "tokenRevokeKyc_good d"
  shows "\<exists>m. tokenRevokeKyc_data E d = Inr m \<and> tokenRevokeKyc_fromProtobuf E m = Inr (start 200000000 d)"
  using assms by (cases d) (simp add: tokenRevokeKyc_defs tokenRevokeKyc_good_def field_back)

interpretation tokenRevokeKyc_rw: body_class tokenRevokeKyc_data tokenRevokeKyc_fromProtobuf tokenRevokeKyc_good "\<lambda>_. 200000000"
  by unfold_locales (rule tokenRevokeKyc_read_make)

section \<open>\<open>src/token/TokenAssociateTransaction.js\<close>\<close>

record tokenAssociate =
  tokenAssociate_tokenIds :: "token_id list option"
  tokenAssociate_accountId :: "account_id option"

record tokenAssociate_body =
  tokenAssociate_m_tokens :: "id_message list option"
  tokenAssociate_m_account :: "account_message option"

definition tokenAssociate_empty :: "tokenAssociate" where
  "tokenAssociate_empty = \<lparr>tokenAssociate_tokenIds = None,
      tokenAssociate_accountId = None\<rparr>"

definition tokenAssociate_setTokenIds ::
    "'asn transfer_lib \<Rightarrow> token_id id_arg list \<Rightarrow> tokenAssociate base \<Rightarrow> tokenAssociate base result" where
  "tokenAssociate_setTokenIds E a =
     set_field (put (res_map (token_copy E) a) (\<lambda>x d. d\<lparr>tokenAssociate_tokenIds := x\<rparr>))"

definition tokenAssociate_setAccountId ::
    "'asn transfer_lib \<Rightarrow> account_id id_arg \<Rightarrow> tokenAssociate base \<Rightarrow> tokenAssociate base result" where
  "tokenAssociate_setAccountId E a =
     set_field (put (account_copy E a) (\<lambda>x d. d\<lparr>tokenAssociate_accountId := x\<rparr>))"

definition tokenAssociate_new ::
    "'asn transfer_lib \<Rightarrow> (token_id id_arg list) option \<Rightarrow>
      (account_id id_arg) option \<Rightarrow> tokenAssociate base result" where
  "tokenAssociate_new E a1 a2 =
     chain [given (tokenAssociate_setTokenIds E) a1,
      given (tokenAssociate_setAccountId E) a2] (start 500000000 tokenAssociate_empty)"

definition tokenAssociate_data :: "'asn transfer_lib \<Rightarrow> tokenAssociate \<Rightarrow> tokenAssociate_body result" where
  "tokenAssociate_data E d =
     Inr \<lparr>tokenAssociate_m_tokens = map_option (map token_toProtobuf) (tokenAssociate_tokenIds d),
      tokenAssociate_m_account = make_account E (tokenAssociate_accountId d)\<rparr>"

definition tokenAssociate_fromProtobuf ::
    "'asn transfer_lib \<Rightarrow> tokenAssociate_body \<Rightarrow> tokenAssociate base result" where
  "tokenAssociate_fromProtobuf E b =
     res_bind (res_opt (res_map token_fromProtobuf) (tokenAssociate_m_tokens b)) (\<lambda>x0.
     res_bind (read_account E (tokenAssociate_m_account b)) (\<lambda>x1.
     tokenAssociate_new E (map_option (map IdObject) x0) (map_option IdObject x1)))"

definition tokenAssociate_validateChecksums :: "'asn transfer_lib \<Rightarrow> byte list option \<Rightarrow> tokenAssociate \<Rightarrow> unit result" where
  "tokenAssociate_validateChecksums E ledger d =
     all_checked [
      checked (\<lambda>i. account_validateChecksum (lb_long E) i ledger) (tokenAssociate_accountId d),
      checked (\<lambda>ts. all_checked (map (\<lambda>i. token_validateChecksum (lb_long E) i ledger) ts)) (tokenAssociate_tokenIds d)]"

definition tokenAssociate_case :: string where
  "tokenAssociate_case = ''tokenAssociate''"

definition tokenAssociate_execute :: "string \<times> string" where
  "tokenAssociate_execute = (''token'', ''associateTokens'')"

definition tokenAssociate_good :: "tokenAssociate \<Rightarrow> bool" where
  "tokenAssociate_good d \<longleftrightarrow>
      pred_option (list_all plain_id) (tokenAssociate_tokenIds d) \<and>
      tokenAssociate_tokenIds d \<noteq> None \<and> pred_option account_ok (tokenAssociate_accountId d)"

lemmas tokenAssociate_defs =
  tokenAssociate_empty_def tokenAssociate_setTokenIds_def[abs_def]
      tokenAssociate_setAccountId_def[abs_def] tokenAssociate_new_def tokenAssociate_data_def
      tokenAssociate_fromProtobuf_def

lemma tokenAssociate_read_make:
  assumes "transfer_lib_ok E" and "tokenAssociate_good d"
  shows "\<exists>m. tokenAssociate_data E d = Inr m \<and> tokenAssociate_fromProtobuf E m = Inr (start 500000000 d)"
  using assms by (cases d) (simp add: tokenAssociate_defs tokenAssociate_good_def field_back)

interpretation tokenAssociate_rw: body_class tokenAssociate_data tokenAssociate_fromProtobuf tokenAssociate_good "\<lambda>_. 500000000"
  by unfold_locales (rule tokenAssociate_read_make)

section \<open>\<open>src/token/TokenDissociateTransaction.js\<close>\<close>

record tokenDissociate =
  tokenDissociate_tokenIds :: "token_id list option"
  tokenDissociate_accountId :: "account_id option"

record tokenDissociate_body =
  tokenDissociate_m_tokens :: "id_message list option"
  tokenDissociate_m_account :: "account_message option"

definition tokenDissociate_empty :: "tokenDissociate" where
  "tokenDissociate_empty = \<lparr>tokenDissociate_tokenIds = None,
      tokenDissociate_accountId = None\<rparr>"

definition tokenDissociate_setTokenIds ::
    "'asn transfer_lib \<Rightarrow> token_id id_arg list \<Rightarrow> tokenDissociate base \<Rightarrow> tokenDissociate base result" where
  "tokenDissociate_setTokenIds E a =
     set_field (put (res_map (token_copy E) a) (\<lambda>x d. d\<lparr>tokenDissociate_tokenIds := x\<rparr>))"

definition tokenDissociate_setAccountId ::
    "'asn transfer_lib \<Rightarrow> account_id id_arg \<Rightarrow> tokenDissociate base \<Rightarrow> tokenDissociate base result" where
  "tokenDissociate_setAccountId E a =
     set_field (put (account_copy E a) (\<lambda>x d. d\<lparr>tokenDissociate_accountId := x\<rparr>))"

definition tokenDissociate_new ::
    "'asn transfer_lib \<Rightarrow> (token_id id_arg list) option \<Rightarrow>
      (account_id id_arg) option \<Rightarrow> tokenDissociate base result" where
  "tokenDissociate_new E a1 a2 =
     chain [given (tokenDissociate_setTokenIds E) a1,
      given (tokenDissociate_setAccountId E) a2] (start 500000000 tokenDissociate_empty)"

definition tokenDissociate_data :: "'asn transfer_lib \<Rightarrow> tokenDissociate \<Rightarrow> tokenDissociate_body result" where
  "tokenDissociate_data E d =
     Inr \<lparr>tokenDissociate_m_tokens = map_option (map token_toProtobuf) (tokenDissociate_tokenIds d),
      tokenDissociate_m_account = make_account E (tokenDissociate_accountId d)\<rparr>"

definition tokenDissociate_fromProtobuf ::
    "'asn transfer_lib \<Rightarrow> tokenDissociate_body \<Rightarrow> tokenDissociate base result" where
  "tokenDissociate_fromProtobuf E b =
     res_bind (res_opt (res_map token_fromProtobuf) (tokenDissociate_m_tokens b)) (\<lambda>x0.
     res_bind (read_account E (tokenDissociate_m_account b)) (\<lambda>x1.
     tokenDissociate_new E (map_option (map IdObject) x0) (map_option IdObject x1)))"

definition tokenDissociate_validateChecksums :: "'asn transfer_lib \<Rightarrow> byte list option \<Rightarrow> tokenDissociate \<Rightarrow> unit result" where
  "tokenDissociate_validateChecksums E ledger d =
     all_checked [
      checked (\<lambda>i. account_validateChecksum (lb_long E) i ledger) (tokenDissociate_accountId d),
      checked (\<lambda>ts. all_checked (map (\<lambda>i. token_validateChecksum (lb_long E) i ledger) ts)) (tokenDissociate_tokenIds d)]"

definition tokenDissociate_case :: string where
  "tokenDissociate_case = ''tokenDissociate''"

definition tokenDissociate_execute :: "string \<times> string" where
  "tokenDissociate_execute = (''token'', ''dissociateTokens'')"

definition tokenDissociate_good :: "tokenDissociate \<Rightarrow> bool" where
  "tokenDissociate_good d \<longleftrightarrow>
      pred_option (list_all plain_id) (tokenDissociate_tokenIds d) \<and>
      tokenDissociate_tokenIds d \<noteq> None \<and>
      pred_option account_ok (tokenDissociate_accountId d)"

lemmas tokenDissociate_defs =
  tokenDissociate_empty_def tokenDissociate_setTokenIds_def[abs_def]
      tokenDissociate_setAccountId_def[abs_def] tokenDissociate_new_def tokenDissociate_data_def
      tokenDissociate_fromProtobuf_def

lemma tokenDissociate_read_make:
  assumes "transfer_lib_ok E" and "tokenDissociate_good d"
  shows "\<exists>m. tokenDissociate_data E d = Inr m \<and> tokenDissociate_fromProtobuf E m = Inr (start 500000000 d)"
  using assms by (cases d) (simp add: tokenDissociate_defs tokenDissociate_good_def field_back)

interpretation tokenDissociate_rw: body_class tokenDissociate_data tokenDissociate_fromProtobuf tokenDissociate_good "\<lambda>_. 500000000"
  by unfold_locales (rule tokenDissociate_read_make)

section \<open>\<open>src/token/TokenBurnTransaction.js\<close>\<close>

record tokenBurn =
  tokenBurn_tokenId :: "token_id option"
  tokenBurn_amount :: "long option"
  tokenBurn_serials :: "long list"

record tokenBurn_body =
  tokenBurn_m_token :: "id_message option"
  tokenBurn_m_amount :: "long option"
  tokenBurn_m_serialNumbers :: "long list"

definition tokenBurn_empty :: "tokenBurn" where
  "tokenBurn_empty = \<lparr>tokenBurn_tokenId = None, tokenBurn_amount = None,
      tokenBurn_serials = []\<rparr>"

definition tokenBurn_setTokenId ::
    "'asn transfer_lib \<Rightarrow> token_id id_arg \<Rightarrow> tokenBurn base \<Rightarrow> tokenBurn base result" where
  "tokenBurn_setTokenId E a =
     set_field (put (token_copy E a) (\<lambda>x d. d\<lparr>tokenBurn_tokenId := x\<rparr>))"

definition tokenBurn_setAmount ::
    "'asn transfer_lib \<Rightarrow> long_arg \<Rightarrow> tokenBurn base \<Rightarrow> tokenBurn base result" where
  "tokenBurn_setAmount E a =
     set_field (put (Inr (long_value E a)) (\<lambda>x d. d\<lparr>tokenBurn_amount := x\<rparr>))"

definition tokenBurn_setSerials ::
    "'asn transfer_lib \<Rightarrow> long_arg list \<Rightarrow> tokenBurn base \<Rightarrow> tokenBurn base result" where
  "tokenBurn_setSerials E a =
     set_field (store (Inr (map (long_value E) a)) (\<lambda>x d. d\<lparr>tokenBurn_serials := x\<rparr>))"

definition tokenBurn_new ::
    "'asn transfer_lib \<Rightarrow> (token_id id_arg) option \<Rightarrow> long_arg option \<Rightarrow>
      (long_arg list) option \<Rightarrow> tokenBurn base result" where
  "tokenBurn_new E a1 a2 a3 =
     chain [given (tokenBurn_setTokenId E) a1, given (tokenBurn_setAmount E) a2,
      given (tokenBurn_setSerials E) a3] (start 200000000 tokenBurn_empty)"

definition tokenBurn_data :: "'asn transfer_lib \<Rightarrow> tokenBurn \<Rightarrow> tokenBurn_body result" where
  "tokenBurn_data E d =
     Inr \<lparr>tokenBurn_m_token = map_option token_toProtobuf (tokenBurn_tokenId d),
      tokenBurn_m_amount = tokenBurn_amount d, tokenBurn_m_serialNumbers = tokenBurn_serials d\<rparr>"

definition tokenBurn_fromProtobuf ::
    "'asn transfer_lib \<Rightarrow> tokenBurn_body \<Rightarrow> tokenBurn base result" where
  "tokenBurn_fromProtobuf E b =
     res_bind (res_opt token_fromProtobuf (tokenBurn_m_token b)) (\<lambda>x0.
     tokenBurn_new E (map_option IdObject x0) (map_option LongObject (tokenBurn_m_amount b))
      (Some (map LongObject (tokenBurn_m_serialNumbers b))))"

definition tokenBurn_validateChecksums :: "'asn transfer_lib \<Rightarrow> byte list option \<Rightarrow> tokenBurn \<Rightarrow> unit result" where
  "tokenBurn_validateChecksums E ledger d =
     all_checked [
      checked (\<lambda>i. token_validateChecksum (lb_long E) i ledger) (tokenBurn_tokenId d)]"

definition tokenBurn_case :: string where
  "tokenBurn_case = ''tokenBurn''"

definition tokenBurn_execute :: "string \<times> string" where
  "tokenBurn_execute = (''token'', ''burnToken'')"

definition tokenBurn_good :: "tokenBurn \<Rightarrow> bool" where
  "tokenBurn_good d \<longleftrightarrow> pred_option plain_id (tokenBurn_tokenId d) \<and>
      tokenBurn_amount d \<noteq> None"

lemmas tokenBurn_defs =
  tokenBurn_empty_def tokenBurn_setTokenId_def[abs_def] tokenBurn_setAmount_def[abs_def]
      tokenBurn_setSerials_def[abs_def] tokenBurn_new_def tokenBurn_data_def tokenBurn_fromProtobuf_def

lemma tokenBurn_read_make:
  assumes "transfer_lib_ok E" and "tokenBurn_good d"
  shows "\<exists>m. tokenBurn_data E d = Inr m \<and> tokenBurn_fromProtobuf E m = Inr (start 200000000 d)"
  using assms by (cases d) (simp add: tokenBurn_defs tokenBurn_good_def field_back)

interpretation tokenBurn_rw: body_class tokenBurn_data tokenBurn_fromProtobuf tokenBurn_good "\<lambda>_. 200000000"
  by unfold_locales (rule tokenBurn_read_make)

section \<open>\<open>src/token/TokenMintTransaction.js\<close>\<close>

record tokenMint =
  tokenMint_tokenId :: "token_id option"
  tokenMint_amount :: "long option"
  tokenMint_metadata :: "byte list list"

record tokenMint_body =
  tokenMint_m_token :: "id_message option"
  tokenMint_m_amount :: "long option"
  tokenMint_m_metadata :: "byte list list"

definition tokenMint_empty :: "tokenMint" where
  "tokenMint_empty = \<lparr>tokenMint_tokenId = None, tokenMint_amount = None,
      tokenMint_metadata = []\<rparr>"

definition tokenMint_setTokenId ::
    "'asn transfer_lib \<Rightarrow> token_id id_arg \<Rightarrow> tokenMint base \<Rightarrow> tokenMint base result" where
  "tokenMint_setTokenId E a =
     set_field (put (token_copy E a) (\<lambda>x d. d\<lparr>tokenMint_tokenId := x\<rparr>))"

definition tokenMint_setAmount ::
    "'asn transfer_lib \<Rightarrow> long_arg \<Rightarrow> tokenMint base \<Rightarrow> tokenMint base result" where
  "tokenMint_setAmount E a =
     set_field (put (Inr (long_value E a)) (\<lambda>x d. d\<lparr>tokenMint_amount := x\<rparr>))"

definition tokenMint_setMetadata ::
    "bytes_arg list \<Rightarrow> tokenMint base \<Rightarrow> tokenMint base result" where
  "tokenMint_setMetadata a =
     set_field (store (Inr (map bytes_given a)) (\<lambda>x d. d\<lparr>tokenMint_metadata := x\<rparr>))"

definition tokenMint_addMetadata :: "bytes_arg \<Rightarrow> tokenMint base \<Rightarrow> tokenMint base result" where
  "tokenMint_addMetadata a =
     set_field (\<lambda>d. Inr (d\<lparr>tokenMint_metadata := tokenMint_metadata d @ [bytes_given a]\<rparr>))"

definition tokenMint_new ::
    "'asn transfer_lib \<Rightarrow> (token_id id_arg) option \<Rightarrow> long_arg option \<Rightarrow>
      (bytes_arg list) option \<Rightarrow> tokenMint base result" where
  "tokenMint_new E a1 a2 a3 =
     chain [given (tokenMint_setTokenId E) a1, given (tokenMint_setAmount E) a2,
      given tokenMint_setMetadata a3] (start 200000000 tokenMint_empty)"

definition tokenMint_data :: "'asn transfer_lib \<Rightarrow> tokenMint \<Rightarrow> tokenMint_body result" where
  "tokenMint_data E d =
     Inr \<lparr>tokenMint_m_token = map_option token_toProtobuf (tokenMint_tokenId d),
      tokenMint_m_amount = tokenMint_amount d, tokenMint_m_metadata = tokenMint_metadata d\<rparr>"

definition tokenMint_fromProtobuf ::
    "'asn transfer_lib \<Rightarrow> tokenMint_body \<Rightarrow> tokenMint base result" where
  "tokenMint_fromProtobuf E b =
     res_bind (res_opt token_fromProtobuf (tokenMint_m_token b)) (\<lambda>x0.
     tokenMint_new E (map_option IdObject x0) (map_option LongObject (tokenMint_m_amount b))
      (Some (map BytesObject (tokenMint_m_metadata b))))"

definition tokenMint_validateChecksums :: "'asn transfer_lib \<Rightarrow> byte list option \<Rightarrow> tokenMint \<Rightarrow> unit result" where
  "tokenMint_validateChecksums E ledger d =
     all_checked [
      checked (\<lambda>i. token_validateChecksum (lb_long E) i ledger) (tokenMint_tokenId d)]"

definition tokenMint_case :: string where
  "tokenMint_case = ''tokenMint''"

definition tokenMint_execute :: "string \<times> string" where
  "tokenMint_execute = (''token'', ''mintToken'')"

definition tokenMint_good :: "tokenMint \<Rightarrow> bool" where
  "tokenMint_good d \<longleftrightarrow> pred_option plain_id (tokenMint_tokenId d) \<and>
      tokenMint_amount d \<noteq> None"

lemmas tokenMint_defs =
  tokenMint_empty_def tokenMint_setTokenId_def[abs_def] tokenMint_setAmount_def[abs_def]
      tokenMint_setMetadata_def[abs_def] tokenMint_new_def tokenMint_data_def tokenMint_fromProtobuf_def

lemma tokenMint_read_make:
  assumes "transfer_lib_ok E" and "tokenMint_good d"
  shows "\<exists>m. tokenMint_data E d = Inr m \<and> tokenMint_fromProtobuf E m = Inr (start 200000000 d)"
  using assms by (cases d) (simp add: tokenMint_defs tokenMint_good_def field_back)

interpretation tokenMint_rw: body_class tokenMint_data tokenMint_fromProtobuf tokenMint_good "\<lambda>_. 200000000"
  by unfold_locales (rule tokenMint_read_make)

section \<open>\<open>src/token/TokenWipeTransaction.js\<close>\<close>

record tokenWipe =
  tokenWipe_tokenId :: "token_id option"
  tokenWipe_accountId :: "account_id option"
  tokenWipe_amount :: "long option"
  tokenWipe_serials :: "long list"

record tokenWipe_body =
  tokenWipe_m_token :: "id_message option"
  tokenWipe_m_account :: "account_message option"
  tokenWipe_m_amount :: "long option"
  tokenWipe_m_serialNumbers :: "long list"

definition tokenWipe_empty :: "tokenWipe" where
  "tokenWipe_empty = \<lparr>tokenWipe_tokenId = None, tokenWipe_accountId = None,
      tokenWipe_amount = None, tokenWipe_serials = []\<rparr>"

definition tokenWipe_setTokenId ::
    "'asn transfer_lib \<Rightarrow> token_id id_arg \<Rightarrow> tokenWipe base \<Rightarrow> tokenWipe base result" where
  "tokenWipe_setTokenId E a =
     set_field (put (token_copy E a) (\<lambda>x d. d\<lparr>tokenWipe_tokenId := x\<rparr>))"

definition tokenWipe_setAccountId ::
    "'asn transfer_lib \<Rightarrow> account_id id_arg \<Rightarrow> tokenWipe base \<Rightarrow> tokenWipe base result" where
  "tokenWipe_setAccountId E a =
     set_field (put (account_copy E a) (\<lambda>x d. d\<lparr>tokenWipe_accountId := x\<rparr>))"

definition tokenWipe_setAmount ::
    "'asn transfer_lib \<Rightarrow> long_arg \<Rightarrow> tokenWipe base \<Rightarrow> tokenWipe base result" where
  "tokenWipe_setAmount E a =
     set_field (put (Inr (long_value E a)) (\<lambda>x d. d\<lparr>tokenWipe_amount := x\<rparr>))"

definition tokenWipe_setSerials ::
    "'asn transfer_lib \<Rightarrow> long_arg list \<Rightarrow> tokenWipe base \<Rightarrow> tokenWipe base result" where
  "tokenWipe_setSerials E a =
     set_field (store (Inr (map (long_value E) a)) (\<lambda>x d. d\<lparr>tokenWipe_serials := x\<rparr>))"

definition tokenWipe_new ::
    "'asn transfer_lib \<Rightarrow> (token_id id_arg) option \<Rightarrow>
      (account_id id_arg) option \<Rightarrow> long_arg option \<Rightarrow>
      (long_arg list) option \<Rightarrow> tokenWipe base result" where
  "tokenWipe_new E a1 a2 a3 a4 =
     chain [given (tokenWipe_setTokenId E) a1, given (tokenWipe_setAccountId E) a2,
      given (tokenWipe_setAmount E) a3,
      given (tokenWipe_setSerials E) a4] (start 200000000 tokenWipe_empty)"

definition tokenWipe_data :: "'asn transfer_lib \<Rightarrow> tokenWipe \<Rightarrow> tokenWipe_body result" where
  "tokenWipe_data E d =
     Inr \<lparr>tokenWipe_m_token = map_option token_toProtobuf (tokenWipe_tokenId d),
      tokenWipe_m_account = make_account E (tokenWipe_accountId d),
      tokenWipe_m_amount = tokenWipe_amount d, tokenWipe_m_serialNumbers = tokenWipe_serials d\<rparr>"

definition tokenWipe_fromProtobuf ::
    "'asn transfer_lib \<Rightarrow> tokenWipe_body \<Rightarrow> tokenWipe base result" where
  "tokenWipe_fromProtobuf E b =
     res_bind (res_opt token_fromProtobuf (tokenWipe_m_token b)) (\<lambda>x0.
     res_bind (read_account E (tokenWipe_m_account b)) (\<lambda>x1.
     tokenWipe_new E (map_option IdObject x0) (map_option IdObject x1)
      (map_option LongObject (tokenWipe_m_amount b))
      (Some (map LongObject (tokenWipe_m_serialNumbers b)))))"

definition tokenWipe_validateChecksums :: "'asn transfer_lib \<Rightarrow> byte list option \<Rightarrow> tokenWipe \<Rightarrow> unit result" where
  "tokenWipe_validateChecksums E ledger d =
     all_checked [
      checked (\<lambda>i. token_validateChecksum (lb_long E) i ledger) (tokenWipe_tokenId d),
      checked (\<lambda>i. account_validateChecksum (lb_long E) i ledger) (tokenWipe_accountId d)]"

definition tokenWipe_case :: string where
  "tokenWipe_case = ''tokenWipe''"

definition tokenWipe_execute :: "string \<times> string" where
  "tokenWipe_execute = (''token'', ''wipeTokenAccount'')"

definition tokenWipe_good :: "tokenWipe \<Rightarrow> bool" where
  "tokenWipe_good d \<longleftrightarrow> pred_option plain_id (tokenWipe_tokenId d) \<and>
      pred_option account_ok (tokenWipe_accountId d) \<and> tokenWipe_amount d \<noteq> None"

lemmas tokenWipe_defs =
  tokenWipe_empty_def tokenWipe_setTokenId_def[abs_def] tokenWipe_setAccountId_def[abs_def]
      tokenWipe_setAmount_def[abs_def] tokenWipe_setSerials_def[abs_def] tokenWipe_new_def
      tokenWipe_data_def tokenWipe_fromProtobuf_def

lemma tokenWipe_read_make:
  assumes "transfer_lib_ok E" and "tokenWipe_good d"
  shows "\<exists>m. tokenWipe_data E d = Inr m \<and> tokenWipe_fromProtobuf E m = Inr (start 200000000 d)"
  using assms by (cases d) (simp add: tokenWipe_defs tokenWipe_good_def field_back)

interpretation tokenWipe_rw: body_class tokenWipe_data tokenWipe_fromProtobuf tokenWipe_good "\<lambda>_. 200000000"
  by unfold_locales (rule tokenWipe_read_make)

section \<open>\<open>src/token/TokenUpdateNftsTransaction.js\<close>\<close>

text \<open>The transaction is sent with the method that pauses tokens.\<close>

record tokenUpdateNfts =
  tokenUpdateNfts_tokenId :: "token_id option"
  tokenUpdateNfts_serialNumbers :: "long list"
  tokenUpdateNfts_metadata :: "byte list option"

record tokenUpdateNfts_body =
  tokenUpdateNfts_m_token :: "id_message option"
  tokenUpdateNfts_m_serialNumbers :: "long list"
  tokenUpdateNfts_m_metadata :: "byte list option option"

definition tokenUpdateNfts_empty :: "tokenUpdateNfts" where
  "tokenUpdateNfts_empty = \<lparr>tokenUpdateNfts_tokenId = None, tokenUpdateNfts_serialNumbers = [],
      tokenUpdateNfts_metadata = None\<rparr>"

definition tokenUpdateNfts_setTokenId ::
    "'asn transfer_lib \<Rightarrow> token_id id_arg \<Rightarrow> tokenUpdateNfts base \<Rightarrow> tokenUpdateNfts base result" where
  "tokenUpdateNfts_setTokenId E a =
     set_field (put (token_copy E a) (\<lambda>x d. d\<lparr>tokenUpdateNfts_tokenId := x\<rparr>))"

definition tokenUpdateNfts_setSerialNumbers ::
    "long list \<Rightarrow> tokenUpdateNfts base \<Rightarrow> tokenUpdateNfts base result" where
  "tokenUpdateNfts_setSerialNumbers a =
     set_field (store (Inr a) (\<lambda>x d. d\<lparr>tokenUpdateNfts_serialNumbers := x\<rparr>))"

definition tokenUpdateNfts_setMetadata ::
    "byte list \<Rightarrow> tokenUpdateNfts base \<Rightarrow> tokenUpdateNfts base result" where
  "tokenUpdateNfts_setMetadata a =
     set_field (put (Inr a) (\<lambda>x d. d\<lparr>tokenUpdateNfts_metadata := x\<rparr>))"

definition tokenUpdateNfts_new ::
    "'asn transfer_lib \<Rightarrow> (token_id id_arg) option \<Rightarrow>
      (long list) option \<Rightarrow>
      (byte list) option \<Rightarrow> tokenUpdateNfts base result" where
  "tokenUpdateNfts_new E a1 a2 a3 =
     chain [given (tokenUpdateNfts_setTokenId E) a1, given tokenUpdateNfts_setSerialNumbers a2,
      given tokenUpdateNfts_setMetadata a3] (start 200000000 tokenUpdateNfts_empty)"

definition tokenUpdateNfts_data :: "'asn transfer_lib \<Rightarrow> tokenUpdateNfts \<Rightarrow> tokenUpdateNfts_body result" where
  "tokenUpdateNfts_data E d =
     Inr \<lparr>tokenUpdateNfts_m_token = map_option token_toProtobuf (tokenUpdateNfts_tokenId d),
      tokenUpdateNfts_m_serialNumbers = tokenUpdateNfts_serialNumbers d,
      tokenUpdateNfts_m_metadata = map_option Some (tokenUpdateNfts_metadata d)\<rparr>"

definition tokenUpdateNfts_fromProtobuf ::
    "'asn transfer_lib \<Rightarrow> tokenUpdateNfts_body \<Rightarrow> tokenUpdateNfts base result" where
  "tokenUpdateNfts_fromProtobuf E b =
     res_bind (res_opt token_fromProtobuf (tokenUpdateNfts_m_token b)) (\<lambda>x0.
     tokenUpdateNfts_new E (map_option IdObject x0) (Some (tokenUpdateNfts_m_serialNumbers b))
      ((inner (tokenUpdateNfts_m_metadata b))))"

definition tokenUpdateNfts_validateChecksums :: "'asn transfer_lib \<Rightarrow> byte list option \<Rightarrow> tokenUpdateNfts \<Rightarrow> unit result" where
  "tokenUpdateNfts_validateChecksums E ledger d =
     all_checked [
      checked (\<lambda>i. token_validateChecksum (lb_long E) i ledger) (tokenUpdateNfts_tokenId d)]"

definition tokenUpdateNfts_case :: string where
  "tokenUpdateNfts_case = ''tokenUpdateNfts''"

definition tokenUpdateNfts_execute :: "string \<times> string" where
  "tokenUpdateNfts_execute = (''token'', ''pauseToken'')"

definition tokenUpdateNfts_good :: "tokenUpdateNfts \<Rightarrow> bool" where
  "tokenUpdateNfts_good d \<longleftrightarrow> pred_option plain_id (tokenUpdateNfts_tokenId d)"

lemmas tokenUpdateNfts_defs =
  tokenUpdateNfts_empty_def tokenUpdateNfts_setTokenId_def[abs_def]
      tokenUpdateNfts_setSerialNumbers_def[abs_def] tokenUpdateNfts_setMetadata_def[abs_def]
      tokenUpdateNfts_new_def tokenUpdateNfts_data_def tokenUpdateNfts_fromProtobuf_def

lemma tokenUpdateNfts_read_make:
  assumes "transfer_lib_ok E" and "tokenUpdateNfts_good d"
  shows "\<exists>m. tokenUpdateNfts_data E d = Inr m \<and> tokenUpdateNfts_fromProtobuf E m = Inr (start 200000000 d)"
  using assms by (cases d) (simp add: tokenUpdateNfts_defs tokenUpdateNfts_good_def field_back)

interpretation tokenUpdateNfts_rw: body_class tokenUpdateNfts_data tokenUpdateNfts_fromProtobuf tokenUpdateNfts_good "\<lambda>_. 200000000"
  by unfold_locales (rule tokenUpdateNfts_read_make)

end
