(* ===== verification/AccountActions.thy ===== *)
theory AccountActions
  imports TxFields PrivateKeys
begin

text \<open>
  Transactions on accounts: creating, updating and deleting an account and its live hashes
  (src/account).
\<close>

text \<open>An EVM address is its bytes, or a text of 40 digits, with or without \<open>0x\<close>.\<close>

datatype alias_arg = AliasObject "byte list" | AliasText string

definition alias_value :: "alias_arg \<Rightarrow> byte list result" where
  "alias_value a =
     (case a of
        AliasObject b \<Rightarrow> Inr b
      | AliasText t \<Rightarrow>
          if take 2 t = ''0x'' \<and> length t = 42 \<or> length t = 40 then Inr (hex_decode t)
          else Inl (Error ''evmAddress must be a valid EVM address with or without \"0x\" prefix''))"

definition evm_alias :: "byte list option \<Rightarrow> byte list option" where
  "evm_alias m = (case m of Some b \<Rightarrow> if length b > 0 \<and> length b = 20 then Some b else None | None \<Rightarrow> None)"

lemma evm_alias_back [field_back]: "pred_option (\<lambda>b. length b = 20) x \<Longrightarrow> evm_alias x = x"
  by (cases x) (simp_all add: evm_alias_def)

lemma put_alias_back [field_back]:
  "upd None d = d \<Longrightarrow>
    given (\<lambda>a. set_unguarded (put (alias_value a) upd)) (map_option AliasObject x) (start n d) = Inr (start n (upd x d))"
  by (cases x) (simp_all add: put_def alias_value_def)

section \<open>\<open>src/account/AccountCreateTransaction.js\<close>\<close>

text \<open>The two record thresholds are constants that no setter changes and are left out. The
  setter of the alias does not look whether the transaction is frozen.\<close>

record accountCreate =
  accountCreate_key :: "key_tree option"
  accountCreate_initialBalance :: "hbar option"
  accountCreate_receiverSignatureRequired :: "bool"
  accountCreate_proxyAccountId :: "account_id option"
  accountCreate_autoRenewPeriod :: "long"
  accountCreate_accountMemo :: "string option"
  accountCreate_maxAutomaticTokenAssociations :: "long option"
  accountCreate_stakedAccountId :: "account_id option"
  accountCreate_stakedNodeId :: "long option"
  accountCreate_declineStakingReward :: "bool"
  accountCreate_alias :: "byte list option"

record accountCreate_body =
  accountCreate_m_key :: "key_message option"
  accountCreate_m_initialBalance :: "long option"
  accountCreate_m_receiverSigRequired :: "bool option"
  accountCreate_m_proxyAccountID :: "account_message option"
  accountCreate_m_autoRenewPeriod :: "long option option"
  accountCreate_m_memo :: "string option"
  accountCreate_m_maxAutomaticTokenAssociations :: "int option"
  accountCreate_m_stakedAccountId :: "account_message option"
  accountCreate_m_stakedNodeId :: "long option"
  accountCreate_m_declineReward :: "bool option"
  accountCreate_m_alias :: "byte list option"

definition accountCreate_empty :: "accountCreate" where
  "accountCreate_empty = \<lparr>accountCreate_key = None, accountCreate_initialBalance = None,
      accountCreate_receiverSignatureRequired = False, accountCreate_proxyAccountId = None,
      accountCreate_autoRenewPeriod = 7776000, accountCreate_accountMemo = None,
      accountCreate_maxAutomaticTokenAssociations = None, accountCreate_stakedAccountId = None,
      accountCreate_stakedNodeId = None, accountCreate_declineStakingReward = False,
      accountCreate_alias = None\<rparr>"

definition accountCreate_setKeyWithoutAlias ::
    "key_tree \<Rightarrow> accountCreate base \<Rightarrow> accountCreate base result" where
  "accountCreate_setKeyWithoutAlias a =
     set_field (put (Inr a) (\<lambda>x d. d\<lparr>accountCreate_key := x\<rparr>))"

definition accountCreate_setInitialBalance ::
    "'asn transfer_lib \<Rightarrow> hbar_arg \<Rightarrow> accountCreate base \<Rightarrow> accountCreate base result" where
  "accountCreate_setInitialBalance E a =
     set_field (put (hbar_of_arg E a) (\<lambda>x d. d\<lparr>accountCreate_initialBalance := x\<rparr>))"

definition accountCreate_setReceiverSignatureRequired ::
    "bool \<Rightarrow> accountCreate base \<Rightarrow> accountCreate base result" where
  "accountCreate_setReceiverSignatureRequired a =
     set_field (store (Inr a) (\<lambda>x d. d\<lparr>accountCreate_receiverSignatureRequired := x\<rparr>))"

definition accountCreate_setProxyAccountId ::
    "account_id \<Rightarrow> accountCreate base \<Rightarrow> accountCreate base result" where
  "accountCreate_setProxyAccountId a =
     set_field (put (Inr a) (\<lambda>x d. d\<lparr>accountCreate_proxyAccountId := x\<rparr>))"

definition accountCreate_setAutoRenewPeriod ::
    "'asn transfer_lib \<Rightarrow> duration_arg \<Rightarrow> accountCreate base \<Rightarrow> accountCreate base result" where
  "accountCreate_setAutoRenewPeriod E a =
     set_field (store (Inr (duration_value E a)) (\<lambda>x d. d\<lparr>accountCreate_autoRenewPeriod := x\<rparr>))"

definition accountCreate_setAccountMemo ::
    "string \<Rightarrow> accountCreate base \<Rightarrow> accountCreate base result" where
  "accountCreate_setAccountMemo a =
     set_field (put (Inr a) (\<lambda>x d. d\<lparr>accountCreate_accountMemo := x\<rparr>))"

definition accountCreate_setMaxAutomaticTokenAssociations ::
    "'asn transfer_lib \<Rightarrow> long_arg \<Rightarrow> accountCreate base \<Rightarrow> accountCreate base result" where
  "accountCreate_setMaxAutomaticTokenAssociations E a =
     set_field (put (Inr (long_value E a)) (\<lambda>x d. d\<lparr>accountCreate_maxAutomaticTokenAssociations := x\<rparr>))"

definition accountCreate_setStakedAccountId ::
    "'asn transfer_lib \<Rightarrow> account_id id_arg \<Rightarrow> accountCreate base \<Rightarrow> accountCreate base result" where
  "accountCreate_setStakedAccountId E a =
     set_field (put (account_arg E a) (\<lambda>x d. d\<lparr>accountCreate_stakedAccountId := x\<rparr>))"

definition accountCreate_setStakedNodeId ::
    "'asn transfer_lib \<Rightarrow> long_arg \<Rightarrow> accountCreate base \<Rightarrow> accountCreate base result" where
  "accountCreate_setStakedNodeId E a =
     set_field (put (Inr (long_value E a)) (\<lambda>x d. d\<lparr>accountCreate_stakedNodeId := x\<rparr>))"

definition accountCreate_setDeclineStakingReward ::
    "bool \<Rightarrow> accountCreate base \<Rightarrow> accountCreate base result" where
  "accountCreate_setDeclineStakingReward a =
     set_field (store (Inr a) (\<lambda>x d. d\<lparr>accountCreate_declineStakingReward := x\<rparr>))"

definition accountCreate_setAlias ::
    "alias_arg \<Rightarrow> accountCreate base \<Rightarrow> accountCreate base result" where
  "accountCreate_setAlias a =
     set_unguarded (put (alias_value a) (\<lambda>x d. d\<lparr>accountCreate_alias := x\<rparr>))"

definition accountCreate_setKey :: "key_tree \<Rightarrow> accountCreate base \<Rightarrow> accountCreate base result" where
  "accountCreate_setKey a = set_field (put (Inr a) (\<lambda>x d. d\<lparr>accountCreate_key := x\<rparr>))"

text \<open>The key is a private or a public one; the address of a private key of the curve secp256k1 becomes the
  alias. The key is set before the second key is looked at, so it stays when that throws. \<open>None\<close>: the hash
  loops; it never does.\<close>

datatype account_key = PublicAccountKey key_tree | PrivateAccountKey private_key

definition account_key_tree :: "account_key \<Rightarrow> key_tree" where
  "account_key_tree k = (case k of PublicAccountKey t \<Rightarrow> t | PrivateAccountKey p \<Rightarrow> PublicTree (private_publicKey p))"

definition set_alias_of ::
    "'asn curve_lib \<Rightarrow> string \<Rightarrow> account_key \<Rightarrow> accountCreate base \<Rightarrow> (js_error option \<times> accountCreate base) option" where
  "set_alias_of C msg k t =
     (case k of
        PublicAccountKey _ \<Rightarrow> Some (Some (Error msg), t)
      | PrivateAccountKey p \<Rightarrow>
          if pk_type p \<noteq> Secp256k1 then Some (Some (Error msg), t)
          else map_option (\<lambda>a. case accountCreate_setAlias (AliasText a) t of
                 Inl e \<Rightarrow> (Some e, t) | Inr t' \<Rightarrow> (None, t')) (toEthereumAddress C (private_publicKey p)))"

definition accountCreate_setECDSAKeyWithAlias ::
    "'asn curve_lib \<Rightarrow> account_key \<Rightarrow> accountCreate base \<Rightarrow> (js_error option \<times> accountCreate base) option" where
  "accountCreate_setECDSAKeyWithAlias C k t =
     (case accountCreate_setKeyWithoutAlias (account_key_tree k) t of
        Inl e \<Rightarrow> Some (Some e, t)
      | Inr t' \<Rightarrow> set_alias_of C ([CHR 0x27] @ ''key'' @ [CHR 0x27] @ '' must be an ECDSA private key when '' @ [CHR 0x27] @ ''aliasKey'' @ [CHR 0x27]
          @ '' is not provided.'') k t')"

definition accountCreate_setKeyWithAlias ::
    "'asn curve_lib \<Rightarrow> account_key \<Rightarrow> account_key \<Rightarrow> accountCreate base \<Rightarrow> (js_error option \<times> accountCreate base) option" where
  "accountCreate_setKeyWithAlias C k k2 t =
     (case accountCreate_setKeyWithoutAlias (account_key_tree k) t of
        Inl e \<Rightarrow> Some (Some e, t)
      | Inr t' \<Rightarrow> set_alias_of C ([CHR 0x27] @ ''aliasKey'' @ [CHR 0x27]
          @ '' must be an ECDSA private key when provided.'') k2 t')"

definition accountCreate_new ::
    "'asn transfer_lib \<Rightarrow> key_tree option \<Rightarrow> bool option \<Rightarrow>
      hbar_arg option \<Rightarrow> account_id option \<Rightarrow> duration_arg option \<Rightarrow>
      string option \<Rightarrow> long_arg option \<Rightarrow> (account_id id_arg) option \<Rightarrow>
      long_arg option \<Rightarrow> bool option \<Rightarrow>
      alias_arg option \<Rightarrow> accountCreate base result" where
  "accountCreate_new E a1 a2 a3 a4 a5 a6 a7 a8 a9 a10 a11 =
     chain [given accountCreate_setKeyWithoutAlias a1,
      given accountCreate_setReceiverSignatureRequired a2, given (accountCreate_setInitialBalance E) a3,
      given accountCreate_setProxyAccountId a4, given (accountCreate_setAutoRenewPeriod E) a5,
      given accountCreate_setAccountMemo a6, given (accountCreate_setMaxAutomaticTokenAssociations E) a7,
      given (accountCreate_setStakedAccountId E) a8, given (accountCreate_setStakedNodeId E) a9,
      given accountCreate_setDeclineStakingReward a10,
      given accountCreate_setAlias a11] (start 200000000 accountCreate_empty)"

definition accountCreate_data :: "'asn transfer_lib \<Rightarrow> accountCreate \<Rightarrow> accountCreate_body result" where
  "accountCreate_data E d =
     res_bind (res_opt tree_message (accountCreate_key d)) (\<lambda>k0.
     Inr \<lparr>accountCreate_m_key = k0,
      accountCreate_m_initialBalance = make_hbar E (accountCreate_initialBalance d),
      accountCreate_m_receiverSigRequired = Some (accountCreate_receiverSignatureRequired d),
      accountCreate_m_proxyAccountID = make_account E (accountCreate_proxyAccountId d),
      accountCreate_m_autoRenewPeriod = Some (Some (accountCreate_autoRenewPeriod d)),
      accountCreate_m_memo = accountCreate_accountMemo d,
      accountCreate_m_maxAutomaticTokenAssociations = map_option toInt (accountCreate_maxAutomaticTokenAssociations d),
      accountCreate_m_stakedAccountId = make_account E (accountCreate_stakedAccountId d),
      accountCreate_m_stakedNodeId = accountCreate_stakedNodeId d,
      accountCreate_m_declineReward = Some (accountCreate_declineStakingReward d),
      accountCreate_m_alias = accountCreate_alias d\<rparr>)"

definition accountCreate_fromProtobuf ::
    "'asn transfer_lib \<Rightarrow> accountCreate_body \<Rightarrow> accountCreate base result" where
  "accountCreate_fromProtobuf E b =
     res_bind (read_key E (accountCreate_m_key b)) (\<lambda>x0.
     res_bind (read_hbar E (accountCreate_m_initialBalance b)) (\<lambda>x1.
     res_bind (read_account E (accountCreate_m_proxyAccountID b)) (\<lambda>x2.
     res_bind (read_account E (accountCreate_m_stakedAccountId b)) (\<lambda>x3.
     accountCreate_new E x0 (accountCreate_m_receiverSigRequired b) (map_option HbarObject x1) x2
      (map_option (\<lambda>s. DurationSeconds (LongObject s)) (inner (accountCreate_m_autoRenewPeriod b)))
      (accountCreate_m_memo b) (map_option LongNumber (accountCreate_m_maxAutomaticTokenAssociations b))
      (map_option IdObject x3) (map_option LongObject (accountCreate_m_stakedNodeId b))
      (Some ((accountCreate_m_declineReward b) = Some True))
      (map_option AliasObject (evm_alias (accountCreate_m_alias b)))))))"

definition accountCreate_validateChecksums :: "'asn transfer_lib \<Rightarrow> byte list option \<Rightarrow> accountCreate \<Rightarrow> unit result" where
  "accountCreate_validateChecksums E ledger d =
     all_checked [
      checked (\<lambda>i. account_validateChecksum (lb_long E) i ledger) (accountCreate_proxyAccountId d)]"

definition accountCreate_case :: string where
  "accountCreate_case = ''cryptoCreateAccount''"

definition accountCreate_execute :: "string \<times> string" where
  "accountCreate_execute = (''crypto'', ''createAccount'')"

definition accountCreate_good :: "accountCreate \<Rightarrow> bool" where
  "accountCreate_good d \<longleftrightarrow> pred_option tree_ok (accountCreate_key d) \<and>
      pred_option hbar_fits (accountCreate_initialBalance d) \<and>
      accountCreate_initialBalance d \<noteq> None \<and>
      pred_option account_ok (accountCreate_proxyAccountId d) \<and>
      accountCreate_accountMemo d \<noteq> None \<and>
      pred_option small_long (accountCreate_maxAutomaticTokenAssociations d) \<and>
      accountCreate_maxAutomaticTokenAssociations d \<noteq> None \<and>
      pred_option account_ok (accountCreate_stakedAccountId d) \<and>
      pred_option (\<lambda>b. length b = 20) (accountCreate_alias d) \<and>
      (accountCreate_stakedAccountId d = None \<or> accountCreate_stakedNodeId d = None)"

lemmas accountCreate_defs =
  accountCreate_empty_def accountCreate_setKeyWithoutAlias_def[abs_def]
      accountCreate_setInitialBalance_def[abs_def]
      accountCreate_setReceiverSignatureRequired_def[abs_def]
      accountCreate_setProxyAccountId_def[abs_def] accountCreate_setAutoRenewPeriod_def[abs_def]
      accountCreate_setAccountMemo_def[abs_def]
      accountCreate_setMaxAutomaticTokenAssociations_def[abs_def]
      accountCreate_setStakedAccountId_def[abs_def] accountCreate_setStakedNodeId_def[abs_def]
      accountCreate_setDeclineStakingReward_def[abs_def] accountCreate_setAlias_def[abs_def]
      accountCreate_new_def accountCreate_data_def accountCreate_fromProtobuf_def

lemma accountCreate_read_make:
  assumes "transfer_lib_ok E" and "accountCreate_good d"
  shows "\<exists>m. accountCreate_data E d = Inr m \<and> accountCreate_fromProtobuf E m = Inr (start 200000000 d)"
proof -
  have g0: "pred_option tree_ok (accountCreate_key d)" using assms(2) by (simp add: accountCreate_good_def)
  obtain k0 where k0: "res_opt tree_message (accountCreate_key d) = Inr k0" "read_key E k0 = Inr (accountCreate_key d)"
    using key_reads[OF g0] .
  show ?thesis using assms k0 by (cases d) (simp add: accountCreate_defs accountCreate_good_def field_back)
qed

interpretation accountCreate_rw: body_class accountCreate_data accountCreate_fromProtobuf accountCreate_good "\<lambda>_. 200000000"
  by unfold_locales (rule accountCreate_read_make)

section \<open>\<open>src/account/AccountUpdateTransaction.js\<close>\<close>

record accountUpdate =
  accountUpdate_accountId :: "account_id option"
  accountUpdate_key :: "key_tree option"
  accountUpdate_receiverSignatureRequired :: "bool option"
  accountUpdate_proxyAccountId :: "account_id option"
  accountUpdate_autoRenewPeriod :: "long option"
  accountUpdate_expirationTime :: "timestamp option"
  accountUpdate_accountMemo :: "string option"
  accountUpdate_maxAutomaticTokenAssociations :: "long option"
  accountUpdate_stakedAccountId :: "account_id option"
  accountUpdate_stakedNodeId :: "long option"
  accountUpdate_declineStakingReward :: "bool option"

record accountUpdate_body =
  accountUpdate_m_accountIDToUpdate :: "account_message option"
  accountUpdate_m_key :: "key_message option"
  accountUpdate_m_receiverSigRequiredWrapper :: "bool option option"
  accountUpdate_m_proxyAccountID :: "account_message option"
  accountUpdate_m_autoRenewPeriod :: "long option option"
  accountUpdate_m_expirationTime :: "ts_message option"
  accountUpdate_m_memo :: "string option option"
  accountUpdate_m_maxAutomaticTokenAssociations :: "int option option"
  accountUpdate_m_stakedAccountId :: "account_message option"
  accountUpdate_m_stakedNodeId :: "long option"
  accountUpdate_m_declineReward :: "bool option option"

definition accountUpdate_empty :: "accountUpdate" where
  "accountUpdate_empty = \<lparr>accountUpdate_accountId = None, accountUpdate_key = None,
      accountUpdate_receiverSignatureRequired = None, accountUpdate_proxyAccountId = None,
      accountUpdate_autoRenewPeriod = None, accountUpdate_expirationTime = None,
      accountUpdate_accountMemo = None, accountUpdate_maxAutomaticTokenAssociations = None,
      accountUpdate_stakedAccountId = None, accountUpdate_stakedNodeId = None,
      accountUpdate_declineStakingReward = None\<rparr>"

definition accountUpdate_setAccountId ::
    "'asn transfer_lib \<Rightarrow> account_id id_arg \<Rightarrow> accountUpdate base \<Rightarrow> accountUpdate base result" where
  "accountUpdate_setAccountId E a =
     set_field (put (account_copy E a) (\<lambda>x d. d\<lparr>accountUpdate_accountId := x\<rparr>))"

definition accountUpdate_setKey ::
    "key_tree \<Rightarrow> accountUpdate base \<Rightarrow> accountUpdate base result" where
  "accountUpdate_setKey a =
     set_field (put (Inr a) (\<lambda>x d. d\<lparr>accountUpdate_key := x\<rparr>))"

definition accountUpdate_setReceiverSignatureRequired ::
    "bool \<Rightarrow> accountUpdate base \<Rightarrow> accountUpdate base result" where
  "accountUpdate_setReceiverSignatureRequired a =
     set_field (put (Inr a) (\<lambda>x d. d\<lparr>accountUpdate_receiverSignatureRequired := x\<rparr>))"

definition accountUpdate_setProxyAccountId ::
    "account_id \<Rightarrow> accountUpdate base \<Rightarrow> accountUpdate base result" where
  "accountUpdate_setProxyAccountId a =
     set_field (put (Inr a) (\<lambda>x d. d\<lparr>accountUpdate_proxyAccountId := x\<rparr>))"

definition accountUpdate_setAutoRenewPeriod ::
    "'asn transfer_lib \<Rightarrow> duration_arg \<Rightarrow> accountUpdate base \<Rightarrow> accountUpdate base result" where
  "accountUpdate_setAutoRenewPeriod E a =
     set_field (put (Inr (duration_value E a)) (\<lambda>x d. d\<lparr>accountUpdate_autoRenewPeriod := x\<rparr>))"

definition accountUpdate_setExpirationTime ::
    "'asn transfer_lib \<Rightarrow> timestamp + int \<Rightarrow> accountUpdate base \<Rightarrow> accountUpdate base result" where
  "accountUpdate_setExpirationTime E a =
     set_field (put (date_value E a) (\<lambda>x d. d\<lparr>accountUpdate_expirationTime := x\<rparr>))"

definition accountUpdate_setAccountMemo ::
    "string \<Rightarrow> accountUpdate base \<Rightarrow> accountUpdate base result" where
  "accountUpdate_setAccountMemo a =
     set_field (put (Inr a) (\<lambda>x d. d\<lparr>accountUpdate_accountMemo := x\<rparr>))"

definition accountUpdate_clearAccountMemo :: "accountUpdate base \<Rightarrow> accountUpdate base result" where
  "accountUpdate_clearAccountMemo = set_field (\<lambda>d. Inr (d\<lparr>accountUpdate_accountMemo := None\<rparr>))"

definition accountUpdate_setMaxAutomaticTokenAssociations ::
    "'asn transfer_lib \<Rightarrow> long_arg \<Rightarrow> accountUpdate base \<Rightarrow> accountUpdate base result" where
  "accountUpdate_setMaxAutomaticTokenAssociations E a =
     set_field (put (Inr (long_value E a)) (\<lambda>x d. d\<lparr>accountUpdate_maxAutomaticTokenAssociations := x\<rparr>))"

definition accountUpdate_setStakedAccountId ::
    "'asn transfer_lib \<Rightarrow> account_id id_arg \<Rightarrow> accountUpdate base \<Rightarrow> accountUpdate base result" where
  "accountUpdate_setStakedAccountId E a =
     set_field (put (account_arg E a) (\<lambda>x d. d\<lparr>accountUpdate_stakedAccountId := x\<rparr>))"

definition accountUpdate_clearStakedAccountId :: "accountUpdate base \<Rightarrow> accountUpdate base result" where
  "accountUpdate_clearStakedAccountId = set_field (\<lambda>d. Inr (d\<lparr>accountUpdate_stakedAccountId := Some account_zero_id\<rparr>))"

definition accountUpdate_setStakedNodeId ::
    "'asn transfer_lib \<Rightarrow> long_arg \<Rightarrow> accountUpdate base \<Rightarrow> accountUpdate base result" where
  "accountUpdate_setStakedNodeId E a =
     set_field (put (Inr (long_value E a)) (\<lambda>x d. d\<lparr>accountUpdate_stakedNodeId := x\<rparr>))"

definition accountUpdate_clearStakedNodeId :: "accountUpdate base \<Rightarrow> accountUpdate base result" where
  "accountUpdate_clearStakedNodeId = set_field (\<lambda>d. Inr (d\<lparr>accountUpdate_stakedNodeId := Some (- 1)\<rparr>))"

definition accountUpdate_setDeclineStakingReward ::
    "bool \<Rightarrow> accountUpdate base \<Rightarrow> accountUpdate base result" where
  "accountUpdate_setDeclineStakingReward a =
     set_field (put (Inr a) (\<lambda>x d. d\<lparr>accountUpdate_declineStakingReward := x\<rparr>))"

definition accountUpdate_new ::
    "'asn transfer_lib \<Rightarrow> (account_id id_arg) option \<Rightarrow>
      key_tree option \<Rightarrow> bool option \<Rightarrow> account_id option \<Rightarrow>
      duration_arg option \<Rightarrow> (timestamp + int) option \<Rightarrow>
      string option \<Rightarrow> long_arg option \<Rightarrow> (account_id id_arg) option \<Rightarrow>
      long_arg option \<Rightarrow> bool option \<Rightarrow> accountUpdate base result" where
  "accountUpdate_new E a1 a2 a3 a4 a5 a6 a7 a8 a9 a10 a11 =
     chain [given (accountUpdate_setAccountId E) a1, given accountUpdate_setKey a2,
      given accountUpdate_setReceiverSignatureRequired a3, given accountUpdate_setProxyAccountId a4,
      given (accountUpdate_setAutoRenewPeriod E) a5, given (accountUpdate_setExpirationTime E) a6,
      given accountUpdate_setAccountMemo a7, given (accountUpdate_setMaxAutomaticTokenAssociations E) a8,
      given (accountUpdate_setStakedAccountId E) a9, given (accountUpdate_setStakedNodeId E) a10,
      given accountUpdate_setDeclineStakingReward a11] (start 200000000 accountUpdate_empty)"

definition accountUpdate_data :: "'asn transfer_lib \<Rightarrow> accountUpdate \<Rightarrow> accountUpdate_body result" where
  "accountUpdate_data E d =
     res_bind (res_opt tree_message (accountUpdate_key d)) (\<lambda>k0.
     Inr \<lparr>accountUpdate_m_accountIDToUpdate = make_account E (accountUpdate_accountId d),
      accountUpdate_m_key = k0,
      accountUpdate_m_receiverSigRequiredWrapper = map_option Some (accountUpdate_receiverSignatureRequired d),
      accountUpdate_m_proxyAccountID = make_account E (accountUpdate_proxyAccountId d),
      accountUpdate_m_autoRenewPeriod = map_option Some (accountUpdate_autoRenewPeriod d),
      accountUpdate_m_expirationTime = map_option ts_toProtobuf (accountUpdate_expirationTime d),
      accountUpdate_m_memo = map_option Some (accountUpdate_accountMemo d),
      accountUpdate_m_maxAutomaticTokenAssociations = map_option (\<lambda>n. Some (toInt n)) (accountUpdate_maxAutomaticTokenAssociations d),
      accountUpdate_m_stakedAccountId = make_account E (accountUpdate_stakedAccountId d),
      accountUpdate_m_stakedNodeId = accountUpdate_stakedNodeId d,
      accountUpdate_m_declineReward = map_option Some (accountUpdate_declineStakingReward d)\<rparr>)"

definition accountUpdate_fromProtobuf ::
    "'asn transfer_lib \<Rightarrow> accountUpdate_body \<Rightarrow> accountUpdate base result" where
  "accountUpdate_fromProtobuf E b =
     res_bind (read_account E (accountUpdate_m_accountIDToUpdate b)) (\<lambda>x0.
     res_bind (read_key E (accountUpdate_m_key b)) (\<lambda>x1.
     res_bind (read_account E (accountUpdate_m_proxyAccountID b)) (\<lambda>x2.
     res_bind (read_account E (accountUpdate_m_stakedAccountId b)) (\<lambda>x3.
     accountUpdate_new E (map_option IdObject x0) x1
      ((inner (accountUpdate_m_receiverSigRequiredWrapper b))) x2
      (map_option (\<lambda>s. DurationSeconds (LongObject s)) (inner (accountUpdate_m_autoRenewPeriod b)))
      (map_option Inl (map_option (ts_fromProtobuf (lb_long E)) (accountUpdate_m_expirationTime b)))
      ((inner (accountUpdate_m_memo b)))
      (map_option LongObject (map_option (fromNumber (lb_long E)) (inner (accountUpdate_m_maxAutomaticTokenAssociations b))))
      (map_option IdObject x3) (map_option LongObject (accountUpdate_m_stakedNodeId b))
      ((inner (accountUpdate_m_declineReward b)))))))"

definition accountUpdate_validateChecksums :: "'asn transfer_lib \<Rightarrow> byte list option \<Rightarrow> accountUpdate \<Rightarrow> unit result" where
  "accountUpdate_validateChecksums E ledger d =
     all_checked [
      checked (\<lambda>i. account_validateChecksum (lb_long E) i ledger) (accountUpdate_accountId d),
      checked (\<lambda>i. account_validateChecksum (lb_long E) i ledger) (accountUpdate_proxyAccountId d)]"

definition accountUpdate_case :: string where
  "accountUpdate_case = ''cryptoUpdateAccount''"

definition accountUpdate_execute :: "string \<times> string" where
  "accountUpdate_execute = (''crypto'', ''updateAccount'')"

definition accountUpdate_good :: "accountUpdate \<Rightarrow> bool" where
  "accountUpdate_good d \<longleftrightarrow> pred_option account_ok (accountUpdate_accountId d) \<and>
      pred_option tree_ok (accountUpdate_key d) \<and>
      pred_option account_ok (accountUpdate_proxyAccountId d) \<and>
      pred_option time_fits (accountUpdate_expirationTime d) \<and>
      pred_option small_long (accountUpdate_maxAutomaticTokenAssociations d) \<and>
      pred_option account_ok (accountUpdate_stakedAccountId d) \<and>
      (accountUpdate_stakedAccountId d = None \<or> accountUpdate_stakedNodeId d = None)"

lemmas accountUpdate_defs =
  accountUpdate_empty_def accountUpdate_setAccountId_def[abs_def] accountUpdate_setKey_def[abs_def]
      accountUpdate_setReceiverSignatureRequired_def[abs_def]
      accountUpdate_setProxyAccountId_def[abs_def] accountUpdate_setAutoRenewPeriod_def[abs_def]
      accountUpdate_setExpirationTime_def[abs_def] accountUpdate_setAccountMemo_def[abs_def]
      accountUpdate_setMaxAutomaticTokenAssociations_def[abs_def]
      accountUpdate_setStakedAccountId_def[abs_def] accountUpdate_setStakedNodeId_def[abs_def]
      accountUpdate_setDeclineStakingReward_def[abs_def] accountUpdate_new_def accountUpdate_data_def
      accountUpdate_fromProtobuf_def

lemma accountUpdate_read_make:
  assumes "transfer_lib_ok E" and "accountUpdate_good d"
  shows "\<exists>m. accountUpdate_data E d = Inr m \<and> accountUpdate_fromProtobuf E m = Inr (start 200000000 d)"
proof -
  have g0: "pred_option tree_ok (accountUpdate_key d)" using assms(2) by (simp add: accountUpdate_good_def)
  obtain k0 where k0: "res_opt tree_message (accountUpdate_key d) = Inr k0" "read_key E k0 = Inr (accountUpdate_key d)"
    using key_reads[OF g0] .
  show ?thesis using assms k0 by (cases d) (simp add: accountUpdate_defs accountUpdate_good_def field_back)
qed

interpretation accountUpdate_rw: body_class accountUpdate_data accountUpdate_fromProtobuf accountUpdate_good "\<lambda>_. 200000000"
  by unfold_locales (rule accountUpdate_read_make)

section \<open>\<open>src/account/AccountDeleteTransaction.js\<close>\<close>

record accountDelete =
  accountDelete_accountId :: "account_id option"
  accountDelete_transferAccountId :: "account_id option"

record accountDelete_body =
  accountDelete_m_deleteAccountID :: "account_message option"
  accountDelete_m_transferAccountID :: "account_message option"

definition accountDelete_empty :: "accountDelete" where
  "accountDelete_empty = \<lparr>accountDelete_accountId = None,
      accountDelete_transferAccountId = None\<rparr>"

definition accountDelete_setAccountId ::
    "'asn transfer_lib \<Rightarrow> account_id id_arg \<Rightarrow> accountDelete base \<Rightarrow> accountDelete base result" where
  "accountDelete_setAccountId E a =
     set_field (put (account_copy E a) (\<lambda>x d. d\<lparr>accountDelete_accountId := x\<rparr>))"

definition accountDelete_setTransferAccountId ::
    "'asn transfer_lib \<Rightarrow> account_id id_arg \<Rightarrow> accountDelete base \<Rightarrow> accountDelete base result" where
  "accountDelete_setTransferAccountId E a =
     set_field (put (account_copy E a) (\<lambda>x d. d\<lparr>accountDelete_transferAccountId := x\<rparr>))"

definition accountDelete_new ::
    "'asn transfer_lib \<Rightarrow> (account_id id_arg) option \<Rightarrow>
      (account_id id_arg) option \<Rightarrow> accountDelete base result" where
  "accountDelete_new E a1 a2 =
     chain [given (accountDelete_setAccountId E) a1,
      given (accountDelete_setTransferAccountId E) a2] (start 200000000 accountDelete_empty)"

definition accountDelete_data :: "'asn transfer_lib \<Rightarrow> accountDelete \<Rightarrow> accountDelete_body result" where
  "accountDelete_data E d =
     Inr \<lparr>accountDelete_m_deleteAccountID = make_account E (accountDelete_accountId d),
      accountDelete_m_transferAccountID = make_account E (accountDelete_transferAccountId d)\<rparr>"

definition accountDelete_fromProtobuf ::
    "'asn transfer_lib \<Rightarrow> accountDelete_body \<Rightarrow> accountDelete base result" where
  "accountDelete_fromProtobuf E b =
     res_bind (read_account E (accountDelete_m_deleteAccountID b)) (\<lambda>x0.
     res_bind (read_account E (accountDelete_m_transferAccountID b)) (\<lambda>x1.
     accountDelete_new E (map_option IdObject x0) (map_option IdObject x1)))"

definition accountDelete_validateChecksums :: "'asn transfer_lib \<Rightarrow> byte list option \<Rightarrow> accountDelete \<Rightarrow> unit result" where
  "accountDelete_validateChecksums E ledger d =
     all_checked [
      checked (\<lambda>i. account_validateChecksum (lb_long E) i ledger) (accountDelete_accountId d),
      checked (\<lambda>i. account_validateChecksum (lb_long E) i ledger) (accountDelete_transferAccountId d)]"

definition accountDelete_case :: string where
  "accountDelete_case = ''cryptoDelete''"

definition accountDelete_execute :: "string \<times> string" where
  "accountDelete_execute = (''crypto'', ''cryptoDelete'')"

definition accountDelete_good :: "accountDelete \<Rightarrow> bool" where
  "accountDelete_good d \<longleftrightarrow> pred_option account_ok (accountDelete_accountId d) \<and>
      pred_option account_ok (accountDelete_transferAccountId d)"

lemmas accountDelete_defs =
  accountDelete_empty_def accountDelete_setAccountId_def[abs_def]
      accountDelete_setTransferAccountId_def[abs_def] accountDelete_new_def accountDelete_data_def
      accountDelete_fromProtobuf_def

lemma accountDelete_read_make:
  assumes "transfer_lib_ok E" and "accountDelete_good d"
  shows "\<exists>m. accountDelete_data E d = Inr m \<and> accountDelete_fromProtobuf E m = Inr (start 200000000 d)"
  using assms by (cases d) (simp add: accountDelete_defs accountDelete_good_def field_back)

interpretation accountDelete_rw: body_class accountDelete_data accountDelete_fromProtobuf accountDelete_good "\<lambda>_. 200000000"
  by unfold_locales (rule accountDelete_read_make)

section \<open>\<open>src/account/LiveHashAddTransaction.js\<close>\<close>

text \<open>The fields of the body are those of the message \<open>liveHash\<close> in it.\<close>

record liveHashAdd =
  liveHashAdd_hash :: "byte list option"
  liveHashAdd_keys :: "key_tree option list option"
  liveHashAdd_duration :: "long option"
  liveHashAdd_accountId :: "account_id option"

record liveHashAdd_body =
  liveHashAdd_m_hash :: "byte list option"
  liveHashAdd_m_keys :: "key_message list option option"
  liveHashAdd_m_duration :: "long option option"
  liveHashAdd_m_accountId :: "account_message option"

definition liveHashAdd_empty :: "liveHashAdd" where
  "liveHashAdd_empty = \<lparr>liveHashAdd_hash = None, liveHashAdd_keys = None,
      liveHashAdd_duration = None, liveHashAdd_accountId = None\<rparr>"

definition liveHashAdd_setHash ::
    "byte list \<Rightarrow> liveHashAdd base \<Rightarrow> liveHashAdd base result" where
  "liveHashAdd_setHash a =
     set_field (put (Inr a) (\<lambda>x d. d\<lparr>liveHashAdd_hash := x\<rparr>))"

definition liveHashAdd_setKeys ::
    "file_keys \<Rightarrow> liveHashAdd base \<Rightarrow> liveHashAdd base result" where
  "liveHashAdd_setKeys a =
     set_field (put (Inr (any_keys_value a)) (\<lambda>x d. d\<lparr>liveHashAdd_keys := x\<rparr>))"

definition liveHashAdd_setDuration ::
    "'asn transfer_lib \<Rightarrow> duration_arg \<Rightarrow> liveHashAdd base \<Rightarrow> liveHashAdd base result" where
  "liveHashAdd_setDuration E a =
     set_field (put (Inr (duration_value E a)) (\<lambda>x d. d\<lparr>liveHashAdd_duration := x\<rparr>))"

definition liveHashAdd_setAccountId ::
    "'asn transfer_lib \<Rightarrow> account_id id_arg \<Rightarrow> liveHashAdd base \<Rightarrow> liveHashAdd base result" where
  "liveHashAdd_setAccountId E a =
     set_field (put (account_copy E a) (\<lambda>x d. d\<lparr>liveHashAdd_accountId := x\<rparr>))"

definition liveHashAdd_new ::
    "'asn transfer_lib \<Rightarrow> (byte list) option \<Rightarrow> file_keys option \<Rightarrow>
      duration_arg option \<Rightarrow>
      (account_id id_arg) option \<Rightarrow> liveHashAdd base result" where
  "liveHashAdd_new E a1 a2 a3 a4 =
     chain [given liveHashAdd_setHash a1, given liveHashAdd_setKeys a2,
      given (liveHashAdd_setDuration E) a3,
      given (liveHashAdd_setAccountId E) a4] (start 200000000 liveHashAdd_empty)"

definition liveHashAdd_data :: "'asn transfer_lib \<Rightarrow> liveHashAdd \<Rightarrow> liveHashAdd_body result" where
  "liveHashAdd_data E d =
     res_bind (make_keys (liveHashAdd_keys d)) (\<lambda>k0.
     Inr \<lparr>liveHashAdd_m_hash = liveHashAdd_hash d, liveHashAdd_m_keys = k0,
      liveHashAdd_m_duration = map_option Some (liveHashAdd_duration d),
      liveHashAdd_m_accountId = make_account E (liveHashAdd_accountId d)\<rparr>)"

definition liveHashAdd_fromProtobuf ::
    "'asn transfer_lib \<Rightarrow> liveHashAdd_body \<Rightarrow> liveHashAdd base result" where
  "liveHashAdd_fromProtobuf E b =
     res_bind (read_keys E (liveHashAdd_m_keys b)) (\<lambda>x0.
     res_bind (read_account E (liveHashAdd_m_accountId b)) (\<lambda>x1.
     liveHashAdd_new E (liveHashAdd_m_hash b) (map_option KeyArray x0)
      (map_option (\<lambda>s. DurationSeconds (LongObject s)) (inner (liveHashAdd_m_duration b)))
      (map_option IdObject x1)))"

definition liveHashAdd_validateChecksums :: "'asn transfer_lib \<Rightarrow> byte list option \<Rightarrow> liveHashAdd \<Rightarrow> unit result" where
  "liveHashAdd_validateChecksums E ledger d =
     all_checked [
      checked (\<lambda>i. account_validateChecksum (lb_long E) i ledger) (liveHashAdd_accountId d)]"

definition liveHashAdd_case :: string where
  "liveHashAdd_case = ''cryptoAddLiveHash''"

definition liveHashAdd_execute :: "string \<times> string" where
  "liveHashAdd_execute = (''crypto'', ''addLiveHash'')"

definition liveHashAdd_good :: "liveHashAdd \<Rightarrow> bool" where
  "liveHashAdd_good d \<longleftrightarrow> liveHashAdd_hash d \<noteq> None \<and>
      pred_option trees_ok (liveHashAdd_keys d) \<and> pred_option account_ok (liveHashAdd_accountId d)"

lemmas liveHashAdd_defs =
  liveHashAdd_empty_def liveHashAdd_setHash_def[abs_def] liveHashAdd_setKeys_def[abs_def]
      liveHashAdd_setDuration_def[abs_def] liveHashAdd_setAccountId_def[abs_def] liveHashAdd_new_def
      liveHashAdd_data_def liveHashAdd_fromProtobuf_def

lemma liveHashAdd_read_make:
  assumes "transfer_lib_ok E" and "liveHashAdd_good d"
  shows "\<exists>m. liveHashAdd_data E d = Inr m \<and> liveHashAdd_fromProtobuf E m = Inr (start 200000000 d)"
proof -
  have g0: "pred_option trees_ok (liveHashAdd_keys d)" using assms(2) by (simp add: liveHashAdd_good_def)
  obtain k0 where k0: "make_keys (liveHashAdd_keys d) = Inr k0" "read_keys E k0 = Inr (liveHashAdd_keys d)"
    using keys_reads[OF g0] .
  show ?thesis using assms k0 by (cases d) (simp add: liveHashAdd_defs liveHashAdd_good_def field_back)
qed

interpretation liveHashAdd_rw: body_class liveHashAdd_data liveHashAdd_fromProtobuf liveHashAdd_good "\<lambda>_. 200000000"
  by unfold_locales (rule liveHashAdd_read_make)

section \<open>\<open>src/account/LiveHashDeleteTransaction.js\<close>\<close>

record liveHashDelete =
  liveHashDelete_hash :: "byte list option"
  liveHashDelete_accountId :: "account_id option"

record liveHashDelete_body =
  liveHashDelete_m_liveHashToDelete :: "byte list option"
  liveHashDelete_m_accountOfLiveHash :: "account_message option"

definition liveHashDelete_empty :: "liveHashDelete" where
  "liveHashDelete_empty = \<lparr>liveHashDelete_hash = None, liveHashDelete_accountId = None\<rparr>"

definition liveHashDelete_setHash ::
    "byte list \<Rightarrow> liveHashDelete base \<Rightarrow> liveHashDelete base result" where
  "liveHashDelete_setHash a =
     set_field (put (Inr a) (\<lambda>x d. d\<lparr>liveHashDelete_hash := x\<rparr>))"

definition liveHashDelete_setAccountId ::
    "'asn transfer_lib \<Rightarrow> account_id id_arg \<Rightarrow> liveHashDelete base \<Rightarrow> liveHashDelete base result" where
  "liveHashDelete_setAccountId E a =
     set_field (put (account_copy E a) (\<lambda>x d. d\<lparr>liveHashDelete_accountId := x\<rparr>))"

definition liveHashDelete_new ::
    "'asn transfer_lib \<Rightarrow> (byte list) option \<Rightarrow>
      (account_id id_arg) option \<Rightarrow> liveHashDelete base result" where
  "liveHashDelete_new E a1 a2 =
     chain [given liveHashDelete_setHash a1,
      given (liveHashDelete_setAccountId E) a2] (start 200000000 liveHashDelete_empty)"

definition liveHashDelete_data :: "'asn transfer_lib \<Rightarrow> liveHashDelete \<Rightarrow> liveHashDelete_body result" where
  "liveHashDelete_data E d =
     Inr \<lparr>liveHashDelete_m_liveHashToDelete = liveHashDelete_hash d,
      liveHashDelete_m_accountOfLiveHash = make_account E (liveHashDelete_accountId d)\<rparr>"

definition liveHashDelete_fromProtobuf ::
    "'asn transfer_lib \<Rightarrow> liveHashDelete_body \<Rightarrow> liveHashDelete base result" where
  "liveHashDelete_fromProtobuf E b =
     res_bind (read_account E (liveHashDelete_m_accountOfLiveHash b)) (\<lambda>x0.
     liveHashDelete_new E (liveHashDelete_m_liveHashToDelete b) (map_option IdObject x0))"

definition liveHashDelete_validateChecksums :: "'asn transfer_lib \<Rightarrow> byte list option \<Rightarrow> liveHashDelete \<Rightarrow> unit result" where
  "liveHashDelete_validateChecksums E ledger d =
     all_checked [
      checked (\<lambda>i. account_validateChecksum (lb_long E) i ledger) (liveHashDelete_accountId d)]"

definition liveHashDelete_case :: string where
  "liveHashDelete_case = ''cryptoDeleteLiveHash''"

definition liveHashDelete_execute :: "string \<times> string" where
  "liveHashDelete_execute = (''crypto'', ''deleteLiveHash'')"

definition liveHashDelete_good :: "liveHashDelete \<Rightarrow> bool" where
  "liveHashDelete_good d \<longleftrightarrow> liveHashDelete_hash d \<noteq> None \<and>
      pred_option account_ok (liveHashDelete_accountId d)"

lemmas liveHashDelete_defs =
  liveHashDelete_empty_def liveHashDelete_setHash_def[abs_def] liveHashDelete_setAccountId_def[abs_def]
      liveHashDelete_new_def liveHashDelete_data_def liveHashDelete_fromProtobuf_def

lemma liveHashDelete_read_make:
  assumes "transfer_lib_ok E" and "liveHashDelete_good d"
  shows "\<exists>m. liveHashDelete_data E d = Inr m \<and> liveHashDelete_fromProtobuf E m = Inr (start 200000000 d)"
  using assms by (cases d) (simp add: liveHashDelete_defs liveHashDelete_good_def field_back)

interpretation liveHashDelete_rw: body_class liveHashDelete_data liveHashDelete_fromProtobuf liveHashDelete_good "\<lambda>_. 200000000"
  by unfold_locales (rule liveHashDelete_read_make)

end
