(* ===== verification/ContractActions.thy ===== *)
theory ContractActions
  imports TxFields AbiParams
begin

text \<open>
  Transactions on contracts: creating, updating, deleting and calling (src/contract), and calls of
  Ethereum (src/EthereumTransaction.js).
\<close>

section \<open>\<open>src/contract/ContractCreateTransaction.js\<close>\<close>

text \<open>\<open>_fromProtobuf\<close> does not read the bytecode. Parameters are given as bytes;
  \<open>setConstructorParameters\<close> builds them from an object first.\<close>

record contractCreate =
  contractCreate_bytecodeFileId :: "file_id option"
  contractCreate_bytecode :: "byte list option"
  contractCreate_adminKey :: "key_tree option"
  contractCreate_gas :: "long option"
  contractCreate_initialBalance :: "hbar option"
  contractCreate_proxyAccountId :: "account_id option"
  contractCreate_autoRenewPeriod :: "long"
  contractCreate_constructorParameters :: "byte list option"
  contractCreate_contractMemo :: "string option"
  contractCreate_maxAutomaticTokenAssociations :: "int option"
  contractCreate_stakedAccountId :: "account_id option"
  contractCreate_stakedNodeId :: "long option"
  contractCreate_declineStakingReward :: "bool"
  contractCreate_autoRenewAccountId :: "account_id option"

record contractCreate_body =
  contractCreate_m_fileID :: "id_message option"
  contractCreate_m_initcode :: "byte list option"
  contractCreate_m_adminKey :: "key_message option"
  contractCreate_m_gas :: "long option"
  contractCreate_m_initialBalance :: "long option"
  contractCreate_m_proxyAccountID :: "account_message option"
  contractCreate_m_autoRenewPeriod :: "long option option"
  contractCreate_m_constructorParameters :: "byte list option"
  contractCreate_m_memo :: "string option"
  contractCreate_m_maxAutomaticTokenAssociations :: "int option"
  contractCreate_m_stakedAccountId :: "account_message option"
  contractCreate_m_stakedNodeId :: "long option"
  contractCreate_m_declineReward :: "bool option"
  contractCreate_m_autoRenewAccountId :: "account_message option"

definition contractCreate_empty :: "contractCreate" where
  "contractCreate_empty = \<lparr>contractCreate_bytecodeFileId = None, contractCreate_bytecode = None,
      contractCreate_adminKey = None, contractCreate_gas = None, contractCreate_initialBalance = None,
      contractCreate_proxyAccountId = None, contractCreate_autoRenewPeriod = 7776000,
      contractCreate_constructorParameters = None, contractCreate_contractMemo = None,
      contractCreate_maxAutomaticTokenAssociations = None, contractCreate_stakedAccountId = None,
      contractCreate_stakedNodeId = None, contractCreate_declineStakingReward = False,
      contractCreate_autoRenewAccountId = None\<rparr>"

definition contractCreate_setBytecodeFileId ::
    "'asn transfer_lib \<Rightarrow> file_id id_arg \<Rightarrow> contractCreate base \<Rightarrow> contractCreate base result" where
  "contractCreate_setBytecodeFileId E a =
     set_field (put (file_copy E a) (\<lambda>x d. d\<lparr>contractCreate_bytecodeFileId := x, contractCreate_bytecode := None\<rparr>))"

definition contractCreate_setBytecode ::
    "byte list \<Rightarrow> contractCreate base \<Rightarrow> contractCreate base result" where
  "contractCreate_setBytecode a =
     set_field (put (Inr a) (\<lambda>x d. d\<lparr>contractCreate_bytecode := x, contractCreate_bytecodeFileId := None\<rparr>))"

definition contractCreate_setAdminKey ::
    "key_tree \<Rightarrow> contractCreate base \<Rightarrow> contractCreate base result" where
  "contractCreate_setAdminKey a =
     set_field (put (Inr a) (\<lambda>x d. d\<lparr>contractCreate_adminKey := x\<rparr>))"

definition contractCreate_setGas ::
    "'asn transfer_lib \<Rightarrow> long_arg \<Rightarrow> contractCreate base \<Rightarrow> contractCreate base result" where
  "contractCreate_setGas E a =
     set_field (put (Inr (long_value E a)) (\<lambda>x d. d\<lparr>contractCreate_gas := x\<rparr>))"

definition contractCreate_setInitialBalance ::
    "'asn transfer_lib \<Rightarrow> hbar_arg \<Rightarrow> contractCreate base \<Rightarrow> contractCreate base result" where
  "contractCreate_setInitialBalance E a =
     set_field (put (hbar_of_arg E a) (\<lambda>x d. d\<lparr>contractCreate_initialBalance := x\<rparr>))"

definition contractCreate_setProxyAccountId ::
    "'asn transfer_lib \<Rightarrow> account_id id_arg \<Rightarrow> contractCreate base \<Rightarrow> contractCreate base result" where
  "contractCreate_setProxyAccountId E a =
     set_field (put (account_arg E a) (\<lambda>x d. d\<lparr>contractCreate_proxyAccountId := x\<rparr>))"

definition contractCreate_setAutoRenewPeriod ::
    "'asn transfer_lib \<Rightarrow> duration_arg \<Rightarrow> contractCreate base \<Rightarrow> contractCreate base result" where
  "contractCreate_setAutoRenewPeriod E a =
     set_field (store (Inr (duration_value E a)) (\<lambda>x d. d\<lparr>contractCreate_autoRenewPeriod := x\<rparr>))"

definition contractCreate_setConstructorParameters ::
    "byte list \<Rightarrow> contractCreate base \<Rightarrow> contractCreate base result" where
  "contractCreate_setConstructorParameters a =
     set_field (put (Inr a) (\<lambda>x d. d\<lparr>contractCreate_constructorParameters := x\<rparr>))"

definition contractCreate_setContractMemo ::
    "string \<Rightarrow> contractCreate base \<Rightarrow> contractCreate base result" where
  "contractCreate_setContractMemo a =
     set_field (put (Inr a) (\<lambda>x d. d\<lparr>contractCreate_contractMemo := x\<rparr>))"

definition contractCreate_setMaxAutomaticTokenAssociations ::
    "int \<Rightarrow> contractCreate base \<Rightarrow> contractCreate base result" where
  "contractCreate_setMaxAutomaticTokenAssociations a =
     set_unguarded (put (Inr a) (\<lambda>x d. d\<lparr>contractCreate_maxAutomaticTokenAssociations := x\<rparr>))"

definition contractCreate_setStakedAccountId ::
    "'asn transfer_lib \<Rightarrow> account_id id_arg \<Rightarrow> contractCreate base \<Rightarrow> contractCreate base result" where
  "contractCreate_setStakedAccountId E a =
     set_field (put (account_arg E a) (\<lambda>x d. d\<lparr>contractCreate_stakedAccountId := x\<rparr>))"

definition contractCreate_setStakedNodeId ::
    "'asn transfer_lib \<Rightarrow> long_arg \<Rightarrow> contractCreate base \<Rightarrow> contractCreate base result" where
  "contractCreate_setStakedNodeId E a =
     set_field (put (Inr (long_value E a)) (\<lambda>x d. d\<lparr>contractCreate_stakedNodeId := x\<rparr>))"

definition contractCreate_setDeclineStakingReward ::
    "bool \<Rightarrow> contractCreate base \<Rightarrow> contractCreate base result" where
  "contractCreate_setDeclineStakingReward a =
     set_field (store (Inr a) (\<lambda>x d. d\<lparr>contractCreate_declineStakingReward := x\<rparr>))"

definition contractCreate_setAutoRenewAccountId ::
    "'asn transfer_lib \<Rightarrow> account_id id_arg \<Rightarrow> contractCreate base \<Rightarrow> contractCreate base result" where
  "contractCreate_setAutoRenewAccountId E a =
     set_field (put (account_arg E a) (\<lambda>x d. d\<lparr>contractCreate_autoRenewAccountId := x\<rparr>))"

definition contractCreate_new ::
    "'asn transfer_lib \<Rightarrow> (file_id id_arg) option \<Rightarrow>
      (byte list) option \<Rightarrow> key_tree option \<Rightarrow> long_arg option \<Rightarrow>
      hbar_arg option \<Rightarrow> (account_id id_arg) option \<Rightarrow>
      duration_arg option \<Rightarrow> (byte list) option \<Rightarrow> string option \<Rightarrow>
      int option \<Rightarrow> (account_id id_arg) option \<Rightarrow> long_arg option \<Rightarrow>
      bool option \<Rightarrow>
      (account_id id_arg) option \<Rightarrow> contractCreate base result" where
  "contractCreate_new E a1 a2 a3 a4 a5 a6 a7 a8 a9 a10 a11 a12 a13 a14 =
     chain [given (contractCreate_setBytecodeFileId E) a1, given contractCreate_setBytecode a2,
      given contractCreate_setAdminKey a3, given (contractCreate_setGas E) a4,
      given (contractCreate_setInitialBalance E) a5, given (contractCreate_setProxyAccountId E) a6,
      given (contractCreate_setAutoRenewPeriod E) a7, given contractCreate_setConstructorParameters a8,
      given contractCreate_setContractMemo a9, given contractCreate_setMaxAutomaticTokenAssociations a10,
      given (contractCreate_setStakedAccountId E) a11, given (contractCreate_setStakedNodeId E) a12,
      given contractCreate_setDeclineStakingReward a13,
      given (contractCreate_setAutoRenewAccountId E) a14] (start 2000000000 contractCreate_empty)"

definition contractCreate_data :: "'asn transfer_lib \<Rightarrow> contractCreate \<Rightarrow> contractCreate_body result" where
  "contractCreate_data E d =
     res_bind (res_opt tree_message (contractCreate_adminKey d)) (\<lambda>k0.
     Inr \<lparr>contractCreate_m_fileID = map_option file_toProtobuf (contractCreate_bytecodeFileId d),
      contractCreate_m_initcode = contractCreate_bytecode d, contractCreate_m_adminKey = k0,
      contractCreate_m_gas = contractCreate_gas d,
      contractCreate_m_initialBalance = make_hbar E (contractCreate_initialBalance d),
      contractCreate_m_proxyAccountID = make_account E (contractCreate_proxyAccountId d),
      contractCreate_m_autoRenewPeriod = Some (Some (contractCreate_autoRenewPeriod d)),
      contractCreate_m_constructorParameters = contractCreate_constructorParameters d,
      contractCreate_m_memo = contractCreate_contractMemo d,
      contractCreate_m_maxAutomaticTokenAssociations = contractCreate_maxAutomaticTokenAssociations d,
      contractCreate_m_stakedAccountId = make_account E (contractCreate_stakedAccountId d),
      contractCreate_m_stakedNodeId = contractCreate_stakedNodeId d,
      contractCreate_m_declineReward = Some (contractCreate_declineStakingReward d),
      contractCreate_m_autoRenewAccountId = make_account E (contractCreate_autoRenewAccountId d)\<rparr>)"

definition contractCreate_fromProtobuf ::
    "'asn transfer_lib \<Rightarrow> contractCreate_body \<Rightarrow> contractCreate base result" where
  "contractCreate_fromProtobuf E b =
     res_bind (res_opt (file_fromProtobuf (lb_long E)) (contractCreate_m_fileID b)) (\<lambda>x0.
     res_bind (read_key E (contractCreate_m_adminKey b)) (\<lambda>x1.
     res_bind (read_hbar E (contractCreate_m_initialBalance b)) (\<lambda>x2.
     res_bind (read_account E (contractCreate_m_proxyAccountID b)) (\<lambda>x3.
     res_bind (read_account E (contractCreate_m_stakedAccountId b)) (\<lambda>x4.
     res_bind (read_account E (contractCreate_m_autoRenewAccountId b)) (\<lambda>x5.
     contractCreate_new E (map_option IdObject x0) None x1
      (map_option LongObject (contractCreate_m_gas b)) (map_option HbarObject x2)
      (map_option IdObject x3)
      (map_option (\<lambda>s. DurationSeconds (LongObject s)) (inner (contractCreate_m_autoRenewPeriod b)))
      (contractCreate_m_constructorParameters b) (contractCreate_m_memo b)
      (contractCreate_m_maxAutomaticTokenAssociations b) (map_option IdObject x4)
      (map_option LongObject (contractCreate_m_stakedNodeId b))
      (Some ((contractCreate_m_declineReward b) = Some True)) (map_option IdObject x5)))))))"

definition contractCreate_validateChecksums :: "'asn transfer_lib \<Rightarrow> byte list option \<Rightarrow> contractCreate \<Rightarrow> unit result" where
  "contractCreate_validateChecksums E ledger d =
     all_checked [
      checked (\<lambda>i. file_validateChecksum (lb_long E) i ledger) (contractCreate_bytecodeFileId d),
      checked (\<lambda>i. account_validateChecksum (lb_long E) i ledger) (contractCreate_proxyAccountId d)]"

definition contractCreate_case :: string where
  "contractCreate_case = ''contractCreateInstance''"

definition contractCreate_execute :: "string \<times> string" where
  "contractCreate_execute = (''smartContract'', ''createContract'')"

definition contractCreate_good :: "contractCreate \<Rightarrow> bool" where
  "contractCreate_good d \<longleftrightarrow>
      pred_option plain_id (contractCreate_bytecodeFileId d) \<and>
      pred_option tree_ok (contractCreate_adminKey d) \<and> contractCreate_gas d \<noteq> None \<and>
      pred_option hbar_fits (contractCreate_initialBalance d) \<and>
      contractCreate_initialBalance d \<noteq> None \<and>
      pred_option account_ok (contractCreate_proxyAccountId d) \<and>
      contractCreate_constructorParameters d \<noteq> None \<and>
      contractCreate_contractMemo d \<noteq> None \<and>
      contractCreate_maxAutomaticTokenAssociations d \<noteq> None \<and>
      pred_option account_ok (contractCreate_stakedAccountId d) \<and>
      pred_option account_ok (contractCreate_autoRenewAccountId d) \<and>
      contractCreate_bytecode d = None \<and>
      (contractCreate_stakedAccountId d = None \<or> contractCreate_stakedNodeId d = None)"

lemmas contractCreate_defs =
  contractCreate_empty_def contractCreate_setBytecodeFileId_def[abs_def]
      contractCreate_setBytecode_def[abs_def] contractCreate_setAdminKey_def[abs_def]
      contractCreate_setGas_def[abs_def] contractCreate_setInitialBalance_def[abs_def]
      contractCreate_setProxyAccountId_def[abs_def] contractCreate_setAutoRenewPeriod_def[abs_def]
      contractCreate_setConstructorParameters_def[abs_def] contractCreate_setContractMemo_def[abs_def]
      contractCreate_setMaxAutomaticTokenAssociations_def[abs_def]
      contractCreate_setStakedAccountId_def[abs_def] contractCreate_setStakedNodeId_def[abs_def]
      contractCreate_setDeclineStakingReward_def[abs_def]
      contractCreate_setAutoRenewAccountId_def[abs_def] contractCreate_new_def contractCreate_data_def
      contractCreate_fromProtobuf_def

lemma contractCreate_read_make:
  assumes "transfer_lib_ok E" and "contractCreate_good d"
  shows "\<exists>m. contractCreate_data E d = Inr m \<and> contractCreate_fromProtobuf E m = Inr (start 2000000000 d)"
proof -
  have g0: "pred_option tree_ok (contractCreate_adminKey d)" using assms(2) by (simp add: contractCreate_good_def)
  obtain k0 where k0: "res_opt tree_message (contractCreate_adminKey d) = Inr k0" "read_key E k0 = Inr (contractCreate_adminKey d)"
    using key_reads[OF g0] .
  show ?thesis using assms k0 by (cases d) (simp add: contractCreate_defs contractCreate_good_def field_back)
qed

interpretation contractCreate_rw: body_class contractCreate_data contractCreate_fromProtobuf contractCreate_good "\<lambda>_. 2000000000"
  by unfold_locales (rule contractCreate_read_make)

section \<open>\<open>src/contract/ContractUpdateTransaction.js\<close>\<close>

text \<open>\<open>_fromProtobuf\<close> takes the message around the flag for the flag: it reads
  \<open>true\<close> when the message is there and \<open>false\<close> when it is not.\<close>

record contractUpdate =
  contractUpdate_contractId :: "contract_id option"
  contractUpdate_expirationTime :: "timestamp option"
  contractUpdate_adminKey :: "key_tree option"
  contractUpdate_proxyAccountId :: "account_id option"
  contractUpdate_autoRenewPeriod :: "long option"
  contractUpdate_bytecodeFileId :: "file_id option"
  contractUpdate_contractMemo :: "string option"
  contractUpdate_maxAutomaticTokenAssociations :: "int option"
  contractUpdate_stakedAccountId :: "account_id option"
  contractUpdate_stakedNodeId :: "long option"
  contractUpdate_declineStakingReward :: "bool option"
  contractUpdate_autoRenewAccountId :: "account_id option"

record contractUpdate_body =
  contractUpdate_m_contractID :: "contract_message option"
  contractUpdate_m_expirationTime :: "ts_message option"
  contractUpdate_m_adminKey :: "key_message option"
  contractUpdate_m_proxyAccountID :: "account_message option"
  contractUpdate_m_autoRenewPeriod :: "long option option"
  contractUpdate_m_fileID :: "id_message option"
  contractUpdate_m_memoWrapper :: "string option option"
  contractUpdate_m_maxAutomaticTokenAssociations :: "int option option"
  contractUpdate_m_stakedAccountId :: "account_message option"
  contractUpdate_m_stakedNodeId :: "long option"
  contractUpdate_m_declineReward :: "bool option option"
  contractUpdate_m_autoRenewAccountId :: "account_message option"

definition contractUpdate_empty :: "contractUpdate" where
  "contractUpdate_empty = \<lparr>contractUpdate_contractId = None, contractUpdate_expirationTime = None,
      contractUpdate_adminKey = None, contractUpdate_proxyAccountId = None,
      contractUpdate_autoRenewPeriod = None, contractUpdate_bytecodeFileId = None,
      contractUpdate_contractMemo = None, contractUpdate_maxAutomaticTokenAssociations = None,
      contractUpdate_stakedAccountId = None, contractUpdate_stakedNodeId = None,
      contractUpdate_declineStakingReward = None, contractUpdate_autoRenewAccountId = None\<rparr>"

definition contractUpdate_setContractId ::
    "'asn transfer_lib \<Rightarrow> contract_id id_arg \<Rightarrow> contractUpdate base \<Rightarrow> contractUpdate base result" where
  "contractUpdate_setContractId E a =
     set_field (put (contract_copy E a) (\<lambda>x d. d\<lparr>contractUpdate_contractId := x\<rparr>))"

definition contractUpdate_setExpirationTime ::
    "'asn transfer_lib \<Rightarrow> (string \<Rightarrow> int option) \<Rightarrow> time_arg \<Rightarrow> contractUpdate base \<Rightarrow> contractUpdate base result" where
  "contractUpdate_setExpirationTime E parse a =
     set_field (put (time_value E parse a) (\<lambda>x d. d\<lparr>contractUpdate_expirationTime := x\<rparr>))"

definition contractUpdate_setAdminKey ::
    "key_tree \<Rightarrow> contractUpdate base \<Rightarrow> contractUpdate base result" where
  "contractUpdate_setAdminKey a =
     set_field (put (Inr a) (\<lambda>x d. d\<lparr>contractUpdate_adminKey := x\<rparr>))"

definition contractUpdate_setProxyAccountId ::
    "'asn transfer_lib \<Rightarrow> account_id id_arg \<Rightarrow> contractUpdate base \<Rightarrow> contractUpdate base result" where
  "contractUpdate_setProxyAccountId E a =
     set_field (put (account_copy E a) (\<lambda>x d. d\<lparr>contractUpdate_proxyAccountId := x\<rparr>))"

definition contractUpdate_setAutoRenewPeriod ::
    "'asn transfer_lib \<Rightarrow> duration_arg \<Rightarrow> contractUpdate base \<Rightarrow> contractUpdate base result" where
  "contractUpdate_setAutoRenewPeriod E a =
     set_field (put (Inr (duration_value E a)) (\<lambda>x d. d\<lparr>contractUpdate_autoRenewPeriod := x\<rparr>))"

definition contractUpdate_setBytecodeFileId ::
    "'asn transfer_lib \<Rightarrow> file_id id_arg \<Rightarrow> contractUpdate base \<Rightarrow> contractUpdate base result" where
  "contractUpdate_setBytecodeFileId E a =
     set_field (put (file_copy E a) (\<lambda>x d. d\<lparr>contractUpdate_bytecodeFileId := x\<rparr>))"

definition contractUpdate_setContractMemo ::
    "string \<Rightarrow> contractUpdate base \<Rightarrow> contractUpdate base result" where
  "contractUpdate_setContractMemo a =
     set_field (put (Inr a) (\<lambda>x d. d\<lparr>contractUpdate_contractMemo := x\<rparr>))"

definition contractUpdate_clearContractMemo :: "contractUpdate base \<Rightarrow> contractUpdate base result" where
  "contractUpdate_clearContractMemo = set_field (\<lambda>d. Inr (d\<lparr>contractUpdate_contractMemo := None\<rparr>))"

definition contractUpdate_setMaxAutomaticTokenAssociations ::
    "int \<Rightarrow> contractUpdate base \<Rightarrow> contractUpdate base result" where
  "contractUpdate_setMaxAutomaticTokenAssociations a =
     set_field (put (Inr a) (\<lambda>x d. d\<lparr>contractUpdate_maxAutomaticTokenAssociations := x\<rparr>))"

definition contractUpdate_setStakedAccountId ::
    "'asn transfer_lib \<Rightarrow> account_id id_arg \<Rightarrow> contractUpdate base \<Rightarrow> contractUpdate base result" where
  "contractUpdate_setStakedAccountId E a =
     set_field (put (account_arg E a) (\<lambda>x d. d\<lparr>contractUpdate_stakedAccountId := x\<rparr>))"

definition contractUpdate_setStakedNodeId ::
    "'asn transfer_lib \<Rightarrow> long_arg \<Rightarrow> contractUpdate base \<Rightarrow> contractUpdate base result" where
  "contractUpdate_setStakedNodeId E a =
     set_field (put (Inr (long_value E a)) (\<lambda>x d. d\<lparr>contractUpdate_stakedNodeId := x\<rparr>))"

definition contractUpdate_setDeclineStakingReward ::
    "bool \<Rightarrow> contractUpdate base \<Rightarrow> contractUpdate base result" where
  "contractUpdate_setDeclineStakingReward a =
     set_field (put (Inr a) (\<lambda>x d. d\<lparr>contractUpdate_declineStakingReward := x\<rparr>))"

definition contractUpdate_setAutoRenewAccountId ::
    "'asn transfer_lib \<Rightarrow> account_id id_arg \<Rightarrow> contractUpdate base \<Rightarrow> contractUpdate base result" where
  "contractUpdate_setAutoRenewAccountId E a =
     set_field (put (account_arg E a) (\<lambda>x d. d\<lparr>contractUpdate_autoRenewAccountId := x\<rparr>))"

definition contractUpdate_clearAutoRenewAccountId :: "contractUpdate base \<Rightarrow> contractUpdate base result" where
  "contractUpdate_clearAutoRenewAccountId = set_unguarded (\<lambda>d. Inr (d\<lparr>contractUpdate_autoRenewAccountId := Some account_zero_id\<rparr>))"

definition contractUpdate_new ::
    "'asn transfer_lib \<Rightarrow> (string \<Rightarrow> int option) \<Rightarrow>
      (contract_id id_arg) option \<Rightarrow> time_arg option \<Rightarrow>
      key_tree option \<Rightarrow> (account_id id_arg) option \<Rightarrow>
      duration_arg option \<Rightarrow> (file_id id_arg) option \<Rightarrow> string option \<Rightarrow>
      int option \<Rightarrow> (account_id id_arg) option \<Rightarrow> long_arg option \<Rightarrow>
      bool option \<Rightarrow>
      (account_id id_arg) option \<Rightarrow> contractUpdate base result" where
  "contractUpdate_new E parse a1 a2 a3 a4 a5 a6 a7 a8 a9 a10 a11 a12 =
     chain [given (contractUpdate_setContractId E) a1,
      given (contractUpdate_setExpirationTime E parse) a2, given contractUpdate_setAdminKey a3,
      given (contractUpdate_setProxyAccountId E) a4, given (contractUpdate_setAutoRenewPeriod E) a5,
      given (contractUpdate_setBytecodeFileId E) a6, given contractUpdate_setContractMemo a7,
      given contractUpdate_setMaxAutomaticTokenAssociations a8,
      given (contractUpdate_setStakedAccountId E) a9, given (contractUpdate_setStakedNodeId E) a10,
      given contractUpdate_setDeclineStakingReward a11,
      given (contractUpdate_setAutoRenewAccountId E) a12] (start 200000000 contractUpdate_empty)"

definition contractUpdate_data :: "'asn transfer_lib \<Rightarrow> contractUpdate \<Rightarrow> contractUpdate_body result" where
  "contractUpdate_data E d =
     res_bind (res_opt tree_message (contractUpdate_adminKey d)) (\<lambda>k0.
     Inr \<lparr>contractUpdate_m_contractID = map_option contract_toProtobuf (contractUpdate_contractId d),
      contractUpdate_m_expirationTime = map_option ts_toProtobuf (contractUpdate_expirationTime d),
      contractUpdate_m_adminKey = k0,
      contractUpdate_m_proxyAccountID = make_account E (contractUpdate_proxyAccountId d),
      contractUpdate_m_autoRenewPeriod = map_option Some (contractUpdate_autoRenewPeriod d),
      contractUpdate_m_fileID = map_option file_toProtobuf (contractUpdate_bytecodeFileId d),
      contractUpdate_m_memoWrapper = map_option Some (contractUpdate_contractMemo d),
      contractUpdate_m_maxAutomaticTokenAssociations = map_option Some (contractUpdate_maxAutomaticTokenAssociations d),
      contractUpdate_m_stakedAccountId = make_account E (contractUpdate_stakedAccountId d),
      contractUpdate_m_stakedNodeId = contractUpdate_stakedNodeId d,
      contractUpdate_m_declineReward = map_option Some (contractUpdate_declineStakingReward d),
      contractUpdate_m_autoRenewAccountId = make_account E (contractUpdate_autoRenewAccountId d)\<rparr>)"

definition contractUpdate_fromProtobuf ::
    "'asn transfer_lib \<Rightarrow> (string \<Rightarrow> int option) \<Rightarrow> contractUpdate_body \<Rightarrow> contractUpdate base result" where
  "contractUpdate_fromProtobuf E parse b =
     res_bind (res_opt contract_fromProtobuf (contractUpdate_m_contractID b)) (\<lambda>x0.
     res_bind (read_key E (contractUpdate_m_adminKey b)) (\<lambda>x1.
     res_bind (read_account E (contractUpdate_m_proxyAccountID b)) (\<lambda>x2.
     res_bind (res_opt (file_fromProtobuf (lb_long E)) (contractUpdate_m_fileID b)) (\<lambda>x3.
     res_bind (read_account E (contractUpdate_m_stakedAccountId b)) (\<lambda>x4.
     res_bind (read_account E (contractUpdate_m_autoRenewAccountId b)) (\<lambda>x5.
     contractUpdate_new E parse (map_option IdObject x0)
      (map_option TimeObject (map_option (ts_fromProtobuf (lb_long E)) (contractUpdate_m_expirationTime b)))
      x1 (map_option IdObject x2)
      (map_option (\<lambda>s. DurationSeconds (LongObject s)) (inner (contractUpdate_m_autoRenewPeriod b)))
      (map_option IdObject x3) ((inner (contractUpdate_m_memoWrapper b)))
      ((inner (contractUpdate_m_maxAutomaticTokenAssociations b))) (map_option IdObject x4)
      (map_option LongObject (contractUpdate_m_stakedNodeId b))
      ((Some (contractUpdate_m_declineReward b \<noteq> None))) (map_option IdObject x5)))))))"

definition contractUpdate_validateChecksums :: "'asn transfer_lib \<Rightarrow> byte list option \<Rightarrow> contractUpdate \<Rightarrow> unit result" where
  "contractUpdate_validateChecksums E ledger d =
     all_checked [
      checked (\<lambda>i. contract_validateChecksum (lb_long E) i ledger) (contractUpdate_contractId d),
      checked (\<lambda>i. file_validateChecksum (lb_long E) i ledger) (contractUpdate_bytecodeFileId d),
      checked (\<lambda>i. account_validateChecksum (lb_long E) i ledger) (contractUpdate_proxyAccountId d)]"

definition contractUpdate_case :: string where
  "contractUpdate_case = ''contractUpdateInstance''"

definition contractUpdate_execute :: "string \<times> string" where
  "contractUpdate_execute = (''smartContract'', ''updateContract'')"

definition contractUpdate_good :: "contractUpdate \<Rightarrow> bool" where
  "contractUpdate_good d \<longleftrightarrow>
      pred_option plain_contract (contractUpdate_contractId d) \<and>
      pred_option time_fits (contractUpdate_expirationTime d) \<and>
      pred_option tree_ok (contractUpdate_adminKey d) \<and>
      pred_option account_ok (contractUpdate_proxyAccountId d) \<and>
      pred_option plain_id (contractUpdate_bytecodeFileId d) \<and>
      pred_option account_ok (contractUpdate_stakedAccountId d) \<and>
      contractUpdate_declineStakingReward d = Some True \<and>
      pred_option account_ok (contractUpdate_autoRenewAccountId d) \<and>
      (contractUpdate_stakedAccountId d = None \<or> contractUpdate_stakedNodeId d = None)"

lemmas contractUpdate_defs =
  contractUpdate_empty_def contractUpdate_setContractId_def[abs_def]
      contractUpdate_setExpirationTime_def[abs_def] contractUpdate_setAdminKey_def[abs_def]
      contractUpdate_setProxyAccountId_def[abs_def] contractUpdate_setAutoRenewPeriod_def[abs_def]
      contractUpdate_setBytecodeFileId_def[abs_def] contractUpdate_setContractMemo_def[abs_def]
      contractUpdate_setMaxAutomaticTokenAssociations_def[abs_def]
      contractUpdate_setStakedAccountId_def[abs_def] contractUpdate_setStakedNodeId_def[abs_def]
      contractUpdate_setDeclineStakingReward_def[abs_def]
      contractUpdate_setAutoRenewAccountId_def[abs_def] contractUpdate_new_def contractUpdate_data_def
      contractUpdate_fromProtobuf_def

lemma contractUpdate_read_make:
  assumes "transfer_lib_ok E" and "contractUpdate_good d"
  shows "\<exists>m. contractUpdate_data E d = Inr m \<and> contractUpdate_fromProtobuf E parse m = Inr (start 200000000 d)"
proof -
  have g0: "pred_option tree_ok (contractUpdate_adminKey d)" using assms(2) by (simp add: contractUpdate_good_def)
  obtain k0 where k0: "res_opt tree_message (contractUpdate_adminKey d) = Inr k0" "read_key E k0 = Inr (contractUpdate_adminKey d)"
    using key_reads[OF g0] .
  show ?thesis using assms k0 by (cases d) (simp add: contractUpdate_defs contractUpdate_good_def field_back)
qed

interpretation contractUpdate_rw: body_class contractUpdate_data "\<lambda>E. contractUpdate_fromProtobuf E parse" contractUpdate_good "\<lambda>_. 200000000" for parse
  by unfold_locales (rule contractUpdate_read_make)

section \<open>\<open>src/contract/ContractDeleteTransaction.js\<close>\<close>

record contractDelete =
  contractDelete_contractId :: "contract_id option"
  contractDelete_transferAccountId :: "account_id option"
  contractDelete_transferContractId :: "contract_id option"

record contractDelete_body =
  contractDelete_m_contractID :: "contract_message option"
  contractDelete_m_transferAccountID :: "account_message option"
  contractDelete_m_transferContractID :: "contract_message option"

definition contractDelete_empty :: "contractDelete" where
  "contractDelete_empty = \<lparr>contractDelete_contractId = None,
      contractDelete_transferAccountId = None, contractDelete_transferContractId = None\<rparr>"

definition contractDelete_setContractId ::
    "'asn transfer_lib \<Rightarrow> contract_id id_arg \<Rightarrow> contractDelete base \<Rightarrow> contractDelete base result" where
  "contractDelete_setContractId E a =
     set_field (put (contract_copy E a) (\<lambda>x d. d\<lparr>contractDelete_contractId := x\<rparr>))"

definition contractDelete_setTransferAccountId ::
    "'asn transfer_lib \<Rightarrow> account_id id_arg \<Rightarrow> contractDelete base \<Rightarrow> contractDelete base result" where
  "contractDelete_setTransferAccountId E a =
     set_field (put (account_arg E a) (\<lambda>x d. d\<lparr>contractDelete_transferAccountId := x\<rparr>))"

definition contractDelete_setTransferContractId ::
    "'asn transfer_lib \<Rightarrow> contract_id id_arg \<Rightarrow> contractDelete base \<Rightarrow> contractDelete base result" where
  "contractDelete_setTransferContractId E a =
     set_field (put (contract_arg E a) (\<lambda>x d. d\<lparr>contractDelete_transferContractId := x\<rparr>))"

definition contractDelete_new ::
    "'asn transfer_lib \<Rightarrow> (contract_id id_arg) option \<Rightarrow>
      (account_id id_arg) option \<Rightarrow>
      (contract_id id_arg) option \<Rightarrow> contractDelete base result" where
  "contractDelete_new E a1 a2 a3 =
     chain [given (contractDelete_setContractId E) a1, given (contractDelete_setTransferAccountId E) a2,
      given (contractDelete_setTransferContractId E) a3] (start 200000000 contractDelete_empty)"

definition contractDelete_data :: "'asn transfer_lib \<Rightarrow> contractDelete \<Rightarrow> contractDelete_body result" where
  "contractDelete_data E d =
     Inr \<lparr>contractDelete_m_contractID = map_option contract_toProtobuf (contractDelete_contractId d),
      contractDelete_m_transferAccountID = make_account E (contractDelete_transferAccountId d),
      contractDelete_m_transferContractID = map_option contract_toProtobuf (contractDelete_transferContractId d)\<rparr>"

definition contractDelete_fromProtobuf ::
    "'asn transfer_lib \<Rightarrow> contractDelete_body \<Rightarrow> contractDelete base result" where
  "contractDelete_fromProtobuf E b =
     res_bind (res_opt contract_fromProtobuf (contractDelete_m_contractID b)) (\<lambda>x0.
     res_bind (read_account E (contractDelete_m_transferAccountID b)) (\<lambda>x1.
     res_bind (res_opt contract_fromProtobuf (contractDelete_m_transferContractID b)) (\<lambda>x2.
     contractDelete_new E (map_option IdObject x0) (map_option IdObject x1) (map_option IdObject x2))))"

definition contractDelete_validateChecksums :: "'asn transfer_lib \<Rightarrow> byte list option \<Rightarrow> contractDelete \<Rightarrow> unit result" where
  "contractDelete_validateChecksums E ledger d =
     all_checked [
      checked (\<lambda>i. contract_validateChecksum (lb_long E) i ledger) (contractDelete_contractId d),
      checked (\<lambda>i. account_validateChecksum (lb_long E) i ledger) (contractDelete_transferAccountId d),
      checked (\<lambda>i. contract_validateChecksum (lb_long E) i ledger) (contractDelete_transferContractId d)]"

definition contractDelete_case :: string where
  "contractDelete_case = ''contractDeleteInstance''"

definition contractDelete_execute :: "string \<times> string" where
  "contractDelete_execute = (''smartContract'', ''deleteContract'')"

definition contractDelete_good :: "contractDelete \<Rightarrow> bool" where
  "contractDelete_good d \<longleftrightarrow>
      pred_option plain_contract (contractDelete_contractId d) \<and>
      pred_option account_ok (contractDelete_transferAccountId d) \<and>
      pred_option plain_contract (contractDelete_transferContractId d) \<and>
      (contractDelete_transferAccountId d = None \<or> contractDelete_transferContractId d = None)"

lemmas contractDelete_defs =
  contractDelete_empty_def contractDelete_setContractId_def[abs_def]
      contractDelete_setTransferAccountId_def[abs_def] contractDelete_setTransferContractId_def[abs_def]
      contractDelete_new_def contractDelete_data_def contractDelete_fromProtobuf_def

lemma contractDelete_read_make:
  assumes "transfer_lib_ok E" and "contractDelete_good d"
  shows "\<exists>m. contractDelete_data E d = Inr m \<and> contractDelete_fromProtobuf E m = Inr (start 200000000 d)"
  using assms by (cases d) (simp add: contractDelete_defs contractDelete_good_def field_back)

interpretation contractDelete_rw: body_class contractDelete_data contractDelete_fromProtobuf contractDelete_good "\<lambda>_. 200000000"
  by unfold_locales (rule contractDelete_read_make)

section \<open>\<open>src/contract/ContractExecuteTransaction.js\<close>\<close>

text \<open>The property \<open>function\<close> of the constructor, which calls
  \<open>setFunction\<close> when no parameters are given, is left out.\<close>

record contractExecute =
  contractExecute_contractId :: "contract_id option"
  contractExecute_gas :: "long option"
  contractExecute_amount :: "hbar option"
  contractExecute_functionParameters :: "byte list option"

record contractExecute_body =
  contractExecute_m_contractID :: "contract_message option"
  contractExecute_m_gas :: "long option"
  contractExecute_m_amount :: "long option"
  contractExecute_m_functionParameters :: "byte list option"

definition contractExecute_empty :: "contractExecute" where
  "contractExecute_empty = \<lparr>contractExecute_contractId = None, contractExecute_gas = None,
      contractExecute_amount = None, contractExecute_functionParameters = None\<rparr>"

definition contractExecute_setContractId ::
    "'asn transfer_lib \<Rightarrow> contract_id id_arg \<Rightarrow> contractExecute base \<Rightarrow> contractExecute base result" where
  "contractExecute_setContractId E a =
     set_field (put (contract_copy E a) (\<lambda>x d. d\<lparr>contractExecute_contractId := x\<rparr>))"

definition contractExecute_setGas ::
    "'asn transfer_lib \<Rightarrow> long_arg \<Rightarrow> contractExecute base \<Rightarrow> contractExecute base result" where
  "contractExecute_setGas E a =
     set_field (put (Inr (long_value E a)) (\<lambda>x d. d\<lparr>contractExecute_gas := x\<rparr>))"

definition contractExecute_setPayableAmount ::
    "'asn transfer_lib \<Rightarrow> hbar_arg \<Rightarrow> contractExecute base \<Rightarrow> contractExecute base result" where
  "contractExecute_setPayableAmount E a =
     set_field (put (hbar_of_arg E a) (\<lambda>x d. d\<lparr>contractExecute_amount := x\<rparr>))"

definition contractExecute_setFunctionParameters ::
    "byte list \<Rightarrow> contractExecute base \<Rightarrow> contractExecute base result" where
  "contractExecute_setFunctionParameters a =
     set_field (put (Inr a) (\<lambda>x d. d\<lparr>contractExecute_functionParameters := x\<rparr>))"

text \<open>The parameters are built with the name of the function, those of no arguments when none are given; building
  changes the object.\<close>

definition contractExecute_setFunction ::
    "string \<Rightarrow> call_parameters option \<Rightarrow> contractExecute base \<Rightarrow> (contractExecute base result \<times> call_parameters option) option" where
  "contractExecute_setFunction name ps t =
     (case requireNotFrozen t of
        Inl e \<Rightarrow> Some (Inl e, ps)
      | Inr _ \<Rightarrow>
          map_option (\<lambda>(r, ps').
              (res_bind r (\<lambda>b. Inr (t\<lparr>tx_data := (tx_data t)\<lparr>contractExecute_functionParameters := Some b\<rparr>\<rparr>)),
               map_option (\<lambda>_. ps') ps))
            (cf_build (Some name) (case ps of Some p \<Rightarrow> p | None \<Rightarrow> new_parameters)))"

definition contractExecute_new ::
    "'asn transfer_lib \<Rightarrow> (contract_id id_arg) option \<Rightarrow>
      long_arg option \<Rightarrow> hbar_arg option \<Rightarrow>
      (byte list) option \<Rightarrow> contractExecute base result" where
  "contractExecute_new E a1 a2 a3 a4 =
     chain [given (contractExecute_setContractId E) a1, given (contractExecute_setGas E) a2,
      given (contractExecute_setPayableAmount E) a3,
      given contractExecute_setFunctionParameters a4] (start 200000000 contractExecute_empty)"

definition contractExecute_data :: "'asn transfer_lib \<Rightarrow> contractExecute \<Rightarrow> contractExecute_body result" where
  "contractExecute_data E d =
     Inr \<lparr>contractExecute_m_contractID = map_option contract_toProtobuf (contractExecute_contractId d),
      contractExecute_m_gas = contractExecute_gas d,
      contractExecute_m_amount = make_hbar E (contractExecute_amount d),
      contractExecute_m_functionParameters = contractExecute_functionParameters d\<rparr>"

definition contractExecute_fromProtobuf ::
    "'asn transfer_lib \<Rightarrow> contractExecute_body \<Rightarrow> contractExecute base result" where
  "contractExecute_fromProtobuf E b =
     res_bind (res_opt contract_fromProtobuf (contractExecute_m_contractID b)) (\<lambda>x0.
     res_bind (read_hbar E (contractExecute_m_amount b)) (\<lambda>x1.
     contractExecute_new E (map_option IdObject x0) (map_option LongObject (contractExecute_m_gas b))
      (map_option HbarObject x1) (contractExecute_m_functionParameters b)))"

definition contractExecute_validateChecksums :: "'asn transfer_lib \<Rightarrow> byte list option \<Rightarrow> contractExecute \<Rightarrow> unit result" where
  "contractExecute_validateChecksums E ledger d =
     all_checked [
      checked (\<lambda>i. contract_validateChecksum (lb_long E) i ledger) (contractExecute_contractId d)]"

definition contractExecute_case :: string where
  "contractExecute_case = ''contractCall''"

definition contractExecute_execute :: "string \<times> string" where
  "contractExecute_execute = (''smartContract'', ''contractCallMethod'')"

definition contractExecute_good :: "contractExecute \<Rightarrow> bool" where
  "contractExecute_good d \<longleftrightarrow>
      pred_option plain_contract (contractExecute_contractId d) \<and>
      contractExecute_gas d \<noteq> None \<and> pred_option hbar_fits (contractExecute_amount d) \<and>
      contractExecute_amount d \<noteq> None \<and> contractExecute_functionParameters d \<noteq> None"

lemmas contractExecute_defs =
  contractExecute_empty_def contractExecute_setContractId_def[abs_def]
      contractExecute_setGas_def[abs_def] contractExecute_setPayableAmount_def[abs_def]
      contractExecute_setFunctionParameters_def[abs_def] contractExecute_new_def contractExecute_data_def
      contractExecute_fromProtobuf_def

lemma contractExecute_read_make:
  assumes "transfer_lib_ok E" and "contractExecute_good d"
  shows "\<exists>m. contractExecute_data E d = Inr m \<and> contractExecute_fromProtobuf E m = Inr (start 200000000 d)"
  using assms by (cases d) (simp add: contractExecute_defs contractExecute_good_def field_back)

interpretation contractExecute_rw: body_class contractExecute_data contractExecute_fromProtobuf contractExecute_good "\<lambda>_. 200000000"
  by unfold_locales (rule contractExecute_read_make)

section \<open>\<open>src/EthereumTransaction.js\<close>\<close>

text \<open>\<open>_validateChecksums\<close> looks for a file ID in the data, which are bytes, and
  so checks nothing.\<close>

record ethereum =
  ethereum_ethereumData :: "byte list option"
  ethereum_callDataFileId :: "file_id option"
  ethereum_maxGasAllowance :: "hbar option"

record ethereum_body =
  ethereum_m_ethereumData :: "byte list option"
  ethereum_m_callData :: "id_message option"
  ethereum_m_maxGasAllowance :: "long option"

definition ethereum_empty :: "ethereum" where
  "ethereum_empty = \<lparr>ethereum_ethereumData = None, ethereum_callDataFileId = None,
      ethereum_maxGasAllowance = None\<rparr>"

definition ethereum_setEthereumData ::
    "byte list \<Rightarrow> ethereum base \<Rightarrow> ethereum base result" where
  "ethereum_setEthereumData a =
     set_field (put (Inr a) (\<lambda>x d. d\<lparr>ethereum_ethereumData := x\<rparr>))"

definition ethereum_setCallDataFileId ::
    "file_id \<Rightarrow> ethereum base \<Rightarrow> ethereum base result" where
  "ethereum_setCallDataFileId a =
     set_field (put (Inr a) (\<lambda>x d. d\<lparr>ethereum_callDataFileId := x\<rparr>))"

definition ethereum_setMaxGasAllowanceHbar ::
    "'asn transfer_lib \<Rightarrow> hbar_arg \<Rightarrow> ethereum base \<Rightarrow> ethereum base result" where
  "ethereum_setMaxGasAllowanceHbar E a =
     set_field (put (hbar_of_arg E a) (\<lambda>x d. d\<lparr>ethereum_maxGasAllowance := x\<rparr>))"

definition ethereum_setCallData :: "file_id \<Rightarrow> ethereum base \<Rightarrow> ethereum base result" where
  "ethereum_setCallData a = ethereum_setCallDataFileId a"

definition ethereum_setMaxGasAllowance :: "'asn transfer_lib \<Rightarrow> hbar_arg \<Rightarrow> ethereum base \<Rightarrow> ethereum base result" where
  "ethereum_setMaxGasAllowance E a = ethereum_setMaxGasAllowanceHbar E a"

definition ethereum_new ::
    "'asn transfer_lib \<Rightarrow> (byte list) option \<Rightarrow> file_id option \<Rightarrow>
      file_id option \<Rightarrow> hbar_arg option \<Rightarrow> ethereum base result" where
  "ethereum_new E a1 a2 a3 a4 =
     chain [given ethereum_setEthereumData a1, given ethereum_setCallDataFileId a2,
      given ethereum_setCallDataFileId a3,
      given (ethereum_setMaxGasAllowanceHbar E) a4] (start 200000000 ethereum_empty)"

definition ethereum_data :: "'asn transfer_lib \<Rightarrow> ethereum \<Rightarrow> ethereum_body result" where
  "ethereum_data E d =
     Inr \<lparr>ethereum_m_ethereumData = ethereum_ethereumData d,
      ethereum_m_callData = map_option file_toProtobuf (ethereum_callDataFileId d),
      ethereum_m_maxGasAllowance = make_hbar E (ethereum_maxGasAllowance d)\<rparr>"

definition ethereum_fromProtobuf ::
    "'asn transfer_lib \<Rightarrow> ethereum_body \<Rightarrow> ethereum base result" where
  "ethereum_fromProtobuf E b =
     res_bind (res_opt (file_fromProtobuf (lb_long E)) (ethereum_m_callData b)) (\<lambda>x0.
     res_bind (read_hbar E (ethereum_m_maxGasAllowance b)) (\<lambda>x1.
     ethereum_new E (ethereum_m_ethereumData b) x0 None (map_option HbarObject x1)))"

definition ethereum_validateChecksums :: "'asn transfer_lib \<Rightarrow> byte list option \<Rightarrow> ethereum \<Rightarrow> unit result" where
  "ethereum_validateChecksums E ledger d =
     Inr ()"

definition ethereum_case :: string where
  "ethereum_case = ''ethereumTransaction''"

definition ethereum_execute :: "string \<times> string" where
  "ethereum_execute = (''smartContract'', ''callEthereum'')"

definition ethereum_good :: "ethereum \<Rightarrow> bool" where
  "ethereum_good d \<longleftrightarrow> ethereum_ethereumData d \<noteq> None \<and>
      pred_option plain_id (ethereum_callDataFileId d) \<and>
      pred_option hbar_fits (ethereum_maxGasAllowance d) \<and> ethereum_maxGasAllowance d \<noteq> None"

lemmas ethereum_defs =
  ethereum_empty_def ethereum_setEthereumData_def[abs_def] ethereum_setCallDataFileId_def[abs_def]
      ethereum_setMaxGasAllowanceHbar_def[abs_def] ethereum_new_def ethereum_data_def
      ethereum_fromProtobuf_def

lemma ethereum_read_make:
  assumes "transfer_lib_ok E" and "ethereum_good d"
  shows "\<exists>m. ethereum_data E d = Inr m \<and> ethereum_fromProtobuf E m = Inr (start 200000000 d)"
  using assms by (cases d) (simp add: ethereum_defs ethereum_good_def field_back)

interpretation ethereum_rw: body_class ethereum_data ethereum_fromProtobuf ethereum_good "\<lambda>_. 200000000"
  by unfold_locales (rule ethereum_read_make)

end
