(* ===== verification/TokenFees.thy ===== *)
theory TokenFees
  imports TxFields
begin

text \<open>
  Fees that a token charges for its transfers: \<open>src/token/CustomFee.js\<close> and its subclasses
  \<open>CustomFixedFee.js\<close>, \<open>CustomFractionalFee.js\<close> and \<open>CustomRoyaltyFee.js\<close>, with \<open>FeeAssessmentMethod.js\<close> and
  the codes of \<open>TokenType.js\<close>, \<open>TokenSupplyType.js\<close> and \<open>TokenKeyValidation.js\<close>. A subclass extends the
  record of its class.
\<close>

section \<open>Codes\<close>

definition tokenType_toString :: "nat \<Rightarrow> string" where
  "tokenType_toString c =
     (if c = 0 then ''FUNGIBLE_COMMON'' else if c = 1 then ''NON_FUNGIBLE_UNIQUE'' else ''UNKNOWN ('' @ show_nat c @ '')'')"

definition tokenType_fromCode :: "nat \<Rightarrow> nat result" where
  "tokenType_fromCode c =
     (if c < 2 then Inr c else Inl (Error (''(BUG) TokenType.fromCode() does not handle code: '' @ show_nat c)))"

definition supplyType_toString :: "nat \<Rightarrow> string" where
  "supplyType_toString c =
     (if c = 0 then ''INFINITE'' else if c = 1 then ''FINITE'' else ''UNKNOWN ('' @ show_nat c @ '')'')"

definition supplyType_fromCode :: "nat \<Rightarrow> nat result" where
  "supplyType_fromCode c =
     (if c < 2 then Inr c
      else Inl (Error (''(BUG) TokenSupplyType.fromCode() does not handle code: '' @ show_nat c)))"

definition keyValidation_toString :: "nat \<Rightarrow> string" where
  "keyValidation_toString c =
     (if c = 0 then ''FULL_VALIDATION'' else if c = 1 then ''NO_VALIDATION'' else ''UNKNOWN ('' @ show_nat c @ '')'')"

definition keyValidation_fromCode :: "nat \<Rightarrow> nat result" where
  "keyValidation_fromCode c =
     (if c < 2 then Inr c
      else Inl (Error (''(BUG) TokenKeyValidation.fromCode() does not handle code: '' @ show_nat c)))"

lemma codes_back [field_back]:
  "pred_option (\<lambda>c. c < 2) x \<Longrightarrow> res_opt tokenType_fromCode x = Inr x"
  "pred_option (\<lambda>c. c < 2) x \<Longrightarrow> res_opt supplyType_fromCode x = Inr x"
  "c < 2 \<Longrightarrow> keyValidation_fromCode c = Inr c"
  by (cases x; simp add: tokenType_fromCode_def supplyType_fromCode_def keyValidation_fromCode_def)+

text \<open>A method of assessment is one of the two constants of the class, which \<open>toString\<close> compares by
  identity, or another object with the same value.\<close>

datatype fee_method = MethodConstant bool | MethodObject bool

fun method_value :: "fee_method \<Rightarrow> bool" where
  "method_value (MethodConstant b) = b"
| "method_value (MethodObject b) = b"

fun method_toString :: "fee_method \<Rightarrow> string" where
  "method_toString (MethodConstant b) = (if b then ''EXCLUSIVE'' else ''INCLUSIVE'')"
| "method_toString (MethodObject b) = ''UNKNOWN ('' @ (if b then ''true'' else ''false'') @ '')''"

definition method_fromValue :: "bool \<Rightarrow> fee_method" where
  "method_fromValue b = MethodConstant b"

section \<open>Fees\<close>

record custom_fee =
  fee_collector :: "account_id option"
  fee_exempt :: bool

record fixed_fee = custom_fee +
  fixed_token :: "token_id option"
  fixed_amount :: "long option"

record fractional_fee = custom_fee +
  part_numerator :: "long option"
  part_denominator :: "long option"
  part_min :: "long option"
  part_max :: "long option"
  part_method :: "fee_method option"

record royalty_fee = custom_fee +
  royalty_fallback :: "fixed_fee option"
  royalty_numerator :: "long option"
  royalty_denominator :: "long option"

datatype token_fee = Fixed fixed_fee | Fractional fractional_fee | Royalty royalty_fee

definition fixed_empty :: fixed_fee where
  "fixed_empty = \<lparr>fee_collector = None, fee_exempt = False, fixed_token = None, fixed_amount = None\<rparr>"

definition fractional_empty :: fractional_fee where
  "fractional_empty = \<lparr>fee_collector = None, fee_exempt = False, part_numerator = None, part_denominator = None,
     part_min = None, part_max = None, part_method = None\<rparr>"

definition royalty_empty :: royalty_fee where
  "royalty_empty = \<lparr>fee_collector = None, fee_exempt = False, royalty_fallback = None, royalty_numerator = None,
     royalty_denominator = None\<rparr>"

text \<open>Setters, none of which looks at anything else.\<close>

definition setFeeCollectorAccountId ::
    "'asn transfer_lib \<Rightarrow> account_id id_arg \<Rightarrow> 'z custom_fee_scheme \<Rightarrow> 'z custom_fee_scheme result" where
  "setFeeCollectorAccountId E a f = res_bind (account_arg E a) (\<lambda>i. Inr (f\<lparr>fee_collector := Some i\<rparr>))"

definition setAllCollectorsAreExempt :: "bool \<Rightarrow> 'z custom_fee_scheme \<Rightarrow> 'z custom_fee_scheme result" where
  "setAllCollectorsAreExempt b f = Inr (f\<lparr>fee_exempt := b\<rparr>)"

definition fixed_setHbarAmount :: "'asn transfer_lib \<Rightarrow> hbar \<Rightarrow> fixed_fee \<Rightarrow> fixed_fee result" where
  "fixed_setHbarAmount E h f =
     Inr (f\<lparr>fixed_amount := Some (toTinybars (lb_long E) (lb_big E) h), fixed_token := None\<rparr>)"

definition fixed_hbarAmount :: "'asn transfer_lib \<Rightarrow> fixed_fee \<Rightarrow> hbar option result" where
  "fixed_hbarAmount E f =
     (if fixed_token f \<noteq> None then Inr None
      else res_bind (fromTinybars (lb_big E)
             (case fixed_amount f of Some n \<Rightarrow> AmountLong n | None \<Rightarrow> AmountNumber 0)) (\<lambda>h. Inr (Some h)))"

definition fixed_setDenominatingTokenToSameToken :: "fixed_fee \<Rightarrow> fixed_fee result" where
  "fixed_setDenominatingTokenToSameToken f =
     Inr (f\<lparr>fixed_token := Some \<lparr>sid = \<lparr>shard = 0, realm = 0, num = 0\<rparr>, sid_checksum = None\<rparr>\<rparr>)"

definition fixed_setDenominatingTokenId :: "'asn transfer_lib \<Rightarrow> token_id id_arg \<Rightarrow> fixed_fee \<Rightarrow> fixed_fee result" where
  "fixed_setDenominatingTokenId E a f = res_bind (token_arg E a) (\<lambda>i. Inr (f\<lparr>fixed_token := Some i\<rparr>))"

definition fixed_setAmount :: "'asn transfer_lib \<Rightarrow> long_arg \<Rightarrow> fixed_fee \<Rightarrow> fixed_fee result" where
  "fixed_setAmount E n f = Inr (f\<lparr>fixed_amount := Some (long_value E n)\<rparr>)"

definition fractional_setNumerator :: "'asn transfer_lib \<Rightarrow> long_arg \<Rightarrow> fractional_fee \<Rightarrow> fractional_fee result" where
  "fractional_setNumerator E n f = Inr (f\<lparr>part_numerator := Some (long_value E n)\<rparr>)"

definition fractional_setDenominator :: "'asn transfer_lib \<Rightarrow> long_arg \<Rightarrow> fractional_fee \<Rightarrow> fractional_fee result" where
  "fractional_setDenominator E n f = Inr (f\<lparr>part_denominator := Some (long_value E n)\<rparr>)"

definition fractional_setMin :: "'asn transfer_lib \<Rightarrow> long_arg \<Rightarrow> fractional_fee \<Rightarrow> fractional_fee result" where
  "fractional_setMin E n f = Inr (f\<lparr>part_min := Some (long_value E n)\<rparr>)"

definition fractional_setMax :: "'asn transfer_lib \<Rightarrow> long_arg \<Rightarrow> fractional_fee \<Rightarrow> fractional_fee result" where
  "fractional_setMax E n f = Inr (f\<lparr>part_max := Some (long_value E n)\<rparr>)"

definition fractional_setAssessmentMethod :: "fee_method \<Rightarrow> fractional_fee \<Rightarrow> fractional_fee result" where
  "fractional_setAssessmentMethod x f = Inr (f\<lparr>part_method := Some x\<rparr>)"

definition royalty_setFallbackFee :: "fixed_fee \<Rightarrow> royalty_fee \<Rightarrow> royalty_fee result" where
  "royalty_setFallbackFee x f = Inr (f\<lparr>royalty_fallback := Some x\<rparr>)"

definition royalty_setNumerator :: "'asn transfer_lib \<Rightarrow> long_arg \<Rightarrow> royalty_fee \<Rightarrow> royalty_fee result" where
  "royalty_setNumerator E n f = Inr (f\<lparr>royalty_numerator := Some (long_value E n)\<rparr>)"

definition royalty_setDenominator :: "'asn transfer_lib \<Rightarrow> long_arg \<Rightarrow> royalty_fee \<Rightarrow> royalty_fee result" where
  "royalty_setDenominator E n f = Inr (f\<lparr>royalty_denominator := Some (long_value E n)\<rparr>)"

text \<open>Constructors call the setter of each property that is given, those of the class first.\<close>

definition fixed_new ::
    "'asn transfer_lib \<Rightarrow> account_id id_arg option \<Rightarrow> bool option \<Rightarrow> token_id id_arg option \<Rightarrow> long_arg option
     \<Rightarrow> fixed_fee result" where
  "fixed_new E c x i n =
     chain [given (setFeeCollectorAccountId E) c, given setAllCollectorsAreExempt x,
       given (fixed_setDenominatingTokenId E) i, given (fixed_setAmount E) n] fixed_empty"

definition fractional_new ::
    "'asn transfer_lib \<Rightarrow> account_id id_arg option \<Rightarrow> bool option \<Rightarrow> long_arg option \<Rightarrow> long_arg option \<Rightarrow>
     long_arg option \<Rightarrow> long_arg option \<Rightarrow> fee_method option \<Rightarrow> fractional_fee result" where
  "fractional_new E c x n d lo hi k =
     chain [given (setFeeCollectorAccountId E) c, given setAllCollectorsAreExempt x,
       given (fractional_setNumerator E) n, given (fractional_setDenominator E) d, given (fractional_setMin E) lo,
       given (fractional_setMax E) hi, given fractional_setAssessmentMethod k] fractional_empty"

definition royalty_new ::
    "'asn transfer_lib \<Rightarrow> account_id id_arg option \<Rightarrow> bool option \<Rightarrow> fixed_fee option \<Rightarrow> long_arg option \<Rightarrow>
     long_arg option \<Rightarrow> royalty_fee result" where
  "royalty_new E c x b n d =
     chain [given (setFeeCollectorAccountId E) c, given setAllCollectorsAreExempt x, given royalty_setFallbackFee b,
       given (royalty_setNumerator E) n, given (royalty_setDenominator E) d] royalty_empty"

section \<open>Messages\<close>

record fixed_message =
  fx_token :: "id_message option"
  fx_amount :: "long option"

record fraction_message =
  fr_numerator :: "long option"
  fr_denominator :: "long option"

record fractional_message =
  ft_amount :: "fraction_message option"
  ft_minimum :: "long option"
  ft_maximum :: "long option"
  ft_net :: "bool option"

record royalty_message =
  ry_fraction :: "fraction_message option"
  ry_fallback :: "fixed_message option"

record fee_message =
  fm_collector :: "account_message option"
  fm_exempt :: "bool option"
  fm_fixed :: "fixed_message option"
  fm_fractional :: "fractional_message option"
  fm_royalty :: "royalty_message option"

definition fixed_part :: "fixed_fee \<Rightarrow> fixed_message" where
  "fixed_part f = \<lparr>fx_token = map_option token_toProtobuf (fixed_token f), fx_amount = fixed_amount f\<rparr>"

definition fixed_toProtobuf :: "'asn transfer_lib \<Rightarrow> fixed_fee \<Rightarrow> fee_message" where
  "fixed_toProtobuf E f =
     \<lparr>fm_collector = make_account E (fee_collector f), fm_exempt = Some (fee_exempt f),
      fm_fixed = Some (fixed_part f), fm_fractional = None, fm_royalty = None\<rparr>"

definition fractional_toProtobuf :: "'asn transfer_lib \<Rightarrow> fractional_fee \<Rightarrow> fee_message" where
  "fractional_toProtobuf E f =
     \<lparr>fm_collector = make_account E (fee_collector f), fm_exempt = Some (fee_exempt f), fm_fixed = None,
      fm_fractional = Some \<lparr>
        ft_amount = Some \<lparr>fr_numerator = part_numerator f, fr_denominator = part_denominator f\<rparr>,
        ft_minimum = part_min f, ft_maximum = part_max f,
        ft_net = Some (case part_method f of Some k \<Rightarrow> method_value k | None \<Rightarrow> False)\<rparr>,
      fm_royalty = None\<rparr>"

definition royalty_toProtobuf :: "'asn transfer_lib \<Rightarrow> royalty_fee \<Rightarrow> fee_message" where
  "royalty_toProtobuf E f =
     \<lparr>fm_collector = make_account E (fee_collector f), fm_exempt = Some (fee_exempt f), fm_fixed = None,
      fm_fractional = None,
      fm_royalty = Some \<lparr>
        ry_fraction = Some \<lparr>fr_numerator = royalty_numerator f, fr_denominator = royalty_denominator f\<rparr>,
        ry_fallback = (case royalty_fallback f of Some b \<Rightarrow> fm_fixed (fixed_toProtobuf E b) | None \<Rightarrow> None)\<rparr>\<rparr>"

fun fee_toProtobuf :: "'asn transfer_lib \<Rightarrow> token_fee \<Rightarrow> fee_message" where
  "fee_toProtobuf E (Fixed f) = fixed_toProtobuf E f"
| "fee_toProtobuf E (Fractional f) = fractional_toProtobuf E f"
| "fee_toProtobuf E (Royalty f) = royalty_toProtobuf E f"

definition no_message :: "string \<Rightarrow> 'a result" where
  "no_message s = Inl (TypeError (''Cannot read properties of null (reading '' @ [CHR 0x27] @ s @ [CHR 0x27] @ '')''))"

definition fixed_fromProtobuf :: "'asn transfer_lib \<Rightarrow> fee_message \<Rightarrow> fixed_fee result" where
  "fixed_fromProtobuf E m =
     res_bind (read_account E (fm_collector m)) (\<lambda>c.
     (case fm_fixed m of
        None \<Rightarrow> no_message ''denominatingTokenId''
      | Some p \<Rightarrow> res_bind (res_opt token_fromProtobuf (fx_token p)) (\<lambda>i.
          fixed_new E (map_option IdObject c) (fm_exempt m) (map_option IdObject i) (map_option LongObject (fx_amount p)))))"

definition fractional_fromProtobuf :: "'asn transfer_lib \<Rightarrow> fee_message \<Rightarrow> fractional_fee result" where
  "fractional_fromProtobuf E m =
     (case fm_fractional m of
        None \<Rightarrow> no_message ''fractionalAmount''
      | Some p \<Rightarrow> res_bind (read_account E (fm_collector m)) (\<lambda>c.
     (case ft_amount p of
        None \<Rightarrow> no_message ''numerator''
      | Some r \<Rightarrow> fractional_new E (map_option IdObject c) (fm_exempt m) (map_option LongObject (fr_numerator r))
          (map_option LongObject (fr_denominator r)) (map_option LongObject (ft_minimum p))
          (map_option LongObject (ft_maximum p)) (map_option MethodObject (ft_net p)))))"

definition royalty_fromProtobuf :: "'asn transfer_lib \<Rightarrow> fee_message \<Rightarrow> royalty_fee result" where
  "royalty_fromProtobuf E m =
     (case fm_royalty m of
        None \<Rightarrow> no_message ''exchangeValueFraction''
      | Some p \<Rightarrow> res_bind (read_account E (fm_collector m)) (\<lambda>c.
          res_bind (res_opt (\<lambda>x. fixed_fromProtobuf E
              \<lparr>fm_collector = None, fm_exempt = None, fm_fixed = Some x, fm_fractional = None, fm_royalty = None\<rparr>)
            (ry_fallback p)) (\<lambda>b.
     (case ry_fraction p of
        None \<Rightarrow> no_message ''numerator''
      | Some r \<Rightarrow> royalty_new E (map_option IdObject c) (fm_exempt m) b (map_option LongObject (fr_numerator r))
          (map_option LongObject (fr_denominator r))))))"

definition fee_fromProtobuf :: "'asn transfer_lib \<Rightarrow> fee_message \<Rightarrow> token_fee result" where
  "fee_fromProtobuf E m =
     (if fm_fixed m \<noteq> None then res_bind (fixed_fromProtobuf E m) (\<lambda>f. Inr (Fixed f))
      else if fm_fractional m \<noteq> None then res_bind (fractional_fromProtobuf E m) (\<lambda>f. Inr (Fractional f))
      else res_bind (royalty_fromProtobuf E m) (\<lambda>f. Inr (Royalty f)))"

section \<open>Reading back\<close>

definition fixed_ok :: "fixed_fee \<Rightarrow> bool" where
  "fixed_ok f \<longleftrightarrow> pred_option account_ok (fee_collector f) \<and> pred_option plain_id (fixed_token f)"

fun fee_ok :: "token_fee \<Rightarrow> bool" where
  "fee_ok (Fixed f) \<longleftrightarrow> fixed_ok f"
| "fee_ok (Fractional f) \<longleftrightarrow> pred_option account_ok (fee_collector f)"
| "fee_ok (Royalty f) \<longleftrightarrow> pred_option account_ok (fee_collector f) \<and>
     pred_option (\<lambda>b. pred_option plain_id (fixed_token b)) (royalty_fallback f)"

text \<open>What reading makes of a fee: the method becomes a new object, and the fallback of a royalty loses its
  collector and its flag.\<close>

fun fee_reread :: "token_fee \<Rightarrow> token_fee" where
  "fee_reread (Fixed f) = Fixed f"
| "fee_reread (Fractional f) = Fractional (f\<lparr>part_method :=
     Some (MethodObject (case part_method f of Some k \<Rightarrow> method_value k | None \<Rightarrow> False))\<rparr>)"
| "fee_reread (Royalty f) = Royalty (f\<lparr>royalty_fallback :=
     map_option (\<lambda>b. b\<lparr>fee_collector := None, fee_exempt := False\<rparr>) (royalty_fallback f)\<rparr>)"

lemmas fee_sets = setFeeCollectorAccountId_def setAllCollectorsAreExempt_def fixed_setDenominatingTokenId_def
  fixed_setAmount_def fractional_setNumerator_def fractional_setDenominator_def fractional_setMin_def
  fractional_setMax_def fractional_setAssessmentMethod_def royalty_setFallbackFee_def royalty_setNumerator_def
  royalty_setDenominator_def

lemma given_field:
  assumes "upd None f = f" and "\<And>i. x = Some i \<Longrightarrow> g (h i) f = Inr (upd (Some i) f)"
  shows "given g (map_option h x) f = Inr (upd x f)"
  using assms by (cases x) simp_all

lemma given_amount:
  assumes "upd None f = f" and "\<And>n. g (LongObject n) f = Inr (upd (Some n) f)"
  shows "given g (map_option LongObject x) f = Inr (upd x f)"
  using assms by (intro given_field) auto

lemma fixed_new_objects:
  "fixed_new E (map_option IdObject c) (Some x) (map_option IdObject i) (map_option LongObject n) =
     Inr \<lparr>fee_collector = c, fee_exempt = x, fixed_token = i, fixed_amount = n\<rparr>"
  "fixed_new E None None (map_option IdObject i) (map_option LongObject n) =
     Inr \<lparr>fee_collector = None, fee_exempt = False, fixed_token = i, fixed_amount = n\<rparr>"
  by (cases c; cases i; cases n; simp add: fixed_new_def fixed_empty_def fee_sets field_back)+

lemma fractional_new_objects:
  "fractional_new E (map_option IdObject c) (Some x) (map_option LongObject n) (map_option LongObject d)
     (map_option LongObject lo) (map_option LongObject hi) (Some k) =
     Inr \<lparr>fee_collector = c, fee_exempt = x, part_numerator = n, part_denominator = d, part_min = lo,
       part_max = hi, part_method = Some k\<rparr>"
  by (cases c; cases n; cases d; cases lo; cases hi)
    (simp_all add: fractional_new_def fractional_empty_def fee_sets field_back)

lemma royalty_new_objects:
  "royalty_new E (map_option IdObject c) (Some x) b (map_option LongObject n) (map_option LongObject d) =
     Inr \<lparr>fee_collector = c, fee_exempt = x, royalty_fallback = b, royalty_numerator = n, royalty_denominator = d\<rparr>"
  by (cases c; cases b; cases n; cases d) (simp_all add: royalty_new_def royalty_empty_def fee_sets field_back)

lemma fallback_back:
  assumes "transfer_lib_ok E" and "pred_option (\<lambda>b. pred_option plain_id (fixed_token b)) x"
  shows "res_opt (\<lambda>y. fixed_fromProtobuf E
      \<lparr>fm_collector = None, fm_exempt = None, fm_fixed = Some y, fm_fractional = None, fm_royalty = None\<rparr>)
      (case x of Some b \<Rightarrow> fm_fixed (fixed_toProtobuf E b) | None \<Rightarrow> None) =
    Inr (map_option (\<lambda>b. b\<lparr>fee_collector := None, fee_exempt := False\<rparr>) x)"
proof (cases x)
  case (Some b)
  then have "res_opt token_fromProtobuf (map_option token_toProtobuf (fixed_token b)) = Inr (fixed_token b)"
    using assms by (simp add: field_reads(3))
  then show ?thesis
    using Some fixed_new_objects(2)[of E "fixed_token b" "fixed_amount b"]
    by (simp add: fixed_toProtobuf_def fixed_part_def fixed_fromProtobuf_def read_account_def)
qed simp

text \<open>A fee with good identifiers is read back, up to what reading makes of it.\<close>

lemma fee_back:
  assumes "transfer_lib_ok E" and "fee_ok f"
  shows "fee_fromProtobuf E (fee_toProtobuf E f) = Inr (fee_reread f)"
proof (cases f)
  case (Fixed g)
  then show ?thesis
    using assms field_reads(1,3)[OF assms(1)]
    by (simp add: fee_fromProtobuf_def fixed_toProtobuf_def fixed_part_def fixed_fromProtobuf_def fixed_ok_def
        fixed_new_objects)
next
  case (Fractional g)
  then show ?thesis
    using assms field_reads(1)[OF assms(1)]
    by (cases g) (simp add: fee_fromProtobuf_def fractional_toProtobuf_def fractional_fromProtobuf_def
        fractional_new_objects)
next
  case (Royalty g)
  then show ?thesis
    using assms field_reads(1)[OF assms(1)] fallback_back[OF assms(1), of "royalty_fallback g"]
    by (cases g) (simp add: fee_fromProtobuf_def royalty_toProtobuf_def royalty_fromProtobuf_def royalty_new_objects)
qed

text \<open>A method that was read is neither constant, so its text is not the one of the constant with its value.\<close>

lemma reread_method_unknown: "method_toString (MethodObject b) \<noteq> method_toString (method_fromValue b)"
  by (simp add: method_fromValue_def)

definition fees_ok :: "token_fee list \<Rightarrow> bool" where
  "fees_ok fs \<longleftrightarrow> list_all (\<lambda>f. fee_ok f \<and> fee_reread f = f) fs"

lemma fees_back [field_back]:
  assumes "transfer_lib_ok E" and "fees_ok fs"
  shows "res_map (fee_fromProtobuf E) (map (fee_toProtobuf E) fs) = Inr fs"
  using assms by (intro res_map_back) (auto simp: fee_back fees_ok_def list_all_iff)

end
