(* ===== verification/TokenSetup.thy ===== *)
theory TokenSetup
  imports TokenFees
begin

text \<open>
  Transactions that define a token: creating it, updating it and changing its fees (src/token).
\<close>

definition token_expiry :: "int \<Rightarrow> timestamp" where
  "token_expiry now = \<lparr>seconds = word_of_int (now div 1000 + 7776000), nanos = 0\<rparr>"

section \<open>\<open>src/token/TokenCreateTransaction.js\<close>\<close>

text \<open>The expiration is three months after the clock \<open>now\<close>, in milliseconds. The
  setters of the fees, the two types and the maximum supply do not look whether the transaction is
  frozen.\<close>

record tokenCreate =
  tokenCreate_tokenName :: "string option"
  tokenCreate_tokenSymbol :: "string option"
  tokenCreate_decimals :: "long option"
  tokenCreate_initialSupply :: "long option"
  tokenCreate_treasuryAccountId :: "account_id option"
  tokenCreate_adminKey :: "key_tree option"
  tokenCreate_kycKey :: "key_tree option"
  tokenCreate_freezeKey :: "key_tree option"
  tokenCreate_pauseKey :: "key_tree option"
  tokenCreate_wipeKey :: "key_tree option"
  tokenCreate_supplyKey :: "key_tree option"
  tokenCreate_feeScheduleKey :: "key_tree option"
  tokenCreate_freezeDefault :: "bool option"
  tokenCreate_autoRenewAccountId :: "account_id option"
  tokenCreate_expirationTime :: "timestamp"
  tokenCreate_autoRenewPeriod :: "long"
  tokenCreate_tokenMemo :: "string option"
  tokenCreate_customFees :: "token_fee list"
  tokenCreate_tokenType :: "nat option"
  tokenCreate_supplyType :: "nat option"
  tokenCreate_maxSupply :: "long option"
  tokenCreate_metadataKey :: "key_tree option"
  tokenCreate_metadata :: "byte list option"

record tokenCreate_body =
  tokenCreate_m_name :: "string option"
  tokenCreate_m_symbol :: "string option"
  tokenCreate_m_decimals :: "int option"
  tokenCreate_m_initialSupply :: "long option"
  tokenCreate_m_treasury :: "account_message option"
  tokenCreate_m_adminKey :: "key_message option"
  tokenCreate_m_kycKey :: "key_message option"
  tokenCreate_m_freezeKey :: "key_message option"
  tokenCreate_m_pauseKey :: "key_message option"
  tokenCreate_m_wipeKey :: "key_message option"
  tokenCreate_m_supplyKey :: "key_message option"
  tokenCreate_m_feeScheduleKey :: "key_message option"
  tokenCreate_m_freezeDefault :: "bool option"
  tokenCreate_m_autoRenewAccount :: "account_message option"
  tokenCreate_m_expiry :: "ts_message option"
  tokenCreate_m_autoRenewPeriod :: "long option option"
  tokenCreate_m_memo :: "string option"
  tokenCreate_m_customFees :: "fee_message list option"
  tokenCreate_m_tokenType :: "nat option"
  tokenCreate_m_supplyType :: "nat option"
  tokenCreate_m_maxSupply :: "long option"
  tokenCreate_m_metadataKey :: "key_message option"
  tokenCreate_m_metadata :: "byte list option"

definition tokenCreate_empty :: "int \<Rightarrow> tokenCreate" where
  "tokenCreate_empty now = \<lparr>tokenCreate_tokenName = None, tokenCreate_tokenSymbol = None,
      tokenCreate_decimals = None, tokenCreate_initialSupply = None,
      tokenCreate_treasuryAccountId = None, tokenCreate_adminKey = None, tokenCreate_kycKey = None,
      tokenCreate_freezeKey = None, tokenCreate_pauseKey = None, tokenCreate_wipeKey = None,
      tokenCreate_supplyKey = None, tokenCreate_feeScheduleKey = None, tokenCreate_freezeDefault = None,
      tokenCreate_autoRenewAccountId = None, tokenCreate_expirationTime = token_expiry now,
      tokenCreate_autoRenewPeriod = 7776000, tokenCreate_tokenMemo = None, tokenCreate_customFees = [],
      tokenCreate_tokenType = None, tokenCreate_supplyType = None, tokenCreate_maxSupply = None,
      tokenCreate_metadataKey = None, tokenCreate_metadata = None\<rparr>"

definition tokenCreate_setTokenName ::
    "string \<Rightarrow> tokenCreate base \<Rightarrow> tokenCreate base result" where
  "tokenCreate_setTokenName a =
     set_field (put (Inr a) (\<lambda>x d. d\<lparr>tokenCreate_tokenName := x\<rparr>))"

definition tokenCreate_setTokenSymbol ::
    "string \<Rightarrow> tokenCreate base \<Rightarrow> tokenCreate base result" where
  "tokenCreate_setTokenSymbol a =
     set_field (put (Inr a) (\<lambda>x d. d\<lparr>tokenCreate_tokenSymbol := x\<rparr>))"

definition tokenCreate_setDecimals ::
    "'asn transfer_lib \<Rightarrow> long_arg \<Rightarrow> tokenCreate base \<Rightarrow> tokenCreate base result" where
  "tokenCreate_setDecimals E a =
     set_field (put (Inr (long_value E a)) (\<lambda>x d. d\<lparr>tokenCreate_decimals := x\<rparr>))"

definition tokenCreate_setInitialSupply ::
    "'asn transfer_lib \<Rightarrow> long_arg \<Rightarrow> tokenCreate base \<Rightarrow> tokenCreate base result" where
  "tokenCreate_setInitialSupply E a =
     set_field (put (Inr (long_value E a)) (\<lambda>x d. d\<lparr>tokenCreate_initialSupply := x\<rparr>))"

definition tokenCreate_setTreasuryAccountId ::
    "'asn transfer_lib \<Rightarrow> account_id id_arg \<Rightarrow> tokenCreate base \<Rightarrow> tokenCreate base result" where
  "tokenCreate_setTreasuryAccountId E a =
     set_field (put (account_copy E a) (\<lambda>x d. d\<lparr>tokenCreate_treasuryAccountId := x\<rparr>))"

definition tokenCreate_setAdminKey ::
    "key_tree \<Rightarrow> tokenCreate base \<Rightarrow> tokenCreate base result" where
  "tokenCreate_setAdminKey a =
     set_field (put (Inr a) (\<lambda>x d. d\<lparr>tokenCreate_adminKey := x\<rparr>))"

definition tokenCreate_setKycKey ::
    "key_tree \<Rightarrow> tokenCreate base \<Rightarrow> tokenCreate base result" where
  "tokenCreate_setKycKey a =
     set_field (put (Inr a) (\<lambda>x d. d\<lparr>tokenCreate_kycKey := x\<rparr>))"

definition tokenCreate_setFreezeKey ::
    "key_tree \<Rightarrow> tokenCreate base \<Rightarrow> tokenCreate base result" where
  "tokenCreate_setFreezeKey a =
     set_field (put (Inr a) (\<lambda>x d. d\<lparr>tokenCreate_freezeKey := x\<rparr>))"

definition tokenCreate_setPauseKey ::
    "key_tree \<Rightarrow> tokenCreate base \<Rightarrow> tokenCreate base result" where
  "tokenCreate_setPauseKey a =
     set_field (put (Inr a) (\<lambda>x d. d\<lparr>tokenCreate_pauseKey := x\<rparr>))"

definition tokenCreate_setWipeKey ::
    "key_tree \<Rightarrow> tokenCreate base \<Rightarrow> tokenCreate base result" where
  "tokenCreate_setWipeKey a =
     set_field (put (Inr a) (\<lambda>x d. d\<lparr>tokenCreate_wipeKey := x\<rparr>))"

definition tokenCreate_setSupplyKey ::
    "key_tree \<Rightarrow> tokenCreate base \<Rightarrow> tokenCreate base result" where
  "tokenCreate_setSupplyKey a =
     set_field (put (Inr a) (\<lambda>x d. d\<lparr>tokenCreate_supplyKey := x\<rparr>))"

definition tokenCreate_setFeeScheduleKey ::
    "key_tree \<Rightarrow> tokenCreate base \<Rightarrow> tokenCreate base result" where
  "tokenCreate_setFeeScheduleKey a =
     set_field (put (Inr a) (\<lambda>x d. d\<lparr>tokenCreate_feeScheduleKey := x\<rparr>))"

definition tokenCreate_setFreezeDefault ::
    "bool \<Rightarrow> tokenCreate base \<Rightarrow> tokenCreate base result" where
  "tokenCreate_setFreezeDefault a =
     set_field (put (Inr a) (\<lambda>x d. d\<lparr>tokenCreate_freezeDefault := x\<rparr>))"

definition tokenCreate_setAutoRenewAccountId ::
    "'asn transfer_lib \<Rightarrow> account_id id_arg \<Rightarrow> tokenCreate base \<Rightarrow> tokenCreate base result" where
  "tokenCreate_setAutoRenewAccountId E a =
     set_field (put (account_arg E a) (\<lambda>x d. d\<lparr>tokenCreate_autoRenewAccountId := x\<rparr>))"

definition tokenCreate_setExpirationTime ::
    "'asn transfer_lib \<Rightarrow> (string \<Rightarrow> int option) \<Rightarrow> time_arg \<Rightarrow> tokenCreate base \<Rightarrow> tokenCreate base result" where
  "tokenCreate_setExpirationTime E parse a =
     set_field (store (time_value E parse a) (\<lambda>x d. d\<lparr>tokenCreate_expirationTime := x\<rparr>))"

definition tokenCreate_setAutoRenewPeriod ::
    "'asn transfer_lib \<Rightarrow> duration_arg \<Rightarrow> tokenCreate base \<Rightarrow> tokenCreate base result" where
  "tokenCreate_setAutoRenewPeriod E a =
     set_field (store (Inr (duration_value E a)) (\<lambda>x d. d\<lparr>tokenCreate_autoRenewPeriod := x\<rparr>))"

definition tokenCreate_setTokenMemo ::
    "string \<Rightarrow> tokenCreate base \<Rightarrow> tokenCreate base result" where
  "tokenCreate_setTokenMemo a =
     set_field (put (Inr a) (\<lambda>x d. d\<lparr>tokenCreate_tokenMemo := x\<rparr>))"

definition tokenCreate_setCustomFees ::
    "token_fee list \<Rightarrow> tokenCreate base \<Rightarrow> tokenCreate base result" where
  "tokenCreate_setCustomFees a =
     set_unguarded (store (Inr a) (\<lambda>x d. d\<lparr>tokenCreate_customFees := x\<rparr>))"

definition tokenCreate_setTokenType ::
    "nat \<Rightarrow> tokenCreate base \<Rightarrow> tokenCreate base result" where
  "tokenCreate_setTokenType a =
     set_unguarded (put (Inr a) (\<lambda>x d. d\<lparr>tokenCreate_tokenType := x\<rparr>))"

definition tokenCreate_setSupplyType ::
    "nat \<Rightarrow> tokenCreate base \<Rightarrow> tokenCreate base result" where
  "tokenCreate_setSupplyType a =
     set_unguarded (put (Inr a) (\<lambda>x d. d\<lparr>tokenCreate_supplyType := x\<rparr>))"

definition tokenCreate_setMaxSupply ::
    "'asn transfer_lib \<Rightarrow> long_arg \<Rightarrow> tokenCreate base \<Rightarrow> tokenCreate base result" where
  "tokenCreate_setMaxSupply E a =
     set_unguarded (put (Inr (long_value E a)) (\<lambda>x d. d\<lparr>tokenCreate_maxSupply := x\<rparr>))"

definition tokenCreate_setMetadataKey ::
    "key_tree \<Rightarrow> tokenCreate base \<Rightarrow> tokenCreate base result" where
  "tokenCreate_setMetadataKey a =
     set_field (put (Inr a) (\<lambda>x d. d\<lparr>tokenCreate_metadataKey := x\<rparr>))"

definition tokenCreate_setMetadata ::
    "byte list \<Rightarrow> tokenCreate base \<Rightarrow> tokenCreate base result" where
  "tokenCreate_setMetadata a =
     set_field (put (Inr a) (\<lambda>x d. d\<lparr>tokenCreate_metadata := x\<rparr>))"

definition tokenCreate_new ::
    "'asn transfer_lib \<Rightarrow> (string \<Rightarrow> int option) \<Rightarrow> int \<Rightarrow>
      string option \<Rightarrow> string option \<Rightarrow> long_arg option \<Rightarrow>
      long_arg option \<Rightarrow> (account_id id_arg) option \<Rightarrow>
      key_tree option \<Rightarrow> key_tree option \<Rightarrow> key_tree option \<Rightarrow>
      key_tree option \<Rightarrow> key_tree option \<Rightarrow> key_tree option \<Rightarrow>
      key_tree option \<Rightarrow> bool option \<Rightarrow> (account_id id_arg) option \<Rightarrow>
      time_arg option \<Rightarrow> duration_arg option \<Rightarrow> string option \<Rightarrow>
      (token_fee list) option \<Rightarrow> nat option \<Rightarrow> nat option \<Rightarrow>
      long_arg option \<Rightarrow> key_tree option \<Rightarrow>
      (byte list) option \<Rightarrow> tokenCreate base result" where
  "tokenCreate_new E parse now a1 a2 a3 a4 a5 a6 a7 a8 a9 a10 a11 a12 a13 a14 a15 a16 a17 a18 a19 a20 a21 a22 a23 =
     chain [given tokenCreate_setTokenName a1, given tokenCreate_setTokenSymbol a2,
      given (tokenCreate_setDecimals E) a3, given (tokenCreate_setInitialSupply E) a4,
      given (tokenCreate_setTreasuryAccountId E) a5, given tokenCreate_setAdminKey a6,
      given tokenCreate_setKycKey a7, given tokenCreate_setFreezeKey a8,
      given tokenCreate_setPauseKey a9, given tokenCreate_setWipeKey a10,
      given tokenCreate_setSupplyKey a11, given tokenCreate_setFeeScheduleKey a12,
      given tokenCreate_setFreezeDefault a13, given (tokenCreate_setAutoRenewAccountId E) a14,
      given (tokenCreate_setExpirationTime E parse) a15, given (tokenCreate_setAutoRenewPeriod E) a16,
      given tokenCreate_setTokenMemo a17, given tokenCreate_setCustomFees a18,
      given tokenCreate_setTokenType a19, given tokenCreate_setSupplyType a20,
      given (tokenCreate_setMaxSupply E) a21, given tokenCreate_setMetadataKey a22,
      given tokenCreate_setMetadata a23] (start 3000000000 (tokenCreate_empty now))"

definition tokenCreate_data :: "'asn transfer_lib \<Rightarrow> tokenCreate \<Rightarrow> tokenCreate_body result" where
  "tokenCreate_data E d =
     res_bind (res_opt tree_message (tokenCreate_adminKey d)) (\<lambda>k0.
     res_bind (res_opt tree_message (tokenCreate_kycKey d)) (\<lambda>k1.
     res_bind (res_opt tree_message (tokenCreate_freezeKey d)) (\<lambda>k2.
     res_bind (res_opt tree_message (tokenCreate_pauseKey d)) (\<lambda>k3.
     res_bind (res_opt tree_message (tokenCreate_wipeKey d)) (\<lambda>k4.
     res_bind (res_opt tree_message (tokenCreate_supplyKey d)) (\<lambda>k5.
     res_bind (res_opt tree_message (tokenCreate_feeScheduleKey d)) (\<lambda>k6.
     res_bind (res_opt tree_message (tokenCreate_metadataKey d)) (\<lambda>k7.
     Inr \<lparr>tokenCreate_m_name = tokenCreate_tokenName d, tokenCreate_m_symbol = tokenCreate_tokenSymbol d,
      tokenCreate_m_decimals = map_option toInt (tokenCreate_decimals d),
      tokenCreate_m_initialSupply = tokenCreate_initialSupply d,
      tokenCreate_m_treasury = make_account E (tokenCreate_treasuryAccountId d),
      tokenCreate_m_adminKey = k0, tokenCreate_m_kycKey = k1, tokenCreate_m_freezeKey = k2,
      tokenCreate_m_pauseKey = k3, tokenCreate_m_wipeKey = k4, tokenCreate_m_supplyKey = k5,
      tokenCreate_m_feeScheduleKey = k6, tokenCreate_m_freezeDefault = tokenCreate_freezeDefault d,
      tokenCreate_m_autoRenewAccount = make_account E (tokenCreate_autoRenewAccountId d),
      tokenCreate_m_expiry = Some (ts_toProtobuf (tokenCreate_expirationTime d)),
      tokenCreate_m_autoRenewPeriod = Some (Some (tokenCreate_autoRenewPeriod d)),
      tokenCreate_m_memo = tokenCreate_tokenMemo d,
      tokenCreate_m_customFees = Some (map (fee_toProtobuf E) (tokenCreate_customFees d)),
      tokenCreate_m_tokenType = tokenCreate_tokenType d,
      tokenCreate_m_supplyType = tokenCreate_supplyType d,
      tokenCreate_m_maxSupply = tokenCreate_maxSupply d, tokenCreate_m_metadataKey = k7,
      tokenCreate_m_metadata = tokenCreate_metadata d\<rparr>))))))))"

definition tokenCreate_fromProtobuf ::
    "'asn transfer_lib \<Rightarrow> (string \<Rightarrow> int option) \<Rightarrow> int \<Rightarrow> tokenCreate_body \<Rightarrow> tokenCreate base result" where
  "tokenCreate_fromProtobuf E parse now b =
     res_bind (read_account E (tokenCreate_m_treasury b)) (\<lambda>x0.
     res_bind (read_key E (tokenCreate_m_adminKey b)) (\<lambda>x1.
     res_bind (read_key E (tokenCreate_m_kycKey b)) (\<lambda>x2.
     res_bind (read_key E (tokenCreate_m_freezeKey b)) (\<lambda>x3.
     res_bind (read_key E (tokenCreate_m_pauseKey b)) (\<lambda>x4.
     res_bind (read_key E (tokenCreate_m_wipeKey b)) (\<lambda>x5.
     res_bind (read_key E (tokenCreate_m_supplyKey b)) (\<lambda>x6.
     res_bind (read_key E (tokenCreate_m_feeScheduleKey b)) (\<lambda>x7.
     res_bind (read_account E (tokenCreate_m_autoRenewAccount b)) (\<lambda>x8.
     res_bind (res_opt (res_map (fee_fromProtobuf E)) (tokenCreate_m_customFees b)) (\<lambda>x9.
     res_bind (res_opt tokenType_fromCode (tokenCreate_m_tokenType b)) (\<lambda>x10.
     res_bind (res_opt supplyType_fromCode (tokenCreate_m_supplyType b)) (\<lambda>x11.
     res_bind (read_key E (tokenCreate_m_metadataKey b)) (\<lambda>x12.
     tokenCreate_new E parse now (tokenCreate_m_name b) (tokenCreate_m_symbol b)
      (map_option LongNumber (tokenCreate_m_decimals b))
      (map_option LongObject (tokenCreate_m_initialSupply b)) (map_option IdObject x0) x1 x2 x3 x4 x5 x6
      x7 (tokenCreate_m_freezeDefault b) (map_option IdObject x8)
      (map_option TimeObject (map_option (ts_fromProtobuf (lb_long E)) (tokenCreate_m_expiry b)))
      (map_option DurationObject (map_option duration_fromProtobuf (tokenCreate_m_autoRenewPeriod b)))
      (tokenCreate_m_memo b) x9 x10 x11 (map_option LongObject (tokenCreate_m_maxSupply b)) x12
      (tokenCreate_m_metadata b))))))))))))))"

definition tokenCreate_validateChecksums :: "'asn transfer_lib \<Rightarrow> byte list option \<Rightarrow> tokenCreate \<Rightarrow> unit result" where
  "tokenCreate_validateChecksums E ledger d =
     all_checked [
      checked (\<lambda>i. account_validateChecksum (lb_long E) i ledger) (tokenCreate_treasuryAccountId d),
      checked (\<lambda>i. account_validateChecksum (lb_long E) i ledger) (tokenCreate_autoRenewAccountId d)]"

definition tokenCreate_case :: string where
  "tokenCreate_case = ''tokenCreation''"

definition tokenCreate_execute :: "string \<times> string" where
  "tokenCreate_execute = (''token'', ''createToken'')"

definition tokenCreate_good :: "tokenCreate \<Rightarrow> bool" where
  "tokenCreate_good d \<longleftrightarrow> tokenCreate_tokenName d \<noteq> None \<and>
      tokenCreate_tokenSymbol d \<noteq> None \<and>
      pred_option small_long (tokenCreate_decimals d) \<and> tokenCreate_decimals d \<noteq> None \<and>
      tokenCreate_initialSupply d \<noteq> None \<and>
      pred_option account_ok (tokenCreate_treasuryAccountId d) \<and>
      pred_option tree_ok (tokenCreate_adminKey d) \<and>
      pred_option tree_ok (tokenCreate_kycKey d) \<and>
      pred_option tree_ok (tokenCreate_freezeKey d) \<and>
      pred_option tree_ok (tokenCreate_pauseKey d) \<and>
      pred_option tree_ok (tokenCreate_wipeKey d) \<and>
      pred_option tree_ok (tokenCreate_supplyKey d) \<and>
      pred_option tree_ok (tokenCreate_feeScheduleKey d) \<and>
      tokenCreate_freezeDefault d \<noteq> None \<and>
      pred_option account_ok (tokenCreate_autoRenewAccountId d) \<and>
      time_fits (tokenCreate_expirationTime d) \<and> tokenCreate_tokenMemo d \<noteq> None \<and>
      fees_ok (tokenCreate_customFees d) \<and>
      pred_option (\<lambda>c. c < 2) (tokenCreate_tokenType d) \<and>
      tokenCreate_tokenType d \<noteq> None \<and>
      pred_option (\<lambda>c. c < 2) (tokenCreate_supplyType d) \<and>
      tokenCreate_supplyType d \<noteq> None \<and> tokenCreate_maxSupply d \<noteq> None \<and>
      pred_option tree_ok (tokenCreate_metadataKey d) \<and> tokenCreate_metadata d \<noteq> None"

lemmas tokenCreate_defs =
  tokenCreate_empty_def tokenCreate_setTokenName_def[abs_def] tokenCreate_setTokenSymbol_def[abs_def]
      tokenCreate_setDecimals_def[abs_def] tokenCreate_setInitialSupply_def[abs_def]
      tokenCreate_setTreasuryAccountId_def[abs_def] tokenCreate_setAdminKey_def[abs_def]
      tokenCreate_setKycKey_def[abs_def] tokenCreate_setFreezeKey_def[abs_def]
      tokenCreate_setPauseKey_def[abs_def] tokenCreate_setWipeKey_def[abs_def]
      tokenCreate_setSupplyKey_def[abs_def] tokenCreate_setFeeScheduleKey_def[abs_def]
      tokenCreate_setFreezeDefault_def[abs_def] tokenCreate_setAutoRenewAccountId_def[abs_def]
      tokenCreate_setExpirationTime_def[abs_def] tokenCreate_setAutoRenewPeriod_def[abs_def]
      tokenCreate_setTokenMemo_def[abs_def] tokenCreate_setCustomFees_def[abs_def]
      tokenCreate_setTokenType_def[abs_def] tokenCreate_setSupplyType_def[abs_def]
      tokenCreate_setMaxSupply_def[abs_def] tokenCreate_setMetadataKey_def[abs_def]
      tokenCreate_setMetadata_def[abs_def] tokenCreate_new_def tokenCreate_data_def
      tokenCreate_fromProtobuf_def

lemma tokenCreate_read_make:
  assumes "transfer_lib_ok E" and "tokenCreate_good d"
  shows "\<exists>m. tokenCreate_data E d = Inr m \<and> tokenCreate_fromProtobuf E parse now m = Inr (start 3000000000 d)"
proof -
  have g0: "pred_option tree_ok (tokenCreate_adminKey d)" using assms(2) by (simp add: tokenCreate_good_def)
  obtain k0 where k0: "res_opt tree_message (tokenCreate_adminKey d) = Inr k0" "read_key E k0 = Inr (tokenCreate_adminKey d)"
    using key_reads[OF g0] .
  have g1: "pred_option tree_ok (tokenCreate_kycKey d)" using assms(2) by (simp add: tokenCreate_good_def)
  obtain k1 where k1: "res_opt tree_message (tokenCreate_kycKey d) = Inr k1" "read_key E k1 = Inr (tokenCreate_kycKey d)"
    using key_reads[OF g1] .
  have g2: "pred_option tree_ok (tokenCreate_freezeKey d)" using assms(2) by (simp add: tokenCreate_good_def)
  obtain k2 where k2: "res_opt tree_message (tokenCreate_freezeKey d) = Inr k2" "read_key E k2 = Inr (tokenCreate_freezeKey d)"
    using key_reads[OF g2] .
  have g3: "pred_option tree_ok (tokenCreate_pauseKey d)" using assms(2) by (simp add: tokenCreate_good_def)
  obtain k3 where k3: "res_opt tree_message (tokenCreate_pauseKey d) = Inr k3" "read_key E k3 = Inr (tokenCreate_pauseKey d)"
    using key_reads[OF g3] .
  have g4: "pred_option tree_ok (tokenCreate_wipeKey d)" using assms(2) by (simp add: tokenCreate_good_def)
  obtain k4 where k4: "res_opt tree_message (tokenCreate_wipeKey d) = Inr k4" "read_key E k4 = Inr (tokenCreate_wipeKey d)"
    using key_reads[OF g4] .
  have g5: "pred_option tree_ok (tokenCreate_supplyKey d)" using assms(2) by (simp add: tokenCreate_good_def)
  obtain k5 where k5: "res_opt tree_message (tokenCreate_supplyKey d) = Inr k5" "read_key E k5 = Inr (tokenCreate_supplyKey d)"
    using key_reads[OF g5] .
  have g6: "pred_option tree_ok (tokenCreate_feeScheduleKey d)" using assms(2) by (simp add: tokenCreate_good_def)
  obtain k6 where k6: "res_opt tree_message (tokenCreate_feeScheduleKey d) = Inr k6" "read_key E k6 = Inr (tokenCreate_feeScheduleKey d)"
    using key_reads[OF g6] .
  have g7: "pred_option tree_ok (tokenCreate_metadataKey d)" using assms(2) by (simp add: tokenCreate_good_def)
  obtain k7 where k7: "res_opt tree_message (tokenCreate_metadataKey d) = Inr k7" "read_key E k7 = Inr (tokenCreate_metadataKey d)"
    using key_reads[OF g7] .
  show ?thesis using assms k0 k1 k2 k3 k4 k5 k6 k7 by (cases d) (simp add: tokenCreate_defs tokenCreate_good_def field_back)
qed

interpretation tokenCreate_rw: body_class tokenCreate_data "\<lambda>E. tokenCreate_fromProtobuf E parse now" tokenCreate_good "\<lambda>_. 3000000000" for parse now
  by unfold_locales (rule tokenCreate_read_make)

section \<open>\<open>src/token/TokenUpdateTransaction.js\<close>\<close>

text \<open>A name or a symbol is read only when the message has it as its own. There is a second
  name, \<open>setsupplyKey\<close>, for the setter of the supply key.\<close>

record tokenUpdate =
  tokenUpdate_tokenId :: "token_id option"
  tokenUpdate_tokenName :: "string option"
  tokenUpdate_tokenSymbol :: "string option"
  tokenUpdate_treasuryAccountId :: "account_id option"
  tokenUpdate_adminKey :: "key_tree option"
  tokenUpdate_kycKey :: "key_tree option"
  tokenUpdate_freezeKey :: "key_tree option"
  tokenUpdate_wipeKey :: "key_tree option"
  tokenUpdate_supplyKey :: "key_tree option"
  tokenUpdate_autoRenewAccountId :: "account_id option"
  tokenUpdate_expirationTime :: "timestamp option"
  tokenUpdate_autoRenewPeriod :: "long option"
  tokenUpdate_tokenMemo :: "string option"
  tokenUpdate_feeScheduleKey :: "key_tree option"
  tokenUpdate_pauseKey :: "key_tree option"
  tokenUpdate_metadataKey :: "key_tree option"
  tokenUpdate_metadata :: "byte list option"
  tokenUpdate_keyVerificationMode :: "nat"

record tokenUpdate_body =
  tokenUpdate_m_token :: "id_message option"
  tokenUpdate_m_name :: "string option"
  tokenUpdate_m_symbol :: "string option"
  tokenUpdate_m_treasury :: "account_message option"
  tokenUpdate_m_adminKey :: "key_message option"
  tokenUpdate_m_kycKey :: "key_message option"
  tokenUpdate_m_freezeKey :: "key_message option"
  tokenUpdate_m_wipeKey :: "key_message option"
  tokenUpdate_m_supplyKey :: "key_message option"
  tokenUpdate_m_autoRenewAccount :: "account_message option"
  tokenUpdate_m_expiry :: "ts_message option"
  tokenUpdate_m_autoRenewPeriod :: "long option option"
  tokenUpdate_m_memo :: "string option option"
  tokenUpdate_m_feeScheduleKey :: "key_message option"
  tokenUpdate_m_pauseKey :: "key_message option"
  tokenUpdate_m_metadataKey :: "key_message option"
  tokenUpdate_m_metadata :: "byte list option option"
  tokenUpdate_m_keyVerificationMode :: "nat option"

definition tokenUpdate_empty :: "tokenUpdate" where
  "tokenUpdate_empty = \<lparr>tokenUpdate_tokenId = None, tokenUpdate_tokenName = None,
      tokenUpdate_tokenSymbol = None, tokenUpdate_treasuryAccountId = None, tokenUpdate_adminKey = None,
      tokenUpdate_kycKey = None, tokenUpdate_freezeKey = None, tokenUpdate_wipeKey = None,
      tokenUpdate_supplyKey = None, tokenUpdate_autoRenewAccountId = None,
      tokenUpdate_expirationTime = None, tokenUpdate_autoRenewPeriod = None,
      tokenUpdate_tokenMemo = None, tokenUpdate_feeScheduleKey = None, tokenUpdate_pauseKey = None,
      tokenUpdate_metadataKey = None, tokenUpdate_metadata = None,
      tokenUpdate_keyVerificationMode = 0\<rparr>"

definition tokenUpdate_setTokenId ::
    "'asn transfer_lib \<Rightarrow> token_id id_arg \<Rightarrow> tokenUpdate base \<Rightarrow> tokenUpdate base result" where
  "tokenUpdate_setTokenId E a =
     set_field (put (token_copy E a) (\<lambda>x d. d\<lparr>tokenUpdate_tokenId := x\<rparr>))"

definition tokenUpdate_setTokenName ::
    "string \<Rightarrow> tokenUpdate base \<Rightarrow> tokenUpdate base result" where
  "tokenUpdate_setTokenName a =
     set_field (put (Inr a) (\<lambda>x d. d\<lparr>tokenUpdate_tokenName := x\<rparr>))"

definition tokenUpdate_setTokenSymbol ::
    "string \<Rightarrow> tokenUpdate base \<Rightarrow> tokenUpdate base result" where
  "tokenUpdate_setTokenSymbol a =
     set_field (put (Inr a) (\<lambda>x d. d\<lparr>tokenUpdate_tokenSymbol := x\<rparr>))"

definition tokenUpdate_setTreasuryAccountId ::
    "'asn transfer_lib \<Rightarrow> account_id id_arg \<Rightarrow> tokenUpdate base \<Rightarrow> tokenUpdate base result" where
  "tokenUpdate_setTreasuryAccountId E a =
     set_field (put (account_copy E a) (\<lambda>x d. d\<lparr>tokenUpdate_treasuryAccountId := x\<rparr>))"

definition tokenUpdate_setAdminKey ::
    "key_tree \<Rightarrow> tokenUpdate base \<Rightarrow> tokenUpdate base result" where
  "tokenUpdate_setAdminKey a =
     set_field (put (Inr a) (\<lambda>x d. d\<lparr>tokenUpdate_adminKey := x\<rparr>))"

definition tokenUpdate_setKycKey ::
    "key_tree \<Rightarrow> tokenUpdate base \<Rightarrow> tokenUpdate base result" where
  "tokenUpdate_setKycKey a =
     set_field (put (Inr a) (\<lambda>x d. d\<lparr>tokenUpdate_kycKey := x\<rparr>))"

definition tokenUpdate_setFreezeKey ::
    "key_tree \<Rightarrow> tokenUpdate base \<Rightarrow> tokenUpdate base result" where
  "tokenUpdate_setFreezeKey a =
     set_field (put (Inr a) (\<lambda>x d. d\<lparr>tokenUpdate_freezeKey := x\<rparr>))"

definition tokenUpdate_setWipeKey ::
    "key_tree \<Rightarrow> tokenUpdate base \<Rightarrow> tokenUpdate base result" where
  "tokenUpdate_setWipeKey a =
     set_field (put (Inr a) (\<lambda>x d. d\<lparr>tokenUpdate_wipeKey := x\<rparr>))"

definition tokenUpdate_setSupplyKey ::
    "key_tree \<Rightarrow> tokenUpdate base \<Rightarrow> tokenUpdate base result" where
  "tokenUpdate_setSupplyKey a =
     set_field (put (Inr a) (\<lambda>x d. d\<lparr>tokenUpdate_supplyKey := x\<rparr>))"

definition tokenUpdate_setAutoRenewAccountId ::
    "'asn transfer_lib \<Rightarrow> account_id id_arg \<Rightarrow> tokenUpdate base \<Rightarrow> tokenUpdate base result" where
  "tokenUpdate_setAutoRenewAccountId E a =
     set_field (put (account_arg E a) (\<lambda>x d. d\<lparr>tokenUpdate_autoRenewAccountId := x\<rparr>))"

definition tokenUpdate_setExpirationTime ::
    "'asn transfer_lib \<Rightarrow> (string \<Rightarrow> int option) \<Rightarrow> time_arg \<Rightarrow> tokenUpdate base \<Rightarrow> tokenUpdate base result" where
  "tokenUpdate_setExpirationTime E parse a =
     set_field (put (time_value E parse a) (\<lambda>x d. d\<lparr>tokenUpdate_expirationTime := x\<rparr>))"

definition tokenUpdate_setAutoRenewPeriod ::
    "'asn transfer_lib \<Rightarrow> duration_arg \<Rightarrow> tokenUpdate base \<Rightarrow> tokenUpdate base result" where
  "tokenUpdate_setAutoRenewPeriod E a =
     set_field (put (Inr (duration_value E a)) (\<lambda>x d. d\<lparr>tokenUpdate_autoRenewPeriod := x\<rparr>))"

definition tokenUpdate_setTokenMemo ::
    "string \<Rightarrow> tokenUpdate base \<Rightarrow> tokenUpdate base result" where
  "tokenUpdate_setTokenMemo a =
     set_field (put (Inr a) (\<lambda>x d. d\<lparr>tokenUpdate_tokenMemo := x\<rparr>))"

definition tokenUpdate_clearTokenMemo :: "tokenUpdate base \<Rightarrow> tokenUpdate base result" where
  "tokenUpdate_clearTokenMemo = set_field (\<lambda>d. Inr (d\<lparr>tokenUpdate_tokenMemo := None\<rparr>))"

definition tokenUpdate_setFeeScheduleKey ::
    "key_tree \<Rightarrow> tokenUpdate base \<Rightarrow> tokenUpdate base result" where
  "tokenUpdate_setFeeScheduleKey a =
     set_field (put (Inr a) (\<lambda>x d. d\<lparr>tokenUpdate_feeScheduleKey := x\<rparr>))"

definition tokenUpdate_setPauseKey ::
    "key_tree \<Rightarrow> tokenUpdate base \<Rightarrow> tokenUpdate base result" where
  "tokenUpdate_setPauseKey a =
     set_field (put (Inr a) (\<lambda>x d. d\<lparr>tokenUpdate_pauseKey := x\<rparr>))"

definition tokenUpdate_setMetadataKey ::
    "key_tree \<Rightarrow> tokenUpdate base \<Rightarrow> tokenUpdate base result" where
  "tokenUpdate_setMetadataKey a =
     set_field (put (Inr a) (\<lambda>x d. d\<lparr>tokenUpdate_metadataKey := x\<rparr>))"

definition tokenUpdate_setMetadata ::
    "byte list \<Rightarrow> tokenUpdate base \<Rightarrow> tokenUpdate base result" where
  "tokenUpdate_setMetadata a =
     set_field (put (Inr a) (\<lambda>x d. d\<lparr>tokenUpdate_metadata := x\<rparr>))"

definition tokenUpdate_setKeyVerificationMode ::
    "nat \<Rightarrow> tokenUpdate base \<Rightarrow> tokenUpdate base result" where
  "tokenUpdate_setKeyVerificationMode a =
     set_field (store (Inr a) (\<lambda>x d. d\<lparr>tokenUpdate_keyVerificationMode := x\<rparr>))"

definition tokenUpdate_setsupplyKey :: "key_tree \<Rightarrow> tokenUpdate base \<Rightarrow> tokenUpdate base result" where
  "tokenUpdate_setsupplyKey a = set_field (put (Inr a) (\<lambda>x d. d\<lparr>tokenUpdate_supplyKey := x\<rparr>))"

definition tokenUpdate_new ::
    "'asn transfer_lib \<Rightarrow> (string \<Rightarrow> int option) \<Rightarrow>
      (token_id id_arg) option \<Rightarrow> string option \<Rightarrow> string option \<Rightarrow>
      (account_id id_arg) option \<Rightarrow> key_tree option \<Rightarrow>
      key_tree option \<Rightarrow> key_tree option \<Rightarrow> key_tree option \<Rightarrow>
      key_tree option \<Rightarrow> (account_id id_arg) option \<Rightarrow>
      time_arg option \<Rightarrow> duration_arg option \<Rightarrow> string option \<Rightarrow>
      key_tree option \<Rightarrow> key_tree option \<Rightarrow> key_tree option \<Rightarrow>
      (byte list) option \<Rightarrow> nat option \<Rightarrow> tokenUpdate base result" where
  "tokenUpdate_new E parse a1 a2 a3 a4 a5 a6 a7 a8 a9 a10 a11 a12 a13 a14 a15 a16 a17 a18 =
     chain [given (tokenUpdate_setTokenId E) a1, given tokenUpdate_setTokenName a2,
      given tokenUpdate_setTokenSymbol a3, given (tokenUpdate_setTreasuryAccountId E) a4,
      given tokenUpdate_setAdminKey a5, given tokenUpdate_setKycKey a6,
      given tokenUpdate_setFreezeKey a7, given tokenUpdate_setWipeKey a8,
      given tokenUpdate_setSupplyKey a9, given (tokenUpdate_setAutoRenewAccountId E) a10,
      given (tokenUpdate_setExpirationTime E parse) a11, given (tokenUpdate_setAutoRenewPeriod E) a12,
      given tokenUpdate_setTokenMemo a13, given tokenUpdate_setFeeScheduleKey a14,
      given tokenUpdate_setPauseKey a15, given tokenUpdate_setMetadataKey a16,
      given tokenUpdate_setMetadata a17,
      given tokenUpdate_setKeyVerificationMode a18] (start 200000000 tokenUpdate_empty)"

definition tokenUpdate_data :: "'asn transfer_lib \<Rightarrow> tokenUpdate \<Rightarrow> tokenUpdate_body result" where
  "tokenUpdate_data E d =
     res_bind (res_opt tree_message (tokenUpdate_adminKey d)) (\<lambda>k0.
     res_bind (res_opt tree_message (tokenUpdate_kycKey d)) (\<lambda>k1.
     res_bind (res_opt tree_message (tokenUpdate_freezeKey d)) (\<lambda>k2.
     res_bind (res_opt tree_message (tokenUpdate_wipeKey d)) (\<lambda>k3.
     res_bind (res_opt tree_message (tokenUpdate_supplyKey d)) (\<lambda>k4.
     res_bind (res_opt tree_message (tokenUpdate_feeScheduleKey d)) (\<lambda>k5.
     res_bind (res_opt tree_message (tokenUpdate_pauseKey d)) (\<lambda>k6.
     res_bind (res_opt tree_message (tokenUpdate_metadataKey d)) (\<lambda>k7.
     Inr \<lparr>tokenUpdate_m_token = map_option token_toProtobuf (tokenUpdate_tokenId d),
      tokenUpdate_m_name = tokenUpdate_tokenName d, tokenUpdate_m_symbol = tokenUpdate_tokenSymbol d,
      tokenUpdate_m_treasury = make_account E (tokenUpdate_treasuryAccountId d),
      tokenUpdate_m_adminKey = k0, tokenUpdate_m_kycKey = k1, tokenUpdate_m_freezeKey = k2,
      tokenUpdate_m_wipeKey = k3, tokenUpdate_m_supplyKey = k4,
      tokenUpdate_m_autoRenewAccount = make_account E (tokenUpdate_autoRenewAccountId d),
      tokenUpdate_m_expiry = map_option ts_toProtobuf (tokenUpdate_expirationTime d),
      tokenUpdate_m_autoRenewPeriod = map_option Some (tokenUpdate_autoRenewPeriod d),
      tokenUpdate_m_memo = map_option Some (tokenUpdate_tokenMemo d), tokenUpdate_m_feeScheduleKey = k5,
      tokenUpdate_m_pauseKey = k6, tokenUpdate_m_metadataKey = k7,
      tokenUpdate_m_metadata = map_option Some (tokenUpdate_metadata d),
      tokenUpdate_m_keyVerificationMode = Some (tokenUpdate_keyVerificationMode d)\<rparr>))))))))"

definition tokenUpdate_fromProtobuf ::
    "'asn transfer_lib \<Rightarrow> (string \<Rightarrow> int option) \<Rightarrow> tokenUpdate_body \<Rightarrow> tokenUpdate base result" where
  "tokenUpdate_fromProtobuf E parse b =
     res_bind (res_opt token_fromProtobuf (tokenUpdate_m_token b)) (\<lambda>x0.
     res_bind (read_account E (tokenUpdate_m_treasury b)) (\<lambda>x1.
     res_bind (read_key E (tokenUpdate_m_adminKey b)) (\<lambda>x2.
     res_bind (read_key E (tokenUpdate_m_kycKey b)) (\<lambda>x3.
     res_bind (read_key E (tokenUpdate_m_freezeKey b)) (\<lambda>x4.
     res_bind (read_key E (tokenUpdate_m_wipeKey b)) (\<lambda>x5.
     res_bind (read_key E (tokenUpdate_m_supplyKey b)) (\<lambda>x6.
     res_bind (read_account E (tokenUpdate_m_autoRenewAccount b)) (\<lambda>x7.
     res_bind (read_key E (tokenUpdate_m_feeScheduleKey b)) (\<lambda>x8.
     res_bind (read_key E (tokenUpdate_m_pauseKey b)) (\<lambda>x9.
     res_bind (read_key E (tokenUpdate_m_metadataKey b)) (\<lambda>x10.
     res_bind (res_opt keyValidation_fromCode (tokenUpdate_m_keyVerificationMode b)) (\<lambda>x11.
     tokenUpdate_new E parse (map_option IdObject x0) (tokenUpdate_m_name b) (tokenUpdate_m_symbol b)
      (map_option IdObject x1) x2 x3 x4 x5 x6 (map_option IdObject x7)
      (map_option TimeObject (map_option (ts_fromProtobuf (lb_long E)) (tokenUpdate_m_expiry b)))
      (map_option DurationObject (map_option duration_fromProtobuf (tokenUpdate_m_autoRenewPeriod b)))
      ((inner (tokenUpdate_m_memo b))) x8 x9 x10 ((inner (tokenUpdate_m_metadata b))) x11))))))))))))"

definition tokenUpdate_validateChecksums :: "'asn transfer_lib \<Rightarrow> byte list option \<Rightarrow> tokenUpdate \<Rightarrow> unit result" where
  "tokenUpdate_validateChecksums E ledger d =
     all_checked [
      checked (\<lambda>i. token_validateChecksum (lb_long E) i ledger) (tokenUpdate_tokenId d),
      checked (\<lambda>i. account_validateChecksum (lb_long E) i ledger) (tokenUpdate_treasuryAccountId d),
      checked (\<lambda>i. account_validateChecksum (lb_long E) i ledger) (tokenUpdate_autoRenewAccountId d)]"

definition tokenUpdate_case :: string where
  "tokenUpdate_case = ''tokenUpdate''"

definition tokenUpdate_execute :: "string \<times> string" where
  "tokenUpdate_execute = (''token'', ''updateToken'')"

definition tokenUpdate_good :: "tokenUpdate \<Rightarrow> bool" where
  "tokenUpdate_good d \<longleftrightarrow> pred_option plain_id (tokenUpdate_tokenId d) \<and>
      pred_option account_ok (tokenUpdate_treasuryAccountId d) \<and>
      pred_option tree_ok (tokenUpdate_adminKey d) \<and>
      pred_option tree_ok (tokenUpdate_kycKey d) \<and>
      pred_option tree_ok (tokenUpdate_freezeKey d) \<and>
      pred_option tree_ok (tokenUpdate_wipeKey d) \<and>
      pred_option tree_ok (tokenUpdate_supplyKey d) \<and>
      pred_option account_ok (tokenUpdate_autoRenewAccountId d) \<and>
      pred_option time_fits (tokenUpdate_expirationTime d) \<and>
      pred_option tree_ok (tokenUpdate_feeScheduleKey d) \<and>
      pred_option tree_ok (tokenUpdate_pauseKey d) \<and>
      pred_option tree_ok (tokenUpdate_metadataKey d) \<and> tokenUpdate_keyVerificationMode d < 2"

lemmas tokenUpdate_defs =
  tokenUpdate_empty_def tokenUpdate_setTokenId_def[abs_def] tokenUpdate_setTokenName_def[abs_def]
      tokenUpdate_setTokenSymbol_def[abs_def] tokenUpdate_setTreasuryAccountId_def[abs_def]
      tokenUpdate_setAdminKey_def[abs_def] tokenUpdate_setKycKey_def[abs_def]
      tokenUpdate_setFreezeKey_def[abs_def] tokenUpdate_setWipeKey_def[abs_def]
      tokenUpdate_setSupplyKey_def[abs_def] tokenUpdate_setAutoRenewAccountId_def[abs_def]
      tokenUpdate_setExpirationTime_def[abs_def] tokenUpdate_setAutoRenewPeriod_def[abs_def]
      tokenUpdate_setTokenMemo_def[abs_def] tokenUpdate_setFeeScheduleKey_def[abs_def]
      tokenUpdate_setPauseKey_def[abs_def] tokenUpdate_setMetadataKey_def[abs_def]
      tokenUpdate_setMetadata_def[abs_def] tokenUpdate_setKeyVerificationMode_def[abs_def]
      tokenUpdate_new_def tokenUpdate_data_def tokenUpdate_fromProtobuf_def

lemma tokenUpdate_read_make:
  assumes "transfer_lib_ok E" and "tokenUpdate_good d"
  shows "\<exists>m. tokenUpdate_data E d = Inr m \<and> tokenUpdate_fromProtobuf E parse m = Inr (start 200000000 d)"
proof -
  have g0: "pred_option tree_ok (tokenUpdate_adminKey d)" using assms(2) by (simp add: tokenUpdate_good_def)
  obtain k0 where k0: "res_opt tree_message (tokenUpdate_adminKey d) = Inr k0" "read_key E k0 = Inr (tokenUpdate_adminKey d)"
    using key_reads[OF g0] .
  have g1: "pred_option tree_ok (tokenUpdate_kycKey d)" using assms(2) by (simp add: tokenUpdate_good_def)
  obtain k1 where k1: "res_opt tree_message (tokenUpdate_kycKey d) = Inr k1" "read_key E k1 = Inr (tokenUpdate_kycKey d)"
    using key_reads[OF g1] .
  have g2: "pred_option tree_ok (tokenUpdate_freezeKey d)" using assms(2) by (simp add: tokenUpdate_good_def)
  obtain k2 where k2: "res_opt tree_message (tokenUpdate_freezeKey d) = Inr k2" "read_key E k2 = Inr (tokenUpdate_freezeKey d)"
    using key_reads[OF g2] .
  have g3: "pred_option tree_ok (tokenUpdate_wipeKey d)" using assms(2) by (simp add: tokenUpdate_good_def)
  obtain k3 where k3: "res_opt tree_message (tokenUpdate_wipeKey d) = Inr k3" "read_key E k3 = Inr (tokenUpdate_wipeKey d)"
    using key_reads[OF g3] .
  have g4: "pred_option tree_ok (tokenUpdate_supplyKey d)" using assms(2) by (simp add: tokenUpdate_good_def)
  obtain k4 where k4: "res_opt tree_message (tokenUpdate_supplyKey d) = Inr k4" "read_key E k4 = Inr (tokenUpdate_supplyKey d)"
    using key_reads[OF g4] .
  have g5: "pred_option tree_ok (tokenUpdate_feeScheduleKey d)" using assms(2) by (simp add: tokenUpdate_good_def)
  obtain k5 where k5: "res_opt tree_message (tokenUpdate_feeScheduleKey d) = Inr k5" "read_key E k5 = Inr (tokenUpdate_feeScheduleKey d)"
    using key_reads[OF g5] .
  have g6: "pred_option tree_ok (tokenUpdate_pauseKey d)" using assms(2) by (simp add: tokenUpdate_good_def)
  obtain k6 where k6: "res_opt tree_message (tokenUpdate_pauseKey d) = Inr k6" "read_key E k6 = Inr (tokenUpdate_pauseKey d)"
    using key_reads[OF g6] .
  have g7: "pred_option tree_ok (tokenUpdate_metadataKey d)" using assms(2) by (simp add: tokenUpdate_good_def)
  obtain k7 where k7: "res_opt tree_message (tokenUpdate_metadataKey d) = Inr k7" "read_key E k7 = Inr (tokenUpdate_metadataKey d)"
    using key_reads[OF g7] .
  show ?thesis using assms k0 k1 k2 k3 k4 k5 k6 k7 by (cases d) (simp add: tokenUpdate_defs tokenUpdate_good_def field_back)
qed

interpretation tokenUpdate_rw: body_class tokenUpdate_data "\<lambda>E. tokenUpdate_fromProtobuf E parse" tokenUpdate_good "\<lambda>_. 200000000" for parse
  by unfold_locales (rule tokenUpdate_read_make)

section \<open>\<open>src/token/TokenFeeScheduleUpdateTransaction.js\<close>\<close>

record tokenFeeSchedule =
  tokenFeeSchedule_tokenId :: "token_id option"
  tokenFeeSchedule_customFees :: "token_fee list"

record tokenFeeSchedule_body =
  tokenFeeSchedule_m_tokenId :: "id_message option"
  tokenFeeSchedule_m_customFees :: "fee_message list option"

definition tokenFeeSchedule_empty :: "tokenFeeSchedule" where
  "tokenFeeSchedule_empty = \<lparr>tokenFeeSchedule_tokenId = None,
      tokenFeeSchedule_customFees = []\<rparr>"

definition tokenFeeSchedule_setTokenId ::
    "'asn transfer_lib \<Rightarrow> token_id id_arg \<Rightarrow> tokenFeeSchedule base \<Rightarrow> tokenFeeSchedule base result" where
  "tokenFeeSchedule_setTokenId E a =
     set_field (put (token_reread E a) (\<lambda>x d. d\<lparr>tokenFeeSchedule_tokenId := x\<rparr>))"

definition tokenFeeSchedule_setCustomFees ::
    "token_fee list \<Rightarrow> tokenFeeSchedule base \<Rightarrow> tokenFeeSchedule base result" where
  "tokenFeeSchedule_setCustomFees a =
     set_field (store (Inr a) (\<lambda>x d. d\<lparr>tokenFeeSchedule_customFees := x\<rparr>))"

definition tokenFeeSchedule_new ::
    "'asn transfer_lib \<Rightarrow> (token_id id_arg) option \<Rightarrow>
      (token_fee list) option \<Rightarrow> tokenFeeSchedule base result" where
  "tokenFeeSchedule_new E a1 a2 =
     chain [given (tokenFeeSchedule_setTokenId E) a1,
      given tokenFeeSchedule_setCustomFees a2] (start 200000000 tokenFeeSchedule_empty)"

definition tokenFeeSchedule_data :: "'asn transfer_lib \<Rightarrow> tokenFeeSchedule \<Rightarrow> tokenFeeSchedule_body result" where
  "tokenFeeSchedule_data E d =
     Inr \<lparr>tokenFeeSchedule_m_tokenId = map_option token_toProtobuf (tokenFeeSchedule_tokenId d),
      tokenFeeSchedule_m_customFees = Some (map (fee_toProtobuf E) (tokenFeeSchedule_customFees d))\<rparr>"

definition tokenFeeSchedule_fromProtobuf ::
    "'asn transfer_lib \<Rightarrow> tokenFeeSchedule_body \<Rightarrow> tokenFeeSchedule base result" where
  "tokenFeeSchedule_fromProtobuf E b =
     res_bind (res_opt token_fromProtobuf (tokenFeeSchedule_m_tokenId b)) (\<lambda>x0.
     res_bind (res_opt (res_map (fee_fromProtobuf E)) (tokenFeeSchedule_m_customFees b)) (\<lambda>x1.
     tokenFeeSchedule_new E (map_option IdObject x0) x1))"

definition tokenFeeSchedule_case :: string where
  "tokenFeeSchedule_case = ''tokenFeeScheduleUpdate''"

definition tokenFeeSchedule_execute :: "string \<times> string" where
  "tokenFeeSchedule_execute = (''token'', ''updateTokenFeeSchedule'')"

definition tokenFeeSchedule_good :: "tokenFeeSchedule \<Rightarrow> bool" where
  "tokenFeeSchedule_good d \<longleftrightarrow> pred_option plain_id (tokenFeeSchedule_tokenId d) \<and>
      fees_ok (tokenFeeSchedule_customFees d)"

lemmas tokenFeeSchedule_defs =
  tokenFeeSchedule_empty_def tokenFeeSchedule_setTokenId_def[abs_def]
      tokenFeeSchedule_setCustomFees_def[abs_def] tokenFeeSchedule_new_def tokenFeeSchedule_data_def
      tokenFeeSchedule_fromProtobuf_def

lemma tokenFeeSchedule_read_make:
  assumes "transfer_lib_ok E" and "tokenFeeSchedule_good d"
  shows "\<exists>m. tokenFeeSchedule_data E d = Inr m \<and> tokenFeeSchedule_fromProtobuf E m = Inr (start 200000000 d)"
  using assms by (cases d) (simp add: tokenFeeSchedule_defs tokenFeeSchedule_good_def field_back)

interpretation tokenFeeSchedule_rw: body_class tokenFeeSchedule_data tokenFeeSchedule_fromProtobuf tokenFeeSchedule_good "\<lambda>_. 200000000"
  by unfold_locales (rule tokenFeeSchedule_read_make)

end
