(* ===== verification/AirdropActions.thy ===== *)
theory AirdropActions
  imports TxFields
begin

text \<open>
  Transactions on airdrops that wait for their receiver, and the rejection of tokens (src/token).
\<close>

section \<open>\<open>src/token/TokenRejectTransaction.js\<close>\<close>

text \<open>The message has one list of references, each to a token or to a unique token (\<open>TokenReference.js\<close>); the
  class keeps two lists.\<close>

record tokenReject =
  rj_owner :: "account_id option"
  rj_tokenIds :: "token_id list"
  rj_nftIds :: "nft_id list"

record token_reference =
  rf_fungibleToken :: "token_id option"
  rf_nft :: "nft_id option"

record reference_message =
  rfm_fungibleToken :: "id_message option"
  rfm_nft :: "nft_message option"

record tokenReject_body =
  rjm_owner :: "account_message option"
  rjm_rejections :: "reference_message list option"

definition tokenReject_empty :: tokenReject where
  "tokenReject_empty = \<lparr>rj_owner = None, rj_tokenIds = [], rj_nftIds = []\<rparr>"

definition tokenReject_setOwnerId :: "account_id \<Rightarrow> tokenReject base \<Rightarrow> tokenReject base result" where
  "tokenReject_setOwnerId a = set_field (put (Inr a) (\<lambda>x d. d\<lparr>rj_owner := x\<rparr>))"

definition tokenReject_setTokenIds :: "token_id list \<Rightarrow> tokenReject base \<Rightarrow> tokenReject base result" where
  "tokenReject_setTokenIds a = set_field (store (Inr a) (\<lambda>x d. d\<lparr>rj_tokenIds := x\<rparr>))"

definition tokenReject_addTokenId :: "token_id \<Rightarrow> tokenReject base \<Rightarrow> tokenReject base result" where
  "tokenReject_addTokenId a = set_field (\<lambda>d. Inr (d\<lparr>rj_tokenIds := rj_tokenIds d @ [a]\<rparr>))"

definition tokenReject_setNftIds :: "nft_id list \<Rightarrow> tokenReject base \<Rightarrow> tokenReject base result" where
  "tokenReject_setNftIds a = set_field (store (Inr a) (\<lambda>x d. d\<lparr>rj_nftIds := x\<rparr>))"

definition tokenReject_addNftId :: "nft_id \<Rightarrow> tokenReject base \<Rightarrow> tokenReject base result" where
  "tokenReject_addNftId a = set_field (\<lambda>d. Inr (d\<lparr>rj_nftIds := rj_nftIds d @ [a]\<rparr>))"

definition tokenReject_new ::
    "account_id option \<Rightarrow> token_id list option \<Rightarrow> nft_id list option \<Rightarrow> tokenReject base result" where
  "tokenReject_new w ts ns =
     chain [given tokenReject_setOwnerId w, given tokenReject_setTokenIds ts, given tokenReject_setNftIds ns]
       (start 200000000 tokenReject_empty)"

definition reference_fromProtobuf :: "reference_message \<Rightarrow> token_reference result" where
  "reference_fromProtobuf m =
     res_bind (res_opt token_fromProtobuf (rfm_fungibleToken m)) (\<lambda>i.
     res_bind (res_opt nft_fromProtobuf (rfm_nft m)) (\<lambda>n. Inr \<lparr>rf_fungibleToken = i, rf_nft = n\<rparr>))"

text \<open>The references to tokens are taken out first, then those to unique tokens.\<close>

definition tokenReject_fromProtobuf :: "'asn transfer_lib \<Rightarrow> tokenReject_body \<Rightarrow> tokenReject base result" where
  "tokenReject_fromProtobuf E b =
     res_bind (res_opt (res_map reference_fromProtobuf) (rjm_rejections b)) (\<lambda>rs.
     res_bind (read_account E (rjm_owner b)) (\<lambda>w.
     tokenReject_new w (map_option (List.map_filter rf_fungibleToken) rs) (map_option (List.map_filter rf_nft) rs)))"

definition tokenReject_data :: "'asn transfer_lib \<Rightarrow> tokenReject \<Rightarrow> tokenReject_body result" where
  "tokenReject_data E d =
     Inr \<lparr>rjm_owner = make_account E (rj_owner d),
       rjm_rejections = Some (
         map (\<lambda>i. \<lparr>rfm_fungibleToken = Some (token_toProtobuf i), rfm_nft = None\<rparr>) (rj_tokenIds d) @
         map (\<lambda>n. \<lparr>rfm_fungibleToken = None, rfm_nft = Some (nft_toProtobuf n)\<rparr>) (rj_nftIds d))\<rparr>"

definition tokenReject_case :: string where
  "tokenReject_case = ''tokenReject''"

definition tokenReject_execute :: "string \<times> string" where
  "tokenReject_execute = (''token'', ''rejectToken'')"

section \<open>Reading back\<close>

definition tokenReject_good :: "tokenReject \<Rightarrow> bool" where
  "tokenReject_good d \<longleftrightarrow> pred_option account_ok (rj_owner d) \<and> list_all plain_id (rj_tokenIds d) \<and>
     list_all nft_ok (rj_nftIds d)"

lemma res_map_append: "res_map f (xs @ ys) = res_bind (res_map f xs) (\<lambda>us. res_bind (res_map f ys) (\<lambda>vs. Inr (us @ vs)))"
proof (induction xs)
  case Nil
  then show ?case by (cases "res_map f ys") simp_all
next
  case (Cons x xs)
  then show ?case by (cases "f x"; cases "res_map f xs"; cases "res_map f ys") simp_all
qed

lemma references_back:
  assumes "transfer_lib_ok E"
  shows "list_all plain_id ts \<Longrightarrow>
      res_map reference_fromProtobuf (map (\<lambda>i. \<lparr>rfm_fungibleToken = Some (token_toProtobuf i), rfm_nft = None\<rparr>) ts) =
      Inr (map (\<lambda>i. \<lparr>rf_fungibleToken = Some i, rf_nft = None\<rparr>) ts)"
    and "list_all nft_ok ns \<Longrightarrow>
      res_map reference_fromProtobuf (map (\<lambda>n. \<lparr>rfm_fungibleToken = None, rfm_nft = Some (nft_toProtobuf n)\<rparr>) ns) =
      Inr (map (\<lambda>n. \<lparr>rf_fungibleToken = None, rf_nft = Some n\<rparr>) ns)"
proof -
  show "list_all plain_id ts \<Longrightarrow>
      res_map reference_fromProtobuf (map (\<lambda>i. \<lparr>rfm_fungibleToken = Some (token_toProtobuf i), rfm_nft = None\<rparr>) ts) =
      Inr (map (\<lambda>i. \<lparr>rf_fungibleToken = Some i, rf_nft = None\<rparr>) ts)"
    by (induction ts) (simp_all add: reference_fromProtobuf_def message_back(2)[OF assms])
  show "list_all nft_ok ns \<Longrightarrow>
      res_map reference_fromProtobuf (map (\<lambda>n. \<lparr>rfm_fungibleToken = None, rfm_nft = Some (nft_toProtobuf n)\<rparr>) ns) =
      Inr (map (\<lambda>n. \<lparr>rf_fungibleToken = None, rf_nft = Some n\<rparr>) ns)"
    by (induction ns) (simp_all add: reference_fromProtobuf_def nft_proto_back)
qed

lemma filters_back:
  "List.map_filter rf_fungibleToken (map (\<lambda>i. \<lparr>rf_fungibleToken = Some i, rf_nft = None\<rparr>) ts @
     map (\<lambda>n. \<lparr>rf_fungibleToken = None, rf_nft = Some n\<rparr>) ns) = ts"
  "List.map_filter rf_nft (map (\<lambda>i. \<lparr>rf_fungibleToken = Some i, rf_nft = None\<rparr>) ts @
     map (\<lambda>n. \<lparr>rf_fungibleToken = None, rf_nft = Some n\<rparr>) ns) = ns"
  by (induction ts; induction ns; simp add: List.map_filter_simps)+

lemma tokenReject_read_make:
  assumes "transfer_lib_ok E" and "tokenReject_good d"
  shows "\<exists>m. tokenReject_data E d = Inr m \<and> tokenReject_fromProtobuf E m = Inr (start 200000000 d)"
proof -
  have "res_map reference_fromProtobuf
      (map (\<lambda>i. \<lparr>rfm_fungibleToken = Some (token_toProtobuf i), rfm_nft = None\<rparr>) (rj_tokenIds d) @
       map (\<lambda>n. \<lparr>rfm_fungibleToken = None, rfm_nft = Some (nft_toProtobuf n)\<rparr>) (rj_nftIds d)) =
    Inr (map (\<lambda>i. \<lparr>rf_fungibleToken = Some i, rf_nft = None\<rparr>) (rj_tokenIds d) @
       map (\<lambda>n. \<lparr>rf_fungibleToken = None, rf_nft = Some n\<rparr>) (rj_nftIds d))"
    using assms(2) by (simp add: res_map_append references_back[OF assms(1)] tokenReject_good_def)
  moreover have "read_account E (make_account E (rj_owner d)) = Inr (rj_owner d)"
    using assms by (simp add: tokenReject_good_def field_reads(1))
  ultimately show ?thesis
    by (cases d; cases "rj_owner d") (simp_all add: tokenReject_data_def tokenReject_fromProtobuf_def filters_back
        tokenReject_new_def tokenReject_setOwnerId_def tokenReject_setTokenIds_def tokenReject_setNftIds_def
        tokenReject_empty_def)
qed

interpretation tokenReject_rw: body_class tokenReject_data tokenReject_fromProtobuf tokenReject_good "\<lambda>_. 200000000"
  by unfold_locales (rule tokenReject_read_make)

section \<open>\<open>src/token/PendingAirdropId.js\<close>\<close>

text \<open>An airdrop that waits names its sender, its receiver and a token or a unique token, \<open>PendingAirdropId.js\<close>.\<close>

record pending_airdrop =
  pa_sender :: "account_id option"
  pa_receiver :: "account_id option"
  pa_token :: "token_id option"
  pa_nft :: "nft_id option"

record pending_message =
  pm_senderId :: "account_message option"
  pm_receiverId :: "account_message option"
  pm_fungibleTokenType :: "id_message option"
  pm_nonFungibleToken :: "nft_message option"

definition pending_new ::
    "account_id option \<Rightarrow> account_id option \<Rightarrow> token_id option \<Rightarrow> nft_id option \<Rightarrow> pending_airdrop result" where
  "pending_new s r i n =
     (case i of
        Some t \<Rightarrow> res_bind (token_of (sid t)) (\<lambda>t'.
          Inr \<lparr>pa_sender = s, pa_receiver = r, pa_token = Some t', pa_nft = None\<rparr>)
      | None \<Rightarrow> Inr \<lparr>pa_sender = s, pa_receiver = r, pa_token = None, pa_nft = n\<rparr>)"

definition pending_setSenderid :: "account_id \<Rightarrow> pending_airdrop \<Rightarrow> pending_airdrop" where
  "pending_setSenderid a x = x\<lparr>pa_sender := Some a\<rparr>"

definition pending_setReceiverId :: "account_id \<Rightarrow> pending_airdrop \<Rightarrow> pending_airdrop" where
  "pending_setReceiverId a x = x\<lparr>pa_receiver := Some a\<rparr>"

definition pending_setTokenId :: "token_id \<Rightarrow> pending_airdrop \<Rightarrow> pending_airdrop" where
  "pending_setTokenId a x = x\<lparr>pa_nft := None, pa_token := Some a\<rparr>"

definition pending_setNftId :: "nft_id \<Rightarrow> pending_airdrop \<Rightarrow> pending_airdrop" where
  "pending_setNftId a x = x\<lparr>pa_token := None, pa_nft := Some a\<rparr>"

definition pending_toBytes :: "'asn transfer_lib \<Rightarrow> pending_airdrop \<Rightarrow> pending_message" where
  "pending_toBytes E x =
     \<lparr>pm_senderId = make_account E (pa_sender x), pm_receiverId = make_account E (pa_receiver x),
      pm_fungibleTokenType = map_option token_toProtobuf (pa_token x),
      pm_nonFungibleToken = map_option nft_toProtobuf (pa_nft x)\<rparr>"

definition pending_fromBytes :: "'asn transfer_lib \<Rightarrow> pending_message \<Rightarrow> pending_airdrop result" where
  "pending_fromBytes E m =
     (if pm_senderId m = None then Inl (Error ''senderId is required'')
      else if pm_receiverId m = None then Inl (Error ''receiverId is required'')
      else if pm_fungibleTokenType m = None \<and> pm_nonFungibleToken m = None
        then Inl (Error ''Either fungibleTokenType or nonFungibleToken is required'')
      else
        res_bind (read_account E (pm_senderId m)) (\<lambda>s.
        res_bind (read_account E (pm_receiverId m)) (\<lambda>r.
        res_bind (res_opt nft_fromProtobuf (pm_nonFungibleToken m)) (\<lambda>n.
        res_bind (res_opt token_fromProtobuf (pm_fungibleTokenType m)) (\<lambda>i. pending_new s r i n)))))"

text \<open>A complete one has a sender, a receiver and one of the two kinds of token.\<close>

definition pending_ok :: "pending_airdrop \<Rightarrow> bool" where
  "pending_ok x \<longleftrightarrow>
     (case (pa_sender x, pa_receiver x, pa_token x, pa_nft x) of
        (Some s, Some r, Some i, None) \<Rightarrow> account_ok s \<and> account_ok r \<and> plain_id i
      | (Some s, Some r, None, Some n) \<Rightarrow> account_ok s \<and> account_ok r \<and> nft_ok n
      | _ \<Rightarrow> False)"

lemma pending_back:
  assumes "transfer_lib_ok E" and "pending_ok x"
  shows "pending_fromBytes E (pending_toBytes E x) = Inr x"
proof -
  have t: "plain_id i \<Longrightarrow> token_of (sid i) = Inr i" for i
    by (cases i) (simp add: plain_id_def token_of_def token_new_def entity_constructor_valid)
  show ?thesis
    using assms field_reads(1)[OF assms(1), of "Some _"]
    by (cases x) (auto simp: pending_ok_def pending_fromBytes_def pending_toBytes_def pending_new_def t nft_proto_back
        message_back[OF assms(1)] make_account_def read_account_def split: option.splits)
qed

lemma pendings_back [field_back]:
  "transfer_lib_ok E \<Longrightarrow> list_all pending_ok xs \<Longrightarrow>
    res_map (pending_fromBytes E) (map (pending_toBytes E) xs) = Inr xs"
  by (intro res_map_back) (auto simp: pending_back list_all_iff)

section \<open>\<open>src/token/TokenClaimAirdropTransaction.js\<close>\<close>

record tokenClaimAirdrop =
  tokenClaimAirdrop_pendingAirdropIds :: "pending_airdrop list"

record tokenClaimAirdrop_body =
  tokenClaimAirdrop_m_pendingAirdrops :: "pending_message list option"

definition tokenClaimAirdrop_setPendingAirdropIds ::
    "pending_airdrop list \<Rightarrow> tokenClaimAirdrop base \<Rightarrow> tokenClaimAirdrop base result" where
  "tokenClaimAirdrop_setPendingAirdropIds a =
     set_field (store (Inr a) (\<lambda>x d. d\<lparr>tokenClaimAirdrop_pendingAirdropIds := x\<rparr>))"

definition tokenClaimAirdrop_addPendingAirdropId :: "pending_airdrop \<Rightarrow> tokenClaimAirdrop base \<Rightarrow> tokenClaimAirdrop base result" where
  "tokenClaimAirdrop_addPendingAirdropId a =
     set_field (\<lambda>d. Inr (d\<lparr>tokenClaimAirdrop_pendingAirdropIds := tokenClaimAirdrop_pendingAirdropIds d @ [a]\<rparr>))"

definition tokenClaimAirdrop_new ::
    "(pending_airdrop list) option \<Rightarrow> tokenClaimAirdrop base result" where
  "tokenClaimAirdrop_new a1 =
     Inr (start 200000000 \<lparr>
      tokenClaimAirdrop_pendingAirdropIds = (case a1 of None \<Rightarrow> [] | Some x \<Rightarrow> x)\<rparr>)"

definition tokenClaimAirdrop_data :: "'asn transfer_lib \<Rightarrow> tokenClaimAirdrop \<Rightarrow> tokenClaimAirdrop_body result" where
  "tokenClaimAirdrop_data E d =
     Inr \<lparr>
      tokenClaimAirdrop_m_pendingAirdrops = Some (map (pending_toBytes E) (tokenClaimAirdrop_pendingAirdropIds d))\<rparr>"

definition tokenClaimAirdrop_fromProtobuf ::
    "'asn transfer_lib \<Rightarrow> tokenClaimAirdrop_body \<Rightarrow> tokenClaimAirdrop base result" where
  "tokenClaimAirdrop_fromProtobuf E b =
     res_bind (res_opt (res_map (pending_fromBytes E)) (tokenClaimAirdrop_m_pendingAirdrops b)) (\<lambda>x0.
     tokenClaimAirdrop_new x0)"

definition tokenClaimAirdrop_case :: string where
  "tokenClaimAirdrop_case = ''tokenClaimAirdrop''"

definition tokenClaimAirdrop_execute :: "string \<times> string" where
  "tokenClaimAirdrop_execute = (''token'', ''claimAirdrop'')"

definition tokenClaimAirdrop_good :: "tokenClaimAirdrop \<Rightarrow> bool" where
  "tokenClaimAirdrop_good d \<longleftrightarrow>
      list_all pending_ok (tokenClaimAirdrop_pendingAirdropIds d)"

lemmas tokenClaimAirdrop_defs =
  tokenClaimAirdrop_setPendingAirdropIds_def[abs_def] tokenClaimAirdrop_new_def
      tokenClaimAirdrop_data_def tokenClaimAirdrop_fromProtobuf_def

lemma tokenClaimAirdrop_read_make:
  assumes "transfer_lib_ok E" and "tokenClaimAirdrop_good d"
  shows "\<exists>m. tokenClaimAirdrop_data E d = Inr m \<and> tokenClaimAirdrop_fromProtobuf E m = Inr (start 200000000 d)"
  using assms by (cases d) (simp add: tokenClaimAirdrop_defs tokenClaimAirdrop_good_def field_back)

interpretation tokenClaimAirdrop_rw: body_class tokenClaimAirdrop_data tokenClaimAirdrop_fromProtobuf tokenClaimAirdrop_good "\<lambda>_. 200000000"
  by unfold_locales (rule tokenClaimAirdrop_read_make)

section \<open>\<open>src/token/TokenCancelAirdropTransaction.js\<close>\<close>

record tokenCancelAirdrop =
  tokenCancelAirdrop_pendingAirdropIds :: "pending_airdrop list"

record tokenCancelAirdrop_body =
  tokenCancelAirdrop_m_pendingAirdrops :: "pending_message list option"

definition tokenCancelAirdrop_setPendingAirdropIds ::
    "pending_airdrop list \<Rightarrow> tokenCancelAirdrop base \<Rightarrow> tokenCancelAirdrop base result" where
  "tokenCancelAirdrop_setPendingAirdropIds a =
     set_field (store (Inr a) (\<lambda>x d. d\<lparr>tokenCancelAirdrop_pendingAirdropIds := x\<rparr>))"

definition tokenCancelAirdrop_addPendingAirdropId :: "pending_airdrop \<Rightarrow> tokenCancelAirdrop base \<Rightarrow> tokenCancelAirdrop base result" where
  "tokenCancelAirdrop_addPendingAirdropId a =
     set_field (\<lambda>d. Inr (d\<lparr>tokenCancelAirdrop_pendingAirdropIds := tokenCancelAirdrop_pendingAirdropIds d @ [a]\<rparr>))"

definition tokenCancelAirdrop_new ::
    "(pending_airdrop list) option \<Rightarrow> tokenCancelAirdrop base result" where
  "tokenCancelAirdrop_new a1 =
     Inr (start 200000000 \<lparr>
      tokenCancelAirdrop_pendingAirdropIds = (case a1 of None \<Rightarrow> [] | Some x \<Rightarrow> x)\<rparr>)"

definition tokenCancelAirdrop_data :: "'asn transfer_lib \<Rightarrow> tokenCancelAirdrop \<Rightarrow> tokenCancelAirdrop_body result" where
  "tokenCancelAirdrop_data E d =
     Inr \<lparr>
      tokenCancelAirdrop_m_pendingAirdrops = Some (map (pending_toBytes E) (tokenCancelAirdrop_pendingAirdropIds d))\<rparr>"

definition tokenCancelAirdrop_fromProtobuf ::
    "'asn transfer_lib \<Rightarrow> tokenCancelAirdrop_body \<Rightarrow> tokenCancelAirdrop base result" where
  "tokenCancelAirdrop_fromProtobuf E b =
     res_bind (res_opt (res_map (pending_fromBytes E)) (tokenCancelAirdrop_m_pendingAirdrops b)) (\<lambda>x0.
     tokenCancelAirdrop_new x0)"

definition tokenCancelAirdrop_case :: string where
  "tokenCancelAirdrop_case = ''tokenCancelAirdrop''"

definition tokenCancelAirdrop_execute :: "string \<times> string" where
  "tokenCancelAirdrop_execute = (''token'', ''cancelAirdrop'')"

definition tokenCancelAirdrop_good :: "tokenCancelAirdrop \<Rightarrow> bool" where
  "tokenCancelAirdrop_good d \<longleftrightarrow>
      list_all pending_ok (tokenCancelAirdrop_pendingAirdropIds d)"

lemmas tokenCancelAirdrop_defs =
  tokenCancelAirdrop_setPendingAirdropIds_def[abs_def] tokenCancelAirdrop_new_def
      tokenCancelAirdrop_data_def tokenCancelAirdrop_fromProtobuf_def

lemma tokenCancelAirdrop_read_make:
  assumes "transfer_lib_ok E" and "tokenCancelAirdrop_good d"
  shows "\<exists>m. tokenCancelAirdrop_data E d = Inr m \<and> tokenCancelAirdrop_fromProtobuf E m = Inr (start 200000000 d)"
  using assms by (cases d) (simp add: tokenCancelAirdrop_defs tokenCancelAirdrop_good_def field_back)

interpretation tokenCancelAirdrop_rw: body_class tokenCancelAirdrop_data tokenCancelAirdrop_fromProtobuf tokenCancelAirdrop_good "\<lambda>_. 200000000"
  by unfold_locales (rule tokenCancelAirdrop_read_make)

end
