(* ===== verification/ContentActions.thy ===== *)
theory ContentActions
  imports TxFields Utf8
begin

text \<open>
  Transactions on files, topics and schedules: creating, updating and deleting files (src/file;
  appending is a chunked transaction) and topics (src/topic), signing and deleting a schedule
  (src/schedule).
\<close>

text \<open>The keys of a file: a list without a threshold, or an array.\<close>

definition file_expiry :: "int \<Rightarrow> timestamp" where
  "file_expiry now =
     plusNanos \<lparr>seconds = 0, nanos = 0\<rparr> (word_of_int now * 1000000 + 7776000 * 1000000000)"

text \<open>Contents are bytes or a text.\<close>

datatype contents_arg = ContentsBytes "byte list" | ContentsText text_points

definition contents_value :: "contents_arg \<Rightarrow> byte list" where
  "contents_value a = (case a of ContentsBytes b \<Rightarrow> b | ContentsText s \<Rightarrow> utf8_encode s)"

lemma put_contents_back [field_back]:
  "upd None d = d \<Longrightarrow>
    given (\<lambda>a. set_field (put (Inr (contents_value a)) upd)) (map_option ContentsBytes x) (start n d)
      = Inr (start n (upd x d))"
  by (cases x) (simp_all add: put_def contents_value_def)

section \<open>\<open>src/file/FileCreateTransaction.js\<close>\<close>

text \<open>The default expiration is 90 days after the clock \<open>now\<close>, in
  milliseconds.\<close>

record fileCreate =
  fileCreate_keys :: "key_tree option list option"
  fileCreate_expirationTime :: "timestamp"
  fileCreate_contents :: "byte list option"
  fileCreate_fileMemo :: "string option"

record fileCreate_body =
  fileCreate_m_keys :: "key_message list option option"
  fileCreate_m_expirationTime :: "ts_message option"
  fileCreate_m_contents :: "byte list option"
  fileCreate_m_memo :: "string option"

definition fileCreate_empty :: "int \<Rightarrow> fileCreate" where
  "fileCreate_empty now = \<lparr>fileCreate_keys = None, fileCreate_expirationTime = file_expiry now,
      fileCreate_contents = None, fileCreate_fileMemo = None\<rparr>"

definition fileCreate_setKeys ::
    "file_keys \<Rightarrow> fileCreate base \<Rightarrow> fileCreate base result" where
  "fileCreate_setKeys a =
     set_field (put (file_keys_value a) (\<lambda>x d. d\<lparr>fileCreate_keys := x\<rparr>))"

definition fileCreate_setExpirationTime ::
    "'asn transfer_lib \<Rightarrow> (string \<Rightarrow> int option) \<Rightarrow> time_arg \<Rightarrow> fileCreate base \<Rightarrow> fileCreate base result" where
  "fileCreate_setExpirationTime E parse a =
     set_field (store (time_value E parse a) (\<lambda>x d. d\<lparr>fileCreate_expirationTime := x\<rparr>))"

definition fileCreate_setContents ::
    "contents_arg \<Rightarrow> fileCreate base \<Rightarrow> fileCreate base result" where
  "fileCreate_setContents a =
     set_field (put (Inr (contents_value a)) (\<lambda>x d. d\<lparr>fileCreate_contents := x\<rparr>))"

definition fileCreate_setFileMemo ::
    "string \<Rightarrow> fileCreate base \<Rightarrow> fileCreate base result" where
  "fileCreate_setFileMemo a =
     set_field (put (Inr a) (\<lambda>x d. d\<lparr>fileCreate_fileMemo := x\<rparr>))"

definition fileCreate_new ::
    "'asn transfer_lib \<Rightarrow> (string \<Rightarrow> int option) \<Rightarrow> int \<Rightarrow>
      file_keys option \<Rightarrow> time_arg option \<Rightarrow> contents_arg option \<Rightarrow>
      string option \<Rightarrow> fileCreate base result" where
  "fileCreate_new E parse now a1 a2 a3 a4 =
     chain [given fileCreate_setKeys a1, given (fileCreate_setExpirationTime E parse) a2,
      given fileCreate_setContents a3,
      given fileCreate_setFileMemo (nonempty a4)] (start 500000000 (fileCreate_empty now))"

definition fileCreate_data :: "'asn transfer_lib \<Rightarrow> fileCreate \<Rightarrow> fileCreate_body result" where
  "fileCreate_data E d =
     res_bind (make_keys (fileCreate_keys d)) (\<lambda>k0.
     Inr \<lparr>fileCreate_m_keys = k0,
      fileCreate_m_expirationTime = Some (ts_toProtobuf (fileCreate_expirationTime d)),
      fileCreate_m_contents = fileCreate_contents d, fileCreate_m_memo = fileCreate_fileMemo d\<rparr>)"

definition fileCreate_fromProtobuf ::
    "'asn transfer_lib \<Rightarrow> (string \<Rightarrow> int option) \<Rightarrow> int \<Rightarrow> fileCreate_body \<Rightarrow> fileCreate base result" where
  "fileCreate_fromProtobuf E parse now b =
     res_bind (read_keys E (fileCreate_m_keys b)) (\<lambda>x0.
     fileCreate_new E parse now (map_option KeyArray x0)
      (map_option TimeObject (map_option (ts_fromProtobuf (lb_long E)) (fileCreate_m_expirationTime b)))
      (map_option ContentsBytes (fileCreate_m_contents b)) (fileCreate_m_memo b))"

definition fileCreate_case :: string where
  "fileCreate_case = ''fileCreate''"

definition fileCreate_execute :: "string \<times> string" where
  "fileCreate_execute = (''file'', ''createFile'')"

definition fileCreate_good :: "fileCreate \<Rightarrow> bool" where
  "fileCreate_good d \<longleftrightarrow> pred_option trees_ok (fileCreate_keys d) \<and>
      time_fits (fileCreate_expirationTime d) \<and> fileCreate_contents d \<noteq> None \<and>
      fileCreate_fileMemo d \<noteq> Some ''''"

lemmas fileCreate_defs =
  fileCreate_empty_def fileCreate_setKeys_def[abs_def] fileCreate_setExpirationTime_def[abs_def]
      fileCreate_setContents_def[abs_def] fileCreate_setFileMemo_def[abs_def] fileCreate_new_def
      fileCreate_data_def fileCreate_fromProtobuf_def

lemma fileCreate_read_make:
  assumes "transfer_lib_ok E" and "fileCreate_good d"
  shows "\<exists>m. fileCreate_data E d = Inr m \<and> fileCreate_fromProtobuf E parse now m = Inr (start 500000000 d)"
proof -
  have g0: "pred_option trees_ok (fileCreate_keys d)" using assms(2) by (simp add: fileCreate_good_def)
  obtain k0 where k0: "make_keys (fileCreate_keys d) = Inr k0" "read_keys E k0 = Inr (fileCreate_keys d)"
    using keys_reads[OF g0] .
  show ?thesis using assms k0 by (cases d) (simp add: fileCreate_defs fileCreate_good_def field_back)
qed

interpretation fileCreate_rw: body_class fileCreate_data "\<lambda>E. fileCreate_fromProtobuf E parse now" fileCreate_good "\<lambda>_. 500000000" for parse now
  by unfold_locales (rule fileCreate_read_make)

section \<open>\<open>src/file/FileUpdateTransaction.js\<close>\<close>

record fileUpdate =
  fileUpdate_fileId :: "file_id option"
  fileUpdate_keys :: "key_tree option list option"
  fileUpdate_expirationTime :: "timestamp option"
  fileUpdate_contents :: "byte list option"
  fileUpdate_fileMemo :: "string option"

record fileUpdate_body =
  fileUpdate_m_fileID :: "id_message option"
  fileUpdate_m_keys :: "key_message list option option"
  fileUpdate_m_expirationTime :: "ts_message option"
  fileUpdate_m_contents :: "byte list option"
  fileUpdate_m_memo :: "string option option"

definition fileUpdate_empty :: "fileUpdate" where
  "fileUpdate_empty = \<lparr>fileUpdate_fileId = None, fileUpdate_keys = None,
      fileUpdate_expirationTime = None, fileUpdate_contents = None, fileUpdate_fileMemo = None\<rparr>"

definition fileUpdate_setFileId ::
    "'asn transfer_lib \<Rightarrow> file_id id_arg \<Rightarrow> fileUpdate base \<Rightarrow> fileUpdate base result" where
  "fileUpdate_setFileId E a =
     set_field (put (file_copy E a) (\<lambda>x d. d\<lparr>fileUpdate_fileId := x\<rparr>))"

definition fileUpdate_setKeys ::
    "file_keys \<Rightarrow> fileUpdate base \<Rightarrow> fileUpdate base result" where
  "fileUpdate_setKeys a =
     set_field (put (file_keys_value a) (\<lambda>x d. d\<lparr>fileUpdate_keys := x\<rparr>))"

definition fileUpdate_setExpirationTime ::
    "'asn transfer_lib \<Rightarrow> (string \<Rightarrow> int option) \<Rightarrow> time_arg \<Rightarrow> fileUpdate base \<Rightarrow> fileUpdate base result" where
  "fileUpdate_setExpirationTime E parse a =
     set_field (put (time_value E parse a) (\<lambda>x d. d\<lparr>fileUpdate_expirationTime := x\<rparr>))"

definition fileUpdate_setContents ::
    "contents_arg \<Rightarrow> fileUpdate base \<Rightarrow> fileUpdate base result" where
  "fileUpdate_setContents a =
     set_field (put (Inr (contents_value a)) (\<lambda>x d. d\<lparr>fileUpdate_contents := x\<rparr>))"

definition fileUpdate_setFileMemo ::
    "string \<Rightarrow> fileUpdate base \<Rightarrow> fileUpdate base result" where
  "fileUpdate_setFileMemo a =
     set_field (put (Inr a) (\<lambda>x d. d\<lparr>fileUpdate_fileMemo := x\<rparr>))"

definition fileUpdate_clearFileMemo :: "fileUpdate base \<Rightarrow> fileUpdate base result" where
  "fileUpdate_clearFileMemo = set_field (\<lambda>d. Inr (d\<lparr>fileUpdate_fileMemo := None\<rparr>))"

definition fileUpdate_new ::
    "'asn transfer_lib \<Rightarrow> (string \<Rightarrow> int option) \<Rightarrow>
      (file_id id_arg) option \<Rightarrow> file_keys option \<Rightarrow> time_arg option \<Rightarrow>
      contents_arg option \<Rightarrow> string option \<Rightarrow> fileUpdate base result" where
  "fileUpdate_new E parse a1 a2 a3 a4 a5 =
     chain [given (fileUpdate_setFileId E) a1, given fileUpdate_setKeys a2,
      given (fileUpdate_setExpirationTime E parse) a3, given fileUpdate_setContents a4,
      given fileUpdate_setFileMemo (nonempty a5)] (start 200000000 fileUpdate_empty)"

definition fileUpdate_data :: "'asn transfer_lib \<Rightarrow> fileUpdate \<Rightarrow> fileUpdate_body result" where
  "fileUpdate_data E d =
     res_bind (make_keys (fileUpdate_keys d)) (\<lambda>k0.
     Inr \<lparr>fileUpdate_m_fileID = map_option file_toProtobuf (fileUpdate_fileId d), fileUpdate_m_keys = k0,
      fileUpdate_m_expirationTime = map_option ts_toProtobuf (fileUpdate_expirationTime d),
      fileUpdate_m_contents = fileUpdate_contents d,
      fileUpdate_m_memo = map_option Some (fileUpdate_fileMemo d)\<rparr>)"

definition fileUpdate_fromProtobuf ::
    "'asn transfer_lib \<Rightarrow> (string \<Rightarrow> int option) \<Rightarrow> fileUpdate_body \<Rightarrow> fileUpdate base result" where
  "fileUpdate_fromProtobuf E parse b =
     res_bind (res_opt (file_fromProtobuf (lb_long E)) (fileUpdate_m_fileID b)) (\<lambda>x0.
     res_bind (read_keys E (fileUpdate_m_keys b)) (\<lambda>x1.
     fileUpdate_new E parse (map_option IdObject x0) (map_option KeyArray x1)
      (map_option TimeObject (map_option (ts_fromProtobuf (lb_long E)) (fileUpdate_m_expirationTime b)))
      (map_option ContentsBytes (fileUpdate_m_contents b)) ((inner (fileUpdate_m_memo b)))))"

definition fileUpdate_validateChecksums :: "'asn transfer_lib \<Rightarrow> byte list option \<Rightarrow> fileUpdate \<Rightarrow> unit result" where
  "fileUpdate_validateChecksums E ledger d =
     all_checked [
      checked (\<lambda>i. file_validateChecksum (lb_long E) i ledger) (fileUpdate_fileId d)]"

definition fileUpdate_case :: string where
  "fileUpdate_case = ''fileUpdate''"

definition fileUpdate_execute :: "string \<times> string" where
  "fileUpdate_execute = (''file'', ''updateFile'')"

definition fileUpdate_good :: "fileUpdate \<Rightarrow> bool" where
  "fileUpdate_good d \<longleftrightarrow> pred_option plain_id (fileUpdate_fileId d) \<and>
      pred_option trees_ok (fileUpdate_keys d) \<and>
      pred_option time_fits (fileUpdate_expirationTime d) \<and>
      fileUpdate_contents d \<noteq> None \<and> fileUpdate_fileMemo d \<noteq> Some ''''"

lemmas fileUpdate_defs =
  fileUpdate_empty_def fileUpdate_setFileId_def[abs_def] fileUpdate_setKeys_def[abs_def]
      fileUpdate_setExpirationTime_def[abs_def] fileUpdate_setContents_def[abs_def]
      fileUpdate_setFileMemo_def[abs_def] fileUpdate_new_def fileUpdate_data_def
      fileUpdate_fromProtobuf_def

lemma fileUpdate_read_make:
  assumes "transfer_lib_ok E" and "fileUpdate_good d"
  shows "\<exists>m. fileUpdate_data E d = Inr m \<and> fileUpdate_fromProtobuf E parse m = Inr (start 200000000 d)"
proof -
  have g0: "pred_option trees_ok (fileUpdate_keys d)" using assms(2) by (simp add: fileUpdate_good_def)
  obtain k0 where k0: "make_keys (fileUpdate_keys d) = Inr k0" "read_keys E k0 = Inr (fileUpdate_keys d)"
    using keys_reads[OF g0] .
  show ?thesis using assms k0 by (cases d) (simp add: fileUpdate_defs fileUpdate_good_def field_back)
qed

interpretation fileUpdate_rw: body_class fileUpdate_data "\<lambda>E. fileUpdate_fromProtobuf E parse" fileUpdate_good "\<lambda>_. 200000000" for parse
  by unfold_locales (rule fileUpdate_read_make)

section \<open>\<open>src/file/FileDeleteTransaction.js\<close>\<close>

record fileDelete =
  fileDelete_fileId :: "file_id option"

record fileDelete_body =
  fileDelete_m_fileID :: "id_message option"

definition fileDelete_empty :: "fileDelete" where
  "fileDelete_empty = \<lparr>fileDelete_fileId = None\<rparr>"

definition fileDelete_setFileId ::
    "'asn transfer_lib \<Rightarrow> file_id id_arg \<Rightarrow> fileDelete base \<Rightarrow> fileDelete base result" where
  "fileDelete_setFileId E a =
     set_field (put (file_copy E a) (\<lambda>x d. d\<lparr>fileDelete_fileId := x\<rparr>))"

definition fileDelete_new ::
    "'asn transfer_lib \<Rightarrow> (file_id id_arg) option \<Rightarrow> fileDelete base result" where
  "fileDelete_new E a1 =
     chain [given (fileDelete_setFileId E) a1] (start 200000000 fileDelete_empty)"

definition fileDelete_data :: "'asn transfer_lib \<Rightarrow> fileDelete \<Rightarrow> fileDelete_body result" where
  "fileDelete_data E d =
     Inr \<lparr>fileDelete_m_fileID = map_option file_toProtobuf (fileDelete_fileId d)\<rparr>"

definition fileDelete_fromProtobuf ::
    "'asn transfer_lib \<Rightarrow> fileDelete_body \<Rightarrow> fileDelete base result" where
  "fileDelete_fromProtobuf E b =
     res_bind (res_opt (file_fromProtobuf (lb_long E)) (fileDelete_m_fileID b)) (\<lambda>x0.
     fileDelete_new E (map_option IdObject x0))"

definition fileDelete_validateChecksums :: "'asn transfer_lib \<Rightarrow> byte list option \<Rightarrow> fileDelete \<Rightarrow> unit result" where
  "fileDelete_validateChecksums E ledger d =
     all_checked [
      checked (\<lambda>i. file_validateChecksum (lb_long E) i ledger) (fileDelete_fileId d)]"

definition fileDelete_case :: string where
  "fileDelete_case = ''fileDelete''"

definition fileDelete_execute :: "string \<times> string" where
  "fileDelete_execute = (''file'', ''deleteFile'')"

definition fileDelete_good :: "fileDelete \<Rightarrow> bool" where
  "fileDelete_good d \<longleftrightarrow> pred_option plain_id (fileDelete_fileId d)"

lemmas fileDelete_defs =
  fileDelete_empty_def fileDelete_setFileId_def[abs_def] fileDelete_new_def fileDelete_data_def
      fileDelete_fromProtobuf_def

lemma fileDelete_read_make:
  assumes "transfer_lib_ok E" and "fileDelete_good d"
  shows "\<exists>m. fileDelete_data E d = Inr m \<and> fileDelete_fromProtobuf E m = Inr (start 200000000 d)"
  using assms by (cases d) (simp add: fileDelete_defs fileDelete_good_def field_back)

interpretation fileDelete_rw: body_class fileDelete_data fileDelete_fromProtobuf fileDelete_good "\<lambda>_. 200000000"
  by unfold_locales (rule fileDelete_read_make)

section \<open>\<open>src/topic/TopicCreateTransaction.js\<close>\<close>

record topicCreate =
  topicCreate_adminKey :: "key_tree option"
  topicCreate_submitKey :: "key_tree option"
  topicCreate_autoRenewAccountId :: "account_id option"
  topicCreate_autoRenewPeriod :: "long"
  topicCreate_topicMemo :: "string option"

record topicCreate_body =
  topicCreate_m_adminKey :: "key_message option"
  topicCreate_m_submitKey :: "key_message option"
  topicCreate_m_autoRenewAccount :: "account_message option"
  topicCreate_m_autoRenewPeriod :: "long option option"
  topicCreate_m_memo :: "string option"

definition topicCreate_empty :: "topicCreate" where
  "topicCreate_empty = \<lparr>topicCreate_adminKey = None, topicCreate_submitKey = None,
      topicCreate_autoRenewAccountId = None, topicCreate_autoRenewPeriod = 7776000,
      topicCreate_topicMemo = None\<rparr>"

definition topicCreate_setAdminKey ::
    "key_tree \<Rightarrow> topicCreate base \<Rightarrow> topicCreate base result" where
  "topicCreate_setAdminKey a =
     set_field (put (Inr a) (\<lambda>x d. d\<lparr>topicCreate_adminKey := x\<rparr>))"

definition topicCreate_setSubmitKey ::
    "key_tree \<Rightarrow> topicCreate base \<Rightarrow> topicCreate base result" where
  "topicCreate_setSubmitKey a =
     set_field (put (Inr a) (\<lambda>x d. d\<lparr>topicCreate_submitKey := x\<rparr>))"

definition topicCreate_setAutoRenewAccountId ::
    "'asn transfer_lib \<Rightarrow> account_id id_arg \<Rightarrow> topicCreate base \<Rightarrow> topicCreate base result" where
  "topicCreate_setAutoRenewAccountId E a =
     set_field (put (account_arg E a) (\<lambda>x d. d\<lparr>topicCreate_autoRenewAccountId := x\<rparr>))"

definition topicCreate_setAutoRenewPeriod ::
    "'asn transfer_lib \<Rightarrow> duration_arg \<Rightarrow> topicCreate base \<Rightarrow> topicCreate base result" where
  "topicCreate_setAutoRenewPeriod E a =
     set_field (store (Inr (duration_value E a)) (\<lambda>x d. d\<lparr>topicCreate_autoRenewPeriod := x\<rparr>))"

definition topicCreate_setTopicMemo ::
    "string \<Rightarrow> topicCreate base \<Rightarrow> topicCreate base result" where
  "topicCreate_setTopicMemo a =
     set_field (put (Inr a) (\<lambda>x d. d\<lparr>topicCreate_topicMemo := x\<rparr>))"

definition topicCreate_new ::
    "'asn transfer_lib \<Rightarrow> key_tree option \<Rightarrow> key_tree option \<Rightarrow>
      (account_id id_arg) option \<Rightarrow> duration_arg option \<Rightarrow>
      string option \<Rightarrow> topicCreate base result" where
  "topicCreate_new E a1 a2 a3 a4 a5 =
     chain [given topicCreate_setAdminKey a1, given topicCreate_setSubmitKey a2,
      given (topicCreate_setAutoRenewAccountId E) a3, given (topicCreate_setAutoRenewPeriod E) a4,
      given topicCreate_setTopicMemo a5] (start 200000000 topicCreate_empty)"

definition topicCreate_data :: "'asn transfer_lib \<Rightarrow> topicCreate \<Rightarrow> topicCreate_body result" where
  "topicCreate_data E d =
     res_bind (res_opt tree_message (topicCreate_adminKey d)) (\<lambda>k0.
     res_bind (res_opt tree_message (topicCreate_submitKey d)) (\<lambda>k1.
     Inr \<lparr>topicCreate_m_adminKey = k0, topicCreate_m_submitKey = k1,
      topicCreate_m_autoRenewAccount = make_account E (topicCreate_autoRenewAccountId d),
      topicCreate_m_autoRenewPeriod = Some (Some (topicCreate_autoRenewPeriod d)),
      topicCreate_m_memo = topicCreate_topicMemo d\<rparr>))"

definition topicCreate_fromProtobuf ::
    "'asn transfer_lib \<Rightarrow> topicCreate_body \<Rightarrow> topicCreate base result" where
  "topicCreate_fromProtobuf E b =
     res_bind (read_key E (topicCreate_m_adminKey b)) (\<lambda>x0.
     res_bind (read_key E (topicCreate_m_submitKey b)) (\<lambda>x1.
     res_bind (read_account E (topicCreate_m_autoRenewAccount b)) (\<lambda>x2.
     topicCreate_new E x0 x1 (map_option IdObject x2)
      (map_option (\<lambda>s. DurationSeconds (LongObject s)) (inner (topicCreate_m_autoRenewPeriod b)))
      (topicCreate_m_memo b))))"

definition topicCreate_validateChecksums :: "'asn transfer_lib \<Rightarrow> byte list option \<Rightarrow> topicCreate \<Rightarrow> unit result" where
  "topicCreate_validateChecksums E ledger d =
     all_checked [
      checked (\<lambda>i. account_validateChecksum (lb_long E) i ledger) (topicCreate_autoRenewAccountId d)]"

definition topicCreate_case :: string where
  "topicCreate_case = ''consensusCreateTopic''"

definition topicCreate_execute :: "string \<times> string" where
  "topicCreate_execute = (''consensus'', ''createTopic'')"

definition topicCreate_good :: "topicCreate \<Rightarrow> bool" where
  "topicCreate_good d \<longleftrightarrow> pred_option tree_ok (topicCreate_adminKey d) \<and>
      pred_option tree_ok (topicCreate_submitKey d) \<and>
      pred_option account_ok (topicCreate_autoRenewAccountId d) \<and>
      topicCreate_topicMemo d \<noteq> None"

lemmas topicCreate_defs =
  topicCreate_empty_def topicCreate_setAdminKey_def[abs_def] topicCreate_setSubmitKey_def[abs_def]
      topicCreate_setAutoRenewAccountId_def[abs_def] topicCreate_setAutoRenewPeriod_def[abs_def]
      topicCreate_setTopicMemo_def[abs_def] topicCreate_new_def topicCreate_data_def
      topicCreate_fromProtobuf_def

lemma topicCreate_read_make:
  assumes "transfer_lib_ok E" and "topicCreate_good d"
  shows "\<exists>m. topicCreate_data E d = Inr m \<and> topicCreate_fromProtobuf E m = Inr (start 200000000 d)"
proof -
  have g0: "pred_option tree_ok (topicCreate_adminKey d)" using assms(2) by (simp add: topicCreate_good_def)
  obtain k0 where k0: "res_opt tree_message (topicCreate_adminKey d) = Inr k0" "read_key E k0 = Inr (topicCreate_adminKey d)"
    using key_reads[OF g0] .
  have g1: "pred_option tree_ok (topicCreate_submitKey d)" using assms(2) by (simp add: topicCreate_good_def)
  obtain k1 where k1: "res_opt tree_message (topicCreate_submitKey d) = Inr k1" "read_key E k1 = Inr (topicCreate_submitKey d)"
    using key_reads[OF g1] .
  show ?thesis using assms k0 k1 by (cases d) (simp add: topicCreate_defs topicCreate_good_def field_back)
qed

interpretation topicCreate_rw: body_class topicCreate_data topicCreate_fromProtobuf topicCreate_good "\<lambda>_. 200000000"
  by unfold_locales (rule topicCreate_read_make)

section \<open>\<open>src/topic/TopicUpdateTransaction.js\<close>\<close>

record topicUpdate =
  topicUpdate_topicId :: "topic_id option"
  topicUpdate_topicMemo :: "string option"
  topicUpdate_submitKey :: "key_tree option"
  topicUpdate_adminKey :: "key_tree option"
  topicUpdate_autoRenewAccountId :: "account_id option"
  topicUpdate_autoRenewPeriod :: "long option"
  topicUpdate_expirationTime :: "timestamp option"

record topicUpdate_body =
  topicUpdate_m_topicID :: "id_message option"
  topicUpdate_m_memo :: "string option option"
  topicUpdate_m_submitKey :: "key_message option"
  topicUpdate_m_adminKey :: "key_message option"
  topicUpdate_m_autoRenewAccount :: "account_message option"
  topicUpdate_m_autoRenewPeriod :: "long option option"
  topicUpdate_m_expirationTime :: "ts_message option"

definition topicUpdate_empty :: "topicUpdate" where
  "topicUpdate_empty = \<lparr>topicUpdate_topicId = None, topicUpdate_topicMemo = None,
      topicUpdate_submitKey = None, topicUpdate_adminKey = None, topicUpdate_autoRenewAccountId = None,
      topicUpdate_autoRenewPeriod = None, topicUpdate_expirationTime = None\<rparr>"

definition topicUpdate_setTopicId ::
    "'asn transfer_lib \<Rightarrow> topic_id id_arg \<Rightarrow> topicUpdate base \<Rightarrow> topicUpdate base result" where
  "topicUpdate_setTopicId E a =
     set_field (put (topic_copy E a) (\<lambda>x d. d\<lparr>topicUpdate_topicId := x\<rparr>))"

definition topicUpdate_clearTopicId :: "topicUpdate base \<Rightarrow> topicUpdate base result" where
  "topicUpdate_clearTopicId = set_field (\<lambda>d. Inr (d\<lparr>topicUpdate_topicId := None\<rparr>))"

definition topicUpdate_setTopicMemo ::
    "string \<Rightarrow> topicUpdate base \<Rightarrow> topicUpdate base result" where
  "topicUpdate_setTopicMemo a =
     set_field (put (Inr a) (\<lambda>x d. d\<lparr>topicUpdate_topicMemo := x\<rparr>))"

definition topicUpdate_clearTopicMemo :: "topicUpdate base \<Rightarrow> topicUpdate base result" where
  "topicUpdate_clearTopicMemo = set_field (\<lambda>d. Inr (d\<lparr>topicUpdate_topicMemo := None\<rparr>))"

definition topicUpdate_setSubmitKey ::
    "key_tree \<Rightarrow> topicUpdate base \<Rightarrow> topicUpdate base result" where
  "topicUpdate_setSubmitKey a =
     set_field (put (Inr a) (\<lambda>x d. d\<lparr>topicUpdate_submitKey := x\<rparr>))"

definition topicUpdate_clearSubmitKey :: "topicUpdate base \<Rightarrow> topicUpdate base result" where
  "topicUpdate_clearSubmitKey = set_field (\<lambda>d. Inr (d\<lparr>topicUpdate_submitKey := None\<rparr>))"

definition topicUpdate_setAdminKey ::
    "key_tree \<Rightarrow> topicUpdate base \<Rightarrow> topicUpdate base result" where
  "topicUpdate_setAdminKey a =
     set_field (put (Inr a) (\<lambda>x d. d\<lparr>topicUpdate_adminKey := x\<rparr>))"

definition topicUpdate_clearAdminKey :: "topicUpdate base \<Rightarrow> topicUpdate base result" where
  "topicUpdate_clearAdminKey = set_field (\<lambda>d. Inr (d\<lparr>topicUpdate_adminKey := None\<rparr>))"

definition topicUpdate_setAutoRenewAccountId ::
    "'asn transfer_lib \<Rightarrow> account_id id_arg \<Rightarrow> topicUpdate base \<Rightarrow> topicUpdate base result" where
  "topicUpdate_setAutoRenewAccountId E a =
     set_field (put (account_arg E a) (\<lambda>x d. d\<lparr>topicUpdate_autoRenewAccountId := x\<rparr>))"

definition topicUpdate_clearAutoRenewAccountId :: "topicUpdate base \<Rightarrow> topicUpdate base result" where
  "topicUpdate_clearAutoRenewAccountId = set_field (\<lambda>d. Inr (d\<lparr>topicUpdate_autoRenewAccountId := None\<rparr>))"

definition topicUpdate_setAutoRenewPeriod ::
    "'asn transfer_lib \<Rightarrow> duration_arg \<Rightarrow> topicUpdate base \<Rightarrow> topicUpdate base result" where
  "topicUpdate_setAutoRenewPeriod E a =
     set_field (put (Inr (duration_value E a)) (\<lambda>x d. d\<lparr>topicUpdate_autoRenewPeriod := x\<rparr>))"

definition topicUpdate_setExpirationTime ::
    "'asn transfer_lib \<Rightarrow> timestamp + int \<Rightarrow> topicUpdate base \<Rightarrow> topicUpdate base result" where
  "topicUpdate_setExpirationTime E a =
     set_field (put (date_value E a) (\<lambda>x d. d\<lparr>topicUpdate_expirationTime := x\<rparr>))"

definition topicUpdate_new ::
    "'asn transfer_lib \<Rightarrow> (topic_id id_arg) option \<Rightarrow> string option \<Rightarrow>
      key_tree option \<Rightarrow> key_tree option \<Rightarrow>
      (account_id id_arg) option \<Rightarrow> duration_arg option \<Rightarrow>
      (timestamp + int) option \<Rightarrow> topicUpdate base result" where
  "topicUpdate_new E a1 a2 a3 a4 a5 a6 a7 =
     chain [given (topicUpdate_setTopicId E) a1, given topicUpdate_setTopicMemo a2,
      given topicUpdate_setSubmitKey a3, given topicUpdate_setAdminKey a4,
      given (topicUpdate_setAutoRenewAccountId E) a5, given (topicUpdate_setAutoRenewPeriod E) a6,
      given (topicUpdate_setExpirationTime E) a7] (start 200000000 topicUpdate_empty)"

definition topicUpdate_data :: "'asn transfer_lib \<Rightarrow> topicUpdate \<Rightarrow> topicUpdate_body result" where
  "topicUpdate_data E d =
     res_bind (res_opt tree_message (topicUpdate_submitKey d)) (\<lambda>k0.
     res_bind (res_opt tree_message (topicUpdate_adminKey d)) (\<lambda>k1.
     Inr \<lparr>topicUpdate_m_topicID = map_option topic_toProtobuf (topicUpdate_topicId d),
      topicUpdate_m_memo = map_option Some (topicUpdate_topicMemo d), topicUpdate_m_submitKey = k0,
      topicUpdate_m_adminKey = k1,
      topicUpdate_m_autoRenewAccount = make_account E (topicUpdate_autoRenewAccountId d),
      topicUpdate_m_autoRenewPeriod = map_option Some (topicUpdate_autoRenewPeriod d),
      topicUpdate_m_expirationTime = map_option ts_toProtobuf (topicUpdate_expirationTime d)\<rparr>))"

definition topicUpdate_fromProtobuf ::
    "'asn transfer_lib \<Rightarrow> topicUpdate_body \<Rightarrow> topicUpdate base result" where
  "topicUpdate_fromProtobuf E b =
     res_bind (res_opt topic_fromProtobuf (topicUpdate_m_topicID b)) (\<lambda>x0.
     res_bind (read_key E (topicUpdate_m_submitKey b)) (\<lambda>x1.
     res_bind (read_key E (topicUpdate_m_adminKey b)) (\<lambda>x2.
     res_bind (read_account E (topicUpdate_m_autoRenewAccount b)) (\<lambda>x3.
     topicUpdate_new E (map_option IdObject x0) ((inner (topicUpdate_m_memo b))) x1 x2
      (map_option IdObject x3)
      (map_option (\<lambda>s. DurationSeconds (LongObject s)) (inner (topicUpdate_m_autoRenewPeriod b)))
      (map_option Inl (map_option (ts_fromProtobuf (lb_long E)) (topicUpdate_m_expirationTime b)))))))"

definition topicUpdate_validateChecksums :: "'asn transfer_lib \<Rightarrow> byte list option \<Rightarrow> topicUpdate \<Rightarrow> unit result" where
  "topicUpdate_validateChecksums E ledger d =
     all_checked [
      checked (\<lambda>i. topic_validateChecksum (lb_long E) i ledger) (topicUpdate_topicId d),
      checked (\<lambda>i. account_validateChecksum (lb_long E) i ledger) (topicUpdate_autoRenewAccountId d)]"

definition topicUpdate_case :: string where
  "topicUpdate_case = ''consensusUpdateTopic''"

definition topicUpdate_execute :: "string \<times> string" where
  "topicUpdate_execute = (''consensus'', ''updateTopic'')"

definition topicUpdate_good :: "topicUpdate \<Rightarrow> bool" where
  "topicUpdate_good d \<longleftrightarrow> pred_option plain_id (topicUpdate_topicId d) \<and>
      pred_option tree_ok (topicUpdate_submitKey d) \<and>
      pred_option tree_ok (topicUpdate_adminKey d) \<and>
      pred_option account_ok (topicUpdate_autoRenewAccountId d) \<and>
      pred_option time_fits (topicUpdate_expirationTime d)"

lemmas topicUpdate_defs =
  topicUpdate_empty_def topicUpdate_setTopicId_def[abs_def] topicUpdate_setTopicMemo_def[abs_def]
      topicUpdate_setSubmitKey_def[abs_def] topicUpdate_setAdminKey_def[abs_def]
      topicUpdate_setAutoRenewAccountId_def[abs_def] topicUpdate_setAutoRenewPeriod_def[abs_def]
      topicUpdate_setExpirationTime_def[abs_def] topicUpdate_new_def topicUpdate_data_def
      topicUpdate_fromProtobuf_def

lemma topicUpdate_read_make:
  assumes "transfer_lib_ok E" and "topicUpdate_good d"
  shows "\<exists>m. topicUpdate_data E d = Inr m \<and> topicUpdate_fromProtobuf E m = Inr (start 200000000 d)"
proof -
  have g0: "pred_option tree_ok (topicUpdate_submitKey d)" using assms(2) by (simp add: topicUpdate_good_def)
  obtain k0 where k0: "res_opt tree_message (topicUpdate_submitKey d) = Inr k0" "read_key E k0 = Inr (topicUpdate_submitKey d)"
    using key_reads[OF g0] .
  have g1: "pred_option tree_ok (topicUpdate_adminKey d)" using assms(2) by (simp add: topicUpdate_good_def)
  obtain k1 where k1: "res_opt tree_message (topicUpdate_adminKey d) = Inr k1" "read_key E k1 = Inr (topicUpdate_adminKey d)"
    using key_reads[OF g1] .
  show ?thesis using assms k0 k1 by (cases d) (simp add: topicUpdate_defs topicUpdate_good_def field_back)
qed

interpretation topicUpdate_rw: body_class topicUpdate_data topicUpdate_fromProtobuf topicUpdate_good "\<lambda>_. 200000000"
  by unfold_locales (rule topicUpdate_read_make)

section \<open>\<open>src/topic/TopicDeleteTransaction.js\<close>\<close>

record topicDelete =
  topicDelete_topicId :: "topic_id option"

record topicDelete_body =
  topicDelete_m_topicID :: "id_message option"

definition topicDelete_empty :: "topicDelete" where
  "topicDelete_empty = \<lparr>topicDelete_topicId = None\<rparr>"

definition topicDelete_setTopicId ::
    "'asn transfer_lib \<Rightarrow> topic_id id_arg \<Rightarrow> topicDelete base \<Rightarrow> topicDelete base result" where
  "topicDelete_setTopicId E a =
     set_field (put (topic_copy E a) (\<lambda>x d. d\<lparr>topicDelete_topicId := x\<rparr>))"

definition topicDelete_new ::
    "'asn transfer_lib \<Rightarrow>
      (topic_id id_arg) option \<Rightarrow> topicDelete base result" where
  "topicDelete_new E a1 =
     chain [given (topicDelete_setTopicId E) a1] (start 200000000 topicDelete_empty)"

definition topicDelete_data :: "'asn transfer_lib \<Rightarrow> topicDelete \<Rightarrow> topicDelete_body result" where
  "topicDelete_data E d =
     Inr \<lparr>topicDelete_m_topicID = map_option topic_toProtobuf (topicDelete_topicId d)\<rparr>"

definition topicDelete_fromProtobuf ::
    "'asn transfer_lib \<Rightarrow> topicDelete_body \<Rightarrow> topicDelete base result" where
  "topicDelete_fromProtobuf E b =
     res_bind (res_opt topic_fromProtobuf (topicDelete_m_topicID b)) (\<lambda>x0.
     topicDelete_new E (map_option IdObject x0))"

definition topicDelete_validateChecksums :: "'asn transfer_lib \<Rightarrow> byte list option \<Rightarrow> topicDelete \<Rightarrow> unit result" where
  "topicDelete_validateChecksums E ledger d =
     all_checked [
      checked (\<lambda>i. topic_validateChecksum (lb_long E) i ledger) (topicDelete_topicId d)]"

definition topicDelete_case :: string where
  "topicDelete_case = ''consensusDeleteTopic''"

definition topicDelete_execute :: "string \<times> string" where
  "topicDelete_execute = (''consensus'', ''deleteTopic'')"

definition topicDelete_good :: "topicDelete \<Rightarrow> bool" where
  "topicDelete_good d \<longleftrightarrow> pred_option plain_id (topicDelete_topicId d)"

lemmas topicDelete_defs =
  topicDelete_empty_def topicDelete_setTopicId_def[abs_def] topicDelete_new_def topicDelete_data_def
      topicDelete_fromProtobuf_def

lemma topicDelete_read_make:
  assumes "transfer_lib_ok E" and "topicDelete_good d"
  shows "\<exists>m. topicDelete_data E d = Inr m \<and> topicDelete_fromProtobuf E m = Inr (start 200000000 d)"
  using assms by (cases d) (simp add: topicDelete_defs topicDelete_good_def field_back)

interpretation topicDelete_rw: body_class topicDelete_data topicDelete_fromProtobuf topicDelete_good "\<lambda>_. 200000000"
  by unfold_locales (rule topicDelete_read_make)

section \<open>\<open>src/schedule/ScheduleSignTransaction.js\<close>\<close>

record scheduleSign =
  scheduleSign_scheduleId :: "schedule_id option"

record scheduleSign_body =
  scheduleSign_m_scheduleID :: "id_message option"

definition scheduleSign_empty :: "scheduleSign" where
  "scheduleSign_empty = \<lparr>scheduleSign_scheduleId = None\<rparr>"

definition scheduleSign_setScheduleId ::
    "'asn transfer_lib \<Rightarrow> schedule_id id_arg \<Rightarrow> scheduleSign base \<Rightarrow> scheduleSign base result" where
  "scheduleSign_setScheduleId E a =
     set_field (put (schedule_copy E a) (\<lambda>x d. d\<lparr>scheduleSign_scheduleId := x\<rparr>))"

definition scheduleSign_new ::
    "'asn transfer_lib \<Rightarrow>
      (schedule_id id_arg) option \<Rightarrow> scheduleSign base result" where
  "scheduleSign_new E a1 =
     chain [given (scheduleSign_setScheduleId E) a1] (start 500000000 scheduleSign_empty)"

definition scheduleSign_data :: "'asn transfer_lib \<Rightarrow> scheduleSign \<Rightarrow> scheduleSign_body result" where
  "scheduleSign_data E d =
     Inr \<lparr>scheduleSign_m_scheduleID = map_option schedule_toProtobuf (scheduleSign_scheduleId d)\<rparr>"

definition scheduleSign_fromProtobuf ::
    "'asn transfer_lib \<Rightarrow> scheduleSign_body \<Rightarrow> scheduleSign base result" where
  "scheduleSign_fromProtobuf E b =
     res_bind (res_opt schedule_fromProtobuf (scheduleSign_m_scheduleID b)) (\<lambda>x0.
     scheduleSign_new E (map_option IdObject x0))"

definition scheduleSign_validateChecksums :: "'asn transfer_lib \<Rightarrow> byte list option \<Rightarrow> scheduleSign \<Rightarrow> unit result" where
  "scheduleSign_validateChecksums E ledger d =
     all_checked [
      checked (\<lambda>i. schedule_validateChecksum (lb_long E) i ledger) (scheduleSign_scheduleId d)]"

definition scheduleSign_case :: string where
  "scheduleSign_case = ''scheduleSign''"

definition scheduleSign_execute :: "string \<times> string" where
  "scheduleSign_execute = (''schedule'', ''signSchedule'')"

definition scheduleSign_good :: "scheduleSign \<Rightarrow> bool" where
  "scheduleSign_good d \<longleftrightarrow> pred_option plain_id (scheduleSign_scheduleId d)"

lemmas scheduleSign_defs =
  scheduleSign_empty_def scheduleSign_setScheduleId_def[abs_def] scheduleSign_new_def
      scheduleSign_data_def scheduleSign_fromProtobuf_def

lemma scheduleSign_read_make:
  assumes "transfer_lib_ok E" and "scheduleSign_good d"
  shows "\<exists>m. scheduleSign_data E d = Inr m \<and> scheduleSign_fromProtobuf E m = Inr (start 500000000 d)"
  using assms by (cases d) (simp add: scheduleSign_defs scheduleSign_good_def field_back)

interpretation scheduleSign_rw: body_class scheduleSign_data scheduleSign_fromProtobuf scheduleSign_good "\<lambda>_. 500000000"
  by unfold_locales (rule scheduleSign_read_make)

section \<open>\<open>src/schedule/ScheduleDeleteTransaction.js\<close>\<close>

record scheduleDelete =
  scheduleDelete_scheduleId :: "schedule_id option"

record scheduleDelete_body =
  scheduleDelete_m_scheduleID :: "id_message option"

definition scheduleDelete_empty :: "scheduleDelete" where
  "scheduleDelete_empty = \<lparr>scheduleDelete_scheduleId = None\<rparr>"

definition scheduleDelete_setScheduleId ::
    "'asn transfer_lib \<Rightarrow> schedule_id id_arg \<Rightarrow> scheduleDelete base \<Rightarrow> scheduleDelete base result" where
  "scheduleDelete_setScheduleId E a =
     set_field (put (schedule_copy E a) (\<lambda>x d. d\<lparr>scheduleDelete_scheduleId := x\<rparr>))"

definition scheduleDelete_new ::
    "'asn transfer_lib \<Rightarrow>
      (schedule_id id_arg) option \<Rightarrow> scheduleDelete base result" where
  "scheduleDelete_new E a1 =
     chain [given (scheduleDelete_setScheduleId E) a1] (start 500000000 scheduleDelete_empty)"

definition scheduleDelete_data :: "'asn transfer_lib \<Rightarrow> scheduleDelete \<Rightarrow> scheduleDelete_body result" where
  "scheduleDelete_data E d =
     Inr \<lparr>
      scheduleDelete_m_scheduleID = map_option schedule_toProtobuf (scheduleDelete_scheduleId d)\<rparr>"

definition scheduleDelete_fromProtobuf ::
    "'asn transfer_lib \<Rightarrow> scheduleDelete_body \<Rightarrow> scheduleDelete base result" where
  "scheduleDelete_fromProtobuf E b =
     res_bind (res_opt schedule_fromProtobuf (scheduleDelete_m_scheduleID b)) (\<lambda>x0.
     scheduleDelete_new E (map_option IdObject x0))"

definition scheduleDelete_validateChecksums :: "'asn transfer_lib \<Rightarrow> byte list option \<Rightarrow> scheduleDelete \<Rightarrow> unit result" where
  "scheduleDelete_validateChecksums E ledger d =
     all_checked [
      checked (\<lambda>i. schedule_validateChecksum (lb_long E) i ledger) (scheduleDelete_scheduleId d)]"

definition scheduleDelete_case :: string where
  "scheduleDelete_case = ''scheduleDelete''"

definition scheduleDelete_execute :: "string \<times> string" where
  "scheduleDelete_execute = (''schedule'', ''deleteSchedule'')"

definition scheduleDelete_good :: "scheduleDelete \<Rightarrow> bool" where
  "scheduleDelete_good d \<longleftrightarrow> pred_option plain_id (scheduleDelete_scheduleId d)"

lemmas scheduleDelete_defs =
  scheduleDelete_empty_def scheduleDelete_setScheduleId_def[abs_def] scheduleDelete_new_def
      scheduleDelete_data_def scheduleDelete_fromProtobuf_def

lemma scheduleDelete_read_make:
  assumes "transfer_lib_ok E" and "scheduleDelete_good d"
  shows "\<exists>m. scheduleDelete_data E d = Inr m \<and> scheduleDelete_fromProtobuf E m = Inr (start 500000000 d)"
  using assms by (cases d) (simp add: scheduleDelete_defs scheduleDelete_good_def field_back)

interpretation scheduleDelete_rw: body_class scheduleDelete_data scheduleDelete_fromProtobuf scheduleDelete_good "\<lambda>_. 500000000"
  by unfold_locales (rule scheduleDelete_read_make)

end
