(* ===== verification/SystemActions.thy ===== *)
theory SystemActions
  imports TxFields
begin

text \<open>
  Transactions of the system: deleting and undeleting a file or contract, freezing the network
  (src/system), random numbers (src/PrngTransaction.js), and the nodes of the address book (src/node).
\<close>

text \<open>Kinds of freezing, \<open>src/FreezeType.js\<close>; a kind is its code.\<close>

definition freezeType_texts :: "(nat \<times> string) list" where
  "freezeType_texts = [(0, ''UNKNOWN_FREEZE_TYPE''), (1, ''FREEZE_ONLY''), (2, ''PREPARE_UPGRADE''),
     (3, ''FREEZE_UPGRADE''), (4, ''FREEZE_ABORT''), (5, ''TELEMETRY_UPGRADE'')]"

definition freezeType_toString :: "nat \<Rightarrow> string" where
  "freezeType_toString c =
     (case map_of freezeType_texts c of Some t \<Rightarrow> t | None \<Rightarrow> ''UNKNOWN ('' @ show_nat c @ '')'')"

definition freezeType_fromCode :: "nat \<Rightarrow> nat result" where
  "freezeType_fromCode c =
     (if c < 6 then Inr c
      else Inl (Error (''(BUG) Status.fromCode() does not handle code: '' @ show_nat c)))"

lemma freezeType_back [field_back]:
  "pred_option (\<lambda>c. c < 6) x \<Longrightarrow> res_opt freezeType_fromCode x = Inr x"
  by (cases x) (simp_all add: freezeType_fromCode_def)

text \<open>An hour and a minute.\<close>

type_synonym day_time = "int \<times> int"

lemma put_file_hash_back [field_back]:
  "upd None d = d \<Longrightarrow>
    given (\<lambda>a. set_field (put (Inr (bytes_given a)) upd)) (map_option BytesObject x) (start n d) = Inr (start n (upd x d))"
  by (cases x) (simp_all add: put_def bytes_given_def)

text \<open>Addresses of a node, \<open>ServiceEndpoint.js\<close>: a network address or a name, never both, and a port.\<close>

record service_endpoint =
  se_ipAddressV4 :: "byte list option"
  se_port :: "int option"
  se_domainName :: "string option"

record endpoint_message =
  sm_ipAddressV4 :: "byte list option"
  sm_port :: "int option"
  sm_domainName :: "string option"

definition endpoint_new :: "byte list option \<Rightarrow> int option \<Rightarrow> string option \<Rightarrow> service_endpoint" where
  "endpoint_new i p n = \<lparr>se_ipAddressV4 = i, se_port = p, se_domainName = n\<rparr>"

definition endpoint_setIpAddressV4 :: "byte list \<Rightarrow> service_endpoint \<Rightarrow> service_endpoint result" where
  "endpoint_setIpAddressV4 a e =
     (if se_domainName e \<noteq> None then Inl (Error ''Cannot set IP address when domain name is already set.'')
      else Inr (e\<lparr>se_ipAddressV4 := Some a\<rparr>))"

definition endpoint_setPort :: "int \<Rightarrow> service_endpoint \<Rightarrow> service_endpoint result" where
  "endpoint_setPort a e = Inr (e\<lparr>se_port := Some a\<rparr>)"

definition endpoint_setDomainName :: "string \<Rightarrow> service_endpoint \<Rightarrow> service_endpoint result" where
  "endpoint_setDomainName a e =
     (if se_ipAddressV4 e \<noteq> None then Inl (Error ''Cannot set domain name when IP address is already set.'')
      else Inr (e\<lparr>se_domainName := Some a\<rparr>))"

definition endpoint_fromProtobuf :: "endpoint_message \<Rightarrow> service_endpoint" where
  "endpoint_fromProtobuf m = endpoint_new (sm_ipAddressV4 m) (sm_port m) (sm_domainName m)"

definition endpoint_toProtobuf :: "service_endpoint \<Rightarrow> endpoint_message" where
  "endpoint_toProtobuf e =
     \<lparr>sm_ipAddressV4 = se_ipAddressV4 e, sm_port = se_port e, sm_domainName = se_domainName e\<rparr>"

lemma endpoint_back [simp]: "endpoint_fromProtobuf (endpoint_toProtobuf e) = e"
  by (simp add: endpoint_fromProtobuf_def endpoint_toProtobuf_def endpoint_new_def)

lemma endpoints_back [field_back]:
  "map_option (map endpoint_fromProtobuf) (map_option (map endpoint_toProtobuf) x) = x"
  by (cases x) (simp_all add: comp_def)

text \<open>The setters never leave an endpoint with an address and a name.\<close>

definition endpoint_ok :: "service_endpoint \<Rightarrow> bool" where
  "endpoint_ok e \<longleftrightarrow> se_ipAddressV4 e = None \<or> se_domainName e = None"

lemma endpoint_setters_ok:
  "endpoint_ok e \<Longrightarrow> endpoint_setIpAddressV4 a e = Inr e' \<Longrightarrow> endpoint_ok e'"
  "endpoint_ok e \<Longrightarrow> endpoint_setPort p e = Inr e' \<Longrightarrow> endpoint_ok e'"
  "endpoint_ok e \<Longrightarrow> endpoint_setDomainName n e = Inr e' \<Longrightarrow> endpoint_ok e'"
  by (auto simp: endpoint_ok_def endpoint_setIpAddressV4_def endpoint_setPort_def endpoint_setDomainName_def
      split: if_splits)

text \<open>What the setters of a node accept.\<close>

definition description_value :: "string \<Rightarrow> string result" where
  "description_value a = (if length a > 100 then Inl (Error ''Description must be at most 100 characters.'') else Inr a)"

definition endpoints_value :: "string \<Rightarrow> nat \<Rightarrow> service_endpoint list \<Rightarrow> service_endpoint list result" where
  "endpoints_value what most es =
     (if length es = 0 then Inl (Error (what @ '' list must not be empty.''))
      else if length es > most
        then Inl (Error (what @ '' list must not contain more than '' @ show_nat most @ '' entries.''))
      else Inr es)"

definition certificate_value :: "byte list \<Rightarrow> byte list result" where
  "certificate_value b = (if length b = 0 then Inl (Error ''GossipCaCertificate must not be empty.'') else Inr b)"

section \<open>\<open>src/system/SystemDeleteTransaction.js\<close>\<close>

record systemDelete =
  systemDelete_fileId :: "file_id option"
  systemDelete_contractId :: "contract_id option"
  systemDelete_expirationTime :: "timestamp option"

record systemDelete_body =
  systemDelete_m_fileID :: "id_message option"
  systemDelete_m_contractID :: "contract_message option"
  systemDelete_m_expirationTime :: "ts_message option"

definition systemDelete_empty :: "systemDelete" where
  "systemDelete_empty = \<lparr>systemDelete_fileId = None, systemDelete_contractId = None,
      systemDelete_expirationTime = None\<rparr>"

definition systemDelete_setFileId ::
    "'asn transfer_lib \<Rightarrow> file_id id_arg \<Rightarrow> systemDelete base \<Rightarrow> systemDelete base result" where
  "systemDelete_setFileId E a =
     set_field (put (file_arg E a) (\<lambda>x d. d\<lparr>systemDelete_fileId := x\<rparr>))"

definition systemDelete_setContractId ::
    "'asn transfer_lib \<Rightarrow> contract_id id_arg \<Rightarrow> systemDelete base \<Rightarrow> systemDelete base result" where
  "systemDelete_setContractId E a =
     set_field (put (contract_arg E a) (\<lambda>x d. d\<lparr>systemDelete_contractId := x\<rparr>))"

definition systemDelete_setExpirationTime ::
    "timestamp \<Rightarrow> systemDelete base \<Rightarrow> systemDelete base result" where
  "systemDelete_setExpirationTime a =
     set_field (put (Inr a) (\<lambda>x d. d\<lparr>systemDelete_expirationTime := x\<rparr>))"

definition systemDelete_new ::
    "'asn transfer_lib \<Rightarrow> (file_id id_arg) option \<Rightarrow>
      (contract_id id_arg) option \<Rightarrow>
      timestamp option \<Rightarrow> systemDelete base result" where
  "systemDelete_new E a1 a2 a3 =
     chain [given (systemDelete_setFileId E) a1, given (systemDelete_setContractId E) a2,
      given systemDelete_setExpirationTime a3] (start 200000000 systemDelete_empty)"

definition systemDelete_data :: "'asn transfer_lib \<Rightarrow> systemDelete \<Rightarrow> systemDelete_body result" where
  "systemDelete_data E d =
     Inr \<lparr>systemDelete_m_fileID = map_option file_toProtobuf (systemDelete_fileId d),
      systemDelete_m_contractID = map_option contract_toProtobuf (systemDelete_contractId d),
      systemDelete_m_expirationTime = map_option ts_toProtobuf (systemDelete_expirationTime d)\<rparr>"

definition systemDelete_fromProtobuf ::
    "'asn transfer_lib \<Rightarrow> systemDelete_body \<Rightarrow> systemDelete base result" where
  "systemDelete_fromProtobuf E b =
     res_bind (res_opt (file_fromProtobuf (lb_long E)) (systemDelete_m_fileID b)) (\<lambda>x0.
     res_bind (res_opt contract_fromProtobuf (systemDelete_m_contractID b)) (\<lambda>x1.
     systemDelete_new E (map_option IdObject x0) (map_option IdObject x1)
      ((map_option (ts_fromProtobuf (lb_long E)) (systemDelete_m_expirationTime b)))))"

definition systemDelete_case :: string where
  "systemDelete_case = ''systemDelete''"

definition systemDelete_execute :: "systemDelete \<Rightarrow> string \<times> string" where
  "systemDelete_execute d = (if systemDelete_fileId d \<noteq> None then (''file'', ''systemDelete'') else (''smartContract'', ''systemDelete''))"

definition systemDelete_good :: "systemDelete \<Rightarrow> bool" where
  "systemDelete_good d \<longleftrightarrow> pred_option plain_id (systemDelete_fileId d) \<and>
      pred_option plain_contract (systemDelete_contractId d) \<and>
      pred_option time_fits (systemDelete_expirationTime d) \<and>
      (systemDelete_fileId d = None \<or> systemDelete_contractId d = None)"

lemmas systemDelete_defs =
  systemDelete_empty_def systemDelete_setFileId_def[abs_def] systemDelete_setContractId_def[abs_def]
      systemDelete_setExpirationTime_def[abs_def] systemDelete_new_def systemDelete_data_def
      systemDelete_fromProtobuf_def

lemma systemDelete_read_make:
  assumes "transfer_lib_ok E" and "systemDelete_good d"
  shows "\<exists>m. systemDelete_data E d = Inr m \<and> systemDelete_fromProtobuf E m = Inr (start 200000000 d)"
  using assms by (cases d) (simp add: systemDelete_defs systemDelete_good_def field_back)

interpretation systemDelete_rw: body_class systemDelete_data systemDelete_fromProtobuf systemDelete_good "\<lambda>_. 200000000"
  by unfold_locales (rule systemDelete_read_make)

section \<open>\<open>src/system/SystemUndeleteTransaction.js\<close>\<close>

record systemUndelete =
  systemUndelete_fileId :: "file_id option"
  systemUndelete_contractId :: "contract_id option"

record systemUndelete_body =
  systemUndelete_m_fileID :: "id_message option"
  systemUndelete_m_contractID :: "contract_message option"

definition systemUndelete_empty :: "systemUndelete" where
  "systemUndelete_empty = \<lparr>systemUndelete_fileId = None, systemUndelete_contractId = None\<rparr>"

definition systemUndelete_setFileId ::
    "'asn transfer_lib \<Rightarrow> file_id id_arg \<Rightarrow> systemUndelete base \<Rightarrow> systemUndelete base result" where
  "systemUndelete_setFileId E a =
     set_field (put (file_arg E a) (\<lambda>x d. d\<lparr>systemUndelete_fileId := x\<rparr>))"

definition systemUndelete_setContractId ::
    "'asn transfer_lib \<Rightarrow> contract_id id_arg \<Rightarrow> systemUndelete base \<Rightarrow> systemUndelete base result" where
  "systemUndelete_setContractId E a =
     set_field (put (contract_arg E a) (\<lambda>x d. d\<lparr>systemUndelete_contractId := x\<rparr>))"

definition systemUndelete_new ::
    "'asn transfer_lib \<Rightarrow> (file_id id_arg) option \<Rightarrow>
      (contract_id id_arg) option \<Rightarrow> systemUndelete base result" where
  "systemUndelete_new E a1 a2 =
     chain [given (systemUndelete_setFileId E) a1,
      given (systemUndelete_setContractId E) a2] (start 200000000 systemUndelete_empty)"

definition systemUndelete_data :: "'asn transfer_lib \<Rightarrow> systemUndelete \<Rightarrow> systemUndelete_body result" where
  "systemUndelete_data E d =
     Inr \<lparr>systemUndelete_m_fileID = map_option file_toProtobuf (systemUndelete_fileId d),
      systemUndelete_m_contractID = map_option contract_toProtobuf (systemUndelete_contractId d)\<rparr>"

definition systemUndelete_fromProtobuf ::
    "'asn transfer_lib \<Rightarrow> systemUndelete_body \<Rightarrow> systemUndelete base result" where
  "systemUndelete_fromProtobuf E b =
     res_bind (res_opt (file_fromProtobuf (lb_long E)) (systemUndelete_m_fileID b)) (\<lambda>x0.
     res_bind (res_opt contract_fromProtobuf (systemUndelete_m_contractID b)) (\<lambda>x1.
     systemUndelete_new E (map_option IdObject x0) (map_option IdObject x1)))"

definition systemUndelete_case :: string where
  "systemUndelete_case = ''systemUndelete''"

definition systemUndelete_execute :: "systemUndelete \<Rightarrow> string \<times> string" where
  "systemUndelete_execute d = (if systemUndelete_fileId d \<noteq> None then (''file'', ''systemUndelete'') else (''smartContract'', ''systemUndelete''))"

definition systemUndelete_good :: "systemUndelete \<Rightarrow> bool" where
  "systemUndelete_good d \<longleftrightarrow> pred_option plain_id (systemUndelete_fileId d) \<and>
      pred_option plain_contract (systemUndelete_contractId d) \<and>
      (systemUndelete_fileId d = None \<or> systemUndelete_contractId d = None)"

lemmas systemUndelete_defs =
  systemUndelete_empty_def systemUndelete_setFileId_def[abs_def]
      systemUndelete_setContractId_def[abs_def] systemUndelete_new_def systemUndelete_data_def
      systemUndelete_fromProtobuf_def

lemma systemUndelete_read_make:
  assumes "transfer_lib_ok E" and "systemUndelete_good d"
  shows "\<exists>m. systemUndelete_data E d = Inr m \<and> systemUndelete_fromProtobuf E m = Inr (start 200000000 d)"
  using assms by (cases d) (simp add: systemUndelete_defs systemUndelete_good_def field_back)

interpretation systemUndelete_rw: body_class systemUndelete_data systemUndelete_fromProtobuf systemUndelete_good "\<lambda>_. 200000000"
  by unfold_locales (rule systemUndelete_read_make)

section \<open>\<open>src/system/FreezeTransaction.js\<close>\<close>

text \<open>A time of day is an hour and a minute; given as a text it is not modelled. The message
  has fields for the hours and minutes, which are not written and so read as 0.\<close>

record freeze =
  freeze_startTime :: "day_time option"
  freeze_endTime :: "day_time option"
  freeze_startTimestamp :: "timestamp option"
  freeze_fileId :: "file_id option"
  freeze_fileHash :: "byte list option"
  freeze_freezeType :: "nat option"

record freeze_body =
  freeze_m_start :: "day_time"
  freeze_m_end :: "day_time"
  freeze_m_startTime :: "ts_message option"
  freeze_m_updateFile :: "id_message option"
  freeze_m_fileHash :: "byte list option"
  freeze_m_freezeType :: "nat option"

definition freeze_empty :: "freeze" where
  "freeze_empty = \<lparr>freeze_startTime = None, freeze_endTime = None, freeze_startTimestamp = None,
      freeze_fileId = None, freeze_fileHash = None, freeze_freezeType = None\<rparr>"

definition freeze_setStartTime ::
    "day_time \<Rightarrow> freeze base \<Rightarrow> freeze base result" where
  "freeze_setStartTime a =
     set_field (put (Inr a) (\<lambda>x d. d\<lparr>freeze_startTime := x\<rparr>))"

definition freeze_setEndTime ::
    "day_time \<Rightarrow> freeze base \<Rightarrow> freeze base result" where
  "freeze_setEndTime a = set_field (put (Inr a) (\<lambda>x d. d\<lparr>freeze_endTime := x\<rparr>))"

definition freeze_setStartTimestamp ::
    "timestamp \<Rightarrow> freeze base \<Rightarrow> freeze base result" where
  "freeze_setStartTimestamp a =
     set_field (put (Inr a) (\<lambda>x d. d\<lparr>freeze_startTimestamp := x\<rparr>))"

definition freeze_setFileId ::
    "file_id \<Rightarrow> freeze base \<Rightarrow> freeze base result" where
  "freeze_setFileId a = set_field (put (Inr a) (\<lambda>x d. d\<lparr>freeze_fileId := x\<rparr>))"

definition freeze_setFileHash ::
    "bytes_arg \<Rightarrow> freeze base \<Rightarrow> freeze base result" where
  "freeze_setFileHash a =
     set_field (put (Inr (bytes_given a)) (\<lambda>x d. d\<lparr>freeze_fileHash := x\<rparr>))"

definition freeze_setFreezeType ::
    "nat \<Rightarrow> freeze base \<Rightarrow> freeze base result" where
  "freeze_setFreezeType a =
     set_field (put (Inr a) (\<lambda>x d. d\<lparr>freeze_freezeType := x\<rparr>))"

definition freeze_setUpdateFileId :: "file_id \<Rightarrow> freeze base \<Rightarrow> freeze base result" where
  "freeze_setUpdateFileId a = freeze_setFileId a"

text \<open>The getter of the start time always returns \<open>null\<close>.\<close>

definition freeze_get_startTime :: "freeze base \<Rightarrow> day_time option" where
  "freeze_get_startTime t = None"

definition freeze_get_endTime :: "freeze base \<Rightarrow> day_time option" where
  "freeze_get_endTime t = freeze_endTime (tx_data t)"

definition freeze_new ::
    "'asn transfer_lib \<Rightarrow> day_time option \<Rightarrow> day_time option \<Rightarrow>
      timestamp option \<Rightarrow> file_id option \<Rightarrow> file_id option \<Rightarrow>
      bytes_arg option \<Rightarrow> nat option \<Rightarrow> freeze base result" where
  "freeze_new E a1 a2 a3 a4 a5 a6 a7 =
     chain [given freeze_setStartTime a1, given freeze_setEndTime a2, given freeze_setStartTimestamp a3,
      given freeze_setFileId a4, given freeze_setFileId a5, given freeze_setFileHash a6,
      given freeze_setFreezeType a7] (start 200000000 freeze_empty)"

definition freeze_data :: "'asn transfer_lib \<Rightarrow> freeze \<Rightarrow> freeze_body result" where
  "freeze_data E d =
     Inr \<lparr>freeze_m_start = (0, 0), freeze_m_end = (0, 0),
      freeze_m_startTime = map_option ts_toProtobuf (freeze_startTimestamp d),
      freeze_m_updateFile = map_option file_toProtobuf (freeze_fileId d),
      freeze_m_fileHash = freeze_fileHash d, freeze_m_freezeType = freeze_freezeType d\<rparr>"

definition freeze_fromProtobuf ::
    "'asn transfer_lib \<Rightarrow> freeze_body \<Rightarrow> freeze base result" where
  "freeze_fromProtobuf E b =
     res_bind (res_opt (file_fromProtobuf (lb_long E)) (freeze_m_updateFile b)) (\<lambda>x0.
     res_bind (res_opt freezeType_fromCode (freeze_m_freezeType b)) (\<lambda>x1.
     freeze_new E ((Some (freeze_m_start b))) ((Some (freeze_m_end b)))
      ((map_option (ts_fromProtobuf (lb_long E)) (freeze_m_startTime b))) x0 None
      (map_option BytesObject (freeze_m_fileHash b)) x1))"

definition freeze_case :: string where
  "freeze_case = ''freeze''"

definition freeze_execute :: "string \<times> string" where
  "freeze_execute = (''freeze'', ''freeze'')"

definition freeze_good :: "freeze \<Rightarrow> bool" where
  "freeze_good d \<longleftrightarrow> freeze_startTime d = Some (0, 0) \<and>
      freeze_endTime d = Some (0, 0) \<and> pred_option time_fits (freeze_startTimestamp d) \<and>
      pred_option plain_id (freeze_fileId d) \<and> freeze_fileHash d \<noteq> None \<and>
      pred_option (\<lambda>c. c < 6) (freeze_freezeType d) \<and> freeze_freezeType d \<noteq> None"

lemmas freeze_defs =
  freeze_empty_def freeze_setStartTime_def[abs_def] freeze_setEndTime_def[abs_def]
      freeze_setStartTimestamp_def[abs_def] freeze_setFileId_def[abs_def] freeze_setFileHash_def[abs_def]
      freeze_setFreezeType_def[abs_def] freeze_new_def freeze_data_def freeze_fromProtobuf_def

lemma freeze_read_make:
  assumes "transfer_lib_ok E" and "freeze_good d"
  shows "\<exists>m. freeze_data E d = Inr m \<and> freeze_fromProtobuf E m = Inr (start 200000000 d)"
  using assms by (cases d) (simp add: freeze_defs freeze_good_def field_back)

interpretation freeze_rw: body_class freeze_data freeze_fromProtobuf freeze_good "\<lambda>_. 200000000"
  by unfold_locales (rule freeze_read_make)

section \<open>\<open>src/PrngTransaction.js\<close>\<close>

text \<open>The setter does not look whether the transaction is frozen, and
  \<open>_validateChecksums\<close> calls itself.\<close>

record prng =
  prng_range :: "int option"

record prng_body =
  prng_m_range :: "int option"

definition prng_empty :: "prng" where
  "prng_empty = \<lparr>prng_range = None\<rparr>"

definition prng_setRange :: "int \<Rightarrow> prng base \<Rightarrow> prng base result" where
  "prng_setRange a = set_unguarded (put (Inr a) (\<lambda>x d. d\<lparr>prng_range := x\<rparr>))"

text \<open>With a range the recursion has no end and the engine throws.\<close>

definition prng_validateChecksums :: "prng \<Rightarrow> unit result" where
  "prng_validateChecksums d =
     (if prng_range d \<noteq> None then Inl (RangeError ''Maximum call stack size exceeded'') else Inr ())"

definition prng_new ::
    "'asn transfer_lib \<Rightarrow> int option \<Rightarrow> prng base result" where
  "prng_new E a1 =
     chain [given prng_setRange a1] (start 200000000 prng_empty)"

definition prng_data :: "'asn transfer_lib \<Rightarrow> prng \<Rightarrow> prng_body result" where
  "prng_data E d =
     Inr \<lparr>prng_m_range = prng_range d\<rparr>"

definition prng_fromProtobuf ::
    "'asn transfer_lib \<Rightarrow> prng_body \<Rightarrow> prng base result" where
  "prng_fromProtobuf E b =
     prng_new E (prng_m_range b)"

definition prng_case :: string where
  "prng_case = ''utilPrng''"

definition prng_execute :: "string \<times> string" where
  "prng_execute = (''util'', ''prng'')"

definition prng_good :: "prng \<Rightarrow> bool" where
  "prng_good d \<longleftrightarrow> prng_range d \<noteq> None"

lemmas prng_defs =
  prng_empty_def prng_setRange_def[abs_def] prng_new_def prng_data_def prng_fromProtobuf_def

lemma prng_read_make:
  assumes "transfer_lib_ok E" and "prng_good d"
  shows "\<exists>m. prng_data E d = Inr m \<and> prng_fromProtobuf E m = Inr (start 200000000 d)"
  using assms by (cases d) (simp add: prng_defs prng_good_def field_back)

interpretation prng_rw: body_class prng_data prng_fromProtobuf prng_good "\<lambda>_. 200000000"
  by unfold_locales (rule prng_read_make)

section \<open>\<open>src/node/NodeCreateTransaction.js\<close>\<close>

record nodeCreate =
  nodeCreate_accountId :: "account_id option"
  nodeCreate_description :: "string option"
  nodeCreate_gossipEndpoints :: "service_endpoint list option"
  nodeCreate_serviceEndpoints :: "service_endpoint list option"
  nodeCreate_gossipCaCertificate :: "byte list option"
  nodeCreate_grpcCertificateHash :: "byte list option"
  nodeCreate_adminKey :: "key_tree option"

record nodeCreate_body =
  nodeCreate_m_accountId :: "account_message option"
  nodeCreate_m_description :: "string option"
  nodeCreate_m_gossipEndpoint :: "endpoint_message list option"
  nodeCreate_m_serviceEndpoint :: "endpoint_message list option"
  nodeCreate_m_gossipCaCertificate :: "byte list option"
  nodeCreate_m_grpcCertificateHash :: "byte list option"
  nodeCreate_m_adminKey :: "key_message option"

definition nodeCreate_setAccountId ::
    "'asn transfer_lib \<Rightarrow> account_id id_arg \<Rightarrow> nodeCreate base \<Rightarrow> nodeCreate base result" where
  "nodeCreate_setAccountId E a =
     set_field (put (account_arg E a) (\<lambda>x d. d\<lparr>nodeCreate_accountId := x\<rparr>))"

definition nodeCreate_setDescription ::
    "string \<Rightarrow> nodeCreate base \<Rightarrow> nodeCreate base result" where
  "nodeCreate_setDescription a =
     set_field (put (description_value a) (\<lambda>x d. d\<lparr>nodeCreate_description := x\<rparr>))"

definition nodeCreate_setGossipEndpoints ::
    "service_endpoint list \<Rightarrow> nodeCreate base \<Rightarrow> nodeCreate base result" where
  "nodeCreate_setGossipEndpoints a =
     set_field (put (endpoints_value ''GossipEndpoints'' 10 a) (\<lambda>x d. d\<lparr>nodeCreate_gossipEndpoints := x\<rparr>))"

definition nodeCreate_setServiceEndpoints ::
    "service_endpoint list \<Rightarrow> nodeCreate base \<Rightarrow> nodeCreate base result" where
  "nodeCreate_setServiceEndpoints a =
     set_field (put (endpoints_value ''ServiceEndpoints'' 8 a) (\<lambda>x d. d\<lparr>nodeCreate_serviceEndpoints := x\<rparr>))"

definition nodeCreate_setGossipCaCertificate ::
    "byte list \<Rightarrow> nodeCreate base \<Rightarrow> nodeCreate base result" where
  "nodeCreate_setGossipCaCertificate a =
     set_field (put (certificate_value a) (\<lambda>x d. d\<lparr>nodeCreate_gossipCaCertificate := x\<rparr>))"

definition nodeCreate_setCertificateHash ::
    "byte list \<Rightarrow> nodeCreate base \<Rightarrow> nodeCreate base result" where
  "nodeCreate_setCertificateHash a =
     set_field (put (Inr a) (\<lambda>x d. d\<lparr>nodeCreate_grpcCertificateHash := x\<rparr>))"

definition nodeCreate_setAdminKey ::
    "key_tree \<Rightarrow> nodeCreate base \<Rightarrow> nodeCreate base result" where
  "nodeCreate_setAdminKey a =
     set_field (put (Inr a) (\<lambda>x d. d\<lparr>nodeCreate_adminKey := x\<rparr>))"

definition nodeCreate_addGossipEndpoint :: "service_endpoint \<Rightarrow> nodeCreate base \<Rightarrow> nodeCreate base result" where
  "nodeCreate_addGossipEndpoint a = set_unguarded (\<lambda>d. Inr (d\<lparr>nodeCreate_gossipEndpoints := map_option (\<lambda>es. es @ [a]) (nodeCreate_gossipEndpoints d)\<rparr>))"

definition nodeCreate_addServiceEndpoint :: "service_endpoint \<Rightarrow> nodeCreate base \<Rightarrow> nodeCreate base result" where
  "nodeCreate_addServiceEndpoint a = set_unguarded (\<lambda>d. Inr (d\<lparr>nodeCreate_serviceEndpoints := map_option (\<lambda>es. es @ [a]) (nodeCreate_serviceEndpoints d)\<rparr>))"

definition nodeCreate_new ::
    "account_id option \<Rightarrow> string option \<Rightarrow>
      service_endpoint list option \<Rightarrow> service_endpoint list option \<Rightarrow>
      byte list option \<Rightarrow> byte list option \<Rightarrow>
      key_tree option \<Rightarrow> nodeCreate base result" where
  "nodeCreate_new a1 a2 a3 a4 a5 a6 a7 =
     Inr (start 200000000 \<lparr>nodeCreate_accountId = a1, nodeCreate_description = a2,
      nodeCreate_gossipEndpoints = a3, nodeCreate_serviceEndpoints = a4,
      nodeCreate_gossipCaCertificate = a5, nodeCreate_grpcCertificateHash = a6,
      nodeCreate_adminKey = a7\<rparr>)"

definition nodeCreate_data :: "'asn transfer_lib \<Rightarrow> nodeCreate \<Rightarrow> nodeCreate_body result" where
  "nodeCreate_data E d =
     res_bind (res_opt tree_message (nodeCreate_adminKey d)) (\<lambda>k0.
     Inr \<lparr>nodeCreate_m_accountId = make_account E (nodeCreate_accountId d),
      nodeCreate_m_description = nodeCreate_description d,
      nodeCreate_m_gossipEndpoint = map_option (map endpoint_toProtobuf) (nodeCreate_gossipEndpoints d),
      nodeCreate_m_serviceEndpoint = map_option (map endpoint_toProtobuf) (nodeCreate_serviceEndpoints d),
      nodeCreate_m_gossipCaCertificate = nodeCreate_gossipCaCertificate d,
      nodeCreate_m_grpcCertificateHash = nodeCreate_grpcCertificateHash d,
      nodeCreate_m_adminKey = k0\<rparr>)"

definition nodeCreate_fromProtobuf ::
    "'asn transfer_lib \<Rightarrow> nodeCreate_body \<Rightarrow> nodeCreate base result" where
  "nodeCreate_fromProtobuf E b =
     res_bind (read_account E (nodeCreate_m_accountId b)) (\<lambda>x0.
     res_bind (read_key E (nodeCreate_m_adminKey b)) (\<lambda>x1.
     nodeCreate_new x0 (nodeCreate_m_description b)
      ((map_option (map endpoint_fromProtobuf) (nodeCreate_m_gossipEndpoint b)))
      ((map_option (map endpoint_fromProtobuf) (nodeCreate_m_serviceEndpoint b)))
      (nodeCreate_m_gossipCaCertificate b) (nodeCreate_m_grpcCertificateHash b) x1))"

definition nodeCreate_case :: string where
  "nodeCreate_case = ''nodeCreate''"

definition nodeCreate_execute :: "string \<times> string" where
  "nodeCreate_execute = (''addressBook'', ''createNode'')"

definition nodeCreate_good :: "nodeCreate \<Rightarrow> bool" where
  "nodeCreate_good d \<longleftrightarrow> pred_option account_ok (nodeCreate_accountId d) \<and>
      nodeCreate_description d \<noteq> None \<and> nodeCreate_gossipCaCertificate d \<noteq> None \<and>
      nodeCreate_grpcCertificateHash d \<noteq> None \<and> pred_option tree_ok (nodeCreate_adminKey d)"

lemmas nodeCreate_defs =
  nodeCreate_setAccountId_def[abs_def] nodeCreate_setDescription_def[abs_def]
      nodeCreate_setGossipEndpoints_def[abs_def] nodeCreate_setServiceEndpoints_def[abs_def]
      nodeCreate_setGossipCaCertificate_def[abs_def] nodeCreate_setCertificateHash_def[abs_def]
      nodeCreate_setAdminKey_def[abs_def] nodeCreate_new_def nodeCreate_data_def
      nodeCreate_fromProtobuf_def

lemma nodeCreate_read_make:
  assumes "transfer_lib_ok E" and "nodeCreate_good d"
  shows "\<exists>m. nodeCreate_data E d = Inr m \<and> nodeCreate_fromProtobuf E m = Inr (start 200000000 d)"
proof -
  have g0: "pred_option tree_ok (nodeCreate_adminKey d)" using assms(2) by (simp add: nodeCreate_good_def)
  obtain k0 where k0: "res_opt tree_message (nodeCreate_adminKey d) = Inr k0" "read_key E k0 = Inr (nodeCreate_adminKey d)"
    using key_reads[OF g0] .
  show ?thesis using assms k0 by (cases d) (simp add: nodeCreate_defs nodeCreate_good_def field_back)
qed

interpretation nodeCreate_rw: body_class nodeCreate_data nodeCreate_fromProtobuf nodeCreate_good "\<lambda>_. 200000000"
  by unfold_locales (rule nodeCreate_read_make)

section \<open>\<open>src/node/NodeUpdateTransaction.js\<close>\<close>

text \<open>The message always has a description around the value, also when none was set.\<close>

record nodeUpdate =
  nodeUpdate_nodeId :: "long option"
  nodeUpdate_accountId :: "account_id option"
  nodeUpdate_description :: "string option"
  nodeUpdate_gossipEndpoints :: "service_endpoint list option"
  nodeUpdate_serviceEndpoints :: "service_endpoint list option"
  nodeUpdate_gossipCaCertificate :: "byte list option"
  nodeUpdate_grpcCertificateHash :: "byte list option"
  nodeUpdate_adminKey :: "key_tree option"

record nodeUpdate_body =
  nodeUpdate_m_nodeId :: "long option"
  nodeUpdate_m_accountId :: "account_message option"
  nodeUpdate_m_description :: "string option option"
  nodeUpdate_m_gossipEndpoint :: "endpoint_message list option"
  nodeUpdate_m_serviceEndpoint :: "endpoint_message list option"
  nodeUpdate_m_gossipCaCertificate :: "byte list option option"
  nodeUpdate_m_grpcCertificateHash :: "byte list option option"
  nodeUpdate_m_adminKey :: "key_message option"

definition nodeUpdate_setNodeId ::
    "long \<Rightarrow> nodeUpdate base \<Rightarrow> nodeUpdate base result" where
  "nodeUpdate_setNodeId a =
     set_field (put (Inr a) (\<lambda>x d. d\<lparr>nodeUpdate_nodeId := x\<rparr>))"

definition nodeUpdate_setAccountId ::
    "'asn transfer_lib \<Rightarrow> account_id id_arg \<Rightarrow> nodeUpdate base \<Rightarrow> nodeUpdate base result" where
  "nodeUpdate_setAccountId E a =
     set_field (put (account_arg E a) (\<lambda>x d. d\<lparr>nodeUpdate_accountId := x\<rparr>))"

definition nodeUpdate_setDescription ::
    "string \<Rightarrow> nodeUpdate base \<Rightarrow> nodeUpdate base result" where
  "nodeUpdate_setDescription a =
     set_field (put (description_value a) (\<lambda>x d. d\<lparr>nodeUpdate_description := x\<rparr>))"

definition nodeUpdate_clearDescription :: "nodeUpdate base \<Rightarrow> nodeUpdate base result" where
  "nodeUpdate_clearDescription = set_unguarded (\<lambda>d. Inr (d\<lparr>nodeUpdate_description := Some ''''\<rparr>))"

definition nodeUpdate_setGossipEndpoints ::
    "service_endpoint list \<Rightarrow> nodeUpdate base \<Rightarrow> nodeUpdate base result" where
  "nodeUpdate_setGossipEndpoints a =
     set_field (put (endpoints_value ''GossipEndpoints'' 10 a) (\<lambda>x d. d\<lparr>nodeUpdate_gossipEndpoints := x\<rparr>))"

definition nodeUpdate_setServiceEndpoints ::
    "service_endpoint list \<Rightarrow> nodeUpdate base \<Rightarrow> nodeUpdate base result" where
  "nodeUpdate_setServiceEndpoints a =
     set_field (put (endpoints_value ''ServiceEndpoints'' 8 a) (\<lambda>x d. d\<lparr>nodeUpdate_serviceEndpoints := x\<rparr>))"

definition nodeUpdate_setGossipCaCertificate ::
    "byte list \<Rightarrow> nodeUpdate base \<Rightarrow> nodeUpdate base result" where
  "nodeUpdate_setGossipCaCertificate a =
     set_field (put (certificate_value a) (\<lambda>x d. d\<lparr>nodeUpdate_gossipCaCertificate := x\<rparr>))"

definition nodeUpdate_setCertificateHash ::
    "byte list \<Rightarrow> nodeUpdate base \<Rightarrow> nodeUpdate base result" where
  "nodeUpdate_setCertificateHash a =
     set_field (put (Inr a) (\<lambda>x d. d\<lparr>nodeUpdate_grpcCertificateHash := x\<rparr>))"

definition nodeUpdate_setAdminKey ::
    "key_tree \<Rightarrow> nodeUpdate base \<Rightarrow> nodeUpdate base result" where
  "nodeUpdate_setAdminKey a =
     set_field (put (Inr a) (\<lambda>x d. d\<lparr>nodeUpdate_adminKey := x\<rparr>))"

definition nodeUpdate_addGossipEndpoint :: "service_endpoint \<Rightarrow> nodeUpdate base \<Rightarrow> nodeUpdate base result" where
  "nodeUpdate_addGossipEndpoint a = set_field (\<lambda>d. Inr (d\<lparr>nodeUpdate_gossipEndpoints := map_option (\<lambda>es. es @ [a]) (nodeUpdate_gossipEndpoints d)\<rparr>))"

definition nodeUpdate_addServiceEndpoint :: "service_endpoint \<Rightarrow> nodeUpdate base \<Rightarrow> nodeUpdate base result" where
  "nodeUpdate_addServiceEndpoint a = set_field (\<lambda>d. Inr (d\<lparr>nodeUpdate_serviceEndpoints := map_option (\<lambda>es. es @ [a]) (nodeUpdate_serviceEndpoints d)\<rparr>))"

definition nodeUpdate_new ::
    "long option \<Rightarrow> account_id option \<Rightarrow> string option \<Rightarrow>
      service_endpoint list option \<Rightarrow> service_endpoint list option \<Rightarrow>
      byte list option \<Rightarrow> byte list option \<Rightarrow>
      key_tree option \<Rightarrow> nodeUpdate base result" where
  "nodeUpdate_new a1 a2 a3 a4 a5 a6 a7 a8 =
     Inr (start 200000000 \<lparr>nodeUpdate_nodeId = a1, nodeUpdate_accountId = a2,
      nodeUpdate_description = a3, nodeUpdate_gossipEndpoints = a4, nodeUpdate_serviceEndpoints = a5,
      nodeUpdate_gossipCaCertificate = a6, nodeUpdate_grpcCertificateHash = a7,
      nodeUpdate_adminKey = a8\<rparr>)"

definition nodeUpdate_data :: "'asn transfer_lib \<Rightarrow> nodeUpdate \<Rightarrow> nodeUpdate_body result" where
  "nodeUpdate_data E d =
     res_bind (res_opt tree_message (nodeUpdate_adminKey d)) (\<lambda>k0.
     Inr \<lparr>nodeUpdate_m_nodeId = nodeUpdate_nodeId d,
      nodeUpdate_m_accountId = make_account E (nodeUpdate_accountId d),
      nodeUpdate_m_description = Some (nodeUpdate_description d),
      nodeUpdate_m_gossipEndpoint = map_option (map endpoint_toProtobuf) (nodeUpdate_gossipEndpoints d),
      nodeUpdate_m_serviceEndpoint = map_option (map endpoint_toProtobuf) (nodeUpdate_serviceEndpoints d),
      nodeUpdate_m_gossipCaCertificate = map_option Some (nodeUpdate_gossipCaCertificate d),
      nodeUpdate_m_grpcCertificateHash = map_option Some (nodeUpdate_grpcCertificateHash d),
      nodeUpdate_m_adminKey = k0\<rparr>)"

definition nodeUpdate_fromProtobuf ::
    "'asn transfer_lib \<Rightarrow> nodeUpdate_body \<Rightarrow> nodeUpdate base result" where
  "nodeUpdate_fromProtobuf E b =
     res_bind (read_account E (nodeUpdate_m_accountId b)) (\<lambda>x0.
     res_bind (read_key E (nodeUpdate_m_adminKey b)) (\<lambda>x1.
     nodeUpdate_new (nodeUpdate_m_nodeId b) x0 ((inner (nodeUpdate_m_description b)))
      ((map_option (map endpoint_fromProtobuf) (nodeUpdate_m_gossipEndpoint b)))
      ((map_option (map endpoint_fromProtobuf) (nodeUpdate_m_serviceEndpoint b)))
      ((inner (nodeUpdate_m_gossipCaCertificate b))) ((inner (nodeUpdate_m_grpcCertificateHash b))) x1))"

definition nodeUpdate_case :: string where
  "nodeUpdate_case = ''nodeUpdate''"

definition nodeUpdate_execute :: "string \<times> string" where
  "nodeUpdate_execute = (''addressBook'', ''updateNode'')"

definition nodeUpdate_good :: "nodeUpdate \<Rightarrow> bool" where
  "nodeUpdate_good d \<longleftrightarrow> nodeUpdate_nodeId d \<noteq> None \<and>
      pred_option account_ok (nodeUpdate_accountId d) \<and> pred_option tree_ok (nodeUpdate_adminKey d)"

lemmas nodeUpdate_defs =
  nodeUpdate_setNodeId_def[abs_def] nodeUpdate_setAccountId_def[abs_def]
      nodeUpdate_setDescription_def[abs_def] nodeUpdate_setGossipEndpoints_def[abs_def]
      nodeUpdate_setServiceEndpoints_def[abs_def] nodeUpdate_setGossipCaCertificate_def[abs_def]
      nodeUpdate_setCertificateHash_def[abs_def] nodeUpdate_setAdminKey_def[abs_def] nodeUpdate_new_def
      nodeUpdate_data_def nodeUpdate_fromProtobuf_def

lemma nodeUpdate_read_make:
  assumes "transfer_lib_ok E" and "nodeUpdate_good d"
  shows "\<exists>m. nodeUpdate_data E d = Inr m \<and> nodeUpdate_fromProtobuf E m = Inr (start 200000000 d)"
proof -
  have g0: "pred_option tree_ok (nodeUpdate_adminKey d)" using assms(2) by (simp add: nodeUpdate_good_def)
  obtain k0 where k0: "res_opt tree_message (nodeUpdate_adminKey d) = Inr k0" "read_key E k0 = Inr (nodeUpdate_adminKey d)"
    using key_reads[OF g0] .
  show ?thesis using assms k0 by (cases d) (simp add: nodeUpdate_defs nodeUpdate_good_def field_back)
qed

interpretation nodeUpdate_rw: body_class nodeUpdate_data nodeUpdate_fromProtobuf nodeUpdate_good "\<lambda>_. 200000000"
  by unfold_locales (rule nodeUpdate_read_make)

section \<open>\<open>src/node/NodeDeleteTransaction.js\<close>\<close>

record nodeDelete =
  nodeDelete_nodeId :: "long option"

record nodeDelete_body =
  nodeDelete_m_nodeId :: "long option"

definition nodeDelete_setNodeId ::
    "long \<Rightarrow> nodeDelete base \<Rightarrow> nodeDelete base result" where
  "nodeDelete_setNodeId a =
     set_unguarded (put (Inr a) (\<lambda>x d. d\<lparr>nodeDelete_nodeId := x\<rparr>))"

definition nodeDelete_new ::
    "long option \<Rightarrow> nodeDelete base result" where
  "nodeDelete_new a1 =
     Inr (start 200000000 \<lparr>nodeDelete_nodeId = a1\<rparr>)"

definition nodeDelete_data :: "'asn transfer_lib \<Rightarrow> nodeDelete \<Rightarrow> nodeDelete_body result" where
  "nodeDelete_data E d =
     Inr \<lparr>nodeDelete_m_nodeId = nodeDelete_nodeId d\<rparr>"

definition nodeDelete_fromProtobuf ::
    "'asn transfer_lib \<Rightarrow> nodeDelete_body \<Rightarrow> nodeDelete base result" where
  "nodeDelete_fromProtobuf E b =
     nodeDelete_new (nodeDelete_m_nodeId b)"

definition nodeDelete_case :: string where
  "nodeDelete_case = ''nodeDelete''"

definition nodeDelete_execute :: "string \<times> string" where
  "nodeDelete_execute = (''addressBook'', ''deleteNode'')"

definition nodeDelete_good :: "nodeDelete \<Rightarrow> bool" where
  "nodeDelete_good d \<longleftrightarrow> nodeDelete_nodeId d \<noteq> None"

lemmas nodeDelete_defs =
  nodeDelete_setNodeId_def[abs_def] nodeDelete_new_def nodeDelete_data_def nodeDelete_fromProtobuf_def

lemma nodeDelete_read_make:
  assumes "transfer_lib_ok E" and "nodeDelete_good d"
  shows "\<exists>m. nodeDelete_data E d = Inr m \<and> nodeDelete_fromProtobuf E m = Inr (start 200000000 d)"
  using assms by (cases d) (simp add: nodeDelete_defs nodeDelete_good_def field_back)

interpretation nodeDelete_rw: body_class nodeDelete_data nodeDelete_fromProtobuf nodeDelete_good "\<lambda>_. 200000000"
  by unfold_locales (rule nodeDelete_read_make)

end
