(* ===== verification/Allowances.thy ===== *)
theory Allowances
  imports TxFields TransferMaps "HOL-Library.Multiset"
begin

text \<open>
  Allowances: what an owner lets a spender use. \<open>src/account/HbarAllowance.js\<close>, \<open>TokenAllowance.js\<close>,
  \<open>TokenNftAllowance.js\<close> and the transactions that approve and delete them,
  \<open>AccountAllowanceApproveTransaction.js\<close> and \<open>AccountAllowanceDeleteTransaction.js\<close>. Approvals of unique
  tokens of one token and spender are gathered in one allowance with a list of serial numbers.
\<close>

section \<open>Allowances\<close>

record hbar_allowance =
  hb_spender :: "account_id option"
  hb_owner :: "account_id option"
  hb_amount :: "hbar option"

record token_allowance =
  ta_token :: token_id
  ta_spender :: "account_id option"
  ta_owner :: "account_id option"
  ta_amount :: "long option"

text \<open>\<open>null\<close> serial numbers stand for all of them, which \<open>na_all\<close> grants or takes away.\<close>

record nft_allowance =
  na_token :: token_id
  na_spender :: "account_id option"
  na_owner :: "account_id option"
  na_serials :: "long list option"
  na_all :: "bool option"
  na_delegating :: "account_id option"

record hbar_allowance_message =
  hbm_owner :: "account_message option"
  hbm_spender :: "account_message option"
  hbm_amount :: "long option"

record token_allowance_message =
  tam_tokenId :: "id_message option"
  tam_owner :: "account_message option"
  tam_spender :: "account_message option"
  tam_amount :: "long option"

record nft_allowance_message =
  nam_tokenId :: "id_message option"
  nam_owner :: "account_message option"
  nam_spender :: "account_message option"
  nam_serialNumbers :: "long list option"
  nam_approvedForAll :: "bool option option"
  nam_delegatingSpender :: "account_message option"

definition missing :: "string \<Rightarrow> 'a result" where
  "missing f = Inl (TypeError (''Cannot read properties of null (reading '' @ [CHR 0x27] @ f @ [CHR 0x27] @ '')''))"

text \<open>An identifier that is not looked at before it is read.\<close>

definition need_account :: "'asn transfer_lib \<Rightarrow> account_message option \<Rightarrow> account_id result" where
  "need_account E m =
     (case m of None \<Rightarrow> missing ''alias'' | Some i \<Rightarrow> account_fromProtobuf (lb_der E) (lb_key E) i)"

definition need_token :: "id_message option \<Rightarrow> token_id result" where
  "need_token m = (case m of None \<Rightarrow> missing ''shardNum'' | Some i \<Rightarrow> token_fromProtobuf i)"

definition amount_of :: "long option \<Rightarrow> amount" where
  "amount_of n = (case n of Some v \<Rightarrow> AmountLong v | None \<Rightarrow> AmountNumber 0)"

definition hbarAllowance_fromProtobuf :: "'asn transfer_lib \<Rightarrow> hbar_allowance_message \<Rightarrow> hbar_allowance result" where
  "hbarAllowance_fromProtobuf E m =
     res_bind (need_account E (hbm_spender m)) (\<lambda>s.
     res_bind (read_account E (hbm_owner m)) (\<lambda>w.
     res_bind (fromTinybars (lb_big E) (amount_of (hbm_amount m))) (\<lambda>h.
     Inr \<lparr>hb_spender = Some s, hb_owner = w, hb_amount = Some h\<rparr>)))"

definition hbarAllowance_fromGrantedProtobuf ::
    "'asn transfer_lib \<Rightarrow> hbar_allowance_message \<Rightarrow> account_id \<Rightarrow> hbar_allowance result" where
  "hbarAllowance_fromGrantedProtobuf E m owner =
     res_bind (need_account E (hbm_spender m)) (\<lambda>s.
     res_bind (fromTinybars (lb_big E) (amount_of (hbm_amount m))) (\<lambda>h.
     Inr \<lparr>hb_spender = Some s, hb_owner = Some owner, hb_amount = Some h\<rparr>))"

definition hbarAllowance_toProtobuf :: "'asn transfer_lib \<Rightarrow> hbar_allowance \<Rightarrow> hbar_allowance_message" where
  "hbarAllowance_toProtobuf E x =
     \<lparr>hbm_owner = make_account E (hb_owner x), hbm_spender = make_account E (hb_spender x),
      hbm_amount = make_hbar E (hb_amount x)\<rparr>"

text \<open>The spender is checked twice and the owner never.\<close>

definition hbarAllowance_validateChecksums ::
    "'asn transfer_lib \<Rightarrow> byte list option \<Rightarrow> hbar_allowance \<Rightarrow> unit result" where
  "hbarAllowance_validateChecksums E ledger x =
     all_checked [checked (\<lambda>i. account_validateChecksum (lb_long E) i ledger) (hb_spender x),
       checked (\<lambda>i. account_validateChecksum (lb_long E) i ledger) (hb_spender x)]"

definition tokenAllowance_fromProtobuf ::
    "'asn transfer_lib \<Rightarrow> token_allowance_message \<Rightarrow> token_allowance result" where
  "tokenAllowance_fromProtobuf E m =
     res_bind (need_token (tam_tokenId m)) (\<lambda>i.
     res_bind (need_account E (tam_spender m)) (\<lambda>s.
     res_bind (read_account E (tam_owner m)) (\<lambda>w.
     Inr \<lparr>ta_token = i, ta_spender = Some s, ta_owner = w, ta_amount = tam_amount m\<rparr>)))"

definition tokenAllowance_fromGrantedProtobuf ::
    "'asn transfer_lib \<Rightarrow> token_allowance_message \<Rightarrow> account_id \<Rightarrow> token_allowance result" where
  "tokenAllowance_fromGrantedProtobuf E m owner =
     res_bind (need_token (tam_tokenId m)) (\<lambda>i.
     res_bind (need_account E (tam_spender m)) (\<lambda>s.
     Inr \<lparr>ta_token = i, ta_spender = Some s, ta_owner = Some owner, ta_amount = tam_amount m\<rparr>))"

definition tokenAllowance_toProtobuf :: "'asn transfer_lib \<Rightarrow> token_allowance \<Rightarrow> token_allowance_message" where
  "tokenAllowance_toProtobuf E x =
     \<lparr>tam_tokenId = Some (token_toProtobuf (ta_token x)), tam_owner = make_account E (ta_owner x),
      tam_spender = make_account E (ta_spender x), tam_amount = ta_amount x\<rparr>"

definition tokenAllowance_validateChecksums ::
    "'asn transfer_lib \<Rightarrow> byte list option \<Rightarrow> token_allowance \<Rightarrow> unit result" where
  "tokenAllowance_validateChecksums E ledger x =
     all_checked [token_validateChecksum (lb_long E) (ta_token x) ledger,
       checked (\<lambda>i. account_validateChecksum (lb_long E) i ledger) (ta_owner x),
       checked (\<lambda>i. account_validateChecksum (lb_long E) i ledger) (ta_spender x)]"

definition list_or_empty :: "'a list option \<Rightarrow> 'a list" where
  "list_or_empty x = (case x of None \<Rightarrow> [] | Some ys \<Rightarrow> ys)"

definition nftAllowance_fromProtobuf :: "'asn transfer_lib \<Rightarrow> nft_allowance_message \<Rightarrow> nft_allowance result" where
  "nftAllowance_fromProtobuf E m =
     (let allSerials = (nam_approvedForAll m = Some (Some True))
      in res_bind (need_token (nam_tokenId m)) (\<lambda>i.
         res_bind (read_account E (nam_spender m)) (\<lambda>s.
         res_bind (read_account E (nam_owner m)) (\<lambda>w.
         res_bind (read_account E (nam_delegatingSpender m)) (\<lambda>g.
         Inr \<lparr>na_token = i, na_spender = s, na_owner = w,
              na_serials = (if allSerials then None else Some (list_or_empty (nam_serialNumbers m))),
              na_all = Some allSerials, na_delegating = g\<rparr>)))))"

definition nftAllowance_fromGrantedProtobuf ::
    "'asn transfer_lib \<Rightarrow> nft_allowance_message \<Rightarrow> account_id \<Rightarrow> nft_allowance result" where
  "nftAllowance_fromGrantedProtobuf E m owner =
     res_bind (need_token (nam_tokenId m)) (\<lambda>i.
     res_bind (need_account E (nam_spender m)) (\<lambda>s.
     Inr \<lparr>na_token = i, na_spender = Some s, na_owner = Some owner, na_serials = Some [], na_all = None,
          na_delegating = None\<rparr>))"

definition nftAllowance_fromRemoveProtobuf ::
    "'asn transfer_lib \<Rightarrow> nft_allowance_message \<Rightarrow> nft_allowance result" where
  "nftAllowance_fromRemoveProtobuf E m =
     res_bind (need_token (nam_tokenId m)) (\<lambda>i.
     res_bind (read_account E (nam_owner m)) (\<lambda>w.
     Inr \<lparr>na_token = i, na_spender = None, na_owner = w, na_serials = Some (list_or_empty (nam_serialNumbers m)),
          na_all = None, na_delegating = None\<rparr>))"

definition nftAllowance_toProtobuf :: "'asn transfer_lib \<Rightarrow> nft_allowance \<Rightarrow> nft_allowance_message" where
  "nftAllowance_toProtobuf E x =
     \<lparr>nam_tokenId = Some (token_toProtobuf (na_token x)), nam_owner = make_account E (na_owner x),
      nam_spender = make_account E (na_spender x), nam_serialNumbers = na_serials x,
      nam_approvedForAll = (if na_serials x = None then Some (na_all x) else None),
      nam_delegatingSpender = make_account E (na_delegating x)\<rparr>"

definition nftAllowance_validateChecksums ::
    "'asn transfer_lib \<Rightarrow> byte list option \<Rightarrow> nft_allowance \<Rightarrow> unit result" where
  "nftAllowance_validateChecksums E ledger x =
     all_checked [token_validateChecksum (lb_long E) (na_token x) ledger,
       checked (\<lambda>i. account_validateChecksum (lb_long E) i ledger) (na_owner x),
       checked (\<lambda>i. account_validateChecksum (lb_long E) i ledger) (na_spender x)]"

section \<open>Approving\<close>

record allowanceApprove =
  hbarApprovals :: "hbar_allowance list"
  tokenApprovals :: "token_allowance list"
  nftApprovals :: "nft_allowance list"

text \<open>An account is given as a text, as a contract or as itself.\<close>

datatype party = PartyText string | PartyContract contract_id | PartyAccount account_id

definition party_value :: "'asn transfer_lib \<Rightarrow> party \<Rightarrow> account_id result" where
  "party_value E a =
     (case a of
        PartyText s \<Rightarrow> account_fromString (lb_long E) (lb_der E) s
      | PartyContract c \<Rightarrow> fromEvmAddress_text 0 0 (contract_toSolidityAddress c)
      | PartyAccount i \<Rightarrow> Inr i)"

definition approve_new ::
    "hbar_allowance list option \<Rightarrow> token_allowance list option \<Rightarrow> nft_allowance list option \<Rightarrow> allowanceApprove base" where
  "approve_new h t n =
     start 200000000 \<lparr>hbarApprovals = list_or_empty h, tokenApprovals = list_or_empty t,
       nftApprovals = list_or_empty n\<rparr>"

definition approveHbarAllowance ::
    "'asn transfer_lib \<Rightarrow> party option \<Rightarrow> party \<Rightarrow> hbar_arg \<Rightarrow> allowanceApprove base \<Rightarrow> allowanceApprove base result" where
  "approveHbarAllowance E owner spender amount =
     set_field (\<lambda>d.
       res_bind (party_value E spender) (\<lambda>s.
       res_bind (res_opt (party_value E) owner) (\<lambda>w.
       res_bind (hbar_of_arg E amount) (\<lambda>h.
       Inr (d\<lparr>hbarApprovals := hbarApprovals d @ [\<lparr>hb_spender = Some s, hb_owner = w, hb_amount = Some h\<rparr>]\<rparr>)))))"

definition addHbarAllowance ::
    "'asn transfer_lib \<Rightarrow> account_id id_arg \<Rightarrow> hbar_arg \<Rightarrow> allowanceApprove base \<Rightarrow> allowanceApprove base result" where
  "addHbarAllowance E spender amount =
     set_field (\<lambda>d.
       res_bind (account_arg E spender) (\<lambda>s.
       res_bind (hbar_of_arg E amount) (\<lambda>h.
       Inr (d\<lparr>hbarApprovals := hbarApprovals d @ [\<lparr>hb_spender = Some s, hb_owner = None, hb_amount = Some h\<rparr>]\<rparr>))))"

definition approveTokenAllowance ::
    "'asn transfer_lib \<Rightarrow> token_id id_arg \<Rightarrow> party option \<Rightarrow> party \<Rightarrow> long_arg
     \<Rightarrow> allowanceApprove base \<Rightarrow> allowanceApprove base result" where
  "approveTokenAllowance E i owner spender amount =
     set_field (\<lambda>d.
       res_bind (token_arg E i) (\<lambda>t.
       res_bind (party_value E spender) (\<lambda>s.
       res_bind (res_opt (party_value E) owner) (\<lambda>w.
       Inr (d\<lparr>tokenApprovals := tokenApprovals d @ [\<lparr>ta_token = t, ta_spender = Some s, ta_owner = w,
         ta_amount = Some (long_value E amount)\<rparr>]\<rparr>)))))"

definition addTokenAllowance ::
    "'asn transfer_lib \<Rightarrow> token_id id_arg \<Rightarrow> account_id id_arg \<Rightarrow> long_arg
     \<Rightarrow> allowanceApprove base \<Rightarrow> allowanceApprove base result" where
  "addTokenAllowance E i spender amount =
     set_field (\<lambda>d.
       res_bind (token_arg E i) (\<lambda>t.
       res_bind (account_arg E spender) (\<lambda>s.
       Inr (d\<lparr>tokenApprovals := tokenApprovals d @ [\<lparr>ta_token = t, ta_spender = Some s, ta_owner = None,
         ta_amount = Some (long_value E amount)\<rparr>]\<rparr>))))"

text \<open>The loop over the allowances stops at the first one of the token and the spender, and adds the serial
  number to its list, if it has one.\<close>

definition nft_match :: "token_id \<Rightarrow> account_id \<Rightarrow> nft_allowance \<Rightarrow> bool" where
  "nft_match t s x \<longleftrightarrow>
     token_compare (na_token x) t = 0 \<and> (case na_spender x of None \<Rightarrow> False | Some a \<Rightarrow> account_compare a s = 0)"

definition add_serial :: "long \<Rightarrow> nft_allowance \<Rightarrow> nft_allowance" where
  "add_serial n x = x\<lparr>na_serials := map_option (\<lambda>ns. ns @ [n]) (na_serials x)\<rparr>"

fun add_to_first :: "(nft_allowance \<Rightarrow> bool) \<Rightarrow> long \<Rightarrow> nft_allowance list \<Rightarrow> nft_allowance list option" where
  "add_to_first P n [] = None"
| "add_to_first P n (x # xs) =
     (if P x then Some (add_serial n x # xs) else map_option (\<lambda>ys. x # ys) (add_to_first P n xs))"

definition approve_nft ::
    "'asn transfer_lib \<Rightarrow> nft_id id_arg \<Rightarrow> party option \<Rightarrow> party \<Rightarrow> account_id id_arg option
     \<Rightarrow> allowanceApprove base \<Rightarrow> allowanceApprove base result" where
  "approve_nft E nft owner spender delegating =
     set_field (\<lambda>d.
       res_bind (nft_arg E nft) (\<lambda>i.
       res_bind (party_value E spender) (\<lambda>s.
       (case add_to_first (nft_match (nft_token i) s) (nft_serial i) (nftApprovals d) of
          Some ys \<Rightarrow> Inr (d\<lparr>nftApprovals := ys\<rparr>)
        | None \<Rightarrow>
            res_bind (res_opt (party_value E) owner) (\<lambda>w.
            res_bind (res_opt (account_arg E) delegating) (\<lambda>g.
            Inr (d\<lparr>nftApprovals := nftApprovals d @ [\<lparr>na_token = nft_token i, na_spender = Some s, na_owner = w,
              na_serials = Some [nft_serial i], na_all = Some False, na_delegating = g\<rparr>]\<rparr>)))))))"

definition addTokenNftAllowance ::
    "'asn transfer_lib \<Rightarrow> nft_id id_arg \<Rightarrow> party \<Rightarrow> allowanceApprove base \<Rightarrow> allowanceApprove base result" where
  "addTokenNftAllowance E nft spender = approve_nft E nft None spender None"

definition approveTokenNftAllowance ::
    "'asn transfer_lib \<Rightarrow> nft_id id_arg \<Rightarrow> party \<Rightarrow> party \<Rightarrow> allowanceApprove base \<Rightarrow> allowanceApprove base result" where
  "approveTokenNftAllowance E nft owner spender = approve_nft E nft (Some owner) spender None"

definition approveTokenNftAllowanceWithDelegatingSpender ::
    "'asn transfer_lib \<Rightarrow> nft_id id_arg \<Rightarrow> party \<Rightarrow> party \<Rightarrow> account_id id_arg
     \<Rightarrow> allowanceApprove base \<Rightarrow> allowanceApprove base result" where
  "approveTokenNftAllowanceWithDelegatingSpender E nft owner spender delegating =
     approve_nft E nft (Some owner) spender (Some delegating)"

definition approve_all_nfts ::
    "'asn transfer_lib \<Rightarrow> token_id id_arg \<Rightarrow> party \<Rightarrow> party \<Rightarrow> bool
     \<Rightarrow> allowanceApprove base \<Rightarrow> allowanceApprove base result" where
  "approve_all_nfts E i owner spender allSerials =
     set_field (\<lambda>d.
       res_bind (token_arg E i) (\<lambda>t.
       res_bind (party_value E spender) (\<lambda>s.
       res_bind (party_value E owner) (\<lambda>w.
       Inr (d\<lparr>nftApprovals := nftApprovals d @ [\<lparr>na_token = t, na_spender = Some s, na_owner = Some w,
         na_serials = None, na_all = Some allSerials, na_delegating = None\<rparr>]\<rparr>)))))"

definition addAllTokenNftAllowance ::
    "'asn transfer_lib \<Rightarrow> token_id id_arg \<Rightarrow> party \<Rightarrow> party \<Rightarrow> allowanceApprove base \<Rightarrow> allowanceApprove base result" where
  "addAllTokenNftAllowance E i owner spender = approve_all_nfts E i owner spender True"

definition approveTokenNftAllowanceAllSerials ::
    "'asn transfer_lib \<Rightarrow> token_id id_arg \<Rightarrow> party \<Rightarrow> party \<Rightarrow> allowanceApprove base \<Rightarrow> allowanceApprove base result" where
  "approveTokenNftAllowanceAllSerials E i owner spender = approve_all_nfts E i owner spender True"

definition deleteTokenNftAllowanceAllSerials ::
    "'asn transfer_lib \<Rightarrow> token_id id_arg \<Rightarrow> party \<Rightarrow> party \<Rightarrow> allowanceApprove base \<Rightarrow> allowanceApprove base result" where
  "deleteTokenNftAllowanceAllSerials E i owner spender = approve_all_nfts E i owner spender False"

definition approve_validateChecksums ::
    "'asn transfer_lib \<Rightarrow> byte list option \<Rightarrow> allowanceApprove \<Rightarrow> unit result" where
  "approve_validateChecksums E ledger d =
     all_checked (map (hbarAllowance_validateChecksums E ledger) (hbarApprovals d) @
       map (tokenAllowance_validateChecksums E ledger) (tokenApprovals d) @
       map (nftAllowance_validateChecksums E ledger) (nftApprovals d))"

record approve_body =
  cryptoAllowances :: "hbar_allowance_message list option"
  tokenAllowances :: "token_allowance_message list option"
  nftAllowances :: "nft_allowance_message list option"

definition approve_data :: "'asn transfer_lib \<Rightarrow> allowanceApprove \<Rightarrow> approve_body result" where
  "approve_data E d =
     Inr \<lparr>cryptoAllowances = Some (map (hbarAllowance_toProtobuf E) (hbarApprovals d)),
          tokenAllowances = Some (map (tokenAllowance_toProtobuf E) (tokenApprovals d)),
          nftAllowances = Some (map (nftAllowance_toProtobuf E) (nftApprovals d))\<rparr>"

definition approve_fromProtobuf :: "'asn transfer_lib \<Rightarrow> approve_body \<Rightarrow> allowanceApprove base result" where
  "approve_fromProtobuf E b =
     res_bind (res_map (hbarAllowance_fromProtobuf E) (list_or_empty (cryptoAllowances b))) (\<lambda>h.
     res_bind (res_map (tokenAllowance_fromProtobuf E) (list_or_empty (tokenAllowances b))) (\<lambda>t.
     res_bind (res_map (nftAllowance_fromProtobuf E) (list_or_empty (nftAllowances b))) (\<lambda>n.
     Inr (approve_new (Some h) (Some t) (Some n)))))"

definition approve_case :: string where
  "approve_case = ''cryptoApproveAllowance''"

definition approve_execute :: "string \<times> string" where
  "approve_execute = (''crypto'', ''approveAllowances'')"

section \<open>Deleting\<close>

record allowanceDelete =
  deleted_nfts :: "nft_allowance list"

record delete_body =
  deleted_nftAllowances :: "nft_allowance_message list option"

definition delete_new :: "nft_allowance list option \<Rightarrow> allowanceDelete base" where
  "delete_new n = start 200000000 \<lparr>deleted_nfts = list_or_empty n\<rparr>"

text \<open>Only the token is compared: an owner that differs is not looked at.\<close>

definition deleteAllTokenNftAllowances ::
    "'asn transfer_lib \<Rightarrow> nft_id id_arg \<Rightarrow> account_id id_arg \<Rightarrow> allowanceDelete base \<Rightarrow> allowanceDelete base result" where
  "deleteAllTokenNftAllowances E nft owner =
     set_field (\<lambda>d.
       res_bind (nft_arg E nft) (\<lambda>i.
       res_bind (account_arg E owner) (\<lambda>w.
       (case add_to_first (\<lambda>x. token_compare (na_token x) (nft_token i) = 0) (nft_serial i) (deleted_nfts d) of
          Some ys \<Rightarrow> Inr (d\<lparr>deleted_nfts := ys\<rparr>)
        | None \<Rightarrow> Inr (d\<lparr>deleted_nfts := deleted_nfts d @ [\<lparr>na_token = nft_token i, na_spender = None,
            na_owner = Some w, na_serials = Some [nft_serial i], na_all = Some False, na_delegating = None\<rparr>]\<rparr>)))))"

definition delete_validateChecksums ::
    "'asn transfer_lib \<Rightarrow> byte list option \<Rightarrow> allowanceDelete \<Rightarrow> unit result" where
  "delete_validateChecksums E ledger d = all_checked (map (nftAllowance_validateChecksums E ledger) (deleted_nfts d))"

definition delete_data :: "'asn transfer_lib \<Rightarrow> allowanceDelete \<Rightarrow> delete_body result" where
  "delete_data E d = Inr \<lparr>deleted_nftAllowances = Some (map (nftAllowance_toProtobuf E) (deleted_nfts d))\<rparr>"

definition delete_fromProtobuf :: "'asn transfer_lib \<Rightarrow> delete_body \<Rightarrow> allowanceDelete base result" where
  "delete_fromProtobuf E b =
     res_bind (res_map (nftAllowance_fromProtobuf E) (list_or_empty (deleted_nftAllowances b))) (\<lambda>n.
     Inr (delete_new (Some n)))"

definition delete_case :: string where
  "delete_case = ''cryptoDeleteAllowance''"

definition delete_execute :: "string \<times> string" where
  "delete_execute = (''crypto'', ''deleteAllowances'')"

section \<open>Reading back\<close>

definition hbarAllowance_ok :: "hbar_allowance \<Rightarrow> bool" where
  "hbarAllowance_ok x \<longleftrightarrow> hb_spender x \<noteq> None \<and> hb_amount x \<noteq> None \<and> pred_option account_ok (hb_spender x) \<and>
     pred_option account_ok (hb_owner x) \<and> pred_option hbar_fits (hb_amount x)"

definition tokenAllowance_ok :: "token_allowance \<Rightarrow> bool" where
  "tokenAllowance_ok x \<longleftrightarrow> plain_id (ta_token x) \<and> ta_spender x \<noteq> None \<and> pred_option account_ok (ta_spender x) \<and>
     pred_option account_ok (ta_owner x)"

text \<open>Taking away all serial numbers is written but not read back, so it is not among the good ones.\<close>

definition nftAllowance_ok :: "nft_allowance \<Rightarrow> bool" where
  "nftAllowance_ok x \<longleftrightarrow> plain_id (na_token x) \<and> pred_option account_ok (na_spender x) \<and>
     pred_option account_ok (na_owner x) \<and> pred_option account_ok (na_delegating x) \<and>
     na_all x = Some (na_serials x = None)"

lemma allowance_back:
  assumes "transfer_lib_ok E"
  shows "hbarAllowance_ok x \<Longrightarrow> hbarAllowance_fromProtobuf E (hbarAllowance_toProtobuf E x) = Inr x"
    and "tokenAllowance_ok y \<Longrightarrow> tokenAllowance_fromProtobuf E (tokenAllowance_toProtobuf E y) = Inr y"
    and "nftAllowance_ok z \<Longrightarrow> nftAllowance_fromProtobuf E (nftAllowance_toProtobuf E z) = Inr z"
proof -
  note reads = field_reads[OF assms] message_back[OF assms] hbar_back[OF assms]
  show "hbarAllowance_fromProtobuf E (hbarAllowance_toProtobuf E x) = Inr x" if "hbarAllowance_ok x"
    using that by (cases x) (auto simp: hbarAllowance_ok_def hbarAllowance_fromProtobuf_def hbarAllowance_toProtobuf_def
        need_account_def make_account_def make_hbar_def amount_of_def reads reads(1)[unfolded make_account_def])
  show "tokenAllowance_fromProtobuf E (tokenAllowance_toProtobuf E y) = Inr y" if "tokenAllowance_ok y"
    using that by (cases y) (auto simp: tokenAllowance_ok_def tokenAllowance_fromProtobuf_def tokenAllowance_toProtobuf_def
        need_account_def need_token_def make_account_def reads reads(1)[unfolded make_account_def])
  show "nftAllowance_fromProtobuf E (nftAllowance_toProtobuf E z) = Inr z" if "nftAllowance_ok z"
    using that by (cases z) (auto simp: nftAllowance_ok_def nftAllowance_fromProtobuf_def nftAllowance_toProtobuf_def
        need_token_def list_or_empty_def reads)
qed

definition approve_good :: "allowanceApprove \<Rightarrow> bool" where
  "approve_good d \<longleftrightarrow> list_all hbarAllowance_ok (hbarApprovals d) \<and> list_all tokenAllowance_ok (tokenApprovals d) \<and>
     list_all nftAllowance_ok (nftApprovals d)"

definition delete_good :: "allowanceDelete \<Rightarrow> bool" where
  "delete_good d \<longleftrightarrow> list_all nftAllowance_ok (deleted_nfts d)"

interpretation approve_rw: body_class approve_data approve_fromProtobuf approve_good "\<lambda>_. 200000000"
proof unfold_locales
  fix E :: "'asn transfer_lib" and d
  assume E: "transfer_lib_ok E" and d: "approve_good d"
  have "res_map (hbarAllowance_fromProtobuf E) (map (hbarAllowance_toProtobuf E) (hbarApprovals d)) = Inr (hbarApprovals d)"
    "res_map (tokenAllowance_fromProtobuf E) (map (tokenAllowance_toProtobuf E) (tokenApprovals d)) = Inr (tokenApprovals d)"
    "res_map (nftAllowance_fromProtobuf E) (map (nftAllowance_toProtobuf E) (nftApprovals d)) = Inr (nftApprovals d)"
    using d by (auto simp: approve_good_def list_all_iff allowance_back[OF E] intro!: res_map_back)
  then show "\<exists>m. approve_data E d = Inr m \<and> approve_fromProtobuf E m = Inr (start 200000000 d)"
    by (cases d) (simp add: approve_data_def approve_fromProtobuf_def list_or_empty_def approve_new_def)
qed

interpretation delete_rw: body_class delete_data delete_fromProtobuf delete_good "\<lambda>_. 200000000"
proof unfold_locales
  fix E :: "'asn transfer_lib" and d
  assume E: "transfer_lib_ok E" and d: "delete_good d"
  have "res_map (nftAllowance_fromProtobuf E) (map (nftAllowance_toProtobuf E) (deleted_nfts d)) = Inr (deleted_nfts d)"
    using d by (auto simp: delete_good_def list_all_iff allowance_back[OF E] intro!: res_map_back)
  then show "\<exists>m. delete_data E d = Inr m \<and> delete_fromProtobuf E m = Inr (start 200000000 d)"
    by (cases d) (simp add: delete_data_def delete_fromProtobuf_def list_or_empty_def delete_new_def)
qed

section \<open>What is approved\<close>

text \<open>What an allowance grants, one entry for each serial number, and what it is about.\<close>

definition granted :: "nft_allowance \<Rightarrow> (entity_id \<times> account_id option \<times> long) list" where
  "granted x = map (\<lambda>n. (sid (na_token x), na_spender x, n)) (list_or_empty (na_serials x))"

definition about :: "nft_allowance \<Rightarrow> entity_id \<times> account_id option" where
  "about x = (sid (na_token x), na_spender x)"

definition listed :: "nft_allowance \<Rightarrow> bool" where
  "listed x \<longleftrightarrow> na_serials x \<noteq> None \<and> (\<exists>s. na_spender x = Some s \<and> account_ok s)"

lemma nft_match_about: "listed x \<Longrightarrow> account_ok s \<Longrightarrow> nft_match t s x \<longleftrightarrow> about x = (sid t, Some s)"
  by (auto simp: nft_match_def listed_def about_def token_class.cmp_zero account_zero)

lemma add_to_first_none: "add_to_first P n xs = None \<longleftrightarrow> (\<forall>x \<in> set xs. \<not> P x)"
  by (induction xs) auto

lemma add_serial_facts:
  "listed (add_serial n x) = listed x" "about (add_serial n x) = about x"
  "listed x \<Longrightarrow> about x = (i, s) \<Longrightarrow> granted (add_serial n x) = granted x @ [(i, s, n)]"
  by (auto simp: add_serial_def listed_def about_def granted_def list_or_empty_def)

lemma add_to_first_some:
  assumes "add_to_first P n xs = Some ys" and "list_all listed xs"
    and "\<And>x. x \<in> set xs \<Longrightarrow> P x \<Longrightarrow> about x = (i, s)"
  shows "list_all listed ys \<and> map about ys = map about xs \<and>
    mset (concat (map granted ys)) = add_mset (i, s, n) (mset (concat (map granted xs)))"
  using assms
proof (induction xs arbitrary: ys)
  case (Cons x xs)
  show ?case
  proof (cases "P x")
    case True
    then have "ys = add_serial n x # xs" "about x = (i, s)" "listed x" "list_all listed xs"
      using Cons.prems(1,2) Cons.prems(3)[of x] by simp_all
    then show ?thesis by (simp add: add_serial_facts)
  next
    case False
    then obtain zs where "add_to_first P n xs = Some zs" "ys = x # zs" using Cons.prems(1) by auto
    moreover have "list_all listed zs \<and> map about zs = map about xs \<and>
        mset (concat (map granted zs)) = add_mset (i, s, n) (mset (concat (map granted xs)))"
      using Cons.IH[OF calculation(1)] Cons.prems(2,3) by simp
    ultimately show ?thesis using Cons.prems(2) by simp
  qed
qed simp

definition approvals_ok :: "nft_allowance list \<Rightarrow> bool" where
  "approvals_ok xs \<longleftrightarrow> list_all listed xs \<and> distinct (map about xs)"

type_synonym nft_request = "nft_id \<times> party option \<times> account_id"

definition request_ok :: "'asn transfer_lib \<Rightarrow> nft_request \<Rightarrow> bool" where
  "request_ok E r \<longleftrightarrow> account_ok (snd (snd r)) \<and> is_ok (res_opt (party_value E) (fst (snd r)))"

definition requested :: "nft_request \<Rightarrow> entity_id \<times> account_id option \<times> long" where
  "requested r = (sid (nft_token (fst r)), Some (snd (snd r)), nft_serial (fst r))"

definition approve_request ::
    "'asn transfer_lib \<Rightarrow> nft_request \<Rightarrow> allowanceApprove base \<Rightarrow> allowanceApprove base result" where
  "approve_request E r = approve_nft E (IdObject (fst r)) (fst (snd r)) (PartyAccount (snd (snd r))) None"

lemma approve_step:
  assumes "\<not> isFrozen t" and "request_ok E r" and "approvals_ok (nftApprovals (tx_data t))"
  shows "\<exists>ys. approve_request E r t = Inr (t\<lparr>tx_data := (tx_data t)\<lparr>nftApprovals := ys\<rparr>\<rparr>) \<and> approvals_ok ys \<and>
    mset (concat (map granted ys)) = add_mset (requested r) (mset (concat (map granted (nftApprovals (tx_data t)))))"
proof -
  obtain i w s where r: "r = (i, w, s)" by (cases r)
  let ?xs = "nftApprovals (tx_data t)"
  obtain w' where w: "res_opt (party_value E) w = Inr w'" and s: "account_ok s"
    using assms(2) by (auto simp: request_ok_def r is_ok_def split: sum.splits)
  have about: "nft_match (nft_token i) s x \<longleftrightarrow> about x = (sid (nft_token i), Some s)" if "x \<in> set ?xs" for x
    using that assms(3) nft_match_about[OF _ s] by (auto simp: approvals_ok_def list_all_iff)
  show ?thesis
  proof (cases "add_to_first (nft_match (nft_token i) s) (nft_serial i) ?xs")
    case None
    let ?x = "\<lparr>na_token = nft_token i, na_spender = Some s, na_owner = w', na_serials = Some [nft_serial i],
      na_all = Some False, na_delegating = None\<rparr>"
    have "(sid (nft_token i), Some s) \<notin> about ` set ?xs" using None about by (auto simp: add_to_first_none)
    then have "approvals_ok (?xs @ [?x])"
      using assms(3) s by (auto simp: approvals_ok_def listed_def about_def)
    then show ?thesis
      using assms(1) None w
      by (intro exI[of _ "?xs @ [?x]"]) (simp add: approve_request_def r approve_nft_def set_field_def
          requireNotFrozen_def nft_arg_def party_value_def granted_def list_or_empty_def requested_def)
  next
    case (Some ys)
    then show ?thesis
      using assms(1,3) add_to_first_some[OF Some, of "sid (nft_token i)" "Some s"] about
      by (intro exI[of _ ys]) (simp add: approve_request_def r approve_nft_def set_field_def
          requireNotFrozen_def nft_arg_def party_value_def requested_def approvals_ok_def)
  qed
qed

lemma approve_steps:
  assumes "\<not> isFrozen t" and "list_all (request_ok E) rs" and "approvals_ok (nftApprovals (tx_data t))"
  shows "\<exists>ys. chain (map (approve_request E) rs) t = Inr (t\<lparr>tx_data := (tx_data t)\<lparr>nftApprovals := ys\<rparr>\<rparr>) \<and>
    approvals_ok ys \<and> mset (concat (map granted ys)) =
      mset (map requested rs) + mset (concat (map granted (nftApprovals (tx_data t))))"
  using assms
proof (induction rs arbitrary: t)
  case Nil
  then show ?case by (intro exI[of _ "nftApprovals (tx_data t)"]) simp
next
  case (Cons r rs)
  obtain ys where ys: "approve_request E r t = Inr (t\<lparr>tx_data := (tx_data t)\<lparr>nftApprovals := ys\<rparr>\<rparr>)" "approvals_ok ys"
    "mset (concat (map granted ys)) = add_mset (requested r) (mset (concat (map granted (nftApprovals (tx_data t)))))"
    using approve_step[OF Cons.prems(1) _ Cons.prems(3), of E r] Cons.prems(2) by auto
  let ?t = "t\<lparr>tx_data := (tx_data t)\<lparr>nftApprovals := ys\<rparr>\<rparr>"
  have "\<not> isFrozen ?t" using Cons.prems(1) by (simp add: isFrozen_def)
  then obtain zs where "chain (map (approve_request E) rs) ?t = Inr (?t\<lparr>tx_data := (tx_data ?t)\<lparr>nftApprovals := zs\<rparr>\<rparr>)"
    "approvals_ok zs" "mset (concat (map granted zs)) = mset (map requested rs) + mset (concat (map granted ys))"
    using Cons.IH[of ?t] Cons.prems(2) ys(2) by auto
  then show ?case using ys by (intro exI[of _ zs]) simp
qed


definition sample_nft :: "long \<Rightarrow> nft_id" where
  "sample_nft n = \<lparr>nft_token = \<lparr>sid = \<lparr>shard = 0, realm = 0, num = 7\<rparr>, sid_checksum = None\<rparr>, nft_serial = n\<rparr>"

lemma sample_request_ok: "request_ok sample_transfer_lib (sample_nft n, None, account_zero_id)"
  by (simp add: request_ok_def account_ok_def account_zero_id_def valid_id_def nonneg_def is_ok_def)


text \<open>The allowances are gathered by token and spender, whoever the owner is: a second owner is forgotten.\<close>

lemma second_owner_forgotten:
  assumes "\<not> isFrozen t" and "nftApprovals (tx_data t) = []" and "account_ok s"
  shows "chain (map (approve_request E)
      [(\<lparr>nft_token = i, nft_serial = 1\<rparr>, Some (PartyAccount a), s),
       (\<lparr>nft_token = i, nft_serial = 2\<rparr>, Some (PartyAccount b), s)]) t =
    Inr (t\<lparr>tx_data := (tx_data t)\<lparr>nftApprovals := [\<lparr>na_token = i, na_spender = Some s, na_owner = Some a,
      na_serials = Some [1, 2], na_all = Some False, na_delegating = None\<rparr>]\<rparr>\<rparr>)"
  using assms by (simp add: approve_request_def approve_nft_def set_field_def requireNotFrozen_def isFrozen_def
      nft_arg_def party_value_def nft_match_def token_class.cmp_zero account_zero add_serial_def)

text \<open>After all serial numbers were taken from a spender, an approval for this spender changes nothing.\<close>

lemma approval_after_revocation_ignored:
  assumes "\<not> isFrozen t" and "nftApprovals (tx_data t) = []" and "account_ok s"
  shows "res_bind (deleteTokenNftAllowanceAllSerials E (IdObject (nft_token i)) (PartyAccount a) (PartyAccount s) t)
      (approveTokenNftAllowance E (IdObject i) (PartyAccount a) (PartyAccount s)) =
    deleteTokenNftAllowanceAllSerials E (IdObject (nft_token i)) (PartyAccount a) (PartyAccount s) t"
  using assms by (simp add: approveTokenNftAllowance_def deleteTokenNftAllowanceAllSerials_def approve_all_nfts_def
      approve_nft_def set_field_def requireNotFrozen_def isFrozen_def nft_arg_def token_arg_def party_value_def
      nft_match_def token_class.cmp_zero account_zero add_serial_def)

text \<open>Taking away all serial numbers is read back as a list of none.\<close>

lemma revocation_not_read_back:
  assumes "transfer_lib_ok E" and "plain_id i" and "account_ok a" and "account_ok s"
  shows "nftAllowance_fromProtobuf E (nftAllowance_toProtobuf E \<lparr>na_token = i, na_spender = Some s, na_owner = Some a,
      na_serials = None, na_all = Some False, na_delegating = None\<rparr>) =
    Inr \<lparr>na_token = i, na_spender = Some s, na_owner = Some a, na_serials = Some [], na_all = Some False,
      na_delegating = None\<rparr>"
  using assms field_reads(1)[OF assms(1), of "Some a"] field_reads(1)[OF assms(1), of "Some s"]
    field_reads(1)[OF assms(1), of None] message_back(2)[OF assms(1,2)]
  by (simp add: nftAllowance_fromProtobuf_def nftAllowance_toProtobuf_def need_token_def list_or_empty_def)

end
