(* ===== verification/AllBodies.thy ===== *)
theory AllBodies
  imports TokenActions AccountActions ContractActions TokenSetup AirdropActions ContentActions SystemActions Allowances TransferMaps
begin

text \<open>
  The registry of transactions, \<open>TRANSACTION_REGISTRY\<close> in \<open>src/transaction/Transaction.js\<close>: each class puts its
  reader there under the name of its data case, and reading the bytes of a transaction calls the reader of the
  case that is set in the body. Here the fields and the messages of the kinds are two sums; a message is of the
  kind whose case is set, and reading dispatches on it.
\<close>

section \<open>Kinds\<close>

datatype any_fields =
    OfTokenDelete tokenDelete
  | OfTokenPause tokenPause
  | OfTokenUnpause tokenUnpause
  | OfTokenFreeze tokenFreeze
  | OfTokenUnfreeze tokenUnfreeze
  | OfTokenGrantKyc tokenGrantKyc
  | OfTokenRevokeKyc tokenRevokeKyc
  | OfTokenAssociate tokenAssociate
  | OfTokenDissociate tokenDissociate
  | OfTokenBurn tokenBurn
  | OfTokenMint tokenMint
  | OfTokenWipe tokenWipe
  | OfTokenUpdateNfts tokenUpdateNfts
  | OfAccountCreate accountCreate
  | OfAccountUpdate accountUpdate
  | OfAccountDelete accountDelete
  | OfLiveHashAdd liveHashAdd
  | OfLiveHashDelete liveHashDelete
  | OfContractCreate contractCreate
  | OfContractUpdate contractUpdate
  | OfContractDelete contractDelete
  | OfContractExecute contractExecute
  | OfEthereum ethereum
  | OfTokenCreate tokenCreate
  | OfTokenUpdate tokenUpdate
  | OfTokenFeeSchedule tokenFeeSchedule
  | OfTokenClaimAirdrop tokenClaimAirdrop
  | OfTokenCancelAirdrop tokenCancelAirdrop
  | OfFileCreate fileCreate
  | OfFileUpdate fileUpdate
  | OfFileDelete fileDelete
  | OfTopicCreate topicCreate
  | OfTopicUpdate topicUpdate
  | OfTopicDelete topicDelete
  | OfScheduleSign scheduleSign
  | OfScheduleDelete scheduleDelete
  | OfSystemDelete systemDelete
  | OfSystemUndelete systemUndelete
  | OfFreeze freeze
  | OfPrng prng
  | OfNodeCreate nodeCreate
  | OfNodeUpdate nodeUpdate
  | OfNodeDelete nodeDelete
  | OfApprove allowanceApprove
  | OfDelete allowanceDelete
  | OfTokenReject tokenReject

datatype any_body =
    BodyTokenDelete tokenDelete_body
  | BodyTokenPause tokenPause_body
  | BodyTokenUnpause tokenUnpause_body
  | BodyTokenFreeze tokenFreeze_body
  | BodyTokenUnfreeze tokenUnfreeze_body
  | BodyTokenGrantKyc tokenGrantKyc_body
  | BodyTokenRevokeKyc tokenRevokeKyc_body
  | BodyTokenAssociate tokenAssociate_body
  | BodyTokenDissociate tokenDissociate_body
  | BodyTokenBurn tokenBurn_body
  | BodyTokenMint tokenMint_body
  | BodyTokenWipe tokenWipe_body
  | BodyTokenUpdateNfts tokenUpdateNfts_body
  | BodyAccountCreate accountCreate_body
  | BodyAccountUpdate accountUpdate_body
  | BodyAccountDelete accountDelete_body
  | BodyLiveHashAdd liveHashAdd_body
  | BodyLiveHashDelete liveHashDelete_body
  | BodyContractCreate contractCreate_body
  | BodyContractUpdate contractUpdate_body
  | BodyContractDelete contractDelete_body
  | BodyContractExecute contractExecute_body
  | BodyEthereum ethereum_body
  | BodyTokenCreate tokenCreate_body
  | BodyTokenUpdate tokenUpdate_body
  | BodyTokenFeeSchedule tokenFeeSchedule_body
  | BodyTokenClaimAirdrop tokenClaimAirdrop_body
  | BodyTokenCancelAirdrop tokenCancelAirdrop_body
  | BodyFileCreate fileCreate_body
  | BodyFileUpdate fileUpdate_body
  | BodyFileDelete fileDelete_body
  | BodyTopicCreate topicCreate_body
  | BodyTopicUpdate topicUpdate_body
  | BodyTopicDelete topicDelete_body
  | BodyScheduleSign scheduleSign_body
  | BodyScheduleDelete scheduleDelete_body
  | BodySystemDelete systemDelete_body
  | BodySystemUndelete systemUndelete_body
  | BodyFreeze freeze_body
  | BodyPrng prng_body
  | BodyNodeCreate nodeCreate_body
  | BodyNodeUpdate nodeUpdate_body
  | BodyNodeDelete nodeDelete_body
  | BodyApprove approve_body
  | BodyDelete delete_body
  | BodyTokenReject tokenReject_body

text \<open>The case of the body, the maximum fee of a new transaction, and which fields are good.\<close>

primrec fields_case :: "any_fields \<Rightarrow> string" where
  "fields_case (OfTokenDelete d) = tokenDelete_case"
| "fields_case (OfTokenPause d) = tokenPause_case"
| "fields_case (OfTokenUnpause d) = tokenUnpause_case"
| "fields_case (OfTokenFreeze d) = tokenFreeze_case"
| "fields_case (OfTokenUnfreeze d) = tokenUnfreeze_case"
| "fields_case (OfTokenGrantKyc d) = tokenGrantKyc_case"
| "fields_case (OfTokenRevokeKyc d) = tokenRevokeKyc_case"
| "fields_case (OfTokenAssociate d) = tokenAssociate_case"
| "fields_case (OfTokenDissociate d) = tokenDissociate_case"
| "fields_case (OfTokenBurn d) = tokenBurn_case"
| "fields_case (OfTokenMint d) = tokenMint_case"
| "fields_case (OfTokenWipe d) = tokenWipe_case"
| "fields_case (OfTokenUpdateNfts d) = tokenUpdateNfts_case"
| "fields_case (OfAccountCreate d) = accountCreate_case"
| "fields_case (OfAccountUpdate d) = accountUpdate_case"
| "fields_case (OfAccountDelete d) = accountDelete_case"
| "fields_case (OfLiveHashAdd d) = liveHashAdd_case"
| "fields_case (OfLiveHashDelete d) = liveHashDelete_case"
| "fields_case (OfContractCreate d) = contractCreate_case"
| "fields_case (OfContractUpdate d) = contractUpdate_case"
| "fields_case (OfContractDelete d) = contractDelete_case"
| "fields_case (OfContractExecute d) = contractExecute_case"
| "fields_case (OfEthereum d) = ethereum_case"
| "fields_case (OfTokenCreate d) = tokenCreate_case"
| "fields_case (OfTokenUpdate d) = tokenUpdate_case"
| "fields_case (OfTokenFeeSchedule d) = tokenFeeSchedule_case"
| "fields_case (OfTokenClaimAirdrop d) = tokenClaimAirdrop_case"
| "fields_case (OfTokenCancelAirdrop d) = tokenCancelAirdrop_case"
| "fields_case (OfFileCreate d) = fileCreate_case"
| "fields_case (OfFileUpdate d) = fileUpdate_case"
| "fields_case (OfFileDelete d) = fileDelete_case"
| "fields_case (OfTopicCreate d) = topicCreate_case"
| "fields_case (OfTopicUpdate d) = topicUpdate_case"
| "fields_case (OfTopicDelete d) = topicDelete_case"
| "fields_case (OfScheduleSign d) = scheduleSign_case"
| "fields_case (OfScheduleDelete d) = scheduleDelete_case"
| "fields_case (OfSystemDelete d) = systemDelete_case"
| "fields_case (OfSystemUndelete d) = systemUndelete_case"
| "fields_case (OfFreeze d) = freeze_case"
| "fields_case (OfPrng d) = prng_case"
| "fields_case (OfNodeCreate d) = nodeCreate_case"
| "fields_case (OfNodeUpdate d) = nodeUpdate_case"
| "fields_case (OfNodeDelete d) = nodeDelete_case"
| "fields_case (OfApprove d) = approve_case"
| "fields_case (OfDelete d) = delete_case"
| "fields_case (OfTokenReject d) = tokenReject_case"

primrec body_case :: "any_body \<Rightarrow> string" where
  "body_case (BodyTokenDelete b) = tokenDelete_case"
| "body_case (BodyTokenPause b) = tokenPause_case"
| "body_case (BodyTokenUnpause b) = tokenUnpause_case"
| "body_case (BodyTokenFreeze b) = tokenFreeze_case"
| "body_case (BodyTokenUnfreeze b) = tokenUnfreeze_case"
| "body_case (BodyTokenGrantKyc b) = tokenGrantKyc_case"
| "body_case (BodyTokenRevokeKyc b) = tokenRevokeKyc_case"
| "body_case (BodyTokenAssociate b) = tokenAssociate_case"
| "body_case (BodyTokenDissociate b) = tokenDissociate_case"
| "body_case (BodyTokenBurn b) = tokenBurn_case"
| "body_case (BodyTokenMint b) = tokenMint_case"
| "body_case (BodyTokenWipe b) = tokenWipe_case"
| "body_case (BodyTokenUpdateNfts b) = tokenUpdateNfts_case"
| "body_case (BodyAccountCreate b) = accountCreate_case"
| "body_case (BodyAccountUpdate b) = accountUpdate_case"
| "body_case (BodyAccountDelete b) = accountDelete_case"
| "body_case (BodyLiveHashAdd b) = liveHashAdd_case"
| "body_case (BodyLiveHashDelete b) = liveHashDelete_case"
| "body_case (BodyContractCreate b) = contractCreate_case"
| "body_case (BodyContractUpdate b) = contractUpdate_case"
| "body_case (BodyContractDelete b) = contractDelete_case"
| "body_case (BodyContractExecute b) = contractExecute_case"
| "body_case (BodyEthereum b) = ethereum_case"
| "body_case (BodyTokenCreate b) = tokenCreate_case"
| "body_case (BodyTokenUpdate b) = tokenUpdate_case"
| "body_case (BodyTokenFeeSchedule b) = tokenFeeSchedule_case"
| "body_case (BodyTokenClaimAirdrop b) = tokenClaimAirdrop_case"
| "body_case (BodyTokenCancelAirdrop b) = tokenCancelAirdrop_case"
| "body_case (BodyFileCreate b) = fileCreate_case"
| "body_case (BodyFileUpdate b) = fileUpdate_case"
| "body_case (BodyFileDelete b) = fileDelete_case"
| "body_case (BodyTopicCreate b) = topicCreate_case"
| "body_case (BodyTopicUpdate b) = topicUpdate_case"
| "body_case (BodyTopicDelete b) = topicDelete_case"
| "body_case (BodyScheduleSign b) = scheduleSign_case"
| "body_case (BodyScheduleDelete b) = scheduleDelete_case"
| "body_case (BodySystemDelete b) = systemDelete_case"
| "body_case (BodySystemUndelete b) = systemUndelete_case"
| "body_case (BodyFreeze b) = freeze_case"
| "body_case (BodyPrng b) = prng_case"
| "body_case (BodyNodeCreate b) = nodeCreate_case"
| "body_case (BodyNodeUpdate b) = nodeUpdate_case"
| "body_case (BodyNodeDelete b) = nodeDelete_case"
| "body_case (BodyApprove b) = approve_case"
| "body_case (BodyDelete b) = delete_case"
| "body_case (BodyTokenReject b) = tokenReject_case"

primrec any_fee :: "any_fields \<Rightarrow> int" where
  "any_fee (OfTokenDelete d) = 200000000"
| "any_fee (OfTokenPause d) = 200000000"
| "any_fee (OfTokenUnpause d) = 200000000"
| "any_fee (OfTokenFreeze d) = 200000000"
| "any_fee (OfTokenUnfreeze d) = 200000000"
| "any_fee (OfTokenGrantKyc d) = 200000000"
| "any_fee (OfTokenRevokeKyc d) = 200000000"
| "any_fee (OfTokenAssociate d) = 500000000"
| "any_fee (OfTokenDissociate d) = 500000000"
| "any_fee (OfTokenBurn d) = 200000000"
| "any_fee (OfTokenMint d) = 200000000"
| "any_fee (OfTokenWipe d) = 200000000"
| "any_fee (OfTokenUpdateNfts d) = 200000000"
| "any_fee (OfAccountCreate d) = 200000000"
| "any_fee (OfAccountUpdate d) = 200000000"
| "any_fee (OfAccountDelete d) = 200000000"
| "any_fee (OfLiveHashAdd d) = 200000000"
| "any_fee (OfLiveHashDelete d) = 200000000"
| "any_fee (OfContractCreate d) = 2000000000"
| "any_fee (OfContractUpdate d) = 200000000"
| "any_fee (OfContractDelete d) = 200000000"
| "any_fee (OfContractExecute d) = 200000000"
| "any_fee (OfEthereum d) = 200000000"
| "any_fee (OfTokenCreate d) = 3000000000"
| "any_fee (OfTokenUpdate d) = 200000000"
| "any_fee (OfTokenFeeSchedule d) = 200000000"
| "any_fee (OfTokenClaimAirdrop d) = 200000000"
| "any_fee (OfTokenCancelAirdrop d) = 200000000"
| "any_fee (OfFileCreate d) = 500000000"
| "any_fee (OfFileUpdate d) = 200000000"
| "any_fee (OfFileDelete d) = 200000000"
| "any_fee (OfTopicCreate d) = 200000000"
| "any_fee (OfTopicUpdate d) = 200000000"
| "any_fee (OfTopicDelete d) = 200000000"
| "any_fee (OfScheduleSign d) = 500000000"
| "any_fee (OfScheduleDelete d) = 500000000"
| "any_fee (OfSystemDelete d) = 200000000"
| "any_fee (OfSystemUndelete d) = 200000000"
| "any_fee (OfFreeze d) = 200000000"
| "any_fee (OfPrng d) = 200000000"
| "any_fee (OfNodeCreate d) = 200000000"
| "any_fee (OfNodeUpdate d) = 200000000"
| "any_fee (OfNodeDelete d) = 200000000"
| "any_fee (OfApprove d) = 200000000"
| "any_fee (OfDelete d) = 200000000"
| "any_fee (OfTokenReject d) = 200000000"

primrec any_good :: "any_fields \<Rightarrow> bool" where
  "any_good (OfTokenDelete d) = tokenDelete_good d"
| "any_good (OfTokenPause d) = tokenPause_good d"
| "any_good (OfTokenUnpause d) = tokenUnpause_good d"
| "any_good (OfTokenFreeze d) = tokenFreeze_good d"
| "any_good (OfTokenUnfreeze d) = tokenUnfreeze_good d"
| "any_good (OfTokenGrantKyc d) = tokenGrantKyc_good d"
| "any_good (OfTokenRevokeKyc d) = tokenRevokeKyc_good d"
| "any_good (OfTokenAssociate d) = tokenAssociate_good d"
| "any_good (OfTokenDissociate d) = tokenDissociate_good d"
| "any_good (OfTokenBurn d) = tokenBurn_good d"
| "any_good (OfTokenMint d) = tokenMint_good d"
| "any_good (OfTokenWipe d) = tokenWipe_good d"
| "any_good (OfTokenUpdateNfts d) = tokenUpdateNfts_good d"
| "any_good (OfAccountCreate d) = accountCreate_good d"
| "any_good (OfAccountUpdate d) = accountUpdate_good d"
| "any_good (OfAccountDelete d) = accountDelete_good d"
| "any_good (OfLiveHashAdd d) = liveHashAdd_good d"
| "any_good (OfLiveHashDelete d) = liveHashDelete_good d"
| "any_good (OfContractCreate d) = contractCreate_good d"
| "any_good (OfContractUpdate d) = contractUpdate_good d"
| "any_good (OfContractDelete d) = contractDelete_good d"
| "any_good (OfContractExecute d) = contractExecute_good d"
| "any_good (OfEthereum d) = ethereum_good d"
| "any_good (OfTokenCreate d) = tokenCreate_good d"
| "any_good (OfTokenUpdate d) = tokenUpdate_good d"
| "any_good (OfTokenFeeSchedule d) = tokenFeeSchedule_good d"
| "any_good (OfTokenClaimAirdrop d) = tokenClaimAirdrop_good d"
| "any_good (OfTokenCancelAirdrop d) = tokenCancelAirdrop_good d"
| "any_good (OfFileCreate d) = fileCreate_good d"
| "any_good (OfFileUpdate d) = fileUpdate_good d"
| "any_good (OfFileDelete d) = fileDelete_good d"
| "any_good (OfTopicCreate d) = topicCreate_good d"
| "any_good (OfTopicUpdate d) = topicUpdate_good d"
| "any_good (OfTopicDelete d) = topicDelete_good d"
| "any_good (OfScheduleSign d) = scheduleSign_good d"
| "any_good (OfScheduleDelete d) = scheduleDelete_good d"
| "any_good (OfSystemDelete d) = systemDelete_good d"
| "any_good (OfSystemUndelete d) = systemUndelete_good d"
| "any_good (OfFreeze d) = freeze_good d"
| "any_good (OfPrng d) = prng_good d"
| "any_good (OfNodeCreate d) = nodeCreate_good d"
| "any_good (OfNodeUpdate d) = nodeUpdate_good d"
| "any_good (OfNodeDelete d) = nodeDelete_good d"
| "any_good (OfApprove d) = approve_good d"
| "any_good (OfDelete d) = delete_good d"
| "any_good (OfTokenReject d) = tokenReject_good d"

definition as_body :: "('b \<Rightarrow> any_body) \<Rightarrow> 'b result \<Rightarrow> any_body result" where
  "as_body f r = res_bind r (\<lambda>b. Inr (f b))"

definition as_fields :: "('d \<Rightarrow> any_fields) \<Rightarrow> 'd base result \<Rightarrow> any_fields base result" where
  "as_fields f r = res_bind r (\<lambda>t. Inr (with_data (f (tx_data t)) t))"

primrec any_make :: "'asn transfer_lib \<Rightarrow> any_fields \<Rightarrow> any_body result" where
  "any_make E (OfTokenDelete d) = as_body BodyTokenDelete (tokenDelete_data E d)"
| "any_make E (OfTokenPause d) = as_body BodyTokenPause (tokenPause_data E d)"
| "any_make E (OfTokenUnpause d) = as_body BodyTokenUnpause (tokenUnpause_data E d)"
| "any_make E (OfTokenFreeze d) = as_body BodyTokenFreeze (tokenFreeze_data E d)"
| "any_make E (OfTokenUnfreeze d) = as_body BodyTokenUnfreeze (tokenUnfreeze_data E d)"
| "any_make E (OfTokenGrantKyc d) = as_body BodyTokenGrantKyc (tokenGrantKyc_data E d)"
| "any_make E (OfTokenRevokeKyc d) = as_body BodyTokenRevokeKyc (tokenRevokeKyc_data E d)"
| "any_make E (OfTokenAssociate d) = as_body BodyTokenAssociate (tokenAssociate_data E d)"
| "any_make E (OfTokenDissociate d) = as_body BodyTokenDissociate (tokenDissociate_data E d)"
| "any_make E (OfTokenBurn d) = as_body BodyTokenBurn (tokenBurn_data E d)"
| "any_make E (OfTokenMint d) = as_body BodyTokenMint (tokenMint_data E d)"
| "any_make E (OfTokenWipe d) = as_body BodyTokenWipe (tokenWipe_data E d)"
| "any_make E (OfTokenUpdateNfts d) = as_body BodyTokenUpdateNfts (tokenUpdateNfts_data E d)"
| "any_make E (OfAccountCreate d) = as_body BodyAccountCreate (accountCreate_data E d)"
| "any_make E (OfAccountUpdate d) = as_body BodyAccountUpdate (accountUpdate_data E d)"
| "any_make E (OfAccountDelete d) = as_body BodyAccountDelete (accountDelete_data E d)"
| "any_make E (OfLiveHashAdd d) = as_body BodyLiveHashAdd (liveHashAdd_data E d)"
| "any_make E (OfLiveHashDelete d) = as_body BodyLiveHashDelete (liveHashDelete_data E d)"
| "any_make E (OfContractCreate d) = as_body BodyContractCreate (contractCreate_data E d)"
| "any_make E (OfContractUpdate d) = as_body BodyContractUpdate (contractUpdate_data E d)"
| "any_make E (OfContractDelete d) = as_body BodyContractDelete (contractDelete_data E d)"
| "any_make E (OfContractExecute d) = as_body BodyContractExecute (contractExecute_data E d)"
| "any_make E (OfEthereum d) = as_body BodyEthereum (ethereum_data E d)"
| "any_make E (OfTokenCreate d) = as_body BodyTokenCreate (tokenCreate_data E d)"
| "any_make E (OfTokenUpdate d) = as_body BodyTokenUpdate (tokenUpdate_data E d)"
| "any_make E (OfTokenFeeSchedule d) = as_body BodyTokenFeeSchedule (tokenFeeSchedule_data E d)"
| "any_make E (OfTokenClaimAirdrop d) = as_body BodyTokenClaimAirdrop (tokenClaimAirdrop_data E d)"
| "any_make E (OfTokenCancelAirdrop d) = as_body BodyTokenCancelAirdrop (tokenCancelAirdrop_data E d)"
| "any_make E (OfFileCreate d) = as_body BodyFileCreate (fileCreate_data E d)"
| "any_make E (OfFileUpdate d) = as_body BodyFileUpdate (fileUpdate_data E d)"
| "any_make E (OfFileDelete d) = as_body BodyFileDelete (fileDelete_data E d)"
| "any_make E (OfTopicCreate d) = as_body BodyTopicCreate (topicCreate_data E d)"
| "any_make E (OfTopicUpdate d) = as_body BodyTopicUpdate (topicUpdate_data E d)"
| "any_make E (OfTopicDelete d) = as_body BodyTopicDelete (topicDelete_data E d)"
| "any_make E (OfScheduleSign d) = as_body BodyScheduleSign (scheduleSign_data E d)"
| "any_make E (OfScheduleDelete d) = as_body BodyScheduleDelete (scheduleDelete_data E d)"
| "any_make E (OfSystemDelete d) = as_body BodySystemDelete (systemDelete_data E d)"
| "any_make E (OfSystemUndelete d) = as_body BodySystemUndelete (systemUndelete_data E d)"
| "any_make E (OfFreeze d) = as_body BodyFreeze (freeze_data E d)"
| "any_make E (OfPrng d) = as_body BodyPrng (prng_data E d)"
| "any_make E (OfNodeCreate d) = as_body BodyNodeCreate (nodeCreate_data E d)"
| "any_make E (OfNodeUpdate d) = as_body BodyNodeUpdate (nodeUpdate_data E d)"
| "any_make E (OfNodeDelete d) = as_body BodyNodeDelete (nodeDelete_data E d)"
| "any_make E (OfApprove d) = as_body BodyApprove (approve_data E d)"
| "any_make E (OfDelete d) = as_body BodyDelete (delete_data E d)"
| "any_make E (OfTokenReject d) = as_body BodyTokenReject (tokenReject_data E d)"

text \<open>\<open>parse\<close> reads the text of a date and \<open>now\<close> is the clock, which some constructors look at.\<close>

primrec any_read :: "'asn transfer_lib \<Rightarrow> (string \<Rightarrow> int option) \<Rightarrow> int \<Rightarrow> any_body \<Rightarrow> any_fields base result" where
  "any_read E parse now (BodyTokenDelete b) = as_fields OfTokenDelete (tokenDelete_fromProtobuf E b)"
| "any_read E parse now (BodyTokenPause b) = as_fields OfTokenPause (tokenPause_fromProtobuf E b)"
| "any_read E parse now (BodyTokenUnpause b) = as_fields OfTokenUnpause (tokenUnpause_fromProtobuf E b)"
| "any_read E parse now (BodyTokenFreeze b) = as_fields OfTokenFreeze (tokenFreeze_fromProtobuf E b)"
| "any_read E parse now (BodyTokenUnfreeze b) = as_fields OfTokenUnfreeze (tokenUnfreeze_fromProtobuf E b)"
| "any_read E parse now (BodyTokenGrantKyc b) = as_fields OfTokenGrantKyc (tokenGrantKyc_fromProtobuf E b)"
| "any_read E parse now (BodyTokenRevokeKyc b) = as_fields OfTokenRevokeKyc (tokenRevokeKyc_fromProtobuf E b)"
| "any_read E parse now (BodyTokenAssociate b) = as_fields OfTokenAssociate (tokenAssociate_fromProtobuf E b)"
| "any_read E parse now (BodyTokenDissociate b) = as_fields OfTokenDissociate (tokenDissociate_fromProtobuf E b)"
| "any_read E parse now (BodyTokenBurn b) = as_fields OfTokenBurn (tokenBurn_fromProtobuf E b)"
| "any_read E parse now (BodyTokenMint b) = as_fields OfTokenMint (tokenMint_fromProtobuf E b)"
| "any_read E parse now (BodyTokenWipe b) = as_fields OfTokenWipe (tokenWipe_fromProtobuf E b)"
| "any_read E parse now (BodyTokenUpdateNfts b) = as_fields OfTokenUpdateNfts (tokenUpdateNfts_fromProtobuf E b)"
| "any_read E parse now (BodyAccountCreate b) = as_fields OfAccountCreate (accountCreate_fromProtobuf E b)"
| "any_read E parse now (BodyAccountUpdate b) = as_fields OfAccountUpdate (accountUpdate_fromProtobuf E b)"
| "any_read E parse now (BodyAccountDelete b) = as_fields OfAccountDelete (accountDelete_fromProtobuf E b)"
| "any_read E parse now (BodyLiveHashAdd b) = as_fields OfLiveHashAdd (liveHashAdd_fromProtobuf E b)"
| "any_read E parse now (BodyLiveHashDelete b) = as_fields OfLiveHashDelete (liveHashDelete_fromProtobuf E b)"
| "any_read E parse now (BodyContractCreate b) = as_fields OfContractCreate (contractCreate_fromProtobuf E b)"
| "any_read E parse now (BodyContractUpdate b) = as_fields OfContractUpdate (contractUpdate_fromProtobuf E parse b)"
| "any_read E parse now (BodyContractDelete b) = as_fields OfContractDelete (contractDelete_fromProtobuf E b)"
| "any_read E parse now (BodyContractExecute b) = as_fields OfContractExecute (contractExecute_fromProtobuf E b)"
| "any_read E parse now (BodyEthereum b) = as_fields OfEthereum (ethereum_fromProtobuf E b)"
| "any_read E parse now (BodyTokenCreate b) = as_fields OfTokenCreate (tokenCreate_fromProtobuf E parse now b)"
| "any_read E parse now (BodyTokenUpdate b) = as_fields OfTokenUpdate (tokenUpdate_fromProtobuf E parse b)"
| "any_read E parse now (BodyTokenFeeSchedule b) = as_fields OfTokenFeeSchedule (tokenFeeSchedule_fromProtobuf E b)"
| "any_read E parse now (BodyTokenClaimAirdrop b) = as_fields OfTokenClaimAirdrop (tokenClaimAirdrop_fromProtobuf E b)"
| "any_read E parse now (BodyTokenCancelAirdrop b) = as_fields OfTokenCancelAirdrop (tokenCancelAirdrop_fromProtobuf E b)"
| "any_read E parse now (BodyFileCreate b) = as_fields OfFileCreate (fileCreate_fromProtobuf E parse now b)"
| "any_read E parse now (BodyFileUpdate b) = as_fields OfFileUpdate (fileUpdate_fromProtobuf E parse b)"
| "any_read E parse now (BodyFileDelete b) = as_fields OfFileDelete (fileDelete_fromProtobuf E b)"
| "any_read E parse now (BodyTopicCreate b) = as_fields OfTopicCreate (topicCreate_fromProtobuf E b)"
| "any_read E parse now (BodyTopicUpdate b) = as_fields OfTopicUpdate (topicUpdate_fromProtobuf E b)"
| "any_read E parse now (BodyTopicDelete b) = as_fields OfTopicDelete (topicDelete_fromProtobuf E b)"
| "any_read E parse now (BodyScheduleSign b) = as_fields OfScheduleSign (scheduleSign_fromProtobuf E b)"
| "any_read E parse now (BodyScheduleDelete b) = as_fields OfScheduleDelete (scheduleDelete_fromProtobuf E b)"
| "any_read E parse now (BodySystemDelete b) = as_fields OfSystemDelete (systemDelete_fromProtobuf E b)"
| "any_read E parse now (BodySystemUndelete b) = as_fields OfSystemUndelete (systemUndelete_fromProtobuf E b)"
| "any_read E parse now (BodyFreeze b) = as_fields OfFreeze (freeze_fromProtobuf E b)"
| "any_read E parse now (BodyPrng b) = as_fields OfPrng (prng_fromProtobuf E b)"
| "any_read E parse now (BodyNodeCreate b) = as_fields OfNodeCreate (nodeCreate_fromProtobuf E b)"
| "any_read E parse now (BodyNodeUpdate b) = as_fields OfNodeUpdate (nodeUpdate_fromProtobuf E b)"
| "any_read E parse now (BodyNodeDelete b) = as_fields OfNodeDelete (nodeDelete_fromProtobuf E b)"
| "any_read E parse now (BodyApprove b) = as_fields OfApprove (approve_fromProtobuf E b)"
| "any_read E parse now (BodyDelete b) = as_fields OfDelete (delete_fromProtobuf E b)"
| "any_read E parse now (BodyTokenReject b) = as_fields OfTokenReject (tokenReject_fromProtobuf E b)"

definition registered :: "string list" where
  "registered = [tokenDelete_case, tokenPause_case,
    tokenUnpause_case, tokenFreeze_case, tokenUnfreeze_case, tokenGrantKyc_case,
    tokenRevokeKyc_case, tokenAssociate_case, tokenDissociate_case, tokenBurn_case, tokenMint_case,
    tokenWipe_case, tokenUpdateNfts_case, accountCreate_case, accountUpdate_case,
    accountDelete_case, liveHashAdd_case, liveHashDelete_case, contractCreate_case,
    contractUpdate_case, contractDelete_case, contractExecute_case, ethereum_case, tokenCreate_case,
    tokenUpdate_case, tokenFeeSchedule_case, tokenClaimAirdrop_case, tokenCancelAirdrop_case,
    fileCreate_case, fileUpdate_case, fileDelete_case, topicCreate_case, topicUpdate_case,
    topicDelete_case, scheduleSign_case, scheduleDelete_case, systemDelete_case,
    systemUndelete_case, freeze_case, prng_case, nodeCreate_case, nodeUpdate_case, nodeDelete_case,
    approve_case, delete_case, tokenReject_case]"

section \<open>Reading back\<close>

lemmas case_names = tokenDelete_case_def tokenPause_case_def tokenUnpause_case_def
    tokenFreeze_case_def tokenUnfreeze_case_def tokenGrantKyc_case_def tokenRevokeKyc_case_def
    tokenAssociate_case_def tokenDissociate_case_def tokenBurn_case_def tokenMint_case_def
    tokenWipe_case_def tokenUpdateNfts_case_def accountCreate_case_def accountUpdate_case_def
    accountDelete_case_def liveHashAdd_case_def liveHashDelete_case_def contractCreate_case_def
    contractUpdate_case_def contractDelete_case_def contractExecute_case_def ethereum_case_def
    tokenCreate_case_def tokenUpdate_case_def tokenFeeSchedule_case_def tokenClaimAirdrop_case_def
    tokenCancelAirdrop_case_def fileCreate_case_def fileUpdate_case_def fileDelete_case_def
    topicCreate_case_def topicUpdate_case_def topicDelete_case_def scheduleSign_case_def
    scheduleDelete_case_def systemDelete_case_def systemUndelete_case_def freeze_case_def
    prng_case_def nodeCreate_case_def nodeUpdate_case_def nodeDelete_case_def approve_case_def
    delete_case_def tokenReject_case_def

text \<open>No two kinds are registered under the same name.\<close>

lemma registered_distinct: "distinct registered"
  by (simp add: registered_def case_names)

lemma as_back:
  assumes "\<exists>m. r = Inr m \<and> rd m = Inr (start n d)"
  shows "\<exists>m. as_body B r = Inr (B m) \<and> as_fields F (rd m) = Inr (start n (F d))"
  using assms by (auto simp: as_body_def as_fields_def with_data_def start_def new_tx_def)

lemmas all_read_make = tokenDelete_read_make tokenPause_read_make tokenUnpause_read_make
    tokenFreeze_read_make tokenUnfreeze_read_make tokenGrantKyc_read_make tokenRevokeKyc_read_make
    tokenAssociate_read_make tokenDissociate_read_make tokenBurn_read_make tokenMint_read_make
    tokenWipe_read_make tokenUpdateNfts_read_make accountCreate_read_make accountUpdate_read_make
    accountDelete_read_make liveHashAdd_read_make liveHashDelete_read_make contractCreate_read_make
    contractUpdate_read_make contractDelete_read_make contractExecute_read_make ethereum_read_make
    tokenCreate_read_make tokenUpdate_read_make tokenFeeSchedule_read_make
    tokenClaimAirdrop_read_make tokenCancelAirdrop_read_make fileCreate_read_make
    fileUpdate_read_make fileDelete_read_make topicCreate_read_make topicUpdate_read_make
    topicDelete_read_make scheduleSign_read_make scheduleDelete_read_make systemDelete_read_make
    systemUndelete_read_make freeze_read_make prng_read_make nodeCreate_read_make
    nodeUpdate_read_make nodeDelete_read_make approve_rw.read_make delete_rw.read_make
    tokenReject_read_make

lemma any_read_make:
  assumes "transfer_lib_ok E" and "any_good d"
  shows "\<exists>m. any_make E d = Inr m \<and> any_read E parse now m = Inr (start (any_fee d) d) \<and> body_case m = fields_case d"
proof (cases d)
  case (OfTokenDelete x)
  then show ?thesis using as_back[OF tokenDelete_read_make[OF assms(1), of x], of BodyTokenDelete OfTokenDelete] assms(2) by auto
next
  case (OfTokenPause x)
  then show ?thesis using as_back[OF tokenPause_read_make[OF assms(1), of x], of BodyTokenPause OfTokenPause] assms(2) by auto
next
  case (OfTokenUnpause x)
  then show ?thesis using as_back[OF tokenUnpause_read_make[OF assms(1), of x], of BodyTokenUnpause OfTokenUnpause] assms(2) by auto
next
  case (OfTokenFreeze x)
  then show ?thesis using as_back[OF tokenFreeze_read_make[OF assms(1), of x], of BodyTokenFreeze OfTokenFreeze] assms(2) by auto
next
  case (OfTokenUnfreeze x)
  then show ?thesis using as_back[OF tokenUnfreeze_read_make[OF assms(1), of x], of BodyTokenUnfreeze OfTokenUnfreeze] assms(2) by auto
next
  case (OfTokenGrantKyc x)
  then show ?thesis using as_back[OF tokenGrantKyc_read_make[OF assms(1), of x], of BodyTokenGrantKyc OfTokenGrantKyc] assms(2) by auto
next
  case (OfTokenRevokeKyc x)
  then show ?thesis using as_back[OF tokenRevokeKyc_read_make[OF assms(1), of x], of BodyTokenRevokeKyc OfTokenRevokeKyc] assms(2) by auto
next
  case (OfTokenAssociate x)
  then show ?thesis using as_back[OF tokenAssociate_read_make[OF assms(1), of x], of BodyTokenAssociate OfTokenAssociate] assms(2) by auto
next
  case (OfTokenDissociate x)
  then show ?thesis using as_back[OF tokenDissociate_read_make[OF assms(1), of x], of BodyTokenDissociate OfTokenDissociate] assms(2) by auto
next
  case (OfTokenBurn x)
  then show ?thesis using as_back[OF tokenBurn_read_make[OF assms(1), of x], of BodyTokenBurn OfTokenBurn] assms(2) by auto
next
  case (OfTokenMint x)
  then show ?thesis using as_back[OF tokenMint_read_make[OF assms(1), of x], of BodyTokenMint OfTokenMint] assms(2) by auto
next
  case (OfTokenWipe x)
  then show ?thesis using as_back[OF tokenWipe_read_make[OF assms(1), of x], of BodyTokenWipe OfTokenWipe] assms(2) by auto
next
  case (OfTokenUpdateNfts x)
  then show ?thesis using as_back[OF tokenUpdateNfts_read_make[OF assms(1), of x], of BodyTokenUpdateNfts OfTokenUpdateNfts] assms(2) by auto
next
  case (OfAccountCreate x)
  then show ?thesis using as_back[OF accountCreate_read_make[OF assms(1), of x], of BodyAccountCreate OfAccountCreate] assms(2) by auto
next
  case (OfAccountUpdate x)
  then show ?thesis using as_back[OF accountUpdate_read_make[OF assms(1), of x], of BodyAccountUpdate OfAccountUpdate] assms(2) by auto
next
  case (OfAccountDelete x)
  then show ?thesis using as_back[OF accountDelete_read_make[OF assms(1), of x], of BodyAccountDelete OfAccountDelete] assms(2) by auto
next
  case (OfLiveHashAdd x)
  then show ?thesis using as_back[OF liveHashAdd_read_make[OF assms(1), of x], of BodyLiveHashAdd OfLiveHashAdd] assms(2) by auto
next
  case (OfLiveHashDelete x)
  then show ?thesis using as_back[OF liveHashDelete_read_make[OF assms(1), of x], of BodyLiveHashDelete OfLiveHashDelete] assms(2) by auto
next
  case (OfContractCreate x)
  then show ?thesis using as_back[OF contractCreate_read_make[OF assms(1), of x], of BodyContractCreate OfContractCreate] assms(2) by auto
next
  case (OfContractUpdate x)
  then show ?thesis using as_back[OF contractUpdate_read_make[OF assms(1), of x parse], of BodyContractUpdate OfContractUpdate] assms(2) by auto
next
  case (OfContractDelete x)
  then show ?thesis using as_back[OF contractDelete_read_make[OF assms(1), of x], of BodyContractDelete OfContractDelete] assms(2) by auto
next
  case (OfContractExecute x)
  then show ?thesis using as_back[OF contractExecute_read_make[OF assms(1), of x], of BodyContractExecute OfContractExecute] assms(2) by auto
next
  case (OfEthereum x)
  then show ?thesis using as_back[OF ethereum_read_make[OF assms(1), of x], of BodyEthereum OfEthereum] assms(2) by auto
next
  case (OfTokenCreate x)
  then show ?thesis using as_back[OF tokenCreate_read_make[OF assms(1), of x parse now], of BodyTokenCreate OfTokenCreate] assms(2) by auto
next
  case (OfTokenUpdate x)
  then show ?thesis using as_back[OF tokenUpdate_read_make[OF assms(1), of x parse], of BodyTokenUpdate OfTokenUpdate] assms(2) by auto
next
  case (OfTokenFeeSchedule x)
  then show ?thesis using as_back[OF tokenFeeSchedule_read_make[OF assms(1), of x], of BodyTokenFeeSchedule OfTokenFeeSchedule] assms(2) by auto
next
  case (OfTokenClaimAirdrop x)
  then show ?thesis using as_back[OF tokenClaimAirdrop_read_make[OF assms(1), of x], of BodyTokenClaimAirdrop OfTokenClaimAirdrop] assms(2) by auto
next
  case (OfTokenCancelAirdrop x)
  then show ?thesis using as_back[OF tokenCancelAirdrop_read_make[OF assms(1), of x], of BodyTokenCancelAirdrop OfTokenCancelAirdrop] assms(2) by auto
next
  case (OfFileCreate x)
  then show ?thesis using as_back[OF fileCreate_read_make[OF assms(1), of x parse now], of BodyFileCreate OfFileCreate] assms(2) by auto
next
  case (OfFileUpdate x)
  then show ?thesis using as_back[OF fileUpdate_read_make[OF assms(1), of x parse], of BodyFileUpdate OfFileUpdate] assms(2) by auto
next
  case (OfFileDelete x)
  then show ?thesis using as_back[OF fileDelete_read_make[OF assms(1), of x], of BodyFileDelete OfFileDelete] assms(2) by auto
next
  case (OfTopicCreate x)
  then show ?thesis using as_back[OF topicCreate_read_make[OF assms(1), of x], of BodyTopicCreate OfTopicCreate] assms(2) by auto
next
  case (OfTopicUpdate x)
  then show ?thesis using as_back[OF topicUpdate_read_make[OF assms(1), of x], of BodyTopicUpdate OfTopicUpdate] assms(2) by auto
next
  case (OfTopicDelete x)
  then show ?thesis using as_back[OF topicDelete_read_make[OF assms(1), of x], of BodyTopicDelete OfTopicDelete] assms(2) by auto
next
  case (OfScheduleSign x)
  then show ?thesis using as_back[OF scheduleSign_read_make[OF assms(1), of x], of BodyScheduleSign OfScheduleSign] assms(2) by auto
next
  case (OfScheduleDelete x)
  then show ?thesis using as_back[OF scheduleDelete_read_make[OF assms(1), of x], of BodyScheduleDelete OfScheduleDelete] assms(2) by auto
next
  case (OfSystemDelete x)
  then show ?thesis using as_back[OF systemDelete_read_make[OF assms(1), of x], of BodySystemDelete OfSystemDelete] assms(2) by auto
next
  case (OfSystemUndelete x)
  then show ?thesis using as_back[OF systemUndelete_read_make[OF assms(1), of x], of BodySystemUndelete OfSystemUndelete] assms(2) by auto
next
  case (OfFreeze x)
  then show ?thesis using as_back[OF freeze_read_make[OF assms(1), of x], of BodyFreeze OfFreeze] assms(2) by auto
next
  case (OfPrng x)
  then show ?thesis using as_back[OF prng_read_make[OF assms(1), of x], of BodyPrng OfPrng] assms(2) by auto
next
  case (OfNodeCreate x)
  then show ?thesis using as_back[OF nodeCreate_read_make[OF assms(1), of x], of BodyNodeCreate OfNodeCreate] assms(2) by auto
next
  case (OfNodeUpdate x)
  then show ?thesis using as_back[OF nodeUpdate_read_make[OF assms(1), of x], of BodyNodeUpdate OfNodeUpdate] assms(2) by auto
next
  case (OfNodeDelete x)
  then show ?thesis using as_back[OF nodeDelete_read_make[OF assms(1), of x], of BodyNodeDelete OfNodeDelete] assms(2) by auto
next
  case (OfApprove x)
  then show ?thesis using as_back[OF approve_rw.read_make[OF assms(1), of x], of BodyApprove OfApprove] assms(2) by auto
next
  case (OfDelete x)
  then show ?thesis using as_back[OF delete_rw.read_make[OF assms(1), of x], of BodyDelete OfDelete] assms(2) by auto
next
  case (OfTokenReject x)
  then show ?thesis using as_back[OF tokenReject_read_make[OF assms(1), of x], of BodyTokenReject OfTokenReject] assms(2) by auto
qed

interpretation any_rw: body_class any_make "\<lambda>E. any_read E parse now" any_good any_fee for parse now
  using any_read_make by unfold_locales blast


definition sample_wipe :: any_fields where
  "sample_wipe = OfTokenWipe \<lparr>tokenWipe_tokenId = Some \<lparr>sid = \<lparr>shard = 0, realm = 0, num = 7\<rparr>, sid_checksum = None\<rparr>,
     tokenWipe_accountId = Some account_zero_id, tokenWipe_amount = Some 3, tokenWipe_serials = [4, 5]\<rparr>"

lemma sample_wipe_good: "any_good sample_wipe"
  by (simp add: sample_wipe_def tokenWipe_good_def account_zero_id_def account_ok_def plain_id_def valid_id_def
      nonneg_def)


end
