(* ===== verification/Spec2Isabelle.thy ===== *)
theory Spec2Isabelle
  imports JsList TxLife RequestTypes NetworkLaws Grpc TxRoundTrip ChunkSample AbiSample ReceiptSample PhraseSample KeySample
    AllBodies
begin

text \<open>
  A verification development for the Hedera JavaScript SDK (\<open>@hashgraph/sdk\<close>, sources under
  \<open>src/src\<close>, and its key package under \<open>src/packages/cryptography\<close>).

  \<^bold>\<open>The program.\<close> A \<open>Client\<close> keeps a \<open>Network\<close> of nodes. A request, which is a \<open>Transaction\<close> or a
  \<open>Query\<close>, is an \<open>Executable\<close>: \<open>execute\<close> sends it to one node after the other until a node answers
  with a final status, the attempts run out or the time is over. What is sent is built per node: a
  transaction has one body for every combination of a transaction identifier and a node, signed by
  every key that was asked to sign; a query that costs something carries a signed payment. Files and
  messages that are too long for one transaction are sent in chunks, one identifier each. Each concrete
  transaction adds its fields to the base, with setters that refuse a frozen transaction, and writes them to
  the message of its case, from which a registry of readers constructs it again. The rest of the sources are
  values: identifiers of entities, amounts, timestamps, public and private keys and the phrases they come
  from, transfers, the arguments and results of contract calls, receipts.

  \<^bold>\<open>Theories and sources.\<close> Each theory opens with a text that names its files.

  \<^item> \<open>Prelude\<close>: errors as values, arrays of the language; \<open>Longs\<close>: 64-bit words and the \<open>long\<close> package;
    \<open>Hex\<close>, \<open>Utf8\<close>: encodings; \<open>JsList\<close>: \<open>transaction/List.js\<close>, the list with a lock and a cursor.
  \<^item> \<open>Nodes\<close>, \<open>Network\<close>, \<open>NetworkLaws\<close>: \<open>ManagedNodeAddress.js\<close>, \<open>ManagedNode.js\<close>, \<open>Node.js\<close>,
    \<open>client/ManagedNetwork.js\<close>, \<open>client/Network.js\<close>. Nodes are kept in an arena (\<open>ns_node\<close>) and the lists and the
    map of the network hold their numbers, since the code shares node objects between them.
  \<^item> \<open>Grpc\<close>, \<open>Execute\<close>, \<open>ExecuteLaws\<close>, \<open>ExecuteLive\<close>: \<open>grpc/GrpcStatus.js\<close>, \<open>grpc/GrpcServiceError.js\<close> and
    \<open>Executable.js\<close>. The abstract methods of the class are the fields of a record \<open>request_ops\<close>; the
    trace of an execution is part of its result. \<open>StatusCodes\<close>, \<open>RequestCodes\<close>, \<open>Codes\<close>, \<open>Status\<close>, \<open>RequestTypes\<close>: the
    tables of \<open>Status.js\<close> and \<open>RequestType.js\<close>, cut into pieces, and what both tables have in common as a locale.
  \<^item> \<open>Transaction\<close>, \<open>TxBuild\<close>, \<open>TxLaws\<close>, \<open>TxRoundTrip\<close>, \<open>SampleCodec\<close>: \<open>transaction/Transaction.js\<close>. \<open>Transaction\<close>
    holds state, freezing and signing, \<open>TxBuild\<close> building, serialising and what the executor calls. \<open>TxLife\<close> is the
    step relation of all these operations and the invariant of the states it reaches.
    \<open>Timestamps\<close>, \<open>TxIds\<close>: \<open>Timestamp.js\<close>, \<open>transaction/TransactionId.js\<close>.
  \<^item> \<open>Chunked\<close>, \<open>ChunkLaws\<close>, \<open>ChunkSample\<close>: \<open>file/FileAppendTransaction.js\<close> and
    \<open>topic/TopicMessageSubmitTransaction.js\<close>.
  \<^item> \<open>Query\<close>, \<open>QueryLaws\<close>, \<open>QuerySample\<close>: \<open>query/Query.js\<close>, \<open>query/CostQuery.js\<close>. \<open>Receipts\<close>, \<open>ReceiptLaws\<close>,
    \<open>ReceiptSample\<close>: \<open>transaction/TransactionReceipt.js\<close>, \<open>TransactionReceiptQuery.js\<close>,
    \<open>TransactionRecordQuery.js\<close>, \<open>TransactionResponse.js\<close>.
  \<^item> \<open>EntityId\<close>, \<open>AccountIds\<close>, \<open>IdClasses\<close>, \<open>ContractIds\<close>: \<open>EntityIdHelper.js\<close> and the classes of identifiers;
    \<open>Keys\<close>: the public keys of \<open>packages/cryptography\<close>; \<open>Hbars\<close>: \<open>Hbar.js\<close>, \<open>HbarUnit.js\<close>.
  \<^item> \<open>ObjectMaps\<close>, \<open>Transfers\<close>, \<open>TransferLaws\<close>, \<open>TransferBody\<close>, \<open>TransferMaps\<close>: \<open>ObjectMap.js\<close> and
    \<open>token/AbstractTokenTransferTransaction.js\<close> with \<open>account/TransferTransaction.js\<close>.
  \<^item> \<open>TxFields\<close>: what the concrete transactions share, with the locale \<open>body_class\<close> of writing and reading. \<open>TokenActions\<close>,
    \<open>TokenSetup\<close> (with \<open>TokenFees\<close>), \<open>AirdropActions\<close>: \<open>token\<close>; \<open>AccountActions\<close>, \<open>Allowances\<close>: \<open>account\<close>;
    \<open>ContractActions\<close>: \<open>contract\<close> and \<open>EthereumTransaction.js\<close>; \<open>ContentActions\<close>: \<open>file\<close>, \<open>topic\<close> and \<open>schedule\<close>;
    \<open>SystemActions\<close>: \<open>system\<close>, \<open>node\<close>, \<open>FreezeType.js\<close> and \<open>PrngTransaction.js\<close>. Per class \<open>k\<close>: the record \<open>k\<close>
    of its fields and \<open>k_body\<close> of its message, a function per setter, \<open>k_new\<close> for the constructor, \<open>k_data\<close> for
    \<open>_makeTransactionData\<close>, \<open>k_fromProtobuf\<close>, \<open>k_validateChecksums\<close>, \<open>k_case\<close>, \<open>k_execute\<close>. \<open>AllBodies\<close>: the registry over them.
  \<^item> \<open>KeyTree\<close>: \<open>Key.js\<close>, \<open>KeyList.js\<close>. \<open>PrivateKeys\<close>, \<open>PrivateKeyLaws\<close>, \<open>KeySigning\<close>, \<open>KeySample\<close>: the private keys of
    \<open>packages/cryptography\<close>, their derivation (\<open>slip10.js\<close>, \<open>bip32.js\<close>, \<open>derive.js\<close>) and signing with them.
  \<^item> \<open>Words\<close>, \<open>Bip39Words\<close>, \<open>LegacyWords\<close>, \<open>Mnemonic\<close>, \<open>PhraseBits\<close>, \<open>PhraseLaws\<close>, \<open>LegacyPhrase\<close>, \<open>PhraseSample\<close>: recovery
    phrases, \<open>Mnemonic.js\<close>, \<open>util/entropy.js\<close> and the two lists of words of \<open>packages/cryptography\<close>.
  \<^item> \<open>Keccak\<close>, \<open>KeccakLaws\<close>, \<open>KeccakSponge\<close>: \<open>cryptography/keccak.js\<close>; \<open>Selector\<close>, \<open>AbiParams\<close>, \<open>AbiLaws\<close>, \<open>AbiResult\<close>,
    \<open>AbiRead\<close>, \<open>AbiCalls\<close>, \<open>AbiSample\<close>: \<open>contract/ContractFunctionSelector.js\<close>, \<open>ContractFunctionParameters.js\<close>,
    \<open>ContractFunctionResult.js\<close>.

  \<^bold>\<open>How the code is rendered.\<close> A class is a record and a method a function that returns the updated
  record. \<open>throw\<close> is the left of \<open>js_error + 'a\<close>; \<open>undefined\<close> and \<open>null\<close> are \<open>None\<close>. A \<open>Long\<close> is a 64-bit word
  and a bitwise operation of the language works on 32-bit words. A promise is its value, and code after
  an \<open>await\<close> runs in the order of the source. What comes from outside is an argument: the clock, random
  numbers and the answers of the nodes come as lists or functions of the attempt. A loop that may not
  end is a \<open>partial_function (option)\<close> or counts its rounds, and a theorem that says it returns shows
  the result \<open>Some\<close>.

  \<^bold>\<open>Parameters and hypotheses.\<close> Packages outside the repository are records of functions, and a predicate
  states what is relied on: \<open>long_lib_ok\<close>, \<open>big_ok\<close> (texts of numbers read back), \<open>abi_ok\<close> (bytes of
  integers), \<open>der_ok\<close> (DER trees read back), \<open>proto_ok\<close>, \<open>pay_ok\<close>, \<open>id_codec_ok\<close>, \<open>nft_codec_ok\<close>,
  \<open>contract_codec_ok\<close>, \<open>key_codec_ok\<close>, \<open>receipt_codec_ok\<close> (protobuf messages read back), \<open>transfer_lib_ok\<close> (several
  of these together), \<open>curve_ok\<close> (key pairs and DER forms of the curves, and lengths), \<open>sha_ok\<close> (lengths of
  hashes), \<open>random_ok\<close> (the number of random bytes asked for). The sample theories
  build functions for which these predicates hold, and each property is applied to them. A signer is a
  function from bytes to a signature; no property rests on what it returns.

  \<^bold>\<open>What the lemmas show.\<close> Network: the invariant \<open>net_ok\<close> (no node twice, no shared address, the map agrees
  with the list) is kept by every operation; nodes back off between fixed bounds, are readmitted and
  chosen fairly. Executor: bounds on calls and pauses, the reason of every retry, the source of the
  result, rotation over the nodes, success as soon as a node answers. Transactions: what is sent to a node
  names that node and was signed by every signer; signatures go when bodies change; serialising and
  reading back give the same lists. Chunks: the contents arrive complete and in order. Queries:
  the payment is the amount agreed to, within the limit, to the node asked. Receipts: fetching
  repeats until the network has decided. Concrete transactions: good fields of every kind are read back from
  the message of their case; approvals grant what was asked for. Keys and phrases: standard derivation,
  well-formed keys, phrases that are exactly those of some random bytes, signatures of every body. Values: printing and reading back are inverse, checksums
  detect a single wrong digit and swapped neighbours. Contract calls: the bytes are those of the ABI
  specification and are read back by the getters; the hash is Keccak-256 of the standard.

  \<^bold>\<open>Bounds.\<close> The executor makes at most as many calls as its attempts; the rounds of the hash are the 24 of
  the code; strings and arrays are arbitrary. Where 32 or 64 bits overflow, hypotheses name the range.

  \<^bold>\<open>Not modelled.\<close> Network input and output (channels, subscriptions, mirror node requests over HTTP), the client
  and wallets, which pass calls on, the logger; the curves, ciphers and MACs, which are parameters, and key
  stores and PEM files, which rest on them; creating schedules, airdrops, the transaction that adjusts allowances
  and the flows that run several transactions; records and the information classes, which only copy their
  fields from protobuf. The manifest lists them.
\<close>

end
